(* ===== verification/Blood_Prelude.thy ===== *)
theory Blood_Prelude
  imports "HOL-Library.Word" "HOL-Library.Monad_Syntax" "HOL-Library.Char_ord"
begin

text \<open>
  The vocabulary every component of the kernel model shares.

  \<^item> The integer types of \<open>include/kernel/types.h\<close> as words of their width.
  \<^item> Byte-addressed memory with the little-endian 16 and 32 bit accesses of the targets.
  \<^item> The hardware: a run of the code is observed through the list of its bus accesses
    (port I/O, memory-mapped registers, control registers, special instructions). What a read
    returns is decided by a device, an arbitrary function of the accesses made so far; the
    device is a parameter of every operation that reads hardware.
  \<^item> The polling loops \<open>while (!(reg & bit));\<close>, which return only if the device lets
    them: their result is an option, and \<open>None\<close> means that the loop never ends.
  \<^item> The locale \<open>invariant_system\<close> for step relations.
\<close>

unbundle bit_operations_syntax

section \<open>Machine integers and memory\<close>

type_synonym u8 = "8 word"
type_synonym u16 = "16 word"
type_synonym u32 = "32 word"
type_synonym u64 = "64 word"
type_synonym memory = "u32 \<Rightarrow> u8"

text \<open>A C comparison or logical operator yields the int 0 or 1.\<close>

definition c_bool :: "bool \<Rightarrow> 'a::len word" where
  "c_bool b = (if b then 1 else 0)"

lemma c_bool_eq [simp]:
  "(c_bool b = (1 :: 'a::len word)) = b" "(c_bool b = (0 :: 'a::len word)) = (\<not> b)"
  by (simp_all add: c_bool_def)

text \<open>The bit masks of the sources, as truncations.\<close>

lemma and_masks:
  "x AND 0x3 = take_bit 2 x" "x AND 0x7 = take_bit 3 x" "x AND 0xF = take_bit 4 x"
  "x AND 0x7F = take_bit 7 x" "x AND 0xFF = take_bit 8 x" "x AND 0x3FF = take_bit 10 x"
  "x AND 0xFFF = take_bit 12 x" "x AND 0xFFFF = take_bit 16 x" "x AND 0x7FF = take_bit 11 x"
  for x :: "'a::len word"
  by (simp_all add: take_bit_eq_mask mask_eq_exp_minus_1)

lemma take_bit_small: "unat w < 2 ^ n \<Longrightarrow> take_bit n w = w" for w :: "'a::len word"
  by (simp add: word_unat_eq_iff unsigned_take_bit_eq take_bit_nat_eq_self)

lemma drop_bit_small: "unat w < 2 ^ n \<Longrightarrow> drop_bit n w = 0" for w :: "'a::len word"
  by (simp only: word_unat_eq_iff unat_drop_bit_eq) (simp add: drop_bit_eq_div)

text \<open>A string literal as the bytes the compiler stores, without the final NUL.\<close>

definition cstr :: "string \<Rightarrow> u8 list" where
  "cstr = map of_char"

text \<open>The line end \<open>\r\n\<close> of the kernel's messages.\<close>

definition crlf :: string where
  "crlf = [CHR 0x0D, CHR 0x0A]"

definition store16 :: "memory \<Rightarrow> u32 \<Rightarrow> u16 \<Rightarrow> memory" where
  "store16 m a v = m(a := ucast v, a + 1 := ucast (drop_bit 8 v))"

definition load16 :: "memory \<Rightarrow> u32 \<Rightarrow> u16" where
  "load16 m a = ucast (m a) OR push_bit 8 (ucast (m (a + 1)))"

definition store32 :: "memory \<Rightarrow> u32 \<Rightarrow> u32 \<Rightarrow> memory" where
  "store32 m a v = m(a := ucast v, a + 1 := ucast (drop_bit 8 v),
     a + 2 := ucast (drop_bit 16 v), a + 3 := ucast (drop_bit 24 v))"

definition load32 :: "memory \<Rightarrow> u32 \<Rightarrow> u32" where
  "load32 m a = ucast (m a) OR push_bit 8 (ucast (m (a + 1))) OR
     push_bit 16 (ucast (m (a + 2))) OR push_bit 24 (ucast (m (a + 3)))"

definition store64 :: "memory \<Rightarrow> u32 \<Rightarrow> u64 \<Rightarrow> memory" where
  "store64 m a v = store32 (store32 m a (ucast v)) (a + 4) (ucast (drop_bit 32 v))"

definition load64 :: "memory \<Rightarrow> u32 \<Rightarrow> u64" where
  "load64 m a = ucast (load32 m a) OR push_bit 32 (ucast (load32 m (a + 4)))"

lemma bytes_join32:
  "ucast (ucast v :: u8) OR push_bit 8 (ucast (ucast (drop_bit 8 v) :: u8)) OR
   push_bit 16 (ucast (ucast (drop_bit 16 v) :: u8)) OR
   push_bit 24 (ucast (ucast (drop_bit 24 v) :: u8)) = (v :: u32)"
proof (rule bit_word_eqI)
  fix n assume "n < LENGTH(32)"
  consider "n < 8" | "8 \<le> n" "n < 16" | "16 \<le> n" "n < 24" | "24 \<le> n" by linarith
  then show "bit (ucast (ucast v :: u8) OR push_bit 8 (ucast (ucast (drop_bit 8 v) :: u8)) OR
     push_bit 16 (ucast (ucast (drop_bit 16 v) :: u8)) OR
     push_bit 24 (ucast (ucast (drop_bit 24 v) :: u8)) :: u32) n = bit v n"
    using \<open>n < LENGTH(32)\<close> by cases (auto simp: bit_simps)
qed

lemma bytes_join16:
  "ucast (ucast v :: u8) OR push_bit 8 (ucast (ucast (drop_bit 8 v) :: u8)) = (v :: u16)"
  by (rule bit_word_eqI) (auto simp: bit_simps not_less le_add_diff_inverse)

lemma load32_store32 [simp]: "load32 (store32 m a v) a = v"
  by (simp add: load32_def store32_def bytes_join32)

lemma load16_store16 [simp]: "load16 (store16 m a v) a = v"
  by (simp add: load16_def store16_def bytes_join16)

text \<open>Two 4-byte cells that do not overlap, with wrapping addresses.\<close>

definition apart32 :: "u32 \<Rightarrow> u32 \<Rightarrow> bool" where
  "apart32 a b \<longleftrightarrow> 4 \<le> a - b \<and> 4 \<le> b - a"

lemma apart32_offset:
  assumes "apart32 a b" "i \<in> {0, 1, 2, 3}" "j \<in> {0, 1, 2, 3}"
  shows "a + i \<noteq> b + j"
proof
  assume "a + i = b + j"
  then have ab: "a - b = j - i" and ba: "b - a = i - j"
    by (simp_all add: algebra_simps)
  have "\<not> (4 \<le> j - i \<and> 4 \<le> i - j)"
    using assms(2,3) by (auto simp: word_le_nat_alt)
  with assms(1) show False by (simp only: apart32_def ab ba)
qed

lemma load32_store32_apart:
  assumes "apart32 a b"
  shows "load32 (store32 m b v) a = load32 m a"
proof -
  note ap = apart32_offset [OF assms]
  have "\<And>i. i \<in> {0, 1, 2, 3} \<Longrightarrow> store32 m b v (a + i) = m (a + i)"
    using ap [of _ 0] ap [of _ 1] ap [of _ 2] ap [of _ 3] by (simp add: store32_def)
  from this [of 0] this [of 1] this [of 2] this [of 3] show ?thesis
    by (simp add: load32_def)
qed

lemma load64_store64 [simp]: "load64 (store64 m a v) a = v"
proof -
  have "load32 (store64 m a v) a = ucast v"
    unfolding store64_def by (simp add: load32_store32_apart apart32_def)
  moreover have "ucast (ucast v :: u32) OR push_bit 32 (ucast (ucast (drop_bit 32 v) :: u32)) = v"
    by (rule bit_word_eqI) (auto simp: bit_simps)
  ultimately show ?thesis by (simp add: load64_def store64_def)
qed

section \<open>Bus accesses\<close>

datatype port =
    Port8 u16   \<comment> \<open>x86 \<open>inb\<close>, \<open>outb\<close>\<close>
  | Port16 u16  \<comment> \<open>x86 \<open>inw\<close>, \<open>outw\<close>\<close>
  | Port32 u16  \<comment> \<open>x86 \<open>inl\<close>, \<open>outl\<close>\<close>
  | Mem8 u32    \<comment> \<open>\<open>*(volatile u8*)a\<close>\<close>
  | Mem32 u32   \<comment> \<open>\<open>*(volatile u32*)a\<close>\<close>
  | Mem64 u32   \<comment> \<open>memory, by an instruction that moves 64 bits\<close>
  | Msr u32     \<comment> \<open>x86 \<open>rdmsr\<close>, \<open>wrmsr\<close>, both halves at once\<close>
  | Creg nat    \<comment> \<open>x86 control register\<close>
  | Cpuid u32 nat  \<comment> \<open>x86 \<open>cpuid\<close>: the leaf, and \<open>eax\<close>, \<open>ebx\<close>, \<open>ecx\<close>, \<open>edx\<close> as 0 to 3, plus 4 times the subleaf\<close>
  | Tsc         \<comment> \<open>x86 \<open>rdtsc\<close>\<close>
  | Isa string "u64 list" nat  \<comment> \<open>another instruction with results: its name, its operands, and which of its results\<close>
  | Call string "u64 list"  \<comment> \<open>the result of a function that no file defines, and its arguments\<close>

datatype insn = Hlt | Cli | Sti | Lidt u16 | Invlpg u32
  | Asm string "u64 list"  \<comment> \<open>another instruction without a result, and its register operands\<close>

datatype access = Rd port u64 | Wr port u64 | Ins insn

type_synonym trace = "access list"
type_synonym device = "trace \<Rightarrow> port \<Rightarrow> u64"

record machine =
  trace :: trace

definition rd :: "device \<Rightarrow> port \<Rightarrow> 'a machine_scheme \<Rightarrow> 'w::len word \<times> 'a machine_scheme" where
  "rd D p s = (let v = ucast (D (trace s) p) :: 'w word
               in (v, s\<lparr>trace := trace s @ [Rd p (ucast v)]\<rparr>))"

definition wr :: "port \<Rightarrow> 'w::len word \<Rightarrow> 'a machine_scheme \<Rightarrow> 'a machine_scheme" where
  "wr p v s = s\<lparr>trace := trace s @ [Wr p (ucast v)]\<rparr>"

definition insn :: "insn \<Rightarrow> 'a machine_scheme \<Rightarrow> 'a machine_scheme" where
  "insn i s = s\<lparr>trace := trace s @ [Ins i]\<rparr>"

text \<open>
  Some drivers declare functions that no file of the repository defines (\<open>timer_get_ticks\<close> and \<open>cpu_get_current_id\<close> are
  the most used). Their results are a parameter of the model, asked of the environment like a register.
\<close>

definition ask_ext :: "device \<Rightarrow> string \<Rightarrow> u64 list \<Rightarrow> 'a machine_scheme \<Rightarrow> 'w::len word \<times> 'a machine_scheme" where
  "ask_ext D f args s = rd D (Call f args) s"

definition call_ext :: "string \<Rightarrow> u64 list \<Rightarrow> 'a machine_scheme \<Rightarrow> 'a machine_scheme" where
  "call_ext f args s = wr (Call f args) (0 :: u8) s"

text \<open>The \<open>outb\<close> and \<open>inb\<close> every PC driver defines for itself.\<close>

definition outb :: "u16 \<Rightarrow> u8 \<Rightarrow> 'a machine_scheme \<Rightarrow> 'a machine_scheme" where
  "outb p v s = wr (Port8 p) v s"

definition inb :: "device \<Rightarrow> u16 \<Rightarrow> 'a machine_scheme \<Rightarrow> u8 \<times> 'a machine_scheme" where
  "inb D p s = rd D (Port8 p) s"

definition outw :: "u16 \<Rightarrow> u16 \<Rightarrow> 'a machine_scheme \<Rightarrow> 'a machine_scheme" where
  "outw p v s = wr (Port16 p) v s"

definition inw :: "device \<Rightarrow> u16 \<Rightarrow> 'a machine_scheme \<Rightarrow> u16 \<times> 'a machine_scheme" where
  "inw D p s = rd D (Port16 p) s"

definition outl :: "u16 \<Rightarrow> u32 \<Rightarrow> 'a machine_scheme \<Rightarrow> 'a machine_scheme" where
  "outl p v s = wr (Port32 p) v s"

definition inl :: "device \<Rightarrow> u16 \<Rightarrow> 'a machine_scheme \<Rightarrow> u32 \<times> 'a machine_scheme" where
  "inl D p s = rd D (Port32 p) s"

definition write32 :: "u32 \<Rightarrow> u32 \<Rightarrow> 'a machine_scheme \<Rightarrow> 'a machine_scheme" where
  "write32 a v s = wr (Mem32 a) v s"

definition read32 :: "device \<Rightarrow> u32 \<Rightarrow> 'a machine_scheme \<Rightarrow> u32 \<times> 'a machine_scheme" where
  "read32 D a s = rd D (Mem32 a) s"

definition write64 :: "u32 \<Rightarrow> u64 \<Rightarrow> 'a machine_scheme \<Rightarrow> 'a machine_scheme" where
  "write64 a v s = wr (Mem64 a) v s"

definition read64 :: "device \<Rightarrow> u32 \<Rightarrow> 'a machine_scheme \<Rightarrow> u64 \<times> 'a machine_scheme" where
  "read64 D a s = rd D (Mem64 a) s"

text \<open>The PC is built for 32 bits (\<open>-m32\<close>), where a volatile access of 64 bits is two of 32; the order is the
  compiler's, and the lower half goes first here. \<open>read64\<close> and \<open>write64\<close> are for code whose own instructions
  move 64 bits.\<close>

definition read64_halves :: "device \<Rightarrow> u32 \<Rightarrow> 'a machine_scheme \<Rightarrow> u64 \<times> 'a machine_scheme" where
  "read64_halves D a s =
     (let (lo, s) = read32 D a s; (hi, s) = read32 D (a + 4) s in (ucast lo OR push_bit 32 (ucast hi), s))"

definition write64_halves :: "u32 \<Rightarrow> u64 \<Rightarrow> 'a machine_scheme \<Rightarrow> 'a machine_scheme" where
  "write64_halves a v s = write32 (a + 4) (ucast (drop_bit 32 v)) (write32 a (ucast v) s)"

text \<open>\<open>*(volatile u32* )a |= v\<close> and \<open>&= ~v\<close>: a read, then a write.\<close>

definition or32 :: "device \<Rightarrow> u32 \<Rightarrow> u32 \<Rightarrow> 'a machine_scheme \<Rightarrow> 'a machine_scheme" where
  "or32 D a v s = (let (x, s) = read32 D a s in write32 a (x OR v) s)"

definition clear32 :: "device \<Rightarrow> u32 \<Rightarrow> u32 \<Rightarrow> 'a machine_scheme \<Rightarrow> 'a machine_scheme" where
  "clear32 D a v s = (let (x, s) = read32 D a s in write32 a (x AND NOT v) s)"

text \<open>\<open>cpuid\<close> leaves four registers; some leaves take a subleaf in \<open>ecx\<close>.\<close>

definition cpuid_sub :: "device \<Rightarrow> u32 \<Rightarrow> u32 \<Rightarrow> 'a machine_scheme \<Rightarrow> (u32 \<times> u32 \<times> u32 \<times> u32) \<times> 'a machine_scheme" where
  "cpuid_sub D leaf n s =
     (let k = 4 * unat n;
          (a, s) = rd D (Cpuid leaf k) s; (b, s) = rd D (Cpuid leaf (k + 1)) s;
          (c, s) = rd D (Cpuid leaf (k + 2)) s; (d, s) = rd D (Cpuid leaf (k + 3)) s
      in ((a, b, c, d), s))"

definition cpuid :: "device \<Rightarrow> u32 \<Rightarrow> 'a machine_scheme \<Rightarrow> (u32 \<times> u32 \<times> u32 \<times> u32) \<times> 'a machine_scheme" where
  "cpuid D leaf s =
     (let (a, s) = rd D (Cpuid leaf 0) s; (b, s) = rd D (Cpuid leaf 1) s;
          (c, s) = rd D (Cpuid leaf 2) s; (d, s) = rd D (Cpuid leaf 3) s
      in ((a, b, c, d), s))"

named_theorems bus "the bus operations, unfolded"

lemmas bus_defs [bus] = rd_def wr_def insn_def outb_def inb_def outw_def inw_def outl_def inl_def write32_def read32_def
  write64_def read64_def read64_halves_def write64_halves_def or32_def clear32_def ask_ext_def call_ext_def Let_def

lemma unat_ucast_up:
  fixes v :: "'a::len word"
  assumes "LENGTH('a) \<le> LENGTH('b)"
  shows "unat (ucast v :: 'b::len word) = unat v"
proof -
  have "unat v < 2 ^ LENGTH('b)" using unsigned_less [of v, where ?'a = nat] assms
    by (meson le_trans nat_less_le one_le_numeral order_less_le_trans power_increasing)
  then show ?thesis by (simp add: unsigned_ucast_eq take_bit_nat_eq_self)
qed

text \<open>Clearing and setting bits, with the mask not evaluated.\<close>

lemma and_not_and [simp]: "(x AND NOT m) AND m = (0 :: 'a::len word)"
  by (rule bit_word_eqI) (auto simp: bit_simps)

lemma or_and_self [simp]: "(x OR m) AND m = (m :: 'a::len word)"
  by (rule bit_word_eqI) (auto simp: bit_simps)

lemma and_push_bit_0: "x AND push_bit n 1 = (0 :: 'a::len word) \<longleftrightarrow> LENGTH('a) \<le> n \<or> \<not> bit x n"
proof
  assume h: "x AND push_bit n 1 = 0"
  show "LENGTH('a) \<le> n \<or> \<not> bit x n"
  proof (rule ccontr)
    assume "\<not> (LENGTH('a) \<le> n \<or> \<not> bit x n)"
    then have "bit (x AND push_bit n 1) n" by (simp add: bit_simps)
    with h show False by simp
  qed
next
  assume "LENGTH('a) \<le> n \<or> \<not> bit x n"
  then show "x AND push_bit n 1 = 0" by (intro bit_word_eqI) (auto simp: bit_simps)
qed

lemmas and_exp_0 = and_push_bit_0 [unfolded push_bit_eq_mult mult_1]

lemma ucast_u64_u8 [simp]: "ucast (ucast (v :: u8) :: u64) = v"
  by (simp add: ucast_up_ucast_id is_up)

lemma ucast_u64_u16 [simp]: "ucast (ucast (v :: u16) :: u64) = v"
  by (simp add: ucast_up_ucast_id is_up)

lemma ucast_u64_u32 [simp]: "ucast (ucast (v :: u32) :: u64) = v"
  by (simp add: ucast_up_ucast_id is_up)

text \<open>\<open>t\<close> differs from \<open>s\<close> at most in its trace: no variable of the program has changed.\<close>

definition only_trace :: "'a machine_scheme \<Rightarrow> 'a machine_scheme \<Rightarrow> bool" where
  "only_trace s t \<longleftrightarrow> (\<exists>tr. t = s\<lparr>trace := tr\<rparr>)"

lemma only_trace_upd [simp]: "only_trace s (s\<lparr>trace := tr\<rparr>)"
  by (auto simp: only_trace_def)

lemma only_trace_trans: "only_trace s t \<Longrightarrow> only_trace t u \<Longrightarrow> only_trace s u"
  by (auto simp: only_trace_def)

lemma only_trace_refl [simp]: "only_trace s s"
  by (auto simp: only_trace_def intro: exI [of _ "trace s"])

lemma only_trace_bus [simp]:
  "only_trace s (outb p v s)" "only_trace s (outw p v' s)" "only_trace s (snd (inb D p s))" "only_trace s (snd (inw D p s))"
  "only_trace s (outl p w s)" "only_trace s (snd (inl D p s))"
  by (simp_all add: bus)

text \<open>
  An operation on the variables of another component, as seen from a state \<open>s\<close> that has them as a part:
  the part works on the trace of \<open>s\<close>.
\<close>

definition embed ::
  "('s machine_scheme \<Rightarrow> 'c machine_scheme) \<Rightarrow> ('c machine_scheme \<Rightarrow> 's machine_scheme \<Rightarrow> 's machine_scheme) \<Rightarrow>
   ('c machine_scheme \<Rightarrow> ('r \<times> 'c machine_scheme) option) \<Rightarrow> 's machine_scheme \<Rightarrow> ('r \<times> 's machine_scheme) option" where
  "embed part put f s = (case f ((part s)\<lparr>trace := trace s\<rparr>) of
     None \<Rightarrow> None
   | Some (r, c) \<Rightarrow> Some (r, put c (s\<lparr>trace := trace c\<rparr>)))"

text \<open>A fold that keeps the first smallest key below a bound.\<close>

lemma fold_min:
  fixes key :: "'i::linorder \<Rightarrow> 'k::linorder"
  assumes "sorted_wrt (<) is'" "fold (\<lambda>i (c, m). if ok i \<and> key i < m then (i, key i) else (c, m)) is' (c0, m0) = (c, m)"
  shows "(c = c0 \<and> m = m0 \<and> (\<forall>i \<in> set is'. ok i \<longrightarrow> m0 \<le> key i)) \<or>
    (c \<in> set is' \<and> ok c \<and> m = key c \<and> key c < m0 \<and>
     (\<forall>i \<in> set is'. ok i \<longrightarrow> key c \<le> key i \<and> (key i = key c \<longrightarrow> c \<le> i)))"
  using assms
proof (induction is' arbitrary: c0 m0)
  case (Cons i is')
  have s: "sorted_wrt (<) is'" "\<forall>j \<in> set is'. i < j" using Cons.prems(1) by simp_all
  show ?case
  proof (cases "ok i \<and> key i < m0")
    case True
    with Cons.prems(2) have "fold (\<lambda>i (c, m). if ok i \<and> key i < m then (i, key i) else (c, m)) is' (i, key i) = (c, m)" by simp
    from Cons.IH [OF s(1) this] show ?thesis using True s(2) by (auto simp: less_imp_le)
  next
    case False
    with Cons.prems(2) have "fold (\<lambda>i (c, m). if ok i \<and> key i < m then (i, key i) else (c, m)) is' (c0, m0) = (c, m)" by simp
    from Cons.IH [OF s(1) this] show ?thesis using False by (auto simp: not_less)
  qed
qed simp

section \<open>Polling loops\<close>

partial_function (option) poll ::
  "device \<Rightarrow> port \<Rightarrow> ('w::len word \<Rightarrow> bool) \<Rightarrow> 'a machine_scheme \<Rightarrow> 'a machine_scheme option" where
  "poll D p ok s = (case rd D p s of (v, s') \<Rightarrow> if ok v then Some s' else poll D p ok s')"

text \<open>
  The state after \<open>n\<close> reads of a port, and the value the next read returns. The condition
  of the poll is an argument because it fixes the width of the reads.
\<close>

fun reads :: "device \<Rightarrow> port \<Rightarrow> ('w::len word \<Rightarrow> bool) \<Rightarrow> nat \<Rightarrow> 'a machine_scheme \<Rightarrow> 'a machine_scheme" where
  "reads D p ok 0 s = s"
| "reads D p ok (Suc n) s = reads D p ok n (snd (rd D p s :: 'w word \<times> 'a machine_scheme))"

definition seen :: "device \<Rightarrow> port \<Rightarrow> 'a machine_scheme \<Rightarrow> 'w::len word" where
  "seen D p s = fst (rd D p s)"

lemma poll_step:
  "poll D p ok s = (if ok (seen D p s) then Some (reads D p ok 1 s) else poll D p ok (reads D p ok 1 s))"
  by (subst poll.simps) (simp add: seen_def split: prod.split)

lemma poll_now: "ok (seen D p s) \<Longrightarrow> poll D p ok s = Some (reads D p ok 1 s)"
  by (simp add: poll_step)

lemma poll_reads:
  assumes "\<forall>k<n. \<not> ok (seen D p (reads D p ok k s))" and "ok (seen D p (reads D p ok n s))"
  shows "poll D p ok s = Some (reads D p ok (Suc n) s)"
  using assms
proof (induction n arbitrary: s)
  case 0
  then show ?case by (simp add: poll_step)
next
  case (Suc n)
  let ?s = "reads D p ok 1 s"
  have nok: "\<not> ok (seen D p s)" using Suc.prems(1) by (metis reads.simps(1) zero_less_Suc)
  have "\<forall>k<n. \<not> ok (seen D p (reads D p ok k ?s))"
    using Suc.prems(1) by (metis One_nat_def Suc_mono reads.simps)
  moreover have "ok (seen D p (reads D p ok n ?s))" using Suc.prems(2) by simp
  ultimately have "poll D p ok ?s = Some (reads D p ok (Suc n) ?s)" by (rule Suc.IH)
  with nok show ?case by (simp add: poll_step)
qed

text \<open>A poll returns exactly when some read of the device satisfies it.\<close>

lemma poll_SomeD:
  fixes ok :: "'w::len word \<Rightarrow> bool" and s :: "'a machine_scheme"
  assumes "poll D p ok s = Some t"
  shows "\<exists>n. (\<forall>k<n. \<not> ok (seen D p (reads D p ok k s))) \<and> ok (seen D p (reads D p ok n s)) \<and>
    t = reads D p ok (Suc n) s"
proof (rule poll.raw_induct [where P = "\<lambda>D p ok s t.
    \<exists>n. (\<forall>k<n. \<not> ok (seen D p (reads D p ok k s))) \<and> ok (seen D p (reads D p ok n s)) \<and>
      t = reads D p ok (Suc n) s", OF _ assms])
  fix f :: "device \<Rightarrow> port \<Rightarrow> ('w word \<Rightarrow> bool) \<Rightarrow> 'a machine_scheme \<Rightarrow> 'a machine_scheme option"
    and D :: device and p ok s t
  assume IH: "\<And>D p ok s t. f D p ok s = Some t \<Longrightarrow>
      \<exists>n. (\<forall>k<n. \<not> ok (seen D p (reads D p ok k s))) \<and> ok (seen D p (reads D p ok n s)) \<and>
        t = reads D p ok (Suc n) s"
    and eq: "(case rd D p s of (v, s') \<Rightarrow> if ok v then Some s' else f D p ok s') = Some t"
  let ?s = "reads D p ok 1 s"
  have eq': "(if ok (seen D p s) then Some ?s else f D p ok ?s) = Some t"
    using eq by (simp add: seen_def split: prod.splits if_splits)
  show "\<exists>n. (\<forall>k<n. \<not> ok (seen D p (reads D p ok k s))) \<and> ok (seen D p (reads D p ok n s)) \<and>
      t = reads D p ok (Suc n) s"
  proof (cases "ok (seen D p s)")
    case True
    with eq' show ?thesis by (intro exI [of _ 0]) simp
  next
    case False
    with eq' have "f D p ok ?s = Some t" by simp
    then obtain n where n: "\<forall>k<n. \<not> ok (seen D p (reads D p ok k ?s))"
      "ok (seen D p (reads D p ok n ?s))" "t = reads D p ok (Suc n) ?s" using IH by blast
    have "\<not> ok (seen D p (reads D p ok k s))" if "k < Suc n" for k
      using that n(1) False by (cases k) auto
    with n show ?thesis by (intro exI [of _ "Suc n"]) simp
  qed
qed

lemma poll_never:
  assumes "\<forall>k. \<not> ok (seen D p (reads D p ok k s))"
  shows "poll D p ok s = None"
  using poll_SomeD [of D p ok s] assms by (cases "poll D p ok s") auto

lemma reads_trace:
  fixes ok :: "'w::len word \<Rightarrow> bool"
  shows "\<exists>vs. reads D p ok n s = s\<lparr>trace := trace s @ map (Rd p) vs\<rparr> \<and> length vs = n"
proof (induction n arbitrary: s)
  case 0
  show ?case by (intro exI [of _ "[]"]) simp
next
  case (Suc n)
  let ?v = "ucast (seen D p s :: 'w word)"
  obtain vs where "reads D p ok n (s\<lparr>trace := trace s @ [Rd p ?v]\<rparr>) =
      s\<lparr>trace := trace s @ Rd p ?v # map (Rd p) vs\<rparr>" "length vs = n"
    using Suc [of "s\<lparr>trace := trace s @ [Rd p ?v]\<rparr>"] by auto
  then show ?case
    by (intro exI [of _ "?v # vs"]) (simp add: seen_def rd_def Let_def)
qed

text \<open>A poll leaves every variable of the program alone and writes nothing.\<close>

lemma poll_trace:
  assumes "poll D p ok s = Some t"
  shows "\<exists>vs. t = s\<lparr>trace := trace s @ map (Rd p) vs\<rparr>"
  using poll_SomeD [OF assms] reads_trace by metis

section \<open>Register-like devices\<close>

text \<open>
  A device whose registers read back the last value written, with initial contents \<open>i\<close>:
  the hypothesis \<open>is_reg D p\<close> says that a port of a device behaves so. \<open>reg_dev\<close> is a
  device where every port does.
\<close>

fun last_write :: "u64 \<Rightarrow> trace \<Rightarrow> port \<Rightarrow> u64" where
  "last_write i [] p = i"
| "last_write i (a # t) p = last_write (case a of Wr q v \<Rightarrow> if q = p then v else i | _ \<Rightarrow> i) t p"

lemma last_write_append [simp]:
  "last_write i (t @ u) p = last_write (last_write i t p) u p"
  by (induction t arbitrary: i) auto

definition reg_dev :: "(port \<Rightarrow> u64) \<Rightarrow> device" where
  "reg_dev i t p = last_write (i p) t p"

definition is_reg :: "device \<Rightarrow> port \<Rightarrow> bool" where
  "is_reg D p \<longleftrightarrow> (\<forall>t u. D (t @ u) p = last_write (D t p) u p)"

lemma is_reg_reg_dev [simp, intro]: "is_reg (reg_dev i) p"
  by (simp add: is_reg_def reg_dev_def)

lemma is_reg_append: "is_reg D p \<Longrightarrow> D (t @ u) p = last_write (D t p) u p"
  by (simp add: is_reg_def)

section \<open>Writes of a trace\<close>

text \<open>The values written to one port, oldest first.\<close>

fun writes :: "port \<Rightarrow> trace \<Rightarrow> u64 list" where
  "writes p [] = []"
| "writes p (Wr q v # t) = (if q = p then v # writes p t else writes p t)"
| "writes p (_ # t) = writes p t"

lemma writes_append [simp]: "writes p (t @ u) = writes p t @ writes p u"
  by (induction p t rule: writes.induct) auto

lemma writes_Rd [simp]: "writes p (map (Rd q) vs) = []"
  by (induction vs) auto

section \<open>Step relations and invariants\<close>

locale invariant_system =
  fixes start :: "'s \<Rightarrow> bool"
    and step :: "'s \<Rightarrow> 's \<Rightarrow> bool"
    and I :: "'s \<Rightarrow> bool"
  assumes start_inv: "start s \<Longrightarrow> I s"
    and step_inv: "I s \<Longrightarrow> step s t \<Longrightarrow> I t"
begin

lemma run_inv: "step\<^sup>*\<^sup>* s t \<Longrightarrow> I s \<Longrightarrow> I t"
  by (induction rule: rtranclp_induct) (auto intro: step_inv)

lemma reachable_inv: "start s \<Longrightarrow> step\<^sup>*\<^sup>* s t \<Longrightarrow> I t"
  using run_inv start_inv by blast

end

text \<open>The targets the preprocessor of the kernel sources distinguishes.\<close>

datatype arch = Arm | X86_64 | Other_arch

end
