(* ===== verification/Ring.thy ===== *)
theory Ring
  imports Blood_Prelude
begin

text \<open>
  Bounded first-in first-out queues. The kernel stores three of them in circular arrays: the
  message queue of \<open>msg.c\<close>, the keyboard buffer of \<open>ps2_kbd.c\<close> and the receive
  buffers of \<open>serial.c\<close>. \<open>ring_items\<close> reads the contents off a circular array;
  the locale \<open>fifo\<close> states what each of them promises its client, and derives once what
  any sequence of insertions and removals delivers.
\<close>

section \<open>The contents of a circular array\<close>

definition ring_items :: "'a list \<Rightarrow> nat \<Rightarrow> nat \<Rightarrow> 'a list" where
  "ring_items b t c = map (\<lambda>i. b ! ((t + i) mod length b)) [0..<c]"

lemma length_ring_items [simp]: "length (ring_items b t c) = c"
  by (simp add: ring_items_def)

lemma ring_items_0 [simp]: "ring_items b t 0 = []"
  by (simp add: ring_items_def)

lemma mod_add_inj:
  assumes "(t + i) mod n = (t + c) mod (n :: nat)" "i < n" "c < n"
  shows "i = c"
proof -
  have "int i mod int n = int c mod int n"
    using assms(1) by (metis add_diff_cancel_left' mod_diff_left_eq of_nat_add zmod_int)
  with assms(2,3) show ?thesis by simp
qed

lemma ring_items_put:
  assumes "c < length b"
  shows "ring_items (b[(t + c) mod length b := x]) t (Suc c) = ring_items b t c @ [x]"
proof -
  let ?n = "length b"
  have "\<And>i. i < c \<Longrightarrow> (t + c) mod ?n \<noteq> (t + i) mod ?n"
    using mod_add_inj [of t _ ?n c] assms by force
  moreover have "(t + c) mod ?n < ?n" by (rule mod_less_divisor) (use assms in linarith)
  ultimately show ?thesis by (simp add: ring_items_def)
qed

lemma ring_items_get:
  assumes "0 < c"
  shows "ring_items b t c = b ! (t mod length b) # ring_items b (Suc t mod length b) (c - 1)"
proof -
  obtain d where d: "c = Suc d" using assms by (cases c) auto
  have "[0..<Suc d] = 0 # map Suc [0..<d]" by (simp add: map_Suc_upt upt_conv_Cons)
  then show ?thesis
    by (simp add: d ring_items_def mod_add_left_eq comp_def del: upt_Suc)
qed

section \<open>The contract of a bounded queue\<close>

datatype 'a fifo_op = Put 'a | Get

text \<open>The abstract queue of capacity \<open>cap\<close>: an insertion into a full queue is lost.\<close>

fun fifo_spec :: "nat \<Rightarrow> 'a fifo_op list \<Rightarrow> 'a list \<Rightarrow> 'a option list \<times> 'a list" where
  "fifo_spec cap [] xs = ([], xs)"
| "fifo_spec cap (Put x # ops) xs =
     fifo_spec cap ops (if length xs < cap then xs @ [x] else xs)"
| "fifo_spec cap (Get # ops) xs =
     (case xs of [] \<Rightarrow> (case fifo_spec cap ops [] of (out, ys) \<Rightarrow> (None # out, ys))
      | x # xs' \<Rightarrow> (case fifo_spec cap ops xs' of (out, ys) \<Rightarrow> (Some x # out, ys)))"

text \<open>A run of the operations of an implementation, with the values its removals deliver.\<close>

fun fifo_run ::
  "('a \<Rightarrow> 'q \<Rightarrow> 'q option) \<Rightarrow> ('q \<Rightarrow> ('a option \<times> 'q) option) \<Rightarrow> 'a fifo_op list \<Rightarrow> 'q \<Rightarrow>
   ('a option list \<times> 'q) option" where
  "fifo_run put get [] q = Some ([], q)"
| "fifo_run put get (Put x # ops) q = do { q \<leftarrow> put x q; fifo_run put get ops q }"
| "fifo_run put get (Get # ops) q = do {
     (r, q) \<leftarrow> get q; (out, q) \<leftarrow> fifo_run put get ops q; Some (r # out, q) }"

lemma fifo_spec_puts:
  "length xs + length ys \<le> cap \<Longrightarrow>
   fifo_spec cap (map Put ys @ ops) xs = fifo_spec cap ops (xs @ ys)"
  by (induction ys arbitrary: xs) auto

lemma fifo_spec_gets:
  "fifo_spec cap (replicate (length xs) Get) xs = (map Some xs, [])"
  by (induction xs) auto

locale fifo =
  fixes inv :: "'q \<Rightarrow> bool"
    and items :: "'q \<Rightarrow> 'a list"
    and cap :: nat
    and put :: "'a \<Rightarrow> 'q \<Rightarrow> 'q option"
    and get :: "'q \<Rightarrow> ('a option \<times> 'q) option"
  assumes put_law: "inv q \<Longrightarrow> \<exists>q'. put x q = Some q' \<and> inv q' \<and>
      items q' = (if length (items q) < cap then items q @ [x] else items q)"
    and get_law: "inv q \<Longrightarrow> \<exists>q'. get q = Some (case items q of [] \<Rightarrow> None | x # _ \<Rightarrow> Some x, q') \<and>
      inv q' \<and> items q' = tl (items q)"
    and items_bound: "inv q \<Longrightarrow> length (items q) \<le> cap"
begin

text \<open>Any sequence of operations delivers what the abstract queue delivers.\<close>

lemma run_refines:
  "inv q \<Longrightarrow> \<exists>q'. fifo_run put get ops q = Some (fst (fifo_spec cap ops (items q)), q') \<and>
     inv q' \<and> items q' = snd (fifo_spec cap ops (items q))"
proof (induction ops arbitrary: q)
  case Nil
  then show ?case by simp
next
  case (Cons op ops)
  show ?case
  proof (cases op)
    case (Put x)
    obtain q' where q': "put x q = Some q'" "inv q'"
      "items q' = (if length (items q) < cap then items q @ [x] else items q)"
      using put_law [OF Cons.prems] by blast
    with Cons.IH [OF q'(2)] Put show ?thesis by auto
  next
    case Get
    obtain q' where q': "get q = Some (case items q of [] \<Rightarrow> None | x # _ \<Rightarrow> Some x, q')"
      "inv q'" "items q' = tl (items q)" using get_law [OF Cons.prems] by blast
    obtain q'' where "fifo_run put get ops q' = Some (fst (fifo_spec cap ops (items q')), q'')"
      "inv q''" "items q'' = snd (fifo_spec cap ops (items q'))"
      using Cons.IH [OF q'(2)] by blast
    with q' Get show ?thesis by (cases "items q") (auto split: prod.splits)
  qed
qed

lemma delivers_in_order:
  assumes "inv q" "items q = []" "length xs \<le> cap"
  shows "\<exists>q'. fifo_run put get (map Put xs @ replicate (length xs) Get) q = Some (map Some xs, q') \<and>
    inv q' \<and> items q' = []"
  using run_refines [OF assms(1), of "map Put xs @ replicate (length xs) Get"] assms
  by (simp add: fifo_spec_puts fifo_spec_gets)

end

end
