(* ===== verification/Spinlock.thy ===== *)
theory Spinlock
  imports Blood_Prelude
begin

text \<open>
  \<open>src/kernel/spinklock.c\<close>: the test-and-set spinlock.

  The lock word is modelled twice. \<open>spin_lock\<close> and \<open>spin_unlock\<close> are the code run by one
  CPU with nobody else touching the word; the other components call these. \<open>spin_step\<close>
  interleaves any number of CPUs that run the same code, one memory access per step.
\<close>

section \<open>The code on one CPU\<close>

text \<open>\<open>__sync_lock_test_and_set(&l, v)\<close>: the old value, and the word afterwards.\<close>

definition test_and_set :: "u32 \<Rightarrow> u32 \<Rightarrow> u32 \<times> u32" where
  "test_and_set l v = (l, v)"

partial_function (option) spin_wait :: "u32 \<Rightarrow> u32 option" where
  "spin_wait l = (if l \<noteq> 0 then spin_wait l else Some l)"

partial_function (option) spin_lock :: "u32 \<Rightarrow> u32 option" where
  "spin_lock l = (case test_and_set l 1 of (old, l) \<Rightarrow>
     if old \<noteq> 0 then do { l \<leftarrow> spin_wait l; spin_lock l } else Some l)"

definition spin_unlock :: "u32 \<Rightarrow> u32" where
  "spin_unlock l = 0"

lemma spin_wait_iff: "spin_wait l = (if l = 0 then Some 0 else None)"
proof (cases "l = 0")
  case True
  then show ?thesis by (simp add: spin_wait.simps)
next
  case False
  have "spin_wait l \<noteq> Some x" for x
  proof
    assume "spin_wait l = Some x"
    then have "l = 0"
      by (rule spin_wait.raw_induct [where P = "\<lambda>l x. l = 0", rotated]) (auto split: if_splits)
    with False show False by simp
  qed
  with False show ?thesis by (cases "spin_wait l") auto
qed

text \<open>With no other CPU, taking a free lock succeeds and taking a held one never returns.\<close>

lemma spin_lock_iff [simp]: "spin_lock l = (if l = 0 then Some 1 else None)"
  by (subst spin_lock.simps) (simp add: test_and_set_def spin_wait_iff)

lemma spin_unlock_0 [simp]: "spin_unlock l = 0"
  by (simp add: spin_unlock_def)

text \<open>
  The variants that disable interrupts; the second component is whether interrupts are
  enabled. On targets other than x86 and ARM nothing is done to the interrupt flag.
\<close>

definition irq_flag :: "arch \<Rightarrow> bool \<Rightarrow> bool \<Rightarrow> bool" where
  "irq_flag a new old = (case a of X86_64 \<Rightarrow> new | Arm \<Rightarrow> new | Other_arch \<Rightarrow> old)"

definition spin_lock_irq :: "arch \<Rightarrow> u32 \<times> bool \<Rightarrow> (u32 \<times> bool) option" where
  "spin_lock_irq a = (\<lambda>(l, irq). do { let irq = irq_flag a False irq; l \<leftarrow> spin_lock l; Some (l, irq) })"

definition spin_unlock_irq :: "arch \<Rightarrow> u32 \<times> bool \<Rightarrow> u32 \<times> bool" where
  "spin_unlock_irq a = (\<lambda>(l, irq). (let l = spin_unlock l in (l, irq_flag a True irq)))"

section \<open>Any number of CPUs\<close>

text \<open>
  Where a CPU is: outside, before the test-and-set, in the inner read loop, or holding the
  lock.
\<close>

datatype spin_pc = Outside | Testing | Waiting | Holding

record spin_sys =
  word :: u32
  pc :: "nat \<Rightarrow> spin_pc"

definition spin_start :: "spin_sys \<Rightarrow> bool" where
  "spin_start s \<longleftrightarrow> word s = 0 \<and> (\<forall>i. pc s i = Outside)"

inductive spin_step :: "spin_sys \<Rightarrow> spin_sys \<Rightarrow> bool" where
  enter: "pc s i = Outside \<Longrightarrow> spin_step s (s\<lparr>pc := (pc s)(i := Testing)\<rparr>)"
| test_set: "pc s i = Testing \<Longrightarrow> test_and_set (word s) 1 = (old, new) \<Longrightarrow>
    spin_step s (s\<lparr>word := new, pc := (pc s)(i := (if old \<noteq> 0 then Waiting else Holding))\<rparr>)"
| wait: "pc s i = Waiting \<Longrightarrow>
    spin_step s (s\<lparr>pc := (pc s)(i := (if word s \<noteq> 0 then Waiting else Testing))\<rparr>)"
| release: "pc s i = Holding \<Longrightarrow>
    spin_step s (s\<lparr>word := spin_unlock (word s), pc := (pc s)(i := Outside)\<rparr>)"

inductive_cases spin_stepE: "spin_step s t"

text \<open>The word is 0 or 1, and 1 exactly while some CPU holds the lock, which then is one CPU.\<close>

definition spin_inv :: "spin_sys \<Rightarrow> bool" where
  "spin_inv s \<longleftrightarrow> word s = 0 \<and> (\<forall>i. pc s i \<noteq> Holding) \<or>
     word s = 1 \<and> (\<exists>h. \<forall>i. pc s i = Holding \<longleftrightarrow> i = h)"

lemma spin_step_inv:
  assumes "spin_inv s" "spin_step s t"
  shows "spin_inv t"
proof (cases "word s = 0")
  case True
  with assms(1) have free: "\<forall>i. pc s i \<noteq> Holding" by (simp add: spin_inv_def)
  from assms(2) show ?thesis
  proof cases
    case (test_set i old new)
    then have "word t = 1" "\<forall>j. pc t j = Holding \<longleftrightarrow> j = i"
      using True free by (simp_all add: test_and_set_def)
    then show ?thesis by (auto simp: spin_inv_def)
  next
    case (release i)
    with free show ?thesis by simp
  qed (use True free in \<open>simp_all add: spin_inv_def\<close>)
next
  case False
  with assms(1) obtain h where held: "word s = 1" "\<forall>i. pc s i = Holding \<longleftrightarrow> i = h"
    by (auto simp: spin_inv_def)
  from assms(2) show ?thesis
  proof cases
    case (release i)
    with held have "word t = 0" "\<forall>j. pc t j \<noteq> Holding" by simp_all
    then show ?thesis by (simp add: spin_inv_def)
  next
    case (enter i)
    moreover from this held have "i \<noteq> h" by force
    ultimately have "word t = 1" "\<forall>j. pc t j = Holding \<longleftrightarrow> j = h" using held by auto
    then show ?thesis by (auto simp: spin_inv_def)
  next
    case (test_set i old new)
    moreover from this held have "i \<noteq> h" by force
    ultimately have "word t = 1" "\<forall>j. pc t j = Holding \<longleftrightarrow> j = h"
      using held by (auto simp: test_and_set_def)
    then show ?thesis by (auto simp: spin_inv_def)
  next
    case (wait i)
    moreover from this held have "i \<noteq> h" by force
    ultimately have "word t = 1" "\<forall>j. pc t j = Holding \<longleftrightarrow> j = h" using held by auto
    then show ?thesis by (auto simp: spin_inv_def)
  qed
qed

lemma spin_start_inv: "spin_start s \<Longrightarrow> spin_inv s"
  by (simp add: spin_start_def spin_inv_def)

interpretation spin: invariant_system spin_start spin_step spin_inv
  by (unfold_locales) (erule spin_start_inv, erule (1) spin_step_inv)

section \<open>Mutual exclusion\<close>

text \<open>C4: However the CPUs that run \<open>spin_lock\<close> and \<open>spin_unlock\<close> are interleaved, at most one of
  them is inside its critical section.\<close>

theorem spin_mutual_exclusion:
  assumes "spin_start s" "spin_step\<^sup>*\<^sup>* s t" "pc t i = Holding" "pc t j = Holding"
  shows "i = j"
proof -
  have "spin_inv t" using assms(1,2) by (rule spin.reachable_inv)
  with assms(3,4) show ?thesis by (auto simp: spin_inv_def)
qed

text \<open>A run in which CPU 2 takes the lock.\<close>

definition idle_sys :: spin_sys where "idle_sys = \<lparr>word = 0, pc = (\<lambda>_. Outside)\<rparr>"

definition held_sys :: spin_sys where
  "held_sys = idle_sys\<lparr>word := 1, pc := (pc idle_sys)(2 := Testing, 2 := Holding)\<rparr>"

lemma held_reachable: "spin_step\<^sup>*\<^sup>* idle_sys held_sys"
proof -
  let ?u = "idle_sys\<lparr>pc := (pc idle_sys)(2 := Testing)\<rparr>"
  have "spin_step idle_sys ?u" by (rule spin_step.enter) (simp add: idle_sys_def)
  moreover have "spin_step ?u (?u\<lparr>word := 1, pc := (pc ?u)(2 := (if (0 :: u32) \<noteq> 0 then Waiting else Holding))\<rparr>)"
    by (rule spin_step.test_set) (simp_all add: idle_sys_def test_and_set_def)
  then have "spin_step ?u held_sys" by (simp add: held_sys_def)
  ultimately show ?thesis by (rule converse_rtranclp_into_rtranclp [OF _ r_into_rtranclp])
qed

lemma spin_mutual_exclusion_witness:
  "spin_start idle_sys \<and> spin_step\<^sup>*\<^sup>* idle_sys held_sys \<and> pc held_sys 2 = Holding \<and> (2 :: nat) = 2"
proof -
  have start: "spin_start idle_sys" by (simp add: spin_start_def idle_sys_def)
  have held: "pc held_sys 2 = Holding" by (simp add: held_sys_def)
  from spin_mutual_exclusion [OF start held_reachable held held] start held held_reachable
  show ?thesis by blast
qed

end
