(* ===== verification/Msg_Queue.thy ===== *)
theory Msg_Queue
  imports Ring Spinlock
begin

text \<open>
  \<open>src/kernel/msg.c\<close>: queues of eight 16-byte messages, each under its own spinlock.
  A message is its list of bytes. Every operation returns an option because it first takes
  the lock: \<open>None\<close> means that it spins forever.
\<close>

definition MSG_SIZE :: nat where "MSG_SIZE = 16"
definition MSG_DEPTH :: nat where "MSG_DEPTH = 8"

type_synonym msg = "u8 list"

record msg_queue =
  mq_buf :: "msg list"
  mq_head :: u8
  mq_tail :: u8
  mq_count :: u8
  mq_lock :: u32

definition msg_init :: "msg_queue \<Rightarrow> msg_queue" where
  "msg_init q = q\<lparr>mq_head := 0, mq_tail := 0, mq_count := 0, mq_lock := 0\<rparr>"

definition msg_unlock :: "msg_queue \<Rightarrow> msg_queue" where
  "msg_unlock q = q\<lparr>mq_lock := spin_unlock (mq_lock q)\<rparr>"

text \<open>The index arithmetic is done in \<open>int\<close>, as C does, and cut to 8 bits when stored.\<close>

definition msg_send :: "msg_queue \<Rightarrow> msg \<Rightarrow> (u8 \<times> msg_queue) option" where
  "msg_send q m = do {
     l \<leftarrow> spin_lock (mq_lock q);
     let q = q\<lparr>mq_lock := l\<rparr>;
     if unat (mq_count q) \<ge> MSG_DEPTH then Some (0, msg_unlock q)
     else do {
       let q = q\<lparr>mq_buf := (mq_buf q)[unat (mq_head q) := m]\<rparr>;
       let q = q\<lparr>mq_head := of_nat ((unat (mq_head q) + 1) mod MSG_DEPTH)\<rparr>;
       let q = q\<lparr>mq_count := mq_count q + 1\<rparr>;
       Some (1, msg_unlock q)
     }
   }"

text \<open>\<open>m\<close> is what the out parameter \<open>*msg\<close> holds before the call.\<close>

definition msg_recv :: "msg_queue \<Rightarrow> msg \<Rightarrow> (u8 \<times> msg \<times> msg_queue) option" where
  "msg_recv q m = do {
     l \<leftarrow> spin_lock (mq_lock q);
     let q = q\<lparr>mq_lock := l\<rparr>;
     if mq_count q = 0 then Some (0, m, msg_unlock q)
     else do {
       let m = mq_buf q ! unat (mq_tail q);
       let q = q\<lparr>mq_tail := of_nat ((unat (mq_tail q) + 1) mod MSG_DEPTH)\<rparr>;
       let q = q\<lparr>mq_count := mq_count q - 1\<rparr>;
       Some (1, m, msg_unlock q)
     }
   }"

section \<open>Invariant and contents\<close>

definition mq_inv :: "msg_queue \<Rightarrow> bool" where
  "mq_inv q \<longleftrightarrow> length (mq_buf q) = MSG_DEPTH \<and> unat (mq_tail q) < MSG_DEPTH \<and>
     unat (mq_count q) \<le> MSG_DEPTH \<and>
     unat (mq_head q) = (unat (mq_tail q) + unat (mq_count q)) mod MSG_DEPTH \<and> mq_lock q = 0"

definition mq_items :: "msg_queue \<Rightarrow> msg list" where
  "mq_items q = ring_items (mq_buf q) (unat (mq_tail q)) (unat (mq_count q))"

lemma length_mq_items [simp]: "length (mq_items q) = unat (mq_count q)"
  by (simp add: mq_items_def)

lemma mq_inv_init: "length (mq_buf q) = MSG_DEPTH \<Longrightarrow> mq_inv (msg_init q) \<and> mq_items (msg_init q) = []"
  by (simp add: mq_inv_def msg_init_def mq_items_def MSG_DEPTH_def)

lemma unat_inc_mod:
  "unat (of_nat ((n + 1) mod MSG_DEPTH) :: u8) = (n + 1) mod MSG_DEPTH"
  by (simp add: unat_of_nat MSG_DEPTH_def)

lemma msg_send_room:
  assumes "mq_inv q" "unat (mq_count q) < MSG_DEPTH"
  shows "\<exists>q'. msg_send q m = Some (1, q') \<and> mq_inv q' \<and> mq_items q' = mq_items q @ [m]"
proof -
  let ?h = "unat (mq_head q)" and ?t = "unat (mq_tail q)" and ?c = "unat (mq_count q)"
  have h: "?h = (?t + ?c) mod MSG_DEPTH" and len: "length (mq_buf q) = MSG_DEPTH"
    and lock: "mq_lock q = 0" and t: "?t < MSG_DEPTH"
    using assms(1) by (simp_all add: mq_inv_def)
  have c: "unat (mq_count q + 1) = Suc ?c"
    using assms(2) by (simp add: unat_word_ariths MSG_DEPTH_def)
  have h': "(?h + 1) mod MSG_DEPTH = (?t + Suc ?c) mod MSG_DEPTH"
    by (simp add: h mod_Suc_eq)
  have items: "ring_items ((mq_buf q)[?h := m]) ?t (Suc ?c) = mq_items q @ [m]"
    using ring_items_put [of ?c "mq_buf q" ?t m] assms(2) len by (simp add: h mq_items_def)
  let ?q = "q\<lparr>mq_buf := (mq_buf q)[?h := m], mq_head := of_nat ((?h + 1) mod MSG_DEPTH),
    mq_count := mq_count q + 1, mq_lock := 0\<rparr>"
  have "msg_send q m = Some (1, ?q)"
    using assms(2) lock by (simp add: msg_send_def msg_unlock_def Let_def)
  moreover have "mq_inv ?q"
    using assms(2) len t c h' unat_inc_mod [of ?h] by (simp add: mq_inv_def)
  moreover have "mq_items ?q = mq_items q @ [m]"
    using items c by (simp add: mq_items_def)
  ultimately show ?thesis by blast
qed

lemma msg_send_full:
  assumes "mq_inv q" "\<not> unat (mq_count q) < MSG_DEPTH"
  shows "msg_send q m = Some (0, q)"
  using assms by (simp add: msg_send_def mq_inv_def msg_unlock_def Let_def)

lemma msg_recv_some:
  assumes "mq_inv q" "mq_count q \<noteq> 0"
  shows "\<exists>q'. msg_recv q m = Some (1, hd (mq_items q), q') \<and> mq_inv q' \<and>
    mq_items q' = tl (mq_items q) \<and> mq_items q \<noteq> []"
proof -
  let ?t = "unat (mq_tail q)" and ?c = "unat (mq_count q)"
  have c0: "0 < ?c" using assms(2) by (simp add: unat_gt_0)
  have c: "unat (mq_count q - 1) = ?c - 1"
    using c0 by (simp add: unat_minus_one assms(2))
  have inv: "length (mq_buf q) = MSG_DEPTH" "?t < MSG_DEPTH" "?c \<le> MSG_DEPTH"
    "unat (mq_head q) = (?t + ?c) mod MSG_DEPTH" "mq_lock q = 0"
    using assms(1) by (simp_all add: mq_inv_def)
  have items: "mq_items q = mq_buf q ! ?t # ring_items (mq_buf q) (Suc ?t mod MSG_DEPTH) (?c - 1)"
    using ring_items_get [OF c0, of "mq_buf q" ?t] inv(1,2) by (simp add: mq_items_def)
  have "((?t + 1) mod MSG_DEPTH + (?c - 1)) mod MSG_DEPTH = (?t + ?c) mod MSG_DEPTH"
    using c0 by (subst mod_add_left_eq) simp
  then show ?thesis
    using inv assms(2) c unat_inc_mod [of ?t] items
    by (simp add: msg_recv_def msg_unlock_def Let_def mq_inv_def mq_items_def)
qed

lemma msg_recv_empty:
  "mq_inv q \<Longrightarrow> mq_count q = 0 \<Longrightarrow> msg_recv q m = Some (0, m, q) \<and> mq_items q = []"
  by (simp add: msg_recv_def mq_inv_def msg_unlock_def Let_def mq_items_def)

section \<open>The queue as a bounded FIFO\<close>

definition mq_put :: "msg \<Rightarrow> msg_queue \<Rightarrow> msg_queue option" where
  "mq_put m q = map_option snd (msg_send q m)"

definition mq_get :: "msg_queue \<Rightarrow> (msg option \<times> msg_queue) option" where
  "mq_get q = map_option (\<lambda>(r, m, q'). (if r = 1 then Some m else None, q')) (msg_recv q [])"

interpretation mq: fifo mq_inv mq_items MSG_DEPTH mq_put mq_get
proof unfold_locales
  fix q and m :: msg
  assume inv: "mq_inv q"
  show "\<exists>q'. mq_put m q = Some q' \<and> mq_inv q' \<and>
      mq_items q' = (if length (mq_items q) < MSG_DEPTH then mq_items q @ [m] else mq_items q)"
    using msg_send_room [OF inv, of m] msg_send_full [OF inv, of m] inv
    by (cases "unat (mq_count q) < MSG_DEPTH") (auto simp: mq_put_def)
  show "\<exists>q'. mq_get q = Some (case mq_items q of [] \<Rightarrow> None | x # _ \<Rightarrow> Some x, q') \<and>
      mq_inv q' \<and> mq_items q' = tl (mq_items q)"
    using msg_recv_some [OF inv, of "[]"] msg_recv_empty [OF inv, of "[]"] inv
    by (cases "mq_count q = 0") (auto simp: mq_get_def split: list.splits)
  show "length (mq_items q) \<le> MSG_DEPTH" using inv by (simp add: mq_inv_def)
qed

section \<open>Delivery\<close>

text \<open>C3: Whatever sequence of sends and receives is run on a message queue, every call returns, the
  receives deliver exactly what a first-in first-out queue of eight messages delivers (a send to a
  full queue is refused, a receive from an empty one reports none), and the indices stay valid.\<close>

theorem msg_queue_fifo:
  assumes "mq_inv q"
  shows "\<exists>q'. fifo_run mq_put mq_get ops q = Some (fst (fifo_spec MSG_DEPTH ops (mq_items q)), q') \<and>
    mq_inv q' \<and> mq_items q' = snd (fifo_spec MSG_DEPTH ops (mq_items q))"
  using assms by (rule mq.run_refines)

lemma msg_queue_fifo_witness:
  "let q = msg_init \<lparr>mq_buf = replicate 8 [], mq_head = 3, mq_tail = 5, mq_count = 7, mq_lock = 1\<rparr>
   in \<exists>q'. fifo_run mq_put mq_get [Get, Put [1], Put [2], Get] q = Some ([None, Some [1]], q') \<and> mq_items q' = [[2]]"
proof -
  let ?q = "msg_init \<lparr>mq_buf = replicate 8 [], mq_head = 3, mq_tail = 5, mq_count = 7, mq_lock = 1\<rparr>"
  have "mq_inv ?q" "mq_items ?q = []"
    using mq_inv_init [of "\<lparr>mq_buf = replicate 8 [], mq_head = 3, mq_tail = 5, mq_count = 7, mq_lock = 1\<rparr>"]
    by (simp_all add: MSG_DEPTH_def)
  with msg_queue_fifo [of ?q "[Get, Put [1], Put [2], Get]"] show ?thesis
    by (auto simp: MSG_DEPTH_def)
qed

end
