(* ===== verification/Uart.thy ===== *)
theory Uart
  imports Blood_Prelude
begin

text \<open>
  \<open>src/kernel/uart.c\<close>: the console, on COM1 for x86 and USART1 for the STM32F4. Sending a
  character first polls the transmitter, so the operations return an option. On other targets
  the file defines no \<open>uart_putc\<close> (the port brings its own), which the model renders as an
  operation that does not return.
\<close>

definition UART_BASE :: u32 where "UART_BASE = 0x3F8"
definition USART1_BASE :: u32 where "USART1_BASE = 0x40011000"
definition UART_RCC_BASE :: u32 where "UART_RCC_BASE = 0x40023800"

definition uart_write_reg :: "u16 \<Rightarrow> u8 \<Rightarrow> 'a machine_scheme \<Rightarrow> 'a machine_scheme" where
  "uart_write_reg reg val s = wr (Mem8 (UART_BASE + ucast reg)) val s"

definition uart_early_init :: "arch \<Rightarrow> device \<Rightarrow> 'a machine_scheme \<Rightarrow> 'a machine_scheme" where
  "uart_early_init a D s = (case a of
     X86_64 \<Rightarrow>
       (let s = uart_write_reg 3 0x80 s;
            s = uart_write_reg 0 0x01 s;
            s = uart_write_reg 1 0x00 s;
            s = uart_write_reg 3 0x03 s
        in uart_write_reg 2 0xC7 s)
   | Arm \<Rightarrow>
       (let s = or32 D (UART_RCC_BASE + 0x30) 1 s;
            s = or32 D (UART_RCC_BASE + 0x44) (push_bit 4 1) s;
            s = write32 (USART1_BASE + 0x08) 0x0683 s
        in write32 (USART1_BASE + 0x0C) (push_bit 13 1 OR push_bit 3 1 OR push_bit 2 1) s)
   | Other_arch \<Rightarrow> s)"

definition uart_status_port :: "arch \<Rightarrow> port" where
  "uart_status_port a = (case a of X86_64 \<Rightarrow> Mem8 (UART_BASE + 5) | _ \<Rightarrow> Mem32 USART1_BASE)"

definition uart_data_port :: "arch \<Rightarrow> port" where
  "uart_data_port a = (case a of X86_64 \<Rightarrow> Mem8 UART_BASE | _ \<Rightarrow> Mem32 (USART1_BASE + 0x04))"

text \<open>A \<open>char\<close> as the byte the compiler stores for it.\<close>

definition byte :: "char \<Rightarrow> u8" where
  "byte c = of_char c"

definition uart_putc :: "arch \<Rightarrow> device \<Rightarrow> char \<Rightarrow> 'a machine_scheme \<Rightarrow> 'a machine_scheme option" where
  "uart_putc a D c s = (case a of
     X86_64 \<Rightarrow> do {
       s \<leftarrow> poll D (Mem8 (UART_BASE + 5)) (\<lambda>r :: u8. r AND 0x20 \<noteq> 0) s;
       Some (uart_write_reg 0 (byte c) s) }
   | Arm \<Rightarrow> do {
       s \<leftarrow> poll D (Mem32 USART1_BASE) (\<lambda>r :: u32. r AND push_bit 7 1 \<noteq> 0) s;
       Some (write32 (USART1_BASE + 0x04) (ucast (byte c)) s) }
   | Other_arch \<Rightarrow> None)"

text \<open>The loop \<open>while (*s) uart_putc(*s++)\<close>; the end of the list is the terminating NUL.\<close>

fun uart_puts :: "arch \<Rightarrow> device \<Rightarrow> string \<Rightarrow> 'a machine_scheme \<Rightarrow> 'a machine_scheme option" where
  "uart_puts a D [] s = Some s"
| "uart_puts a D (c # cs) s =
     (if c = CHR 0x00 then Some s else do { s \<leftarrow> uart_putc a D c s; uart_puts a D cs s })"

definition hex_table :: string where
  "hex_table = ''0123456789ABCDEF''"

text \<open>The digits of \<open>for (int i = 28; i >= 0; i -= 4) putc(hex[(val >> i) & 0xF])\<close>.\<close>

definition hex_digits :: "u32 \<Rightarrow> string" where
  "hex_digits v = map (\<lambda>i. hex_table ! unat (drop_bit i v AND 0xF)) [28, 24, 20, 16, 12, 8, 4, 0]"

fun uart_chars :: "arch \<Rightarrow> device \<Rightarrow> string \<Rightarrow> 'a machine_scheme \<Rightarrow> 'a machine_scheme option" where
  "uart_chars a D [] s = Some s"
| "uart_chars a D (c # cs) s = do { s \<leftarrow> uart_putc a D c s; uart_chars a D cs s }"

definition uart_hex :: "arch \<Rightarrow> device \<Rightarrow> u32 \<Rightarrow> 'a machine_scheme \<Rightarrow> 'a machine_scheme option" where
  "uart_hex a D v s = do { s \<leftarrow> uart_puts a D ''0x'' s; uart_chars a D (hex_digits v) s }"

section \<open>What the console shows\<close>

text \<open>The characters sent so far, as the values written to the data register.\<close>

definition uart_out :: "arch \<Rightarrow> 'a machine_scheme \<Rightarrow> u64 list" where
  "uart_out a s = writes (uart_data_port a) (trace s)"

definition text_out :: "string \<Rightarrow> u64 list" where
  "text_out = map (\<lambda>c. ucast (byte c))"

lemma text_out_simps [simp]:
  "text_out [] = []" "text_out (c # cs) = ucast (byte c) # text_out cs"
  "text_out (cs @ ds) = text_out cs @ text_out ds"
  by (simp_all add: text_out_def)

text \<open>A console operation changes the trace only, and sends the given text.\<close>

definition sends :: "arch \<Rightarrow> 'a machine_scheme \<Rightarrow> string \<Rightarrow> 'a machine_scheme \<Rightarrow> bool" where
  "sends a s cs t \<longleftrightarrow> (\<exists>u. t = s\<lparr>trace := trace s @ u\<rparr> \<and> writes (uart_data_port a) u = text_out cs)"

lemma sends_nil [simp]: "sends a s [] s"
  by (auto simp: sends_def intro: exI [of _ "[]"])

lemma sends_trans: "sends a s cs t \<Longrightarrow> sends a t ds u \<Longrightarrow> sends a s (cs @ ds) u"
  by (force simp: sends_def)

lemma sends_out: "sends a s cs t \<Longrightarrow> uart_out a t = uart_out a s @ text_out cs"
  by (auto simp: sends_def uart_out_def)

lemma ucast_u32_u64 [simp]: "ucast (ucast (b :: u8) :: u32) = (ucast b :: u64)"
  by (rule bit_word_eqI) (auto simp: bit_simps dest: bit_imp_le_length)

lemma uart_putc_sends:
  assumes "uart_putc a D c s = Some t"
  shows "sends a s [c] t"
proof (cases a)
  case Arm
  then obtain s' where p: "poll D (Mem32 USART1_BASE) (\<lambda>r :: u32. r AND push_bit 7 1 \<noteq> 0) s = Some s'"
    and t: "t = write32 (USART1_BASE + 0x04) (ucast (byte c)) s'"
    using assms by (auto simp: uart_putc_def bind_eq_Some_conv)
  from poll_trace [OF p] obtain vs where "s' = s\<lparr>trace := trace s @ map (Rd (Mem32 USART1_BASE)) vs\<rparr>"
    by blast
  with t Arm show ?thesis
    by (auto simp: sends_def bus uart_data_port_def)
next
  case X86_64
  then obtain s' where p: "poll D (Mem8 (UART_BASE + 5)) (\<lambda>r :: u8. r AND 0x20 \<noteq> 0) s = Some s'"
    and t: "t = uart_write_reg 0 (byte c) s'"
    using assms by (auto simp: uart_putc_def bind_eq_Some_conv)
  from poll_trace [OF p] obtain vs where "s' = s\<lparr>trace := trace s @ map (Rd (Mem8 (UART_BASE + 5))) vs\<rparr>"
    by blast
  with t X86_64 show ?thesis
    by (auto simp: sends_def bus uart_write_reg_def uart_data_port_def)
next
  case Other_arch
  with assms show ?thesis by (simp add: uart_putc_def)
qed

lemma uart_chars_sends: "uart_chars a D cs s = Some t \<Longrightarrow> sends a s cs t"
  by (induction cs arbitrary: s)
     (auto simp: bind_eq_Some_conv dest!: uart_putc_sends dest: sends_trans [of a _ "[_]", simplified])

lemma uart_puts_chars: "uart_puts a D cs s = uart_chars a D (takeWhile (\<lambda>c. c \<noteq> CHR 0x00) cs) s"
  by (induction cs arbitrary: s) (auto intro!: arg_cong2 [where f = Option.bind])

lemma uart_puts_sends:
  "uart_puts a D cs s = Some t \<Longrightarrow> sends a s (takeWhile (\<lambda>c. c \<noteq> CHR 0x00) cs) t"
  by (simp add: uart_puts_chars uart_chars_sends)

lemma uart_hex_sends:
  assumes "uart_hex a D v s = Some t"
  shows "sends a s (''0x'' @ hex_digits v) t"
proof -
  obtain u where u: "uart_puts a D ''0x'' s = Some u" "uart_chars a D (hex_digits v) u = Some t"
    using assms unfolding uart_hex_def bind_eq_Some_conv by blast
  have "sends a s ''0x'' u" using uart_puts_sends [OF u(1)] by simp
  then show ?thesis using uart_chars_sends [OF u(2)] by (rule sends_trans)
qed

text \<open>A transmitter that is always ready: then every operation returns.\<close>

definition uart_ready :: "arch \<Rightarrow> device \<Rightarrow> bool" where
  "uart_ready a D \<longleftrightarrow> a \<noteq> Other_arch \<and>
     (\<forall>t. D t (uart_status_port a) AND (case a of X86_64 \<Rightarrow> 0x20 | _ \<Rightarrow> 0x80) \<noteq> 0)"

lemma ucast_and_bit:
  "(v :: u64) AND 0x20 \<noteq> 0 \<Longrightarrow> (ucast v :: u8) AND 0x20 \<noteq> 0"
  "v AND 0x80 \<noteq> 0 \<Longrightarrow> (ucast v :: u32) AND 0x80 \<noteq> 0"
  using and_exp_eq_0_iff_not_bit [of v 5] and_exp_eq_0_iff_not_bit [of v 7]
    and_exp_eq_0_iff_not_bit [of "ucast v :: u8" 5] and_exp_eq_0_iff_not_bit [of "ucast v :: u32" 7]
  by (simp_all add: bit_simps)

lemma uart_putc_ready:
  assumes "uart_ready a D"
  shows "\<exists>t. uart_putc a D c s = Some t"
proof (cases a)
  case Arm
  with assms have "\<And>t. (ucast (D t (Mem32 USART1_BASE)) :: u32) AND 0x80 \<noteq> 0"
    by (simp add: uart_ready_def uart_status_port_def ucast_and_bit)
  with Arm show ?thesis
    by (simp add: uart_putc_def poll_step seen_def rd_def Let_def)
next
  case X86_64
  with assms have "\<And>t. (ucast (D t (Mem8 (UART_BASE + 5))) :: u8) AND 0x20 \<noteq> 0"
    by (simp add: uart_ready_def uart_status_port_def ucast_and_bit)
  with X86_64 show ?thesis
    by (simp add: uart_putc_def poll_step seen_def rd_def Let_def)
next
  case Other_arch
  with assms show ?thesis by (simp add: uart_ready_def)
qed

lemma uart_chars_ready: "uart_ready a D \<Longrightarrow> \<exists>t. uart_chars a D cs s = Some t"
proof (induction cs arbitrary: s)
  case (Cons c cs)
  obtain s' where "uart_putc a D c s = Some s'" using uart_putc_ready [OF Cons.prems] by blast
  with Cons show ?case by simp
qed simp

lemma uart_puts_ready: "uart_ready a D \<Longrightarrow> \<exists>t. uart_puts a D cs s = Some t"
  by (simp add: uart_puts_chars uart_chars_ready)

lemma uart_hex_ready:
  assumes "uart_ready a D"
  shows "\<exists>t. uart_hex a D v s = Some t"
proof -
  obtain s' where "uart_puts a D ''0x'' s = Some s'" using uart_puts_ready [OF assms] by blast
  then show ?thesis using uart_chars_ready [OF assms, of "hex_digits v" s']
    by (simp add: uart_hex_def)
qed

text \<open>A device that always answers with all bits set is ready on both targets.\<close>

definition ones :: device where
  "ones = (\<lambda>t p. NOT 0)"

lemma ready_ones: "a \<noteq> Other_arch \<Longrightarrow> uart_ready a ones"
  by (cases a) (simp_all add: uart_ready_def ones_def)

text \<open>With a ready transmitter: what a call prints.\<close>

lemma uart_puts_out:
  assumes "uart_ready a D" "CHR 0x00 \<notin> set cs"
  shows "\<exists>t. uart_puts a D cs s = Some t \<and> uart_out a t = uart_out a s @ text_out cs"
proof -
  obtain t where t: "uart_puts a D cs s = Some t" using uart_puts_ready [OF assms(1)] by blast
  have "takeWhile (\<lambda>c. c \<noteq> CHR 0x00) cs = cs" using assms(2) by (auto simp: takeWhile_eq_all_conv)
  with t sends_out [OF uart_puts_sends [OF t]] show ?thesis by simp
qed

lemma uart_hex_out:
  assumes "uart_ready a D"
  shows "\<exists>t. uart_hex a D v s = Some t \<and> uart_out a t = uart_out a s @ text_out (''0x'' @ hex_digits v)"
  using uart_hex_ready [OF assms] sends_out [OF uart_hex_sends] by metis

end
