(* ===== verification/Kprintf.thy ===== *)
theory Kprintf
  imports Uart
begin

text \<open>
  \<open>src/kernel/kprintf.c\<close>: the kernel's formatted output. \<open>kprintf_chars\<close> is the loop over
  the format string; it yields the characters in the order they go to \<open>uart_putc\<close>. It is
  \<open>None\<close> where the C code fetches a variable argument that is not there or has another
  type, which is undefined behaviour.
\<close>

definition print_hex :: "arch \<Rightarrow> device \<Rightarrow> u32 \<Rightarrow> 'a machine_scheme \<Rightarrow> 'a machine_scheme option" where
  "print_hex a D v s = uart_chars a D (hex_digits v) s"

text \<open>The loop that fills \<open>buf\<close>, least significant digit first.\<close>

function dec_loop :: "u32 \<Rightarrow> string \<Rightarrow> string" where
  "dec_loop v buf =
     (if v \<noteq> 0 then dec_loop (v div 10) (buf @ [char_of (48 + unat (v mod 10))]) else buf)"
  by pat_completeness auto
termination
proof (relation "measure (\<lambda>(v, buf). unat v)")
  fix v :: u32 and buf :: string
  assume "v \<noteq> 0"
  then have "0 < unat v" by (simp add: unat_gt_0)
  then show "((v div 10, buf @ [char_of (48 + unat (v mod 10))]), v, buf) \<in> measure (\<lambda>(v, buf). unat v)"
    by (simp add: unat_div)
qed simp

declare dec_loop.simps [simp del]

definition dec_digits :: "u32 \<Rightarrow> string" where
  "dec_digits v = (if v = 0 then ''0'' else rev (dec_loop v []))"

definition print_dec :: "arch \<Rightarrow> device \<Rightarrow> u32 \<Rightarrow> 'a machine_scheme \<Rightarrow> 'a machine_scheme option" where
  "print_dec a D v s = uart_chars a D (dec_digits v) s"

text \<open>The variable arguments: an unsigned int or a C string.\<close>

datatype karg = KInt u32 | KStr string

definition until_nul :: "string \<Rightarrow> string" where
  "until_nul s = takeWhile (\<lambda>c. c \<noteq> CHR 0x00) s"

fun kprintf_chars :: "string \<Rightarrow> karg list \<Rightarrow> string option" where
  "kprintf_chars [] args = Some []"
| "kprintf_chars (c # fmt) args =
     (if c = CHR 0x00 then Some []
      else if c = CHR 0x25 then
        (case fmt of
           [] \<Rightarrow> Some [CHR 0x25]
         | d # rest \<Rightarrow>
             if d = CHR ''x'' then
               (case args of KInt v # args' \<Rightarrow> map_option ((@) (hex_digits v)) (kprintf_chars rest args')
                | _ \<Rightarrow> None)
             else if d = CHR ''d'' then
               (case args of KInt v # args' \<Rightarrow> map_option ((@) (dec_digits v)) (kprintf_chars rest args')
                | _ \<Rightarrow> None)
             else if d = CHR ''s'' then
               (case args of KStr t # args' \<Rightarrow> map_option ((@) (until_nul t)) (kprintf_chars rest args')
                | _ \<Rightarrow> None)
             else if d = CHR ''c'' then
               (case args of KInt v # args' \<Rightarrow> map_option ((#) (char_of (unat v))) (kprintf_chars rest args')
                | _ \<Rightarrow> None)
             else map_option ((#) (CHR 0x25)) (kprintf_chars (d # rest) args))
      else map_option ((#) c) (kprintf_chars fmt args))"

definition kprintf ::
  "arch \<Rightarrow> device \<Rightarrow> string \<Rightarrow> karg list \<Rightarrow> 'a machine_scheme \<Rightarrow> 'a machine_scheme option" where
  "kprintf a D fmt args s = do { cs \<leftarrow> kprintf_chars fmt args; uart_chars a D cs s }"

section \<open>Hexadecimal digits\<close>

definition digit_value :: "char \<Rightarrow> nat" where
  "digit_value c = (if CHR ''0'' \<le> c \<and> c \<le> CHR ''9'' then of_char c - 48 else of_char c - 55)"

definition numeral_value :: "nat \<Rightarrow> string \<Rightarrow> nat" where
  "numeral_value b cs = foldl (\<lambda>n c. b * n + digit_value c) 0 cs"

lemma hex_table_value: "n < 16 \<Longrightarrow> digit_value (hex_table ! n) = n"
proof -
  have "\<forall>n<16. digit_value (hex_table ! n) = n" by code_simp
  then show "n < 16 \<Longrightarrow> digit_value (hex_table ! n) = n" by blast
qed

lemma nibble: "unat (drop_bit i (v :: u32) AND 0xF) = unat v div 2 ^ i mod 16"
proof -
  have "drop_bit i v AND 0xF = take_bit 4 (drop_bit i v)"
    by (simp add: take_bit_eq_mask mask_eq_exp_minus_1)
  then have "unat (drop_bit i v AND 0xF) = take_bit 4 (drop_bit i (unat v))"
    by (simp only: unsigned_take_bit_eq unat_drop_bit_eq)
  then show ?thesis by (simp only: drop_bit_eq_div take_bit_eq_mod) simp
qed

lemma nibble_chain: "16 * (n div (16 * m)) + n div m mod 16 = n div (m :: nat)"
proof -
  have "n div (16 * m) = n div m div 16" by (simp add: div_mult2_eq mult.commute)
  then show ?thesis by simp
qed

lemma hex_digits_value: "numeral_value 16 (hex_digits v) = unat v"
proof -
  let ?n = "unat v"
  have "?n < 2 ^ 32" using unsigned_less [of v] by simp
  then have top: "?n div 268435456 mod 16 = ?n div 268435456" by (simp add: div_less_iff_less_mult)
  have d: "digit_value (hex_table ! unat (drop_bit i v AND 0xF)) = ?n div 2 ^ i mod 16" for i
    using hex_table_value [of "unat (drop_bit i v AND 0xF)"] by (simp add: nibble)
  show ?thesis
    using d [of 0] nibble_chain [of ?n 16777216] nibble_chain [of ?n 1048576] nibble_chain [of ?n 65536]
      nibble_chain [of ?n 4096] nibble_chain [of ?n 256] nibble_chain [of ?n 16] nibble_chain [of ?n 1]
    by (simp add: numeral_value_def hex_digits_def d top)
qed

section \<open>Decimal digits\<close>

lemma digit_value_dec: "n < 10 \<Longrightarrow> digit_value (char_of (48 + n)) = n"
proof -
  have "\<forall>n<10. digit_value (char_of (48 + n)) = n" by code_simp
  then show "n < 10 \<Longrightarrow> digit_value (char_of (48 + n)) = n" by blast
qed

lemma unat_div_mod_10:
  "unat (v div 10) = unat v div 10" "unat (v mod 10) = unat v mod 10" for v :: u32
  by (simp_all add: unat_div unat_mod)

lemma numeral_value_snoc: "numeral_value b (cs @ [c]) = b * numeral_value b cs + digit_value c"
  by (simp add: numeral_value_def)

lemma numeral_value_append:
  "numeral_value b (cs @ ds) = numeral_value b cs * b ^ length ds + numeral_value b ds"
  by (induction ds rule: rev_induct)
     (simp_all add: numeral_value_def algebra_simps)

text \<open>The loop's invariant: the digits written and the value left make up the number.\<close>

lemma dec_loop_value:
  "numeral_value 10 (rev (dec_loop v buf)) = unat v * 10 ^ length buf + numeral_value 10 (rev buf)"
proof (induction v buf rule: dec_loop.induct)
  case (1 v buf)
  show ?case
  proof (cases "v = 0")
    case True
    then show ?thesis by (simp add: dec_loop.simps)
  next
    case False
    let ?c = "char_of (48 + unat (v mod 10)) :: char"
    have c: "digit_value ?c = unat v mod 10"
      using digit_value_dec [of "unat (v mod 10)"] by (simp add: unat_div_mod_10)
    have "numeral_value 10 (rev (dec_loop v buf)) =
        unat (v div 10) * 10 ^ length (buf @ [?c]) + numeral_value 10 (rev (buf @ [?c]))"
      using "1.IH" False by (simp add: dec_loop.simps [of v buf])
    also have "\<dots> = unat v div 10 * 10 ^ Suc (length buf) + unat v mod 10 * 10 ^ length buf +
        numeral_value 10 (rev buf)"
      using numeral_value_append [of 10 "[?c]" "rev buf"] c
      by (simp add: numeral_value_def unat_div_mod_10)
    also have "unat v div 10 * 10 ^ Suc (length buf) + unat v mod 10 * 10 ^ length buf =
        (unat v div 10 * 10 + unat v mod 10) * 10 ^ length buf"
      by (simp only: distrib_right power_Suc mult.assoc)
    also have "unat v div 10 * 10 + unat v mod 10 = unat v" by (rule div_mult_mod_eq)
    finally show ?thesis .
  qed
qed

lemma dec_loop_length: "unat v < 10 ^ n \<Longrightarrow> length (dec_loop v buf) \<le> length buf + n"
proof (induction n arbitrary: v buf)
  case 0
  then show ?case by (simp add: dec_loop.simps unat_eq_0)
next
  case (Suc n)
  have "unat (v div 10) < 10 ^ n" using Suc.prems by (simp add: unat_div_mod_10 less_mult_imp_div_less)
  from Suc.IH [OF this, of "buf @ [char_of (48 + unat (v mod 10))]"]
  show ?case by (simp add: dec_loop.simps [of v buf])
qed

lemma dec_digits_value: "numeral_value 10 (dec_digits v) = unat v"
  by (simp add: dec_digits_def dec_loop_value) (simp add: numeral_value_def digit_value_def less_eq_char_def)

section \<open>Formats and their arguments\<close>

text \<open>The conversions a format asks for, in order, as \<open>kprintf\<close> reads it.\<close>

fun conversions :: "string \<Rightarrow> string" where
  "conversions [] = []"
| "conversions (c # fmt) =
     (if c = CHR 0x00 then []
      else if c = CHR 0x25 then
        (case fmt of [] \<Rightarrow> []
         | d # rest \<Rightarrow> if d \<in> {CHR ''x'', CHR ''d'', CHR ''s'', CHR ''c''} then d # conversions rest
             else conversions (d # rest))
      else conversions fmt)"

definition fits :: "char \<Rightarrow> karg \<Rightarrow> bool" where
  "fits d a = (case a of KStr _ \<Rightarrow> d = CHR ''s'' | KInt _ \<Rightarrow> d \<noteq> CHR ''s'')"

lemma fits_simps [simp]:
  "fits d (KInt v) = (d \<noteq> CHR ''s'')" "fits d (KStr t) = (d = CHR ''s'')"
  by (simp_all add: fits_def)

lemma kprintf_chars_total:
  "length (conversions fmt) \<le> length args \<Longrightarrow> list_all2 fits (conversions fmt) (take (length (conversions fmt)) args) \<Longrightarrow>
   \<exists>cs. kprintf_chars fmt args = Some cs"
proof (induction fmt args rule: kprintf_chars.induct)
  case (1 args)
  then show ?case by simp
next
  case (2 c fmt args)
  show ?case
  proof (cases "c = CHR 0x25")
    case False
    with 2 show ?thesis by auto
  next
    case pct: True
    show ?thesis
    proof (cases fmt)
      case Nil
      with pct show ?thesis by simp
    next
      case (Cons d rest)
      show ?thesis
      proof (cases "d \<in> {CHR ''x'', CHR ''d'', CHR ''s'', CHR ''c''}")
        case True
        then obtain x args' where args: "args = x # args'"
          using 2(7) pct Cons by (cases args) auto
        have "fits d x" "length (conversions rest) \<le> length args'"
          "list_all2 fits (conversions rest) (take (length (conversions rest)) args')"
          using 2(7,8) pct Cons True args by auto
        with 2(1-4) pct Cons True args show ?thesis by (cases x) auto
      next
        case False
        with 2(5) 2(7,8) pct Cons show ?thesis by auto
      qed
    qed
  qed
qed

lemma kprintf_sends:
  "kprintf a D fmt args s = Some t \<Longrightarrow> \<exists>cs. kprintf_chars fmt args = Some cs \<and> sends a s cs t"
  by (auto simp: kprintf_def bind_eq_Some_conv dest: uart_chars_sends)

section \<open>What is printed\<close>

text \<open>A numeral: a nonempty string of the digits below the base with the value of the number.\<close>

definition is_numeral :: "nat \<Rightarrow> string \<Rightarrow> nat \<Rightarrow> bool" where
  "is_numeral b cs n \<longleftrightarrow> cs \<noteq> [] \<and> set cs \<subseteq> set (take b ''0123456789ABCDEF'') \<and> numeral_value b cs = n"

text \<open>The numerals a reader expects: decimal without leading zeros, and hexadecimal of eight digits.\<close>

fun decimal :: "nat \<Rightarrow> string" where
  "decimal n = (if n < 10 then [''0123456789'' ! n] else decimal (n div 10) @ [''0123456789'' ! (n mod 10)])"

declare decimal.simps [simp del]

definition hexadecimal :: "nat \<Rightarrow> string" where
  "hexadecimal n = map (\<lambda>i. ''0123456789ABCDEF'' ! (n div 16 ^ i mod 16)) [7, 6, 5, 4, 3, 2, 1, 0]"

lemma decimal_digit: "n < 10 \<Longrightarrow> char_of (48 + n) = ''0123456789'' ! n"
proof -
  have "\<forall>n<10. char_of (48 + n) = ''0123456789'' ! n" by code_simp
  then show "n < 10 \<Longrightarrow> char_of (48 + n) = ''0123456789'' ! n" by blast
qed

lemma dec_loop_decimal: "v \<noteq> 0 \<Longrightarrow> rev (dec_loop v buf) = decimal (unat v) @ rev buf"
proof (induction v buf rule: dec_loop.induct)
  case (1 v buf)
  let ?c = "char_of (48 + unat (v mod 10)) :: char"
  have c: "?c = ''0123456789'' ! (unat v mod 10)" using decimal_digit [of "unat v mod 10"] by (simp add: unat_div_mod_10)
  have step: "dec_loop v buf = dec_loop (v div 10) (buf @ [?c])" using 1(2) by (simp add: dec_loop.simps [of v buf])
  show ?case
  proof (cases "v div 10 = 0")
    case True
    then have "unat v div 10 = 0" by (metis unat_0 unat_div_mod_10(1))
    then have "unat v < 10" by simp
    then show ?thesis using c by (simp add: step True dec_loop.simps [of 0] decimal.simps [of "unat v"])
  next
    case False
    then have "unat v div 10 \<noteq> 0" by (metis unat_div_mod_10(1) unat_eq_0)
    then have "\<not> unat v < 10" by simp
    then show ?thesis using 1(1) [OF 1(2) False] c
      by (simp add: step decimal.simps [of "unat v"] unat_div_mod_10)
  qed
qed

lemma dec_digits_decimal: "dec_digits v = decimal (unat v)"
  using dec_loop_decimal [of v "[]"] by (simp add: dec_digits_def decimal.simps [of 0])

lemma hex_digits_hexadecimal: "hex_digits v = hexadecimal (unat v)"
proof -
  have "hex_table ! unat (drop_bit i v AND 0xF) = ''0123456789ABCDEF'' ! (unat v div 2 ^ i mod 16)" for i
    by (simp only: hex_table_def nibble)
  then show ?thesis by (simp add: hex_digits_def hexadecimal_def)
qed

lemma digit_mem: "n < 10 \<Longrightarrow> ''0123456789'' ! n \<in> set (take 10 ''0123456789ABCDEF'')"
proof -
  have "\<forall>n<10. ''0123456789'' ! n \<in> set (take 10 ''0123456789ABCDEF'')" by code_simp
  then show "n < 10 \<Longrightarrow> ''0123456789'' ! n \<in> set (take 10 ''0123456789ABCDEF'')" by blast
qed

lemma decimal_digits: "decimal n \<noteq> [] \<and> set (decimal n) \<subseteq> set (take 10 ''0123456789ABCDEF'')"
proof (induction n rule: decimal.induct)
  case (1 n)
  then show ?case using digit_mem [of n] digit_mem [of "n mod 10"]
    by (simp only: decimal.simps [of n] split: if_split) (auto simp del: take_Suc_Cons)
qed

lemma decimal_hd: "0 < n \<Longrightarrow> hd (decimal n) \<noteq> CHR ''0''"
proof (induction n rule: decimal.induct)
  case (1 n)
  have z: "\<forall>n<10. 0 < n \<longrightarrow> ''0123456789'' ! n \<noteq> CHR ''0''" by code_simp
  show ?case
  proof (cases "n < 10")
    case True
    then show ?thesis using 1(2) z by (simp add: decimal.simps [of n])
  next
    case False
    then have "0 < n div 10" by simp
    then show ?thesis using 1(1) [OF False] decimal_digits [of "n div 10"] False by (simp add: decimal.simps [of n])
  qed
qed

lemma hexadecimal_digits: "set (hexadecimal n) \<subseteq> set (take 16 ''0123456789ABCDEF'')"
proof -
  have "\<forall>k<16. ''0123456789ABCDEF'' ! k \<in> set (take 16 ''0123456789ABCDEF'')" by code_simp
  then have "''0123456789ABCDEF'' ! (n div 16 ^ i mod 16) \<in> set (take 16 ''0123456789ABCDEF'')" for i by simp
  then show ?thesis unfolding hexadecimal_def set_map by blast
qed

text \<open>C7: \<open>print_dec\<close> sends the decimal numeral of its argument, which has no leading zero and at most ten digits, so
  the twelve bytes of its buffer are never overrun; \<open>print_hex\<close> sends the hexadecimal numeral with exactly eight digits.\<close>

theorem printed_numbers:
  "\<exists>ds hs. (\<forall>a D (s :: 'a machine_scheme). print_dec a D v s = uart_chars a D ds s) \<and> is_numeral 10 ds (unat v) \<and>
     (hd ds = CHR ''0'') = (ds = ''0'') \<and> length ds \<le> 10 \<and>
     (\<forall>a D (s :: 'a machine_scheme). print_hex a D v s = uart_chars a D hs s) \<and> is_numeral 16 hs (unat v) \<and> length hs = 8"
proof (intro exI conjI)
  have "unat v < 10 ^ 10" using unsigned_less [of v, where ?'a = nat] by simp
  from dec_loop_length [OF this, of "[]"] show "length (dec_digits v) \<le> 10" by (simp add: dec_digits_def)
  show "is_numeral 10 (dec_digits v) (unat v)"
    using decimal_digits [of "unat v"] dec_digits_value [of v] by (simp only: is_numeral_def dec_digits_decimal simp_thms)
  show "(hd (dec_digits v) = CHR ''0'') = (dec_digits v = ''0'')"
  proof (cases "v = 0")
    case True
    then show ?thesis by (simp add: dec_digits_def)
  next
    case False
    then have "hd (dec_digits v) \<noteq> CHR ''0''" using decimal_hd [of "unat v"] by (simp add: dec_digits_decimal unat_gt_0)
    then show ?thesis by auto
  qed
  show "length (hex_digits v) = 8" by (simp add: hex_digits_def)
  then have "hex_digits v \<noteq> []" by auto
  then show "is_numeral 16 (hex_digits v) (unat v)"
    using hexadecimal_digits [of "unat v"] hex_digits_value [of v]
    by (simp only: is_numeral_def hex_digits_hexadecimal simp_thms)
qed (simp_all add: print_dec_def print_hex_def)

section \<open>The meaning of a format\<close>

text \<open>A format is a sequence of pieces: ordinary text, a conversion with its argument, or a percent sign that no conversion
  letter follows. This is the format of a piece, its arguments (a string ends at its NUL, whatever follows it in
  memory), and the text a reader expects for it.\<close>

datatype piece = Text string | Hex u32 | Dec u32 | Chr u32 | Str string string | Percent

fun piece_format :: "piece \<Rightarrow> string" where
  "piece_format (Text cs) = cs"
| "piece_format (Hex v) = ''%x''"
| "piece_format (Dec v) = ''%d''"
| "piece_format (Chr v) = ''%c''"
| "piece_format (Str cs rest) = ''%s''"
| "piece_format Percent = ''%''"

fun piece_args :: "piece \<Rightarrow> karg list" where
  "piece_args (Text cs) = []"
| "piece_args (Hex v) = [KInt v]"
| "piece_args (Dec v) = [KInt v]"
| "piece_args (Chr v) = [KInt v]"
| "piece_args (Str cs rest) = [KStr (cs @ CHR 0x00 # rest)]"
| "piece_args Percent = []"

fun piece_text :: "piece \<Rightarrow> string" where
  "piece_text (Text cs) = cs"
| "piece_text (Hex v) = hexadecimal (unat v)"
| "piece_text (Dec v) = decimal (unat v)"
| "piece_text (Chr v) = [char_of (unat v mod 256)]"
| "piece_text (Str cs rest) = cs"
| "piece_text Percent = ''%''"

definition format_of :: "piece list \<Rightarrow> string" where "format_of ps = concat (map piece_format ps)"
definition args_of :: "piece list \<Rightarrow> karg list" where "args_of ps = concat (map piece_args ps)"
definition text_of :: "piece list \<Rightarrow> string" where "text_of ps = concat (map piece_text ps)"

text \<open>Ordinary text has neither a percent sign nor a NUL, a string argument no NUL before its end, and after a lone percent
  sign the format goes on with something that is no conversion letter.\<close>

fun well_formed :: "piece list \<Rightarrow> bool" where
  "well_formed [] = True"
| "well_formed (p # ps) =
     ((case p of
         Text cs \<Rightarrow> CHR ''%'' \<notin> set cs \<and> CHR 0x00 \<notin> set cs
       | Str cs rest \<Rightarrow> CHR 0x00 \<notin> set cs
       | Percent \<Rightarrow> (case format_of ps of [] \<Rightarrow> True | c # _ \<Rightarrow> c \<notin> set ''xdsc'')
       | _ \<Rightarrow> True) \<and> well_formed ps)"

lemma of_Cons:
  "format_of (p # ps) = piece_format p @ format_of ps" "args_of (p # ps) = piece_args p @ args_of ps"
  "text_of (p # ps) = piece_text p @ text_of ps" "format_of [] = []" "args_of [] = []" "text_of [] = []"
  by (simp_all add: format_of_def args_of_def text_of_def)

lemma kprintf_chars_text:
  "CHR ''%'' \<notin> set cs \<Longrightarrow> CHR 0x00 \<notin> set cs \<Longrightarrow> kprintf_chars (cs @ fmt) args = map_option ((@) cs) (kprintf_chars fmt args)"
  by (induction cs) (cases "kprintf_chars fmt args"; auto)+

lemma until_nul_append: "CHR 0x00 \<notin> set cs \<Longrightarrow> until_nul (cs @ CHR 0x00 # rest) = cs"
  unfolding until_nul_def by (induction cs) auto

lemma kprintf_chars_pieces:
  assumes "well_formed ps" "stop = [] \<or> hd stop = CHR 0x00"
  shows "kprintf_chars (format_of ps @ stop) (args_of ps @ extra) = Some (text_of ps)"
  using assms(1)
proof (induction ps)
  case Nil
  then show ?case using assms(2) by (cases stop) (auto simp: of_Cons)
next
  case (Cons p ps)
  then have IH: "kprintf_chars (format_of ps @ stop) (args_of ps @ extra) = Some (text_of ps)" by simp
  show ?case
  proof (cases p)
    case (Text cs)
    then show ?thesis using Cons.prems IH by (simp add: of_Cons kprintf_chars_text)
  next
    case Percent
    then show ?thesis using Cons.prems IH assms(2)
      by (cases "format_of ps"; cases stop) (auto simp: of_Cons)
  next
    case (Str cs m)
    then show ?thesis using Cons.prems IH by (simp add: of_Cons until_nul_append)
  next
    case (Chr v)
    then show ?thesis using IH by (simp add: of_Cons)
  qed (use IH in \<open>simp_all add: of_Cons dec_digits_decimal hex_digits_hexadecimal\<close>)
qed



end
