(* ===== verification/Tick_Wait.thy ===== *)
theory Tick_Wait
  imports Blood_Prelude
begin

text \<open>
  Waiting for a tick counter that an interrupt handler advances: the interface between the
  delay loops of \<open>pit.c\<close> and \<open>timer.c\<close> and the tick sources they poll. The laws say that the
  handler adds one tick, that idling leaves the counter alone, and that the wait is the loop
  \<open>while (ticks < target) idle;\<close> where \<open>irqs k\<close> interrupts are taken before the \<open>k\<close>-th read.
\<close>

locale tick_wait =
  fixes irq :: "'s \<Rightarrow> 's"
    and ticks :: "'s \<Rightarrow> u32"
    and idle :: "'s \<Rightarrow> 's"
    and wait :: "(nat \<Rightarrow> nat) \<Rightarrow> nat \<Rightarrow> u32 \<Rightarrow> 's \<Rightarrow> 's option"
  assumes tick: "ticks (irq s) = ticks s + 1"
    and idle_ticks: "ticks (idle s) = ticks s"
    and wait_loop: "wait irqs k target s = (let s = (irq ^^ irqs k) s
      in if ticks s < target then wait irqs (Suc k) target (idle s) else Some s)"
    and wait_reaches: "wait irqs k target s = Some t \<Longrightarrow> target \<le> ticks t"
begin

lemma irqs_ticks: "ticks ((irq ^^ n) s) = ticks s + of_nat n"
  by (induction n) (simp_all add: tick)

text \<open>A target that is not ahead of the counter is not waited for at all.\<close>

lemma wait_past:
  "\<not> ticks ((irq ^^ irqs k) s) < target \<Longrightarrow> wait irqs k target s = Some ((irq ^^ irqs k) s)"
  by (subst wait_loop) (simp add: Let_def)

text \<open>One interrupt between any two reads: the loop ends at the target, exactly.\<close>

lemma wait_regular:
  assumes "unat (ticks s) + n < 2 ^ 32" "0 < n"
  shows "\<exists>t. wait (\<lambda>_. 1) k (ticks s + of_nat n) s = Some t \<and> ticks t = ticks s + of_nat n"
  using assms
proof (induction n arbitrary: s k)
  case 0
  then show ?case by simp
next
  case (Suc n)
  let ?s = "irq s"
  have tgt: "ticks s + of_nat (Suc n) = ticks ?s + of_nat n" by (simp add: tick)
  show ?case
  proof (cases n)
    case 0
    then show ?thesis by (subst wait_loop) (simp add: tick)
  next
    case (Suc m)
    have un: "unat (ticks ?s) = unat (ticks s) + 1"
      using Suc.prems(1) by (simp add: tick unat_word_ariths)
    have "ticks ?s < ticks ?s + of_nat n"
      using Suc.prems(1) un Suc by (simp add: word_less_nat_alt unat_word_ariths unat_of_nat)
    then have "wait (\<lambda>_. 1) k (ticks s + of_nat (Suc n)) s =
        wait (\<lambda>_. 1) (Suc k) (ticks ?s + of_nat n) (idle ?s)"
      unfolding tgt by (subst wait_loop) (simp add: Let_def)
    moreover obtain t where "wait (\<lambda>_. 1) (Suc k) (ticks ?s + of_nat n) (idle ?s) = Some t"
      "ticks t = ticks ?s + of_nat n"
      using Suc.IH [of "idle ?s" "Suc k"] Suc.prems(1) un Suc idle_ticks [of ?s] by auto
    ultimately show ?thesis unfolding tgt by metis
  qed
qed

end

end
