(* ===== verification/Pit.thy ===== *)
theory Pit
  imports Tick_Wait
begin

text \<open>
  \<open>src/drivers/pit.c\<close>: the 8253/8254 interval timer of the PC.

  \<open>pit_ticks\<close> is advanced by the interrupt handler, which runs between the reads of the
  waiting loops: \<open>irqs k\<close> is the number of timer interrupts taken before the \<open>k\<close>-th
  read. A division by a zero frequency traps, and a waiting loop may not end; both are \<open>None\<close>.
  The file's \<open>1000000UL\<close> is 32 bits wide on the i686 target.
\<close>

definition PIT_FREQUENCY :: u32 where "PIT_FREQUENCY = 1193182"

record pit = machine +
  pit_ticks :: u32
  pit_frequency :: u32
  pit_loops_per_10ms :: u32

definition udiv :: "'w::len word \<Rightarrow> 'w word \<Rightarrow> 'w word option" where
  "udiv a b = (if b = 0 then None else Some (a div b))"

definition pit_send_count :: "u16 \<Rightarrow> u16 \<Rightarrow> 'a machine_scheme \<Rightarrow> 'a machine_scheme" where
  "pit_send_count chan d s =
     (let s = outb chan (ucast (d AND 0xFF)) s
      in outb chan (ucast (drop_bit 8 d AND 0xFF)) s)"

definition pit_init :: "u32 \<Rightarrow> 'a pit_scheme \<Rightarrow> 'a pit_scheme option" where
  "pit_init frequency s = do {
     let s = s\<lparr>pit_frequency := frequency\<rparr>;
     q \<leftarrow> udiv PIT_FREQUENCY frequency;
     let divisor = (ucast q :: u16);
     let s = outb 0x43 (0x00 OR 0x30 OR 0x04 OR 0x00) s;
     Some (pit_send_count 0x40 divisor s)
   }"

definition pit_irq_handler :: "'a pit_scheme \<Rightarrow> 'a pit_scheme" where
  "pit_irq_handler s = s\<lparr>pit_ticks := pit_ticks s + 1\<rparr>"

definition pit_get_ticks :: "'a pit_scheme \<Rightarrow> u32" where
  "pit_get_ticks s = pit_ticks s"

definition pit_get_frequency :: "'a pit_scheme \<Rightarrow> u32" where
  "pit_get_frequency s = pit_frequency s"

text \<open>\<open>while (pit_ticks < target) hlt;\<close>\<close>

partial_function (option) pit_wait ::
  "(nat \<Rightarrow> nat) \<Rightarrow> nat \<Rightarrow> u32 \<Rightarrow> 'a pit_scheme \<Rightarrow> 'a pit_scheme option" where
  "pit_wait irqs k target s =
     (let s = (pit_irq_handler ^^ irqs k) s
      in if pit_ticks s < target then pit_wait irqs (Suc k) target (insn Hlt s) else Some s)"

definition pit_delay :: "(nat \<Rightarrow> nat) \<Rightarrow> u32 \<Rightarrow> 'a pit_scheme \<Rightarrow> 'a pit_scheme option" where
  "pit_delay irqs ms s = pit_wait irqs 0 (pit_ticks s + ms * pit_frequency s div 1000) s"

text \<open>Latch a channel and read its counter, low byte first.\<close>

definition pit_latch :: "device \<Rightarrow> 'a machine_scheme \<Rightarrow> u16 \<times> 'a machine_scheme" where
  "pit_latch D s =
     (let s = outb 0x43 (0x00 OR 0x00) s;
          (low, s) = inb D 0x40 s;
          (high, s) = inb D 0x40 s
      in (push_bit 8 (ucast high) OR ucast low, s))"

text \<open>\<open>do { latch } while (current == prev && target_us > 0);\<close> with \<open>target_us\<close> positive.\<close>

partial_function (option) pit_wait_change ::
  "device \<Rightarrow> u16 \<Rightarrow> 'a machine_scheme \<Rightarrow> (u16 \<times> 'a machine_scheme) option" where
  "pit_wait_change D prev s =
     (case pit_latch D s of (current, s) \<Rightarrow>
        if current = prev then pit_wait_change D prev s else Some (current, s))"

definition pit_elapsed :: "u16 \<Rightarrow> u16 \<Rightarrow> u16" where
  "pit_elapsed prev current =
     (if prev > current then prev - current else of_nat (65536 - unat current + unat prev))"

partial_function (option) pit_delay_us ::
  "device \<Rightarrow> u32 \<Rightarrow> 'a machine_scheme \<Rightarrow> 'a machine_scheme option" where
  "pit_delay_us D target_us s =
     (if target_us > 0 then
        (case pit_latch D s of (prev, s) \<Rightarrow> do {
           (current, s) \<leftarrow> pit_wait_change D prev s;
           let elapsed_us = ucast (pit_elapsed prev current) * 1000000 div PIT_FREQUENCY;
           pit_delay_us D (if elapsed_us \<ge> target_us then 0 else target_us - elapsed_us) s
         })
      else Some s)"

definition pit_beep ::
  "device \<Rightarrow> (nat \<Rightarrow> nat) \<Rightarrow> u32 \<Rightarrow> u32 \<Rightarrow> 'a pit_scheme \<Rightarrow> 'a pit_scheme option" where
  "pit_beep D irqs frequency duration_ms s =
     (if frequency = 0 then
        (let (tmp, s) = inb D 0x61 s in Some (outb 0x61 (tmp AND 0xFC) s))
      else do {
        q \<leftarrow> udiv PIT_FREQUENCY frequency;
        let divisor = (ucast q :: u16);
        let s = outb 0x43 (0x80 OR 0x30 OR 0x06 OR 0x00) s;
        let s = pit_send_count 0x42 divisor s;
        let (tmp, s) = inb D 0x61 s;
        let s = (if tmp \<noteq> tmp OR 3 then outb 0x61 (tmp OR 3) s else s);
        if duration_ms > 0 then do {
          s \<leftarrow> pit_delay irqs duration_ms s;
          let (tmp, s) = inb D 0x61 s;
          Some (outb 0x61 (tmp AND 0xFC) s)
        } else Some s
      })"

definition pit_get_uptime_ms :: "'a pit_scheme \<Rightarrow> u64 option" where
  "pit_get_uptime_ms s = udiv (ucast (pit_ticks s) * 1000) (ucast (pit_frequency s))"

definition pit_get_uptime_us :: "device \<Rightarrow> 'a pit_scheme \<Rightarrow> (u64 \<times> 'a pit_scheme) option" where
  "pit_get_uptime_us D s = do {
     ms \<leftarrow> pit_get_uptime_ms s;
     let (current, s) = pit_latch D s;
     q \<leftarrow> udiv PIT_FREQUENCY (pit_frequency s);
     let divisor = (ucast q :: u16);
     let elapsed_ticks = divisor - current;
     let sub_ms_us = ucast elapsed_ticks * 1000 div (PIT_FREQUENCY div 1000);
     Some (ms * 1000 + ucast sub_ms_us, s)
   }"

partial_function (option) pit_count_loops ::
  "(nat \<Rightarrow> nat) \<Rightarrow> nat \<Rightarrow> u32 \<Rightarrow> u32 \<Rightarrow> 'a pit_scheme \<Rightarrow> (u32 \<times> 'a pit_scheme) option" where
  "pit_count_loops irqs k start_ticks loops s =
     (let s = (pit_irq_handler ^^ irqs k) s
      in if pit_ticks s < start_ticks + pit_frequency s div 100
         then pit_count_loops irqs (Suc k) start_ticks (loops + 1) s
         else Some (loops, s))"

definition pit_calibrate_delay_loop :: "(nat \<Rightarrow> nat) \<Rightarrow> 'a pit_scheme \<Rightarrow> 'a pit_scheme option" where
  "pit_calibrate_delay_loop irqs s = do {
     (loops, s) \<leftarrow> pit_count_loops irqs 0 (pit_ticks s) 0 s;
     let s = s\<lparr>pit_loops_per_10ms := loops\<rparr>;
     Some s
   }"

definition pit_reset :: "'a pit_scheme \<Rightarrow> 'a pit_scheme" where
  "pit_reset s = s\<lparr>pit_ticks := 0\<rparr>"

definition pit_set_channel1 :: "u16 \<Rightarrow> 'a machine_scheme \<Rightarrow> 'a machine_scheme" where
  "pit_set_channel1 divisor s =
     (let s = outb 0x43 (0x40 OR 0x30 OR 0x04 OR 0x00) s in pit_send_count 0x41 divisor s)"

definition pit_read_counter :: "device \<Rightarrow> u8 \<Rightarrow> 'a machine_scheme \<Rightarrow> u16 \<times> 'a machine_scheme" where
  "pit_read_counter D channel s =
     (let command = push_bit 6 channel OR 0x00;
          s = outb 0x43 command s;
          (low, s) = inb D (0x40 + ucast channel) s;
          (high, s) = inb D (0x40 + ucast channel) s
      in (push_bit 8 (ucast high) OR ucast low, s))"

definition pit_oneshot :: "u8 \<Rightarrow> u16 \<Rightarrow> 'a machine_scheme \<Rightarrow> 'a machine_scheme" where
  "pit_oneshot channel count s =
     (let command = push_bit 6 channel OR 0x30 OR 0x02 OR 0x00;
          s = outb 0x43 command s
      in pit_send_count (0x40 + ucast channel) count s)"

section \<open>Programming the divisor\<close>

lemma split_u16: "unat (ucast (d AND 0xFF) :: u8) + 256 * unat (ucast (drop_bit 8 d AND 0xFF) :: u8) = unat (d :: u16)"
proof -
  have *: "(ucast (d AND 0xFF) :: u8) = ucast d" "(ucast (drop_bit 8 d AND 0xFF) :: u8) = ucast (drop_bit 8 d)"
    by (auto simp: and_masks bit_eq_iff bit_simps)
  have "unat (ucast d :: u8) = unat d mod 256"
    by (simp add: unsigned_ucast_eq take_bit_eq_mod)
  moreover have "unat (ucast (drop_bit 8 d) :: u8) = unat d div 256"
    using unsigned_less [of d, where ?'a = nat]
    by (simp only: unsigned_ucast_eq unat_drop_bit_eq) (simp add: take_bit_eq_mod drop_bit_eq_div)
  ultimately show ?thesis unfolding * by simp
qed

lemma pit_send_count_writes:
  "pit_send_count chan d s = s\<lparr>trace := trace s @
     [Wr (Port8 chan) (ucast (ucast (d AND 0xFF) :: u8)),
      Wr (Port8 chan) (ucast (ucast (drop_bit 8 d AND 0xFF) :: u8))]\<rparr>"
  by (simp add: pit_send_count_def bus)

section \<open>The waiting loop\<close>

lemma pit_wait_SomeD:
  assumes "pit_wait irqs k target s = Some t"
  shows "target \<le> pit_ticks t"
proof (rule pit_wait.raw_induct [where P = "\<lambda>irqs k target s t. target \<le> pit_ticks t", OF _ assms])
  fix f :: "(nat \<Rightarrow> nat) \<Rightarrow> nat \<Rightarrow> u32 \<Rightarrow> 'a pit_scheme \<Rightarrow> 'a pit_scheme option"
    and irqs k target s t
  assume "\<And>irqs k target s t. f irqs k target s = Some t \<Longrightarrow> target \<le> pit_ticks t"
    and "(let s = (pit_irq_handler ^^ irqs k) s
      in if pit_ticks s < target then f irqs (Suc k) target (insn Hlt s) else Some s) = Some t"
  then show "target \<le> pit_ticks t" by (auto simp: Let_def not_less split: if_splits)
qed

interpretation pit_clock: tick_wait pit_irq_handler pit_ticks "insn Hlt" pit_wait
proof unfold_locales
  show "pit_wait irqs k target s = (let s = (pit_irq_handler ^^ irqs k) s
      in if pit_ticks s < target then pit_wait irqs (Suc k) target (insn Hlt s) else Some s)"
    for irqs k target and s :: "'a pit_scheme" by (rule pit_wait.simps)
qed (simp_all add: pit_irq_handler_def insn_def pit_wait_SomeD)

section \<open>Short waits\<close>

text \<open>A counter that goes down by one from each latch to the next.\<close>

definition counts_down :: "device \<Rightarrow> 'a machine_scheme itself \<Rightarrow> bool" where
  "counts_down D _ \<longleftrightarrow> (\<forall>s :: 'a machine_scheme.
     fst (pit_latch D (snd (pit_latch D s))) = fst (pit_latch D s) - 1)"

lemma pit_elapsed_one: "pit_elapsed c (c - 1) = 1"
proof (cases "c = 0")
  case True
  have "(0 - 1 :: u16) = 65535" by simp
  then have "pit_elapsed 0 (0 - 1) = 1" by (simp only: pit_elapsed_def) simp
  with True show ?thesis by simp
next
  case False
  then have "c - 1 < c" by (simp add: word_less_nat_alt unat_minus_one unat_gt_0)
  then show ?thesis by (simp add: pit_elapsed_def)
qed

lemma pit_wait_change_down:
  assumes "counts_down D TYPE('a machine_scheme)"
  shows "pit_wait_change D (fst (pit_latch D s)) (snd (pit_latch D s) :: 'a machine_scheme) =
    Some (fst (pit_latch D s) - 1, snd (pit_latch D (snd (pit_latch D s))))"
  using assms by (subst pit_wait_change.simps) (simp add: counts_down_def split_beta)

lemma pit_delay_us_down:
  assumes "counts_down D TYPE('a machine_scheme)" "0 < target_us"
  shows "pit_delay_us D target_us (s :: 'a machine_scheme) = None"
proof -
  have "D' = D \<longrightarrow> target_us = 0" if "pit_delay_us D' target_us s = Some t" for D' target_us and s t :: "'a machine_scheme"
  proof (rule pit_delay_us.raw_induct [where P = "\<lambda>D' u s t. D' = D \<longrightarrow> u = 0", OF _ that])
    fix f :: "device \<Rightarrow> u32 \<Rightarrow> 'a machine_scheme \<Rightarrow> 'a machine_scheme option" and D' u s t
    assume IH: "\<And>D' u s t. f D' u s = Some t \<Longrightarrow> D' = D \<longrightarrow> u = 0"
      and eq: "(if 0 < u then
        (case pit_latch D' s of (prev, s) \<Rightarrow> do {
           (current, s) \<leftarrow> pit_wait_change D' prev s;
           let elapsed_us = ucast (pit_elapsed prev current) * 1000000 div PIT_FREQUENCY;
           f D' (if elapsed_us \<ge> u then 0 else u - elapsed_us) s
         }) else Some s) = Some t"
    show "D' = D \<longrightarrow> u = 0"
    proof (intro impI, rule ccontr)
      assume D: "D' = D" and "u \<noteq> 0"
      then have "0 < u" by (simp add: word_gt_0)
      then have "f D u (snd (pit_latch D (snd (pit_latch D s)))) = Some t"
        using eq D \<open>u \<noteq> 0\<close> pit_wait_change_down [OF assms(1), of s]
        by (simp add: split_beta pit_elapsed_one PIT_FREQUENCY_def)
      with IH D \<open>u \<noteq> 0\<close> show False by blast
    qed
  qed
  then show ?thesis using assms(2) by (cases "pit_delay_us D target_us s") auto
qed

section \<open>Properties\<close>

text \<open>\<open>pit_init\<close> puts channel 0 into mode 2 and programs it, low byte first, with the divisor
  1193182 / f truncated to 16 bits: the intended divisor from 19 Hz up.\<close>

lemma pit_init_programs:
  assumes "f \<noteq> 0"
  shows "\<exists>lo hi. pit_init f s = Some (s\<lparr>pit_frequency := f,
      trace := trace s @ [Wr (Port8 0x43) 0x34, Wr (Port8 0x40) (ucast (lo :: u8)), Wr (Port8 0x40) (ucast (hi :: u8))]\<rparr>) \<and>
    unat lo + 256 * unat hi = 1193182 div unat f mod 65536 \<and>
    (19 \<le> f \<longrightarrow> unat lo + 256 * unat hi = 1193182 div unat f)"
proof -
  let ?d = "ucast (PIT_FREQUENCY div f) :: u16"
  have d: "unat ?d = 1193182 div unat f mod 65536"
    by (simp only: unsigned_ucast_eq) (simp add: PIT_FREQUENCY_def unat_div take_bit_eq_mod)
  have "1193182 div unat f < 65536" if "19 \<le> f"
  proof -
    have "19 \<le> unat f" using that by (simp add: word_le_nat_alt)
    then have "1193182 div unat f \<le> 1193182 div 19" by (intro div_le_mono2) simp_all
    then show ?thesis by simp
  qed
  moreover have "pit_init f s = Some (s\<lparr>pit_frequency := f, trace := trace s @ [Wr (Port8 0x43) 0x34,
      Wr (Port8 0x40) (ucast (ucast (?d AND 0xFF) :: u8)),
      Wr (Port8 0x40) (ucast (ucast (drop_bit 8 ?d AND 0xFF) :: u8))]\<rparr>)"
    using assms by (simp add: pit_init_def udiv_def pit_send_count_writes outb_def wr_def Let_def)
  ultimately show ?thesis using d split_u16 [of ?d]
    by - (rule exI [of _ "ucast (?d AND 0xFF) :: u8"], rule exI [of _ "ucast (drop_bit 8 ?d AND 0xFF) :: u8"],
      simp add: mod_less)
qed

text \<open>With one timer interrupt between any two reads of the tick counter, \<open>pit_delay\<close> returns, when
  the counter has advanced by ms * f / 1000 ticks exactly, if neither the product nor the
  target passes 32 bits.\<close>

lemma pit_delay_exact:
  assumes "unat ms * unat (pit_frequency s) < 2 ^ 32" "0 < unat ms * unat (pit_frequency s) div 1000"
    "unat (pit_ticks s) + unat ms * unat (pit_frequency s) div 1000 < 2 ^ 32"
  shows "\<exists>t. pit_delay (\<lambda>_. 1) ms s = Some t \<and>
    unat (pit_ticks t) = unat (pit_ticks s) + unat ms * unat (pit_frequency s) div 1000"
proof -
  let ?n = "unat ms * unat (pit_frequency s) div 1000"
  have "unat (ms * pit_frequency s div 1000) = ?n"
    using assms(1) by (simp add: unat_div unat_word_ariths)
  then have w: "ms * pit_frequency s div 1000 = of_nat ?n" by (metis of_nat_unat ucast_id)
  obtain t where t: "pit_wait (\<lambda>_. 1) 0 (pit_ticks s + of_nat ?n) s = Some t" "pit_ticks t = pit_ticks s + of_nat ?n"
    using pit_clock.wait_regular [OF assms(3,2)] by blast
  have "unat (pit_ticks s + of_nat ?n) = unat (pit_ticks s) + ?n"
    using assms(3) by (simp add: unat_word_ariths unat_of_nat)
  with t w show ?thesis by (simp add: pit_delay_def)
qed

text \<open>C8: \<open>pit_delay_us\<close> rounds the time between two readings down to whole microseconds: if the counter
  goes down by one from each latch to the next (0.84 microseconds), it never returns.\<close>

theorem pit_delay_us_stuck:
  assumes "counts_down D TYPE('a machine_scheme)" "0 < target_us"
  shows "pit_delay_us D target_us (s :: 'a machine_scheme) = None"
  using assms by (rule pit_delay_us_down)

text \<open>A counter that answers with its low byte after the latch, then with its high byte.\<close>

definition down_dev :: device where
  "down_dev t p = (let c = - of_nat (length (writes (Port8 0x43) t)) :: u16
     in if t \<noteq> [] \<and> last t = Wr (Port8 0x43) 0 then ucast (ucast c :: u8) else ucast (ucast (drop_bit 8 c) :: u8))"

lemma down_dev_latch:
  "fst (pit_latch down_dev s) = - of_nat (Suc (length (writes (Port8 0x43) (trace s))))"
  using bytes_join16 [of "- of_nat (Suc (length (writes (Port8 0x43) (trace s))))"]
  by (simp add: pit_latch_def bus down_dev_def or.commute)

lemma down_dev_down: "counts_down down_dev TYPE('a machine_scheme)"
proof -
  have "length (writes (Port8 0x43) (trace (snd (pit_latch down_dev s)))) =
      Suc (length (writes (Port8 0x43) (trace s)))" for s :: "'a machine_scheme"
    by (simp add: pit_latch_def bus)
  then show ?thesis by (simp add: counts_down_def down_dev_latch)
qed

lemma pit_delay_us_stuck_witness: "pit_delay_us down_dev 500 \<lparr>trace = []\<rparr> = None"
  using pit_delay_us_stuck [OF down_dev_down, of 500 "\<lparr>trace = []\<rparr>"] by simp

end
