(* ===== verification/Timer.thy ===== *)
theory Timer
  imports Pit Uart
begin

text \<open>
  \<open>src/kernel/timer.c\<close>: the millisecond tick. On x86 it is the interval timer of
  \<open>Pit\<close>, on ARM the SysTick counter; on the other targets the file holds stubs (the AVR and
  RP2040 ports link their own).
\<close>

record timer = pit +
  system_ticks :: u32

definition SYSTICK_BASE :: u32 where "SYSTICK_BASE = 0xE000E010"
definition SCB_ICSR :: u32 where "SCB_ICSR = 0xE000ED04"

definition timer_init :: "arch \<Rightarrow> device \<Rightarrow> 'a timer_scheme \<Rightarrow> 'a timer_scheme option" where
  "timer_init a D s = (case a of
     X86_64 \<Rightarrow> do { s \<leftarrow> pit_init 1000 s; uart_puts a D (''PIT timer: 1 kHz'' @ crlf) s }
   | Arm \<Rightarrow> do {
       let s = write32 (SYSTICK_BASE + 0x04) (10500 - 1) s;
       let s = write32 (SYSTICK_BASE + 0x08) 0 s;
       let s = write32 SYSTICK_BASE (1 OR push_bit 1 1 OR push_bit 2 1) s;
       uart_puts a D (''SysTick timer: 1 kHz'' @ crlf) s }
   | Other_arch \<Rightarrow> Some s)"

definition timer_ticks :: "arch \<Rightarrow> 'a timer_scheme \<Rightarrow> u32" where
  "timer_ticks a s = (case a of X86_64 \<Rightarrow> pit_get_ticks s | Arm \<Rightarrow> system_ticks s | Other_arch \<Rightarrow> 0)"

definition SysTick_Handler :: "'a timer_scheme \<Rightarrow> 'a timer_scheme" where
  "SysTick_Handler s =
     (let s = s\<lparr>system_ticks := system_ticks s + 1\<rparr>
      in if system_ticks s mod 100 = 0 then write32 SCB_ICSR (push_bit 28 1) s else s)"

definition timer_irq_handler :: "'a timer_scheme \<Rightarrow> 'a timer_scheme" where
  "timer_irq_handler s = pit_irq_handler s"

text \<open>\<open>while (timer_ticks() < end);\<close>, with \<open>irqs k\<close> SysTick interrupts before the \<open>k\<close>-th read.\<close>

partial_function (option) systick_wait ::
  "(nat \<Rightarrow> nat) \<Rightarrow> nat \<Rightarrow> u32 \<Rightarrow> 'a timer_scheme \<Rightarrow> 'a timer_scheme option" where
  "systick_wait irqs k target s =
     (let s = (SysTick_Handler ^^ irqs k) s
      in if timer_ticks Arm s < target then systick_wait irqs (Suc k) target s else Some s)"

definition timer_delay ::
  "arch \<Rightarrow> (nat \<Rightarrow> nat) \<Rightarrow> u32 \<Rightarrow> 'a timer_scheme \<Rightarrow> 'a timer_scheme option" where
  "timer_delay a irqs ms s = (case a of
     X86_64 \<Rightarrow> pit_delay irqs ms s
   | Arm \<Rightarrow> systick_wait irqs 0 (timer_ticks Arm s + ms) s
   | Other_arch \<Rightarrow> Some s)"

section \<open>The SysTick clock\<close>

lemma systick_wait_SomeD:
  assumes "systick_wait irqs k target s = Some t"
  shows "target \<le> timer_ticks Arm t"
proof (rule systick_wait.raw_induct [where P = "\<lambda>irqs k target s t. target \<le> timer_ticks Arm t", OF _ assms])
  fix f :: "(nat \<Rightarrow> nat) \<Rightarrow> nat \<Rightarrow> u32 \<Rightarrow> 'a timer_scheme \<Rightarrow> 'a timer_scheme option"
    and irqs k target s t
  assume "\<And>irqs k target s t. f irqs k target s = Some t \<Longrightarrow> target \<le> timer_ticks Arm t"
    and "(let s = (SysTick_Handler ^^ irqs k) s
      in if timer_ticks Arm s < target then f irqs (Suc k) target s else Some s) = Some t"
  then show "target \<le> timer_ticks Arm t" by (auto simp: Let_def not_less split: if_splits)
qed

interpretation systick: tick_wait SysTick_Handler "timer_ticks Arm" id systick_wait
proof unfold_locales
  show "systick_wait irqs k target s = (let s = (SysTick_Handler ^^ irqs k) s
      in if timer_ticks Arm s < target then systick_wait irqs (Suc k) target (id s) else Some s)"
    for irqs k target and s :: "'a timer_scheme" by (simp add: systick_wait.simps [of irqs k target s] Let_def)
qed (simp_all add: SysTick_Handler_def timer_ticks_def write32_def wr_def Let_def,
    use systick_wait_SomeD in \<open>simp add: timer_ticks_def\<close>)

lemma SysTick_writes:
  "writes (Mem32 SCB_ICSR) (trace (SysTick_Handler s)) = writes (Mem32 SCB_ICSR) (trace s) @
     (if (system_ticks s + 1) mod 100 = 0 then [0x10000000] else [])"
  by (simp add: SysTick_Handler_def bus)

text \<open>Every hundredth tick pends the context switch: \<open>n\<close> ticks pend it \<open>n div 100\<close> times.\<close>

lemma SysTick_pendsv:
  assumes "system_ticks s = 0" "n < 2 ^ 32"
  shows "writes (Mem32 SCB_ICSR) (trace ((SysTick_Handler ^^ n) s)) =
    writes (Mem32 SCB_ICSR) (trace s) @ replicate (n div 100) 0x10000000"
  using assms(2)
proof (induction n)
  case 0
  then show ?case by simp
next
  case (Suc n)
  let ?s = "(SysTick_Handler ^^ n) s"
  have t: "system_ticks ?s = of_nat n"
    using systick.irqs_ticks [of n s] assms(1) by (simp add: timer_ticks_def)
  have "unat (of_nat n + 1 :: u32) = Suc n"
    using Suc.prems by (simp add: unat_word_ariths unat_of_nat)
  then have "unat ((of_nat n + 1 :: u32) mod 100) = Suc n mod 100" by (simp add: unat_mod)
  then have m: "((of_nat n + 1 :: u32) mod 100 = 0) = (Suc n mod 100 = 0)" by (simp add: unat_eq_0 [symmetric])
  have d: "Suc n div 100 = n div 100 + (if Suc n mod 100 = 0 then 1 else 0)" by (simp add: div_Suc)
  show ?case using Suc SysTick_writes [of ?s] by (simp add: t m d replicate_add)
qed

section \<open>Properties\<close>

text \<open>The SysTick handler pends the context switch on every hundredth tick: after \<open>n\<close> interrupts
  (below 2^32) it has written PendSV \<open>n div 100\<close> times, and the tick count is \<open>n\<close>.\<close>

lemma SysTick_pends_switches:
  assumes "system_ticks s = 0" "n < 2 ^ 32"
  shows "writes (Mem32 SCB_ICSR) (trace ((SysTick_Handler ^^ n) s)) =
      writes (Mem32 SCB_ICSR) (trace s) @ replicate (n div 100) 0x10000000 \<and>
    unat (timer_ticks Arm ((SysTick_Handler ^^ n) s)) = n"
  using SysTick_pendsv [OF assms] systick.irqs_ticks [of n s] assms
  by (simp add: timer_ticks_def unat_of_nat)

definition timer0 :: timer where
  "timer0 = \<lparr>trace = [], pit_ticks = 0, pit_frequency = 0, pit_loops_per_10ms = 0, system_ticks = 0\<rparr>"

text \<open>On ARM \<open>timer_delay\<close> waits for the requested ticks if the end tick does not wrap, and returns
  at once, with no tick waited for, if it does.\<close>

lemma timer_delay_arm:
  assumes "0 < ms"
  shows "(unat (system_ticks s) + unat ms < 2 ^ 32 \<longrightarrow>
      (\<exists>t. timer_delay Arm (\<lambda>_. 1) ms s = Some t \<and> unat (system_ticks t) = unat (system_ticks s) + unat ms)) \<and>
    (2 ^ 32 \<le> unat (system_ticks s) + unat ms \<longrightarrow> timer_delay Arm (\<lambda>_. 0) ms s = Some s)"
proof (intro conjI impI)
  assume b: "unat (system_ticks s) + unat ms < 2 ^ 32"
  have "\<exists>t. systick_wait (\<lambda>_. 1) 0 (timer_ticks Arm s + of_nat (unat ms)) s = Some t \<and>
      timer_ticks Arm t = timer_ticks Arm s + of_nat (unat ms)"
    using b assms by (intro systick.wait_regular) (simp_all add: timer_ticks_def word_less_nat_alt)
  then show "\<exists>t. timer_delay Arm (\<lambda>_. 1) ms s = Some t \<and> unat (system_ticks t) = unat (system_ticks s) + unat ms"
    using b by (auto simp: timer_delay_def timer_ticks_def unat_word_ariths)
next
  assume b: "2 ^ 32 \<le> unat (system_ticks s) + unat ms"
  have "unat (system_ticks s + ms) = unat (system_ticks s) + unat ms - 2 ^ 32"
    using b unsigned_less [of ms, where ?'a = nat] unsigned_less [of "system_ticks s", where ?'a = nat]
    by (simp add: unat_word_ariths mod_if)
  then have "\<not> system_ticks s < system_ticks s + ms"
    using unsigned_less [of ms, where ?'a = nat] by (simp add: word_less_nat_alt)
  then have "systick_wait (\<lambda>_. 0) 0 (timer_ticks Arm s + ms) s = Some s"
    using systick.wait_past [of "\<lambda>_. 0" 0 s "timer_ticks Arm s + ms"] by (simp add: timer_ticks_def)
  then show "timer_delay Arm (\<lambda>_. 0) ms s = Some s" by (simp add: timer_delay_def)
qed

end
