(* ===== verification/Can.thy ===== *)
theory Can
  imports Msg_Queue Uart
begin

text \<open>
  \<open>src/kernel/can.c\<close> and \<open>src/kernel/isotp.c\<close>: the bxCAN controller of the STM32F4 with its
  receive queue, and single-frame ISO-TP on top. The code between \<open>#ifdef __arm__\<close> and
  \<open>#else\<close> is modelled for \<open>Arm\<close>, the stubs for every other target. A frame travels through
  the queue as the sixteen bytes of its C structure, whose last three are padding.
\<close>

section \<open>Frames and their bytes\<close>

record can_frame =
  can_id :: u32
  can_len :: u8
  can_data :: "u8 list"

definition le32 :: "u32 \<Rightarrow> u8 list" where
  "le32 v = [ucast v, ucast (drop_bit 8 v), ucast (drop_bit 16 v), ucast (drop_bit 24 v)]"

definition of_le32 :: "u8 list \<Rightarrow> u32" where
  "of_le32 bs = ucast (bs ! 0) OR push_bit 8 (ucast (bs ! 1)) OR
     push_bit 16 (ucast (bs ! 2)) OR push_bit 24 (ucast (bs ! 3))"

lemma length_le32 [simp]: "length (le32 v) = 4"
  by (simp add: le32_def)

lemma of_le32_le32 [simp]: "of_le32 (le32 v @ bs) = v"
  by (simp add: of_le32_def le32_def bytes_join32)

definition frame_bytes :: "u8 list \<Rightarrow> can_frame \<Rightarrow> msg" where
  "frame_bytes pad f = le32 (can_id f) @ [can_len f] @ can_data f @ pad"

definition frame_of :: "msg \<Rightarrow> can_frame" where
  "frame_of m = \<lparr>can_id = of_le32 m, can_len = m ! 4, can_data = take 8 (drop 5 m)\<rparr>"

lemma frame_of_bytes: "length (can_data f) = 8 \<Longrightarrow> frame_of (frame_bytes pad f) = f"
  by (cases f) (simp add: frame_of_def frame_bytes_def nth_append)

section \<open>The controller\<close>

definition CAN1_BASE :: u32 where "CAN1_BASE = 0x40006400"
definition CAN_RCC_APB1ENR :: u32 where "CAN_RCC_APB1ENR = 0x40023840"
definition NVIC_ISER1 :: u32 where "NVIC_ISER1 = 0xE000E104"
definition CAN1_TX :: u32 where "CAN1_TX = CAN1_BASE + 0x180"
definition CAN1_RX0 :: u32 where "CAN1_RX0 = CAN1_BASE + 0x1B0"

datatype can_err = CAN_OK | CAN_ERR_TX | CAN_ERR_RX | CAN_ERR_BUSOFF

record can = machine +
  can_rx_q :: msg_queue
  can_lock :: u32

definition can_init :: "arch \<Rightarrow> device \<Rightarrow> u32 \<Rightarrow> 'a can_scheme \<Rightarrow> 'a can_scheme option" where
  "can_init a D baud s = (if a = Arm then do {
     let s = or32 D CAN_RCC_APB1ENR (push_bit 25 1) s;
     let s = or32 D CAN_RCC_APB1ENR (push_bit 14 1) s;
     let s = or32 D CAN1_BASE (push_bit 0 1) s;
     s \<leftarrow> poll D (Mem32 CAN1_BASE) (\<lambda>r :: u32. r AND push_bit 0 1 \<noteq> 0) s;
     let s = write32 (CAN1_BASE + 0x18) (push_bit 24 6 OR push_bit 20 5 OR push_bit 16 3 OR 5) s;
     let s = clear32 D CAN1_BASE (push_bit 0 1) s;
     s \<leftarrow> poll D (Mem32 CAN1_BASE) (\<lambda>r :: u32. r AND push_bit 0 1 = 0) s;
     let s = or32 D (CAN1_BASE + 0x200) (push_bit 0 1) s;
     let s = write32 (CAN1_BASE + 0x21C) 0 s;
     let s = clear32 D (CAN1_BASE + 0x200) (push_bit 0 1) s;
     let s = or32 D NVIC_ISER1 (push_bit 21 1) s;
     let s = s\<lparr>can_rx_q := msg_init (can_rx_q s)\<rparr>;
     uart_puts a D (''CAN ready 500k'' @ crlf) s
   } else Some s)"

definition can_send :: "arch \<Rightarrow> device \<Rightarrow> can_frame \<Rightarrow> 'a can_scheme \<Rightarrow> (can_err \<times> 'a can_scheme) option" where
  "can_send a D frame s = (if a = Arm then do {
     l \<leftarrow> spin_lock (can_lock s);
     let s = s\<lparr>can_lock := l\<rparr>;
     let (tir, s) = read32 D CAN1_TX s;
     if tir AND push_bit 0 1 = 0 then do {
       let s = write32 CAN1_TX (push_bit 21 (can_id frame) OR push_bit 1 1) s;
       let s = write32 (CAN1_TX + 4) (ucast (can_len frame)) s;
       let s = write32 (CAN1_TX + 8) (of_le32 (can_data frame)) s;
       let s = write32 (CAN1_TX + 12) (of_le32 (drop 4 (can_data frame))) s;
       let s = or32 D CAN1_TX (push_bit 0 1) s;
       Some (CAN_OK, s\<lparr>can_lock := spin_unlock (can_lock s)\<rparr>)
     } else Some (CAN_ERR_TX, s\<lparr>can_lock := spin_unlock (can_lock s)\<rparr>)
   } else Some (CAN_OK, s))"

text \<open>\<open>frame\<close> is what the out parameter holds before the call, \<open>m\<close> the uninitialised local message.\<close>

definition can_recv ::
  "arch \<Rightarrow> msg \<Rightarrow> can_frame \<Rightarrow> 'a can_scheme \<Rightarrow> (can_err \<times> can_frame \<times> 'a can_scheme) option" where
  "can_recv a m frame s = (if a = Arm then do {
     (r, m, q) \<leftarrow> msg_recv (can_rx_q s) m;
     let s = s\<lparr>can_rx_q := q\<rparr>;
     if r \<noteq> 0 then Some (CAN_OK, frame_of m, s) else Some (CAN_ERR_RX, frame, s)
   } else Some (CAN_ERR_RX, frame, s))"

definition can_set_filter :: "u32 \<Rightarrow> u32 \<Rightarrow> 'a can_scheme \<Rightarrow> 'a can_scheme" where
  "can_set_filter i filter_mask s = s"

definition can_tx_mailbox_free :: "arch \<Rightarrow> device \<Rightarrow> 'a can_scheme \<Rightarrow> u8 \<times> 'a can_scheme" where
  "can_tx_mailbox_free a D s = (if a = Arm then
     (let (tir, s) = read32 D CAN1_TX s in (c_bool (tir AND push_bit 0 1 = 0), s)) else (1, s))"

text \<open>The receive interrupt; \<open>pad\<close> is what the padding of the local frame happens to hold.\<close>

definition CEC_CAN_IRQHandler :: "device \<Rightarrow> u8 list \<Rightarrow> 'a can_scheme \<Rightarrow> 'a can_scheme option" where
  "CEC_CAN_IRQHandler D pad s =
     (case read32 D (CAN1_BASE + 0x08) s of (rf0r, s) \<Rightarrow>
        if rf0r AND push_bit 0 1 \<noteq> 0 then do {
          let (rir, s) = read32 D CAN1_RX0 s;
          let (rdtr, s) = read32 D (CAN1_RX0 + 4) s;
          let (rdlr, s) = read32 D (CAN1_RX0 + 8) s;
          let (rdhr, s) = read32 D (CAN1_RX0 + 12) s;
          let frm = \<lparr>can_id = drop_bit 21 rir AND 0x7FF, can_len = ucast (rdtr AND 0x0F),
                     can_data = le32 rdlr @ le32 rdhr\<rparr>;
          (r, q) \<leftarrow> msg_send (can_rx_q s) (frame_bytes pad frm);
          let s = s\<lparr>can_rx_q := q\<rparr>;
          Some (or32 D (CAN1_BASE + 0x08) (push_bit 5 1) s)
        } else Some s)"

section \<open>ISO-TP\<close>

record isotp_msg =
  im_id :: u32
  im_data :: "u8 list"
  im_len :: u16

record isotp = can +
  isotp_state :: u8

definition sf_frame :: "u32 \<Rightarrow> u8 list \<Rightarrow> u8 \<Rightarrow> can_frame" where
  "sf_frame i dat len = \<lparr>can_id = i, can_len = len + 1,
     can_data = take 8 (len # take (unat len) dat @ replicate (7 - unat len) 0)\<rparr>"

definition send_sf :: "arch \<Rightarrow> device \<Rightarrow> u32 \<Rightarrow> u8 list \<Rightarrow> u8 \<Rightarrow> 'a can_scheme \<Rightarrow> 'a can_scheme option" where
  "send_sf a D i dat len s = do { (_, s) \<leftarrow> can_send a D (sf_frame i dat len) s; Some s }"

definition send_fc :: "arch \<Rightarrow> device \<Rightarrow> u32 \<Rightarrow> u8 \<Rightarrow> u8 \<Rightarrow> 'a can_scheme \<Rightarrow> 'a can_scheme option" where
  "send_fc a D i bs st s = do {
     (_, s) \<leftarrow> can_send a D \<lparr>can_id = i + 1, can_len = 3, can_data = [0x30, bs, st, 0, 0, 0, 0, 0]\<rparr> s;
     Some s }"

definition isotp_init :: "'a isotp_scheme \<Rightarrow> 'a isotp_scheme" where
  "isotp_init s = s\<lparr>isotp_state := 0\<rparr>"

definition isotp_send :: "arch \<Rightarrow> device \<Rightarrow> isotp_msg \<Rightarrow> 'a can_scheme \<Rightarrow> (u8 \<times> 'a can_scheme) option" where
  "isotp_send a D m s =
     (if im_len m \<le> 7 then do {
        s \<leftarrow> send_sf a D (im_id m) (im_data m) (ucast (im_len m)) s;
        Some (0, s)
      } else Some (1, s))"

definition isotp_recv ::
  "arch \<Rightarrow> msg \<Rightarrow> can_frame \<Rightarrow> isotp_msg \<Rightarrow> 'a can_scheme \<Rightarrow> (u8 \<times> isotp_msg \<times> 'a can_scheme) option" where
  "isotp_recv a junk f m s = do {
     (r, f, s) \<leftarrow> can_recv a junk f s;
     if r \<noteq> CAN_OK then Some (1, m, s)
     else do {
       let type = drop_bit 4 (can_data f ! 0);
       if type = 0 then do {
         let len = can_data f ! 0 AND 0x0F;
         if len > 7 then Some (1, m, s)
         else Some (0, m\<lparr>im_data := take (unat len) (drop 1 (can_data f)) @ drop (unat len) (im_data m),
                         im_len := ucast len, im_id := can_id f\<rparr>, s)
       } else Some (1, m, s)
     }
   }"

section \<open>Reception\<close>

text \<open>The frame that the receive registers of a device show, if they do not change meanwhile.\<close>

definition rx_frame :: "device \<Rightarrow> can_frame \<Rightarrow> bool" where
  "rx_frame D f \<longleftrightarrow> can_id f < 0x800 \<and> can_len f < 16 \<and> length (can_data f) = 8 \<and>
     (\<forall>t. D t (Mem32 (CAN1_BASE + 0x08)) = 1 \<and>
       D t (Mem32 CAN1_RX0) = ucast (push_bit 21 (can_id f)) \<and>
       D t (Mem32 (CAN1_RX0 + 4)) = ucast (can_len f) \<and>
       D t (Mem32 (CAN1_RX0 + 8)) = ucast (of_le32 (can_data f)) \<and>
       D t (Mem32 (CAN1_RX0 + 12)) = ucast (of_le32 (drop 4 (can_data f))))"

lemma le32_of_le32: "length bs = 4 \<Longrightarrow> le32 (of_le32 bs) = bs"
proof -
  assume "length bs = 4"
  then obtain b0 b1 b2 b3 where bs: "bs = [b0, b1, b2, b3]"
    by (auto simp: length_Suc_conv numeral_eq_Suc)
  let ?v = "ucast b0 OR push_bit 8 (ucast b1) OR push_bit 16 (ucast b2) OR push_bit 24 (ucast b3) :: u32"
  have "ucast ?v = b0" "ucast (drop_bit 8 ?v) = b1" "ucast (drop_bit 16 ?v) = b2" "ucast (drop_bit 24 ?v) = b3"
    by (rule bit_word_eqI, auto simp: bit_simps dest: bit_imp_le_length)+
  then show ?thesis by (simp add: bs le32_def of_le32_def)
qed

lemma of_le32_take: "of_le32 (take 4 bs) = of_le32 bs"
  by (simp add: of_le32_def)

lemma can_id_shift: "i < 0x800 \<Longrightarrow> drop_bit 21 (push_bit 21 i) AND 0x7FF = (i :: u32)"
proof -
  assume "i < 0x800"
  then have "take_bit 11 i = i" by (intro take_bit_small) (simp add: word_less_nat_alt)
  moreover have "take_bit 11 (drop_bit 21 (push_bit 21 i)) = take_bit 11 i"
    by (rule bit_word_eqI) (auto simp: bit_simps)
  ultimately show ?thesis by (simp add: and_masks)
qed

text \<open>The handler appends the frame of the registers if the queue has room, and loses it if not.\<close>

lemma can_irq_queue:
  assumes "rx_frame D f" "mq_inv (can_rx_q s)"
  shows "\<exists>t. CEC_CAN_IRQHandler D pad s = Some t \<and> mq_inv (can_rx_q t) \<and> can_lock t = can_lock s \<and>
    mq_items (can_rx_q t) = mq_items (can_rx_q s) @
      (if length (mq_items (can_rx_q s)) < MSG_DEPTH then [frame_bytes pad f] else [])"
proof -
  have r: "can_id f < 0x800" "can_len f < 16" "length (can_data f) = 8"
    and D: "\<And>t. D t (Mem32 (CAN1_BASE + 0x08)) = 1" "\<And>t. D t (Mem32 CAN1_RX0) = ucast (push_bit 21 (can_id f))"
      "\<And>t. D t (Mem32 (CAN1_RX0 + 4)) = ucast (can_len f)"
      "\<And>t. D t (Mem32 (CAN1_RX0 + 8)) = ucast (of_le32 (can_data f))"
      "\<And>t. D t (Mem32 (CAN1_RX0 + 12)) = ucast (of_le32 (drop 4 (can_data f)))"
    using assms(1) by (simp_all add: rx_frame_def)
  have len: "ucast (ucast (can_len f) AND 0x0F :: u32) = can_len f"
  proof -
    have "take_bit 4 (can_len f) = can_len f" using r(2) by (intro take_bit_small) (simp add: word_less_nat_alt)
    moreover have "ucast (take_bit 4 (ucast (can_len f) :: u32)) = take_bit 4 (can_len f)"
      by (rule bit_word_eqI) (auto simp: bit_simps)
    ultimately show ?thesis by (simp add: and_masks)
  qed
  have dat: "le32 (of_le32 (can_data f)) @ le32 (of_le32 (drop 4 (can_data f))) = can_data f"
    using r(3) le32_of_le32 [of "take 4 (can_data f)"] le32_of_le32 [of "drop 4 (can_data f)"]
    by (simp add: of_le32_take)
  have l32: "ucast (ucast (can_len f) :: u64) = (ucast (can_len f) :: u32)"
    by (rule bit_word_eqI) (auto simp: bit_simps dest: bit_imp_le_length)
  have frm: "\<lparr>can_id = drop_bit 21 (push_bit 21 (can_id f)) AND 0x7FF, can_len = ucast (ucast (can_len f) AND 0x0F :: u32),
      can_data = le32 (of_le32 (can_data f)) @ le32 (of_le32 (drop 4 (can_data f)))\<rparr> = f"
    using can_id_shift [OF r(1)] len dat by (cases f) simp
  obtain r' q where q: "msg_send (can_rx_q s) (frame_bytes pad f) = Some (r', q)" "mq_inv q"
    "mq_items q = mq_items (can_rx_q s) @
      (if length (mq_items (can_rx_q s)) < MSG_DEPTH then [frame_bytes pad f] else [])"
    using msg_send_room [OF assms(2), of "frame_bytes pad f"] msg_send_full [OF assms(2), of "frame_bytes pad f"] assms(2)
    by (cases "unat (mq_count (can_rx_q s)) < MSG_DEPTH") auto
  have "CEC_CAN_IRQHandler D pad s = (case msg_send (can_rx_q s) (frame_bytes pad f) of None \<Rightarrow> None
    | Some (r, q) \<Rightarrow> Some (or32 D (CAN1_BASE + 0x08) (push_bit 5 1) (s\<lparr>trace := trace s @
        [Rd (Mem32 (CAN1_BASE + 0x08)) 1, Rd (Mem32 CAN1_RX0) (ucast (push_bit 21 (can_id f))),
         Rd (Mem32 (CAN1_RX0 + 4)) (ucast (can_len f)), Rd (Mem32 (CAN1_RX0 + 8)) (ucast (of_le32 (can_data f))),
         Rd (Mem32 (CAN1_RX0 + 12)) (ucast (of_le32 (drop 4 (can_data f))))], can_rx_q := q\<rparr>)))"
    unfolding CEC_CAN_IRQHandler_def read32_def rd_def Let_def
    by (simp add: D l32 frm split: option.split)
  with q show ?thesis by (auto simp: bus)
qed

lemma can_recv_queue:
  assumes "mq_inv (can_rx_q s)" "mq_items (can_rx_q s) = frame_bytes pad f # ms" "length (can_data f) = 8"
  shows "\<exists>t. can_recv Arm m f0 s = Some (CAN_OK, f, t) \<and> mq_inv (can_rx_q t) \<and> mq_items (can_rx_q t) = ms"
proof -
  have "mq_count (can_rx_q s) \<noteq> 0" using assms(2) by (metis length_mq_items length_greater_0_conv list.discI unat_0 less_numeral_extra(3))
  from msg_recv_some [OF assms(1) this, of m] assms(2) obtain q where
    "msg_recv (can_rx_q s) m = Some (1, frame_bytes pad f, q)" "mq_inv q" "mq_items q = ms" by auto
  then show ?thesis using frame_of_bytes [OF assms(3), of pad] by (simp add: can_recv_def)
qed

lemma can_recv_none:
  assumes "mq_inv (can_rx_q s)" "mq_items (can_rx_q s) = []"
  shows "can_recv Arm m f0 s = Some (CAN_ERR_RX, f0, s)"
proof -
  have "mq_count (can_rx_q s) = 0" using assms(2) by (metis length_mq_items list.size(3) unat_eq_0)
  with msg_recv_empty [OF assms(1) this, of m] show ?thesis by (simp add: can_recv_def)
qed

section \<open>Properties\<close>

text \<open>C9: A frame in the receive registers is delivered: the interrupt handler queues it, and a
  \<open>can_recv\<close> on the queue that was empty before returns exactly this frame, once. With eight
  frames waiting the handler drops it without any report.\<close>

theorem can_receive_roundtrip:
  assumes "rx_frame D f" "mq_inv (can_rx_q s)"
  shows "(mq_items (can_rx_q s) = [] \<longrightarrow> (\<exists>t u. CEC_CAN_IRQHandler D pad s = Some t \<and>
      can_recv Arm m f0 t = Some (CAN_OK, f, u) \<and> can_recv Arm m f0 u = Some (CAN_ERR_RX, f0, u))) \<and>
    (length (mq_items (can_rx_q s)) = MSG_DEPTH \<longrightarrow> (\<exists>t. CEC_CAN_IRQHandler D pad s = Some t \<and>
      mq_items (can_rx_q t) = mq_items (can_rx_q s)))"
proof -
  obtain t where t: "CEC_CAN_IRQHandler D pad s = Some t" "mq_inv (can_rx_q t)"
    "mq_items (can_rx_q t) = mq_items (can_rx_q s) @
      (if length (mq_items (can_rx_q s)) < MSG_DEPTH then [frame_bytes pad f] else [])"
    using can_irq_queue [OF assms] by blast
  have dat: "length (can_data f) = 8" using assms(1) by (simp add: rx_frame_def)
  have "\<exists>u. can_recv Arm m f0 t = Some (CAN_OK, f, u) \<and> can_recv Arm m f0 u = Some (CAN_ERR_RX, f0, u)"
    if "mq_items (can_rx_q s) = []"
  proof -
    have "mq_items (can_rx_q t) = frame_bytes pad f # []" using t(3) that by (simp add: MSG_DEPTH_def)
    from can_recv_queue [OF t(2) this dat, of m f0] can_recv_none [of _ m f0] show ?thesis by blast
  qed
  with t show ?thesis by auto
qed

definition can0 :: can where
  "can0 = \<lparr>trace = [], can_rx_q = msg_init \<lparr>mq_buf = replicate 8 [], mq_head = 0, mq_tail = 0, mq_count = 0, mq_lock = 0\<rparr>,
     can_lock = 0\<rparr>"

lemma can0_queue: "mq_inv (can_rx_q can0)" "mq_items (can_rx_q can0) = []"
  using mq_inv_init [of "\<lparr>mq_buf = replicate 8 [], mq_head = 0, mq_tail = 0, mq_count = 0, mq_lock = 0\<rparr>"]
  by (simp_all add: can0_def MSG_DEPTH_def)

definition rx_dev :: "can_frame \<Rightarrow> device" where
  "rx_dev f t p = (if p = Mem32 (CAN1_BASE + 0x08) then 1
     else if p = Mem32 CAN1_RX0 then ucast (push_bit 21 (can_id f))
     else if p = Mem32 (CAN1_RX0 + 4) then ucast (can_len f)
     else if p = Mem32 (CAN1_RX0 + 8) then ucast (of_le32 (can_data f))
     else ucast (of_le32 (drop 4 (can_data f))))"

definition frame1 :: can_frame where
  "frame1 = \<lparr>can_id = 0x7E8, can_len = 3, can_data = [2, 0x10, 0x20, 0, 0, 0, 0, 0]\<rparr>"

lemma rx_frame1: "rx_frame (rx_dev frame1) frame1"
  by (simp add: rx_frame_def rx_dev_def frame1_def CAN1_BASE_def CAN1_RX0_def)

lemma can_receive_roundtrip_witness:
  "\<exists>t u. CEC_CAN_IRQHandler (rx_dev frame1) [1, 2, 3] can0 = Some t \<and> can_recv Arm [] frame1 t = Some (CAN_OK, frame1, u)"
  using can_receive_roundtrip [OF rx_frame1 can0_queue(1), of "[1, 2, 3]" "[]" frame1] can0_queue(2) by blast

text \<open>An ISO-TP message of up to seven bytes that \<open>send_sf\<close> puts into a frame is what \<open>isotp_recv\<close>
  makes of that frame: the same bytes, length and identifier.\<close>

lemma isotp_roundtrip:
  assumes "mq_inv (can_rx_q s)" "mq_items (can_rx_q s) = frame_bytes pad (sf_frame i dat len) # ms"
    "len \<le> 7" "unat len \<le> length dat" "unat len \<le> length (im_data m)"
  shows "\<exists>m' t. isotp_recv Arm junk f0 m s = Some (0, m', t) \<and> im_id m' = i \<and> im_len m' = ucast len \<and>
    take (unat len) (im_data m') = take (unat len) dat \<and> mq_items (can_rx_q t) = ms"
proof -
  let ?f = "sf_frame i dat len"
  have n: "unat len \<le> 7" using assms(3) by (simp add: word_le_nat_alt)
  have cd: "can_data ?f = len # take (unat len) dat @ replicate (7 - unat len) 0"
    using n assms(4) by (simp add: sf_frame_def)
  have "length (can_data ?f) = 8" using n assms(4) by (simp add: cd)
  from can_recv_queue [OF assms(1,2) this, of junk f0] obtain t where
    t: "can_recv Arm junk f0 s = Some (CAN_OK, ?f, t)" "mq_items (can_rx_q t) = ms" by blast
  have "drop_bit 4 len = 0" using n by (intro drop_bit_small) simp
  moreover have "len AND 0x0F = len" using n by (simp add: and_masks take_bit_small)
  ultimately have "isotp_recv Arm junk f0 m s = Some (0, m\<lparr>im_data := take (unat len) dat @ drop (unat len) (im_data m),
      im_len := ucast len, im_id := i\<rparr>, t)"
    using assms(3,4) n by (simp add: isotp_recv_def t cd not_less) (simp add: sf_frame_def)
  with t(2) assms(4,5) show ?thesis by auto
qed

text \<open>\<open>isotp_send\<close> reports success although the mailbox is busy and nothing is sent: the result of
  \<open>can_send\<close> is thrown away.\<close>

lemma isotp_send_busy:
  assumes "im_len m \<le> 7" "can_lock s = 0" "D (trace s) (Mem32 CAN1_TX) = 1"
  shows "isotp_send Arm D m s = Some (0, s\<lparr>trace := trace s @ [Rd (Mem32 CAN1_TX) 1]\<rparr>)"
  using assms by (cases s) (simp add: isotp_send_def send_sf_def can_send_def bus)

end
