(* ===== verification/Sd.thy ===== *)
theory Sd
  imports Uart
begin

text \<open>
  \<open>src/kernel/spi.c\<close> and \<open>src/kernel/sd.c\<close>: SPI1 of the STM32F4, and SD cards in SPI mode. Every
  exchange polls the status register twice, so the operations return options; the waits for the
  card (\<open>while (spi_xfer(0xFF) != 0xFE)\<close>) have no bound either. Buffers are byte lists.
\<close>

section \<open>SPI\<close>

definition SPI_RCC_APB2ENR :: u32 where "SPI_RCC_APB2ENR = 0x40023844"
definition SPI_GPIOA_BASE :: u32 where "SPI_GPIOA_BASE = 0x40020000"
definition SPI1_BASE :: u32 where "SPI1_BASE = 0x40013000"
definition SPI1_SR :: port where "SPI1_SR = Mem32 (SPI1_BASE + 0x08)"
definition SPI1_DR :: port where "SPI1_DR = Mem8 (SPI1_BASE + 0x0C)"

definition spi_init :: "device \<Rightarrow> u32 \<Rightarrow> 'a machine_scheme \<Rightarrow> 'a machine_scheme" where
  "spi_init D mode s =
     (let s = or32 D SPI_RCC_APB2ENR (push_bit 12 1) s;
          s = or32 D SPI_RCC_APB2ENR (push_bit 0 1) s;
          s = or32 D (SPI_GPIOA_BASE + 0x00) (push_bit 10 2 OR push_bit 12 2 OR push_bit 14 2) s;
          s = or32 D (SPI_GPIOA_BASE + 0x20) (push_bit 20 5 OR push_bit 24 5 OR push_bit 28 5) s;
          s = write32 SPI1_BASE (push_bit 2 1 OR push_bit 6 1 OR push_bit 0 mode) s
      in or32 D SPI1_BASE (push_bit 6 1) s)"

definition spi_xfer :: "device \<Rightarrow> u8 \<Rightarrow> 'a machine_scheme \<Rightarrow> (u8 \<times> 'a machine_scheme) option" where
  "spi_xfer D out s = do {
     s \<leftarrow> poll D SPI1_SR (\<lambda>r :: u32. r AND push_bit 1 1 \<noteq> 0) s;
     let s = wr SPI1_DR out s;
     s \<leftarrow> poll D SPI1_SR (\<lambda>r :: u32. r AND push_bit 0 1 \<noteq> 0) s;
     Some (rd D SPI1_DR s)
   }"

definition spi_cs_en :: "device \<Rightarrow> u8 \<Rightarrow> 'a machine_scheme \<Rightarrow> 'a machine_scheme" where
  "spi_cs_en D cs s = or32 D (SPI_GPIOA_BASE + 0x18) (push_bit (unat cs) 1) s"

definition spi_cs_dis :: "device \<Rightarrow> u8 \<Rightarrow> 'a machine_scheme \<Rightarrow> 'a machine_scheme" where
  "spi_cs_dis D cs s = or32 D (SPI_GPIOA_BASE + 0x18) (push_bit (unat cs + 16) 1) s"

section \<open>SD\<close>

definition SD_BLOCK_SIZE :: nat where "SD_BLOCK_SIZE = 512"

text \<open>Exchanges whose answers are thrown away.\<close>

fun spi_send :: "device \<Rightarrow> u8 list \<Rightarrow> 'a machine_scheme \<Rightarrow> 'a machine_scheme option" where
  "spi_send D [] s = Some s"
| "spi_send D (b # bs) s = do { (r, s) \<leftarrow> spi_xfer D b s; spi_send D bs s }"

text \<open>The loop over the answer of a command, with \<open>n\<close> rounds left.\<close>

fun sd_response :: "device \<Rightarrow> nat \<Rightarrow> 'a machine_scheme \<Rightarrow> (u8 \<times> 'a machine_scheme) option" where
  "sd_response D 0 s = Some (0xFF, s)"
| "sd_response D (Suc n) s = do {
     (r, s) \<leftarrow> spi_xfer D 0xFF s;
     if r AND 0x80 = 0 then Some (r, s) else sd_response D n s }"

definition sd_frame :: "u8 \<Rightarrow> u32 \<Rightarrow> u8 list" where
  "sd_frame cmd arg = [0xFF, cmd OR 0x40, ucast (drop_bit 24 arg), ucast (drop_bit 16 arg),
     ucast (drop_bit 8 arg), ucast arg, 0xFF]"

definition sd_cmd :: "device \<Rightarrow> u8 \<Rightarrow> u32 \<Rightarrow> 'a machine_scheme \<Rightarrow> (u8 \<times> 'a machine_scheme) option" where
  "sd_cmd D cmd arg s = do { s \<leftarrow> spi_send D (sd_frame cmd arg) s; sd_response D 8 s }"

text \<open>\<open>while (sd_cmd(1, 0) != 0);\<close> and \<open>while (spi_xfer(0xFF) is not as wanted);\<close>\<close>

partial_function (option) sd_wait_ready :: "device \<Rightarrow> 'a machine_scheme \<Rightarrow> 'a machine_scheme option" where
  "sd_wait_ready D s = do {
     (r, s) \<leftarrow> sd_cmd D 1 0 s;
     if r \<noteq> 0 then sd_wait_ready D s else Some s }"

partial_function (option) sd_wait_for ::
  "device \<Rightarrow> (u8 \<Rightarrow> bool) \<Rightarrow> 'a machine_scheme \<Rightarrow> 'a machine_scheme option" where
  "sd_wait_for D ok s = do {
     (r, s) \<leftarrow> spi_xfer D 0xFF s;
     if ok r then Some s else sd_wait_for D ok s }"

fun sd_collect :: "device \<Rightarrow> nat \<Rightarrow> 'a machine_scheme \<Rightarrow> (u8 list \<times> 'a machine_scheme) option" where
  "sd_collect D 0 s = Some ([], s)"
| "sd_collect D (Suc n) s = do {
     (r, s) \<leftarrow> spi_xfer D 0xFF s;
     (rs, s) \<leftarrow> sd_collect D n s;
     Some (r # rs, s) }"

definition sd_init :: "arch \<Rightarrow> device \<Rightarrow> 'a machine_scheme \<Rightarrow> 'a machine_scheme option" where
  "sd_init a D s = do {
     let s = spi_init D 0 s;
     let s = spi_cs_dis D 4 s;
     s \<leftarrow> spi_send D (replicate 10 0xFF) s;
     let s = spi_cs_en D 4 s;
     (r, s) \<leftarrow> sd_cmd D 0 0 s;
     if r \<noteq> 0x01 then uart_puts a D (''SD init fail'' @ crlf) s
     else do {
       s \<leftarrow> sd_wait_ready D s;
       let s = spi_cs_dis D 4 s;
       uart_puts a D (''SD ready'' @ crlf) s
     }
   }"

text \<open>\<open>buf\<close> is the caller's buffer; the new contents are the second component.\<close>

definition sd_read :: "device \<Rightarrow> u32 \<Rightarrow> u8 list \<Rightarrow> 'a machine_scheme \<Rightarrow> (u8 \<times> u8 list \<times> 'a machine_scheme) option" where
  "sd_read D block buf s = do {
     let s = spi_cs_en D 4 s;
     (r, s) \<leftarrow> sd_cmd D 17 (push_bit 9 block) s;
     if r \<noteq> 0 then Some (1, buf, spi_cs_dis D 4 s)
     else do {
       s \<leftarrow> sd_wait_for D (\<lambda>r. r = 0xFE) s;
       (bs, s) \<leftarrow> sd_collect D SD_BLOCK_SIZE s;
       s \<leftarrow> spi_send D [0xFF, 0xFF] s;
       Some (0, bs, spi_cs_dis D 4 s)
     }
   }"

definition sd_write :: "device \<Rightarrow> u32 \<Rightarrow> u8 list \<Rightarrow> 'a machine_scheme \<Rightarrow> (u8 \<times> 'a machine_scheme) option" where
  "sd_write D block buf s = do {
     let s = spi_cs_en D 4 s;
     (r, s) \<leftarrow> sd_cmd D 24 (push_bit 9 block) s;
     if r \<noteq> 0 then Some (1, spi_cs_dis D 4 s)
     else do {
       s \<leftarrow> spi_send D [0xFF, 0xFE] s;
       s \<leftarrow> spi_send D buf s;
       s \<leftarrow> spi_send D [0xFF, 0xFF] s;
       (resp, s) \<leftarrow> spi_xfer D 0xFF s;
       if resp AND 0x1F \<noteq> 0x05 then Some (1, spi_cs_dis D 4 s)
       else do {
         s \<leftarrow> sd_wait_for D (\<lambda>r. r \<noteq> 0) s;
         Some (0, spi_cs_dis D 4 s)
       }
     }
   }"

definition sd_capacity :: u32 where
  "sd_capacity = 0"

section \<open>The bytes on the wire\<close>

definition spi_out :: "'a machine_scheme \<Rightarrow> u64 list" where
  "spi_out s = writes SPI1_DR (trace s)"

definition wire :: "u8 list \<Rightarrow> u64 list" where
  "wire = map ucast"

lemma wire_simps [simp]:
  "wire [] = []" "wire (b # bs) = ucast b # wire bs" "wire (bs @ cs) = wire bs @ wire cs"
  by (simp_all add: wire_def)

lemma spi_ports [simp]: "SPI1_SR \<noteq> SPI1_DR" "SPI1_DR \<noteq> SPI1_SR" "Mem32 a \<noteq> SPI1_DR" "SPI1_DR \<noteq> Mem32 a"
  by (simp_all add: SPI1_SR_def SPI1_DR_def)

text \<open>The effect of a piece of SPI traffic: only the trace grows, and it carries these bytes.\<close>

definition shifts :: "'a machine_scheme \<Rightarrow> u8 list \<Rightarrow> 'a machine_scheme \<Rightarrow> bool" where
  "shifts s bs t \<longleftrightarrow> (\<exists>u. t = s\<lparr>trace := trace s @ u\<rparr> \<and> writes SPI1_DR u = wire bs)"

lemma shifts_nil [simp]: "shifts s [] s"
  by (auto simp: shifts_def intro: exI [of _ "[]"])

lemma shifts_trans: "shifts s bs t \<Longrightarrow> shifts t cs u \<Longrightarrow> shifts s (bs @ cs) u"
  by (force simp: shifts_def)

lemma shifts_out: "shifts s bs t \<Longrightarrow> spi_out t = spi_out s @ wire bs"
  by (auto simp: shifts_def spi_out_def)

lemma shifts_quiet:
  "shifts s [] (or32 D a v s)" "shifts s [] (spi_cs_en D cs s)" "shifts s [] (spi_cs_dis D cs s)"
  by (auto simp: shifts_def bus spi_cs_en_def spi_cs_dis_def)

lemma shifts_step: "shifts s [] t \<Longrightarrow> shifts t bs u \<Longrightarrow> shifts s bs u"
  using shifts_trans [of s "[]" t bs u] by simp

lemma shifts_end: "shifts s bs t \<Longrightarrow> shifts t [] u \<Longrightarrow> shifts s bs u"
  using shifts_trans [of s bs t "[]" u] by simp

lemma spi_xfer_shifts:
  assumes "spi_xfer D b s = Some (r, t)"
  shows "shifts s [b] t"
proof -
  obtain s1 s2 where p: "poll D SPI1_SR (\<lambda>r :: u32. r AND push_bit 1 1 \<noteq> 0) s = Some s1"
    "poll D SPI1_SR (\<lambda>r :: u32. r AND push_bit 0 1 \<noteq> 0) (wr SPI1_DR b s1) = Some s2" "(r, t) = rd D SPI1_DR s2"
    using assms unfolding spi_xfer_def bind_eq_Some_conv Let_def by auto
  obtain vs where 1: "s1 = s\<lparr>trace := trace s @ map (Rd SPI1_SR) vs\<rparr>" using poll_trace [OF p(1)] by blast
  obtain ws where 2: "s2 = (wr SPI1_DR b s1)\<lparr>trace := trace (wr SPI1_DR b s1) @ map (Rd SPI1_SR) ws\<rparr>"
    using poll_trace [OF p(2)] by blast
  have "t = s2\<lparr>trace := trace s2 @ [Rd SPI1_DR (ucast r)]\<rparr>" using p(3) by (auto simp: rd_def Let_def)
  then show ?thesis unfolding shifts_def 1 2 by (auto simp: wr_def)
qed

lemma spi_send_shifts: "spi_send D bs s = Some t \<Longrightarrow> shifts s bs t"
proof (induction bs arbitrary: s)
  case (Cons b bs)
  then obtain r u where u: "spi_xfer D b s = Some (r, u)" "spi_send D bs u = Some t"
    by (auto simp: bind_eq_Some_conv)
  show ?case using shifts_trans [OF spi_xfer_shifts [OF u(1)] Cons.IH [OF u(2)]] by simp
qed simp

lemma sd_response_shifts:
  "sd_response D n s = Some (r, t) \<Longrightarrow> \<exists>k \<le> n. shifts s (replicate k 0xFF) t"
proof (induction n arbitrary: s)
  case 0
  then show ?case by (intro exI [of _ 0]) simp
next
  case (Suc n)
  then obtain q u where u: "spi_xfer D 0xFF s = Some (q, u)"
    "(if q AND 0x80 = 0 then Some (q, u) else sd_response D n u) = Some (r, t)"
    by (auto simp: bind_eq_Some_conv)
  note x = spi_xfer_shifts [OF u(1)]
  show ?case
  proof (cases "q AND 0x80 = 0")
    case True
    with u x show ?thesis by (intro exI [of _ 1]) simp
  next
    case False
    with u Suc.IH obtain k where "k \<le> n" "shifts u (replicate k 0xFF) t" by (auto split: if_splits)
    with shifts_trans [OF x] show ?thesis by (intro exI [of _ "Suc k"]) auto
  qed
qed

lemma sd_cmd_shifts:
  assumes "sd_cmd D cmd arg s = Some (r, t)"
  shows "\<exists>k \<le> 8. shifts s (sd_frame cmd arg @ replicate k 0xFF) t"
proof -
  obtain u where u: "spi_send D (sd_frame cmd arg) s = Some u" "sd_response D 8 u = Some (r, t)"
    using assms by (auto simp: sd_cmd_def bind_eq_Some_conv)
  with sd_response_shifts [OF u(2)] shifts_trans [OF spi_send_shifts [OF u(1)]] show ?thesis by blast
qed

lemma sd_wait_for_shifts:
  assumes "sd_wait_for D ok s = Some t"
  shows "\<exists>k. shifts s (replicate k 0xFF) t"
proof (rule sd_wait_for.raw_induct [where P = "\<lambda>D ok s t. \<exists>k. shifts s (replicate k 0xFF) t", OF _ assms])
  fix f :: "device \<Rightarrow> (u8 \<Rightarrow> bool) \<Rightarrow> 'a machine_scheme \<Rightarrow> 'a machine_scheme option" and D ok s t
  assume IH: "\<And>D ok s t. f D ok s = Some t \<Longrightarrow> \<exists>k. shifts s (replicate k 0xFF) t"
    and eq: "do { (r, s) \<leftarrow> spi_xfer D 0xFF s; if ok r then Some s else f D ok s } = Some t"
  obtain r u where u: "spi_xfer D 0xFF s = Some (r, u)" "(if ok r then Some u else f D ok u) = Some t"
    using eq by (auto simp: bind_eq_Some_conv)
  note x = spi_xfer_shifts [OF u(1)]
  show "\<exists>k. shifts s (replicate k 0xFF) t"
  proof (cases "ok r")
    case True
    with u x show ?thesis by (intro exI [of _ 1]) simp
  next
    case False
    with u(2) have "f D ok u = Some t" by simp
    from IH [OF this] obtain k where "shifts u (replicate k 0xFF) t" by blast
    with shifts_trans [OF x] show ?thesis by (intro exI [of _ "Suc k"]) auto
  qed
qed

text \<open>
  What a block write leaves on the wire. A run that reports success has sent the command for the
  block, at most eight polls for its answer, the data token, the data and two checksum bytes.
\<close>

lemma sd_write_shifts:
  assumes "sd_write D block buf s = Some (r, t)"
  shows "\<exists>k \<le> 8. \<exists>m. shifts s (sd_frame 24 (push_bit 9 block) @ replicate k 0xFF @
    (if r = 0 then [0xFF, 0xFE] @ buf @ [0xFF, 0xFF, 0xFF] @ replicate m 0xFF else [])) t \<or>
    r = 1 \<and> shifts s (sd_frame 24 (push_bit 9 block) @ replicate k 0xFF @ [0xFF, 0xFE] @ buf @ [0xFF, 0xFF, 0xFF]) t"
proof -
  obtain c u where u: "sd_cmd D 24 (push_bit 9 block) (spi_cs_en D 4 s) = Some (c, u)"
    using assms unfolding sd_write_def Let_def bind_eq_Some_conv by (auto simp del: spi_send.simps)
  from sd_cmd_shifts [OF u] obtain k where k: "k \<le> 8"
    "shifts s (sd_frame 24 (push_bit 9 block) @ replicate k 0xFF) u"
    using shifts_step [OF shifts_quiet(2)] by metis
  show ?thesis
  proof (cases "c = 0")
    case False
    then have "r = 1" "t = spi_cs_dis D 4 u" using assms u by (auto simp: sd_write_def)
    with k shifts_end [OF k(2) shifts_quiet(3)] show ?thesis by auto
  next
    case True
    obtain v1 v2 v3 v4 resp where v: "spi_send D [0xFF, 0xFE] u = Some v1" "spi_send D buf v1 = Some v2"
      "spi_send D [0xFF, 0xFF] v2 = Some v3" "spi_xfer D 0xFF v3 = Some (resp, v4)"
      and e: "(if resp AND 0x1F \<noteq> 0x05 then Some (1, spi_cs_dis D 4 v4)
       else do { s \<leftarrow> sd_wait_for D (\<lambda>r. r \<noteq> 0) v4; Some (0, spi_cs_dis D 4 s) }) = Some (r, t)"
      using assms u True unfolding sd_write_def by (auto simp: bind_eq_Some_conv simp del: spi_send.simps)
    note sh = k(2) [THEN shifts_trans, OF spi_send_shifts [OF v(1)], THEN shifts_trans, OF spi_send_shifts [OF v(2)],
        THEN shifts_trans, OF spi_send_shifts [OF v(3)], THEN shifts_trans, OF spi_xfer_shifts [OF v(4)]]
    show ?thesis
    proof (cases "resp AND 0x1F = 0x05")
      case False
      with e have "r = 1" "t = spi_cs_dis D 4 v4" by auto
      with k(1) shifts_end [OF sh shifts_quiet(3)] show ?thesis by auto
    next
      case True
      with e obtain w where w: "sd_wait_for D (\<lambda>r. r \<noteq> 0) v4 = Some w" "r = 0" "t = spi_cs_dis D 4 w"
        by (auto simp: bind_eq_Some_conv)
      obtain m where "shifts v4 (replicate m 0xFF) w" using sd_wait_for_shifts [OF w(1)] by blast
      from shifts_end [OF shifts_trans [OF sh this] shifts_quiet(3)] k(1) w(2,3) show ?thesis
        by (intro exI [of _ k]) auto
    qed
  qed
qed

section \<open>A controller that is always ready\<close>

definition spi_ready :: "device \<Rightarrow> bool" where
  "spi_ready D \<longleftrightarrow> (\<forall>t. D t SPI1_SR = 3)"

lemma spi_xfer_ready:
  assumes "spi_ready D"
  shows "\<exists>tr t. spi_xfer D b s = Some (ucast (D tr SPI1_DR), t) \<and> writes SPI1_DR tr = spi_out s @ [ucast b] \<and>
    spi_out t = spi_out s @ [ucast b]"
proof -
  let ?tr = "trace s @ [Rd SPI1_SR 3, Wr SPI1_DR (ucast b), Rd SPI1_SR 3]"
  have "spi_xfer D b s = Some (ucast (D ?tr SPI1_DR), s\<lparr>trace := ?tr @ [Rd SPI1_DR (ucast (ucast (D ?tr SPI1_DR) :: u8))]\<rparr>)"
    using assms by (simp add: spi_xfer_def spi_ready_def poll_step seen_def bus)
  then show ?thesis by (intro exI [of _ ?tr] exI conjI) (assumption, simp_all add: spi_out_def)
qed

lemma spi_send_ready: "spi_ready D \<Longrightarrow> \<exists>t. spi_send D bs s = Some t \<and> spi_out t = spi_out s @ wire bs"
proof (induction bs arbitrary: s)
  case (Cons b bs)
  obtain r t where t: "spi_xfer D b s = Some (r, t)" "spi_out t = spi_out s @ [ucast b]"
    using spi_xfer_ready [OF Cons.prems] by blast
  with Cons.IH [OF Cons.prems, of t] show ?case by auto
qed simp

lemma sd_response_ready: "spi_ready D \<Longrightarrow> \<exists>r t. sd_response D n s = Some (r, t)"
proof (induction n arbitrary: s)
  case (Suc n)
  obtain r t where "spi_xfer D 0xFF s = Some (r, t)" using spi_xfer_ready [OF Suc.prems] by blast
  with Suc.IH [OF Suc.prems, of t] show ?case by auto
qed simp

lemma sd_cmd_ready: "spi_ready D \<Longrightarrow> \<exists>r t. sd_cmd D cmd arg s = Some (r, t)"
  using spi_send_ready [of D "sd_frame cmd arg" s] sd_response_ready [of D 8]
  by (fastforce simp: sd_cmd_def)

text \<open>A card that accepts a block write which starts on a silent bus.\<close>

definition good_card :: device where
  "good_card t p = (if p = SPI1_SR then 3 else if length (writes SPI1_DR t) = 8 then 0 else 5)"

lemma good_card_ready: "spi_ready good_card"
  by (simp add: spi_ready_def good_card_def)

lemma good_card_xfer:
  "\<exists>t. spi_xfer good_card b s = Some (if length (spi_out s) = 7 then 0 else 5, t) \<and> spi_out t = spi_out s @ [ucast b]"
proof -
  obtain tr t where "spi_xfer good_card b s = Some (ucast (good_card tr SPI1_DR), t)"
    "writes SPI1_DR tr = spi_out s @ [ucast b]" "spi_out t = spi_out s @ [ucast b]"
    using spi_xfer_ready [OF good_card_ready] by blast
  then show ?thesis by (auto simp: good_card_def)
qed

lemma good_card_write:
  assumes "spi_out s = []"
  shows "\<exists>t. sd_write good_card block buf s = Some (0, t)"
proof -
  have "spi_out (spi_cs_en good_card 4 s) = []" using assms by (simp add: spi_out_def spi_cs_en_def bus)
  then obtain u where u: "spi_send good_card (sd_frame 24 (push_bit 9 block)) (spi_cs_en good_card 4 s) = Some u"
    "length (spi_out u) = 7"
    using spi_send_ready [OF good_card_ready, of "sd_frame 24 (push_bit 9 block)" "spi_cs_en good_card 4 s"]
    by (auto simp: sd_frame_def)
  obtain v where v: "spi_xfer good_card 0xFF u = Some (0, v)" "length (spi_out v) = 8"
    using good_card_xfer [of "0xFF" u] u(2) by auto
  have c: "sd_cmd good_card 24 (push_bit 9 block) (spi_cs_en good_card 4 s) = Some (0, v)"
    using u(1) v(1) by (simp add: sd_cmd_def eval_nat_numeral)
  obtain v1 where v1: "spi_send good_card [0xFF, 0xFE] v = Some v1" "8 < length (spi_out v1)"
    using spi_send_ready [OF good_card_ready, of "[0xFF, 0xFE]" v] v(2) by auto
  obtain v2 where v2: "spi_send good_card buf v1 = Some v2" "8 < length (spi_out v2)"
    using spi_send_ready [OF good_card_ready, of buf v1] v1(2) by auto
  obtain v3 where v3: "spi_send good_card [0xFF, 0xFF] v2 = Some v3" "8 < length (spi_out v3)"
    using spi_send_ready [OF good_card_ready, of "[0xFF, 0xFF]" v2] v2(2) by auto
  obtain v4 where v4: "spi_xfer good_card 0xFF v3 = Some (5, v4)" "8 < length (spi_out v4)"
    using good_card_xfer [of "0xFF" v3] v3(2) by auto
  obtain v5 where "spi_xfer good_card 0xFF v4 = Some (5, v5)"
    using good_card_xfer [of "0xFF" v4] v4(2) by auto
  then have "sd_wait_for good_card (\<lambda>r. r \<noteq> 0) v4 = Some v5" by (subst sd_wait_for.simps) simp
  with c v1(1) v2(1) v3(1) v4(1) show ?thesis
    by (simp add: sd_write_def del: spi_send.simps)
qed

section \<open>Properties\<close>

text \<open>A block write that reports success has put on the wire the write command with the byte address of
  the block, at most eight polls for the answer, the data token, exactly the given data and the
  two checksum bytes, in this order.\<close>

lemma sd_write_on_wire:
  assumes "sd_write D block buf s = Some (0, t)"
  shows "\<exists>k \<le> 8. \<exists>m. spi_out t = spi_out s @ wire ([0xFF, 0x58, ucast (drop_bit 24 (push_bit 9 block)),
      ucast (drop_bit 16 (push_bit 9 block)), ucast (drop_bit 8 (push_bit 9 block)), ucast (push_bit 9 block), 0xFF] @
    replicate k 0xFF @ [0xFF, 0xFE] @ buf @ [0xFF, 0xFF, 0xFF] @ replicate m 0xFF)"
proof -
  from sd_write_shifts [OF assms] obtain k m where k: "k \<le> 8" "shifts s (sd_frame 24 (push_bit 9 block) @
      replicate k 0xFF @ [0xFF, 0xFE] @ buf @ [0xFF, 0xFF, 0xFF] @ replicate m 0xFF) t" by auto
  from shifts_out [OF k(2)] k(1) show ?thesis unfolding sd_frame_def by (intro exI [of _ k] conjI exI [of _ m]) auto
qed

end
