(* ===== verification/Logger.thy ===== *)
theory Logger
  imports Can Sd Timer
begin

text \<open>
  \<open>src/kernel/log.c\<close>: CAN frames are collected in a 512 byte buffer, twenty bytes each, and the
  buffer goes to the next block of the SD card when no further entry fits.
\<close>

definition LOG_MAGIC :: u32 where "LOG_MAGIC = 0xB10DDEAD"
definition LOG_ENTRY_BYTES :: u32 where "LOG_ENTRY_BYTES = 20"

record kernel_log = timer +
  log_block :: u32
  log_buf :: "u8 list"
  log_idx :: u32

text \<open>The bytes of a \<open>log_entry_t\<close>, and their place in the buffer.\<close>

definition log_entry :: "u32 \<Rightarrow> can_frame \<Rightarrow> u8 list" where
  "log_entry ts f = le32 LOG_MAGIC @ le32 ts @ le32 (can_id f) @ take 8 (can_data f)"

definition put_bytes :: "nat \<Rightarrow> u8 list \<Rightarrow> u8 list \<Rightarrow> u8 list" where
  "put_bytes i bs buf = take i buf @ bs @ drop (i + length bs) buf"

definition log_flush :: "device \<Rightarrow> 'a kernel_log_scheme \<Rightarrow> 'a kernel_log_scheme option" where
  "log_flush D s =
     (if log_idx s \<noteq> 0 then do {
        let b = log_block s;
        let s = s\<lparr>log_block := b + 1\<rparr>;
        (r, s) \<leftarrow> sd_write D b (log_buf s) s;
        Some (s\<lparr>log_idx := 0\<rparr>)
      } else Some s)"

definition log_init :: "arch \<Rightarrow> device \<Rightarrow> 'a kernel_log_scheme \<Rightarrow> 'a kernel_log_scheme option" where
  "log_init a D s = do { s \<leftarrow> sd_init a D s; log_flush D s }"

definition log_can :: "arch \<Rightarrow> device \<Rightarrow> can_frame \<Rightarrow> 'a kernel_log_scheme \<Rightarrow> 'a kernel_log_scheme option" where
  "log_can a D f s =
     (let s = s\<lparr>log_buf := put_bytes (unat (log_idx s)) (log_entry (timer_ticks a s) f) (log_buf s)\<rparr>;
          s = s\<lparr>log_idx := log_idx s + LOG_ENTRY_BYTES\<rparr>
      in if unat (log_idx s + LOG_ENTRY_BYTES) > SD_BLOCK_SIZE then log_flush D s else Some s)"

section \<open>The buffer\<close>

definition log_inv :: "'a kernel_log_scheme \<Rightarrow> bool" where
  "log_inv s \<longleftrightarrow> length (log_buf s) = SD_BLOCK_SIZE \<and> unat (log_idx s) mod 20 = 0 \<and> unat (log_idx s) < 500"

text \<open>The entries not yet on the card.\<close>

definition pending :: "'a kernel_log_scheme \<Rightarrow> u8 list" where
  "pending s = take (unat (log_idx s)) (log_buf s)"

text \<open>A card for which every write returns, whatever it reports.\<close>

definition card_answers :: "device \<Rightarrow> bool" where
  "card_answers D \<longleftrightarrow> (\<forall>b buf (s :: kernel_log). \<exists>r t. sd_write D b buf s = Some (r, t))"

lemma sd_write_frame: "sd_write D b buf s = Some (r, t) \<Longrightarrow> \<exists>u. t = s\<lparr>trace := u\<rparr>"
  using sd_write_shifts [of D b buf s r t] by (auto simp: shifts_def)

lemma length_log_entry: "length (can_data f) = 8 \<Longrightarrow> length (log_entry ts f) = 20"
  by (simp add: log_entry_def)

lemma log_can_step:
  assumes "log_inv s" "length (can_data f) = 8"
  shows "log_can a D f s =
    (let s' = s\<lparr>log_buf := put_bytes (unat (log_idx s)) (log_entry (timer_ticks a s) f) (log_buf s)\<rparr>
     in if unat (log_idx s) < 480 then Some (s'\<lparr>log_idx := log_idx s + 20\<rparr>)
        else do { (r, t) \<leftarrow> sd_write D (log_block s) (log_buf s') (s'\<lparr>log_idx := 500, log_block := log_block s + 1\<rparr>);
                  Some (t\<lparr>log_idx := 0\<rparr>) })"
proof -
  have i: "unat (log_idx s) < 500" "unat (log_idx s) mod 20 = 0" using assms(1) by (simp_all add: log_inv_def)
  then have i480: "unat (log_idx s) \<le> 480" by presburger
  have u: "unat (log_idx s + 20 + 20) = unat (log_idx s) + 40"
    using i by (simp add: unat_word_ariths)
  show ?thesis
  proof (cases "unat (log_idx s) < 480")
    case True
    then have "unat (log_idx s) \<le> 460" using i(2) by presburger
    with True show ?thesis
      using u by (simp add: log_can_def LOG_ENTRY_BYTES_def SD_BLOCK_SIZE_def Let_def timer_ticks_def)
  next
    case False
    with i480 have "unat (log_idx s) = 480" by simp
    then have e: "log_idx s = 480" by (simp add: word_unat_eq_iff)
    show ?thesis using False
      by (simp add: log_can_def LOG_ENTRY_BYTES_def SD_BLOCK_SIZE_def log_flush_def e timer_ticks_def Let_def)
  qed
qed

lemma take_put_bytes:
  "i + length bs \<le> length buf \<Longrightarrow> take (i + length bs) (put_bytes i bs buf) = take i buf @ bs \<and>
   length (put_bytes i bs buf) = length buf"
  by (simp add: put_bytes_def)

text \<open>A card that refuses every command: the driver answers, and the log goes on.\<close>

definition refusing_card :: device where
  "refusing_card t p = (if p = SPI1_SR then 3 else 1)"

lemma refusing_card_answers: "card_answers refusing_card"
proof -
  have rdy: "spi_ready refusing_card" by (simp add: spi_ready_def refusing_card_def)
  have "\<exists>r t. sd_write refusing_card b buf s = Some (r, t)" for b buf and s :: kernel_log
  proof -
    obtain u where u: "spi_send refusing_card (sd_frame 24 (push_bit 9 b)) (spi_cs_en refusing_card 4 s) = Some u"
      using spi_send_ready [OF rdy] by blast
    obtain tr v where "spi_xfer refusing_card 0xFF u = Some (ucast (refusing_card tr SPI1_DR), v)"
      using spi_xfer_ready [OF rdy] by blast
    then have "sd_response refusing_card 8 u = Some (1, v)"
      by (simp add: refusing_card_def eval_nat_numeral)
    with u have "sd_cmd refusing_card 24 (push_bit 9 b) (spi_cs_en refusing_card 4 s) = Some (1, v)"
      by (simp add: sd_cmd_def)
    then show ?thesis by (simp add: sd_write_def)
  qed
  then show ?thesis by (simp add: card_answers_def)
qed

section \<open>Properties\<close>

text \<open>C10: A call of \<open>log_can\<close> never writes outside the 512 byte buffer and adds exactly one entry after the
  pending ones. The 25th entry hands the 25 entries to \<open>sd_write\<close> for the next block, empties the
  buffer and moves on to the following block, whatever the card reports.\<close>

theorem log_can_appends:
  fixes s :: kernel_log
  assumes "log_inv s" "length (can_data f) = 8" "card_answers D"
  shows "\<exists>t. log_can a D f s = Some t \<and> log_inv t \<and>
    (if unat (log_idx s) < 480 then pending t = pending s @ log_entry (timer_ticks a s) f \<and>
       log_block t = log_block s \<and> trace t = trace s
     else pending t = [] \<and> log_block t = log_block s + 1 \<and>
       (\<exists>buf (u :: kernel_log) r v. sd_write D (log_block s) buf u = Some (r, v) \<and> trace u = trace s \<and> trace t = trace v \<and>
          length buf = 512 \<and> take 500 buf = pending s @ log_entry (timer_ticks a s) f))"
proof -
  let ?e = "log_entry (timer_ticks a s) f" and ?i = "unat (log_idx s)"
  let ?buf = "put_bytes ?i ?e (log_buf s)"
  have i: "?i \<le> 480" "?i mod 20 = 0" and len: "length (log_buf s) = 512"
    using assms(1) unfolding log_inv_def SD_BLOCK_SIZE_def by presburger+
  note le = length_log_entry [OF assms(2), of "timer_ticks a s"]
  have b: "take (?i + 20) ?buf = pending s @ ?e" "length ?buf = 512"
    using take_put_bytes [of ?i ?e "log_buf s"] i(1) len le by (simp_all add: pending_def)
  show ?thesis
  proof (cases "?i < 480")
    case True
    have u: "unat (log_idx s + 20) = ?i + 20" using i(1) by (simp add: unat_word_ariths)
    have "?i \<le> 460" using True i(2) by presburger
    moreover have "(?i + 20) mod 20 = 0" using i(2) by simp
    ultimately show ?thesis using True b u
      by (simp add: log_can_step [OF assms(1,2)] log_inv_def SD_BLOCK_SIZE_def pending_def Let_def)
  next
    case False
    with i have "?i = 480" by simp
    let ?u = "s\<lparr>log_buf := ?buf, log_idx := 500, log_block := log_block s + 1\<rparr>"
    obtain r v where v: "sd_write D (log_block s) ?buf ?u = Some (r, v)"
      using assms(3) unfolding card_answers_def by blast
    obtain tr where tr: "v = ?u\<lparr>trace := tr\<rparr>" using sd_write_frame [OF v] by blast
    have "log_can a D f s = Some (v\<lparr>log_idx := 0\<rparr>)"
      using v False by (simp add: log_can_step [OF assms(1,2)] Let_def)
    moreover have "\<exists>buf (u :: kernel_log) r w. sd_write D (log_block s) buf u = Some (r, w) \<and> trace u = trace s \<and> trace v = trace w \<and>
        length buf = 512 \<and> take 500 buf = pending s @ ?e"
      using v b \<open>?i = 480\<close> by - (rule exI [of _ ?buf], rule exI [of _ ?u], rule exI [of _ r], rule exI [of _ v], simp)
    ultimately show ?thesis using False b tr
      by (simp add: log_inv_def SD_BLOCK_SIZE_def pending_def)
  qed
qed

definition log0 :: kernel_log where
  "log0 = \<lparr>trace = [], pit_ticks = 0, pit_frequency = 0, pit_loops_per_10ms = 0, system_ticks = 7,
     log_block = 1, log_buf = replicate 512 0, log_idx = 0\<rparr>"

lemma log_can_appends_witness:
  "\<exists>t. log_can Arm refusing_card frame1 log0 = Some t \<and> pending t = log_entry 7 frame1 \<and> log_block t = 1"
proof -
  have inv: "log_inv log0" by (simp add: log_inv_def log0_def SD_BLOCK_SIZE_def)
  have l: "length (can_data frame1) = 8" by (simp add: frame1_def)
  have p: "unat (log_idx log0) < 480" "pending log0 = []" "timer_ticks Arm log0 = 7" "log_block log0 = 1"
    by (simp_all add: pending_def log0_def timer_ticks_def)
  from log_can_appends [OF inv l refusing_card_answers, of Arm] p show ?thesis by auto
qed

end
