(* ===== verification/Sched.thy ===== *)
theory Sched
  imports Logger Spinlock
begin

text \<open>
  \<open>src/kernel/sched.c\<close>: the round-robin scheduler with stack canaries.

  A task pointer into \<open>task_pool\<close> is an index, the null pointer is \<open>None\<close>. The task stacks live
  in \<open>ram\<close>. \<open>context_switch\<close> is assembly: a call is recorded in \<open>switches\<close> with the task whose
  stack pointer it saves (none for the null pointer) and the stack pointer it loads. Every
  operation returns an option: \<open>None\<close> if it does not return, because it spins on a lock or a
  transmitter, or because it dereferences the null pointer.
\<close>

definition MAX_TASKS :: nat where "MAX_TASKS = 32"
definition STACK_CANARY :: u32 where "STACK_CANARY = 0xDEADBEEF"

record task =
  t_sp :: u32
  t_stack_base :: u32
  t_stack_size :: u32
  t_canary :: u32
  t_state :: u8
  t_priority :: u8
  t_pid :: u32

record sched = kernel_log +
  task_pool :: "task list"
  current_task :: "nat option"
  next_pid :: u32
  sched_lock :: u32
  ram :: memory
  switches :: "(nat option \<times> u32) list"

definition upd_task :: "nat \<Rightarrow> (task \<Rightarrow> task) \<Rightarrow> 'a sched_scheme \<Rightarrow> 'a sched_scheme" where
  "upd_task i f s = s\<lparr>task_pool := (task_pool s)[i := f (task_pool s ! i)]\<rparr>"

definition take_lock :: "'a sched_scheme \<Rightarrow> 'a sched_scheme option" where
  "take_lock s = do { l \<leftarrow> spin_lock (sched_lock s); Some (s\<lparr>sched_lock := l\<rparr>) }"

definition drop_lock :: "'a sched_scheme \<Rightarrow> 'a sched_scheme" where
  "drop_lock s = s\<lparr>sched_lock := spin_unlock (sched_lock s)\<rparr>"

definition write_canary :: "nat \<Rightarrow> 'a sched_scheme \<Rightarrow> 'a sched_scheme" where
  "write_canary i s =
     (let s = s\<lparr>ram := store32 (ram s) (t_stack_base (task_pool s ! i)) STACK_CANARY\<rparr>
      in upd_task i (t_canary_update (\<lambda>_. STACK_CANARY)) s)"

definition check_canary :: "'a sched_scheme \<Rightarrow> task \<Rightarrow> u8" where
  "check_canary s t = (if load32 (ram s) (t_stack_base t) = t_canary t then 1 else 0)"

definition sched_init :: "arch \<Rightarrow> device \<Rightarrow> 'a sched_scheme \<Rightarrow> 'a sched_scheme option" where
  "sched_init a D s = do {
     let s = s\<lparr>task_pool := map (\<lambda>t. t\<lparr>t_state := 0, t_pid := 0\<rparr>) (task_pool s)\<rparr>;
     uart_puts a D (''Scheduler initialized'' @ crlf) s
   }"

definition stack_base_of :: "arch \<Rightarrow> nat \<Rightarrow> u32" where
  "stack_base_of a i = (if a = Arm then 0x20010000 + of_nat i * 0x4000 else 0x8000 + of_nat i * 0x400)"

text \<open>The words a new task's stack starts with.\<close>

definition initial_frame :: "arch \<Rightarrow> u32 \<Rightarrow> u32 \<Rightarrow> memory \<Rightarrow> memory" where
  "initial_frame a entry sp m = (case a of
     Arm \<Rightarrow> store32 (store32 (store32 m sp 0x01000000) (sp + 4) entry) (sp + 8) 0xFFFFFFFD
   | X86_64 \<Rightarrow> store32 m sp entry
   | Other_arch \<Rightarrow> m)"

definition task_create :: "arch \<Rightarrow> u32 \<Rightarrow> u32 \<Rightarrow> 'a sched_scheme \<Rightarrow> (u32 \<times> 'a sched_scheme) option" where
  "task_create a entry stack_size s = do {
     s \<leftarrow> take_lock s;
     (case find (\<lambda>i. t_state (task_pool s ! i) = 0) [0..<MAX_TASKS] of
        Some i \<Rightarrow>
          (let s = upd_task i (t_pid_update (\<lambda>_. next_pid s)) (s\<lparr>next_pid := next_pid s + 1\<rparr>);
               s = upd_task i (t_stack_size_update (\<lambda>_. stack_size)) s;
               s = upd_task i (t_stack_base_update (\<lambda>_. stack_base_of a i)) s;
               s = upd_task i (\<lambda>t. t\<lparr>t_sp := t_stack_base t + stack_size - 32\<rparr>) s;
               s = write_canary i s;
               s = s\<lparr>ram := initial_frame a entry (t_sp (task_pool s ! i)) (ram s)\<rparr>;
               s = upd_task i (t_state_update (\<lambda>_. 0)) s;
               s = drop_lock s
           in Some (t_pid (task_pool s ! i), s))
      | None \<Rightarrow> Some (0, drop_lock s))
   }"

fun stack_check_from :: "arch \<Rightarrow> device \<Rightarrow> nat list \<Rightarrow> 'a sched_scheme \<Rightarrow> 'a sched_scheme option" where
  "stack_check_from a D [] s = Some s"
| "stack_check_from a D (i # is) s =
     (if t_pid (task_pool s ! i) \<noteq> 0 \<and> check_canary s (task_pool s ! i) = 0 then do {
        s \<leftarrow> uart_puts a D ''Stack overflow task '' s;
        s \<leftarrow> uart_hex a D (t_pid (task_pool s ! i)) s;
        s \<leftarrow> uart_puts a D crlf s;
        stack_check_from a D is (upd_task i (t_state_update (\<lambda>_. 0)) s)
      } else stack_check_from a D is s)"

definition task_stack_check :: "arch \<Rightarrow> device \<Rightarrow> 'a sched_scheme \<Rightarrow> 'a sched_scheme option" where
  "task_stack_check a D s = stack_check_from a D [0..<MAX_TASKS] s"

definition ready :: "'a sched_scheme \<Rightarrow> nat \<Rightarrow> bool" where
  "ready s i \<longleftrightarrow> t_state (task_pool s ! i) = 0 \<and> t_pid (task_pool s ! i) \<noteq> 0"

definition context_switch :: "nat option \<Rightarrow> u32 \<Rightarrow> 'a sched_scheme \<Rightarrow> 'a sched_scheme" where
  "context_switch old sp s = s\<lparr>switches := switches s @ [(old, sp)]\<rparr>"

definition sched_start :: "arch \<Rightarrow> device \<Rightarrow> 'a sched_scheme \<Rightarrow> 'a sched_scheme option" where
  "sched_start a D s = (
     let s = (if current_task s = None then
                (case find (ready s) [0..<MAX_TASKS] of
                   Some i \<Rightarrow> upd_task i (t_state_update (\<lambda>_. 1)) (s\<lparr>current_task := Some i\<rparr>)
                 | None \<Rightarrow> s)
              else s)
     in case current_task s of
          Some c \<Rightarrow> do {
            s \<leftarrow> uart_puts a D (''Switching to first task'' @ crlf) s;
            Some (context_switch None (t_sp (task_pool s ! c)) s) }
        | None \<Rightarrow> Some s)"

text \<open>The slots in the order \<open>task_yield\<close> looks at them.\<close>

definition yield_order :: "nat \<Rightarrow> nat list" where
  "yield_order start = map (\<lambda>i. (start + i) mod MAX_TASKS) [1..<MAX_TASKS + 1]"

definition task_yield :: "arch \<Rightarrow> device \<Rightarrow> 'a sched_scheme \<Rightarrow> 'a sched_scheme option" where
  "task_yield a D s = do {
     s \<leftarrow> take_lock s;
     s \<leftarrow> task_stack_check a D s;
     let start = (case current_task s of Some c \<Rightarrow> c | None \<Rightarrow> 0);
     let nxt = (case find (ready s) (yield_order start) of Some i \<Rightarrow> Some i | None \<Rightarrow> current_task s);
     if nxt \<noteq> current_task s then do {
       let old = current_task s;
       let s = s\<lparr>current_task := nxt\<rparr>;
       let s = (case old of Some c \<Rightarrow> upd_task c (t_state_update (\<lambda>_. 0)) s | None \<Rightarrow> s);
       n \<leftarrow> nxt;
       let s = upd_task n (t_state_update (\<lambda>_. 1)) s;
       let s = drop_lock s;
       Some (context_switch old (t_sp (task_pool s ! n)) s)
     } else Some (drop_lock s)
   }"

definition task_exit :: "arch \<Rightarrow> device \<Rightarrow> 'a sched_scheme \<Rightarrow> 'a sched_scheme option" where
  "task_exit a D s = do {
     s \<leftarrow> take_lock s;
     c \<leftarrow> current_task s;
     let s = upd_task c (t_state_update (\<lambda>_. 0)) s;
     let s = drop_lock s;
     task_yield a D s
   }"

section \<open>The invariant of the pool\<close>

text \<open>
  The pool has its 32 slots, the lock is free between calls, the current task is a slot with a
  process id, and a slot marked running is the current one. Slots are ready or running only.
\<close>

definition pool_inv :: "'a sched_scheme \<Rightarrow> bool" where
  "pool_inv s \<longleftrightarrow> length (task_pool s) = MAX_TASKS \<and>
     (\<forall>c. current_task s = Some c \<longrightarrow> c < MAX_TASKS) \<and>
     (\<forall>i < MAX_TASKS. t_state (task_pool s ! i) = 0 \<or>
        t_state (task_pool s ! i) = 1 \<and> current_task s = Some i)"

definition sched_inv :: "'a sched_scheme \<Rightarrow> bool" where
  "sched_inv s \<longleftrightarrow> pool_inv s \<and> sched_lock s = 0"

lemma upd_task_simps [simp]:
  "length (task_pool (upd_task i f s)) = length (task_pool s)"
  "current_task (upd_task i f s) = current_task s"
  "sched_lock (upd_task i f s) = sched_lock s"
  "ram (upd_task i f s) = ram s"
  "next_pid (upd_task i f s) = next_pid s"
  "switches (upd_task i f s) = switches s"
  "trace (upd_task i f s) = trace s"
  by (simp_all add: upd_task_def)

lemma upd_task_nth [simp]:
  "j < length (task_pool s) \<Longrightarrow>
   task_pool (upd_task i f s) ! j = (if j = i then f (task_pool s ! j) else task_pool s ! j)"
  by (auto simp: upd_task_def)

lemma find_upt_lt: "find P [0..<n] = Some i \<Longrightarrow> i < n \<and> P i"
  by (auto simp: find_Some_iff)

lemma find_order_lt: "find P (yield_order c) = Some i \<Longrightarrow> i < MAX_TASKS \<and> P i"
  by (auto simp: find_Some_iff yield_order_def MAX_TASKS_def)

text \<open>Console output changes the trace only.\<close>

lemma uart_frame:
  assumes "uart_puts a D cs s = Some (t :: 'a sched_scheme) \<or> uart_hex a D v s = Some t"
  shows "task_pool t = task_pool s \<and> current_task t = current_task s \<and> sched_lock t = sched_lock s \<and>
    ram t = ram s \<and> next_pid t = next_pid s \<and> switches t = switches s"
  using assms by (auto dest!: uart_puts_sends uart_hex_sends simp: sends_def)

text \<open>What a stack check may change: the state of tasks whose canary is gone, to ready.\<close>

lemma stack_check_frame:
  assumes "stack_check_from a D is s = Some t" "\<forall>i \<in> set is. i < length (task_pool s)"
  shows "length (task_pool t) = length (task_pool s) \<and> current_task t = current_task s \<and>
    sched_lock t = sched_lock s \<and> ram t = ram s \<and> next_pid t = next_pid s \<and> switches t = switches s \<and>
    (\<forall>j < length (task_pool s). task_pool t ! j = task_pool s ! j \<or>
       task_pool t ! j = (task_pool s ! j)\<lparr>t_state := 0\<rparr>)"
  using assms
proof (induction "is" arbitrary: s)
  case Nil
  then show ?case by simp
next
  case (Cons i "is")
  show ?case
  proof (cases "t_pid (task_pool s ! i) \<noteq> 0 \<and> check_canary s (task_pool s ! i) = 0")
    case False
    with Cons show ?thesis by auto
  next
    case True
    then obtain s1 s2 s3 where u: "uart_puts a D ''Stack overflow task '' s = Some s1"
      "uart_hex a D (t_pid (task_pool s1 ! i)) s1 = Some s2" "uart_puts a D crlf s2 = Some s3"
      "stack_check_from a D is (upd_task i (t_state_update (\<lambda>_. 0)) s3) = Some t"
      using Cons.prems(1) by (auto simp: bind_eq_Some_conv simp del: uart_puts.simps)
    have fr: "task_pool s3 = task_pool s \<and> current_task s3 = current_task s \<and>
        sched_lock s3 = sched_lock s \<and> ram s3 = ram s \<and> next_pid s3 = next_pid s \<and> switches s3 = switches s"
      using uart_frame [of a D _ s s1] uart_frame [of a D _ s1 s2] uart_frame [of a D _ s2 s3] u(1-3) by metis
    let ?s = "upd_task i (t_state_update (\<lambda>_. 0)) s3"
    have "\<forall>i \<in> set is. i < length (task_pool ?s)" using Cons.prems(2) fr by simp
    from Cons.IH [OF u(4) this] show ?thesis
      using fr Cons.prems(2) by (auto split: if_splits)
  qed
qed

lemma stack_check_clean:
  assumes "\<forall>i \<in> set is. t_pid (task_pool s ! i) \<noteq> 0 \<longrightarrow> check_canary s (task_pool s ! i) = 1"
  shows "stack_check_from a D is s = Some s"
  using assms by (induction "is") auto

lemma take_lock_iff: "take_lock s = Some t \<longleftrightarrow> sched_lock s = 0 \<and> t = s\<lparr>sched_lock := 1\<rparr>"
  by (auto simp: take_lock_def)

lemma task_stack_check_inv:
  assumes "task_stack_check a D s = Some t" "pool_inv s"
  shows "pool_inv t \<and> sched_lock t = sched_lock s \<and> current_task t = current_task s"
proof -
  have "\<forall>i \<in> set [0..<MAX_TASKS]. i < length (task_pool s)" using assms(2) by (simp add: pool_inv_def)
  from stack_check_frame [OF assms(1) [unfolded task_stack_check_def] this] assms(2)
  show ?thesis by (fastforce simp: pool_inv_def)
qed

end
