(* ===== verification/Sched_Proofs.thy ===== *)
theory Sched_Proofs
  imports Sched
begin

text \<open>
  Properties of the scheduler: the invariant of the task pool over every sequence of calls, the
  round-robin choice and the fairness that follows from it, and the stack canaries.
\<close>

section \<open>Every call keeps the invariant\<close>

lemma task_yield_inv:
  assumes "task_yield a D s = Some t" "sched_inv s"
  shows "sched_inv t"
proof -
  let ?s = "s\<lparr>sched_lock := 1\<rparr>"
  obtain u where u: "task_stack_check a D ?s = Some u" and s0: "sched_lock s = 0"
    using assms(1) by (auto simp: task_yield_def bind_eq_Some_conv take_lock_iff)
  have "pool_inv ?s" using assms(2) by (simp add: sched_inv_def pool_inv_def)
  from task_stack_check_inv [OF u this]
  have inv: "pool_inv u" and cur: "current_task u = current_task s" by simp_all
  define nxt where "nxt = (case find (ready u)
      (yield_order (case current_task u of Some c \<Rightarrow> c | None \<Rightarrow> 0)) of Some i \<Rightarrow> Some i | None \<Rightarrow> current_task u)"
  show ?thesis
  proof (cases "nxt = current_task u")
    case True
    then have "t = drop_lock u"
      using assms(1) u s0 by (auto simp: task_yield_def take_lock_iff take_lock_def nxt_def Let_def)
    with inv show ?thesis by (simp add: sched_inv_def pool_inv_def drop_lock_def)
  next
    case False
    then obtain n where n: "nxt = Some n"
      by (auto simp: nxt_def split: option.splits)
    then have nlt: "n < MAX_TASKS"
      using False by (auto simp: nxt_def dest: find_order_lt split: option.splits)
    let ?u = "u\<lparr>current_task := Some n\<rparr>"
    let ?v = "upd_task n (t_state_update (\<lambda>_. 1))
        (case current_task u of Some c \<Rightarrow> upd_task c (t_state_update (\<lambda>_. 0)) ?u | None \<Rightarrow> ?u)"
    have "t = context_switch (current_task u) (t_sp (task_pool (drop_lock ?v) ! n)) (drop_lock ?v)"
      using assms(1) u s0 False n
      by (auto simp: task_yield_def take_lock_iff take_lock_def nxt_def [symmetric] Let_def bind_eq_Some_conv)
    then have t: "task_pool t = task_pool ?v" "current_task t = Some n" "sched_lock t = 0"
      by (auto simp: context_switch_def drop_lock_def split: option.splits)
    have len: "length (task_pool u) = MAX_TASKS" using inv by (simp add: pool_inv_def)
    have "t_state (task_pool t ! i) = 0 \<or> t_state (task_pool t ! i) = 1 \<and> i = n" if "i < MAX_TASKS" for i
      using inv that len unfolding t(1) by (cases "current_task u") (auto simp: pool_inv_def)
    moreover have "length (task_pool t) = MAX_TASKS"
      using len unfolding t(1) by (cases "current_task u") simp_all
    ultimately show ?thesis using t(2,3) nlt by (auto simp: sched_inv_def pool_inv_def)
  qed
qed

lemma task_exit_inv:
  assumes "task_exit a D s = Some t" "sched_inv s"
  shows "sched_inv t"
proof -
  obtain c where c: "current_task s = Some c"
    and y: "task_yield a D (drop_lock (upd_task c (t_state_update (\<lambda>_. 0)) (s\<lparr>sched_lock := 1\<rparr>))) = Some t"
    using assms(1) by (auto simp: task_exit_def bind_eq_Some_conv take_lock_iff Let_def)
  have "sched_inv (drop_lock (upd_task c (t_state_update (\<lambda>_. 0)) (s\<lparr>sched_lock := 1\<rparr>)))"
    using assms(2) c by (auto simp: sched_inv_def pool_inv_def drop_lock_def)
  with y show ?thesis by (rule task_yield_inv)
qed

text \<open>The slot a creation takes, and what it leaves there.\<close>

definition created :: "arch \<Rightarrow> u32 \<Rightarrow> 'a sched_scheme \<Rightarrow> nat \<Rightarrow> task" where
  "created a stack_size s i = (task_pool s ! i)\<lparr>t_sp := stack_base_of a i + stack_size - 32,
     t_stack_base := stack_base_of a i, t_stack_size := stack_size, t_canary := STACK_CANARY,
     t_state := 0, t_pid := next_pid s\<rparr>"

lemma task_create_some:
  assumes "sched_inv s" "find (\<lambda>i. t_state (task_pool s ! i) = 0) [0..<MAX_TASKS] = Some i"
  shows "task_create a entry stack_size s = Some (next_pid s,
    s\<lparr>task_pool := (task_pool s)[i := created a stack_size s i], next_pid := next_pid s + 1,
      ram := initial_frame a entry (stack_base_of a i + stack_size - 32)
        (store32 (ram s) (stack_base_of a i) STACK_CANARY)\<rparr>)"
proof -
  have i: "i < length (task_pool s)" and l: "sched_lock s = 0"
    using assms by (auto simp: sched_inv_def pool_inv_def dest: find_upt_lt)
  then show ?thesis
    using assms(2)
    by (cases s; cases "task_pool s ! i")
       (simp add: task_create_def take_lock_def drop_lock_def write_canary_def upd_task_def Let_def created_def)
qed

lemma task_create_none:
  assumes "sched_inv s" "find (\<lambda>i. t_state (task_pool s ! i) = 0) [0..<MAX_TASKS] = None"
  shows "task_create a entry stack_size s = Some (0, s)"
  using assms by (simp add: sched_inv_def task_create_def take_lock_def drop_lock_def)

lemma task_create_returns:
  assumes "sched_inv s"
  shows "\<exists>r t. task_create a entry stack_size s = Some (r, t)"
  using task_create_some [OF assms] task_create_none [OF assms]
  by (cases "find (\<lambda>i. t_state (task_pool s ! i) = 0) [0..<MAX_TASKS]") auto

lemma task_create_inv:
  assumes "task_create a entry stack_size s = Some (r, t)" "sched_inv s"
  shows "sched_inv t"
proof (cases "find (\<lambda>i. t_state (task_pool s ! i) = 0) [0..<MAX_TASKS]")
  case None
  with assms task_create_none [OF assms(2) None] show ?thesis by simp
next
  case (Some i)
  have t: "t = s\<lparr>task_pool := (task_pool s)[i := created a stack_size s i], next_pid := next_pid s + 1,
      ram := initial_frame a entry (stack_base_of a i + stack_size - 32)
        (store32 (ram s) (stack_base_of a i) STACK_CANARY)\<rparr>"
    using assms(1) unfolding task_create_some [OF assms(2) Some] by (metis option.inject prod.inject)
  have "t_state (created a stack_size s i) = 0" by (simp add: created_def)
  with assms(2) find_upt_lt [OF Some] show ?thesis
    unfolding t by (auto simp: sched_inv_def pool_inv_def nth_list_update)
qed

lemma sched_start_inv:
  assumes "sched_start a D s = Some t" "sched_inv s"
  shows "sched_inv t"
proof -
  define u where "u = (if current_task s = None then
                (case find (ready s) [0..<MAX_TASKS] of
                   Some i \<Rightarrow> upd_task i (t_state_update (\<lambda>_. 1)) (s\<lparr>current_task := Some i\<rparr>)
                 | None \<Rightarrow> s)
              else s)"
  have "sched_inv u"
    using assms(2) by (auto simp: u_def sched_inv_def pool_inv_def dest: find_upt_lt split: option.splits)
  then have ui: "pool_inv u" "sched_lock u = 0" by (simp_all add: sched_inv_def)
  show ?thesis
  proof (cases "current_task u")
    case None
    then have "t = u" using assms(1) unfolding sched_start_def u_def [symmetric] Let_def by simp
    with ui show ?thesis by (simp add: sched_inv_def)
  next
    case (Some c)
    then obtain v where v: "uart_puts a D (''Switching to first task'' @ crlf) u = Some v"
      and t: "t = context_switch None (t_sp (task_pool v ! c)) v"
      using assms(1)
      unfolding sched_start_def u_def [symmetric] Let_def Some option.case(2) bind_eq_Some_conv
      by blast
    have "pool_inv v \<and> sched_lock v = 0"
      using uart_frame [OF disjI1 [OF v]] ui unfolding pool_inv_def by presburger
    then show ?thesis unfolding t by (simp add: sched_inv_def pool_inv_def context_switch_def)
  qed
qed

lemma sched_init_inv:
  assumes "sched_init a D s = Some t" "length (task_pool s) = MAX_TASKS" "sched_lock s = 0" "current_task s = None"
  shows "sched_inv t"
proof -
  let ?s = "s\<lparr>task_pool := map (\<lambda>t. t\<lparr>t_state := 0, t_pid := 0\<rparr>) (task_pool s)\<rparr>"
  have "uart_puts a D (''Scheduler initialized'' @ crlf) ?s = Some t"
    using assms(1) by (simp add: sched_init_def)
  from uart_frame [OF disjI1 [OF this]]
  have "task_pool t = task_pool ?s" "current_task t = current_task ?s" "sched_lock t = sched_lock ?s"
    by simp_all
  then show ?thesis using assms(2-4) by (simp add: sched_inv_def pool_inv_def)
qed

text \<open>The scheduler as a transition system: one call per step, with any device.\<close>

definition sched_boot :: "sched \<Rightarrow> bool" where
  "sched_boot s \<longleftrightarrow> (\<exists>a D s0. sched_init a D s0 = Some s \<and> length (task_pool s0) = MAX_TASKS \<and>
     sched_lock s0 = 0 \<and> current_task s0 = None)"

inductive sched_step :: "sched \<Rightarrow> sched \<Rightarrow> bool" where
  create: "task_create a entry stack_size s = Some (r, t) \<Longrightarrow> sched_step s t"
| check: "task_stack_check a D s = Some t \<Longrightarrow> sched_step s t"
| start: "sched_start a D s = Some t \<Longrightarrow> sched_step s t"
| yield: "task_yield a D s = Some t \<Longrightarrow> sched_step s t"
| exit: "task_exit a D s = Some t \<Longrightarrow> sched_step s t"
| stack: "t = s\<lparr>ram := m\<rparr> \<Longrightarrow> sched_step s t" \<comment> \<open>the running task writes memory\<close>

lemma sched_step_inv: "sched_inv s \<Longrightarrow> sched_step s t \<Longrightarrow> sched_inv t"
proof (erule sched_step.cases, goal_cases)
  case (1 a entry stack_size s r t)
  then show ?case using task_create_inv by metis
next
  case (2 a D s t)
  then show ?case using task_stack_check_inv [of a D s t] by (simp add: sched_inv_def)
next
  case (3 a D s t)
  then show ?case using sched_start_inv by metis
next
  case (4 a D s t)
  then show ?case using task_yield_inv by metis
next
  case (5 a D s t)
  then show ?case using task_exit_inv by metis
next
  case (6 t s m)
  then show ?case by (simp add: sched_inv_def pool_inv_def)
qed

interpretation scheduler: invariant_system sched_boot sched_step sched_inv
proof unfold_locales
  show "sched_inv s" if "sched_boot s" for s
    using that sched_init_inv unfolding sched_boot_def by blast
  show "sched_inv t" if "sched_inv s" "sched_step s t" for s t
    using that by (rule sched_step_inv)
qed

section \<open>The round-robin choice\<close>

text \<open>Every task has its canary: what \<open>task_stack_check\<close> looks for.\<close>

definition canaries :: "'a sched_scheme \<Rightarrow> bool" where
  "canaries s \<longleftrightarrow> (\<forall>i < MAX_TASKS. t_pid (task_pool s ! i) \<noteq> 0 \<longrightarrow> check_canary s (task_pool s ! i) = 1)"

text \<open>The switch from slot \<open>c\<close> to slot \<open>n\<close>.\<close>

definition switched :: "nat \<Rightarrow> nat \<Rightarrow> 'a sched_scheme \<Rightarrow> 'a sched_scheme" where
  "switched c n s = context_switch (Some c) (t_sp (task_pool s ! n))
     (upd_task n (t_state_update (\<lambda>_. 1)) (upd_task c (t_state_update (\<lambda>_. 0)) (s\<lparr>current_task := Some n\<rparr>)))"

lemma switched_simps [simp]:
  "current_task (switched c n s) = Some n" "sched_lock (switched c n s) = sched_lock s"
  "length (task_pool (switched c n s)) = length (task_pool s)" "ram (switched c n s) = ram s"
  by (simp_all add: switched_def context_switch_def)

lemma switched_nth:
  "j < length (task_pool s) \<Longrightarrow> task_pool (switched c n s) ! j =
    (if j = n then (task_pool s ! j)\<lparr>t_state := 1\<rparr> else if j = c then (task_pool s ! j)\<lparr>t_state := 0\<rparr>
     else task_pool s ! j)"
  by (simp add: switched_def context_switch_def)

lemma task_yield_eq:
  assumes "sched_inv s" "canaries s" "current_task s = Some c"
  shows "task_yield a D s = Some (case find (ready s) (yield_order c) of
      Some n \<Rightarrow> if n = c then s else switched c n s | None \<Rightarrow> s)"
proof -
  let ?s = "s\<lparr>sched_lock := 1\<rparr>"
  have l: "sched_lock s = 0" and len: "length (task_pool s) = MAX_TASKS" and c: "c < MAX_TASKS"
    using assms by (auto simp: sched_inv_def pool_inv_def)
  have [simp]: "s\<lparr>sched_lock := 0\<rparr> = s" using l by simp
  have chk: "task_stack_check a D ?s = Some ?s" unfolding task_stack_check_def
    by (rule stack_check_clean) (use assms(2) in \<open>simp add: canaries_def check_canary_def\<close>)
  have rdy: "ready ?s = ready s" by (simp add: fun_eq_iff ready_def)
  show ?thesis
  proof (cases "find (ready s) (yield_order c)")
    case None
    then show ?thesis using assms(3)
      by (simp add: task_yield_def take_lock_def chk l rdy drop_lock_def Let_def)
  next
    case (Some n)
    then have "n < MAX_TASKS" by (auto dest: find_order_lt)
    with Some show ?thesis using assms(3) l len c
      by (simp add: task_yield_def take_lock_def chk rdy drop_lock_def Let_def switched_def
          context_switch_def upd_task_def nth_list_update)
  qed
qed

text \<open>The choice as an offset from the current slot.\<close>

lemma find_yield_order:
  assumes "find P (yield_order c) = Some n"
  obtains k where "0 < k" "k \<le> MAX_TASKS" "n = (c + k) mod MAX_TASKS" "P n"
    "\<forall>i. 0 < i \<and> i < k \<longrightarrow> \<not> P ((c + i) mod MAX_TASKS)"
proof -
  obtain m where m: "m < MAX_TASKS" "P n" "n = (c + Suc m) mod MAX_TASKS"
    "\<forall>i<m. \<not> P ((c + Suc i) mod MAX_TASKS)"
    using assms by (auto simp: find_Some_iff yield_order_def nth_append simp del: upt_Suc)
  have "\<not> P ((c + i) mod MAX_TASKS)" if "0 < i" "i < Suc m" for i
    using m(4) that by (cases i) auto
  with m show ?thesis by (intro that [of "Suc m"]) auto
qed

lemma find_yield_order_ex:
  assumes "P ((c + k) mod MAX_TASKS)" "0 < k" "k \<le> MAX_TASKS"
  shows "find P (yield_order c) \<noteq> None"
  using assms by (auto simp: find_None_iff yield_order_def simp del: upt_Suc)

text \<open>The number of slots from \<open>c\<close> forward to \<open>j\<close>.\<close>

definition ahead :: "nat \<Rightarrow> nat \<Rightarrow> nat" where
  "ahead c j = (if c \<le> j then j - c else j + MAX_TASKS - c)"

lemma wrap_slot: "m < 2 * MAX_TASKS \<Longrightarrow> m mod MAX_TASKS = (if m < MAX_TASKS then m else m - MAX_TASKS)"
  by (simp add: mod_if)

lemma ahead_lt: "c < MAX_TASKS \<Longrightarrow> j < MAX_TASKS \<Longrightarrow> ahead c j < MAX_TASKS"
  unfolding ahead_def by (simp split: if_splits) linarith

lemma ahead_offset:
  assumes "c < MAX_TASKS" "j < MAX_TASKS"
  shows "(c + ahead c j) mod MAX_TASKS = j"
proof -
  have "c + ahead c j < 2 * MAX_TASKS" using assms ahead_lt [OF assms] by linarith
  from wrap_slot [OF this] show ?thesis using assms by (auto simp: ahead_def)
qed

lemma ahead_step:
  assumes "c < MAX_TASKS" "j < MAX_TASKS" "k \<le> ahead c j"
  shows "ahead ((c + k) mod MAX_TASKS) j = ahead c j - k"
proof -
  have "c + k < 2 * MAX_TASKS" using assms ahead_lt [OF assms(1,2)] by linarith
  note w = wrap_slot [OF this]
  show ?thesis
    using assms unfolding w by (cases "c \<le> j"; cases "c + k < MAX_TASKS") (auto simp: ahead_def)
qed

fun yields :: "arch \<Rightarrow> device \<Rightarrow> nat \<Rightarrow> 'a sched_scheme \<Rightarrow> 'a sched_scheme option" where
  "yields a D 0 s = Some s"
| "yields a D (Suc n) s = do { s \<leftarrow> task_yield a D s; yields a D n s }"

lemma yields_reach:
  assumes "sched_inv s" "canaries s" "current_task s = Some c" "j < MAX_TASKS" "ready s j" "ahead c j \<le> d"
  shows "\<exists>n \<le> d. \<exists>t. yields a D n s = Some t \<and> current_task t = Some j"
  using assms
proof (induction d arbitrary: s c)
  case 0
  then have "c < MAX_TASKS" by (auto simp: sched_inv_def pool_inv_def)
  with 0 have "j = c" using ahead_offset [of c j] by simp
  with 0 show ?case by (intro exI [of _ 0]) auto
next
  case (Suc d)
  have c: "c < MAX_TASKS" and len: "length (task_pool s) = MAX_TASKS"
    using Suc.prems by (auto simp: sched_inv_def pool_inv_def)
  show ?case
  proof (cases "ahead c j = 0")
    case True
    then have "j = c" using ahead_offset [OF c Suc.prems(4)] c by simp
    with Suc.prems show ?thesis by (intro exI [of _ 0]) auto
  next
    case False
    have j: "(c + ahead c j) mod MAX_TASKS = j" by (rule ahead_offset [OF c Suc.prems(4)])
    then obtain n where n: "find (ready s) (yield_order c) = Some n"
      using find_yield_order_ex [of "ready s" c "ahead c j"] Suc.prems(5) False ahead_lt [OF c Suc.prems(4)] by auto
    then obtain k where k: "0 < k" "n = (c + k) mod MAX_TASKS" "ready s n"
      "\<forall>i. 0 < i \<and> i < k \<longrightarrow> \<not> ready s ((c + i) mod MAX_TASKS)" by (rule find_yield_order)
    have kle: "k \<le> ahead c j" using k(4) False Suc.prems(5) j by (metis not_le not_gr0)
    then have nc: "n \<noteq> c"
      using k(1,2) c ahead_lt [OF c Suc.prems(4)] wrap_slot [of "c + k"] by (auto split: if_splits)
    let ?t = "switched c n s"
    have y: "task_yield a D s = Some ?t" using task_yield_eq [OF Suc.prems(1-3), of a D] n nc by simp
    have "sched_inv ?t" using task_yield_inv [OF y Suc.prems(1)] .
    moreover have "canaries ?t"
      using Suc.prems(2) len by (auto simp: canaries_def switched_nth check_canary_def)
    moreover have "ahead n j \<le> d" using ahead_step [OF c Suc.prems(4) kle] k(1,2) kle Suc.prems(6) by simp
    moreover have "ready ?t j" if "j \<noteq> n"
      using that Suc.prems(4,5) len by (auto simp: ready_def switched_nth)
    ultimately have "\<exists>m \<le> d. \<exists>t. yields a D m ?t = Some t \<and> current_task t = Some j"
    proof (cases "j = n")
      case True
      then show ?thesis by (intro exI [of _ 0]) simp
    next
      case False
      with \<open>sched_inv ?t\<close> \<open>canaries ?t\<close> \<open>ahead n j \<le> d\<close> \<open>j \<noteq> n \<Longrightarrow> ready ?t j\<close> show ?thesis
        using Suc.IH [of ?t n] Suc.prems(4) by simp
    qed
    then obtain m t where "m \<le> d" "yields a D m ?t = Some t" "current_task t = Some j" by blast
    with y show ?thesis by (intro exI [of _ "Suc m"]) auto
  qed
qed

section \<open>Stacks and canaries\<close>

text \<open>On ARM the slots of the pool have disjoint 16 KiB stacks, with the canary at the bottom.\<close>

lemma apart32_unat:
  assumes "unat a < 2 ^ 31" "unat b < 2 ^ 31" "unat a + 4 \<le> unat b \<or> unat b + 4 \<le> unat a"
  shows "apart32 a b"
  using assms unfolding apart32_def word_le_nat_alt unat_sub_if_size word_size
  by (auto split: if_splits)

lemma unat_stack_base:
  assumes "i < MAX_TASKS" "unat off \<le> 0x4000"
  shows "unat (stack_base_of Arm i + off) = 0x20010000 + i * 0x4000 + unat off"
proof -
  have i: "i < 32" using assms(1) by (simp add: MAX_TASKS_def)
  then have u: "unat (of_nat i :: u32) = i" by (simp add: unat_of_nat take_bit_eq_mod)
  have m: "unat (of_nat i * 0x4000 :: u32) = i * 0x4000"
    using i by (simp add: unat_word_ariths(2) u)
  have b: "unat (0x20010000 + of_nat i * 0x4000 :: u32) = 0x20010000 + i * 0x4000"
    using i by (simp add: unat_word_ariths(1) m)
  have "i * 0x4000 + unat off \<le> 32 * 0x4000" using i assms(2) by simp
  then show ?thesis
    using b by (simp add: stack_base_of_def unat_word_ariths(1) m)
qed

lemma stack_store_apart:
  assumes "i < MAX_TASKS" "j < MAX_TASKS" "unat off + 4 \<le> 0x4000" "i \<noteq> j \<or> 4 \<le> unat off"
  shows "load32 (store32 m (stack_base_of Arm i + off) v) (stack_base_of Arm j) = load32 m (stack_base_of Arm j)"
proof (rule load32_store32_apart, rule apart32_unat)
  have i: "unat (stack_base_of Arm i + off) = 0x20010000 + i * 0x4000 + unat off"
    using assms by (intro unat_stack_base) simp_all
  have j: "unat (stack_base_of Arm j) = 0x20010000 + j * 0x4000"
    using unat_stack_base [of j 0] assms(2) by simp
  show "unat (stack_base_of Arm j) < 2 ^ 31" using assms(2) j by (simp add: MAX_TASKS_def)
  show "unat (stack_base_of Arm i + off) < 2 ^ 31" using assms(1,3) i by (simp add: MAX_TASKS_def)
  consider "i < j" | "j < i" | "i = j" by linarith
  then show "unat (stack_base_of Arm j) + 4 \<le> unat (stack_base_of Arm i + off) \<or>
      unat (stack_base_of Arm i + off) + 4 \<le> unat (stack_base_of Arm j)"
    using assms(3,4) unfolding i j by cases auto
qed

lemma initial_frame_apart:
  assumes "i < MAX_TASKS" "j < MAX_TASKS" "36 \<le> stack_size" "stack_size \<le> 0x4000"
  shows "load32 (initial_frame Arm entry (stack_base_of Arm i + stack_size - 32) m) (stack_base_of Arm j) =
    load32 m (stack_base_of Arm j)"
proof -
  have u: "36 \<le> unat stack_size" "unat stack_size \<le> 0x4000"
    using assms(3,4) by (simp_all add: word_le_nat_alt)
  have o: "unat (stack_size - 32) = unat stack_size - 32"
    using u by (subst unat_sub) (simp_all add: word_le_nat_alt)
  have o4: "unat (stack_size - 28) = unat stack_size - 28" "unat (stack_size - 24) = unat stack_size - 24"
    using u by (subst unat_sub; simp add: word_le_nat_alt)+
  have e: "stack_base_of Arm i + stack_size - 32 = stack_base_of Arm i + (stack_size - 32)"
    "stack_base_of Arm i + (stack_size - 32) + 4 = stack_base_of Arm i + (stack_size - 32 + 4)"
    "stack_base_of Arm i + (stack_size - 32) + 8 = stack_base_of Arm i + (stack_size - 32 + 8)"
    by (simp_all add: algebra_simps)
  have ap: "load32 (store32 m (stack_base_of Arm i + off) v) (stack_base_of Arm j) = load32 m (stack_base_of Arm j)"
    if "off \<in> {stack_size - 32, stack_size - 28, stack_size - 24}" for m off v
    using that u o o4 by (intro stack_store_apart [OF assms(1,2)]) auto
  show ?thesis unfolding initial_frame_def arch.case e by (simp add: ap del: add_diff_eq)
qed

text \<open>Every slot in use has the stack of its index.\<close>

definition placed :: "'a sched_scheme \<Rightarrow> bool" where
  "placed s \<longleftrightarrow> (\<forall>i < MAX_TASKS. t_pid (task_pool s ! i) \<noteq> 0 \<longrightarrow>
     t_stack_base (task_pool s ! i) = stack_base_of Arm i)"

lemma task_create_keeps:
  assumes "sched_inv s" "placed s" "canaries s" "36 \<le> stack_size" "stack_size \<le> 0x4000"
    "task_create Arm entry stack_size s = Some (r, t)"
  shows "placed t \<and> canaries t"
proof (cases "find (\<lambda>i. t_state (task_pool s ! i) = 0) [0..<MAX_TASKS]")
  case None
  with assms task_create_none [OF assms(1) None] show ?thesis by simp
next
  case (Some i)
  define f where "f = initial_frame Arm entry (stack_base_of Arm i + stack_size - 32)
        (store32 (ram s) (stack_base_of Arm i) STACK_CANARY)"
  have t: "t = s\<lparr>task_pool := (task_pool s)[i := created Arm stack_size s i], next_pid := next_pid s + 1,
      ram := f\<rparr>"
    using assms(6) unfolding task_create_some [OF assms(1) Some] f_def by (metis option.inject prod.inject)
  have i: "i < MAX_TASKS" "i < length (task_pool s)"
    using find_upt_lt [OF Some] assms(1) by (auto simp: sched_inv_def pool_inv_def)
  have new: "load32 f (stack_base_of Arm i) = STACK_CANARY"
    unfolding f_def by (simp add: initial_frame_apart [OF i(1) i(1) assms(4,5)])
  have old: "load32 f (stack_base_of Arm j) = load32 (ram s) (stack_base_of Arm j)"
    if "j < MAX_TASKS" "j \<noteq> i" for j
    unfolding f_def using stack_store_apart [of i j 0] that i(1)
    by (simp add: initial_frame_apart [OF i(1) that(1) assms(4,5)])
  have pool: "task_pool t ! j = (if j = i then created Arm stack_size s i else task_pool s ! j)"
    if "j < MAX_TASKS" for j
    using i(2) unfolding t by simp
  have "placed t" using assms(2) by (auto simp: placed_def pool created_def)
  moreover have "check_canary t (task_pool t ! j) = 1"
    if j: "j < MAX_TASKS" "t_pid (task_pool t ! j) \<noteq> 0" for j
  proof (cases "j = i")
    case True
    then have "task_pool t ! j = created Arm stack_size s i" using pool [OF j(1)] by simp
    then show ?thesis using new by (simp add: check_canary_def created_def t)
  next
    case False
    then have "check_canary s (task_pool s ! j) = 1" "t_stack_base (task_pool s ! j) = stack_base_of Arm j"
      using j assms(2,3) by (auto simp: canaries_def placed_def pool)
    then show ?thesis using old [OF j(1) False] False
      by (simp add: pool [OF j(1)] check_canary_def t split: if_splits)
  qed
  ultimately show ?thesis by (simp add: canaries_def)
qed

section \<open>Properties\<close>

text \<open>C1: After \<open>sched_init\<close> on a pool of 32 slots with no current task and the lock free, whatever sequence of scheduler calls is made and whatever the tasks write to
  memory in between, the lock is free whenever a call has returned, the current task is a slot of
  the pool, every slot is ready or running, and only the current task is running.\<close>

theorem scheduler_safe:
  assumes "sched_boot s" "sched_step\<^sup>*\<^sup>* s t"
  shows "sched_lock t = 0 \<and> length (task_pool t) = MAX_TASKS \<and>
    (\<forall>c. current_task t = Some c \<longrightarrow> c < MAX_TASKS) \<and>
    (\<forall>i < MAX_TASKS. t_state (task_pool t ! i) = 0 \<or>
       t_state (task_pool t ! i) = 1 \<and> current_task t = Some i)"
  using scheduler.reachable_inv [OF assms] by (simp add: sched_inv_def pool_inv_def)

definition task0 :: task where
  "task0 = \<lparr>t_sp = 0, t_stack_base = 0, t_stack_size = 0, t_canary = 0, t_state = 0, t_priority = 0, t_pid = 0\<rparr>"

definition sched0 :: sched where
  "sched0 = \<lparr>trace = [], pit_ticks = 0, pit_frequency = 0, pit_loops_per_10ms = 0, system_ticks = 0,
     log_block = 1, log_buf = replicate 512 0, log_idx = 0, task_pool = replicate 32 task0, current_task = None, next_pid = 1, sched_lock = 0,
     ram = (\<lambda>_. 0), switches = []\<rparr>"

lemma sched0_boot: "\<exists>s. sched_init Arm ones sched0 = Some s"
  unfolding sched_init_def Let_def by (rule uart_puts_ready, rule ready_ones) simp

lemma scheduler_safe_witness:
  "\<exists>s t. sched_boot s \<and> sched_step\<^sup>*\<^sup>* s t \<and> sched_lock t = 0"
proof -
  obtain s where s: "sched_init Arm ones sched0 = Some s" using sched0_boot by blast
  then have b: "sched_boot s" unfolding sched_boot_def
    by (intro exI [of _ Arm] exI [of _ ones] exI [of _ sched0]) (simp add: sched0_def MAX_TASKS_def)
  then have inv: "sched_inv s" by (rule scheduler.start_inv)
  obtain r t where "task_create Arm 0x8001 0x400 s = Some (r, t)"
    using task_create_returns [OF inv] by blast
  then have st: "sched_step\<^sup>*\<^sup>* s t" by (intro r_into_rtranclp sched_step.create)
  from scheduler_safe [OF b st] b st show ?thesis by blast
qed

text \<open>C2: The scheduler is fair: in a state that keeps its invariant, with a current task, and while the stacks have their
  canaries, a task that is ready becomes the
  current one after at most 31 calls of \<open>task_yield\<close>, each of which returns.\<close>

theorem task_yield_fair:
  assumes "sched_inv s" "canaries s" "current_task s = Some c" "j < MAX_TASKS" "ready s j"
  shows "\<exists>n \<le> 31. \<exists>t. yields a D n s = Some t \<and> current_task t = Some j"
proof -
  have "c < MAX_TASKS" using assms(1,3) by (auto simp: sched_inv_def pool_inv_def)
  then have "ahead c j \<le> 31" using ahead_lt [OF _ assms(4)] by (fastforce simp: MAX_TASKS_def)
  with assms show ?thesis by (rule yields_reach)
qed

text \<open>Two tasks on ARM, the first of them running.\<close>

definition two_tasks :: sched where
  "two_tasks = sched0\<lparr>task_pool :=
     task0\<lparr>t_pid := 1, t_state := 1, t_stack_base := 0x20010000, t_canary := STACK_CANARY\<rparr> #
     task0\<lparr>t_pid := 2, t_stack_base := 0x20014000, t_canary := STACK_CANARY\<rparr> # replicate 30 task0,
     current_task := Some 0,
     ram := store32 (store32 (\<lambda>_. 0) 0x20010000 STACK_CANARY) 0x20014000 STACK_CANARY\<rparr>"

lemma two_tasks_nth:
  "i < 32 \<Longrightarrow> task_pool two_tasks ! i =
    (if i = 0 then task0\<lparr>t_pid := 1, t_state := 1, t_stack_base := 0x20010000, t_canary := STACK_CANARY\<rparr>
     else if i = 1 then task0\<lparr>t_pid := 2, t_stack_base := 0x20014000, t_canary := STACK_CANARY\<rparr> else task0)"
  by (auto simp: two_tasks_def sched0_def nth_Cons')

lemma two_tasks_inv: "sched_inv two_tasks"
  unfolding sched_inv_def pool_inv_def MAX_TASKS_def
  by (auto simp: two_tasks_nth task0_def) (simp_all add: two_tasks_def sched0_def)

lemma two_tasks_canaries: "canaries two_tasks"
proof -
  have "load32 (ram two_tasks) 0x20010000 = STACK_CANARY"
    using load32_store32_apart [where a = "0x20010000" and b = "0x20014000"] by (simp add: two_tasks_def apart32_def)
  moreover have "load32 (ram two_tasks) 0x20014000 = STACK_CANARY" by (simp add: two_tasks_def)
  ultimately show ?thesis
    by (auto simp: canaries_def MAX_TASKS_def two_tasks_nth check_canary_def task0_def split: if_splits)
qed

lemma task_yield_fair_witness:
  "ready two_tasks 1 \<and> (\<exists>n \<le> 31. \<exists>t. yields Arm ones n two_tasks = Some t \<and> current_task t = Some 1)"
proof -
  have "ready two_tasks 1" by (simp add: ready_def two_tasks_nth task0_def)
  with task_yield_fair [OF two_tasks_inv two_tasks_canaries, of 0 1 Arm ones] show ?thesis
    by (simp add: two_tasks_def MAX_TASKS_def)
qed

text \<open>On ARM, creating a task whose stack is between 36 bytes and 16 KiB leaves the canary of every task
  in place, the new one included: the frame it writes stays in the new task's own stack.\<close>

lemma task_create_keeps_canaries:
  assumes "sched_inv s" "placed s" "canaries s" "36 \<le> stack_size" "stack_size \<le> 0x4000"
    "task_create Arm entry stack_size s = Some (r, t)"
  shows "placed t \<and> canaries t"
  using assms by (rule task_create_keeps)

text \<open>\<open>task_create\<close> leaves the slot it fills in state 0, which is also what marks a slot as free: a second
  creation takes the same slot again, and the first task is gone.\<close>

lemma task_create_overwrites:
  assumes "sched_inv s" "task_create a e1 n1 s = Some (r1, t)" "task_create a e2 n2 t = Some (r2, u)"
    "i < MAX_TASKS" "t_state (task_pool s ! i) = 0"
  shows "\<exists>k < MAX_TASKS. r1 = next_pid s \<and> r2 = next_pid s + 1 \<and> t_pid (task_pool u ! k) = r2 \<and>
    (\<forall>j < MAX_TASKS. j \<noteq> k \<longrightarrow> task_pool u ! j = task_pool s ! j)"
proof -
  let ?free = "\<lambda>s i. t_state (task_pool s ! i) = 0"
  obtain k where k: "find (?free s) [0..<MAX_TASKS] = Some k"
    using assms(4,5) by (cases "find (?free s) [0..<MAX_TASKS]") (auto simp: find_None_iff)
  have kl: "k < MAX_TASKS" "k < length (task_pool s)" "\<forall>j<k. \<not> ?free s j"
    using k assms(1) by (auto simp: find_Some_iff sched_inv_def pool_inv_def)
  have t: "r1 = next_pid s" "task_pool t = (task_pool s)[k := created a n1 s k]" "next_pid t = next_pid s + 1"
    using assms(2) unfolding task_create_some [OF assms(1) k] by (metis option.inject prod.inject, auto)
  have inv: "sched_inv t" using task_create_inv assms(1,2) by metis
  have "?free t k" "\<forall>j<k. \<not> ?free t j" using kl by (auto simp: t(2) created_def)
  then have k': "find (?free t) [0..<MAX_TASKS] = Some k" using kl(1) by (auto simp: find_Some_iff)
  have u: "r2 = next_pid t" "task_pool u = (task_pool t)[k := created a n2 t k]"
    using assms(3) unfolding task_create_some [OF inv k'] by (metis option.inject prod.inject, auto)
  show ?thesis using kl by (intro exI [of _ k]) (simp add: t u created_def)
qed

end
