(* ===== verification/Board.thy ===== *)
theory Board
  imports Uart
begin

text \<open>
  The small STM32F4 drivers of \<open>src/kernel\<close>: the independent watchdog (\<open>wdog.c\<close>), the memory
  protection unit (\<open>mpu.c\<close>), the flash programming interface (\<open>flash.c\<close>) and the GPIO pins
  (\<open>gpio.c\<close>), with the stubs of the other targets.
\<close>

section \<open>Watchdog\<close>

definition IWDG_BASE :: u32 where "IWDG_BASE = 0x40003000"
definition RCC_CSR :: u32 where "RCC_CSR = 0x40023874"

definition wdog_reload :: "u32 \<Rightarrow> u32" where
  "wdog_reload timeout_ms =
     (let reload = timeout_ms * 125 div 1000 in if reload > 0xFFF then 0xFFF else reload)"

definition wdog_init :: "arch \<Rightarrow> device \<Rightarrow> u32 \<Rightarrow> 'a machine_scheme \<Rightarrow> 'a machine_scheme option" where
  "wdog_init a D timeout_ms s = (if a = Arm then do {
     let s = or32 D RCC_CSR (push_bit 0 1) s;
     s \<leftarrow> poll D (Mem32 RCC_CSR) (\<lambda>r :: u32. r AND push_bit 1 1 \<noteq> 0) s;
     let s = write32 IWDG_BASE 0x5555 s;
     let s = write32 (IWDG_BASE + 0x04) 0x06 s;
     let reload = wdog_reload timeout_ms;
     let s = write32 IWDG_BASE 0x5555 s;
     let s = write32 (IWDG_BASE + 0x08) reload s;
     let s = write32 IWDG_BASE 0xCCCC s;
     s \<leftarrow> uart_puts a D ''IWDG started '' s;
     s \<leftarrow> uart_hex a D timeout_ms s;
     uart_puts a D ('' ms'' @ crlf) s
   } else Some s)"

definition wdog_refresh :: "arch \<Rightarrow> 'a machine_scheme \<Rightarrow> 'a machine_scheme" where
  "wdog_refresh a s = (if a = Arm then write32 IWDG_BASE 0xAAAA s else s)"

text \<open>On ARM the call ends in \<open>while (1);\<close>: \<open>Inl\<close> is the state it stays in, \<open>Inr\<close> a return.\<close>

definition wdog_force_reset :: "arch \<Rightarrow> 'a machine_scheme \<Rightarrow> 'a machine_scheme + 'a machine_scheme" where
  "wdog_force_reset a s = (if a = Arm then
     (let s = write32 IWDG_BASE 0x5555 s;
          s = write32 (IWDG_BASE + 0x08) 0x0001 s
      in Inl (write32 IWDG_BASE 0xCCCC s))
   else Inr s)"

section \<open>Memory protection unit\<close>

definition MPU_TYPE :: u32 where "MPU_TYPE = 0xE000ED90"
definition MPU_CTRL :: u32 where "MPU_CTRL = 0xE000ED94"
definition MPU_RNR :: u32 where "MPU_RNR = 0xE000ED98"
definition MPU_RBAR :: u32 where "MPU_RBAR = 0xE000ED9C"
definition MPU_RASR :: u32 where "MPU_RASR = 0xE000EDA0"

definition mpu_region :: "u8 \<Rightarrow> u32 \<Rightarrow> u8 \<Rightarrow> u8 \<Rightarrow> u8 \<Rightarrow> 'a machine_scheme \<Rightarrow> 'a machine_scheme" where
  "mpu_region region addr sz ap xn s =
     (let s = write32 MPU_RNR (ucast region) s;
          s = write32 MPU_RBAR (addr AND 0xFFFFFFE0) s
      in write32 MPU_RASR (push_bit 16 1 OR push_bit 24 (ucast ap) OR push_bit 28 (ucast xn) OR
           push_bit 1 (ucast sz) OR 1) s)"

definition mpu_enable :: "'a machine_scheme \<Rightarrow> 'a machine_scheme" where
  "mpu_enable s = write32 MPU_CTRL 0x07 s"

definition mpu_setup :: "'a machine_scheme \<Rightarrow> 'a machine_scheme" where
  "mpu_setup s =
     (let s = mpu_region 0 0x08000000 0x12 3 0 s;
          s = mpu_region 1 0x20000000 0x10 3 0 s;
          s = mpu_region 2 0x40000000 0x1C 3 1 s;
          s = mpu_region 3 (0x2001C000 - 32 * 1024) 0x0E 3 0 s;
          s = mpu_region 4 0x08000000 0x12 0 0 s
      in mpu_enable s)"

definition mpu_init :: "arch \<Rightarrow> device \<Rightarrow> 'a machine_scheme \<Rightarrow> 'a machine_scheme option" where
  "mpu_init a D s = do {
     let (ty, s) = read32 D MPU_TYPE s;
     let regions = (ucast (drop_bit 8 ty AND 0xFF) :: u8);
     s \<leftarrow> uart_puts a D ''MPU regions: '' s;
     s \<leftarrow> uart_hex a D (ucast regions) s;
     s \<leftarrow> uart_puts a D crlf s;
     if regions < 8 then uart_puts a D (''MPU too small, skipping'' @ crlf) s
     else uart_puts a D (''MPU enabled'' @ crlf) (mpu_setup s)
   }"

section \<open>Flash\<close>

definition FLASH_KEYR :: u32 where "FLASH_KEYR = 0x40023C04"
definition FLASH_SR :: u32 where "FLASH_SR = 0x40023C0C"
definition FLASH_CR :: u32 where "FLASH_CR = 0x40023C10"

definition flash_unlock :: "'a machine_scheme \<Rightarrow> 'a machine_scheme" where
  "flash_unlock s = (let s = write32 FLASH_KEYR 0x45670123 s in write32 FLASH_KEYR 0xCDEF89AB s)"

definition flash_lock :: "device \<Rightarrow> 'a machine_scheme \<Rightarrow> 'a machine_scheme" where
  "flash_lock D s = or32 D FLASH_CR (push_bit 31 1) s"

definition flash_wait :: "device \<Rightarrow> 'a machine_scheme \<Rightarrow> 'a machine_scheme option" where
  "flash_wait D s = poll D (Mem32 FLASH_SR) (\<lambda>r :: u32. r AND push_bit 16 1 = 0) s"

definition flash_erase :: "device \<Rightarrow> u32 \<Rightarrow> 'a machine_scheme \<Rightarrow> 'a machine_scheme option" where
  "flash_erase D addr s = do {
     let s = flash_unlock s;
     let s = or32 D FLASH_CR (push_bit 1 1) s;
     let s = or32 D FLASH_CR (push_bit 3 (drop_bit 11 (addr - 0x08000000))) s;
     let s = or32 D FLASH_CR (push_bit 16 1) s;
     s \<leftarrow> flash_wait D s;
     let s = clear32 D FLASH_CR (push_bit 1 1) s;
     Some (flash_lock D s)
   }"

text \<open>The loop over the words; \<open>m\<close> is the memory the data pointer points into.\<close>

partial_function (option) flash_words ::
  "device \<Rightarrow> memory \<Rightarrow> u32 \<Rightarrow> u32 \<Rightarrow> u32 \<Rightarrow> u32 \<Rightarrow> 'a machine_scheme \<Rightarrow> 'a machine_scheme option" where
  "flash_words D m addr dat len i s =
     (if i < len then do {
        let s = write32 (addr + i) (load32 m (dat + i)) s;
        s \<leftarrow> flash_wait D s;
        flash_words D m addr dat len (i + 4) s
      } else Some s)"

definition flash_write ::
  "device \<Rightarrow> memory \<Rightarrow> u32 \<Rightarrow> u32 \<Rightarrow> u32 \<Rightarrow> 'a machine_scheme \<Rightarrow> 'a machine_scheme option" where
  "flash_write D m addr dat len s = do {
     let s = flash_unlock s;
     let s = or32 D FLASH_CR (push_bit 0 1) s;
     s \<leftarrow> flash_words D m addr dat len 0 s;
     let s = clear32 D FLASH_CR (push_bit 0 1) s;
     Some (flash_lock D s)
   }"

section \<open>GPIO\<close>

datatype gpio_pin = PA0 | PA1 | PA2 | PA3 | PA4 | PA5 | PA6 | PA7
  | PB0 | PB1 | PB2 | PB3 | PB4 | PB5 | PB6 | PB7 | PC13 | PC14 | PC15

definition pins :: "gpio_pin list" where
  "pins = [PA0, PA1, PA2, PA3, PA4, PA5, PA6, PA7, PB0, PB1, PB2, PB3, PB4, PB5, PB6, PB7, PC13, PC14, PC15]"

text \<open>The value of an enumerator, and the order C compares them in.\<close>

primrec pin_code :: "gpio_pin \<Rightarrow> nat" where
  "pin_code PA0 = 0" | "pin_code PA1 = 1" | "pin_code PA2 = 2" | "pin_code PA3 = 3"
| "pin_code PA4 = 4" | "pin_code PA5 = 5" | "pin_code PA6 = 6" | "pin_code PA7 = 7"
| "pin_code PB0 = 8" | "pin_code PB1 = 9" | "pin_code PB2 = 10" | "pin_code PB3 = 11"
| "pin_code PB4 = 12" | "pin_code PB5 = 13" | "pin_code PB6 = 14" | "pin_code PB7 = 15"
| "pin_code PC13 = 16" | "pin_code PC14 = 17" | "pin_code PC15 = 18"

lemma pin_code_inj: "pin_code p = pin_code q \<Longrightarrow> p = q"
  by (cases p; cases q; simp)

instantiation gpio_pin :: linorder
begin

definition less_eq_gpio_pin :: "gpio_pin \<Rightarrow> gpio_pin \<Rightarrow> bool" where
  "less_eq_gpio_pin p q \<longleftrightarrow> pin_code p \<le> pin_code q"

definition less_gpio_pin :: "gpio_pin \<Rightarrow> gpio_pin \<Rightarrow> bool" where
  "less_gpio_pin p q \<longleftrightarrow> pin_code p < pin_code q"

instance
  by standard (auto simp: less_eq_gpio_pin_def less_gpio_pin_def intro: pin_code_inj)

end

definition gpio_port :: "gpio_pin \<Rightarrow> u32" where
  "gpio_port pin = (if pin \<le> PA7 then 0x40020000 else if pin \<le> PB7 then 0x40020400 else 0x40020800)"

definition gpio_pin_num :: "gpio_pin \<Rightarrow> nat" where
  "gpio_pin_num pin =
     (if pin \<le> PA7 then pin_code pin - pin_code PA0
      else if pin \<le> PB7 then pin_code pin - pin_code PB0 else pin_code pin - pin_code PC13)"

definition gpio_init :: "arch \<Rightarrow> device \<Rightarrow> 'a machine_scheme \<Rightarrow> 'a machine_scheme" where
  "gpio_init a D s =
     (if a = Arm then or32 D (0x40023800 + 0x30) (push_bit 0 1 OR push_bit 1 1 OR push_bit 2 1) s else s)"

datatype gpio_mode = GPIO_IN | GPIO_OUT

definition mode_code :: "gpio_mode \<Rightarrow> u32" where
  "mode_code m = (case m of GPIO_IN \<Rightarrow> 0 | GPIO_OUT \<Rightarrow> 1)"

definition gpio_set_mode :: "arch \<Rightarrow> device \<Rightarrow> gpio_pin \<Rightarrow> gpio_mode \<Rightarrow> 'a machine_scheme \<Rightarrow> 'a machine_scheme" where
  "gpio_set_mode a D pin mode s = (if a = Arm then
     (let s = clear32 D (gpio_port pin) (push_bit (gpio_pin_num pin * 2) 3) s
      in or32 D (gpio_port pin) (push_bit (gpio_pin_num pin * 2) (mode_code mode)) s) else s)"

definition gpio_set :: "arch \<Rightarrow> gpio_pin \<Rightarrow> 'a machine_scheme \<Rightarrow> 'a machine_scheme" where
  "gpio_set a pin s =
     (if a = Arm then write32 (gpio_port pin + 0x18) (push_bit (gpio_pin_num pin) 1) s else s)"

definition gpio_clear :: "arch \<Rightarrow> gpio_pin \<Rightarrow> 'a machine_scheme \<Rightarrow> 'a machine_scheme" where
  "gpio_clear a pin s =
     (if a = Arm then write32 (gpio_port pin + 0x18) (push_bit (gpio_pin_num pin + 16) 1) s else s)"

definition gpio_toggle :: "arch \<Rightarrow> device \<Rightarrow> gpio_pin \<Rightarrow> 'a machine_scheme \<Rightarrow> 'a machine_scheme" where
  "gpio_toggle a D pin s = (if a = Arm then
     (let (val, s) = read32 D (gpio_port pin + 0x14) s;
          (odr, s) = read32 D (gpio_port pin + 0x14) s
      in write32 (gpio_port pin + 0x14) (odr XOR push_bit (gpio_pin_num pin) 1) s) else s)"

definition gpio_read :: "arch \<Rightarrow> device \<Rightarrow> gpio_pin \<Rightarrow> 'a machine_scheme \<Rightarrow> u8 \<times> 'a machine_scheme" where
  "gpio_read a D pin s = (if a = Arm then
     (let (idr, s) = read32 D (gpio_port pin + 0x10) s
      in (ucast (drop_bit (gpio_pin_num pin) idr AND 1), s)) else (0, s))"

section \<open>What the MPU enforces\<close>

text \<open>
  The region table that a trace of writes sets up: for every region number the contents of RBAR
  and RASR. An access is governed by the highest-numbered enabled region that contains it, and
  the hardware ignores the bits of the base below the size.
\<close>

fun mpu_table :: "trace \<Rightarrow> u64 \<times> (u64 \<Rightarrow> u64 \<times> u64) \<Rightarrow> u64 \<times> (u64 \<Rightarrow> u64 \<times> u64)" where
  "mpu_table [] (r, t) = (r, t)"
| "mpu_table (Wr p v # tr) (r, t) = mpu_table tr
     (if p = Mem32 MPU_RNR then (v, t)
      else if p = Mem32 MPU_RBAR then (r, t(r := (v, snd (t r))))
      else if p = Mem32 MPU_RASR then (r, t(r := (fst (t r), v))) else (r, t))"
| "mpu_table (_ # tr) (r, t) = mpu_table tr (r, t)"

definition region_matches :: "u64 \<times> u64 \<Rightarrow> u64 \<Rightarrow> bool" where
  "region_matches = (\<lambda>(rbar, rasr) addr. bit rasr 0 \<and>
     (let n = unat (drop_bit 1 rasr AND 0x1F) + 1 in drop_bit n addr = drop_bit n rbar))"

definition region_ap :: "u64 \<times> u64 \<Rightarrow> u64" where
  "region_ap = (\<lambda>(rbar, rasr). drop_bit 24 rasr AND 0x7)"

definition mpu_ap :: "(u64 \<Rightarrow> u64 \<times> u64) \<Rightarrow> u64 \<Rightarrow> u64 option" where
  "mpu_ap t addr = map_option (\<lambda>r. region_ap (t (of_nat r))) (find (\<lambda>r. region_matches (t (of_nat r)) addr) [7, 6, 5, 4, 3, 2, 1, 0])"

definition mpu_off :: "u64 \<times> (u64 \<Rightarrow> u64 \<times> u64)" where
  "mpu_off = (0, \<lambda>_. (0, 0))"

lemma mpu_setup_trace:
  "trace (mpu_setup \<lparr>trace = []\<rparr>) =
    [Wr (Mem32 MPU_RNR) 0, Wr (Mem32 MPU_RBAR) 0x08000000, Wr (Mem32 MPU_RASR) 0x03010025,
     Wr (Mem32 MPU_RNR) 1, Wr (Mem32 MPU_RBAR) 0x20000000, Wr (Mem32 MPU_RASR) 0x03010021,
     Wr (Mem32 MPU_RNR) 2, Wr (Mem32 MPU_RBAR) 0x40000000, Wr (Mem32 MPU_RASR) 0x13010039,
     Wr (Mem32 MPU_RNR) 3, Wr (Mem32 MPU_RBAR) 0x20014000, Wr (Mem32 MPU_RASR) 0x0301001D,
     Wr (Mem32 MPU_RNR) 4, Wr (Mem32 MPU_RBAR) 0x08000000, Wr (Mem32 MPU_RASR) 0x00010025,
     Wr (Mem32 MPU_CTRL) 7]"
  by (simp add: mpu_setup_def mpu_region_def mpu_enable_def bus)

lemma mpu_ports:
  "MPU_RNR = 0xE000ED98" "MPU_RBAR = 0xE000ED9C" "MPU_RASR = 0xE000EDA0" "MPU_CTRL = 0xE000ED94"
  by (simp_all add: MPU_RNR_def MPU_RBAR_def MPU_RASR_def MPU_CTRL_def)

text \<open>The part of the table the last region decides.\<close>

lemma mpu_setup_table:
  "snd (mpu_table (trace (mpu_setup \<lparr>trace = []\<rparr>)) mpu_off) =
    (\<lambda>_. (0, 0))(0 := (0x08000000, 0x03010025), 1 := (0x20000000, 0x03010021), 2 := (0x40000000, 0x13010039),
      3 := (0x20014000, 0x0301001D), 4 := (0x08000000, 0x00010025))"
  by (simp add: mpu_setup_trace mpu_ports mpu_off_def)

section \<open>Properties\<close>

text \<open>C11: The last region \<open>mpu_init\<close> programs covers the 512 KiB of flash the kernel runs from with no access at
  all, and takes precedence over the first, which allowed it: every address of the kernel's code
  is refused. The region for the task stacks starts at an address that is not a multiple of its
  size, so it covers 0x20010000 to 0x20017FFF instead of the 32 KiB from 0x20014000.\<close>

theorem mpu_denies_kernel:
  assumes "0x08000000 \<le> addr" "addr < 0x08080000"
  shows "mpu_ap (snd (mpu_table (trace (mpu_setup \<lparr>trace = []\<rparr>)) mpu_off)) addr = Some 0 \<and>
    (region_matches (snd (mpu_table (trace (mpu_setup \<lparr>trace = []\<rparr>)) mpu_off) 3) x \<longleftrightarrow>
       0x20010000 \<le> x \<and> x < 0x20018000)"
proof -
  have "unat addr div 2 ^ 19 = 256" using assms by (simp add: word_le_nat_alt word_less_nat_alt)
  then have a: "drop_bit 19 addr = 0x100"
    by (simp only: word_unat_eq_iff unat_drop_bit_eq) (simp add: drop_bit_eq_div)
  have "drop_bit 15 x = 0x4002 \<longleftrightarrow> unat x div 2 ^ 15 = 0x4002"
    by (simp only: word_unat_eq_iff unat_drop_bit_eq) (simp add: drop_bit_eq_div)
  also have "\<dots> \<longleftrightarrow> 0x20010000 \<le> unat x \<and> unat x < 0x20018000" by auto
  finally have x: "drop_bit 15 x = 0x4002 \<longleftrightarrow> 0x20010000 \<le> x \<and> x < 0x20018000"
    by (simp add: word_le_nat_alt word_less_nat_alt)
  show ?thesis using a x
    by (simp add: mpu_setup_table mpu_ap_def region_matches_def region_ap_def)
qed

lemma mpu_denies_kernel_witness:
  "mpu_ap (snd (mpu_table (trace (mpu_setup \<lparr>trace = []\<rparr>)) mpu_off)) 0x08000400 = Some 0"
  using mpu_denies_kernel [of "0x08000400"] by simp

text \<open>The watchdog reload is timeout * 125 / 1000 capped at 4095 as long as the product fits 32 bits; a
  longer timeout wraps and can give the shortest period there is.\<close>

lemma wdog_reload_capped:
  assumes "unat timeout_ms * 125 < 2 ^ 32"
  shows "unat (wdog_reload timeout_ms) = min 4095 (unat timeout_ms * 125 div 1000) \<and> wdog_reload 34359739 = 0"
proof -
  have "unat (timeout_ms * 125 div 1000) = unat timeout_ms * 125 div 1000"
    using assms by (simp add: unat_div unat_word_ariths)
  then show ?thesis by (auto simp: wdog_reload_def Let_def word_less_nat_alt min_def)
qed

text \<open>The sector field of the flash control register.\<close>

definition sector_field :: "u64 \<Rightarrow> nat" where
  "sector_field v = unat (drop_bit 3 v AND 0xF)"

lemma sector_field_bits: "sector_field v = sector_field w \<longleftrightarrow> (\<forall>n \<in> {3..6}. bit v n = bit w n)"
proof -
  have "sector_field v = sector_field w \<longleftrightarrow> take_bit 4 (drop_bit 3 v) = take_bit 4 (drop_bit 3 w)"
    by (simp add: sector_field_def and_masks flip: word_unat_eq_iff)
  also have "\<dots> \<longleftrightarrow> (\<forall>n < 64. n < 4 \<longrightarrow> bit v (3 + n) = bit w (3 + n))"
    by (auto simp: bit_eq_iff bit_simps)
  also have "\<dots> \<longleftrightarrow> (\<forall>n < 4. bit v (3 + n) = bit w (3 + n))" by auto
  also have "\<dots> \<longleftrightarrow> (\<forall>n \<in> {3..6}. bit v n = bit w n)"
    by (auto simp: numeral_eq_Suc less_Suc_eq atLeastAtMostSuc_conv)
  finally show ?thesis .
qed

lemma sector_field_or:
  "sector_field (ucast (ucast x OR y :: u32)) = sector_field (ucast (ucast z OR y :: u32))"
  if "sector_field x = sector_field z" for x z :: u64
  using that by (auto simp: sector_field_bits bit_simps)

lemma sector_field_of: "sector_field (ucast (push_bit 3 (drop_bit 11 v) :: u32)) = unat v div 2048 mod 16"
proof -
  have "drop_bit 3 (ucast (push_bit 3 (drop_bit 11 v) :: u32)) AND 0xF = (ucast (take_bit 4 (drop_bit 11 v)) :: u64)"
    by (rule bit_word_eqI) (auto simp: and_masks bit_simps dest: bit_imp_le_length)
  moreover have "unat (ucast (take_bit 4 (drop_bit 11 v)) :: u64) = unat (take_bit 4 (drop_bit 11 v))"
    by (simp add: unsigned_ucast_eq take_bit_nat_eq_self unsigned_take_bit_eq)
  ultimately show ?thesis
    by (simp only: sector_field_def unsigned_take_bit_eq unat_drop_bit_eq) (simp add: take_bit_eq_mod drop_bit_eq_div)
qed

text \<open>The sector number that \<open>flash_erase\<close> puts into the control register when it starts the erase is the
  address offset divided by 2048, modulo 16: for the application at 0x08080000 it is sector 0,
  which holds the boot loader. (The sector field reads back what was written and is zero at
  first; the controller is not busy.)\<close>

lemma flash_erase_sector:
  assumes "\<And>t u. sector_field (D (t @ u) (Mem32 FLASH_CR)) =
      sector_field (last_write (D t (Mem32 FLASH_CR)) u (Mem32 FLASH_CR))"
    and "sector_field (D (trace s) (Mem32 FLASH_CR)) = 0" and "\<And>t. D t (Mem32 FLASH_SR) = 0"
  shows "\<exists>t v1 v2 v3 v4 v5. flash_erase D addr s = Some t \<and>
    writes (Mem32 FLASH_CR) (trace t) = writes (Mem32 FLASH_CR) (trace s) @ [v1, v2, v3, v4, v5] \<and>
    bit v3 16 \<and> sector_field v3 = unat (addr - 0x08000000) div 2048 mod 16"
proof -
  let ?cr = "Mem32 FLASH_CR"
  define n where "n = push_bit 3 (drop_bit 11 (addr - 0x08000000))"
  define t0 where "t0 = trace s @ [Wr (Mem32 FLASH_KEYR) 0x45670123, Wr (Mem32 FLASH_KEYR) 0xCDEF89AB]"
  define r1 where "r1 = D t0 ?cr"
  define v1 where "v1 = (ucast (ucast r1 OR 2 :: u32) :: u64)"
  define t1 where "t1 = t0 @ [Rd ?cr (ucast (ucast r1 :: u32)), Wr ?cr v1]"
  define r2 where "r2 = D t1 ?cr"
  define v2 where "v2 = (ucast (ucast r2 OR n :: u32) :: u64)"
  define t2 where "t2 = t1 @ [Rd ?cr (ucast (ucast r2 :: u32)), Wr ?cr v2]"
  define r3 where "r3 = D t2 ?cr"
  define v3 where "v3 = (ucast (ucast r3 OR 0x10000 :: u32) :: u64)"
  define t3 where "t3 = t2 @ [Rd ?cr (ucast (ucast r3 :: u32)), Wr ?cr v3, Rd (Mem32 FLASH_SR) 0]"
  define r4 where "r4 = D t3 ?cr"
  define v4 where "v4 = (ucast (ucast r4 AND NOT 2 :: u32) :: u64)"
  define t4 where "t4 = t3 @ [Rd ?cr (ucast (ucast r4 :: u32)), Wr ?cr v4]"
  define r5 where "r5 = D t4 ?cr"
  define v5 where "v5 = (ucast (ucast r5 OR 0x80000000 :: u32) :: u64)"
  define t5 where "t5 = t4 @ [Rd ?cr (ucast (ucast r5 :: u32)), Wr ?cr v5]"
  note regs = FLASH_KEYR_def FLASH_CR_def FLASH_SR_def
  have e0: "flash_unlock s = s\<lparr>trace := t0\<rparr>" by (simp add: flash_unlock_def bus t0_def)
  have e1: "or32 D FLASH_CR 2 (s\<lparr>trace := t0\<rparr>) = s\<lparr>trace := t1\<rparr>" by (simp add: bus t1_def r1_def v1_def)
  have e2: "or32 D FLASH_CR n (s\<lparr>trace := t1\<rparr>) = s\<lparr>trace := t2\<rparr>" by (simp add: bus t2_def r2_def v2_def)
  have e3: "poll D (Mem32 FLASH_SR) (\<lambda>r :: u32. r AND 0x10000 = 0) (or32 D FLASH_CR 0x10000 (s\<lparr>trace := t2\<rparr>)) =
      Some (s\<lparr>trace := t3\<rparr>)"
    by (simp add: bus poll_step seen_def assms(3) t3_def r3_def v3_def)
  have e4: "clear32 D FLASH_CR 2 (s\<lparr>trace := t3\<rparr>) = s\<lparr>trace := t4\<rparr>" by (simp add: bus t4_def r4_def v4_def)
  have e5: "or32 D FLASH_CR 0x80000000 (s\<lparr>trace := t4\<rparr>) = s\<lparr>trace := t5\<rparr>" by (simp add: bus t5_def r5_def v5_def)
  have run: "flash_erase D addr s = Some (s\<lparr>trace := t5\<rparr>)"
    using e1 e2 e3 e4 e5 by (simp add: flash_erase_def flash_lock_def flash_wait_def e0 n_def)
  have ws: "writes ?cr t5 = writes ?cr (trace s) @ [v1, v2, v3, v4, v5]"
    by (simp add: t0_def t1_def t2_def t3_def t4_def t5_def regs)
  have "sector_field r1 = sector_field 0"
    using assms(1) [of "trace s" "[Wr (Mem32 FLASH_KEYR) 0x45670123, Wr (Mem32 FLASH_KEYR) 0xCDEF89AB]"] assms(2)
    by (simp add: r1_def t0_def regs) (simp add: sector_field_def)
  from sector_field_or [OF this, of 2] have "sector_field v1 = sector_field 0"
    by (simp add: v1_def sector_field_def)
  moreover have "sector_field r2 = sector_field v1"
    using assms(1) [of t0 "[Rd ?cr (ucast (ucast r1 :: u32)), Wr ?cr v1]"] by (simp add: r2_def t1_def)
  ultimately have "sector_field r2 = sector_field 0" by simp
  from sector_field_or [OF this, of n] have "sector_field v2 = sector_field (ucast n)" by (simp add: v2_def)
  moreover have "sector_field r3 = sector_field v2"
    using assms(1) [of t1 "[Rd ?cr (ucast (ucast r2 :: u32)), Wr ?cr v2]"] by (simp add: r3_def t2_def)
  ultimately have "sector_field r3 = sector_field (ucast n)" by simp
  from sector_field_or [OF this, of "0x10000"]
  have "sector_field v3 = sector_field (ucast (n OR 0x10000 :: u32))" by (simp add: v3_def)
  also have "\<dots> = sector_field (ucast n)" by (auto simp: sector_field_bits bit_simps numeral_eq_Suc less_Suc_eq)
  also have "\<dots> = unat (addr - 0x08000000) div 2048 mod 16" unfolding n_def by (rule sector_field_of)
  finally have "sector_field v3 = unat (addr - 0x08000000) div 2048 mod 16" .
  moreover have "bit v3 16" by (simp add: v3_def bit_simps)
  ultimately show ?thesis using run ws by (intro exI [of _ "s\<lparr>trace := t5\<rparr>"]) auto
qed

text \<open>The bus accesses that program \<open>n\<close> words from offset \<open>i\<close> on.\<close>

definition word_writes :: "memory \<Rightarrow> u32 \<Rightarrow> u32 \<Rightarrow> u32 \<Rightarrow> nat \<Rightarrow> trace" where
  "word_writes m addr dat i n = concat (map (\<lambda>k. [Wr (Mem32 (addr + (i + 4 * of_nat k))) (ucast (load32 m (dat + (i + 4 * of_nat k)))),
     Rd (Mem32 FLASH_SR) 0]) [0..<n])"

lemma word_writes_Suc:
  "word_writes m addr dat i (Suc n) = Wr (Mem32 (addr + i)) (ucast (load32 m (dat + i))) # Rd (Mem32 FLASH_SR) 0 #
    word_writes m addr dat (i + 4) n"
proof -
  have "[0..<Suc n] = 0 # map Suc [0..<n]" by (simp add: map_Suc_upt upt_conv_Cons)
  then show ?thesis by (simp add: word_writes_def comp_def algebra_simps del: upt_Suc)
qed

lemma flash_words_trace:
  assumes "\<And>t. D t (Mem32 FLASH_SR) = 0" "unat len \<le> 2 ^ 32 - 4" "n = (unat len + 3 - unat i) div 4"
  shows "flash_words D m addr dat len i s = Some (s\<lparr>trace := trace s @ word_writes m addr dat i n\<rparr>)"
  using assms(3)
proof (induction n arbitrary: i s)
  case 0
  then have "\<not> i < len" by (auto simp: word_less_nat_alt div_eq_0_iff)
  then show ?case by (subst flash_words.simps) (simp add: word_writes_def)
next
  case (Suc n)
  have i: "unat i < unat len"
  proof (rule ccontr)
    assume "\<not> unat i < unat len"
    then have "(unat len + 3 - unat i) div 4 = 0" by simp
    with Suc.prems show False by simp
  qed
  then have u: "unat (i + 4) = unat i + 4" using assms(2) by (simp add: unat_word_ariths)
  have "n = (unat len + 3 - unat (i + 4)) div 4" using Suc.prems i u by simp
  then have "flash_words D m addr dat len (i + 4) s' = Some (s'\<lparr>trace := trace s' @ word_writes m addr dat (i + 4) n\<rparr>)"
    for s' :: "'a machine_scheme" by (rule Suc.IH)
  then show ?case using i assms(1)
    by (subst flash_words.simps)
       (simp add: word_less_nat_alt flash_wait_def poll_step seen_def bus word_writes_Suc)
qed

text \<open>While the controller is not busy, the programming loop of \<open>flash_write\<close> returns and writes
  (len + 3) / 4 words, in ascending order, each waited for before the next; word k of the data goes
  to address addr + 4k, and nothing else is written.\<close>

lemma flash_write_words:
  assumes "\<And>t. D t (Mem32 FLASH_SR) = 0" "unat len \<le> 2 ^ 32 - 4"
  shows "flash_words D m addr dat len 0 s = Some (s\<lparr>trace := trace s @ concat (map (\<lambda>k.
    [Wr (Mem32 (addr + 4 * of_nat k)) (ucast (load32 m (dat + 4 * of_nat k))), Rd (Mem32 FLASH_SR) 0])
    [0..<(unat len + 3) div 4])\<rparr>)"
  using flash_words_trace [of D len "(unat len + 3) div 4" 0 m addr dat s] assms by (simp add: word_writes_def)

text \<open>The port letter and the number in a pin's name.\<close>

definition pin_name :: "gpio_pin \<Rightarrow> nat \<times> nat" where
  "pin_name p = (if p \<le> PA7 then (0, pin_code p) else if p \<le> PB7 then (1, pin_code p - 8) else (2, pin_code p - 3))"

text \<open>\<open>gpio_set_mode\<close> changes the two mode bits of its pin and no other bit of the port's mode register;
  the bit is the one in the pin's name on ports A and B, but PC13, PC14 and PC15 drive the bits
  0, 1 and 2 of port C.\<close>

lemma gpio_set_mode_bits:
  assumes "is_reg D (Mem32 (gpio_port pin))"
  shows "\<exists>w. last (trace (gpio_set_mode Arm D pin mode s)) = Wr (Mem32 (gpio_port pin)) (ucast (w :: u32)) \<and>
    (\<forall>k < 32. bit w k = (if k = 2 * gpio_pin_num pin then mode = GPIO_OUT
       else if k = 2 * gpio_pin_num pin + 1 then False else bit (D (trace s) (Mem32 (gpio_port pin))) k)) \<and>
    gpio_pin_num pin = (if fst (pin_name pin) < 2 then snd (pin_name pin) else snd (pin_name pin) - 13)"
proof -
  let ?n = "gpio_pin_num pin" and ?p = "Mem32 (gpio_port pin)"
  let ?r = "ucast (D (trace s) ?p) :: u32"
  let ?v = "?r AND NOT (push_bit (?n * 2) 3)"
  let ?w = "?v OR push_bit (?n * 2) (mode_code mode)"
  have n16: "?n < 16" by (cases pin) (simp_all add: gpio_pin_num_def less_eq_gpio_pin_def)
  have stored: "D (trace s @ [Rd ?p (ucast ?r), Wr ?p (ucast ?v)]) ?p = ucast ?v"
    using is_reg_append [OF assms, of "trace s" "[Rd ?p (ucast ?r), Wr ?p (ucast ?v)]"] by simp
  have "last (trace (gpio_set_mode Arm D pin mode s)) = Wr ?p (ucast ?w)"
    using stored by (simp add: gpio_set_mode_def bus)
  moreover have "bit ?w k = (if k = 2 * ?n then mode = GPIO_OUT
       else if k = 2 * ?n + 1 then False else bit (D (trace s) ?p) k)" if "k < 32" for k
  proof -
    have b3: "bit (3 :: u32) j \<longleftrightarrow> j < 2" for j
      by (cases j; cases "j - 1") (auto simp: bit_Suc numeral_3_eq_3 bit_simps)
    have bm: "bit (mode_code mode) j \<longleftrightarrow> j = 0 \<and> mode = GPIO_OUT" for j
      by (cases mode) (auto simp: mode_code_def bit_simps)
    show ?thesis using that n16 b3 [of "k - ?n * 2"] bm [of "k - ?n * 2"] by (auto simp: bit_simps)
  qed
  moreover have "?n = (if fst (pin_name pin) < 2 then snd (pin_name pin) else snd (pin_name pin) - 13)"
    by (cases pin) (simp_all add: gpio_pin_num_def less_eq_gpio_pin_def pin_name_def)
  ultimately show ?thesis by blast
qed

end
