(* ===== verification/Kstring.thy ===== *)
theory Kstring
  imports Blood_Prelude "HOL-Library.List_Lexorder"
begin

text \<open>
  \<open>src/string.c\<close>: the byte loops over memory, with wrapping 32-bit pointers. A length is the
  number of rounds of \<open>while (n--)\<close>. \<open>strlen\<close> returns only if it finds a NUL. \<open>elf.c\<close> has its
  own copies of three of them; its \<open>memcmp\<close> (here \<open>elf_memcmp\<close>) only tells equal from different.
\<close>

fun copy_bytes :: "u32 \<Rightarrow> u32 \<Rightarrow> nat \<Rightarrow> memory \<Rightarrow> memory" where
  "copy_bytes d s 0 m = m"
| "copy_bytes d s (Suc n) m = copy_bytes (d + 1) (s + 1) n (m(d := m s))"

definition memcpy :: "u32 \<Rightarrow> u32 \<Rightarrow> u32 \<Rightarrow> memory \<Rightarrow> memory" where
  "memcpy dst src n m = copy_bytes dst src (unat n) m"

fun set_bytes :: "u32 \<Rightarrow> u8 \<Rightarrow> nat \<Rightarrow> memory \<Rightarrow> memory" where
  "set_bytes p c 0 m = m"
| "set_bytes p c (Suc n) m = set_bytes (p + 1) c n (m(p := c))"

definition memset :: "u32 \<Rightarrow> u32 \<Rightarrow> u32 \<Rightarrow> memory \<Rightarrow> memory" where
  "memset p c n m = set_bytes p (ucast c) (unat n) m"

fun compare_bytes :: "u32 \<Rightarrow> u32 \<Rightarrow> nat \<Rightarrow> memory \<Rightarrow> int" where
  "compare_bytes a b 0 m = 0"
| "compare_bytes a b (Suc n) m =
     (if m a \<noteq> m b then (if m a < m b then - 1 else 1) else compare_bytes (a + 1) (b + 1) n m)"

definition memcmp :: "u32 \<Rightarrow> u32 \<Rightarrow> u32 \<Rightarrow> memory \<Rightarrow> int" where
  "memcmp a b n m = compare_bytes a b (unat n) m"

partial_function (option) strlen_from :: "u32 \<Rightarrow> u32 \<Rightarrow> memory \<Rightarrow> u32 option" where
  "strlen_from s len m = (if m s \<noteq> 0 then strlen_from (s + 1) (len + 1) m else Some len)"

definition strlen :: "u32 \<Rightarrow> memory \<Rightarrow> u32 option" where
  "strlen s m = strlen_from s 0 m"

text \<open>The \<open>memcmp\<close> of \<open>elf.c\<close>, against a constant string.\<close>

fun elf_memcmp :: "u32 \<Rightarrow> u8 list \<Rightarrow> memory \<Rightarrow> int" where
  "elf_memcmp a [] m = 0"
| "elf_memcmp a (b # bs) m = (if m a \<noteq> b then 1 else elf_memcmp (a + 1) bs m)"

section \<open>Ranges of memory\<close>

text \<open>\<open>n\<close> bytes from \<open>a\<close>, wrapping at the end of the address space.\<close>

definition bytes_at :: "u32 \<Rightarrow> nat \<Rightarrow> memory \<Rightarrow> u8 list" where
  "bytes_at a n m = map (\<lambda>i. m (a + of_nat i)) [0..<n]"

definition in_range :: "u32 \<Rightarrow> u32 \<Rightarrow> nat \<Rightarrow> bool" where
  "in_range x a n \<longleftrightarrow> unat (x - a) < n"

lemma in_range_0 [simp]: "\<not> in_range x a 0"
  by (simp add: in_range_def)

lemma in_range_Suc: "in_range x a (Suc n) \<longleftrightarrow> x = a \<or> x \<noteq> a \<and> in_range x (a + 1) n"
proof (cases "x = a")
  case False
  then have "x - a \<noteq> 0" by simp
  then have p: "unat (x - a - 1) = unat (x - a) - 1" "0 < unat (x - a)"
    by (simp_all add: unat_minus_one unat_gt_0)
  have "x - (a + 1) = x - a - 1" by simp
  then have "unat (x - (a + 1)) = unat (x - a) - 1" by (simp only: p)
  with False p(2) show ?thesis unfolding in_range_def by auto
qed (simp add: in_range_def)

lemma not_in_range_next: "n < 2 ^ 32 \<Longrightarrow> \<not> in_range d (d + 1) n"
proof -
  have "(- 1 :: u32) = 0xFFFFFFFF" by simp
  have "d - (d + 1) = - 1" by simp
  then have "unat (d - (d + 1)) = 2 ^ 32 - 1" by (simp only: \<open>- 1 = 0xFFFFFFFF\<close>) simp
  then show "n < 2 ^ 32 \<Longrightarrow> \<not> in_range d (d + 1) n" by (simp add: in_range_def)
qed

lemma bytes_at_0 [simp]: "bytes_at a 0 m = []"
  by (simp add: bytes_at_def)

lemma bytes_at_Suc: "bytes_at a (Suc n) m = m a # bytes_at (a + 1) n m"
proof -
  have "[0..<Suc n] = 0 # map Suc [0..<n]" by (simp add: map_Suc_upt upt_conv_Cons)
  then show ?thesis by (simp add: bytes_at_def comp_def algebra_simps del: upt_Suc)
qed

section \<open>What the loops compute\<close>

text \<open>
  A forward copy reads the source before it is overwritten if the destination does not start
  inside the source, after its first byte.
\<close>

lemma copy_bytes_at:
  assumes "n < 2 ^ 32" "d = s \<or> n \<le> unat (d - s)"
  shows "copy_bytes d s n m x = (if in_range x d n then m (s + (x - d)) else m x)"
  using assms
proof (induction n arbitrary: d s m)
  case 0
  then show ?case by simp
next
  case (Suc n)
  have n: "n < 2 ^ 32" "d + 1 = s + 1 \<or> n \<le> unat (d + 1 - (s + 1))" using Suc.prems by auto
  note IH = Suc.IH [OF n, of "m(d := m s)"]
  have shift: "s + 1 + (x - (d + 1)) = s + (x - d)" by simp
  have src: "s + (x - d) \<noteq> d \<or> d = s" if "in_range x d (Suc n)"
  proof -
    have "x - d \<noteq> d - s" if "d \<noteq> s"
      using Suc.prems(2) that \<open>in_range x d (Suc n)\<close> by (auto simp: in_range_def)
    then show ?thesis by (metis add_diff_cancel_left')
  qed
  show ?case
  proof (cases "x = d")
    case True
    have "copy_bytes (d + 1) (s + 1) n (m(d := m s)) d = m s"
      using IH not_in_range_next [OF n(1), of d] True by (simp del: fun_upd_apply add: fun_upd_same)
    with True show ?thesis by (simp add: in_range_def del: fun_upd_apply)
  next
    case False
    have c: "in_range x d (Suc n) = in_range x (d + 1) n"
      using in_range_Suc [of x d n] False by simp
    show ?thesis
    proof (cases "in_range x d (Suc n)")
      case True
      have "(m(d := m s)) (s + (x - d)) = m (s + (x - d))" using src [OF True] by auto
      then show ?thesis using True c IH by (simp only: copy_bytes.simps shift if_True)
    next
      case out: False
      then have "copy_bytes (d + 1) (s + 1) n (m(d := m s)) x = (m(d := m s)) x" using c IH by (simp only: if_False)
      with out False show ?thesis by simp
    qed
  qed
qed

lemma set_bytes_at:
  "n < 2 ^ 32 \<Longrightarrow> set_bytes p c n m x = (if in_range x p n then c else m x)"
proof (induction n arbitrary: p m)
  case (Suc n)
  then have n: "n < 2 ^ 32" by simp
  show ?case using Suc.IH [OF n, of "p + 1" "m(p := c)"] in_range_Suc [of x p n] not_in_range_next [OF n]
    by (auto simp del: fun_upd_apply) simp_all
qed simp

lemma compare_bytes_lex:
  "(compare_bytes a b n m = 0 \<longleftrightarrow> bytes_at a n m = bytes_at b n m) \<and>
   (compare_bytes a b n m < 0 \<longleftrightarrow> bytes_at a n m < bytes_at b n m)"
  by (induction n arbitrary: a b) (simp_all add: bytes_at_Suc)

lemma strlen_from_finds:
  assumes "m (s + of_nat n) = 0" "\<forall>i<n. m (s + of_nat i) \<noteq> 0"
  shows "strlen_from s len m = Some (len + of_nat n)"
  using assms
proof (induction n arbitrary: s len)
  case 0
  then show ?case by (simp add: strlen_from.simps)
next
  case (Suc n)
  have "m s \<noteq> 0" using Suc.prems(2) by force
  moreover have "m (s + 1 + of_nat n) = 0" using Suc.prems(1) by (simp add: algebra_simps)
  moreover have "\<forall>i<n. m (s + 1 + of_nat i) \<noteq> 0"
    using Suc.prems(2) by (auto simp: algebra_simps dest: spec [of _ "Suc _"])
  ultimately show ?case
    using Suc.IH [of "s + 1" "len + 1"] by (subst strlen_from.simps) (simp add: algebra_simps)
qed

lemma elf_memcmp_eq: "elf_memcmp a bs m = 0 \<longleftrightarrow> bytes_at a (length bs) m = bs"
  by (induction bs arbitrary: a) (auto simp: bytes_at_Suc)

section \<open>Properties\<close>

text \<open>\<open>memcpy\<close> copies \<open>n\<close> bytes and touches nothing else, if the destination does not start inside
  the source after its first byte; the regions may otherwise overlap and wrap.\<close>

lemma memcpy_copies:
  assumes "dst = src \<or> n \<le> dst - src"
  shows "memcpy dst src n m x = (if x - dst < n then m (src + (x - dst)) else m x)"
  using copy_bytes_at [of "unat n" dst src m x] assms unsigned_less [of n, where ?'a = nat]
  by (simp add: memcpy_def in_range_def word_less_nat_alt word_le_nat_alt)

text \<open>\<open>memset\<close> sets its range and nothing else; \<open>memcmp\<close> returns zero for equal ranges and a
  negative value when the first is lexicographically smaller, bytes taken as unsigned; \<open>strlen\<close>
  returns the distance to the first NUL.\<close>

lemma string_functions:
  "memset p c n m x = (if x - p < n then ucast c else m x) \<and>
   (memcmp a b n m = 0 \<longleftrightarrow> bytes_at a (unat n) m = bytes_at b (unat n) m) \<and>
   (memcmp a b n m < 0 \<longleftrightarrow> bytes_at a (unat n) m < bytes_at b (unat n) m) \<and>
   (m (s + of_nat k) = 0 \<and> (\<forall>i<k. m (s + of_nat i) \<noteq> 0) \<longrightarrow> strlen s m = Some (of_nat k))"
  using set_bytes_at [of "unat n" p "ucast c" m x] compare_bytes_lex [of a b "unat n" m]
    strlen_from_finds [of m s k 0] unsigned_less [of n, where ?'a = nat]
  by (simp add: memset_def memcmp_def strlen_def in_range_def word_less_nat_alt)

end
