(* ===== verification/Loader.thy ===== *)
theory Loader
  imports Sched_Proofs Board Kprintf Kstring
begin

text \<open>
  Booting: \<open>src/kernel/mem.c\<close> (the multiboot memory map), \<open>src/kernel/elf.c\<close> (the ELF loader)
  and \<open>src/kernel/main.c\<close> (the module table and \<open>kernel_main\<close>). The memory is the field
  \<open>ram\<close> of the scheduler's state, to which \<open>main.c\<close> adds its module table.
\<close>

section \<open>The memory map\<close>

definition mmap_size :: "memory \<Rightarrow> u32 \<Rightarrow> u32" where "mmap_size m p = load32 m p"
definition mmap_base :: "memory \<Rightarrow> u32 \<Rightarrow> u64" where "mmap_base m p = load64 m (p + 4)"
definition mmap_length :: "memory \<Rightarrow> u32 \<Rightarrow> u64" where "mmap_length m p = load64 m (p + 12)"
definition mmap_type :: "memory \<Rightarrow> u32 \<Rightarrow> u32" where "mmap_type m p = load32 m (p + 20)"

partial_function (option) mmap_walk ::
  "arch \<Rightarrow> device \<Rightarrow> memory \<Rightarrow> u32 \<Rightarrow> u32 \<Rightarrow> 'a machine_scheme \<Rightarrow> 'a machine_scheme option" where
  "mmap_walk a D m p mmap_end s =
     (if p < mmap_end then do {
        s \<leftarrow> (if mmap_type m p = 1 then do {
                s \<leftarrow> uart_hex a D (ucast (mmap_base m p)) s;
                s \<leftarrow> uart_puts a D ''-'' s;
                s \<leftarrow> uart_hex a D (ucast (mmap_base m p + mmap_length m p)) s;
                s \<leftarrow> uart_puts a D ''  '' s;
                s \<leftarrow> uart_hex a D (ucast (mmap_length m p)) s;
                uart_puts a D ('' bytes'' @ crlf) s }
              else Some s);
        mmap_walk a D m (p + mmap_size m p + 4) mmap_end s
      } else Some s)"

definition detect_memory_x86 ::
  "arch \<Rightarrow> device \<Rightarrow> memory \<Rightarrow> u32 \<Rightarrow> 'a machine_scheme \<Rightarrow> 'a machine_scheme option" where
  "detect_memory_x86 a D m mbi s =
     (if mbi = 0 then uart_puts a D (''no multiboot info'' @ crlf) s
      else if load32 m mbi AND push_bit 6 1 = 0 then uart_puts a D (''no memory map'' @ crlf) s
      else do {
        let mmap = load32 m (mbi + 44);
        let mmap_end = load32 m (mbi + 44) + load32 m (mbi + 40);
        s \<leftarrow> uart_puts a D (''Memory map:'' @ crlf) s;
        mmap_walk a D m mmap mmap_end s
      })"

definition detect_memory_arm :: "arch \<Rightarrow> device \<Rightarrow> 'a machine_scheme \<Rightarrow> 'a machine_scheme option" where
  "detect_memory_arm a D s = do {
     s \<leftarrow> uart_puts a D (''ARM memory:'' @ crlf) s;
     s \<leftarrow> uart_puts a D (''FLASH: 0x08000000-0x08080000 (512K)'' @ crlf) s;
     uart_puts a D (''RAM:   0x20000000-0x20020000 (128K)'' @ crlf) s }"

section \<open>ELF images\<close>

text \<open>Field offsets of \<open>elf_header_t\<close> and \<open>elf_phdr_t\<close>.\<close>

definition e_type :: "memory \<Rightarrow> u32 \<Rightarrow> u16" where "e_type m h = load16 m (h + 16)"
definition e_machine :: "memory \<Rightarrow> u32 \<Rightarrow> u16" where "e_machine m h = load16 m (h + 18)"
definition e_entry :: "memory \<Rightarrow> u32 \<Rightarrow> u32" where "e_entry m h = load32 m (h + 24)"
definition e_phoff :: "memory \<Rightarrow> u32 \<Rightarrow> u32" where "e_phoff m h = load32 m (h + 28)"
definition e_phnum :: "memory \<Rightarrow> u32 \<Rightarrow> u16" where "e_phnum m h = load16 m (h + 44)"

record phdr =
  p_type :: u32
  p_offset :: u32
  p_vaddr :: u32
  p_filesz :: u32
  p_memsz :: u32

definition read_phdr :: "memory \<Rightarrow> u32 \<Rightarrow> phdr" where
  "read_phdr m p = \<lparr>p_type = load32 m p, p_offset = load32 m (p + 4), p_vaddr = load32 m (p + 8),
     p_filesz = load32 m (p + 16), p_memsz = load32 m (p + 20)\<rparr>"

text \<open>\<open>memcpy\<close> and \<open>memset\<close> are the file's own copies, with the loops of \<open>string.c\<close>.\<close>

definition load_segment :: "u32 \<Rightarrow> phdr \<Rightarrow> memory \<Rightarrow> memory" where
  "load_segment elf_data ph m =
     (if p_type ph = 1 then
        (let m = memcpy (p_vaddr ph) (elf_data + p_offset ph) (p_filesz ph) m
         in if p_memsz ph > p_filesz ph
            then memset (p_vaddr ph + p_filesz ph) 0 (p_memsz ph - p_filesz ph) m else m)
      else m)"

text \<open>The loop reads the header count and each program header from the memory as it then is.\<close>

function load_segments :: "u32 \<Rightarrow> u32 \<Rightarrow> nat \<Rightarrow> memory \<Rightarrow> memory" where
  "load_segments elf_data phdrs i m =
     (if i < unat (e_phnum m elf_data)
      then load_segments elf_data phdrs (Suc i) (load_segment elf_data (read_phdr m (phdrs + of_nat i * 32)) m)
      else m)"
  by pat_completeness auto
termination
proof (relation "measure (\<lambda>(_, _, i, _). 2 ^ 16 - i)", simp)
  fix h p :: u32 and i :: nat and m :: memory
  assume "i < unat (e_phnum m h)"
  then have "i < 2 ^ 16" using unsigned_less [of "e_phnum m h", where ?'a = nat] by simp
  then show "((h, p, Suc i, load_segment h (read_phdr m (p + of_nat i * 32)) m), h, p, i, m)
      \<in> measure (\<lambda>(_, _, i, _). 2 ^ 16 - i)" by simp
qed

declare load_segments.simps [simp del]

definition elf_magic :: "u8 list" where
  "elf_magic = [0x7F, 0x45, 0x4C, 0x46]"

lemma elf_memcmp_magic: "elf_memcmp h elf_magic m = 0 \<longleftrightarrow> bytes_at h 4 m = elf_magic"
proof -
  have "length elf_magic = 4" by (simp add: elf_magic_def)
  with elf_memcmp_eq [of h elf_magic m] show ?thesis by simp
qed

text \<open>The result, \<open>*entry\<close> after the call (\<open>entry\<close> before), and the state.\<close>

definition elf_load ::
  "arch \<Rightarrow> device \<Rightarrow> u32 \<Rightarrow> u32 \<Rightarrow> 'a sched_scheme \<Rightarrow> (u32 \<times> u32 \<times> 'a sched_scheme) option" where
  "elf_load a D elf_data entry s =
     (if elf_memcmp elf_data elf_magic (ram s) \<noteq> 0 then do {
        s \<leftarrow> uart_puts a D (''Not ELF'' @ crlf) s;
        Some (0, entry, s) }
      else if e_type (ram s) elf_data \<noteq> 2 \<or> e_machine (ram s) elf_data \<noteq> 0x28 then do {
        s \<leftarrow> uart_puts a D (''Bad ELF type'' @ crlf) s;
        Some (0, entry, s) }
      else do {
        let entry = e_entry (ram s) elf_data;
        let phdrs = elf_data + e_phoff (ram s) elf_data;
        let s = s\<lparr>ram := load_segments elf_data phdrs 0 (ram s)\<rparr>;
        s \<leftarrow> uart_puts a D ''ELF loaded, entry='' s;
        s \<leftarrow> uart_hex a D entry s;
        s \<leftarrow> uart_puts a D crlf s;
        Some (1, entry, s) })"

section \<open>Modules and the boot sequence\<close>

definition MAX_MODULES :: nat where "MAX_MODULES = 8"

record module =
  m_addr :: u32
  m_size :: u32
  m_name :: string

record kernel = sched +
  modules :: "module list"
  module_count :: u32

definition loader_add_module :: "u32 \<Rightarrow> u32 \<Rightarrow> string \<Rightarrow> 'a kernel_scheme \<Rightarrow> 'a kernel_scheme" where
  "loader_add_module addr sz nm s =
     (if unat (module_count s) \<ge> MAX_MODULES then s
      else s\<lparr>modules := (modules s)[unat (module_count s) :=
               \<lparr>m_addr = addr, m_size = sz, m_name = take 31 (until_nul nm)\<rparr>],
             module_count := module_count s + 1\<rparr>)"

definition scan_addresses :: "u32 list" where
  "scan_addresses = map (\<lambda>k. 0x08080000 + of_nat k * 0x1000) [0..<128]"

definition loader_scan :: "'a kernel_scheme \<Rightarrow> 'a kernel_scheme" where
  "loader_scan s = fold (\<lambda>addr s. if load32 (ram s) addr = 0x7F454C46
     then loader_add_module addr 0x2000 ''user_task'' s else s) scan_addresses s"

text \<open>
  \<open>loader_boot\<close> jumps to each module. What the module does is not part of the repository:
  \<open>run addr\<close> is its effect, or \<open>None\<close> if it does not return.
\<close>

definition load_format :: string where
  "load_format = ''Loading %s @0x%08x (%u bytes)'' @ crlf"

partial_function (option) loader_boot_from ::
  "arch \<Rightarrow> device \<Rightarrow> (u32 \<Rightarrow> 'a kernel_scheme \<Rightarrow> 'a kernel_scheme option) \<Rightarrow> u32 \<Rightarrow> 'a kernel_scheme \<Rightarrow> 'a kernel_scheme option" where
  "loader_boot_from a D run i s =
     (if i < module_count s then do {
        let md = modules s ! unat i;
        s \<leftarrow> kprintf a D load_format [KStr (m_name md), KInt (m_addr md), KInt (m_size md)] s;
        s \<leftarrow> run (m_addr (modules s ! unat i)) s;
        loader_boot_from a D run (i + 1) s
      } else Some s)"

definition loader_boot ::
  "arch \<Rightarrow> device \<Rightarrow> (u32 \<Rightarrow> 'a kernel_scheme \<Rightarrow> 'a kernel_scheme option) \<Rightarrow> 'a kernel_scheme \<Rightarrow> 'a kernel_scheme option" where
  "loader_boot a D run s = loader_boot_from a D run 0 s"

definition banner :: string where
  "banner = ''BLOOD_KERNEL v1.20 universal main'' @ crlf @
     ''Arch: %-12s  MCU: %-12s'' @ crlf @
     ''Boot: %-12s  Date: 2025-08-14'' @ crlf @
     ''Build: %s %s'' @ crlf @
     ''-------------------------------------------'' @ crlf"

text \<open>
  What an architecture links in: its names, its \<open>clock_init\<close> and \<open>ipc_init\<close> (bus accesses only),
  the effect of the modules, and the entry points of the three tasks.
\<close>

record 'k boot_env =
  arch_name :: string
  mcu_name :: string
  boot_name :: string
  build_date :: string
  build_time :: string
  clock_init :: "trace \<Rightarrow> trace"
  ipc_init :: "trace \<Rightarrow> trace"
  run_module :: "u32 \<Rightarrow> 'k \<Rightarrow> 'k option"
  idle_task :: u32
  blink_task :: u32
  log_task :: u32

definition kernel_main :: "kernel boot_env \<Rightarrow> arch \<Rightarrow> device \<Rightarrow> kernel \<Rightarrow> kernel option" where
  "kernel_main E a D s = do {
     let s = uart_early_init a D s;
     let s = s\<lparr>trace := clock_init E (trace s)\<rparr>;
     let s = gpio_init a D s;
     let s = s\<lparr>trace := ipc_init E (trace s)\<rparr>;
     s \<leftarrow> log_init a D s;
     s \<leftarrow> kprintf a D banner [KStr (arch_name E), KStr (mcu_name E), KStr (boot_name E),
            KStr (build_date E), KStr (build_time E)] s;
     let s = loader_scan s;
     s \<leftarrow> loader_boot a D (run_module E) s;
     s \<leftarrow> sched_init a D s;
     (_, s) \<leftarrow> task_create a (idle_task E) 256 s;
     (_, s) \<leftarrow> task_create a (blink_task E) 256 s;
     (_, s) \<leftarrow> task_create a (log_task E) 512 s;
     sched_start a D s
   }"

section \<open>The module table\<close>

text \<open>The addresses the scan recognises.\<close>

definition found :: "memory \<Rightarrow> u32 list" where
  "found m = filter (\<lambda>addr. load32 m addr = 0x7F454C46) scan_addresses"

lemma add_module_frame:
  "ram (loader_add_module addr sz nm s) = ram s"
  "length (modules (loader_add_module addr sz nm s)) = length (modules s)"
  by (simp_all add: loader_add_module_def)

definition table_of :: "'a kernel_scheme \<Rightarrow> u32 list" where
  "table_of s = map m_addr (take (unat (module_count s)) (modules s))"

lemma add_module_table:
  assumes "length (modules s) = MAX_MODULES" "unat (module_count s) \<le> MAX_MODULES"
  shows "table_of (loader_add_module addr sz nm s) = take MAX_MODULES (table_of s @ [addr]) \<and>
    unat (module_count (loader_add_module addr sz nm s)) \<le> MAX_MODULES"
proof (cases "unat (module_count s) < MAX_MODULES")
  case True
  then have "unat (module_count s + 1) = Suc (unat (module_count s))"
    by (simp add: MAX_MODULES_def unat_word_ariths)
  with True assms show ?thesis
    by (simp add: loader_add_module_def table_of_def take_Suc_conv_app_nth)
next
  case False
  with assms show ?thesis by (simp add: loader_add_module_def table_of_def)
qed

lemma scan_fold:
  assumes "length (modules s) = MAX_MODULES" "unat (module_count s) \<le> MAX_MODULES"
  shows "table_of (fold (\<lambda>addr s. if load32 (ram s) addr = 0x7F454C46
     then loader_add_module addr 0x2000 nm s else s) as s) =
    take MAX_MODULES (table_of s @ filter (\<lambda>addr. load32 (ram s) addr = 0x7F454C46) as)"
  using assms
proof (induction as arbitrary: s)
  case Nil
  then show ?case by (simp add: table_of_def)
next
  case (Cons addr as)
  note add = add_module_table [OF Cons.prems, of addr "0x2000" nm]
  have "take MAX_MODULES (take MAX_MODULES (table_of s @ [addr]) @ xs) = take MAX_MODULES (table_of s @ addr # xs)" for xs
    by (cases "length (table_of s) < MAX_MODULES") (simp_all add: take_append)
  with Cons.IH [of "loader_add_module addr 0x2000 nm s"] Cons.IH [of s] Cons.prems add show ?case
    by (simp add: add_module_frame)
qed

lemma elf_bytes_word:
  assumes "bytes_at addr 4 m = [0x7F, 0x45, 0x4C, 0x46]"
  shows "load32 m addr = 0x464C457F"
proof -
  have "m addr = 0x7F" "m (addr + 1) = 0x45" "m (addr + 2) = 0x4C" "m (addr + 3) = 0x46"
    using assms by (simp_all add: bytes_at_def upt_rec numeral_eq_Suc)
  then show ?thesis by (simp add: load32_def)
qed

section \<open>Segments\<close>

lemma segment_offset:
  fixes d f n :: u32
  assumes "f < n"
  shows "d - f < n - f \<longleftrightarrow> \<not> d < f \<and> d < n"
proof -
  have fn: "unat f < unat n" using assms by (simp add: word_less_nat_alt)
  have nf: "unat (n - f) = unat n - unat f" using fn by (simp add: unat_sub word_le_nat_alt)
  have "unat (d - f) = (if unat f \<le> unat d then unat d - unat f else unat d + 2 ^ 32 - unat f)"
    by (simp add: unat_sub_if_size word_size)
  moreover have "unat n < 2 ^ 32" using unsigned_less [of n, where ?'a = nat] by simp
  ultimately show ?thesis unfolding word_less_nat_alt nf using fn by auto
qed

lemma load_segment_at:
  assumes "p_type ph = 1" "p_vaddr ph = h + p_offset ph \<or> p_filesz ph \<le> p_vaddr ph - (h + p_offset ph)"
  shows "load_segment h ph m x =
    (if x - p_vaddr ph < p_filesz ph then m (h + p_offset ph + (x - p_vaddr ph))
     else if x - p_vaddr ph < p_memsz ph then 0 else m x)"
proof -
  let ?v = "p_vaddr ph" and ?f = "p_filesz ph" and ?n = "p_memsz ph"
  have cp: "copy_bytes ?v (h + p_offset ph) (unat ?f) m x =
      (if x - ?v < ?f then m (h + p_offset ph + (x - ?v)) else m x)"
    using copy_bytes_at [of "unat ?f" ?v "h + p_offset ph" m x] assms(2) unsigned_less [of ?f, where ?'a = nat]
    by (simp add: in_range_def word_less_nat_alt word_le_nat_alt)
  show ?thesis
  proof (cases "?f < ?n")
    case True
    have "set_bytes (?v + ?f) (ucast (0 :: u32)) (unat (?n - ?f)) m' x = (if x - (?v + ?f) < ?n - ?f then 0 else m' x)" for m'
      using set_bytes_at [of "unat (?n - ?f)" "?v + ?f" 0 m' x] unsigned_less [of "?n - ?f", where ?'a = nat]
      by (simp add: in_range_def word_less_nat_alt)
    moreover have "x - (?v + ?f) < ?n - ?f \<longleftrightarrow> \<not> x - ?v < ?f \<and> x - ?v < ?n"
      using segment_offset [OF True, of "x - ?v"] by (simp only: diff_diff_eq)
    ultimately show ?thesis using True assms(1) cp
      by (simp add: load_segment_def memcpy_def memset_def Let_def)
  next
    case False
    then have "x - ?v < ?n \<Longrightarrow> x - ?v < ?f" by simp
    with False assms(1) cp show ?thesis by (auto simp: load_segment_def memcpy_def Let_def)
  qed
qed

definition good_header :: "memory \<Rightarrow> u32 \<Rightarrow> bool" where
  "good_header m h \<longleftrightarrow> bytes_at h 4 m = elf_magic \<and> e_type m h = 2 \<and> e_machine m h = 0x28"

lemma elf_load_bad:
  assumes "uart_ready a D" "\<not> good_header (ram s) h"
  shows "\<exists>t. elf_load a D h entry s = Some (0, entry, t) \<and> ram t = ram s"
proof -
  have g: "elf_memcmp h elf_magic (ram s) \<noteq> 0 \<or> e_type (ram s) h \<noteq> 2 \<or> e_machine (ram s) h \<noteq> 0x28"
    using assms(2) by (simp add: good_header_def elf_memcmp_magic)
  obtain t1 where t1: "uart_puts a D (''Not ELF'' @ crlf) s = Some t1" using uart_puts_ready [OF assms(1)] by blast
  obtain t2 where t2: "uart_puts a D (''Bad ELF type'' @ crlf) s = Some t2" using uart_puts_ready [OF assms(1)] by blast
  have "ram t1 = ram s" "ram t2 = ram s" using uart_frame [OF disjI1 [OF t1]] uart_frame [OF disjI1 [OF t2]] by simp_all
  with g t1 t2 show ?thesis unfolding elf_load_def by (cases "elf_memcmp h elf_magic (ram s) = 0")
    (simp_all del: uart_puts.simps elf_memcmp.simps)
qed

lemma elf_load_good:
  assumes "uart_ready a D" "good_header (ram s) h"
  shows "\<exists>t. elf_load a D h entry s = Some (1, e_entry (ram s) h, t) \<and>
    ram t = load_segments h (h + e_phoff (ram s) h) 0 (ram s)"
proof -
  have g: "elf_memcmp h elf_magic (ram s) = 0" "e_type (ram s) h = 2" "e_machine (ram s) h = 0x28"
    using assms(2) by (simp_all add: good_header_def elf_memcmp_magic)
  let ?s = "s\<lparr>ram := load_segments h (h + e_phoff (ram s) h) 0 (ram s)\<rparr>"
  obtain t1 where t1: "uart_puts a D ''ELF loaded, entry='' ?s = Some t1" using uart_puts_ready [OF assms(1)] by blast
  obtain t2 where t2: "uart_hex a D (e_entry (ram s) h) t1 = Some t2" using uart_hex_ready [OF assms(1)] by blast
  obtain t3 where t3: "uart_puts a D crlf t2 = Some t3" using uart_puts_ready [OF assms(1)] by blast
  have "ram t3 = ram ?s"
    using uart_frame [OF disjI1 [OF t1]] uart_frame [OF disjI2 [OF t2]] uart_frame [OF disjI1 [OF t3]] by simp
  with g t1 t2 t3 show ?thesis unfolding elf_load_def by (simp del: uart_puts.simps elf_memcmp.simps)
qed

text \<open>An image with one segment, which does not overwrite the header's segment count.\<close>

lemma load_segments_one:
  assumes "e_phnum m h = 1" "e_phnum (load_segment h (read_phdr m p) m) h = 1"
  shows "load_segments h p 0 m = load_segment h (read_phdr m p) m"
  using assms by (simp add: load_segments.simps [of h p 0 m] load_segments.simps [of h p "Suc 0"])

section \<open>Walking the memory map\<close>

text \<open>The addresses of the entries the walk visits, and what it prints for them.\<close>

fun mmap_chain :: "memory \<Rightarrow> u32 \<Rightarrow> u32 \<Rightarrow> u32 list \<Rightarrow> bool" where
  "mmap_chain m p e [] = (\<not> p < e)"
| "mmap_chain m p e (q # ps) = (q = p \<and> p < e \<and> mmap_chain m (p + mmap_size m p + 4) e ps)"

definition mmap_line :: "memory \<Rightarrow> u32 \<Rightarrow> string" where
  "mmap_line m p = (if mmap_type m p = 1 then
     ''0x'' @ hex_digits (ucast (mmap_base m p)) @ ''-'' @
     ''0x'' @ hex_digits (ucast (mmap_base m p + mmap_length m p)) @ ''  '' @
     ''0x'' @ hex_digits (ucast (mmap_length m p)) @ '' bytes'' @ crlf else [])"

lemma mmap_entry_out:
  assumes "uart_ready a D"
  shows "\<exists>t. (if mmap_type m p = 1 then do {
                s \<leftarrow> uart_hex a D (ucast (mmap_base m p)) s;
                s \<leftarrow> uart_puts a D ''-'' s;
                s \<leftarrow> uart_hex a D (ucast (mmap_base m p + mmap_length m p)) s;
                s \<leftarrow> uart_puts a D ''  '' s;
                s \<leftarrow> uart_hex a D (ucast (mmap_length m p)) s;
                uart_puts a D ('' bytes'' @ crlf) s }
              else Some s) = Some t \<and> uart_out a t = uart_out a s @ text_out (mmap_line m p)"
proof (cases "mmap_type m p = 1")
  case True
  note hex = uart_hex_out [OF assms] and puts = uart_puts_out [OF assms]
  obtain t1 where t1: "uart_hex a D (ucast (mmap_base m p)) s = Some t1"
    "uart_out a t1 = uart_out a s @ text_out (''0x'' @ hex_digits (ucast (mmap_base m p)))" using hex by blast
  obtain t2 where t2: "uart_puts a D ''-'' t1 = Some t2" "uart_out a t2 = uart_out a t1 @ text_out ''-''"
    using puts [of "''-''" t1] by auto
  obtain t3 where t3: "uart_hex a D (ucast (mmap_base m p + mmap_length m p)) t2 = Some t3"
    "uart_out a t3 = uart_out a t2 @ text_out (''0x'' @ hex_digits (ucast (mmap_base m p + mmap_length m p)))"
    using hex by blast
  obtain t4 where t4: "uart_puts a D ''  '' t3 = Some t4" "uart_out a t4 = uart_out a t3 @ text_out ''  ''"
    using puts [of "''  ''" t3] by auto
  obtain t5 where t5: "uart_hex a D (ucast (mmap_length m p)) t4 = Some t5"
    "uart_out a t5 = uart_out a t4 @ text_out (''0x'' @ hex_digits (ucast (mmap_length m p)))" using hex by blast
  have nn: "CHR 0x00 \<notin> set ('' bytes'' @ crlf)" by (simp add: crlf_def)
  obtain t6 where t6: "uart_puts a D ('' bytes'' @ crlf) t5 = Some t6" "uart_out a t6 = uart_out a t5 @ text_out ('' bytes'' @ crlf)"
    using puts [OF nn, of t5] by blast
  show ?thesis
    using True t1(1) t2(1) t3(1) t4(1) t5(1) t6(1)
    by (simp add: t6(2) t5(2) t4(2) t3(2) t2(2) t1(2) mmap_line_def del: uart_puts.simps)
next
  case False
  then show ?thesis by (simp add: mmap_line_def)
qed

lemma mmap_walk_out:
  assumes "uart_ready a D"
  shows "mmap_chain m p e ps \<Longrightarrow> \<exists>t. mmap_walk a D m p e s = Some t \<and>
    uart_out a t = uart_out a s @ text_out (concat (map (mmap_line m) ps))"
proof (induction ps arbitrary: p s)
  case Nil
  then show ?case by (subst mmap_walk.simps) simp
next
  case (Cons q ps)
  then have q: "q = p" "p < e" "mmap_chain m (p + mmap_size m p + 4) e ps" by simp_all
  obtain u where u: "(if mmap_type m p = 1 then do {
                s \<leftarrow> uart_hex a D (ucast (mmap_base m p)) s;
                s \<leftarrow> uart_puts a D ''-'' s;
                s \<leftarrow> uart_hex a D (ucast (mmap_base m p + mmap_length m p)) s;
                s \<leftarrow> uart_puts a D ''  '' s;
                s \<leftarrow> uart_hex a D (ucast (mmap_length m p)) s;
                uart_puts a D ('' bytes'' @ crlf) s }
              else Some s) = Some u" "uart_out a u = uart_out a s @ text_out (mmap_line m p)"
    using mmap_entry_out [OF assms] by blast
  have "mmap_walk a D m p e s = mmap_walk a D m (p + mmap_size m p + 4) e u"
    unfolding mmap_walk.simps [of a D m p e s] u(1) using q(2) by simp
  with Cons.IH [OF q(3), of u] u(2) q(1) show ?case by auto
qed

section \<open>Properties\<close>

text \<open>With a ready transmitter, the walk over a multiboot memory map that ends returns, and prints one line
  with base, end and length for each available region and nothing for the others, in order.\<close>

lemma mmap_walk_prints:
  assumes "uart_ready a D" "mmap_chain m p e ps"
  shows "\<exists>t. mmap_walk a D m p e s = Some t \<and> uart_out a t = uart_out a s @ text_out (concat (map
    (\<lambda>p. if mmap_type m p = 1 then
       ''0x'' @ hex_digits (ucast (mmap_base m p)) @ ''-'' @
       ''0x'' @ hex_digits (ucast (mmap_base m p + mmap_length m p)) @ ''  '' @
       ''0x'' @ hex_digits (ucast (mmap_length m p)) @ '' bytes'' @ crlf else []) ps))"
proof -
  have "mmap_line m = (\<lambda>p. if mmap_type m p = 1 then
       ''0x'' @ hex_digits (ucast (mmap_base m p)) @ ''-'' @
       ''0x'' @ hex_digits (ucast (mmap_base m p + mmap_length m p)) @ ''  '' @
       ''0x'' @ hex_digits (ucast (mmap_length m p)) @ '' bytes'' @ crlf else [])"
    by (simp only: fun_eq_iff mmap_line_def) blast
  with mmap_walk_out [OF assms, of s] show ?thesis by (simp only:)
qed

text \<open>\<open>load_segment\<close> makes the memory image of a loadable segment: the bytes of the file, then zeros up to
  the memory size, and nothing outside; provided the destination does not start inside the
  segment's own bytes in the file.\<close>

lemma load_segment_image:
  assumes "p_type ph = 1" "p_vaddr ph = h + p_offset ph \<or> p_filesz ph \<le> p_vaddr ph - (h + p_offset ph)"
  shows "load_segment h ph m x =
    (if x - p_vaddr ph < p_filesz ph then m (h + p_offset ph + (x - p_vaddr ph))
     else if x - p_vaddr ph < p_memsz ph then 0 else m x)"
  using assms by (rule load_segment_at)

definition text_segment :: phdr where
  "text_segment = \<lparr>p_type = 1, p_offset = 0x1000, p_vaddr = 0x20000000, p_filesz = 0x40, p_memsz = 0x60\<rparr>"

text \<open>\<open>elf_load\<close> accepts exactly the images with the ELF magic, type 2 and machine 0x28. It refuses the
  others without touching memory or the entry point; for an accepted image with one program
  header it reports the header's entry point and leaves the segment loaded.\<close>

lemma elf_load_checks:
  assumes "uart_ready a D"
  shows "(\<not> good_header (ram s) h \<longrightarrow> (\<exists>t. elf_load a D h entry s = Some (0, entry, t) \<and> ram t = ram s)) \<and>
    (good_header (ram s) h \<and> e_phnum (ram s) h = 1 \<and>
       e_phnum (load_segment h (read_phdr (ram s) (h + e_phoff (ram s) h)) (ram s)) h = 1 \<longrightarrow>
     (\<exists>t. elf_load a D h entry s = Some (1, e_entry (ram s) h, t) \<and>
       ram t = load_segment h (read_phdr (ram s) (h + e_phoff (ram s) h)) (ram s)))"
  using elf_load_bad [OF assms, of s h entry] elf_load_good [OF assms, of s h entry]
    load_segments_one [of "ram s" h "h + e_phoff (ram s) h"] by auto

text \<open>After a scan the module table holds the first eight addresses of the scanned flash whose word is
  0x7F454C46. On the little-endian targets the bytes of the ELF magic read as 0x464C457F, so an
  ELF image is never found: if every candidate address holds one, the table stays as it was.\<close>

lemma loader_scan_table:
  assumes "length (modules s) = MAX_MODULES" "module_count s = 0"
  shows "map m_addr (take (unat (module_count (loader_scan s))) (modules (loader_scan s))) =
      take MAX_MODULES (found (ram s)) \<and>
    ((\<forall>addr \<in> set scan_addresses. bytes_at addr 4 (ram s) = [0x7F, 0x45, 0x4C, 0x46]) \<longrightarrow> found (ram s) = [])"
proof -
  have "table_of s = []" using assms(2) by (simp add: table_of_def)
  with scan_fold [of s "''user_task''" scan_addresses] assms
  have "map m_addr (take (unat (module_count (loader_scan s))) (modules (loader_scan s))) =
      take MAX_MODULES (found (ram s))"
    by (simp add: loader_scan_def found_def table_of_def)
  moreover have "found (ram s) = []"
    if "\<forall>addr \<in> set scan_addresses. bytes_at addr 4 (ram s) = [0x7F, 0x45, 0x4C, 0x46]"
    using that elf_bytes_word by (fastforce simp: found_def filter_empty_conv)
  ultimately show ?thesis by blast
qed

definition kernel0 :: kernel where
  "kernel0 = \<lparr>trace = [], pit_ticks = 0, pit_frequency = 0, pit_loops_per_10ms = 0, system_ticks = 0,
     log_block = 1, log_buf = replicate 512 0, log_idx = 0, task_pool = replicate 32 task0,
     current_task = None, next_pid = 1, sched_lock = 0, ram = (\<lambda>_. 0), switches = [],
     modules = replicate 8 \<lparr>m_addr = 0, m_size = 0, m_name = []\<rparr>, module_count = 0\<rparr>"

text \<open>\<open>kernel_main\<close> prints its banner with the conversions \<open>%-12s\<close> as they stand, because \<open>kprintf\<close> knows no
  field widths; the two \<open>%s\<close> of the build line then print the architecture and the MCU instead of
  date and time.\<close>

lemma banner_text:
  "kprintf_chars banner [KStr arch, KStr mcu, KStr boot, KStr dat, KStr tim] = Some (
     ''BLOOD_KERNEL v1.20 universal main'' @ crlf @ ''Arch: %-12s  MCU: %-12s'' @ crlf @
     ''Boot: %-12s  Date: 2025-08-14'' @ crlf @ ''Build: '' @ until_nul arch @ '' '' @ until_nul mcu @ crlf @
     ''-------------------------------------------'' @ crlf)"
  by (simp add: banner_def crlf_def)

end
