(* ===== verification/Boot.thy ===== *)
theory Boot
  imports Loader
begin

text \<open>
  The whole of \<open>kernel_main\<close>, put together from the components it calls: what it leaves of the three tasks it creates.
\<close>

section \<open>The boot sequence\<close>

text \<open>The messages stay as they are in this theory.\<close>

declare uart_puts.simps [simp del]

lemma shifts_only: "shifts s bs t \<Longrightarrow> only_trace s t"
  by (auto simp: shifts_def)

lemma sends_only: "sends a s cs t \<Longrightarrow> only_trace s t"
  by (auto simp: sends_def)

lemma sd_wait_ready_only:
  assumes "sd_wait_ready D s = Some t"
  shows "only_trace s t"
proof (rule sd_wait_ready.raw_induct [where P = "\<lambda>D s t. only_trace s t", OF _ assms])
  fix f :: "device \<Rightarrow> 'a machine_scheme \<Rightarrow> 'a machine_scheme option" and D s t
  assume IH: "\<And>D s t. f D s = Some t \<Longrightarrow> only_trace s t"
    and eq: "do { (r, s) \<leftarrow> sd_cmd D 1 0 s; if r \<noteq> 0 then f D s else Some s } = Some t"
  then obtain r u where u: "sd_cmd D 1 0 s = Some (r, u)" "(if r \<noteq> 0 then f D u else Some u) = Some t"
    by (auto simp: bind_eq_Some_conv)
  have "only_trace s u" using sd_cmd_shifts [OF u(1)] shifts_only by blast
  moreover have "only_trace u t" using u(2) IH by (auto split: if_splits)
  ultimately show "only_trace s t" by (rule only_trace_trans)
qed

lemma bind_SomeE: "Option.bind m f = Some t \<Longrightarrow> (\<And>x. m = Some x \<Longrightarrow> f x = Some t \<Longrightarrow> P) \<Longrightarrow> P"
  by (cases m) simp_all

lemma sd_init_only:
  assumes "sd_init a D s = Some t"
  shows "only_trace s t"
proof -
  let ?s = "spi_cs_dis D 4 (spi_init D 0 s)"
  from assms obtain u v r where u: "spi_send D (replicate 10 0xFF) ?s = Some u"
    and v: "sd_cmd D 0 0 (spi_cs_en D 4 u) = Some (r, v)"
    and rest: "(if r \<noteq> 0x01 then uart_puts a D (''SD init fail'' @ crlf) v
      else do { s \<leftarrow> sd_wait_ready D v; uart_puts a D (''SD ready'' @ crlf) (spi_cs_dis D 4 s) }) = Some t"
    unfolding sd_init_def Let_def by (elim bind_SomeE) (clarify, blast)
  have "only_trace s (spi_init D 0 s)" by (simp add: spi_init_def Let_def bus)
  moreover have "only_trace (spi_init D 0 s) ?s" by (rule shifts_only [OF shifts_quiet(3)])
  moreover have "only_trace ?s u" using u by (rule shifts_only [OF spi_send_shifts])
  moreover have "only_trace u (spi_cs_en D 4 u)" by (rule shifts_only [OF shifts_quiet(2)])
  moreover have "only_trace (spi_cs_en D 4 u) v" using sd_cmd_shifts [OF v] shifts_only by blast
  moreover have "only_trace v t"
  proof (cases "r \<noteq> 0x01")
    case True
    from rest have "uart_puts a D (''SD init fail'' @ crlf) v = Some t" by (simp only: if_P [OF True])
    then show ?thesis by (rule sends_only [OF uart_puts_sends])
  next
    case False
    from rest obtain w where w: "sd_wait_ready D v = Some w"
      and p: "uart_puts a D (''SD ready'' @ crlf) (spi_cs_dis D 4 w) = Some t"
      unfolding if_not_P [OF False] by (rule bind_SomeE)
    have "only_trace v w" using w by (rule sd_wait_ready_only)
    moreover have "only_trace w (spi_cs_dis D 4 w)" by (rule shifts_only [OF shifts_quiet(3)])
    moreover have "only_trace (spi_cs_dis D 4 w) t" using p by (rule sends_only [OF uart_puts_sends])
    ultimately show ?thesis by (blast intro: only_trace_trans)
  qed
  ultimately show ?thesis by (blast intro: only_trace_trans)
qed

lemma uart_early_init_only: "only_trace s (uart_early_init a D s)"
  by (cases a) (simp_all add: uart_early_init_def uart_write_reg_def Let_def bus)

lemma gpio_init_only: "only_trace s (gpio_init a D s)"
  by (simp add: gpio_init_def bus)

lemma kprintf_only: "kprintf a D fmt args s = Some t \<Longrightarrow> only_trace s t"
  by (auto simp: kprintf_def bind_eq_Some_conv dest: uart_chars_sends sends_only)

lemma loader_scan_none:
  assumes "found (ram s) = []"
  shows "loader_scan s = s"
proof -
  have "fold (\<lambda>addr s. if load32 (ram s) addr = 0x7F454C46 then loader_add_module addr 0x2000 ''user_task'' s else s) as s = s"
    if "\<forall>addr \<in> set as. load32 (ram s) addr \<noteq> 0x7F454C46" for as
    using that by (induction as) auto
  then show ?thesis using assms by (simp add: loader_scan_def found_def filter_empty_conv)
qed

text \<open>\<open>kernel_main\<close> up to the log, and from the creation of the tasks on.\<close>

definition board_up :: "kernel boot_env \<Rightarrow> arch \<Rightarrow> device \<Rightarrow> kernel \<Rightarrow> kernel" where
  "board_up E a D s =
     (let s = uart_early_init a D s;
          s = s\<lparr>trace := clock_init E (trace s)\<rparr>;
          s = gpio_init a D s
      in s\<lparr>trace := ipc_init E (trace s)\<rparr>)"

definition start_tasks :: "kernel boot_env \<Rightarrow> arch \<Rightarrow> device \<Rightarrow> kernel \<Rightarrow> kernel option" where
  "start_tasks E a D s = do {
     s \<leftarrow> sched_init a D s;
     (_, s) \<leftarrow> task_create a (idle_task E) 256 s;
     (_, s) \<leftarrow> task_create a (blink_task E) 256 s;
     (_, s) \<leftarrow> task_create a (log_task E) 512 s;
     sched_start a D s }"

definition banner_args :: "kernel boot_env \<Rightarrow> karg list" where
  "banner_args E = [KStr (arch_name E), KStr (mcu_name E), KStr (boot_name E), KStr (build_date E), KStr (build_time E)]"

lemma kernel_main_parts:
  "kernel_main E a D s = do {
     s \<leftarrow> log_init a D (board_up E a D s);
     s \<leftarrow> kprintf a D banner (banner_args E) s;
     s \<leftarrow> loader_boot a D (run_module E) (loader_scan s);
     start_tasks E a D s }"
  by (simp only: kernel_main_def board_up_def start_tasks_def banner_args_def Let_def)

lemma board_up_only: "only_trace s (board_up E a D s)"
proof -
  let ?s = "uart_early_init a D s"
  have "only_trace s (?s\<lparr>trace := clock_init E (trace ?s)\<rparr>)"
    by (rule only_trace_trans [OF uart_early_init_only only_trace_upd])
  from only_trace_trans [OF only_trace_trans [OF this gpio_init_only] only_trace_upd]
  show ?thesis unfolding board_up_def Let_def .
qed

text \<open>A start from cleared variables, with no module in the flash.\<close>

definition cold :: "kernel \<Rightarrow> bool" where
  "cold s \<longleftrightarrow> log_idx s = 0 \<and> module_count s = 0 \<and> found (ram s) = [] \<and>
     length (task_pool s) = MAX_TASKS \<and> sched_lock s = 0 \<and> current_task s = None \<and> next_pid s = 1"

lemma cold_only_trace: "only_trace s t \<Longrightarrow> cold s \<Longrightarrow> cold t"
  by (auto simp: only_trace_def cold_def)

lemma loader_boot_cold: "cold s \<Longrightarrow> loader_boot a D f (loader_scan s) = Some s"
  by (simp add: cold_def loader_scan_none loader_boot_def loader_boot_from.simps)

lemma log_init_cold:
  assumes "cold s"
  shows "log_init a D s = sd_init a D s"
proof (cases "sd_init a D s")
  case (Some t)
  then have "cold t" using sd_init_only assms cold_only_trace by blast
  with Some show ?thesis by (simp add: log_init_def log_flush_def cold_def)
qed (simp add: log_init_def)

lemma kernel_main_starts:
  assumes "kernel_main E a D s = Some t" "cold s"
  shows "\<exists>u. only_trace s u \<and> start_tasks E a D u = Some t"
proof -
  have c: "cold (board_up E a D s)" using assms(2) board_up_only cold_only_trace by blast
  from assms(1) obtain u v w where u: "sd_init a D (board_up E a D s) = Some u"
    and v: "kprintf a D banner (banner_args E) u = Some v"
    and w: "loader_boot a D (run_module E) (loader_scan v) = Some w" and r: "start_tasks E a D w = Some t"
    unfolding kernel_main_parts log_init_cold [OF c] by (elim bind_SomeE) blast
  have o: "only_trace s v"
    by (rule only_trace_trans [OF only_trace_trans [OF board_up_only sd_init_only [OF u]] kprintf_only [OF v]])
  with assms(2) have "cold v" by (blast intro: cold_only_trace)
  with w have "w = v" by (simp add: loader_boot_cold)
  with r o show ?thesis by blast
qed

lemma sched_start_returns:
  assumes "uart_ready a D"
  shows "\<exists>t. sched_start a D s = Some t"
proof -
  define u where "u = (if current_task s = None then
                (case find (ready s) [0..<MAX_TASKS] of
                   Some i \<Rightarrow> upd_task i (t_state_update (\<lambda>_. 1)) (s\<lparr>current_task := Some i\<rparr>)
                 | None \<Rightarrow> s)
              else s)"
  obtain v where v: "uart_puts a D (''Switching to first task'' @ crlf) u = Some v"
    using uart_puts_ready [OF assms] by blast
  show ?thesis unfolding sched_start_def Let_def u_def [symmetric]
    by (cases "current_task u") (simp_all only: option.case v bind.bind_lunit, blast+)
qed

lemma kernel_main_returns:
  assumes "uart_ready a D" "\<forall>s. sd_init a D s \<noteq> (None :: kernel option)" "cold s"
  shows "\<exists>t. kernel_main E a D s = Some t"
proof -
  have c: "cold (board_up E a D s)" using assms(3) board_up_only cold_only_trace by blast
  obtain u where u: "sd_init a D (board_up E a D s) = Some u" using assms(2) by blast
  obtain cs where "kprintf_chars banner (banner_args E) = Some cs"
    unfolding banner_args_def banner_text by blast
  then obtain v where v: "kprintf a D banner (banner_args E) u = Some v"
    using uart_chars_ready [OF assms(1)] by (fastforce simp: kprintf_def)
  have "cold v" using c sd_init_only [OF u] kprintf_only [OF v] cold_only_trace by blast
  then have "kernel_main E a D s = start_tasks E a D v"
    unfolding kernel_main_parts log_init_cold [OF c] u v bind.bind_lunit by (simp add: loader_boot_cold)
  moreover obtain w where w: "sched_init a D v = Some w"
    using uart_puts_ready [OF assms(1)] unfolding sched_init_def Let_def by blast
  have "sched_inv w" using sched_init_inv [OF w] \<open>cold v\<close> by (simp add: cold_def)
  then obtain r1 x1 where "task_create a (idle_task E) 256 w = Some (r1, x1)" "sched_inv x1"
    using task_create_returns task_create_inv by metis
  moreover obtain r2 x2 where "task_create a (blink_task E) 256 x1 = Some (r2, x2)" "sched_inv x2"
    using task_create_returns task_create_inv \<open>sched_inv x1\<close> by metis
  moreover obtain r3 x3 where "task_create a (log_task E) 512 x2 = Some (r3, x3)"
    using task_create_returns \<open>sched_inv x2\<close> by metis
  moreover obtain t where "sched_start a D x3 = Some t"
    using sched_start_returns [OF assms(1)] by blast
  ultimately show ?thesis using w by (simp add: start_tasks_def)
qed

text \<open>The first task takes slot 0 and so do the others.\<close>

lemma find_first_slot: "P 0 \<Longrightarrow> find P [0..<MAX_TASKS] = Some 0"
  by (simp add: MAX_TASKS_def upt_rec)

lemma task_create_first:
  assumes "sched_inv s" "t_state (task_pool s ! 0) = 0"
  shows "\<exists>t. task_create a e n s = Some (next_pid s, t) \<and> sched_inv t \<and>
    task_pool t = (task_pool s)[0 := created a n s 0] \<and> next_pid t = next_pid s + 1 \<and>
    current_task t = current_task s \<and> switches t = switches s \<and>
    ram t = initial_frame a e (stack_base_of a 0 + n - 32) (store32 (ram s) (stack_base_of a 0) STACK_CANARY)"
  using task_create_some [OF assms(1) find_first_slot [of "\<lambda>i. t_state (task_pool s ! i) = 0", OF assms(2)], of a e n]
    task_create_inv assms(1) by fastforce

lemma start_tasks_one:
  fixes s :: kernel
  assumes "start_tasks E Arm D s = Some t" "length (task_pool s) = MAX_TASKS" "sched_lock s = 0"
    "current_task s = None" "next_pid s = 1"
  shows "current_task t = Some 0 \<and> t_pid (task_pool t ! 0) = 3 \<and> (\<forall>j < MAX_TASKS. j \<noteq> 0 \<longrightarrow> t_pid (task_pool t ! j) = 0) \<and>
    switches t = switches s @ [(None, 0x200101E0)] \<and> load32 (ram t) 0x200101E4 = log_task E"
proof -
  from assms(1) obtain v where v: "sched_init Arm D s = Some v" and r: "do {
      (_, s) \<leftarrow> task_create Arm (idle_task E) 256 v; (_, s) \<leftarrow> task_create Arm (blink_task E) 256 s;
      (_, s) \<leftarrow> task_create Arm (log_task E) 512 s; sched_start Arm D s } = Some t"
    unfolding start_tasks_def by (rule bind_SomeE)
  have inv: "sched_inv v" using sched_init_inv [OF v assms(2-4)] .
  have p: "task_pool v = map (\<lambda>t. t\<lparr>t_state := 0, t_pid := 0\<rparr>) (task_pool s) \<and> next_pid v = 1 \<and>
      current_task v = None \<and> switches v = switches s"
    using v assms(4,5) uart_frame [of Arm D _ _ v] unfolding sched_init_def Let_def by fastforce
  have len: "length (task_pool v) = MAX_TASKS" using inv by (simp add: sched_inv_def pool_inv_def)
  then have "t_state (task_pool v ! 0) = 0" using p assms(2) by (simp add: MAX_TASKS_def)
  then obtain x1 where x1: "task_create Arm (idle_task E) 256 v = Some (next_pid v, x1)" "sched_inv x1"
    "task_pool x1 = (task_pool v)[0 := created Arm 256 v 0]" "next_pid x1 = next_pid v + 1"
    "current_task x1 = current_task v" "switches x1 = switches v"
    using task_create_first [OF inv] by metis
  have "t_state (task_pool x1 ! 0) = 0" using x1(3) len by (simp add: created_def MAX_TASKS_def)
  then obtain x2 where x2: "task_create Arm (blink_task E) 256 x1 = Some (next_pid x1, x2)" "sched_inv x2"
    "task_pool x2 = (task_pool x1)[0 := created Arm 256 x1 0]" "next_pid x2 = next_pid x1 + 1"
    "current_task x2 = current_task x1" "switches x2 = switches x1"
    using task_create_first [OF x1(2)] by metis
  have "t_state (task_pool x2 ! 0) = 0" using x2(3) x1(3) len by (simp add: created_def MAX_TASKS_def)
  then obtain x3 where x3: "task_create Arm (log_task E) 512 x2 = Some (next_pid x2, x3)"
    "task_pool x3 = (task_pool x2)[0 := created Arm 512 x2 0]" "current_task x3 = current_task x2" "switches x3 = switches x2"
    "ram x3 = initial_frame Arm (log_task E) (stack_base_of Arm 0 + 512 - 32) (store32 (ram x2) (stack_base_of Arm 0) STACK_CANARY)"
    using task_create_first [OF x2(2)] by metis
  have pool: "task_pool x3 = (task_pool v)[0 := created Arm 512 x2 0]"
    by (simp add: x3(2) x2(3) x1(3))
  have cr: "t_pid (created Arm 512 x2 0) = 3" "t_state (created Arm 512 x2 0) = 0" "t_sp (created Arm 512 x2 0) = 0x200101E0"
    using x2(4) x1(4) p by (simp_all add: created_def stack_base_of_def)
  have "ready x3 0" using len cr by (simp add: ready_def pool MAX_TASKS_def)
  then have f: "find (ready x3) [0..<MAX_TASKS] = Some 0" by (rule find_first_slot)
  have s: "sched_start Arm D x3 = Some t" using r by (simp add: x1(1) x2(1) x3(1))
  let ?u = "upd_task 0 (t_state_update (\<lambda>_. 1)) (x3\<lparr>current_task := Some 0\<rparr>)"
  have "current_task x3 = None" using x3(3) x2(5) x1(5) p by simp
  then obtain w where w: "uart_puts Arm D (''Switching to first task'' @ crlf) ?u = Some w"
    and t: "t = context_switch None (t_sp (task_pool w ! 0)) w"
    using s unfolding sched_start_def Let_def by (simp add: f) (elim bind_SomeE, simp)
  have fr: "task_pool w = task_pool ?u" "current_task w = Some 0" "ram w = ram x3" "switches w = switches x3"
    using uart_frame [OF disjI1 [OF w]] by simp_all
  have q: "task_pool ?u ! j = (if j = 0 then (created Arm 512 x2 0)\<lparr>t_state := 1\<rparr> else (task_pool s ! j)\<lparr>t_state := 0, t_pid := 0\<rparr>)"
    if "j < MAX_TASKS" for j
    using that len p assms(2) by (simp add: pool MAX_TASKS_def)
  have "load32 (ram x3) 0x200101E4 = log_task E"
    by (simp add: x3(5) initial_frame_def stack_base_of_def load32_store32_apart apart32_def)
  then show ?thesis
    using q cr x3(4) x2(6) x1(6) p by (simp add: t context_switch_def fr MAX_TASKS_def)
qed

section \<open>The property\<close>


text \<open>A board without a card: the bus reads as ones, and the initialisation gives up.\<close>

definition no_card :: device where
  "no_card t p = (if p = SPI1_SR then 3 else NOT 0)"

lemma no_card_response: "\<exists>t. sd_response no_card n s = Some (0xFF, t)"
proof (induction n arbitrary: s)
  case (Suc n)
  have "spi_ready no_card" by (simp add: spi_ready_def no_card_def)
  from spi_xfer_ready [OF this] obtain tr t where "spi_xfer no_card 0xFF s = Some (ucast (no_card tr SPI1_DR), t)" by blast
  moreover have "ucast (no_card tr SPI1_DR) = (0xFF :: u8)" by (simp add: no_card_def SPI1_DR_def SPI1_SR_def) code_simp
  ultimately show ?case using Suc.IH [of t] by simp
qed simp

lemma no_card_init: "\<exists>t. sd_init Arm no_card s = Some t"
proof -
  have r: "spi_ready no_card" "uart_ready Arm no_card"
    by (simp_all add: spi_ready_def uart_ready_def no_card_def uart_status_port_def SPI1_SR_def SPI1_BASE_def USART1_BASE_def)
  obtain u where u: "spi_send no_card (replicate 10 0xFF) (spi_cs_dis no_card 4 (spi_init no_card 0 s)) = Some u"
    using spi_send_ready [OF r(1)] by blast
  obtain w where w: "spi_send no_card (sd_frame 0 0) (spi_cs_en no_card 4 u) = Some w"
    using spi_send_ready [OF r(1)] by blast
  obtain v where v: "sd_cmd no_card 0 0 (spi_cs_en no_card 4 u) = Some (0xFF, v)"
    using no_card_response [of 8 w] w by (auto simp: sd_cmd_def)
  obtain t where "uart_puts Arm no_card (''SD init fail'' @ crlf) v = Some t" using uart_puts_ready [OF r(2)] by blast
  then have "sd_init Arm no_card s = Some t"
    unfolding sd_init_def Let_def u bind.bind_lunit v prod.case by simp
  then show ?thesis by blast
qed


end
