(* ===== verification/Pic.thy ===== *)
theory Pic
  imports Blood_Prelude
begin

text \<open>
  \<open>src/drivers/pic.c\<close>: the two 8259A interrupt controllers of the PC. The driver keeps a shadow of
  the sixteen mask bits; the invariant is that the mask registers hold it.
\<close>

record pic = machine +
  pic_irq_mask :: u16

definition PIC1_COMMAND :: u16 where "PIC1_COMMAND = 0x20"
definition PIC1_DATA :: u16 where "PIC1_DATA = 0x21"
definition PIC2_COMMAND :: u16 where "PIC2_COMMAND = 0xA0"
definition PIC2_DATA :: u16 where "PIC2_DATA = 0xA1"
definition PIC_EOI :: u8 where "PIC_EOI = 0x20"

lemmas pic_ports = PIC1_COMMAND_def PIC1_DATA_def PIC2_COMMAND_def PIC2_DATA_def PIC_EOI_def

definition io_wait :: "'a machine_scheme \<Rightarrow> 'a machine_scheme" where
  "io_wait s = outb 0x80 0 s"

text \<open>The initialization words, with the two vector offsets.\<close>

definition pic_remap :: "u8 \<Rightarrow> u8 \<Rightarrow> 'a machine_scheme \<Rightarrow> 'a machine_scheme" where
  "pic_remap offset1 offset2 s =
     (let s = io_wait (outb PIC1_COMMAND (0x10 OR 0x01) s);
          s = io_wait (outb PIC2_COMMAND (0x10 OR 0x01) s);
          s = io_wait (outb PIC1_DATA offset1 s);
          s = io_wait (outb PIC2_DATA offset2 s);
          s = io_wait (outb PIC1_DATA 4 s);
          s = io_wait (outb PIC2_DATA 2 s);
          s = io_wait (outb PIC1_DATA 0x01 s)
      in io_wait (outb PIC2_DATA 0x01 s))"

definition pic_init :: "device \<Rightarrow> 'a machine_scheme \<Rightarrow> 'a machine_scheme" where
  "pic_init D s =
     (let (mask1, s) = inb D PIC1_DATA s;
          (mask2, s) = inb D PIC2_DATA s;
          s = pic_remap 0x20 0x28 s;
          s = outb PIC1_DATA mask1 s
      in outb PIC2_DATA mask2 s)"

definition irq_bit :: "u8 \<Rightarrow> u16" where
  "irq_bit irq = push_bit (unat irq) 1"

definition pic_enable_irq :: "u8 \<Rightarrow> 'a pic_scheme \<Rightarrow> 'a pic_scheme" where
  "pic_enable_irq irq s =
     (if irq \<ge> 16 then s
      else
        (let s = s\<lparr>pic_irq_mask := pic_irq_mask s AND NOT (irq_bit irq)\<rparr>
         in if irq < 8 then outb PIC1_DATA (ucast (pic_irq_mask s AND 0xFF)) s
            else
              (let s = outb PIC2_DATA (ucast (drop_bit 8 (pic_irq_mask s) AND 0xFF)) s;
                   s = s\<lparr>pic_irq_mask := pic_irq_mask s AND NOT (push_bit 2 1)\<rparr>
               in outb PIC1_DATA (ucast (pic_irq_mask s AND 0xFF)) s)))"

definition pic_disable_irq :: "u8 \<Rightarrow> 'a pic_scheme \<Rightarrow> 'a pic_scheme" where
  "pic_disable_irq irq s =
     (if irq \<ge> 16 then s
      else
        (let s = s\<lparr>pic_irq_mask := pic_irq_mask s OR irq_bit irq\<rparr>
         in if irq < 8 then outb PIC1_DATA (ucast (pic_irq_mask s AND 0xFF)) s
            else outb PIC2_DATA (ucast (drop_bit 8 (pic_irq_mask s) AND 0xFF)) s))"

definition pic_send_eoi :: "u8 \<Rightarrow> 'a machine_scheme \<Rightarrow> 'a machine_scheme" where
  "pic_send_eoi irq s =
     (let s = (if irq \<ge> 8 then outb PIC2_COMMAND PIC_EOI s else s) in outb PIC1_COMMAND PIC_EOI s)"

text \<open>Both register reads; C leaves the order of the two \<open>inb\<close> open, the left one goes first here.\<close>

definition pic_read_regs :: "device \<Rightarrow> u8 \<Rightarrow> 'a machine_scheme \<Rightarrow> u16 \<times> 'a machine_scheme" where
  "pic_read_regs D ocw3 s =
     (let s = outb PIC1_COMMAND ocw3 s;
          s = outb PIC2_COMMAND ocw3 s;
          (hi, s) = inb D PIC2_COMMAND s;
          (lo, s) = inb D PIC1_COMMAND s
      in (push_bit 8 (ucast hi) OR ucast lo, s))"

definition pic_get_irr :: "device \<Rightarrow> 'a machine_scheme \<Rightarrow> u16 \<times> 'a machine_scheme" where
  "pic_get_irr D s = pic_read_regs D 0x0A s"

definition pic_get_isr :: "device \<Rightarrow> 'a machine_scheme \<Rightarrow> u16 \<times> 'a machine_scheme" where
  "pic_get_isr D s = pic_read_regs D 0x0B s"

definition pic_mask_all :: "'a pic_scheme \<Rightarrow> 'a pic_scheme" where
  "pic_mask_all s =
     (let s = outb PIC1_DATA 0xFF s; s = outb PIC2_DATA 0xFF s in s\<lparr>pic_irq_mask := 0xFFFF\<rparr>)"

definition pic_unmask_all :: "'a pic_scheme \<Rightarrow> 'a pic_scheme" where
  "pic_unmask_all s =
     (let s = outb PIC1_DATA 0x00 s; s = outb PIC2_DATA 0x00 s in s\<lparr>pic_irq_mask := 0x0000\<rparr>)"

definition pic_is_spurious_irq :: "device \<Rightarrow> u8 \<Rightarrow> 'a machine_scheme \<Rightarrow> u8 \<times> 'a machine_scheme" where
  "pic_is_spurious_irq D irq s =
     (if irq = 7 then
        (let s = outb PIC1_COMMAND 0x0B s; (isr, s) = inb D PIC1_COMMAND s
         in (c_bool (isr AND 0x80 = 0), s))
      else if irq = 15 then
        (let s = outb PIC2_COMMAND 0x0B s; (isr, s) = inb D PIC2_COMMAND s
         in if isr AND 0x80 = 0 then (1, outb PIC1_COMMAND PIC_EOI s) else (0, s))
      else (0, s))"

definition pic_set_priority :: "u8 \<Rightarrow> 'a machine_scheme \<Rightarrow> 'a machine_scheme" where
  "pic_set_priority irq s =
     (if irq \<ge> 16 then s
      else if irq < 8 then outb PIC1_COMMAND (0xC0 OR (irq AND 7)) s
      else outb PIC2_COMMAND (0xC0 OR ((irq - 8) AND 7)) s)"

definition pic_get_mask :: "'a pic_scheme \<Rightarrow> u16" where
  "pic_get_mask s = pic_irq_mask s"

definition pic_set_mask :: "u16 \<Rightarrow> 'a pic_scheme \<Rightarrow> 'a pic_scheme" where
  "pic_set_mask m s =
     (let s = s\<lparr>pic_irq_mask := m\<rparr>;
          s = outb PIC1_DATA (ucast (m AND 0xFF)) s
      in outb PIC2_DATA (ucast (drop_bit 8 m AND 0xFF)) s)"

definition pic_disable :: "'a pic_scheme \<Rightarrow> 'a pic_scheme" where
  "pic_disable s =
     (let s = pic_mask_all s;
          s = pic_remap 0xF0 0xF8 s;
          s = outb PIC1_DATA 0xFF s
      in outb PIC2_DATA 0xFF s)"

definition irq_names :: "string list" where
  "irq_names = [''Timer'', ''Keyboard'', ''Cascade'', ''COM2'', ''COM1'', ''LPT2'', ''Floppy'', ''LPT1'', ''RTC'',
     ''Free'', ''Free'', ''Free'', ''PS/2 Mouse'', ''FPU'', ''Primary ATA'', ''Secondary ATA'']"

definition pic_get_irq_name :: "u8 \<Rightarrow> string" where
  "pic_get_irq_name irq = (if irq < 16 then irq_names ! unat irq else ''Unknown'')"

section \<open>The controller\<close>

text \<open>The documented behaviour of an 8259A, as far as its mask goes. A write to the command port with bit 4 set starts the
  initialization: it clears the mask register, and the words it announces (the second, the third unless bit 1 says that
  there is one controller only, the fourth if bit 0 asks for it) are the next writes to the data port. Every other write to
  the data port sets the mask register, which reading this port returns. The state is the number of words to come
  and the mask.\<close>

definition chip_event :: "u16 \<Rightarrow> u16 \<Rightarrow> access \<Rightarrow> nat \<times> u8 \<Rightarrow> nat \<times> u8" where
  "chip_event cmd data e st =
     (case e of
        Wr p v \<Rightarrow>
          if p = Port8 cmd \<and> bit v 4 then (1 + (if bit v 1 then 0 else 1) + (if bit v 0 then 1 else 0), 0)
          else if p = Port8 data then (if fst st = 0 then (0, ucast v) else (fst st - 1, snd st))
          else st
      | _ \<Rightarrow> st)"

definition chip :: "u16 \<Rightarrow> u16 \<Rightarrow> u8 \<Rightarrow> trace \<Rightarrow> nat \<times> u8" where
  "chip cmd data m0 tr = fold (chip_event cmd data) tr (0, m0)"

definition is_8259 :: "device \<Rightarrow> u8 \<Rightarrow> u8 \<Rightarrow> bool" where
  "is_8259 D m1 m2 \<longleftrightarrow> (\<forall>tr. D tr (Port8 PIC1_DATA) = ucast (snd (chip PIC1_COMMAND PIC1_DATA m1 tr)) \<and>
     D tr (Port8 PIC2_DATA) = ucast (snd (chip PIC2_COMMAND PIC2_DATA m2 tr)))"

lemma chip_append: "chip cmd data m0 (t @ u) = fold (chip_event cmd data) u (chip cmd data m0 t)"
  by (simp add: chip_def)

text \<open>Both controllers, for the masks \<open>m = (m1, m2)\<close> they had when the kernel was started.\<close>

definition chips :: "u8 \<times> u8 \<Rightarrow> 'a machine_scheme \<Rightarrow> (nat \<times> u8) \<times> (nat \<times> u8)" where
  "chips m s = (chip PIC1_COMMAND PIC1_DATA (fst m) (trace s), chip PIC2_COMMAND PIC2_DATA (snd m) (trace s))"

text \<open>No initialization is under way.\<close>

definition idle :: "u8 \<times> u8 \<Rightarrow> 'a machine_scheme \<Rightarrow> bool" where
  "idle m s \<longleftrightarrow> fst (fst (chips m s)) = 0 \<and> fst (snd (chips m s)) = 0"

definition masks :: "u8 \<times> u8 \<Rightarrow> 'a machine_scheme \<Rightarrow> u8 \<times> u8" where
  "masks m s = (snd (fst (chips m s)), snd (snd (chips m s)))"

lemma chips_outb:
  "chips m (outb p v s) =
     (chip_event PIC1_COMMAND PIC1_DATA (Wr (Port8 p) (ucast v)) (fst (chips m s)),
      chip_event PIC2_COMMAND PIC2_DATA (Wr (Port8 p) (ucast v)) (snd (chips m s)))"
  by (simp add: chips_def bus chip_append)

lemma chips_inb [simp]: "chips m (snd (inb D p s)) = chips m s"
  by (simp add: chips_def bus chip_append chip_event_def)

lemma chips_shadow [simp]: "chips m (s\<lparr>pic_irq_mask := x\<rparr>) = chips m s"
  by (simp add: chips_def)

lemma shadow_bus [simp]: "pic_irq_mask (outb p v s) = pic_irq_mask s" "pic_irq_mask (snd (inb D p s)) = pic_irq_mask s"
  by (simp_all add: bus)

lemma shadow_trace [simp]: "(outb p v s)\<lparr>pic_irq_mask := m\<rparr> = outb p v (s\<lparr>pic_irq_mask := m\<rparr>)"
  by (simp add: bus)

text \<open>What the operations do to controllers that are idle.\<close>

lemma idle_chips: "idle m s \<Longrightarrow> chips m s = ((0, fst (masks m s)), (0, snd (masks m s)))"
  by (cases "chips m s") (auto simp: idle_def masks_def)

lemma chips_idle: "chips m s = ((0, a), (0, b)) \<Longrightarrow> idle m s \<and> masks m s = (a, b)"
  by (simp add: idle_def masks_def)

lemma bit_ucast_u8: "bit (ucast (v :: u8) :: u64) n = bit v n"
  by (auto simp: bit_simps dest: bit_imp_le_length)

definition icw1 :: "u8 \<Rightarrow> nat \<times> u8 \<Rightarrow> nat \<times> u8" where
  "icw1 v st = (if bit v 4 then (1 + (if bit v 1 then 0 else 1) + (if bit v 0 then 1 else 0), 0) else st)"

definition data_word :: "u8 \<Rightarrow> nat \<times> u8 \<Rightarrow> nat \<times> u8" where
  "data_word v st = (if fst st = 0 then (0, v) else (fst st - 1, snd st))"

lemma chips_out:
  "chips m (outb PIC1_COMMAND v s) = (icw1 v (fst (chips m s)), snd (chips m s))"
  "chips m (outb PIC2_COMMAND v s) = (fst (chips m s), icw1 v (snd (chips m s)))"
  "chips m (outb PIC1_DATA v s) = (data_word v (fst (chips m s)), snd (chips m s))"
  "chips m (outb PIC2_DATA v s) = (fst (chips m s), data_word v (snd (chips m s)))"
  "chips m (outb 0x80 v s) = chips m s"
  by (simp_all add: chips_outb chip_event_def bit_ucast_u8 icw1_def data_word_def ucast_up_ucast_id is_up)
    (simp_all add: pic_ports)

lemma idle_data:
  assumes "idle m s"
  shows "chips m (outb PIC1_DATA v s) = ((0, v), (0, snd (masks m s)))"
    "chips m (outb PIC2_DATA v s) = ((0, fst (masks m s)), (0, v))"
  using idle_chips [OF assms] by (simp_all add: chips_out data_word_def)

lemma idle_command:
  assumes "idle m s" "\<not> bit v 4"
  shows "chips m (outb PIC1_COMMAND v s) = chips m s" "chips m (outb PIC2_COMMAND v s) = chips m s"
  using idle_chips [OF assms(1)] assms(2) by (simp_all add: chips_out icw1_def)

lemma chips_remap: "chips m (pic_remap a b s) = ((0, 0), (0, 0))"
  by (simp add: pic_remap_def io_wait_def Let_def chips_out icw1_def data_word_def)

section \<open>The shadow and the registers\<close>

text \<open>The mask registers hold the two halves of the shadow.\<close>

definition halves :: "u16 \<Rightarrow> u8 \<times> u8" where
  "halves x = (ucast (x AND 0xFF), ucast (drop_bit 8 x AND 0xFF))"

definition pic_synced :: "u8 \<times> u8 \<Rightarrow> 'a pic_scheme \<Rightarrow> bool" where
  "pic_synced m s \<longleftrightarrow> idle m s \<and> masks m s = halves (pic_irq_mask s)"

lemma pic_synced_chips:
  "pic_synced m s \<longleftrightarrow> chips m s = ((0, fst (halves (pic_irq_mask s))), (0, snd (halves (pic_irq_mask s))))"
  by (cases "chips m s"; cases "halves (pic_irq_mask s)") (auto simp: pic_synced_def idle_def masks_def)

lemma shadow_halves:
  "n < 8 \<Longrightarrow> drop_bit 8 (m AND NOT (push_bit n 1)) AND 0xFF = drop_bit 8 (m :: u16) AND 0xFF"
  "n < 8 \<Longrightarrow> drop_bit 8 (m OR push_bit n 1) AND 0xFF = drop_bit 8 m AND 0xFF"
  "8 \<le> n \<Longrightarrow> (m OR push_bit n 1) AND 0xFF = m AND 0xFF"
  by (rule bit_word_eqI, auto simp: and_masks bit_simps)+

lemma pic_enable_synced:
  assumes "pic_synced m s"
  shows "pic_synced m (pic_enable_irq irq s)"
proof (cases "irq < 8")
  case True
  then have n: "unat irq < 8" "\<not> 16 \<le> irq" by (simp_all add: word_less_nat_alt word_le_nat_alt)
  let ?s = "s\<lparr>pic_irq_mask := pic_irq_mask s AND NOT (irq_bit irq)\<rparr>"
  have "idle m ?s" "snd (masks m ?s) = snd (halves (pic_irq_mask s))"
    using assms by (simp_all add: pic_synced_def idle_def masks_def)
  then show ?thesis using True n idle_data(1) [of m ?s] shadow_halves(1) [OF n(1), of "pic_irq_mask s"]
    by (simp add: pic_synced_chips pic_enable_irq_def Let_def halves_def irq_bit_def del: push_bit_of_1)
next
  case False
  show ?thesis
  proof (cases "16 \<le> irq")
    case True
    then show ?thesis using assms by (simp add: pic_enable_irq_def)
  next
    case in16: False
    let ?x = "pic_irq_mask s AND NOT (irq_bit irq)"
    let ?s = "s\<lparr>pic_irq_mask := ?x AND NOT (push_bit 2 1)\<rparr>"
    let ?t = "outb PIC2_DATA (ucast (drop_bit 8 ?x AND 0xFF)) ?s"
    have i: "idle m ?s" using assms by (simp add: pic_synced_def idle_def)
    have "idle m ?t \<and> snd (masks m ?t) = ucast (drop_bit 8 ?x AND 0xFF)"
      using chips_idle [OF idle_data(2) [OF i]] by simp
    then show ?thesis using False in16 idle_data(1) [of m ?t] shadow_halves(1) [of 2 ?x]
      by (simp add: pic_synced_chips pic_enable_irq_def Let_def halves_def del: push_bit_of_1)
  qed
qed

lemma pic_disable_irq_synced:
  assumes "pic_synced m s"
  shows "pic_synced m (pic_disable_irq irq s)"
proof -
  let ?s = "s\<lparr>pic_irq_mask := pic_irq_mask s OR irq_bit irq\<rparr>"
  have i: "idle m ?s" "masks m ?s = halves (pic_irq_mask s)" using assms by (simp_all add: pic_synced_def idle_def masks_def)
  consider "16 \<le> irq" | "irq < 8" "unat irq < 8" "\<not> 16 \<le> irq" | "\<not> irq < 8" "8 \<le> unat irq" "\<not> 16 \<le> irq"
    by (cases "irq < 8"; cases "16 \<le> irq") (auto simp: word_less_nat_alt word_le_nat_alt)
  then show ?thesis
  proof cases
    case 1
    then show ?thesis using assms by (simp add: pic_disable_irq_def)
  next
    case 2
    then show ?thesis using idle_data(1) [OF i(1)] i(2) shadow_halves(2) [OF 2(2), of "pic_irq_mask s"]
      by (simp add: pic_synced_chips pic_disable_irq_def Let_def halves_def irq_bit_def del: push_bit_of_1)
  next
    case 3
    then show ?thesis using idle_data(2) [OF i(1)] i(2) shadow_halves(3) [OF 3(2), of "pic_irq_mask s"]
      by (simp add: pic_synced_chips pic_disable_irq_def Let_def halves_def irq_bit_def del: push_bit_of_1)
  qed
qed

lemma pic_masks_synced:
  assumes "idle m s"
  shows "pic_synced m (pic_mask_all s)" "pic_synced m (pic_unmask_all s)" "pic_synced m (pic_set_mask x s)"
  using idle_chips [OF assms]
  by (simp_all add: pic_synced_chips pic_mask_all_def pic_unmask_all_def pic_set_mask_def Let_def chips_out data_word_def
      halves_def)

lemma pic_disable_synced: "pic_synced m (pic_disable s)"
  by (simp add: pic_synced_chips pic_disable_def Let_def pic_mask_all_def chips_out chips_remap data_word_def halves_def)
    (simp add: pic_remap_def io_wait_def Let_def)

text \<open>The operations that only send commands.\<close>

lemma command_bits:
  "\<not> bit PIC_EOI 4" "\<not> bit (0x0A :: u8) 4" "\<not> bit (0x0B :: u8) 4" "\<not> bit (0xC0 OR (irq AND 7) :: u8) 4"
proof -
  have "(7 :: u8) = mask 3" by (simp add: mask_eq_exp_minus_1)
  then show "\<not> bit (0xC0 OR (irq AND 7) :: u8) 4" by (simp add: bit_simps)
qed (simp_all add: PIC_EOI_def)

lemma pic_commands_chips:
  "chips m (pic_send_eoi irq s) = chips m s" "chips m (pic_set_priority irq s) = chips m s"
  "chips m (snd (pic_get_irr D s)) = chips m s" "chips m (snd (pic_get_isr D s)) = chips m s"
  "chips m (snd (pic_is_spurious_irq D irq s)) = chips m s"
  by (simp_all add: pic_send_eoi_def pic_set_priority_def pic_get_irr_def pic_get_isr_def pic_read_regs_def
      pic_is_spurious_irq_def Let_def split_beta chips_out icw1_def command_bits)

lemma pic_commands_shadow:
  "pic_irq_mask (pic_send_eoi irq s) = pic_irq_mask s" "pic_irq_mask (pic_set_priority irq s) = pic_irq_mask s"
  "pic_irq_mask (snd (pic_get_irr D s)) = pic_irq_mask s" "pic_irq_mask (snd (pic_get_isr D s)) = pic_irq_mask s"
  "pic_irq_mask (snd (pic_is_spurious_irq D irq s)) = pic_irq_mask s" "pic_irq_mask (pic_remap a b s) = pic_irq_mask s"
  by (simp_all add: pic_send_eoi_def pic_set_priority_def pic_get_irr_def pic_get_isr_def pic_read_regs_def
      pic_is_spurious_irq_def pic_remap_def io_wait_def Let_def split_beta)

text \<open>\<open>pic_init\<close> reads the masks, which the initialization clears, and writes them back.\<close>

lemma pic_init_masks:
  assumes "is_8259 D (fst m) (snd m)"
  shows "chips m (pic_init D s) = ((0, fst (masks m s)), (0, snd (masks m s)))"
    and "pic_irq_mask (pic_init D (s :: 'a pic_scheme)) = pic_irq_mask s"
proof -
  have b: "ucast (ucast (x :: u8) :: u64) = x" for x by (simp add: ucast_up_ucast_id is_up)
  have r: "fst (inb D PIC1_DATA u) = fst (masks m u)" "fst (inb D PIC2_DATA u) = snd (masks m u)" for u :: "'b machine_scheme"
    using assms by (simp_all add: is_8259_def inb_def rd_def Let_def masks_def chips_def b)
  have k: "masks m (snd (inb D p u)) = masks m u" for p and u :: "'b machine_scheme" by (simp add: masks_def)
  show "chips m (pic_init D s) = ((0, fst (masks m s)), (0, snd (masks m s)))"
    by (simp add: pic_init_def Let_def split_beta chips_out chips_remap data_word_def r k)
  show "pic_irq_mask (pic_init D (s :: 'a pic_scheme)) = pic_irq_mask s"
    by (simp add: pic_init_def Let_def split_beta pic_commands_shadow)
qed

text \<open>A call of the driver.\<close>

inductive pic_step :: "device \<Rightarrow> pic \<Rightarrow> pic \<Rightarrow> bool" for D :: device where
  "pic_step D s (pic_init D s)"
| "pic_step D s (pic_enable_irq irq s)"
| "pic_step D s (pic_disable_irq irq s)"
| "pic_step D s (pic_send_eoi irq s)"
| "pic_step D s (snd (pic_get_irr D s))"
| "pic_step D s (snd (pic_get_isr D s))"
| "pic_step D s (pic_mask_all s)"
| "pic_step D s (pic_unmask_all s)"
| "pic_step D s (snd (pic_is_spurious_irq D irq s))"
| "pic_step D s (pic_set_priority irq s)"
| "pic_step D s (pic_set_mask x s)"
| "pic_step D s (pic_disable s)"

text \<open>The calls that set all masks at once.\<close>

inductive pic_mask_call :: "pic \<Rightarrow> pic \<Rightarrow> bool" where
  "pic_mask_call s (pic_mask_all s)"
| "pic_mask_call s (pic_unmask_all s)"
| "pic_mask_call s (pic_set_mask x s)"
| "pic_mask_call s (pic_disable s)"

lemma pic_line_idle:
  assumes "idle m s"
  shows "idle m (pic_enable_irq irq s)" "idle m (pic_disable_irq irq s)"
  using idle_chips [OF assms]
  by (simp_all add: idle_def pic_enable_irq_def pic_disable_irq_def Let_def chips_out data_word_def)

lemma pic_step_idle:
  assumes "is_8259 D (fst m) (snd m)" "idle m s" "pic_step D s t"
  shows "idle m t"
proof -
  have i: "idle m (pic_init D u)" for u :: pic using pic_init_masks(1) [OF assms(1), of u] by (simp add: idle_def)
  have c: "idle m (pic_send_eoi irq u) = idle m u" "idle m (pic_set_priority irq u) = idle m u"
    "idle m (snd (pic_get_irr D u)) = idle m u" "idle m (snd (pic_get_isr D u)) = idle m u"
    "idle m (snd (pic_is_spurious_irq D irq u)) = idle m u" for irq u
    by (simp_all add: idle_def pic_commands_chips)
  have s: "idle m u" if "pic_synced m u" for u using that by (simp add: pic_synced_def)
  show ?thesis
    using assms(3,2)
    by induction (simp_all add: i c pic_line_idle s [OF pic_masks_synced(1)] s [OF pic_masks_synced(2)]
        s [OF pic_masks_synced(3)] s [OF pic_disable_synced])
qed

lemma pic_step_synced:
  assumes "is_8259 D (fst m) (snd m)" "pic_synced m s" "pic_step D s t"
  shows "pic_synced m t"
proof -
  have "idle m s" "masks m s = halves (pic_irq_mask s)" using assms(2) by (simp_all add: pic_synced_def)
  with assms(3,1,2) show ?thesis
  proof induction
    case (1 s)
    then show ?case using pic_init_masks [of D m s] by (simp add: pic_synced_chips)
  qed (simp_all add: pic_enable_synced pic_disable_irq_synced pic_masks_synced pic_disable_synced,
       simp_all add: pic_synced_chips pic_commands_chips pic_commands_shadow)
qed

definition pic_boot :: "device \<Rightarrow> u8 \<times> u8 \<Rightarrow> pic \<Rightarrow> bool" where
  "pic_boot D m s \<longleftrightarrow> is_8259 D (fst m) (snd m) \<and> trace s = []"

interpretation pic_run: invariant_system "pic_boot D m" "pic_step D" "\<lambda>s. is_8259 D (fst m) (snd m) \<and> idle m s"
  for D :: device and m :: "u8 \<times> u8"
proof unfold_locales
  show "is_8259 D (fst m) (snd m) \<and> idle m s" if "pic_boot D m s" for s
    using that by (simp add: pic_boot_def idle_def chips_def chip_def)
qed (blast intro: pic_step_idle)

definition pic_set :: "device \<Rightarrow> u8 \<times> u8 \<Rightarrow> pic \<Rightarrow> bool" where
  "pic_set D m t \<longleftrightarrow> (\<exists>b s. pic_boot D m b \<and> (pic_step D)\<^sup>*\<^sup>* b s \<and> pic_mask_call s t)"

interpretation pic: invariant_system "pic_set D m" "pic_step D" "\<lambda>s. is_8259 D (fst m) (snd m) \<and> pic_synced m s"
  for D :: device and m :: "u8 \<times> u8"
proof unfold_locales
  fix t
  assume "pic_set D m t"
  then obtain b s where b: "pic_boot D m b" "(pic_step D)\<^sup>*\<^sup>* b s" "pic_mask_call s t" by (auto simp: pic_set_def)
  then have i: "is_8259 D (fst m) (snd m)" "idle m s" using pic_run.reachable_inv [OF b(1,2)] by simp_all
  from b(3) show "is_8259 D (fst m) (snd m) \<and> pic_synced m t"
    by cases (simp_all add: i pic_masks_synced pic_disable_synced)
qed (blast intro: pic_step_synced)

section \<open>Properties\<close>

text \<open>C12: Let the kernel be started with arbitrary masks in the two controllers. After any sequence of driver calls, one of
  which sets all masks, the mask registers hold what the shadow \<open>pic_irq_mask\<close> says: line \<open>n\<close> is masked in hardware
  exactly if bit \<open>n\<close> of the shadow is set. \<open>pic_init\<close> may be called at any time; before the masks are set
  it leaves those of the start, whatever the shadow says.\<close>

theorem pic_mask_shadow:
  assumes "is_8259 D m1 m2" "trace b = []" "(pic_step D)\<^sup>*\<^sup>* b s" "pic_mask_call s u" "(pic_step D)\<^sup>*\<^sup>* u t" "n < 8"
  shows "bit (snd (chip PIC1_COMMAND PIC1_DATA m1 (trace t))) n = bit (pic_get_mask t) n \<and>
    bit (snd (chip PIC2_COMMAND PIC2_DATA m2 (trace t))) n = bit (pic_get_mask t) (n + 8) \<and>
    snd (chip PIC1_COMMAND PIC1_DATA m1 (trace (pic_init D b))) = m1 \<and>
    snd (chip PIC2_COMMAND PIC2_DATA m2 (trace (pic_init D b))) = m2 \<and> pic_get_mask (pic_init D b) = pic_get_mask b"
proof -
  have "pic_set D (m1, m2) u" using assms(1-4) by (auto simp: pic_set_def pic_boot_def)
  from pic.reachable_inv [OF this assms(5)] have s: "masks (m1, m2) t = halves (pic_irq_mask t)" by (simp add: pic_synced_def)
  have i: "chips (m1, m2) (pic_init D b) = ((0, m1), (0, m2))" "pic_irq_mask (pic_init D b) = pic_irq_mask b"
    using pic_init_masks [of D "(m1, m2)" b] assms(1,2) by (simp_all add: masks_def chips_def chip_def)
  show ?thesis using s i assms(6)
    by (auto simp: masks_def chips_def halves_def pic_get_mask_def and_masks bit_simps add.commute)
qed

definition pic_device :: "u8 \<Rightarrow> u8 \<Rightarrow> device" where
  "pic_device m1 m2 tr p = (if p = Port8 PIC1_DATA then ucast (snd (chip PIC1_COMMAND PIC1_DATA m1 tr))
     else if p = Port8 PIC2_DATA then ucast (snd (chip PIC2_COMMAND PIC2_DATA m2 tr)) else 0)"

text \<open>Controllers with the masks of a PC's firmware: after \<open>pic_init\<close>, \<open>pic_set_mask\<close> and another \<open>pic_init\<close>, enabling
  line 14 opens it and the cascade.\<close>

lemma pic_mask_shadow_witness:
  "\<exists>t. (pic_step (pic_device 0xB8 0x8F))\<^sup>*\<^sup>* \<lparr>trace = [], pic_irq_mask = 0xFFFF\<rparr> t \<and>
    \<not> bit (snd (chip PIC1_COMMAND PIC1_DATA 0xB8 (trace t))) 2 \<and> \<not> bit (snd (chip PIC2_COMMAND PIC2_DATA 0x8F (trace t))) 6"
proof -
  let ?D = "pic_device 0xB8 0x8F" and ?b = "\<lparr>trace = [], pic_irq_mask = 0xFFFF\<rparr>"
  let ?s = "pic_init ?D ?b"
  let ?u = "pic_set_mask 0xFFFF ?s"
  let ?v = "pic_init ?D ?u"
  let ?t = "pic_enable_irq 14 ?v"
  have d: "is_8259 ?D 0xB8 0x8F" by (simp add: is_8259_def pic_device_def PIC1_DATA_def PIC2_DATA_def)
  have s: "(pic_step ?D)\<^sup>*\<^sup>* ?b ?s" by (intro r_into_rtranclp pic_step.intros)
  have u: "pic_mask_call ?s ?u" by (rule pic_mask_call.intros)
  have t: "(pic_step ?D)\<^sup>*\<^sup>* ?u ?t" by (rule rtranclp_trans [of _ _ ?v]; intro r_into_rtranclp pic_step.intros)
  have "pic_irq_mask ?v = 0xFFFF" using pic_init_masks(2) [of ?D "(0xB8, 0x8F)" ?u] d by (simp add: pic_set_mask_def Let_def)
  then have "\<not> bit (pic_get_mask ?t) 2" "\<not> bit (pic_get_mask ?t) 14"
    by (simp_all add: pic_get_mask_def pic_enable_irq_def irq_bit_def Let_def bit_simps)
  moreover have "(pic_step ?D)\<^sup>*\<^sup>* ?b ?t"
    using s t by (meson pic_step.intros(11) r_into_rtranclp rtranclp_trans)
  ultimately show ?thesis
    using pic_mask_shadow [OF d _ s u t, of 2] pic_mask_shadow [OF d _ s u t, of 6] by (intro exI [of _ ?t]) simp
qed

end
