(* ===== verification/Byte_Ring.thy ===== *)
theory Byte_Ring
  imports Ring
begin

text \<open>
  Rings of 256 bytes with byte-sized indices, as \<open>ps2_kbd.c\<close> and \<open>serial.c\<close> keep them: the indices
  wrap by themselves, the ring is empty when they agree, and one slot always stays free.
\<close>

definition byte_items :: "u8 list \<Rightarrow> u8 \<Rightarrow> u8 \<Rightarrow> u8 list" where
  "byte_items b h t = ring_items b (unat t) (unat (h - t))"

lemma byte_items_length: "length (byte_items b h t) \<le> 255"
  using unsigned_less [of "h - t", where ?'a = nat] by (simp add: byte_items_def)

lemma byte_items_empty: "byte_items b h t = [] \<longleftrightarrow> h = t"
  by (simp add: byte_items_def unat_eq_0 flip: length_0_conv)

lemma byte_items_same [simp]: "byte_items b t t = []"
  by (simp add: byte_items_empty)

lemma unat_u8_inc: "unat (x + 1 :: u8) = Suc (unat x) mod 256"
  by (simp add: unat_word_ariths)

lemma u8_offset: "(unat t + unat (h - t)) mod 256 = unat (h :: u8)"
proof -
  have "unat (t + (h - t)) = (unat t + unat (h - t)) mod 256" by (simp only: unat_word_ariths) simp
  then show ?thesis by simp
qed

lemma u8_succ_diff:
  "h + 1 \<noteq> t \<Longrightarrow> unat (h + 1 - t) = Suc (unat (h - t))" "(h + 1 = t) = (unat (h - t) = 255)" for h t :: u8
proof -
  have e: "h + 1 - t = (h - t) + 1" by simp
  have "h + 1 = t \<longleftrightarrow> h - t = - 1"
  proof
    show "h - t = - 1" if "h + 1 = t" using that by auto
    show "h + 1 = t" if "h - t = - 1"
    proof -
      have "h = t - 1" using that by (simp add: diff_eq_eq)
      then show ?thesis by simp
    qed
  qed
  also have "\<dots> \<longleftrightarrow> unat (h - t) = 255"
  proof -
    have "(- 1 :: u8) = 255" by simp
    then have "unat (- 1 :: u8) = 255" by (simp only:) simp
    then show ?thesis by (simp only: word_unat_eq_iff)
  qed
  finally show i: "(h + 1 = t) = (unat (h - t) = 255)" .
  show "unat (h + 1 - t) = Suc (unat (h - t))" if "h + 1 \<noteq> t"
  proof -
    have "unat (h - t) < 256" using unsigned_less [of "h - t", where ?'a = nat] by simp
    then show ?thesis using that i unfolding e by (simp add: unat_u8_inc)
  qed
qed

text \<open>Storing at the head, unless the head would catch up with the tail.\<close>

lemma byte_items_put:
  assumes "length b = 256"
  shows "(if h + 1 \<noteq> t then byte_items (b[unat h := c]) (h + 1) t else byte_items b h t) =
    take 255 (byte_items b h t @ [c])"
proof (cases "h + 1 = t")
  case True
  then have "length (byte_items b h t) = 255" using u8_succ_diff(2) [of h t] by (simp add: byte_items_def)
  with True show ?thesis by simp
next
  case False
  let ?n = "unat (h - t)"
  have "?n < 256" "?n \<noteq> 255" using unsigned_less [of "h - t", where ?'a = nat] False u8_succ_diff(2) [of h t] by auto
  moreover have "ring_items (b[(unat t + ?n) mod 256 := c]) (unat t) (Suc ?n) = byte_items b h t @ [c]"
    using ring_items_put [of ?n b "unat t" c] assms \<open>?n < 256\<close> by (simp add: byte_items_def)
  moreover have "byte_items (b[unat h := c]) (h + 1) t = ring_items (b[unat h := c]) (unat t) (Suc ?n)"
    using u8_succ_diff(1) [OF False] by (simp add: byte_items_def)
  moreover have "length (byte_items b h t) = ?n" by (simp add: byte_items_def)
  ultimately show ?thesis using False by (simp add: u8_offset)
qed

lemma byte_items_get:
  assumes "length b = 256" "h \<noteq> t"
  shows "byte_items b h t = b ! unat t # byte_items b h (t + 1)"
proof -
  let ?n = "unat (h - t)"
  have n: "0 < ?n" using assms(2) by (simp add: unat_gt_0)
  have "h - (t + 1) = (h - t) - 1" by simp
  then have "unat (h - (t + 1)) = ?n - 1"
    using assms(2) by (simp only: unat_minus_one right_minus_eq not_False_eq_True)
  then show ?thesis
    using ring_items_get [OF n, of b "unat t"] assms(1) unsigned_less [of t, where ?'a = nat]
    by (simp add: byte_items_def unat_u8_inc)
qed

end
