(* ===== verification/Ps2_Kbd.thy ===== *)
theory Ps2_Kbd
  imports Byte_Ring
begin

text \<open>
  \<open>src/drivers/ps2_kbd.c\<close>: the PS/2 keyboard controller, the translation of scan codes and the
  buffer of typed characters, a ring of 256 bytes whose head and tail wrap as bytes.
\<close>

definition PS2_DATA_PORT :: u16 where "PS2_DATA_PORT = 0x60"
definition PS2_CMD_PORT :: u16 where "PS2_CMD_PORT = 0x64"

record kbd = machine +
  shift_pressed :: u8
  ctrl_pressed :: u8
  alt_pressed :: u8
  caps_lock :: u8
  kbd_buffer :: "u8 list"
  kbd_head :: u8
  kbd_tail :: u8

section \<open>Tables\<close>

definition scancode_to_ascii :: string where
  "scancode_to_ascii =
     [CHR 0x00, CHR 0x00] @ ''1234567890-='' @ [CHR 0x08, CHR 0x09] @ ''qwertyuiop[]'' @ [CHR 0x0A, CHR 0x00] @
     ''asdfghjkl;'' @ [CHR 0x27] @ ''`'' @ [CHR 0x00, CHR 0x5C] @ ''zxcvbnm,./'' @ [CHR 0x00] @ ''*'' @ [CHR 0x00] @ '' ''"

definition scancode_to_ascii_shift :: string where
  "scancode_to_ascii_shift =
     [CHR 0x00, CHR 0x00] @ ''!@#$%^&*()_+'' @ [CHR 0x08, CHR 0x09] @ ''QWERTYUIOP{}'' @ [CHR 0x0A, CHR 0x00] @
     ''ASDFGHJKL:'' @ [CHR 0x22] @ ''~'' @ [CHR 0x00, CHR 0x7C] @ ''ZXCVBNM<>?'' @ [CHR 0x00] @ ''*'' @ [CHR 0x00] @ '' ''"

lemma tables_length [simp]: "length scancode_to_ascii = 58" "length scancode_to_ascii_shift = 58"
  by (simp_all add: scancode_to_ascii_def scancode_to_ascii_shift_def)

section \<open>The controller\<close>

text \<open>
  \<open>while (timeout-- && !(inb(0x64) & b));\<close> and the value of \<open>timeout\<close> afterwards: the counter is
  decremented once more than it counts rounds, so it ends at \<open>0xFFFFFFFF\<close> if it runs out.
\<close>

fun ps2_wait :: "device \<Rightarrow> u8 \<Rightarrow> nat \<Rightarrow> 'a machine_scheme \<Rightarrow> u32 \<times> 'a machine_scheme" where
  "ps2_wait D b 0 s = (0 - 1, s)"
| "ps2_wait D b (Suc n) s =
     (case inb D PS2_CMD_PORT s of (v, s) \<Rightarrow> if v AND b \<noteq> 0 then (of_nat n, s) else ps2_wait D b n s)"

definition PS2_TIMEOUT :: nat where "PS2_TIMEOUT = 100000"

definition ps2_wait_input :: "device \<Rightarrow> 'a machine_scheme \<Rightarrow> u8 \<times> 'a machine_scheme" where
  "ps2_wait_input D s = (let (timeout, s) = ps2_wait D 0x02 PS2_TIMEOUT s in (c_bool (timeout > 0), s))"

definition ps2_wait_output :: "device \<Rightarrow> 'a machine_scheme \<Rightarrow> u8 \<times> 'a machine_scheme" where
  "ps2_wait_output D s = (let (timeout, s) = ps2_wait D 0x01 PS2_TIMEOUT s in (c_bool (timeout > 0), s))"

definition ps2_send_cmd :: "device \<Rightarrow> u8 \<Rightarrow> 'a machine_scheme \<Rightarrow> 'a machine_scheme" where
  "ps2_send_cmd D cmd s = (let (_, s) = ps2_wait_input D s in outb PS2_CMD_PORT cmd s)"

definition ps2_send_data :: "device \<Rightarrow> u8 \<Rightarrow> 'a machine_scheme \<Rightarrow> 'a machine_scheme" where
  "ps2_send_data D dat s = (let (_, s) = ps2_wait_input D s in outb PS2_DATA_PORT dat s)"

definition ps2_read_data :: "device \<Rightarrow> 'a machine_scheme \<Rightarrow> u8 \<times> 'a machine_scheme" where
  "ps2_read_data D s = (let (_, s) = ps2_wait_output D s in inb D PS2_DATA_PORT s)"

text \<open>The part of the initialization after the keyboard has passed its self-test.\<close>

definition ps2_kbd_configure :: "device \<Rightarrow> u8 \<Rightarrow> 'a machine_scheme \<Rightarrow> 'a machine_scheme" where
  "ps2_kbd_configure D config s =
     (let s = ps2_send_data D 0xF0 s;
          (_, s) = ps2_read_data D s;
          s = ps2_send_data D 0x01 s;
          (_, s) = ps2_read_data D s;
          s = ps2_send_data D 0xF4 s;
          (_, s) = ps2_read_data D s;
          config = config OR 0x01;
          s = ps2_send_cmd D 0x60 s
      in ps2_send_data D config s)"

definition ps2_kbd_init :: "device \<Rightarrow> 'a machine_scheme \<Rightarrow> 'a machine_scheme" where
  "ps2_kbd_init D s =
     (let s = ps2_send_cmd D 0xAD s;
          s = ps2_send_cmd D 0xA7 s;
          (_, s) = inb D PS2_DATA_PORT s;
          s = ps2_send_cmd D 0x20 s;
          (config, s) = ps2_read_data D s;
          config = config AND NOT (0x01 OR 0x02 OR 0x40);
          s = ps2_send_cmd D 0x60 s;
          s = ps2_send_data D config s;
          s = ps2_send_cmd D 0xAA s;
          (r, s) = ps2_read_data D s
      in if r \<noteq> 0x55 then s else
     (let s = ps2_send_cmd D 0xAB s;
          (r, s) = ps2_read_data D s
      in if r \<noteq> 0x00 then s else
     (let s = ps2_send_cmd D 0xAE s;
          s = ps2_send_data D 0xFF s;
          (r, s) = ps2_read_data D s
      in if r \<noteq> 0xFA then s else
     (let (r, s) = ps2_read_data D s
      in if r \<noteq> 0xAA then s else ps2_kbd_configure D config s))))"

definition ps2_kbd_set_leds :: "device \<Rightarrow> u8 \<Rightarrow> 'a machine_scheme \<Rightarrow> 'a machine_scheme" where
  "ps2_kbd_set_leds D leds s =
     (let s = ps2_send_data D 0xED s;
          (_, s) = ps2_read_data D s;
          s = ps2_send_data D (leds AND 0x07) s;
          (_, s) = ps2_read_data D s
      in s)"

section \<open>Keys\<close>

definition kbd_buffer_put :: "u8 \<Rightarrow> 'a kbd_scheme \<Rightarrow> 'a kbd_scheme" where
  "kbd_buffer_put c s =
     (let next_head = kbd_head s + 1
      in if next_head \<noteq> kbd_tail s
         then s\<lparr>kbd_buffer := (kbd_buffer s)[unat (kbd_head s) := c], kbd_head := next_head\<rparr> else s)"

definition between :: "char \<Rightarrow> char \<Rightarrow> u8 \<Rightarrow> bool" where
  "between lo hi c \<longleftrightarrow> of_char lo \<le> c \<and> c \<le> of_char hi"

text \<open>The character of a key press under the given modifiers, 0 for none.\<close>

definition key_char :: "u8 \<Rightarrow> u8 \<Rightarrow> u8 \<Rightarrow> u8 \<Rightarrow> u8" where
  "key_char shift ctrl caps scancode =
     (let ascii = of_char (if shift \<noteq> 0 then scancode_to_ascii_shift ! unat scancode
                           else scancode_to_ascii ! unat scancode);
          ascii = (if caps \<noteq> 0 \<and> between CHR ''a'' CHR ''z'' ascii then ascii - 97 + 65
                   else if caps \<noteq> 0 \<and> between CHR ''A'' CHR ''Z'' ascii then ascii - 65 + 97 else ascii)
      in if ctrl \<noteq> 0 \<and> between CHR ''a'' CHR ''z'' ascii then ascii - 97 + 1
         else if ctrl \<noteq> 0 \<and> between CHR ''A'' CHR ''Z'' ascii then ascii - 65 + 1 else ascii)"

text \<open>The handler after it has read the scan code.\<close>

definition kbd_scancode :: "u8 \<Rightarrow> 'a kbd_scheme \<Rightarrow> 'a kbd_scheme" where
  "kbd_scancode scancode s =
     (if scancode AND 0x80 \<noteq> 0 then
        (let scancode = scancode AND 0x7F
         in if scancode = 0x2A \<or> scancode = 0x36 then s\<lparr>shift_pressed := 0\<rparr>
            else if scancode = 0x1D then s\<lparr>ctrl_pressed := 0\<rparr> else s)
      else if scancode = 0x2A \<or> scancode = 0x36 then s\<lparr>shift_pressed := 1\<rparr>
      else if scancode = 0x1D then s\<lparr>ctrl_pressed := 1\<rparr>
      else if unat scancode < length scancode_to_ascii then
        (let ascii = key_char (shift_pressed s) (ctrl_pressed s) (caps_lock s) scancode
         in if ascii \<noteq> 0 then kbd_buffer_put ascii s else s)
      else s)"

definition ps2_kbd_irq_handler :: "device \<Rightarrow> 'a kbd_scheme \<Rightarrow> 'a kbd_scheme" where
  "ps2_kbd_irq_handler D s = (let (scancode, s) = inb D PS2_DATA_PORT s in kbd_scancode scancode s)"

definition ps2_kbd_getc :: "'a kbd_scheme \<Rightarrow> u8 \<times> 'a kbd_scheme" where
  "ps2_kbd_getc s =
     (if kbd_head s = kbd_tail s then (0, s)
      else (kbd_buffer s ! unat (kbd_tail s), s\<lparr>kbd_tail := kbd_tail s + 1\<rparr>))"

definition ps2_kbd_available :: "'a kbd_scheme \<Rightarrow> u8" where
  "ps2_kbd_available s = c_bool (kbd_head s \<noteq> kbd_tail s)"

definition ps2_kbd_flush :: "'a kbd_scheme \<Rightarrow> 'a kbd_scheme" where
  "ps2_kbd_flush s = s\<lparr>kbd_tail := 0, kbd_head := 0\<rparr>"

definition ps2_kbd_get_modifiers :: "'a kbd_scheme \<Rightarrow> u8" where
  "ps2_kbd_get_modifiers s =
     (if shift_pressed s \<noteq> 0 then 0x01 else 0) OR (if ctrl_pressed s \<noteq> 0 then 0x02 else 0) OR
     (if alt_pressed s \<noteq> 0 then 0x04 else 0) OR (if caps_lock s \<noteq> 0 then 0x08 else 0)"

text \<open>\<open>irqs k\<close> keyboard interrupts are taken before the \<open>k\<close>-th look at the buffer.\<close>

partial_function (option) ps2_kbd_wait_key ::
  "device \<Rightarrow> (nat \<Rightarrow> nat) \<Rightarrow> nat \<Rightarrow> 'a kbd_scheme \<Rightarrow> 'a kbd_scheme option" where
  "ps2_kbd_wait_key D irqs k s =
     (let s = (ps2_kbd_irq_handler D ^^ irqs k) s
      in if ps2_kbd_available s = 0 then ps2_kbd_wait_key D irqs (Suc k) (insn Hlt s) else Some s)"

definition ps2_kbd_getchar_blocking ::
  "device \<Rightarrow> (nat \<Rightarrow> nat) \<Rightarrow> 'a kbd_scheme \<Rightarrow> (u8 \<times> 'a kbd_scheme) option" where
  "ps2_kbd_getchar_blocking D irqs s = map_option ps2_kbd_getc (ps2_kbd_wait_key D irqs 0 s)"

section \<open>The buffer as a queue\<close>

definition kbd_inv :: "'a kbd_scheme \<Rightarrow> bool" where
  "kbd_inv s \<longleftrightarrow> length (kbd_buffer s) = 256"

definition kbd_items :: "'a kbd_scheme \<Rightarrow> u8 list" where
  "kbd_items s = byte_items (kbd_buffer s) (kbd_head s) (kbd_tail s)"

lemma kbd_items_length: "length (kbd_items s) \<le> 255"
  by (simp add: kbd_items_def byte_items_length)

lemma kbd_put:
  assumes "kbd_inv s"
  shows "kbd_inv (kbd_buffer_put c s) \<and> kbd_items (kbd_buffer_put c s) = take 255 (kbd_items s @ [c])"
  using byte_items_put [of "kbd_buffer s" "kbd_head s" "kbd_tail s" c] assms
  by (auto simp: kbd_buffer_put_def kbd_inv_def kbd_items_def Let_def split: if_splits)

lemma kbd_get:
  assumes "kbd_inv s"
  shows "ps2_kbd_getc s = (case kbd_items s of [] \<Rightarrow> (0, s) | c # _ \<Rightarrow> (c, s\<lparr>kbd_tail := kbd_tail s + 1\<rparr>)) \<and>
    kbd_inv (snd (ps2_kbd_getc s)) \<and> kbd_items (snd (ps2_kbd_getc s)) = tl (kbd_items s)"
  using assms byte_items_get [of "kbd_buffer s" "kbd_head s" "kbd_tail s"]
  by (cases "kbd_head s = kbd_tail s") (simp_all add: ps2_kbd_getc_def kbd_items_def kbd_inv_def)

definition kbd_fifo_put :: "u8 \<Rightarrow> kbd \<Rightarrow> kbd option" where
  "kbd_fifo_put c s = Some (kbd_buffer_put c s)"

definition kbd_fifo_get :: "kbd \<Rightarrow> (u8 option \<times> kbd) option" where
  "kbd_fifo_get s = Some (if ps2_kbd_available s = 0 then (None, s)
     else (case ps2_kbd_getc s of (c, s) \<Rightarrow> (Some c, s)))"

interpretation kbd: fifo kbd_inv kbd_items 255 kbd_fifo_put kbd_fifo_get
proof unfold_locales
  fix s :: kbd and c :: u8
  assume inv: "kbd_inv s"
  show "\<exists>t. kbd_fifo_put c s = Some t \<and> kbd_inv t \<and>
      kbd_items t = (if length (kbd_items s) < 255 then kbd_items s @ [c] else kbd_items s)"
    using kbd_put [OF inv, of c] kbd_items_length [of s] by (auto simp: kbd_fifo_put_def)
  have e: "kbd_items s = [] \<longleftrightarrow> kbd_head s = kbd_tail s"
    by (simp add: kbd_items_def byte_items_empty)
  show "\<exists>t. kbd_fifo_get s = Some (case kbd_items s of [] \<Rightarrow> None | x # _ \<Rightarrow> Some x, t) \<and>
      kbd_inv t \<and> kbd_items t = tl (kbd_items s)"
    using kbd_get [OF inv] inv e
    by (cases "kbd_items s") (auto simp: kbd_fifo_get_def ps2_kbd_available_def)
  show "length (kbd_items s) \<le> 255" by (rule kbd_items_length)
qed

section \<open>Typing\<close>

text \<open>The shift and control state after a scan code, and the character it types, if any.\<close>

definition next_mods :: "u8 \<Rightarrow> u8 \<times> u8 \<Rightarrow> u8 \<times> u8" where
  "next_mods sc = (\<lambda>(shift, ctrl).
     if sc = 0x2A \<or> sc = 0x36 then (1, ctrl) else if sc = 0xAA \<or> sc = 0xB6 then (0, ctrl)
     else if sc = 0x1D then (shift, 1) else if sc = 0x9D then (shift, 0) else (shift, ctrl))"

definition types_char :: "u8 \<Rightarrow> u8 \<times> u8 \<Rightarrow> u8 \<Rightarrow> u8 list" where
  "types_char caps = (\<lambda>(shift, ctrl) sc.
     if sc < 58 \<and> sc \<notin> {0x2A, 0x36, 0x1D} \<and> key_char shift ctrl caps sc \<noteq> 0
     then [key_char shift ctrl caps sc] else [])"

fun typed :: "u8 \<Rightarrow> u8 \<times> u8 \<Rightarrow> u8 list \<Rightarrow> u8 list" where
  "typed caps mods [] = []"
| "typed caps mods (sc # scs) = types_char caps mods sc @ typed caps (next_mods sc mods) scs"

definition mods_of :: "'a kbd_scheme \<Rightarrow> u8 \<times> u8" where
  "mods_of s = (shift_pressed s, ctrl_pressed s)"

lemma top_bit_u8: "sc AND 0x80 = 0 \<longleftrightarrow> unat sc < 128" for sc :: u8
proof -
  have "sc AND 0x80 = 0 \<longleftrightarrow> \<not> bit sc 7" using and_exp_eq_0_iff_not_bit [of sc 7] by simp
  also have "bit sc 7 \<longleftrightarrow> bit (unat sc) 7" by (simp add: bit_unsigned_iff)
  also have "\<dots> \<longleftrightarrow> odd (unat sc div 128)" by (simp only: bit_iff_odd) simp
  also have "unat sc div 128 = (if unat sc < 128 then 0 else 1)"
    using unsigned_less [of sc, where ?'a = nat] by auto
  finally show ?thesis by simp
qed

lemma release_code:
  fixes sc c :: u8
  assumes "sc AND 0x80 \<noteq> 0" "unat c < 128"
  shows "(sc AND 0x7F = c) = (sc = c + 0x80)"
proof -
  have s: "128 \<le> unat sc" "unat sc < 256"
    using assms(1) unsigned_less [of sc, where ?'a = nat] by (simp_all add: top_bit_u8)
  have "unat (sc AND 0x7F) = unat sc mod 128"
    by (simp only: and_masks unsigned_take_bit_eq) (simp add: take_bit_eq_mod)
  with s have "unat (sc AND 0x7F) = unat sc - 128" by (simp add: mod_if)
  moreover have "unat (c + 0x80) = unat c + 128" using assms(2) by (simp add: unat_word_ariths)
  ultimately show ?thesis using s by (auto simp: word_unat_eq_iff)
qed

lemma release_codes:
  fixes sc :: u8
  assumes "sc AND 0x80 \<noteq> 0"
  shows "(sc AND 0x7F = 0x2A) = (sc = 0xAA)" "(sc AND 0x7F = 0x36) = (sc = 0xB6)"
    "(sc AND 0x7F = 0x1D) = (sc = 0x9D)" "\<not> sc < 58" "sc \<noteq> 0x2A" "sc \<noteq> 0x36" "sc \<noteq> 0x1D"
proof -
  show "\<not> sc < 58" using assms by (simp add: top_bit_u8 word_less_nat_alt)
qed (use release_code [OF assms, of "0x2A"] release_code [OF assms, of "0x36"] release_code [OF assms, of "0x1D"] assms
    in \<open>auto simp: top_bit_u8\<close>)

lemma press_codes: "sc AND 0x80 = 0 \<Longrightarrow> sc \<noteq> 0xAA \<and> sc \<noteq> 0xB6 \<and> sc \<noteq> 0x9D" for sc :: u8
  by (auto simp: top_bit_u8)

lemma kbd_buffer_put_frame [simp]:
  "shift_pressed (kbd_buffer_put c s) = shift_pressed s" "ctrl_pressed (kbd_buffer_put c s) = ctrl_pressed s"
  "caps_lock (kbd_buffer_put c s) = caps_lock s"
  by (simp_all add: kbd_buffer_put_def Let_def)

lemma kbd_scancode_types:
  assumes "kbd_inv s"
  shows "kbd_inv (kbd_scancode sc s) \<and> mods_of (kbd_scancode sc s) = next_mods sc (mods_of s) \<and>
    caps_lock (kbd_scancode sc s) = caps_lock s \<and>
    kbd_items (kbd_scancode sc s) = take 255 (kbd_items s @ types_char (caps_lock s) (mods_of s) sc)"
proof -
  note le = kbd_items_length [of s]
  have same: "kbd_items (s\<lparr>shift_pressed := v\<rparr>) = kbd_items s" "kbd_items (s\<lparr>ctrl_pressed := v\<rparr>) = kbd_items s" for v
    by (simp_all add: kbd_items_def)
  show ?thesis
  proof (cases "sc AND 0x80 = 0")
    case False
    then show ?thesis using release_codes [OF False] assms le
      by (simp add: kbd_scancode_def mods_of_def next_mods_def types_char_def same kbd_inv_def Let_def)
  next
    case True
    have put: "kbd_inv (kbd_buffer_put c s)" "kbd_items (kbd_buffer_put c s) = take 255 (kbd_items s @ [c])" for c
      using kbd_put [OF assms, of c] le by auto
    have lt: "unat sc < 58 \<longleftrightarrow> sc < 58" by (simp add: word_less_nat_alt)
    show ?thesis using True press_codes [OF True] assms le put
      by (simp add: kbd_scancode_def mods_of_def next_mods_def types_char_def same kbd_inv_def Let_def lt)
  qed
qed

section \<open>Properties\<close>

text \<open>C13: The characters of any sequence of scan codes, translated under the shift, control and caps lock state
  at each key press, are appended to the keyboard buffer in the order typed; the buffer keeps the
  first 255 and drops the rest, and \<open>ps2_kbd_getc\<close> takes them out from the front.\<close>

theorem kbd_types_in_order:
  assumes "kbd_inv s"
  shows "kbd_items (fold kbd_scancode scs s) = take 255 (kbd_items s @ typed (caps_lock s) (mods_of s) scs) \<and>
    kbd_inv (fold kbd_scancode scs s) \<and>
    fst (ps2_kbd_getc s) = (case kbd_items s of [] \<Rightarrow> 0 | c # _ \<Rightarrow> c) \<and>
    kbd_items (snd (ps2_kbd_getc s)) = tl (kbd_items s)"
proof -
  have "kbd_items (fold kbd_scancode scs s) = take 255 (kbd_items s @ typed (caps_lock s) (mods_of s) scs) \<and>
    kbd_inv (fold kbd_scancode scs s)" using assms
  proof (induction scs arbitrary: s)
    case Nil
    then show ?case
      by (simp add: kbd_items_length)
  next
    case (Cons sc scs)
    note st = kbd_scancode_types [OF Cons.prems, of sc]
    have tt: "take 255 (take 255 xs @ ys) = take 255 (xs @ ys)" for xs ys :: "u8 list"
      by (cases "length xs \<le> 255") simp_all
    show ?case
      using Cons.IH [of "kbd_scancode sc s"] st
        tt [of "kbd_items s @ types_char (caps_lock s) (mods_of s) sc" "typed (caps_lock s) (next_mods sc (mods_of s)) scs"]
      by (simp del: take_append)
  qed
  with kbd_get [OF assms] show ?thesis by (cases "kbd_items s") auto
qed

definition kbd0 :: kbd where
  "kbd0 = \<lparr>trace = [], shift_pressed = 0, ctrl_pressed = 0, alt_pressed = 0, caps_lock = 0,
     kbd_buffer = replicate 256 0, kbd_head = 250, kbd_tail = 250\<rparr>"

lemma kbd_types_in_order_witness:
  "kbd_items (fold kbd_scancode [0x2A, 0x23, 0xAA, 0x17] kbd0) = [0x48, 0x69]"
proof -
  have "kbd_inv kbd0" "kbd_items kbd0 = []" "caps_lock kbd0 = 0" "mods_of kbd0 = (0, 0)"
    by (simp_all add: kbd_inv_def kbd_items_def kbd0_def mods_of_def)
  moreover have "typed 0 (0, 0) [0x2A, 0x23, 0xAA, 0x17] = [0x48, 0x69]" by code_simp
  ultimately show ?thesis using kbd_types_in_order [of kbd0 "[0x2A, 0x23, 0xAA, 0x17]"] by simp
qed

lemma ps2_wait_idle:
  assumes "\<And>t. D t (Port8 PS2_CMD_PORT) = v" "(ucast v :: u8) AND b = 0"
  shows "ps2_wait D b n s = (0 - 1, s\<lparr>trace := trace s @ replicate n (Rd (Port8 PS2_CMD_PORT) (ucast (ucast v :: u8)))\<rparr>)"
  using assms(2)
  by (induction n arbitrary: s) (simp_all add: inb_def rd_def Let_def assms(1) replicate_append_same [symmetric])

text \<open>\<open>ps2_wait_input\<close> waits for the input-buffer-full bit to be set instead of clear: on an idle
  controller every command byte costs 100000 reads of the status port, and the timeout is then
  reported as success, because the counter has wrapped.\<close>

lemma ps2_wait_input_idle:
  assumes "\<And>t. D t (Port8 PS2_CMD_PORT) = 0"
  shows "ps2_wait_input D s = (1, s\<lparr>trace := trace s @ replicate PS2_TIMEOUT (Rd (Port8 PS2_CMD_PORT) 0)\<rparr>)"
  using ps2_wait_idle [of D 0 2 PS2_TIMEOUT s] assms by (simp add: ps2_wait_input_def word_gt_0)

end
