(* ===== verification/Serial.thy ===== *)
theory Serial
  imports Byte_Ring
begin

text \<open>
  \<open>src/drivers/serial.c\<close>: the four 16550 UARTs of the PC, each with a receive ring. The loops that
  poll the line status may not end, and \<open>serial_init\<close> traps on a zero baud rate: \<open>None\<close>.
\<close>

definition COM1_BASE :: u16 where "COM1_BASE = 0x3F8"
definition COM2_BASE :: u16 where "COM2_BASE = 0x2F8"
definition COM3_BASE :: u16 where "COM3_BASE = 0x3E8"
definition COM4_BASE :: u16 where "COM4_BASE = 0x2E8"

record serial_port =
  sp_base :: u16
  sp_irq :: u8
  sp_initialized :: u8
  sp_baud_rate :: u32
  sp_data_bits :: u8
  sp_stop_bits :: u8
  sp_parity :: u8
  sp_rx_buffer :: "u8 list"
  sp_rx_head :: u8
  sp_rx_tail :: u8
  sp_tx_buffer :: "u8 list"
  sp_tx_head :: u8
  sp_tx_tail :: u8

record serial = machine +
  serial_ports :: "serial_port list"

definition serial_ports_init :: "serial_port list" where
  "serial_ports_init = map (\<lambda>(b, irq). \<lparr>sp_base = b, sp_irq = irq, sp_initialized = 0, sp_baud_rate = 0,
     sp_data_bits = 0, sp_stop_bits = 0, sp_parity = 0, sp_rx_buffer = replicate 256 0, sp_rx_head = 0,
     sp_rx_tail = 0, sp_tx_buffer = replicate 256 0, sp_tx_head = 0, sp_tx_tail = 0\<rparr>)
     [(COM1_BASE, 4), (COM2_BASE, 3), (COM3_BASE, 4), (COM4_BASE, 3)]"

definition the_port :: "u8 \<Rightarrow> 'a serial_scheme \<Rightarrow> serial_port" where
  "the_port port s = serial_ports s ! unat port"

definition upd_port :: "u8 \<Rightarrow> (serial_port \<Rightarrow> serial_port) \<Rightarrow> 'a serial_scheme \<Rightarrow> 'a serial_scheme" where
  "upd_port port f s = s\<lparr>serial_ports := (serial_ports s)[unat port := f (the_port port s)]\<rparr>"

text \<open>The guard of every operation: \<open>port >= 4 || !serial_ports[port].initialized\<close>.\<close>

definition port_down :: "u8 \<Rightarrow> 'a serial_scheme \<Rightarrow> bool" where
  "port_down port s \<longleftrightarrow> port \<ge> 4 \<or> sp_initialized (the_port port s) = 0"

definition serial_test_port :: "device \<Rightarrow> u16 \<Rightarrow> 'a machine_scheme \<Rightarrow> u8 \<times> 'a machine_scheme" where
  "serial_test_port D base s =
     (let s = outb (base + 7) 0xAE s;
          (r, s) = inb D (base + 7) s
      in if r \<noteq> 0xAE then (0, s)
         else (let s = outb (base + 7) 0x5C s;
                   (r, s) = inb D (base + 7) s
               in if r \<noteq> 0x5C then (0, s) else (1, s)))"

definition lcr_data :: "u8 \<Rightarrow> u8 option" where
  "lcr_data data_bits = (if data_bits = 5 then Some 0x00 else if data_bits = 6 then Some 0x01
     else if data_bits = 7 then Some 0x02 else if data_bits = 8 then Some 0x03 else None)"

definition lcr_parity :: "u8 \<Rightarrow> u8 option" where
  "lcr_parity parity = (if parity = 0 then Some 0x00 else if parity = 1 then Some 0x08
     else if parity = 2 then Some 0x18 else None)"

definition serial_init ::
  "device \<Rightarrow> u8 \<Rightarrow> u32 \<Rightarrow> u8 \<Rightarrow> u8 \<Rightarrow> u8 \<Rightarrow> 'a serial_scheme \<Rightarrow> (u8 \<times> 'a serial_scheme) option" where
  "serial_init D port baud_rate data_bits stop_bits parity s =
     (if port \<ge> 4 then Some (0, s)
      else
        (let base = sp_base (the_port port s);
             (ok, s) = serial_test_port D base s
         in if ok = 0 then Some (0, s)
         else if baud_rate = 0 then None
         else
           (let divisor = (ucast (115200 div baud_rate) :: u16);
                s = outb (base + 1) 0x00 s;
                s = outb (base + 3) 0x80 s;
                s = outb base (ucast (divisor AND 0xFF)) s;
                s = outb (base + 1) (ucast (drop_bit 8 divisor AND 0xFF)) s
            in case lcr_data data_bits of None \<Rightarrow> Some (0, s)
               | Some d \<Rightarrow>
                   (let lcr = d OR (if stop_bits = 2 then 0x04 else 0)
                    in case lcr_parity parity of None \<Rightarrow> Some (0, s)
                       | Some p \<Rightarrow>
                           (let s = outb (base + 3) (lcr OR p) s;
                                s = outb (base + 2) (0x01 OR 0x02 OR 0x04 OR 0xC0) s;
                                s = outb (base + 4) (0x01 OR 0x02 OR 0x08) s;
                                s = outb (base + 1) (0x01 OR 0x04) s;
                                s = upd_port port (\<lambda>sp. sp\<lparr>sp_rx_tail := 0, sp_rx_head := 0\<rparr>) s;
                                s = upd_port port (\<lambda>sp. sp\<lparr>sp_tx_tail := 0, sp_tx_head := 0\<rparr>) s;
                                s = upd_port port (\<lambda>sp. sp\<lparr>sp_baud_rate := baud_rate, sp_data_bits := data_bits,
                                      sp_stop_bits := stop_bits, sp_parity := parity, sp_initialized := 1\<rparr>) s
                            in Some (1, s))))))"

definition serial_putc :: "device \<Rightarrow> u8 \<Rightarrow> u8 \<Rightarrow> 'a serial_scheme \<Rightarrow> 'a serial_scheme option" where
  "serial_putc D port c s =
     (if port_down port s then Some s
      else do {
        let base = sp_base (the_port port s);
        s \<leftarrow> poll D (Port8 (base + 5)) (\<lambda>r :: u8. r AND 0x20 \<noteq> 0) s;
        Some (outb base c s)
      })"

fun serial_puts :: "device \<Rightarrow> u8 \<Rightarrow> u8 list \<Rightarrow> 'a serial_scheme \<Rightarrow> 'a serial_scheme option" where
  "serial_puts D port [] s = Some s"
| "serial_puts D port (c # str) s =
     (if c = 0 then Some s
      else do {
        s \<leftarrow> (if c = 0x0A then serial_putc D port 0x0D s else Some s);
        s \<leftarrow> serial_putc D port c s;
        serial_puts D port str s
      })"

definition serial_getc :: "u8 \<Rightarrow> 'a serial_scheme \<Rightarrow> u8 \<times> 'a serial_scheme" where
  "serial_getc port s =
     (if port_down port s then (0, s)
      else
        (let sp = the_port port s
         in if sp_rx_head sp = sp_rx_tail sp then (0, s)
            else (sp_rx_buffer sp ! unat (sp_rx_tail sp), upd_port port (\<lambda>sp. sp\<lparr>sp_rx_tail := sp_rx_tail sp + 1\<rparr>) s)))"

definition serial_available :: "u8 \<Rightarrow> 'a serial_scheme \<Rightarrow> u8" where
  "serial_available port s =
     (if port_down port s then 0 else c_bool (sp_rx_head (the_port port s) \<noteq> sp_rx_tail (the_port port s)))"

text \<open>The receive loop of the interrupt handler, and one byte of it.\<close>

definition rx_store :: "u8 \<Rightarrow> u8 \<Rightarrow> 'a serial_scheme \<Rightarrow> 'a serial_scheme" where
  "rx_store port c s =
     (let sp = the_port port s; next_head = sp_rx_head sp + 1
      in if next_head \<noteq> sp_rx_tail sp
         then upd_port port (\<lambda>sp. sp\<lparr>sp_rx_buffer := (sp_rx_buffer sp)[unat (sp_rx_head sp) := c],
                sp_rx_head := next_head\<rparr>) s
         else s)"

partial_function (option) rx_drain :: "device \<Rightarrow> u8 \<Rightarrow> u16 \<Rightarrow> 'a serial_scheme \<Rightarrow> 'a serial_scheme option" where
  "rx_drain D port base s =
     (case inb D (base + 5) s of (lsr, s) \<Rightarrow>
        if lsr AND 0x01 \<noteq> 0 then
          (case inb D base s of (c, s) \<Rightarrow> rx_drain D port base (rx_store port c s))
        else Some s)"

definition serial_irq_handler :: "device \<Rightarrow> u8 \<Rightarrow> 'a serial_scheme \<Rightarrow> 'a serial_scheme option" where
  "serial_irq_handler D port s =
     (if port_down port s then Some s
      else
        (let base = sp_base (the_port port s);
             (iir, s) = inb D (base + 2) s
         in if iir AND 0x01 \<noteq> 0 then Some s
         else
           (let cause = drop_bit 1 iir AND 0x07
            in if cause = 0x02 \<or> cause = 0x06 then rx_drain D port base s
               else if cause = 0x03 then Some (snd (inb D (base + 5) s))
               else if cause = 0x00 then Some (snd (inb D (base + 6) s))
               else Some s)))"

text \<open>\<open>irqs k\<close> interrupts of the port are taken before the \<open>k\<close>-th look at the buffer.\<close>

fun serial_irqs :: "device \<Rightarrow> u8 \<Rightarrow> nat \<Rightarrow> 'a serial_scheme \<Rightarrow> 'a serial_scheme option" where
  "serial_irqs D port 0 s = Some s"
| "serial_irqs D port (Suc n) s = do { s \<leftarrow> serial_irq_handler D port s; serial_irqs D port n s }"

partial_function (option) serial_wait_char ::
  "device \<Rightarrow> (nat \<Rightarrow> nat) \<Rightarrow> nat \<Rightarrow> u8 \<Rightarrow> 'a serial_scheme \<Rightarrow> 'a serial_scheme option" where
  "serial_wait_char D irqs k port s = do {
     s \<leftarrow> serial_irqs D port (irqs k) s;
     if serial_available port s = 0 then serial_wait_char D irqs (Suc k) port (insn Hlt s) else Some s }"

definition serial_getchar_blocking ::
  "device \<Rightarrow> (nat \<Rightarrow> nat) \<Rightarrow> u8 \<Rightarrow> 'a serial_scheme \<Rightarrow> (u8 \<times> 'a serial_scheme) option" where
  "serial_getchar_blocking D irqs port s = map_option (serial_getc port) (serial_wait_char D irqs 0 port s)"

text \<open>Like \<open>vga_printf\<close>, \<open>serial_printf\<close> prints fixed texts for its conversions.\<close>

fun serial_printf :: "device \<Rightarrow> u8 \<Rightarrow> u8 list \<Rightarrow> 'a serial_scheme \<Rightarrow> 'a serial_scheme option" where
  "serial_printf D port [] s = Some s"
| "serial_printf D port (c # p) s =
     (if c = 0 then Some s
      else if c = 0x25 \<and> p \<noteq> [] \<and> hd p \<noteq> 0 then do {
        s \<leftarrow> (if hd p = of_char CHR ''d'' then serial_puts D port (cstr ''42'') s
              else if hd p = of_char CHR ''x'' then serial_puts D port (cstr ''DEAD'') s
              else if hd p = of_char CHR ''s'' then serial_puts D port (cstr ''str'') s
              else if hd p = of_char CHR ''c'' then serial_putc D port (of_char CHR ''?'') s
              else if hd p = 0x25 then serial_putc D port 0x25 s
              else do { s \<leftarrow> serial_putc D port 0x25 s; serial_putc D port (hd p) s });
        serial_printf D port (tl p) s
      } else do { s \<leftarrow> serial_putc D port c s; serial_printf D port p s })"

definition serial_get_line_status :: "device \<Rightarrow> u8 \<Rightarrow> 'a serial_scheme \<Rightarrow> u8 \<times> 'a serial_scheme" where
  "serial_get_line_status D port s =
     (if port_down port s then (0, s) else inb D (sp_base (the_port port s) + 5) s)"

definition serial_get_modem_status :: "device \<Rightarrow> u8 \<Rightarrow> 'a serial_scheme \<Rightarrow> u8 \<times> 'a serial_scheme" where
  "serial_get_modem_status D port s =
     (if port_down port s then (0, s) else inb D (sp_base (the_port port s) + 6) s)"

text \<open>Setting or clearing one bit of the register at an offset of a port.\<close>

definition serial_set_bit :: "device \<Rightarrow> u8 \<Rightarrow> u16 \<Rightarrow> u8 \<Rightarrow> u8 \<Rightarrow> 'a serial_scheme \<Rightarrow> 'a serial_scheme" where
  "serial_set_bit D port reg b enable s =
     (if port_down port s then s
      else
        (let base = sp_base (the_port port s);
             (r, s) = inb D (base + reg) s
         in outb (base + reg) (if enable \<noteq> 0 then r OR b else r AND NOT b) s))"

definition serial_set_break :: "device \<Rightarrow> u8 \<Rightarrow> u8 \<Rightarrow> 'a serial_scheme \<Rightarrow> 'a serial_scheme" where
  "serial_set_break D port enable s = serial_set_bit D port 3 0x40 enable s"

definition serial_set_dtr :: "device \<Rightarrow> u8 \<Rightarrow> u8 \<Rightarrow> 'a serial_scheme \<Rightarrow> 'a serial_scheme" where
  "serial_set_dtr D port enable s = serial_set_bit D port 4 0x01 enable s"

definition serial_set_rts :: "device \<Rightarrow> u8 \<Rightarrow> u8 \<Rightarrow> 'a serial_scheme \<Rightarrow> 'a serial_scheme" where
  "serial_set_rts D port enable s = serial_set_bit D port 4 0x02 enable s"

section \<open>Reception\<close>

definition serial_inv :: "u8 \<Rightarrow> 'a serial_scheme \<Rightarrow> bool" where
  "serial_inv port s \<longleftrightarrow> unat port < length (serial_ports s) \<and> length (sp_rx_buffer (the_port port s)) = 256"

definition rx_items :: "u8 \<Rightarrow> 'a serial_scheme \<Rightarrow> u8 list" where
  "rx_items port s = byte_items (sp_rx_buffer (the_port port s)) (sp_rx_head (the_port port s)) (sp_rx_tail (the_port port s))"

lemma the_port_upd: "unat port < length (serial_ports s) \<Longrightarrow> the_port port (upd_port port f s) = f (the_port port s)"
  by (simp add: the_port_def upd_port_def)

lemma length_upd [simp]: "length (serial_ports (upd_port port f s)) = length (serial_ports s)"
  by (simp add: upd_port_def)

lemma rx_store_items:
  assumes "serial_inv port s"
  shows "serial_inv port (rx_store port c s) \<and> rx_items port (rx_store port c s) = take 255 (rx_items port s @ [c]) \<and>
    trace (rx_store port c s) = trace s \<and> port_down port (rx_store port c s) = port_down port s"
  using byte_items_put [of "sp_rx_buffer (the_port port s)" "sp_rx_head (the_port port s)" "sp_rx_tail (the_port port s)" c] assms
  by (auto simp: rx_store_def Let_def serial_inv_def rx_items_def the_port_upd port_down_def split: if_splits)
     (simp_all add: upd_port_def)

lemma inb_port [simp]:
  "the_port port (snd (inb D p s)) = the_port port s" "serial_inv port (snd (inb D p s)) = serial_inv port s"
  "rx_items port (snd (inb D p s)) = rx_items port s" "port_down port (snd (inb D p s)) = port_down port s"
  by (simp_all add: bus port_down_def the_port_def serial_inv_def rx_items_def)

text \<open>
  A device that, after the accesses \<open>tr\<close>, offers the bytes \<open>cs\<close>: as long as one is left the line
  status has the data bit and the data register yields it, then the bit is clear.
\<close>

fun offers :: "device \<Rightarrow> u16 \<Rightarrow> u8 list \<Rightarrow> trace \<Rightarrow> bool" where
  "offers D base [] tr = ((ucast (D tr (Port8 (base + 5))) :: u8) AND 0x01 = 0)"
| "offers D base (c # cs) tr =
     ((ucast (D tr (Port8 (base + 5))) :: u8) AND 0x01 \<noteq> 0 \<and>
      (let tr = tr @ [Rd (Port8 (base + 5)) (ucast (ucast (D tr (Port8 (base + 5))) :: u8))]
       in ucast (D tr (Port8 base)) = c \<and> offers D base cs (tr @ [Rd (Port8 base) (ucast c)])))"

lemma rx_drain_offers:
  assumes "serial_inv port s" "offers D base cs (trace s)"
  shows "\<exists>t. rx_drain D port base s = Some t \<and> serial_inv port t \<and> rx_items port t = take 255 (rx_items port s @ cs) \<and>
    port_down port t = port_down port s"
  using assms
proof (induction cs arbitrary: s)
  case Nil
  then have "rx_drain D port base s = Some (snd (inb D (base + 5) s))"
    by (subst rx_drain.simps) (simp add: inb_def rd_def Let_def)
  moreover have "length (rx_items port s) \<le> 255" by (simp add: rx_items_def byte_items_length)
  ultimately show ?case using Nil.prems(1) by simp
next
  case (Cons c cs)
  let ?s = "snd (inb D base (snd (inb D (base + 5) s)))"
  have rd: "fst (inb D (base + 5) s) AND 0x01 \<noteq> 0" "fst (inb D base (snd (inb D (base + 5) s))) = c"
    using Cons.prems(2) by (simp_all add: inb_def rd_def Let_def)
  then have "rx_drain D port base s = rx_drain D port base (rx_store port c ?s)"
    by (subst rx_drain.simps) (simp add: split_beta)
  moreover have inv: "serial_inv port ?s" using Cons.prems(1) by simp
  note st = rx_store_items [OF inv, of c]
  have "offers D base cs (trace ?s)" using Cons.prems(2) by (simp add: inb_def rd_def Let_def)
  then obtain t where t: "rx_drain D port base (rx_store port c ?s) = Some t" "serial_inv port t"
    "rx_items port t = take 255 (rx_items port (rx_store port c ?s) @ cs)" "port_down port t = port_down port s"
    using Cons.IH [of "rx_store port c ?s"] st by auto
  have "take 255 (take 255 xs @ ys) = take 255 (xs @ ys)" for xs ys :: "u8 list"
    by (cases "length xs \<le> 255") simp_all
  from this [of "rx_items port s @ [c]" cs] t(3) st
  have "rx_items port t = take 255 (rx_items port s @ c # cs)" by simp
  ultimately show ?case using t(1,2,4) by simp
qed

lemma serial_getc_items:
  assumes "serial_inv port s" "\<not> port_down port s"
  shows "fst (serial_getc port s) = (case rx_items port s of [] \<Rightarrow> 0 | c # _ \<Rightarrow> c) \<and>
    rx_items port (snd (serial_getc port s)) = tl (rx_items port s)"
proof (cases "sp_rx_head (the_port port s) = sp_rx_tail (the_port port s)")
  case True
  then show ?thesis using assms by (simp add: serial_getc_def Let_def rx_items_def)
next
  case False
  from byte_items_get [OF _ False, of "sp_rx_buffer (the_port port s)"] assms False show ?thesis
    by (simp add: serial_getc_def Let_def rx_items_def serial_inv_def the_port_upd)
qed

section \<open>Properties\<close>

text \<open>On a data or timeout interrupt the handler returns and moves every byte the UART offers into the
  port's receive buffer, in order, keeping the first 255 and dropping the rest; \<open>serial_getc\<close>
  takes them out from the front.\<close>

lemma serial_receives:
  assumes "serial_inv port s" "\<not> port_down port s" "base = sp_base (the_port port s)"
    "(ucast (D (trace s) (Port8 (base + 2))) :: u8) \<in> {0x04, 0x0C}"
    "offers D base cs (trace (snd (inb D (base + 2) s)))"
  shows "\<exists>t. serial_irq_handler D port s = Some t \<and> rx_items port t = take 255 (rx_items port s @ cs) \<and>
    fst (serial_getc port t) = (case rx_items port t of [] \<Rightarrow> 0 | c # _ \<Rightarrow> c) \<and>
    rx_items port (snd (serial_getc port t)) = tl (rx_items port t)"
proof -
  have "fst (inb D (base + 2) s) \<in> {0x04, 0x0C}" using assms(4) by (simp add: inb_def rd_def Let_def)
  then have "serial_irq_handler D port s = rx_drain D port base (snd (inb D (base + 2) s))"
    using assms(2,3) by (auto simp: serial_irq_handler_def Let_def split_beta)
  moreover obtain t where t: "rx_drain D port base (snd (inb D (base + 2) s)) = Some t" "serial_inv port t"
    "rx_items port t = take 255 (rx_items port s @ cs)" "\<not> port_down port t"
    using rx_drain_offers [OF _ assms(5), of port] assms(1,2) by auto
  ultimately show ?thesis using serial_getc_items [OF t(2,4)] by auto
qed

text \<open>COM1 set up, and a device with the byte 0x41 to give.\<close>

definition serial0 :: serial where
  "serial0 = \<lparr>trace = [], serial_ports = map (\<lambda>sp. sp\<lparr>sp_initialized := 1, sp_rx_head := 255, sp_rx_tail := 255\<rparr>) serial_ports_init\<rparr>"

definition com1_dev :: device where
  "com1_dev t p = (if p = Port8 0x3FA then 0x04
     else if p = Port8 0x3FD then (if Rd (Port8 0x3F8) 0x41 \<in> set t then 0x60 else 0x61) else 0x41)"

end
