(* ===== verification/Vga.thy ===== *)
theory Vga
  imports Blood_Prelude
begin

text \<open>
  \<open>src/drivers/vga.c\<close>: the 80 by 25 text screen at \<open>0xB8000\<close>. The memory from there on is a
  function of the cell index, so that a write beyond the 2000 cells of the screen is seen. A
  character is its byte.
\<close>

definition VGA_WIDTH :: nat where "VGA_WIDTH = 80"
definition VGA_HEIGHT :: nat where "VGA_HEIGHT = 25"
definition VGA_SIZE :: nat where "VGA_SIZE = VGA_WIDTH * VGA_HEIGHT"

lemmas vga_sizes = VGA_WIDTH_def VGA_HEIGHT_def VGA_SIZE_def

record vga = machine +
  vga_buf :: "nat \<Rightarrow> u16"
  vga_row :: u8
  vga_col :: u8
  vga_color :: u8

definition vga_entry :: "u8 \<Rightarrow> u8 \<Rightarrow> u16" where
  "vga_entry c color = ucast c OR push_bit 8 (ucast color)"

definition vga_put :: "nat \<Rightarrow> u16 \<Rightarrow> 'a vga_scheme \<Rightarrow> 'a vga_scheme" where
  "vga_put i v s = s\<lparr>vga_buf := (vga_buf s)(i := v)\<rparr>"

definition vga_blank :: "'a vga_scheme \<Rightarrow> u16" where
  "vga_blank s = vga_entry 0x20 (vga_color s)"

definition vga_scroll :: "'a vga_scheme \<Rightarrow> 'a vga_scheme" where
  "vga_scroll s =
     (let s = fold (\<lambda>i s. vga_put i (vga_buf s (i + VGA_WIDTH)) s) [0..<VGA_SIZE - VGA_WIDTH] s;
          s = fold (\<lambda>x s. vga_put ((VGA_HEIGHT - 1) * VGA_WIDTH + x) (vga_blank s) s) [0..<VGA_WIDTH] s
      in s\<lparr>vga_row := of_nat (VGA_HEIGHT - 1)\<rparr>)"

definition vga_fill :: "'a vga_scheme \<Rightarrow> 'a vga_scheme" where
  "vga_fill s = fold (\<lambda>i s. vga_put i (vga_blank s) s) [0..<VGA_SIZE] s"

definition vga_init :: "'a vga_scheme \<Rightarrow> 'a vga_scheme" where
  "vga_init s = vga_fill (s\<lparr>vga_row := 0, vga_col := 0, vga_color := 7 OR push_bit 4 0\<rparr>)"

definition vga_set_color :: "u8 \<Rightarrow> u8 \<Rightarrow> 'a vga_scheme \<Rightarrow> 'a vga_scheme" where
  "vga_set_color fg bg s = s\<lparr>vga_color := fg OR push_bit 4 bg\<rparr>"

text \<open>\<open>if (++vga_row >= VGA_HEIGHT) vga_scroll();\<close>\<close>

definition vga_next_row :: "'a vga_scheme \<Rightarrow> 'a vga_scheme" where
  "vga_next_row s =
     (let s = s\<lparr>vga_row := vga_row s + 1\<rparr> in if unat (vga_row s) \<ge> VGA_HEIGHT then vga_scroll s else s)"

definition vga_here :: "'a vga_scheme \<Rightarrow> nat" where
  "vga_here s = unat (vga_row s) * VGA_WIDTH + unat (vga_col s)"

definition vga_putc :: "u8 \<Rightarrow> 'a vga_scheme \<Rightarrow> 'a vga_scheme" where
  "vga_putc c s =
     (if c = 0x0A then vga_next_row (s\<lparr>vga_col := 0\<rparr>)
      else if c = 0x0D then s\<lparr>vga_col := 0\<rparr>
      else if c = 0x09 then
        (let s = s\<lparr>vga_col := (vga_col s + 8) AND NOT 7\<rparr>
         in if unat (vga_col s) \<ge> VGA_WIDTH then vga_next_row (s\<lparr>vga_col := 0\<rparr>) else s)
      else if c = 0x08 then
        (if vga_col s > 0 then
           (let s = s\<lparr>vga_col := vga_col s - 1\<rparr> in vga_put (vga_here s) (vga_blank s) s) else s)
      else
        (let s = vga_put (vga_here s) (vga_entry c (vga_color s)) s;
             s = s\<lparr>vga_col := vga_col s + 1\<rparr>
         in if unat (vga_col s) \<ge> VGA_WIDTH then vga_next_row (s\<lparr>vga_col := 0\<rparr>) else s))"

definition vga_puts :: "u8 list \<Rightarrow> 'a vga_scheme \<Rightarrow> 'a vga_scheme" where
  "vga_puts str s = fold vga_putc (takeWhile (\<lambda>c. c \<noteq> 0) str) s"

definition vga_clear :: "'a vga_scheme \<Rightarrow> 'a vga_scheme" where
  "vga_clear s = vga_fill (s\<lparr>vga_row := 0, vga_col := 0\<rparr>)"

definition vga_set_cursor :: "u8 \<Rightarrow> u8 \<Rightarrow> 'a vga_scheme \<Rightarrow> 'a vga_scheme" where
  "vga_set_cursor row col s =
     (if unat row < VGA_HEIGHT \<and> unat col < VGA_WIDTH then s\<lparr>vga_row := row, vga_col := col\<rparr> else s)"

definition vga_get_cursor :: "'a vga_scheme \<Rightarrow> u8 \<times> u8" where
  "vga_get_cursor s = (vga_row s, vga_col s)"

definition vga_putc_at :: "u8 \<Rightarrow> u8 \<Rightarrow> u8 \<Rightarrow> u8 \<Rightarrow> 'a vga_scheme \<Rightarrow> 'a vga_scheme" where
  "vga_putc_at c row col color s =
     (if unat row < VGA_HEIGHT \<and> unat col < VGA_WIDTH
      then vga_put (unat row * VGA_WIDTH + unat col) (vga_entry c color) s else s)"

definition vga_puts_at :: "u8 list \<Rightarrow> u8 \<Rightarrow> u8 \<Rightarrow> u8 \<Rightarrow> 'a vga_scheme \<Rightarrow> 'a vga_scheme" where
  "vga_puts_at str row col color s =
     (let orig_row = vga_row s; orig_col = vga_col s; orig_color = vga_color s;
          s = s\<lparr>vga_row := row, vga_col := col, vga_color := color\<rparr>;
          s = vga_puts str s
      in s\<lparr>vga_row := orig_row, vga_col := orig_col, vga_color := orig_color\<rparr>)"

text \<open>The loops stop at the first row or column that is off the screen.\<close>

definition vga_fill_rect :: "u8 \<Rightarrow> u8 \<Rightarrow> u8 \<Rightarrow> u8 \<Rightarrow> u8 \<Rightarrow> u8 \<Rightarrow> 'a vga_scheme \<Rightarrow> 'a vga_scheme" where
  "vga_fill_rect row col width height c color s =
     fold (\<lambda>y. fold (\<lambda>x. vga_put ((unat row + y) * VGA_WIDTH + (unat col + x)) (vga_entry c color))
                 (takeWhile (\<lambda>x. unat col + x < VGA_WIDTH) [0..<unat width]))
       (takeWhile (\<lambda>y. unat row + y < VGA_HEIGHT) [0..<unat height]) s"

text \<open>Positions are computed in int and cut to bytes when passed on.\<close>

definition vga_draw_box :: "u8 \<Rightarrow> u8 \<Rightarrow> u8 \<Rightarrow> u8 \<Rightarrow> u8 \<Rightarrow> 'a vga_scheme \<Rightarrow> 'a vga_scheme" where
  "vga_draw_box row col width height color s =
     (if width < 2 \<or> height < 2 then s
      else
        (let right = col + width - 1; bottom = row + height - 1;
             s = vga_putc_at 0xDA row col color s;
             s = fold (\<lambda>x. vga_putc_at 0xC4 row (col + of_nat x) color) [1..<unat width - 1] s;
             s = vga_putc_at 0xBF row right color s;
             s = fold (\<lambda>y s. vga_putc_at 0xB3 (row + of_nat y) right color
                   (vga_putc_at 0xB3 (row + of_nat y) col color s)) [1..<unat height - 1] s;
             s = vga_putc_at 0xC0 bottom col color s;
             s = fold (\<lambda>x. vga_putc_at 0xC4 bottom (col + of_nat x) color) [1..<unat width - 1] s
         in vga_putc_at 0xD9 bottom right color s))"

text \<open>\<open>vga_printf\<close> takes arguments but prints fixed texts for them.\<close>

fun vga_printf :: "u8 list \<Rightarrow> 'a vga_scheme \<Rightarrow> 'a vga_scheme" where
  "vga_printf [] s = s"
| "vga_printf (c # p) s =
     (if c = 0 then s
      else if c = 0x25 \<and> p \<noteq> [] \<and> hd p \<noteq> 0 then
        vga_printf (tl p)
          (if hd p = of_char CHR ''d'' then vga_puts (cstr ''42'') s
           else if hd p = of_char CHR ''x'' then vga_puts (cstr ''0xDEAD'') s
           else if hd p = of_char CHR ''s'' then vga_puts (cstr ''str'') s
           else if hd p = of_char CHR ''c'' then vga_putc (of_char CHR ''?'') s
           else if hd p = 0x25 then vga_putc 0x25 s
           else vga_putc (hd p) (vga_putc 0x25 s))
      else vga_printf p (vga_putc c s))"

definition vga_update_cursor :: "'a vga_scheme \<Rightarrow> 'a vga_scheme" where
  "vga_update_cursor s =
     (let pos = (of_nat (vga_here s) :: u16);
          s = outb 0x3D4 0x0F s;
          s = outb 0x3D5 (ucast (pos AND 0xFF)) s;
          s = outb 0x3D4 0x0E s
      in outb 0x3D5 (ucast (drop_bit 8 pos AND 0xFF)) s)"

definition vga_enable_cursor :: "'a vga_scheme \<Rightarrow> 'a vga_scheme" where
  "vga_enable_cursor s =
     (let s = outb 0x3D4 0x0A s; s = outb 0x3D5 0x00 s; s = outb 0x3D4 0x0B s; s = outb 0x3D5 0x0F s
      in vga_update_cursor s)"

definition vga_disable_cursor :: "'a vga_scheme \<Rightarrow> 'a vga_scheme" where
  "vga_disable_cursor s = (let s = outb 0x3D4 0x0A s in outb 0x3D5 0x20 s)"

section \<open>The invariant\<close>

text \<open>The cursor is on the screen, and the memory \<open>b\<close> beyond it is as it was.\<close>

definition vga_inv :: "(nat \<Rightarrow> u16) \<Rightarrow> 'a vga_scheme \<Rightarrow> bool" where
  "vga_inv b s \<longleftrightarrow> unat (vga_row s) < VGA_HEIGHT \<and> unat (vga_col s) < VGA_WIDTH \<and>
     (\<forall>i \<ge> VGA_SIZE. vga_buf s i = b i)"

text \<open>An update of cells only, on the screen.\<close>

definition cells_only :: "'a vga_scheme \<Rightarrow> 'a vga_scheme \<Rightarrow> bool" where
  "cells_only s t \<longleftrightarrow> (\<exists>b. t = s\<lparr>vga_buf := b\<rparr> \<and> (\<forall>i \<ge> VGA_SIZE. b i = vga_buf s i))"

lemma cells_only_refl [simp]: "cells_only s s"
  by (auto simp: cells_only_def intro: exI [of _ "vga_buf s"])

lemma cells_only_trans: "cells_only s t \<Longrightarrow> cells_only t u \<Longrightarrow> cells_only s u"
  by (auto simp: cells_only_def)

lemma cells_only_put: "i < VGA_SIZE \<Longrightarrow> cells_only s (vga_put i v s)"
  by (auto simp: cells_only_def vga_put_def)

lemma cells_only_fold:
  "(\<And>x s. x \<in> set xs \<Longrightarrow> cells_only s (f x s)) \<Longrightarrow> cells_only s (fold f xs s)"
proof (induction xs arbitrary: s)
  case (Cons x xs)
  have "cells_only s (f x s)" using Cons.prems by simp
  moreover have "cells_only (f x s) (fold f xs (f x s))" using Cons by simp
  ultimately show ?case by (auto intro: cells_only_trans)
qed simp

lemma cells_only_inv: "vga_inv b s \<Longrightarrow> cells_only s t \<Longrightarrow> vga_inv b t"
  by (auto simp: cells_only_def vga_inv_def)

lemma vga_fill_cells: "cells_only s (vga_fill s)"
  unfolding vga_fill_def by (rule cells_only_fold, rule cells_only_put) simp

lemma vga_putc_at_cells: "cells_only s (vga_putc_at c row col color s)"
  by (auto simp: vga_putc_at_def vga_sizes intro!: cells_only_put)

lemma vga_scroll_inv:
  assumes "unat (vga_col s) < VGA_WIDTH" "\<forall>i \<ge> VGA_SIZE. vga_buf s i = b i"
  shows "vga_inv b (vga_scroll s)"
proof -
  let ?t = "fold (\<lambda>i s. vga_put i (vga_buf s (i + VGA_WIDTH)) s) [0..<VGA_SIZE - VGA_WIDTH] s"
  let ?u = "fold (\<lambda>x s. vga_put ((VGA_HEIGHT - 1) * VGA_WIDTH + x) (vga_blank s) s) [0..<VGA_WIDTH] ?t"
  have "cells_only s ?t" by (rule cells_only_fold, rule cells_only_put) (simp add: vga_sizes)
  moreover have "cells_only ?t ?u" by (rule cells_only_fold, rule cells_only_put) (simp add: vga_sizes)
  ultimately have "cells_only s ?u" by (rule cells_only_trans)
  then show ?thesis using assms
    by (auto simp: vga_scroll_def Let_def vga_inv_def cells_only_def) (simp add: vga_sizes)
qed

lemma vga_next_row_inv: "vga_inv b s \<Longrightarrow> vga_inv b (vga_next_row s)"
  using vga_scroll_inv [of "s\<lparr>vga_row := vga_row s + 1\<rparr>" b]
  by (auto simp: vga_next_row_def Let_def) (auto simp: vga_inv_def)

lemma vga_col0_inv: "vga_inv b s \<Longrightarrow> vga_inv b (s\<lparr>vga_col := 0\<rparr>)"
  by (simp add: vga_inv_def vga_sizes)

lemma vga_here_lt: "vga_inv b s \<Longrightarrow> vga_here s < VGA_SIZE"
  by (simp add: vga_inv_def vga_here_def vga_sizes)

lemma vga_putc_inv:
  assumes "vga_inv b s"
  shows "vga_inv b (vga_putc c s)"
proof -
  note nl = vga_next_row_inv [OF vga_col0_inv [OF assms]]
  have tab: "vga_inv b (s\<lparr>vga_col := k\<rparr>)" if "unat k < VGA_WIDTH" for k
    using assms that by (simp add: vga_inv_def)
  have nlk: "vga_inv b (vga_next_row (s\<lparr>vga_col := 0\<rparr>))" by (rule nl)
  have bs: "vga_inv b (vga_put (vga_here (s\<lparr>vga_col := vga_col s - 1\<rparr>)) v (s\<lparr>vga_col := vga_col s - 1\<rparr>))"
    if "0 < vga_col s" for v
  proof -
    have "vga_col s \<noteq> 0" using that by (simp add: word_gt_0)
    then have "unat (vga_col s - 1) = unat (vga_col s) - 1" by (rule unat_minus_one)
    then have i: "vga_inv b (s\<lparr>vga_col := vga_col s - 1\<rparr>)" using assms by (intro tab) (auto simp: vga_inv_def)
    show ?thesis by (rule cells_only_inv [OF i], rule cells_only_put, rule vga_here_lt [OF i])
  qed
  let ?s = "vga_put (vga_here s) (vga_entry c (vga_color s)) s"
  have p: "vga_inv b ?s" by (rule cells_only_inv [OF assms], rule cells_only_put, rule vga_here_lt [OF assms])
  have adv: "vga_inv b (?s\<lparr>vga_col := vga_col ?s + 1\<rparr>)" if "unat (vga_col ?s + 1) < VGA_WIDTH"
    using p that by (simp add: vga_inv_def)
  show ?thesis
    using assms nl tab bs adv vga_next_row_inv [OF vga_col0_inv [OF p]] vga_col0_inv [OF assms]
    by (auto simp: vga_putc_def Let_def not_le)
qed

lemma vga_fold_putc_inv: "vga_inv b s \<Longrightarrow> vga_inv b (fold vga_putc cs s)"
  by (induction cs arbitrary: s) (simp_all add: vga_putc_inv)

lemma vga_puts_inv: "vga_inv b s \<Longrightarrow> vga_inv b (vga_puts str s)"
  by (simp add: vga_puts_def vga_fold_putc_inv)

lemma vga_printf_inv: "vga_inv b s \<Longrightarrow> vga_inv b (vga_printf fmt s)"
  by (induction fmt s rule: vga_printf.induct) (simp_all add: vga_putc_inv vga_puts_inv)

lemma vga_box_cells: "cells_only s (vga_draw_box row col width height color s)"
proof -
  have f: "cells_only s (fold (\<lambda>x. vga_putc_at c (r x) (k x) color) xs s)" for c r k xs and s :: "'a vga_scheme"
    by (rule cells_only_fold) (rule vga_putc_at_cells)
  have g: "cells_only s (fold (\<lambda>y s. vga_putc_at c (r y) k color (vga_putc_at c (r y) k' color s)) xs s)"
    for c r k k' xs and s :: "'a vga_scheme"
    by (rule cells_only_fold, rule cells_only_trans) (rule vga_putc_at_cells)+
  show ?thesis unfolding vga_draw_box_def Let_def
    by (auto intro!: cells_only_trans [OF _ vga_putc_at_cells] cells_only_trans [OF _ f] cells_only_trans [OF _ g]
        vga_putc_at_cells)
qed

lemma vga_rect_cells: "cells_only s (vga_fill_rect row col width height c color s)"
proof -
  have "(unat row + y) * VGA_WIDTH + (unat col + x) < VGA_SIZE"
    if "unat row + y < VGA_HEIGHT" "unat col + x < VGA_WIDTH" for x y
    using that by (simp add: vga_sizes)
  then show ?thesis unfolding vga_fill_rect_def
    by (intro cells_only_fold cells_only_put) (auto dest!: set_takeWhileD)
qed

lemma vga_puts_at_inv:
  assumes "vga_inv b s" "unat row < VGA_HEIGHT" "unat col < VGA_WIDTH"
  shows "vga_inv b (vga_puts_at str row col color s)"
proof -
  have "vga_inv b (s\<lparr>vga_row := row, vga_col := col, vga_color := color\<rparr>)"
    using assms by (simp add: vga_inv_def)
  then have "vga_inv b (vga_puts str (s\<lparr>vga_row := row, vga_col := col, vga_color := color\<rparr>))"
    by (rule vga_puts_inv)
  with assms(1) show ?thesis by (simp add: vga_puts_at_def Let_def vga_inv_def)
qed

text \<open>The calls of the driver.\<close>

inductive vga_step :: "vga \<Rightarrow> vga \<Rightarrow> bool" where
  "vga_step s (vga_init s)"
| "vga_step s (vga_set_color fg bg s)"
| "vga_step s (vga_putc c s)"
| "vga_step s (vga_puts str s)"
| "vga_step s (vga_printf str s)"
| "vga_step s (vga_clear s)"
| "vga_step s (vga_set_cursor row col s)"
| "vga_step s (vga_putc_at c row col color s)"
| "unat row < VGA_HEIGHT \<Longrightarrow> unat col < VGA_WIDTH \<Longrightarrow> vga_step s (vga_puts_at str row col color s)"
| "vga_step s (vga_fill_rect row col width height c color s)"
| "vga_step s (vga_draw_box row col width height color s)"
| "vga_step s (vga_enable_cursor s)"
| "vga_step s (vga_disable_cursor s)"

definition vga_start :: "(nat \<Rightarrow> u16) \<Rightarrow> vga \<Rightarrow> bool" where
  "vga_start b s \<longleftrightarrow> (\<exists>s0. s = vga_init s0 \<and> b = vga_buf s0)"

lemma vga_init_inv: "(\<forall>i \<ge> VGA_SIZE. vga_buf s i = b i) \<Longrightarrow> vga_inv b (vga_init s)"
  unfolding vga_init_def by (rule cells_only_inv [OF _ vga_fill_cells]) (simp add: vga_inv_def vga_sizes)

lemma vga_step_inv:
  assumes "vga_inv b s" "vga_step s t"
  shows "vga_inv b t"
  using assms(2,1)
proof cases
  case 6
  have "vga_inv b (s\<lparr>vga_row := 0, vga_col := 0\<rparr>)" using assms(1) by (simp add: vga_inv_def vga_sizes)
  then show ?thesis unfolding 6 vga_clear_def by (rule cells_only_inv [OF _ vga_fill_cells])
next
  case 1
  have "\<forall>i \<ge> VGA_SIZE. vga_buf s i = b i" using assms(1) by (simp add: vga_inv_def)
  then show ?thesis unfolding 1 by (rule vga_init_inv)
qed (use assms(1) in \<open>auto simp: vga_putc_inv vga_puts_inv vga_printf_inv vga_puts_at_inv
    intro: cells_only_inv vga_putc_at_cells vga_rect_cells vga_box_cells\<close>,
    auto simp: vga_inv_def vga_set_color_def vga_set_cursor_def vga_enable_cursor_def vga_update_cursor_def
      vga_disable_cursor_def bus)

interpretation vga: invariant_system "vga_start b" vga_step "vga_inv b" for b
proof unfold_locales
  show "vga_inv b s" if "vga_start b s" for s
    using that vga_init_inv by (auto simp: vga_start_def)
qed (rule vga_step_inv)

section \<open>Properties\<close>

text \<open>C14: After \<open>vga_init\<close>, whatever sequence of driver calls is made, the cursor stays on the screen and the
  memory beyond the 2000 cells keeps its contents, as long as \<open>vga_puts_at\<close> is given a position on
  the screen. It does not check its position: at row 30, for one, a character is stored far
  beyond the screen.\<close>

theorem vga_stays_on_screen:
  assumes "vga_start b s" "vga_step\<^sup>*\<^sup>* s t"
  shows "vga_row t < 25 \<and> vga_col t < 80 \<and> (\<forall>i \<ge> 2000. vga_buf t i = b i) \<and>
    vga_buf (vga_puts_at [0x41] 30 0 7 t) 2400 = 0x0741"
proof -
  have "vga_inv b t" using assms by (rule vga.reachable_inv)
  then have "vga_row t < 25 \<and> vga_col t < 80 \<and> (\<forall>i \<ge> 2000. vga_buf t i = b i)"
    by (simp add: vga_inv_def vga_sizes word_less_nat_alt)
  moreover have "vga_buf (vga_puts_at [0x41] 30 0 7 t) 2400 = 0x0741"
    by (simp add: vga_puts_at_def vga_puts_def vga_putc_def vga_put_def vga_here_def vga_entry_def vga_sizes Let_def)
  ultimately show ?thesis by blast
qed

definition vga0 :: vga where
  "vga0 = \<lparr>trace = [], vga_buf = (\<lambda>_. 0), vga_row = 3, vga_col = 9, vga_color = 0\<rparr>"

lemma vga_stays_on_screen_witness:
  "let s = vga_init vga0; t = vga_fill_rect 20 70 200 200 0x2A 0x1F s
   in vga_start (\<lambda>_. 0) s \<and> vga_step\<^sup>*\<^sup>* s t \<and> vga_buf t 2001 = 0"
proof -
  let ?s = "vga_init vga0" and ?t = "vga_fill_rect 20 70 200 200 0x2A 0x1F (vga_init vga0)"
  have s: "vga_start (\<lambda>_. 0) ?s" by (auto simp: vga_start_def vga0_def fun_eq_iff intro!: exI [of _ vga0])
  have t: "vga_step\<^sup>*\<^sup>* ?s ?t" by (intro r_into_rtranclp vga_step.intros)
  from vga_stays_on_screen [OF s t] s t show ?thesis by simp
qed

end
