(* ===== verification/Paging.thy ===== *)
theory Paging
  imports Vga
begin

text \<open>
  \<open>src/drivers/paging.c\<close>: two-level paging with 4 KiB pages and a bitmap of physical pages. All the
  code's memory accesses are aligned words, so the memory is a function from word addresses to
  words; it is the memory as the code's pointers see it. The null pointer is address 0. The messages of
  the fault handler go to the screen.
\<close>

definition PAGE_SIZE :: u32 where "PAGE_SIZE = 4096"
definition PAGE_ENTRIES :: nat where "PAGE_ENTRIES = 1024"
definition PAGE_PRESENT :: u32 where "PAGE_PRESENT = 0x001"
definition PAGE_WRITABLE :: u32 where "PAGE_WRITABLE = 0x002"
definition PAGE_USER :: u32 where "PAGE_USER = 0x004"
definition KERNEL_PAGE_NUMBER :: u32 where "KERNEL_PAGE_NUMBER = drop_bit 22 0xC0000000"

record paging = vga +
  words :: "u32 \<Rightarrow> u32"
  page_directory :: u32
  next_free_page :: u32
  total_memory :: u32
  page_bitmap :: u32
  bitmap_size :: u32

text \<open>\<open>p[i]\<close> for a pointer to words.\<close>

definition cell :: "u32 \<Rightarrow> u32 \<Rightarrow> u32" where
  "cell p i = p + 4 * i"

definition peek :: "u32 \<Rightarrow> u32 \<Rightarrow> 'a paging_scheme \<Rightarrow> u32" where
  "peek p i s = words s (cell p i)"

definition poke :: "u32 \<Rightarrow> u32 \<Rightarrow> u32 \<Rightarrow> 'a paging_scheme \<Rightarrow> 'a paging_scheme" where
  "poke p i v s = s\<lparr>words := (words s)(cell p i := v)\<rparr>"

definition clear_page :: "u32 \<Rightarrow> 'a paging_scheme \<Rightarrow> 'a paging_scheme" where
  "clear_page p s = fold (\<lambda>i. poke p (of_nat i) 0) [0..<PAGE_ENTRIES] s"

definition invlpg :: "u32 \<Rightarrow> 'a machine_scheme \<Rightarrow> 'a machine_scheme" where
  "invlpg addr s = insn (Invlpg addr) s"

definition load_page_directory :: "u32 \<Rightarrow> 'a machine_scheme \<Rightarrow> 'a machine_scheme" where
  "load_page_directory pd s = wr (Creg 3) pd s"

definition enable_paging :: "device \<Rightarrow> 'a machine_scheme \<Rightarrow> 'a machine_scheme" where
  "enable_paging D s = (let (cr0, s) = rd D (Creg 0) s in wr (Creg 0) (cr0 OR 0x80000000 :: u32) s)"

definition get_cr2 :: "device \<Rightarrow> 'a machine_scheme \<Rightarrow> u32 \<times> 'a machine_scheme" where
  "get_cr2 D s = rd D (Creg 2) s"

section \<open>Physical pages\<close>

text \<open>The first clear bit of a bitmap word, and the search through the words \<open>is\<close>.\<close>

definition free_bit :: "u32 \<Rightarrow> nat option" where
  "free_bit w = find (\<lambda>b. w AND push_bit b 1 = 0) [0..<32]"

fun alloc_from :: "nat list \<Rightarrow> 'a paging_scheme \<Rightarrow> u32 \<times> 'a paging_scheme" where
  "alloc_from [] s = (0, s)"
| "alloc_from (i # is) s =
     (let w = peek (page_bitmap s) (of_nat i) s
      in case (if w \<noteq> 0xFFFFFFFF then free_bit w else None) of
           Some b \<Rightarrow> ((of_nat i * 32 + of_nat b) * PAGE_SIZE, poke (page_bitmap s) (of_nat i) (w OR push_bit b 1) s)
         | None \<Rightarrow> alloc_from is s)"

definition alloc_physical_page :: "'a paging_scheme \<Rightarrow> u32 \<times> 'a paging_scheme" where
  "alloc_physical_page s =
     (if page_bitmap s = 0 then (next_free_page s, s\<lparr>next_free_page := next_free_page s + PAGE_SIZE\<rparr>)
      else alloc_from [0..<unat (bitmap_size s)] s)"

definition free_physical_page :: "u32 \<Rightarrow> 'a paging_scheme \<Rightarrow> 'a paging_scheme" where
  "free_physical_page addr s =
     (if page_bitmap s = 0 then s
      else
        (let page_num = addr div PAGE_SIZE;
             bitmap_index = page_num div 32;
             bit_index = page_num mod 32
         in if bitmap_index < bitmap_size s
            then poke (page_bitmap s) bitmap_index
                   (peek (page_bitmap s) bitmap_index s AND NOT (push_bit (unat bit_index) 1)) s
            else s))"

definition paging_init :: "device \<Rightarrow> u32 \<Rightarrow> 'a paging_scheme \<Rightarrow> 'a paging_scheme" where
  "paging_init D memory_size s =
     (let s = s\<lparr>total_memory := memory_size\<rparr>;
          (pd, s) = alloc_physical_page s;
          s = s\<lparr>page_directory := pd\<rparr>;
          s = clear_page pd s;
          (first, s) = alloc_physical_page s;
          s = poke pd 0 (first OR PAGE_PRESENT OR PAGE_WRITABLE) s;
          s = fold (\<lambda>i. poke first (of_nat i) (of_nat i * PAGE_SIZE OR PAGE_PRESENT OR PAGE_WRITABLE)) [0..<PAGE_ENTRIES] s;
          s = poke pd KERNEL_PAGE_NUMBER (first OR PAGE_PRESENT OR PAGE_WRITABLE) s;
          total_pages = memory_size div PAGE_SIZE;
          s = s\<lparr>bitmap_size := (total_pages + 31) div 32\<rparr>;
          (bm, s) = alloc_physical_page s;
          s = s\<lparr>page_bitmap := bm\<rparr>;
          s = fold (\<lambda>i. poke bm (of_nat i) 0) [0..<unat (bitmap_size s)] s;
          kernel_pages = next_free_page s div PAGE_SIZE;
          s = fold (\<lambda>i s. if of_nat (i div 32) < bitmap_size s
                 then poke bm (of_nat (i div 32)) (peek bm (of_nat (i div 32)) s OR push_bit (i mod 32) 1) s else s)
                [0..<unat kernel_pages] s;
          s = load_page_directory pd s
      in enable_paging D s)"

section \<open>Mapping\<close>

definition dir_index :: "u32 \<Rightarrow> u32" where "dir_index v = drop_bit 22 v"
definition table_index :: "u32 \<Rightarrow> u32" where "table_index v = drop_bit 12 v AND 0x3FF"

definition table_of_entry :: "u32 \<Rightarrow> u32" where
  "table_of_entry e = e AND 0xFFFFF000"

definition dir_entry :: "u32 \<Rightarrow> 'a paging_scheme \<Rightarrow> u32" where
  "dir_entry v s = peek (page_directory s) (dir_index v) s"

definition paging_map_page :: "u32 \<Rightarrow> u32 \<Rightarrow> u32 \<Rightarrow> 'a paging_scheme \<Rightarrow> u32 \<times> 'a paging_scheme" where
  "paging_map_page v p flags s =
     (let (ok, s) =
        (if dir_entry v s AND PAGE_PRESENT = 0 then
           (let (page_table, s) = alloc_physical_page s
            in if page_table = 0 then (False, s)
               else (True, poke (page_directory s) (dir_index v)
                      (page_table OR PAGE_PRESENT OR PAGE_WRITABLE OR PAGE_USER) (clear_page page_table s)))
         else (True, s))
      in if \<not> ok then (0, s)
         else (1, invlpg v (poke (table_of_entry (dir_entry v s)) (table_index v) (p OR flags) s)))"

definition paging_unmap_page :: "u32 \<Rightarrow> 'a paging_scheme \<Rightarrow> 'a paging_scheme" where
  "paging_unmap_page v s =
     (if dir_entry v s AND PAGE_PRESENT = 0 then s
      else
        (let page_table = table_of_entry (dir_entry v s);
             e = peek page_table (table_index v) s
         in if e AND PAGE_PRESENT \<noteq> 0 then
              (let s = free_physical_page (e AND 0xFFFFF000) s;
                   s = poke page_table (table_index v) 0 s
               in invlpg v s)
            else s))"

definition paging_get_physical_addr :: "u32 \<Rightarrow> 'a paging_scheme \<Rightarrow> u32" where
  "paging_get_physical_addr v s =
     (if dir_entry v s AND PAGE_PRESENT = 0 then 0
      else
        (let e = peek (table_of_entry (dir_entry v s)) (table_index v) s
         in if e AND PAGE_PRESENT = 0 then 0 else (e AND 0xFFFFF000) + (v AND 0xFFF)))"

text \<open>The pages from \<open>v\<close> on, and the loop that maps them, undoing its work if memory runs out.\<close>

fun map_pages :: "u32 \<Rightarrow> nat \<Rightarrow> nat \<Rightarrow> 'a paging_scheme \<Rightarrow> u32 \<times> 'a paging_scheme" where
  "map_pages v j 0 s = (v, s)"
| "map_pages v j (Suc left) s =
     (case alloc_physical_page s of (p, s) \<Rightarrow>
        if p = 0 then (0, fold (\<lambda>k. paging_unmap_page (v + of_nat k * PAGE_SIZE)) [0..<j] s)
        else map_pages v (Suc j) left
               (snd (paging_map_page (v + of_nat j * PAGE_SIZE) p (PAGE_PRESENT OR PAGE_WRITABLE) s)))"

definition range_free :: "u32 \<Rightarrow> u32 \<Rightarrow> 'a paging_scheme \<Rightarrow> bool" where
  "range_free v count s \<longleftrightarrow>
     list_all (\<lambda>j. paging_get_physical_addr (v + of_nat j * PAGE_SIZE) s = 0) [0..<unat count]"

definition paging_alloc_pages :: "u32 \<Rightarrow> 'a paging_scheme \<Rightarrow> u32 \<times> 'a paging_scheme" where
  "paging_alloc_pages count s =
     (case find (\<lambda>i. range_free (0xD0000000 + of_nat i * PAGE_SIZE) count s) [0..<0x10000] of
        Some i \<Rightarrow> map_pages (0xD0000000 + of_nat i * PAGE_SIZE) 0 (unat count) s
      | None \<Rightarrow> (0, s))"

definition paging_free_pages :: "u32 \<Rightarrow> u32 \<Rightarrow> 'a paging_scheme \<Rightarrow> 'a paging_scheme" where
  "paging_free_pages ptr count s =
     fold (\<lambda>i. paging_unmap_page (ptr + of_nat i * PAGE_SIZE)) [0..<unat count] s"

definition fault_text :: string where
  "fault_text = ''Page fault at %08X'' @ [CHR 0x0A]"

definition paging_handle_page_fault :: "u32 \<Rightarrow> u32 \<Rightarrow> 'a paging_scheme \<Rightarrow> 'a paging_scheme" where
  "paging_handle_page_fault error_code v s =
     (let s = vga_printf (cstr fault_text) s
      in if error_code AND 1 \<noteq> 0 then vga_printf (cstr (''Protection violation'' @ [CHR 0x0A])) s
         else
           (let s = vga_printf (cstr (''Page not present'' @ [CHR 0x0A])) s
            in if 0xD0000000 \<le> v \<and> v < 0xE0000000 then
                 (let (p, s) = alloc_physical_page s
                  in if p \<noteq> 0 then snd (paging_map_page (v AND 0xFFFFF000) p (PAGE_PRESENT OR PAGE_WRITABLE) s) else s)
               else s))"

definition free_count :: "u32 \<Rightarrow> nat" where
  "free_count w = length (filter (\<lambda>b. w AND push_bit b 1 = 0) [0..<32])"

definition paging_get_free_memory :: "'a paging_scheme \<Rightarrow> u32" where
  "paging_get_free_memory s =
     (if page_bitmap s = 0 then 0
      else of_nat (sum_list (map (\<lambda>i. free_count (peek (page_bitmap s) (of_nat i) s)) [0..<unat (bitmap_size s)])) * PAGE_SIZE)"

definition paging_get_used_memory :: "'a paging_scheme \<Rightarrow> u32" where
  "paging_get_used_memory s = total_memory s - paging_get_free_memory s"

section \<open>Cells\<close>

definition page_aligned :: "u32 \<Rightarrow> bool" where
  "page_aligned p \<longleftrightarrow> unat p mod 4096 = 0"

lemma page_aligned_number: "page_aligned p \<Longrightarrow> \<exists>k < 2 ^ 20. unat p = 4096 * k"
  using unsigned_less [of p, where ?'a = nat] by (auto simp: page_aligned_def mod_eq_0_iff_dvd dvd_def)

lemma cell_unat:
  assumes "page_aligned p" "unat i < 1024"
  shows "unat (cell p i) = unat p + 4 * unat i"
proof -
  obtain k where k: "k < 2 ^ 20" "unat p = 4096 * k" using page_aligned_number assms(1) by blast
  moreover have "unat (4 * i) = 4 * unat i" using assms by (simp add: unat_word_ariths)
  ultimately show ?thesis using assms(2) by (simp add: cell_def unat_word_ariths(1))
qed

lemma cell_eq:
  assumes "page_aligned p" "page_aligned q" "unat i < 1024" "unat j < 1024"
  shows "cell p i = cell q j \<longleftrightarrow> p = q \<and> i = j"
proof -
  have "p = q \<and> i = j" if eq: "cell p i = cell q j"
  proof -
    obtain k where k: "unat p = 4096 * k" using page_aligned_number assms(1) by blast
    obtain l where l: "unat q = 4096 * l" using page_aligned_number assms(2) by blast
    have "unat p + 4 * unat i = unat q + 4 * unat j" using eq assms by (metis cell_unat)
    then have "1024 * k + unat i = 1024 * l + unat j" using k l by simp
    then have "(1024 * k + unat i) div 1024 = (1024 * l + unat j) div 1024" by simp
    then have "k = l" using assms(3,4) by simp
    with \<open>1024 * k + unat i = 1024 * l + unat j\<close> k l show ?thesis by (simp add: word_unat_eq_iff)
  qed
  then show ?thesis by blast
qed

lemma dir_index_less [simp]: "unat (dir_index v) < 1024"
  using unsigned_less [of v, where ?'a = nat] by (simp only: dir_index_def unat_drop_bit_eq) (simp add: drop_bit_eq_div)

lemma table_index_less [simp]: "unat (table_index v) < 1024"
  by (simp only: table_index_def and_masks unsigned_take_bit_eq) (simp add: take_bit_eq_mod)

lemma high_mask: "0xFFFFF000 = (NOT (mask 12) :: u32)"
  by (simp add: mask_eq_exp_minus_1)

lemma page_aligned_iff: "page_aligned p \<longleftrightarrow> take_bit 12 p = 0"
  by (simp only: page_aligned_def word_unat_eq_iff unsigned_take_bit_eq) (simp add: take_bit_eq_mod)

lemma table_of_entry_aligned [simp]: "page_aligned (table_of_entry e)"
  by (simp only: page_aligned_iff table_of_entry_def high_mask) (simp add: bit_eq_iff bit_simps)

lemma aligned_or:
  assumes "page_aligned p" "unat f < 4096"
  shows "(p OR f) AND 0xFFFFF000 = p"
proof -
  have p: "take_bit 12 p = 0" and f: "take_bit 12 f = f"
    using assms by (simp_all add: page_aligned_iff take_bit_small)
  have "bit ((p OR f) AND NOT (mask 12)) n = bit p n" if "n < 32" for n
  proof (cases "n < 12")
    case True
    then have "bit p n = bit (take_bit 12 p) n" by (simp add: bit_simps)
    with p True that show ?thesis by (simp add: bit_simps)
  next
    case False
    then have "\<not> bit (take_bit 12 f) n" by (simp add: bit_simps)
    with f False that show ?thesis by (simp add: bit_simps)
  qed
  then show ?thesis unfolding high_mask by (simp add: bit_eq_iff)
qed

lemma fill_words:
  assumes "n \<le> 2 ^ 30"
  shows "fold (\<lambda>i. poke p (of_nat i) (f i)) [0..<n] s =
    s\<lparr>words := (\<lambda>a. if unat (a - p) < 4 * n \<and> 4 dvd unat (a - p) then f (unat (a - p) div 4) else words s a)\<rparr>"
  using assms
proof (induction n)
  case (Suc n)
  have eq: "a = cell p (of_nat n) \<longleftrightarrow> unat (a - p) = 4 * n" for a
  proof -
    have "unat (4 * of_nat n :: u32) = 4 * n" using Suc.prems
      by (simp add: unat_word_ariths unat_of_nat)
    moreover have "a = cell p (of_nat n) \<longleftrightarrow> a - p = 4 * of_nat n" by (auto simp: cell_def algebra_simps)
    ultimately show ?thesis by (metis word_unat_eq_iff)
  qed
  have step: "m < 4 * Suc n \<and> 4 dvd m \<longleftrightarrow> m = 4 * n \<or> m < 4 * n \<and> 4 dvd m" for m
    by presburger
  have new: "(\<lambda>a. if unat (a - p) < 4 * Suc n \<and> 4 dvd unat (a - p) then f (unat (a - p) div 4) else words s a) =
      (\<lambda>a. if unat (a - p) < 4 * n \<and> 4 dvd unat (a - p) then f (unat (a - p) div 4) else words s a)
        (cell p (of_nat n) := f n)"
    by (auto simp only: fun_eq_iff step eq fun_upd_apply) simp_all
  show ?case using Suc by (simp only: new) (simp add: poke_def)
qed simp

lemma clear_page_words:
  "clear_page p s = s\<lparr>words := (\<lambda>a. if unat (a - p) < 4096 \<and> 4 dvd unat (a - p) then 0 else words s a)\<rparr>"
  using fill_words [of PAGE_ENTRIES p "\<lambda>_. 0" s] by (simp add: clear_page_def PAGE_ENTRIES_def)

lemma in_page:
  assumes "page_aligned p" "page_aligned q" "unat i < 1024"
  shows "unat (cell q i - p) < 4096 \<and> 4 dvd unat (cell q i - p) \<longleftrightarrow> q = p"
proof
  assume l: "unat (cell q i - p) < 4096 \<and> 4 dvd unat (cell q i - p)"
  then obtain k where k: "unat (cell q i - p) = 4 * k" "k < 1024" by (auto simp: dvd_def)
  have "cell q i - p = word_of_nat (4 * k)" by (simp flip: k(1))
  then have "cell q i = cell p (of_nat k)" by (simp add: cell_def algebra_simps)
  moreover have "unat (of_nat k :: u32) < 1024" using k(2) by (simp add: unat_of_nat)
  ultimately show "q = p" using cell_eq assms by blast
next
  assume "q = p"
  moreover have "unat (4 * i) = 4 * unat i" using assms by (simp add: unat_word_ariths)
  ultimately show "unat (cell q i - p) < 4096 \<and> 4 dvd unat (cell q i - p)" using assms(3) by (simp add: cell_def)
qed

lemma peek_clear_page:
  assumes "page_aligned p" "page_aligned q" "unat i < 1024"
  shows "peek q i (clear_page p s) = (if q = p then 0 else peek q i s)"
  by (simp add: peek_def clear_page_words in_page [OF assms])

lemma peek_poke:
  assumes "page_aligned p" "page_aligned q" "unat i < 1024" "unat j < 1024"
  shows "peek q j (poke p i v s) = (if q = p \<and> j = i then v else peek q j s)"
  using cell_eq [OF assms(2,1,4,3)] by (simp add: peek_def poke_def)

lemma paging_frames [simp]:
  "page_directory (poke p i v s) = page_directory s" "page_bitmap (poke p i v s) = page_bitmap s"
  "bitmap_size (poke p i v s) = bitmap_size s"
  "page_directory (clear_page p s) = page_directory s" "page_bitmap (clear_page p s) = page_bitmap s"
  "bitmap_size (clear_page p s) = bitmap_size s"
  "page_directory (invlpg v s) = page_directory s" "page_bitmap (invlpg v s) = page_bitmap s"
  "bitmap_size (invlpg v s) = bitmap_size s" "peek p i (invlpg v s) = peek p i s"
  by (simp_all add: poke_def clear_page_words invlpg_def insn_def peek_def)

section \<open>The bitmap\<close>

text \<open>The bit of page \<open>n\<close>.\<close>

definition page_used :: "nat \<Rightarrow> 'a paging_scheme \<Rightarrow> bool" where
  "page_used n s \<longleftrightarrow> bit (peek (page_bitmap s) (of_nat (n div 32)) s) (n mod 32)"

definition pages_managed :: "'a paging_scheme \<Rightarrow> nat" where
  "pages_managed s = 32 * unat (bitmap_size s)"

lemma bit_test: "w AND push_bit b 1 = 0 \<longleftrightarrow> \<not> bit w b" if "b < 32" for w :: u32
proof -
  have "bit (w AND push_bit b 1) n = (bit w b \<and> n = b)" if "n < 32" for n
    using \<open>b < 32\<close> that by (auto simp: bit_simps)
  then show ?thesis using \<open>b < 32\<close> by (auto simp: bit_eq_iff bit_simps)
qed

lemma free_bit_eq: "free_bit w = find (\<lambda>b. \<not> bit w b) [0..<32]"
  unfolding free_bit_def by (rule find_cong) (simp_all add: bit_test del: push_bit_of_1)

lemma free_bit_Some: "free_bit w = Some b \<Longrightarrow> b < 32 \<and> \<not> bit w b"
  by (auto simp: free_bit_eq find_Some_iff)

lemma free_bit_None: "free_bit w = None \<longleftrightarrow> w = 0xFFFFFFFF"
proof -
  have "(0xFFFFFFFF :: u32) = NOT 0" by simp
  then have "w = 0xFFFFFFFF \<longleftrightarrow> w = NOT 0" by metis
  also have "\<dots> \<longleftrightarrow> (\<forall>b<32. bit w b)" by (auto simp only: bit_eq_iff bit_not_iff) (auto simp: bit_simps)
  finally show ?thesis by (auto simp: free_bit_eq find_None_iff)
qed

text \<open>The search finds the first free page of the words it looks at.\<close>

lemma alloc_from_cases:
  "(\<forall>i \<in> set is. peek (page_bitmap s) (of_nat i) s = 0xFFFFFFFF) \<and> alloc_from is s = (0, s) \<or>
   (\<exists>i \<in> set is. \<exists>b < 32. \<not> bit (peek (page_bitmap s) (of_nat i) s) b \<and>
     alloc_from is s = ((of_nat i * 32 + of_nat b) * PAGE_SIZE,
       poke (page_bitmap s) (of_nat i) (peek (page_bitmap s) (of_nat i) s OR push_bit b 1) s))"
proof (induction "is")
  case (Cons i "is")
  show ?case
  proof (cases "free_bit (peek (page_bitmap s) (of_nat i) s)")
    case None
    then show ?thesis using Cons by (auto simp: free_bit_None)
  next
    case (Some b)
    moreover from Some have "peek (page_bitmap s) (of_nat i) s \<noteq> 0xFFFFFFFF" using free_bit_None [of "peek (page_bitmap s) (of_nat i) s"] by auto
    ultimately show ?thesis using free_bit_Some [OF Some] by (auto simp: Let_def)
  qed
qed simp

section \<open>Well-formed page tables\<close>

text \<open>A frame the allocator cannot hand out: beyond the bitmap, or marked as used.\<close>

definition frame_taken :: "u32 \<Rightarrow> 'a paging_scheme \<Rightarrow> bool" where
  "frame_taken f s \<longleftrightarrow> unat f div 4096 < pages_managed s \<longrightarrow> page_used (unat f div 4096) s"

definition dir_present :: "u32 \<Rightarrow> 'a paging_scheme \<Rightarrow> bool" where
  "dir_present i s \<longleftrightarrow> bit (peek (page_directory s) i s) 0"

definition dir_table :: "u32 \<Rightarrow> 'a paging_scheme \<Rightarrow> u32" where
  "dir_table i s = table_of_entry (peek (page_directory s) i s)"

definition paging_ok :: "'a paging_scheme \<Rightarrow> bool" where
  "paging_ok s \<longleftrightarrow> page_aligned (page_directory s) \<and> page_aligned (page_bitmap s) \<and>
     page_bitmap s \<noteq> 0 \<and> page_directory s \<noteq> page_bitmap s \<and> unat (bitmap_size s) \<le> 1024 \<and>
     frame_taken 0 s \<and> frame_taken (page_directory s) s \<and> frame_taken (page_bitmap s) s \<and>
     (\<forall>i. unat i < 1024 \<longrightarrow> dir_present i s \<longrightarrow> frame_taken (dir_table i s) s \<and>
        dir_table i s \<noteq> page_directory s \<and> dir_table i s \<noteq> page_bitmap s)"

lemma present_test: "e AND PAGE_PRESENT = 0 \<longleftrightarrow> \<not> bit e 0"
  using bit_test [of 0 e] by (simp add: PAGE_PRESENT_def)

lemma alloc_ok:
  assumes ok: "paging_ok s" and al: "alloc_physical_page s = (p, t)"
  shows "(p = 0 \<and> t = s \<and> (\<forall>n < pages_managed s. page_used n s)) \<or>
    (\<exists>n. n < pages_managed s \<and> \<not> page_used n s \<and> unat p = n * 4096 \<and> page_aligned p \<and> p \<noteq> 0 \<and> \<not> frame_taken p s \<and>
       t = poke (page_bitmap s) (of_nat (n div 32)) (peek (page_bitmap s) (of_nat (n div 32)) s OR push_bit (n mod 32) 1) s)"
proof -
  have sz: "unat (bitmap_size s) \<le> 1024" and z: "frame_taken 0 s" and al': "alloc_from [0..<unat (bitmap_size s)] s = (p, t)"
    using ok al by (auto simp: paging_ok_def alloc_physical_page_def)
  consider (none) "\<forall>i < unat (bitmap_size s). peek (page_bitmap s) (of_nat i) s = 0xFFFFFFFF" "p = 0" "t = s"
    | (one) i b where "i < unat (bitmap_size s)" "b < 32" "\<not> bit (peek (page_bitmap s) (of_nat i) s) b"
      "p = (of_nat i * 32 + of_nat b) * PAGE_SIZE"
      "t = poke (page_bitmap s) (of_nat i) (peek (page_bitmap s) (of_nat i) s OR push_bit b 1) s"
    using alloc_from_cases [of "[0..<unat (bitmap_size s)]" s] al' by auto
  then show ?thesis
  proof cases
    case none
    have m1: "(0xFFFFFFFF :: u32) = NOT 0" by simp
    have "page_used n s" if "n < pages_managed s" for n
      using that none(1) by (simp add: page_used_def pages_managed_def less_mult_imp_div_less mult.commute m1 bit_not_iff)
    with none show ?thesis by blast
  next
    case (one i b)
    define n where "n = 32 * i + b"
    have n: "n div 32 = i" "n mod 32 = b" "n < pages_managed s" "n < 32768"
      using one(1,2) sz by (auto simp: n_def pages_managed_def)
    have u: "unat p = n * 4096"
    proof -
      have "p = of_nat (n * 4096)" by (simp add: one(4) n_def PAGE_SIZE_def algebra_simps)
      with n(4) show ?thesis by (simp add: unat_word_ariths unat_of_nat)
    qed
    have "\<not> page_used n s" using one(3) n by (simp add: page_used_def)
    moreover from this have "p \<noteq> 0" using z u n(3) by (auto simp: frame_taken_def)
    moreover have "page_aligned p" by (simp add: page_aligned_def u)
    moreover have "\<not> frame_taken p s" using calculation(1) n(3) by (simp add: frame_taken_def u)
    ultimately show ?thesis using u n one(5) by blast
  qed
qed

lemma bitmap_word: "n < pages_managed s \<Longrightarrow> paging_ok s \<Longrightarrow> unat (of_nat (n div 32) :: u32) < 1024"
  by (simp add: pages_managed_def paging_ok_def unat_of_nat less_mult_imp_div_less mult.commute)

text \<open>Marking a page keeps everything but its bit.\<close>

lemma page_used_mark:
  assumes ok: "paging_ok s" and n: "n < pages_managed s" and m: "m < pages_managed s"
    and t: "t = poke (page_bitmap s) (of_nat (n div 32)) (peek (page_bitmap s) (of_nat (n div 32)) s OR push_bit (n mod 32) 1) s"
  shows "page_used m t \<longleftrightarrow> m = n \<or> page_used m s"
proof -
  note i = bitmap_word [OF n ok] and j = bitmap_word [OF m ok]
  have al: "page_aligned (page_bitmap s)" using ok by (simp add: paging_ok_def)
  have idx: "(of_nat (m div 32) :: u32) = of_nat (n div 32) \<longleftrightarrow> m div 32 = n div 32"
  proof -
    have "m < 1024 * 32" "n < 1024 * 32" using ok n m by (simp_all add: pages_managed_def paging_ok_def)
    then have "m div 32 < 1024" "n div 32 < 1024" by (simp_all only: less_mult_imp_div_less)
    then show ?thesis by (simp add: of_nat_inverse word_unat_eq_iff unat_of_nat)
  qed
  have "m = n \<longleftrightarrow> m div 32 = n div 32 \<and> m mod 32 = n mod 32" by (metis div_mult_mod_eq)
  then show ?thesis unfolding t page_used_def
    by (auto simp: peek_poke [OF al al i j] idx bit_simps)
qed

lemma paging_ok_mark:
  assumes ok: "paging_ok s" and n: "n < pages_managed s"
    and t: "t = poke (page_bitmap s) (of_nat (n div 32)) (peek (page_bitmap s) (of_nat (n div 32)) s OR push_bit (n mod 32) 1) s"
  shows "paging_ok t" "frame_taken f s \<Longrightarrow> frame_taken f t" "unat f div 4096 = n \<Longrightarrow> frame_taken f t"
    "page_aligned q \<Longrightarrow> unat j < 1024 \<Longrightarrow> q \<noteq> page_bitmap s \<Longrightarrow> peek q j t = peek q j s"
proof -
  have m: "pages_managed t = pages_managed s" by (simp add: t pages_managed_def)
  note used = page_used_mark [OF ok n _ t]
  show keep: "frame_taken f s \<Longrightarrow> frame_taken f t" for f by (auto simp: frame_taken_def m used)
  show "unat f div 4096 = n \<Longrightarrow> frame_taken f t" by (auto simp: frame_taken_def m used)
  have al: "page_aligned (page_bitmap s)" using ok by (simp add: paging_ok_def)
  show other: "page_aligned q \<Longrightarrow> unat j < 1024 \<Longrightarrow> q \<noteq> page_bitmap s \<Longrightarrow> peek q j t = peek q j s" for q j
    by (simp add: t peek_poke [OF al _ bitmap_word [OF n ok]])
  show "paging_ok t" using ok keep other
    by (auto simp: paging_ok_def dir_present_def dir_table_def t)
qed

lemma frame_taken_cong:
  assumes "page_bitmap t = page_bitmap s" "bitmap_size t = bitmap_size s" "unat (bitmap_size s) \<le> 1024"
    and "\<forall>j. unat j < 1024 \<longrightarrow> peek (page_bitmap s) j t = peek (page_bitmap s) j s"
  shows "frame_taken f t \<longleftrightarrow> frame_taken f s"
proof -
  have "page_used n t = page_used n s" if "n < pages_managed s" for n
  proof -
    have "n < 1024 * 32" using that assms(3) by (simp add: pages_managed_def)
    then have "n div 32 < 1024" by (simp only: less_mult_imp_div_less)
    then show ?thesis using assms(1,4) by (simp add: page_used_def unat_of_nat)
  qed
  then show ?thesis using assms(2) by (auto simp: frame_taken_def pages_managed_def)
qed

lemma paging_get_physical_addr_eq:
  "paging_get_physical_addr v s =
     (if dir_present (dir_index v) s \<and> bit (peek (dir_table (dir_index v) s) (table_index v) s) 0
      then (peek (dir_table (dir_index v) s) (table_index v) s AND 0xFFFFF000) + (v AND 0xFFF) else 0)"
  by (simp add: paging_get_physical_addr_def dir_entry_def dir_present_def dir_table_def present_test)

text \<open>The page-table cell that translates an address, if there is one.\<close>

definition leaf :: "u32 \<Rightarrow> 'a paging_scheme \<Rightarrow> (u32 \<times> u32) option" where
  "leaf v s = (if dir_present (dir_index v) s then Some (dir_table (dir_index v) s, table_index v) else None)"

text \<open>A new, empty table for an address without one.\<close>

lemma new_table:
  fixes s :: "'a paging_scheme"
  assumes ok: "paging_ok s" and no: "\<not> dir_present i s" and i: "unat i < 1024"
    and al: "alloc_physical_page s = (q, s1)" and q: "q \<noteq> 0"
    and t: "t = poke (page_directory s1) i (q OR PAGE_PRESENT OR PAGE_WRITABLE OR PAGE_USER) (clear_page q s1)"
  shows "paging_ok t" "dir_present i t" "paging_get_physical_addr w t = paging_get_physical_addr w s"
proof -
  obtain n where n: "n < pages_managed s" "unat q = n * 4096" "page_aligned q" "\<not> frame_taken q s"
    and s1: "s1 = poke (page_bitmap s) (of_nat (n div 32)) (peek (page_bitmap s) (of_nat (n div 32)) s OR push_bit (n mod 32) 1) s"
    using alloc_ok [OF ok al] q by blast
  note mark = paging_ok_mark [OF ok n(1) s1]
  have fields: "page_directory s1 = page_directory s" "page_bitmap s1 = page_bitmap s" "bitmap_size s1 = bitmap_size s"
    by (simp_all add: s1)
  have ok': "page_aligned (page_directory s)" "page_aligned (page_bitmap s)" "page_directory s \<noteq> page_bitmap s"
    "q \<noteq> page_directory s" "q \<noteq> page_bitmap s"
    using ok n(4) by (auto simp: paging_ok_def)
  have e: "table_of_entry (q OR PAGE_PRESENT OR PAGE_WRITABLE OR PAGE_USER) = q"
    "bit (q OR PAGE_PRESENT OR PAGE_WRITABLE OR PAGE_USER) 0"
  proof -
    have small: "PAGE_PRESENT OR PAGE_WRITABLE OR PAGE_USER = 7"
      by (simp add: PAGE_PRESENT_def PAGE_WRITABLE_def PAGE_USER_def)
    show "table_of_entry (q OR PAGE_PRESENT OR PAGE_WRITABLE OR PAGE_USER) = q"
      unfolding table_of_entry_def or.assoc small by (rule aligned_or [OF n(3)]) simp
    show "bit (q OR PAGE_PRESENT OR PAGE_WRITABLE OR PAGE_USER) 0"
      by (simp only: or.assoc small) (simp add: bit_simps)
  qed
  have pk: "peek p j t = (if p = page_directory s \<and> j = i then q OR PAGE_PRESENT OR PAGE_WRITABLE OR PAGE_USER
      else if p = q then 0 else peek p j s1)" if "page_aligned p" "unat j < 1024" for p j
    using ok' i n(3) that by (simp add: t fields peek_poke peek_clear_page)
  have tf: "page_directory t = page_directory s" "page_bitmap t = page_bitmap s" "bitmap_size t = bitmap_size s"
    by (simp_all add: t fields)
  have dir: "peek (page_directory s) j t = (if j = i then q OR PAGE_PRESENT OR PAGE_WRITABLE OR PAGE_USER
      else peek (page_directory s) j s)" if "unat j < 1024" for j
    using ok' that by (simp add: pk mark(4))
  show pres: "dir_present i t" using e(2) i by (simp add: dir_present_def tf dir)
  have taken: "frame_taken f t \<longleftrightarrow> frame_taken f s1" for f
    using mark(1) ok' by (intro frame_taken_cong) (auto simp: tf fields pk paging_ok_def)
  have "frame_taken q s1" using n(2) mark(3) by simp
  then show "paging_ok t" using ok mark(2) ok' e
    by (auto simp: paging_ok_def taken tf dir dir_present_def dir_table_def)
  have other: "peek (dir_table j s) (table_index w) t = peek (dir_table j s) (table_index w) s"
    if "dir_present j s" "unat j < 1024" for j
  proof -
    have "dir_table j s \<noteq> page_directory s" "dir_table j s \<noteq> page_bitmap s" "dir_table j s \<noteq> q" "page_aligned (dir_table j s)"
      using ok that n(4) by (auto simp: paging_ok_def dir_table_def)
    then show ?thesis by (simp add: pk mark(4))
  qed
  show "paging_get_physical_addr w t = paging_get_physical_addr w s"
  proof (cases "dir_index w = i")
    case True
    have "dir_table i t = q" using e(1) i by (simp add: dir_table_def tf dir)
    moreover have "peek q (table_index w) t = 0" using ok' n(3) by (simp add: pk)
    ultimately show ?thesis using True no by (simp add: paging_get_physical_addr_eq)
  next
    case False
    then have "dir_present (dir_index w) t = dir_present (dir_index w) s" "dir_table (dir_index w) t = dir_table (dir_index w) s"
      by (simp_all add: dir_present_def dir_table_def tf dir)
    with other show ?thesis by (cases "dir_present (dir_index w) s") (simp_all add: paging_get_physical_addr_eq)
  qed
qed

text \<open>An entry in the table of an address that has one.\<close>

lemma entry_fields:
  assumes p: "page_aligned p" and fl: "bit flags 0" "unat flags < 4096"
  shows "bit (p OR flags) 0" "(p OR flags) AND 0xFFFFF000 = p"
  using fl aligned_or [OF p fl(2)] by (simp_all add: bit_simps)

lemma set_entry:
  fixes s :: "'a paging_scheme"
  assumes ok: "paging_ok s" and pres: "dir_present (dir_index v) s"
    and p: "page_aligned p" and fl: "bit flags 0" "unat flags < 4096"
    and t: "t = invlpg v (poke (dir_table (dir_index v) s) (table_index v) (p OR flags) s)"
  shows "paging_ok t" "leaf w t = leaf w s"
    "paging_get_physical_addr w t = (if leaf w s = leaf v s then p + (w AND 0xFFF) else paging_get_physical_addr w s)"
proof -
  let ?q = "dir_table (dir_index v) s"
  have q: "page_aligned ?q" "?q \<noteq> page_directory s" "?q \<noteq> page_bitmap s"
    using ok pres by (auto simp: paging_ok_def dir_table_def)
  have ok': "page_aligned (page_directory s)" "page_aligned (page_bitmap s)" "unat (bitmap_size s) \<le> 1024"
    using ok by (simp_all add: paging_ok_def)
  have pk: "peek r j t = (if r = ?q \<and> j = table_index v then p OR flags else peek r j s)"
    if "page_aligned r" "unat j < 1024" for r j
    using that q by (simp add: t peek_poke)
  have tf: "page_directory t = page_directory s" "page_bitmap t = page_bitmap s" "bitmap_size t = bitmap_size s"
    by (simp_all add: t)
  have taken: "frame_taken f t \<longleftrightarrow> frame_taken f s" for f
    using ok' q by (intro frame_taken_cong) (auto simp: tf pk)
  have dirs: "dir_present i t = dir_present i s" "dir_table i t = dir_table i s" if "unat i < 1024" for i
    using that q ok' by (simp_all add: dir_present_def dir_table_def tf pk)
  show "paging_ok t" using ok by (simp add: paging_ok_def taken tf dirs)
  show "leaf w t = leaf w s" by (simp add: leaf_def dirs)
  have al: "page_aligned (dir_table (dir_index w) s)" by (simp add: dir_table_def)
  show "paging_get_physical_addr w t = (if leaf w s = leaf v s then p + (w AND 0xFFF) else paging_get_physical_addr w s)"
    using pres entry_fields [OF p fl] al by (auto simp: paging_get_physical_addr_eq dirs pk leaf_def split: if_splits)
qed

section \<open>Initialization\<close>

lemma cell_index_eq:
  assumes "i < 2 ^ 30" "j < 2 ^ 30"
  shows "cell p (of_nat i) = cell p (of_nat j) \<longleftrightarrow> i = j"
proof -
  have "unat (4 * of_nat i :: u32) = 4 * i" "unat (4 * of_nat j :: u32) = 4 * j"
    using assms by (simp_all add: unat_word_ariths unat_of_nat)
  then show ?thesis by (metis cell_def add_left_cancel mult_cancel1 zero_neq_numeral)
qed

text \<open>The loop that marks the first pages as used, and nothing outside the bitmap.\<close>

definition mark_pages :: "u32 \<Rightarrow> nat \<Rightarrow> 'a paging_scheme \<Rightarrow> 'a paging_scheme" where
  "mark_pages bm k = fold (\<lambda>i s. if of_nat (i div 32) < bitmap_size s
     then poke bm (of_nat (i div 32)) (peek bm (of_nat (i div 32)) s OR push_bit (i mod 32) 1) s else s) [0..<k]"

lemma mark_pages_Suc:
  "mark_pages bm (Suc k) s = (let t = mark_pages bm k s in
     if of_nat (k div 32) < bitmap_size t
     then poke bm (of_nat (k div 32)) (peek bm (of_nat (k div 32)) t OR push_bit (k mod 32) 1) t else t)"
  by (simp add: mark_pages_def Let_def)

lemma mark_pages_frame: "\<exists>f. mark_pages bm k s = s\<lparr>words := f\<rparr>"
proof (induction k)
  case 0
  then show ?case by (intro exI [of _ "words s"]) (simp add: mark_pages_def)
next
  case (Suc k)
  then obtain f where "mark_pages bm k s = s\<lparr>words := f\<rparr>" by blast
  then show ?case by (auto simp: mark_pages_Suc poke_def Let_def simp del: push_bit_of_1)
qed

lemma mark_pages_fields [simp]:
  "page_directory (mark_pages bm k s) = page_directory s" "page_bitmap (mark_pages bm k s) = page_bitmap s"
  "bitmap_size (mark_pages bm k s) = bitmap_size s" "next_free_page (mark_pages bm k s) = next_free_page s"
  "total_memory (mark_pages bm k s) = total_memory s" "trace (mark_pages bm k s) = trace s"
  using mark_pages_frame [of bm k s] by auto

lemma mark_step:
  fixes s :: "'a paging_scheme"
  assumes k: "k < 2 ^ 30" and b: "unat (bitmap_size s) \<le> 2 ^ 30"
  shows "m < pages_managed s \<Longrightarrow> bit (peek bm (of_nat (m div 32)) (mark_pages bm (Suc k) s)) (m mod 32) \<longleftrightarrow>
      m = k \<or> bit (peek bm (of_nat (m div 32)) (mark_pages bm k s)) (m mod 32)"
    and "\<not> unat (a - bm) < 4 * unat (bitmap_size s) \<Longrightarrow> words (mark_pages bm (Suc k) s) a = words (mark_pages bm k s) a"
proof -
  have less: "of_nat (k div 32) < bitmap_size s \<longleftrightarrow> k < pages_managed s"
  proof -
    have "unat (of_nat (k div 32) :: u32) = k div 32" using k by (simp add: unat_of_nat)
    moreover have "k div 32 < unat (bitmap_size s) \<longleftrightarrow> k < pages_managed s"
      by (simp add: pages_managed_def div_less_iff_less_mult mult.commute)
    ultimately show ?thesis by (simp add: word_less_nat_alt)
  qed
  show "bit (peek bm (of_nat (m div 32)) (mark_pages bm (Suc k) s)) (m mod 32) \<longleftrightarrow>
      m = k \<or> bit (peek bm (of_nat (m div 32)) (mark_pages bm k s)) (m mod 32)" if m: "m < pages_managed s"
  proof (cases "k < pages_managed s")
    case True
    have "m div 32 < 2 ^ 30" "k div 32 < 2 ^ 30" using m b k by (simp_all add: pages_managed_def)
    then have "cell bm (of_nat (m div 32)) = cell bm (of_nat (k div 32)) \<longleftrightarrow> m div 32 = k div 32"
      by (rule cell_index_eq)
    moreover have "m = k \<longleftrightarrow> m div 32 = k div 32 \<and> m mod 32 = k mod 32" by (metis div_mult_mod_eq)
    ultimately show ?thesis using True less
      by (auto simp: mark_pages_Suc Let_def peek_def poke_def bit_simps simp del: push_bit_of_1)
  next
    case False
    with m less show ?thesis by (auto simp: mark_pages_Suc)
  qed
  show "words (mark_pages bm (Suc k) s) a = words (mark_pages bm k s) a" if a: "\<not> unat (a - bm) < 4 * unat (bitmap_size s)"
  proof -
    have "a \<noteq> cell bm (of_nat (k div 32))" if kp: "k < pages_managed s"
    proof
      assume "a = cell bm (of_nat (k div 32))"
      moreover have kk: "k div 32 < unat (bitmap_size s)"
        using kp by (simp add: pages_managed_def less_mult_imp_div_less mult.commute)
      moreover have "unat (4 * of_nat (k div 32) :: u32) = 4 * (k div 32)"
        using k by (simp add: unat_word_ariths unat_of_nat)
      ultimately show False using a by (simp add: cell_def)
    qed
    with less show ?thesis by (simp add: mark_pages_Suc Let_def poke_def)
  qed
qed

lemma mark_pages_words:
  fixes s :: "'a paging_scheme"
  assumes "k < 2 ^ 30" "unat (bitmap_size s) \<le> 2 ^ 30"
  shows "m < pages_managed s \<Longrightarrow> bit (peek bm (of_nat (m div 32)) (mark_pages bm k s)) (m mod 32) \<longleftrightarrow>
      m < k \<or> bit (peek bm (of_nat (m div 32)) s) (m mod 32)"
    and "\<not> unat (a - bm) < 4 * unat (bitmap_size s) \<Longrightarrow> words (mark_pages bm k s) a = words s a"
  using assms(1)
  by (induction k) (auto simp: mark_pages_def [of bm 0] mark_step [OF _ assms(2)] less_Suc_eq)

text \<open>The memory \<open>paging_init\<close> leaves: the directory at 4 MiB, its first table and the bitmap after it.\<close>

definition first_words :: "nat \<Rightarrow> (u32 \<Rightarrow> u32) \<Rightarrow> u32 \<Rightarrow> u32" where
  "first_words n w a =
     (if unat (a - 0x402000) < 4 * n \<and> 4 dvd unat (a - 0x402000) then 0
      else if a = cell 0x400000 KERNEL_PAGE_NUMBER then 0x401003
      else if unat (a - 0x401000) < 4096 \<and> 4 dvd unat (a - 0x401000)
      then of_nat (unat (a - 0x401000) div 4) * PAGE_SIZE OR PAGE_PRESENT OR PAGE_WRITABLE
      else if a = cell 0x400000 0 then 0x401003
      else if unat (a - 0x400000) < 4096 \<and> 4 dvd unat (a - 0x400000) then 0 else w a)"

definition bitmap_words :: "u32 \<Rightarrow> u32" where
  "bitmap_words memory_size = (memory_size div PAGE_SIZE + 31) div 32"

lemma bitmap_words_unat: "unat (bitmap_words m) = (unat m div 4096 + 31) div 32"
proof -
  have "unat m div 4096 < 2 ^ 20" using unsigned_less [of m, where ?'a = nat] by (simp add: div_less_iff_less_mult)
  then show ?thesis by (simp add: bitmap_words_def PAGE_SIZE_def unat_div_distrib unat_word_ariths(1))
qed

lemma bitmap_words_le: "unat (bitmap_words m) \<le> 32768"
  using unsigned_less [of m, where ?'a = nat] by (simp add: bitmap_words_unat)

lemma fold_poke_fields [simp]:
  "page_bitmap (fold (\<lambda>i. poke p (of_nat i) (f i)) xs s) = page_bitmap s"
  "next_free_page (fold (\<lambda>i. poke p (of_nat i) (f i)) xs s) = next_free_page s"
  "bitmap_size (fold (\<lambda>i. poke p (of_nat i) (f i)) xs s) = bitmap_size s"
  by (induction xs arbitrary: s) (simp_all add: poke_def)

lemma clear_poke_fields [simp]:
  "next_free_page (clear_page p s) = next_free_page s" "next_free_page (poke p i v s) = next_free_page s"
  by (simp_all add: clear_page_words poke_def)

lemma paging_init_eq:
  fixes s :: "'a paging_scheme"
  assumes "page_bitmap s = 0" "next_free_page s = 0x400000"
  shows "\<exists>v. paging_init D memory_size s =
    (mark_pages 0x402000 0x403 (s\<lparr>total_memory := memory_size, page_directory := 0x400000,
       bitmap_size := bitmap_words memory_size, next_free_page := 0x403000, page_bitmap := 0x402000,
       words := first_words (unat (bitmap_words memory_size)) (words s)\<rparr>))
     \<lparr>trace := trace s @ [Wr (Creg 3) 0x400000, Rd (Creg 0) v, Wr (Creg 0) (ucast (ucast v OR 0x80000000 :: u32))]\<rparr>"
proof -
  let ?n = "unat (bitmap_words memory_size)"
  have n: "?n \<le> 2 ^ 30" using bitmap_words_le [of memory_size] by simp
  have fl: "0x401000 OR PAGE_PRESENT OR PAGE_WRITABLE = (0x401003 :: u32)"
    by (simp add: PAGE_PRESENT_def PAGE_WRITABLE_def)
  have kp: "unat ((0x403000 :: u32) div PAGE_SIZE) = 0x403" by (simp add: PAGE_SIZE_def)
  have pe: "PAGE_ENTRIES \<le> 2 ^ 30" "4 * PAGE_ENTRIES = 4096" by (simp_all add: PAGE_ENTRIES_def)
  note fill1 = fill_words [OF pe(1), of "0x401000" "\<lambda>i. of_nat i * PAGE_SIZE OR PAGE_PRESENT OR PAGE_WRITABLE"]
  note fill2 = fill_words [OF n, of "0x402000" "\<lambda>_. 0"]
  have ps: "0x400000 + PAGE_SIZE = (0x401000 :: u32)" "0x401000 + PAGE_SIZE = (0x402000 :: u32)" "0x402000 + PAGE_SIZE = (0x403000 :: u32)"
    by (simp_all add: PAGE_SIZE_def)
  have al: "alloc_physical_page u = (next_free_page u, u\<lparr>next_free_page := next_free_page u + PAGE_SIZE\<rparr>)"
    if "page_bitmap u = 0" for u :: "'a paging_scheme"
    using that by (simp add: alloc_physical_page_def)
  show ?thesis
    by (rule exI [of _ "ucast (ucast (D (trace s @ [Wr (Creg 3) 0x400000]) (Creg 0)) :: u32)"],
        simp add: paging_init_def al assms bitmap_words_def [symmetric] ps Let_def,
        simp add: mark_pages_def [symmetric] ps kp fill1 fill2 pe,
        simp add: clear_page_words poke_def fl pe first_words_def [abs_def] fun_upd_def cong: if_cong,
        simp add: enable_paging_def load_page_directory_def bus)
qed

lemma below_bitmap:
  fixes a :: u32
  assumes "unat a < 0x402000" "n \<le> 32768"
  shows "\<not> unat (a - 0x402000) < 4 * n"
  using assms by (simp add: unat_sub_if')

lemma page_addresses: "page_aligned 0x400000" "page_aligned 0x401000" "page_aligned 0x402000"
  by (simp_all add: page_aligned_def)

lemma first_words_tables:
  assumes "n \<le> 32768" "unat i < 1024"
  shows "first_words n w (cell 0x400000 i) = (if i = 0 \<or> i = KERNEL_PAGE_NUMBER then 0x401003 else 0)"
    and "first_words n w (cell 0x401000 i) = i * PAGE_SIZE OR PAGE_PRESENT OR PAGE_WRITABLE"
proof -
  note al = page_addresses
  have k: "unat KERNEL_PAGE_NUMBER < 1024" by (simp add: KERNEL_PAGE_NUMBER_def)
  have "unat (cell 0x400000 i) < 0x402000" "unat (cell 0x401000 i) < 0x402000"
    using cell_unat [OF al(1) assms(2)] cell_unat [OF al(2) assms(2)] assms(2) by simp_all
  note nb = this [THEN below_bitmap [OF _ assms(1)]]
  show "first_words n w (cell 0x400000 i) = (if i = 0 \<or> i = KERNEL_PAGE_NUMBER then 0x401003 else 0)"
    using nb(1) in_page [OF al(2,1) assms(2)] in_page [OF al(1,1) assms(2)] cell_eq [OF al(1,1) assms(2) k]
      cell_eq [OF al(1,1) assms(2), of 0]
    by (auto simp: first_words_def)
  have "unat (cell 0x401000 i - 0x401000) = 4 * unat i"
    using assms(2) by (simp add: cell_def unat_word_ariths)
  then show "first_words n w (cell 0x401000 i) = i * PAGE_SIZE OR PAGE_PRESENT OR PAGE_WRITABLE"
    using nb(2) assms(2) cell_eq [OF al(2,1) assms(2) k] by (simp add: first_words_def)
qed

lemma first_words_bitmap:
  assumes "i < n" "n \<le> 32768"
  shows "first_words n w (cell 0x402000 (of_nat i)) = 0"
proof -
  have "unat (4 * of_nat i :: u32) = 4 * i" using assms by (simp add: unat_word_ariths unat_of_nat)
  then show ?thesis using assms by (simp add: first_words_def cell_def)
qed

text \<open>The tables and the bitmap after initialization.\<close>

lemma paging_init_tables:
  fixes s :: "'a paging_scheme"
  assumes "page_bitmap s = 0" "next_free_page s = 0x400000" and t: "t = paging_init D memory_size s"
  shows "page_directory t = 0x400000" "page_bitmap t = 0x402000" "bitmap_size t = bitmap_words memory_size"
    "unat i < 1024 \<Longrightarrow> peek 0x400000 i t = (if i = 0 \<or> i = KERNEL_PAGE_NUMBER then 0x401003 else 0)"
    "unat i < 1024 \<Longrightarrow> peek 0x401000 i t = i * PAGE_SIZE OR PAGE_PRESENT OR PAGE_WRITABLE"
    "m < pages_managed t \<Longrightarrow> page_used m t \<longleftrightarrow> m < 0x403"
proof -
  let ?n = "unat (bitmap_words memory_size)"
  let ?u = "s\<lparr>total_memory := memory_size, page_directory := 0x400000,
       bitmap_size := bitmap_words memory_size, next_free_page := 0x403000, page_bitmap := 0x402000,
       words := first_words ?n (words s)\<rparr>"
  obtain tr where te: "t = (mark_pages 0x402000 0x403 ?u)\<lparr>trace := tr\<rparr>"
    using paging_init_eq [OF assms(1,2)] t by metis
  note n = bitmap_words_le [of memory_size]
  have small: "(0x403 :: nat) < 2 ^ 30" "unat (bitmap_size ?u) \<le> 2 ^ 30" using n by simp_all
  note mark = mark_pages_words [where bm = "0x402000" and s = ?u, OF small]
  note al = page_addresses
  show "page_directory t = 0x400000" "page_bitmap t = 0x402000" "bitmap_size t = bitmap_words memory_size"
    by (simp_all add: te)
  have below: "peek p i t = first_words ?n (words s) (cell p i)" if "unat (cell p i) < 0x402000" for p i
    using mark(2) [of "cell p i"] below_bitmap [OF that n] by (simp add: te peek_def)
  show "unat i < 1024 \<Longrightarrow> peek 0x400000 i t = (if i = 0 \<or> i = KERNEL_PAGE_NUMBER then 0x401003 else 0)"
    "unat i < 1024 \<Longrightarrow> peek 0x401000 i t = i * PAGE_SIZE OR PAGE_PRESENT OR PAGE_WRITABLE" for i
    using first_words_tables [OF n] below cell_unat [OF al(1)] cell_unat [OF al(2)] by simp_all
  show "page_used m t \<longleftrightarrow> m < 0x403" if m: "m < pages_managed t"
  proof -
    have "m div 32 < ?n" "m < pages_managed ?u"
      using m by (simp_all add: pages_managed_def te less_mult_imp_div_less mult.commute)
    then show ?thesis using mark(1) [of m] first_words_bitmap [OF _ n] by (simp add: page_used_def te peek_def)
  qed
qed

text \<open>The first table maps its 4 MiB to themselves.\<close>

lemma frame_number: "unat (table_index v * PAGE_SIZE) = 4096 * (unat v div 4096 mod 1024)"
proof -
  have ti: "unat (table_index v) = unat v div 4096 mod 1024"
    by (simp only: table_index_def and_masks unsigned_take_bit_eq unat_drop_bit_eq)
      (simp add: take_bit_eq_mod drop_bit_eq_div)
  have "unat v div 4096 mod 1024 < 1024" by simp
  then show ?thesis by (simp add: unat_word_ariths ti PAGE_SIZE_def)
qed

lemma index_aligned: "page_aligned (table_index v * PAGE_SIZE)"
  by (simp add: page_aligned_def frame_number)

lemma low_address: "table_index v * PAGE_SIZE + (v AND 0xFFF) = take_bit 22 v"
proof -
  have low: "unat (v AND 0xFFF) = unat v mod 4096"
    by (simp only: and_masks unsigned_take_bit_eq) (simp add: take_bit_eq_mod)
  have "unat v div 4096 mod 1024 < 1024" by simp
  then have "unat (table_index v * PAGE_SIZE + (v AND 0xFFF)) = 4096 * (unat v div 4096 mod 1024) + unat v mod 4096"
    by (simp add: unat_word_ariths(1) frame_number low)
  also have "\<dots> = unat v mod (4096 * 1024)" by (simp only: mod_mult2_eq)
  also have "\<dots> = unat (take_bit 22 v)" by (simp only: unsigned_take_bit_eq) (simp add: take_bit_eq_mod)
  finally show ?thesis by (simp only: word_unat_eq_iff)
qed

lemma dir_index_ranges:
  "dir_index v = 0 \<longleftrightarrow> v < 0x400000"
  "dir_index v = KERNEL_PAGE_NUMBER \<longleftrightarrow> 0xC0000000 \<le> v \<and> v < 0xC0400000"
proof -
  have d: "unat (dir_index v) = unat v div 0x400000"
    by (simp only: dir_index_def unat_drop_bit_eq) (simp add: drop_bit_eq_div)
  show "dir_index v = 0 \<longleftrightarrow> v < 0x400000"
    by (simp only: word_unat_eq_iff d) (auto simp: word_less_nat_alt div_eq_0_iff)
  have k: "unat KERNEL_PAGE_NUMBER = 768" by (simp add: KERNEL_PAGE_NUMBER_def)
  have "unat v div 0x400000 = 768 \<longleftrightarrow> 0xC0000000 \<le> unat v \<and> unat v < 0xC0400000" by linarith
  then show "dir_index v = KERNEL_PAGE_NUMBER \<longleftrightarrow> 0xC0000000 \<le> v \<and> v < 0xC0400000"
    by (simp add: word_unat_eq_iff d k word_less_nat_alt word_le_nat_alt)
qed

lemma kernel_index_nonzero: "KERNEL_PAGE_NUMBER \<noteq> 0"
  by (simp add: KERNEL_PAGE_NUMBER_def)

lemma paging_init_ok:
  fixes s :: "'a paging_scheme"
  assumes "page_bitmap s = 0" "next_free_page s = 0x400000" "unat memory_size < 0x8001000"
  shows "paging_ok (paging_init D memory_size s)"
proof -
  let ?t = "paging_init D memory_size s"
  note t = paging_init_tables [OF assms(1,2) refl, where D = D and memory_size = memory_size]
  have "unat (bitmap_words memory_size) \<le> 1024" using assms(3) by (simp add: bitmap_words_unat)
  moreover have "frame_taken f ?t" if "unat f div 4096 < 0x403" for f
    using that t(6) by (simp add: frame_taken_def)
  moreover have "dir_table i ?t = 0x401000" if "dir_present i ?t" "unat i < 1024" for i
  proof -
    have "i = 0 \<or> i = KERNEL_PAGE_NUMBER" using that t(1,4) by (auto simp: dir_present_def split: if_splits)
    then show ?thesis using that t(1) t(4) [of i] by (auto simp: dir_table_def table_of_entry_def)
  qed
  ultimately show ?thesis using t(1,2,3) page_addresses by (simp add: paging_ok_def)
qed

section \<open>Properties\<close>


definition paging0 :: paging where
  "paging0 = \<lparr>trace = [], vga_buf = (\<lambda>_. 0), vga_row = 0, vga_col = 0, vga_color = 7, words = (\<lambda>_. 0),
     page_directory = 0, next_free_page = 0x400000, total_memory = 0, page_bitmap = 0, bitmap_size = 0\<rparr>"

lemma paging0_ok: "paging_ok (paging_init (\<lambda>_ _. 0) 0x1000000 paging0)"
  by (rule paging_init_ok) (simp_all add: paging0_def)


text \<open>C16: \<open>paging_init\<close> builds tables that map the first 4 MiB to themselves and again at \<open>0xC0000000\<close>, and
  nothing else. The page directory itself lies right after these 4 MiB, at \<open>0x400000\<close>: once paging is on, no
  address translates to it, so the first access of \<open>paging_map_page\<close> to it faults.\<close>

theorem paging_init_translates:
  assumes "page_bitmap s = 0" "next_free_page s = 0x400000" and t: "t = paging_init D memory_size s"
  shows "(\<forall>v. paging_get_physical_addr v t =
      (if v < 0x400000 \<or> 0xC0000000 \<le> v \<and> v < 0xC0400000 then v AND 0x3FFFFF else 0)) \<and>
    paging_get_physical_addr (page_directory t) t = 0"
proof -
  note T = paging_init_tables [OF assms]
  have e: "peek 0x401000 (table_index v) t = table_index v * PAGE_SIZE OR 3" for v
    using T(5) [of "table_index v"] by (simp add: PAGE_PRESENT_def PAGE_WRITABLE_def or.assoc)
  have f: "bit (table_index v * PAGE_SIZE OR 3) 0" "(table_index v * PAGE_SIZE OR 3) AND 0xFFFFF000 = table_index v * PAGE_SIZE" for v
    using aligned_or [OF index_aligned, of 3 v] by (simp_all add: bit_simps)
  have main: "paging_get_physical_addr v t =
      (if v < 0x400000 \<or> 0xC0000000 \<le> v \<and> v < 0xC0400000 then v AND 0x3FFFFF else 0)" for v
  proof -
    have d: "peek (page_directory t) (dir_index v) t =
        (if v < 0x400000 \<or> 0xC0000000 \<le> v \<and> v < 0xC0400000 then 0x401003 else 0)"
      using T(1) T(4) [of "dir_index v"] dir_index_ranges [of v] by auto
    have m: "v AND 0x3FFFFF = take_bit 22 v" by (simp add: take_bit_eq_mask mask_eq_exp_minus_1)
    show ?thesis
    proof (cases "v < 0x400000 \<or> 0xC0000000 \<le> v \<and> v < 0xC0400000")
      case True
      with d have "dir_present (dir_index v) t" "dir_table (dir_index v) t = 0x401000"
        by (auto simp: dir_present_def dir_table_def table_of_entry_def)
      then show ?thesis using True e f low_address [of v] m by (simp add: paging_get_physical_addr_eq)
    next
      case False
      with d have "\<not> dir_present (dir_index v) t" by (auto simp: dir_present_def)
      with False show ?thesis by (auto simp: paging_get_physical_addr_eq)
    qed
  qed
  have "paging_get_physical_addr (page_directory t) t = 0" using main [of "0x400000"] T(1) by simp
  with main show ?thesis by blast
qed

lemma paging_init_translates_witness:
  "paging_get_physical_addr 0xC0123456 (paging_init (\<lambda>_ _. 0) 0x1000000 paging0) = 0x123456 \<and>
   paging_get_physical_addr 0x400000 (paging_init (\<lambda>_ _. 0) 0x1000000 paging0) = 0"
  using paging_init_translates [of paging0, OF _ _ refl, of "\<lambda>_ _. 0" "0x1000000"]
  by (simp add: paging0_def)

text \<open>The search skips full words.\<close>

lemma alloc_from_skip:
  "\<forall>i \<in> set is. peek (page_bitmap s) (of_nat i) s = 0xFFFFFFFF \<Longrightarrow> alloc_from (is @ js) s = alloc_from js s"
  by (induction "is") simp_all

text \<open>The first page allocated after \<open>paging_init\<close> is the one at \<open>0x403000\<close>, right behind the page set
  aside for the bitmap. With one page more than 128 MiB of memory the bitmap needs more than that page, and the page handed
  out lies inside the bitmap: its new owner overwrites the allocator's state. Up to 128 MiB the tables are
  well-formed.\<close>

lemma paging_init_first_page:
  assumes "page_bitmap s = 0" "next_free_page s = 0x400000" "t = paging_init D memory_size s"
    and mem: "0x401000 \<le> unat memory_size"
  shows "fst (alloc_physical_page t) = 0x403000 \<and>
    ((\<exists>i < unat (bitmap_size t). cell (page_bitmap t) (of_nat i) = 0x403000) \<longleftrightarrow> unat memory_size \<ge> 0x8001000) \<and>
    (unat memory_size < 0x8001000 \<longrightarrow> paging_ok t)"
proof -
  note T = paging_init_tables [OF assms(1-3)]
  let ?n = "unat (bitmap_size t)"
  have n: "?n = (unat memory_size div 4096 + 31) div 32" by (simp add: T(3) bitmap_words_unat)
  have n33: "33 \<le> ?n" "?n \<le> 32768"
    using mem bitmap_words_le [of memory_size] unfolding n by (simp_all add: bitmap_words_unat)
  have bits: "bit (peek (page_bitmap t) (of_nat i) t) b \<longleftrightarrow> 32 * i + b < 0x403" if "i < 33" "b < 32" for i b
  proof -
    have "32 * i + b < pages_managed t" using that n33 by (simp add: pages_managed_def)
    from T(6) [OF this] that show ?thesis by (simp add: page_used_def)
  qed
  have full: "peek (page_bitmap t) (of_nat i) t = 0xFFFFFFFF" if "i < 32" for i
  proof -
    have "free_bit (peek (page_bitmap t) (of_nat i) t) = None"
      using that bits [of i] by (auto simp: free_bit_eq find_None_iff)
    then show ?thesis by (simp only: free_bit_None)
  qed
  have b3: "free_bit (peek (page_bitmap t) 32 t) = Some 3"
    using bits [of 32] by (simp add: free_bit_eq upt_rec)
  then have "peek (page_bitmap t) 32 t \<noteq> 0xFFFFFFFF" using free_bit_None [of "peek (page_bitmap t) 32 t"] by auto
  have "[0..<?n] = [0..<32] @ 32 # [33..<?n]"
    using n33 upt_add_eq_append [of 0 32 "?n - 32"] by (simp add: upt_conv_Cons)
  then have "alloc_from [0..<?n] t = alloc_from (32 # [33..<?n]) t"
    using full by (simp add: alloc_from_skip)
  moreover have "page_bitmap t \<noteq> 0" by (simp add: T(2))
  ultimately have "fst (alloc_physical_page t) = 0x403000"
    using b3 \<open>peek (page_bitmap t) 32 t \<noteq> 0xFFFFFFFF\<close>
    by (simp add: alloc_physical_page_def Let_def PAGE_SIZE_def)
  moreover have "(\<exists>i < ?n. cell (page_bitmap t) (of_nat i) = 0x403000) \<longleftrightarrow> 1024 < ?n"
  proof -
    have "cell 0x402000 (of_nat i) = cell 0x402000 (of_nat 1024) \<longleftrightarrow> i = 1024" if "i < ?n" for i
      using that n33 by (intro cell_index_eq) auto
    then show ?thesis by (auto simp: T(2) cell_def)
  qed
  moreover have "1024 < ?n \<longleftrightarrow> unat memory_size \<ge> 0x8001000"
  proof -
    have "1024 < a div 32 \<longleftrightarrow> 32800 \<le> a" "32800 \<le> b div 4096 + 31 \<longleftrightarrow> 0x8001000 \<le> b" for a b :: nat
      by linarith+
    then show ?thesis by (simp only: n)
  qed
  moreover have "unat memory_size < 0x8001000 \<longrightarrow> paging_ok t" using paging_init_ok [OF assms(1,2)] assms(3) by blast
  ultimately show ?thesis by blast
qed

text \<open>On well-formed tables a page handed out by the allocator was free, is not the frame of the directory, of
  the bitmap or of any page table, and giving it back restores the memory exactly.\<close>

lemma alloc_free_roundtrip:
  assumes ok: "paging_ok s" and al: "alloc_physical_page s = (p, t)" and p: "p \<noteq> 0"
  shows "\<not> frame_taken p s \<and> frame_taken p t \<and> p \<noteq> page_directory s \<and> p \<noteq> page_bitmap s \<and>
    (\<forall>i. unat i < 1024 \<and> dir_present i s \<longrightarrow> p \<noteq> dir_table i s) \<and> free_physical_page p t = s"
proof -
  obtain n where n: "n < pages_managed s" "\<not> page_used n s" "unat p = n * 4096" "\<not> frame_taken p s"
    and t: "t = poke (page_bitmap s) (of_nat (n div 32)) (peek (page_bitmap s) (of_nat (n div 32)) s OR push_bit (n mod 32) 1) s"
    using alloc_ok [OF ok al] p by blast
  have bm: "page_bitmap s \<noteq> 0" "unat (bitmap_size s) \<le> 1024" using ok by (simp_all add: paging_ok_def)
  have small: "n < 1024 * 32" using n(1) bm(2) by (simp add: pages_managed_def)
  have "p div PAGE_SIZE = of_nat n"
    using n(3) small by (simp add: word_unat_eq_iff unat_div_distrib PAGE_SIZE_def unat_of_nat)
  moreover have "(of_nat n :: u32) div 32 = of_nat (n div 32)" "unat ((of_nat n :: u32) mod 32) = n mod 32"
    using small by (simp_all add: word_unat_eq_iff unat_div_distrib unat_mod_distrib unat_of_nat)
  moreover have "of_nat (n div 32) < bitmap_size s"
    using n(1) small by (simp add: word_less_nat_alt unat_of_nat pages_managed_def less_mult_imp_div_less mult.commute)
  moreover have "(w OR push_bit k 1) AND NOT (push_bit k 1) = w" if "\<not> bit w k" for w :: u32 and k
    using that by (intro bit_word_eqI) (auto simp: bit_simps)
  ultimately have "free_physical_page p t = s"
    using n(2) bm(1) t
    by (simp add: free_physical_page_def Let_def page_used_def peek_def poke_def fun_upd_idem del: push_bit_of_1)
  moreover have "frame_taken p t" using paging_ok_mark(3) [OF ok n(1) t] n(3) by simp
  ultimately show ?thesis using n(4) ok by (auto simp: paging_ok_def)
qed

end
