(* ===== verification/Dma.thy ===== *)
theory Dma
  imports Blood_Prelude
begin

text \<open>
  \<open>src/drivers/dma.c\<close>: the two 8237A controllers of the PC, channels 0 to 3 for bytes and 5 to 7 for
  words, with a table of the channels in use. Channel 4 is the cascade.
\<close>

section \<open>Registers\<close>

definition DMA1_STATUS :: u16 where "DMA1_STATUS = 0x08"
definition DMA1_COMMAND :: u16 where "DMA1_COMMAND = 0x08"
definition DMA1_MASK :: u16 where "DMA1_MASK = 0x0A"
definition DMA1_MODE :: u16 where "DMA1_MODE = 0x0B"
definition DMA1_CLEAR_FF :: u16 where "DMA1_CLEAR_FF = 0x0C"
definition DMA1_MASTER_CLEAR :: u16 where "DMA1_MASTER_CLEAR = 0x0D"
definition DMA1_WRITE_MASK :: u16 where "DMA1_WRITE_MASK = 0x0F"
definition DMA2_STATUS :: u16 where "DMA2_STATUS = 0xD0"
definition DMA2_COMMAND :: u16 where "DMA2_COMMAND = 0xD0"
definition DMA2_MASK :: u16 where "DMA2_MASK = 0xD4"
definition DMA2_MODE :: u16 where "DMA2_MODE = 0xD6"
definition DMA2_CLEAR_FF :: u16 where "DMA2_CLEAR_FF = 0xD8"
definition DMA2_MASTER_CLEAR :: u16 where "DMA2_MASTER_CLEAR = 0xDA"
definition DMA2_WRITE_MASK :: u16 where "DMA2_WRITE_MASK = 0xDE"

lemmas dma_ports = DMA1_STATUS_def DMA1_COMMAND_def DMA1_MASK_def DMA1_MODE_def DMA1_CLEAR_FF_def
  DMA1_MASTER_CLEAR_def DMA1_WRITE_MASK_def DMA2_STATUS_def DMA2_COMMAND_def DMA2_MASK_def DMA2_MODE_def
  DMA2_CLEAR_FF_def DMA2_MASTER_CLEAR_def DMA2_WRITE_MASK_def

definition dma_addr_ports :: "u16 list" where
  "dma_addr_ports = [0x00, 0x02, 0x04, 0x06, 0xC0, 0xC4, 0xC8, 0xCC]"

definition dma_count_ports :: "u16 list" where
  "dma_count_ports = [0x01, 0x03, 0x05, 0x07, 0xC2, 0xC6, 0xCA, 0xCE]"

definition dma_page_ports :: "u16 list" where
  "dma_page_ports = [0x87, 0x83, 0x81, 0x82, 0x8F, 0x8B, 0x89, 0x8A]"

lemmas dma_tables = dma_addr_ports_def dma_count_ports_def dma_page_ports_def

definition DMA_MODE_SINGLE :: u8 where "DMA_MODE_SINGLE = 0x40"
definition DMA_MODE_VERIFY :: u8 where "DMA_MODE_VERIFY = 0x00"
definition DMA_MODE_WRITE :: u8 where "DMA_MODE_WRITE = 0x04"
definition DMA_MODE_READ :: u8 where "DMA_MODE_READ = 0x08"

section \<open>The driver\<close>

record dma_channel =
  dc_address :: u32
  dc_count :: u16
  dc_mode :: u8
  dc_in_use :: u8

record dma = machine +
  dma_channels :: "dma_channel list"

definition upd_channel :: "u8 \<Rightarrow> (dma_channel \<Rightarrow> dma_channel) \<Rightarrow> 'a dma_scheme \<Rightarrow> 'a dma_scheme" where
  "upd_channel ch f s = s\<lparr>dma_channels := (dma_channels s)[unat ch := f (dma_channels s ! unat ch)]\<rparr>"

definition dma_init :: "'a dma_scheme \<Rightarrow> 'a dma_scheme" where
  "dma_init s =
     (let s = outb DMA1_MASTER_CLEAR 0 s;
          s = outb DMA2_MASTER_CLEAR 0 s;
          s = fold (\<lambda>i. upd_channel (of_nat i) (\<lambda>_. \<lparr>dc_address = 0, dc_count = 0, dc_mode = 0, dc_in_use = 0\<rparr>)) [0..<8] s;
          s = outb DMA1_WRITE_MASK 0x0F s;
          s = outb DMA2_WRITE_MASK 0x0F s;
          s = outb DMA1_COMMAND 0x00 s
      in outb DMA2_COMMAND 0x00 s)"

definition dma_mask_channel :: "u8 \<Rightarrow> 'a machine_scheme \<Rightarrow> 'a machine_scheme" where
  "dma_mask_channel ch s =
     (if ch \<ge> 8 then s
      else if ch < 4 then outb DMA1_MASK (0x04 OR (ch AND 3)) s
      else outb DMA2_MASK (0x04 OR (ch AND 3)) s)"

definition dma_unmask_channel :: "u8 \<Rightarrow> 'a machine_scheme \<Rightarrow> 'a machine_scheme" where
  "dma_unmask_channel ch s =
     (if ch \<ge> 8 then s
      else if ch < 4 then outb DMA1_MASK (ch AND 3) s
      else outb DMA2_MASK (ch AND 3) s)"

definition dma_allocate_channel :: "u8 \<Rightarrow> 'a dma_scheme \<Rightarrow> u8 \<times> 'a dma_scheme" where
  "dma_allocate_channel ch s =
     (if ch \<ge> 8 \<or> ch = 4 then (0, s)
      else if dc_in_use (dma_channels s ! unat ch) \<noteq> 0 then (0, s)
      else (1, upd_channel ch (dc_in_use_update (\<lambda>_. 1)) s))"

definition dma_free_channel :: "u8 \<Rightarrow> 'a dma_scheme \<Rightarrow> 'a dma_scheme" where
  "dma_free_channel ch s =
     (if ch \<ge> 8 then s else upd_channel ch (dc_in_use_update (\<lambda>_. 0)) (dma_mask_channel ch s))"

text \<open>A 16-bit register takes its low byte, then its high byte.\<close>

definition out16 :: "u16 \<Rightarrow> u16 \<Rightarrow> 'a machine_scheme \<Rightarrow> 'a machine_scheme" where
  "out16 p v s = outb p (ucast (drop_bit 8 v AND 0xFF)) (outb p (ucast (v AND 0xFF)) s)"

definition dma_setup_channel :: "u8 \<Rightarrow> u32 \<Rightarrow> u16 \<Rightarrow> u8 \<Rightarrow> 'a dma_scheme \<Rightarrow> 'a dma_scheme" where
  "dma_setup_channel ch address count mode s =
     (if ch \<ge> 8 \<or> ch = 4 then s
      else
        (let s = upd_channel ch (\<lambda>c. c\<lparr>dc_address := address, dc_count := count, dc_mode := mode\<rparr>) s;
             s = dma_mask_channel ch s;
             i = unat ch
         in if ch < 4 then
              (let s = outb DMA1_CLEAR_FF 0 s;
                   s = outb DMA1_MODE ((ch AND 3) OR mode) s;
                   s = outb (dma_addr_ports ! i) (ucast (address AND 0xFF)) s;
                   s = outb (dma_addr_ports ! i) (ucast (drop_bit 8 address AND 0xFF)) s;
                   s = outb (dma_page_ports ! i) (ucast (drop_bit 16 address AND 0xFF)) s
               in out16 (dma_count_ports ! i) (count - 1) s)
            else
              (let s = outb DMA2_CLEAR_FF 0 s;
                   s = outb DMA2_MODE ((ch AND 3) OR mode) s;
                   address = drop_bit 1 address;
                   count = drop_bit 1 count;
                   s = outb (dma_addr_ports ! i) (ucast (address AND 0xFF)) s;
                   s = outb (dma_addr_ports ! i) (ucast (drop_bit 8 address AND 0xFF)) s;
                   s = outb (dma_page_ports ! i) (ucast (drop_bit 16 address AND 0xFF)) s
               in out16 (dma_count_ports ! i) (count - 1) s)))"

definition dma_start_transfer :: "u8 \<Rightarrow> 'a machine_scheme \<Rightarrow> 'a machine_scheme" where
  "dma_start_transfer ch s = (if ch \<ge> 8 \<or> ch = 4 then s else dma_unmask_channel ch s)"

definition dma_is_transfer_complete :: "device \<Rightarrow> u8 \<Rightarrow> 'a machine_scheme \<Rightarrow> u8 \<times> 'a machine_scheme" where
  "dma_is_transfer_complete D ch s =
     (if ch \<ge> 8 then (1, s)
      else if ch < 4 then (let (status, s) = inb D DMA1_STATUS s in (c_bool (status AND push_bit (unat ch) 1 \<noteq> 0), s))
      else (let (status, s) = inb D DMA2_STATUS s in (c_bool (status AND push_bit (unat ch - 4) 1 \<noteq> 0), s)))"

definition dma_get_remaining_count :: "device \<Rightarrow> u8 \<Rightarrow> 'a machine_scheme \<Rightarrow> u16 \<times> 'a machine_scheme" where
  "dma_get_remaining_count D ch s =
     (if ch \<ge> 8 \<or> ch = 4 then (0, s)
      else
        (let s = outb (if ch < 4 then DMA1_CLEAR_FF else DMA2_CLEAR_FF) 0 s;
             (lo, s) = inb D (dma_count_ports ! unat ch) s;
             (hi, s) = inb D (dma_count_ports ! unat ch) s;
             count = (ucast lo OR push_bit 8 (ucast hi) :: u16);
             count = (if ch < 4 then count else push_bit 1 count)
         in (count + 1, s)))"

definition dma_reset_controller :: "u8 \<Rightarrow> 'a machine_scheme \<Rightarrow> 'a machine_scheme" where
  "dma_reset_controller controller s =
     (if controller = 0 then outb DMA1_WRITE_MASK 0x0F (outb DMA1_COMMAND 0x00 (outb DMA1_MASTER_CLEAR 0 s))
      else if controller = 1 then outb DMA2_WRITE_MASK 0x0F (outb DMA2_COMMAND 0x00 (outb DMA2_MASTER_CLEAR 0 s))
      else s)"

definition dma_get_status :: "device \<Rightarrow> u8 \<Rightarrow> 'a machine_scheme \<Rightarrow> u8 \<times> 'a machine_scheme" where
  "dma_get_status D controller s =
     (if controller = 0 then inb D DMA1_STATUS s else if controller = 1 then inb D DMA2_STATUS s else (0, s))"

definition dma_set_mode :: "u8 \<Rightarrow> u8 \<Rightarrow> 'a dma_scheme \<Rightarrow> 'a dma_scheme" where
  "dma_set_mode ch mode s =
     (if ch \<ge> 8 \<or> ch = 4 then s
      else outb (if ch < 4 then DMA1_MODE else DMA2_MODE) ((ch AND 3) OR mode) (upd_channel ch (dc_mode_update (\<lambda>_. mode)) s))"

definition dma_is_channel_available :: "u8 \<Rightarrow> 'a dma_scheme \<Rightarrow> u8" where
  "dma_is_channel_available ch s =
     (if ch \<ge> 8 \<or> ch = 4 then 0 else c_bool (dc_in_use (dma_channels s ! unat ch) = 0))"

text \<open>The poll of the completion bit; \<open>None\<close> if it never comes.\<close>

partial_function (option) dma_wait_complete :: "device \<Rightarrow> u8 \<Rightarrow> 'a machine_scheme \<Rightarrow> 'a machine_scheme option" where
  "dma_wait_complete D ch s =
     (case dma_is_transfer_complete D ch s of (ok, s) \<Rightarrow> if ok = 0 then dma_wait_complete D ch s else Some s)"

definition dma_wait_for_completion :: "device \<Rightarrow> u8 \<Rightarrow> 'a machine_scheme \<Rightarrow> 'a machine_scheme option" where
  "dma_wait_for_completion D ch s = (if ch \<ge> 8 then Some s else dma_wait_complete D ch s)"

definition dma_transfer :: "u8 \<Rightarrow> u8 \<Rightarrow> u32 \<Rightarrow> u16 \<Rightarrow> 'a dma_scheme \<Rightarrow> u8 \<times> 'a dma_scheme" where
  "dma_transfer mode ch memory_addr nbytes s =
     (let (ok, s) = dma_allocate_channel ch s
      in if ok = 0 then (0, s)
         else (1, dma_start_transfer ch (dma_setup_channel ch memory_addr nbytes (DMA_MODE_SINGLE OR mode) s)))"

definition dma_memory_to_device :: "u8 \<Rightarrow> u32 \<Rightarrow> u16 \<Rightarrow> 'a dma_scheme \<Rightarrow> u8 \<times> 'a dma_scheme" where
  "dma_memory_to_device = dma_transfer DMA_MODE_READ"

definition dma_device_to_memory :: "u8 \<Rightarrow> u32 \<Rightarrow> u16 \<Rightarrow> 'a dma_scheme \<Rightarrow> u8 \<times> 'a dma_scheme" where
  "dma_device_to_memory = dma_transfer DMA_MODE_WRITE"

definition dma_verify_transfer :: "u8 \<Rightarrow> u32 \<Rightarrow> u16 \<Rightarrow> 'a dma_scheme \<Rightarrow> u8 \<times> 'a dma_scheme" where
  "dma_verify_transfer = dma_transfer DMA_MODE_VERIFY"

section \<open>What the controllers are told\<close>

text \<open>
  The data sheet's view of a trace: a 16-bit register of the controller holds the two bytes written to its port, low
  byte first; on channels 0 to 3 the page register supplies the address bits from 16 on and the counter counts bytes,
  on channels 5 to 7 the address register holds the bits from 1 on, the page register the bits from 17 on (its bit 0 is
  not connected), and the counter counts words. A transfer moves one unit more than the counter says.
\<close>

definition reg16 :: "u16 \<Rightarrow> trace \<Rightarrow> u32" where
  "reg16 p tr = (case writes (Port8 p) tr of [lo, hi] \<Rightarrow> ucast lo OR push_bit 8 (ucast hi) | _ \<Rightarrow> 0)"

definition bus_address :: "u8 \<Rightarrow> trace \<Rightarrow> u32" where
  "bus_address ch tr =
     (let a = reg16 (dma_addr_ports ! unat ch) tr; page = ucast (last_write 0 tr (Port8 (dma_page_ports ! unat ch)))
      in if ch < 4 then push_bit 16 page OR a else push_bit 16 (page AND 0xFE) OR push_bit 1 a)"

definition bus_bytes :: "u8 \<Rightarrow> trace \<Rightarrow> nat" where
  "bus_bytes ch tr = (unat (reg16 (dma_count_ports ! unat ch) tr) + 1) * (if ch < 4 then 1 else 2)"

definition mask_port :: "u8 \<Rightarrow> u16" where
  "mask_port ch = (if ch < 4 then DMA1_MASK else DMA2_MASK)"

lemma channel_cases:
  assumes "ch < 8" "ch \<noteq> 4"
  obtains "ch = 0" | "ch = 1" | "ch = 2" | "ch = 3" | "ch = 5" | "ch = 6" | "ch = (7 :: u8)"
proof -
  have "unat ch < 8" "unat ch \<noteq> 4" using assms by (auto simp: word_less_nat_alt word_unat_eq_iff)
  then have "unat ch \<in> {0, 1, 2, 3, 5, 6, 7}" by auto
  then have "ch \<in> {0, 1, 2, 3, 5, 6, 7}" by (auto simp: word_unat_eq_iff)
  with that show thesis by blast
qed

text \<open>The accesses of a set-up.\<close>

definition setup_trace :: "u8 \<Rightarrow> u32 \<Rightarrow> u16 \<Rightarrow> u8 \<Rightarrow> trace" where
  "setup_trace ch address count mode =
     (let i = unat ch; lo = ch < 4; a = (if lo then address else drop_bit 1 address);
          n = (if lo then count else drop_bit 1 count) - 1; b = (\<lambda>p (v :: u8). Wr (Port8 p) (ucast v))
      in [b (mask_port ch) (0x04 OR (ch AND 3)), b (if lo then DMA1_CLEAR_FF else DMA2_CLEAR_FF) 0,
          b (if lo then DMA1_MODE else DMA2_MODE) ((ch AND 3) OR mode),
          b (dma_addr_ports ! i) (ucast (a AND 0xFF)), b (dma_addr_ports ! i) (ucast (drop_bit 8 a AND 0xFF)),
          b (dma_page_ports ! i) (ucast (drop_bit 16 a AND 0xFF)),
          b (dma_count_ports ! i) (ucast (n AND 0xFF)), b (dma_count_ports ! i) (ucast (drop_bit 8 n AND 0xFF))])"

lemma dma_setup_channel_trace:
  assumes "ch < 8" "ch \<noteq> 4"
  shows "dma_setup_channel ch address count mode s =
    (upd_channel ch (\<lambda>c. c\<lparr>dc_address := address, dc_count := count, dc_mode := mode\<rparr>) s)
      \<lparr>trace := trace s @ setup_trace ch address count mode\<rparr>"
  using assms
  by (simp add: dma_setup_channel_def setup_trace_def dma_mask_channel_def out16_def mask_port_def bus upd_channel_def not_le)

lemma setup_trace_regs:
  assumes "ch < 8" "ch \<noteq> 4"
    and tr: "tr = setup_trace ch address count mode @ [Wr (Port8 (mask_port ch)) v]"
    and a: "a = (if ch < 4 then address else drop_bit 1 address)" and n: "n = (if ch < 4 then count else drop_bit 1 count) - 1"
  shows "writes (Port8 (dma_addr_ports ! unat ch)) tr =
      [ucast (ucast (a AND 0xFF) :: u8), ucast (ucast (drop_bit 8 a AND 0xFF) :: u8)]"
    "last_write 0 tr (Port8 (dma_page_ports ! unat ch)) = ucast (ucast (drop_bit 16 a AND 0xFF) :: u8)"
    "writes (Port8 (dma_count_ports ! unat ch)) tr =
      [ucast (ucast (n AND 0xFF) :: u8), ucast (ucast (drop_bit 8 n AND 0xFF) :: u8)]"
    "last_write 0 tr (Port8 (mask_port ch)) = v"
  unfolding tr a n setup_trace_def
  by (rule channel_cases [OF assms(1,2)]; simp add: dma_tables dma_ports mask_port_def Let_def)+

lemma u64_bytes:
  "(ucast (ucast (b :: u8) :: u64) :: u32) = ucast b"
  by (rule bit_word_eqI) (auto simp: bit_simps dest: bit_imp_le_length)

lemma reg16_bytes:
  fixes a :: "'w::len word"
  assumes "writes (Port8 p) tr = [ucast (ucast (a AND 0xFF) :: u8), ucast (ucast (drop_bit 8 a AND 0xFF) :: u8)]"
    and "16 \<le> LENGTH('w)" "LENGTH('w) \<le> 32"
  shows "reg16 p tr = take_bit 16 (ucast a)"
proof -
  have "reg16 p tr = ucast (ucast (take_bit 8 a) :: u8) OR push_bit 8 (ucast (ucast (take_bit 8 (drop_bit 8 a)) :: u8))"
    using assms(1) by (simp only: reg16_def and_masks) (simp add: u64_bytes)
  also have "\<dots> = take_bit 16 (ucast a)"
    using assms(2,3) by (intro bit_word_eqI) (auto simp: bit_simps)
  finally show ?thesis .
qed

lemma count_back:
  "unat (take_bit 16 (ucast (c - 1 :: u16)) :: u32) + 1 = (if c = 0 then 65536 else unat c)"
proof -
  have "take_bit 16 (ucast (c - 1 :: u16)) = (ucast (c - 1) :: u32)"
    by (intro bit_word_eqI) (auto simp: bit_simps dest: bit_imp_le_length)
  then have "unat (take_bit 16 (ucast (c - 1 :: u16)) :: u32) = unat (c - 1)"
    by (simp only:) (simp add: unsigned_ucast_eq take_bit_nat_eq_self unsigned_less [where ?'a = nat, THEN less_le_trans])
  moreover have "unat (- 1 :: u16) = 65535"
  proof -
    have "(- 1 :: u16) = 65535" by simp
    then show ?thesis by (simp only:) simp
  qed
  ultimately show ?thesis by (cases "c = 0") (auto simp: unat_minus_one unat_gt_0)
qed

section \<open>Properties\<close>

text \<open>A transfer on a free channel is accepted, marks the channel, and ends with the channel unmasked. Channels 0 to
  3 move exactly \<open>size\<close> bytes (64 KiB for 0) at the address modulo 16 MiB. Channels 5 to 7 move the words of
  \<open>size\<close>, but not at the address: the page register gets the bits from 17 on shifted down by one, so that the
  address line \<open>k\<close> from 17 on carries bit \<open>k + 1\<close> of the address.\<close>

lemma dma_transfer_programs:
  assumes ch: "ch < 8" "ch \<noteq> 4" and free: "dc_in_use (dma_channels s ! unat ch) = 0" "length (dma_channels s) = 8"
  shows "\<exists>t tr. dma_transfer mode ch address count s = (1, t) \<and> trace t = trace s @ tr \<and>
    dma_is_channel_available ch t = 0 \<and> last_write 0 tr (Port8 (mask_port ch)) = ucast (ch AND 3) \<and>
    (ch < 4 \<longrightarrow> bus_address ch tr = take_bit 24 address \<and> bus_bytes ch tr = (if count = 0 then 65536 else unat count)) \<and>
    (4 < ch \<longrightarrow> bus_bytes ch tr = 2 * (if count < 2 then 65536 else unat count div 2) \<and>
       (\<forall>k < 24. bit (bus_address ch tr) k \<longleftrightarrow> 0 < k \<and> bit address (if k < 17 then k else k + 1)))"
proof -
  let ?v = "ucast (ch AND 3) :: u64"
  let ?m = "DMA_MODE_SINGLE OR mode"
  let ?tr = "setup_trace ch address count ?m @ [Wr (Port8 (mask_port ch)) ?v]"
  let ?a = "if ch < 4 then address else drop_bit 1 address" and ?n = "(if ch < 4 then count else drop_bit 1 count) - 1"
  let ?t = "snd (dma_transfer mode ch address count s)"
  note R = setup_trace_regs [OF ch, of ?tr address count ?m ?v ?a ?n, OF refl refl refl]
  have t: "dma_transfer mode ch address count s = (1, ?t)" "trace ?t = trace s @ ?tr" "dma_is_channel_available ch ?t = 0"
    using ch free unsigned_less [of ch]
    by (simp_all add: dma_transfer_def dma_allocate_channel_def dma_setup_channel_trace dma_start_transfer_def
        dma_unmask_channel_def mask_port_def bus upd_channel_def dma_is_channel_available_def not_le word_less_nat_alt)
  have addr: "reg16 (dma_addr_ports ! unat ch) ?tr = take_bit 16 ?a"
    using reg16_bytes [OF R(1)] by simp
  have cnt: "reg16 (dma_count_ports ! unat ch) ?tr = take_bit 16 (ucast ?n)"
    using reg16_bytes [OF R(3)] by simp
  have page: "(ucast (last_write 0 ?tr (Port8 (dma_page_ports ! unat ch))) :: u32) = take_bit 8 (drop_bit 16 ?a)"
  proof -
    have "(ucast (ucast (x AND 0xFF) :: u8) :: u32) = take_bit 8 x" for x :: u32
      by (intro bit_word_eqI) (auto simp: and_masks bit_simps)
    then show ?thesis by (simp only: R(2) u64_bytes)
  qed
  have low: "bus_address ch ?tr = take_bit 24 address \<and> bus_bytes ch ?tr = (if count = 0 then 65536 else unat count)" if "ch < 4"
  proof -
    have "push_bit 16 (take_bit 8 (drop_bit 16 address)) OR take_bit 16 address = take_bit 24 address"
      by (intro bit_word_eqI) (auto simp: bit_simps)
    then show ?thesis using that addr cnt page count_back [of count] by (simp add: bus_address_def bus_bytes_def)
  qed
  have high: "bus_bytes ch ?tr = 2 * (if count < 2 then 65536 else unat count div 2) \<and>
       (\<forall>k < 24. bit (bus_address ch ?tr) k \<longleftrightarrow> 0 < k \<and> bit address (if k < 17 then k else k + 1))" if "4 < ch"
  proof -
    have n4: "\<not> ch < 4" using that by simp
    have half: "unat (drop_bit 1 count) = unat count div 2"
      by (simp only: unat_drop_bit_eq) (simp add: drop_bit_eq_div)
    have "drop_bit 1 count = 0 \<longleftrightarrow> count < 2"
      by (simp only: word_unat_eq_iff half) (auto simp: word_less_nat_alt)
    with half have "bus_bytes ch ?tr = 2 * (if count < 2 then 65536 else unat count div 2)"
      using n4 cnt count_back [of "drop_bit 1 count"] by (simp add: bus_bytes_def)
    moreover have "bit (bus_address ch ?tr) k \<longleftrightarrow> 0 < k \<and> bit address (if k < 17 then k else k + 1)" if k: "k < 24" for k
    proof -
      have m: "(0xFE :: u32) = mask 8 AND NOT 1" by (simp add: mask_eq_exp_minus_1)
      have "bit (bus_address ch ?tr) k \<longleftrightarrow> bit (push_bit 16 (take_bit 8 (drop_bit 17 address) AND (mask 8 AND NOT 1)) OR
          push_bit 1 (take_bit 16 (drop_bit 1 address))) k"
        using n4 addr page by (simp add: bus_address_def m)
      also have "\<dots> \<longleftrightarrow> 16 \<le> k \<and> k - 16 < 8 \<and> bit address (17 + (k - 16)) \<and> k - 16 \<noteq> 0 \<or>
          1 \<le> k \<and> k - 1 < 16 \<and> bit address (1 + (k - 1))"
        using k unfolding bit_or_iff bit_push_bit_iff bit_take_bit_iff bit_drop_bit_eq bit_and_iff bit_mask_iff
          bit_not_iff o_apply
        by (auto simp: bit_1_iff)
      also have "\<dots> \<longleftrightarrow> 0 < k \<and> bit address (if k < 17 then k else k + 1)"
        using k by (cases "k < 17"; cases k) (auto simp: Suc_diff_le)
      finally show ?thesis .
    qed
    ultimately show ?thesis by blast
  qed
  show ?thesis
    by (rule exI [of _ ?t], rule exI [of _ ?tr]) (use t R(4) low high in auto)
qed

definition dma0 :: dma where
  "dma0 = \<lparr>trace = [], dma_channels = replicate 8 \<lparr>dc_address = 0, dc_count = 0, dc_mode = 0, dc_in_use = 0\<rparr>\<rparr>"

text \<open>A word transfer at 0x20000 goes to address 0.\<close>

text \<open>The count register of channel \<open>ch\<close> holds \<open>v\<close>: after the flip-flop is cleared, its port yields the low byte,
  then the high byte.\<close>

definition count_register :: "device \<Rightarrow> u8 \<Rightarrow> u16 \<Rightarrow> bool" where
  "count_register D ch v \<longleftrightarrow>
     (let p = Port8 (dma_count_ports ! unat ch); ff = Wr (Port8 (if ch < 4 then DMA1_CLEAR_FF else DMA2_CLEAR_FF)) 0
      in \<forall>t. D (t @ [ff]) p = ucast (v AND 0xFF) \<and> D (t @ [ff, Rd p (ucast (v AND 0xFF))]) p = ucast (drop_bit 8 v))"

text \<open>If the count register still holds what \<open>dma_setup_channel\<close> programmed, \<open>dma_get_remaining_count\<close> returns the
  count of the set-up on channels 0 to 3. On channels 5 to 7 it returns one byte less than the even count: one is added
  to the number of bytes instead of the number of words.\<close>

lemma dma_remaining_count:
  assumes ch: "ch < 8" "ch \<noteq> 4" and reg: "count_register D ch ((if ch < 4 then count else drop_bit 1 count) - 1)"
  shows "fst (dma_get_remaining_count D ch s) = (if ch < 4 then count else (count AND NOT 1) - 1)"
proof -
  let ?n = "(if ch < 4 then count else drop_bit 1 count) - 1"
  have bytes: "ucast (ucast (ucast (n AND 0xFF) :: u64) :: u8) OR push_bit 8 (ucast (ucast (ucast (drop_bit 8 n) :: u64) :: u8)) = n"
    and u8: "ucast (ucast (ucast (n AND 0xFF) :: u64) :: u8) = (ucast (n AND 0xFF) :: u64)" for n :: u16
    by (intro bit_word_eqI; auto simp: and_masks bit_simps dest: bit_imp_le_length)+
  have "fst (dma_get_remaining_count D ch s) = (if ch < 4 then ?n else push_bit 1 ?n) + 1"
    using ch reg bytes [of ?n] u8 [of ?n]
    by (auto simp: dma_get_remaining_count_def count_register_def bus not_le)
  moreover have "push_bit 1 (drop_bit 1 count - 1) + 1 = (count AND NOT 1) - 1"
  proof -
    have "push_bit 1 (drop_bit 1 count - 1) = push_bit 1 (drop_bit 1 count) - 2"
      by (simp add: push_bit_eq_mult algebra_simps)
    moreover have "push_bit 1 (drop_bit 1 count) = count AND NOT 1"
      by (intro bit_word_eqI) (auto simp: bit_simps simp del: push_bit_Suc drop_bit_Suc One_nat_def)
    ultimately show ?thesis by simp
  qed
  ultimately show ?thesis by auto
qed

end
