(* ===== verification/Rtc.thy ===== *)
theory Rtc
  imports Blood_Prelude
begin

text \<open>
  \<open>src/drivers/rtc.c\<close>: the MC146818 clock and its CMOS memory, behind an index and a data port. The
  poll for the end of an update is an option; so is the timestamp, whose month table is read out of bounds for months
  after 13. The callbacks of the interrupt handler can be replaced at link time and are parameters.
\<close>

definition CMOS_ADDRESS :: u16 where "CMOS_ADDRESS = 0x70"
definition CMOS_DATA :: u16 where "CMOS_DATA = 0x71"
definition RTC_SECONDS :: u8 where "RTC_SECONDS = 0x00"
definition RTC_MINUTES :: u8 where "RTC_MINUTES = 0x02"
definition RTC_HOURS :: u8 where "RTC_HOURS = 0x04"
definition RTC_WEEKDAY :: u8 where "RTC_WEEKDAY = 0x06"
definition RTC_DAY :: u8 where "RTC_DAY = 0x07"
definition RTC_MONTH :: u8 where "RTC_MONTH = 0x08"
definition RTC_YEAR :: u8 where "RTC_YEAR = 0x09"
definition RTC_STATUS_A :: u8 where "RTC_STATUS_A = 0x0A"
definition RTC_STATUS_B :: u8 where "RTC_STATUS_B = 0x0B"
definition RTC_STATUS_C :: u8 where "RTC_STATUS_C = 0x0C"
definition CMOS_CENTURY :: u8 where "CMOS_CENTURY = 0x32"
definition RTC_UIP :: u8 where "RTC_UIP = 0x80"
definition RTC_24HOUR :: u8 where "RTC_24HOUR = 0x02"
definition RTC_BINARY :: u8 where "RTC_BINARY = 0x04"
definition RTC_AIE :: u8 where "RTC_AIE = 0x20"

lemmas rtc_regs = RTC_SECONDS_def RTC_MINUTES_def RTC_HOURS_def RTC_WEEKDAY_def RTC_DAY_def RTC_MONTH_def
  RTC_YEAR_def RTC_STATUS_A_def RTC_STATUS_B_def RTC_STATUS_C_def CMOS_CENTURY_def

record rtc_time =
  second :: u8
  minute :: u8
  hour :: u8
  day :: u8
  month :: u8
  year :: u16
  weekday :: u8

record rtc = machine +
  rtc_binary_mode :: u8
  rtc_24hour_mode :: u8

definition cmos_read :: "device \<Rightarrow> u8 \<Rightarrow> 'a machine_scheme \<Rightarrow> u8 \<times> 'a machine_scheme" where
  "cmos_read D reg s = inb D CMOS_DATA (outb CMOS_ADDRESS reg s)"

definition cmos_write :: "u8 \<Rightarrow> u8 \<Rightarrow> 'a machine_scheme \<Rightarrow> 'a machine_scheme" where
  "cmos_write reg v s = outb CMOS_DATA v (outb CMOS_ADDRESS reg s)"

definition bcd_to_binary :: "u8 \<Rightarrow> u8" where
  "bcd_to_binary bcd = drop_bit 4 bcd * 10 + (bcd AND 0x0F)"

definition binary_to_bcd :: "u8 \<Rightarrow> u8" where
  "binary_to_bcd binary = push_bit 4 (binary div 10) OR (binary mod 10)"

partial_function (option) rtc_wait_update :: "device \<Rightarrow> 'a machine_scheme \<Rightarrow> 'a machine_scheme option" where
  "rtc_wait_update D s =
     (case cmos_read D RTC_STATUS_A s of (a, s) \<Rightarrow> if a AND RTC_UIP \<noteq> 0 then rtc_wait_update D s else Some s)"

definition rtc_init :: "device \<Rightarrow> 'a rtc_scheme \<Rightarrow> 'a rtc_scheme" where
  "rtc_init D s =
     (let (status_b, s) = cmos_read D RTC_STATUS_B s;
          s = s\<lparr>rtc_binary_mode := c_bool (status_b AND RTC_BINARY \<noteq> 0)\<rparr>;
          s = s\<lparr>rtc_24hour_mode := c_bool (status_b AND RTC_24HOUR \<noteq> 0)\<rparr>;
          s = cmos_write RTC_STATUS_B (status_b OR (RTC_24HOUR OR RTC_BINARY)) s;
          s = s\<lparr>rtc_binary_mode := 1\<rparr>;
          s = s\<lparr>rtc_24hour_mode := 1\<rparr>;
          (_, s) = cmos_read D RTC_STATUS_C s
      in s)"

text \<open>The conversion of all fields; the year is still two digits.\<close>

definition time_from_bcd :: "rtc_time \<Rightarrow> rtc_time" where
  "time_from_bcd t = \<lparr>second = bcd_to_binary (second t), minute = bcd_to_binary (minute t), hour = bcd_to_binary (hour t),
     day = bcd_to_binary (day t), month = bcd_to_binary (month t), year = ucast (bcd_to_binary (ucast (year t))),
     weekday = bcd_to_binary (weekday t)\<rparr>"

definition rtc_read_time :: "device \<Rightarrow> 'a rtc_scheme \<Rightarrow> (rtc_time \<times> 'a rtc_scheme) option" where
  "rtc_read_time D s = do {
     s \<leftarrow> rtc_wait_update D s;
     let (sec, s) = cmos_read D RTC_SECONDS s;
     let (mnt, s) = cmos_read D RTC_MINUTES s;
     let (hr, s) = cmos_read D RTC_HOURS s;
     let (dy, s) = cmos_read D RTC_DAY s;
     let (mon, s) = cmos_read D RTC_MONTH s;
     let (yr, s) = cmos_read D RTC_YEAR s;
     let (wd, s) = cmos_read D RTC_WEEKDAY s;
     let t = \<lparr>second = sec, minute = mnt, hour = hr, day = dy, month = mon, year = ucast yr, weekday = wd\<rparr>;
     let t = (if rtc_binary_mode s = 0 then time_from_bcd t else t);
     let t = (if year t < 80 then t\<lparr>year := year t + 2000\<rparr> else t\<lparr>year := year t + 1900\<rparr>);
     let (century, s) = cmos_read D CMOS_CENTURY s;
     Some (if century \<noteq> 0 \<and> century \<noteq> 0xFF
       then (let century = (if rtc_binary_mode s = 0 then bcd_to_binary century else century)
             in t\<lparr>year := ucast century * 100 + year t mod 100\<rparr>)
       else t, s)
   }"

definition rtc_set_time :: "device \<Rightarrow> rtc_time \<Rightarrow> 'a rtc_scheme \<Rightarrow> 'a rtc_scheme option" where
  "rtc_set_time D t s =
     (let yr = ucast (year t mod 100); century = ucast (year t div 100);
          conv = (\<lambda>b. if rtc_binary_mode s = 0 then binary_to_bcd b else b);
          (status_b, s) = cmos_read D RTC_STATUS_B s;
          s = cmos_write RTC_STATUS_B (status_b OR 0x80) s
      in do {
        s \<leftarrow> rtc_wait_update D s;
        let s = cmos_write RTC_SECONDS (conv (second t)) s;
        let s = cmos_write RTC_MINUTES (conv (minute t)) s;
        let s = cmos_write RTC_HOURS (conv (hour t)) s;
        let s = cmos_write RTC_DAY (conv (day t)) s;
        let s = cmos_write RTC_MONTH (conv (month t)) s;
        let s = cmos_write RTC_YEAR (conv yr) s;
        let s = cmos_write CMOS_CENTURY (conv century) s;
        Some (cmos_write RTC_STATUS_B status_b s)
      })"

section \<open>Time stamps\<close>

text \<open>The leap-year test of the code, on the value of the year.\<close>

definition leap :: "nat \<Rightarrow> bool" where
  "leap y \<longleftrightarrow> (y mod 4 = 0 \<and> y mod 100 \<noteq> 0) \<or> y mod 400 = 0"

definition days_in_month :: "u8 list" where
  "days_in_month = [31, 28, 31, 30, 31, 30, 31, 31, 30, 31, 30, 31]"

fun add_months :: "nat list \<Rightarrow> u32 \<Rightarrow> u32 option" where
  "add_months [] d = Some d"
| "add_months (m # ms) d =
     (if m - 1 < length days_in_month then add_months ms (d + ucast (days_in_month ! (m - 1))) else None)"

definition timestamp_of :: "rtc_time \<Rightarrow> u32 option" where
  "timestamp_of t =
     (let days = fold (\<lambda>y d. if leap y then d + 366 else d + 365) [1970..<unat (year t)] 0;
          days = (if leap (unat (year t)) \<and> month t > 2 then days + 1 else days)
      in do {
        days \<leftarrow> add_months [1..<unat (month t)] days;
        let days = days + (ucast (day t) - 1);
        Some (days * 86400 + ucast (hour t) * 3600 + ucast (minute t) * 60 + ucast (second t))
      })"

definition rtc_get_timestamp :: "device \<Rightarrow> 'a rtc_scheme \<Rightarrow> (u32 \<times> 'a rtc_scheme) option" where
  "rtc_get_timestamp D s = do {
     (t, s) \<leftarrow> rtc_read_time D s;
     stamp \<leftarrow> timestamp_of t;
     Some (stamp, s)
   }"

section \<open>Alarm, interrupt and CMOS memory\<close>

definition rtc_set_alarm :: "device \<Rightarrow> u8 \<Rightarrow> u8 \<Rightarrow> u8 \<Rightarrow> 'a rtc_scheme \<Rightarrow> 'a rtc_scheme" where
  "rtc_set_alarm D hr mnt sec s =
     (let conv = (\<lambda>b. if rtc_binary_mode s = 0 then binary_to_bcd b else b);
          s = cmos_write 0x01 (conv sec) s;
          s = cmos_write 0x03 (conv mnt) s;
          s = cmos_write 0x05 (conv hr) s;
          (status_b, s) = cmos_read D RTC_STATUS_B s
      in cmos_write RTC_STATUS_B (status_b OR RTC_AIE) s)"

definition rtc_disable_alarm :: "device \<Rightarrow> 'a machine_scheme \<Rightarrow> 'a machine_scheme" where
  "rtc_disable_alarm D s =
     (let (status_b, s) = cmos_read D RTC_STATUS_B s in cmos_write RTC_STATUS_B (status_b AND NOT RTC_AIE) s)"

definition rtc_irq_handler ::
  "device \<Rightarrow> ('a machine_scheme \<Rightarrow> 'a machine_scheme) \<Rightarrow> ('a machine_scheme \<Rightarrow> 'a machine_scheme) \<Rightarrow>
   ('a machine_scheme \<Rightarrow> 'a machine_scheme) \<Rightarrow> 'a machine_scheme \<Rightarrow> 'a machine_scheme" where
  "rtc_irq_handler D rtc_alarm_callback rtc_periodic_callback rtc_update_callback s =
     (let (status_c, s) = cmos_read D RTC_STATUS_C s;
          s = (if status_c AND 0x20 \<noteq> 0 then rtc_alarm_callback s else s);
          s = (if status_c AND 0x40 \<noteq> 0 then rtc_periodic_callback s else s)
      in if status_c AND 0x10 \<noteq> 0 then rtc_update_callback s else s)"

definition cmos_read16 :: "device \<Rightarrow> u8 \<Rightarrow> u8 \<Rightarrow> 'a machine_scheme \<Rightarrow> u16 \<times> 'a machine_scheme" where
  "cmos_read16 D lo hi s =
     (let (low, s) = cmos_read D lo s; (high, s) = cmos_read D hi s in (push_bit 8 (ucast high) OR ucast low, s))"

definition cmos_get_base_memory :: "device \<Rightarrow> 'a machine_scheme \<Rightarrow> u16 \<times> 'a machine_scheme" where
  "cmos_get_base_memory D s = cmos_read16 D 0x15 0x16 s"

definition cmos_get_extended_memory :: "device \<Rightarrow> 'a machine_scheme \<Rightarrow> u16 \<times> 'a machine_scheme" where
  "cmos_get_extended_memory D s = cmos_read16 D 0x17 0x18 s"

definition cmos_get_extended_memory2 :: "device \<Rightarrow> 'a machine_scheme \<Rightarrow> u32 \<times> 'a machine_scheme" where
  "cmos_get_extended_memory2 D s = (let (v, s) = cmos_read16 D 0x30 0x31 s in (ucast v * 64, s))"

definition cmos_get_floppy_type :: "device \<Rightarrow> 'a machine_scheme \<Rightarrow> u8 \<times> 'a machine_scheme" where
  "cmos_get_floppy_type D s = cmos_read D 0x10 s"

definition cmos_get_disk_type :: "device \<Rightarrow> 'a machine_scheme \<Rightarrow> u8 \<times> 'a machine_scheme" where
  "cmos_get_disk_type D s = cmos_read D 0x12 s"

definition cmos_get_equipment :: "device \<Rightarrow> 'a machine_scheme \<Rightarrow> u16 \<times> 'a machine_scheme" where
  "cmos_get_equipment D s = (let (v, s) = cmos_read D 0x14 s in (ucast v, s))"

definition cmos_set_byte :: "u8 \<Rightarrow> u8 \<Rightarrow> 'a machine_scheme \<Rightarrow> 'a machine_scheme" where
  "cmos_set_byte reg v s = (if 0x0E \<le> reg \<and> reg \<le> 0x7F then cmos_write reg v s else s)"

definition cmos_get_byte :: "device \<Rightarrow> u8 \<Rightarrow> 'a machine_scheme \<Rightarrow> u8 \<times> 'a machine_scheme" where
  "cmos_get_byte D reg s = (if 0x0E \<le> reg \<and> reg \<le> 0x7F then cmos_read D reg s else (0, s))"

section \<open>The calendar\<close>

text \<open>The reference: the Gregorian calendar, one second at a time, stated apart from the tests and tables of the code.\<close>

definition gregorian_leap :: "nat \<Rightarrow> bool" where
  "gregorian_leap y \<longleftrightarrow> 4 dvd y \<and> (100 dvd y \<longrightarrow> 400 dvd y)"

definition month_days :: "nat \<Rightarrow> nat \<Rightarrow> nat" where
  "month_days y m =
     (if m = 2 then (if gregorian_leap y then 29 else 28) else if m \<in> {4, 6, 9, 11} then 30 else 31)"

definition valid_time :: "rtc_time \<Rightarrow> bool" where
  "valid_time t \<longleftrightarrow> second t < 60 \<and> minute t < 60 \<and> hour t < 24 \<and> 1970 \<le> year t \<and> 1 \<le> month t \<and> month t \<le> 12 \<and>
     1 \<le> day t \<and> unat (day t) \<le> month_days (unat (year t)) (unat (month t))"

definition next_day :: "rtc_time \<Rightarrow> rtc_time" where
  "next_day t =
     (if unat (day t) < month_days (unat (year t)) (unat (month t)) then t\<lparr>day := day t + 1\<rparr>
      else if month t < 12 then t\<lparr>day := 1, month := month t + 1\<rparr>
      else t\<lparr>day := 1, month := 1, year := year t + 1\<rparr>)"

definition next_second :: "rtc_time \<Rightarrow> rtc_time" where
  "next_second t =
     (if second t < 59 then t\<lparr>second := second t + 1\<rparr>
      else if minute t < 59 then t\<lparr>second := 0, minute := minute t + 1\<rparr>
      else if hour t < 23 then t\<lparr>second := 0, minute := 0, hour := hour t + 1\<rparr>
      else next_day (t\<lparr>second := 0, minute := 0, hour := 0\<rparr>))"

definition epoch :: rtc_time where
  "epoch = \<lparr>second = 0, minute = 0, hour = 0, day = 1, month = 1, year = 1970, weekday = 4\<rparr>"

text \<open>The test and the table of the code are those of the calendar.\<close>

lemma leap_gregorian: "leap y = gregorian_leap y"
proof -
  have "100 dvd y \<Longrightarrow> 4 dvd y" "400 dvd y \<Longrightarrow> 100 dvd y" by (auto elim: dvd_trans [rotated])
  then show ?thesis by (auto simp: leap_def gregorian_leap_def mod_eq_0_iff_dvd)
qed

lemma month_days_table:
  assumes "1 \<le> m" "m \<le> 12"
  shows "month_days y m = (if m = 2 \<and> leap y then 29 else unat (days_in_month ! (m - 1)))"
proof -
  have "m \<in> {1, 2, 3, 4, 5, 6, 7, 8, 9, 10, 11, 12}"
    using assms unfolding insert_iff empty_iff by presburger
  then show ?thesis by (auto simp: month_days_def days_in_month_def leap_gregorian)
qed

text \<open>The number of seconds, without wrap-around.\<close>

definition year_days :: "nat \<Rightarrow> nat" where
  "year_days y = (\<Sum>i\<leftarrow>[1970..<y]. if leap i then 366 else 365)"

definition day_number :: "rtc_time \<Rightarrow> nat" where
  "day_number t = year_days (unat (year t)) +
     (\<Sum>m\<leftarrow>[1..<unat (month t)]. month_days (unat (year t)) m) + (unat (day t) - 1)"

definition seconds_since :: "rtc_time \<Rightarrow> nat" where
  "seconds_since t = day_number t * 86400 + unat (hour t) * 3600 + unat (minute t) * 60 + unat (second t)"

lemma unat_next: "x < y \<Longrightarrow> unat (x + 1) = unat x + 1" for x y :: "'a::len word"
proof -
  assume "x < y"
  then have "unat x < unat y" by (simp add: word_less_nat_alt)
  moreover have "unat y < 2 ^ LENGTH('a)" by (rule unsigned_less)
  ultimately have "unat x + 1 < 2 ^ LENGTH('a)" by linarith
  then show "unat (x + 1) = unat x + 1" by (simp add: unat_word_ariths)
qed

lemma days_in_month_values:
  "i < 12 \<Longrightarrow> 28 \<le> unat (days_in_month ! i) \<and> unat (days_in_month ! i) \<le> 31"
proof -
  have "\<forall>d \<in> set days_in_month. 28 \<le> unat d \<and> unat d \<le> 31" by (simp add: days_in_month_def)
  moreover assume "i < 12"
  then have "days_in_month ! i \<in> set days_in_month" by (intro nth_mem) (simp add: days_in_month_def)
  ultimately show ?thesis by blast
qed

lemma month_days_bounds: "1 \<le> m \<Longrightarrow> m \<le> 12 \<Longrightarrow> 28 \<le> month_days y m \<and> month_days y m \<le> 31"
  using days_in_month_values [of "m - 1"] by (auto simp: month_days_table)

lemma year_total: "(\<Sum>m\<leftarrow>[1..<13]. month_days y m) = (if leap y then 366 else 365)"
  by (simp add: month_days_def leap_gregorian upt_rec)

lemma year_days_Suc: "1970 \<le> y \<Longrightarrow> year_days (Suc y) = year_days y + (if leap y then 366 else 365)"
  by (simp add: year_days_def)

lemma valid_ranges:
  assumes "valid_time t"
  shows "unat (second t) < 60" "unat (minute t) < 60" "unat (hour t) < 24" "1970 \<le> unat (year t)"
    "1 \<le> unat (month t)" "unat (month t) \<le> 12" "1 \<le> unat (day t)"
    "unat (day t) \<le> month_days (unat (year t)) (unat (month t))" "unat (day t) \<le> 31"
proof -
  show *: "unat (second t) < 60" "unat (minute t) < 60" "unat (hour t) < 24" "1970 \<le> unat (year t)"
    "1 \<le> unat (month t)" "unat (month t) \<le> 12" "1 \<le> unat (day t)"
    "unat (day t) \<le> month_days (unat (year t)) (unat (month t))"
    using assms by (simp_all add: valid_time_def word_less_nat_alt word_le_nat_alt)
  show "unat (day t) \<le> 31" using * month_days_bounds [of "unat (month t)" "unat (year t)"] by linarith
qed

lemma next_day_counts:
  assumes v: "valid_time t" and y: "unat (year t) < 65535"
  shows "valid_time (next_day t) \<and> day_number (next_day t) = day_number t + 1"
proof -
  note R = valid_ranges [OF v]
  let ?m = "unat (month t)" and ?y = "unat (year t)"
  have d1: "unat (day t + 1) = unat (day t) + 1" using R(9) unat_next [of "day t" 32] by (simp add: word_less_nat_alt)
  have y1: "unat (year t + 1) = ?y + 1" using y unat_next [of "year t" "0xFFFF"] by (simp add: word_less_nat_alt)
  have m1: "unat (month t + 1) = ?m + 1" using R(6) unat_next [of "month t" 13] by (simp add: word_less_nat_alt)
  consider (day) "unat (day t) < month_days ?y ?m"
    | (month) "unat (day t) = month_days ?y ?m" "?m < 12"
    | (year) "unat (day t) = month_days ?y ?m" "?m = 12"
    using R(6,8) by linarith
  then show ?thesis
  proof cases
    case day
    with v d1 R show ?thesis
      by (simp add: next_day_def day_number_def valid_time_def word_le_nat_alt word_less_nat_alt)
  next
    case month
    have "28 \<le> month_days ?y (?m + 1)" using month month_days_bounds [of "?m + 1" ?y] by simp
    moreover have "month t < 12" using month by (simp add: word_less_nat_alt)
    ultimately show ?thesis using v month m1 R
      by (simp add: next_day_def day_number_def valid_time_def word_le_nat_alt word_less_nat_alt)
  next
    case year
    have "\<not> month t < 12" using year by (simp add: word_less_nat_alt)
    moreover have "month_days ?y 12 = 31" by (simp add: month_days_def days_in_month_def)
    moreover have "(\<Sum>m\<leftarrow>[1..<12]. month_days ?y m) + month_days ?y 12 = (if leap ?y then 366 else 365)"
    proof -
      have "[1..<13] = [1..<12] @ [12 :: nat]" by (simp add: upt_rec)
      then show ?thesis using year_total [of ?y] by (simp only: map_append sum_list_append) simp
    qed
    moreover have "month_days (?y + 1) 1 = 31" by (simp add: month_days_def days_in_month_def)
    ultimately show ?thesis using v year y1 R year_days_Suc [of ?y]
      by (simp add: next_day_def day_number_def valid_time_def word_le_nat_alt word_less_nat_alt)
  qed
qed

lemma next_second_counts:
  assumes v: "valid_time t" and y: "unat (year t) < 65535"
  shows "valid_time (next_second t) \<and> seconds_since (next_second t) = seconds_since t + 1"
proof -
  note R = valid_ranges [OF v]
  let ?t = "t\<lparr>second := 0, minute := 0, hour := 0\<rparr>"
  have s1: "second t < 59 \<Longrightarrow> unat (second t + 1) = unat (second t) + 1"
    and m1: "minute t < 59 \<Longrightarrow> unat (minute t + 1) = unat (minute t) + 1"
    and h1: "hour t < 23 \<Longrightarrow> unat (hour t + 1) = unat (hour t) + 1" by (simp_all add: unat_next)
  have d0: "valid_time ?t" "unat (year ?t) < 65535" using v y by (simp_all add: valid_time_def)
  have same: "day_number (t\<lparr>second := a, minute := b, hour := c\<rparr>) = day_number t" for a b c by (simp add: day_number_def)
  have nd: "hour (next_day u) = hour u \<and> minute (next_day u) = minute u \<and> second (next_day u) = second u" for u
    by (simp add: next_day_def)
  consider (s) "second t < 59" | (m) "\<not> second t < 59" "minute t < 59" | (h) "\<not> second t < 59" "\<not> minute t < 59" "hour t < 23"
    | (d) "\<not> second t < 59" "\<not> minute t < 59" "\<not> hour t < 23" by blast
  then show ?thesis
  proof cases
    case d
    then have "unat (second t) = 59" "unat (minute t) = 59" "unat (hour t) = 23"
      using R by (simp_all add: word_less_nat_alt)
    with d next_day_counts [OF d0] nd [of ?t] same [of 0 0 0] show ?thesis
      by (simp add: next_second_def seconds_since_def)
  qed (use v s1 m1 h1 R in \<open>auto simp: next_second_def seconds_since_def day_number_def valid_time_def word_less_nat_alt\<close>)
qed

section \<open>The time stamp is the number of seconds\<close>

lemma year_fold: "fold (\<lambda>y d. if leap y then d + 366 else d + 365) ys d0 =
    d0 + of_nat (\<Sum>i\<leftarrow>ys. if leap i then 366 else 365)" for d0 :: u32
  by (induction ys arbitrary: d0) simp_all

lemma months_from:
  assumes "\<forall>m \<in> set ms. 1 \<le> m \<and> m \<le> 12"
  shows "add_months ms d = Some (d + of_nat (\<Sum>m\<leftarrow>ms. unat (days_in_month ! (m - 1))))"
  using assms
proof (induction ms arbitrary: d)
  case (Cons m ms)
  have l: "length days_in_month = 12" by (simp add: days_in_month_def)
  have "m - 1 < 12" using Cons.prems by auto
  with Cons show ?case by (simp add: l)
qed simp

lemma month_sum:
  "k \<le> 13 \<Longrightarrow> (\<Sum>m\<leftarrow>[1..<k]. month_days y m) =
   (\<Sum>m\<leftarrow>[1..<k]. unat (days_in_month ! (m - 1))) + (if leap y \<and> k > 2 then 1 else 0)"
proof (induction k)
  case (Suc k)
  have "month_days y k = unat (days_in_month ! (k - 1)) + (if k = 2 \<and> leap y then 1 else 0)" if "1 \<le> k"
    using that Suc.prems by (simp add: month_days_table days_in_month_def)
  with Suc show ?case by (cases "1 \<le> k") (auto simp: not_le)
qed simp

lemma timestamp_seconds:
  assumes v: "valid_time t"
  shows "timestamp_of t = Some (of_nat (seconds_since t))"
proof -
  note R = valid_ranges [OF v]
  have ms: "\<forall>m \<in> set [1..<unat (month t)]. 1 \<le> m \<and> m \<le> 12" using R(6) by auto
  have k: "unat (month t) \<le> 13" using R(6) by simp
  have m2: "month t > 2 \<longleftrightarrow> 2 < unat (month t)" by (simp add: word_less_nat_alt)
  have d: "(ucast (day t) - 1 :: u32) = of_nat (unat (day t) - 1)"
    using R(7) by (simp add: of_nat_diff)
  show ?thesis
    unfolding timestamp_of_def Let_def months_from [OF ms] year_fold d seconds_since_def day_number_def year_days_def
      month_sum [OF k] m2
    by simp
qed

lemma year_days_ge: "1970 \<le> y \<Longrightarrow> 365 * (y - 1970) \<le> year_days y"
  by (induction y rule: dec_induct) (auto simp: year_days_Suc year_days_def)

lemma year_bound:
  assumes "valid_time t" "seconds_since t < 2 ^ 32"
  shows "unat (year t) < 65535"
proof -
  have "365 * (unat (year t) - 1970) \<le> year_days (unat (year t))" using valid_ranges(4) [OF assms(1)] by (rule year_days_ge)
  then have "365 * (unat (year t) - 1970) * 86400 \<le> seconds_since t" by (simp add: seconds_since_def day_number_def)
  with assms(2) show ?thesis by simp
qed

lemma calendar_counts:
  "n < 2 ^ 32 \<Longrightarrow> valid_time ((next_second ^^ n) epoch) \<and> seconds_since ((next_second ^^ n) epoch) = n"
proof (induction n)
  case 0
  then show ?case
    by (simp add: epoch_def valid_time_def seconds_since_def day_number_def year_days_def month_days_def days_in_month_def)
next
  case (Suc n)
  then have IH: "valid_time ((next_second ^^ n) epoch)" "seconds_since ((next_second ^^ n) epoch) = n" by simp_all
  have "unat (year ((next_second ^^ n) epoch)) < 65535" using IH Suc.prems by (intro year_bound) simp_all
  from next_second_counts [OF IH(1) this] IH(2) show ?case by simp
qed

section \<open>The CMOS memory\<close>

text \<open>The documented behaviour of the chip, with the clock stopped: the data port reads and writes the cell the index
  port was last given. A state of the chip is this index and the cells.\<close>

fun cmos_step :: "access \<Rightarrow> u8 \<times> (u8 \<Rightarrow> u8) \<Rightarrow> u8 \<times> (u8 \<Rightarrow> u8)" where
  "cmos_step (Wr p v) (i, m) =
     (if p = Port8 CMOS_ADDRESS then (ucast v, m) else if p = Port8 CMOS_DATA then (i, m(i := ucast v)) else (i, m))"
| "cmos_step _ c = c"

definition cmos_after :: "(u8 \<Rightarrow> u8) \<Rightarrow> trace \<Rightarrow> u8 \<times> (u8 \<Rightarrow> u8)" where
  "cmos_after m0 tr = fold cmos_step tr (0, m0)"

definition cells :: "(u8 \<Rightarrow> u8) \<Rightarrow> 'a machine_scheme \<Rightarrow> u8 \<Rightarrow> u8" where
  "cells m0 s = snd (cmos_after m0 (trace s))"

definition cmos_device :: "(u8 \<Rightarrow> u8) \<Rightarrow> device" where
  "cmos_device m0 t p = (if p = Port8 CMOS_DATA then ucast (snd (cmos_after m0 t) (fst (cmos_after m0 t))) else 0)"

definition is_cmos :: "device \<Rightarrow> (u8 \<Rightarrow> u8) \<Rightarrow> bool" where
  "is_cmos D m0 \<longleftrightarrow> (\<forall>t. D t (Port8 CMOS_DATA) = cmos_device m0 t (Port8 CMOS_DATA))"

lemma cmos_ports: "CMOS_ADDRESS \<noteq> CMOS_DATA" "CMOS_DATA \<noteq> CMOS_ADDRESS"
  by (simp_all add: CMOS_ADDRESS_def CMOS_DATA_def)

lemma cmos_read_cells:
  assumes "is_cmos D m0"
  shows "fst (cmos_read D r s) = cells m0 s r" "cells m0 (snd (cmos_read D r s)) = cells m0 s"
proof -
  have step: "cmos_step (Wr (Port8 CMOS_ADDRESS) v) c = (ucast v, snd c)" for v c by (cases c) simp
  show "fst (cmos_read D r s) = cells m0 s r" "cells m0 (snd (cmos_read D r s)) = cells m0 s"
    using assms by (simp_all add: cmos_read_def cells_def cmos_after_def is_cmos_def cmos_device_def bus step)
qed

lemma cmos_write_cells: "cells m0 (cmos_write r v s) = (cells m0 s)(r := v)"
proof -
  have "cmos_step (Wr (Port8 CMOS_DATA) w) (cmos_step (Wr (Port8 CMOS_ADDRESS) u) c) = (ucast u, (snd c)(ucast u := ucast w))" for u w c
    by (cases c) (simp add: cmos_ports)
  then show ?thesis by (simp add: cmos_write_def cells_def cmos_after_def bus)
qed

lemma cmos_mode [simp]:
  "rtc_binary_mode (snd (cmos_read D r s)) = rtc_binary_mode s" "rtc_binary_mode (cmos_write r v s) = rtc_binary_mode s"
  by (simp_all add: cmos_read_def cmos_write_def bus)

lemma rtc_wait_update_ready:
  fixes s :: "'a rtc_scheme"
  assumes "is_cmos D m0" "cells m0 s RTC_STATUS_A AND RTC_UIP = 0"
  obtains u where "rtc_wait_update D s = Some u" "cells m0 u = cells m0 s" "rtc_binary_mode u = rtc_binary_mode s"
proof -
  have "rtc_wait_update D s = Some (snd (cmos_read D RTC_STATUS_A s))"
    using cmos_read_cells(1) [OF assms(1), of RTC_STATUS_A s] assms(2)
    by (subst rtc_wait_update.simps) (cases "cmos_read D RTC_STATUS_A s", simp)
  with that cmos_read_cells(2) [OF assms(1), of RTC_STATUS_A s] show thesis by simp
qed

lemma bcd_roundtrip: "b < 100 \<Longrightarrow> bcd_to_binary (binary_to_bcd b) = b"
proof -
  have "\<forall>n \<in> set [0..<100]. bcd_to_binary (binary_to_bcd (of_nat n)) = of_nat n" by code_simp
  moreover assume "b < 100"
  then have "unat b \<in> set [0..<100]" by (simp add: word_less_nat_alt)
  ultimately show ?thesis by (metis of_nat_unat ucast_id)
qed

text \<open>The time the registers hold, as the code reads it.\<close>

definition decode_time :: "bool \<Rightarrow> (u8 \<Rightarrow> u8) \<Rightarrow> rtc_time" where
  "decode_time bcd c =
     (let t = \<lparr>second = c RTC_SECONDS, minute = c RTC_MINUTES, hour = c RTC_HOURS, day = c RTC_DAY, month = c RTC_MONTH,
            year = ucast (c RTC_YEAR), weekday = c RTC_WEEKDAY\<rparr>;
          t = (if bcd then time_from_bcd t else t);
          t = (if year t < 80 then t\<lparr>year := year t + 2000\<rparr> else t\<lparr>year := year t + 1900\<rparr>);
          century = c CMOS_CENTURY
      in if century \<noteq> 0 \<and> century \<noteq> 0xFF
         then t\<lparr>year := ucast (if bcd then bcd_to_binary century else century) * 100 + year t mod 100\<rparr> else t)"

lemma rtc_read_time_cells:
  fixes s :: "'a rtc_scheme"
  assumes dev: "is_cmos D m0" and ready: "cells m0 s RTC_STATUS_A AND RTC_UIP = 0"
  shows "\<exists>u. rtc_read_time D s = Some (decode_time (rtc_binary_mode s = 0) (cells m0 s), u)"
proof -
  obtain v where v: "rtc_wait_update D s = Some v" "cells m0 v = cells m0 s" "rtc_binary_mode v = rtc_binary_mode s"
    using rtc_wait_update_ready [OF assms] by blast
  then show ?thesis
    by (simp add: rtc_read_time_def decode_time_def Let_def split_beta cmos_read_cells [OF dev])
qed

lemma rtc_set_time_cells:
  fixes s :: "'a rtc_scheme"
  assumes dev: "is_cmos D m0" and ready: "cells m0 s RTC_STATUS_A AND RTC_UIP = 0"
  defines "conv \<equiv> \<lambda>b. if rtc_binary_mode s = 0 then binary_to_bcd b else b"
  shows "\<exists>u. rtc_set_time D t s = Some u \<and> rtc_binary_mode u = rtc_binary_mode s \<and>
    cells m0 u = (cells m0 s)(RTC_SECONDS := conv (second t), RTC_MINUTES := conv (minute t), RTC_HOURS := conv (hour t),
      RTC_DAY := conv (day t), RTC_MONTH := conv (month t), RTC_YEAR := conv (ucast (year t mod 100)),
      CMOS_CENTURY := conv (ucast (year t div 100)))"
proof -
  let ?b = "cells m0 s RTC_STATUS_B"
  let ?w = "cmos_write RTC_STATUS_B (?b OR 0x80) (snd (cmos_read D RTC_STATUS_B s))"
  have w: "cells m0 ?w = (cells m0 s)(RTC_STATUS_B := ?b OR 0x80)"
    by (simp add: cmos_write_cells cmos_read_cells [OF dev])
  have "cells m0 ?w RTC_STATUS_A AND RTC_UIP = 0" using ready by (simp only: w) (simp add: rtc_regs)
  then obtain v where v: "rtc_wait_update D ?w = Some v" "cells m0 v = cells m0 ?w" "rtc_binary_mode v = rtc_binary_mode ?w"
    using rtc_wait_update_ready [OF dev] by blast
  then show ?thesis
    by (simp add: rtc_set_time_def conv_def [abs_def] Let_def split_beta cmos_read_cells [OF dev] cmos_write_cells w
        rtc_regs fun_upd_twist fun_upd_idem)
qed

lemma bcd_small: "b < 100 \<Longrightarrow> b \<noteq> 0 \<Longrightarrow> binary_to_bcd b \<noteq> 0 \<and> binary_to_bcd b \<noteq> 0xFF"
  using bcd_roundtrip [of b] by (auto simp: bcd_to_binary_def)

text \<open>The year, cut into century and rest and put together again.\<close>

lemma year_parts:
  assumes "100 \<le> y" "y \<le> (9999 :: u16)"
  shows "(ucast (y mod 100) :: u8) < 100" "(ucast (y div 100) :: u8) < 100" "(ucast (y div 100) :: u8) \<noteq> 0"
    "ucast (ucast (y mod 100) :: u8) = y mod 100" "ucast (ucast (y div 100) :: u8) = y div 100"
    "y div 100 * 100 + y mod 100 = y" "(y mod 100 + 2000) mod 100 = y mod 100" "(y mod 100 + 1900) mod 100 = y mod 100"
proof -
  have y: "100 \<le> unat y" "unat y \<le> 9999" using assms by (simp_all add: word_le_nat_alt)
  have m: "unat (y mod 100) = unat y mod 100" and d: "unat (y div 100) = unat y div 100"
    by (simp_all add: unat_mod_distrib unat_div_distrib)
  have mb: "unat y mod 100 < 100" and db: "1 \<le> unat y div 100" "unat y div 100 < 100" using y by simp_all
  have um: "unat (ucast (y mod 100) :: u8) = unat y mod 100" and ud: "unat (ucast (y div 100) :: u8) = unat y div 100"
    using mb db by (simp_all add: unsigned_ucast_eq unsigned_take_bit_eq take_bit_nat_eq_self m d)
  show "(ucast (y mod 100) :: u8) < 100" "(ucast (y div 100) :: u8) < 100" "(ucast (y div 100) :: u8) \<noteq> 0"
    using mb db by (simp_all add: word_less_nat_alt um ud word_unat_eq_iff)
  show "ucast (ucast (y mod 100) :: u8) = y mod 100" "ucast (ucast (y div 100) :: u8) = y div 100"
    using mb db by (simp_all add: word_unat_eq_iff unsigned_ucast_eq unsigned_take_bit_eq take_bit_nat_eq_self um ud m d)
  show "y div 100 * 100 + y mod 100 = y" by (metis div_mult_mod_eq)
  show "(y mod 100 + 2000) mod 100 = y mod 100" "(y mod 100 + 1900) mod 100 = y mod 100"
  proof -
    have "(k + 2000) mod 100 = k mod 100" "(k + 1900) mod 100 = k mod 100" for k :: nat
      using mod_mult_self1 [of k 20 100] mod_mult_self1 [of k 19 100] by simp_all
    then show "(y mod 100 + 2000) mod 100 = y mod 100" "(y mod 100 + 1900) mod 100 = y mod 100"
      using mb by (simp_all add: word_unat_eq_iff unat_mod_distrib unat_word_ariths(1) m)
  qed
qed

lemma decode_written:
  assumes t: "second t < 100" "minute t < 100" "hour t < 100" "day t < 100" "month t < 100" "100 \<le> year t" "year t \<le> 9999"
    and c: "c = m(RTC_SECONDS := conv (second t), RTC_MINUTES := conv (minute t), RTC_HOURS := conv (hour t),
      RTC_DAY := conv (day t), RTC_MONTH := conv (month t), RTC_YEAR := conv (ucast (year t mod 100)),
      CMOS_CENTURY := conv (ucast (year t div 100)))"
    and conv: "conv = (\<lambda>b. if bcd then binary_to_bcd b else b)"
  shows "\<exists>w. decode_time bcd c = t\<lparr>weekday := w\<rparr>"
proof -
  note Y = year_parts [OF t(6,7)]
  have cen: "ucast (year t div 100) \<noteq> (0xFF :: u8)" using Y(2) by auto
  have back16: "(ucast (ucast b :: u16) :: u8) = b" for b :: u8 by (simp add: ucast_up_ucast_id is_up)
  have record_eq: "\<lparr>second = second t, minute = minute t, hour = hour t, day = day t, month = month t, year = year t,
      weekday = w\<rparr> = t\<lparr>weekday := w\<rparr>" for w by (cases t) simp
  show ?thesis
    using t(1-5) Y cen bcd_small [OF Y(2,3)]
    by (simp add: decode_time_def c conv time_from_bcd_def rtc_regs bcd_roundtrip Let_def back16 record_eq) blast
qed

section \<open>Properties\<close>

text \<open>C17: Counting the seconds of the Gregorian calendar from midnight of 1970-01-01, the time after \<open>n\<close> seconds has the
  time stamp \<open>n\<close>, for all \<open>n\<close> below \<open>2 ^ 32\<close> (until the year 2106).\<close>

theorem rtc_timestamp_counts:
  assumes "n < 2 ^ 32"
  shows "timestamp_of ((next_second ^^ n) epoch) = Some (of_nat n) \<and> valid_time ((next_second ^^ n) epoch)"
  using calendar_counts [OF assms] timestamp_seconds by metis

lemma rtc_timestamp_counts_witness:
  "timestamp_of ((next_second ^^ 4000000000) epoch) = Some 4000000000"
  using rtc_timestamp_counts [of 4000000000] by simp

text \<open>A time written with \<open>rtc_set_time\<close> is the time \<open>rtc_read_time\<close> then returns, in binary and in BCD mode, for all
  fields of two digits and years 100 to 9999; only the weekday is not written. The chip is stopped and not in
  an update.\<close>

lemma rtc_set_read_roundtrip:
  fixes s :: rtc
  assumes dev: "is_cmos D m0" and ready: "cells m0 s RTC_STATUS_A AND RTC_UIP = 0"
    and t: "second t < 100" "minute t < 100" "hour t < 100" "day t < 100" "month t < 100" "100 \<le> year t" "year t \<le> 9999"
  shows "\<exists>u v w. rtc_set_time D t s = Some u \<and> rtc_read_time D u = Some (t\<lparr>weekday := w\<rparr>, v)"
proof -
  obtain u where u: "rtc_set_time D t s = Some u" "rtc_binary_mode u = rtc_binary_mode s"
    and c: "cells m0 u = (cells m0 s)(RTC_SECONDS := if rtc_binary_mode s = 0 then binary_to_bcd (second t) else second t,
      RTC_MINUTES := if rtc_binary_mode s = 0 then binary_to_bcd (minute t) else minute t,
      RTC_HOURS := if rtc_binary_mode s = 0 then binary_to_bcd (hour t) else hour t,
      RTC_DAY := if rtc_binary_mode s = 0 then binary_to_bcd (day t) else day t,
      RTC_MONTH := if rtc_binary_mode s = 0 then binary_to_bcd (month t) else month t,
      RTC_YEAR := if rtc_binary_mode s = 0 then binary_to_bcd (ucast (year t mod 100)) else ucast (year t mod 100),
      CMOS_CENTURY := if rtc_binary_mode s = 0 then binary_to_bcd (ucast (year t div 100)) else ucast (year t div 100))"
    using rtc_set_time_cells [OF dev ready, of t] by blast
  have "cells m0 u RTC_STATUS_A AND RTC_UIP = 0" using ready by (simp only: c) (simp add: rtc_regs)
  then obtain v where "rtc_read_time D u = Some (decode_time (rtc_binary_mode u = 0) (cells m0 u), v)"
    using rtc_read_time_cells [OF dev] by blast
  moreover obtain w where "decode_time (rtc_binary_mode u = 0) (cells m0 u) = t\<lparr>weekday := w\<rparr>"
    using decode_written [OF t c refl] u(2) by auto
  ultimately show ?thesis using u(1) by auto
qed

end
