(* ===== verification/Pci.thy ===== *)
theory Pci
  imports Blood_Prelude
begin

text \<open>
  \<open>src/drivers/pci.c\<close>: the enumeration of the PCI functions through the configuration ports, and the
  table of at most 256 functions found.
\<close>

definition PCI_CONFIG_ADDR :: u16 where "PCI_CONFIG_ADDR = 0xCF8"
definition PCI_CONFIG_DATA :: u16 where "PCI_CONFIG_DATA = 0xCFC"
definition PCI_VENDOR_ID :: u8 where "PCI_VENDOR_ID = 0x00"
definition PCI_DEVICE_ID :: u8 where "PCI_DEVICE_ID = 0x02"
definition PCI_COMMAND :: u8 where "PCI_COMMAND = 0x04"
definition PCI_REVISION_ID :: u8 where "PCI_REVISION_ID = 0x08"
definition PCI_PROG_IF :: u8 where "PCI_PROG_IF = 0x09"
definition PCI_SUBCLASS :: u8 where "PCI_SUBCLASS = 0x0A"
definition PCI_CLASS_CODE :: u8 where "PCI_CLASS_CODE = 0x0B"
definition PCI_HEADER_TYPE :: u8 where "PCI_HEADER_TYPE = 0x0E"
definition PCI_BAR0 :: u8 where "PCI_BAR0 = 0x10"
definition PCI_INTERRUPT_LINE :: u8 where "PCI_INTERRUPT_LINE = 0x3C"
definition PCI_INTERRUPT_PIN :: u8 where "PCI_INTERRUPT_PIN = 0x3D"
definition PCI_MAX :: nat where "PCI_MAX = 256"

record pci_device =
  pd_bus :: u8
  pd_device :: u8
  pd_function :: u8
  pd_vendor_id :: u16
  pd_device_id :: u16
  pd_class_code :: u8
  pd_subclass :: u8
  pd_prog_if :: u8
  pd_revision :: u8
  pd_header_type :: u8
  pd_bar :: "u32 list"
  pd_irq_line :: u8
  pd_irq_pin :: u8

record pci = machine +
  pci_devices :: "pci_device list"
  pci_device_count :: u16

section \<open>Configuration space\<close>

definition pci_address :: "u8 \<Rightarrow> u8 \<Rightarrow> u8 \<Rightarrow> u8 \<Rightarrow> u32" where
  "pci_address bus dev func off =
     push_bit 31 1 OR push_bit 16 (ucast bus) OR push_bit 11 (ucast dev) OR push_bit 8 (ucast func) OR ucast (off AND 0xFC)"

definition pci_config_read :: "device \<Rightarrow> u8 \<Rightarrow> u8 \<Rightarrow> u8 \<Rightarrow> u8 \<Rightarrow> 'a machine_scheme \<Rightarrow> u32 \<times> 'a machine_scheme" where
  "pci_config_read D bus dev func off s =
     (let s = outl PCI_CONFIG_ADDR (pci_address bus dev func off) s;
          (v, s) = inl D PCI_CONFIG_DATA s
      in (drop_bit (unat (off AND 3) * 8) v, s))"

definition pci_config_write :: "u8 \<Rightarrow> u8 \<Rightarrow> u8 \<Rightarrow> u8 \<Rightarrow> u32 \<Rightarrow> 'a machine_scheme \<Rightarrow> 'a machine_scheme" where
  "pci_config_write bus dev func off v s =
     outl PCI_CONFIG_DATA v (outl PCI_CONFIG_ADDR (pci_address bus dev func off) s)"

definition pci_config_read16 :: "device \<Rightarrow> u8 \<Rightarrow> u8 \<Rightarrow> u8 \<Rightarrow> u8 \<Rightarrow> 'a machine_scheme \<Rightarrow> u16 \<times> 'a machine_scheme" where
  "pci_config_read16 D bus dev func off s =
     (let (v, s) = pci_config_read D bus dev func off s in (ucast (v AND 0xFFFF), s))"

definition pci_config_read8 :: "device \<Rightarrow> u8 \<Rightarrow> u8 \<Rightarrow> u8 \<Rightarrow> u8 \<Rightarrow> 'a machine_scheme \<Rightarrow> u8 \<times> 'a machine_scheme" where
  "pci_config_read8 D bus dev func off s =
     (let (v, s) = pci_config_read D bus dev func off s in (ucast (v AND 0xFF), s))"

definition pci_config_write16 ::
  "device \<Rightarrow> u8 \<Rightarrow> u8 \<Rightarrow> u8 \<Rightarrow> u8 \<Rightarrow> u16 \<Rightarrow> 'a machine_scheme \<Rightarrow> 'a machine_scheme" where
  "pci_config_write16 D bus dev func off v s =
     (let (tmp, s) = pci_config_read D bus dev func (off AND 0xFC) s;
          sh = unat (off AND 2) * 8;
          tmp = tmp AND NOT (push_bit sh 0xFFFF);
          tmp = tmp OR push_bit sh (ucast v)
      in pci_config_write bus dev func (off AND 0xFC) tmp s)"

definition pci_get_bar_size :: "device \<Rightarrow> u8 \<Rightarrow> u8 \<Rightarrow> u8 \<Rightarrow> u8 \<Rightarrow> 'a machine_scheme \<Rightarrow> u32 \<times> 'a machine_scheme" where
  "pci_get_bar_size D bus dev func bar_num s =
     (let bar_offset = PCI_BAR0 + bar_num * 4;
          (original, s) = pci_config_read D bus dev func bar_offset s;
          s = pci_config_write bus dev func bar_offset 0xFFFFFFFF s;
          (sz, s) = pci_config_read D bus dev func bar_offset s;
          s = pci_config_write bus dev func bar_offset original s
      in (if sz = 0 then 0
          else if original AND 1 \<noteq> 0 then NOT (sz AND 0xFFFFFFFC) + 1
          else NOT (sz AND 0xFFFFFFF0) + 1, s))"

section \<open>Enumeration\<close>

text \<open>The six base address registers, and the record of one function whose vendor id has been read.\<close>

fun pci_read_bars :: "device \<Rightarrow> u8 \<Rightarrow> u8 \<Rightarrow> u8 \<Rightarrow> nat list \<Rightarrow> 'a machine_scheme \<Rightarrow> u32 list \<times> 'a machine_scheme" where
  "pci_read_bars D bus dev func [] s = ([], s)"
| "pci_read_bars D bus dev func (i # is) s =
     (let (b, s) = pci_config_read D bus dev func (PCI_BAR0 + of_nat i * 4) s;
          (bs, s) = pci_read_bars D bus dev func is s
      in (b # bs, s))"

definition pci_read_function ::
  "device \<Rightarrow> u8 \<Rightarrow> u8 \<Rightarrow> u8 \<Rightarrow> u16 \<Rightarrow> 'a machine_scheme \<Rightarrow> pci_device \<times> 'a machine_scheme" where
  "pci_read_function D bus dev func vendor s =
     (let (did, s) = pci_config_read16 D bus dev func PCI_DEVICE_ID s;
          (cls, s) = pci_config_read8 D bus dev func PCI_CLASS_CODE s;
          (sub, s) = pci_config_read8 D bus dev func PCI_SUBCLASS s;
          (pif, s) = pci_config_read8 D bus dev func PCI_PROG_IF s;
          (rev, s) = pci_config_read8 D bus dev func PCI_REVISION_ID s;
          (hdr, s) = pci_config_read8 D bus dev func PCI_HEADER_TYPE s;
          (line, s) = pci_config_read8 D bus dev func PCI_INTERRUPT_LINE s;
          (pin, s) = pci_config_read8 D bus dev func PCI_INTERRUPT_PIN s;
          (bars, s) = pci_read_bars D bus dev func [0..<6] s
      in (\<lparr>pd_bus = bus, pd_device = dev, pd_function = func, pd_vendor_id = vendor, pd_device_id = did,
           pd_class_code = cls, pd_subclass = sub, pd_prog_if = pif, pd_revision = rev, pd_header_type = hdr,
           pd_bar = bars, pd_irq_line = line, pd_irq_pin = pin\<rparr>, s))"

text \<open>\<open>pci_devices[pci_device_count++]\<close> is filled.\<close>

definition pci_add :: "pci_device \<Rightarrow> 'a pci_scheme \<Rightarrow> 'a pci_scheme" where
  "pci_add d s = s\<lparr>pci_devices := (pci_devices s)[unat (pci_device_count s) := d], pci_device_count := pci_device_count s + 1\<rparr>"

definition pci_scan_function :: "device \<Rightarrow> u8 \<Rightarrow> u8 \<Rightarrow> u8 \<Rightarrow> 'a pci_scheme \<Rightarrow> 'a pci_scheme" where
  "pci_scan_function D bus dev func s =
     (let (vendor, s) = pci_config_read16 D bus dev func PCI_VENDOR_ID s
      in if vendor \<noteq> 0xFFFF \<and> pci_device_count s < 256
         then (let (d, s) = pci_read_function D bus dev func vendor s in pci_add d s) else s)"

definition pci_scan_device :: "device \<Rightarrow> u8 \<Rightarrow> u8 \<Rightarrow> 'a pci_scheme \<Rightarrow> 'a pci_scheme" where
  "pci_scan_device D bus dev s =
     (let (vendor, s) = pci_config_read16 D bus dev 0 PCI_VENDOR_ID s
      in if vendor = 0xFFFF then s
         else
           (let (d, s) = pci_read_function D bus dev 0 vendor s; s = pci_add d s
            in if pd_header_type d AND 0x80 \<noteq> 0
               then fold (\<lambda>func. pci_scan_function D bus dev (of_nat func)) [1..<8] s else s))"

text \<open>Both loops stop for good once the table is full; the remaining turns leave the state alone.\<close>

definition pci_slots :: "(nat \<times> nat) list" where
  "pci_slots = List.product [0..<256] [0..<32]"

definition pci_init :: "device \<Rightarrow> 'a pci_scheme \<Rightarrow> 'a pci_scheme" where
  "pci_init D s =
     fold (\<lambda>(bus, dev) s. if pci_device_count s \<ge> 256 then s else pci_scan_device D (of_nat bus) (of_nat dev) s)
       pci_slots (s\<lparr>pci_device_count := 0\<rparr>)"

definition pci_get_device_count :: "'a pci_scheme \<Rightarrow> u16" where
  "pci_get_device_count s = pci_device_count s"

text \<open>A pointer into the table is its index; the null pointer is \<open>None\<close>.\<close>

definition pci_get_device :: "u16 \<Rightarrow> 'a pci_scheme \<Rightarrow> nat option" where
  "pci_get_device i s = (if i < pci_device_count s then Some (unat i) else None)"

definition pci_find_device :: "u16 \<Rightarrow> u16 \<Rightarrow> 'a pci_scheme \<Rightarrow> nat option" where
  "pci_find_device vendor_id device_id s =
     find (\<lambda>i. pd_vendor_id (pci_devices s ! i) = vendor_id \<and> pd_device_id (pci_devices s ! i) = device_id)
       [0..<unat (pci_device_count s)]"

definition pci_find_class :: "u8 \<Rightarrow> u8 \<Rightarrow> 'a pci_scheme \<Rightarrow> nat option" where
  "pci_find_class class_code subclass s =
     find (\<lambda>i. pd_class_code (pci_devices s ! i) = class_code \<and> pd_subclass (pci_devices s ! i) = subclass)
       [0..<unat (pci_device_count s)]"

definition pci_enable_device :: "device \<Rightarrow> pci_device \<Rightarrow> 'a machine_scheme \<Rightarrow> 'a machine_scheme" where
  "pci_enable_device D d s =
     (let (command, s) = pci_config_read16 D (pd_bus d) (pd_device d) (pd_function d) PCI_COMMAND s
      in pci_config_write16 D (pd_bus d) (pd_device d) (pd_function d) PCI_COMMAND (command OR 0x07) s)"

definition pci_set_irq_line :: "nat \<Rightarrow> u8 \<Rightarrow> 'a pci_scheme \<Rightarrow> 'a pci_scheme" where
  "pci_set_irq_line i irq s =
     (let d = pci_devices s ! i;
          s = pci_config_write (pd_bus d) (pd_device d) (pd_function d) PCI_INTERRUPT_LINE (ucast irq) s
      in s\<lparr>pci_devices := (pci_devices s)[i := d\<lparr>pd_irq_line := irq\<rparr>]\<rparr>)"

definition pci_class_names :: "string list" where
  "pci_class_names = [''Legacy'', ''Storage'', ''Network'', ''Display'', ''Multimedia'', ''Memory'', ''Bridge'',
     ''Communication'', ''System'', ''Input'', ''Docking'', ''Processor'', ''Serial Bus'', ''Wireless'',
     ''Intelligent'', ''Satellite'', ''Encryption'', ''Signal Processing'']"

definition pci_get_class_name :: "u8 \<Rightarrow> string" where
  "pci_get_class_name class_code =
     (if unat class_code < length pci_class_names then pci_class_names ! unat class_code else ''Unknown'')"

section \<open>Devices on the bus\<close>

text \<open>The documented configuration mechanism: the data port reads the configuration word the address port selects.
  \<open>cfg\<close> is the configuration space of the machine.\<close>

definition pci_bus :: "(u32 \<Rightarrow> u32) \<Rightarrow> device" where
  "pci_bus cfg t p = (if p = Port32 PCI_CONFIG_DATA then ucast (cfg (ucast (last_write 0 t (Port32 PCI_CONFIG_ADDR)))) else 0)"

definition is_pci :: "device \<Rightarrow> (u32 \<Rightarrow> u32) \<Rightarrow> bool" where
  "is_pci D cfg \<longleftrightarrow> (\<forall>t. D t (Port32 PCI_CONFIG_DATA) = pci_bus cfg t (Port32 PCI_CONFIG_DATA))"

definition conf :: "(u32 \<Rightarrow> u32) \<Rightarrow> u8 \<Rightarrow> u8 \<Rightarrow> u8 \<Rightarrow> u8 \<Rightarrow> u32" where
  "conf cfg bus dev func off = drop_bit (unat (off AND 3) * 8) (cfg (pci_address bus dev func off))"

definition vendor_at :: "(u32 \<Rightarrow> u32) \<Rightarrow> u8 \<Rightarrow> u8 \<Rightarrow> u8 \<Rightarrow> u16" where
  "vendor_at cfg bus dev func = ucast (conf cfg bus dev func PCI_VENDOR_ID AND 0xFFFF)"

definition function_at :: "(u32 \<Rightarrow> u32) \<Rightarrow> u8 \<Rightarrow> u8 \<Rightarrow> u8 \<Rightarrow> pci_device" where
  "function_at cfg bus dev func =
     (let c16 = (\<lambda>off. ucast (conf cfg bus dev func off AND 0xFFFF)); c8 = (\<lambda>off. ucast (conf cfg bus dev func off AND 0xFF))
      in \<lparr>pd_bus = bus, pd_device = dev, pd_function = func, pd_vendor_id = vendor_at cfg bus dev func,
          pd_device_id = c16 PCI_DEVICE_ID, pd_class_code = c8 PCI_CLASS_CODE, pd_subclass = c8 PCI_SUBCLASS,
          pd_prog_if = c8 PCI_PROG_IF, pd_revision = c8 PCI_REVISION_ID, pd_header_type = c8 PCI_HEADER_TYPE,
          pd_bar = map (\<lambda>i. conf cfg bus dev func (PCI_BAR0 + of_nat i * 4)) [0..<6],
          pd_irq_line = c8 PCI_INTERRUPT_LINE, pd_irq_pin = c8 PCI_INTERRUPT_PIN\<rparr>)"

text \<open>The functions of a slot: none without function 0, the others only of a multi-function device.\<close>

definition slot_functions :: "(u32 \<Rightarrow> u32) \<Rightarrow> nat \<times> nat \<Rightarrow> pci_device list" where
  "slot_functions cfg slot =
     (let b = of_nat (fst slot); d = of_nat (snd slot)
      in if vendor_at cfg b d 0 = 0xFFFF then []
         else function_at cfg b d 0 #
           (if pd_header_type (function_at cfg b d 0) AND 0x80 \<noteq> 0
            then map (\<lambda>f. function_at cfg b d (of_nat f)) (filter (\<lambda>f. vendor_at cfg b d (of_nat f) \<noteq> 0xFFFF) [1..<8])
            else []))"

lemma pci_config_read_bus:
  assumes "is_pci D cfg"
  shows "fst (pci_config_read D bus dev func off s) = conf cfg bus dev func off"
    and "only_trace s (snd (pci_config_read D bus dev func off s))"
proof -
  have "Port32 PCI_CONFIG_ADDR \<noteq> Port32 PCI_CONFIG_DATA" by (simp add: PCI_CONFIG_ADDR_def PCI_CONFIG_DATA_def)
  then show "fst (pci_config_read D bus dev func off s) = conf cfg bus dev func off"
    "only_trace s (snd (pci_config_read D bus dev func off s))"
    using assms by (simp_all add: pci_config_read_def outl_def inl_def bus is_pci_def pci_bus_def conf_def)
qed

lemma pci_config_read16_bus:
  assumes "is_pci D cfg"
  shows "fst (pci_config_read16 D bus dev func off s) = ucast (conf cfg bus dev func off AND 0xFFFF)"
    and "only_trace s (snd (pci_config_read16 D bus dev func off s))"
  using pci_config_read_bus [OF assms, where bus = bus and dev = dev and func = func and off = off and s = s] by (simp_all add: pci_config_read16_def split_beta)

lemma pci_config_read8_bus:
  assumes "is_pci D cfg"
  shows "fst (pci_config_read8 D bus dev func off s) = ucast (conf cfg bus dev func off AND 0xFF)"
    and "only_trace s (snd (pci_config_read8 D bus dev func off s))"
  using pci_config_read_bus [OF assms, where bus = bus and dev = dev and func = func and off = off and s = s] by (simp_all add: pci_config_read8_def split_beta)

lemma pci_read_bars_bus:
  assumes "is_pci D cfg"
  shows "fst (pci_read_bars D bus dev func is s) = map (\<lambda>i. conf cfg bus dev func (PCI_BAR0 + of_nat i * 4)) is"
    and "only_trace s (snd (pci_read_bars D bus dev func is s))"
proof (induction "is" arbitrary: s)
  case Nil
  { case 1 show ?case by simp }
  { case 2 show ?case using only_trace_upd [of s "trace s"] by simp }
next
  case (Cons i "is")
  note R = pci_config_read_bus [OF assms]
  { case 1 show ?case using Cons R by (simp add: split_beta) }
  { case 2 show ?case using only_trace_trans [OF R(2) Cons(2)] by (simp add: split_beta) }
qed

lemma pci_read_function_bus:
  assumes "is_pci D cfg"
  shows "fst (pci_read_function D bus dev func (vendor_at cfg bus dev func) s) = function_at cfg bus dev func"
    and "only_trace s (snd (pci_read_function D bus dev func v s))"
proof -
  note R = pci_config_read16_bus [OF assms] pci_config_read8_bus [OF assms] pci_read_bars_bus [OF assms]
  show "fst (pci_read_function D bus dev func (vendor_at cfg bus dev func) s) = function_at cfg bus dev func"
    by (simp add: pci_read_function_def function_at_def Let_def split_beta R)
  show "only_trace s (snd (pci_read_function D bus dev func v s))"
    by (simp add: pci_read_function_def Let_def split_beta) ((rule R(2) R(4) R(6) | rule only_trace_trans [rotated])+)
qed

section \<open>The table\<close>

definition pci_ok :: "'a pci_scheme \<Rightarrow> bool" where
  "pci_ok s \<longleftrightarrow> length (pci_devices s) = PCI_MAX \<and> unat (pci_device_count s) \<le> PCI_MAX"

definition scanned :: "'a pci_scheme \<Rightarrow> pci_device list" where
  "scanned s = take (unat (pci_device_count s)) (pci_devices s)"

lemma only_trace_pci:
  assumes "only_trace s t"
  shows "pci_ok t \<longleftrightarrow> pci_ok s" "scanned t = scanned s" "pci_device_count t = pci_device_count s"
  using assms by (auto simp: only_trace_def pci_ok_def scanned_def)

lemma pci_full: "pci_ok s \<Longrightarrow> pci_device_count s < 256 \<longleftrightarrow> length (scanned s) < PCI_MAX"
  by (auto simp: pci_ok_def scanned_def PCI_MAX_def word_less_nat_alt)

lemma pci_add_scanned:
  assumes "pci_ok s" "pci_device_count s < 256"
  shows "pci_ok (pci_add d s) \<and> scanned (pci_add d s) = scanned s @ [d]"
proof -
  have c: "unat (pci_device_count s) < 256" using assms(2) by (simp add: word_less_nat_alt)
  then have "unat (pci_device_count s + 1) = unat (pci_device_count s) + 1" by (simp add: unat_word_ariths)
  then show ?thesis using assms(1) c
    by (simp add: pci_ok_def scanned_def pci_add_def PCI_MAX_def take_Suc_conv_app_nth)
qed

lemma take_take_append: "take n (take n xs @ ys) = take n (xs @ ys)"
  by (cases "n \<le> length xs") simp_all

lemma take_take_append2: "take n (take n (xs @ ys) @ zs) = take n (xs @ ys @ zs)"
  by (metis append_assoc take_take_append)

lemma scanned_le: "pci_ok s \<Longrightarrow> length (scanned s) \<le> PCI_MAX"
  by (simp add: pci_ok_def scanned_def)

lemma pci_scan_function_scanned:
  fixes s :: "'a pci_scheme"
  assumes dev: "is_pci D cfg" and ok: "pci_ok s"
  shows "pci_ok (pci_scan_function D b d f s) \<and> scanned (pci_scan_function D b d f s) =
    take PCI_MAX (scanned s @ (if vendor_at cfg b d f \<noteq> 0xFFFF then [function_at cfg b d f] else []))"
proof -
  let ?u = "snd (pci_config_read16 D b d f PCI_VENDOR_ID s)"
  let ?v = "snd (pci_read_function D b d f (vendor_at cfg b d f) ?u)"
  have vendor: "fst (pci_config_read16 D b d f PCI_VENDOR_ID s) = vendor_at cfg b d f"
    by (simp add: pci_config_read16_bus [OF dev] vendor_at_def)
  have su: "only_trace s ?u" by (rule pci_config_read16_bus(2) [OF dev])
  moreover have "only_trace ?u ?v" by (rule pci_read_function_bus(2) [OF dev])
  ultimately have sv: "only_trace s ?v" by (rule only_trace_trans)
  note su = only_trace_pci [OF su] and sv = only_trace_pci [OF sv]
  show ?thesis
  proof (cases "vendor_at cfg b d f \<noteq> 0xFFFF \<and> pci_device_count s < 256")
    case True
    then have "pci_scan_function D b d f s = pci_add (function_at cfg b d f) ?v"
      using vendor su pci_read_function_bus(1) [OF dev, of b d f ?u]
      by (simp add: pci_scan_function_def split_beta)
    moreover have "length (scanned s) < PCI_MAX" using True pci_full [OF ok] by simp
    ultimately show ?thesis using pci_add_scanned [of ?v "function_at cfg b d f"] sv ok True by simp
  next
    case False
    then have "pci_scan_function D b d f s = ?u" using vendor su by (auto simp: pci_scan_function_def split_beta)
    moreover have "take PCI_MAX (scanned s) = scanned s" using scanned_le [OF ok] by simp
    moreover have "vendor_at cfg b d f \<noteq> 0xFFFF \<Longrightarrow> PCI_MAX \<le> length (scanned s)"
      using False pci_full [OF ok] by auto
    ultimately show ?thesis using su ok by auto
  qed
qed

lemma pci_scan_functions_scanned:
  fixes s :: "'a pci_scheme"
  assumes dev: "is_pci D cfg" and ok: "pci_ok s"
  shows "pci_ok (fold (\<lambda>f. pci_scan_function D b d (of_nat f)) fs s) \<and>
    scanned (fold (\<lambda>f. pci_scan_function D b d (of_nat f)) fs s) =
    take PCI_MAX (scanned s @ map (\<lambda>f. function_at cfg b d (of_nat f)) (filter (\<lambda>f. vendor_at cfg b d (of_nat f) \<noteq> 0xFFFF) fs))"
  using ok
proof (induction fs arbitrary: s)
  case Nil
  then show ?case using scanned_le [of s] by simp
next
  case (Cons f fs)
  note step = pci_scan_function_scanned [OF dev Cons.prems, of b d "of_nat f"]
  with Cons.IH [of "pci_scan_function D b d (of_nat f) s"] show ?case
    by (auto simp: take_take_append2 simp del: take_append)
qed

lemma pci_scan_device_scanned:
  fixes s :: "'a pci_scheme"
  assumes dev: "is_pci D cfg" and ok: "pci_ok s" and room: "pci_device_count s < 256"
  shows "pci_ok (pci_scan_device D (of_nat b) (of_nat d) s) \<and>
    scanned (pci_scan_device D (of_nat b) (of_nat d) s) = take PCI_MAX (scanned s @ slot_functions cfg (b, d))"
proof -
  let ?b = "of_nat b :: u8" and ?d = "of_nat d :: u8"
  let ?u = "snd (pci_config_read16 D ?b ?d 0 PCI_VENDOR_ID s)"
  let ?v = "snd (pci_read_function D ?b ?d 0 (vendor_at cfg ?b ?d 0) ?u)"
  have vendor: "fst (pci_config_read16 D ?b ?d 0 PCI_VENDOR_ID s) = vendor_at cfg ?b ?d 0"
    by (simp add: pci_config_read16_bus [OF dev] vendor_at_def)
  have su: "only_trace s ?u" by (rule pci_config_read16_bus(2) [OF dev])
  moreover have "only_trace ?u ?v" by (rule pci_read_function_bus(2) [OF dev])
  ultimately have sv: "only_trace s ?v" by (rule only_trace_trans)
  note su = only_trace_pci [OF su] and sv = only_trace_pci [OF sv]
  have l: "length (scanned s) < PCI_MAX" using room pci_full [OF ok] by simp
  show ?thesis
  proof (cases "vendor_at cfg ?b ?d 0 = 0xFFFF")
    case True
    then show ?thesis using vendor su ok l by (simp add: pci_scan_device_def split_beta slot_functions_def)
  next
    case False
    let ?w = "pci_add (function_at cfg ?b ?d 0) ?v"
    have w: "pci_ok ?w" "scanned ?w = scanned s @ [function_at cfg ?b ?d 0]"
      using pci_add_scanned [of ?v "function_at cfg ?b ?d 0"] sv ok room by simp_all
    have "pci_scan_device D ?b ?d s = (if pd_header_type (function_at cfg ?b ?d 0) AND 0x80 \<noteq> 0
        then fold (\<lambda>f. pci_scan_function D ?b ?d (of_nat f)) [1..<8] ?w else ?w)"
      using False vendor pci_read_function_bus(1) [OF dev, of ?b ?d 0 ?u]
      by (simp add: pci_scan_device_def split_beta Let_def)
    moreover have "take PCI_MAX (scanned ?w) = scanned ?w" using l w(2) by simp
    ultimately show ?thesis using False w pci_scan_functions_scanned [OF dev w(1), of ?b ?d "[1..<8]"]
      by (simp add: slot_functions_def Let_def del: upt_Suc)
  qed
qed

lemma pci_scan_slots:
  fixes s :: "'a pci_scheme"
  assumes dev: "is_pci D cfg" and ok: "pci_ok s"
  defines "step \<equiv> \<lambda>(b, d) s. if pci_device_count s \<ge> 256 then s else pci_scan_device D (of_nat b) (of_nat d) s"
  shows "pci_ok (fold step slots s) \<and>
    scanned (fold step slots s) = take PCI_MAX (scanned s @ concat (map (slot_functions cfg) slots))"
  using ok
proof (induction slots arbitrary: s)
  case Nil
  then show ?case using scanned_le [of s] by simp
next
  case (Cons slot slots)
  obtain b d where slot: "slot = (b, d)" by fastforce
  have "pci_ok (step slot s) \<and> scanned (step slot s) = take PCI_MAX (scanned s @ slot_functions cfg slot)"
  proof (cases "pci_device_count s < 256")
    case True
    with pci_scan_device_scanned [OF dev Cons.prems] show ?thesis by (simp add: slot step_def not_le [symmetric])
  next
    case False
    then have "PCI_MAX \<le> length (scanned s)" using pci_full [OF Cons.prems] by simp
    moreover have "pci_device_count s \<ge> 256" using False by (simp add: not_less)
    ultimately show ?thesis using Cons.prems scanned_le [OF Cons.prems] by (simp add: slot step_def)
  qed
  with Cons.IH [of "step slot s"] show ?case by (simp add: take_take_append2 del: take_append)
qed

section \<open>Properties\<close>

text \<open>C18: On a machine with configuration space \<open>cfg\<close>, \<open>pci_init\<close> fills the table with the functions present, in the
  order of bus, device and function, each with the fields of its configuration header, and stops at 256. A device
  without function 0 is skipped, and the functions 1 to 7 are looked at only if function 0 says so.\<close>

theorem pci_init_finds_functions:
  assumes "is_pci D cfg" "length (pci_devices s) = 256"
  shows "take (unat (pci_get_device_count (pci_init D s))) (pci_devices (pci_init D s)) =
    take 256 (concat (map (slot_functions cfg) (List.product [0..<256] [0..<32])))"
proof -
  have "pci_ok (s\<lparr>pci_device_count := 0\<rparr>)" using assms(2) by (simp add: pci_ok_def PCI_MAX_def)
  from pci_scan_slots [OF assms(1) this, of pci_slots] show ?thesis
    by (simp add: pci_init_def pci_slots_def pci_get_device_count_def scanned_def PCI_MAX_def)
qed

definition pci0 :: pci where
  "pci0 = \<lparr>trace = [], pci_devices = replicate 256 \<lparr>pd_bus = 0, pd_device = 0, pd_function = 0, pd_vendor_id = 0,
     pd_device_id = 0, pd_class_code = 0, pd_subclass = 0, pd_prog_if = 0, pd_revision = 0, pd_header_type = 0,
     pd_bar = replicate 6 0, pd_irq_line = 0, pd_irq_pin = 0\<rparr>, pci_device_count = 0\<rparr>"

text \<open>A bus with a single-function device in every slot fills the table.\<close>

lemma pci_init_finds_functions_witness:
  "length (take (unat (pci_get_device_count (pci_init (pci_bus (\<lambda>_. 0x8086)) pci0)))
     (pci_devices (pci_init (pci_bus (\<lambda>_. 0x8086)) pci0))) = 256"
proof -
  have one: "slot_functions (\<lambda>_. 0x8086) slot = [function_at (\<lambda>_. 0x8086) (of_nat (fst slot)) (of_nat (snd slot)) 0]" for slot
    by (simp add: slot_functions_def vendor_at_def function_at_def conf_def PCI_VENDOR_ID_def PCI_HEADER_TYPE_def)
  have "length (concat (map (slot_functions (\<lambda>_. 0x8086)) (List.product [0..<256] [0..<32]))) = 8192"
    unfolding one length_concat map_map o_def by (simp add: sum_list_triv del: upt_rec_numeral)
  moreover have "is_pci (pci_bus (\<lambda>_. 0x8086)) (\<lambda>_. 0x8086)" "length (pci_devices pci0) = 256"
    by (simp_all add: is_pci_def pci0_def)
  ultimately show ?thesis using pci_init_finds_functions [of "pci_bus (\<lambda>_. 0x8086)" "\<lambda>_. 0x8086" pci0]
    by (simp only: length_take)
qed

end
