(* ===== verification/Ata.thy ===== *)
theory Ata
  imports Blood_Prelude
begin

text \<open>
  \<open>src/drivers/ata.c\<close>: the disks on the two ATA channels, in programmed I/O. The caller's buffer is a function from
  word numbers; the polls of the status register give up after a million reads.
\<close>

definition ATA_PRIMARY_BASE :: u16 where "ATA_PRIMARY_BASE = 0x1F0"
definition ATA_SECONDARY_BASE :: u16 where "ATA_SECONDARY_BASE = 0x170"
definition ATA_PRIMARY_CTRL :: u16 where "ATA_PRIMARY_CTRL = 0x3F6"
definition ATA_SECONDARY_CTRL :: u16 where "ATA_SECONDARY_CTRL = 0x376"
definition ATA_REG_DATA :: u16 where "ATA_REG_DATA = 0x00"
definition ATA_REG_SECCOUNT :: u16 where "ATA_REG_SECCOUNT = 0x02"
definition ATA_REG_LBA_LOW :: u16 where "ATA_REG_LBA_LOW = 0x03"
definition ATA_REG_LBA_MID :: u16 where "ATA_REG_LBA_MID = 0x04"
definition ATA_REG_LBA_HIGH :: u16 where "ATA_REG_LBA_HIGH = 0x05"
definition ATA_REG_DRIVE :: u16 where "ATA_REG_DRIVE = 0x06"
definition ATA_REG_STATUS :: u16 where "ATA_REG_STATUS = 0x07"
definition ATA_REG_COMMAND :: u16 where "ATA_REG_COMMAND = 0x07"
definition ATA_CMD_READ_SECTORS :: u8 where "ATA_CMD_READ_SECTORS = 0x20"
definition ATA_CMD_WRITE_SECTORS :: u8 where "ATA_CMD_WRITE_SECTORS = 0x30"
definition ATA_CMD_IDENTIFY :: u8 where "ATA_CMD_IDENTIFY = 0xEC"
definition ATA_CMD_CACHE_FLUSH :: u8 where "ATA_CMD_CACHE_FLUSH = 0xE7"
definition ATA_STATUS_BSY :: u8 where "ATA_STATUS_BSY = 0x80"
definition ATA_STATUS_DRDY :: u8 where "ATA_STATUS_DRDY = 0x40"
definition ATA_STATUS_DRQ :: u8 where "ATA_STATUS_DRQ = 0x08"
definition ATA_STATUS_ERR :: u8 where "ATA_STATUS_ERR = 0x01"

lemmas ata_bases = ATA_PRIMARY_BASE_def ATA_SECONDARY_BASE_def ATA_PRIMARY_CTRL_def ATA_SECONDARY_CTRL_def
lemmas ata_regs = ATA_REG_DATA_def ATA_REG_SECCOUNT_def ATA_REG_LBA_LOW_def ATA_REG_LBA_MID_def
  ATA_REG_LBA_HIGH_def ATA_REG_DRIVE_def ATA_REG_STATUS_def ATA_REG_COMMAND_def
lemmas ata_commands = ATA_CMD_READ_SECTORS_def ATA_CMD_WRITE_SECTORS_def ATA_CMD_IDENTIFY_def ATA_CMD_CACHE_FLUSH_def
lemmas ata_bits = ATA_STATUS_BSY_def ATA_STATUS_DRDY_def ATA_STATUS_DRQ_def ATA_STATUS_ERR_def

record ata_device =
  ad_base :: u16
  ad_ctrl :: u16
  ad_drive :: u8
  ad_present :: u8
  ad_sectors :: u32
  ad_model :: "u8 list"
  ad_serial :: "u8 list"

record ata = machine +
  ata_devices :: "ata_device list"

section \<open>Waiting\<close>

definition ata_delay :: "device \<Rightarrow> u16 \<Rightarrow> 'a machine_scheme \<Rightarrow> 'a machine_scheme" where
  "ata_delay D base s = ((\<lambda>s. snd (inb D (base + ATA_REG_STATUS) s)) ^^ 4) s"

definition ATA_TIMEOUT :: nat where "ATA_TIMEOUT = 1000000"

fun ata_ready_poll :: "device \<Rightarrow> u16 \<Rightarrow> nat \<Rightarrow> 'a machine_scheme \<Rightarrow> u8 \<times> 'a machine_scheme" where
  "ata_ready_poll D base 0 s = (0, s)"
| "ata_ready_poll D base (Suc n) s =
     (let (status, s) = inb D (base + ATA_REG_STATUS) s
      in if status AND ATA_STATUS_BSY = 0 \<and> status AND ATA_STATUS_DRDY \<noteq> 0 then (1, s) else ata_ready_poll D base n s)"

definition ata_wait_ready :: "device \<Rightarrow> u16 \<Rightarrow> 'a machine_scheme \<Rightarrow> u8 \<times> 'a machine_scheme" where
  "ata_wait_ready D base s = ata_ready_poll D base ATA_TIMEOUT s"

fun ata_drq_poll :: "device \<Rightarrow> u16 \<Rightarrow> nat \<Rightarrow> 'a machine_scheme \<Rightarrow> u8 \<times> 'a machine_scheme" where
  "ata_drq_poll D base 0 s = (0, s)"
| "ata_drq_poll D base (Suc n) s =
     (let (status, s) = inb D (base + ATA_REG_STATUS) s
      in if status AND ATA_STATUS_DRQ \<noteq> 0 then (1, s)
         else if status AND ATA_STATUS_ERR \<noteq> 0 then (0, s) else ata_drq_poll D base n s)"

definition ata_wait_drq :: "device \<Rightarrow> u16 \<Rightarrow> 'a machine_scheme \<Rightarrow> u8 \<times> 'a machine_scheme" where
  "ata_wait_drq D base s = ata_drq_poll D base ATA_TIMEOUT s"

section \<open>Identification\<close>

definition ata_string_swap :: "nat \<Rightarrow> u8 list \<Rightarrow> u8 list" where
  "ata_string_swap len str =
     fold (\<lambda>k str. let i = 2 * k in str[i := str ! (i + 1), i + 1 := str ! i]) [0..<(len + 1) div 2] str"

text \<open>Words read from the data register into \<open>buf[i]\<close> for the given numbers \<open>i\<close>.\<close>

fun ata_read_words :: "device \<Rightarrow> u16 \<Rightarrow> nat list \<Rightarrow> (nat \<Rightarrow> u16) \<Rightarrow> 'a machine_scheme \<Rightarrow> (nat \<Rightarrow> u16) \<times> 'a machine_scheme" where
  "ata_read_words D base [] buf s = (buf, s)"
| "ata_read_words D base (i # is) buf s =
     (let (w, s) = inw D (base + ATA_REG_DATA) s in ata_read_words D base is (buf(i := w)) s)"

text \<open>The bytes of the words from number \<open>w\<close> on, as a \<open>char\<close> pointer reads them.\<close>

definition word_bytes :: "(nat \<Rightarrow> u16) \<Rightarrow> nat \<Rightarrow> nat \<Rightarrow> u8 list" where
  "word_bytes buf w n = map (\<lambda>i. ucast (drop_bit (8 * (i mod 2)) (buf (w + i div 2)))) [0..<n]"

definition ata_identify :: "device \<Rightarrow> ata_device \<Rightarrow> 'a machine_scheme \<Rightarrow> u8 \<times> ata_device \<times> 'a machine_scheme" where
  "ata_identify D dev s =
     (let base = ad_base dev;
          s = outb (base + ATA_REG_DRIVE) (0xA0 OR push_bit 4 (ad_drive dev)) s;
          s = ata_delay D base s;
          s = outb (base + ATA_REG_COMMAND) ATA_CMD_IDENTIFY s;
          s = ata_delay D base s;
          (status, s) = inb D (base + ATA_REG_STATUS) s
      in if status = 0 then (0, dev, s)
         else
           (let (ok, s) = ata_wait_drq D base s
            in if ok = 0 then (0, dev, s)
               else
                 (let (identify, s) = ata_read_words D base [0..<256] (\<lambda>_. 0) s
                  in (1, dev\<lparr>ad_sectors := ucast (identify 60) OR push_bit 16 (ucast (identify 61)),
                             ad_model := ata_string_swap 40 (word_bytes identify 27 40 @ [0]),
                             ad_serial := ata_string_swap 20 (word_bytes identify 10 20 @ [0]),
                             ad_present := 1\<rparr>, s))))"

definition ata_place :: "nat \<Rightarrow> u16 \<Rightarrow> u16 \<Rightarrow> u8 \<Rightarrow> 'a ata_scheme \<Rightarrow> 'a ata_scheme" where
  "ata_place i base ctrl drive s =
     s\<lparr>ata_devices := (ata_devices s)[i := (ata_devices s ! i)\<lparr>ad_base := base, ad_ctrl := ctrl, ad_drive := drive, ad_present := 0\<rparr>]\<rparr>"

definition ata_init :: "device \<Rightarrow> 'a ata_scheme \<Rightarrow> 'a ata_scheme" where
  "ata_init D s =
     (let s = ata_place 0 ATA_PRIMARY_BASE ATA_PRIMARY_CTRL 0 s;
          s = ata_place 1 ATA_PRIMARY_BASE ATA_PRIMARY_CTRL 1 s;
          s = ata_place 2 ATA_SECONDARY_BASE ATA_SECONDARY_CTRL 0 s;
          s = ata_place 3 ATA_SECONDARY_BASE ATA_SECONDARY_CTRL 1 s
      in fold (\<lambda>i s. let (_, dev, s) = ata_identify D (ata_devices s ! i) s
                     in s\<lparr>ata_devices := (ata_devices s)[i := dev]\<rparr>) [0..<4] s)"

section \<open>Reading and writing\<close>

definition ata_present :: "u8 \<Rightarrow> 'a ata_scheme \<Rightarrow> bool" where
  "ata_present drive s \<longleftrightarrow> drive < 4 \<and> ad_present (ata_devices s ! unat drive) \<noteq> 0"

text \<open>The parameters of a transfer and its command.\<close>

definition ata_command :: "ata_device \<Rightarrow> u32 \<Rightarrow> u8 \<Rightarrow> u8 \<Rightarrow> 'a machine_scheme \<Rightarrow> 'a machine_scheme" where
  "ata_command dev lba count cmd s =
     (let base = ad_base dev;
          s = outb (base + ATA_REG_DRIVE) (0xE0 OR push_bit 4 (ad_drive dev) OR ucast (drop_bit 24 lba AND 0x0F)) s;
          s = outb (base + ATA_REG_SECCOUNT) count s;
          s = outb (base + ATA_REG_LBA_LOW) (ucast (lba AND 0xFF)) s;
          s = outb (base + ATA_REG_LBA_MID) (ucast (drop_bit 8 lba AND 0xFF)) s;
          s = outb (base + ATA_REG_LBA_HIGH) (ucast (drop_bit 16 lba AND 0xFF)) s
      in outb (base + ATA_REG_COMMAND) cmd s)"

fun ata_read_loop :: "device \<Rightarrow> u16 \<Rightarrow> nat list \<Rightarrow> (nat \<Rightarrow> u16) \<Rightarrow> 'a machine_scheme \<Rightarrow> u8 \<times> (nat \<Rightarrow> u16) \<times> 'a machine_scheme" where
  "ata_read_loop D base [] buf s = (1, buf, s)"
| "ata_read_loop D base (sector # todo) buf s =
     (let (ok, s) = ata_wait_drq D base s
      in if ok = 0 then (0, buf, s)
         else (let (buf, s) = ata_read_words D base [sector * 256..<sector * 256 + 256] buf s
               in ata_read_loop D base todo buf s))"

definition ata_read_sectors ::
  "device \<Rightarrow> u8 \<Rightarrow> u32 \<Rightarrow> u8 \<Rightarrow> (nat \<Rightarrow> u16) \<Rightarrow> 'a ata_scheme \<Rightarrow> u8 \<times> (nat \<Rightarrow> u16) \<times> 'a ata_scheme" where
  "ata_read_sectors D drive lba count buf s =
     (if \<not> ata_present drive s then (0, buf, s)
      else
        (let dev = ata_devices s ! unat drive;
             (ok, s) = ata_wait_ready D (ad_base dev) s
         in if ok = 0 then (0, buf, s)
            else ata_read_loop D (ad_base dev) [0..<unat count] buf (ata_command dev lba count ATA_CMD_READ_SECTORS s)))"

definition ata_write_words :: "u16 \<Rightarrow> nat list \<Rightarrow> (nat \<Rightarrow> u16) \<Rightarrow> 'a machine_scheme \<Rightarrow> 'a machine_scheme" where
  "ata_write_words base is buf s = fold (\<lambda>i. outw (base + ATA_REG_DATA) (buf i)) is s"

fun ata_write_loop :: "device \<Rightarrow> u16 \<Rightarrow> nat list \<Rightarrow> (nat \<Rightarrow> u16) \<Rightarrow> 'a machine_scheme \<Rightarrow> u8 \<times> 'a machine_scheme" where
  "ata_write_loop D base [] buf s = (1, s)"
| "ata_write_loop D base (sector # todo) buf s =
     (let (ok, s) = ata_wait_drq D base s
      in if ok = 0 then (0, s)
         else (let s = ata_write_words base [sector * 256..<sector * 256 + 256] buf s;
                   s = outb (base + ATA_REG_COMMAND) ATA_CMD_CACHE_FLUSH s;
                   (_, s) = ata_wait_ready D base s
               in ata_write_loop D base todo buf s))"

definition ata_write_sectors ::
  "device \<Rightarrow> u8 \<Rightarrow> u32 \<Rightarrow> u8 \<Rightarrow> (nat \<Rightarrow> u16) \<Rightarrow> 'a ata_scheme \<Rightarrow> u8 \<times> 'a ata_scheme" where
  "ata_write_sectors D drive lba count buf s =
     (if \<not> ata_present drive s then (0, s)
      else
        (let dev = ata_devices s ! unat drive;
             (ok, s) = ata_wait_ready D (ad_base dev) s
         in if ok = 0 then (0, s)
            else ata_write_loop D (ad_base dev) [0..<unat count] buf (ata_command dev lba count ATA_CMD_WRITE_SECTORS s)))"

text \<open>A pointer to a device is its number, the null pointer \<open>None\<close>.\<close>

definition ata_get_device :: "u8 \<Rightarrow> 'a ata_scheme \<Rightarrow> nat option" where
  "ata_get_device drive s = (if ata_present drive s then Some (unat drive) else None)"

definition ata_get_device_count :: "'a ata_scheme \<Rightarrow> u8" where
  "ata_get_device_count s = fold (\<lambda>i n. if ad_present (ata_devices s ! i) \<noteq> 0 then n + 1 else n) [0..<4] 0"

section \<open>Disks\<close>

text \<open>
  What the standard says of a disk that is never busy: it replays the accesses to its registers. A read command makes
  the sectors available at the data register, one word per read; a write command takes the words of the sectors; any
  other command ends the transfer. The status register shows DRDY, and DRQ while words are to be moved.
\<close>

datatype ata_xfer = Idle | To_host "u16 list" | From_host bool nat nat "u16 list"

record disk =
  dk_drive :: u8
  dk_count :: u8
  dk_low :: u8
  dk_mid :: u8
  dk_high :: u8
  dk_xfer :: ata_xfer
  dk_data :: "bool \<Rightarrow> nat \<Rightarrow> u16 list"

definition dk_unit :: "disk \<Rightarrow> bool" where
  "dk_unit d = bit (dk_drive d) 4"

definition dk_lba :: "disk \<Rightarrow> nat" where
  "dk_lba d = unat (dk_low d) + 2 ^ 8 * unat (dk_mid d) + 2 ^ 16 * unat (dk_high d) + 2 ^ 24 * unat (take_bit 4 (dk_drive d))"

definition dk_sectors :: "disk \<Rightarrow> nat" where
  "dk_sectors d = (if dk_count d = 0 then 256 else unat (dk_count d))"

definition disk_command :: "u8 \<Rightarrow> disk \<Rightarrow> disk" where
  "disk_command cmd d = d\<lparr>dk_xfer :=
     (if cmd = 0x20 then To_host (concat (map (dk_data d (dk_unit d)) [dk_lba d..<dk_lba d + dk_sectors d]))
      else if cmd = 0x30 then From_host (dk_unit d) (dk_lba d) (dk_sectors d) [] else Idle)\<rparr>"

definition disk_out8 :: "u16 \<Rightarrow> u8 \<Rightarrow> disk \<Rightarrow> disk" where
  "disk_out8 r v d =
     (if r = 2 then d\<lparr>dk_count := v\<rparr> else if r = 3 then d\<lparr>dk_low := v\<rparr> else if r = 4 then d\<lparr>dk_mid := v\<rparr>
      else if r = 5 then d\<lparr>dk_high := v\<rparr> else if r = 6 then d\<lparr>dk_drive := v\<rparr> else if r = 7 then disk_command v d else d)"

definition disk_out16 :: "u16 \<Rightarrow> disk \<Rightarrow> disk" where
  "disk_out16 w d = (case dk_xfer d of
     From_host u lba (Suc n) ws \<Rightarrow>
       if length ws = 255
       then d\<lparr>dk_data := (dk_data d)(u := (dk_data d u)(lba := ws @ [w])), dk_xfer := From_host u (lba + 1) n []\<rparr>
       else d\<lparr>dk_xfer := From_host u lba (Suc n) (ws @ [w])\<rparr>
   | _ \<Rightarrow> d)"

definition disk_in16 :: "disk \<Rightarrow> disk" where
  "disk_in16 d = (case dk_xfer d of To_host ws \<Rightarrow> d\<lparr>dk_xfer := To_host (tl ws)\<rparr> | _ \<Rightarrow> d)"

fun disk_step :: "u16 \<Rightarrow> access \<Rightarrow> disk \<Rightarrow> disk" where
  "disk_step b (Wr (Port8 p) v) d = disk_out8 (p - b) (ucast v) d"
| "disk_step b (Wr (Port16 p) v) d = (if p = b then disk_out16 (ucast v) d else d)"
| "disk_step b (Rd (Port16 p) v) d = (if p = b then disk_in16 d else d)"
| "disk_step b _ d = d"

fun dk_drq :: "ata_xfer \<Rightarrow> bool" where
  "dk_drq (To_host (w # ws)) = True"
| "dk_drq (From_host u lba (Suc n) ws) = True"
| "dk_drq _ = False"

fun dk_word :: "ata_xfer \<Rightarrow> u16" where
  "dk_word (To_host (w # ws)) = w"
| "dk_word _ = 0"

definition disk_device :: "u16 \<Rightarrow> disk \<Rightarrow> device" where
  "disk_device b d0 t p =
     (let d = fold (disk_step b) t d0
      in if p = Port8 (b + 7) then (if dk_drq (dk_xfer d) then 0x48 else 0x40)
         else if p = Port16 b then ucast (dk_word (dk_xfer d)) else 0)"

definition is_disk :: "device \<Rightarrow> u16 \<Rightarrow> disk \<Rightarrow> bool" where
  "is_disk D b d0 \<longleftrightarrow> (\<forall>t. \<forall>p \<in> {Port8 (b + 7), Port16 b}. D t p = disk_device b d0 t p)"

text \<open>The disk as the trace of a state leaves it.\<close>

definition disk_of :: "u16 \<Rightarrow> disk \<Rightarrow> 'a machine_scheme \<Rightarrow> disk" where
  "disk_of b d0 s = fold (disk_step b) (trace s) d0"

lemma disk_of_outb [simp]: "disk_of b d0 (outb p v s) = disk_out8 (p - b) v (disk_of b d0 s)"
  by (simp add: disk_of_def bus)

lemma disk_of_outw [simp]: "disk_of b d0 (outw b v s) = disk_out16 v (disk_of b d0 s)"
  by (simp add: disk_of_def bus)

lemma disk_of_inb [simp]: "disk_of b d0 (snd (inb D p s)) = disk_of b d0 s"
  by (simp add: disk_of_def bus)

lemma disk_of_inw [simp]: "disk_of b d0 (snd (inw D b s)) = disk_in16 (disk_of b d0 s)"
  by (simp add: disk_of_def bus)

lemma disk_status:
  "is_disk D b d0 \<Longrightarrow> fst (inb D (b + 7) s) = (if dk_drq (dk_xfer (disk_of b d0 s)) then 0x48 else 0x40)"
  by (simp add: is_disk_def disk_device_def disk_of_def bus)

lemma disk_data: "is_disk D b d0 \<Longrightarrow> fst (inw D b s) = dk_word (dk_xfer (disk_of b d0 s))"
  by (simp add: is_disk_def disk_device_def disk_of_def bus)

lemma ata_wait_ready_disk:
  assumes "is_disk D b d0"
  shows "ata_wait_ready D b s = (1, snd (inb D (b + 7) s))"
proof -
  have "ata_ready_poll D b (Suc n) s = (1, snd (inb D (b + 7) s))" for n
    using disk_status [OF assms, of s]
    by (cases "inb D (b + 7) s") (auto simp: ata_regs ata_bits split: if_splits)
  from this [of 999999] show ?thesis by (simp add: ata_wait_ready_def ATA_TIMEOUT_def)
qed

lemma ata_wait_drq_disk:
  assumes "is_disk D b d0" "dk_drq (dk_xfer (disk_of b d0 s))"
  shows "ata_wait_drq D b s = (1, snd (inb D (b + 7) s))"
proof -
  have "ata_drq_poll D b (Suc n) s = (1, snd (inb D (b + 7) s))" for n
    using disk_status [OF assms(1), of s] assms(2)
    by (cases "inb D (b + 7) s") (auto simp: ata_regs ata_bits split: if_splits)
  from this [of 999999] show ?thesis by (simp add: ata_wait_drq_def ATA_TIMEOUT_def)
qed

section \<open>Transfers\<close>

lemma unat_take_bit_parts:
  "unat (ucast (v AND 0xFF) :: u8) + 2 ^ 8 * unat (ucast (drop_bit 8 v AND 0xFF) :: u8) +
   2 ^ 16 * unat (ucast (drop_bit 16 v AND 0xFF) :: u8) + 2 ^ 24 * unat (take_bit 4 (ucast (drop_bit 24 v AND 0x0F) :: u8))
   = unat v mod 2 ^ 28" for v :: u32
proof -
  have "unat v mod 2 ^ 28 = unat v mod 2 ^ 8 + 2 ^ 8 * (unat v div 2 ^ 8 mod 2 ^ 8) +
      2 ^ 16 * (unat v div 2 ^ 16 mod 2 ^ 8) + 2 ^ 24 * (unat v div 2 ^ 24 mod 2 ^ 4)"
    using mod_mult2_eq [of "unat v" "2 ^ 8" "2 ^ 20"] mod_mult2_eq [of "unat v div 2 ^ 8" "2 ^ 8" "2 ^ 12"]
      mod_mult2_eq [of "unat v div 2 ^ 16" "2 ^ 8" "2 ^ 4"]
    by (simp add: div_mult2_eq [symmetric] algebra_simps)
  moreover have "unat (ucast (x AND 0xFF) :: u8) = unat x mod 2 ^ 8" for x :: u32
    by (simp only: and_masks unsigned_ucast_eq unsigned_take_bit_eq) (simp add: take_bit_eq_mod)
  moreover have "unat (take_bit 4 (ucast (x AND 0x0F) :: u8)) = unat x mod 2 ^ 4" for x :: u32
    by (simp only: and_masks unsigned_ucast_eq unsigned_take_bit_eq) (simp add: take_bit_eq_mod mod_mod_cancel)
  moreover have "unat (drop_bit n v) = unat v div 2 ^ n" for n
    by (simp only: unat_drop_bit_eq) (simp add: drop_bit_eq_div)
  ultimately show ?thesis by (simp only:)
qed

lemma drive_register:
  "take_bit 4 (0xE0 OR push_bit 4 drive OR ucast x) = take_bit 4 (ucast x)"
  "bit (0xE0 OR push_bit 4 drive OR ucast (x AND 0x0F)) 4 \<longleftrightarrow> bit drive 0" for drive :: u8 and x :: u32
proof -
  have "\<not> bit (0xE0 :: u8) n" if "n < 4" for n
  proof -
    from that have "n = 0 \<or> n = 1 \<or> n = 2 \<or> n = 3" by linarith
    then show ?thesis by auto
  qed
  then show "take_bit 4 (0xE0 OR push_bit 4 drive OR ucast x) = take_bit 4 (ucast x)"
    by (intro bit_word_eqI) (auto simp: bit_simps)
  have "\<not> bit (x AND 0x0F) 4" by (simp only: and_masks) (simp add: bit_simps)
  then show "bit (0xE0 OR push_bit 4 drive OR ucast (x AND 0x0F)) 4 \<longleftrightarrow> bit drive 0"
    by (simp add: bit_simps)
qed

text \<open>A command addresses the sector \<open>lba mod 2 ^ 28\<close> of the drive selected.\<close>

lemma ata_command_disk:
  fixes s :: "'a machine_scheme"
  assumes "ad_base dev = b"
  shows "\<exists>d. disk_of b d0 (ata_command dev lba count cmd s) = disk_command cmd d \<and> dk_unit d = bit (ad_drive dev) 0 \<and>
    dk_lba d = unat lba mod 2 ^ 28 \<and> dk_count d = count \<and> dk_data d = dk_data (disk_of b d0 s)"
proof -
  let ?d = "(disk_of b d0 s)\<lparr>dk_drive := 0xE0 OR push_bit 4 (ad_drive dev) OR ucast (drop_bit 24 lba AND 0x0F),
    dk_count := count, dk_low := ucast (lba AND 0xFF), dk_mid := ucast (drop_bit 8 lba AND 0xFF),
    dk_high := ucast (drop_bit 16 lba AND 0xFF)\<rparr>"
  have sel: "dk_drive ?d = 0xE0 OR push_bit 4 (ad_drive dev) OR ucast (drop_bit 24 lba AND 0x0F)"
    "dk_low ?d = ucast (lba AND 0xFF)" "dk_mid ?d = ucast (drop_bit 8 lba AND 0xFF)"
    "dk_high ?d = ucast (drop_bit 16 lba AND 0xFF)"
    by simp_all
  have "disk_of b d0 (ata_command dev lba count cmd s) = disk_command cmd ?d"
    using assms by (simp add: ata_command_def ata_regs disk_out8_def Let_def)
  moreover have "dk_lba ?d = unat lba mod 2 ^ 28"
    unfolding dk_lba_def sel drive_register by (rule unat_take_bit_parts)
  ultimately show ?thesis
    by (intro exI [of _ ?d]) (simp add: dk_unit_def drive_register)
qed

lemma ata_command_only_trace [simp]: "only_trace s (ata_command dev lba count cmd s)"
  by (simp add: ata_command_def Let_def bus)

lemma ata_read_words_disk:
  assumes "is_disk D b d0" "dk_xfer (disk_of b d0 s) = To_host (ws @ rest)" "length ws = n"
  shows "\<exists>t. ata_read_words D b [a..<a + n] buf s = (\<lambda>i. if a \<le> i \<and> i < a + n then ws ! (i - a) else buf i, t) \<and>
    only_trace s t \<and> disk_of b d0 t = (disk_of b d0 s)\<lparr>dk_xfer := To_host rest\<rparr>"
  using assms(2,3)
proof (induction n arbitrary: a ws buf s)
  case 0
  then show ?case by (intro exI [of _ s]) (auto simp: fun_eq_iff)
next
  case (Suc n)
  then obtain w ws' where ws: "ws = w # ws'" "length ws' = n" by (cases ws) auto
  let ?s = "snd (inw D b s)"
  have w: "fst (inw D b s) = w" using disk_data [OF assms(1), of s] Suc.prems ws by simp
  have d: "disk_of b d0 ?s = (disk_of b d0 s)\<lparr>dk_xfer := To_host (ws' @ rest)\<rparr>"
    using Suc.prems ws by (simp add: disk_in16_def)
  have "dk_xfer (disk_of b d0 ?s) = To_host (ws' @ rest)" using d by simp
  from Suc.IH [OF this ws(2), of "Suc a" "buf(a := w)"]
  obtain t where t: "ata_read_words D b [Suc a..<Suc a + n] (buf(a := w)) ?s =
      (\<lambda>i. if Suc a \<le> i \<and> i < Suc a + n then ws' ! (i - Suc a) else (buf(a := w)) i, t)"
    "only_trace ?s t" "disk_of b d0 t = (disk_of b d0 ?s)\<lparr>dk_xfer := To_host rest\<rparr>"
    by blast
  have "ata_read_words D b [a..<a + Suc n] buf s = ata_read_words D b [Suc a..<Suc a + n] (buf(a := w)) ?s"
    by (subst upt_conv_Cons) (simp_all add: ata_regs w split_beta)
  moreover have "(\<lambda>i. if Suc a \<le> i \<and> i < Suc a + n then ws' ! (i - Suc a) else (buf(a := w)) i) =
      (\<lambda>i. if a \<le> i \<and> i < a + Suc n then ws ! (i - a) else buf i)"
    by (rule ext) (auto simp: ws(1) nth_Cons' not_le less_Suc_eq_le)
  moreover have "only_trace s t" by (rule only_trace_trans [OF _ t(2)]) simp
  ultimately show ?case using t(1,3) d by (intro exI [of _ t]) simp
qed

lemma ata_read_loop_disk:
  assumes "is_disk D b d0" "dk_xfer (disk_of b d0 s) = To_host (concat secs)" "\<forall>ws \<in> set secs. length ws = 256"
  shows "\<exists>t. ata_read_loop D b [k..<k + length secs] buf s =
      (1, \<lambda>i. if k * 256 \<le> i \<and> i < (k + length secs) * 256 then secs ! (i div 256 - k) ! (i mod 256) else buf i, t) \<and>
    only_trace s t \<and> disk_of b d0 t = (disk_of b d0 s)\<lparr>dk_xfer := To_host []\<rparr>"
  using assms(2,3)
proof (induction secs arbitrary: k buf s)
  case Nil
  then show ?case by (intro exI [of _ s]) (auto simp: fun_eq_iff)
next
  case (Cons ws secs)
  let ?s = "snd (inb D (b + 7) s)"
  let ?buf = "\<lambda>i. if k * 256 \<le> i \<and> i < k * 256 + 256 then ws ! (i - k * 256) else buf i"
  have len: "length ws = 256" using Cons.prems by simp
  have "dk_drq (dk_xfer (disk_of b d0 s))" using Cons.prems(1) len by (cases ws) auto
  then have drq: "ata_wait_drq D b s = (1, ?s)" using ata_wait_drq_disk assms(1) by blast
  obtain u where u: "ata_read_words D b [k * 256..<k * 256 + 256] buf ?s = (?buf, u)" "only_trace ?s u"
    "disk_of b d0 u = (disk_of b d0 ?s)\<lparr>dk_xfer := To_host (concat secs)\<rparr>"
    using ata_read_words_disk [OF assms(1), of ?s ws "concat secs" 256 "k * 256" buf] Cons.prems(1) len by auto
  obtain t where t: "ata_read_loop D b [Suc k..<Suc k + length secs] ?buf u =
      (1, \<lambda>i. if Suc k * 256 \<le> i \<and> i < (Suc k + length secs) * 256 then secs ! (i div 256 - Suc k) ! (i mod 256) else ?buf i, t)"
    "only_trace u t" "disk_of b d0 t = (disk_of b d0 u)\<lparr>dk_xfer := To_host []\<rparr>"
    using Cons.IH [of u "Suc k" ?buf] Cons.prems(2) u(3) by auto
  have "ata_read_loop D b [k..<k + length (ws # secs)] buf s = ata_read_loop D b [Suc k..<Suc k + length secs] ?buf u"
    by (subst upt_conv_Cons) (simp_all add: drq u(1))
  moreover have "(if Suc k * 256 \<le> i \<and> i < (Suc k + length secs) * 256 then secs ! (i div 256 - Suc k) ! (i mod 256) else ?buf i) =
      (if k * 256 \<le> i \<and> i < (k + length (ws # secs)) * 256 then (ws # secs) ! (i div 256 - k) ! (i mod 256) else buf i)" for i
  proof (cases "k * 256 \<le> i \<and> i < k * 256 + 256")
    case True
    then have "i div 256 = k" by auto
    then have "i mod 256 = i - k * 256" by (simp add: minus_div_mult_eq_mod [symmetric])
    with True show ?thesis by simp
  next
    case False
    then have "Suc k * 256 \<le> i \<Longrightarrow> i div 256 - k = Suc (i div 256 - Suc k)" by auto
    with False show ?thesis by auto
  qed
  moreover have "only_trace s t" using u(2) t(2) by (meson only_trace_bus(3) only_trace_trans)
  ultimately show ?case using t(1,3) u(3) by (intro exI [of _ t]) simp
qed

lemma ata_write_words_disk:
  assumes "dk_xfer (disk_of b d0 s) = From_host u lba (Suc n) ws" "length ws + Suc m = 256"
  shows "only_trace s (ata_write_words b [a..<a + Suc m] buf s) \<and>
    disk_of b d0 (ata_write_words b [a..<a + Suc m] buf s) = (disk_of b d0 s)\<lparr>
      dk_data := (dk_data (disk_of b d0 s))(u := (dk_data (disk_of b d0 s) u)(lba := ws @ map buf [a..<a + Suc m])),
      dk_xfer := From_host u (lba + 1) n []\<rparr>"
  using assms
proof (induction m arbitrary: a ws s)
  case 0
  then show ?case
    by (simp add: ata_write_words_def ata_regs disk_out16_def fun_upd_def)
next
  case (Suc m)
  let ?s = "outw b (buf a) s"
  have step: "ata_write_words b [a..<a + Suc (Suc m)] buf s = ata_write_words b [Suc a..<Suc a + Suc m] buf ?s"
    by (subst upt_conv_Cons) (simp_all add: ata_write_words_def ata_regs)
  have d: "disk_of b d0 ?s = (disk_of b d0 s)\<lparr>dk_xfer := From_host u lba (Suc n) (ws @ [buf a])\<rparr>"
    using Suc.prems by (simp add: disk_out16_def)
  have "dk_xfer (disk_of b d0 ?s) = From_host u lba (Suc n) (ws @ [buf a])" "length (ws @ [buf a]) + Suc m = 256"
    using d Suc.prems(2) by simp_all
  from Suc.IH [OF this, of "Suc a"] have ih: "only_trace ?s (ata_write_words b [Suc a..<Suc a + Suc m] buf ?s)"
    "disk_of b d0 (ata_write_words b [Suc a..<Suc a + Suc m] buf ?s) = (disk_of b d0 ?s)\<lparr>
      dk_data := (dk_data (disk_of b d0 ?s))(u := (dk_data (disk_of b d0 ?s) u)
        (lba := (ws @ [buf a]) @ map buf [Suc a..<Suc a + Suc m])),
      dk_xfer := From_host u (lba + 1) n []\<rparr>" by blast+
  have "map buf [a..<a + Suc (Suc m)] = buf a # map buf [Suc a..<Suc a + Suc m]"
    by (subst upt_conv_Cons) simp_all
  with ih(2) d have "disk_of b d0 (ata_write_words b [a..<a + Suc (Suc m)] buf s) = (disk_of b d0 s)\<lparr>
      dk_data := (dk_data (disk_of b d0 s))(u := (dk_data (disk_of b d0 s) u)(lba := ws @ map buf [a..<a + Suc (Suc m)])),
      dk_xfer := From_host u (lba + 1) n []\<rparr>"
    by (simp only: step) simp
  moreover have "only_trace s (ata_write_words b [a..<a + Suc (Suc m)] buf s)"
    unfolding step by (rule only_trace_trans [OF _ ih(1)]) simp
  ultimately show ?case by blast
qed

lemma ata_wait_drq_none:
  assumes "is_disk D b d0" "\<not> dk_drq (dk_xfer (disk_of b d0 s))"
  shows "\<exists>t. ata_wait_drq D b s = (0, t) \<and> only_trace s t \<and> disk_of b d0 t = disk_of b d0 s"
proof -
  have "\<exists>t. ata_drq_poll D b n s = (0, t) \<and> only_trace s t \<and> disk_of b d0 t = disk_of b d0 s" for n
    using assms(2)
  proof (induction n arbitrary: s)
    case 0
    then show ?case by (intro exI [of _ s]) simp
  next
    case (Suc n)
    let ?s = "snd (inb D (b + 7) s)"
    have "fst (inb D (b + 7) s) = 0x40" using disk_status [OF assms(1), of s] Suc.prems by simp
    then have "ata_drq_poll D b (Suc n) s = ata_drq_poll D b n ?s" by (simp add: ata_regs ata_bits split_beta)
    moreover obtain t where "ata_drq_poll D b n ?s = (0, t)" "only_trace ?s t" "disk_of b d0 t = disk_of b d0 ?s"
      using Suc.IH [of ?s] Suc.prems by auto
    ultimately show ?case by (metis disk_of_inb only_trace_bus(3) only_trace_trans)
  qed
  then show ?thesis by (simp add: ata_wait_drq_def)
qed

text \<open>The first round of the write loop leaves the disk without a transfer.\<close>

lemma ata_write_loop_disk:
  assumes "is_disk D b d0" "dk_xfer (disk_of b d0 s) = From_host u lba (Suc n) []"
  shows "\<exists>t. ata_write_loop D b (0 # todo) buf s = (if todo = [] then 1 else 0, t) \<and> only_trace s t \<and>
    dk_data (disk_of b d0 t) = (dk_data (disk_of b d0 s))(u := (dk_data (disk_of b d0 s) u)(lba := map buf [0..<256]))"
proof -
  let ?s1 = "snd (inb D (b + 7) s)"
  let ?s2 = "ata_write_words b [0..<0 + Suc 255] buf ?s1"
  let ?s3 = "outb (b + 7) ATA_CMD_CACHE_FLUSH ?s2"
  let ?s4 = "snd (inb D (b + 7) ?s3)"
  have drq: "ata_wait_drq D b s = (1, ?s1)" by (rule ata_wait_drq_disk [OF assms(1)]) (simp add: assms(2))
  have ready: "ata_wait_ready D b ?s3 = (1, ?s4)" by (rule ata_wait_ready_disk [OF assms(1)])
  have x1: "dk_xfer (disk_of b d0 ?s1) = From_host u lba (Suc n) []" using assms(2) by simp
  have w: "only_trace ?s1 ?s2" "disk_of b d0 ?s2 = (disk_of b d0 s)\<lparr>
      dk_data := (dk_data (disk_of b d0 s))(u := (dk_data (disk_of b d0 s) u)(lba := map buf [0..<256])),
      dk_xfer := From_host u (lba + 1) n []\<rparr>"
    using ata_write_words_disk [OF x1, of 255 0 buf] by simp_all
  have only: "only_trace s ?s4"
    by (rule only_trace_trans [OF _ only_trace_bus(3)], rule only_trace_trans [OF _ only_trace_bus(1)],
      rule only_trace_trans [OF only_trace_bus(3) w(1)])
  have loop: "ata_write_loop D b (0 # todo) buf s = ata_write_loop D b todo buf ?s4"
    using drq ready by (simp add: ata_regs)
  have d4: "disk_of b d0 ?s4 = (disk_of b d0 ?s2)\<lparr>dk_xfer := Idle\<rparr>"
    by (simp add: disk_out8_def disk_command_def ata_commands)
  show ?thesis
  proof (cases todo)
    case Nil
    then show ?thesis using loop only w(2) d4 by (intro exI [of _ ?s4]) simp
  next
    case (Cons k more)
    have "\<not> dk_drq (dk_xfer (disk_of b d0 ?s4))" by (simp only: d4) simp
    from ata_wait_drq_none [OF assms(1) this] obtain t where t: "ata_wait_drq D b ?s4 = (0, t)" "only_trace ?s4 t"
      "disk_of b d0 t = disk_of b d0 ?s4" by blast
    have "ata_write_loop D b todo buf ?s4 = (0, t)" using t(1) Cons by simp
    moreover have "only_trace s t" using only t(2) by (rule only_trace_trans)
    ultimately show ?thesis using loop w(2) d4 t(3) Cons by (intro exI [of _ t]) simp
  qed
qed

section \<open>Properties\<close>

text \<open>C21: Reading \<open>count\<close> sectors from a disk that follows the standard fills the buffer with the sectors from
  \<open>lba mod 2 ^ 28\<close> on and reports success, and nothing but the buffer and the trace changes. With \<open>count = 0\<close>, which
  asks the disk for 256 sectors, nothing is read: success is reported with the disk still in the middle of the transfer.\<close>

theorem ata_read_sectors_image:
  assumes disk: "is_disk D b d0" "\<forall>u n. length (dk_data (disk_of b d0 s) u n) = 256"
    and dev: "ata_present drive s" "ad_base (ata_devices s ! unat drive) = b"
  shows "\<exists>buf' t. ata_read_sectors D drive lba count buf s = (1, buf', t) \<and> only_trace s t \<and>
    (\<forall>i. buf' i = (if i < 256 * unat count
       then dk_data (disk_of b d0 s) (bit (ad_drive (ata_devices s ! unat drive)) 0) (unat lba mod 2 ^ 28 + i div 256) ! (i mod 256)
       else buf i)) \<and>
    dk_drq (dk_xfer (disk_of b d0 t)) = (count = 0)"
proof -
  let ?dev = "ata_devices s ! unat drive"
  let ?s = "snd (inb D (b + 7) s)"
  let ?c = "ata_command ?dev lba count ATA_CMD_READ_SECTORS ?s"
  have run: "ata_read_sectors D drive lba count buf s = ata_read_loop D b [0..<unat count] buf ?c"
    using dev ata_wait_ready_disk [OF disk(1), of s] by (simp add: ata_read_sectors_def)
  obtain d where d: "disk_of b d0 ?c = disk_command ATA_CMD_READ_SECTORS d" "dk_unit d = bit (ad_drive ?dev) 0"
    "dk_lba d = unat lba mod 2 ^ 28" "dk_count d = count" "dk_data d = dk_data (disk_of b d0 s)"
    using ata_command_disk [OF dev(2), of d0 lba count ATA_CMD_READ_SECTORS ?s] by auto
  let ?secs = "map (dk_data (disk_of b d0 s) (bit (ad_drive ?dev) 0)) [unat lba mod 2 ^ 28..<unat lba mod 2 ^ 28 + dk_sectors d]"
  have x: "dk_xfer (disk_of b d0 ?c) = To_host (concat ?secs)"
    using d by (simp add: disk_command_def ata_commands)
  have len: "\<forall>ws \<in> set ?secs. length ws = 256" using disk(2) by auto
  have only: "only_trace s ?c" by (rule only_trace_trans [OF only_trace_bus(3) ata_command_only_trace])
  show ?thesis
  proof (cases "count = 0")
    case True
    then have "dk_sectors d = Suc 255" using d(4) by (simp add: dk_sectors_def)
    then have "?secs = dk_data (disk_of b d0 s) (bit (ad_drive ?dev) 0) (unat lba mod 2 ^ 28) #
        map (dk_data (disk_of b d0 s) (bit (ad_drive ?dev) 0)) [Suc (unat lba mod 2 ^ 28)..<unat lba mod 2 ^ 28 + dk_sectors d]"
      by (subst upt_conv_Cons) simp_all
    then obtain w ws where "concat ?secs = w # ws" using disk(2)
      by (cases "dk_data (disk_of b d0 s) (bit (ad_drive ?dev) 0) (unat lba mod 2 ^ 28)") (auto, metis list.size(3) zero_neq_numeral)
    then have "dk_drq (dk_xfer (disk_of b d0 ?c))" using x by simp
    with True run only show ?thesis by (intro exI [of _ buf] exI [of _ ?c]) simp
  next
    case False
    then have n: "length ?secs = unat count" using d(4) by (simp add: dk_sectors_def)
    from ata_read_loop_disk [OF disk(1) x len, of 0 buf]
    obtain t where t: "ata_read_loop D b [0..<unat count] buf ?c =
        (1, \<lambda>i. if i < unat count * 256 then ?secs ! (i div 256) ! (i mod 256) else buf i, t)"
      "only_trace ?c t" "disk_of b d0 t = (disk_of b d0 ?c)\<lparr>dk_xfer := To_host []\<rparr>"
      unfolding n by (auto simp only: mult_zero_left le0 add_0 diff_zero simp_thms)
    have "?secs ! (i div 256) = dk_data (disk_of b d0 s) (bit (ad_drive ?dev) 0) (unat lba mod 2 ^ 28 + i div 256)"
      if "i < 256 * unat count" for i
    proof -
      from that have "i div 256 < unat count" by (simp add: less_mult_imp_div_less mult.commute)
      with n show ?thesis by simp
    qed
    moreover have "only_trace s t" using only t(2) by (rule only_trace_trans)
    moreover have "\<not> dk_drq (dk_xfer (disk_of b d0 t))" using t(3) by simp
    ultimately show ?thesis using False run t(1) by (simp add: mult.commute)
  qed
qed

definition disk0 :: disk where
  "disk0 = \<lparr>dk_drive = 0, dk_count = 0, dk_low = 0, dk_mid = 0, dk_high = 0, dk_xfer = Idle,
     dk_data = (\<lambda>u n. replicate 256 (of_nat n))\<rparr>"

definition ata0 :: ata where
  "ata0 = \<lparr>trace = [], ata_devices = replicate 4
     \<lparr>ad_base = ATA_PRIMARY_BASE, ad_ctrl = ATA_PRIMARY_CTRL, ad_drive = 0, ad_present = 1, ad_sectors = 100,
      ad_model = [], ad_serial = []\<rparr>\<rparr>"

lemma is_disk_device [simp]: "is_disk (disk_device b d0) b d0"
  by (simp add: is_disk_def)

lemma ata_read_sectors_image_witness:
  "\<exists>buf' t. ata_read_sectors (disk_device ATA_PRIMARY_BASE disk0) 1 5 2 (\<lambda>_. 0) ata0 = (1, buf', t) \<and>
     buf' 0 = 5 \<and> buf' 256 = 6 \<and> buf' 512 = 0"
proof -
  have "dk_data (disk_of ATA_PRIMARY_BASE disk0 ata0) u n = replicate 256 (of_nat n)" for u n
    by (simp add: disk_of_def ata0_def disk0_def)
  then show ?thesis
    using ata_read_sectors_image [where D = "disk_device ATA_PRIMARY_BASE disk0" and b = ATA_PRIMARY_BASE and ?d0.0 = disk0
        and drive = 1 and lba = 5 and count = 2 and s = ata0 and buf = "\<lambda>_. 0"]
    by (auto simp: ata_present_def ata0_def)
qed

text \<open>Writing one sector to a disk that follows the standard puts the 256 words of the buffer at sector
  \<open>lba mod 2 ^ 28\<close> and changes no other sector. A write of more sectors does no more than that and fails: the cache
  flush, issued after each sector, is a command in the middle of the transfer and ends it.\<close>

lemma ata_write_sectors_first:
  assumes disk: "is_disk D b d0" and dev: "ata_present drive s" "ad_base (ata_devices s ! unat drive) = b" and "count \<noteq> 0"
  shows "\<exists>t. ata_write_sectors D drive lba count buf s = (if count = 1 then 1 else 0, t) \<and> only_trace s t \<and>
    (let u = bit (ad_drive (ata_devices s ! unat drive)) 0; data = dk_data (disk_of b d0 s)
     in dk_data (disk_of b d0 t) = data(u := (data u)(unat lba mod 2 ^ 28 := map buf [0..<256])))"
proof -
  let ?dev = "ata_devices s ! unat drive"
  let ?s = "snd (inb D (b + 7) s)"
  let ?c = "ata_command ?dev lba count ATA_CMD_WRITE_SECTORS ?s"
  obtain n where n: "unat count = Suc n" using \<open>count \<noteq> 0\<close> by (cases "unat count") (auto simp: unat_eq_0)
  have run: "ata_write_sectors D drive lba count buf s = ata_write_loop D b (0 # [1..<unat count]) buf ?c"
    using dev ata_wait_ready_disk [OF disk(1), of s] n by (simp add: ata_write_sectors_def upt_conv_Cons del: upt_Suc)
  have last: "[1..<unat count] = [] \<longleftrightarrow> count = 1" using n by (auto simp: word_unat_eq_iff)
  obtain d where d: "disk_of b d0 ?c = disk_command ATA_CMD_WRITE_SECTORS d" "dk_unit d = bit (ad_drive ?dev) 0"
    "dk_lba d = unat lba mod 2 ^ 28" "dk_count d = count" "dk_data d = dk_data (disk_of b d0 s)"
    using ata_command_disk [OF dev(2), of d0 lba count ATA_CMD_WRITE_SECTORS ?s] by auto
  have x: "dk_xfer (disk_of b d0 ?c) = From_host (bit (ad_drive ?dev) 0) (unat lba mod 2 ^ 28) (Suc n) []"
    using d n \<open>count \<noteq> 0\<close> by (simp add: disk_command_def ata_commands dk_sectors_def)
  obtain t where t: "ata_write_loop D b (0 # [1..<unat count]) buf ?c = (if [1..<unat count] = [] then 1 else 0, t)" "only_trace ?c t"
    "dk_data (disk_of b d0 t) = (dk_data (disk_of b d0 ?c))(bit (ad_drive ?dev) 0 :=
      (dk_data (disk_of b d0 ?c) (bit (ad_drive ?dev) 0))(unat lba mod 2 ^ 28 := map buf [0..<256]))"
    using ata_write_loop_disk [OF disk x] by blast
  have "only_trace s ?c" by (rule only_trace_trans [OF only_trace_bus(3) ata_command_only_trace])
  then have "only_trace s t" using t(2) by (rule only_trace_trans)
  moreover have "dk_data (disk_of b d0 ?c) = dk_data (disk_of b d0 s)" using d by (simp add: disk_command_def)
  ultimately show ?thesis using run t(1,3) last by (intro exI [of _ t]) (simp only: Let_def)
qed

end
