(* ===== verification/Floppy.thy ===== *)
theory Floppy
  imports Timer Dma Rtc
begin

text \<open>
  \<open>src/drivers/floppy.c\<close>: the floppy controller. It moves its data through DMA channel 2 and signals the end of a
  command by an interrupt, whose handler sets a flag. The environment of the driver says when that interrupt has been
  taken and what the DMA transfers have left in the sector buffer, both as functions of the bus accesses made so far.
\<close>

definition FDC_DOR :: u16 where "FDC_DOR = 0x3F2"
definition FDC_MSR :: u16 where "FDC_MSR = 0x3F4"
definition FDC_DATA :: u16 where "FDC_DATA = 0x3F5"
definition FDC_CCR :: u16 where "FDC_CCR = 0x3F7"
definition DMA_ADDR :: u16 where "DMA_ADDR = 0x04"
definition DMA_COUNT :: u16 where "DMA_COUNT = 0x05"
definition DMA_PAGE :: u16 where "DMA_PAGE = 0x81"
definition DMA_MODE :: u16 where "DMA_MODE = 0x0B"
definition DMA_CLEAR :: u16 where "DMA_CLEAR = 0x0C"
definition DMA_MASK :: u16 where "DMA_MASK = 0x0A"
definition MSR_DATA_READY :: u8 where "MSR_DATA_READY = 0x80"
definition DOR_RESET :: u8 where "DOR_RESET = 0x04"
definition DOR_IRQ_DMA :: u8 where "DOR_IRQ_DMA = 0x08"
definition DOR_MOTOR_A :: u8 where "DOR_MOTOR_A = 0x10"
definition CMD_SPECIFY :: u8 where "CMD_SPECIFY = 0x03"
definition CMD_WRITE_SECTOR :: u8 where "CMD_WRITE_SECTOR = 0x05"
definition CMD_READ_SECTOR :: u8 where "CMD_READ_SECTOR = 0x06"
definition CMD_RECALIBRATE :: u8 where "CMD_RECALIBRATE = 0x07"
definition CMD_SENSE_INTERRUPT :: u8 where "CMD_SENSE_INTERRUPT = 0x08"
definition CMD_SEEK :: u8 where "CMD_SEEK = 0x0F"
definition CMD_CONFIGURE :: u8 where "CMD_CONFIGURE = 0x13"

lemmas fdc_ports = FDC_DOR_def FDC_MSR_def FDC_DATA_def FDC_CCR_def
lemmas fdc_dma_ports = DMA_ADDR_def DMA_COUNT_def DMA_PAGE_def DMA_MODE_def DMA_CLEAR_def DMA_MASK_def
lemmas fdc_commands = CMD_SPECIFY_def CMD_WRITE_SECTOR_def CMD_READ_SECTOR_def CMD_RECALIBRATE_def
  CMD_SENSE_INTERRUPT_def CMD_SEEK_def CMD_CONFIGURE_def

record floppy_geometry =
  sectors_per_track :: u16
  heads :: u16
  tracks :: u16
  gap3_length :: u8
  data_rate :: u8

definition floppy_types :: "floppy_geometry list" where
  "floppy_types =
     [\<lparr>sectors_per_track = 18, heads = 2, tracks = 80, gap3_length = 0x1B, data_rate = 0x00\<rparr>,
      \<lparr>sectors_per_track = 15, heads = 2, tracks = 80, gap3_length = 0x1B, data_rate = 0x00\<rparr>,
      \<lparr>sectors_per_track = 9, heads = 2, tracks = 80, gap3_length = 0x1B, data_rate = 0x02\<rparr>,
      \<lparr>sectors_per_track = 9, heads = 2, tracks = 40, gap3_length = 0x1B, data_rate = 0x02\<rparr>]"

record floppy = timer +
  floppy_irq_received :: u8
  current_drive :: u8
  floppy_buffer :: "u8 list"
  floppy_buffer_addr :: u32

text \<open>The surroundings: target, device, ticks during a delay, floppy interrupts, and the sector buffer after DMA.\<close>

record fdc_env =
  fe_arch :: arch
  fe_dev :: device
  fe_ticks :: "nat \<Rightarrow> nat"
  fe_irq :: "trace \<Rightarrow> bool"
  fe_dma :: "trace \<Rightarrow> u8 list \<Rightarrow> u8 list"

section \<open>The controller\<close>

definition floppy_irq_handler :: "'a floppy_scheme \<Rightarrow> 'a floppy_scheme" where
  "floppy_irq_handler s = s\<lparr>floppy_irq_received := 1\<rparr>"

text \<open>\<open>while (!floppy_irq_received) hlt;\<close>, with the interrupts taken before each test.\<close>

partial_function (option) floppy_wait_irq :: "fdc_env \<Rightarrow> 'a floppy_scheme \<Rightarrow> 'a floppy_scheme option" where
  "floppy_wait_irq E s =
     (let s = (if fe_irq E (trace s) then floppy_irq_handler s else s)
      in if floppy_irq_received s = 0 then floppy_wait_irq E (insn Hlt s) else Some (s\<lparr>floppy_irq_received := 0\<rparr>))"

fun fdc_wait :: "device \<Rightarrow> nat \<Rightarrow> 'a machine_scheme \<Rightarrow> 'a machine_scheme" where
  "fdc_wait D 0 s = s"
| "fdc_wait D (Suc n) s =
     (let (v, s) = inb D FDC_MSR s in if v AND MSR_DATA_READY \<noteq> 0 then s else fdc_wait D n s)"

definition FDC_TIMEOUT :: nat where "FDC_TIMEOUT = 1000000"

definition floppy_read_data :: "fdc_env \<Rightarrow> 'a machine_scheme \<Rightarrow> u8 \<times> 'a machine_scheme" where
  "floppy_read_data E s = inb (fe_dev E) FDC_DATA (fdc_wait (fe_dev E) FDC_TIMEOUT s)"

definition floppy_write_data :: "fdc_env \<Rightarrow> u8 \<Rightarrow> 'a machine_scheme \<Rightarrow> 'a machine_scheme" where
  "floppy_write_data E dat s = outb FDC_DATA dat (fdc_wait (fe_dev E) FDC_TIMEOUT s)"

definition floppy_send_command :: "fdc_env \<Rightarrow> u8 \<Rightarrow> 'a machine_scheme \<Rightarrow> 'a machine_scheme" where
  "floppy_send_command E cmd s = outb FDC_DATA cmd (fdc_wait (fe_dev E) FDC_TIMEOUT s)"

definition floppy_motor_on :: "fdc_env \<Rightarrow> u8 \<Rightarrow> 'a timer_scheme \<Rightarrow> 'a timer_scheme option" where
  "floppy_motor_on E drive s =
     (if drive > 3 then Some s
      else (let motor_bit = push_bit (unat drive) DOR_MOTOR_A
            in timer_delay (fe_arch E) (fe_ticks E) 500 (outb FDC_DOR (DOR_RESET OR DOR_IRQ_DMA OR motor_bit OR drive) s)))"

definition floppy_motor_off :: "u8 \<Rightarrow> 'a machine_scheme \<Rightarrow> 'a machine_scheme" where
  "floppy_motor_off drive s =
     (if drive > 3 then s else outb FDC_DOR (DOR_RESET OR DOR_IRQ_DMA OR drive) s)"

definition floppy_reset :: "fdc_env \<Rightarrow> 'a floppy_scheme \<Rightarrow> 'a floppy_scheme option" where
  "floppy_reset E s = do {
     s \<leftarrow> floppy_wait_irq E (outb FDC_DOR (DOR_RESET OR DOR_IRQ_DMA) (outb FDC_DOR 0 s));
     let s = ((\<lambda>s. snd (floppy_read_data E (snd (floppy_read_data E (floppy_send_command E CMD_SENSE_INTERRUPT s))))) ^^ 4) s;
     let s = floppy_send_command E CMD_CONFIGURE s;
     let s = floppy_write_data E 0 s;
     let s = floppy_write_data E 0x58 s;
     let s = floppy_write_data E 0 s;
     let s = floppy_send_command E CMD_SPECIFY s;
     let s = floppy_write_data E 0xDF s;
     Some (floppy_write_data E 0x02 s)
   }"

definition floppy_sense :: "fdc_env \<Rightarrow> 'a machine_scheme \<Rightarrow> u8 \<times> u8 \<times> 'a machine_scheme" where
  "floppy_sense E s =
     (let s = floppy_send_command E CMD_SENSE_INTERRUPT s;
          (st0, s) = floppy_read_data E s;
          (pcn, s) = floppy_read_data E s
      in (st0, pcn, s))"

fun seek_attempts :: "fdc_env \<Rightarrow> u8 \<Rightarrow> u8 \<Rightarrow> nat \<Rightarrow> 'a floppy_scheme \<Rightarrow> (u8 \<times> 'a floppy_scheme) option" where
  "seek_attempts E drive track 0 s = Some (0, s)"
| "seek_attempts E drive track (Suc n) s = do {
     let s = floppy_send_command E CMD_SEEK s;
     let s = floppy_write_data E (drive AND 3) s;
     let s = floppy_write_data E track s;
     s \<leftarrow> floppy_wait_irq E s;
     let (st0, pcn, s) = floppy_sense E s;
     (if pcn = track \<and> st0 AND 0xC0 = 0 then Some (1, s) else seek_attempts E drive track n s)
   }"

definition floppy_seek :: "fdc_env \<Rightarrow> u8 \<Rightarrow> u8 \<Rightarrow> 'a floppy_scheme \<Rightarrow> (u8 \<times> 'a floppy_scheme) option" where
  "floppy_seek E drive track s =
     (if drive > 3 then Some (0, s)
      else do { s \<leftarrow> floppy_motor_on E drive s; seek_attempts E drive track 3 s })"

fun calibrate_attempts :: "fdc_env \<Rightarrow> u8 \<Rightarrow> nat \<Rightarrow> 'a floppy_scheme \<Rightarrow> (u8 \<times> 'a floppy_scheme) option" where
  "calibrate_attempts E drive 0 s = Some (0, s)"
| "calibrate_attempts E drive (Suc n) s = do {
     let s = floppy_send_command E CMD_RECALIBRATE s;
     let s = floppy_write_data E (drive AND 3) s;
     s \<leftarrow> floppy_wait_irq E s;
     let (st0, pcn, s) = floppy_sense E s;
     (if pcn = 0 \<and> st0 AND 0xC0 = 0 then Some (1, s) else calibrate_attempts E drive n s)
   }"

definition floppy_calibrate :: "fdc_env \<Rightarrow> u8 \<Rightarrow> 'a floppy_scheme \<Rightarrow> (u8 \<times> 'a floppy_scheme) option" where
  "floppy_calibrate E drive s =
     (if drive > 3 then Some (0, s)
      else do { s \<leftarrow> floppy_motor_on E drive s; calibrate_attempts E drive 3 s })"

definition floppy_setup_dma :: "u8 \<Rightarrow> u32 \<Rightarrow> u16 \<Rightarrow> 'a machine_scheme \<Rightarrow> 'a machine_scheme" where
  "floppy_setup_dma read addr count s =
     (let s = outb DMA_MASK 0x06 s;
          s = outb DMA_CLEAR 0 s;
          s = (if read \<noteq> 0 then outb DMA_MODE 0x46 s else outb DMA_MODE 0x4A s);
          s = outb DMA_ADDR (ucast (addr AND 0xFF)) s;
          s = outb DMA_ADDR (ucast (drop_bit 8 addr AND 0xFF)) s;
          s = outb DMA_PAGE (ucast (drop_bit 16 addr AND 0xFF)) s;
          count = count - 1;
          s = outb DMA_COUNT (ucast (count AND 0xFF)) s;
          s = outb DMA_COUNT (ucast (drop_bit 8 count AND 0xFF)) s
      in outb DMA_MASK 0x02 s)"

definition floppy_init :: "fdc_env \<Rightarrow> 'a floppy_scheme \<Rightarrow> 'a floppy_scheme option" where
  "floppy_init E s = do {
     s \<leftarrow> floppy_reset E s;
     Some ((outb FDC_CCR 0x00 s)\<lparr>current_drive := 0\<rparr>)
   }"

section \<open>Sectors\<close>

text \<open>The parameters of a read or write command, its interrupt, and the seven result bytes; the answer is the code's
  test for errors.\<close>

definition floppy_execute ::
  "fdc_env \<Rightarrow> u8 \<Rightarrow> u8 \<Rightarrow> u8 \<Rightarrow> u8 \<Rightarrow> u8 \<Rightarrow> 'a floppy_scheme \<Rightarrow> (bool \<times> 'a floppy_scheme) option" where
  "floppy_execute E cmd drive track head sector s = do {
     let s = floppy_send_command E (cmd OR 0x80 OR 0x40) s;
     let s = fold (floppy_write_data E) [push_bit 2 head OR drive, track, head, sector, 2, 18, 0x1B, 0xFF] s;
     s \<leftarrow> floppy_wait_irq E s;
     let (st0, s) = floppy_read_data E s;
     let (st1, s) = floppy_read_data E s;
     let (st2, s) = floppy_read_data E s;
     let s = ((\<lambda>s. snd (floppy_read_data E s)) ^^ 4) s;
     Some (st0 AND 0xC0 = 0 \<and> st1 = 0 \<and> st2 = 0, s)
   }"

definition floppy_read_sector ::
  "fdc_env \<Rightarrow> u8 \<Rightarrow> u8 \<Rightarrow> u8 \<Rightarrow> u8 \<Rightarrow> (nat \<Rightarrow> u8) \<Rightarrow> 'a floppy_scheme \<Rightarrow> (u8 \<times> (nat \<Rightarrow> u8) \<times> 'a floppy_scheme) option" where
  "floppy_read_sector E drive track head sector buffer s =
     (if drive > 3 then Some (0, buffer, s)
      else do {
        let s = floppy_setup_dma 1 (floppy_buffer_addr s) 512 s;
        (ok, s) \<leftarrow> floppy_seek E drive track s;
        (if ok = 0 then Some (0, buffer, s)
         else do {
           (fine, s) \<leftarrow> floppy_execute E CMD_READ_SECTOR drive track head sector s;
           let s = s\<lparr>floppy_buffer := fe_dma E (trace s) (floppy_buffer s)\<rparr>;
           Some (if fine then (1, fold (\<lambda>i b. b(i := floppy_buffer s ! i)) [0..<512] buffer, s) else (0, buffer, s))
         })
      })"

definition floppy_write_sector ::
  "fdc_env \<Rightarrow> u8 \<Rightarrow> u8 \<Rightarrow> u8 \<Rightarrow> u8 \<Rightarrow> (nat \<Rightarrow> u8) \<Rightarrow> 'a floppy_scheme \<Rightarrow> (u8 \<times> 'a floppy_scheme) option" where
  "floppy_write_sector E drive track head sector buffer s =
     (if drive > 3 then Some (0, s)
      else do {
        let s = s\<lparr>floppy_buffer := fold (\<lambda>i b. b[i := buffer i]) [0..<512] (floppy_buffer s)\<rparr>;
        let s = floppy_setup_dma 0 (floppy_buffer_addr s) 512 s;
        (ok, s) \<leftarrow> floppy_seek E drive track s;
        (if ok = 0 then Some (0, s)
         else do {
           (fine, s) \<leftarrow> floppy_execute E CMD_WRITE_SECTOR drive track head sector s;
           Some (c_bool fine, s)
         })
      })"

definition floppy_detect_type :: "device \<Rightarrow> u8 \<Rightarrow> 'a machine_scheme \<Rightarrow> u8 \<times> 'a machine_scheme" where
  "floppy_detect_type D drive s =
     (let (cmos_type, s) = cmos_get_floppy_type D s
      in (if drive = 0 then drop_bit 4 cmos_type AND 0x0F else if drive = 1 then cmos_type AND 0x0F else 0, s))"

definition floppy_get_geometry :: "u8 \<Rightarrow> floppy_geometry option" where
  "floppy_get_geometry typ = (if typ < 4 then Some (floppy_types ! unat typ) else None)"

section \<open>What the controller is told\<close>

definition fdc_bytes :: "'a machine_scheme \<Rightarrow> u8 list" where
  "fdc_bytes s = map ucast (writes (Port8 FDC_DATA) (trace s))"

lemma fdc_bytes_outb: "fdc_bytes (outb p v s) = (if p = FDC_DATA then fdc_bytes s @ [v] else fdc_bytes s)"
  by (simp add: fdc_bytes_def bus)

lemma fdc_bytes_inb [simp]: "fdc_bytes (snd (inb D p s)) = fdc_bytes s"
  by (simp add: fdc_bytes_def bus)

lemma fdc_bytes_wait [simp]: "fdc_bytes (fdc_wait D n s) = fdc_bytes s"
proof (induction n arbitrary: s)
  case (Suc n)
  then show ?case using fdc_bytes_inb [of D FDC_MSR s] by (simp add: split_beta del: fdc_bytes_inb)
qed simp

lemma fdc_bytes_ops [simp]:
  "fdc_bytes (floppy_write_data E v s) = fdc_bytes s @ [v]"
  "fdc_bytes (floppy_send_command E v s) = fdc_bytes s @ [v]"
  "fdc_bytes (snd (floppy_read_data E s)) = fdc_bytes s"
  by (simp_all add: floppy_write_data_def floppy_send_command_def floppy_read_data_def fdc_bytes_outb)

lemma fdc_bytes_fields [simp]:
  "fdc_bytes (s\<lparr>floppy_irq_received := b\<rparr>) = fdc_bytes s" "fdc_bytes (s\<lparr>floppy_buffer := bs\<rparr>) = fdc_bytes s"
  "fdc_bytes (insn i s) = fdc_bytes s"
  by (simp_all add: fdc_bytes_def insn_def)

lemma fdc_bytes_fold [simp]: "fdc_bytes (fold (floppy_write_data E) vs s) = fdc_bytes s @ vs"
  by (induction vs arbitrary: s) simp_all

lemma fdc_bytes_setup [simp]: "fdc_bytes (floppy_setup_dma r a c s) = fdc_bytes s"
  by (simp add: floppy_setup_dma_def Let_def fdc_bytes_outb fdc_ports fdc_dma_ports)

lemma floppy_wait_irq_bytes:
  assumes "floppy_wait_irq E s = Some t"
  shows "fdc_bytes t = fdc_bytes s"
proof (rule floppy_wait_irq.raw_induct [where P = "\<lambda>E s t. fdc_bytes t = fdc_bytes s", OF _ assms])
  fix f :: "fdc_env \<Rightarrow> 'a floppy_scheme \<Rightarrow> 'a floppy_scheme option" and E s t
  assume "\<And>E s t. f E s = Some t \<Longrightarrow> fdc_bytes t = fdc_bytes s"
    and "(let s = (if fe_irq E (trace s) then floppy_irq_handler s else s)
      in if floppy_irq_received s = 0 then f E (insn Hlt s) else Some (s\<lparr>floppy_irq_received := 0\<rparr>)) = Some t"
  then show "fdc_bytes t = fdc_bytes s"
    by (auto simp: Let_def floppy_irq_handler_def split: if_splits)
qed

lemma writes_SysTick: "writes (Port8 p) (trace ((SysTick_Handler ^^ n) s)) = writes (Port8 p) (trace s)"
  by (induction n) (simp_all add: SysTick_Handler_def bus)

lemma writes_pit_irq: "trace ((pit_irq_handler ^^ n) s) = trace s"
  by (induction n) (simp_all add: pit_irq_handler_def)

lemma systick_wait_writes:
  assumes "systick_wait irqs k target s = Some t"
  shows "writes (Port8 p) (trace t) = writes (Port8 p) (trace s)"
proof (rule systick_wait.raw_induct [where P = "\<lambda>irqs k target s t. writes (Port8 p) (trace t) = writes (Port8 p) (trace s)", OF _ assms])
  fix f :: "(nat \<Rightarrow> nat) \<Rightarrow> nat \<Rightarrow> u32 \<Rightarrow> 'a timer_scheme \<Rightarrow> 'a timer_scheme option" and irqs k target s t
  assume "\<And>irqs k target s t. f irqs k target s = Some t \<Longrightarrow> writes (Port8 p) (trace t) = writes (Port8 p) (trace s)"
    and "(let s = (SysTick_Handler ^^ irqs k) s
      in if timer_ticks Arm s < target then f irqs (Suc k) target s else Some s) = Some t"
  then show "writes (Port8 p) (trace t) = writes (Port8 p) (trace s)"
    by (auto simp: Let_def writes_SysTick split: if_splits)
qed

lemma pit_wait_writes:
  assumes "pit_wait irqs k target s = Some t"
  shows "writes p (trace t) = writes p (trace s)"
proof (rule pit_wait.raw_induct [where P = "\<lambda>irqs k target s t. writes p (trace t) = writes p (trace s)", OF _ assms])
  fix f :: "(nat \<Rightarrow> nat) \<Rightarrow> nat \<Rightarrow> u32 \<Rightarrow> 'a pit_scheme \<Rightarrow> 'a pit_scheme option" and irqs k target s t
  assume "\<And>irqs k target s t. f irqs k target s = Some t \<Longrightarrow> writes p (trace t) = writes p (trace s)"
    and "(let s = (pit_irq_handler ^^ irqs k) s
      in if pit_ticks s < target then f irqs (Suc k) target (insn Hlt s) else Some s) = Some t"
  then show "writes p (trace t) = writes p (trace s)"
    by (auto simp: Let_def writes_pit_irq insn_def split: if_splits)
qed

lemma timer_delay_bytes: "timer_delay a irqs ms s = Some t \<Longrightarrow> fdc_bytes t = fdc_bytes s"
  by (cases a) (auto simp: timer_delay_def pit_delay_def fdc_bytes_def dest: systick_wait_writes [where p = FDC_DATA] pit_wait_writes [where p = "Port8 FDC_DATA"])

lemma floppy_motor_on_bytes: "floppy_motor_on E drive s = Some t \<Longrightarrow> fdc_bytes t = fdc_bytes s"
  by (auto simp: floppy_motor_on_def fdc_bytes_outb fdc_ports split: if_splits dest: timer_delay_bytes)

abbreviation seek_bytes :: "u8 \<Rightarrow> u8 \<Rightarrow> u8 list" where
  "seek_bytes drive track \<equiv> [CMD_SEEK, drive AND 3, track, CMD_SENSE_INTERRUPT]"

lemma seek_attempts_bytes:
  assumes "seek_attempts E drive track n s = Some (r, t)"
  shows "\<exists>k \<le> n. fdc_bytes t = fdc_bytes s @ concat (replicate k (seek_bytes drive track)) \<and> (r \<noteq> 0 \<longrightarrow> 0 < k)"
  using assms
proof (induction n arbitrary: s)
  case 0
  then show ?case by simp
next
  case (Suc n)
  let ?s = "floppy_write_data E track (floppy_write_data E (drive AND 3) (floppy_send_command E CMD_SEEK s))"
  from Suc.prems obtain u where u: "floppy_wait_irq E ?s = Some u"
    by (auto simp: Let_def bind_eq_Some_conv)
  obtain st0 pcn v where v: "floppy_sense E u = (st0, pcn, v)" by (cases "floppy_sense E u") auto
  have "fdc_bytes (snd (snd (floppy_sense E u))) = fdc_bytes u @ [CMD_SENSE_INTERRUPT]"
    by (simp add: floppy_sense_def Let_def split_beta)
  with v have b: "fdc_bytes v = fdc_bytes s @ seek_bytes drive track"
    using floppy_wait_irq_bytes [OF u] by simp
  have run: "(if pcn = track \<and> st0 AND 0xC0 = 0 then Some (1, v) else seek_attempts E drive track n v) = Some (r, t)"
    using Suc.prems u v by (simp add: Let_def)
  show ?case
  proof (cases "pcn = track \<and> st0 AND 0xC0 = 0")
    case True
    with run b show ?thesis by (intro exI [of _ 1]) auto
  next
    case False
    with run have "seek_attempts E drive track n v = Some (r, t)" by (simp only: if_False)
    from Suc.IH [OF this] obtain k where "k \<le> n" "fdc_bytes t = fdc_bytes v @ concat (replicate k (seek_bytes drive track))" by blast
    with b show ?thesis by (intro exI [of _ "Suc k"]) simp
  qed
qed

abbreviation rw_bytes :: "u8 \<Rightarrow> u8 \<Rightarrow> u8 \<Rightarrow> u8 \<Rightarrow> u8 \<Rightarrow> u8 list" where
  "rw_bytes cmd drive track head sector \<equiv>
     [cmd OR 0x80 OR 0x40, push_bit 2 head OR drive, track, head, sector, 2, 18, 0x1B, 0xFF]"

lemma floppy_execute_bytes:
  assumes "floppy_execute E cmd drive track head sector s = Some (r, t)"
  shows "fdc_bytes t = fdc_bytes s @ rw_bytes cmd drive track head sector"
proof -
  let ?s = "fold (floppy_write_data E) [push_bit 2 head OR drive, track, head, sector, 2, 18, 0x1B, 0xFF]
    (floppy_send_command E (cmd OR 0x80 OR 0x40) s)"
  from assms obtain u where u: "floppy_wait_irq E ?s = Some u"
    by (auto simp: floppy_execute_def Let_def bind_eq_Some_conv)
  have "fdc_bytes t = fdc_bytes u"
    using assms u by (auto simp: floppy_execute_def Let_def split_beta eval_nat_numeral)
  also have "\<dots> = fdc_bytes ?s" by (rule floppy_wait_irq_bytes [OF u])
  finally show ?thesis by simp
qed

lemma floppy_seek_bytes:
  assumes "floppy_seek E drive track s = Some (r, t)" "r \<noteq> 0"
  shows "drive \<le> 3 \<and> (\<exists>k. 0 < k \<and> k \<le> 3 \<and> fdc_bytes t = fdc_bytes s @ concat (replicate k (seek_bytes drive track)))"
proof -
  have d: "drive \<le> 3" using assms by (auto simp: floppy_seek_def split: if_splits)
  then obtain u where u: "floppy_motor_on E drive s = Some u" "seek_attempts E drive track 3 u = Some (r, t)"
    using assms by (auto simp: floppy_seek_def bind_eq_Some_conv simp del: seek_attempts.simps split: if_splits)
  with seek_attempts_bytes [OF u(2)] floppy_motor_on_bytes [OF u(1)] assms(2) d show ?thesis by metis
qed

section \<open>Properties\<close>

text \<open>A sector read that reports success has put on the wire, whatever the controller and the disk did: one to three
  seeks to the track, each followed by a sense command, and then the nine bytes of one read command for the sector. The
  caller's buffer then holds the 512 bytes of the sector buffer, and is untouched in every other case. A write is the
  same with the write command.\<close>

lemma floppy_read_command:
  assumes "floppy_read_sector E drive track head sector buffer s = Some (r, buffer', t)"
  shows "(r = 0 \<longrightarrow> buffer' = buffer) \<and>
    (r \<noteq> 0 \<longrightarrow> drive \<le> 3 \<and> (\<forall>i. buffer' i = (if i < 512 then floppy_buffer t ! i else buffer i)) \<and>
      (\<exists>k. 0 < k \<and> k \<le> 3 \<and> fdc_bytes t = fdc_bytes s @ concat (replicate k (seek_bytes drive track)) @
         rw_bytes CMD_READ_SECTOR drive track head sector))"
proof (cases "r = 0")
  case True
  with assms show ?thesis by (auto simp: floppy_read_sector_def Let_def bind_eq_Some_conv split: if_splits)
next
  case False
  let ?s = "floppy_setup_dma 1 (floppy_buffer_addr s) 512 s"
  from assms False obtain ok u v where u: "floppy_seek E drive track ?s = Some (ok, u)" "ok \<noteq> 0"
    and v: "floppy_execute E CMD_READ_SECTOR drive track head sector u = Some (True, v)"
    and t: "t = v\<lparr>floppy_buffer := fe_dma E (trace v) (floppy_buffer v)\<rparr>"
      "buffer' = fold (\<lambda>i b. b(i := floppy_buffer t ! i)) [0..<512] buffer"
    by (auto simp: floppy_read_sector_def Let_def bind_eq_Some_conv split: if_splits)
  have "fold (\<lambda>i b. b(i := bs ! i)) [0..<n] buffer i = (if i < n then bs ! i else buffer i)" for n i and bs :: "u8 list"
    by (induction n) auto
  moreover have "fdc_bytes t = fdc_bytes u @ rw_bytes CMD_READ_SECTOR drive track head sector"
    using floppy_execute_bytes [OF v] t(1) by simp
  moreover note floppy_seek_bytes [OF u]
  ultimately show ?thesis using False t(2) by auto
qed

text \<open>A controller that is always ready and answers zeros, with its interrupt at once.\<close>

definition fdc_env0 :: fdc_env where
  "fdc_env0 = \<lparr>fe_arch = Other_arch, fe_dev = (\<lambda>_ p. if p = Port8 FDC_MSR then 0x80 else 0), fe_ticks = (\<lambda>_. 0),
     fe_irq = (\<lambda>_. True), fe_dma = (\<lambda>_ _. replicate 512 0xE5)\<rparr>"

definition floppy0 :: floppy where
  "floppy0 = \<lparr>trace = [], pit_ticks = 0, pit_frequency = 0, pit_loops_per_10ms = 0, system_ticks = 0, floppy_irq_received = 0,
     current_drive = 0, floppy_buffer = [], floppy_buffer_addr = 0x1000\<rparr>"

lemma fdc_env0_run:
  "fst (floppy_read_data fdc_env0 s) = 0"
  "floppy_wait_irq fdc_env0 u = Some (u\<lparr>floppy_irq_received := 0\<rparr>)"
  "floppy_motor_on fdc_env0 1 s' = Some (outb FDC_DOR 0x2D s')"
proof -
  show "fst (floppy_read_data fdc_env0 s) = 0"
    by (simp add: floppy_read_data_def fdc_env0_def bus fdc_ports)
  show "floppy_wait_irq fdc_env0 u = Some (u\<lparr>floppy_irq_received := 0\<rparr>)"
    by (subst floppy_wait_irq.simps) (simp add: fdc_env0_def floppy_irq_handler_def Let_def)
  show "floppy_motor_on fdc_env0 1 s' = Some (outb FDC_DOR 0x2D s')"
    by (simp add: floppy_motor_on_def fdc_env0_def timer_delay_def DOR_RESET_def DOR_IRQ_DMA_def DOR_MOTOR_A_def Let_def)
qed

text \<open>The driver programs DMA channel 2 by hand exactly as the DMA driver would for a single transfer in the same
  direction, access by access; only it does not claim the channel.\<close>

lemma floppy_dma_matches:
  "trace (floppy_setup_dma read addr count s) =
     trace (dma_start_transfer 2 (dma_setup_channel 2 addr count (DMA_MODE_SINGLE OR (if read \<noteq> 0 then DMA_MODE_WRITE else DMA_MODE_READ)) s)) \<and>
   dma_channels (floppy_setup_dma read addr count s) = dma_channels s"
  by (simp add: floppy_setup_dma_def dma_start_transfer_def dma_setup_channel_def dma_mask_channel_def dma_unmask_channel_def
      upd_channel_def out16_def Let_def bus fdc_dma_ports dma_ports dma_tables DMA_MODE_SINGLE_def DMA_MODE_WRITE_def DMA_MODE_READ_def)

end
