(* ===== verification/Apic.thy ===== *)
theory Apic
  imports Timer
begin

text \<open>
  \<open>src/drivers/apic.c\<close>: the local APIC, whose registers are memory words, and the I/O APIC, whose registers are
  reached through a select word and a window. Sending an interrupt to another processor polls the delivery status; the
  calibration of the timer waits for the kernel tick.
\<close>

definition LAPIC_ID :: u32 where "LAPIC_ID = 0x020"
definition LAPIC_VERSION :: u32 where "LAPIC_VERSION = 0x030"
definition LAPIC_TPR :: u32 where "LAPIC_TPR = 0x080"
definition LAPIC_EOI :: u32 where "LAPIC_EOI = 0x0B0"
definition LAPIC_SVR :: u32 where "LAPIC_SVR = 0x0F0"
definition LAPIC_ESR :: u32 where "LAPIC_ESR = 0x280"
definition LAPIC_ICR_LOW :: u32 where "LAPIC_ICR_LOW = 0x300"
definition LAPIC_ICR_HIGH :: u32 where "LAPIC_ICR_HIGH = 0x310"
definition LAPIC_LVT_TIMER :: u32 where "LAPIC_LVT_TIMER = 0x320"
definition LAPIC_LVT_LINT0 :: u32 where "LAPIC_LVT_LINT0 = 0x350"
definition LAPIC_LVT_LINT1 :: u32 where "LAPIC_LVT_LINT1 = 0x360"
definition LAPIC_LVT_ERROR :: u32 where "LAPIC_LVT_ERROR = 0x370"
definition LAPIC_TIMER_ICR :: u32 where "LAPIC_TIMER_ICR = 0x380"
definition LAPIC_TIMER_CCR :: u32 where "LAPIC_TIMER_CCR = 0x390"
definition LAPIC_TIMER_DCR :: u32 where "LAPIC_TIMER_DCR = 0x3E0"
definition IOAPIC_REGSEL :: u32 where "IOAPIC_REGSEL = 0x00"
definition IOAPIC_IOWIN :: u32 where "IOAPIC_IOWIN = 0x10"
definition IOAPIC_REG_VER :: u32 where "IOAPIC_REG_VER = 0x01"
definition IOAPIC_REG_REDTBL :: u32 where "IOAPIC_REG_REDTBL = 0x10"
definition ICR_FIXED :: u32 where "ICR_FIXED = 0x00000000"
definition ICR_INIT :: u32 where "ICR_INIT = 0x00000500"
definition ICR_STARTUP :: u32 where "ICR_STARTUP = 0x00000600"
definition ICR_PHYSICAL :: u32 where "ICR_PHYSICAL = 0x00000000"
definition ICR_SEND_PENDING :: u32 where "ICR_SEND_PENDING = 0x00001000"
definition ICR_DEASSERT :: u32 where "ICR_DEASSERT = 0x00000000"
definition ICR_ASSERT :: u32 where "ICR_ASSERT = 0x00004000"
definition ICR_ALL_EXCLUDING :: u32 where "ICR_ALL_EXCLUDING = 0x000C0000"
definition IA32_APIC_BASE :: u32 where "IA32_APIC_BASE = 0x1B"

record apic = timer +
  lapic_base :: u32
  ioapic_base :: u32
  apic_enabled :: u8

section \<open>Registers\<close>

definition lapic_read :: "device \<Rightarrow> u32 \<Rightarrow> 'a apic_scheme \<Rightarrow> u32 \<times> 'a apic_scheme" where
  "lapic_read D reg s = read32 D (lapic_base s + reg) s"

definition lapic_write :: "u32 \<Rightarrow> u32 \<Rightarrow> 'a apic_scheme \<Rightarrow> 'a apic_scheme" where
  "lapic_write reg v s = write32 (lapic_base s + reg) v s"

definition ioapic_read :: "device \<Rightarrow> u32 \<Rightarrow> 'a apic_scheme \<Rightarrow> u32 \<times> 'a apic_scheme" where
  "ioapic_read D reg s = read32 D (ioapic_base s + IOAPIC_IOWIN) (write32 (ioapic_base s + IOAPIC_REGSEL) reg s)"

definition ioapic_write :: "u32 \<Rightarrow> u32 \<Rightarrow> 'a apic_scheme \<Rightarrow> 'a apic_scheme" where
  "ioapic_write reg v s = write32 (ioapic_base s + IOAPIC_IOWIN) v (write32 (ioapic_base s + IOAPIC_REGSEL) reg s)"

section \<open>The local APIC\<close>

definition apic_init :: "device \<Rightarrow> u32 \<Rightarrow> u32 \<Rightarrow> 'a apic_scheme \<Rightarrow> 'a apic_scheme" where
  "apic_init D lapic_addr ioapic_addr s =
     (let s = s\<lparr>lapic_base := lapic_addr, ioapic_base := ioapic_addr\<rparr>;
          s = (if lapic_base s = 0
               then (let (v, s) = rd D (Msr IA32_APIC_BASE) s in s\<lparr>lapic_base := ucast (v :: u64) AND 0xFFFFF000\<rparr>)
               else s)
      in if lapic_base s = 0 then s
         else
           (let (v, s) = rd D (Msr IA32_APIC_BASE) s;
                s = wr (Msr IA32_APIC_BASE) ((v :: u64) OR push_bit 11 1) s;
                (svr, s) = lapic_read D LAPIC_SVR s;
                s = lapic_write LAPIC_SVR (svr OR 0x100) s;
                s = lapic_write LAPIC_TPR 0 s;
                s = lapic_write LAPIC_LVT_TIMER 0x10000 s;
                s = lapic_write LAPIC_LVT_LINT0 0x8700 s;
                s = lapic_write LAPIC_LVT_LINT1 0x400 s;
                s = lapic_write LAPIC_LVT_ERROR 0x10000 s;
                s = lapic_write LAPIC_ESR 0 s;
                s = lapic_write LAPIC_ESR 0 s;
                s = lapic_write LAPIC_EOI 0 s
            in s\<lparr>apic_enabled := 1\<rparr>))"

definition apic_send_eoi :: "'a apic_scheme \<Rightarrow> 'a apic_scheme" where
  "apic_send_eoi s = (if apic_enabled s \<noteq> 0 then lapic_write LAPIC_EOI 0 s else s)"

definition icr_wait :: "device \<Rightarrow> 'a apic_scheme \<Rightarrow> 'a apic_scheme option" where
  "icr_wait D s = poll D (Mem32 (lapic_base s + LAPIC_ICR_LOW)) (\<lambda>r :: u32. r AND ICR_SEND_PENDING = 0) s"

definition apic_send_ipi :: "device \<Rightarrow> u8 \<Rightarrow> u8 \<Rightarrow> 'a apic_scheme \<Rightarrow> 'a apic_scheme option" where
  "apic_send_ipi D dest_apic_id vector s =
     (if apic_enabled s = 0 then Some s
      else do {
        s \<leftarrow> icr_wait D s;
        let s = lapic_write LAPIC_ICR_HIGH (push_bit 24 (ucast dest_apic_id)) s;
        Some (lapic_write LAPIC_ICR_LOW (ICR_FIXED OR ucast vector) s)
      })"

definition apic_send_init_ipi :: "arch \<Rightarrow> device \<Rightarrow> (nat \<Rightarrow> nat) \<Rightarrow> u8 \<Rightarrow> 'a apic_scheme \<Rightarrow> 'a apic_scheme option" where
  "apic_send_init_ipi a D irqs dest_apic_id s =
     (if apic_enabled s = 0 then Some s
      else do {
        s \<leftarrow> icr_wait D s;
        let s = lapic_write LAPIC_ICR_HIGH (push_bit 24 (ucast dest_apic_id)) s;
        let s = lapic_write LAPIC_ICR_LOW (ICR_INIT OR ICR_PHYSICAL OR ICR_ASSERT) s;
        s \<leftarrow> timer_delay a irqs 10 s;
        s \<leftarrow> icr_wait D s;
        Some (lapic_write LAPIC_ICR_LOW (ICR_INIT OR ICR_PHYSICAL OR ICR_DEASSERT) s)
      })"

definition apic_send_startup_ipi :: "device \<Rightarrow> u8 \<Rightarrow> u8 \<Rightarrow> 'a apic_scheme \<Rightarrow> 'a apic_scheme option" where
  "apic_send_startup_ipi D dest_apic_id vector s =
     (if apic_enabled s = 0 then Some s
      else do {
        s \<leftarrow> icr_wait D s;
        let s = lapic_write LAPIC_ICR_HIGH (push_bit 24 (ucast dest_apic_id)) s;
        Some (lapic_write LAPIC_ICR_LOW (ICR_STARTUP OR ICR_PHYSICAL OR ucast vector) s)
      })"

definition apic_broadcast_ipi :: "device \<Rightarrow> u8 \<Rightarrow> 'a apic_scheme \<Rightarrow> 'a apic_scheme option" where
  "apic_broadcast_ipi D vector s =
     (if apic_enabled s = 0 then Some s
      else do {
        s \<leftarrow> icr_wait D s;
        Some (lapic_write LAPIC_ICR_LOW (ICR_FIXED OR ICR_ALL_EXCLUDING OR ucast vector) s)
      })"

definition apic_get_id :: "device \<Rightarrow> 'a apic_scheme \<Rightarrow> u8 \<times> 'a apic_scheme" where
  "apic_get_id D s =
     (if apic_enabled s = 0 then (0, s)
      else (let (v, s) = lapic_read D LAPIC_ID s in (ucast (drop_bit 24 v AND 0xFF), s)))"

definition apic_timer_init :: "arch \<Rightarrow> device \<Rightarrow> (nat \<Rightarrow> nat) \<Rightarrow> u32 \<Rightarrow> 'a apic_scheme \<Rightarrow> 'a apic_scheme option" where
  "apic_timer_init a D irqs frequency s =
     (if apic_enabled s = 0 then Some s
      else do {
        let s = lapic_write LAPIC_TIMER_DCR 0x3 s;
        let s = lapic_write LAPIC_LVT_TIMER (32 OR 0x20000) s;
        let initial_count = 0xFFFFFFFF;
        let s = lapic_write LAPIC_TIMER_ICR initial_count s;
        s \<leftarrow> timer_delay a irqs 100 s;
        let (current_count, s) = lapic_read D LAPIC_TIMER_CCR s;
        let ticks_per_100ms = initial_count - current_count;
        let ticks_per_second = ticks_per_100ms * 10;
        initial_count \<leftarrow> udiv ticks_per_second frequency;
        Some (lapic_write LAPIC_TIMER_ICR initial_count s)
      })"

definition apic_timer_stop :: "'a apic_scheme \<Rightarrow> 'a apic_scheme" where
  "apic_timer_stop s = (if apic_enabled s = 0 then s else lapic_write LAPIC_LVT_TIMER 0x10000 s)"

definition apic_is_enabled :: "'a apic_scheme \<Rightarrow> u8" where
  "apic_is_enabled s = apic_enabled s"

definition apic_get_error_status :: "device \<Rightarrow> 'a apic_scheme \<Rightarrow> u32 \<times> 'a apic_scheme" where
  "apic_get_error_status D s = (if apic_enabled s = 0 then (0, s) else lapic_read D LAPIC_ESR (lapic_write LAPIC_ESR 0 s))"

definition apic_clear_errors :: "'a apic_scheme \<Rightarrow> 'a apic_scheme" where
  "apic_clear_errors s = (if apic_enabled s = 0 then s else lapic_write LAPIC_ESR 0 (lapic_write LAPIC_ESR 0 s))"

definition apic_get_version :: "device \<Rightarrow> 'a apic_scheme \<Rightarrow> u32 \<times> 'a apic_scheme" where
  "apic_get_version D s = (if apic_enabled s = 0 then (0, s) else lapic_read D LAPIC_VERSION s)"

section \<open>The I/O APIC\<close>

text \<open>The entry of line \<open>irq\<close> is a pair of registers.\<close>

definition redtbl :: "u8 \<Rightarrow> u32" where
  "redtbl irq = IOAPIC_REG_REDTBL + ucast irq * 2"

definition ioapic_clear :: "u8 \<Rightarrow> 'a apic_scheme \<Rightarrow> 'a apic_scheme" where
  "ioapic_clear i s = ioapic_write (redtbl i + 1) 0 (ioapic_write (redtbl i) 0x10000 s)"

definition ioapic_init :: "device \<Rightarrow> 'a apic_scheme \<Rightarrow> 'a apic_scheme" where
  "ioapic_init D s =
     (if ioapic_base s = 0 then s
      else
        (let (version, s) = ioapic_read D IOAPIC_REG_VER s;
             max_redirections = ucast ((drop_bit 16 version AND 0xFF) + 1) :: u8
         in fold (\<lambda>i. ioapic_clear (of_nat i)) [0..<unat max_redirections] s))"

definition ioapic_set_irq :: "u8 \<Rightarrow> u8 \<Rightarrow> u8 \<Rightarrow> 'a apic_scheme \<Rightarrow> 'a apic_scheme" where
  "ioapic_set_irq irq vector dest_apic_id s =
     (if ioapic_base s = 0 then s
      else ioapic_write (redtbl irq + 1) (push_bit 24 (ucast dest_apic_id)) (ioapic_write (redtbl irq) (ucast vector) s))"

definition ioapic_mask_irq :: "device \<Rightarrow> u8 \<Rightarrow> 'a apic_scheme \<Rightarrow> 'a apic_scheme" where
  "ioapic_mask_irq D irq s =
     (if ioapic_base s = 0 then s
      else (let (low, s) = ioapic_read D (redtbl irq) s in ioapic_write (redtbl irq) (low OR 0x10000) s))"

definition ioapic_unmask_irq :: "device \<Rightarrow> u8 \<Rightarrow> 'a apic_scheme \<Rightarrow> 'a apic_scheme" where
  "ioapic_unmask_irq D irq s =
     (if ioapic_base s = 0 then s
      else (let (low, s) = ioapic_read D (redtbl irq) s in ioapic_write (redtbl irq) (low AND NOT 0x10000) s))"

section \<open>The redirection table\<close>

text \<open>The documented behaviour of the I/O APIC at base \<open>b\<close>: the window reads and writes the register selected. Its
  state is the selection and the registers.\<close>

fun ioapic_step :: "u32 \<Rightarrow> access \<Rightarrow> u32 \<times> (u32 \<Rightarrow> u32) \<Rightarrow> u32 \<times> (u32 \<Rightarrow> u32)" where
  "ioapic_step b (Wr p v) (sel, r) =
     (if p = Mem32 (b + IOAPIC_REGSEL) then (ucast v, r)
      else if p = Mem32 (b + IOAPIC_IOWIN) then (sel, r(sel := ucast v)) else (sel, r))"
| "ioapic_step b _ c = c"

definition ioapic_device :: "u32 \<Rightarrow> (u32 \<Rightarrow> u32) \<Rightarrow> device" where
  "ioapic_device b r0 t p = (let (sel, r) = fold (ioapic_step b) t (0, r0) in if p = Mem32 (b + IOAPIC_IOWIN) then ucast (r sel) else 0)"

definition is_ioapic :: "device \<Rightarrow> u32 \<Rightarrow> (u32 \<Rightarrow> u32) \<Rightarrow> bool" where
  "is_ioapic D b r0 \<longleftrightarrow> (\<forall>t. D t (Mem32 (b + IOAPIC_IOWIN)) = ioapic_device b r0 t (Mem32 (b + IOAPIC_IOWIN)))"

definition io_regs :: "(u32 \<Rightarrow> u32) \<Rightarrow> 'a apic_scheme \<Rightarrow> u32 \<Rightarrow> u32" where
  "io_regs r0 s = snd (fold (ioapic_step (ioapic_base s)) (trace s) (0, r0))"

lemma ioapic_read_regs:
  assumes "is_ioapic D (ioapic_base s) r0"
  shows "fst (ioapic_read D reg s) = io_regs r0 s reg"
    and "io_regs r0 (snd (ioapic_read D reg s)) = io_regs r0 s"
    and "ioapic_base (snd (ioapic_read D reg s)) = ioapic_base s"
proof -
  have step: "ioapic_step b (Wr (Mem32 b) v) c = (ucast v, snd c)" for b v c
    by (cases c) (simp add: IOAPIC_REGSEL_def)
  show "fst (ioapic_read D reg s) = io_regs r0 s reg" "io_regs r0 (snd (ioapic_read D reg s)) = io_regs r0 s"
    "ioapic_base (snd (ioapic_read D reg s)) = ioapic_base s"
    using assms by (simp_all add: ioapic_read_def io_regs_def is_ioapic_def ioapic_device_def bus step IOAPIC_REGSEL_def split_beta)
qed

lemma ioapic_write_regs:
  "io_regs r0 (ioapic_write reg v s) = (io_regs r0 s)(reg := v)" "ioapic_base (ioapic_write reg v s) = ioapic_base s"
proof -
  have "ioapic_step b (Wr (Mem32 (b + 0x10)) w) (ioapic_step b (Wr (Mem32 b) u) c) = (ucast u, (snd c)(ucast u := ucast w))" for b u w c
    by (cases c) (simp add: IOAPIC_REGSEL_def IOAPIC_IOWIN_def)
  then show "io_regs r0 (ioapic_write reg v s) = (io_regs r0 s)(reg := v)" "ioapic_base (ioapic_write reg v s) = ioapic_base s"
    by (simp_all add: ioapic_write_def io_regs_def bus IOAPIC_REGSEL_def IOAPIC_IOWIN_def)
qed

lemma redtbl_distinct:
  "redtbl i = redtbl j \<longleftrightarrow> i = j" "redtbl i + 1 = redtbl j + 1 \<longleftrightarrow> i = j" "redtbl i \<noteq> redtbl j + 1" "redtbl j + 1 \<noteq> redtbl i"
proof -
  have u: "unat (redtbl i) = 16 + 2 * unat i" for i
    using unsigned_less [of i, where ?'a = nat]
    by (simp add: redtbl_def IOAPIC_REG_REDTBL_def unat_word_ariths unsigned_ucast_eq unsigned_take_bit_eq take_bit_nat_eq_self)
  have u1: "unat (redtbl i + 1) = 17 + 2 * unat i" for i
    using u [of i] unsigned_less [of i, where ?'a = nat] by (simp add: unat_word_ariths)
  show "redtbl i = redtbl j \<longleftrightarrow> i = j" "redtbl i + 1 = redtbl j + 1 \<longleftrightarrow> i = j"
    by (simp_all add: word_unat_eq_iff u u1)
  have "redtbl i \<noteq> redtbl j + 1" for i j
  proof
    assume "redtbl i = redtbl j + 1"
    then have "unat (redtbl i) = unat (redtbl j + 1)" by simp
    then have "16 + 2 * unat i = 17 + 2 * unat j" by (simp only: u u1)
    then show False by presburger
  qed
  then show "redtbl i \<noteq> redtbl j + 1" "redtbl j + 1 \<noteq> redtbl i" by metis+
qed

lemma ioapic_clear_regs:
  "io_regs r0 (ioapic_clear i s) = (io_regs r0 s)(redtbl i := 0x10000, redtbl i + 1 := 0)"
  "ioapic_base (ioapic_clear i s) = ioapic_base s"
  by (simp_all add: ioapic_clear_def ioapic_write_regs)

lemma ioapic_clear_fold:
  assumes "m \<le> 256"
  shows "ioapic_base (fold (\<lambda>i. ioapic_clear (of_nat i)) [0..<m] s) = ioapic_base s"
    and "io_regs r0 (fold (\<lambda>i. ioapic_clear (of_nat i)) [0..<m] s) (redtbl j) =
      (if unat j < m then 0x10000 else io_regs r0 s (redtbl j))"
    and "io_regs r0 (fold (\<lambda>i. ioapic_clear (of_nat i)) [0..<m] s) (redtbl j + 1) =
      (if unat j < m then 0 else io_regs r0 s (redtbl j + 1))"
proof -
  show "ioapic_base (fold (\<lambda>i. ioapic_clear (of_nat i)) [0..<m] s) = ioapic_base s"
    by (induction m) (simp_all add: ioapic_clear_regs)
  have eq: "j = of_nat k \<longleftrightarrow> unat j = k" if "Suc k \<le> 256" for k
    using that by (auto simp: word_unat_eq_iff unat_of_nat)
  show "io_regs r0 (fold (\<lambda>i. ioapic_clear (of_nat i)) [0..<m] s) (redtbl j) =
      (if unat j < m then 0x10000 else io_regs r0 s (redtbl j))"
    using assms
  proof (induction m)
    case (Suc k)
    then show ?case using eq [of k] by (auto simp: ioapic_clear_regs redtbl_distinct)
  qed simp
  show "io_regs r0 (fold (\<lambda>i. ioapic_clear (of_nat i)) [0..<m] s) (redtbl j + 1) =
      (if unat j < m then 0 else io_regs r0 s (redtbl j + 1))"
    using assms
  proof (induction m)
    case (Suc k)
    then show ?case using eq [of k] by (auto simp: ioapic_clear_regs redtbl_distinct)
  qed simp
qed

definition last_entry :: "u32 \<Rightarrow> nat" where
  "last_entry version = unat (drop_bit 16 version AND 0xFF)"

lemma ioapic_init_regs:
  assumes "is_ioapic D (ioapic_base s) r0" "ioapic_base s \<noteq> 0" "last_entry (io_regs r0 s IOAPIC_REG_VER) < 255"
  shows "ioapic_base (ioapic_init D s) = ioapic_base s"
    and "io_regs r0 (ioapic_init D s) (redtbl j) =
      (if unat j \<le> last_entry (io_regs r0 s IOAPIC_REG_VER) then 0x10000 else io_regs r0 s (redtbl j))"
proof -
  let ?v = "io_regs r0 s IOAPIC_REG_VER"
  have "unat (ucast ((drop_bit 16 ?v AND 0xFF) + 1) :: u8) = last_entry ?v + 1"
    using assms(3) by (simp add: last_entry_def unsigned_ucast_eq unsigned_take_bit_eq unat_word_ariths take_bit_nat_eq_self)
  then have run: "ioapic_init D s = fold (\<lambda>i. ioapic_clear (of_nat i)) [0..<last_entry ?v + 1] (snd (ioapic_read D IOAPIC_REG_VER s))"
    using assms(2) ioapic_read_regs(1) [OF assms(1), of IOAPIC_REG_VER]
    by (simp add: ioapic_init_def Let_def split_beta del: upt_Suc)
  show "ioapic_base (ioapic_init D s) = ioapic_base s"
    unfolding run using assms(3) by (simp add: ioapic_clear_fold(1) ioapic_read_regs(3) [OF assms(1)] del: upt_Suc)
  show "io_regs r0 (ioapic_init D s) (redtbl j) =
      (if unat j \<le> last_entry (io_regs r0 s IOAPIC_REG_VER) then 0x10000 else io_regs r0 s (redtbl j))"
    unfolding run using assms(3)
    by (simp add: ioapic_clear_fold(2) ioapic_read_regs(2) [OF assms(1)] less_Suc_eq_le del: upt_Suc)
qed

section \<open>Properties\<close>

text \<open>Initialising the I/O APIC and routing one line leaves exactly that line of the table unmasked, with its vector
  and its destination; masking the line sets the mask bit and nothing else, and unmasking it restores the table. (The
  count of lines is kept in a byte, so an I/O APIC that reports 256 of them would keep every line as it was.)\<close>

lemma ioapic_routes:
  assumes dev: "is_ioapic D (ioapic_base s) r0" "ioapic_base s \<noteq> 0"
    and n: "last_entry (io_regs r0 s IOAPIC_REG_VER) < 255" "unat irq \<le> last_entry (io_regs r0 s IOAPIC_REG_VER)"
    and t: "t = ioapic_set_irq irq vector dest (ioapic_init D s)"
  shows "io_regs r0 t (redtbl irq) = ucast vector \<and> io_regs r0 t (redtbl irq + 1) = push_bit 24 (ucast dest) \<and>
    (\<forall>j. j \<noteq> irq \<longrightarrow> unat j \<le> last_entry (io_regs r0 s IOAPIC_REG_VER) \<longrightarrow> io_regs r0 t (redtbl j) = 0x10000) \<and>
    io_regs r0 (ioapic_mask_irq D irq t) = (io_regs r0 t)(redtbl irq := ucast vector OR 0x10000) \<and>
    io_regs r0 (ioapic_unmask_irq D irq (ioapic_mask_irq D irq t)) = io_regs r0 t"
proof -
  let ?i = "ioapic_init D s"
  note init = ioapic_init_regs [OF dev n(1)]
  have base: "ioapic_base ?i \<noteq> 0" using init(1) dev(2) by simp
  have regs: "io_regs r0 t = (io_regs r0 ?i)(redtbl irq := ucast vector, redtbl irq + 1 := push_bit 24 (ucast dest))"
    and bt: "ioapic_base t = ioapic_base s"
    using base init(1) by (simp_all add: t ioapic_set_irq_def ioapic_write_regs)
  have dt: "is_ioapic D (ioapic_base t) r0" "ioapic_base t \<noteq> 0" using bt dev by simp_all
  let ?m = "ioapic_mask_irq D irq t"
  have m: "io_regs r0 ?m = (io_regs r0 t)(redtbl irq := io_regs r0 t (redtbl irq) OR 0x10000)" "ioapic_base ?m = ioapic_base t"
    using dt(2) ioapic_read_regs [OF dt(1), of "redtbl irq"]
    by (simp_all add: ioapic_mask_irq_def ioapic_write_regs split_beta)
  have dm: "is_ioapic D (ioapic_base ?m) r0" "ioapic_base ?m \<noteq> 0" using m(2) dt by simp_all
  have "io_regs r0 (ioapic_unmask_irq D irq ?m) = (io_regs r0 ?m)(redtbl irq := io_regs r0 ?m (redtbl irq) AND NOT 0x10000)"
    using dm(2) ioapic_read_regs [OF dm(1), of "redtbl irq"]
    by (simp add: ioapic_unmask_irq_def ioapic_write_regs split_beta)
  moreover have "(ucast vector OR 0x10000 :: u32) AND NOT 0x10000 = ucast vector"
  proof (rule bit_word_eqI)
    fix k assume "k < LENGTH(32)"
    have "bit (0x10000 :: u32) k \<longleftrightarrow> k = 16"
      using bit_exp_iff [where ?'a = u32, of 16 k] \<open>k < LENGTH(32)\<close> by (simp add: eq_commute)
    then show "bit ((ucast vector OR 0x10000 :: u32) AND NOT 0x10000) k \<longleftrightarrow> bit (ucast vector :: u32) k"
      using \<open>k < LENGTH(32)\<close> by (auto simp: bit_simps dest: bit_imp_le_length)
  qed
  ultimately show ?thesis using m(1) regs init(2) by (auto simp: redtbl_distinct fun_upd_idem_iff)
qed

definition apic0 :: apic where
  "apic0 = \<lparr>trace = [], pit_ticks = 0, pit_frequency = 0, pit_loops_per_10ms = 0, system_ticks = 0,
     lapic_base = 0xFEE00000, ioapic_base = 0xFEC00000, apic_enabled = 1\<rparr>"

end
