(* ===== verification/Ac97.thy ===== *)
theory Ac97
  imports Timer Paging
begin

text \<open>
  \<open>src/drivers/ac97.c\<close>: the sound controller. Its descriptor list and its audio buffer are pages obtained from
  \<open>Paging\<close>, whose variables are a part of the state; the contents of the two are kept as lists and functions of their
  own. The initialisation and the stop of the playback wait for the kernel tick.
\<close>

definition AC97_RESET :: u16 where "AC97_RESET = 0x00"
definition AC97_MASTER_VOLUME :: u16 where "AC97_MASTER_VOLUME = 0x02"
definition AC97_PCM_OUT_VOLUME :: u16 where "AC97_PCM_OUT_VOLUME = 0x18"
definition AC97_POWERDOWN :: u16 where "AC97_POWERDOWN = 0x26"
definition AC97_EXTENDED_AUDIO_ID :: u16 where "AC97_EXTENDED_AUDIO_ID = 0x28"
definition AC97_EXTENDED_AUDIO_CTRL :: u16 where "AC97_EXTENDED_AUDIO_CTRL = 0x2A"
definition AC97_PCM_FRONT_DAC_RATE :: u16 where "AC97_PCM_FRONT_DAC_RATE = 0x2C"
definition AC97_VENDOR_ID1 :: u16 where "AC97_VENDOR_ID1 = 0x7C"
definition ICH_PCM_OUT_BDBAR :: u16 where "ICH_PCM_OUT_BDBAR = 0x10"
definition ICH_PCM_OUT_LVI :: u16 where "ICH_PCM_OUT_LVI = 0x15"
definition ICH_PCM_OUT_SR :: u16 where "ICH_PCM_OUT_SR = 0x16"
definition ICH_PCM_OUT_CR :: u16 where "ICH_PCM_OUT_CR = 0x1B"
definition ICH_CR_RPBM :: u8 where "ICH_CR_RPBM = 0x01"
definition ICH_CR_RR :: u8 where "ICH_CR_RR = 0x02"
definition ICH_CR_IOCE :: u8 where "ICH_CR_IOCE = 0x10"
definition ICH_SR_DCH :: u8 where "ICH_SR_DCH = 0x01"
definition ICH_SR_LVBCI :: u8 where "ICH_SR_LVBCI = 0x04"
definition ICH_SR_FIFOE :: u8 where "ICH_SR_FIFOE = 0x10"
definition BDL_IOC :: u16 where "BDL_IOC = 0x8000"

record buffer_desc =
  bd_ptr :: u32
  bd_length :: u16
  bd_flags :: u16

record ac97 = timer +
  ac97_paging :: paging
  nambar :: u16
  nabmbar :: u16
  ac97_irq :: u8
  bdl_out :: u32
  bdl_in :: u32
  audio_buffer :: u32
  audio_size :: u16
  ac97_initialized :: u8
  bdl :: "buffer_desc list"
  samples :: "nat \<Rightarrow> u32"

definition ac97_alloc :: "u32 \<Rightarrow> 'a ac97_scheme \<Rightarrow> (u32 \<times> 'a ac97_scheme) option" where
  "ac97_alloc n = embed ac97_paging (\<lambda>c. ac97_paging_update (\<lambda>_. c)) (\<lambda>c. Some (paging_alloc_pages n c))"

section \<open>The codec\<close>

definition AC97_TIMEOUT :: nat where "AC97_TIMEOUT = 1000000"

fun codec_wait :: "device \<Rightarrow> nat \<Rightarrow> 'a ac97_scheme \<Rightarrow> 'a ac97_scheme" where
  "codec_wait D 0 s = s"
| "codec_wait D (Suc n) s =
     (let (v, s) = inl D (nabmbar s + 0x34) s in if v AND 0x01 \<noteq> 0 then codec_wait D n s else s)"

definition ac97_codec_write :: "device \<Rightarrow> u16 \<Rightarrow> u16 \<Rightarrow> 'a ac97_scheme \<Rightarrow> 'a ac97_scheme" where
  "ac97_codec_write D reg v s = (let s = codec_wait D AC97_TIMEOUT s in outw (nambar s + reg) v s)"

definition ac97_codec_read :: "device \<Rightarrow> u16 \<Rightarrow> 'a ac97_scheme \<Rightarrow> u16 \<times> 'a ac97_scheme" where
  "ac97_codec_read D reg s = (let s = codec_wait D AC97_TIMEOUT s in inw D (nambar s + reg) s)"

definition ac97_reset_controller :: "arch \<Rightarrow> (nat \<Rightarrow> nat) \<Rightarrow> 'a ac97_scheme \<Rightarrow> 'a ac97_scheme option" where
  "ac97_reset_controller a irqs s = do {
     s \<leftarrow> timer_delay a irqs 10 (outl (nabmbar s + 0x2C) 0x02 s);
     timer_delay a irqs 10 (outl (nabmbar s + 0x2C) 0x00 s)
   }"

definition ac97_setup :: "device \<Rightarrow> 'a ac97_scheme \<Rightarrow> 'a ac97_scheme" where
  "ac97_setup D s =
     (let s = s\<lparr>audio_size := 16384\<rparr>;
          s = s\<lparr>bdl := fold (\<lambda>i b. b[i := \<lparr>bd_ptr = audio_buffer s + of_nat i * 512, bd_length = 256, bd_flags = BDL_IOC\<rparr>]) [0..<32] (bdl s)\<rparr>;
          s = outl (nabmbar s + ICH_PCM_OUT_BDBAR) (bdl_out s) s;
          s = ac97_codec_write D AC97_MASTER_VOLUME 0x0000 s;
          s = ac97_codec_write D AC97_PCM_OUT_VOLUME 0x0808 s;
          s = ac97_codec_write D AC97_POWERDOWN 0x0000 s;
          (ext_audio, s) = ac97_codec_read D AC97_EXTENDED_AUDIO_ID s;
          s = (if ext_audio AND 0x01 \<noteq> 0
               then ac97_codec_write D AC97_PCM_FRONT_DAC_RATE 44100 (ac97_codec_write D AC97_EXTENDED_AUDIO_CTRL 0x01 s)
               else s)
      in s\<lparr>ac97_initialized := 1\<rparr>)"

definition ac97_init :: "arch \<Rightarrow> device \<Rightarrow> (nat \<Rightarrow> nat) \<Rightarrow> u16 \<Rightarrow> u16 \<Rightarrow> u8 \<Rightarrow> 'a ac97_scheme \<Rightarrow> (u8 \<times> 'a ac97_scheme) option" where
  "ac97_init a D irqs mix bus irq s = do {
     s \<leftarrow> ac97_reset_controller a irqs (s\<lparr>nambar := mix, nabmbar := bus, ac97_irq := irq\<rparr>);
     s \<leftarrow> timer_delay a irqs 100 (ac97_codec_write D AC97_RESET 0 s);
     let (vendor_id, s) = ac97_codec_read D AC97_VENDOR_ID1 s;
     (if vendor_id = 0x0000 \<or> vendor_id = 0xFFFF then Some (0, s)
      else do {
        (p, s) \<leftarrow> ac97_alloc 1 s;
        let s = s\<lparr>bdl_out := p\<rparr>;
        (p, s) \<leftarrow> ac97_alloc 1 s;
        let s = s\<lparr>bdl_in := p\<rparr>;
        (p, s) \<leftarrow> ac97_alloc 4 s;
        let s = s\<lparr>audio_buffer := p\<rparr>;
        Some (if bdl_out s = 0 \<or> bdl_in s = 0 \<or> audio_buffer s = 0 then (0, s) else (1, ac97_setup D s))
      })
   }"

section \<open>Playback\<close>

text \<open>The words to play, the number of descriptors they need, and the length written into each.\<close>

definition play_samples :: "u32 \<Rightarrow> u16 \<Rightarrow> u32" where
  "play_samples n buffer_size =
     (let k = n div 4 in if k > ucast buffer_size div 4 then ucast buffer_size div 4 else k)"

definition buffers_needed :: "u32 \<Rightarrow> u32" where
  "buffers_needed k = (let n = (k * 4 + 511) div 512 in if n > 32 then 32 else n)"

definition desc_length :: "u32 \<Rightarrow> u32 \<Rightarrow> u16" where
  "desc_length k i =
     (let n = (if i = buffers_needed k - 1 then ucast ((k * 4) mod 512 div 4) else 128) in if n = 0 then 128 else n)"

definition ac97_play_buffer :: "(nat \<Rightarrow> u32) \<Rightarrow> u32 \<Rightarrow> 'a ac97_scheme \<Rightarrow> 'a ac97_scheme" where
  "ac97_play_buffer src n s =
     (if ac97_initialized s = 0 then s
      else
        (let k = play_samples n (audio_size s);
             s = s\<lparr>samples := fold (\<lambda>i m. m(i := src i)) [0..<unat k] (samples s)\<rparr>;
             s = s\<lparr>bdl := fold (\<lambda>i b. b[i := (b ! i)\<lparr>bd_length := desc_length k (of_nat i)\<rparr>]) [0..<unat (buffers_needed k)] (bdl s)\<rparr>;
             s = outb (nabmbar s + ICH_PCM_OUT_LVI) (ucast (buffers_needed k - 1)) s
         in outb (nabmbar s + ICH_PCM_OUT_CR) (ICH_CR_RPBM OR ICH_CR_IOCE) s))"

definition ac97_stop_playback :: "arch \<Rightarrow> (nat \<Rightarrow> nat) \<Rightarrow> 'a ac97_scheme \<Rightarrow> 'a ac97_scheme option" where
  "ac97_stop_playback a irqs s =
     (if ac97_initialized s = 0 then Some s
      else do {
        let s = outb (nabmbar s + ICH_PCM_OUT_CR) 0 s;
        let s = outb (nabmbar s + ICH_PCM_OUT_CR) ICH_CR_RR s;
        s \<leftarrow> timer_delay a irqs 1 s;
        Some (outb (nabmbar s + ICH_PCM_OUT_CR) 0 s)
      })"

text \<open>The attenuation of a channel, computed as a C integer and cut to a byte.\<close>

definition attenuation :: "u8 \<Rightarrow> u8" where
  "attenuation v = of_int (63 - uint v * 63 div 100)"

definition ac97_set_volume :: "device \<Rightarrow> u8 \<Rightarrow> u8 \<Rightarrow> 'a ac97_scheme \<Rightarrow> 'a ac97_scheme" where
  "ac97_set_volume D left right s =
     (if ac97_initialized s = 0 then s
      else ac97_codec_write D AC97_MASTER_VOLUME (push_bit 8 (ucast (attenuation left)) OR ucast (attenuation right)) s)"

definition ac97_is_playing :: "device \<Rightarrow> 'a ac97_scheme \<Rightarrow> u8 \<times> 'a ac97_scheme" where
  "ac97_is_playing D s =
     (if ac97_initialized s = 0 then (0, s)
      else (let (status, s) = inb D (nabmbar s + ICH_PCM_OUT_SR) s in (c_bool (status AND ICH_SR_DCH = 0), s)))"

definition ac97_irq_handler :: "arch \<Rightarrow> device \<Rightarrow> (nat \<Rightarrow> nat) \<Rightarrow> 'a ac97_scheme \<Rightarrow> 'a ac97_scheme option" where
  "ac97_irq_handler a D irqs s =
     (if ac97_initialized s = 0 then Some s
      else do {
        let (status, s) = inb D (nabmbar s + ICH_PCM_OUT_SR) s;
        let s = outb (nabmbar s + ICH_PCM_OUT_SR) status s;
        s \<leftarrow> (if status AND ICH_SR_LVBCI \<noteq> 0 then ac97_stop_playback a irqs s else Some s);
        (if status AND ICH_SR_FIFOE \<noteq> 0 then ac97_stop_playback a irqs s else Some s)
      })"

definition square_wave :: "u16 \<Rightarrow> u32 \<Rightarrow> u32" where
  "square_wave frequency i =
     (let sample = (if (i * ucast frequency * 2) div 44100 mod 2 \<noteq> 0 then 0x7FFF else 0x8000 :: u32)
      in push_bit 16 sample OR sample)"

definition ac97_generate_tone :: "u16 \<Rightarrow> u32 \<Rightarrow> 'a ac97_scheme \<Rightarrow> 'a ac97_scheme" where
  "ac97_generate_tone frequency duration_ms s =
     (if ac97_initialized s = 0 then s
      else
        (let k = (44100 * duration_ms) div 1000;
             k = (if k > ucast (audio_size s) div 4 then ucast (audio_size s) div 4 else k);
             s = s\<lparr>samples := fold (\<lambda>i m. m(i := square_wave frequency (of_nat i))) [0..<unat k] (samples s)\<rparr>
         in ac97_play_buffer (samples s) (k * 4) s))"

definition ac97_is_initialized :: "'a ac97_scheme \<Rightarrow> u8" where
  "ac97_is_initialized s = ac97_initialized s"

section \<open>Descriptors\<close>

lemma play_samples_le: "unat (play_samples n 16384) \<le> 4096"
  by (simp add: play_samples_def Let_def word_less_nat_alt word_le_nat_alt not_less)

lemma buffers_needed_nat:
  assumes "unat k \<le> 4096"
  shows "unat (buffers_needed k) = (unat k + 127) div 128"
proof -
  have "unat ((k * 4 + 511) div 512) = (unat k * 4 + 511) div 512"
    using assms by (simp add: unat_div unat_word_ariths)
  moreover have "(unat k * 4 + 511) div 512 = (unat k + 127) div 128"
  proof -
    have "(unat k * 4 + 511) div 512 = (unat k * 4 + 511) div 4 div 128" by (simp only: div_mult2_eq [symmetric]) simp
    also have "(unat k * 4 + 511) div 4 = unat k + 127" by simp
    finally show ?thesis .
  qed
  moreover have "(unat k + 127) div 128 \<le> 32" using div_le_mono [OF assms [THEN add_le_mono1, of 127], of 128] by simp
  ultimately show ?thesis by (simp add: buffers_needed_def Let_def word_less_nat_alt)
qed

lemma last_piece:
  assumes "0 < (k :: nat)"
  shows "(if k mod 128 = 0 then 128 else k mod 128) = min 128 (k - 128 * ((k + 127) div 128 - 1))"
proof -
  obtain a b where k: "k = 128 * a + b" and b: "b < 128"
    using that [of "k div 128" "k mod 128"] by simp
  show ?thesis
  proof (cases "b = 0")
    case True
    then obtain c where "a = Suc c" using k assms by (cases a) simp_all
    then show ?thesis using True k by simp
  next
    case False
    have "128 * a + b + 127 = 128 * (a + 1) + (b - 1)" using False by simp
    then have "(128 * a + b + 127) div 128 = a + 1" using b by (simp only: div_mult_self2) simp
    then show ?thesis using False k b by simp
  qed
qed

lemma desc_length_nat:
  assumes "unat k \<le> 4096" "0 < unat k" "i < (unat k + 127) div 128"
  shows "unat (desc_length k (of_nat i)) = min 128 (unat k - 128 * i)"
proof -
  have i: "128 * i < unat k" "i < 4096" using assms by linarith+
  have "unat (buffers_needed k - 1) = (unat k + 127) div 128 - 1"
    using assms buffers_needed_nat [OF assms(1)] by (subst unat_minus_one) auto
  then have last: "of_nat i = buffers_needed k - 1 \<longleftrightarrow> i = (unat k + 127) div 128 - 1"
    using i by (simp add: word_unat_eq_iff unat_of_nat)
  have m: "unat (ucast (k * 4 mod 512 div 4) :: u16) = unat k mod 128"
  proof -
    have "unat (k * 4 mod 512 div 4) = unat k * 4 mod 512 div 4"
      using assms(1) by (simp add: unat_div unat_mod unat_word_ariths)
    also have "\<dots> = unat k mod 128" using mult_mod_right [of 4 "unat k" 128] by (simp add: mult.commute)
    finally show ?thesis by (simp add: unsigned_ucast_eq take_bit_eq_mod unsigned_take_bit_eq mod_mod_cancel)
  qed
  show ?thesis
  proof (cases "i = (unat k + 127) div 128 - 1")
    case True
    have "desc_length k (of_nat i) = (if ucast (k * 4 mod 512 div 4) = (0 :: u16) then 128 else ucast (k * 4 mod 512 div 4))"
      using True last by (simp add: desc_length_def Let_def)
    moreover have "(ucast (k * 4 mod 512 div 4) = (0 :: u16)) = (unat k mod 128 = 0)" using m by (simp add: word_unat_eq_iff)
    moreover have "(if unat k mod 128 = 0 then 128 else unat k mod 128) = min 128 (unat k - 128 * i)"
      unfolding True by (rule last_piece [OF assms(2)])
    ultimately show ?thesis using m by (cases "unat k mod 128 = 0") simp_all
  next
    case False
    then have "128 \<le> unat k - 128 * i" using assms(3) by linarith
    with False last show ?thesis by (simp add: desc_length_def Let_def)
  qed
qed

section \<open>Properties\<close>

lemma sum_pieces: "(\<Sum>i<m. min 128 (k - 128 * i)) = min (128 * m) (k :: nat)"
  by (induction m) (auto simp: min_def)

lemma bdl_fold:
  "n \<le> length b \<Longrightarrow> fold (\<lambda>i b. b[i := (b ! i)\<lparr>bd_length := f i\<rparr>]) [0..<n] b =
     map (\<lambda>i. if i < n then (b ! i)\<lparr>bd_length := f i\<rparr> else b ! i) [0..<length b]"
proof (induction n)
  case 0
  then show ?case by (simp add: map_nth)
next
  case (Suc n)
  then show ?case by (auto intro!: nth_equalityI simp: nth_list_update)
qed

text \<open>Playing \<open>n\<close> bytes copies its whole words, 4096 at most, to the audio buffer and starts the playback with
  descriptors whose lengths add up to the number of words. The controller counts 16-bit samples, two to a word, so it
  plays the first half of each piece.\<close>

lemma ac97_play_buffer_plays:
  assumes "ac97_initialized s \<noteq> 0" "audio_size s = 16384" "length (bdl s) = 32" "4 \<le> n"
  shows "let t = ac97_play_buffer src n s; k = min (unat n div 4) 4096; last = unat (last_write 0 (trace t) (Port8 (nabmbar s + ICH_PCM_OUT_LVI)))
    in (\<forall>i. samples t i = (if i < k then src i else samples s i)) \<and> last < 32 \<and>
       (\<Sum>i \<le> last. unat (bd_length (bdl t ! i))) = k \<and>
       (\<forall>i. i \<le> last \<longrightarrow> bd_ptr (bdl t ! i) = bd_ptr (bdl s ! i))"
proof -
  let ?k = "play_samples n 16384"
  let ?m = "unat (buffers_needed ?k)"
  let ?t = "ac97_play_buffer src n s"
  have k: "unat ?k = min (unat n div 4) 4096"
    by (auto simp: play_samples_def Let_def word_less_nat_alt unat_div min_def)
  have k4: "unat ?k \<le> 4096" "0 < unat ?k" using k assms(4) by (auto simp: word_le_nat_alt)
  have m: "?m = (unat ?k + 127) div 128" by (rule buffers_needed_nat [OF k4(1)])
  have m32: "?m \<le> 32" "0 < ?m" using m k4 by linarith+
  have samp: "samples ?t = fold (\<lambda>i f. f(i := src i)) [0..<unat ?k] (samples s)"
    using assms(1,2) by (simp add: ac97_play_buffer_def Let_def bus)
  have "fold (\<lambda>i f. f(i := src i)) [0..<j] f = (\<lambda>i. if i < j then src i else f i)" for j and f :: "nat \<Rightarrow> u32"
    by (induction j) (auto simp: fun_eq_iff)
  then have s: "samples ?t i = (if i < unat ?k then src i else samples s i)" for i using samp by simp
  have b: "bdl ?t = map (\<lambda>i. if i < ?m then (bdl s ! i)\<lparr>bd_length := desc_length ?k (of_nat i)\<rparr> else bdl s ! i) [0..<32]"
    using assms(1-3) m32(1) bdl_fold [of ?m "bdl s" "\<lambda>i. desc_length ?k (of_nat i)"]
    by (simp add: ac97_play_buffer_def Let_def bus)
  have ports: "nabmbar s + ICH_PCM_OUT_LVI \<noteq> nabmbar s + ICH_PCM_OUT_CR" by (simp add: ICH_PCM_OUT_LVI_def ICH_PCM_OUT_CR_def)
  have "unat (buffers_needed ?k - 1) = ?m - 1" using m32(2) by (subst unat_minus_one) auto
  then have "unat (ucast (ucast (buffers_needed ?k - 1) :: u8) :: u64) = ?m - 1"
    using m32(1) by (simp add: unsigned_ucast_eq unsigned_take_bit_eq take_bit_nat_eq_self)
  then have lvi: "unat (last_write 0 (trace ?t) (Port8 (nabmbar s + ICH_PCM_OUT_LVI))) = ?m - 1"
    using assms(1,2) ports by (simp add: ac97_play_buffer_def Let_def bus)
  have "bd_length (bdl ?t ! i) = desc_length ?k (of_nat i)" if "i < ?m" for i
    using b that m32(1) by (simp del: upt_Suc)
  moreover have "unat (desc_length ?k (of_nat i)) = min 128 (unat ?k - 128 * i)" if "i < ?m" for i
    using desc_length_nat [OF k4] that m by simp
  ultimately have "(\<Sum>i<?m. unat (bd_length (bdl ?t ! i))) = (\<Sum>i<?m. min 128 (unat ?k - 128 * i))"
    by (intro sum.cong) simp_all
  also have "\<dots> = min (128 * ?m) (unat ?k)" by (rule sum_pieces)
  also have "\<dots> = unat ?k" using m by simp
  finally have sum: "(\<Sum>i<?m. unat (bd_length (bdl ?t ! i))) = unat ?k" .
  have le: "{..?m - 1} = {..<?m}" using m32(2) by auto
  have "bd_ptr (bdl ?t ! i) = bd_ptr (bdl s ! i)" if "i \<le> ?m - 1" for i
  proof -
    have "i < ?m" "i < 32" using that m32 by linarith+
    then show ?thesis using b by (simp del: upt_Suc)
  qed
  with s sum lvi m32 k le show ?thesis by (simp add: Let_def)
qed

definition paging_none :: paging where
  "paging_none = \<lparr>trace = [], vga_buf = (\<lambda>_. 0), vga_row = 0, vga_col = 0, vga_color = 7, words = (\<lambda>_. 0),
     page_directory = 0, next_free_page = 0, total_memory = 0, page_bitmap = 0, bitmap_size = 0\<rparr>"

definition ac97_ready :: ac97 where
  "ac97_ready = \<lparr>trace = [], pit_ticks = 0, pit_frequency = 1000, pit_loops_per_10ms = 0, system_ticks = 0,
     ac97_paging = paging_none, nambar = 0x1C00, nabmbar = 0x1800, ac97_irq = 5, bdl_out = 0xD0000000, bdl_in = 0xD0001000,
     audio_buffer = 0xD0002000, audio_size = 16384, ac97_initialized = 1,
     bdl = map (\<lambda>i. \<lparr>bd_ptr = 0xD0002000 + of_nat i * 512, bd_length = 256, bd_flags = BDL_IOC\<rparr>) [0..<32], samples = (\<lambda>_. 0)\<rparr>"

end
