(* ===== verification/Rtl8139.thy ===== *)
theory Rtl8139
  imports Paging
begin

text \<open>
  \<open>src/drivers/rtl8139.c\<close>: the network card. Its buffers come from \<open>Paging\<close>; their bytes, which the card reads and
  fills, are a memory of their own, and so is the caller's buffer.
\<close>

definition RTL8139_IDR0 :: u16 where "RTL8139_IDR0 = 0x00"
definition RTL8139_TSD0 :: u16 where "RTL8139_TSD0 = 0x10"
definition RTL8139_TSAD0 :: u16 where "RTL8139_TSAD0 = 0x20"
definition RTL8139_TSAD1 :: u16 where "RTL8139_TSAD1 = 0x24"
definition RTL8139_TSAD2 :: u16 where "RTL8139_TSAD2 = 0x28"
definition RTL8139_TSAD3 :: u16 where "RTL8139_TSAD3 = 0x2C"
definition RTL8139_RBSTART :: u16 where "RTL8139_RBSTART = 0x30"
definition RTL8139_CR :: u16 where "RTL8139_CR = 0x37"
definition RTL8139_CAPR :: u16 where "RTL8139_CAPR = 0x38"
definition RTL8139_CBR :: u16 where "RTL8139_CBR = 0x3A"
definition RTL8139_IMR :: u16 where "RTL8139_IMR = 0x3C"
definition RTL8139_ISR :: u16 where "RTL8139_ISR = 0x3E"
definition RTL8139_TCR :: u16 where "RTL8139_TCR = 0x40"
definition RTL8139_RCR :: u16 where "RTL8139_RCR = 0x44"
definition RTL8139_CONFIG1 :: u16 where "RTL8139_CONFIG1 = 0x52"
definition RTL8139_BMSR :: u16 where "RTL8139_BMSR = 0x64"
definition RTL8139_CR_RST :: u8 where "RTL8139_CR_RST = 0x10"
definition RTL8139_CR_RE :: u8 where "RTL8139_CR_RE = 0x08"
definition RTL8139_CR_TE :: u8 where "RTL8139_CR_TE = 0x04"
definition RTL8139_INT_RXOVW :: u16 where "RTL8139_INT_RXOVW = 0x0010"
definition RTL8139_INT_TER :: u16 where "RTL8139_INT_TER = 0x0008"
definition RTL8139_INT_TOK :: u16 where "RTL8139_INT_TOK = 0x0004"
definition RTL8139_INT_RER :: u16 where "RTL8139_INT_RER = 0x0002"
definition RTL8139_INT_ROK :: u16 where "RTL8139_INT_ROK = 0x0001"
definition RTL8139_TCR_IFG :: u32 where "RTL8139_TCR_IFG = 0x03000000"
definition RTL8139_TCR_MXDMA :: u32 where "RTL8139_TCR_MXDMA = 0x00700000"
definition RTL8139_RCR_WRAP :: u32 where "RTL8139_RCR_WRAP = 0x00000080"
definition RTL8139_RCR_AB :: u32 where "RTL8139_RCR_AB = 0x00000008"
definition RTL8139_RCR_AM :: u32 where "RTL8139_RCR_AM = 0x00000004"
definition RTL8139_RCR_APM :: u32 where "RTL8139_RCR_APM = 0x00000002"
definition RTL8139_TSD_OWN :: u32 where "RTL8139_TSD_OWN = 0x00002000"
definition RX_BUFFER_SIZE :: nat where "RX_BUFFER_SIZE = 8192"
definition TX_BUFFER_SIZE :: u16 where "TX_BUFFER_SIZE = 1536"

record rtl8139 = paging +
  io_base :: u16
  nic_irq :: u8
  mac_addr :: "u8 list"
  rx_buffer :: u32
  tx_buffers :: "u32 list"
  rx_offset :: u16
  tx_current :: u8
  nic_initialized :: u8
  nic_mem :: memory

section \<open>Initialisation\<close>

definition RTL8139_TIMEOUT :: nat where "RTL8139_TIMEOUT = 1000000"

text \<open>\<open>while (timeout-- && (inb(port) & RST));\<close>\<close>

fun reset_wait :: "device \<Rightarrow> u16 \<Rightarrow> nat \<Rightarrow> 'a machine_scheme \<Rightarrow> 'a machine_scheme" where
  "reset_wait D p 0 s = s"
| "reset_wait D p (Suc n) s = (let (v, s) = inb D p s in if v AND RTL8139_CR_RST \<noteq> 0 then reset_wait D p n s else s)"

fun read_mac :: "device \<Rightarrow> nat list \<Rightarrow> 'a rtl8139_scheme \<Rightarrow> 'a rtl8139_scheme" where
  "read_mac D [] s = s"
| "read_mac D (i # is) s =
     (let (v, s) = inb D (io_base s + RTL8139_IDR0 + of_nat i) s in read_mac D is (s\<lparr>mac_addr := (mac_addr s)[i := v]\<rparr>))"

text \<open>One page for each of the transmit buffers; the answer is false when one is missing.\<close>

fun alloc_tx :: "nat list \<Rightarrow> 'a rtl8139_scheme \<Rightarrow> bool \<times> 'a rtl8139_scheme" where
  "alloc_tx [] s = (True, s)"
| "alloc_tx (i # is) s =
     (let (p, s) = paging_alloc_pages 1 s; s = s\<lparr>tx_buffers := (tx_buffers s)[i := p]\<rparr>
      in if p = 0 then (False, s) else alloc_tx is s)"

definition rtl8139_setup :: "u16 \<Rightarrow> 'a rtl8139_scheme \<Rightarrow> 'a rtl8139_scheme" where
  "rtl8139_setup base s =
     (let s = outl (base + RTL8139_RBSTART) (rx_buffer s) s;
          s = outl (base + RTL8139_TSAD0) (tx_buffers s ! 0) s;
          s = outl (base + RTL8139_TSAD1) (tx_buffers s ! 1) s;
          s = outl (base + RTL8139_TSAD2) (tx_buffers s ! 2) s;
          s = outl (base + RTL8139_TSAD3) (tx_buffers s ! 3) s;
          s = outw (base + RTL8139_IMR) (RTL8139_INT_ROK OR RTL8139_INT_TOK OR RTL8139_INT_RER OR RTL8139_INT_TER OR RTL8139_INT_RXOVW) s;
          s = outl (base + RTL8139_RCR) (RTL8139_RCR_AB OR RTL8139_RCR_AM OR RTL8139_RCR_APM OR RTL8139_RCR_WRAP OR push_bit 13 0x06) s;
          s = outl (base + RTL8139_TCR) (RTL8139_TCR_MXDMA OR RTL8139_TCR_IFG) s;
          s = outb (base + RTL8139_CR) (RTL8139_CR_RE OR RTL8139_CR_TE) s
      in s\<lparr>rx_offset := 0, tx_current := 0, nic_initialized := 1\<rparr>)"

definition rtl8139_init :: "device \<Rightarrow> u16 \<Rightarrow> u8 \<Rightarrow> 'a rtl8139_scheme \<Rightarrow> u8 \<times> 'a rtl8139_scheme" where
  "rtl8139_init D base irq s =
     (let s = s\<lparr>io_base := base, nic_irq := irq\<rparr>;
          s = outb (base + RTL8139_CONFIG1) 0x00 s;
          s = outb (base + RTL8139_CR) RTL8139_CR_RST s;
          s = reset_wait D (base + RTL8139_CR) RTL8139_TIMEOUT s;
          (v, s) = inb D (base + RTL8139_CR) s
      in if v AND RTL8139_CR_RST \<noteq> 0 then (0, s)
         else
           (let s = read_mac D [0..<6] s;
                (p, s) = paging_alloc_pages 2 s;
                s = s\<lparr>rx_buffer := p\<rparr>
            in if p = 0 then (0, s)
               else
                 (let (ok, s) = alloc_tx [0..<4] s
                  in if \<not> ok then (0, s) else (1, rtl8139_setup base s))))"

section \<open>Packets\<close>

definition tsd_port :: "'a rtl8139_scheme \<Rightarrow> u16" where
  "tsd_port s = io_base s + RTL8139_TSD0 + ucast (tx_current s) * 4"

fun own_wait :: "device \<Rightarrow> u16 \<Rightarrow> nat \<Rightarrow> 'a machine_scheme \<Rightarrow> 'a machine_scheme" where
  "own_wait D p 0 s = s"
| "own_wait D p (Suc n) s = (let (v, s) = inl D p s in if v AND RTL8139_TSD_OWN = 0 then own_wait D p n s else s)"

definition rtl8139_send_packet :: "device \<Rightarrow> (nat \<Rightarrow> u8) \<Rightarrow> u16 \<Rightarrow> 'a rtl8139_scheme \<Rightarrow> u8 \<times> 'a rtl8139_scheme" where
  "rtl8139_send_packet D dat len s =
     (if nic_initialized s = 0 \<or> len > TX_BUFFER_SIZE then (0, s)
      else
        (let p = tsd_port s;
             s = own_wait D p RTL8139_TIMEOUT s;
             (v, s) = inl D p s
         in if v AND RTL8139_TSD_OWN = 0 then (0, s)
            else
              (let buf = tx_buffers s ! unat (tx_current s);
                   s = s\<lparr>nic_mem := fold (\<lambda>i m. m(buf + of_nat i := dat i)) [0..<unat len] (nic_mem s)\<rparr>;
                   s = outl p (ucast len) s
               in (1, s\<lparr>tx_current := (tx_current s + 1) mod 4\<rparr>))))"

text \<open>Lengths and offsets are computed as C integers and cut to 16 bits when they are stored.\<close>

definition rtl8139_receive_packet ::
  "device \<Rightarrow> (nat \<Rightarrow> u8) \<Rightarrow> u16 \<Rightarrow> 'a rtl8139_scheme \<Rightarrow> u16 \<times> (nat \<Rightarrow> u8) \<times> 'a rtl8139_scheme" where
  "rtl8139_receive_packet D dest max_length s =
     (if nic_initialized s = 0 then (0, dest, s)
      else
        (let (capr, s) = inw D (io_base s + RTL8139_CAPR) s;
             (cbr, s) = inw D (io_base s + RTL8139_CBR) s
         in if capr = cbr then (0, dest, s)
            else
              (let offset = (unat capr + 16) mod RX_BUFFER_SIZE;
                   status = load16 (nic_mem s) (rx_buffer s + of_nat offset);
                   len = load16 (nic_mem s) (rx_buffer s + of_nat offset + 2)
               in if status AND 0x01 = 0 then (0, dest, s)
                  else
                    (let len = len - 4;
                         len = (if len > max_length then max_length else len);
                         data_offset = (offset + 4) mod RX_BUFFER_SIZE;
                         dest = fold (\<lambda>i d. d(i := nic_mem s (rx_buffer s + of_nat ((data_offset + i) mod RX_BUFFER_SIZE)))) [0..<unat len] dest;
                         packet_size = of_nat ((unat len + 4 + 3) div 4 * 4 + 4) :: u16;
                         capr = of_nat ((unat capr + unat packet_size) mod RX_BUFFER_SIZE);
                         s = outw (io_base s + RTL8139_CAPR) (capr - 16) s
                     in (len, dest, s)))))"

section \<open>Interrupt and status\<close>

definition rtl8139_irq_handler :: "device \<Rightarrow> 'a rtl8139_scheme \<Rightarrow> 'a rtl8139_scheme" where
  "rtl8139_irq_handler D s =
     (if nic_initialized s = 0 then s
      else
        (let (status, s) = inw D (io_base s + RTL8139_ISR) s;
             s = outw (io_base s + RTL8139_ISR) status s
         in if status AND RTL8139_INT_RXOVW \<noteq> 0
            then outb (io_base s + RTL8139_CR) (RTL8139_CR_RE OR RTL8139_CR_TE) s else s))"

definition rtl8139_get_mac_address :: "u8 list \<Rightarrow> 'a rtl8139_scheme \<Rightarrow> u8 list" where
  "rtl8139_get_mac_address mac s =
     (if nic_initialized s = 0 then mac else fold (\<lambda>i m. m[i := mac_addr s ! i]) [0..<6] mac)"

definition rtl8139_is_link_up :: "device \<Rightarrow> 'a rtl8139_scheme \<Rightarrow> u8 \<times> 'a rtl8139_scheme" where
  "rtl8139_is_link_up D s =
     (if nic_initialized s = 0 then (0, s)
      else (let (bmsr, s) = inw D (io_base s + RTL8139_BMSR) s in (c_bool (bmsr AND 0x04 \<noteq> 0), s)))"

definition rtl8139_is_initialized :: "'a rtl8139_scheme \<Rightarrow> u8" where
  "rtl8139_is_initialized s = nic_initialized s"

section \<open>Receiving\<close>

lemma capr_minus_16: "(unat (x - 16 :: u16) + 16) mod 8192 = unat x mod 8192"
proof (cases "16 \<le> unat x")
  case True
  then show ?thesis by (simp add: unat_sub_if')
next
  case False
  then have "unat (x - 16) + 16 = unat x + 8 * 8192" by (simp add: unat_sub_if')
  then show ?thesis by (simp only: mod_mult_self1)
qed

lemma capr_next:
  assumes "w = (of_nat ((unat c + unat (of_nat p :: u16)) mod 8192) - 16 :: u16)"
  shows "(unat w + 16) mod 8192 = ((unat c + 16) mod 8192 + p + 8176) mod 8192"
proof -
  have p: "unat (of_nat p :: u16) mod 8192 = p mod 8192" by (simp add: unat_of_nat mod_mod_cancel)
  have "(unat w + 16) mod 8192 = (unat c + unat (of_nat p :: u16)) mod 8192"
    unfolding assms capr_minus_16 by (simp add: unat_of_nat)
  also have "\<dots> = (unat c + p) mod 8192" using p by (metis mod_add_right_eq)
  also have "\<dots> = (unat c + p + 8192) mod 8192" by simp
  also have "unat c + p + 8192 = unat c + 16 + (p + 8176)" by simp
  also have "(unat c + 16 + (p + 8176)) mod 8192 = ((unat c + 16) mod 8192 + (p + 8176)) mod 8192"
    by (rule mod_add_left_eq [symmetric])
  also have "\<dots> = ((unat c + 16) mod 8192 + p + 8176) mod 8192" by (simp only: add.assoc)
  finally show ?thesis .
qed

text \<open>What the driver finds at the read position: the offset of the packet, its status word and its length.\<close>

definition rx_capr :: "device \<Rightarrow> 'a rtl8139_scheme \<Rightarrow> u16" where
  "rx_capr D s = fst (inw D (io_base s + RTL8139_CAPR) s)"

definition rx_cbr :: "device \<Rightarrow> 'a rtl8139_scheme \<Rightarrow> u16" where
  "rx_cbr D s = fst (inw D (io_base s + RTL8139_CBR) (snd (inw D (io_base s + RTL8139_CAPR) s)))"

definition rx_place :: "device \<Rightarrow> 'a rtl8139_scheme \<Rightarrow> nat" where
  "rx_place D s = (unat (rx_capr D s) + 16) mod 8192"

definition rx_byte :: "nat \<Rightarrow> 'a rtl8139_scheme \<Rightarrow> u8" where
  "rx_byte i s = nic_mem s (rx_buffer s + of_nat (i mod 8192))"

definition rx_status :: "device \<Rightarrow> 'a rtl8139_scheme \<Rightarrow> u16" where
  "rx_status D s = load16 (nic_mem s) (rx_buffer s + of_nat (rx_place D s))"

definition rx_length :: "device \<Rightarrow> 'a rtl8139_scheme \<Rightarrow> u16" where
  "rx_length D s = load16 (nic_mem s) (rx_buffer s + of_nat (rx_place D s) + 2)"

lemma fold_upd_fun: "fold (\<lambda>i d. d(i := f i)) [0..<n] d = (\<lambda>i. if i < n then f i else d i)"
  by (induction n) (auto simp: fun_eq_iff)

text \<open>C22: A valid packet, of at least the four bytes of its checksum, is delivered without its header and checksum, cut to the caller's limit, with the ring wrapped
  at 8 KiB. But the read pointer it leaves is 16 bytes short of the end of what was delivered: the register holds the
  position less 16, and the code adds the packet to the register instead of to the position.\<close>

theorem rtl8139_receive_ring:
  assumes "nic_initialized s \<noteq> 0" "rx_capr D s \<noteq> rx_cbr D s" "rx_status D s AND 1 \<noteq> 0" "4 \<le> rx_length D s"
  shows "\<exists>n dest' t (w :: u16). rtl8139_receive_packet D dest limit s = (n, dest', t) \<and>
    unat n = min (unat (rx_length D s) - 4) (unat limit) \<and>
    (\<forall>i. dest' i = (if i < unat n then rx_byte (rx_place D s + 4 + i) s else dest i)) \<and>
    last_write 0 (trace t) (Port16 (io_base s + RTL8139_CAPR)) = ucast w \<and>
    (unat w + 16) mod 8192 = (rx_place D s + (4 + (unat n + 4 + 3) div 4 * 4) + 8192 - 16) mod 8192"
proof -
  define len where "len = rx_length D s - 4"
  define n where "n = (if len > limit then limit else len)"
  define c where "c = (of_nat ((unat (rx_capr D s) + unat (of_nat ((unat n + 4 + 3) div 4 * 4 + 4) :: u16)) mod 8192) :: u16)"
  define s2 where "s2 = snd (inw D (io_base s + RTL8139_CBR) (snd (inw D (io_base s + RTL8139_CAPR) s)))"
  let ?t = "outw (io_base s + RTL8139_CAPR) (c - 16) s2"
  let ?d = "fold (\<lambda>i d. d(i := nic_mem s (rx_buffer s + of_nat (((rx_place D s + 4) mod 8192 + i) mod 8192)))) [0..<unat n] dest"
  have fields: "io_base (snd (inw D p u)) = io_base u" "nic_mem (snd (inw D p u)) = nic_mem u"
    "rx_buffer (snd (inw D p u)) = rx_buffer u" for p and u :: "'a rtl8139_scheme"
    by (simp_all add: bus)
  have run: "rtl8139_receive_packet D dest limit s = (n, ?d, ?t)"
    unfolding n_def c_def s2_def len_def using assms(1-3)
    by (simp only: rtl8139_receive_packet_def rx_capr_def rx_cbr_def rx_place_def rx_status_def rx_length_def
        RX_BUFFER_SIZE_def split_beta Let_def fields if_False simp_thms fst_conv snd_conv)
  have "unat len = unat (rx_length D s) - 4" using assms(4) by (simp add: len_def unat_sub word_le_nat_alt)
  then have n: "unat n = min (unat (rx_length D s) - 4) (unat limit)" by (auto simp: n_def word_less_nat_alt min_def)
  have "((rx_place D s + 4) mod 8192 + i) mod 8192 = (rx_place D s + 4 + i) mod 8192" for i by (rule mod_add_left_eq)
  then have d: "\<forall>i. ?d i = (if i < unat n then rx_byte (rx_place D s + 4 + i) s else dest i)"
    by (simp add: fold_upd_fun rx_byte_def)
  have w: "last_write 0 (trace ?t) (Port16 (io_base s + RTL8139_CAPR)) = ucast (c - 16)"
    by (simp add: outw_def wr_def)
  have "(unat (c - 16) + 16) mod 8192 = (rx_place D s + ((unat n + 4 + 3) div 4 * 4 + 4) + 8176) mod 8192"
    using capr_next [OF refl, of "rx_capr D s" "(unat n + 4 + 3) div 4 * 4 + 4"] by (simp only: rx_place_def c_def)
  also have "rx_place D s + ((unat n + 4 + 3) div 4 * 4 + 4) + 8176 = rx_place D s + (4 + (unat n + 4 + 3) div 4 * 4) + 8192 - 16"
    by simp
  finally have "(unat (c - 16) + 16) mod 8192 = (rx_place D s + (4 + (unat n + 4 + 3) div 4 * 4) + 8192 - 16) mod 8192" .
  with run n d w show ?thesis by (intro exI conjI)
qed

definition nic_dev :: device where
  "nic_dev t p = (if p = Port16 (0xC000 + RTL8139_CAPR) then 0xFFF0 else if p = Port16 (0xC000 + RTL8139_CBR) then 68 else 0)"

text \<open>One packet of 60 bytes at the start of the ring.\<close>

definition nic0 :: rtl8139 where
  "nic0 = \<lparr>trace = [], vga_buf = (\<lambda>_. 0), vga_row = 0, vga_col = 0, vga_color = 7, words = (\<lambda>_. 0), page_directory = 0,
     next_free_page = 0x400000, total_memory = 0, page_bitmap = 0, bitmap_size = 0, io_base = 0xC000, nic_irq = 11,
     mac_addr = replicate 6 0, rx_buffer = 0xD0000000, tx_buffers = replicate 4 0, rx_offset = 0, tx_current = 0,
     nic_initialized = 1, nic_mem = (\<lambda>a. if a = 0xD0000000 then 1 else if a = 0xD0000002 then 64 else if a < 0xD0000004 then 0 else ucast a)\<rparr>"

lemma rtl8139_receive_ring_witness:
  "\<exists>n dest' t. rtl8139_receive_packet nic_dev (\<lambda>_. 0) 1500 nic0 = (n, dest', t) \<and> unat n = 60 \<and> dest' 0 = 4 \<and> dest' 60 = 0 \<and>
     (\<exists>w :: u16. last_write 0 (trace t) (Port16 0xC038) = ucast w \<and> (unat w + 16) mod 8192 = 52)"
proof -
  have capr: "rx_capr nic_dev nic0 = 0xFFF0" "rx_cbr nic_dev nic0 = 68"
    by (simp_all add: rx_capr_def rx_cbr_def nic_dev_def nic0_def bus RTL8139_CAPR_def RTL8139_CBR_def)
  have place: "rx_place nic_dev nic0 = 0" by (simp add: rx_place_def capr)
  have mem: "nic_mem nic0 = (\<lambda>a. if a = 0xD0000000 then 1 else if a = 0xD0000002 then 64 else if a < 0xD0000004 then 0 else ucast a)"
    "rx_buffer nic0 = 0xD0000000" by (simp_all add: nic0_def)
  have hdr: "rx_status nic_dev nic0 = 1" "rx_length nic_dev nic0 = 64"
    by (simp_all add: rx_status_def rx_length_def place load16_def mem)
  have byte: "rx_byte 4 nic0 = 4" by (simp add: rx_byte_def mem)
  have fields: "nic_initialized nic0 = 1" "io_base nic0 + RTL8139_CAPR = 0xC038" by (simp_all add: nic0_def RTL8139_CAPR_def)
  show ?thesis
    using rtl8139_receive_ring [of nic0 nic_dev "\<lambda>_. 0" 1500] by (auto simp: capr place hdr byte fields)
qed

end
