(* ===== verification/Idt.thy ===== *)
theory Idt
  imports Pic Ps2_Kbd Serial Floppy Apic Ac97 Rtl8139
begin

text \<open>
  \<open>src/drivers/idt.c\<close> and the stubs of \<open>src/arch/x86/interrupt_stubs.S\<close> behind the gates: the interrupt descriptor
  table, the report of an exception, and the dispatch of a hardware interrupt to the drivers. The state of the dispatch
  has the variables of all of them: those of the sound driver and the tick directly, the others as parts that work on
  the common trace.
\<close>

definition IDT_ENTRIES :: nat where "IDT_ENTRIES = 256"
definition IDT_INT_GATE :: u8 where "IDT_INT_GATE = 0xE"
definition IDT_PRESENT :: u8 where "IDT_PRESENT = 0x80"

record idt_entry =
  offset_low :: u16
  selector :: u16
  ie_zero :: u8
  type_attr :: u8
  offset_high :: u16

record idt_state = machine +
  idt :: "idt_entry list"
  idt_limit :: u16
  idt_base :: u32

section \<open>The table\<close>

definition idt_set_gate :: "u8 \<Rightarrow> u32 \<Rightarrow> u16 \<Rightarrow> u8 \<Rightarrow> 'a idt_state_scheme \<Rightarrow> 'a idt_state_scheme" where
  "idt_set_gate num base sel flags s = s\<lparr>idt := (idt s)[unat num :=
     \<lparr>offset_low = ucast (base AND 0xFFFF), selector = sel, ie_zero = 0, type_attr = flags,
      offset_high = ucast (drop_bit 16 base AND 0xFFFF)\<rparr>]\<rparr>"

text \<open>The exceptions that have a stub, and the installation of the gates: \<open>isr\<close> and \<open>irq\<close> are the addresses of the
  stubs, \<open>table\<close> the address of the table.\<close>

definition isr_numbers :: "nat list" where
  "isr_numbers = [0, 1, 2, 3, 4, 5, 6, 7, 8, 10, 11, 12, 13, 14, 16, 17, 18, 19]"

definition idt_init :: "(nat \<Rightarrow> u32) \<Rightarrow> (nat \<Rightarrow> u32) \<Rightarrow> u32 \<Rightarrow> 'a idt_state_scheme \<Rightarrow> 'a idt_state_scheme" where
  "idt_init isr irq table s =
     (let s = s\<lparr>idt_limit := of_nat (8 * IDT_ENTRIES - 1), idt_base := table\<rparr>;
          s = fold (\<lambda>i. idt_set_gate (of_nat i) 0 0 0) [0..<IDT_ENTRIES] s;
          s = fold (\<lambda>i. idt_set_gate (of_nat i) (isr i) 0x08 (IDT_PRESENT OR IDT_INT_GATE)) isr_numbers s;
          s = fold (\<lambda>i. idt_set_gate (of_nat (32 + i)) (irq i) 0x08 (IDT_PRESENT OR IDT_INT_GATE)) [0..<16] s
      in insn (Lidt (idt_limit s)) s)"

section \<open>Exceptions\<close>

definition exception_messages :: "string list" where
  "exception_messages = [''Division By Zero'', ''Debug'', ''Non Maskable Interrupt'', ''Breakpoint'',
     ''Into Detected Overflow'', ''Out of Bounds'', ''Invalid Opcode'', ''No Coprocessor'', ''Double Fault'',
     ''Coprocessor Segment Overrun'', ''Bad TSS'', ''Segment Not Present'', ''Stack Fault'', ''General Protection Fault'',
     ''Page Fault'', ''Unknown Interrupt'', ''Coprocessor Fault'', ''Alignment Check'', ''Machine Check'',
     ''SIMD Floating Point Exception'']"

definition nl :: string where "nl = [CHR 0x0A]"

text \<open>The report; the code halts in the state it leaves and never returns.\<close>

definition isr_handler :: "device \<Rightarrow> u32 \<Rightarrow> u32 \<Rightarrow> u32 \<Rightarrow> u32 \<Rightarrow> u32 \<Rightarrow> 'a vga_scheme \<Rightarrow> 'a vga_scheme" where
  "isr_handler D int_no err_code eip cs eflags s =
     (let s = vga_set_color 15 4 s;
          s = vga_puts (cstr (nl @ ''*** EXCEPTION ***'' @ nl)) s;
          s = vga_puts (cstr (if int_no < 20 then exception_messages ! unat int_no else ''Unknown Exception'')) s;
          s = vga_printf (cstr (nl @ ''INT: %u  ERR: %u'' @ nl)) s;
          s = vga_printf (cstr (''EIP: %08X  CS: %04X'' @ nl)) s;
          s = vga_printf (cstr (''EFLAGS: %08X'' @ nl)) s;
          s = (if int_no = 14 then
                 (let (_, s) = get_cr2 D s;
                      s = vga_printf (cstr (''Page fault at: %08X'' @ nl)) s;
                      s = vga_puts (cstr (if err_code AND 1 \<noteq> 0 then ''Protection violation'' @ nl else ''Page not present'' @ nl)) s;
                      s = vga_puts (cstr (if err_code AND 2 \<noteq> 0 then ''Write operation'' @ nl else ''Read operation'' @ nl)) s
                  in vga_puts (cstr (if err_code AND 4 \<noteq> 0 then ''User mode'' @ nl else ''Kernel mode'' @ nl)) s)
               else s);
          s = vga_puts (cstr (nl @ ''System halted.'' @ nl)) s
      in insn Hlt (insn Cli s))"

section \<open>Hardware interrupts\<close>

record pc = ac97 +
  pc_kbd :: kbd
  pc_serial :: serial
  pc_floppy :: floppy
  pc_nic :: rtl8139
  pc_apic :: apic

definition on_kbd :: "(kbd \<Rightarrow> (unit \<times> kbd) option) \<Rightarrow> pc \<Rightarrow> pc option" where
  "on_kbd f s = map_option snd (embed pc_kbd (\<lambda>c. pc_kbd_update (\<lambda>_. c)) f s)"

definition on_serial :: "(serial \<Rightarrow> (unit \<times> serial) option) \<Rightarrow> pc \<Rightarrow> pc option" where
  "on_serial f s = map_option snd (embed pc_serial (\<lambda>c. pc_serial_update (\<lambda>_. c)) f s)"

definition on_floppy :: "(floppy \<Rightarrow> (unit \<times> floppy) option) \<Rightarrow> pc \<Rightarrow> pc option" where
  "on_floppy f s = map_option snd (embed pc_floppy (\<lambda>c. pc_floppy_update (\<lambda>_. c)) f s)"

definition on_nic :: "(rtl8139 \<Rightarrow> (unit \<times> rtl8139) option) \<Rightarrow> pc \<Rightarrow> pc option" where
  "on_nic f s = map_option snd (embed pc_nic (\<lambda>c. pc_nic_update (\<lambda>_. c)) f s)"

definition on_apic :: "(apic \<Rightarrow> (unit \<times> apic) option) \<Rightarrow> pc \<Rightarrow> pc option" where
  "on_apic f s = map_option snd (embed pc_apic (\<lambda>c. pc_apic_update (\<lambda>_. c)) f s)"

text \<open>The callbacks of the clock driver, which are empty unless the program overrides them.\<close>

record rtc_callbacks =
  rtc_alarm :: "pc \<Rightarrow> pc"
  rtc_periodic :: "pc \<Rightarrow> pc"
  rtc_update :: "pc \<Rightarrow> pc"

text \<open>The acknowledgement.\<close>

definition irq_eoi :: "u32 \<Rightarrow> pc \<Rightarrow> pc option" where
  "irq_eoi irq_no s =
     (if apic_is_enabled (pc_apic s) \<noteq> 0 then on_apic (\<lambda>c. Some ((), apic_send_eoi c)) s
      else Some (outb PIC1_COMMAND PIC_EOI (if irq_no \<ge> 8 then outb PIC2_COMMAND PIC_EOI s else s)))"

text \<open>The handler runs with interrupts disabled: no tick arrives while it waits.\<close>

definition irq_handler :: "arch \<Rightarrow> device \<Rightarrow> rtc_callbacks \<Rightarrow> u32 \<Rightarrow> pc \<Rightarrow> pc option" where
  "irq_handler a D cb irq_no s = do {
     s \<leftarrow> (if irq_no = 0 then Some (pit_irq_handler s)
           else if irq_no = 1 then on_kbd (\<lambda>c. Some ((), ps2_kbd_irq_handler D c)) s
           else if irq_no = 3 then on_serial (\<lambda>c. map_option (Pair ()) (serial_irq_handler D 1 c)) s
           else if irq_no = 4 then on_serial (\<lambda>c. map_option (Pair ()) (serial_irq_handler D 0 c)) s
           else if irq_no = 6 then on_floppy (\<lambda>c. Some ((), floppy_irq_handler c)) s
           else if irq_no = 8 then Some (rtc_irq_handler D (rtc_alarm cb) (rtc_periodic cb) (rtc_update cb) s)
           else if irq_no = 5 then ac97_irq_handler a D (\<lambda>_. 0) s
           else if irq_no = 11 then on_nic (\<lambda>c. Some ((), rtl8139_irq_handler D c)) s
           else Some s);
     irq_eoi irq_no s
   }"

text \<open>
  The stub of a hardware interrupt, as pushes on a stack that grows at the head of the list: a dummy error code, the
  number given to the macro, the registers in the order of \<open>pusha\<close>, and the data segment in the low half of \<open>eax\<close>.
  The C function takes its first argument from the top of the stack.
\<close>

record cpu_regs =
  r_eax :: u32
  r_ecx :: u32
  r_edx :: u32
  r_ebx :: u32
  r_esp :: u32
  r_ebp :: u32
  r_esi :: u32
  r_edi :: u32
  r_ds :: u16

definition irq_stub :: "u32 \<Rightarrow> cpu_regs \<Rightarrow> u32 list \<Rightarrow> u32 list" where
  "irq_stub irq_num r stack =
     (let stack = 0 # stack;
          stack = irq_num # stack;
          stack = fold (#) [r_eax r, r_ecx r, r_edx r, r_ebx r, r_esp r, r_ebp r, r_esi r, r_edi r] stack
      in ((r_eax r AND 0xFFFF0000) OR ucast (r_ds r)) # stack)"

definition irq_stub_call :: "arch \<Rightarrow> device \<Rightarrow> rtc_callbacks \<Rightarrow> nat \<Rightarrow> cpu_regs \<Rightarrow> u32 list \<Rightarrow> pc \<Rightarrow> pc option" where
  "irq_stub_call a D cb n r stack s = map_option (insn Sti) (irq_handler a D cb (hd (irq_stub (32 + of_nat n) r stack)) (insn Cli s))"

section \<open>Gates\<close>

definition gate :: "u32 \<Rightarrow> u16 \<Rightarrow> u8 \<Rightarrow> idt_entry" where
  "gate base sel flags = \<lparr>offset_low = ucast (base AND 0xFFFF), selector = sel, ie_zero = 0, type_attr = flags,
     offset_high = ucast (drop_bit 16 base AND 0xFFFF)\<rparr>"

definition gate_offset :: "idt_entry \<Rightarrow> u32" where
  "gate_offset e = ucast (offset_low e) OR push_bit 16 (ucast (offset_high e))"

lemma gate_offset_gate: "gate_offset (gate base sel flags) = base"
proof (rule bit_word_eqI)
  fix n assume "n < LENGTH(32)"
  then show "bit (gate_offset (gate base sel flags)) n = bit base n"
    by (simp only: gate_offset_def gate_def idt_entry.simps and_masks) (auto simp: bit_simps)
qed

lemma idt_set_gate_idt:
  "idt (idt_set_gate num base sel flags s) = (idt s)[unat num := gate base sel flags]"
  "idt_limit (idt_set_gate num base sel flags s) = idt_limit s" "trace (idt_set_gate num base sel flags s) = trace s"
  "idt_base (idt_set_gate num base sel flags s) = idt_base s"
  by (simp_all add: idt_set_gate_def gate_def)

lemma fold_gates:
  fixes s :: "'a idt_state_scheme" and b :: "nat \<Rightarrow> u32" and sel flags
  assumes "length (idt s) = 256" "\<forall>i \<in> set xs. g i < 256"
  defines "t \<equiv> fold (\<lambda>i. idt_set_gate (of_nat (g i)) (b (g i)) sel flags) xs s"
  shows "length (idt t) = 256" "idt_limit t = idt_limit s" "trace t = trace s" "idt_base t = idt_base s"
    and "v < 256 \<Longrightarrow> idt t ! v = (if v \<in> g ` set xs then gate (b v) sel flags else idt s ! v)"
proof -
  show "length (idt t) = 256" "idt_limit t = idt_limit s" "trace t = trace s" "idt_base t = idt_base s"
    using assms(1) by (simp_all add: t_def, (induction xs rule: rev_induct; simp add: idt_set_gate_idt)+)
  show "idt t ! v = (if v \<in> g ` set xs then gate (b v) sel flags else idt s ! v)" if "v < 256"
    using assms(2) unfolding t_def
  proof (induction xs rule: rev_induct)
    case (snoc x xs)
    let ?u = "fold (\<lambda>i. idt_set_gate (of_nat (g i)) (b (g i)) sel flags) xs s"
    have len: "length (idt ?u) = 256" using assms(1) by (induction xs rule: rev_induct) (simp_all add: idt_set_gate_idt)
    have "unat (of_nat (g x) :: u8) = g x" using snoc.prems by (simp add: unat_of_nat)
    then show ?case using snoc that len by (auto simp: idt_set_gate_idt nth_list_update)
  qed simp
qed

lemma pit_wait_quiet:
  assumes "pit_wait irqs k target s = Some t" "irqs = (\<lambda>_. 0)"
  shows "pit_ticks t = pit_ticks s"
proof -
  have "irqs = (\<lambda>_. 0) \<longrightarrow> pit_ticks t = pit_ticks s"
  proof (rule pit_wait.raw_induct [where P = "\<lambda>irqs k target s t. irqs = (\<lambda>_. 0) \<longrightarrow> pit_ticks t = pit_ticks s", OF _ assms(1)])
    fix f :: "(nat \<Rightarrow> nat) \<Rightarrow> nat \<Rightarrow> u32 \<Rightarrow> 'a pit_scheme \<Rightarrow> 'a pit_scheme option" and irqs k target s t
    assume "\<And>irqs k target s t. f irqs k target s = Some t \<Longrightarrow> irqs = (\<lambda>_. 0) \<longrightarrow> pit_ticks t = pit_ticks s"
      and "(let s = (pit_irq_handler ^^ irqs k) s
        in if pit_ticks s < target then f irqs (Suc k) target (insn Hlt s) else Some s) = Some t"
    then show "irqs = (\<lambda>_. 0) \<longrightarrow> pit_ticks t = pit_ticks s"
      by (auto simp: Let_def insn_def split: if_splits)
  qed
  with assms(2) show ?thesis by blast
qed

text \<open>A delay with interrupts off never ends.\<close>

lemma pit_delay_quiet:
  assumes "pit_ticks s < pit_ticks s + ms * pit_frequency s div 1000"
  shows "pit_delay (\<lambda>_. 0) ms s = None"
  using assms pit_wait_quiet [where s = s] pit_wait_SomeD
  by (cases "pit_delay (\<lambda>_. 0) ms s") (fastforce simp: pit_delay_def)+

text \<open>The first argument of the handler is the word with the saved data segment in its low half, whatever line the stub
  belongs to; with a selector of 16 or more no driver is chosen.\<close>

lemma irq_stub_argument:
  assumes "16 \<le> r_ds r"
  defines "i \<equiv> (r_eax r AND 0xFFFF0000) OR ucast (r_ds r)"
  shows "hd (irq_stub m r stack) = i" and "8 \<le> i" and "irq_handler a D cb i u = irq_eoi i u"
proof -
  have "16 \<le> unat i"
  proof -
    have "take_bit 16 i = ucast (r_ds r)"
      unfolding i_def by (simp add: take_bit_or take_bit_and) (rule bit_word_eqI, auto simp: bit_simps dest: bit_imp_le_length)
    then have "unat (take_bit 16 i) = unat (r_ds r)" using unsigned_less [of "r_ds r", where ?'a = nat]
      by (simp add: unsigned_ucast_eq unsigned_take_bit_eq take_bit_nat_eq_self)
    moreover have "unat (take_bit 16 i) \<le> unat i" by (simp only: unsigned_take_bit_eq take_bit_nat_less_eq_self)
    ultimately show ?thesis using assms(1) by (simp add: word_le_nat_alt)
  qed
  then have ne: "i \<noteq> 0" "i \<noteq> 1" "i \<noteq> 3" "i \<noteq> 4" "i \<noteq> 5" "i \<noteq> 6" "i \<noteq> 8" "i \<noteq> 11" "8 \<le> i"
    by (auto simp: word_le_nat_alt)
  show "8 \<le> i" by (fact ne(9))
  show "irq_handler a D cb i u = irq_eoi i u" by (simp only: irq_handler_def ne if_False Option.bind.simps)
  show "hd (irq_stub m r stack) = i" by (simp add: irq_stub_def Let_def i_def)
qed

text \<open>The acknowledgement always returns, and counts no tick.\<close>

lemma irq_eoi_quiet: "\<exists>t. irq_eoi i s = Some t \<and> pit_ticks t = pit_ticks s"
proof -
  have "pit_ticks (pc_apic_update f u) = pit_ticks u" for f and u :: pc by (cases u) simp
  then show ?thesis
    by (cases "apic_is_enabled (pc_apic s) = 0") (simp_all add: irq_eoi_def on_apic_def embed_def bus)
qed

text \<open>The interrupts that arrive between two tests of a waiting loop, each through its stub, and the number of ticks by
  which they move the counter the loop reads.\<close>

fun stub_run :: "arch \<Rightarrow> device \<Rightarrow> rtc_callbacks \<Rightarrow> (nat \<times> cpu_regs \<times> u32 list) list \<Rightarrow> pc \<Rightarrow> pc option" where
  "stub_run a D cb [] s = Some s"
| "stub_run a D cb ((n, r, stack) # xs) s = Option.bind (irq_stub_call a D cb n r stack s) (stub_run a D cb xs)"

definition stub_ticks :: "arch \<Rightarrow> device \<Rightarrow> rtc_callbacks \<Rightarrow> (nat \<times> cpu_regs \<times> u32 list) list \<Rightarrow> pc \<Rightarrow> nat" where
  "stub_ticks a D cb xs s = unat (pit_ticks (the (stub_run a D cb xs s)) - pit_ticks s)"

definition kernel_data :: "nat \<times> cpu_regs \<times> u32 list \<Rightarrow> bool" where
  "kernel_data x = (r_ds (fst (snd x)) = 0x10)"

lemma stub_run_quiet:
  assumes "list_all kernel_data xs"
  shows "\<exists>t. stub_run a D cb xs s = Some t \<and> pit_ticks t = pit_ticks s"
  using assms
proof (induction xs arbitrary: s)
  case (Cons x xs)
  obtain n r stack where x: "x = (n, r, stack)" by (cases x)
  then have "16 \<le> r_ds r" using Cons.prems by (simp add: kernel_data_def)
  note arg = irq_stub_argument [OF this]
  obtain t where "irq_stub_call a D cb n r stack s = Some t" "pit_ticks t = pit_ticks s"
    using irq_eoi_quiet [of "(r_eax r AND 0xFFFF0000) OR ucast (r_ds r)" "insn Cli s"]
    by (auto simp: irq_stub_call_def arg insn_def)
  moreover obtain t' where "stub_run a D cb xs t = Some t'" "pit_ticks t' = pit_ticks t" using Cons by auto
  ultimately show ?case by (auto simp: x)
qed simp

lemma stub_ticks_none: "list_all kernel_data xs \<Longrightarrow> stub_ticks a D cb xs s = 0"
  using stub_run_quiet [of xs a D cb s] by (auto simp: stub_ticks_def)

section \<open>Properties\<close>

text \<open>After \<open>idt_init\<close> the processor is given the whole table, the gates of the exceptions and of the sixteen
  interrupt lines lead to their stubs and are present, and no other gate is.\<close>

lemma idt_init_gates:
  assumes "length (idt s) = 256" "v < 256"
  shows "let t = idt_init isr irq table s; e = idt t ! v; used = (v \<in> set isr_numbers \<or> 32 \<le> v \<and> v < 48)
    in trace t = trace s @ [Ins (Lidt 2047)] \<and> idt_base t = table \<and> bit (type_attr e) 7 = used \<and>
       gate_offset e = (if v \<in> set isr_numbers then isr v else if 32 \<le> v \<and> v < 48 then irq (v - 32) else 0)"
proof -
  let ?s0 = "s\<lparr>idt_limit := of_nat (8 * IDT_ENTRIES - 1), idt_base := table\<rparr>"
  let ?s1 = "fold (\<lambda>i. idt_set_gate (of_nat i) 0 0 0) [0..<IDT_ENTRIES] ?s0"
  let ?f = "IDT_PRESENT OR IDT_INT_GATE"
  let ?s2 = "fold (\<lambda>i. idt_set_gate (of_nat i) (isr i) 0x08 ?f) isr_numbers ?s1"
  let ?s3 = "fold (\<lambda>i. idt_set_gate (of_nat (32 + i)) (irq i) 0x08 ?f) [0..<16] ?s2"
  have le: "\<forall>i \<in> set isr_numbers. i < 256" by (simp add: isr_numbers_def)
  note f1 = fold_gates [where s = ?s0 and xs = "[0..<IDT_ENTRIES]" and g = "\<lambda>i. i" and b = "\<lambda>_. 0" and sel = 0 and flags = 0]
  have s1: "length (idt ?s1) = 256" "idt_limit ?s1 = 2047" "trace ?s1 = trace s" "idt_base ?s1 = table" "idt ?s1 ! v = gate 0 0 0"
    using f1(1-4) f1(5) [where v = v] assms by (simp_all add: IDT_ENTRIES_def)
  note f2 = fold_gates [where s = ?s1 and xs = isr_numbers and g = "\<lambda>i. i" and b = isr and sel = 8 and flags = ?f, OF s1(1) le]
  have s2: "length (idt ?s2) = 256" "idt_limit ?s2 = 2047" "trace ?s2 = trace s" "idt_base ?s2 = table"
    "idt ?s2 ! v = (if v \<in> set isr_numbers then gate (isr v) 8 ?f else gate 0 0 0)"
    using f2(1-4) f2(5) [where v = v, OF assms(2)] s1(2-5) by (simp_all only: image_ident)
  have im: "(\<lambda>i. 32 + i) ` {0..<16} = {32..<48 :: nat}" by (simp add: image_add_atLeastLessThan)
  have "\<forall>i \<in> set [0..<16]. 32 + i < (256 :: nat)" by simp
  note f3 = fold_gates [where s = ?s2 and xs = "[0..<16]" and g = "\<lambda>i. 32 + i" and b = "\<lambda>v. irq (v - 32)" and sel = 8 and flags = ?f,
      OF s2(1) this, unfolded set_upt im diff_add_inverse]
  have s3: "idt_limit ?s3 = 2047" "trace ?s3 = trace s" "idt_base ?s3 = table"
    "idt ?s3 ! v = (if v \<in> {32..<48} then gate (irq (v - 32)) 8 ?f else if v \<in> set isr_numbers then gate (isr v) 8 ?f else gate 0 0 0)"
    using f3(2-4) f3(5) [where v = v, OF assms(2)] s2(2-5) by (simp_all only:)
  have t: "idt_init isr irq table s = insn (Lidt (idt_limit ?s3)) ?s3" by (simp only: idt_init_def Let_def)
  have e: "idt (idt_init isr irq table s) ! v =
      (if v \<in> {32..<48} then gate (irq (v - 32)) 8 ?f else if v \<in> set isr_numbers then gate (isr v) 8 ?f else gate 0 0 0)"
    and tr: "trace (idt_init isr irq table s) = trace s @ [Ins (Lidt 2047)]" "idt_base (idt_init isr irq table s) = table"
    unfolding t insn_def using s3 by simp_all
  have "v \<notin> {32..<48}" if "v \<in> set isr_numbers" using that by (auto simp: isr_numbers_def)
  moreover have "bit (type_attr (gate b l ?f)) 7" "\<not> bit (type_attr (gate 0 0 0)) 7" for b l
    by (simp_all add: gate_def IDT_PRESENT_def IDT_INT_GATE_def)
  ultimately show ?thesis using e tr by (auto simp: Let_def gate_offset_gate)
qed

definition idt0 :: idt_state where
  "idt0 = \<lparr>trace = [], idt = replicate 256 (gate 0 0 0), idt_limit = 0, idt_base = 0\<rparr>"

text \<open>C19: What the handler takes for the number of the interrupt is the saved data segment, which the stub pushes last.
  With a segment selector of 16 or more (the kernel's is 16), no interrupt of the sixteen lines reaches any driver: the
  only effect is the acknowledgement.\<close>

theorem irq_stub_reaches_no_driver:
  assumes "16 \<le> r_ds r" "apic_enabled (pc_apic s) = 0"
  shows "irq_stub_call a D cb n r stack s =
    Some (s\<lparr>trace := trace s @ [Ins Cli, Wr (Port8 0xA0) 0x20, Wr (Port8 0x20) 0x20, Ins Sti]\<rparr>)"
proof -
  have "pc_apic (s\<lparr>trace := tr\<rparr>) = pc_apic s" for tr by (cases s) simp
  with assms(2) irq_stub_argument [OF assms(1)] show ?thesis
    by (simp add: irq_stub_call_def irq_eoi_def apic_is_enabled_def bus PIC1_COMMAND_def PIC2_COMMAND_def PIC_EOI_def)
qed

definition pc0 :: pc where
  "pc0 = \<lparr>trace = [], pit_ticks = 7, pit_frequency = 1000, pit_loops_per_10ms = 0, system_ticks = 0,
     ac97_paging = paging_none, nambar = 0x1C00, nabmbar = 0x1800, ac97_irq = 5, bdl_out = 0, bdl_in = 0, audio_buffer = 0,
     audio_size = 16384, ac97_initialized = 1, bdl = [], samples = (\<lambda>_. 0),
     pc_kbd = \<lparr>trace = [], shift_pressed = 0, ctrl_pressed = 0, alt_pressed = 0, caps_lock = 0,
       kbd_buffer = replicate 256 0, kbd_head = 0, kbd_tail = 0\<rparr>,
     pc_serial = \<lparr>trace = [], serial_ports = serial_ports_init\<rparr>, pc_floppy = floppy0, pc_nic = nic0,
     pc_apic = apic0\<lparr>apic_enabled := 0\<rparr>\<rparr>"

lemma irq_stub_reaches_no_driver_witness:
  "irq_stub_call X86_64 (\<lambda>_ _. 0x1E) \<lparr>rtc_alarm = id, rtc_periodic = id, rtc_update = id\<rparr> 1
     \<lparr>r_eax = 0x12345678, r_ecx = 0, r_edx = 0, r_ebx = 0, r_esp = 0, r_ebp = 0, r_esi = 0, r_edi = 0, r_ds = 0x10\<rparr> [] pc0 =
   Some (pc0\<lparr>trace := [Ins Cli, Wr (Port8 0xA0) 0x20, Wr (Port8 0x20) 0x20, Ins Sti]\<rparr>)"
proof -
  have "apic_enabled (pc_apic pc0) = 0" "trace pc0 = []" by (simp_all add: pc0_def)
  then show ?thesis by (subst irq_stub_reaches_no_driver) simp_all
qed

text \<open>C20: On the PC no wait for a tick ever ends. The interrupts that arrive during the wait, any number of any of the
  lines between any two tests, in any states, enter through the stubs with the kernel's data segment: they all return, and
  count no tick. So \<open>pit_delay\<close> does not return when its end lies ahead of the counter, nor does stopping a playback,
  which waits for a millisecond after it has reset the channel. Called with the number of the line, as the C code expects,
  the handler of line 0 does count the tick.\<close>

theorem pc_waits_hang:
  fixes s :: pc and st :: "nat \<Rightarrow> pc" and D :: device and cb :: rtc_callbacks
  assumes kernel: "\<And>k. list_all kernel_data (ints k)"
    and ahead: "pit_ticks s < pit_ticks s + ms * pit_frequency s div 1000"
  defines "ticks \<equiv> \<lambda>k. stub_ticks X86_64 D cb (ints k) (st k)"
  shows "(\<forall>k. stub_run X86_64 D cb (ints k) (st k) \<noteq> None) \<and> pit_delay ticks ms s = None \<and>
    (ms = 1 \<and> ac97_initialized s \<noteq> 0 \<longrightarrow> ac97_stop_playback X86_64 ticks s = None) \<and>
    (\<exists>t. irq_handler X86_64 D cb 0 s = Some t \<and> pit_ticks t = pit_ticks s + 1)"
proof (intro conjI allI impI)
  have quiet: "ticks = (\<lambda>_. 0)" using kernel by (simp add: ticks_def stub_ticks_none)
  show "stub_run X86_64 D cb (ints k) (st k) \<noteq> None" for k using stub_run_quiet [OF kernel] by (metis option.distinct(1))
  show "pit_delay ticks ms s = None" unfolding quiet using ahead by (rule pit_delay_quiet)
  show "ac97_stop_playback X86_64 ticks s = None" if "ms = 1 \<and> ac97_initialized s \<noteq> 0"
  proof -
    let ?u = "outb (nabmbar s + ICH_PCM_OUT_CR) ICH_CR_RR (outb (nabmbar s + ICH_PCM_OUT_CR) 0 s)"
    have "pit_delay (\<lambda>_. 0) 1 ?u = None" using ahead that by (intro pit_delay_quiet) (simp add: bus)
    moreover have "nabmbar (outb p v s) = nabmbar s" for p v by (simp add: bus)
    ultimately show ?thesis using that by (simp add: ac97_stop_playback_def timer_delay_def quiet)
  qed
  show "\<exists>t. irq_handler X86_64 D cb 0 s = Some t \<and> pit_ticks t = pit_ticks s + 1"
    using irq_eoi_quiet [of 0 "pit_irq_handler s"] by (simp add: irq_handler_def pit_irq_handler_def)
qed

lemma pc_waits_hang_witness:
  "pit_delay (\<lambda>k. stub_ticks X86_64 (\<lambda>_ _. 0) \<lparr>rtc_alarm = id, rtc_periodic = id, rtc_update = id\<rparr> (replicate k (0,
      \<lparr>r_eax = 0, r_ecx = 0, r_edx = 0, r_ebx = 0, r_esp = 0, r_ebp = 0, r_esi = 0, r_edi = 0, r_ds = 0x10\<rparr>, [])) pc0) 1 pc0 = None \<and>
   ac97_stop_playback X86_64 (\<lambda>k. stub_ticks X86_64 (\<lambda>_ _. 0) \<lparr>rtc_alarm = id, rtc_periodic = id, rtc_update = id\<rparr> (replicate k (0,
      \<lparr>r_eax = 0, r_ecx = 0, r_edx = 0, r_ebx = 0, r_esp = 0, r_ebp = 0, r_esi = 0, r_edi = 0, r_ds = 0x10\<rparr>, [])) pc0) pc0 = None"
proof -
  have pc0: "pit_ticks pc0 = 7" "pit_frequency pc0 = 1000" "ac97_initialized pc0 = 1" by (simp_all add: pc0_def)
  have "list_all kernel_data (replicate k (n, r, []))" if "r_ds r = 0x10" for k n and r :: cpu_regs
    using that by (simp add: list_all_iff kernel_data_def)
  then show ?thesis using pc_waits_hang [where s = pc0 and ms = 1] pc0 by simp
qed

end
