(* ===== verification/Msr_Regs.thy ===== *)
theory Msr_Regs
  imports Timer
begin

text \<open>
  \<open>src/drivers/msr.c\<close>: the model-specific registers. A register is read and written as one 64-bit access; nothing is
  accessed before \<open>msr_init\<close> has seen the feature bit. The calibration of the time stamp counter waits for the kernel
  tick.
\<close>

definition MSR_TSC :: u32 where "MSR_TSC = 0x10"
definition MSR_PLATFORM_ID :: u32 where "MSR_PLATFORM_ID = 0x17"
definition MSR_APIC_BASE :: u32 where "MSR_APIC_BASE = 0x1B"
definition MSR_BIOS_SIGN_ID :: u32 where "MSR_BIOS_SIGN_ID = 0x8B"
definition MSR_PMC0 :: u32 where "MSR_PMC0 = 0xC1"
definition MSR_PERFEVTSEL0 :: u32 where "MSR_PERFEVTSEL0 = 0x186"
definition MSR_MTRRPHYSBASE0 :: u32 where "MSR_MTRRPHYSBASE0 = 0x200"
definition MSR_MTRRPHYSMASK0 :: u32 where "MSR_MTRRPHYSMASK0 = 0x201"
definition MSR_PAT :: u32 where "MSR_PAT = 0x277"
definition MSR_MTRRDEFTYPE :: u32 where "MSR_MTRRDEFTYPE = 0x2FF"
definition MSR_PERF_GLOBAL_CTRL :: u32 where "MSR_PERF_GLOBAL_CTRL = 0x38F"
definition MSR_EFER :: u32 where "MSR_EFER = 0xC0000080"
definition MSR_STAR :: u32 where "MSR_STAR = 0xC0000081"
definition MSR_LSTAR :: u32 where "MSR_LSTAR = 0xC0000082"
definition MSR_CSTAR :: u32 where "MSR_CSTAR = 0xC0000083"
definition MSR_SYSCALL_MASK :: u32 where "MSR_SYSCALL_MASK = 0xC0000084"
definition MSR_FS_BASE :: u32 where "MSR_FS_BASE = 0xC0000100"
definition MSR_GS_BASE :: u32 where "MSR_GS_BASE = 0xC0000101"
definition MSR_KERNEL_GS_BASE :: u32 where "MSR_KERNEL_GS_BASE = 0xC0000102"

record msr = timer +
  msr_supported :: u8

definition msr_check_support :: "device \<Rightarrow> 'a msr_scheme \<Rightarrow> u8 \<times> 'a msr_scheme" where
  "msr_check_support D s =
     (let ((eax, ebx, ecx, edx), s) = cpuid D 1 s in (c_bool (edx AND push_bit 5 1 \<noteq> 0), s))"

definition msr_init :: "device \<Rightarrow> 'a msr_scheme \<Rightarrow> 'a msr_scheme" where
  "msr_init D s = (let (b, s) = msr_check_support D s in s\<lparr>msr_supported := b\<rparr>)"

definition msr_read :: "device \<Rightarrow> u32 \<Rightarrow> 'a msr_scheme \<Rightarrow> u64 \<times> 'a msr_scheme" where
  "msr_read D r s = (if msr_supported s = 0 then (0, s) else rd D (Msr r) s)"

definition msr_write :: "u32 \<Rightarrow> u64 \<Rightarrow> 'a msr_scheme \<Rightarrow> 'a msr_scheme" where
  "msr_write r v s = (if msr_supported s = 0 then s else wr (Msr r) v s)"

definition msr_is_supported :: "'a msr_scheme \<Rightarrow> u8" where
  "msr_is_supported s = msr_supported s"

definition msr_get_tsc :: "device \<Rightarrow> 'a msr_scheme \<Rightarrow> u64 \<times> 'a msr_scheme" where
  "msr_get_tsc D s = rd D Tsc s"

text \<open>The third way to find the frequency: the counter over 100 ms.\<close>

definition tsc_calibrate :: "arch \<Rightarrow> device \<Rightarrow> (nat \<Rightarrow> nat) \<Rightarrow> 'a msr_scheme \<Rightarrow> (u64 \<times> 'a msr_scheme) option" where
  "tsc_calibrate a D irqs s = do {
     let (tsc_start, s) = msr_get_tsc D s;
     s \<leftarrow> timer_delay a irqs 100 s;
     let (tsc_end, s) = msr_get_tsc D s;
     Some ((tsc_end - tsc_start) * 10, s) }"

definition msr_get_tsc_frequency :: "arch \<Rightarrow> device \<Rightarrow> (nat \<Rightarrow> nat) \<Rightarrow> 'a msr_scheme \<Rightarrow> (u64 \<times> 'a msr_scheme) option" where
  "msr_get_tsc_frequency a D irqs s =
     (let ((eax, ebx, ecx, edx), s) = cpuid D 0x15 s
      in if eax \<noteq> 0 \<and> ebx \<noteq> 0 \<and> ecx \<noteq> 0 then Some ((ucast ecx * ucast ebx) div ucast eax, s)
         else if msr_supported s \<noteq> 0 then
           (let (platform_info, s) = msr_read D MSR_PLATFORM_ID s;
                base_freq = ucast (drop_bit 8 platform_info AND 0xFF) :: u32
            in if platform_info \<noteq> 0 \<and> base_freq \<noteq> 0 then Some (ucast base_freq * 100000000, s)
               else tsc_calibrate a D irqs s)
         else tsc_calibrate a D irqs s)"

definition msr_enable_apic :: "device \<Rightarrow> u64 \<Rightarrow> 'a msr_scheme \<Rightarrow> 'a msr_scheme" where
  "msr_enable_apic D apic_base s =
     (if msr_supported s = 0 then s
      else
        (let (apic_msr, s) = msr_read D MSR_APIC_BASE s;
             apic_msr = apic_msr OR push_bit 11 1;
             apic_msr = (apic_msr AND 0xFFFFF000) OR (apic_base AND 0xFFFFF000)
         in msr_write MSR_APIC_BASE apic_msr s))"

definition msr_get_apic_base :: "device \<Rightarrow> 'a msr_scheme \<Rightarrow> u64 \<times> 'a msr_scheme" where
  "msr_get_apic_base D s =
     (if msr_supported s = 0 then (0, s)
      else (let (apic_msr, s) = msr_read D MSR_APIC_BASE s in (apic_msr AND 0xFFFFF000, s)))"

definition msr_set_pat :: "u64 \<Rightarrow> 'a msr_scheme \<Rightarrow> 'a msr_scheme" where
  "msr_set_pat v s = (if msr_supported s = 0 then s else msr_write MSR_PAT v s)"

definition msr_get_pat :: "device \<Rightarrow> 'a msr_scheme \<Rightarrow> u64 \<times> 'a msr_scheme" where
  "msr_get_pat D s = (if msr_supported s = 0 then (0, s) else msr_read D MSR_PAT s)"

definition msr_enable_syscall :: "device \<Rightarrow> u64 \<Rightarrow> u64 \<Rightarrow> u64 \<Rightarrow> u64 \<Rightarrow> 'a msr_scheme \<Rightarrow> 'a msr_scheme" where
  "msr_enable_syscall D star lstar cstar syscall_mask s =
     (if msr_supported s = 0 then s
      else
        (let (efer, s) = msr_read D MSR_EFER s;
             s = msr_write MSR_EFER (efer OR push_bit 0 1) s;
             s = msr_write MSR_STAR star s;
             s = msr_write MSR_LSTAR lstar s;
             s = msr_write MSR_CSTAR cstar s
         in msr_write MSR_SYSCALL_MASK syscall_mask s))"

definition msr_set_fs_base :: "u64 \<Rightarrow> 'a msr_scheme \<Rightarrow> 'a msr_scheme" where
  "msr_set_fs_base b s = (if msr_supported s = 0 then s else msr_write MSR_FS_BASE b s)"

definition msr_set_gs_base :: "u64 \<Rightarrow> 'a msr_scheme \<Rightarrow> 'a msr_scheme" where
  "msr_set_gs_base b s = (if msr_supported s = 0 then s else msr_write MSR_GS_BASE b s)"

definition msr_set_kernel_gs_base :: "u64 \<Rightarrow> 'a msr_scheme \<Rightarrow> 'a msr_scheme" where
  "msr_set_kernel_gs_base b s = (if msr_supported s = 0 then s else msr_write MSR_KERNEL_GS_BASE b s)"

definition msr_get_fs_base :: "device \<Rightarrow> 'a msr_scheme \<Rightarrow> u64 \<times> 'a msr_scheme" where
  "msr_get_fs_base D s = (if msr_supported s = 0 then (0, s) else msr_read D MSR_FS_BASE s)"

definition msr_get_gs_base :: "device \<Rightarrow> 'a msr_scheme \<Rightarrow> u64 \<times> 'a msr_scheme" where
  "msr_get_gs_base D s = (if msr_supported s = 0 then (0, s) else msr_read D MSR_GS_BASE s)"

definition msr_get_kernel_gs_base :: "device \<Rightarrow> 'a msr_scheme \<Rightarrow> u64 \<times> 'a msr_scheme" where
  "msr_get_kernel_gs_base D s = (if msr_supported s = 0 then (0, s) else msr_read D MSR_KERNEL_GS_BASE s)"

definition msr_setup_mtrr :: "u8 \<Rightarrow> u64 \<Rightarrow> u64 \<Rightarrow> u8 \<Rightarrow> 'a msr_scheme \<Rightarrow> 'a msr_scheme" where
  "msr_setup_mtrr reg b m type s =
     (if msr_supported s = 0 \<or> reg \<ge> 8 then s
      else
        (let base_msr = MSR_MTRRPHYSBASE0 + ucast reg * 2;
             mask_msr = MSR_MTRRPHYSMASK0 + ucast reg * 2;
             s = msr_write base_msr ((b AND 0xFFFFF000) OR (ucast type AND 0xFF)) s
         in msr_write mask_msr ((m AND 0xFFFFF000) OR push_bit 11 1) s))"

definition msr_enable_mtrr :: "device \<Rightarrow> 'a msr_scheme \<Rightarrow> 'a msr_scheme" where
  "msr_enable_mtrr D s =
     (if msr_supported s = 0 then s
      else (let (deftype, s) = msr_read D MSR_MTRRDEFTYPE s in msr_write MSR_MTRRDEFTYPE (deftype OR push_bit 11 1) s))"

definition msr_get_microcode_version :: "device \<Rightarrow> 'a msr_scheme \<Rightarrow> u32 \<times> 'a msr_scheme" where
  "msr_get_microcode_version D s =
     (if msr_supported s = 0 then (0, s)
      else
        (let s = msr_write MSR_BIOS_SIGN_ID 0 s;
             (r, s) = cpuid D 1 s;
             (version, s) = msr_read D MSR_BIOS_SIGN_ID s
         in (ucast (drop_bit 32 version), s)))"

definition msr_enable_performance_monitoring :: "device \<Rightarrow> 'a msr_scheme \<Rightarrow> 'a msr_scheme" where
  "msr_enable_performance_monitoring D s =
     (if msr_supported s = 0 then s
      else
        (let (perf_global_ctrl, s) = msr_read D MSR_PERF_GLOBAL_CTRL s;
             perf_global_ctrl = perf_global_ctrl OR 0x0F;
             perf_global_ctrl = perf_global_ctrl OR 0x700000000
         in msr_write MSR_PERF_GLOBAL_CTRL perf_global_ctrl s))"

definition msr_setup_performance_counter :: "u8 \<Rightarrow> u64 \<Rightarrow> 'a msr_scheme \<Rightarrow> 'a msr_scheme" where
  "msr_setup_performance_counter counter event_select s =
     (if msr_supported s = 0 \<or> counter \<ge> 4 then s else msr_write (MSR_PERFEVTSEL0 + ucast counter) event_select s)"

definition msr_read_performance_counter :: "device \<Rightarrow> u8 \<Rightarrow> 'a msr_scheme \<Rightarrow> u64 \<times> 'a msr_scheme" where
  "msr_read_performance_counter D counter s =
     (if msr_supported s = 0 \<or> counter \<ge> 4 then (0, s) else msr_read D (MSR_PMC0 + ucast counter) s)"

section \<open>The registers\<close>

lemma msr_supported_upd [simp]:
  "msr_supported (msr_write r v s) = msr_supported s" "msr_supported (snd (msr_read D r s)) = msr_supported s"
  by (simp_all add: msr_write_def msr_read_def bus)

text \<open>With the feature an operation is one access, whatever the rest of the state is.\<close>

lemma msr_write_on: "msr_supported s \<noteq> 0 \<Longrightarrow> msr_write r v s = s\<lparr>trace := trace s @ [Wr (Msr r) v]\<rparr>"
  by (simp add: msr_write_def bus)

lemma msr_read_on:
  "msr_supported s \<noteq> 0 \<Longrightarrow> msr_read D r s = (D (trace s) (Msr r), s\<lparr>trace := trace s @ [Rd (Msr r) (D (trace s) (Msr r))]\<rparr>)"
  by (simp add: msr_read_def bus)

lemmas msr_on = msr_write_on msr_read_on

text \<open>Without the feature no register is ever touched.\<close>

lemma msr_unsupported:
  assumes "msr_supported s = 0"
  shows "msr_read D r s = (0, s)" "msr_write r v s = s" "msr_enable_apic D b s = s" "msr_setup_mtrr k b m ty s = s"
    "msr_enable_syscall D st ls cs fm s = s" "msr_enable_mtrr D s = s" "msr_get_microcode_version D s = (0, s)"
  using assms by (simp_all add: msr_read_def msr_write_def msr_enable_apic_def msr_setup_mtrr_def msr_enable_syscall_def
      msr_enable_mtrr_def msr_get_microcode_version_def)

text \<open>
  \<open>msr_enable_apic\<close> sets the enable bit and clears it again: the mask \<open>0xFFFFF000\<close> it then applies removes the low
  twelve bits, so whatever the register held and whatever base is asked for, the value written has the bit clear.
\<close>

lemma msr_enable_apic_disables:
  assumes "msr_supported s \<noteq> 0"
  shows "\<exists>v x. trace (msr_enable_apic D b s) = trace s @ [Rd (Msr MSR_APIC_BASE) x, Wr (Msr MSR_APIC_BASE) v] \<and>
    \<not> bit v 11 \<and> v = (x OR b) AND 0xFFFFF000"
proof -
  let ?x = "D (trace s) (Msr MSR_APIC_BASE)"
  have m: "(0xFFFFF000 :: u64) = push_bit 12 (mask 20)" by (simp add: mask_eq_exp_minus_1 push_bit_eq_mult)
  have "(((?x OR push_bit 11 1) AND 0xFFFFF000) OR (b AND 0xFFFFF000)) = (?x OR b) AND 0xFFFFF000"
    by (rule bit_word_eqI) (simp only: m bit_simps, auto)
  then have "trace (msr_enable_apic D b s) =
      trace s @ [Rd (Msr MSR_APIC_BASE) ?x, Wr (Msr MSR_APIC_BASE) ((?x OR b) AND 0xFFFFF000)]"
    using assms by (simp add: msr_enable_apic_def msr_read_def msr_write_def bus)
  moreover have "\<not> bit ((?x OR b) AND 0xFFFFF000) 11" by (simp add: m bit_simps)
  ultimately show ?thesis by blast
qed

end
