(* ===== verification/Memory_Mgmt.thy ===== *)
theory Memory_Mgmt
  imports Msr_Regs
begin

text \<open>
  \<open>src/drivers/memory_mgmt.c\<close>: the memory type range registers and the page attribute table. The driver keeps a copy of
  the ranges, 16 variable and 88 fixed ones. An index beyond the copy is undefined behaviour in C: such a call has no
  result.
\<close>

definition MEMORY_TYPE_UC :: u8 where "MEMORY_TYPE_UC = 0"
definition MEMORY_TYPE_WC :: u8 where "MEMORY_TYPE_WC = 1"
definition MEMORY_TYPE_WT :: u8 where "MEMORY_TYPE_WT = 4"
definition MEMORY_TYPE_WP :: u8 where "MEMORY_TYPE_WP = 5"
definition MEMORY_TYPE_WB :: u8 where "MEMORY_TYPE_WB = 6"
definition MEMORY_TYPE_UC_MINUS :: u8 where "MEMORY_TYPE_UC_MINUS = 7"
definition MSR_IA32_PAT :: u32 where "MSR_IA32_PAT = 0x277"
definition MSR_IA32_MTRRCAP :: u32 where "MSR_IA32_MTRRCAP = 0xFE"
definition MSR_IA32_MTRR_DEF_TYPE :: u32 where "MSR_IA32_MTRR_DEF_TYPE = 0x2FF"
definition MSR_IA32_MTRR_FIX64K :: u32 where "MSR_IA32_MTRR_FIX64K = 0x250"
definition MSR_IA32_MTRR_FIX16K_80000 :: u32 where "MSR_IA32_MTRR_FIX16K_80000 = 0x258"
definition MSR_IA32_MTRR_FIX16K_A0000 :: u32 where "MSR_IA32_MTRR_FIX16K_A0000 = 0x259"
definition MSR_IA32_MTRR_FIX4K_C0000 :: u32 where "MSR_IA32_MTRR_FIX4K_C0000 = 0x268"
definition PAGE_ATTR_PAT :: u32 where "PAGE_ATTR_PAT = 0x080"
definition PAGE_ATTR_PCD :: u32 where "PAGE_ATTR_PCD = 0x010"
definition PAGE_ATTR_PWT :: u32 where "PAGE_ATTR_PWT = 0x008"

record memory_range =
  r_base :: u64
  r_size :: u64
  r_type :: u8
  r_valid :: u8

record memory_mgmt = msr +
  mm_supported :: u8
  pat_supported :: u8
  mtrr_supported :: u8
  smrr_supported :: u8
  num_variable_mtrrs :: u8
  fixed_mtrrs_supported :: u8
  wc_supported :: u8
  pat_value :: u64
  default_memory_type :: u64
  variable_ranges :: "memory_range list"
  fixed_ranges :: "memory_range list"
  memory_encryption_supported :: u8
  memory_protection_keys_supported :: u8

section \<open>Detection\<close>

definition memory_mgmt_detect_capabilities :: "device \<Rightarrow> 'a memory_mgmt_scheme \<Rightarrow> 'a memory_mgmt_scheme" where
  "memory_mgmt_detect_capabilities D s =
     (let ((eax, ebx, ecx, edx), s) = cpuid D 1 s;
          s = s\<lparr>pat_supported := c_bool (edx AND push_bit 16 1 \<noteq> 0)\<rparr>;
          s = s\<lparr>mtrr_supported := c_bool (edx AND push_bit 12 1 \<noteq> 0)\<rparr>;
          s = (if mtrr_supported s \<noteq> 0 \<and> msr_is_supported s \<noteq> 0 then
                 (let (mtrrcap, s) = msr_read D MSR_IA32_MTRRCAP s
                  in s\<lparr>num_variable_mtrrs := ucast (mtrrcap AND 0xFF),
                       fixed_mtrrs_supported := c_bool (mtrrcap AND push_bit 8 1 \<noteq> 0),
                       wc_supported := c_bool (mtrrcap AND push_bit 10 1 \<noteq> 0),
                       smrr_supported := c_bool (mtrrcap AND push_bit 11 1 \<noteq> 0)\<rparr>)
               else s);
          ((eax, ebx, ecx, edx), s) = cpuid D 0x80000000 s;
          s = (if eax \<ge> 0x8000001F then
                 (let ((eax, ebx, ecx, edx), s) = cpuid D 0x8000001F s
                  in s\<lparr>memory_encryption_supported := c_bool (eax AND 1 \<noteq> 0)\<rparr>)
               else s);
          ((eax, ebx, ecx, edx), s) = cpuid D 7 s
      in s\<lparr>memory_protection_keys_supported := c_bool (ecx AND push_bit 3 1 \<noteq> 0)\<rparr>)"

definition default_pat :: u64 where
  "default_pat =
     push_bit 0 (ucast MEMORY_TYPE_WB) OR push_bit 8 (ucast MEMORY_TYPE_WT) OR
     push_bit 16 (ucast MEMORY_TYPE_UC_MINUS) OR push_bit 24 (ucast MEMORY_TYPE_UC) OR
     push_bit 32 (ucast MEMORY_TYPE_WB) OR push_bit 40 (ucast MEMORY_TYPE_WT) OR
     push_bit 48 (ucast MEMORY_TYPE_UC_MINUS) OR push_bit 56 (ucast MEMORY_TYPE_WC)"

definition memory_mgmt_setup_pat :: "'a memory_mgmt_scheme \<Rightarrow> 'a memory_mgmt_scheme" where
  "memory_mgmt_setup_pat s =
     (if pat_supported s = 0 \<or> msr_is_supported s = 0 then s
      else (msr_write MSR_IA32_PAT default_pat s)\<lparr>pat_value := default_pat\<rparr>)"

definition upd_variable :: "nat \<Rightarrow> (memory_range \<Rightarrow> memory_range) \<Rightarrow> 'a memory_mgmt_scheme \<Rightarrow> 'a memory_mgmt_scheme" where
  "upd_variable i f s = s\<lparr>variable_ranges := (variable_ranges s)[i := f (variable_ranges s ! i)]\<rparr>"

text \<open>One round of the loop over the variable registers.\<close>

definition read_variable :: "device \<Rightarrow> nat \<Rightarrow> 'a memory_mgmt_scheme \<Rightarrow> 'a memory_mgmt_scheme" where
  "read_variable D i s =
     (let (b, s) = msr_read D (0x200 + of_nat i * 2) s;
          (m, s) = msr_read D (0x201 + of_nat i * 2) s;
          s = upd_variable i (r_valid_update (\<lambda>_. c_bool (m AND push_bit 11 1 \<noteq> 0))) s
      in if r_valid (variable_ranges s ! i) = 0 then s
         else
           (let s = upd_variable i (r_base_update (\<lambda>_. b AND 0xFFFFFFFFFFFFF000)) s;
                s = upd_variable i (r_type_update (\<lambda>_. ucast (b AND 0xFF))) s;
                size_mask = m AND 0xFFFFFFFFFFFFF000
            in upd_variable i (r_size_update (\<lambda>_. NOT size_mask + 1)) s))"

text \<open>The fixed range number \<open>k\<close>, of byte \<open>i\<close> of its register.\<close>

definition set_fixed :: "nat \<Rightarrow> u64 \<Rightarrow> u64 \<Rightarrow> u64 \<Rightarrow> nat \<Rightarrow> 'a memory_mgmt_scheme \<Rightarrow> 'a memory_mgmt_scheme" where
  "set_fixed k b sz reg i s = s\<lparr>fixed_ranges := (fixed_ranges s)[k :=
     \<lparr>r_base = b, r_size = sz, r_type = ucast (drop_bit (i * 8) reg AND 0xFF), r_valid = 1\<rparr>]\<rparr>"

definition read_fixed :: "device \<Rightarrow> 'a memory_mgmt_scheme \<Rightarrow> 'a memory_mgmt_scheme" where
  "read_fixed D s =
     (let (fix64k, s) = msr_read D MSR_IA32_MTRR_FIX64K s;
          s = fold (\<lambda>i. set_fixed i (of_nat i * 0x10000) 0x10000 fix64k i) [0..<8] s;
          (fix16k_80000, s) = msr_read D MSR_IA32_MTRR_FIX16K_80000 s;
          (fix16k_a0000, s) = msr_read D MSR_IA32_MTRR_FIX16K_A0000 s;
          s = fold (\<lambda>i s. set_fixed (16 + i) (0xA0000 + of_nat i * 0x4000) 0x4000 fix16k_a0000 i
                (set_fixed (8 + i) (0x80000 + of_nat i * 0x4000) 0x4000 fix16k_80000 i s)) [0..<8] s
      in fold (\<lambda>j s. let (fix4k, s) = msr_read D (MSR_IA32_MTRR_FIX4K_C0000 + of_nat j) s
           in fold (\<lambda>i. set_fixed (24 + j * 8 + i) (0xC0000 + (of_nat j * 8 + of_nat i) * 0x1000) 0x1000 fix4k i) [0..<8] s)
         [0..<8] s)"

definition memory_mgmt_read_mtrr_ranges :: "device \<Rightarrow> 'a memory_mgmt_scheme \<Rightarrow> 'a memory_mgmt_scheme" where
  "memory_mgmt_read_mtrr_ranges D s =
     (if mtrr_supported s = 0 \<or> msr_is_supported s = 0 then s
      else
        (let (def_type, s) = msr_read D MSR_IA32_MTRR_DEF_TYPE s;
             s = s\<lparr>default_memory_type := def_type AND 0xFF\<rparr>;
             s = fold (read_variable D) [0..<min (unat (num_variable_mtrrs s)) 16] s
         in if fixed_mtrrs_supported s \<noteq> 0 then read_fixed D s else s))"

definition memory_mgmt_init :: "device \<Rightarrow> 'a memory_mgmt_scheme \<Rightarrow> 'a memory_mgmt_scheme" where
  "memory_mgmt_init D s =
     (let s = s\<lparr>mm_supported := 0, pat_supported := 0, mtrr_supported := 0, smrr_supported := 0, num_variable_mtrrs := 0,
            fixed_mtrrs_supported := 0, wc_supported := 0, memory_encryption_supported := 0,
            memory_protection_keys_supported := 0\<rparr>;
          s = memory_mgmt_detect_capabilities D s
      in if pat_supported s \<noteq> 0 \<or> mtrr_supported s \<noteq> 0 then
           (let s = s\<lparr>mm_supported := 1\<rparr>;
                s = memory_mgmt_setup_pat s
            in memory_mgmt_read_mtrr_ranges D s)
         else s)"

section \<open>Queries\<close>

definition memory_mgmt_is_supported :: "'a memory_mgmt_scheme \<Rightarrow> u8" where
  "memory_mgmt_is_supported s = mm_supported s"

definition memory_mgmt_is_pat_supported :: "'a memory_mgmt_scheme \<Rightarrow> u8" where
  "memory_mgmt_is_pat_supported s = pat_supported s"

definition memory_mgmt_is_mtrr_supported :: "'a memory_mgmt_scheme \<Rightarrow> u8" where
  "memory_mgmt_is_mtrr_supported s = mtrr_supported s"

definition memory_mgmt_is_wc_supported :: "'a memory_mgmt_scheme \<Rightarrow> u8" where
  "memory_mgmt_is_wc_supported s = wc_supported s"

definition memory_mgmt_get_num_variable_mtrrs :: "'a memory_mgmt_scheme \<Rightarrow> u8" where
  "memory_mgmt_get_num_variable_mtrrs s = num_variable_mtrrs s"

definition memory_mgmt_is_fixed_mtrrs_supported :: "'a memory_mgmt_scheme \<Rightarrow> u8" where
  "memory_mgmt_is_fixed_mtrrs_supported s = fixed_mtrrs_supported s"

definition memory_mgmt_get_pat_value :: "'a memory_mgmt_scheme \<Rightarrow> u64" where
  "memory_mgmt_get_pat_value s = pat_value s"

definition memory_mgmt_get_default_memory_type :: "'a memory_mgmt_scheme \<Rightarrow> u8" where
  "memory_mgmt_get_default_memory_type s = ucast (default_memory_type s)"

definition memory_mgmt_is_memory_encryption_supported :: "'a memory_mgmt_scheme \<Rightarrow> u8" where
  "memory_mgmt_is_memory_encryption_supported s = memory_encryption_supported s"

definition memory_mgmt_is_protection_keys_supported :: "'a memory_mgmt_scheme \<Rightarrow> u8" where
  "memory_mgmt_is_protection_keys_supported s = memory_protection_keys_supported s"

definition memory_mgmt_is_smrr_supported :: "'a memory_mgmt_scheme \<Rightarrow> u8" where
  "memory_mgmt_is_smrr_supported s = smrr_supported s"

text \<open>A pointer to a range is its index, the null pointer \<open>None\<close>.\<close>

definition memory_mgmt_get_variable_range :: "u8 \<Rightarrow> 'a memory_mgmt_scheme \<Rightarrow> nat option" where
  "memory_mgmt_get_variable_range index s = (if index \<ge> num_variable_mtrrs s then None else Some (unat index))"

definition memory_mgmt_get_fixed_range :: "u8 \<Rightarrow> 'a memory_mgmt_scheme \<Rightarrow> nat option" where
  "memory_mgmt_get_fixed_range index s = (if index \<ge> 88 then None else Some (unat index))"

section \<open>Changing a range\<close>

definition memory_mgmt_set_variable_mtrr ::
  "device \<Rightarrow> u8 \<Rightarrow> u64 \<Rightarrow> u64 \<Rightarrow> u8 \<Rightarrow> 'a memory_mgmt_scheme \<Rightarrow> (u8 \<times> 'a memory_mgmt_scheme) option" where
  "memory_mgmt_set_variable_mtrr D index b sz type s =
     (if mtrr_supported s = 0 \<or> msr_is_supported s = 0 then Some (0, s)
      else if index \<ge> num_variable_mtrrs s then Some (0, s)
      else
        (let (def_type, s) = msr_read D MSR_IA32_MTRR_DEF_TYPE s;
             s = msr_write MSR_IA32_MTRR_DEF_TYPE (def_type AND NOT (push_bit 11 1)) s;
             s = msr_write (0x200 + ucast index * 2) ((b AND 0xFFFFFFFFFFFFF000) OR ucast type) s;
             m = NOT (sz - 1) AND 0xFFFFFFFFFFFFF000;
             s = msr_write (0x201 + ucast index * 2) (m OR push_bit 11 1) s;
             s = msr_write MSR_IA32_MTRR_DEF_TYPE def_type s
         in if unat index < 16 then
              Some (1, upd_variable (unat index) (\<lambda>_. \<lparr>r_base = b, r_size = sz, r_type = type, r_valid = 1\<rparr>) s)
            else None))"

definition memory_mgmt_clear_variable_mtrr ::
  "device \<Rightarrow> u8 \<Rightarrow> 'a memory_mgmt_scheme \<Rightarrow> (u8 \<times> 'a memory_mgmt_scheme) option" where
  "memory_mgmt_clear_variable_mtrr D index s =
     (if mtrr_supported s = 0 \<or> msr_is_supported s = 0 then Some (0, s)
      else if index \<ge> num_variable_mtrrs s then Some (0, s)
      else
        (let (def_type, s) = msr_read D MSR_IA32_MTRR_DEF_TYPE s;
             s = msr_write MSR_IA32_MTRR_DEF_TYPE (def_type AND NOT (push_bit 11 1)) s;
             s = msr_write (0x200 + ucast index * 2) 0 s;
             s = msr_write (0x201 + ucast index * 2) 0 s;
             s = msr_write MSR_IA32_MTRR_DEF_TYPE def_type s
         in if unat index < 16 then Some (1, upd_variable (unat index) (r_valid_update (\<lambda>_. 0)) s) else None))"

definition memory_mgmt_enable_mtrrs :: "device \<Rightarrow> 'a memory_mgmt_scheme \<Rightarrow> 'a memory_mgmt_scheme" where
  "memory_mgmt_enable_mtrrs D s =
     (if mtrr_supported s = 0 \<or> msr_is_supported s = 0 then s
      else (let (def_type, s) = msr_read D MSR_IA32_MTRR_DEF_TYPE s
            in msr_write MSR_IA32_MTRR_DEF_TYPE (def_type OR push_bit 11 1) s))"

definition memory_mgmt_disable_mtrrs :: "device \<Rightarrow> 'a memory_mgmt_scheme \<Rightarrow> 'a memory_mgmt_scheme" where
  "memory_mgmt_disable_mtrrs D s =
     (if mtrr_supported s = 0 \<or> msr_is_supported s = 0 then s
      else (let (def_type, s) = msr_read D MSR_IA32_MTRR_DEF_TYPE s
            in msr_write MSR_IA32_MTRR_DEF_TYPE (def_type AND NOT (push_bit 11 1)) s))"

section \<open>Memory types\<close>

definition in_mtrr_range :: "u64 \<Rightarrow> memory_range \<Rightarrow> bool" where
  "in_mtrr_range address r \<longleftrightarrow> r_valid r \<noteq> 0 \<and> address \<ge> r_base r \<and> address < r_base r + r_size r"

text \<open>The loop over the variable ranges, \<open>n\<close> rounds from \<open>i\<close> on: the outer option is a read beyond the sixteen.\<close>

fun variable_type :: "memory_range list \<Rightarrow> u64 \<Rightarrow> nat \<Rightarrow> nat \<Rightarrow> u8 option option" where
  "variable_type rs address i 0 = Some None"
| "variable_type rs address i (Suc n) =
     (if i \<ge> 16 then None
      else if in_mtrr_range address (rs ! i) then Some (Some (r_type (rs ! i)))
      else variable_type rs address (Suc i) n)"

definition memory_mgmt_get_memory_type :: "u64 \<Rightarrow> 'a memory_mgmt_scheme \<Rightarrow> u8 option" where
  "memory_mgmt_get_memory_type address s =
     (case variable_type (variable_ranges s) address 0 (unat (num_variable_mtrrs s)) of
        None \<Rightarrow> None
      | Some (Some t) \<Rightarrow> Some t
      | Some None \<Rightarrow>
          (case (if address < 0x100000 \<and> fixed_mtrrs_supported s \<noteq> 0
                 then find (\<lambda>i. in_mtrr_range address (fixed_ranges s ! i)) [0..<88] else None) of
             Some i \<Rightarrow> Some (r_type (fixed_ranges s ! i))
           | None \<Rightarrow> Some (ucast (default_memory_type s))))"

definition memory_mgmt_get_page_attributes :: "u8 \<Rightarrow> u32" where
  "memory_mgmt_get_page_attributes memory_type =
     (if memory_type = MEMORY_TYPE_UC then PAGE_ATTR_PCD OR PAGE_ATTR_PWT
      else if memory_type = MEMORY_TYPE_WC then PAGE_ATTR_PAT OR PAGE_ATTR_PWT
      else if memory_type = MEMORY_TYPE_WT then PAGE_ATTR_PWT
      else if memory_type = MEMORY_TYPE_WP then PAGE_ATTR_PAT OR PAGE_ATTR_PCD
      else if memory_type = MEMORY_TYPE_WB then 0
      else if memory_type = MEMORY_TYPE_UC_MINUS then PAGE_ATTR_PCD
      else 0)"

definition memory_mgmt_flush_tlb :: "device \<Rightarrow> 'a memory_mgmt_scheme \<Rightarrow> 'a memory_mgmt_scheme" where
  "memory_mgmt_flush_tlb D s = (let (cr3, s) = rd D (Creg 3) s in wr (Creg 3) (cr3 :: u32) s)"

definition memory_mgmt_flush_tlb_single :: "u64 \<Rightarrow> 'a memory_mgmt_scheme \<Rightarrow> 'a memory_mgmt_scheme" where
  "memory_mgmt_flush_tlb_single address s = insn (Invlpg (ucast address)) s"

section \<open>What the registers match\<close>

text \<open>The documented match of a pair of variable-range registers.\<close>

definition mtrr_hit :: "u64 \<Rightarrow> u64 \<Rightarrow> u64 \<Rightarrow> bool" where
  "mtrr_hit b m a \<longleftrightarrow> bit m 11 \<and> a AND (m AND NOT (mask 12)) = b AND (m AND NOT (mask 12))"

lemma unat_exp: "k < LENGTH('a) \<Longrightarrow> unat (2 ^ k :: 'a::len word) = 2 ^ k"
  using unsigned_of_nat [of "2 ^ k", where 'a = nat and 'b = 'a]
  by (simp add: take_bit_nat_eq_self)

text \<open>An aligned block of \<open>2 ^ k\<close> addresses.\<close>

lemma aligned_block:
  fixes a b :: "'a::len word"
  assumes "take_bit k b = 0" "k < LENGTH('a)"
  shows "drop_bit k a = drop_bit k b \<longleftrightarrow> a - b < 2 ^ k"
proof -
  have p: "unat (2 ^ k :: 'a word) = 2 ^ k" using assms(2) by (rule unat_exp)
  show ?thesis
proof
  assume eq: "drop_bit k a = drop_bit k b"
  have "a = push_bit k (drop_bit k b) + take_bit k a"
    using bits_ident [of k a] eq by simp
  moreover have "b = push_bit k (drop_bit k b)" using bits_ident [of k b] assms(1) by simp
  ultimately have "a - b = take_bit k a" by (metis add_diff_cancel_left')
  moreover have "take_bit k a < 2 ^ k"
    by (simp add: word_less_nat_alt unsigned_take_bit_eq p)
  ultimately show "a - b < 2 ^ k" by simp
next
  assume lt: "a - b < 2 ^ k"
  let ?r = "a - b"
  have "unat ?r < 2 ^ k" using lt by (simp add: word_less_nat_alt p)
  then have r: "take_bit k ?r = ?r" by (rule take_bit_small)
  have disj: "b AND ?r = 0"
  proof (rule bit_word_eqI)
    fix n assume "n < LENGTH('a)"
    have "\<not> bit b n" if "n < k" using assms(1) that by (metis bit_0_eq bot_apply bot_bool_def bit_take_bit_iff)
    moreover have "\<not> bit ?r n" if "\<not> n < k" using r that by (metis bit_take_bit_iff)
    ultimately show "bit (b AND ?r) n = bit 0 n" by (auto simp: bit_simps)
  qed
  have "a = b + ?r" by simp
  also have "\<dots> = b OR ?r" using disj by (simp add: disjunctive_add_eq_or)
  finally have "a = b OR ?r" .
  then have "drop_bit k a = drop_bit k b OR drop_bit k ?r" by (metis drop_bit_or)
  moreover have "drop_bit k ?r = 0" using \<open>unat ?r < 2 ^ k\<close> by (rule drop_bit_small)
  ultimately show "drop_bit k a = drop_bit k b" by simp
qed
qed

lemma high_and_eq: "a AND NOT (mask k) = b AND NOT (mask k) \<longleftrightarrow> drop_bit k a = drop_bit k b"
  for a b :: "'a::len word"
proof -
  have "x AND NOT (mask k) = push_bit k (drop_bit k x)" for x :: "'a word"
    by (rule bit_word_eqI) (auto simp: bit_simps)
  moreover have "drop_bit k (push_bit k (drop_bit k x)) = drop_bit k x" for x :: "'a word"
    by (rule bit_word_eqI) (auto simp: bit_simps dest: bit_imp_le_length)
  ultimately show ?thesis by metis
qed

lemma page_mask: "(0xFFFFFFFFFFFFF000 :: u64) = NOT (mask 12)"
  by (simp add: mask_eq_exp_minus_1)

lemma size_mask:
  assumes "12 \<le> k" "k < 64"
  shows "NOT (2 ^ k - 1) AND 0xFFFFFFFFFFFFF000 = (NOT (mask k) :: u64)"
  using assms unfolding page_mask mask_eq_exp_minus_1 [symmetric]
  by (intro bit_word_eqI) (auto simp: bit_simps)

section \<open>The copy of a register\<close>

lemma unat_neg_word: "c \<noteq> 0 \<Longrightarrow> unat (- c) = 2 ^ LENGTH('a) - unat c" for c :: "'a::len word"
proof -
  assume c: "c \<noteq> 0"
  have lt: "unat c < 2 ^ LENGTH('a)" by (rule unsigned_less)
  have "- c = of_nat (2 ^ LENGTH('a) - unat c)" using of_nat_diff [OF less_imp_le [OF lt], where 'a = "'a word"] by simp
  then have "unat (- c) = unat (of_nat (2 ^ LENGTH('a) - unat c) :: 'a word)" by (rule arg_cong)
  moreover have "0 < unat c" using c by (simp add: unat_gt_0)
  ultimately show ?thesis by (simp add: unat_of_nat)
qed

lemma mask_diff: "k \<le> w \<Longrightarrow> mask w AND NOT (mask k) = (2 ^ w - 2 ^ k :: 'a::len word)"
proof -
  assume "k \<le> w"
  then have "mask w = (mask w AND NOT (mask k)) OR (mask k :: 'a word)"
    by (intro bit_word_eqI) (auto simp: bit_simps)
  also have "\<dots> = (mask w AND NOT (mask k)) + mask k"
    by (intro disjunctive_add_eq_or [symmetric] bit_word_eqI) (auto simp: bit_simps)
  finally show ?thesis by (simp add: mask_eq_exp_minus_1 algebra_simps)
qed

text \<open>With \<open>w\<close> address bits the mask register has no bits from \<open>w\<close> on, and the size the driver computes from it is
  short of the true one by \<open>2 ^ w\<close>, modulo \<open>2 ^ 64\<close>.\<close>

lemma copied_size:
  assumes "12 \<le> k" "k \<le> w"
  shows "NOT (((mask w AND NOT (mask k)) OR push_bit 11 1) AND 0xFFFFFFFFFFFFF000) + 1 = (2 ^ k - 2 ^ w :: u64)"
proof -
  have "((mask w AND NOT (mask k)) OR push_bit 11 1) AND 0xFFFFFFFFFFFFF000 = (mask w AND NOT (mask k) :: u64)"
    unfolding page_mask using assms(1) by (intro bit_word_eqI) (simp only: bit_simps, auto)
  then have "NOT (((mask w AND NOT (mask k)) OR push_bit 11 1) AND 0xFFFFFFFFFFFFF000) = NOT (2 ^ w - 2 ^ k :: u64)"
    by (simp only: mask_diff [OF assms(2)])
  then show ?thesis by (simp only: not_eq_complement) simp
qed

lemma copied_range:
  fixes a b :: u64
  assumes "k < w" "w \<le> 63" "unat b + 2 ^ k \<le> 2 ^ w" "unat a < 2 ^ w" "type_ok \<noteq> 0"
  shows "in_mtrr_range a \<lparr>r_base = b, r_size = 2 ^ k - 2 ^ w, r_type = ty, r_valid = type_ok\<rparr> \<longleftrightarrow>
    b \<le> a \<and> unat b + 2 ^ k < 2 ^ w"
proof -
  define c :: u64 where "c = 2 ^ w - (b + 2 ^ k)"
  have w: "(2 :: nat) ^ w \<le> 2 ^ 63" using assms(2) by (intro power_increasing) simp_all
  have c: "c = of_nat (2 ^ w - (unat b + 2 ^ k))" using assms(3) by (simp add: c_def of_nat_diff)
  then have uc: "unat c = 2 ^ w - (unat b + 2 ^ k)" using w by (simp add: unat_of_nat)
  have e: "b + (2 ^ k - 2 ^ w) = - c" by (simp add: c_def)
  show ?thesis
  proof (cases "unat b + 2 ^ k < 2 ^ w")
    case True
    then have "c \<noteq> 0" using uc by auto
    then have "unat (- c) = 2 ^ 64 - unat c" by (simp add: unat_neg_word)
    then have "unat a < unat (- c)" using uc w assms(4) by simp
    then show ?thesis using True assms(5) by (simp add: in_mtrr_range_def e word_less_nat_alt)
  next
    case False
    then have "c = 0" using uc assms(3) by (simp add: unat_eq_0)
    then show ?thesis using False by (simp add: in_mtrr_range_def e)
  qed
qed

section \<open>The property\<close>

lemma mtrr_numbers:
  assumes "index < (16 :: u8)"
  shows "0x200 + ucast index * 2 \<noteq> (0x2FF :: u32)" "0x201 + ucast index * 2 \<noteq> (0x2FF :: u32)"
    "0x200 + ucast index * 2 \<noteq> (0x201 + ucast index * 2 :: u32)"
proof -
  have i: "unat index < 16" using assms by (simp add: word_less_nat_alt)
  have b: "unat (ucast index :: u32) = unat index" using i by (simp add: unsigned_ucast_eq take_bit_nat_eq_self)
  have "unat (c + ucast index * 2 :: u32) = unat c + unat index * 2" if "unat c < 1000" for c :: u32
    using that i by (simp add: unat_add_lem [THEN iffD1] unat_mult_lem [THEN iffD1] b)
  from this [of "0x200"] this [of "0x201"]
  have u: "unat (0x200 + ucast index * 2 :: u32) = 0x200 + unat index * 2" "unat (0x201 + ucast index * 2 :: u32) = 0x201 + unat index * 2"
    by simp_all
  have "unat (0x2FF :: u32) = 0x2FF" by simp
  with u i show "0x200 + ucast index * 2 \<noteq> (0x2FF :: u32)" "0x201 + ucast index * 2 \<noteq> (0x2FF :: u32)"
    "0x200 + ucast index * 2 \<noteq> (0x201 + ucast index * 2 :: u32)" by force+
qed

lemma mtrr_hit_block:
  assumes "12 \<le> k" "k < 64" "take_bit k b = 0"
  shows "mtrr_hit ((b AND 0xFFFFFFFFFFFFF000) OR ucast (type :: u8))
      ((NOT (2 ^ k - 1) AND 0xFFFFFFFFFFFFF000) OR push_bit 11 1) a \<longleftrightarrow> a - b < 2 ^ k"
proof -
  let ?m = "(NOT (2 ^ k - 1) AND 0xFFFFFFFFFFFFF000) OR push_bit 11 1 :: u64"
  have "?m AND NOT (mask 12) = NOT (mask k)"
    using assms(1,2) unfolding size_mask [OF assms(1,2)] by (intro bit_word_eqI) (simp only: bit_simps, auto)
  moreover have "bit ?m 11" by (simp only: bit_simps) simp
  moreover
  have "((b AND 0xFFFFFFFFFFFFF000) OR ucast type) AND NOT (mask k) = b AND NOT (mask k)"
    unfolding page_mask using assms(1) by (intro bit_word_eqI) (auto simp: bit_simps dest: bit_imp_le_length)
  ultimately have "mtrr_hit ((b AND 0xFFFFFFFFFFFFF000) OR ucast type) ?m a \<longleftrightarrow> a AND NOT (mask k) = b AND NOT (mask k)"
    by (simp add: mtrr_hit_def)
  also have "\<dots> \<longleftrightarrow> a - b < 2 ^ k" using aligned_block [of k b a] assms(2,3) by (simp add: high_and_eq)
  finally show ?thesis .
qed

text \<open>The documented layout of the two registers on a processor with \<open>w\<close> physical address bits: the type in the low byte of
  the first, the valid bit 11 and the mask in the second; a write that sets any other bit below 12, or an address or
  mask bit from \<open>w\<close> on, faults.\<close>

definition physbase_ok :: "nat \<Rightarrow> u64 \<Rightarrow> bool" where
  "physbase_ok w v \<longleftrightarrow> (\<forall>n<64. bit v n \<longrightarrow> n < 8 \<or> 12 \<le> n \<and> n < w)"

definition physmask_ok :: "nat \<Rightarrow> u64 \<Rightarrow> bool" where
  "physmask_ok w v \<longleftrightarrow> (\<forall>n<64. bit v n \<longrightarrow> n = 11 \<or> 12 \<le> n \<and> n < w)"

lemma mask_bits:
  assumes "12 \<le> k" "k < 64" "n < 64"
  shows "bit ((NOT (2 ^ k - 1) AND 0xFFFFFFFFFFFFF000) OR push_bit 11 1 :: u64) n \<longleftrightarrow> n = 11 \<or> k \<le> n"
  using assms unfolding size_mask [OF assms(1,2)] by (simp only: bit_simps) auto

lemma physmask_set:
  assumes "12 \<le> k" "k < 64"
  shows "physmask_ok w ((NOT (2 ^ k - 1) AND 0xFFFFFFFFFFFFF000) OR push_bit 11 1) \<longleftrightarrow> 64 \<le> w"
proof -
  have "physmask_ok w ((NOT (2 ^ k - 1) AND 0xFFFFFFFFFFFFF000) OR push_bit 11 1) \<longleftrightarrow>
      (\<forall>n<64. n = 11 \<or> k \<le> n \<longrightarrow> n = 11 \<or> 12 \<le> n \<and> n < w)"
    unfolding physmask_ok_def using mask_bits [OF assms] by blast
  also have "\<dots> \<longleftrightarrow> 64 \<le> w"
  proof
    assume h: "\<forall>n<64. n = 11 \<or> k \<le> n \<longrightarrow> n = 11 \<or> 12 \<le> n \<and> n < w"
    have "63 < w" using h [rule_format, of 63] assms by simp
    then show "64 \<le> w" by simp
  qed (use assms in auto)
  finally show ?thesis .
qed

lemma physbase_set:
  assumes "12 \<le> k" "take_bit k b = 0" "unat b < 2 ^ w"
  shows "physbase_ok w ((b AND 0xFFFFFFFFFFFFF000) OR ucast (type :: u8))"
proof -
  have "take_bit w b = b" using assms(3) by (rule take_bit_small)
  then have "bit b n \<Longrightarrow> n < w" for n by (metis bit_take_bit_iff)
  then show ?thesis
    unfolding physbase_ok_def page_mask by (auto simp: bit_simps dest: bit_imp_le_length)
qed

text \<open>What a processor with \<open>w\<close> address bits gets through of a run of the code: everything up to the first write of a range
  register that faults.\<close>

definition mtrr_accepts :: "nat \<Rightarrow> access \<Rightarrow> bool" where
  "mtrr_accepts w a = (case a of
     Wr (Msr n) v \<Rightarrow> n < 0x200 \<or> 0x220 \<le> n \<or> (if n AND 1 = 0 then physbase_ok w v else physmask_ok w v)
   | _ \<Rightarrow> True)"

definition executed :: "nat \<Rightarrow> trace \<Rightarrow> trace" where
  "executed w tr = takeWhile (mtrr_accepts w) tr"

lemma range_registers:
  assumes "index < (16 :: u8)"
  shows "mtrr_accepts w (Wr (Msr (0x200 + ucast index * 2)) v) = physbase_ok w v"
    and "mtrr_accepts w (Wr (Msr (0x201 + ucast index * 2)) v) = physmask_ok w v"
proof -
  have e: "unat (ucast index :: u32) = unat index" by (simp add: unat_ucast_up)
  have i: "unat index < 16" using assms by (simp add: word_less_nat_alt)
  have "unat (0x200 + ucast index * 2 :: u32) = 0x200 + unat index * 2" "unat (0x201 + ucast index * 2 :: u32) = 0x201 + unat index * 2"
    using i by (simp_all add: unat_word_ariths e)
  moreover have "(0x200 + ucast index * 2 :: u32) AND 1 = 0" "(0x201 + ucast index * 2 :: u32) AND 1 \<noteq> 0"
    by (simp_all add: and_one_eq mod_2_eq_odd)
  ultimately show "mtrr_accepts w (Wr (Msr (0x200 + ucast index * 2)) v) = physbase_ok w v"
    "mtrr_accepts w (Wr (Msr (0x201 + ucast index * 2)) v) = physmask_ok w v"
    using i by (simp_all add: mtrr_accepts_def word_less_nat_alt word_le_nat_alt)
qed


lemma read_variable_nth:
  assumes "i < length (variable_ranges s)" "msr_supported s \<noteq> 0"
    "\<forall>t. D t (Msr (0x200 + of_nat i * 2)) = b" "\<forall>t. D t (Msr (0x201 + of_nat i * 2)) = m" "bit m 11"
  shows "variable_ranges (read_variable D i s) ! i = \<lparr>r_base = b AND 0xFFFFFFFFFFFFF000,
    r_size = NOT (m AND 0xFFFFFFFFFFFFF000) + 1, r_type = ucast (b AND 0xFF), r_valid = 1\<rparr>"
proof -
  have "m AND push_bit 11 1 \<noteq> 0"
    using assms(5) by (metis bit_0_eq bot_apply bot_bool_def bit_and_iff bit_push_bit_iff bit_1_0 diff_self_eq_0 order_refl bit_imp_possible_bit)
  then show ?thesis
    using assms(1-4) by (cases "variable_ranges s ! i") (simp add: read_variable_def msr_read_def upd_variable_def bus c_bool_def)
qed

text \<open>The copy of the ranges the driver makes at initialisation is wrong on every processor with fewer than 64
  address bits: a pair of registers that matches an aligned block is taken for a range that reaches to the end of the
  address space, or for an empty one if the block is the last, because the mask has no bits beyond the address width.\<close>

lemma mtrr_copy_wrong:
  fixes s :: "'a memory_mgmt_scheme"
  assumes "12 \<le> k" "k < w" "w \<le> 63" "take_bit k b = 0" "unat b + 2 ^ k \<le> 2 ^ w"
    "mtrr_supported s \<noteq> 0" "msr_supported s \<noteq> 0" "num_variable_mtrrs s = 1" "fixed_mtrrs_supported s = 0"
    "length (variable_ranges s) = 16"
    "\<forall>t. D t (Msr 0x200) = b OR ucast type" "\<forall>t. D t (Msr 0x201) = (mask w AND NOT (mask k)) OR push_bit 11 1"
    "unat a < 2 ^ w"
  shows "(mtrr_hit (D [] (Msr 0x200)) (D [] (Msr 0x201)) a \<longleftrightarrow> a - b < 2 ^ k) \<and>
    memory_mgmt_get_memory_type a (memory_mgmt_read_mtrr_ranges D s) =
      Some (if b \<le> a \<and> unat b + 2 ^ k < 2 ^ w then type else ucast (D (trace s) (Msr MSR_IA32_MTRR_DEF_TYPE)))"
proof
  let ?m = "(mask w AND NOT (mask k)) OR push_bit 11 1 :: u64" and ?b = "b OR ucast type"
  have bits: "\<not> bit b n" if "n < k" for n
    using assms(4) that by (metis bit_0_eq bot_apply bot_bool_def bit_take_bit_iff)
  have high: "\<not> bit x n" if "unat x < 2 ^ w" "w \<le> n" for x :: u64 and n
    using take_bit_small [OF that(1)] that(2) by (metis bit_take_bit_iff not_less)
  have bw: "unat b < 2 ^ w" using assms(5) by (rule order_less_le_trans [rotated]) simp
  have m: "?m AND NOT (mask 12) = mask w AND NOT (mask k)" "bit ?m 11"
    using assms(1) by (intro bit_word_eqI, simp only: bit_simps, auto) (simp only: bit_simps, simp)
  have "a AND (mask w AND NOT (mask k)) = a AND NOT (mask k)"
    using high [OF assms(13)] by (intro bit_word_eqI) (simp add: bit_simps, meson not_less)
  moreover have "?b AND (mask w AND NOT (mask k)) = b AND NOT (mask k)"
    using high [OF bw] assms(1) by (intro bit_word_eqI) (auto simp: bit_simps not_less dest: bit_imp_le_length intro: ccontr)
  ultimately have "mtrr_hit ?b ?m a \<longleftrightarrow> a AND NOT (mask k) = b AND NOT (mask k)"
    using m by (simp add: mtrr_hit_def)
  also have "\<dots> \<longleftrightarrow> a - b < 2 ^ k" using aligned_block [of k b a] assms(2-4) by (simp add: high_and_eq)
  finally show "mtrr_hit (D [] (Msr 0x200)) (D [] (Msr 0x201)) a \<longleftrightarrow> a - b < 2 ^ k" using assms(11,12) by simp
  let ?d = "D (trace s) (Msr MSR_IA32_MTRR_DEF_TYPE)"
  define u where "u = s\<lparr>trace := trace s @ [Rd (Msr MSR_IA32_MTRR_DEF_TYPE) ?d], default_memory_type := ?d AND 0xFF\<rparr>"
  have t: "memory_mgmt_read_mtrr_ranges D s = read_variable D 0 u"
    using assms(6-9) by (cases s) (simp add: memory_mgmt_read_mtrr_ranges_def msr_is_supported_def msr_read_def bus u_def
        read_variable_def upd_variable_def)
  have "?b AND 0xFFFFFFFFFFFFF000 = b" "ucast (?b AND 0xFF) = type"
    unfolding page_mask and_masks using bits assms(1)
    by (intro bit_word_eqI, force simp: bit_simps dest: bit_imp_le_length)+
  then have r: "variable_ranges (read_variable D 0 u) ! 0 = \<lparr>r_base = b, r_size = 2 ^ k - 2 ^ w, r_type = type, r_valid = 1\<rparr>"
    using read_variable_nth [of 0 u D ?b ?m] assms(7,10-12) m(2) copied_size [OF assms(1) less_imp_le [OF assms(2)]]
    by (simp add: u_def)
  have v: "num_variable_mtrrs (read_variable D 0 u) = 1" "fixed_mtrrs_supported (read_variable D 0 u) = 0"
    "default_memory_type (read_variable D 0 u) = ?d AND 0xFF"
    using assms(8,9) by (simp_all add: u_def read_variable_def upd_variable_def msr_read_def bus)
  have "ucast (?d AND 0xFF) = (ucast ?d :: u8)" by (rule bit_word_eqI) (simp add: and_masks bit_simps)
  then show "memory_mgmt_get_memory_type a (memory_mgmt_read_mtrr_ranges D s) =
      Some (if b \<le> a \<and> unat b + 2 ^ k < 2 ^ w then type else ucast ?d)"
    unfolding t memory_mgmt_get_memory_type_def v
    using copied_range [OF assms(2,3,5,13), of 1 type] r by simp
qed

text \<open>Memory from 0 to 128 MiB write-back, the rest uncached, on a processor with 36 address bits.\<close>

definition mm_start :: memory_mgmt where
  "mm_start = \<lparr>trace = [], pit_ticks = 0, pit_frequency = 1000, pit_loops_per_10ms = 0, system_ticks = 0, msr_supported = 1,
     mm_supported = 1, pat_supported = 1, mtrr_supported = 1, smrr_supported = 0, num_variable_mtrrs = 1,
     fixed_mtrrs_supported = 0, wc_supported = 1, pat_value = 0, default_memory_type = 0,
     variable_ranges = replicate 16 \<lparr>r_base = 0, r_size = 0, r_type = 0, r_valid = 0\<rparr>, fixed_ranges = [],
     memory_encryption_supported = 0, memory_protection_keys_supported = 0\<rparr>"

definition mtrr_cpu :: device where
  "mtrr_cpu t p = (if p = Msr 0x200 then 6 else if p = Msr 0x201 then 0xFF8000800 else 0)"


end
