(* ===== verification/Acpi.thy ===== *)
theory Acpi
  imports Kstring
begin

text \<open>
  \<open>src/drivers/acpi.c\<close>: the search for the ACPI tables, the list of processors and interrupt controllers in the MADT, and
  the power registers the FADT names. The tables lie in byte-addressed memory; a pointer is its address, the null pointer
  0. The fields of the packed structures are read at their offsets. A walk over the entries of the MADT does not return if
  it meets an entry of length 0: \<open>None\<close>. A function that ends in \<open>while (1) hlt\<close> yields \<open>Inl\<close> of the state it halts in.
\<close>

section \<open>The tables\<close>

definition rsdp_rsdt_address :: "memory \<Rightarrow> u32 \<Rightarrow> u32" where "rsdp_rsdt_address m p = load32 m (p + 16)"
definition hdr_length :: "memory \<Rightarrow> u32 \<Rightarrow> u32" where "hdr_length m p = load32 m (p + 4)"
definition rsdt_entry :: "memory \<Rightarrow> u32 \<Rightarrow> u32 \<Rightarrow> u32" where "rsdt_entry m p i = load32 m (p + 36 + i * 4)"
definition fadt_smi_command_port :: "memory \<Rightarrow> u32 \<Rightarrow> u32" where "fadt_smi_command_port m p = load32 m (p + 48)"
definition fadt_acpi_enable :: "memory \<Rightarrow> u32 \<Rightarrow> u8" where "fadt_acpi_enable m p = m (p + 52)"
definition fadt_pm1a_control_block :: "memory \<Rightarrow> u32 \<Rightarrow> u32" where "fadt_pm1a_control_block m p = load32 m (p + 64)"
definition fadt_pm1b_control_block :: "memory \<Rightarrow> u32 \<Rightarrow> u32" where "fadt_pm1b_control_block m p = load32 m (p + 68)"
definition fadt_pm_timer_block :: "memory \<Rightarrow> u32 \<Rightarrow> u32" where "fadt_pm_timer_block m p = load32 m (p + 76)"
definition fadt_flags :: "memory \<Rightarrow> u32 \<Rightarrow> u32" where "fadt_flags m p = load32 m (p + 112)"
definition madt_local_apic_address :: "memory \<Rightarrow> u32 \<Rightarrow> u32" where "madt_local_apic_address m p = load32 m (p + 36)"
definition madt_entries :: "u32 \<Rightarrow> u32" where "madt_entries p = p + 44"

definition MADT_TYPE_LOCAL_APIC :: u8 where "MADT_TYPE_LOCAL_APIC = 0"
definition MADT_TYPE_IO_APIC :: u8 where "MADT_TYPE_IO_APIC = 1"
definition MADT_TYPE_INT_OVERRIDE :: u8 where "MADT_TYPE_INT_OVERRIDE = 2"

record acpi = machine +
  acpi_mem :: memory
  acpi_rsdp :: u32
  acpi_rsdt :: u32
  acpi_fadt :: u32
  acpi_madt :: u32
  local_apic_base :: u32
  acpi_cpu_count :: u8

definition acpi_checksum :: "memory \<Rightarrow> u32 \<Rightarrow> u32 \<Rightarrow> u8" where
  "acpi_checksum m p len = fold (\<lambda>i sum. sum + m (p + of_nat i)) [0..<unat len] 0"

text \<open>A comparison of two \<open>u64\<close> or \<open>u32\<close> read from a signature compares its 8 or 4 bytes.\<close>

definition is_rsdp :: "memory \<Rightarrow> u32 \<Rightarrow> bool" where
  "is_rsdp m addr \<longleftrightarrow> bytes_at addr 8 m = cstr ''RSD PTR '' \<and> acpi_checksum m addr 20 = 0"

text \<open>The addresses from \<open>a\<close> on, 16 apart.\<close>

definition paragraphs :: "u32 \<Rightarrow> nat \<Rightarrow> u32 list" where
  "paragraphs a n = map (\<lambda>i. a + of_nat i * 16) [0..<n]"

definition acpi_find_rsdp :: "memory \<Rightarrow> u32" where
  "acpi_find_rsdp m =
     (let ebda = load16 m 0x40E;
          found = (if ebda \<noteq> 0 then find (is_rsdp m) (paragraphs (ucast (push_bit 4 ebda)) (1024 div 16)) else None)
      in case found of
           Some addr \<Rightarrow> addr
         | None \<Rightarrow> (case find (is_rsdp m) (paragraphs 0xE0000 (0x20000 div 16)) of Some addr \<Rightarrow> addr | None \<Rightarrow> 0))"

definition acpi_find_table :: "string \<Rightarrow> 'a acpi_scheme \<Rightarrow> u32" where
  "acpi_find_table signature s =
     (if acpi_rsdt s = 0 then 0
      else
        (let m = acpi_mem s;
             entries = (hdr_length m (acpi_rsdt s) - 36) div 4
         in case find (\<lambda>i. let header = rsdt_entry m (acpi_rsdt s) (of_nat i)
                   in bytes_at header 4 m = cstr signature \<and> acpi_checksum m header (hdr_length m header) = 0)
                 [0..<unat entries] of
              Some i \<Rightarrow> rsdt_entry m (acpi_rsdt s) (of_nat i)
            | None \<Rightarrow> 0))"

text \<open>
  The loop all three walks over the MADT share: \<open>act\<close> is its body for the entry at a pointer, and the length of the entry
  is then read from the memory.
\<close>

partial_function (option) madt_walk ::
  "(u32 \<Rightarrow> 'a acpi_scheme \<Rightarrow> 'a acpi_scheme) \<Rightarrow> u32 \<Rightarrow> u32 \<Rightarrow> 'a acpi_scheme \<Rightarrow> 'a acpi_scheme option" where
  "madt_walk act entry madt_end s =
     (if entry < madt_end then
        (let s = act entry s in madt_walk act (entry + ucast (acpi_mem s (entry + 1))) madt_end s)
      else Some s)"

definition madt_end :: "'a acpi_scheme \<Rightarrow> u32" where
  "madt_end s = acpi_madt s + hdr_length (acpi_mem s) (acpi_madt s)"

definition count_lapic :: "u32 \<Rightarrow> 'a acpi_scheme \<Rightarrow> 'a acpi_scheme" where
  "count_lapic entry s =
     (if acpi_mem s entry = MADT_TYPE_LOCAL_APIC \<and> load32 (acpi_mem s) (entry + 4) AND 1 \<noteq> 0
      then s\<lparr>acpi_cpu_count := acpi_cpu_count s + 1\<rparr> else s)"

definition acpi_init :: "'a acpi_scheme \<Rightarrow> 'a acpi_scheme option" where
  "acpi_init s =
     (let s = s\<lparr>acpi_rsdp := acpi_find_rsdp (acpi_mem s)\<rparr>
      in if acpi_rsdp s = 0 then Some s
         else
           (let s = s\<lparr>acpi_rsdt := rsdp_rsdt_address (acpi_mem s) (acpi_rsdp s)\<rparr>
            in if acpi_rsdt s = 0 \<or> acpi_checksum (acpi_mem s) (acpi_rsdt s) (hdr_length (acpi_mem s) (acpi_rsdt s)) \<noteq> 0
               then Some s
               else
                 (let s = s\<lparr>acpi_fadt := acpi_find_table ''FACP'' s\<rparr>;
                      s = s\<lparr>acpi_madt := acpi_find_table ''APIC'' s\<rparr>
                  in if acpi_madt s \<noteq> 0 then
                       (let s = s\<lparr>local_apic_base := madt_local_apic_address (acpi_mem s) (acpi_madt s)\<rparr>
                        in madt_walk count_lapic (madt_entries (acpi_madt s)) (madt_end s) s)
                     else Some s)))"

definition acpi_is_available :: "'a acpi_scheme \<Rightarrow> u8" where
  "acpi_is_available s = c_bool (acpi_rsdp s \<noteq> 0)"

definition acpi_get_local_apic_base :: "'a acpi_scheme \<Rightarrow> u32" where
  "acpi_get_local_apic_base s = local_apic_base s"

definition acpi_get_cpu_count :: "'a acpi_scheme \<Rightarrow> u8" where
  "acpi_get_cpu_count s = acpi_cpu_count s"

section \<open>Power\<close>

definition acpi_is_enabled :: "device \<Rightarrow> 'a acpi_scheme \<Rightarrow> u8 \<times> 'a acpi_scheme" where
  "acpi_is_enabled D s =
     (if acpi_fadt s = 0 then (0, s)
      else
        (let block = fadt_pm1a_control_block (acpi_mem s) (acpi_fadt s);
             (pm1_control, s) = (if block \<noteq> 0 then inw D (ucast block) s else (0, s))
         in (c_bool (pm1_control AND 1 \<noteq> 0), s)))"

text \<open>\<open>while (timeout-- && !acpi_is_enabled());\<close>\<close>

fun acpi_wait_enabled :: "device \<Rightarrow> nat \<Rightarrow> 'a acpi_scheme \<Rightarrow> 'a acpi_scheme" where
  "acpi_wait_enabled D 0 s = s"
| "acpi_wait_enabled D (Suc n) s =
     (let (b, s) = acpi_is_enabled D s in if b = 0 then acpi_wait_enabled D n s else s)"

definition acpi_enable :: "device \<Rightarrow> 'a acpi_scheme \<Rightarrow> 'a acpi_scheme" where
  "acpi_enable D s =
     (if acpi_fadt s = 0 \<or> fadt_smi_command_port (acpi_mem s) (acpi_fadt s) = 0 then s
      else
        (let s = outb (ucast (fadt_smi_command_port (acpi_mem s) (acpi_fadt s))) (fadt_acpi_enable (acpi_mem s) (acpi_fadt s)) s
         in acpi_wait_enabled D 1000000 s))"

definition acpi_power_off :: "device \<Rightarrow> 'a acpi_scheme \<Rightarrow> 'a acpi_scheme + 'a acpi_scheme" where
  "acpi_power_off D s =
     (if acpi_fadt s = 0 then Inr s
      else
        (let (b, s) = acpi_is_enabled D s
         in if b = 0 then Inr s
            else
              (let pm1_control = 0x2000 OR 0x2000;
                   pm1a = fadt_pm1a_control_block (acpi_mem s) (acpi_fadt s);
                   pm1b = fadt_pm1b_control_block (acpi_mem s) (acpi_fadt s);
                   s = (if pm1a \<noteq> 0 then outw (ucast pm1a) pm1_control s else s);
                   s = (if pm1b \<noteq> 0 then outw (ucast pm1b) pm1_control s else s)
               in Inl (insn Hlt s))))"

definition acpi_reboot :: "'a acpi_scheme \<Rightarrow> 'a acpi_scheme + 'a acpi_scheme" where
  "acpi_reboot s =
     (if acpi_fadt s = 0 then Inr (outb 0x64 0xFE s)
      else Inl (insn Hlt (if fadt_flags (acpi_mem s) (acpi_fadt s) AND push_bit 10 1 \<noteq> 0
                          then outb 0xCF9 0x06 s else outb 0x64 0xFE s)))"

definition acpi_get_pm_timer :: "device \<Rightarrow> 'a acpi_scheme \<Rightarrow> u32 \<times> 'a acpi_scheme" where
  "acpi_get_pm_timer D s =
     (if acpi_fadt s = 0 \<or> fadt_pm_timer_block (acpi_mem s) (acpi_fadt s) = 0 then (0, s)
      else inl D (ucast (fadt_pm_timer_block (acpi_mem s) (acpi_fadt s))) s)"

section \<open>Enumeration\<close>

text \<open>The callback is a function of the caller; the null pointer is \<open>None\<close>.\<close>

definition visit_io_apic ::
  "(u8 \<Rightarrow> u32 \<Rightarrow> u32 \<Rightarrow> 'a acpi_scheme \<Rightarrow> 'a acpi_scheme) \<Rightarrow> u32 \<Rightarrow> 'a acpi_scheme \<Rightarrow> 'a acpi_scheme" where
  "visit_io_apic cb entry s = (let m = acpi_mem s in
     if m entry = MADT_TYPE_IO_APIC then cb (m (entry + 2)) (load32 m (entry + 4)) (load32 m (entry + 8)) s else s)"

definition acpi_enumerate_io_apics ::
  "(u8 \<Rightarrow> u32 \<Rightarrow> u32 \<Rightarrow> 'a acpi_scheme \<Rightarrow> 'a acpi_scheme) option \<Rightarrow> 'a acpi_scheme \<Rightarrow> 'a acpi_scheme option" where
  "acpi_enumerate_io_apics callback s =
     (case callback of
        None \<Rightarrow> Some s
      | Some cb \<Rightarrow> if acpi_madt s = 0 then Some s
          else madt_walk (visit_io_apic cb) (madt_entries (acpi_madt s)) (madt_end s) s)"

definition visit_override ::
  "(u8 \<Rightarrow> u32 \<Rightarrow> u16 \<Rightarrow> 'a acpi_scheme \<Rightarrow> 'a acpi_scheme) \<Rightarrow> u32 \<Rightarrow> 'a acpi_scheme \<Rightarrow> 'a acpi_scheme" where
  "visit_override cb entry s = (let m = acpi_mem s in
     if m entry = MADT_TYPE_INT_OVERRIDE then cb (m (entry + 3)) (load32 m (entry + 4)) (load16 m (entry + 8)) s else s)"

definition acpi_enumerate_interrupt_overrides ::
  "(u8 \<Rightarrow> u32 \<Rightarrow> u16 \<Rightarrow> 'a acpi_scheme \<Rightarrow> 'a acpi_scheme) option \<Rightarrow> 'a acpi_scheme \<Rightarrow> 'a acpi_scheme option" where
  "acpi_enumerate_interrupt_overrides callback s =
     (case callback of
        None \<Rightarrow> Some s
      | Some cb \<Rightarrow> if acpi_madt s = 0 then Some s
          else madt_walk (visit_override cb) (madt_entries (acpi_madt s)) (madt_end s) s)"

section \<open>The walk\<close>

text \<open>\<open>ps\<close> are the entries from \<open>p\<close> on; the list ends at the end of the table, or \<open>stuck\<close> at an entry of length 0.\<close>

fun madt_chain :: "memory \<Rightarrow> u32 \<Rightarrow> u32 \<Rightarrow> u32 list \<Rightarrow> bool" where
  "madt_chain m p e [] = (\<not> p < e)"
| "madt_chain m p e (q # ps) = (q = p \<and> p < e \<and> madt_chain m (p + ucast (m (p + 1))) e ps)"

fun madt_stuck :: "memory \<Rightarrow> u32 \<Rightarrow> u32 \<Rightarrow> u32 list \<Rightarrow> bool" where
  "madt_stuck m p e [] = (p < e \<and> m (p + 1) = 0)"
| "madt_stuck m p e (q # ps) = (q = p \<and> p < e \<and> madt_stuck m (p + ucast (m (p + 1))) e ps)"

lemma madt_walk_chain:
  assumes "\<And>p s. acpi_mem (act p s) = acpi_mem s"
  shows "madt_chain (acpi_mem s) p e ps \<Longrightarrow> madt_walk act p e s = Some (fold act ps s)"
proof (induction ps arbitrary: p s)
  case Nil
  then show ?case by (subst madt_walk.simps) simp
next
  case (Cons q ps)
  then show ?case by (subst madt_walk.simps) (simp add: assms Let_def)
qed

text \<open>At an entry of length 0 the loop stays where it is.\<close>

lemma madt_walk_zero:
  assumes "\<forall>p s. acpi_mem (act p s) = acpi_mem s" "acpi_mem s (p + 1) = 0" "p < e"
  shows "madt_walk act p e s = None"
proof (rule ccontr)
  assume "madt_walk act p e s \<noteq> None"
  then obtain t where t: "madt_walk act p e s = Some t" by blast
  have "(\<forall>p s. acpi_mem (act p s) = acpi_mem s) \<longrightarrow> acpi_mem s (p + 1) = 0 \<longrightarrow> \<not> p < e"
  proof (rule madt_walk.raw_induct [where P = "\<lambda>act p e s t. (\<forall>p s. acpi_mem (act p s) = acpi_mem s) \<longrightarrow>
      acpi_mem s (p + 1) = 0 \<longrightarrow> \<not> p < e", OF _ t], intro impI notI)
    fix f and act :: "u32 \<Rightarrow> 'a acpi_scheme \<Rightarrow> 'a acpi_scheme" and p e s t
    assume IH: "\<And>act p e s t. f act p e s = Some t \<Longrightarrow> (\<forall>p s. acpi_mem (act p s) = acpi_mem s) \<longrightarrow>
        acpi_mem s (p + 1) = 0 \<longrightarrow> \<not> p < e"
      and eq: "(if p < e then let s = act p s in f act (p + ucast (acpi_mem s (p + 1))) e s else Some s) = Some t"
      and a: "\<forall>p s. acpi_mem (act p s) = acpi_mem s" and z: "acpi_mem s (p + 1) = 0" "p < e"
    from a z have "f act p e (act p s) = Some t" using eq by (simp add: Let_def)
    from IH [OF this] z a show False by simp
  qed
  with assms show False by blast
qed

lemma madt_walk_stuck:
  assumes "\<And>p s. acpi_mem (act p s) = acpi_mem s"
  shows "madt_stuck (acpi_mem s) p e ps \<Longrightarrow> madt_walk act p e s = None"
proof (induction ps arbitrary: p s)
  case Nil
  then show ?case by (simp add: madt_walk_zero assms)
next
  case (Cons q ps)
  then show ?case by (subst madt_walk.simps) (simp add: assms Let_def)
qed

text \<open>The enabled processors of the table.\<close>

definition lapic_enabled :: "memory \<Rightarrow> u32 \<Rightarrow> bool" where
  "lapic_enabled m p \<longleftrightarrow> m p = MADT_TYPE_LOCAL_APIC \<and> load32 m (p + 4) AND 1 \<noteq> 0"

lemma count_lapic_mem [simp]: "acpi_mem (count_lapic p s) = acpi_mem s"
  by (simp add: count_lapic_def)

lemma fold_count_lapic:
  "fold count_lapic ps s = s\<lparr>acpi_cpu_count := acpi_cpu_count s + of_nat (length (filter (lapic_enabled (acpi_mem s)) ps))\<rparr>"
proof (induction ps arbitrary: s)
  case (Cons p ps)
  have "count_lapic p s = (if lapic_enabled (acpi_mem s) p then s\<lparr>acpi_cpu_count := acpi_cpu_count s + 1\<rparr> else s)"
    by (simp add: count_lapic_def lapic_enabled_def)
  with Cons [of "count_lapic p s"] show ?case by (simp add: algebra_simps)
qed simp

section \<open>Properties\<close>

text \<open>With the root tables found, \<open>acpi_init\<close> counts the processors the MADT marks as enabled, modulo 256, whatever the
  other entries are; but one entry of length 0 before the end of the table makes it loop for ever.\<close>

lemma acpi_init_counts:
  fixes s :: "'a acpi_scheme"
  defines "m \<equiv> acpi_mem s"
  assumes "acpi_find_rsdp m \<noteq> 0" "rsdt = rsdp_rsdt_address m (acpi_find_rsdp m)" "rsdt \<noteq> 0"
    "acpi_checksum m rsdt (hdr_length m rsdt) = 0"
    "madt = acpi_find_table ''APIC'' (s\<lparr>acpi_rsdt := rsdt\<rparr>)" "madt \<noteq> 0" "acpi_cpu_count s = 0"
  shows "(madt_chain m (madt + 44) (madt + hdr_length m madt) ps \<longrightarrow>
      (\<exists>t. acpi_init s = Some t \<and> acpi_cpu_count t = of_nat (length (filter (lapic_enabled m) ps)) \<and>
        acpi_rsdt t = rsdt \<and> acpi_madt t = madt \<and> local_apic_base t = load32 m (madt + 36))) \<and>
    (madt_stuck m (madt + 44) (madt + hdr_length m madt) ps \<longrightarrow> acpi_init s = None)"
proof -
  let ?f = "acpi_find_table ''FACP'' (s\<lparr>acpi_rsdt := rsdt\<rparr>)"
  define u where "u = s\<lparr>acpi_rsdp := acpi_find_rsdp m, acpi_rsdt := rsdt, acpi_fadt := ?f, acpi_madt := madt,
      local_apic_base := load32 m (madt + 36)\<rparr>"
  have f: "acpi_find_table sig (s\<lparr>acpi_rsdp := x, acpi_rsdt := r, acpi_fadt := y\<rparr>) = acpi_find_table sig (s\<lparr>acpi_rsdt := r\<rparr>)"
    "acpi_find_table sig (s\<lparr>acpi_rsdp := x, acpi_rsdt := r\<rparr>) = acpi_find_table sig (s\<lparr>acpi_rsdt := r\<rparr>)" for sig x y r
    by (simp_all add: acpi_find_table_def Let_def cong: option.case_cong)
  have i: "acpi_init s = madt_walk count_lapic (madt + 44) (madt + hdr_length m madt) u"
    using assms(2-7) unfolding acpi_init_def Let_def u_def m_def
    by (simp add: f madt_end_def madt_entries_def madt_local_apic_address_def)
  have m: "acpi_mem u = m" by (simp add: u_def m_def)
  show ?thesis
    using madt_walk_chain [of count_lapic u "madt + 44" "madt + hdr_length m madt" ps]
      madt_walk_stuck [of count_lapic u "madt + 44" "madt + hdr_length m madt" ps] assms(8)
    unfolding i m by (auto simp: fold_count_lapic u_def m_def)
qed

text \<open>The search for the root pointer never looks into the extended BIOS data area where firmware puts it: the
  segment number at \<open>0x40E\<close> is shifted in 16 bits. If the area lies between \<open>0x10400\<close> and \<open>0xE0000\<close> and holds the only
  root pointers in memory, none is found.\<close>

lemma acpi_ebda_missed:
  assumes "0x1040 \<le> load16 m 0x40E" "load16 m 0x40E \<le> 0xDFC0"
    "\<forall>a. is_rsdp m a \<longrightarrow> ucast (load16 m 0x40E) * 16 \<le> a \<and> a < ucast (load16 m 0x40E) * 16 + 1024"
  shows "acpi_find_rsdp m = 0"
proof -
  let ?e = "load16 m 0x40E"
  have e: "0x1040 \<le> unat ?e" "unat ?e \<le> 0xDFC0" using assms(1,2) by (simp_all add: word_le_nat_alt)
  have r: "unat (ucast ?e * 16 :: u32) = unat ?e * 16"
    using e by (simp add: unat_mult_lem [THEN iffD1] unsigned_ucast_eq take_bit_nat_eq_self)
  then have r': "unat (ucast ?e * 16 + 1024 :: u32) = unat ?e * 16 + 1024"
    using e by (simp add: unat_add_lem [THEN iffD1])
  have out: "\<not> is_rsdp m a" if "unat a < 0x10400 \<or> 0xE0000 \<le> unat a" for a
    using assms(3) that e r r' by (fastforce simp: word_le_nat_alt word_less_nat_alt)
  have "\<not> is_rsdp m a" if "a \<in> set (paragraphs (ucast (push_bit 4 ?e)) 64)" for a
  proof -
    from that obtain i where i: "i < 64" "a = ucast (push_bit 4 ?e) + of_nat i * 16" by (auto simp: paragraphs_def)
    have "unat (push_bit 4 ?e) < 2 ^ 16" by (rule order_less_le_trans [OF unsigned_less]) simp
    then have u: "unat (ucast (push_bit 4 ?e) :: u32) < 2 ^ 16"
      by (simp add: unsigned_ucast_eq take_bit_nat_eq_self del: push_bit_numeral)
    have "unat (of_nat i * 16 :: u32) = i * 16" using i(1) by (simp add: unat_mult_lem [THEN iffD1] unat_of_nat)
    then have "unat a < 0x10400" using u i by (simp add: unat_add_lem [THEN iffD1])
    then show ?thesis using out by blast
  qed
  moreover have "\<not> is_rsdp m a" if "a \<in> set (paragraphs 0xE0000 8192)" for a
  proof -
    from that obtain i where i: "i < 8192" "a = 0xE0000 + of_nat i * 16" by (auto simp: paragraphs_def)
    then have "unat (of_nat i * 16 :: u32) = i * 16" by (simp add: unat_mult_lem [THEN iffD1] unat_of_nat)
    then have "0xE0000 \<le> unat a" using i by (simp add: unat_add_lem [THEN iffD1])
    then show ?thesis using out by blast
  qed
  ultimately have "find (is_rsdp m) (paragraphs (ucast (push_bit 4 ?e)) 64) = None" "find (is_rsdp m) (paragraphs 0xE0000 8192) = None"
    by (auto simp: find_None_iff)
  then show ?thesis by (simp add: acpi_find_rsdp_def Let_def)
qed

text \<open>Firmware with a root pointer at \<open>0xE0000\<close>, a root table with one entry, and a MADT with two processors, one of them
  disabled, and an I/O APIC.\<close>

definition acpi_image :: "u8 list" where
  "acpi_image = [82, 83, 68, 32, 80, 84, 82, 32, 179, 0, 0, 0, 0, 0, 0, 0, 32, 0, 14, 0, 0, 0, 0, 0, 0, 0, 0, 0, 0, 0, 0, 0,
     82, 83, 68, 84, 40, 0, 0, 0, 1, 68, 0, 0, 0, 0, 0, 0, 0, 0, 0, 0, 0, 0, 0, 0, 0, 0, 0, 0, 0, 0, 0, 0, 0, 0, 0,
     0, 72, 0, 14, 0, 65, 80, 73, 67, 72, 0, 0, 0, 1, 219, 0, 0, 0, 0, 0, 0, 0, 0, 0, 0, 0, 0, 0, 0, 0, 0, 0, 0, 0,
     0, 0, 0, 0, 0, 0, 0, 0, 0, 224, 254, 1, 0, 0, 0, 0, 8, 0, 0, 1, 0, 0, 0, 1, 12, 2, 0, 0, 0, 192, 254, 0, 0, 0,
     0, 0, 8, 1, 1, 0, 0, 0, 0]"

definition firmware :: memory where
  "firmware a = (if a - 0xE0000 < 144 then acpi_image ! unat (a - 0xE0000) else 0)"

definition acpi_start :: acpi where
  "acpi_start = \<lparr>trace = [], acpi_mem = firmware, acpi_rsdp = 0, acpi_rsdt = 0, acpi_fadt = 0, acpi_madt = 0,
     local_apic_base = 0, acpi_cpu_count = 0\<rparr>"

lemma firmware_values:
  "load16 firmware 0x40E = 0" "is_rsdp firmware 0xE0000" "load32 firmware 0xE0010 = 0xE0020"
  "load32 firmware 0xE0024 = 40" "acpi_checksum firmware 0xE0020 40 = 0" "load32 firmware 0xE0044 = 0xE0048"
  "bytes_at 0xE0048 4 firmware = cstr ''APIC''" "load32 firmware 0xE004C = 72" "acpi_checksum firmware 0xE0048 72 = 0"
  "firmware 0xE0075 = 8" "firmware 0xE007D = 12" "firmware 0xE0089 = 8"
  "lapic_enabled firmware 0xE0074" "\<not> lapic_enabled firmware 0xE007C" "\<not> lapic_enabled firmware 0xE0088"
  by code_simp+

lemma firmware_rsdp: "acpi_find_rsdp firmware = 0xE0000"
proof -
  have "paragraphs 0xE0000 8192 = 0xE0000 # map (\<lambda>i. 0xE0000 + of_nat i * 16) [1..<8192]"
    unfolding paragraphs_def by (subst upt_conv_Cons) simp_all
  then show ?thesis using firmware_values(1,2) by (simp add: acpi_find_rsdp_def Let_def)
qed

text \<open>A data area at \<open>0x9FC00\<close> that holds the root pointer.\<close>

definition ebda_memory :: memory where
  "ebda_memory a = (if a = 0x40F then 0x9F else if a = 0x40E then 0xC0
     else if a - 0x9FC10 < 20 then acpi_image ! unat (a - 0x9FC10) else 0)"

end
