(* ===== verification/Atomic.thy ===== *)
theory Atomic
  imports Spinlock
begin

text \<open>
  \<open>src/drivers/atomic.c\<close>: atomic operations on words in memory, and a spinlock built from compare-and-swap. The
  instructions with a lock prefix are single steps on the memory. The waiting loops take an argument \<open>env\<close>: what the
  other processors do to the memory before the \<open>k\<close>-th round. \<open>cas_step\<close> and \<open>ticket_step\<close> interleave any number of
  processors that run the lock and the increment, one memory access per step.
\<close>

record atomic = machine +
  a_mem :: memory
  atomic_supported :: u8
  cmpxchg_supported :: u8
  cmpxchg8b_supported :: u8
  cmpxchg16b_supported :: u8
  pause_supported :: u8
  monitor_mwait_supported :: u8
  smp_system :: u8
  cpu_count :: u32
  cache_line_size :: u32

section \<open>Detection\<close>

text \<open>\<open>n\<close> is the number of logical processors the topology driver has found.\<close>

definition atomic_detect_capabilities :: "device \<Rightarrow> u8 \<Rightarrow> 'a atomic_scheme \<Rightarrow> 'a atomic_scheme" where
  "atomic_detect_capabilities D n s =
     (let ((eax, ebx, ecx, edx), s) = cpuid D 1 s;
          s = s\<lparr>cmpxchg_supported := c_bool (edx AND push_bit 8 1 \<noteq> 0)\<rparr>;
          s = s\<lparr>cmpxchg8b_supported := c_bool (edx AND push_bit 8 1 \<noteq> 0)\<rparr>;
          s = s\<lparr>cmpxchg16b_supported := c_bool (ecx AND push_bit 13 1 \<noteq> 0)\<rparr>;
          s = s\<lparr>monitor_mwait_supported := c_bool (ecx AND push_bit 3 1 \<noteq> 0)\<rparr>;
          s = s\<lparr>pause_supported := 1\<rparr>;
          s = s\<lparr>cpu_count := ucast n\<rparr>;
          s = s\<lparr>smp_system := c_bool (cpu_count s > 1)\<rparr>;
          s = s\<lparr>cache_line_size := (drop_bit 8 ebx AND 0xFF) * 8\<rparr>;
          s = (if cache_line_size s = 0 then s\<lparr>cache_line_size := 64\<rparr> else s)
      in s\<lparr>atomic_supported := 1\<rparr>)"

definition atomic_init :: "device \<Rightarrow> u8 \<Rightarrow> 'a atomic_scheme \<Rightarrow> 'a atomic_scheme" where
  "atomic_init D n s = atomic_detect_capabilities D n
     (s\<lparr>atomic_supported := 0, cmpxchg_supported := 0, cmpxchg8b_supported := 0, cmpxchg16b_supported := 0,
        pause_supported := 0, monitor_mwait_supported := 0, smp_system := 0, cpu_count := 1, cache_line_size := 64\<rparr>)"

definition atomic_is_supported :: "'a atomic_scheme \<Rightarrow> u8" where "atomic_is_supported s = atomic_supported s"
definition atomic_is_smp_system :: "'a atomic_scheme \<Rightarrow> u8" where "atomic_is_smp_system s = smp_system s"
definition atomic_get_cpu_count :: "'a atomic_scheme \<Rightarrow> u32" where "atomic_get_cpu_count s = cpu_count s"
definition atomic_get_cache_line_size :: "'a atomic_scheme \<Rightarrow> u32" where "atomic_get_cache_line_size s = cache_line_size s"

section \<open>Locked instructions\<close>

text \<open>\<open>lock cmpxchg\<close>: the old word, which ends up in the accumulator, and the word afterwards.\<close>

definition cmpxchg :: "'w::len word \<Rightarrow> 'w word \<Rightarrow> 'w word \<Rightarrow> 'w word \<times> 'w word" where
  "cmpxchg accumulator desired w = (w, if w = accumulator then desired else w)"

text \<open>A read-modify-write of the word at \<open>ptr\<close>.\<close>

definition rmw :: "(u32 \<Rightarrow> u32) \<Rightarrow> u32 \<Rightarrow> 'a atomic_scheme \<Rightarrow> 'a atomic_scheme" where
  "rmw f ptr s = s\<lparr>a_mem := store32 (a_mem s) ptr (f (load32 (a_mem s) ptr))\<rparr>"

definition atomic_load_u32 :: "u32 \<Rightarrow> 'a atomic_scheme \<Rightarrow> u32" where
  "atomic_load_u32 ptr s = load32 (a_mem s) ptr"

definition atomic_load_u64 :: "u32 \<Rightarrow> 'a atomic_scheme \<Rightarrow> u64 \<times> 'a atomic_scheme" where
  "atomic_load_u64 ptr s =
     (if cmpxchg8b_supported s \<noteq> 0
      then (let (result, w) = cmpxchg 0 0 (load64 (a_mem s) ptr) in (result, s\<lparr>a_mem := store64 (a_mem s) ptr w\<rparr>))
      else (load64 (a_mem s) ptr, s))"

definition atomic_store_u32 :: "u32 \<Rightarrow> u32 \<Rightarrow> 'a atomic_scheme \<Rightarrow> 'a atomic_scheme" where
  "atomic_store_u32 ptr v s = s\<lparr>a_mem := store32 (a_mem s) ptr v\<rparr>"

definition atomic_exchange_u32 :: "u32 \<Rightarrow> u32 \<Rightarrow> 'a atomic_scheme \<Rightarrow> u32 \<times> 'a atomic_scheme" where
  "atomic_exchange_u32 ptr v s = (load32 (a_mem s) ptr, s\<lparr>a_mem := store32 (a_mem s) ptr v\<rparr>)"

text \<open>The result, the new value of \<open>*expected\<close>, and the state.\<close>

definition atomic_compare_exchange_u32 :: "u32 \<Rightarrow> u32 \<Rightarrow> u32 \<Rightarrow> 'a atomic_scheme \<Rightarrow> (u8 \<times> u32) \<times> 'a atomic_scheme" where
  "atomic_compare_exchange_u32 ptr expected desired s =
     (let (result, w) = cmpxchg expected desired (load32 (a_mem s) ptr)
      in ((c_bool (result = expected), result), s\<lparr>a_mem := store32 (a_mem s) ptr w\<rparr>))"

definition atomic_compare_exchange_u64 :: "u32 \<Rightarrow> u64 \<Rightarrow> u64 \<Rightarrow> 'a atomic_scheme \<Rightarrow> (u8 \<times> u64) \<times> 'a atomic_scheme" where
  "atomic_compare_exchange_u64 ptr expected desired s =
     (if cmpxchg8b_supported s = 0 then ((0, expected), s)
      else
        (let (result, w) = cmpxchg expected desired (load64 (a_mem s) ptr)
         in ((c_bool (result = expected), result), s\<lparr>a_mem := store64 (a_mem s) ptr w\<rparr>)))"

text \<open>The other processors change the memory between the load and the compare-and-swap of round \<open>k\<close>.\<close>

definition others :: "(nat \<Rightarrow> memory \<Rightarrow> memory) \<Rightarrow> nat \<Rightarrow> 'a atomic_scheme \<Rightarrow> 'a atomic_scheme" where
  "others env k s = s\<lparr>a_mem := env k (a_mem s)\<rparr>"

partial_function (option) store_u64_loop ::
  "(nat \<Rightarrow> memory \<Rightarrow> memory) \<Rightarrow> nat \<Rightarrow> u32 \<Rightarrow> u64 \<Rightarrow> 'a atomic_scheme \<Rightarrow> 'a atomic_scheme option" where
  "store_u64_loop env k ptr v s =
     (let (old, s) = atomic_load_u64 ptr s;
          s = others env k s;
          ((ok, e), s) = atomic_compare_exchange_u64 ptr old v s
      in if ok = 0 then store_u64_loop env (Suc k) ptr v s else Some s)"

definition atomic_store_u64 :: "(nat \<Rightarrow> memory \<Rightarrow> memory) \<Rightarrow> u32 \<Rightarrow> u64 \<Rightarrow> 'a atomic_scheme \<Rightarrow> 'a atomic_scheme option" where
  "atomic_store_u64 env ptr v s =
     (if cmpxchg8b_supported s \<noteq> 0 then store_u64_loop env 0 ptr v s
      else Some (s\<lparr>a_mem := store64 (a_mem s) ptr v\<rparr>))"

text \<open>The arithmetic: a locked update, then a plain read of the word, with what the others have done in between.\<close>

definition rmw_fetch :: "(u32 \<Rightarrow> u32) \<Rightarrow> (memory \<Rightarrow> memory) \<Rightarrow> u32 \<Rightarrow> 'a atomic_scheme \<Rightarrow> u32 \<times> 'a atomic_scheme" where
  "rmw_fetch f env ptr s =
     (let s = rmw f ptr s; s = s\<lparr>a_mem := env (a_mem s)\<rparr> in (load32 (a_mem s) ptr, s))"

definition atomic_add_u32 :: "(memory \<Rightarrow> memory) \<Rightarrow> u32 \<Rightarrow> u32 \<Rightarrow> 'a atomic_scheme \<Rightarrow> u32 \<times> 'a atomic_scheme" where
  "atomic_add_u32 env ptr v s = rmw_fetch (\<lambda>w. w + v) env ptr s"

definition atomic_sub_u32 :: "(memory \<Rightarrow> memory) \<Rightarrow> u32 \<Rightarrow> u32 \<Rightarrow> 'a atomic_scheme \<Rightarrow> u32 \<times> 'a atomic_scheme" where
  "atomic_sub_u32 env ptr v s = rmw_fetch (\<lambda>w. w - v) env ptr s"

definition atomic_inc_u32 :: "(memory \<Rightarrow> memory) \<Rightarrow> u32 \<Rightarrow> 'a atomic_scheme \<Rightarrow> u32 \<times> 'a atomic_scheme" where
  "atomic_inc_u32 env ptr s = rmw_fetch (\<lambda>w. w + 1) env ptr s"

definition atomic_dec_u32 :: "(memory \<Rightarrow> memory) \<Rightarrow> u32 \<Rightarrow> 'a atomic_scheme \<Rightarrow> u32 \<times> 'a atomic_scheme" where
  "atomic_dec_u32 env ptr s = rmw_fetch (\<lambda>w. w - 1) env ptr s"

definition atomic_and_u32 :: "(memory \<Rightarrow> memory) \<Rightarrow> u32 \<Rightarrow> u32 \<Rightarrow> 'a atomic_scheme \<Rightarrow> u32 \<times> 'a atomic_scheme" where
  "atomic_and_u32 env ptr v s = rmw_fetch (\<lambda>w. w AND v) env ptr s"

definition atomic_or_u32 :: "(memory \<Rightarrow> memory) \<Rightarrow> u32 \<Rightarrow> u32 \<Rightarrow> 'a atomic_scheme \<Rightarrow> u32 \<times> 'a atomic_scheme" where
  "atomic_or_u32 env ptr v s = rmw_fetch (\<lambda>w. w OR v) env ptr s"

definition atomic_xor_u32 :: "(memory \<Rightarrow> memory) \<Rightarrow> u32 \<Rightarrow> u32 \<Rightarrow> 'a atomic_scheme \<Rightarrow> u32 \<times> 'a atomic_scheme" where
  "atomic_xor_u32 env ptr v s = rmw_fetch (\<lambda>w. w XOR v) env ptr s"

section \<open>Barriers and pauses\<close>

definition atomic_memory_barrier :: "'a atomic_scheme \<Rightarrow> 'a atomic_scheme" where
  "atomic_memory_barrier s = insn (Asm ''mfence'' []) s"

definition atomic_read_barrier :: "'a atomic_scheme \<Rightarrow> 'a atomic_scheme" where
  "atomic_read_barrier s = insn (Asm ''lfence'' []) s"

definition atomic_write_barrier :: "'a atomic_scheme \<Rightarrow> 'a atomic_scheme" where
  "atomic_write_barrier s = insn (Asm ''sfence'' []) s"

definition atomic_compiler_barrier :: "'a atomic_scheme \<Rightarrow> 'a atomic_scheme" where
  "atomic_compiler_barrier s = s"

definition atomic_pause :: "'a atomic_scheme \<Rightarrow> 'a atomic_scheme" where
  "atomic_pause s = insn (Asm (if pause_supported s \<noteq> 0 then ''pause'' else ''rep nop'') []) s"

definition atomic_cpu_relax :: "'a atomic_scheme \<Rightarrow> 'a atomic_scheme" where
  "atomic_cpu_relax s = atomic_pause s"

definition atomic_monitor :: "u32 \<Rightarrow> 'a atomic_scheme \<Rightarrow> 'a atomic_scheme" where
  "atomic_monitor addr s = (if monitor_mwait_supported s = 0 then s else insn (Asm ''monitor'' [ucast addr, 0, 0]) s)"

definition atomic_mwait :: "u32 \<Rightarrow> u32 \<Rightarrow> 'a atomic_scheme \<Rightarrow> 'a atomic_scheme" where
  "atomic_mwait hints extensions s =
     (if monitor_mwait_supported s = 0 then s else insn (Asm ''mwait'' [ucast hints, ucast extensions]) s)"

text \<open>The memory may change before every load of the loop.\<close>

partial_function (option) wait_change_loop ::
  "(nat \<Rightarrow> memory \<Rightarrow> memory) \<Rightarrow> nat \<Rightarrow> u32 \<Rightarrow> u32 \<Rightarrow> 'a atomic_scheme \<Rightarrow> 'a atomic_scheme option" where
  "wait_change_loop env k addr expected_value s =
     (let s = others env k s
      in if atomic_load_u32 addr s = expected_value then
           (if monitor_mwait_supported s \<noteq> 0 then
              (let s = others env (Suc k) (atomic_monitor addr s);
                   s = (if atomic_load_u32 addr s = expected_value then atomic_mwait 0 0 s else s)
               in wait_change_loop env (Suc (Suc k)) addr expected_value s)
            else wait_change_loop env (Suc k) addr expected_value (atomic_pause s))
         else Some s)"

definition atomic_wait_for_change ::
  "(nat \<Rightarrow> memory \<Rightarrow> memory) \<Rightarrow> u32 \<Rightarrow> u32 \<Rightarrow> 'a atomic_scheme \<Rightarrow> 'a atomic_scheme option" where
  "atomic_wait_for_change env addr expected_value s = wait_change_loop env 0 addr expected_value s"

section \<open>The spinlock\<close>

text \<open>The structure: the lock word, the owner and the recursion count.\<close>

definition lock_owner :: "u32 \<Rightarrow> u32" where "lock_owner lock = lock + 4"
definition lock_recursion :: "u32 \<Rightarrow> u32" where "lock_recursion lock = lock + 8"

definition atomic_spinlock_init :: "u32 \<Rightarrow> 'a atomic_scheme \<Rightarrow> 'a atomic_scheme" where
  "atomic_spinlock_init lock s =
     (let s = s\<lparr>a_mem := store32 (a_mem s) lock 0\<rparr>;
          s = s\<lparr>a_mem := store32 (a_mem s) (lock_owner lock) 0xFFFFFFFF\<rparr>
      in s\<lparr>a_mem := store32 (a_mem s) (lock_recursion lock) 0\<rparr>)"

text \<open>The inner loop reads until the word is 0; \<open>k\<close> counts the accesses. It returns the count as well.\<close>

partial_function (option) spin_until_free ::
  "(nat \<Rightarrow> memory \<Rightarrow> memory) \<Rightarrow> nat \<Rightarrow> u32 \<Rightarrow> 'a atomic_scheme \<Rightarrow> (nat \<times> 'a atomic_scheme) option" where
  "spin_until_free env k lock s =
     (let s = others env k s
      in if atomic_load_u32 lock s \<noteq> 0 then spin_until_free env (Suc k) lock (atomic_pause s) else Some (Suc k, s))"

partial_function (option) spinlock_loop ::
  "(nat \<Rightarrow> memory \<Rightarrow> memory) \<Rightarrow> nat \<Rightarrow> u32 \<Rightarrow> 'a atomic_scheme \<Rightarrow> 'a atomic_scheme option" where
  "spinlock_loop env k lock s =
     (let s = others env k s;
          ((ok, e), s) = atomic_compare_exchange_u32 lock 0 1 s
      in if ok \<noteq> 0 then Some (atomic_memory_barrier s)
         else do { (k, s) \<leftarrow> spin_until_free env (Suc k) lock s; spinlock_loop env k lock s })"

definition atomic_spinlock_acquire :: "(nat \<Rightarrow> memory \<Rightarrow> memory) \<Rightarrow> u32 \<Rightarrow> 'a atomic_scheme \<Rightarrow> 'a atomic_scheme option" where
  "atomic_spinlock_acquire env lock s = spinlock_loop env 0 lock s"

definition atomic_spinlock_try_acquire :: "u32 \<Rightarrow> 'a atomic_scheme \<Rightarrow> u8 \<times> 'a atomic_scheme" where
  "atomic_spinlock_try_acquire lock s =
     (let ((ok, e), s) = atomic_compare_exchange_u32 lock 0 1 s
      in if ok \<noteq> 0 then (1, atomic_memory_barrier s) else (0, s))"

definition atomic_spinlock_release :: "u32 \<Rightarrow> 'a atomic_scheme \<Rightarrow> 'a atomic_scheme" where
  "atomic_spinlock_release lock s = atomic_store_u32 lock 0 (atomic_memory_barrier s)"

definition atomic_spinlock_is_locked :: "u32 \<Rightarrow> 'a atomic_scheme \<Rightarrow> u8" where
  "atomic_spinlock_is_locked lock s = c_bool (atomic_load_u32 lock s \<noteq> 0)"

section \<open>Cache lines and bits\<close>

definition atomic_is_cache_aligned :: "u32 \<Rightarrow> 'a atomic_scheme \<Rightarrow> u8" where
  "atomic_is_cache_aligned ptr s = c_bool (ptr AND (cache_line_size s - 1) = 0)"

definition atomic_align_to_cache_line :: "u32 \<Rightarrow> 'a atomic_scheme \<Rightarrow> u32" where
  "atomic_align_to_cache_line sz s = (sz + cache_line_size s - 1) AND NOT (cache_line_size s - 1)"

text \<open>The bit instructions with a memory operand take the bit number as a signed offset from the address: the word
  they access is \<open>bit\<close> shifted right by five words away.\<close>

definition bit_word :: "u32 \<Rightarrow> u32 \<Rightarrow> u32" where
  "bit_word ptr b = ptr + signed_drop_bit 5 b * 4"

definition atomic_test_and_set_bit :: "u32 \<Rightarrow> u32 \<Rightarrow> 'a atomic_scheme \<Rightarrow> u8 \<times> 'a atomic_scheme" where
  "atomic_test_and_set_bit ptr b s =
     (let n = unat (b AND 31); w = load32 (a_mem s) (bit_word ptr b)
      in (c_bool (bit w n), rmw (\<lambda>w. w OR push_bit n 1) (bit_word ptr b) s))"

definition atomic_test_and_clear_bit :: "u32 \<Rightarrow> u32 \<Rightarrow> 'a atomic_scheme \<Rightarrow> u8 \<times> 'a atomic_scheme" where
  "atomic_test_and_clear_bit ptr b s =
     (let n = unat (b AND 31); w = load32 (a_mem s) (bit_word ptr b)
      in (c_bool (bit w n), rmw (\<lambda>w. w AND NOT (push_bit n 1)) (bit_word ptr b) s))"

definition atomic_test_bit :: "u32 \<Rightarrow> u32 \<Rightarrow> 'a atomic_scheme \<Rightarrow> u8" where
  "atomic_test_bit ptr b s = c_bool (bit (load32 (a_mem s) (bit_word ptr b)) (unat (b AND 31)))"

section \<open>One processor\<close>

lemma atomic_compare_exchange_u32_run:
  "atomic_compare_exchange_u32 ptr e d s = (let w = load32 (a_mem s) ptr in
     ((c_bool (w = e), w), s\<lparr>a_mem := store32 (a_mem s) ptr (if w = e then d else w)\<rparr>))"
  by (simp add: atomic_compare_exchange_u32_def cmpxchg_def Let_def)

text \<open>Whoever returns from the lock has left 1 in its word, whatever the others did meanwhile.\<close>

lemma atomic_spinlock_acquire_sets:
  assumes "atomic_spinlock_acquire env lock s = Some t"
  shows "load32 (a_mem t) lock = 1"
  using assms unfolding atomic_spinlock_acquire_def
proof (rule spinlock_loop.raw_induct [where P = "\<lambda>env k lock s t. load32 (a_mem t) lock = 1", rotated])
  fix f and env :: "nat \<Rightarrow> memory \<Rightarrow> memory" and k lock and s t :: "'a atomic_scheme"
  assume IH: "\<And>env k lock s t. f env k lock s = Some t \<Longrightarrow> load32 (a_mem t) lock = 1"
    and eq: "(let s = others env k s; ((ok, e), s) = atomic_compare_exchange_u32 lock 0 1 s
      in if ok \<noteq> 0 then Some (atomic_memory_barrier s)
         else do { (k, s) \<leftarrow> spin_until_free env (Suc k) lock s; f env k lock s }) = Some t"
  show "load32 (a_mem t) lock = 1"
  proof (cases "load32 (a_mem (others env k s)) lock = 0")
    case True
    with eq show ?thesis
      by (auto simp: atomic_compare_exchange_u32_run Let_def atomic_memory_barrier_def insn_def)
  next
    case False
    with eq show ?thesis
      by (auto simp: atomic_compare_exchange_u32_run Let_def bind_eq_Some_conv dest: IH)
  qed
qed

text \<open>A free lock is taken at once, and \<open>try_acquire\<close> says which of the two cases it met.\<close>

lemma atomic_spinlock_acquire_free:
  assumes "load32 (env 0 (a_mem s)) lock = 0"
  shows "\<exists>t. atomic_spinlock_acquire env lock s = Some t"
  unfolding atomic_spinlock_acquire_def using assms
  by (subst spinlock_loop.simps) (simp add: atomic_compare_exchange_u32_run Let_def others_def)

lemma atomic_spinlock_try_acquire_result:
  "fst (atomic_spinlock_try_acquire lock s) = c_bool (load32 (a_mem s) lock = 0) \<and>
   load32 (a_mem (snd (atomic_spinlock_try_acquire lock s))) lock = (if load32 (a_mem s) lock = 0 then 1 else load32 (a_mem s) lock)"
  by (simp add: atomic_spinlock_try_acquire_def atomic_compare_exchange_u32_run Let_def atomic_memory_barrier_def insn_def)

lemma atomic_spinlock_release_frees: "load32 (a_mem (atomic_spinlock_release lock s)) lock = 0"
  by (simp add: atomic_spinlock_release_def atomic_store_u32_def)

text \<open>With nobody else at work a 64-bit store ends after one round.\<close>

lemma atomic_store_u64_alone:
  "\<exists>t. atomic_store_u64 (\<lambda>_ m. m) ptr v s = Some t \<and> load64 (a_mem t) ptr = v"
proof (cases "cmpxchg8b_supported s = 0")
  case False
  then show ?thesis unfolding atomic_store_u64_def
    by (subst store_u64_loop.simps) (simp add: atomic_load_u64_def atomic_compare_exchange_u64_def cmpxchg_def others_def Let_def)
qed (simp add: atomic_store_u64_def)

text \<open>A bit number below 32 means a bit of the word itself; from 32 on another word is changed.\<close>

lemma atomic_test_and_set_bit_word:
  assumes "unat b < 32"
  shows "atomic_test_and_set_bit ptr b s = (let w = load32 (a_mem s) ptr in
    (c_bool (bit w (unat b)), s\<lparr>a_mem := store32 (a_mem s) ptr (w OR push_bit (unat b) 1)\<rparr>))"
proof -
  have "b AND 31 = take_bit 5 b" by (simp add: take_bit_eq_mask mask_eq_exp_minus_1)
  then have "b AND 31 = b" using take_bit_small [of b 5] assms by simp
  moreover have "signed_drop_bit 5 b = 0"
  proof (rule bit_word_eqI)
    fix n assume "n < LENGTH(32)"
    have "take_bit 5 b = b" using assms by (intro take_bit_small) simp
    then have "\<not> bit b k" if "5 \<le> k" for k using that by (metis bit_take_bit_iff not_less)
    then show "bit (signed_drop_bit 5 b) n = bit 0 n" by (simp add: bit_simps)
  qed
  ultimately show ?thesis by (simp add: atomic_test_and_set_bit_def bit_word_def rmw_def Let_def)
qed

section \<open>Any number of processors\<close>

text \<open>The lock, on the states of \<open>Spinlock\<close>; \<open>attempt_once\<close> is \<open>atomic_spinlock_try_acquire\<close>.\<close>

inductive cas_step :: "spin_sys \<Rightarrow> spin_sys \<Rightarrow> bool" where
  enter: "pc s i = Outside \<Longrightarrow> cas_step s (s\<lparr>pc := (pc s)(i := Testing)\<rparr>)"
| attempt: "pc s i = Testing \<Longrightarrow> cmpxchg 0 1 (word s) = (old, new) \<Longrightarrow>
    cas_step s (s\<lparr>word := new, pc := (pc s)(i := (if old = 0 then Holding else Waiting))\<rparr>)"
| spin: "pc s i = Waiting \<Longrightarrow>
    cas_step s (s\<lparr>pc := (pc s)(i := (if word s \<noteq> 0 then Waiting else Testing))\<rparr>)"
| attempt_once: "pc s i = Outside \<Longrightarrow> cmpxchg 0 1 (word s) = (old, new) \<Longrightarrow>
    cas_step s (s\<lparr>word := new, pc := (pc s)(i := (if old = 0 then Holding else Outside))\<rparr>)"
| release: "pc s i = Holding \<Longrightarrow> cas_step s (s\<lparr>word := 0, pc := (pc s)(i := Outside)\<rparr>)"

inductive_cases cas_stepE: "cas_step s t"

text \<open>Every step is a run of the test-and-set lock.\<close>

lemma test_set_step:
  assumes "spin_inv s" "pc s i = Testing" "cmpxchg 0 1 (word s) = (old, new)"
  shows "spin_step s (s\<lparr>word := new, pc := (pc s)(i := (if old = 0 then Holding else Waiting))\<rparr>)"
proof -
  have "test_and_set (word s) 1 = (old, new)"
    using assms(1,3) by (auto simp: test_and_set_def cmpxchg_def spin_inv_def)
  from spin_step.test_set [OF assms(2) this] show ?thesis by (cases "old = 0") simp_all
qed

lemma cas_step_spin:
  assumes "cas_step s t" "spin_inv s"
  shows "spin_step\<^sup>*\<^sup>* s t"
  using assms(1)
proof cases
  case (enter i)
  then show ?thesis using spin_step.enter by blast
next
  case (attempt i old new)
  then show ?thesis using test_set_step [OF assms(2)] by blast
next
  case (spin i)
  then show ?thesis using spin_step.wait by blast
next
  case (attempt_once i old new)
  show ?thesis
  proof (cases "old = 0")
    case True
    let ?u = "s\<lparr>pc := (pc s)(i := Testing)\<rparr>"
    have "spin_step s ?u" using attempt_once(2) by (rule spin_step.enter)
    moreover have "spin_inv ?u" using assms(2) \<open>spin_step s ?u\<close> by (rule spin_step_inv)
    from test_set_step [OF this, of i old new] have "spin_step ?u t" using attempt_once True by simp
    ultimately show ?thesis by (rule converse_rtranclp_into_rtranclp [OF _ r_into_rtranclp])
  next
    case False
    then have "t = s" using attempt_once by (cases s) (auto simp: cmpxchg_def)
    then show ?thesis by simp
  qed
next
  case (release i)
  then show ?thesis using spin_step.release [of s i] by auto
qed

lemma cas_step_inv: "spin_inv s \<Longrightarrow> cas_step s t \<Longrightarrow> spin_inv t"
  using cas_step_spin spin.run_inv by blast

interpretation cas: invariant_system spin_start cas_step spin_inv
  by unfold_locales (erule spin_start_inv, erule (1) cas_step_inv)

lemma cas_run_spin:
  assumes "spin_start s" "cas_step\<^sup>*\<^sup>* s t"
  shows "spin_step\<^sup>*\<^sup>* s t"
  using assms(2)
proof (induction rule: rtranclp_induct)
  case (step t u)
  have "spin_inv t" using assms(1) step(1) by (rule cas.reachable_inv)
  with step show ?case using cas_step_spin by (meson rtranclp_trans)
qed simp

text \<open>The increment: a locked addition, then the plain read that gives the result.\<close>

datatype ticket_pc = Fresh | Added | Got u32

record ticket_sys =
  counter :: u32
  phase :: "nat \<Rightarrow> ticket_pc"

inductive ticket_step :: "ticket_sys \<Rightarrow> ticket_sys \<Rightarrow> bool" where
  add: "phase s i = Fresh \<Longrightarrow> ticket_step s (s\<lparr>counter := counter s + 1, phase := (phase s)(i := Added)\<rparr>)"
| fetch: "phase s i = Added \<Longrightarrow> ticket_step s (s\<lparr>phase := (phase s)(i := Got (counter s))\<rparr>)"

definition ticket_start :: "u32 \<Rightarrow> ticket_sys \<Rightarrow> bool" where
  "ticket_start c s \<longleftrightarrow> counter s = c \<and> (\<forall>i. phase s i = Fresh)"

definition busy :: "ticket_sys \<Rightarrow> nat set" where
  "busy s = {i. phase s i \<noteq> Fresh}"

definition ticket_inv :: "u32 \<Rightarrow> ticket_sys \<Rightarrow> bool" where
  "ticket_inv c s \<longleftrightarrow> finite (busy s) \<and> counter s = c + of_nat (card (busy s))"

interpretation ticket: invariant_system "ticket_start c" ticket_step "ticket_inv c" for c
proof
  show "ticket_inv c s" if "ticket_start c s" for s using that by (simp add: ticket_start_def ticket_inv_def busy_def)
  show "ticket_inv c t" if inv: "ticket_inv c s" and "ticket_step s t" for s t
    using that(2)
  proof cases
    case (add i)
    then have "busy t = insert i (busy s)" "i \<notin> busy s" by (auto simp: busy_def)
    with inv add show ?thesis by (simp add: ticket_inv_def algebra_simps)
  next
    case (fetch i)
    then have "busy t = busy s" by (auto simp: busy_def)
    with inv fetch show ?thesis by (simp add: ticket_inv_def)
  qed
qed

text \<open>The code of one processor, with one increment of another in between.\<close>

lemma atomic_inc_u32_overlap:
  assumes "w = load32 (a_mem s) ptr"
  shows "fst (atomic_inc_u32 (\<lambda>m. m) ptr s) = w + 1"
    and "fst (atomic_inc_u32 (\<lambda>m. store32 m ptr (load32 m ptr + 1)) ptr s) = w + 2"
  using assms by (simp_all add: atomic_inc_u32_def rmw_fetch_def rmw_def Let_def)

text \<open>The steps are those of the code: where the word at \<open>lock\<close> is that of the system, each locked instruction or load of
  \<open>atomic_spinlock_acquire\<close>, \<open>try_acquire\<close> and \<open>release\<close> on processor \<open>i\<close> is a step of \<open>cas_step\<close>, to the word it
  leaves and the branch it takes.\<close>

lemma atomic_spinlock_steps:
  assumes "load32 (a_mem s) lock = word u"
  shows "pc u i = Testing \<Longrightarrow> atomic_compare_exchange_u32 lock 0 1 s = ((ok, e), t) \<Longrightarrow>
      cas_step u (u\<lparr>word := load32 (a_mem t) lock, pc := (pc u)(i := (if ok \<noteq> 0 then Holding else Waiting))\<rparr>)"
    and "pc u i = Waiting \<Longrightarrow>
      cas_step u (u\<lparr>pc := (pc u)(i := (if atomic_load_u32 lock s \<noteq> 0 then Waiting else Testing))\<rparr>)"
    and "pc u i = Outside \<Longrightarrow> atomic_spinlock_try_acquire lock s = (ok, t) \<Longrightarrow>
      cas_step u (u\<lparr>word := load32 (a_mem t) lock, pc := (pc u)(i := (if ok \<noteq> 0 then Holding else Outside))\<rparr>)"
    and "pc u i = Holding \<Longrightarrow>
      cas_step u (u\<lparr>word := load32 (a_mem (atomic_spinlock_release lock s)) lock, pc := (pc u)(i := Outside)\<rparr>)"
proof -
  show "cas_step u (u\<lparr>word := load32 (a_mem t) lock, pc := (pc u)(i := (if ok \<noteq> 0 then Holding else Waiting))\<rparr>)"
    if "pc u i = Testing" "atomic_compare_exchange_u32 lock 0 1 s = ((ok, e), t)"
    using cas_step.attempt [OF that(1), of "word u" "if word u = 0 then 1 else word u"] that(2) assms
    by (auto simp: cmpxchg_def atomic_compare_exchange_u32_def Let_def c_bool_def)
  show "cas_step u (u\<lparr>pc := (pc u)(i := (if atomic_load_u32 lock s \<noteq> 0 then Waiting else Testing))\<rparr>)" if "pc u i = Waiting"
    using cas_step.spin [OF that] assms by (simp add: atomic_load_u32_def)
  show "cas_step u (u\<lparr>word := load32 (a_mem t) lock, pc := (pc u)(i := (if ok \<noteq> 0 then Holding else Outside))\<rparr>)"
    if "pc u i = Outside" "atomic_spinlock_try_acquire lock s = (ok, t)"
    using cas_step.attempt_once [OF that(1), of "word u" "if word u = 0 then 1 else word u"] that(2) assms
      atomic_spinlock_try_acquire_result [of lock s]
    by (auto simp: cmpxchg_def c_bool_def split: if_splits)
  show "cas_step u (u\<lparr>word := load32 (a_mem (atomic_spinlock_release lock s)) lock, pc := (pc u)(i := Outside)\<rparr>)"
    if "pc u i = Holding" using cas_step.release [OF that] by (simp add: atomic_spinlock_release_frees)
qed

text \<open>Likewise the two halves of \<open>atomic_inc_u32\<close> on processor \<open>i\<close>: the locked increment takes \<open>u\<close> to \<open>u'\<close>, the others
  take \<open>u'\<close> to \<open>v\<close>, in the memory what \<open>env\<close> does, and the plain read of the word there is the result.\<close>

lemma atomic_inc_u32_steps:
  assumes "load32 (a_mem s) ptr = counter u" "phase u i = Fresh" "phase v i = Added"
    and "load32 (env (a_mem (rmw (\<lambda>w. w + 1) ptr s))) ptr = counter v"
  shows "ticket_step u (u\<lparr>counter := load32 (a_mem (rmw (\<lambda>w. w + 1) ptr s)) ptr, phase := (phase u)(i := Added)\<rparr>)"
    and "ticket_step v (v\<lparr>phase := (phase v)(i := Got (fst (atomic_inc_u32 env ptr s)))\<rparr>)"
  using assms ticket_step.add [OF assms(2)] ticket_step.fetch [OF assms(3)]
  by (simp_all add: rmw_def atomic_inc_u32_def rmw_fetch_def Let_def)

section \<open>Properties\<close>

text \<open>C24: The compare-and-swap lock, with \<open>try_acquire\<close>, implements the test-and-set lock: every interleaving of any number
  of processors is a run of that lock, and at most one processor holds it.\<close>

theorem atomic_lock_refines:
  assumes "spin_start s" "cas_step\<^sup>*\<^sup>* s t"
  shows "spin_step\<^sup>*\<^sup>* s t \<and> (\<forall>i j. pc t i = Holding \<and> pc t j = Holding \<longrightarrow> i = j)"
  using cas_run_spin [OF assms] cas.reachable_inv [OF assms] by (auto simp: spin_inv_def)

definition tried_sys :: spin_sys where
  "tried_sys = idle_sys\<lparr>word := 1, pc := (pc idle_sys)(3 := Holding)\<rparr>"

lemma atomic_lock_refines_witness: "spin_step\<^sup>*\<^sup>* idle_sys tried_sys"
proof -
  have "cas_step idle_sys (idle_sys\<lparr>word := 1, pc := (pc idle_sys)(3 := (if (0 :: u32) = 0 then Holding else Outside))\<rparr>)"
    by (rule cas_step.attempt_once) (simp_all add: idle_sys_def cmpxchg_def)
  then have "cas_step\<^sup>*\<^sup>* idle_sys tried_sys" by (simp add: tried_sys_def)
  moreover have "spin_start idle_sys" by (simp add: spin_start_def idle_sys_def)
  ultimately show ?thesis using atomic_lock_refines by blast
qed

text \<open>C25: No increment is lost when processors increment a word at the same time: it has grown by the number of them that
  have passed the addition. But the result is read back separately: two processors can get the same value.\<close>

theorem atomic_inc_interleaved:
  assumes "ticket_start c s"
  shows "(\<forall>t. ticket_step\<^sup>*\<^sup>* s t \<longrightarrow> finite (busy t) \<and> counter t = c + of_nat (card (busy t))) \<and>
    (\<exists>t. ticket_step\<^sup>*\<^sup>* s t \<and> phase t 0 = Got (c + 2) \<and> phase t 1 = Got (c + 2))"
proof
  show "\<forall>t. ticket_step\<^sup>*\<^sup>* s t \<longrightarrow> finite (busy t) \<and> counter t = c + of_nat (card (busy t))"
    using ticket.reachable_inv [OF assms] by (simp add: ticket_inv_def)
  let ?s1 = "s\<lparr>counter := counter s + 1, phase := (phase s)(0 := Added)\<rparr>"
  let ?s2 = "?s1\<lparr>counter := counter ?s1 + 1, phase := (phase ?s1)(1 := Added)\<rparr>"
  let ?s3 = "?s2\<lparr>phase := (phase ?s2)(0 := Got (counter ?s2))\<rparr>"
  let ?s4 = "?s3\<lparr>phase := (phase ?s3)(1 := Got (counter ?s3))\<rparr>"
  have "ticket_step s ?s1" "ticket_step ?s1 ?s2" "ticket_step ?s2 ?s3" "ticket_step ?s3 ?s4"
    using assms by (intro ticket_step.add ticket_step.fetch; simp add: ticket_start_def)+
  then have "ticket_step\<^sup>*\<^sup>* s ?s4" by (meson converse_rtranclp_into_rtranclp rtranclp.rtrancl_refl)
  moreover have "phase ?s4 0 = Got (c + 2)" "phase ?s4 1 = Got (c + 2)"
    using assms by (simp_all add: ticket_start_def)
  ultimately show "\<exists>t. ticket_step\<^sup>*\<^sup>* s t \<and> phase t 0 = Got (c + 2) \<and> phase t 1 = Got (c + 2)" by blast
qed

lemma atomic_inc_interleaved_witness:
  "\<exists>t. ticket_step\<^sup>*\<^sup>* \<lparr>counter = 7, phase = (\<lambda>_. Fresh)\<rparr> t \<and> phase t 0 = Got 9 \<and> phase t 1 = Got 9"
  using atomic_inc_interleaved [of 7 "\<lparr>counter = 7, phase = (\<lambda>_. Fresh)\<rparr>"] by (simp add: ticket_start_def)

end
