(* ===== verification/Mailbox.thy ===== *)
theory Mailbox
  imports Ring Spinlock
begin

text \<open>
  \<open>src/arch/stm32h/ipc_mailbox.c\<close>: the mailboxes between the two cores of the STM32H745, rings of 256 bytes in shared
  memory with one slot that stays free. Senders take one lock and receivers another, so one sender and one receiver may
  be at work on a mailbox at the same time; \<open>mbox_step\<close> interleaves the two, one byte per step.
\<close>

definition MAILBOX_SIZE :: u32 where "MAILBOX_SIZE = 256"
definition MAILBOX_IRQ_M7 :: nat where "MAILBOX_IRQ_M7 = 55"
definition MAILBOX_IRQ_M4 :: nat where "MAILBOX_IRQ_M4 = 56"

record mbox =
  head :: u32
  tail :: u32
  mb_data :: "u8 list"

text \<open>The two mailboxes and the two locks.\<close>

record ipc = machine +
  mbox_m7 :: mbox
  mbox_m4 :: mbox
  m7_lock :: u32
  m4_lock :: u32

section \<open>The ring\<close>

definition mbox_free :: "mbox \<Rightarrow> u32" where
  "mbox_free m = (tail m - head m - 1) AND (MAILBOX_SIZE - 1)"

definition mbox_used :: "mbox \<Rightarrow> u32" where
  "mbox_used m = (head m - tail m) AND (MAILBOX_SIZE - 1)"

text \<open>The bodies of the two loops for the byte \<open>i\<close>, and the updates of the indices.\<close>

definition put_byte :: "u8 list \<Rightarrow> nat \<Rightarrow> mbox \<Rightarrow> mbox" where
  "put_byte buf i m = m\<lparr>mb_data := (mb_data m)[unat ((head m + of_nat i) AND (MAILBOX_SIZE - 1)) := buf ! i]\<rparr>"

definition get_byte :: "mbox \<Rightarrow> nat \<Rightarrow> u8" where
  "get_byte m i = mb_data m ! unat ((tail m + of_nat i) AND (MAILBOX_SIZE - 1))"

definition advance_head :: "u32 \<Rightarrow> mbox \<Rightarrow> mbox" where
  "advance_head len m = m\<lparr>head := (head m + len) AND (MAILBOX_SIZE - 1)\<rparr>"

definition advance_tail :: "u32 \<Rightarrow> mbox \<Rightarrow> mbox" where
  "advance_tail n m = m\<lparr>tail := (tail m + n) AND (MAILBOX_SIZE - 1)\<rparr>"

text \<open>A buffer with its length is a list. The sender never looks at \<open>mbox_free\<close>.\<close>

definition mbox_put :: "u8 list \<Rightarrow> mbox \<Rightarrow> mbox" where
  "mbox_put buf m = advance_head (of_nat (length buf)) (fold (put_byte buf) [0..<length buf] m)"

definition mbox_get :: "u32 \<Rightarrow> mbox \<Rightarrow> u8 list \<times> mbox" where
  "mbox_get max_len m =
     (let used = mbox_used m;
          copy = (if used > max_len then max_len else used)
      in (map (get_byte m) [0..<unat copy], advance_tail copy m))"

section \<open>The calls\<close>

definition mbox_send :: "((mbox \<Rightarrow> mbox) \<Rightarrow> 'a ipc_scheme \<Rightarrow> 'a ipc_scheme) \<Rightarrow> u8 list \<Rightarrow> 'a ipc_scheme \<Rightarrow> 'a ipc_scheme option" where
  "mbox_send upd buf s = do {
     l \<leftarrow> spin_lock (m7_lock s);
     let s = s\<lparr>m7_lock := l\<rparr>;
     let s = upd (mbox_put buf) s;
     Some (s\<lparr>m7_lock := spin_unlock (m7_lock s)\<rparr>) }"

definition mbox_recv ::
  "('a ipc_scheme \<Rightarrow> mbox) \<Rightarrow> ((mbox \<Rightarrow> mbox) \<Rightarrow> 'a ipc_scheme \<Rightarrow> 'a ipc_scheme) \<Rightarrow> u32 \<Rightarrow> 'a ipc_scheme \<Rightarrow> (u8 list \<times> 'a ipc_scheme) option" where
  "mbox_recv sel upd max_len s = do {
     l \<leftarrow> spin_lock (m4_lock s);
     let s = s\<lparr>m4_lock := l\<rparr>;
     let (bs, m) = mbox_get max_len (sel s);
     let s = upd (\<lambda>_. m) s;
     Some (bs, s\<lparr>m4_lock := spin_unlock (m4_lock s)\<rparr>) }"

text \<open>\<open>NVIC->ISER[1]\<close> of the vendor's header is the register at \<open>0xE000E104\<close>.\<close>

definition ipc_init :: "device \<Rightarrow> 'a ipc_scheme \<Rightarrow> 'a ipc_scheme" where
  "ipc_init D s = or32 D 0xE000E104 (push_bit (MAILBOX_IRQ_M4 - 32) 1) (or32 D 0xE000E104 (push_bit (MAILBOX_IRQ_M7 - 32) 1) s)"

text \<open>The trigger shifts an \<open>int\<close> by 55 or 56, which C leaves undefined: the word stored is the argument \<open>v\<close>.\<close>

definition ipc_send_m7 :: "u32 \<Rightarrow> u8 list \<Rightarrow> 'a ipc_scheme \<Rightarrow> 'a ipc_scheme option" where
  "ipc_send_m7 v buf s = do { s \<leftarrow> mbox_send mbox_m7_update buf s; Some (write32 0xE000E100 v s) }"

definition ipc_send_m4 :: "u32 \<Rightarrow> u8 list \<Rightarrow> 'a ipc_scheme \<Rightarrow> 'a ipc_scheme option" where
  "ipc_send_m4 v buf s = do { s \<leftarrow> mbox_send mbox_m4_update buf s; Some (write32 0xE000E100 v s) }"

definition ipc_recv_m7 :: "u32 \<Rightarrow> 'a ipc_scheme \<Rightarrow> (u8 list \<times> 'a ipc_scheme) option" where
  "ipc_recv_m7 max_len s = mbox_recv mbox_m7 mbox_m7_update max_len s"

definition ipc_recv_m4 :: "u32 \<Rightarrow> 'a ipc_scheme \<Rightarrow> (u8 list \<times> 'a ipc_scheme) option" where
  "ipc_recv_m4 max_len s = mbox_recv mbox_m4 mbox_m4_update max_len s"

section \<open>The contents\<close>

definition mbox_inv :: "mbox \<Rightarrow> bool" where
  "mbox_inv m \<longleftrightarrow> head m < 256 \<and> tail m < 256 \<and> length (mb_data m) = 256"

text \<open>\<open>n\<close> bytes from the tail on; the items are those up to the head.\<close>

definition mbox_bytes :: "mbox \<Rightarrow> nat \<Rightarrow> u8 list" where
  "mbox_bytes m n = ring_items (mb_data m) (unat (tail m)) n"

definition mbox_items :: "mbox \<Rightarrow> u8 list" where
  "mbox_items m = mbox_bytes m (unat (mbox_used m))"

lemma and_size: "x AND (MAILBOX_SIZE - 1) = take_bit 8 x" for x :: u32
  by (simp add: MAILBOX_SIZE_def take_bit_eq_mask mask_eq_exp_minus_1)

lemma unat_and_size: "unat (x AND (MAILBOX_SIZE - 1)) = unat x mod 256" for x :: u32
  unfolding and_size unsigned_take_bit_eq by (simp add: take_bit_eq_mod)

lemma unat_wrap: "unat ((x + of_nat i) AND (MAILBOX_SIZE - 1)) = (unat x + i) mod 256" for x :: u32
proof -
  have "unat (x + of_nat i) = (unat x + i mod 2 ^ 32) mod 2 ^ 32" by (simp add: unat_word_ariths unat_of_nat)
  then show ?thesis unfolding unat_and_size by (simp add: mod_mod_cancel mod_add_right_eq)
qed

lemma used_head:
  assumes "mbox_inv m"
  shows "(unat (tail m) + unat (mbox_used m)) mod 256 = unat (head m)" "unat (mbox_used m) < 256"
proof -
  have h: "unat (head m) < 256" using assms by (simp add: mbox_inv_def word_less_nat_alt)
  have "(unat (tail m) + unat (head m - tail m)) mod 2 ^ 32 = unat (tail m + (head m - tail m))"
    by (simp only: unat_word_ariths) simp
  then have "(unat (tail m) + unat (head m - tail m)) mod 2 ^ 32 mod 256 = unat (head m)" using h by simp
  then show "(unat (tail m) + unat (mbox_used m)) mod 256 = unat (head m)"
    unfolding mbox_used_def unat_and_size by (simp add: mod_mod_cancel mod_add_right_eq)
  show "unat (mbox_used m) < 256" by (simp add: mbox_used_def unat_and_size)
qed

text \<open>The number of used bytes is determined by head and tail.\<close>

lemma used_eq:
  assumes "mbox_inv m" "(unat (tail m) + n) mod 256 = unat (head m)" "n < 256"
  shows "unat (mbox_used m) = n"
  using mod_add_inj [of "unat (tail m)" "unat (mbox_used m)" 256 n] used_head [OF assms(1)] assms(2,3) by simp

lemma used_free:
  assumes "mbox_inv m"
  shows "unat (mbox_used m) + unat (mbox_free m) = 255"
proof -
  let ?u = "head m - tail m" and ?f = "tail m - head m - 1"
  have "?u + ?f = - 1" by simp
  then have "unat (?u + ?f) = unat (- 1 :: u32)" by (rule arg_cong)
  also have "\<dots> = 2 ^ 32 - 1" by (simp add: unsigned_minus_1_eq_mask mask_eq_exp_minus_1)
  also have "unat (?u + ?f) = (unat ?u + unat ?f) mod 2 ^ 32" by (simp only: unat_word_ariths) simp
  finally have "(unat ?u + unat ?f) mod 2 ^ 32 mod 256 = 255" by simp
  then have "(unat ?u + unat ?f) mod 256 = 255" by (simp add: mod_mod_cancel)
  then have "(unat ?u mod 256 + unat ?f mod 256) mod 256 = 255" by (simp add: mod_add_eq)
  moreover have "x + y = 255" if "(x + y) mod 256 = 255" "x < 256" "y < 256" for x y :: nat
  proof (cases "x + y < 256")
    case False
    have "x + y - 256 < 256" using that by linarith
    then show ?thesis using that False by (simp add: le_mod_geq)
  qed (use that in simp)
  ultimately show ?thesis unfolding mbox_used_def mbox_free_def unat_and_size by simp
qed

lemma ring_items_take: "n \<le> c \<Longrightarrow> take n (ring_items b t c) = ring_items b t n"
  by (simp add: ring_items_def take_map)

lemma ring_items_drop:
  assumes "n \<le> c"
  shows "drop n (ring_items b t c) = ring_items b ((t + n) mod length b) (c - n)"
proof -
  have "[n..<c] = map (\<lambda>i. i + n) [0..<c - n]" using assms by (simp add: map_add_upt)
  then show ?thesis by (simp add: ring_items_def drop_map comp_def mod_simps add.commute add.left_commute)
qed

lemma mbox_items_length [simp]: "length (mbox_items m) = unat (mbox_used m)"
  by (simp add: mbox_items_def mbox_bytes_def)

text \<open>Writing byte \<open>i\<close> behind the items appends it to the bytes from the tail on.\<close>

lemma put_byte_bytes:
  assumes "mbox_inv m" "unat (mbox_used m) + i < 256"
  shows "mbox_inv (put_byte buf i m)" "mbox_used (put_byte buf i m) = mbox_used m" "tail (put_byte buf i m) = tail m"
    and "mbox_bytes (put_byte buf i m) (unat (mbox_used m) + Suc i) = mbox_bytes m (unat (mbox_used m) + i) @ [buf ! i]"
proof -
  show "mbox_inv (put_byte buf i m)" "mbox_used (put_byte buf i m) = mbox_used m" "tail (put_byte buf i m) = tail m"
    using assms(1) by (simp_all add: put_byte_def mbox_inv_def mbox_used_def)
  let ?u = "unat (mbox_used m)"
  have "(unat (head m) + i) mod 256 = (unat (tail m) + (?u + i)) mod 256"
    using used_head(1) [OF assms(1)] by (metis mod_add_left_eq add.assoc)
  then have "put_byte buf i m = m\<lparr>mb_data := (mb_data m)[(unat (tail m) + (?u + i)) mod 256 := buf ! i]\<rparr>"
    by (simp add: put_byte_def unat_wrap)
  then show "mbox_bytes (put_byte buf i m) (?u + Suc i) = mbox_bytes m (?u + i) @ [buf ! i]"
    using ring_items_put [of "?u + i" "mb_data m" "unat (tail m)" "buf ! i"] assms
    by (simp add: mbox_bytes_def mbox_inv_def)
qed

lemma advance_head_items:
  assumes "mbox_inv m" "unat (mbox_used m) + n < 256"
  shows "mbox_inv (advance_head (of_nat n) m)" "unat (mbox_used (advance_head (of_nat n) m)) = unat (mbox_used m) + n"
    "mbox_items (advance_head (of_nat n) m) = mbox_bytes m (unat (mbox_used m) + n)"
proof -
  let ?m = "advance_head (of_nat n) m"
  have h: "unat (head ?m) = (unat (head m) + n) mod 256" by (simp add: advance_head_def unat_wrap)
  show i: "mbox_inv ?m" using assms(1) h by (simp add: mbox_inv_def advance_head_def word_less_nat_alt unat_wrap)
  have "(unat (tail ?m) + (unat (mbox_used m) + n)) mod 256 = unat (head ?m)"
    unfolding h using used_head(1) [OF assms(1)] by (simp add: advance_head_def) (metis mod_add_left_eq add.assoc)
  from used_eq [OF i this assms(2)] show u: "unat (mbox_used ?m) = unat (mbox_used m) + n" .
  show "mbox_items ?m = mbox_bytes m (unat (mbox_used m) + n)"
    by (simp add: mbox_items_def u) (simp add: mbox_bytes_def advance_head_def)
qed

lemma advance_tail_items:
  assumes "mbox_inv m" "n \<le> unat (mbox_used m)"
  shows "mbox_inv (advance_tail (of_nat n) m)" "unat (mbox_used (advance_tail (of_nat n) m)) = unat (mbox_used m) - n"
    "n \<le> c \<Longrightarrow> mbox_bytes (advance_tail (of_nat n) m) (c - n) = drop n (mbox_bytes m c)"
proof -
  let ?m = "advance_tail (of_nat n) m"
  have t: "unat (tail ?m) = (unat (tail m) + n) mod 256" by (simp add: advance_tail_def unat_wrap)
  show i: "mbox_inv ?m" using assms(1) t by (simp add: mbox_inv_def advance_tail_def word_less_nat_alt unat_wrap)
  have "(unat (tail ?m) + (unat (mbox_used m) - n)) mod 256 = (unat (tail m) + n + (unat (mbox_used m) - n)) mod 256"
    unfolding t by (simp add: mod_add_left_eq)
  also have "\<dots> = unat (head ?m)" using used_head(1) [OF assms(1)] assms(2) by (simp add: advance_tail_def)
  finally show "unat (mbox_used ?m) = unat (mbox_used m) - n"
    using used_eq [OF i] used_head(2) [OF assms(1)] by (meson diff_le_self order_le_less_trans)
  show "mbox_bytes ?m (c - n) = drop n (mbox_bytes m c)" if "n \<le> c"
    using assms(1) ring_items_drop [OF that, of "mb_data m" "unat (tail m)"]
    by (simp add: mbox_bytes_def t mbox_inv_def) (simp add: advance_tail_def)
qed

lemma get_byte_items:
  assumes "mbox_inv m" "i < unat (mbox_used m)"
  shows "get_byte m i = mbox_items m ! i"
  using assms by (simp add: get_byte_def unat_wrap mbox_items_def mbox_bytes_def ring_items_def mbox_inv_def)

lemma mbox_put_bytes:
  assumes "mbox_inv m" "unat (mbox_used m) + n \<le> 256"
  shows "mbox_inv (fold (put_byte buf) [0..<n] m) \<and> mbox_used (fold (put_byte buf) [0..<n] m) = mbox_used m \<and>
    (n \<le> length buf \<longrightarrow> mbox_bytes (fold (put_byte buf) [0..<n] m) (unat (mbox_used m) + n) = mbox_items m @ take n buf)"
  using assms(2)
proof (induction n)
  case 0
  show ?case using assms(1) by (simp add: mbox_items_def)
next
  case (Suc n)
  let ?m = "fold (put_byte buf) [0..<n] m"
  have IH: "mbox_inv ?m" "mbox_used ?m = mbox_used m"
    "n \<le> length buf \<Longrightarrow> mbox_bytes ?m (unat (mbox_used m) + n) = mbox_items m @ take n buf"
    using Suc by simp_all
  have lt: "unat (mbox_used ?m) + n < 256" using Suc.prems IH(2) by simp
  show ?case using put_byte_bytes [OF IH(1) lt, of buf] IH by (auto simp: take_Suc_conv_app_nth)
qed

section \<open>A sender and a receiver at work\<close>

text \<open>
  The sender is between two bytes of its buffer, or idle; the receiver has copied some of the bytes it found when it
  began. \<open>sent\<close> and \<open>received\<close> are the bytes of the calls that have returned. A sender begins only if the bytes fit.
\<close>

record mbox_sys =
  box :: mbox
  writing :: "(u8 list \<times> nat) option"
  reading :: "(nat \<times> u8 list) option"
  sent :: "u8 list"
  received :: "u8 list"

inductive mbox_step :: "mbox_sys \<Rightarrow> mbox_sys \<Rightarrow> bool" where
  begin_send: "writing s = None \<Longrightarrow> length buf \<le> unat (mbox_free (box s)) \<Longrightarrow> mbox_step s (s\<lparr>writing := Some (buf, 0)\<rparr>)"
| write_byte: "writing s = Some (buf, i) \<Longrightarrow> i < length buf \<Longrightarrow>
    mbox_step s (s\<lparr>box := put_byte buf i (box s), writing := Some (buf, Suc i)\<rparr>)"
| publish: "writing s = Some (buf, i) \<Longrightarrow> i = length buf \<Longrightarrow>
    mbox_step s (s\<lparr>box := advance_head (of_nat (length buf)) (box s), writing := None, sent := sent s @ buf\<rparr>)"
| begin_recv: "reading s = None \<Longrightarrow>
    mbox_step s (s\<lparr>reading := Some (unat (if mbox_used (box s) > max_len then max_len else mbox_used (box s)), [])\<rparr>)"
| read_byte: "reading s = Some (n, acc) \<Longrightarrow> length acc < n \<Longrightarrow>
    mbox_step s (s\<lparr>reading := Some (n, acc @ [get_byte (box s) (length acc)])\<rparr>)"
| finish: "reading s = Some (n, acc) \<Longrightarrow> length acc = n \<Longrightarrow>
    mbox_step s (s\<lparr>box := advance_tail (of_nat n) (box s), reading := None, received := received s @ acc\<rparr>)"

definition mbox_start :: "mbox_sys \<Rightarrow> bool" where
  "mbox_start s \<longleftrightarrow> mbox_inv (box s) \<and> head (box s) = tail (box s) \<and> writing s = None \<and> reading s = None \<and>
     sent s = [] \<and> received s = []"

text \<open>The bytes of an unfinished send lie behind the items, and the receiver has a prefix of the items.\<close>

definition write_ok :: "mbox_sys \<Rightarrow> bool" where
  "write_ok s \<longleftrightarrow> (case writing s of None \<Rightarrow> True
     | Some (buf, i) \<Rightarrow> i \<le> length buf \<and> unat (mbox_used (box s)) + length buf \<le> 255 \<and>
         mbox_bytes (box s) (unat (mbox_used (box s)) + i) = mbox_items (box s) @ take i buf)"

definition read_ok :: "mbox_sys \<Rightarrow> bool" where
  "read_ok s \<longleftrightarrow> (case reading s of None \<Rightarrow> True
     | Some (n, acc) \<Rightarrow> n \<le> unat (mbox_used (box s)) \<and> length acc \<le> n \<and> take (length acc) (mbox_items (box s)) = acc)"

definition sys_inv :: "mbox_sys \<Rightarrow> bool" where
  "sys_inv s \<longleftrightarrow> mbox_inv (box s) \<and> sent s = received s @ mbox_items (box s) \<and> write_ok s \<and> read_ok s"

lemma items_prefix: "mbox_bytes m (unat (mbox_used m) + i) = mbox_items m @ xs \<Longrightarrow> mbox_items m' = mbox_items m"
  if "mbox_used m' = mbox_used m" "mbox_bytes m' (unat (mbox_used m) + Suc i) = mbox_bytes m (unat (mbox_used m) + i) @ [x]"
proof -
  assume a: "mbox_bytes m (unat (mbox_used m) + i) = mbox_items m @ xs"
  have "mbox_items m' = take (unat (mbox_used m)) (mbox_bytes m' (unat (mbox_used m) + Suc i))"
    by (simp add: mbox_items_def that(1) mbox_bytes_def ring_items_take)
  also have "\<dots> = mbox_items m" unfolding that(2) a by simp
  finally show ?thesis .
qed

lemma read_ok_mono:
  assumes "read_ok s" "reading t = reading s" "mbox_items (box t) = mbox_items (box s) @ xs"
  shows "read_ok t"
proof (cases "reading s")
  case (Some r)
  obtain n acc where r: "r = (n, acc)" by (cases r)
  have len: "unat (mbox_used (box t)) = unat (mbox_used (box s)) + length xs"
    using assms(3) by (metis length_append mbox_items_length)
  have "n \<le> length (mbox_items (box s))" "length acc \<le> n" "take (length acc) (mbox_items (box s)) = acc"
    using assms(1) Some r by (simp_all add: read_ok_def)
  moreover from this have "take (length acc) (mbox_items (box s) @ xs) = take (length acc) (mbox_items (box s))" by simp
  ultimately show ?thesis using assms(2) Some r len by (simp add: read_ok_def assms(3))
qed (use assms in \<open>simp add: read_ok_def\<close>)

lemma write_ok_frame: "writing t = writing s \<Longrightarrow> box t = box s \<Longrightarrow> write_ok t = write_ok s"
  by (cases "writing s") (simp_all add: write_ok_def)

lemma mbox_step_inv:
  assumes "sys_inv s" "mbox_step s t"
  shows "sys_inv t"
  using assms(2)
proof cases
  case (begin_send buf)
  have inv: "mbox_inv (box s)" "read_ok s" "sent s = received s @ mbox_items (box s)" using assms(1) by (simp_all add: sys_inv_def)
  have "read_ok t" using inv(2) begin_send(1) by (intro read_ok_mono [of s t "[]"]) simp_all
  moreover have "write_ok t" using begin_send used_free [OF inv(1)] by (simp add: write_ok_def mbox_items_def)
  ultimately show ?thesis using inv begin_send(1) by (simp add: sys_inv_def)
next
  case (write_byte buf i)
  let ?m = "box s"
  have inv: "mbox_inv ?m" "read_ok s" "sent s = received s @ mbox_items ?m" and w: "unat (mbox_used ?m) + length buf \<le> 255"
    "mbox_bytes ?m (unat (mbox_used ?m) + i) = mbox_items ?m @ take i buf"
    using assms(1) write_byte(2) by (simp_all add: sys_inv_def write_ok_def)
  then have lt: "unat (mbox_used ?m) + i < 256" using write_byte(3) by simp
  note p = put_byte_bytes [OF inv(1) lt, of buf]
  have items: "mbox_items (put_byte buf i ?m) = mbox_items ?m" by (rule items_prefix [OF p(2,4) w(2)])
  have "read_ok t" using inv(2) write_byte(1) items by (intro read_ok_mono [of s t "[]"]) simp_all
  moreover have "write_ok t"
    using write_byte p items w by (simp add: write_ok_def take_Suc_conv_app_nth)
  ultimately show ?thesis using inv write_byte(1) items p(1) by (simp add: sys_inv_def)
next
  case (publish buf i)
  let ?m = "box s"
  have inv: "mbox_inv ?m" "read_ok s" "sent s = received s @ mbox_items ?m" and w: "unat (mbox_used ?m) + length buf \<le> 255"
    "mbox_bytes ?m (unat (mbox_used ?m) + length buf) = mbox_items ?m @ buf"
    using assms(1) publish(2,3) by (simp_all add: sys_inv_def write_ok_def)
  then have "unat (mbox_used ?m) + length buf < 256" by simp
  note a = advance_head_items [OF inv(1) this]
  have "read_ok t" using inv(2) publish(1) a(3) w(2) by (intro read_ok_mono [of s t buf]) simp_all
  moreover have "write_ok t" using publish(1) by (simp add: write_ok_def)
  ultimately show ?thesis using inv publish(1) a w(2) by (simp add: sys_inv_def)
next
  case (begin_recv max_len)
  have "read_ok t" using begin_recv(1) by (simp add: read_ok_def word_less_nat_alt)
  moreover have "write_ok t = write_ok s" using begin_recv(1) by (intro write_ok_frame) simp_all
  ultimately show ?thesis using assms(1) begin_recv(1) by (simp add: sys_inv_def)
next
  case (read_byte n acc)
  have old: "take (length acc) (mbox_items (box s)) = acc" "n \<le> unat (mbox_used (box s))" "mbox_inv (box s)"
    and rest: "write_ok s" "sent s = received s @ mbox_items (box s)"
    using assms(1) read_byte(2) by (simp_all add: sys_inv_def read_ok_def)
  have "length acc < unat (mbox_used (box s))" using old(2) read_byte(3) by simp
  then have "acc @ [get_byte (box s) (length acc)] = take (Suc (length acc)) (mbox_items (box s))"
    using take_Suc_conv_app_nth [of "length acc" "mbox_items (box s)"] old(1) get_byte_items [OF old(3)] by simp
  then have "read_ok t" using old(2) read_byte(1,3) by (simp add: read_ok_def)
  moreover have "write_ok t = write_ok s" using read_byte(1) by (intro write_ok_frame) simp_all
  ultimately show ?thesis using rest old(3) read_byte(1) by (simp add: sys_inv_def)
next
  case (finish n acc)
  let ?m = "box s"
  have inv: "mbox_inv ?m" "write_ok s" "sent s = received s @ mbox_items ?m" and "read_ok s"
    using assms(1) by (simp_all add: sys_inv_def)
  then have "n \<le> unat (mbox_used ?m) \<and> length acc \<le> n \<and> take (length acc) (mbox_items ?m) = acc"
    using finish(2) by (simp add: read_ok_def)
  then have n: "n \<le> unat (mbox_used ?m)" "take n (mbox_items ?m) = acc" using finish(3) by blast+
  note a = advance_tail_items [OF inv(1) n(1)]
  have items: "mbox_items (advance_tail (of_nat n) ?m) = drop n (mbox_items ?m)"
    using a(3) [OF n(1)] by (simp add: mbox_items_def a(2))
  have "write_ok t"
  proof (cases "writing s")
    case (Some w)
    obtain buf i where bi: "w = (buf, i)" by (cases w)
    with Some inv(2) have w: "i \<le> length buf" "unat (mbox_used ?m) + length buf \<le> 255"
      "mbox_bytes ?m (unat (mbox_used ?m) + i) = mbox_items ?m @ take i buf"
      by (simp_all add: write_ok_def)
    have "mbox_bytes (advance_tail (of_nat n) ?m) (unat (mbox_used ?m) + i - n) = drop n (mbox_items ?m) @ take i buf"
      using a(3) [of "unat (mbox_used ?m) + i"] n(1) w(3) by simp
    moreover have "unat (mbox_used ?m) + i - n = unat (mbox_used ?m) - n + i" using n(1) by simp
    ultimately have "mbox_bytes (box t) (unat (mbox_used (box t)) + i) = mbox_items (box t) @ take i buf"
      using finish(1) items by (simp add: a(2))
    moreover have "unat (mbox_used (box t)) + length buf \<le> 255" using finish(1) w(2) by (simp add: a(2))
    moreover have "writing t = Some (buf, i)" using finish(1) Some bi by simp
    ultimately show ?thesis using w(1) by (simp add: write_ok_def)
  qed (use finish(1) in \<open>simp add: write_ok_def\<close>)
  moreover have "read_ok t" using finish(1) by (simp add: read_ok_def)
  moreover have "received s @ mbox_items ?m = (received s @ acc) @ drop n (mbox_items ?m)" unfolding n(2) [symmetric] by simp
  ultimately show ?thesis using inv(3) finish(1) a(1) items by (simp add: sys_inv_def)
qed

lemma mbox_start_inv: "mbox_start s \<Longrightarrow> sys_inv s"
  by (simp add: mbox_start_def sys_inv_def write_ok_def read_ok_def mbox_items_def mbox_bytes_def mbox_used_def)

interpretation mbox: invariant_system mbox_start mbox_step sys_inv
  by unfold_locales (erule mbox_start_inv, erule (1) mbox_step_inv)

section \<open>Properties\<close>

text \<open>C26: However a sender and a receiver of one mailbox are interleaved, byte by byte, the bytes received are a prefix of
  the bytes sent and the rest waits in the mailbox, provided no sender begins with more bytes than are free.\<close>

theorem mailbox_prefix:
  assumes "mbox_start s" "mbox_step\<^sup>*\<^sup>* s t"
  shows "sent t = received t @ mbox_items (box t) \<and> length (mbox_items (box t)) \<le> 255"
proof -
  have "sys_inv t" using assms by (rule mbox.reachable_inv)
  then have "mbox_inv (box t)" "sent t = received t @ mbox_items (box t)" by (simp_all add: sys_inv_def)
  with used_head(2) show ?thesis by (fastforce simp: less_Suc_eq_le [symmetric])
qed

definition empty_box :: mbox where
  "empty_box = \<lparr>head = 254, tail = 254, mb_data = replicate 256 0\<rparr>"

definition empty_mail :: mbox_sys where
  "empty_mail = \<lparr>box = empty_box, writing = None, reading = None, sent = [], received = []\<rparr>"

lemma mailbox_prefix_witness:
  "\<exists>t. mbox_step\<^sup>*\<^sup>* empty_mail t \<and> sent t = [7] \<and> received t = [] \<and> mbox_items (box t) = [7]"
proof -
  have start: "mbox_start empty_mail"
    by (simp add: mbox_start_def empty_mail_def empty_box_def mbox_inv_def)
  let ?s1 = "empty_mail\<lparr>writing := Some ([7], 0)\<rparr>"
  let ?s2 = "?s1\<lparr>box := put_byte [7] 0 (box ?s1), writing := Some ([7], Suc 0)\<rparr>"
  let ?s3 = "?s2\<lparr>box := advance_head (of_nat (length [7 :: u8])) (box ?s2), writing := None, sent := sent ?s2 @ [7]\<rparr>"
  have "unat (mbox_free empty_box) = 255"
    using used_free [of empty_box] by (simp add: empty_box_def mbox_inv_def mbox_used_def)
  then have "mbox_step empty_mail ?s1" by (intro mbox_step.begin_send) (simp_all add: empty_mail_def)
  moreover have "mbox_step ?s1 ?s2" by (rule mbox_step.write_byte) (simp_all add: empty_mail_def)
  moreover have "mbox_step ?s2 ?s3" by (rule mbox_step.publish) (simp_all add: empty_mail_def)
  ultimately have run: "mbox_step\<^sup>*\<^sup>* empty_mail ?s3"
    by (meson converse_rtranclp_into_rtranclp rtranclp.rtrancl_refl)
  from mailbox_prefix [OF start run] have "mbox_items (box ?s3) = [7]" by (simp add: empty_mail_def)
  with run show ?thesis by (intro exI [of _ ?s3]) (simp add: empty_mail_def)
qed

lemma mbox_put_empty:
  assumes "mbox_inv m" "head m = tail m" "length buf \<le> 256"
  shows "mbox_inv (mbox_put buf m) \<and> mbox_items (mbox_put buf m) = (if length buf < 256 then buf else [])"
proof -
  let ?m = "fold (put_byte buf) [0..<length buf] m"
  have u: "mbox_used m = 0" using assms(2) by (simp add: mbox_used_def)
  then have e: "mbox_items m = []" by (simp add: mbox_items_def mbox_bytes_def)
  have p: "mbox_inv ?m" "mbox_used ?m = 0" "mbox_bytes ?m (length buf) = buf"
    using mbox_put_bytes [OF assms(1), of "length buf" buf] assms(3) u e by simp_all
  show ?thesis
  proof (cases "length buf = 256")
    case True
    have "unat ((head ?m + of_nat 256) AND (MAILBOX_SIZE - 1)) = unat (head ?m)"
      using p(1) by (simp only: unat_wrap) (simp add: mbox_inv_def word_less_nat_alt)
    then have "advance_head (of_nat (length buf)) ?m = ?m" by (simp add: advance_head_def True word_unat_eq_iff)
    with p True show ?thesis by (simp add: mbox_put_def mbox_items_def mbox_bytes_def)
  next
    case False
    with assms(3) have "unat (mbox_used ?m) + length buf < 256" using p(2) by simp
    from advance_head_items [OF p(1) this] False assms(3) p show ?thesis by (simp add: mbox_put_def)
  qed
qed

lemma mbox_get_all:
  assumes "mbox_inv m"
  shows "fst (mbox_get 0xFFFFFFFF m) = mbox_items m"
proof -
  have "unat (mbox_used m) < 256" using used_head(2) [OF assms] .
  then have "\<not> mbox_used m > 0xFFFFFFFF" by (simp add: word_less_nat_alt)
  moreover have "map (get_byte m) [0..<unat (mbox_used m)] = mbox_items m"
    using get_byte_items [OF assms] by (intro nth_equalityI) simp_all
  ultimately show ?thesis by (simp add: mbox_get_def Let_def)
qed

text \<open>Up to 255 bytes sent to an empty mailbox are received by the other core in one call; but a message of 256 bytes
  leaves the mailbox empty, because nobody compares it with the free space: it is lost and the sender is not told.\<close>

lemma ipc_send_recv:
  assumes "m7_lock s = 0" "m4_lock s = 0" "mbox_inv (mbox_m7 s)" "head (mbox_m7 s) = tail (mbox_m7 s)" "length buf \<le> 256"
  shows "\<exists>t u. ipc_send_m7 v buf s = Some t \<and>
    ipc_recv_m7 0xFFFFFFFF t = Some (if length buf < 256 then buf else [], u) \<and> m7_lock u = 0 \<and> m4_lock u = 0"
proof -
  let ?t = "s\<lparr>trace := trace s @ [Wr (Mem32 0xE000E100) (ucast v)], mbox_m7 := mbox_put buf (mbox_m7 s)\<rparr>"
  have "ipc_send_m7 v buf s = Some ?t"
    using assms(1) by (cases s) (simp add: ipc_send_m7_def mbox_send_def bus)
  moreover have "fst (mbox_get 0xFFFFFFFF (mbox_m7 ?t)) = (if length buf < 256 then buf else [])"
    using mbox_put_empty [OF assms(3-5)] mbox_get_all by simp
  then have "\<exists>u. ipc_recv_m7 0xFFFFFFFF ?t = Some (if length buf < 256 then buf else [], u) \<and> m7_lock u = 0 \<and> m4_lock u = 0"
    using assms(1,2) by (cases "mbox_get 0xFFFFFFFF (mbox_m7 ?t)") (simp add: ipc_recv_m7_def mbox_recv_def Let_def)
  ultimately show ?thesis by blast
qed

definition ipc_start :: ipc where
  "ipc_start = \<lparr>trace = [], mbox_m7 = empty_box, mbox_m4 = empty_box, m7_lock = 0, m4_lock = 0\<rparr>"

end
