(* ===== verification/Bootloader.thy ===== *)
theory Bootloader
  imports Boot
begin

text \<open>
  \<open>src/boot/bootloader.c\<close>: the boot loader of the STM32F4, which waits five seconds for an update over ISO-TP, checks the
  application and jumps to it. Its checksum function is declared in a header the repository does not have, and what the
  flash holds is the work of its controller; both belong to the environment, with the interrupts taken in each round of the
  waiting loop and the uninitialised memory the loop hands to \<open>isotp_recv\<close>.
\<close>

definition APP_ADDR :: u32 where "APP_ADDR = 0x08080000"
definition BOOT_TIMEOUT :: u32 where "BOOT_TIMEOUT = 5000"

record bootl = timer +
  bl_can :: isotp

record boot_hw =
  bh_ticks :: "nat \<Rightarrow> nat"        \<comment> \<open>tick interrupts before round \<open>k\<close> of the loop\<close>
  bh_frames :: "nat \<Rightarrow> nat"       \<comment> \<open>CAN receive interrupts before round \<open>k\<close>\<close>
  bh_pad :: "u8 list"            \<comment> \<open>padding of the frames the handler queues\<close>
  bh_msg :: isotp_msg             \<comment> \<open>the local message, uninitialised\<close>
  bh_frame :: can_frame           \<comment> \<open>the local frame of \<open>isotp_recv\<close>, uninitialised\<close>
  bh_raw :: msg                   \<comment> \<open>the local message of \<open>can_recv\<close>, uninitialised\<close>
  bh_stack :: memory              \<comment> \<open>what lies behind the data of the message\<close>
  bh_flash :: "trace \<Rightarrow> memory"   \<comment> \<open>what the flash reads as, after the accesses made so far\<close>
  bh_crc32 :: "memory \<Rightarrow> u32 \<Rightarrow> u32 \<Rightarrow> u32"

text \<open>How the boot loader ends: in the application, or in the endless loop after a bad checksum.\<close>

datatype boot_end = Jumped | Stays

definition on_can :: "(isotp \<Rightarrow> ('r \<times> isotp) option) \<Rightarrow> bootl \<Rightarrow> ('r \<times> bootl) option" where
  "on_can f s = embed bl_can (\<lambda>c. bl_can_update (\<lambda>_. c)) f s"

fun can_irqs :: "boot_hw \<Rightarrow> device \<Rightarrow> nat \<Rightarrow> bootl \<Rightarrow> bootl option" where
  "can_irqs E D 0 s = Some s"
| "can_irqs E D (Suc n) s = do {
     (_, s) \<leftarrow> on_can (\<lambda>c. map_option (Pair ()) (CEC_CAN_IRQHandler D (bh_pad E) c)) s;
     can_irqs E D n s }"

definition msg_memory :: "boot_hw \<Rightarrow> isotp_msg \<Rightarrow> memory" where
  "msg_memory E msg a = (if unat a < length (im_data msg) then im_data msg ! unat a else bh_stack E a)"

text \<open>The update: at most one message, then the loop is left.\<close>

definition ota :: "boot_hw \<Rightarrow> device \<Rightarrow> isotp_msg \<Rightarrow> bootl \<Rightarrow> bootl option" where
  "ota E D msg s = do {
     s \<leftarrow> flash_erase D APP_ADDR s;
     s \<leftarrow> flash_write D (msg_memory E msg) APP_ADDR 0 (ucast (im_len msg)) s;
     kprintf Arm D (''OTA done, jumping'' @ crlf) [] s }"

partial_function (option) boot_loop :: "boot_hw \<Rightarrow> device \<Rightarrow> nat \<Rightarrow> u32 \<Rightarrow> bootl \<Rightarrow> bootl option" where
  "boot_loop E D k start s = do {
     let s = (SysTick_Handler ^^ bh_ticks E k) s;
     s \<leftarrow> can_irqs E D (bh_frames E k) s;
     if timer_ticks Arm s - start < BOOT_TIMEOUT then do {
       ((r, msg), s) \<leftarrow> on_can (\<lambda>c. map_option (\<lambda>(r, m, c). ((r, m), c)) (isotp_recv Arm (bh_raw E) (bh_frame E) (bh_msg E) c)) s;
       if r = 0 \<and> im_id msg = 0x7E0 then ota E D msg s else boot_loop E D (Suc k) start s
     } else Some s }"

definition bootloader_main :: "boot_hw \<Rightarrow> device \<Rightarrow> bootl \<Rightarrow> (boot_end \<times> bootl) option" where
  "bootloader_main E D s = do {
     let s = uart_early_init Arm D s;
     s \<leftarrow> kprintf Arm D (''BLOOD_BOOT v1.0'' @ crlf) [] s;
     (_, s) \<leftarrow> on_can (\<lambda>c. Some ((), isotp_init c)) s;
     let start = timer_ticks Arm s;
     s \<leftarrow> boot_loop E D 0 start s;
     let flash = bh_flash E (trace s);
     if bh_crc32 E flash APP_ADDR 0x10000 = load32 flash (APP_ADDR + 0x10000) then Some (Jumped, s)
     else do { s \<leftarrow> kprintf Arm D (''CRC fail, stay in boot'' @ crlf) [] s; Some (Stays, s) } }"

section \<open>Waiting for an update\<close>

text \<open>The mailbox has no message, and nothing else of the loop's state matters but the tick.\<close>

definition quiet :: "bootl \<Rightarrow> bool" where
  "quiet s \<longleftrightarrow> mq_inv (can_rx_q (bl_can s)) \<and> mq_items (can_rx_q (bl_can s)) = []"

lemma isotp_recv_quiet:
  assumes "quiet s"
  shows "\<exists>t. on_can (\<lambda>c. map_option (\<lambda>(r, m, c). ((r, m), c)) (isotp_recv Arm raw f m c)) s = Some ((1, m), t) \<and>
    quiet t \<and> system_ticks t = system_ticks s \<and> trace t = trace s"
proof -
  let ?c = "(bl_can s)\<lparr>trace := trace s\<rparr>"
  have "mq_inv (can_rx_q ?c)" "mq_items (can_rx_q ?c) = []" using assms by (simp_all add: quiet_def)
  from can_recv_none [OF this, of raw f] have "isotp_recv Arm raw f m ?c = Some (1, m, ?c)" by (simp add: isotp_recv_def)
  moreover have "trace (s\<lparr>bl_can := c, trace := trace s\<rparr>) = trace s" "trace (s\<lparr>bl_can := c\<rparr>) = trace s" for c by (cases s, simp)+
  ultimately show ?thesis using assms by (cases s) (simp add: on_can_def embed_def quiet_def)
qed

lemma systick_step: "bl_can (SysTick_Handler s) = bl_can s" "system_ticks (SysTick_Handler s) = system_ticks s + 1"
  by (cases s, simp add: SysTick_Handler_def Let_def bus)+

lemma systick_quiet: "quiet ((SysTick_Handler ^^ n) s) = quiet s" "system_ticks ((SysTick_Handler ^^ n) s) = system_ticks s + of_nat n"
  by (induction n) (simp_all add: quiet_def systick_step)

text \<open>Without a tick the loop goes on for ever.\<close>

lemma boot_loop_no_tick:
  assumes "bh_ticks E = (\<lambda>_. 0)" "bh_frames E = (\<lambda>_. 0)" "quiet s" "system_ticks s = start"
  shows "boot_loop E D k start s = None"
proof (rule ccontr)
  assume "boot_loop E D k start s \<noteq> None"
  then obtain t where t: "boot_loop E D k start s = Some t" by blast
  have "bh_ticks E = (\<lambda>_. 0) \<longrightarrow> bh_frames E = (\<lambda>_. 0) \<longrightarrow> quiet s \<longrightarrow> system_ticks s \<noteq> start"
  proof (rule boot_loop.raw_induct [where P = "\<lambda>E D k start s t. bh_ticks E = (\<lambda>_. 0) \<longrightarrow> bh_frames E = (\<lambda>_. 0) \<longrightarrow>
      quiet s \<longrightarrow> system_ticks s \<noteq> start", OF _ t], intro impI notI)
    fix f E D k start s t
    assume IH: "\<And>E D k start s t. f E D k start s = Some t \<Longrightarrow> bh_ticks E = (\<lambda>_. 0) \<longrightarrow> bh_frames E = (\<lambda>_. 0) \<longrightarrow>
        quiet s \<longrightarrow> system_ticks s \<noteq> start"
      and eq: "do { let s = (SysTick_Handler ^^ bh_ticks E k) s;
         s \<leftarrow> can_irqs E D (bh_frames E k) s;
         if timer_ticks Arm s - start < BOOT_TIMEOUT then do {
           ((r, msg), s) \<leftarrow> on_can (\<lambda>c. map_option (\<lambda>(r, m, c). ((r, m), c)) (isotp_recv Arm (bh_raw E) (bh_frame E) (bh_msg E) c)) s;
           if r = 0 \<and> im_id msg = 0x7E0 then ota E D msg s else f E D (Suc k) start s
         } else Some s } = Some t"
      and q: "bh_ticks E = (\<lambda>_. 0)" "bh_frames E = (\<lambda>_. 0)" "quiet s" "system_ticks s = start"
    obtain u where u: "on_can (\<lambda>c. map_option (\<lambda>(r, m, c). ((r, m), c)) (isotp_recv Arm (bh_raw E) (bh_frame E) (bh_msg E) c)) s =
        Some ((1, bh_msg E), u)" "quiet u" "system_ticks u = system_ticks s"
      using isotp_recv_quiet [OF q(3)] by blast
    have "f E D (Suc k) start u = Some t"
      using eq u(1) q by (simp add: timer_ticks_def BOOT_TIMEOUT_def Let_def)
    from IH [OF this] q u show False by simp
  qed
  with assms show False by blast
qed

text \<open>With one tick in each round it ends when the time is over.\<close>

lemma boot_loop_ticks:
  assumes "bh_ticks E = (\<lambda>_. 1)" "bh_frames E = (\<lambda>_. 0)"
  shows "quiet s \<Longrightarrow> system_ticks s = start + of_nat (4999 - n) \<Longrightarrow> n \<le> 4999 \<Longrightarrow>
    \<exists>t. boot_loop E D k start s = Some t \<and> system_ticks t = start + 5000"
proof (induction n arbitrary: k s)
  case 0
  let ?s = "SysTick_Handler s"
  have "system_ticks ?s = start + 5000" using systick_quiet(2) [of 1 s] 0 by simp
  then show ?case by (subst boot_loop.simps) (simp add: assms timer_ticks_def BOOT_TIMEOUT_def Let_def)
next
  case (Suc n)
  let ?s = "SysTick_Handler s"
  have s: "quiet ?s" "system_ticks ?s = start + of_nat (4999 - n)"
  proof -
    show "quiet ?s" using Suc.prems(1) by (simp add: quiet_def systick_step)
    have "4999 - n = Suc (4999 - Suc n)" using Suc.prems(3) by simp
    then show "system_ticks ?s = start + of_nat (4999 - n)" using Suc.prems(2) by (simp add: systick_step)
  qed
  obtain u where u: "on_can (\<lambda>c. map_option (\<lambda>(r, m, c). ((r, m), c)) (isotp_recv Arm (bh_raw E) (bh_frame E) (bh_msg E) c)) ?s =
      Some ((1, bh_msg E), u)" "quiet u" "system_ticks u = system_ticks ?s"
    using isotp_recv_quiet [OF s(1)] by blast
  have "(of_nat (4999 - n) :: u32) < 5000"
    by (simp add: word_less_nat_alt unat_of_nat)
  then have "boot_loop E D k start s = boot_loop E D (Suc k) start u"
    using u(1) s(2) by (subst boot_loop.simps) (simp add: assms timer_ticks_def BOOT_TIMEOUT_def Let_def)
  moreover have "\<exists>t. boot_loop E D (Suc k) start u = Some t \<and> system_ticks t = start + 5000"
    using Suc.IH [of u "Suc k"] u s(2) Suc.prems(3) by simp
  ultimately show ?case by simp
qed

lemma quiet_only_trace: "only_trace s t \<Longrightarrow> quiet t = quiet s" "only_trace s t \<Longrightarrow> system_ticks t = system_ticks s"
  by (cases s, auto simp: only_trace_def quiet_def)+

text \<open>\<open>bootloader_main\<close> is its banner, the loop and the check.\<close>

lemma kprintf_text:
  assumes "uart_ready a D" "conversions msg = []"
  shows "\<exists>t. kprintf a D msg [] s = Some t"
  using kprintf_chars_total [of msg "[]"] assms(2) uart_chars_ready [OF assms(1)] by (fastforce simp: kprintf_def)

definition boot_check :: "boot_hw \<Rightarrow> trace \<Rightarrow> boot_end" where
  "boot_check E tr =
     (let flash = bh_flash E tr
      in if bh_crc32 E flash APP_ADDR 0x10000 = load32 flash (APP_ADDR + 0x10000) then Jumped else Stays)"

lemma bootloader_parts:
  assumes "uart_ready Arm D" "quiet s"
  obtains u where "quiet u" "system_ticks u = system_ticks s"
    "bootloader_main E D s = do {
       s \<leftarrow> boot_loop E D 0 (system_ticks s) u;
       if boot_check E (trace s) = Jumped then Some (Jumped, s)
       else do { s \<leftarrow> kprintf Arm D (''CRC fail, stay in boot'' @ crlf) [] s; Some (Stays, s) } }"
proof -
  let ?s = "uart_early_init Arm D s"
  have "conversions (''BLOOD_BOOT v1.0'' @ crlf) = []" by (simp add: crlf_def)
  from kprintf_text [OF assms(1) this] obtain v where v: "kprintf Arm D (''BLOOD_BOOT v1.0'' @ crlf) [] ?s = Some v" by blast
  have o: "only_trace s v" using kprintf_only [OF v] uart_early_init_only only_trace_trans by blast
  let ?c = "isotp_init ((bl_can v)\<lparr>trace := trace v\<rparr>)"
  let ?u = "v\<lparr>bl_can := ?c, trace := trace v\<rparr>"
  have "on_can (\<lambda>c. Some ((), isotp_init c)) v = Some ((), ?u)" by (cases v) (simp add: on_can_def embed_def isotp_init_def)
  moreover have "quiet ?u" using quiet_only_trace(1) [OF o] assms(2) by (cases v) (simp add: quiet_def isotp_init_def)
  moreover have "system_ticks ?u = system_ticks s"
    using quiet_only_trace(2) [OF o] by (cases v) simp
  ultimately obtain u where u: "on_can (\<lambda>c. Some ((), isotp_init c)) v = Some ((), u)" "quiet u" "system_ticks u = system_ticks s"
    by blast
  have "(if c then Jumped else Stays) = Jumped \<longleftrightarrow> c" for c by simp
  then show ?thesis
    by (intro that [OF u(2,3)])
      (simp only: bootloader_main_def Let_def v u bind.bind_lunit timer_ticks_def arch.case boot_check_def split_conv)
qed

text \<open>C27: The boot loader starts neither the tick nor the CAN controller. With no interrupt it stays in
  its waiting loop for ever: the five seconds never pass and the application is never entered. With one tick in every round, and no frame
  on the CAN bus, it leaves the loop after 5000 ticks, and enters the application exactly when its checksum is the stored one.\<close>

theorem boot_loader_waits:
  assumes "uart_ready Arm D" "mq_inv (can_rx_q (bl_can s))" "mq_items (can_rx_q (bl_can s)) = []" "bh_frames E = (\<lambda>_. 0)"
  shows "(bh_ticks E = (\<lambda>_. 0) \<longrightarrow> bootloader_main E D s = None) \<and>
    (bh_ticks E = (\<lambda>_. 1) \<longrightarrow> (\<exists>tr t. bootloader_main E D s = Some (boot_check E tr, t) \<and>
       system_ticks t = system_ticks s + BOOT_TIMEOUT \<and> (boot_check E tr = Jumped \<longrightarrow> trace t = tr)))"
proof (intro conjI impI)
  obtain u where u: "quiet u" "system_ticks u = system_ticks s"
    and run: "bootloader_main E D s = do {
       s \<leftarrow> boot_loop E D 0 (system_ticks s) u;
       if boot_check E (trace s) = Jumped then Some (Jumped, s)
       else do { s \<leftarrow> kprintf Arm D (''CRC fail, stay in boot'' @ crlf) [] s; Some (Stays, s) } }"
    using bootloader_parts [OF assms(1)] assms(2,3) unfolding quiet_def by blast
  show "bootloader_main E D s = None" if "bh_ticks E = (\<lambda>_. 0)"
    using boot_loop_no_tick [OF that assms(4) u] by (simp add: run)
  assume ticks: "bh_ticks E = (\<lambda>_. 1)"
  obtain t where t: "boot_loop E D 0 (system_ticks s) u = Some t" "system_ticks t = system_ticks s + 5000"
    using boot_loop_ticks [OF ticks assms(4) u(1), where start = "system_ticks s" and n = 4999 and k = 0] u(2) by auto
  obtain v where v: "kprintf Arm D (''CRC fail, stay in boot'' @ crlf) [] t = Some v"
    using kprintf_text [OF assms(1), of "''CRC fail, stay in boot'' @ crlf" t] by (auto simp: crlf_def)
  have "system_ticks v = system_ticks s + 5000" using quiet_only_trace(2) [OF kprintf_only [OF v]] t(2) by simp
  then show "\<exists>tr t. bootloader_main E D s = Some (boot_check E tr, t) \<and> system_ticks t = system_ticks s + BOOT_TIMEOUT \<and>
      (boot_check E tr = Jumped \<longrightarrow> trace t = tr)"
    using t v by (cases "boot_check E (trace t)") (auto simp: run BOOT_TIMEOUT_def intro: exI [of _ "trace t"])
qed

definition cold_boot :: bootl where
  "cold_boot = \<lparr>trace = [], pit_ticks = 0, pit_frequency = 0, pit_loops_per_10ms = 0, system_ticks = 7,
     bl_can = \<lparr>trace = [], can_rx_q = \<lparr>mq_buf = replicate 8 [], mq_head = 0, mq_tail = 0, mq_count = 0, mq_lock = 0\<rparr>,
       can_lock = 0, isotp_state = 3\<rparr>\<rparr>"

definition loader_env :: "nat \<Rightarrow> boot_hw" where
  "loader_env n = \<lparr>bh_ticks = (\<lambda>_. n), bh_frames = (\<lambda>_. 0), bh_pad = [], bh_msg = \<lparr>im_id = 0x7E0, im_data = [], im_len = 0\<rparr>,
     bh_frame = \<lparr>can_id = 0, can_len = 0, can_data = []\<rparr>, bh_raw = [], bh_stack = (\<lambda>_. 0), bh_flash = (\<lambda>_ _. 0xFF),
     bh_crc32 = (\<lambda>m a n. NOT 0)\<rparr>"

lemma boot_loader_waits_witness:
  "bootloader_main (loader_env 0) ones cold_boot = None \<and>
   (\<exists>t. bootloader_main (loader_env 1) ones cold_boot = Some (Jumped, t) \<and> system_ticks t = 5007)"
proof -
  have r: "uart_ready Arm ones" by (rule ready_ones) simp
  have q: "mq_inv (can_rx_q (bl_can cold_boot))" "mq_items (can_rx_q (bl_can cold_boot)) = []"
    by (simp_all add: cold_boot_def mq_inv_def mq_items_def MSG_DEPTH_def)
  have e: "bh_ticks (loader_env n) = (\<lambda>_. n)" "bh_frames (loader_env n) = (\<lambda>_. 0)" for n by (simp_all add: loader_env_def)
  have c: "boot_check (loader_env 1) tr = Jumped" for tr
    by (simp add: boot_check_def loader_env_def Let_def) code_simp
  have "system_ticks cold_boot + BOOT_TIMEOUT = 5007" by (simp add: cold_boot_def BOOT_TIMEOUT_def)
  then show ?thesis
    using boot_loader_waits [OF r q e(2), of 0] boot_loader_waits [OF r q e(2), of 1] unfolding e(1) c by fastforce
qed

end
