(* ===== verification/Smbios.thy ===== *)
theory Smbios
  imports Acpi
begin

text \<open>
  \<open>src/drivers/smbios.c\<close>: the search for the system description the BIOS leaves in memory, and the lookup of structures
  and of their strings. Pointers are addresses, the null pointer is 0; the fields of the packed structures are read at
  their offsets. A string the driver returns is either the literal \<open>""\<close> or lies in the table. The walks run over memory
  that nothing bounds; \<open>None\<close> means that one does not end.
\<close>

definition SMBIOS_TYPE_BIOS :: u8 where "SMBIOS_TYPE_BIOS = 0"
definition SMBIOS_TYPE_SYSTEM :: u8 where "SMBIOS_TYPE_SYSTEM = 1"
definition SMBIOS_TYPE_PROCESSOR :: u8 where "SMBIOS_TYPE_PROCESSOR = 4"
definition SMBIOS_TYPE_END_OF_TABLE :: u8 where "SMBIOS_TYPE_END_OF_TABLE = 127"

definition entry_length :: "memory \<Rightarrow> u32 \<Rightarrow> u8" where "entry_length m p = m (p + 5)"
definition entry_major_version :: "memory \<Rightarrow> u32 \<Rightarrow> u8" where "entry_major_version m p = m (p + 6)"
definition entry_minor_version :: "memory \<Rightarrow> u32 \<Rightarrow> u8" where "entry_minor_version m p = m (p + 7)"
definition entry_table_length :: "memory \<Rightarrow> u32 \<Rightarrow> u16" where "entry_table_length m p = load16 m (p + 22)"
definition entry_table_address :: "memory \<Rightarrow> u32 \<Rightarrow> u32" where "entry_table_address m p = load32 m (p + 24)"

definition entry3_length :: "memory \<Rightarrow> u32 \<Rightarrow> u8" where "entry3_length m p = m (p + 6)"
definition entry3_major_version :: "memory \<Rightarrow> u32 \<Rightarrow> u8" where "entry3_major_version m p = m (p + 7)"
definition entry3_minor_version :: "memory \<Rightarrow> u32 \<Rightarrow> u8" where "entry3_minor_version m p = m (p + 8)"
definition entry3_max_size :: "memory \<Rightarrow> u32 \<Rightarrow> u32" where "entry3_max_size m p = load32 m (p + 12)"
definition entry3_table_address :: "memory \<Rightarrow> u32 \<Rightarrow> u64" where "entry3_table_address m p = load64 m (p + 16)"

definition hd_type :: "memory \<Rightarrow> u32 \<Rightarrow> u8" where "hd_type m p = m p"
definition hd_length :: "memory \<Rightarrow> u32 \<Rightarrow> u8" where "hd_length m p = m (p + 1)"

record smbios = machine +
  sm_mem :: memory
  smbios_entry :: u32
  smbios3_entry :: u32
  smbios_table :: u32
  smbios_table_length :: u16
  smbios_version_major :: u8
  smbios_version_minor :: u8

section \<open>The entry point\<close>

definition smbios_checksum :: "memory \<Rightarrow> u32 \<Rightarrow> u32 \<Rightarrow> u8" where
  "smbios_checksum m p len = fold (\<lambda>i sum. sum + m (p + of_nat i)) [0..<unat len] 0"

definition in_ebda :: "memory \<Rightarrow> u32 \<Rightarrow> bool" where
  "in_ebda m addr \<longleftrightarrow> bytes_at addr 4 m = cstr ''_SM_'' \<and> smbios_checksum m addr (ucast (entry_length m addr)) = 0"

definition in_bios :: "memory \<Rightarrow> u32 \<Rightarrow> bool" where
  "in_bios m addr \<longleftrightarrow> bytes_at addr 4 m = cstr ''_SM_'' \<and> entry_length m addr \<ge> 0x1F \<and>
     smbios_checksum m addr (ucast (entry_length m addr)) = 0"

definition is_entry3 :: "memory \<Rightarrow> u32 \<Rightarrow> bool" where
  "is_entry3 m addr \<longleftrightarrow> bytes_at addr 4 m = cstr ''_SM3'' \<and> m (addr + 4) = of_char CHR ''_'' \<and>
     smbios_checksum m addr (ucast (entry3_length m addr)) = 0"

text \<open>The search of the BIOS area stops at a version 2 entry point; version 3 ones passed on the way are noted.\<close>

fun bios_scan :: "u32 list \<Rightarrow> 'a smbios_scheme \<Rightarrow> u32 \<times> 'a smbios_scheme" where
  "bios_scan [] s = (0, s)"
| "bios_scan (addr # as) s =
     (if in_bios (sm_mem s) addr then (addr, s)
      else bios_scan as (if is_entry3 (sm_mem s) addr then s\<lparr>smbios3_entry := addr\<rparr> else s))"

definition smbios_find_entry_point :: "'a smbios_scheme \<Rightarrow> u32 \<times> 'a smbios_scheme" where
  "smbios_find_entry_point s =
     (let m = sm_mem s;
          ebda = load16 m 0x40E;
          found = (if ebda \<noteq> 0 then find (in_ebda m) (paragraphs (ucast (push_bit 4 ebda)) (1024 div 16)) else None)
      in case found of
           Some addr \<Rightarrow> (addr, s)
         | None \<Rightarrow> bios_scan (paragraphs 0xF0000 (0x10000 div 16)) s)"

definition smbios_init :: "'a smbios_scheme \<Rightarrow> 'a smbios_scheme" where
  "smbios_init s =
     (let (entry, s) = smbios_find_entry_point s;
          s = s\<lparr>smbios_entry := entry\<rparr>;
          m = sm_mem s
      in if smbios_entry s \<noteq> 0 then
           s\<lparr>smbios_table := entry_table_address m (smbios_entry s),
             smbios_table_length := entry_table_length m (smbios_entry s),
             smbios_version_major := entry_major_version m (smbios_entry s),
             smbios_version_minor := entry_minor_version m (smbios_entry s)\<rparr>
         else if smbios3_entry s \<noteq> 0 then
           s\<lparr>smbios_table := ucast (entry3_table_address m (smbios3_entry s)),
             smbios_table_length := ucast (entry3_max_size m (smbios3_entry s)),
             smbios_version_major := entry3_major_version m (smbios3_entry s),
             smbios_version_minor := entry3_minor_version m (smbios3_entry s)\<rparr>
         else s)"

section \<open>Structures and strings\<close>

datatype sm_string = Empty | At u32

text \<open>\<open>while (*strings != 0) strings++; strings++;\<close>\<close>

partial_function (option) skip_string :: "memory \<Rightarrow> u32 \<Rightarrow> u32 option" where
  "skip_string m p = (if m p \<noteq> 0 then skip_string m (p + 1) else Some (p + 1))"

partial_function (option) string_walk :: "memory \<Rightarrow> u8 \<Rightarrow> u32 \<Rightarrow> u8 \<Rightarrow> sm_string option" where
  "string_walk m string_number strings current =
     (if m strings \<noteq> 0 then
        (if current = string_number then Some (At strings)
         else do { strings \<leftarrow> skip_string m strings; string_walk m string_number strings (current + 1) })
      else Some Empty)"

definition smbios_get_string :: "memory \<Rightarrow> u32 \<Rightarrow> u8 \<Rightarrow> sm_string option" where
  "smbios_get_string m header string_number =
     (if string_number = 0 then Some Empty
      else string_walk m string_number (header + ucast (hd_length m header)) 1)"

text \<open>\<open>while (current < end && (*current != 0 || *(current + 1) != 0)) current++;\<close>\<close>

function skip_strings :: "memory \<Rightarrow> u32 \<Rightarrow> u32 \<Rightarrow> u32" where
  "skip_strings m e current =
     (if current < e \<and> (m current \<noteq> 0 \<or> m (current + 1) \<noteq> 0) then skip_strings m e (current + 1) else current)"
  by auto
termination
proof (relation "measure (\<lambda>(m, e, c). unat (e - c))", simp)
  fix m :: memory and e c :: u32
  assume "c < e \<and> (m c \<noteq> 0 \<or> m (c + 1) \<noteq> 0)"
  then have "e - (c + 1) < e - c" by unat_arith
  then show "((m, e, c + 1), m, e, c) \<in> measure (\<lambda>(m, e, c). unat (e - c))" by (simp add: word_less_nat_alt)
qed

declare skip_strings.simps [simp del]

partial_function (option) structure_walk :: "memory \<Rightarrow> u8 \<Rightarrow> u8 \<Rightarrow> u32 \<Rightarrow> u32 \<Rightarrow> u8 \<Rightarrow> u32 option" where
  "structure_walk m type inst e current found_instances =
     (if current < e then
        (if hd_type m current = type \<and> found_instances = inst then Some current
         else
           (let found_instances = (if hd_type m current = type then found_instances + 1 else found_instances)
            in if hd_type m current = SMBIOS_TYPE_END_OF_TABLE then Some 0
               else structure_walk m type inst e (skip_strings m e (current + ucast (hd_length m current)) + 2) found_instances))
      else Some 0)"

definition smbios_find_structure :: "u8 \<Rightarrow> u8 \<Rightarrow> 'a smbios_scheme \<Rightarrow> u32 option" where
  "smbios_find_structure type inst s =
     (if smbios_table s = 0 then Some 0
      else structure_walk (sm_mem s) type inst (smbios_table s + ucast (smbios_table_length s)) (smbios_table s) 0)"

text \<open>The getters of one string: the number of the string is a byte of the structure.\<close>

definition string_of :: "u8 \<Rightarrow> u8 \<Rightarrow> u32 \<Rightarrow> 'a smbios_scheme \<Rightarrow> sm_string option" where
  "string_of type inst offset s = do {
     p \<leftarrow> smbios_find_structure type inst s;
     if p = 0 then Some Empty else smbios_get_string (sm_mem s) p (sm_mem s (p + offset)) }"

definition smbios_get_bios_vendor :: "'a smbios_scheme \<Rightarrow> sm_string option" where
  "smbios_get_bios_vendor s = string_of SMBIOS_TYPE_BIOS 0 4 s"

definition smbios_get_bios_version :: "'a smbios_scheme \<Rightarrow> sm_string option" where
  "smbios_get_bios_version s = string_of SMBIOS_TYPE_BIOS 0 5 s"

definition smbios_get_system_manufacturer :: "'a smbios_scheme \<Rightarrow> sm_string option" where
  "smbios_get_system_manufacturer s = string_of SMBIOS_TYPE_SYSTEM 0 4 s"

definition smbios_get_system_product :: "'a smbios_scheme \<Rightarrow> sm_string option" where
  "smbios_get_system_product s = string_of SMBIOS_TYPE_SYSTEM 0 5 s"

definition smbios_get_system_version :: "'a smbios_scheme \<Rightarrow> sm_string option" where
  "smbios_get_system_version s = string_of SMBIOS_TYPE_SYSTEM 0 6 s"

definition smbios_get_system_serial :: "'a smbios_scheme \<Rightarrow> sm_string option" where
  "smbios_get_system_serial s = string_of SMBIOS_TYPE_SYSTEM 0 7 s"

text \<open>The caller's array is the list of its 16 bytes, unchanged without a structure.\<close>

definition smbios_get_system_uuid :: "u8 list option \<Rightarrow> 'a smbios_scheme \<Rightarrow> u8 list option option" where
  "smbios_get_system_uuid uuid s = do {
     p \<leftarrow> smbios_find_structure SMBIOS_TYPE_SYSTEM 0 s;
     if p = 0 \<or> uuid = None then Some uuid else Some (Some (bytes_at (p + 8) 16 (sm_mem s))) }"

definition smbios_get_processor_speed :: "u8 \<Rightarrow> 'a smbios_scheme \<Rightarrow> u16 option" where
  "smbios_get_processor_speed processor s = do {
     p \<leftarrow> smbios_find_structure SMBIOS_TYPE_PROCESSOR processor s;
     Some (if p = 0 then 0 else load16 (sm_mem s) (p + 22)) }"

definition smbios_get_processor_manufacturer :: "u8 \<Rightarrow> 'a smbios_scheme \<Rightarrow> sm_string option" where
  "smbios_get_processor_manufacturer processor s = string_of SMBIOS_TYPE_PROCESSOR processor 7 s"

definition smbios_get_processor_version :: "u8 \<Rightarrow> 'a smbios_scheme \<Rightarrow> sm_string option" where
  "smbios_get_processor_version processor s = string_of SMBIOS_TYPE_PROCESSOR processor 16 s"

definition smbios_get_processor_core_count :: "u8 \<Rightarrow> 'a smbios_scheme \<Rightarrow> u8 option" where
  "smbios_get_processor_core_count processor s = do {
     p \<leftarrow> smbios_find_structure SMBIOS_TYPE_PROCESSOR processor s;
     Some (if p = 0 then 0 else sm_mem s (p + 35)) }"

definition smbios_get_processor_thread_count :: "u8 \<Rightarrow> 'a smbios_scheme \<Rightarrow> u8 option" where
  "smbios_get_processor_thread_count processor s = do {
     p \<leftarrow> smbios_find_structure SMBIOS_TYPE_PROCESSOR processor s;
     Some (if p = 0 then 0 else sm_mem s (p + 37)) }"

definition smbios_is_available :: "'a smbios_scheme \<Rightarrow> u8" where
  "smbios_is_available s = c_bool (smbios_entry s \<noteq> 0 \<or> smbios3_entry s \<noteq> 0)"

definition smbios_get_version_major :: "'a smbios_scheme \<Rightarrow> u8" where
  "smbios_get_version_major s = smbios_version_major s"

definition smbios_get_version_minor :: "'a smbios_scheme \<Rightarrow> u8" where
  "smbios_get_version_minor s = smbios_version_minor s"

section \<open>A well-formed table\<close>

text \<open>A structure as it is stored: its formatted part, then its strings, each ended by a NUL, and one more NUL.\<close>

record sm_struct =
  st_type :: u8
  st_handle :: "u8 \<times> u8"
  st_body :: "u8 list"
  st_strings :: "u8 list list"

definition string_area :: "u8 list list \<Rightarrow> u8 list" where
  "string_area ts = concat (map (\<lambda>t. t @ [0]) ts) @ (if ts = [] then [0, 0] else [0])"

definition st_bytes :: "sm_struct \<Rightarrow> u8 list" where
  "st_bytes x = [st_type x, of_nat (4 + length (st_body x)), fst (st_handle x), snd (st_handle x)] @ st_body x @
     string_area (st_strings x)"

definition st_ok :: "sm_struct \<Rightarrow> bool" where
  "st_ok x \<longleftrightarrow> 4 + length (st_body x) < 256 \<and> st_type x \<noteq> SMBIOS_TYPE_END_OF_TABLE \<and>
     (\<forall>t \<in> set (st_strings x). t \<noteq> [] \<and> 0 \<notin> set t)"

definition holds :: "memory \<Rightarrow> u32 \<Rightarrow> u8 list \<Rightarrow> bool" where
  "holds m a bs \<longleftrightarrow> bytes_at a (length bs) m = bs"

lemma holds_Nil [simp]: "holds m a []"
  by (simp add: holds_def)

lemma holds_Cons [simp]: "holds m a (b # bs) \<longleftrightarrow> m a = b \<and> holds m (a + 1) bs"
  by (simp add: holds_def bytes_at_Suc)

lemma holds_append [simp]: "holds m a (xs @ ys) \<longleftrightarrow> holds m a xs \<and> holds m (a + of_nat (length xs)) ys"
  by (induction xs arbitrary: a) (auto simp: algebra_simps)

section \<open>Strings\<close>

lemma skip_string_text:
  "holds m p (t @ [0]) \<Longrightarrow> 0 \<notin> set t \<Longrightarrow> skip_string m p = Some (p + of_nat (length t) + 1)"
proof (induction t arbitrary: p)
  case Nil
  then show ?case by (subst skip_string.simps) simp
next
  case (Cons x t)
  then have "skip_string m (p + 1) = Some (p + 1 + of_nat (length t) + 1)" by simp
  then show ?case using Cons.prems by (subst skip_string.simps) (simp add: algebra_simps)
qed

lemma unat_word_Suc: "w \<noteq> 0 \<Longrightarrow> unat w = Suc (unat (w - 1))" for w :: "'a::len word"
  using unat_minus_one [of w] by (simp add: unat_gt_0 Suc_diff_1 del: One_nat_def)

text \<open>The walk over the strings counts modulo 256.\<close>

lemma string_walk_text:
  assumes "holds m p (concat (map (\<lambda>t. t @ [0]) ts) @ [0])" "\<forall>t \<in> set ts. t \<noteq> [] \<and> 0 \<notin> set t"
  shows "if unat (n - c) < length ts
    then \<exists>q. string_walk m n p c = Some (At q) \<and> holds m q (ts ! unat (n - c) @ [0])
    else string_walk m n p c = Some Empty"
  using assms
proof (induction ts arbitrary: p c)
  case Nil
  then show ?case by (subst string_walk.simps) simp
next
  case (Cons t ts)
  obtain x u where t: "t = x # u" "x \<noteq> 0" using Cons.prems(2) by (cases t) auto
  have h: "holds m p (t @ [0])" and p: "m p \<noteq> 0" using Cons.prems(1) t by auto
  show ?case
  proof (cases "n = c")
    case True
    then show ?thesis using p h by (subst string_walk.simps) auto
  next
    case False
    let ?p = "p + of_nat (length t) + 1"
    have skip: "skip_string m p = Some ?p" using skip_string_text [OF h] Cons.prems(2) by simp
    have "holds m ?p (concat (map (\<lambda>t. t @ [0]) ts) @ [0])" using Cons.prems(1) by (simp add: algebra_simps)
    from Cons.IH [OF this, of "c + 1"] Cons.prems(2) have
      "if unat (n - (c + 1)) < length ts
       then \<exists>q. string_walk m n ?p (c + 1) = Some (At q) \<and> holds m q (ts ! unat (n - (c + 1)) @ [0])
       else string_walk m n ?p (c + 1) = Some Empty" by simp
    moreover have "unat (n - c) = Suc (unat (n - (c + 1)))"
      using unat_word_Suc [of "n - c"] False by (simp add: algebra_simps)
    moreover have "string_walk m n p c = string_walk m n ?p (c + 1)"
      using False p skip by (subst string_walk.simps) simp
    ultimately show ?thesis by (simp split: if_splits)
  qed
qed

text \<open>The bytes up to two NULs in a row.\<close>

fun to_double :: "u8 list \<Rightarrow> nat" where
  "to_double (x # y # r) = (if x \<noteq> 0 \<or> y \<noteq> 0 then Suc (to_double (y # r)) else 0)"
| "to_double _ = 0"

lemma to_double_text:
  "0 \<notin> set t \<Longrightarrow> to_double (t @ 0 # y # r) = (if y = 0 then length t else Suc (length t + to_double (y # r)))"
proof (induction t)
  case (Cons x t)
  then show ?case by (cases t) auto
qed simp

lemma to_double_strings:
  "\<forall>t \<in> set ts. t \<noteq> [] \<and> 0 \<notin> set t \<Longrightarrow> to_double (string_area ts) + 2 = length (string_area ts)"
proof (induction ts)
  case Nil
  then show ?case by (simp add: string_area_def)
next
  case (Cons t ts)
  show ?case
  proof (cases ts)
    case Nil
    then show ?thesis using Cons.prems to_double_text [of t 0 "[]"] by (simp add: string_area_def)
  next
    case (Cons u us)
    then obtain x v where "string_area ts = x # v" "x \<noteq> 0"
      using Cons.prems by (cases u) (auto simp: string_area_def)
    moreover have "string_area (t # ts) = t @ 0 # string_area ts" using Cons by (simp add: string_area_def)
    ultimately show ?thesis
      using Cons.IH Cons.prems to_double_text [of t x v] by simp
  qed
qed

lemma skip_strings_holds:
  "holds m c bs \<Longrightarrow> to_double bs + 2 \<le> length bs \<Longrightarrow> unat c + length bs \<le> unat e \<Longrightarrow>
   skip_strings m e c = c + of_nat (to_double bs)"
proof (induction bs arbitrary: c rule: to_double.induct)
  case (1 x y r)
  have lt: "c < e" using "1.prems"(3) by (simp add: word_less_nat_alt)
  show ?case
  proof (cases "x \<noteq> 0 \<or> y \<noteq> 0")
    case True
    have "unat (c + 1) = unat c + 1" using lt unsigned_less [of e, where ?'a = nat] by (simp add: word_less_nat_alt unat_word_ariths(1))
    then have "skip_strings m e (c + 1) = c + 1 + of_nat (to_double (y # r))"
      using "1.IH" [OF True, of "c + 1"] "1.prems" True by auto
    then show ?thesis using True lt "1.prems"(1) by (subst skip_strings.simps) (simp add: algebra_simps)
  next
    case False
    then show ?thesis using "1.prems"(1) by (subst skip_strings.simps) simp
  qed
qed auto

section \<open>Structures\<close>

lemma st_parts:
  assumes "holds m a (st_bytes x)" "st_ok x"
  shows "hd_type m a = st_type x" "ucast (hd_length m a) = (of_nat (4 + length (st_body x)) :: u32)"
    "holds m (a + ucast (hd_length m a)) (string_area (st_strings x))"
proof -
  let ?k = "4 + length (st_body x)"
  show "hd_type m a = st_type x" using assms(1) by (simp add: hd_type_def st_bytes_def)
  have "hd_length m a = of_nat ?k" using assms(1) by (simp add: hd_length_def st_bytes_def)
  moreover have "unat (of_nat ?k :: u8) = ?k" using assms(2) by (simp add: st_ok_def unat_of_nat del: of_nat_add)
  ultimately show k: "ucast (hd_length m a) = (of_nat ?k :: u32)"
    using assms(2) by (simp add: word_unat_eq_iff unsigned_ucast_eq take_bit_nat_eq_self unat_of_nat st_ok_def del: of_nat_add)
  show "holds m (a + ucast (hd_length m a)) (string_area (st_strings x))"
    unfolding k using assms(1) by (simp add: st_bytes_def algebra_simps)
qed

lemma st_next:
  assumes "holds m a (st_bytes x)" "st_ok x" "unat a + length (st_bytes x) \<le> unat e"
  shows "skip_strings m e (a + ucast (hd_length m a)) + 2 = a + of_nat (length (st_bytes x))"
proof -
  let ?k = "4 + length (st_body x)" and ?ar = "string_area (st_strings x)"
  note k = st_parts(2) [OF assms(1,2)] and ar = st_parts(3) [OF assms(1,2), unfolded st_parts(2) [OF assms(1,2)]]
  have "unat (a + of_nat ?k) = unat a + ?k"
    using assms(3) unsigned_less [of e, where ?'a = nat] by (simp add: st_bytes_def unat_word_ariths(1) unat_of_nat del: of_nat_add)
  then have "unat (a + of_nat ?k) + length ?ar \<le> unat e" using assms(3) by (simp add: st_bytes_def)
  moreover have td: "to_double ?ar + 2 = length ?ar" using to_double_strings assms(2) by (simp add: st_ok_def)
  ultimately have "skip_strings m e (a + of_nat ?k) = a + of_nat ?k + of_nat (to_double ?ar)"
    using skip_strings_holds [OF ar] by simp
  then show ?thesis
    unfolding k using arg_cong [OF td, of "of_nat :: nat \<Rightarrow> u32"] by (simp add: st_bytes_def algebra_simps)
qed

lemma get_string_text:
  assumes "holds m a (st_bytes x)" "st_ok x"
  shows "if n \<noteq> 0 \<and> unat n \<le> length (st_strings x)
    then \<exists>q. smbios_get_string m a n = Some (At q) \<and> holds m q (st_strings x ! (unat n - 1) @ [0])
    else smbios_get_string m a n = Some Empty"
proof (cases "n = 0")
  case True
  then show ?thesis by (simp add: smbios_get_string_def)
next
  case False
  have h: "holds m (a + ucast (hd_length m a)) (concat (map (\<lambda>t. t @ [0]) (st_strings x)) @ [0])"
    using st_parts(3) [OF assms] by (auto simp: string_area_def split: if_splits)
  have s: "\<forall>t \<in> set (st_strings x). t \<noteq> [] \<and> 0 \<notin> set t" using assms(2) by (simp add: st_ok_def)
  have "unat n - 1 = unat (n - 1)" "unat n \<le> length (st_strings x) \<longleftrightarrow> unat (n - 1) < length (st_strings x)"
    using unat_word_Suc [OF False] by auto
  with string_walk_text [OF h s, of n 1] False show ?thesis unfolding smbios_get_string_def by (simp only: if_False not_False_eq_True simp_thms)
qed

text \<open>The walk finds the \<open>k\<close>-th structure of a type, counting modulo 256, or stops at the end mark.\<close>

lemma structure_walk_finds:
  assumes "holds m a (concat (map st_bytes xs) @ [SMBIOS_TYPE_END_OF_TABLE])" "\<forall>x \<in> set xs. st_ok x"
    "unat a + length (concat (map st_bytes xs)) < unat e" "ty \<noteq> SMBIOS_TYPE_END_OF_TABLE"
  shows "let ys = filter (\<lambda>x. st_type x = ty) xs; k = unat (inst - found) in
    if k < length ys then \<exists>p. structure_walk m ty inst e a found = Some p \<and> unat a \<le> unat p \<and> holds m p (st_bytes (ys ! k))
    else structure_walk m ty inst e a found = Some 0"
  using assms(1-3)
proof (induction xs arbitrary: a found)
  case Nil
  then show ?case using assms(4) by (subst structure_walk.simps) (simp add: hd_type_def word_less_nat_alt Let_def)
next
  case (Cons x xs)
  let ?a = "a + of_nat (length (st_bytes x))"
  have h: "holds m a (st_bytes x)" and ok: "st_ok x" and lt: "a < e" and le: "unat a + length (st_bytes x) \<le> unat e"
    using Cons.prems by (simp_all add: word_less_nat_alt)
  have a: "unat ?a = unat a + length (st_bytes x)"
    using Cons.prems(3) unsigned_less [of e, where ?'a = nat] by (simp add: unat_word_ariths(1) unat_of_nat)
  note step = st_parts(1) [OF h ok] st_next [OF h ok le]
  have ne: "st_type x \<noteq> SMBIOS_TYPE_END_OF_TABLE" using ok by (simp add: st_ok_def)
  have IH: "let ys = filter (\<lambda>x. st_type x = ty) xs; k = unat (inst - f) in
      if k < length ys then \<exists>p. structure_walk m ty inst e ?a f = Some p \<and> unat ?a \<le> unat p \<and> holds m p (st_bytes (ys ! k))
      else structure_walk m ty inst e ?a f = Some 0" for f
    using Cons.prems by (intro Cons.IH) (simp_all add: a)
  consider (hit) "st_type x = ty" "found = inst" | (count) "st_type x = ty" "found \<noteq> inst" | (other) "st_type x \<noteq> ty" by blast
  then show ?case
  proof cases
    case hit
    then show ?thesis using lt h step(1) by (subst structure_walk.simps) simp
  next
    case count
    have "structure_walk m ty inst e a found = structure_walk m ty inst e ?a (found + 1)"
      using count lt step ne by (subst structure_walk.simps) (simp add: Let_def)
    moreover have "unat (inst - found) = Suc (unat (inst - (found + 1)))"
      using unat_word_Suc [of "inst - found"] count(2) by (simp add: algebra_simps)
    ultimately show ?thesis using IH [of "found + 1"] count(1) a by (auto simp: Let_def split: if_splits)
  next
    case other
    have "structure_walk m ty inst e a found = structure_walk m ty inst e ?a found"
      using other lt step ne by (subst structure_walk.simps) (simp add: Let_def)
    then show ?thesis using IH [of found] other a by (auto simp: Let_def split: if_splits)
  qed
qed

text \<open>C28: In a table of well-formed structures that ends with the end mark, \<open>smbios_find_structure\<close>
  returns the \<open>k\<close>-th structure of a type, or the null pointer when there are fewer; and of the structure it returns
  \<open>smbios_get_string\<close> yields the string with the given number, or the empty string when the structure has fewer. Both
  return.\<close>

theorem smbios_reads_table:
  assumes "smbios_table s \<noteq> 0" "holds (sm_mem s) (smbios_table s) (concat (map st_bytes xs) @ [SMBIOS_TYPE_END_OF_TABLE])"
    "\<forall>x \<in> set xs. st_ok x" "length (concat (map st_bytes xs)) < unat (smbios_table_length s)"
    "unat (smbios_table s) + unat (smbios_table_length s) < 2 ^ 32" "ty \<noteq> SMBIOS_TYPE_END_OF_TABLE"
  shows "let ys = filter (\<lambda>x. st_type x = ty) xs in
    if unat k < length ys then
      \<exists>p. smbios_find_structure ty k s = Some p \<and> p \<noteq> 0 \<and> holds (sm_mem s) p (st_bytes (ys ! unat k)) \<and>
        (\<forall>n. if n \<noteq> 0 \<and> unat n \<le> length (st_strings (ys ! unat k))
           then \<exists>q. smbios_get_string (sm_mem s) p n = Some (At q) \<and>
             holds (sm_mem s) q (st_strings (ys ! unat k) ! (unat n - 1) @ [0])
           else smbios_get_string (sm_mem s) p n = Some Empty)
    else smbios_find_structure ty k s = Some 0"
proof -
  let ?ys = "filter (\<lambda>x. st_type x = ty) xs"
  let ?e = "smbios_table s + ucast (smbios_table_length s)"
  have "unat ?e = unat (smbios_table s) + unat (smbios_table_length s)"
    using assms(5) by (simp add: unat_word_ariths(1) unsigned_ucast_eq take_bit_nat_eq_self)
  with assms(4) have e: "unat (smbios_table s) + length (concat (map st_bytes xs)) < unat ?e" by simp
  have find: "smbios_find_structure ty k s = structure_walk (sm_mem s) ty k ?e (smbios_table s) 0"
    using assms(1) by (simp add: smbios_find_structure_def)
  note walk = structure_walk_finds [OF assms(2,3) e assms(6), of k 0, folded find]
  show ?thesis
  proof (cases "unat k < length ?ys")
    case True
    then obtain p where p: "smbios_find_structure ty k s = Some p" "unat (smbios_table s) \<le> unat p"
      "holds (sm_mem s) p (st_bytes (?ys ! unat k))" using walk by (auto simp: Let_def)
    have "?ys ! unat k \<in> set xs" using nth_mem [OF True] by simp
    then have "st_ok (?ys ! unat k)" using assms(3) by blast
    from get_string_text [OF p(3) this] have str: "\<forall>n. if n \<noteq> 0 \<and> unat n \<le> length (st_strings (?ys ! unat k))
        then \<exists>q. smbios_get_string (sm_mem s) p n = Some (At q) \<and>
          holds (sm_mem s) q (st_strings (?ys ! unat k) ! (unat n - 1) @ [0])
        else smbios_get_string (sm_mem s) p n = Some Empty" by blast
    have "p \<noteq> 0" using p(2) assms(1) by (auto simp: unat_eq_0)
    with True p(1,3) str show ?thesis unfolding Let_def if_P [OF True] by blast
  next
    case False
    then show ?thesis using walk by (simp add: Let_def)
  qed
qed

definition rom_image :: "u32 \<Rightarrow> u8 list \<Rightarrow> memory" where
  "rom_image b bs a = (if unat (a - b) < length bs then bs ! unat (a - b) else 0xFF)"

lemma holds_rom: "length bs < 2 ^ 32 \<Longrightarrow> holds (rom_image b bs) b bs"
  by (rule holds_def [THEN iffD2], rule nth_equalityI) (simp_all add: bytes_at_def rom_image_def unat_of_nat)

definition bios0 :: sm_struct where
  "bios0 = \<lparr>st_type = 0, st_handle = (0, 0), st_body = [1, 2] @ replicate 14 0,
     st_strings = [cstr ''ACME'', cstr ''1.0'']\<rparr>"

definition system0 :: sm_struct where
  "system0 = \<lparr>st_type = 1, st_handle = (1, 0), st_body = [1, 2, 0, 0] @ replicate 19 0,
     st_strings = [cstr ''Blood'', cstr ''PC'']\<rparr>"

definition table0 :: "u8 list" where
  "table0 = concat (map st_bytes [bios0, system0]) @ [SMBIOS_TYPE_END_OF_TABLE]"

lemma table0_length: "length table0 = 68"
  by code_simp

definition sm_start :: smbios where
  "sm_start = \<lparr>trace = [], sm_mem = rom_image 0xF1000 table0,
     smbios_entry = 0xF0000, smbios3_entry = 0, smbios_table = 0xF1000, smbios_table_length = of_nat (length table0),
     smbios_version_major = 2, smbios_version_minor = 8\<rparr>"

lemma smbios_reads_table_witness:
  "\<exists>p q. smbios_find_structure SMBIOS_TYPE_SYSTEM 0 sm_start = Some p \<and>
     smbios_get_string (sm_mem sm_start) p 2 = Some (At q) \<and> holds (sm_mem sm_start) q (cstr ''PC'' @ [0])"
proof -
  have h: "holds (sm_mem sm_start) (smbios_table sm_start) (concat (map st_bytes [bios0, system0]) @ [SMBIOS_TYPE_END_OF_TABLE])"
    using holds_rom [of table0 "0xF1000"] unfolding table0_def [symmetric] by (simp add: sm_start_def table0_length)
  have ok: "\<forall>x \<in> set [bios0, system0]. st_ok x" by code_simp
  have len: "length (concat (map st_bytes [bios0, system0])) < unat (smbios_table_length sm_start)"
    using table0_length by (simp add: table0_def sm_start_def)
  have sum: "unat (smbios_table sm_start) + unat (smbios_table_length sm_start) < 2 ^ 32"
    by (simp add: sm_start_def table0_length)
  have ne: "smbios_table sm_start \<noteq> 0" by (simp add: sm_start_def)
  have ne2: "SMBIOS_TYPE_SYSTEM \<noteq> SMBIOS_TYPE_END_OF_TABLE" by code_simp
  have ys: "filter (\<lambda>x. st_type x = SMBIOS_TYPE_SYSTEM) [bios0, system0] = [system0]" by code_simp
  have z: "[system0] ! unat (0 :: u8) = system0" by simp
  have st: "length (st_strings system0) = 2" "st_strings system0 ! 1 = cstr ''PC''" by code_simp+
  from smbios_reads_table [OF ne h ok len sum ne2, of 0, unfolded ys Let_def z st(1)]
  obtain p where p: "smbios_find_structure SMBIOS_TYPE_SYSTEM 0 sm_start = Some p"
    "\<forall>n. if n \<noteq> 0 \<and> unat n \<le> 2 then \<exists>q. smbios_get_string (sm_mem sm_start) p n = Some (At q) \<and>
        holds (sm_mem sm_start) q (st_strings system0 ! (unat n - 1) @ [0])
      else smbios_get_string (sm_mem sm_start) p n = Some Empty"
    by auto
  from p(2) [rule_format, of 2] obtain q where "smbios_get_string (sm_mem sm_start) p 2 = Some (At q)"
    "holds (sm_mem sm_start) q (st_strings system0 ! 1 @ [0])" by auto
  with p(1) st(2) show ?thesis by auto
qed

end
