(* ===== verification/Topology.thy ===== *)
theory Topology
  imports Acpi
begin

text \<open>
  \<open>src/drivers/topology.c\<close>: the place of the processor among the threads, cores and packages, decoded from CPUID, and the
  memory nodes of the SRAT, which it looks up with the function of the ACPI driver, so that driver's variables are part of
  the state. The walk over the SRAT does not return if it meets an entry of length 0: \<open>None\<close>. Shifts and differences of
  \<open>int\<close> are taken at 32 bits.
\<close>

definition CPUID_TOPOLOGY_LEAF :: u32 where "CPUID_TOPOLOGY_LEAF = 0x0B"
definition CPUID_EXTENDED_TOPOLOGY :: u32 where "CPUID_EXTENDED_TOPOLOGY = 0x1F"
definition TOPOLOGY_LEVEL_SMT :: u8 where "TOPOLOGY_LEVEL_SMT = 1"
definition TOPOLOGY_LEVEL_CORE :: u8 where "TOPOLOGY_LEVEL_CORE = 2"
definition TOPOLOGY_LEVEL_PACKAGE :: u8 where "TOPOLOGY_LEVEL_PACKAGE = 7"

record topology_level =
  level_type :: u8
  level_shift :: u8
  lv_logical_processors :: u16
  lv_x2apic_id :: u32

record cpu_info =
  ci_apic_id :: u32
  ci_x2apic_id :: u32
  package_id :: u8
  die_id :: u8
  core_id :: u8
  thread_id :: u8
  cpu_numa_node :: u8
  cache_level1_shared :: u8
  cache_level2_shared :: u8
  cache_level3_shared :: u8

record numa_node =
  numa_node_id :: u8
  memory_base_low :: u32
  memory_base_high :: u32
  memory_length_low :: u32
  memory_length_high :: u32
  proximity_domain :: u8
  node_enabled :: u8

record topology = acpi +
  topology_supported :: u8
  extended_topology_supported :: u8
  numa_supported :: u8
  num_packages :: u8
  num_dies :: u8
  num_cores_per_package :: u8
  num_threads_per_core :: u8
  num_logical_processors :: u8
  num_numa_nodes :: u8
  levels :: "topology_level list"     \<comment> \<open>8\<close>
  cpus :: "cpu_info list"             \<comment> \<open>256\<close>
  numa_nodes :: "numa_node list"      \<comment> \<open>64\<close>
  current_cpu_id :: u8

section \<open>Levels\<close>

text \<open>The second test uses the \<open>eax\<close> the first \<open>cpuid\<close> has overwritten.\<close>

definition topology_check_support :: "device \<Rightarrow> 'a topology_scheme \<Rightarrow> bool \<times> 'a topology_scheme" where
  "topology_check_support D s =
     (let ((eax, _), s) = cpuid D 0 s;
          (eax, s) = (if eax \<ge> CPUID_TOPOLOGY_LEAF then
              (let ((eax, ebx, _, _), s) = cpuid_sub D CPUID_TOPOLOGY_LEAF 0 s
               in (eax, s\<lparr>topology_supported := c_bool (ebx \<noteq> 0)\<rparr>))
            else (eax, s));
          s = (if eax \<ge> CPUID_EXTENDED_TOPOLOGY then
              (let ((_, ebx, _, _), s) = cpuid_sub D CPUID_EXTENDED_TOPOLOGY 0 s
               in s\<lparr>extended_topology_supported := c_bool (ebx \<noteq> 0)\<rparr>)
            else s)
      in (topology_supported s \<noteq> 0 \<or> extended_topology_supported s \<noteq> 0, s))"

definition topology_leaf :: "'a topology_scheme \<Rightarrow> u32" where
  "topology_leaf s = (if extended_topology_supported s \<noteq> 0 then CPUID_EXTENDED_TOPOLOGY else CPUID_TOPOLOGY_LEAF)"

fun enumerate_from :: "device \<Rightarrow> u32 \<Rightarrow> nat list \<Rightarrow> 'a topology_scheme \<Rightarrow> 'a topology_scheme" where
  "enumerate_from D leaf [] s = s"
| "enumerate_from D leaf (i # is) s =
     (let ((eax, ebx, ecx, edx), s) = cpuid_sub D leaf (of_nat i) s
      in if ebx = 0 then s
         else enumerate_from D leaf is
           (s\<lparr>levels := (levels s)[i := \<lparr>level_type = ucast (drop_bit 8 ecx AND 0xFF), level_shift = ucast (eax AND 0x1F),
              lv_logical_processors = ucast (ebx AND 0xFFFF), lv_x2apic_id = edx\<rparr>]\<rparr>))"

definition topology_enumerate_levels :: "device \<Rightarrow> 'a topology_scheme \<Rightarrow> 'a topology_scheme" where
  "topology_enumerate_levels D s = enumerate_from D (topology_leaf s) [0..<8] s"

section \<open>The processor\<close>

definition upd_cpu :: "(cpu_info \<Rightarrow> cpu_info) \<Rightarrow> 'a topology_scheme \<Rightarrow> 'a topology_scheme" where
  "upd_cpu f s = (let i = unat (current_cpu_id s) in s\<lparr>cpus := (cpus s)[i := f (cpus s ! i)]\<rparr>)"

definition this_cpu :: "'a topology_scheme \<Rightarrow> cpu_info" where
  "this_cpu s = cpus s ! unat (current_cpu_id s)"

text \<open>The shifts of the last level of each type.\<close>

definition level_shifts :: "topology_level list \<Rightarrow> u8 \<times> u8 \<times> u8" where
  "level_shifts ls = fold (\<lambda>l (smt, core, package).
     if level_type l = TOPOLOGY_LEVEL_SMT then (level_shift l, core, package)
     else if level_type l = TOPOLOGY_LEVEL_CORE then (smt, level_shift l, package)
     else if level_type l = TOPOLOGY_LEVEL_PACKAGE then (smt, core, level_shift l)
     else (smt, core, package)) ls (0, 0, 0)"

definition topology_detect_cpu_info :: "device \<Rightarrow> 'a topology_scheme \<Rightarrow> 'a topology_scheme" where
  "topology_detect_cpu_info D s =
     (let ((_, ebx, _, _), s) = cpuid D 1 s;
          initial_apic_id = drop_bit 24 ebx AND 0xFF;
          (x2apic_id, s) = (if topology_supported s \<noteq> 0 \<or> extended_topology_supported s \<noteq> 0 then
              (let ((_, _, _, edx), s) = cpuid_sub D (topology_leaf s) 0 s in (edx, s))
            else (initial_apic_id, s));
          s = upd_cpu (ci_apic_id_update (\<lambda>_. initial_apic_id)) s;
          s = upd_cpu (ci_x2apic_id_update (\<lambda>_. x2apic_id)) s;
          (smt_shift, core_shift, package_shift) = level_shifts (levels s);
          s = (if smt_shift > 0 then
              (let s = upd_cpu (thread_id_update (\<lambda>_. ucast (x2apic_id AND (push_bit (unat smt_shift) 1 - 1)))) s
               in s\<lparr>num_threads_per_core := ucast (push_bit (unat smt_shift) 1 :: u32)\<rparr>)
            else
              (let s = upd_cpu (thread_id_update (\<lambda>_. 0)) s in s\<lparr>num_threads_per_core := 1\<rparr>));
          s = (if core_shift > smt_shift then
              (let s = upd_cpu (core_id_update (\<lambda>_.
                     ucast (drop_bit (unat smt_shift) x2apic_id AND (push_bit (unat (core_shift - smt_shift)) 1 - 1)))) s
               in s\<lparr>num_cores_per_package := ucast (push_bit (unat (core_shift - smt_shift)) 1 :: u32)\<rparr>)
            else
              (let s = upd_cpu (core_id_update (\<lambda>_. 0)) s in s\<lparr>num_cores_per_package := 1\<rparr>));
          s = (if package_shift > core_shift
            then upd_cpu (package_id_update (\<lambda>_. ucast (drop_bit (unat core_shift) x2apic_id))) s
            else upd_cpu (package_id_update (\<lambda>_. ucast (drop_bit (unat package_shift) x2apic_id))) s);
          s = upd_cpu (die_id_update (\<lambda>_. 0)) s
      in upd_cpu (cpu_numa_node_update (\<lambda>_. 0)) s)"

fun cache_from :: "device \<Rightarrow> nat list \<Rightarrow> 'a topology_scheme \<Rightarrow> 'a topology_scheme" where
  "cache_from D [] s = s"
| "cache_from D (i # is) s =
     (let ((eax, _, _, _), s) = cpuid_sub D 4 (of_nat i) s;
          cache_type = ucast (eax AND 0x1F) :: u8
      in if cache_type = 0 then s
         else
           (let cache_level_num = ucast (drop_bit 5 eax AND 0x7) :: u8;
                max_cores_sharing = (drop_bit 14 eax AND 0xFFF) + 1;
                s = (if cache_level_num = 1 then upd_cpu (cache_level1_shared_update (\<lambda>_. ucast max_cores_sharing)) s
                  else if cache_level_num = 2 then upd_cpu (cache_level2_shared_update (\<lambda>_. ucast max_cores_sharing)) s
                  else if cache_level_num = 3 then upd_cpu (cache_level3_shared_update (\<lambda>_. ucast max_cores_sharing)) s
                  else s)
            in cache_from D is s))"

definition topology_detect_cache_topology :: "device \<Rightarrow> 'a topology_scheme \<Rightarrow> 'a topology_scheme" where
  "topology_detect_cache_topology D s = cache_from D [0..<4] s"

section \<open>Memory nodes\<close>

text \<open>A memory affinity entry fills the next node, which counts only if it is enabled.\<close>

definition srat_memory :: "u32 \<Rightarrow> 'a topology_scheme \<Rightarrow> 'a topology_scheme" where
  "srat_memory p s =
     (let m = acpi_mem s;
          node = \<lparr>numa_node_id = num_numa_nodes s, memory_base_low = load32 m (p + 8), memory_base_high = load32 m (p + 12),
            memory_length_low = load32 m (p + 16), memory_length_high = load32 m (p + 20),
            proximity_domain = ucast (load32 m (p + 2)), node_enabled = c_bool (load32 m (p + 28) AND 1 \<noteq> 0)\<rparr>;
          s = s\<lparr>numa_nodes := (numa_nodes s)[unat (num_numa_nodes s) := node]\<rparr>
      in if node_enabled node \<noteq> 0 then s\<lparr>num_numa_nodes := num_numa_nodes s + 1\<rparr> else s)"

partial_function (option) srat_walk :: "u32 \<Rightarrow> u32 \<Rightarrow> u32 \<Rightarrow> 'a topology_scheme \<Rightarrow> 'a topology_scheme option" where
  "srat_walk srat srat_length offset s =
     (if offset < srat_length \<and> num_numa_nodes s < 64 then
        (let entry_type = acpi_mem s (srat + offset);
             entry_length = acpi_mem s (srat + offset + 1);
             s = (if entry_type = 1 then srat_memory (srat + offset) s else s)
         in srat_walk srat srat_length (offset + ucast entry_length) s)
      else Some s)"

definition topology_parse_srat_table :: "'a topology_scheme \<Rightarrow> 'a topology_scheme option" where
  "topology_parse_srat_table s =
     (let srat = acpi_find_table ''SRAT'' s
      in if srat = 0 then
           Some (s\<lparr>numa_supported := 0, num_numa_nodes := 1,
             numa_nodes := (numa_nodes s)[0 := \<lparr>numa_node_id = 0, memory_base_low = 0, memory_base_high = 0,
               memory_length_low = ucast (0x100000000 :: u64), memory_length_high = 0, proximity_domain = 0, node_enabled = 1\<rparr>]\<rparr>)
         else do {
           let s = s\<lparr>numa_supported := 1, num_numa_nodes := 0\<rparr>;
           s \<leftarrow> srat_walk srat (load32 (acpi_mem s) (srat + 4)) 48 s;
           Some (if num_numa_nodes s = 0 then s\<lparr>numa_supported := 0, num_numa_nodes := 1\<rparr> else s) })"

section \<open>The driver\<close>

definition topology_init :: "device \<Rightarrow> 'a topology_scheme \<Rightarrow> 'a topology_scheme option" where
  "topology_init D s =
     (let s = s\<lparr>topology_supported := 0, extended_topology_supported := 0, numa_supported := 0, num_packages := 1,
            num_dies := 1, num_cores_per_package := 1, num_threads_per_core := 1, num_logical_processors := 1,
            current_cpu_id := 0\<rparr>;
          (supported, s) = topology_check_support D s
      in if \<not> supported then Some s
         else do {
           let s = topology_enumerate_levels D s;
           let s = topology_detect_cpu_info D s;
           let s = topology_detect_cache_topology D s;
           s \<leftarrow> topology_parse_srat_table s;
           Some (s\<lparr>num_logical_processors := num_packages s * num_cores_per_package s * num_threads_per_core s\<rparr>) })"

definition topology_is_supported :: "'a topology_scheme \<Rightarrow> u8" where
  "topology_is_supported s = c_bool (topology_supported s \<noteq> 0 \<or> extended_topology_supported s \<noteq> 0)"
definition topology_is_numa_supported :: "'a topology_scheme \<Rightarrow> u8" where
  "topology_is_numa_supported s = numa_supported s"
definition topology_get_num_packages :: "'a topology_scheme \<Rightarrow> u8" where
  "topology_get_num_packages s = num_packages s"
definition topology_get_num_cores_per_package :: "'a topology_scheme \<Rightarrow> u8" where
  "topology_get_num_cores_per_package s = num_cores_per_package s"
definition topology_get_num_threads_per_core :: "'a topology_scheme \<Rightarrow> u8" where
  "topology_get_num_threads_per_core s = num_threads_per_core s"
definition topology_get_num_logical_processors :: "'a topology_scheme \<Rightarrow> u8" where
  "topology_get_num_logical_processors s = num_logical_processors s"
definition topology_get_num_numa_nodes :: "'a topology_scheme \<Rightarrow> u8" where
  "topology_get_num_numa_nodes s = num_numa_nodes s"
definition topology_get_current_package_id :: "'a topology_scheme \<Rightarrow> u8" where
  "topology_get_current_package_id s = package_id (this_cpu s)"
definition topology_get_current_core_id :: "'a topology_scheme \<Rightarrow> u8" where
  "topology_get_current_core_id s = core_id (this_cpu s)"
definition topology_get_current_thread_id :: "'a topology_scheme \<Rightarrow> u8" where
  "topology_get_current_thread_id s = thread_id (this_cpu s)"
definition topology_get_current_numa_node :: "'a topology_scheme \<Rightarrow> u8" where
  "topology_get_current_numa_node s = cpu_numa_node (this_cpu s)"
definition topology_get_current_x2apic_id :: "'a topology_scheme \<Rightarrow> u32" where
  "topology_get_current_x2apic_id s = ci_x2apic_id (this_cpu s)"
definition topology_get_cache_sharing_level1 :: "'a topology_scheme \<Rightarrow> u8" where
  "topology_get_cache_sharing_level1 s = cache_level1_shared (this_cpu s)"
definition topology_get_cache_sharing_level2 :: "'a topology_scheme \<Rightarrow> u8" where
  "topology_get_cache_sharing_level2 s = cache_level2_shared (this_cpu s)"
definition topology_get_cache_sharing_level3 :: "'a topology_scheme \<Rightarrow> u8" where
  "topology_get_cache_sharing_level3 s = cache_level3_shared (this_cpu s)"

definition topology_get_numa_memory_base :: "u8 \<Rightarrow> 'a topology_scheme \<Rightarrow> u64" where
  "topology_get_numa_memory_base node_id s =
     (if node_id \<ge> num_numa_nodes s then 0
      else (let node = numa_nodes s ! unat node_id
            in push_bit 32 (ucast (memory_base_high node)) OR ucast (memory_base_low node)))"

definition topology_get_numa_memory_size :: "u8 \<Rightarrow> 'a topology_scheme \<Rightarrow> u64" where
  "topology_get_numa_memory_size node_id s =
     (if node_id \<ge> num_numa_nodes s then 0
      else (let node = numa_nodes s ! unat node_id
            in push_bit 32 (ucast (memory_length_high node)) OR ucast (memory_length_low node)))"

definition topology_is_numa_node_enabled :: "u8 \<Rightarrow> 'a topology_scheme \<Rightarrow> u8" where
  "topology_is_numa_node_enabled node_id s = (if node_id \<ge> num_numa_nodes s then 0 else node_enabled (numa_nodes s ! unat node_id))"

section \<open>What is decoded\<close>

text \<open>A processor answers \<open>cpuid\<close> with the same registers \<open>c\<close> every time.\<close>

definition answers :: "device \<Rightarrow> (u32 \<Rightarrow> nat \<Rightarrow> u32) \<Rightarrow> bool" where
  "answers D c \<longleftrightarrow> (\<forall>t l r. D t (Cpuid l r) = ucast (c l r))"

definition cpuid_trace :: "(u32 \<Rightarrow> nat \<Rightarrow> u32) \<Rightarrow> u32 \<Rightarrow> nat \<Rightarrow> trace" where
  "cpuid_trace c l k = map (\<lambda>r. Rd (Cpuid l (k + r)) (ucast (c l (k + r)))) [0..<4]"

lemma cpuid_sub_answers:
  assumes "answers D c"
  shows "cpuid_sub D l n s = (let k = 4 * unat n in
    ((c l k, c l (k + 1), c l (k + 2), c l (k + 3)), s\<lparr>trace := trace s @ cpuid_trace c l k\<rparr>))"
  using assms by (simp add: cpuid_sub_def rd_def answers_def Let_def cpuid_trace_def eval_nat_numeral)

lemma cpuid_answers:
  assumes "answers D c"
  shows "cpuid D l s = ((c l 0, c l 1, c l 2, c l 3), s\<lparr>trace := trace s @ cpuid_trace c l 0\<rparr>)"
  using assms by (simp add: cpuid_def rd_def answers_def Let_def cpuid_trace_def eval_nat_numeral)

text \<open>Two levels: threads below bit \<open>a\<close> of the identifier, cores below bit \<open>b\<close>.\<close>

definition two_levels :: "(u32 \<Rightarrow> nat \<Rightarrow> u32) \<Rightarrow> nat \<Rightarrow> nat \<Rightarrow> u32 \<Rightarrow> bool" where
  "two_levels c a b i \<longleftrightarrow> c 0 0 \<ge> CPUID_TOPOLOGY_LEAF \<and>
     c CPUID_TOPOLOGY_LEAF 0 = of_nat a \<and> c CPUID_TOPOLOGY_LEAF 1 \<noteq> 0 \<and> c CPUID_TOPOLOGY_LEAF 2 = 0x100 \<and>
     c CPUID_TOPOLOGY_LEAF 4 = of_nat b \<and> c CPUID_TOPOLOGY_LEAF 5 \<noteq> 0 \<and> c CPUID_TOPOLOGY_LEAF 6 = 0x201 \<and>
     c CPUID_TOPOLOGY_LEAF 9 = 0 \<and> c CPUID_TOPOLOGY_LEAF 3 = i"

lemma check_support_two:
  assumes "answers D c" "two_levels c a b i" "a < 31" "extended_topology_supported s = 0"
  shows "\<exists>tr. topology_check_support D s = (True, s\<lparr>trace := tr, topology_supported := 1\<rparr>)"
proof -
  have "\<not> of_nat a \<ge> CPUID_EXTENDED_TOPOLOGY"
    using assms(3) by (simp add: CPUID_EXTENDED_TOPOLOGY_def word_le_nat_alt unat_of_nat)
  then show ?thesis
    using assms(2,4) by (cases s) (simp add: topology_check_support_def cpuid_sub_answers [OF assms(1)] cpuid_answers [OF assms(1)] two_levels_def c_bool_def)
qed

definition level_of :: "u32 \<Rightarrow> u32 \<Rightarrow> u32 \<Rightarrow> u32 \<Rightarrow> topology_level" where
  "level_of eax ebx ecx edx = \<lparr>level_type = ucast (drop_bit 8 ecx AND 0xFF), level_shift = ucast (eax AND 0x1F),
     lv_logical_processors = ucast (ebx AND 0xFFFF), lv_x2apic_id = edx\<rparr>"

lemma enumerate_two:
  assumes "answers D c" "two_levels c a b i" "extended_topology_supported s = 0"
  shows "\<exists>tr l. topology_enumerate_levels D s = s\<lparr>levels := (levels s)
     [0 := level_of (of_nat a) (c CPUID_TOPOLOGY_LEAF 1) 0x100 i, 1 := level_of (of_nat b) (c CPUID_TOPOLOGY_LEAF 5) 0x201 l],
     trace := tr\<rparr>"
proof -
  have "topology_leaf s = CPUID_TOPOLOGY_LEAF" using assms(3) by (simp add: topology_leaf_def)
  moreover have k: "c l (Suc (Suc 0)) = c l 2" for l by (simp add: numeral_2_eq_2)
  moreover obtain "is" where "[0..<8] = 0 # 1 # 2 # is" by (simp add: upt_rec)
  ultimately show ?thesis
    using assms(2) unfolding topology_enumerate_levels_def
    by (intro exI [of _ "c CPUID_TOPOLOGY_LEAF 7"] exI)
      (simp del: upt_rec_numeral add: cpuid_sub_answers [OF assms(1)] two_levels_def level_of_def Let_def k)
qed

text \<open>The driver changes the entry of the processor it runs on, field by field.\<close>

lemma upd_cpu_this:
  assumes "unat (current_cpu_id s) < length (cpus s)"
  shows "this_cpu (upd_cpu f s) = f (this_cpu s)" "current_cpu_id (upd_cpu f s) = current_cpu_id s"
    "length (cpus (upd_cpu f s)) = length (cpus s)"
  using assms by (simp_all add: this_cpu_def upd_cpu_def Let_def)

lemma upd_cpu_frame:
  "levels (upd_cpu f s) = levels s" "acpi_rsdt (upd_cpu f s) = acpi_rsdt s" "num_packages (upd_cpu f s) = num_packages s"
  "num_cores_per_package (upd_cpu f s) = num_cores_per_package s" "num_threads_per_core (upd_cpu f s) = num_threads_per_core s"
  "topology_supported (upd_cpu f s) = topology_supported s"
  "extended_topology_supported (upd_cpu f s) = extended_topology_supported s"
  by (simp_all add: upd_cpu_def Let_def)

lemma this_cpu_other [simp]:
  "this_cpu (s\<lparr>trace := tr\<rparr>) = this_cpu s" "this_cpu (s\<lparr>num_cores_per_package := x\<rparr>) = this_cpu s"
  "this_cpu (s\<lparr>num_threads_per_core := x\<rparr>) = this_cpu s" "this_cpu (s\<lparr>num_logical_processors := x\<rparr>) = this_cpu s"
  by (simp_all add: this_cpu_def)

lemma upd_cpu_merge:
  "upd_cpu f (upd_cpu g s) = upd_cpu (\<lambda>c. f (g c)) s"
  "upd_cpu f (s\<lparr>num_threads_per_core := x\<rparr>) = (upd_cpu f s)\<lparr>num_threads_per_core := x\<rparr>"
  "upd_cpu f (s\<lparr>num_cores_per_package := x\<rparr>) = (upd_cpu f s)\<lparr>num_cores_per_package := x\<rparr>"
  "upd_cpu f (s\<lparr>trace := tr\<rparr>) = (upd_cpu f s)\<lparr>trace := tr\<rparr>"
  by (cases "unat (current_cpu_id s) < length (cpus s)"; simp add: upd_cpu_def Let_def list_update_beyond)+

text \<open>What the detection of the caches leaves alone.\<close>

definition place :: "'a topology_scheme \<Rightarrow> _" where
  "place s = (current_cpu_id s, length (cpus s), thread_id (this_cpu s), core_id (this_cpu s), package_id (this_cpu s),
     acpi_rsdt s, num_packages s, num_cores_per_package s, num_threads_per_core s, extended_topology_supported s)"

lemma place_upd:
  assumes "unat (current_cpu_id s) < length (cpus s)"
  shows "place (s\<lparr>trace := tr\<rparr>) = place s" "place (upd_cpu (cache_level1_shared_update f) s) = place s"
    "place (upd_cpu (cache_level2_shared_update f) s) = place s" "place (upd_cpu (cache_level3_shared_update f) s) = place s"
  using assms by (simp_all add: place_def upd_cpu_this upd_cpu_frame)

lemma cache_from_place: "unat (current_cpu_id s) < length (cpus s) \<Longrightarrow> place (cache_from D is s) = place s"
proof (induction "is" arbitrary: s)
  case (Cons i "is")
  have IH: "place (cache_from D is t) = place s" if "place t = place s" for t :: "'a topology_scheme"
    using Cons.IH [of t] Cons.prems that by (simp add: place_def)
  obtain v tr where v: "cpuid_sub D 4 (of_nat i) s = (v, s\<lparr>trace := tr\<rparr>)" by (simp add: cpuid_sub_def bus)
  have "place (s\<lparr>trace := tr\<rparr>) = place s" using Cons.prems by (rule place_upd)
  moreover have "unat (current_cpu_id (s\<lparr>trace := tr\<rparr>)) < length (cpus (s\<lparr>trace := tr\<rparr>))" using Cons.prems by simp
  ultimately show ?case by (cases v) (auto simp: v Let_def place_upd intro!: IH)
qed simp

lemma shifts_two:
  assumes "a < 32" "b < 32" "levels s = replicate 8 l0" "level_type l0 = 0"
  shows "level_shifts ((levels s)[0 := level_of (of_nat a) e1 0x100 i, 1 := level_of (of_nat b) e2 0x201 j]) =
    (of_nat a, of_nat b, 0)"
proof -
  have "ucast (of_nat n AND 0x1F :: u32) = (of_nat n :: u8)" if "n < 32" for n
  proof -
    have "of_nat n AND 0x1F = (of_nat n :: u32)"
      using that take_bit_small [of "of_nat n :: u32" 5] by (simp add: take_bit_eq_mask mask_eq_exp_minus_1 unat_of_nat)
    then show ?thesis using that by (simp add: word_unat_eq_iff unat_of_nat unsigned_ucast_eq take_bit_nat_eq_self)
  qed
  moreover have "replicate 8 l0 = [l0, l0, l0, l0, l0, l0, l0, l0]" by (simp add: eval_nat_numeral)
  ultimately show ?thesis using assms
    by (simp add: level_shifts_def level_of_def TOPOLOGY_LEVEL_SMT_def TOPOLOGY_LEVEL_CORE_def TOPOLOGY_LEVEL_PACKAGE_def)
qed

lemma cpu_info_two:
  assumes "answers D c" "topology_supported s = 1" "extended_topology_supported s = 0"
    "level_shifts (levels s) = (of_nat a, of_nat b, 0)" "a \<le> b" "b < 32" "unat (current_cpu_id s) < length (cpus s)"
  defines "i \<equiv> c CPUID_TOPOLOGY_LEAF 3"
  shows "place (topology_detect_cpu_info D s) =
    (current_cpu_id s, length (cpus s), ucast (take_bit a i), ucast (take_bit (b - a) (drop_bit a i)), ucast i,
     acpi_rsdt s, num_packages s, 2 ^ (b - a), 2 ^ a, 0)"
proof -
  have ab: "unat (of_nat a :: u8) = a" "unat (of_nat b :: u8) = b" using assms(5,6) by (simp_all add: unat_of_nat)
  have nz: "(0 :: u8) < of_nat a \<longleftrightarrow> 0 < a" "(of_nat a :: u8) < of_nat b \<longleftrightarrow> a < b"
    by (simp_all add: word_less_nat_alt ab)
  have d: "unat (of_nat b - of_nat a :: u8) = b - a"
    using assms(5) ab by (simp add: unat_sub word_le_nat_alt)
  have p: "ucast (push_bit n 1 :: u32) = (2 ^ n :: u8)" for n
  proof -
    have "ucast (push_bit n 1 :: u32) = (push_bit n 1 :: u8)" by (rule bit_word_eqI) (auto simp: bit_simps)
    then show ?thesis by (simp add: push_bit_of_1)
  qed
  then have q: "ucast (2 ^ n :: u32) = (2 ^ n :: u8)" for n by (simp add: push_bit_of_1)
  have m: "x AND (2 ^ n - 1) = take_bit n x" for x :: u32 and n
    by (simp add: take_bit_eq_mask mask_eq_exp_minus_1)
  have l: "topology_leaf t = CPUID_TOPOLOGY_LEAF" if "extended_topology_supported t = 0" for t :: "'a topology_scheme"
    using that by (simp add: topology_leaf_def)
  have sh: "place (topology_detect_cpu_info D s) =
    (current_cpu_id s, length (cpus s), if 0 < a then ucast (take_bit a i) else 0,
     if a < b then ucast (take_bit (b - a) (drop_bit a i)) else 0, ucast i,
     acpi_rsdt s, num_packages s, if a < b then 2 ^ (b - a) else 1, if 0 < a then 2 ^ a else 1, 0)"
    using assms(2-4,7)
    by (simp add: topology_detect_cpu_info_def cpuid_answers [OF assms(1)] cpuid_sub_answers [OF assms(1)] l Let_def
        upd_cpu_merge upd_cpu_frame nz ab d q m i_def numeral_3_eq_3)
      (simp add: place_def upd_cpu_this upd_cpu_frame)
  show ?thesis unfolding sh using assms(5) by auto
qed

text \<open>C29: Without ACPI tables, on a processor whose topology leaf reports threads below bit \<open>a\<close> of the identifier and cores below
  bit \<open>b\<close>, \<open>topology_init\<close> returns with the thread and core numbers cut out of the identifier and the counts \<open>2^a\<close> and
  \<open>2^(b-a)\<close>. The package number, however, is the whole identifier, because no level of package type exists there; and
  the extended leaf is not looked at, whatever the highest leaf is.\<close>

theorem topology_decodes:
  assumes "answers D c" "two_levels c a b i" "a \<le> b" "b < 31" "acpi_rsdt s = 0" "0 < length (cpus s)"
    "levels s = replicate 8 l0" "level_type l0 = 0"
  shows "\<exists>t. topology_init D s = Some t \<and> topology_get_current_thread_id t = ucast (take_bit a i) \<and>
    topology_get_current_core_id t = ucast (take_bit (b - a) (drop_bit a i)) \<and>
    topology_get_current_package_id t = ucast i \<and> extended_topology_supported t = 0 \<and>
    topology_get_num_threads_per_core t = 2 ^ a \<and> topology_get_num_cores_per_package t = 2 ^ (b - a) \<and>
    topology_get_num_logical_processors t = 2 ^ b"
proof -
  let ?s0 = "s\<lparr>topology_supported := 0, extended_topology_supported := 0, numa_supported := 0, num_packages := 1,
    num_dies := 1, num_cores_per_package := 1, num_threads_per_core := 1, num_logical_processors := 1, current_cpu_id := 0\<rparr>"
  have "a < 31" "extended_topology_supported ?s0 = 0" using assms(3,4) by simp_all
  from check_support_two [OF assms(1,2) this] obtain tr where
    s1: "topology_check_support D ?s0 = (True, ?s0\<lparr>trace := tr, topology_supported := 1\<rparr>)" by blast
  define s1 where "s1 = ?s0\<lparr>trace := tr, topology_supported := 1\<rparr>"
  have e1: "extended_topology_supported s1 = 0" "levels s1 = replicate 8 l0" using assms(7) by (simp_all add: s1_def)
  from enumerate_two [OF assms(1,2) e1(1)] obtain tr2 l where
    s2: "topology_enumerate_levels D s1 = s1\<lparr>levels := (levels s1)
      [0 := level_of (of_nat a) (c CPUID_TOPOLOGY_LEAF 1) 0x100 i, 1 := level_of (of_nat b) (c CPUID_TOPOLOGY_LEAF 5) 0x201 l],
      trace := tr2\<rparr>" by blast
  define s2 where "s2 = topology_enumerate_levels D s1"
  have g1: "topology_supported s1 = 1" "current_cpu_id s1 = 0" "cpus s1 = cpus s" "acpi_rsdt s1 = 0" "num_packages s1 = 1"
    using assms(5) by (simp_all add: s1_def)
  have f2: "topology_supported s2 = 1" "extended_topology_supported s2 = 0" "current_cpu_id s2 = 0" "cpus s2 = cpus s"
    "acpi_rsdt s2 = 0" "num_packages s2 = 1"
    by (simp_all add: s2_def s2 g1 e1(1))
  have "level_shifts (levels s2) = (of_nat a, of_nat b, 0)"
    using shifts_two [OF _ _ e1(2) assms(8)] assms(3,4) by (simp add: s2_def s2)
  from cpu_info_two [OF assms(1) f2(1,2) this assms(3)] assms(4,6)
  have p3: "place (topology_detect_cpu_info D s2) = (0, length (cpus s), ucast (take_bit a i),
      ucast (take_bit (b - a) (drop_bit a i)), ucast i, 0, 1, 2 ^ (b - a), 2 ^ a, 0)"
    using assms(2) by (simp add: f2 two_levels_def)
  define s4 where "s4 = topology_detect_cache_topology D (topology_detect_cpu_info D s2)"
  have "unat (current_cpu_id (topology_detect_cpu_info D s2)) < length (cpus (topology_detect_cpu_info D s2))"
    using p3 assms(6) by (simp add: place_def)
  from cache_from_place [OF this] p3 have p4: "place s4 = (0, length (cpus s), ucast (take_bit a i),
      ucast (take_bit (b - a) (drop_bit a i)), ucast i, 0, 1, 2 ^ (b - a), 2 ^ a, 0)"
    by (simp add: s4_def topology_detect_cache_topology_def)
  have pow: "(2 :: u8) ^ (b - a) * 2 ^ a = 2 ^ b" using assms(3) by (simp flip: power_add)
  have run: "topology_init D s = do { t \<leftarrow> topology_parse_srat_table s4;
      Some (t\<lparr>num_logical_processors := num_packages t * num_cores_per_package t * num_threads_per_core t\<rparr>) }"
    unfolding topology_init_def Let_def s1 split_conv s4_def s2_def s1_def by (simp only: not_True_eq_False if_False)
  show ?thesis
    using p4 by (simp add: run topology_parse_srat_table_def acpi_find_table_def place_def pow
        topology_get_current_thread_id_def topology_get_current_core_id_def topology_get_current_package_id_def
        topology_get_num_threads_per_core_def topology_get_num_cores_per_package_def topology_get_num_logical_processors_def)
      (auto simp: this_cpu_def)
qed

text \<open>Four cores of two threads each; the processor is thread 1 of core 2 of package 5.\<close>

definition regs8 :: "u32 \<Rightarrow> nat \<Rightarrow> u32" where
  "regs8 l r = (if l = 0 \<and> r = 0 then 0x1F
     else if l = CPUID_TOPOLOGY_LEAF then [1, 2, 0x100, 0x2D, 3, 8, 0x201, 0x2D, 0, 0, 2, 0x2D] ! r else 0)"

definition cpu0 :: cpu_info where
  "cpu0 = \<lparr>ci_apic_id = 0, ci_x2apic_id = 0, package_id = 0, die_id = 0, core_id = 0, thread_id = 0, cpu_numa_node = 0,
     cache_level1_shared = 0, cache_level2_shared = 0, cache_level3_shared = 0\<rparr>"

definition topology0 :: topology where
  "topology0 = \<lparr>trace = [], acpi_mem = (\<lambda>_. 0), acpi_rsdp = 0, acpi_rsdt = 0, acpi_fadt = 0, acpi_madt = 0,
     local_apic_base = 0, acpi_cpu_count = 0, topology_supported = 0, extended_topology_supported = 0, numa_supported = 0,
     num_packages = 0, num_dies = 0, num_cores_per_package = 0, num_threads_per_core = 0, num_logical_processors = 0,
     num_numa_nodes = 0, levels = replicate 8 \<lparr>level_type = 0, level_shift = 0, lv_logical_processors = 0, lv_x2apic_id = 0\<rparr>,
     cpus = replicate 256 cpu0, numa_nodes = [], current_cpu_id = 0\<rparr>"

lemma topology_decodes_witness:
  "\<exists>t. topology_init (\<lambda>t p. case p of Cpuid l r \<Rightarrow> ucast (regs8 l r) | _ \<Rightarrow> 0) topology0 = Some t \<and>
     topology_get_current_thread_id t = 1 \<and> topology_get_current_core_id t = 2 \<and> topology_get_current_package_id t = 0x2D \<and>
     topology_get_num_logical_processors t = 8"
proof -
  let ?D = "\<lambda>t p. case p of Cpuid l r \<Rightarrow> ucast (regs8 l r) | _ \<Rightarrow> 0"
  have "answers ?D regs8" by (simp add: answers_def)
  moreover have "two_levels regs8 1 3 0x2D" by code_simp
  moreover have "0 < length (cpus topology0)" "acpi_rsdt topology0 = 0"
    "levels topology0 = replicate 8 \<lparr>level_type = 0, level_shift = 0, lv_logical_processors = 0, lv_x2apic_id = 0\<rparr>"
    by (simp_all add: topology0_def)
  moreover have "ucast (take_bit 1 (0x2D :: u32)) = (1 :: u8)" "ucast (take_bit (3 - 1) (drop_bit 1 (0x2D :: u32))) = (2 :: u8)"
    by code_simp+
  ultimately show ?thesis using topology_decodes [of ?D regs8 1 3 "0x2D" topology0] by auto
qed

end
