(* ===== verification/Uhci.thy ===== *)
theory Uhci
  imports Timer Paging
begin

text \<open>
  \<open>src/drivers/usb_uhci.c\<close>: the USB host controller. The queue head, the frame list and the transfer descriptors lie in
  pages from \<open>Paging\<close>; their words are a map of their own, \<open>uhci_words\<close>, since the controller writes them too. What it
  does before the \<open>k\<close>-th look at a descriptor is the argument \<open>hc\<close>. A pointer is its address.
\<close>

definition UHCI_USBCMD :: u16 where "UHCI_USBCMD = 0x00"
definition UHCI_USBSTS :: u16 where "UHCI_USBSTS = 0x02"
definition UHCI_USBINTR :: u16 where "UHCI_USBINTR = 0x04"
definition UHCI_FRBASEADD :: u16 where "UHCI_FRBASEADD = 0x08"
definition UHCI_SOFMOD :: u16 where "UHCI_SOFMOD = 0x0C"
definition UHCI_PORTSC1 :: u16 where "UHCI_PORTSC1 = 0x10"
definition UHCI_PORTSC2 :: u16 where "UHCI_PORTSC2 = 0x12"
definition USBCMD_RS :: u16 where "USBCMD_RS = 0x0001"
definition USBCMD_HCRESET :: u16 where "USBCMD_HCRESET = 0x0002"
definition USBCMD_GRESET :: u16 where "USBCMD_GRESET = 0x0004"
definition USBCMD_CF :: u16 where "USBCMD_CF = 0x0040"
definition PORTSC_CCS :: u16 where "PORTSC_CCS = 0x0001"
definition PORTSC_PE :: u16 where "PORTSC_PE = 0x0004"
definition PORTSC_PR :: u16 where "PORTSC_PR = 0x0200"
definition TD_CTRL_IOC :: u32 where "TD_CTRL_IOC = 0x01000000"
definition TD_CTRL_ACTIVE :: u32 where "TD_CTRL_ACTIVE = 0x00800000"
definition TD_CTRL_STALLED :: u32 where "TD_CTRL_STALLED = 0x00400000"
definition TD_CTRL_DBUFERR :: u32 where "TD_CTRL_DBUFERR = 0x00200000"
definition TD_CTRL_BABBLE :: u32 where "TD_CTRL_BABBLE = 0x00100000"
definition TD_CTRL_NAK :: u32 where "TD_CTRL_NAK = 0x00080000"
definition TD_CTRL_CRCTOUT :: u32 where "TD_CTRL_CRCTOUT = 0x00040000"
definition TD_CTRL_BITSTUFF :: u32 where "TD_CTRL_BITSTUFF = 0x00020000"
definition TD_TOKEN_DT :: u32 where "TD_TOKEN_DT = 0x00080000"
definition PID_SETUP :: u32 where "PID_SETUP = 0x2D"
definition PID_IN :: u32 where "PID_IN = 0x69"
definition PID_OUT :: u32 where "PID_OUT = 0xE1"

text \<open>The words of a descriptor and of a queue head.\<close>

definition td_link_ptr :: "u32 \<Rightarrow> u32" where "td_link_ptr td = td"
definition td_control_status :: "u32 \<Rightarrow> u32" where "td_control_status td = td + 4"
definition td_token :: "u32 \<Rightarrow> u32" where "td_token td = td + 8"
definition td_buffer_ptr :: "u32 \<Rightarrow> u32" where "td_buffer_ptr td = td + 12"
definition qh_head_link_ptr :: "u32 \<Rightarrow> u32" where "qh_head_link_ptr qh = qh"
definition qh_element_link_ptr :: "u32 \<Rightarrow> u32" where "qh_element_link_ptr qh = qh + 4"

record uhci_controller =
  uc_io_base :: u16
  uc_irq :: u8
  frame_list :: u32
  control_qh :: u32
  td_pool :: u32
  td_pool_used :: "u8 list"     \<comment> \<open>32\<close>
  uc_initialized :: u8

record uhci = timer +
  uhci_paging :: paging
  uhci_words :: "u32 \<Rightarrow> u32"
  uhci_controllers :: "uhci_controller list"   \<comment> \<open>4\<close>
  uhci_controller_count :: u8

definition uhci_alloc :: "u32 \<Rightarrow> 'a uhci_scheme \<Rightarrow> (u32 \<times> 'a uhci_scheme) option" where
  "uhci_alloc n = embed uhci_paging (\<lambda>c. uhci_paging_update (\<lambda>_. c)) (\<lambda>c. Some (paging_alloc_pages n c))"

definition ctrl :: "nat \<Rightarrow> 'a uhci_scheme \<Rightarrow> uhci_controller" where
  "ctrl i s = uhci_controllers s ! i"

definition upd_ctrl :: "nat \<Rightarrow> (uhci_controller \<Rightarrow> uhci_controller) \<Rightarrow> 'a uhci_scheme \<Rightarrow> 'a uhci_scheme" where
  "upd_ctrl i f s = s\<lparr>uhci_controllers := (uhci_controllers s)[i := f (uhci_controllers s ! i)]\<rparr>"

definition put :: "u32 \<Rightarrow> u32 \<Rightarrow> 'a uhci_scheme \<Rightarrow> 'a uhci_scheme" where
  "put a v s = s\<lparr>uhci_words := (uhci_words s)(a := v)\<rparr>"

section \<open>Descriptors\<close>

text \<open>A descriptor has 32 bytes.\<close>

definition td_at :: "uhci_controller \<Rightarrow> nat \<Rightarrow> u32" where
  "td_at c i = td_pool c + 32 * of_nat i"

definition uhci_alloc_td :: "nat \<Rightarrow> 'a uhci_scheme \<Rightarrow> u32 \<times> 'a uhci_scheme" where
  "uhci_alloc_td n s =
     (case find (\<lambda>i. td_pool_used (ctrl n s) ! i = 0) [0..<32] of
        Some i \<Rightarrow>
          (let s = upd_ctrl n (td_pool_used_update (\<lambda>u. u[i := 1])) s;
               td = td_at (ctrl n s) i;
               s = put (td_link_ptr td) 1 s;
               s = put (td_control_status td) 0 s;
               s = put (td_token td) 0 s;
               s = put (td_buffer_ptr td) 0 s
           in (td, s))
      | None \<Rightarrow> (0, s))"

definition uhci_free_td :: "nat \<Rightarrow> u32 \<Rightarrow> 'a uhci_scheme \<Rightarrow> 'a uhci_scheme" where
  "uhci_free_td n td s =
     (let index = (td - td_pool (ctrl n s)) div 32
      in if index < 32 then upd_ctrl n (td_pool_used_update (\<lambda>u. u[unat index := 0])) s else s)"

section \<open>Initialisation\<close>

text \<open>\<open>while (timeout-- && (inw(...) & USBCMD_HCRESET));\<close>\<close>

fun hc_reset_wait :: "device \<Rightarrow> u16 \<Rightarrow> nat \<Rightarrow> 'a uhci_scheme \<Rightarrow> 'a uhci_scheme" where
  "hc_reset_wait D io_base 0 s = s"
| "hc_reset_wait D io_base (Suc n) s =
     (let (v, s) = inw D (io_base + UHCI_USBCMD) s in if v AND USBCMD_HCRESET \<noteq> 0 then hc_reset_wait D io_base n s else s)"

definition uhci_reset_controller :: "arch \<Rightarrow> device \<Rightarrow> (nat \<Rightarrow> nat) \<Rightarrow> nat \<Rightarrow> 'a uhci_scheme \<Rightarrow> 'a uhci_scheme option" where
  "uhci_reset_controller a D irqs n s = do {
     let io_base = uc_io_base (ctrl n s);
     s \<leftarrow> timer_delay a irqs 50 (outw (io_base + UHCI_USBCMD) USBCMD_GRESET s);
     s \<leftarrow> timer_delay a irqs 10 (outw (io_base + UHCI_USBCMD) 0 s);
     let s = outw (io_base + UHCI_USBCMD) USBCMD_HCRESET s;
     let s = hc_reset_wait D io_base 1000 s;
     Some (outw (io_base + UHCI_USBSTS) 0xFFFF s) }"

definition uhci_setup_frame_list :: "nat \<Rightarrow> 'a uhci_scheme \<Rightarrow> 'a uhci_scheme option" where
  "uhci_setup_frame_list n s = do {
     (p, s) \<leftarrow> uhci_alloc 1 s;
     let s = upd_ctrl n (frame_list_update (\<lambda>_. p)) s;
     if frame_list (ctrl n s) = 0 then Some s else do {
       (p, s) \<leftarrow> uhci_alloc 1 s;
       let s = upd_ctrl n (control_qh_update (\<lambda>_. p)) s;
       if control_qh (ctrl n s) = 0 then Some s else do {
         let s = put (qh_head_link_ptr (control_qh (ctrl n s))) 1 s;
         let s = put (qh_element_link_ptr (control_qh (ctrl n s))) 1 s;
         let qh_phys = control_qh (ctrl n s) OR 2;
         let s = fold (\<lambda>i s. put (frame_list (ctrl n s) + 4 * of_nat i) qh_phys s) [0..<1024] s;
         Some (outl (uc_io_base (ctrl n s) + UHCI_FRBASEADD) (frame_list (ctrl n s)) s) } } }"

definition uhci_init :: "arch \<Rightarrow> device \<Rightarrow> (nat \<Rightarrow> nat) \<Rightarrow> u16 \<Rightarrow> u8 \<Rightarrow> 'a uhci_scheme \<Rightarrow> (u8 \<times> 'a uhci_scheme) option" where
  "uhci_init a D irqs io_base irq s =
     (if uhci_controller_count s \<ge> 4 then Some (0, s)
      else do {
        let n = unat (uhci_controller_count s);
        let s = upd_ctrl n (uc_io_base_update (\<lambda>_. io_base)) s;
        let s = upd_ctrl n (uc_irq_update (\<lambda>_. irq)) s;
        (p, s) \<leftarrow> uhci_alloc 1 s;
        let s = upd_ctrl n (td_pool_update (\<lambda>_. p)) s;
        if td_pool (ctrl n s) = 0 then Some (0, s) else do {
          let s = fold (\<lambda>i. upd_ctrl n (td_pool_used_update (\<lambda>u. u[i := 0]))) [0..<32] s;
          s \<leftarrow> uhci_reset_controller a D irqs n s;
          s \<leftarrow> uhci_setup_frame_list n s;
          let s = outw (uc_io_base (ctrl n s) + UHCI_SOFMOD) 64 s;
          let s = outw (uc_io_base (ctrl n s) + UHCI_USBINTR) 0x0F s;
          let s = outw (uc_io_base (ctrl n s) + UHCI_USBCMD) (USBCMD_RS OR USBCMD_CF) s;
          let s = upd_ctrl n (uc_initialized_update (\<lambda>_. 1)) s;
          Some (1, s\<lparr>uhci_controller_count := uhci_controller_count s + 1\<rparr>) } })"

section \<open>Ports\<close>

definition port_reg :: "u8 \<Rightarrow> u16" where
  "port_reg port = (if port = 0 then UHCI_PORTSC1 else UHCI_PORTSC2)"

definition uhci_port_reset :: "arch \<Rightarrow> device \<Rightarrow> (nat \<Rightarrow> nat) \<Rightarrow> u8 \<Rightarrow> u8 \<Rightarrow> 'a uhci_scheme \<Rightarrow> 'a uhci_scheme option" where
  "uhci_port_reset a D irqs controller port s =
     (if controller \<ge> uhci_controller_count s then Some s
      else do {
        let reg = uc_io_base (ctrl (unat controller) s) + port_reg port;
        s \<leftarrow> timer_delay a irqs 50 (outw reg PORTSC_PR s);
        s \<leftarrow> timer_delay a irqs 10 (outw reg 0 s);
        let (status, s) = inw D reg s;
        Some (if status AND PORTSC_CCS \<noteq> 0 then outw reg PORTSC_PE s else s) })"

definition uhci_get_port_status :: "device \<Rightarrow> u8 \<Rightarrow> u8 \<Rightarrow> 'a uhci_scheme \<Rightarrow> u16 \<times> 'a uhci_scheme" where
  "uhci_get_port_status D controller port s =
     (if controller \<ge> uhci_controller_count s then (0, s)
      else inw D (uc_io_base (ctrl (unat controller) s) + port_reg port) s)"

section \<open>Transfers\<close>

definition td_active :: u32 where
  "td_active = TD_CTRL_ACTIVE OR push_bit 27 3"

definition token :: "u8 \<Rightarrow> u8 \<Rightarrow> u32 \<Rightarrow> u32 \<Rightarrow> u32 \<Rightarrow> u32" where
  "token device_addr endpoint toggle max_len pid =
     push_bit 8 (ucast device_addr) OR push_bit 15 (ucast endpoint) OR toggle OR push_bit 21 max_len OR pid"

text \<open>A look at the descriptors, after the controller has done its \<open>k\<close>-th step.\<close>

definition look :: "(nat \<Rightarrow> (u32 \<Rightarrow> u32) \<Rightarrow> u32 \<Rightarrow> u32) \<Rightarrow> nat \<Rightarrow> 'a uhci_scheme \<Rightarrow> 'a uhci_scheme" where
  "look hc k s = s\<lparr>uhci_words := hc k (uhci_words s)\<rparr>"

text \<open>\<open>while (timeout-- && (status_td->control_status & TD_CTRL_ACTIVE));\<close>, with the controller at work.\<close>

fun transfer_wait :: "(nat \<Rightarrow> (u32 \<Rightarrow> u32) \<Rightarrow> u32 \<Rightarrow> u32) \<Rightarrow> u32 \<Rightarrow> nat \<Rightarrow> nat \<Rightarrow> 'a uhci_scheme \<Rightarrow> 'a uhci_scheme" where
  "transfer_wait hc td 0 k s = s"
| "transfer_wait hc td (Suc n) k s =
     (let s = look hc k s
      in if uhci_words s (td_control_status td) AND TD_CTRL_ACTIVE \<noteq> 0 then transfer_wait hc td n (Suc k) s else s)"

text \<open>The descriptors of a transfer, filled in; the address 0 stands for the missing data descriptor.\<close>

definition setup_tds :: "u8 \<Rightarrow> u8 \<Rightarrow> u32 \<Rightarrow> u32 \<Rightarrow> u16 \<Rightarrow> u32 \<Rightarrow> u32 \<Rightarrow> u32 \<Rightarrow> 'a uhci_scheme \<Rightarrow> 'a uhci_scheme" where
  "setup_tds device_addr endpoint setup_packet dat data_len setup_td data_td status_td s =
     (let s = put (td_control_status setup_td) td_active s;
          s = put (td_token setup_td) (token device_addr endpoint 0 (8 - 1) PID_SETUP) s;
          s = put (td_buffer_ptr setup_td) setup_packet s;
          s = (if data_td \<noteq> 0 then
              (let s = put (td_link_ptr setup_td) data_td s;
                   s = put (td_control_status data_td) td_active s;
                   s = put (td_token data_td) (token device_addr endpoint TD_TOKEN_DT (ucast data_len - 1) PID_IN) s;
                   s = put (td_buffer_ptr data_td) dat s
               in put (td_link_ptr data_td) status_td s)
            else put (td_link_ptr setup_td) status_td s);
          s = put (td_control_status status_td) (td_active OR TD_CTRL_IOC) s;
          s = put (td_token status_td) (token device_addr endpoint TD_TOKEN_DT (0 - 1) PID_OUT) s;
          s = put (td_buffer_ptr status_td) 0 s
      in put (td_link_ptr status_td) 1 s)"

definition td_errors :: u32 where
  "td_errors = TD_CTRL_STALLED OR TD_CTRL_DBUFERR OR TD_CTRL_BABBLE OR TD_CTRL_NAK OR TD_CTRL_CRCTOUT OR TD_CTRL_BITSTUFF"

text \<open>The part of a transfer that follows the allocation.\<close>

definition transfer_run ::
  "(nat \<Rightarrow> (u32 \<Rightarrow> u32) \<Rightarrow> u32 \<Rightarrow> u32) \<Rightarrow> nat \<Rightarrow> u8 \<Rightarrow> u8 \<Rightarrow> u32 \<Rightarrow> u32 \<Rightarrow> u16 \<Rightarrow> u32 \<Rightarrow> u32 \<Rightarrow> u32 \<Rightarrow> 'a uhci_scheme \<Rightarrow> u8 \<times> 'a uhci_scheme" where
  "transfer_run hc n da e sp d l setup_td data_td status_td s =
     (let s = setup_tds da e sp d l setup_td data_td status_td s;
          s = put (qh_element_link_ptr (control_qh (ctrl n s))) setup_td s;
          s = transfer_wait hc status_td 1000000 0 s;
          s = look hc 1000000 s;
          success = c_bool (uhci_words s (td_control_status status_td) AND td_errors = 0);
          s = put (qh_element_link_ptr (control_qh (ctrl n s))) 1 s;
          s = uhci_free_td n setup_td s;
          s = (if data_td \<noteq> 0 then uhci_free_td n data_td s else s)
      in (success, uhci_free_td n status_td s))"

definition uhci_control_transfer ::
  "(nat \<Rightarrow> (u32 \<Rightarrow> u32) \<Rightarrow> u32 \<Rightarrow> u32) \<Rightarrow> u8 \<Rightarrow> u8 \<Rightarrow> u8 \<Rightarrow> u32 \<Rightarrow> u32 \<Rightarrow> u16 \<Rightarrow> 'a uhci_scheme \<Rightarrow> u8 \<times> 'a uhci_scheme" where
  "uhci_control_transfer hc controller device_addr endpoint setup_packet dat data_len s =
     (if controller \<ge> uhci_controller_count s then (0, s)
      else
        (let n = unat controller;
             (setup_td, s) = uhci_alloc_td n s;
             (status_td, s) = uhci_alloc_td n s
         in if setup_td = 0 \<or> status_td = 0 then
              (let s = (if setup_td \<noteq> 0 then uhci_free_td n setup_td s else s);
                   s = (if status_td \<noteq> 0 then uhci_free_td n status_td s else s)
               in (0, s))
            else
              (let (data_td, s) = (if data_len > 0 then uhci_alloc_td n s else (0, s))
               in if data_len > 0 \<and> data_td = 0 then (0, uhci_free_td n status_td (uhci_free_td n setup_td s))
                  else transfer_run hc n device_addr endpoint setup_packet dat data_len setup_td data_td status_td s)))"

definition uhci_irq_handler :: "device \<Rightarrow> u8 \<Rightarrow> 'a uhci_scheme \<Rightarrow> 'a uhci_scheme" where
  "uhci_irq_handler D controller s =
     (if controller \<ge> uhci_controller_count s then s
      else
        (let io_base = uc_io_base (ctrl (unat controller) s);
             (status, s) = inw D (io_base + UHCI_USBSTS) s
         in outw (io_base + UHCI_USBSTS) status s))"

definition uhci_get_controller_count :: "'a uhci_scheme \<Rightarrow> u8" where
  "uhci_get_controller_count s = uhci_controller_count s"

section \<open>The pool of descriptors\<close>

definition frees :: "u8 list \<Rightarrow> nat list" where
  "frees u = filter (\<lambda>i. u ! i = 0) [0..<32]"

lemma frees_alloc:
  assumes "frees u = i # is" "length u = 32"
  shows "frees (u[i := 1]) = is" "i < 32" "u ! i = 0" "i \<notin> set is"
proof -
  have "i \<in> set (frees u)" using assms(1) by simp
  then show i: "i < 32" "u ! i = 0" by (simp_all add: frees_def)
  have "distinct (i # is)" using assms(1) unfolding frees_def by (metis distinct_filter distinct_upt)
  then show n: "i \<notin> set is" by simp
  have "frees (u[i := 1]) = filter (\<lambda>j. j \<noteq> i) (frees u)"
    using assms(2) i by (auto simp: frees_def nth_list_update intro!: filter_cong)
  also have "\<dots> = is" using n by (auto simp: assms(1) filter_id_conv)
  finally show "frees (u[i := 1]) = is" .
qed

lemma find_frees: "find (\<lambda>i. u ! i = 0) [0..<32] = (case frees u of [] \<Rightarrow> None | i # _ \<Rightarrow> Some i)"
proof -
  have "find P xs = (case filter P xs of [] \<Rightarrow> None | i # _ \<Rightarrow> Some i)" for P and xs :: "nat list" by (induction xs) auto
  then show ?thesis by (simp add: frees_def)
qed

lemma ctrl_upd:
  "n < length (uhci_controllers s) \<Longrightarrow> ctrl n (upd_ctrl n f s) = f (ctrl n s)"
  "length (uhci_controllers (upd_ctrl n f s)) = length (uhci_controllers s)"
  by (simp_all add: ctrl_def upd_ctrl_def)

lemma put_frame [simp]:
  "ctrl n (put a v s) = ctrl n s" "uhci_controllers (put a v s) = uhci_controllers s"
  "uhci_words (put a v s) = (uhci_words s)(a := v)"
  by (simp_all add: put_def ctrl_def)

lemma td_at_nonzero:
  assumes "td_pool c \<noteq> 0" "unat (td_pool c) + 1024 \<le> 2 ^ 32" "i < 32"
  shows "unat (td_at c i) = unat (td_pool c) + 32 * i" "td_at c i \<noteq> 0"
proof -
  have u: "unat (32 * of_nat i :: u32) = 32 * i" using assms(3) by (simp add: unat_word_ariths(2) unat_of_nat)
  show v: "unat (td_at c i) = unat (td_pool c) + 32 * i"
    unfolding td_at_def unat_word_ariths(1) u using assms(2,3) by simp
  show "td_at c i \<noteq> 0" using assms(1) v by (metis add_is_0 unat_0 unat_eq_0)
qed

lemma uhci_alloc_td_frees:
  assumes "n < length (uhci_controllers s)" "length (td_pool_used (ctrl n s)) = 32"
  shows "frees (td_pool_used (ctrl n s)) = [] \<Longrightarrow> uhci_alloc_td n s = (0, s)"
    and "frees (td_pool_used (ctrl n s)) = i # is \<Longrightarrow>
      \<exists>t. uhci_alloc_td n s = (td_at (ctrl n s) i, t) \<and> length (uhci_controllers t) = length (uhci_controllers s) \<and>
        ctrl n t = (ctrl n s)\<lparr>td_pool_used := (td_pool_used (ctrl n s))[i := 1]\<rparr>"
proof -
  show "frees (td_pool_used (ctrl n s)) = [] \<Longrightarrow> uhci_alloc_td n s = (0, s)"
    by (simp add: uhci_alloc_td_def find_frees)
  show "frees (td_pool_used (ctrl n s)) = i # is \<Longrightarrow>
      \<exists>t. uhci_alloc_td n s = (td_at (ctrl n s) i, t) \<and> length (uhci_controllers t) = length (uhci_controllers s) \<and>
        ctrl n t = (ctrl n s)\<lparr>td_pool_used := (td_pool_used (ctrl n s))[i := 1]\<rparr>"
    using assms by (simp add: uhci_alloc_td_def find_frees Let_def ctrl_upd td_at_def)
qed

lemma uhci_free_td_pool:
  assumes "n < length (uhci_controllers s)" "i < 32" "td_pool (ctrl n s) = td_pool c"
  shows "ctrl n (uhci_free_td n (td_at c i) s) = (ctrl n s)\<lparr>td_pool_used := (td_pool_used (ctrl n s))[i := 0]\<rparr>"
    "length (uhci_controllers (uhci_free_td n (td_at c i) s)) = length (uhci_controllers s)"
proof -
  have u: "unat (32 * of_nat i :: u32) = 32 * i" using assms(2) by (simp add: unat_word_ariths(2) unat_of_nat)
  have "td_at c i - td_pool (ctrl n s) = 32 * of_nat i" by (simp add: td_at_def assms(3))
  then have "(td_at c i - td_pool (ctrl n s)) div 32 = of_nat i"
    using assms(2) by (simp add: word_unat_eq_iff unat_div u unat_of_nat)
  moreover have "(of_nat i :: u32) < 32" "unat (of_nat i :: u32) = i"
    using assms(2) by (simp_all add: word_less_nat_alt unat_of_nat)
  ultimately show "ctrl n (uhci_free_td n (td_at c i) s) = (ctrl n s)\<lparr>td_pool_used := (td_pool_used (ctrl n s))[i := 0]\<rparr>"
    "length (uhci_controllers (uhci_free_td n (td_at c i) s)) = length (uhci_controllers s)"
    using assms(1) by (simp_all add: uhci_free_td_def Let_def ctrl_upd)
qed

lemma setup_tds_frame [simp]:
  "ctrl n (setup_tds da e sp d l st dt t s) = ctrl n s"
  "uhci_controllers (setup_tds da e sp d l st dt t s) = uhci_controllers s"
  by (simp_all add: setup_tds_def Let_def)

lemma look_frame [simp]: "ctrl n (look hc k s) = ctrl n s" "uhci_controllers (look hc k s) = uhci_controllers s"
  by (simp_all add: look_def ctrl_def)

lemma transfer_wait_frame [simp]:
  "ctrl n (transfer_wait hc td m k s) = ctrl n s" "uhci_controllers (transfer_wait hc td m k s) = uhci_controllers s"
  by (induction m arbitrary: k s) (simp_all add: Let_def)

text \<open>A controller that never touches a descriptor.\<close>

lemma transfer_wait_dead:
  assumes "\<forall>k m. hc k m (td_control_status td) = m (td_control_status td)"
  shows "uhci_words (transfer_wait hc td m k s) (td_control_status td) = uhci_words s (td_control_status td)"
  by (induction m arbitrary: k s) (simp_all add: Let_def look_def assms)

lemma transfer_run_pool:
  assumes "n < length (uhci_controllers s)" "i < 32" "j < 32" "td_pool (ctrl n s) = td_pool c" "data_td = 0 \<or> data_td = td_at c k \<and> k < 32"
  shows "ctrl n (snd (transfer_run hc n da e sp d l (td_at c i) data_td (td_at c j) s)) =
    (ctrl n s)\<lparr>td_pool_used := (if data_td \<noteq> 0 then (td_pool_used (ctrl n s))[i := 0, k := 0, j := 0] else (td_pool_used (ctrl n s))[i := 0, j := 0])\<rparr>"
  using assms by (auto simp: transfer_run_def Let_def uhci_free_td_pool)

lemma transfer_run_dead:
  assumes "\<forall>k m. hc k m (td_control_status st) = m (td_control_status st)"
    "qh_element_link_ptr (control_qh (ctrl n s)) \<noteq> td_control_status st"
  shows "fst (transfer_run hc n da e sp d l setup_td data_td st s) = 1"
proof -
  let ?s = "setup_tds da e sp d l setup_td data_td st s"
  have w: "uhci_words ?s (td_control_status st) = td_active OR TD_CTRL_IOC"
    by (simp add: setup_tds_def Let_def td_control_status_def td_token_def td_buffer_ptr_def td_link_ptr_def)
  have e: "(td_active OR TD_CTRL_IOC) AND td_errors = 0" by code_simp
  show ?thesis
    using assms not_sym [OF assms(2)] by (simp add: transfer_run_def Let_def look_def transfer_wait_dead [of hc st, OF assms(1)] w e)
qed

lemma pool_restored:
  "u ! i = 0 \<Longrightarrow> u ! j = 0 \<Longrightarrow> u[i := 1, j := 1, i := 0, j := 0] = u"
  "u ! i = 0 \<Longrightarrow> u ! j = 0 \<Longrightarrow> u ! k = 0 \<Longrightarrow> u[i := 1, j := 1, k := 1, i := 0, k := 0, j := 0] = u"
  for u :: "u8 list"
proof -
  have upd: "xs[i := x] ! j = (if i = j \<and> i < length xs then x else xs ! j)" for xs :: "u8 list" and i j x
    by (cases "i = j") (auto simp: list_update_beyond)
  show "u ! i = 0 \<Longrightarrow> u ! j = 0 \<Longrightarrow> u[i := 1, j := 1, i := 0, j := 0] = u"
    "u ! i = 0 \<Longrightarrow> u ! j = 0 \<Longrightarrow> u ! k = 0 \<Longrightarrow> u[i := 1, j := 1, k := 1, i := 0, k := 0, j := 0] = u"
    by (auto simp: list_eq_iff_nth_eq upd)
qed

text \<open>What a transfer comes to, by the number of free descriptors.\<close>

definition transfer_ok :: "uhci_controller \<Rightarrow> nat \<Rightarrow> (nat \<Rightarrow> (u32 \<Rightarrow> u32) \<Rightarrow> u32 \<Rightarrow> u32) \<Rightarrow> u16 \<Rightarrow> u8 \<times> 'a uhci_scheme \<Rightarrow> bool" where
  "transfer_ok c n hc len p \<longleftrightarrow>
     (let need = (if 0 < len then 3 else 2); free = frees (td_pool_used c) in
      td_pool_used (ctrl n (snd p)) = td_pool_used c \<and> (length free < need \<longrightarrow> fst p = 0) \<and>
      (need \<le> length free \<and> (\<forall>k m st. hc k m st = m st) \<and>
        (\<forall>i < 32. qh_element_link_ptr (control_qh c) \<noteq> td_control_status (td_at c i)) \<longrightarrow> fst p = 1))"

lemma transfer_start:
  assumes "controller < uhci_controller_count s"
  shows "uhci_control_transfer hc controller da e sp d len s =
      (let n = unat controller; (setup_td, s) = uhci_alloc_td n s; (status_td, s) = uhci_alloc_td n s
       in if setup_td = 0 \<or> status_td = 0 then
            (let s = (if setup_td \<noteq> 0 then uhci_free_td n setup_td s else s);
                 s = (if status_td \<noteq> 0 then uhci_free_td n status_td s else s) in (0, s))
          else (let (data_td, s) = (if 0 < len then uhci_alloc_td n s else (0, s))
             in if 0 < len \<and> data_td = 0 then (0, uhci_free_td n status_td (uhci_free_td n setup_td s))
                else transfer_run hc n da e sp d len setup_td data_td status_td s))"
  unfolding uhci_control_transfer_def if_not_P [OF assms(1) [folded not_le]] by (simp only: Let_def)

text \<open>Two allocations, and what is left afterwards.\<close>

lemma alloc_two:
  assumes "n < length (uhci_controllers s)" "c = ctrl n s" "length (td_pool_used c) = 32" "frees (td_pool_used c) = i # j # js"
  obtains s1 s2 where "uhci_alloc_td n s = (td_at c i, s1)" "uhci_alloc_td n s1 = (td_at c j, s2)"
    "n < length (uhci_controllers s2)" "ctrl n s2 = c\<lparr>td_pool_used := (td_pool_used c)[i := 1, j := 1]\<rparr>"
    "frees (td_pool_used (ctrl n s2)) = js"
proof -
  note i = frees_alloc [OF assms(4,3)]
  obtain s1 where s1: "uhci_alloc_td n s = (td_at c i, s1)" "length (uhci_controllers s1) = length (uhci_controllers s)"
    "ctrl n s1 = c\<lparr>td_pool_used := (td_pool_used c)[i := 1]\<rparr>"
    using uhci_alloc_td_frees(2) [OF assms(1)] assms(2-4) by metis
  have ok1: "n < length (uhci_controllers s1)" "length (td_pool_used (ctrl n s1)) = 32"
    "frees (td_pool_used (ctrl n s1)) = j # js" using assms(1,3) s1(2,3) i(1) by simp_all
  obtain s2 where s2: "uhci_alloc_td n s1 = (td_at c j, s2)" "length (uhci_controllers s2) = length (uhci_controllers s1)"
    "ctrl n s2 = c\<lparr>td_pool_used := (td_pool_used c)[i := 1, j := 1]\<rparr>"
    using uhci_alloc_td_frees(2) [OF ok1] s1(3) by (auto simp: td_at_def)
  show ?thesis using that [OF s1(1) s2(1)] s2 ok1 frees_alloc(1) [OF ok1(3,2)] s1(3) by simp
qed

lemma transfer_short:
  assumes "controller < uhci_controller_count s" "unat controller < length (uhci_controllers s)"
    "c = ctrl (unat controller) s" "length (td_pool_used c) = 32" "td_pool c \<noteq> 0" "unat (td_pool c) + 1024 \<le> 2 ^ 32"
    "length (frees (td_pool_used c)) < 2"
  shows "transfer_ok c (unat controller) hc len (uhci_control_transfer hc controller da e sp d len s)"
proof -
  let ?n = "unat controller"
  note ok = assms(2,4) [unfolded assms(3)]
  show ?thesis
  proof (cases "frees (td_pool_used c)")
    case Nil
    then have "uhci_alloc_td ?n s = (0, s)" using uhci_alloc_td_frees(1) [OF ok] assms(3) by simp
    then show ?thesis using Nil assms(3) by (simp add: transfer_start [OF assms(1)] transfer_ok_def Let_def)
  next
    case (Cons i "is")
    then have one: "frees (td_pool_used c) = [i]" using assms(7) by simp
    note i = frees_alloc [OF one assms(4)]
    obtain s1 where s1: "uhci_alloc_td ?n s = (td_at c i, s1)" "length (uhci_controllers s1) = length (uhci_controllers s)"
      "ctrl ?n s1 = c\<lparr>td_pool_used := (td_pool_used c)[i := 1]\<rparr>"
      using uhci_alloc_td_frees(2) [OF ok] one assms(3) by metis
    have ok1: "?n < length (uhci_controllers s1)" "length (td_pool_used (ctrl ?n s1)) = 32"
      using assms(2,4) s1(2,3) by simp_all
    have "uhci_alloc_td ?n s1 = (0, s1)" using uhci_alloc_td_frees(1) [OF ok1] i(1) s1(3) by simp
    then have "uhci_control_transfer hc controller da e sp d len s = (0, uhci_free_td ?n (td_at c i) s1)"
      by (simp add: transfer_start [OF assms(1)] Let_def s1(1) td_at_nonzero(2) [OF assms(5,6) i(2)])
    moreover have "td_pool_used (ctrl ?n (uhci_free_td ?n (td_at c i) s1)) = td_pool_used c"
      using uhci_free_td_pool(1) [OF ok1(1) i(2), of c] s1(3) i(3) by simp (metis list_update_id)
    ultimately show ?thesis using one by (simp add: transfer_ok_def)
  qed
qed

lemma transfer_more:
  assumes "controller < uhci_controller_count s" "unat controller < length (uhci_controllers s)"
    "c = ctrl (unat controller) s" "length (td_pool_used c) = 32" "td_pool c \<noteq> 0" "unat (td_pool c) + 1024 \<le> 2 ^ 32"
    "frees (td_pool_used c) = i # j # js"
  shows "transfer_ok c (unat controller) hc len (uhci_control_transfer hc controller da e sp d len s)"
proof -
  let ?n = "unat controller" and ?u = "td_pool_used c"
  obtain s1 s2 where s12: "uhci_alloc_td ?n s = (td_at c i, s1)" "uhci_alloc_td ?n s1 = (td_at c j, s2)"
    and s2: "?n < length (uhci_controllers s2)" "ctrl ?n s2 = c\<lparr>td_pool_used := ?u[i := 1, j := 1]\<rparr>"
      "frees (td_pool_used (ctrl ?n s2)) = js"
    by (rule alloc_two [OF assms(2-4,7)])
  have all: "x < 32 \<and> ?u ! x = 0" if "x \<in> set (frees ?u)" for x using that by (simp add: frees_def)
  have u: "i < 32" "j < 32" "?u ! i = 0" "?u ! j = 0" using all assms(7) by simp_all
  have nz: "td_at c x \<noteq> 0" if "x < 32" for x using td_at_nonzero(2) [OF assms(5,6) that] .
  note start = transfer_start [OF assms(1), unfolded Let_def, simplified s12 split_conv nz [OF u(1)] nz [OF u(2)] simp_thms if_False]
  consider (two) "len = 0" | (lack) "0 < len" "js = []" | (three) k ks where "0 < len" "js = k # ks"
    using word_neq_0_conv by (cases js) auto
  then show ?thesis
  proof cases
    case two
    have "td_pool_used (ctrl ?n (snd (transfer_run hc ?n da e sp d len (td_at c i) 0 (td_at c j) s2))) = ?u"
      using transfer_run_pool [OF s2(1) u(1,2), of c 0 0] u s2(2) by (simp add: pool_restored)
    then show ?thesis using transfer_run_dead [of hc "td_at c j" ?n s2] s2(2) u(2) two assms(7)
      by (auto simp: start transfer_ok_def)
  next
    case lack
    have "uhci_alloc_td ?n s2 = (0, s2)" using uhci_alloc_td_frees(1) [OF s2(1)] s2(2,3) assms(4) lack by simp
    moreover have "td_pool_used (ctrl ?n (uhci_free_td ?n (td_at c j) (uhci_free_td ?n (td_at c i) s2))) = ?u"
      using uhci_free_td_pool [OF s2(1) u(1), of c] uhci_free_td_pool [of ?n "uhci_free_td ?n (td_at c i) s2" j c] s2 u
      by (simp add: pool_restored)
    ultimately show ?thesis using lack assms(7) by (simp add: start transfer_ok_def)
  next
    case three
    have k: "k < 32" "?u ! k = 0" using all [of k] assms(7) three by simp_all
    obtain s3 where s3: "uhci_alloc_td ?n s2 = (td_at c k, s3)" "length (uhci_controllers s3) = length (uhci_controllers s2)"
      "ctrl ?n s3 = c\<lparr>td_pool_used := ?u[i := 1, j := 1, k := 1]\<rparr>"
      using uhci_alloc_td_frees(2) [OF s2(1) _ s2(3) [unfolded three(2)]] s2(2) assms(4) by (auto simp: td_at_def)
    have "td_pool_used (ctrl ?n (snd (transfer_run hc ?n da e sp d len (td_at c i) (td_at c k) (td_at c j) s3))) = ?u"
      using transfer_run_pool [of ?n s3 i j c "td_at c k" k] s2(1) u k s3(2,3) nz by (simp add: pool_restored)
    then show ?thesis using transfer_run_dead [of hc "td_at c j" ?n s3] s3 u(2) three assms(7) nz [OF k(1)]
      by (auto simp: start transfer_ok_def)
  qed
qed

text \<open>A control transfer returns, and leaves every transfer descriptor as free as it was, whatever the
  controller does. With too few free descriptors it fails. But with enough of them a transfer the controller never looks
  at is reported as a success after the million polls, because only the error bits are tested, not the active bit.\<close>

lemma uhci_transfer_descriptors:
  assumes "controller < uhci_controller_count s" "unat controller < length (uhci_controllers s)"
    "c = ctrl (unat controller) s" "length (td_pool_used c) = 32" "td_pool c \<noteq> 0" "unat (td_pool c) + 1024 \<le> 2 ^ 32"
    "need = (if 0 < len then 3 else 2)"
  shows "\<exists>r t. uhci_control_transfer hc controller da e sp d len s = (r, t) \<and>
    td_pool_used (ctrl (unat controller) t) = td_pool_used c \<and>
    (length (frees (td_pool_used c)) < need \<longrightarrow> r = 0) \<and>
    (need \<le> length (frees (td_pool_used c)) \<and> (\<forall>k m st. hc k m st = m st) \<and>
      (\<forall>i < 32. qh_element_link_ptr (control_qh c) \<noteq> td_control_status (td_at c i)) \<longrightarrow> r = 1)"
proof -
  let ?p = "uhci_control_transfer hc controller da e sp d len s"
  have "transfer_ok c (unat controller) hc len ?p"
  proof (cases "length (frees (td_pool_used c)) < 2")
    case True
    then show ?thesis using transfer_short [OF assms(1-6)] by blast
  next
    case False
    then obtain i j js where "frees (td_pool_used c) = i # j # js"
      by (metis One_nat_def length_Cons less_2_cases_iff list.exhaust list.size(3))
    then show ?thesis using transfer_more [OF assms(1-6)] by blast
  qed
  then show ?thesis by (cases ?p) (auto simp: transfer_ok_def Let_def assms(7))
qed

definition hc0 :: uhci_controller where
  "hc0 = \<lparr>uc_io_base = 0xC000, uc_irq = 11, frame_list = 0xD0001000, control_qh = 0xD0002000, td_pool = 0xD0000000,
     td_pool_used = replicate 32 0, uc_initialized = 1\<rparr>"

definition uhci0 :: "paging \<Rightarrow> uhci" where
  "uhci0 p = \<lparr>trace = [], pit_ticks = 0, pit_frequency = 1000, pit_loops_per_10ms = 0, system_ticks = 0, uhci_paging = p,
     uhci_words = (\<lambda>_. 0), uhci_controllers = [hc0, hc0, hc0, hc0], uhci_controller_count = 1\<rparr>"

end
