(* ===== verification/Hpet.thy ===== *)
theory Hpet
  imports Pit
begin

text \<open>
  \<open>src/drivers/hpet.c\<close>: the high-precision timer. Its registers are accessed through a pointer made of the low half
  of the base address; an access of 64 bits is two of 32, since the PC is built for 32 bits. A division by 0 has no result, and a wait returns only if the counter lets it;
  both are \<open>None\<close>, as is the shift by 32 or more that \<open>hpet_irq_handler\<close> makes for such a timer number.
\<close>

definition HPET_GENERAL_CAPS_ID :: u32 where "HPET_GENERAL_CAPS_ID = 0x000"
definition HPET_GENERAL_CONFIG :: u32 where "HPET_GENERAL_CONFIG = 0x010"
definition HPET_GENERAL_INT_STATUS :: u32 where "HPET_GENERAL_INT_STATUS = 0x020"
definition HPET_MAIN_COUNTER :: u32 where "HPET_MAIN_COUNTER = 0x0F0"
definition HPET_TIMER0_CONFIG :: u32 where "HPET_TIMER0_CONFIG = 0x100"
definition HPET_CFG_ENABLE :: u64 where "HPET_CFG_ENABLE = 0x001"
definition HPET_CFG_LEGACY :: u64 where "HPET_CFG_LEGACY = 0x002"
definition HPET_TN_INT_TYPE :: u64 where "HPET_TN_INT_TYPE = 0x002"
definition HPET_TN_INT_ENB :: u64 where "HPET_TN_INT_ENB = 0x004"
definition HPET_TN_TYPE :: u64 where "HPET_TN_TYPE = 0x008"
definition HPET_TN_PER_INT_CAP :: u64 where "HPET_TN_PER_INT_CAP = 0x010"
definition HPET_TN_SETVAL :: u64 where "HPET_TN_SETVAL = 0x040"
definition HPET_TN_32BIT :: u64 where "HPET_TN_32BIT = 0x100"
definition HPET_TN_ROUTE :: u64 where "HPET_TN_ROUTE = 0x3E00"

record hpet = machine +
  base_address :: u64
  hpet_freq :: u32
  num_timers :: u8
  counter_size :: u8
  legacy_capable :: u8
  hpet_initialized :: u8

definition hpet_addr :: "u32 \<Rightarrow> 'a hpet_scheme \<Rightarrow> u32" where
  "hpet_addr offset s = ucast (base_address s + ucast offset)"

definition hpet_read64 :: "device \<Rightarrow> u32 \<Rightarrow> 'a hpet_scheme \<Rightarrow> u64 \<times> 'a hpet_scheme" where
  "hpet_read64 D offset s = read64_halves D (hpet_addr offset s) s"

definition hpet_write64 :: "u32 \<Rightarrow> u64 \<Rightarrow> 'a hpet_scheme \<Rightarrow> 'a hpet_scheme" where
  "hpet_write64 offset v s = write64_halves (hpet_addr offset s) v s"

definition hpet_read32 :: "device \<Rightarrow> u32 \<Rightarrow> 'a hpet_scheme \<Rightarrow> u32 \<times> 'a hpet_scheme" where
  "hpet_read32 D offset s = read32 D (hpet_addr offset s) s"

definition hpet_write32 :: "u32 \<Rightarrow> u32 \<Rightarrow> 'a hpet_scheme \<Rightarrow> 'a hpet_scheme" where
  "hpet_write32 offset v s = write32 (hpet_addr offset s) v s"

section \<open>Initialisation\<close>

definition timer_offset :: "u8 \<Rightarrow> u32" where
  "timer_offset i = HPET_TIMER0_CONFIG + ucast i * 0x20"

definition hpet_quiet_timer :: "device \<Rightarrow> u8 \<Rightarrow> 'a hpet_scheme \<Rightarrow> 'a hpet_scheme" where
  "hpet_quiet_timer D i s =
     (let (timer_config, s) = hpet_read64 D (timer_offset i) s;
          s = hpet_write64 (timer_offset i) (timer_config AND NOT HPET_TN_INT_ENB) s
      in hpet_write64 (timer_offset i + 8) 0 s)"

definition hpet_init :: "device \<Rightarrow> u64 \<Rightarrow> 'a hpet_scheme \<Rightarrow> (u8 \<times> 'a hpet_scheme) option" where
  "hpet_init D base s = do {
     let s = s\<lparr>base_address := base\<rparr>;
     let (caps, s) = hpet_read64 D HPET_GENERAL_CAPS_ID s;
     f \<leftarrow> udiv 1000000000000000 (drop_bit 32 caps);
     let s = s\<lparr>hpet_freq := ucast f, num_timers := ucast ((drop_bit 8 caps AND 0x1F) + 1),
       counter_size := (if caps AND push_bit 13 1 \<noteq> 0 then 64 else 32),
       legacy_capable := c_bool (caps AND push_bit 15 1 \<noteq> 0)\<rparr>;
     let s = hpet_write64 HPET_GENERAL_CONFIG 0 s;
     let s = hpet_write64 HPET_MAIN_COUNTER 0 s;
     let s = fold (\<lambda>i. hpet_quiet_timer D (of_nat i)) [0..<min (unat (num_timers s)) 3] s;
     let s = hpet_write64 HPET_GENERAL_CONFIG
       (if legacy_capable s \<noteq> 0 then HPET_CFG_ENABLE OR HPET_CFG_LEGACY else HPET_CFG_ENABLE) s;
     Some (1, s\<lparr>hpet_initialized := 1\<rparr>) }"

section \<open>The counter\<close>

definition hpet_get_counter :: "device \<Rightarrow> 'a hpet_scheme \<Rightarrow> u64 \<times> 'a hpet_scheme" where
  "hpet_get_counter D s =
     (if hpet_initialized s = 0 then (0, s)
      else if counter_size s = 64 then hpet_read64 D HPET_MAIN_COUNTER s
      else (let (v, s) = hpet_read32 D HPET_MAIN_COUNTER s in (ucast v, s)))"

definition hpet_get_frequency :: "'a hpet_scheme \<Rightarrow> u64" where
  "hpet_get_frequency s = ucast (hpet_freq s)"

text \<open>\<open>while ((hpet_get_counter() - start) < target_ticks) pause;\<close>\<close>

partial_function (option) hpet_wait :: "device \<Rightarrow> u64 \<Rightarrow> u64 \<Rightarrow> 'a hpet_scheme \<Rightarrow> 'a hpet_scheme option" where
  "hpet_wait D start target s =
     (let (c, s) = hpet_get_counter D s
      in if c - start < target then hpet_wait D start target (insn (Asm ''pause'' []) s) else Some s)"

definition hpet_udelay :: "device \<Rightarrow> u32 \<Rightarrow> 'a hpet_scheme \<Rightarrow> 'a hpet_scheme option" where
  "hpet_udelay D microseconds s =
     (if hpet_initialized s = 0 then Some s
      else
        (let ticks_per_us = ucast (hpet_freq s div 1000000) :: u64;
             target_ticks = ticks_per_us * ucast microseconds;
             (start, s) = hpet_get_counter D s
         in hpet_wait D start target_ticks s))"

definition hpet_ndelay :: "device \<Rightarrow> u32 \<Rightarrow> 'a hpet_scheme \<Rightarrow> 'a hpet_scheme option" where
  "hpet_ndelay D nanoseconds s =
     (if hpet_initialized s = 0 then Some s
      else
        (let ticks_per_ns = ucast (hpet_freq s div 1000000000) :: u64;
             ticks_per_ns = (if ticks_per_ns = 0 then 1 else ticks_per_ns);
             target_ticks = ticks_per_ns * ucast nanoseconds;
             (start, s) = hpet_get_counter D s
         in hpet_wait D start target_ticks s))"

section \<open>Timers\<close>

definition hpet_setup_timer :: "device \<Rightarrow> u8 \<Rightarrow> u32 \<Rightarrow> u8 \<Rightarrow> u8 \<Rightarrow> 'a hpet_scheme \<Rightarrow> u8 \<times> 'a hpet_scheme" where
  "hpet_setup_timer D timer_num period_us periodic irq s =
     (if hpet_initialized s = 0 \<or> timer_num \<ge> num_timers s \<or> timer_num \<ge> 3 then (0, s)
      else
        (let off = timer_offset timer_num;
             (timer_config, s) = hpet_read64 D off s
         in if periodic \<noteq> 0 \<and> timer_config AND HPET_TN_PER_INT_CAP = 0 then (0, s)
            else
              (let timer_config = timer_config AND NOT HPET_TN_INT_ENB;
                   s = hpet_write64 off timer_config s;
                   timer_config = 0;
                   timer_config = (if periodic \<noteq> 0 then timer_config OR (HPET_TN_TYPE OR HPET_TN_SETVAL) else timer_config);
                   timer_config = timer_config OR (push_bit 9 (ucast irq) AND HPET_TN_ROUTE);
                   timer_config = timer_config OR HPET_TN_INT_TYPE;
                   timer_config = (if counter_size s = 32 then timer_config OR HPET_TN_32BIT else timer_config);
                   s = hpet_write64 off timer_config s;
                   ticks_per_us = ucast (hpet_freq s div 1000000) :: u64;
                   comparator_value = ticks_per_us * ucast period_us;
                   s = (if periodic \<noteq> 0 then hpet_write64 (off + 8) comparator_value s
                     else (let (current, s) = hpet_get_counter D s in hpet_write64 (off + 8) (current + comparator_value) s));
                   timer_config = timer_config OR HPET_TN_INT_ENB
               in (1, hpet_write64 off timer_config s))))"

definition hpet_disable_timer :: "device \<Rightarrow> u8 \<Rightarrow> 'a hpet_scheme \<Rightarrow> 'a hpet_scheme" where
  "hpet_disable_timer D timer_num s =
     (if hpet_initialized s = 0 \<or> timer_num \<ge> num_timers s \<or> timer_num \<ge> 3 then s
      else
        (let (timer_config, s) = hpet_read64 D (timer_offset timer_num) s
         in hpet_write64 (timer_offset timer_num) (timer_config AND NOT HPET_TN_INT_ENB) s))"

definition hpet_is_initialized :: "'a hpet_scheme \<Rightarrow> u8" where "hpet_is_initialized s = hpet_initialized s"
definition hpet_get_num_timers :: "'a hpet_scheme \<Rightarrow> u8" where "hpet_get_num_timers s = num_timers s"
definition hpet_is_legacy_capable :: "'a hpet_scheme \<Rightarrow> u8" where "hpet_is_legacy_capable s = legacy_capable s"

definition hpet_get_timestamp_ns :: "device \<Rightarrow> 'a hpet_scheme \<Rightarrow> (u64 \<times> 'a hpet_scheme) option" where
  "hpet_get_timestamp_ns D s =
     (if hpet_initialized s = 0 then Some (0, s)
      else do {
        let (counter, s) = hpet_get_counter D s;
        v \<leftarrow> udiv (counter * 1000000000) (ucast (hpet_freq s));
        Some (v, s) })"

definition hpet_get_timestamp_us :: "device \<Rightarrow> 'a hpet_scheme \<Rightarrow> (u64 \<times> 'a hpet_scheme) option" where
  "hpet_get_timestamp_us D s =
     (if hpet_initialized s = 0 then Some (0, s)
      else do {
        let (counter, s) = hpet_get_counter D s;
        v \<leftarrow> udiv (counter * 1000000) (ucast (hpet_freq s));
        Some (v, s) })"

text \<open>The variable the pointer \<open>tsc_frequency\<close> points to; \<open>None\<close> for the null pointer.\<close>

definition hpet_calibrate_tsc :: "device \<Rightarrow> u64 option \<Rightarrow> 'a hpet_scheme \<Rightarrow> (u64 option \<times> 'a hpet_scheme) option" where
  "hpet_calibrate_tsc D tsc_frequency s =
     (if hpet_initialized s = 0 \<or> tsc_frequency = None then Some (tsc_frequency, s)
      else do {
        let (hpet_start, s) = hpet_get_counter D s;
        let (tsc_start, s) = rd D Tsc s;
        s \<leftarrow> hpet_udelay D 10000 s;
        let (tsc_end, s) = rd D Tsc s;
        let (hpet_end, s) = hpet_get_counter D s;
        let hpet_elapsed = hpet_end - hpet_start;
        let tsc_elapsed = tsc_end - tsc_start;
        v \<leftarrow> udiv (tsc_elapsed * ucast (hpet_freq s)) hpet_elapsed;
        Some (Some v, s) })"

definition hpet_irq_handler :: "device \<Rightarrow> u8 \<Rightarrow> 'a hpet_scheme \<Rightarrow> 'a hpet_scheme option" where
  "hpet_irq_handler D timer_num s =
     (if hpet_initialized s = 0 then Some s
      else
        (let (status, s) = hpet_read32 D HPET_GENERAL_INT_STATUS s
         in if timer_num \<ge> 32 then None
            else if status AND push_bit (unat timer_num) 1 \<noteq> 0
            then Some (hpet_write32 HPET_GENERAL_INT_STATUS (push_bit (unat timer_num) 1) s) else Some s))"

section \<open>Waiting\<close>

text \<open>A wait that returns has seen the counter at least the given number of ticks ahead, counting modulo \<open>2^64\<close>.\<close>

definition extends :: "'a hpet_scheme \<Rightarrow> 'a hpet_scheme \<Rightarrow> bool" where
  "extends s u \<longleftrightarrow> (\<exists>w. u = s\<lparr>trace := trace s @ w\<rparr>)"

lemma extends_refl: "extends s s"
  unfolding extends_def by (rule exI [of _ "[]"]) simp

lemma extends_trans: "extends s u \<Longrightarrow> extends u v \<Longrightarrow> extends s v"
  by (auto simp: extends_def)

lemma extends_insn: "extends s (insn i s)"
  by (auto simp: extends_def insn_def)

lemma extends_counter: "extends s (snd (hpet_get_counter D s))"
  by (auto simp: extends_def hpet_get_counter_def hpet_read64_def hpet_read32_def bus split: prod.split intro: exI [of _ "[]"])

lemma extends_fields:
  assumes "extends s u"
  shows "hpet_initialized u = hpet_initialized s" "counter_size u = counter_size s" "hpet_addr off u = hpet_addr off s"
    "\<exists>w. trace u = trace s @ w"
  using assms by (auto simp: extends_def hpet_addr_def)

lemma hpet_wait_SomeD:
  assumes "hpet_wait D start target s = Some t"
  shows "\<exists>u. extends s u \<and> snd (hpet_get_counter D u) = t \<and> target \<le> fst (hpet_get_counter D u) - start"
proof (rule hpet_wait.raw_induct [where P = "\<lambda>D start target s t. \<exists>u. extends s u \<and> snd (hpet_get_counter D u) = t \<and>
    target \<le> fst (hpet_get_counter D u) - start", OF _ assms])
  fix f D start target s t
  assume IH: "\<And>D start target s t. f D start target s = Some t \<Longrightarrow> \<exists>u. extends s u \<and> snd (hpet_get_counter D u) = t \<and>
      target \<le> fst (hpet_get_counter D u) - start"
    and eq: "(let (c, s) = hpet_get_counter D s
      in if c - start < target then f D start target (insn (Asm ''pause'' []) s) else Some s) = Some t"
  let ?c = "fst (hpet_get_counter D s)" and ?s = "snd (hpet_get_counter D s)"
  show "\<exists>u. extends s u \<and> snd (hpet_get_counter D u) = t \<and> target \<le> fst (hpet_get_counter D u) - start"
  proof (cases "?c - start < target")
    case True
    then have "f D start target (insn (Asm ''pause'' []) ?s) = Some t" using eq by (simp add: Let_def split_beta)
    from IH [OF this] obtain u where u: "extends (insn (Asm ''pause'' []) ?s) u" "snd (hpet_get_counter D u) = t"
      "target \<le> fst (hpet_get_counter D u) - start" by blast
    have "extends s (insn (Asm ''pause'' []) ?s)"
      using extends_counter [of s D] extends_trans [OF _ extends_insn] by blast
    with u show ?thesis using extends_trans by blast
  next
    case False
    have "snd (hpet_get_counter D s) = t" using eq unfolding Let_def split_beta if_not_P [OF False] by simp
    then show ?thesis using False by (intro exI [of _ s]) (simp add: not_less extends_refl)
  qed
qed

text \<open>The counter register at two consecutive reads.\<close>

definition counter_reads :: "device \<Rightarrow> u32 \<Rightarrow> 'a hpet_scheme \<Rightarrow> u32 \<Rightarrow> u32 \<Rightarrow> bool" where
  "counter_reads D a s v w \<longleftrightarrow> D (trace s) (Mem32 a) = ucast v \<and> D (trace s @ [Rd (Mem32 a) (ucast v)]) (Mem32 a) = ucast w"

text \<open>The documented counter of 64 bits: its value at each moment, which both halves of the register show and which only
  grows as long as it does not wrap.\<close>

definition hpet_counts :: "device \<Rightarrow> u32 \<Rightarrow> (trace \<Rightarrow> u64) \<Rightarrow> bool" where
  "hpet_counts D a C \<longleftrightarrow> (\<forall>t. D t (Mem32 a) = take_bit 32 (C t) \<and> D t (Mem32 (a + 4)) = drop_bit 32 (C t)) \<and>
     (\<forall>t u. C t \<le> C (t @ u))"

lemma half_words:
  "ucast (ucast (take_bit 32 c) :: u32) = take_bit 32 (c :: u64)" "ucast (ucast (drop_bit 32 c) :: u32) = drop_bit 32 (c :: u64)"
  by (rule bit_word_eqI, auto simp: bit_simps dest: bit_imp_le_length)+

lemma hpet_counter_halves:
  assumes "hpet_initialized s \<noteq> 0" "counter_size s = 64" "hpet_counts D (hpet_addr HPET_MAIN_COUNTER s) C"
  defines "r \<equiv> Rd (Mem32 (hpet_addr HPET_MAIN_COUNTER s)) (take_bit 32 (C (trace s)))"
  defines "h \<equiv> drop_bit 32 (C (trace s @ [r]))"
  shows "hpet_get_counter D s = (take_bit 32 (C (trace s)) OR push_bit 32 h,
    s\<lparr>trace := trace s @ [r, Rd (Mem32 (hpet_addr HPET_MAIN_COUNTER s + 4)) h]\<rparr>)"
  using assms(1-3) unfolding h_def r_def
  by (simp add: hpet_get_counter_def hpet_read64_def read64_halves_def read32_def rd_def Let_def hpet_counts_def half_words)

text \<open>While the upper half does not change, a reading has the value at its start.\<close>

lemma hpet_counter_whole:
  assumes "hpet_initialized s \<noteq> 0" "counter_size s = 64" "hpet_counts D (hpet_addr HPET_MAIN_COUNTER s) C"
    and hi: "\<And>u. drop_bit 32 (C (trace s @ u)) = drop_bit 32 (C (trace s))"
    and e: "extends s u"
  shows "fst (hpet_get_counter D u) = C (trace u)"
proof -
  note f = extends_fields [OF e]
  obtain w where w: "trace u = trace s @ w" using f(4) by blast
  have "drop_bit 32 (C (trace u @ x)) = drop_bit 32 (C (trace u))" for x
    using hi [of "w @ x"] hi [of w] w by simp
  moreover have "take_bit 32 c OR push_bit 32 (drop_bit 32 c) = c" for c :: u64
    by (rule bit_word_eqI) (auto simp: bit_simps, metis le_add_diff_inverse not_less)
  ultimately show ?thesis
    using hpet_counter_halves [of u D C] f assms(1-3) by simp
qed

text \<open>A delay returns when the counter gets on by the ticks after some number of accesses.\<close>

lemma hpet_wait_returns:
  assumes "hpet_initialized s \<noteq> 0" "counter_size s = 64" "hpet_counts D (hpet_addr HPET_MAIN_COUNTER s) C"
    and hi: "\<And>u. drop_bit 32 (C (trace s @ u)) = drop_bit 32 (C (trace s))"
    and goes: "\<And>w. n \<le> length w \<Longrightarrow> target \<le> C (trace s @ w) - start"
    and "extends s u" "trace u = trace s @ w"
  shows "\<exists>t. hpet_wait D start target u = Some t"
  using assms(6,7)
proof (induction "n - length w" arbitrary: u w rule: less_induct)
  case less
  note val = hpet_counter_whole [OF assms(1-3) hi less.prems(1)]
  let ?u = "insn (Asm ''pause'' []) (snd (hpet_get_counter D u))"
  have e: "extends u ?u" using extends_counter [of u D] extends_trans [OF _ extends_insn] by blast
  obtain c x where x: "trace ?u = trace u @ x @ [c]"
    using extends_fields(4) [OF extends_counter [of u D]] by (auto simp: insn_def)
  show ?case
  proof (cases "C (trace u) - start < target")
    case True
    then have "\<not> n \<le> length w" using goes [of w] less.prems(2) by auto
    then have "n - length (w @ x @ [c]) < n - length w" by simp
    then have "\<exists>t. hpet_wait D start target ?u = Some t"
      by (rule less.hyps) (use extends_trans [OF less.prems(1) e] x less.prems(2) in simp_all)
    then show ?thesis using True val by (subst hpet_wait.simps) (simp add: split_beta Let_def)
  next
    case False
    then show ?thesis using val by (subst hpet_wait.simps) (simp add: split_beta Let_def)
  qed
qed

lemma hpet_udelay_returns:
  assumes "hpet_initialized s \<noteq> 0" "counter_size s = 64" "hpet_counts D (hpet_addr HPET_MAIN_COUNTER s) C"
    and hi: "\<And>u. drop_bit 32 (C (trace s @ u)) = drop_bit 32 (C (trace s))"
    and goes: "\<And>w. n \<le> length w \<Longrightarrow> ucast (hpet_freq s div 1000000) * ucast us \<le> C (trace s @ w) - C (trace s)"
  shows "\<exists>t. hpet_udelay D us s = Some t"
proof -
  note e = extends_counter [of s D]
  obtain w where "trace (snd (hpet_get_counter D s)) = trace s @ w" using extends_fields(4) [OF e] by blast
  from hpet_wait_returns [OF assms(1-3) hi goes e this] show ?thesis
    using assms(1) hpet_counter_whole [OF assms(1-3) hi extends_refl]
    by (simp add: hpet_udelay_def Let_def split_beta)
qed

text \<open>A 64-bit counter: as long as its upper half does not change, a delay that returns has taken the requested ticks.\<close>

lemma hpet_udelay_ticks:
  assumes "hpet_initialized s \<noteq> 0" "counter_size s = 64" "hpet_counts D (hpet_addr HPET_MAIN_COUNTER s) C"
    and hi: "\<And>u. drop_bit 32 (C (trace s @ u)) = drop_bit 32 (C (trace s))"
    and t: "hpet_udelay D us s = Some t"
  shows "ucast (hpet_freq s div 1000000) * ucast us \<le> C (trace t) - C (trace s)"
proof -
  let ?target = "ucast (hpet_freq s div 1000000) * ucast us :: u64"
  note val = hpet_counter_whole [OF assms(1-3) hi]
  have "hpet_wait D (C (trace s)) ?target (snd (hpet_get_counter D s)) = Some t"
    using t assms(1) val [OF extends_refl] by (simp add: hpet_udelay_def Let_def split_beta)
  from hpet_wait_SomeD [OF this] obtain u where u: "extends (snd (hpet_get_counter D s)) u" "snd (hpet_get_counter D u) = t"
    "?target \<le> fst (hpet_get_counter D u) - C (trace s)" by blast
  have e: "extends s u" using extends_counter u(1) by (rule extends_trans)
  have "extends u t" using extends_counter [of u D] u(2) by simp
  then obtain x where "trace t = trace u @ x" using extends_fields(4) by blast
  moreover obtain w where "trace u = trace s @ w" using extends_fields(4) [OF e] by blast
  ultimately have "C (trace s) \<le> C (trace u)" "C (trace u) \<le> C (trace t)"
    using assms(3) unfolding hpet_counts_def by metis+
  then have "C (trace u) - C (trace s) \<le> C (trace t) - C (trace s)"
    by (simp add: word_le_nat_alt unat_sub)
  then show ?thesis using u(3) val [OF e] by simp
qed

text \<open>When the counter carries into its upper half between the two loads of the start value, that value is too large by
  almost \<open>2 ^ 32\<close>, and the delay ends with the next reading.\<close>

lemma wrapped_difference:
  fixes c d h target :: u64
  assumes "take_bit 32 c < take_bit 32 d" "target < 0xFFFFFFFF00000000"
  shows "\<not> (take_bit 32 c OR push_bit 32 h) - (take_bit 32 d OR push_bit 32 h) < target"
proof -
  have "take_bit 32 x AND push_bit 32 h = 0" for x by (rule bit_word_eqI) (auto simp: bit_simps)
  then have plus: "take_bit 32 x OR push_bit 32 h = take_bit 32 x + push_bit 32 h" for x
    by (rule disjunctive_add_eq_or [symmetric])
  have "unat (take_bit 32 d) < 2 ^ 32"
    using take_bit_nat_less_exp [of 32 "unat d"] by (simp add: unsigned_take_bit_eq)
  then have "0xFFFFFFFF00000000 \<le> take_bit 32 c - take_bit 32 d"
    using assms(1) unsigned_less [of d, where ?'a = nat] by (simp add: word_le_nat_alt word_less_nat_alt unat_sub_if')
  then show ?thesis using assms(2) unfolding plus by (simp add: not_less)
qed

lemma hpet_udelay_torn:
  fixes s :: "'a hpet_scheme"
  assumes "hpet_initialized s \<noteq> 0" "counter_size s = 64" and a: "a = hpet_addr HPET_MAIN_COUNTER s" and "hpet_counts D a C"
    and r: "r1 = Rd (Mem32 a) (take_bit 32 (C (trace s)))" "r2 = Rd (Mem32 (a + 4)) h"
      "r3 = Rd (Mem32 a) (take_bit 32 (C (trace s @ [r1, r2])))" "r4 = Rd (Mem32 (a + 4)) h"
    and h: "drop_bit 32 (C (trace s @ [r1])) = h" "drop_bit 32 (C (trace s @ [r1, r2, r3])) = h"
    and lo: "take_bit 32 (C (trace s @ [r1, r2])) < take_bit 32 (C (trace s))"
    and "ucast (hpet_freq s div 1000000) * ucast us < (0xFFFFFFFF00000000 :: u64)"
  shows "hpet_udelay D us s = Some (s\<lparr>trace := trace s @ [r1, r2, r3, r4]\<rparr>)"
proof -
  let ?s = "s\<lparr>trace := trace s @ [r1, r2]\<rparr>"
  have first: "hpet_get_counter D s = (take_bit 32 (C (trace s)) OR push_bit 32 h, ?s)"
    using hpet_counter_halves [of s D C] assms(1,2,4) h r a by simp
  have next_: "hpet_get_counter D ?s =
      (take_bit 32 (C (trace s @ [r1, r2])) OR push_bit 32 h, s\<lparr>trace := trace s @ [r1, r2, r3, r4]\<rparr>)"
    using hpet_counter_halves [of ?s D C] assms(1,2,4) h r a by (simp add: hpet_addr_def)
  have "hpet_wait D (take_bit 32 (C (trace s)) OR push_bit 32 h) (ucast (hpet_freq s div 1000000) * ucast us) ?s =
      Some (s\<lparr>trace := trace s @ [r1, r2, r3, r4]\<rparr>)"
    using wrapped_difference [OF lo assms(12)] by (subst hpet_wait.simps) (simp only: next_ Let_def prod.case if_False)
  then show ?thesis using assms(1) by (simp add: hpet_udelay_def first)
qed

text \<open>A 32-bit counter at two consecutive reads.\<close>

lemma hpet_udelay_wrapped:
  assumes "hpet_initialized s \<noteq> 0" "counter_size s = 32" "counter_reads D (hpet_addr HPET_MAIN_COUNTER s) s v w" "w < v"
    and "ucast (hpet_freq s div 1000000) * ucast us < (0xFFFFFFFF00000000 :: u64)"
  shows "hpet_udelay D us s = Some (s\<lparr>trace := trace s @ map (Rd (Mem32 (hpet_addr HPET_MAIN_COUNTER s))) [ucast v, ucast w]\<rparr>)"
proof -
  have "0xFFFFFFFF00000000 \<le> (ucast w - ucast v :: u64)"
  proof -
    have "unat w < unat v" "unat v < 2 ^ 32" using assms(4) unsigned_less [of v, where ?'a = nat] by (simp_all add: word_less_nat_alt)
    then show ?thesis by (simp add: word_le_nat_alt unat_sub_if' unsigned_ucast_eq take_bit_nat_eq_self)
  qed
  then have "\<not> ucast w - ucast v < ucast (hpet_freq s div 1000000) * (ucast us :: u64)" using assms(5) by simp
  then show ?thesis
    using assms(1-3) by (simp add: hpet_udelay_def hpet_get_counter_def hpet_read32_def bus counter_reads_def hpet_addr_def)
      (subst hpet_wait.simps, simp add: hpet_get_counter_def hpet_read32_def bus hpet_addr_def)
qed

text \<open>No delay asks for that many ticks.\<close>

lemma target_small: "ucast (f div 1000000 :: u32) * ucast (us :: u32) < (0xFFFFFFFF00000000 :: u64)"
proof -
  have f: "unat (f div 1000000) \<le> 4294" using unsigned_less [of f, where ?'a = nat] by (simp add: unat_div)
  have "unat (f div 1000000) * unat us \<le> 4294 * 2 ^ 32"
    using unsigned_less [of us, where ?'a = nat] f by (intro mult_mono) simp_all
  then show ?thesis by (simp add: word_less_nat_alt unat_word_ariths unat_ucast_up)
qed

text \<open>The two loads of one reading of the counter at trace \<open>tr\<close>, when the second finds the upper half \<open>h\<close>; and the
  situation that the counter carries between the two loads of one reading, and not during the next.\<close>

definition half_reads :: "(trace \<Rightarrow> u64) \<Rightarrow> u32 \<Rightarrow> u64 \<Rightarrow> trace \<Rightarrow> trace" where
  "half_reads C a h tr = [Rd (Mem32 a) (take_bit 32 (C tr)), Rd (Mem32 (a + 4)) h]"

definition torn :: "(trace \<Rightarrow> u64) \<Rightarrow> u32 \<Rightarrow> u64 \<Rightarrow> trace \<Rightarrow> bool" where
  "torn C a h tr \<longleftrightarrow>
     (let tr1 = tr @ [Rd (Mem32 a) (take_bit 32 (C tr))];
          tr2 = tr @ half_reads C a h tr;
          tr3 = tr2 @ [Rd (Mem32 a) (take_bit 32 (C tr2))]
      in drop_bit 32 (C tr1) = h \<and> drop_bit 32 (C tr3) = h \<and> take_bit 32 (C tr2) < take_bit 32 (C tr))"

text \<open>C30: With a 64-bit counter whose upper half does not change meanwhile, a microsecond delay that returns has taken at
  least the requested ticks, and it returns if the counter gets that far within some number of accesses. If the counter carries into the upper half between the two loads of the start value, the
  delay ends with the next reading; and a 32-bit counter is compared at 64 bits, so when it wraps the delay ends at once
  too, however short the time that has passed.\<close>

theorem hpet_udelay_ends:
  assumes "hpet_initialized s \<noteq> 0" "a = hpet_addr HPET_MAIN_COUNTER s" "target = ucast (hpet_freq s div 1000000) * ucast us"
  shows "(counter_size s = 64 \<and> hpet_counts D a C \<and> (\<forall>u. drop_bit 32 (C (trace s @ u)) = drop_bit 32 (C (trace s))) \<and>
      hpet_udelay D us s = Some t \<longrightarrow> target \<le> C (trace t) - C (trace s)) \<and>
    (counter_size s = 64 \<and> hpet_counts D a C \<and> (\<forall>u. drop_bit 32 (C (trace s @ u)) = drop_bit 32 (C (trace s))) \<and>
      (\<forall>w. k \<le> length w \<longrightarrow> target \<le> C (trace s @ w) - C (trace s)) \<longrightarrow> (\<exists>t. hpet_udelay D us s = Some t)) \<and>
    (counter_size s = 64 \<and> hpet_counts D a C \<and> torn C a h (trace s) \<longrightarrow>
      hpet_udelay D us s = Some (s\<lparr>trace := trace s @ half_reads C a h (trace s) @
        half_reads C a h (trace s @ half_reads C a h (trace s))\<rparr>)) \<and>
    (counter_size s = 32 \<and> counter_reads D a s v w \<and> w < v \<longrightarrow>
      hpet_udelay D us s = Some (s\<lparr>trace := trace s @ map (Rd (Mem32 a)) [ucast v, ucast w]\<rparr>))"
proof (intro conjI impI)
  assume h: "counter_size s = 64 \<and> hpet_counts D a C \<and> (\<forall>u. drop_bit 32 (C (trace s @ u)) = drop_bit 32 (C (trace s))) \<and>
    hpet_udelay D us s = Some t"
  then show "target \<le> C (trace t) - C (trace s)"
    using hpet_udelay_ticks [of s D C us t] assms by simp
next
  assume h: "counter_size s = 64 \<and> hpet_counts D a C \<and> (\<forall>u. drop_bit 32 (C (trace s @ u)) = drop_bit 32 (C (trace s))) \<and>
    (\<forall>w. k \<le> length w \<longrightarrow> target \<le> C (trace s @ w) - C (trace s))"
  then show "\<exists>t. hpet_udelay D us s = Some t"
    using hpet_udelay_returns [of s D C k us] assms by blast
next
  assume h: "counter_size s = 64 \<and> hpet_counts D a C \<and> torn C a h (trace s)"
  show "hpet_udelay D us s = Some (s\<lparr>trace := trace s @ half_reads C a h (trace s) @
      half_reads C a h (trace s @ half_reads C a h (trace s))\<rparr>)"
    using hpet_udelay_torn [of s a D C _ _ h, OF assms(1) _ assms(2) _ refl refl refl refl _ _ _ target_small] h
    by (simp add: torn_def half_reads_def Let_def)
next
  assume h: "counter_size s = 32 \<and> counter_reads D a s v w \<and> w < v"
  then show "hpet_udelay D us s = Some (s\<lparr>trace := trace s @ map (Rd (Mem32 a)) [ucast v, ucast w]\<rparr>)"
    using hpet_udelay_wrapped [OF assms(1) _ _ _ target_small, of D v w us] assms(2) by simp
qed

definition hpet0 :: hpet where
  "hpet0 = \<lparr>trace = [], base_address = 0xFED00000, hpet_freq = 14318180, num_timers = 3, counter_size = 64,
     legacy_capable = 1, hpet_initialized = 1\<rparr>"

definition count_device :: "(trace \<Rightarrow> u64) \<Rightarrow> device" where
  "count_device C t p = (if p = Mem32 0xFED000F0 then take_bit 32 (C t) else if p = Mem32 0xFED000F4 then drop_bit 32 (C t) else 0)"

lemma count_device_counts:
  assumes "\<And>t u. C t \<le> C (t @ u)"
  shows "hpet_counts (count_device C) 0xFED000F0 C"
  using assms by (simp add: hpet_counts_def count_device_def)

text \<open>A counter that passes \<open>0xFFFFFFFF\<close> at its first reading: a delay of a millisecond, 14000 ticks, ends one tick later.
  The same with a 32-bit counter; and with a counter of a small value a delay of 10 microseconds lasts its 140 ticks.\<close>

lemma hpet_udelay_ends_witness:
  "hpet_udelay (count_device (\<lambda>t. if t = [] then 0xFFFFFFFF else 0x100000000)) 1000 hpet0 =
     Some (hpet0\<lparr>trace := [Rd (Mem32 0xFED000F0) 0xFFFFFFFF, Rd (Mem32 0xFED000F4) 1,
       Rd (Mem32 0xFED000F0) 0, Rd (Mem32 0xFED000F4) 1]\<rparr>) \<and>
   hpet_udelay (\<lambda>t p. if t = [] then 0xFFFFFFF0 else 5) 1000 (hpet0\<lparr>counter_size := 32\<rparr>) =
     Some (hpet0\<lparr>counter_size := 32, trace := map (Rd (Mem32 0xFED000F0)) [0xFFFFFFF0, 5]\<rparr>) \<and>
   (\<exists>t. hpet_udelay (count_device (\<lambda>t. if t = [] then 0 else 1000)) 10 hpet0 = Some t \<and>
      trace t \<noteq> [])"
proof (intro conjI)
  let ?C = "\<lambda>t. if t = [] then 0xFFFFFFFF else 0x100000000 :: u64"
  have i: "hpet_initialized hpet0 \<noteq> 0" "hpet_initialized (hpet0\<lparr>counter_size := 32\<rparr>) \<noteq> 0" by (simp_all add: hpet0_def)
  have a: "0xFED000F0 = hpet_addr HPET_MAIN_COUNTER hpet0" "0xFED000F0 = hpet_addr HPET_MAIN_COUNTER (hpet0\<lparr>counter_size := 32\<rparr>)"
    by code_simp+
  have f: "trace hpet0 = []" "counter_size hpet0 = 64" "hpet_freq hpet0 = 14318180" by (simp_all add: hpet0_def)
  have b: "base_address hpet0 = 0xFED00000" by (simp add: hpet0_def)
  have "?C t \<le> ?C (t @ u)" for t u by simp
  note c = count_device_counts [of ?C, OF this]
  have "torn ?C 0xFED000F0 1 []" by (simp add: torn_def half_reads_def take_bit_eq_mask drop_bit_eq_div mask_eq_exp_minus_1)
  then show "hpet_udelay (count_device ?C) 1000 hpet0 =
     Some (hpet0\<lparr>trace := [Rd (Mem32 0xFED000F0) 0xFFFFFFFF, Rd (Mem32 0xFED000F4) 1,
       Rd (Mem32 0xFED000F0) 0, Rd (Mem32 0xFED000F4) 1]\<rparr>)"
    using hpet_udelay_ends [OF i(1) a(1) refl, where D = "count_device ?C" and C = ?C and h = 1 and us = 1000] c
    by (simp add: f half_reads_def take_bit_eq_mask mask_eq_exp_minus_1)
  show "hpet_udelay (\<lambda>t p. if t = [] then 0xFFFFFFF0 else 5) 1000 (hpet0\<lparr>counter_size := 32\<rparr>) =
     Some (hpet0\<lparr>counter_size := 32, trace := map (Rd (Mem32 0xFED000F0)) [0xFFFFFFF0, 5]\<rparr>)"
    using hpet_udelay_ends [OF i(2) a(2) refl, where D = "\<lambda>t p. if t = [] then 0xFFFFFFF0 else 5" and us = 1000 and
        v = "0xFFFFFFF0" and w = 5]
    by (simp add: f counter_reads_def)
  let ?S = "\<lambda>t. if t = [] then 0 else 1000 :: u64"
  have m: "?S t \<le> ?S (t @ u) \<and> drop_bit 32 (?S t) = 0" for t u by (simp add: drop_bit_eq_div)
  have d: "drop_bit 32 (if u = [] then 0 else 1000) = (0 :: u64)" for u :: trace by (simp add: drop_bit_eq_div)
  from m have c: "hpet_counts (count_device ?S) 0xFED000F0 ?S" by (intro count_device_counts) simp
  have "\<exists>t. hpet_udelay (count_device ?S) 10 hpet0 = Some t"
    by (simp add: hpet_udelay_def f i hpet_get_counter_def hpet_read64_def read64_halves_def read32_def rd_def
        count_device_def a(1) [symmetric] Let_def)
      (subst hpet_wait.simps, simp add: f i hpet_get_counter_def hpet_read64_def read64_halves_def read32_def rd_def
        count_device_def hpet_addr_def b HPET_MAIN_COUNTER_def Let_def)
  then obtain t where t: "hpet_udelay (count_device ?S) 10 hpet0 = Some t" by blast
  then show "\<exists>t. hpet_udelay (count_device ?S) 10 hpet0 = Some t \<and> trace t \<noteq> []"
    using hpet_udelay_ends [OF i(1) a(1) refl, where D = "count_device ?S" and C = ?S and us = 10 and t = t] c f by (auto simp: d split: if_splits)
qed

end
