(* ===== verification/Io_Apic.thy ===== *)
theory Io_Apic
  imports Acpi Apic
begin

text \<open>
  \<open>src/drivers/ioapic.c\<close>: several I/O APICs, found in the MADT, whose lines are numbered by global system interrupts. The
  file defines functions of the names \<open>apic.c\<close> has too, here with the suffix \<open>gsi\<close>. The table of the ACPI driver is looked
  up in its variables, which are part of the state. A line beyond the 24 entries of the driver's copy, undefined in C, has
  no result, and the walk over the MADT may not end: \<open>None\<close>.
\<close>

definition IOAPIC_REGWIN :: u32 where "IOAPIC_REGWIN = 0x10"
definition IOAPIC_VER :: u8 where "IOAPIC_VER = 0x01"
definition IOAPIC_REDTBL_BASE :: u8 where "IOAPIC_REDTBL_BASE = 0x10"
definition IOAPIC_DEST_PHYSICAL :: u32 where "IOAPIC_DEST_PHYSICAL = 0x00000000"
definition IOAPIC_DEST_LOGICAL :: u32 where "IOAPIC_DEST_LOGICAL = 0x00000800"
definition IOAPIC_INTPOL_HIGH :: u32 where "IOAPIC_INTPOL_HIGH = 0x00000000"
definition IOAPIC_INTPOL_LOW :: u32 where "IOAPIC_INTPOL_LOW = 0x00002000"
definition IOAPIC_TRIGGER_EDGE :: u32 where "IOAPIC_TRIGGER_EDGE = 0x00000000"
definition IOAPIC_TRIGGER_LEVEL :: u32 where "IOAPIC_TRIGGER_LEVEL = 0x00008000"
definition IOAPIC_MASK :: u32 where "IOAPIC_MASK = 0x00010000"
definition IOAPIC_DELIVERY_FIXED :: u32 where "IOAPIC_DELIVERY_FIXED = 0x00000000"

record redir_entry =
  re_low :: u32
  re_high :: u32

record io_controller =
  ic_base_address :: u32
  ic_id :: u8
  ic_version :: u8
  max_redirection_entries :: u8
  ic_enabled :: u8
  gsi_base :: u32
  redirection_table :: "redir_entry list"   \<comment> \<open>24\<close>

record ioapics = acpi +
  num_ioapics :: u8
  ioapics :: "io_controller list"   \<comment> \<open>8\<close>
  ioapic_initialized :: u8

definition upd_ioapic :: "nat \<Rightarrow> (io_controller \<Rightarrow> io_controller) \<Rightarrow> 'a ioapics_scheme \<Rightarrow> 'a ioapics_scheme" where
  "upd_ioapic i f s = s\<lparr>ioapics := (ioapics s)[i := f (ioapics s ! i)]\<rparr>"

section \<open>Registers\<close>

definition ioapic_read_reg :: "device \<Rightarrow> u32 \<Rightarrow> u8 \<Rightarrow> 'a machine_scheme \<Rightarrow> u32 \<times> 'a machine_scheme" where
  "ioapic_read_reg D base reg s = read32 D (base + IOAPIC_REGWIN) (write32 base (ucast reg) s)"

definition ioapic_write_reg :: "u32 \<Rightarrow> u8 \<Rightarrow> u32 \<Rightarrow> 'a machine_scheme \<Rightarrow> 'a machine_scheme" where
  "ioapic_write_reg base reg v s = write32 (base + IOAPIC_REGWIN) v (write32 base (ucast reg) s)"

definition ioapic_read_redirection_entry :: "device \<Rightarrow> u32 \<Rightarrow> u8 \<Rightarrow> 'a machine_scheme \<Rightarrow> redir_entry \<times> 'a machine_scheme" where
  "ioapic_read_redirection_entry D base irq s =
     (let (low, s) = ioapic_read_reg D base (IOAPIC_REDTBL_BASE + irq * 2) s;
          (high, s) = ioapic_read_reg D base (IOAPIC_REDTBL_BASE + irq * 2 + 1) s
      in (\<lparr>re_low = low, re_high = high\<rparr>, s))"

definition ioapic_write_redirection_entry :: "u32 \<Rightarrow> u8 \<Rightarrow> redir_entry \<Rightarrow> 'a machine_scheme \<Rightarrow> 'a machine_scheme" where
  "ioapic_write_redirection_entry base irq entry s =
     ioapic_write_reg base (IOAPIC_REDTBL_BASE + irq * 2 + 1) (re_high entry)
       (ioapic_write_reg base (IOAPIC_REDTBL_BASE + irq * 2) (re_low entry) s)"

text \<open>\<open>ioapic->redirection_table[irq] = entry\<close>\<close>

definition keep_entry :: "nat \<Rightarrow> u8 \<Rightarrow> redir_entry \<Rightarrow> 'a ioapics_scheme \<Rightarrow> 'a ioapics_scheme option" where
  "keep_entry i irq entry s =
     (if unat irq < 24 then Some (upd_ioapic i (redirection_table_update (\<lambda>t. t[unat irq := entry])) s) else None)"

section \<open>Detection\<close>

definition default_ioapic :: "'a ioapics_scheme \<Rightarrow> 'a ioapics_scheme" where
  "default_ioapic s =
     (let s = upd_ioapic 0 (\<lambda>c. c\<lparr>ic_base_address := 0xFEC00000, gsi_base := 0, ic_enabled := 1\<rparr>) s
      in s\<lparr>num_ioapics := 1\<rparr>)"

partial_function (option) madt_detect :: "u32 \<Rightarrow> u32 \<Rightarrow> u32 \<Rightarrow> 'a ioapics_scheme \<Rightarrow> 'a ioapics_scheme option" where
  "madt_detect madt madt_length offset s =
     (if offset < madt_length \<and> num_ioapics s < 8 then
        (let m = acpi_mem s;
             entry_type = m (madt + offset);
             entry_length = m (madt + offset + 1);
             s = (if entry_type = 1 then
                 (let s = upd_ioapic (unat (num_ioapics s)) (\<lambda>c. c\<lparr>ic_id := m (madt + offset + 2),
                        ic_base_address := load32 m (madt + offset + 4), gsi_base := load32 m (madt + offset + 8),
                        ic_enabled := 1\<rparr>) s
                  in s\<lparr>num_ioapics := num_ioapics s + 1\<rparr>)
               else s)
         in madt_detect madt madt_length (offset + ucast entry_length) s)
      else Some s)"

definition ioapic_detect_controllers :: "'a ioapics_scheme \<Rightarrow> 'a ioapics_scheme option" where
  "ioapic_detect_controllers s =
     (let madt = acpi_find_table ''APIC'' s
      in if madt = 0 then Some (default_ioapic s)
         else do {
           let s = s\<lparr>num_ioapics := 0\<rparr>;
           s \<leftarrow> madt_detect madt (load32 (acpi_mem s) (madt + 4)) 44 s;
           Some (if num_ioapics s = 0 then default_ioapic s else s) })"

fun mask_entries :: "nat \<Rightarrow> nat list \<Rightarrow> 'a ioapics_scheme \<Rightarrow> 'a ioapics_scheme option" where
  "mask_entries n [] s = Some s"
| "mask_entries n (i # is) s = do {
     let entry = \<lparr>re_low = IOAPIC_MASK OR IOAPIC_DELIVERY_FIXED OR (0x20 + of_nat i), re_high = 0\<rparr>;
     let s = ioapic_write_redirection_entry (ic_base_address (ioapics s ! n)) (of_nat i) entry s;
     s \<leftarrow> keep_entry n (of_nat i) entry s;
     mask_entries n is s }"

definition ioapic_initialize_controller :: "device \<Rightarrow> nat \<Rightarrow> 'a ioapics_scheme \<Rightarrow> 'a ioapics_scheme option" where
  "ioapic_initialize_controller D n s =
     (if ic_enabled (ioapics s ! n) = 0 then Some s
      else
        (let (version_reg, s) = ioapic_read_reg D (ic_base_address (ioapics s ! n)) IOAPIC_VER s;
             s = upd_ioapic n (\<lambda>c. c\<lparr>ic_version := ucast (version_reg AND 0xFF),
                 max_redirection_entries := ucast ((drop_bit 16 version_reg AND 0xFF) + 1)\<rparr>) s
         in mask_entries n [0..<unat (max_redirection_entries (ioapics s ! n))] s))"

fun initialize_all :: "device \<Rightarrow> nat list \<Rightarrow> 'a ioapics_scheme \<Rightarrow> 'a ioapics_scheme option" where
  "initialize_all D [] s = Some s"
| "initialize_all D (i # is) s = do { s \<leftarrow> ioapic_initialize_controller D i s; initialize_all D is s }"

definition ioapic_init_gsi :: "device \<Rightarrow> 'a ioapics_scheme \<Rightarrow> 'a ioapics_scheme option" where
  "ioapic_init_gsi D s = do {
     let s = s\<lparr>num_ioapics := 0, ioapic_initialized := 0\<rparr>;
     s \<leftarrow> ioapic_detect_controllers s;
     s \<leftarrow> initialize_all D [0..<unat (num_ioapics s)] s;
     Some (s\<lparr>ioapic_initialized := 1\<rparr>) }"

definition ioapic_is_initialized :: "'a ioapics_scheme \<Rightarrow> u8" where
  "ioapic_is_initialized s = ioapic_initialized s"
definition ioapic_get_num_controllers :: "'a ioapics_scheme \<Rightarrow> u8" where
  "ioapic_get_num_controllers s = num_ioapics s"
definition ioapic_get_controller_base :: "u8 \<Rightarrow> 'a ioapics_scheme \<Rightarrow> u32" where
  "ioapic_get_controller_base i s = (if i \<ge> num_ioapics s then 0 else ic_base_address (ioapics s ! unat i))"
definition ioapic_get_controller_id :: "u8 \<Rightarrow> 'a ioapics_scheme \<Rightarrow> u8" where
  "ioapic_get_controller_id i s = (if i \<ge> num_ioapics s then 0 else ic_id (ioapics s ! unat i))"
definition ioapic_get_max_redirection_entries :: "u8 \<Rightarrow> 'a ioapics_scheme \<Rightarrow> u8" where
  "ioapic_get_max_redirection_entries i s = (if i \<ge> num_ioapics s then 0 else max_redirection_entries (ioapics s ! unat i))"
definition ioapic_get_gsi_base :: "u8 \<Rightarrow> 'a ioapics_scheme \<Rightarrow> u32" where
  "ioapic_get_gsi_base i s = (if i \<ge> num_ioapics s then 0 else gsi_base (ioapics s ! unat i))"

section \<open>Lines\<close>

text \<open>The first controller whose range has the interrupt, with the line; \<open>None\<close> for the return value \<open>0xFF\<close>.\<close>

definition serves :: "u32 \<Rightarrow> io_controller \<Rightarrow> bool" where
  "serves gsi c \<longleftrightarrow> gsi \<ge> gsi_base c \<and> gsi \<le> gsi_base c + ucast (max_redirection_entries c) - 1"

definition ioapic_find_controller_for_gsi :: "u32 \<Rightarrow> 'a ioapics_scheme \<Rightarrow> (nat \<times> u8) option" where
  "ioapic_find_controller_for_gsi gsi s =
     (case find (\<lambda>i. serves gsi (ioapics s ! i)) [0..<unat (num_ioapics s)] of
        Some i \<Rightarrow> Some (i, ucast (gsi - gsi_base (ioapics s ! i)))
      | None \<Rightarrow> None)"

definition ioapic_set_irq_gsi :: "u32 \<Rightarrow> u8 \<Rightarrow> u8 \<Rightarrow> u8 \<Rightarrow> u8 \<Rightarrow> 'a ioapics_scheme \<Rightarrow> 'a ioapics_scheme option" where
  "ioapic_set_irq_gsi gsi vector dest_apic_id trigger_mode polarity s =
     (if ioapic_initialized s = 0 then Some s
      else case ioapic_find_controller_for_gsi gsi s of
        None \<Rightarrow> Some s
      | Some (i, irq_pin) \<Rightarrow>
          (let low = ucast vector OR IOAPIC_DELIVERY_FIXED OR IOAPIC_DEST_PHYSICAL;
               high = push_bit 24 (ucast dest_apic_id);
               low = low OR (if trigger_mode \<noteq> 0 then IOAPIC_TRIGGER_LEVEL else IOAPIC_TRIGGER_EDGE);
               low = low OR (if polarity \<noteq> 0 then IOAPIC_INTPOL_LOW else IOAPIC_INTPOL_HIGH);
               entry = \<lparr>re_low = low, re_high = high\<rparr>
           in keep_entry i irq_pin entry (ioapic_write_redirection_entry (ic_base_address (ioapics s ! i)) irq_pin entry s)))"

text \<open>The functions that read an entry, change its low word and write it back.\<close>

definition change_entry :: "device \<Rightarrow> (u32 \<Rightarrow> u32) \<Rightarrow> u32 \<Rightarrow> 'a ioapics_scheme \<Rightarrow> 'a ioapics_scheme option" where
  "change_entry D f gsi s =
     (if ioapic_initialized s = 0 then Some s
      else case ioapic_find_controller_for_gsi gsi s of
        None \<Rightarrow> Some s
      | Some (i, irq_pin) \<Rightarrow>
          (let base = ic_base_address (ioapics s ! i);
               (entry, s) = ioapic_read_redirection_entry D base irq_pin s;
               entry = entry\<lparr>re_low := f (re_low entry)\<rparr>
           in keep_entry i irq_pin entry (ioapic_write_redirection_entry base irq_pin entry s)))"

definition ioapic_mask_irq_gsi :: "device \<Rightarrow> u32 \<Rightarrow> 'a ioapics_scheme \<Rightarrow> 'a ioapics_scheme option" where
  "ioapic_mask_irq_gsi D gsi s = change_entry D (\<lambda>low. low OR IOAPIC_MASK) gsi s"

definition ioapic_unmask_irq_gsi :: "device \<Rightarrow> u32 \<Rightarrow> 'a ioapics_scheme \<Rightarrow> 'a ioapics_scheme option" where
  "ioapic_unmask_irq_gsi D gsi s = change_entry D (\<lambda>low. low AND NOT IOAPIC_MASK) gsi s"

definition ioapic_is_irq_masked :: "device \<Rightarrow> u32 \<Rightarrow> 'a ioapics_scheme \<Rightarrow> u8 \<times> 'a ioapics_scheme" where
  "ioapic_is_irq_masked D gsi s =
     (if ioapic_initialized s = 0 then (1, s)
      else case ioapic_find_controller_for_gsi gsi s of
        None \<Rightarrow> (1, s)
      | Some (i, irq_pin) \<Rightarrow>
          (let (entry, s) = ioapic_read_redirection_entry D (ic_base_address (ioapics s ! i)) irq_pin s
           in (c_bool (re_low entry AND IOAPIC_MASK \<noteq> 0), s)))"

definition ioapic_set_delivery_mode :: "device \<Rightarrow> u32 \<Rightarrow> u8 \<Rightarrow> 'a ioapics_scheme \<Rightarrow> 'a ioapics_scheme option" where
  "ioapic_set_delivery_mode D gsi delivery_mode s =
     change_entry D (\<lambda>low. (low AND NOT 0x700) OR push_bit 8 (ucast delivery_mode)) gsi s"

definition ioapic_set_destination_mode :: "device \<Rightarrow> u32 \<Rightarrow> u8 \<Rightarrow> 'a ioapics_scheme \<Rightarrow> 'a ioapics_scheme option" where
  "ioapic_set_destination_mode D gsi logical_mode s =
     change_entry D (\<lambda>low. if logical_mode \<noteq> 0 then low OR IOAPIC_DEST_LOGICAL else low AND NOT IOAPIC_DEST_LOGICAL) gsi s"

text \<open>The driver's copy of the entry of a line.\<close>

definition copied_entry :: "u32 \<Rightarrow> (redir_entry \<Rightarrow> u8) \<Rightarrow> 'a ioapics_scheme \<Rightarrow> u8 option" where
  "copied_entry gsi f s =
     (if ioapic_initialized s = 0 then Some 0
      else case ioapic_find_controller_for_gsi gsi s of
        None \<Rightarrow> Some 0
      | Some (i, irq_pin) \<Rightarrow> if unat irq_pin < 24 then Some (f (redirection_table (ioapics s ! i) ! unat irq_pin)) else None)"

definition ioapic_get_vector :: "u32 \<Rightarrow> 'a ioapics_scheme \<Rightarrow> u8 option" where
  "ioapic_get_vector gsi s = copied_entry gsi (\<lambda>e. ucast (re_low e AND 0xFF)) s"

definition ioapic_get_destination :: "u32 \<Rightarrow> 'a ioapics_scheme \<Rightarrow> u8 option" where
  "ioapic_get_destination gsi s = copied_entry gsi (\<lambda>e. ucast (drop_bit 24 (re_high e) AND 0xFF)) s"

text \<open>\<open>pic_mask_irq\<close>, which no file of the repository defines, is a parameter.\<close>

definition ioapic_disable_legacy_pic :: "(u8 \<Rightarrow> 's \<Rightarrow> 's) \<Rightarrow> 's \<Rightarrow> 's" where
  "ioapic_disable_legacy_pic pic_mask_irq s = fold (\<lambda>i. pic_mask_irq (of_nat i)) [0..<16] s"

definition legacy_irqs :: "(u32 \<times> u8) list" where
  "legacy_irqs = [(0, 0x20), (1, 0x21), (3, 0x23), (4, 0x24), (6, 0x26), (8, 0x28), (12, 0x2C), (13, 0x2D), (14, 0x2E), (15, 0x2F)]"

fun set_irqs :: "(u32 \<times> u8) list \<Rightarrow> 'a ioapics_scheme \<Rightarrow> 'a ioapics_scheme option" where
  "set_irqs [] s = Some s"
| "set_irqs ((gsi, vector) # ps) s = do { s \<leftarrow> ioapic_set_irq_gsi gsi vector 0 0 0 s; set_irqs ps s }"

definition ioapic_setup_legacy_irqs :: "'a ioapics_scheme \<Rightarrow> 'a ioapics_scheme option" where
  "ioapic_setup_legacy_irqs s = (if ioapic_initialized s = 0 then Some s else set_irqs legacy_irqs s)"

section \<open>Routing\<close>

text \<open>The registers of the controller at \<open>b\<close> after the accesses \<open>tr\<close>, as \<open>Apic\<close> describes the device.\<close>

definition regs_after :: "u32 \<Rightarrow> (u32 \<Rightarrow> u32) \<Rightarrow> trace \<Rightarrow> u32 \<Rightarrow> u32" where
  "regs_after b r0 tr = snd (fold (ioapic_step b) tr (0, r0))"

definition low_reg :: "u8 \<Rightarrow> u32" where "low_reg pin = ucast (IOAPIC_REDTBL_BASE + pin * 2)"
definition high_reg :: "u8 \<Rightarrow> u32" where "high_reg pin = ucast (IOAPIC_REDTBL_BASE + pin * 2 + 1)"

lemma low_not_high: "low_reg pin \<noteq> high_reg pin"
proof
  assume "low_reg pin = high_reg pin"
  then have "(ucast (low_reg pin) :: u8) = ucast (high_reg pin)" by simp
  then show False by (simp add: low_reg_def high_reg_def ucast_up_ucast_id is_up)
qed

lemma select_step:
  "ioapic_step b (Wr (Mem32 b) v) c = (ucast v, snd c)"
  "ioapic_step b (Wr (Mem32 (b + 0x10)) v) c = (fst c, (snd c)(fst c := ucast v))"
  "ioapic_step b (Rd p v) c = c"
  by (cases c, simp add: IOAPIC_REGSEL_def IOAPIC_IOWIN_def)+

lemma ucast_u8_u32_u64: "(ucast (ucast (reg :: u8) :: u64) :: u32) = ucast reg"
  by (rule bit_word_eqI) (auto simp: bit_simps)

lemma write_reg_regs:
  "regs_after b r0 (trace (ioapic_write_reg b reg v s)) = (regs_after b r0 (trace s))(ucast reg := v)"
  "only_trace s (ioapic_write_reg b reg v s)"
  by (simp_all add: ioapic_write_reg_def bus regs_after_def IOAPIC_REGWIN_def select_step ucast_u8_u32_u64 del: ioapic_step.simps)

lemma read_reg_regs:
  assumes "is_ioapic D b r0"
  shows "fst (ioapic_read_reg D b reg s) = regs_after b r0 (trace s) (ucast reg)"
    "regs_after b r0 (trace (snd (ioapic_read_reg D b reg s))) = regs_after b r0 (trace s)"
    "only_trace s (snd (ioapic_read_reg D b reg s))"
  using assms by (simp_all add: ioapic_read_reg_def bus regs_after_def is_ioapic_def ioapic_device_def
      IOAPIC_REGWIN_def IOAPIC_IOWIN_def split_beta select_step ucast_u8_u32_u64
      del: ioapic_step.simps)

lemma write_entry_regs:
  "regs_after b r0 (trace (ioapic_write_redirection_entry b pin e s)) =
     (regs_after b r0 (trace s))(low_reg pin := re_low e, high_reg pin := re_high e)"
  "only_trace s (ioapic_write_redirection_entry b pin e s)"
  using only_trace_trans [OF write_reg_regs(2) write_reg_regs(2)]
  by (simp_all add: ioapic_write_redirection_entry_def write_reg_regs(1) low_reg_def high_reg_def)

lemma read_entry_regs:
  assumes "is_ioapic D b r0"
  shows "fst (ioapic_read_redirection_entry D b pin s) =
      \<lparr>re_low = regs_after b r0 (trace s) (low_reg pin), re_high = regs_after b r0 (trace s) (high_reg pin)\<rparr>"
    "regs_after b r0 (trace (snd (ioapic_read_redirection_entry D b pin s))) = regs_after b r0 (trace s)"
    "only_trace s (snd (ioapic_read_redirection_entry D b pin s))"
  using only_trace_trans [OF read_reg_regs(3) [OF assms] read_reg_regs(3) [OF assms]]
  by (simp_all add: ioapic_read_redirection_entry_def read_reg_regs [OF assms] low_reg_def high_reg_def Let_def split_beta)

text \<open>The state after an entry has been written and copied.\<close>

definition stored :: "nat \<Rightarrow> u8 \<Rightarrow> redir_entry \<Rightarrow> trace \<Rightarrow> 'a ioapics_scheme \<Rightarrow> 'a ioapics_scheme" where
  "stored i pin e tr s = upd_ioapic i (redirection_table_update (\<lambda>t. t[unat pin := e])) (s\<lparr>trace := tr\<rparr>)"

lemma stored_frame:
  "ioapic_initialized (stored i pin e tr s) = ioapic_initialized s" "trace (stored i pin e tr s) = tr"
  "length (ioapics (stored i pin e tr s)) = length (ioapics s)"
  "i < length (ioapics s) \<Longrightarrow> ic_base_address (ioapics (stored i pin e tr s) ! i) = ic_base_address (ioapics s ! i)"
  "i < length (ioapics s) \<Longrightarrow>
     redirection_table (ioapics (stored i pin e tr s) ! i) = (redirection_table (ioapics s ! i))[unat pin := e]"
  by (simp_all add: stored_def upd_ioapic_def)

lemma find_stored: "ioapic_find_controller_for_gsi gsi (stored i pin e tr s) = ioapic_find_controller_for_gsi gsi s"
proof -
  have c: "serves gsi (ioapics (stored i pin e tr s) ! j) = serves gsi (ioapics s ! j)"
    "gsi_base (ioapics (stored i pin e tr s) ! j) = gsi_base (ioapics s ! j)" for j
    by (cases "i < length (ioapics s)"; cases "i = j"; simp add: stored_def upd_ioapic_def serves_def list_update_beyond)+
  have "num_ioapics (stored i pin e tr s) = num_ioapics s" by (simp add: stored_def upd_ioapic_def)
  then show ?thesis unfolding ioapic_find_controller_for_gsi_def c by simp
qed

lemma keep_stored: "unat pin < 24 \<Longrightarrow> only_trace s t \<Longrightarrow> keep_entry i pin e t = Some (stored i pin e (trace t) s)"
  by (auto simp: keep_entry_def stored_def only_trace_def)

lemma change_entry_stored:
  assumes "ioapic_initialized s \<noteq> 0" "ioapic_find_controller_for_gsi gsi s = Some (i, pin)" "unat pin < 24"
    "is_ioapic D b r0" "b = ic_base_address (ioapics s ! i)"
  defines "r \<equiv> regs_after b r0 (trace s)"
  shows "\<exists>tr. change_entry D f gsi s = Some (stored i pin \<lparr>re_low = f (r (low_reg pin)), re_high = r (high_reg pin)\<rparr> tr s) \<and>
    regs_after b r0 tr = r(low_reg pin := f (r (low_reg pin)))"
proof -
  obtain e u where u: "ioapic_read_redirection_entry D b pin s = (e, u)" by (cases "ioapic_read_redirection_entry D b pin s")
  have e: "e = \<lparr>re_low = r (low_reg pin), re_high = r (high_reg pin)\<rparr>" "regs_after b r0 (trace u) = r" "only_trace s u"
    using read_entry_regs [OF assms(4), where pin = pin and s = s] unfolding u r_def by simp_all
  let ?e = "e\<lparr>re_low := f (re_low e)\<rparr>" and ?w = "ioapic_write_redirection_entry b pin (e\<lparr>re_low := f (re_low e)\<rparr>) u"
  have "only_trace s ?w" using e(3) write_entry_regs(2) only_trace_trans by blast
  from keep_stored [OF assms(3) this] have "change_entry D f gsi s = Some (stored i pin ?e (trace ?w) s)"
    using assms(1,2) by (simp add: change_entry_def u assms(5) [symmetric] Let_def)
  moreover have "regs_after b r0 (trace ?w) = r(low_reg pin := f (r (low_reg pin)))"
    using low_not_high [of pin] by (simp add: write_entry_regs e fun_eq_iff)
  ultimately show ?thesis using e(1) by auto
qed

lemma is_masked_regs:
  assumes "ioapic_initialized s \<noteq> 0" "ioapic_find_controller_for_gsi gsi s = Some (i, pin)"
    "is_ioapic D b r0" "b = ic_base_address (ioapics s ! i)"
  shows "fst (ioapic_is_irq_masked D gsi s) = c_bool (regs_after b r0 (trace s) (low_reg pin) AND IOAPIC_MASK \<noteq> 0)"
  using assms(1,2) read_entry_regs(1) [OF assms(3), where pin = pin and s = s]
  by (simp add: ioapic_is_irq_masked_def assms(4) [symmetric] split_beta)

definition routed :: "u8 \<Rightarrow> u8 \<Rightarrow> u8 \<Rightarrow> u32" where
  "routed vector trigger_mode polarity = ucast vector OR (if trigger_mode \<noteq> 0 then IOAPIC_TRIGGER_LEVEL else 0) OR
     (if polarity \<noteq> 0 then IOAPIC_INTPOL_LOW else 0)"

lemma routed_bits:
  "routed v tm p AND IOAPIC_MASK = 0" "(routed v tm p OR IOAPIC_MASK) AND IOAPIC_MASK \<noteq> 0"
  "(routed v tm p OR IOAPIC_MASK) AND NOT IOAPIC_MASK = routed v tm p" "ucast (routed v tm p AND 0xFF) = v"
proof -
  have p: "IOAPIC_MASK = push_bit 16 1" "IOAPIC_TRIGGER_LEVEL = push_bit 15 1" "IOAPIC_INTPOL_LOW = push_bit 13 1"
    by (simp_all add: IOAPIC_MASK_def IOAPIC_TRIGGER_LEVEL_def IOAPIC_INTPOL_LOW_def)
  have m: "bit IOAPIC_MASK n \<longleftrightarrow> n = 16" "bit IOAPIC_TRIGGER_LEVEL n \<longleftrightarrow> n = 15" "bit IOAPIC_INTPOL_LOW n \<longleftrightarrow> n = 13" for n
    unfolding p by (auto simp only: bit_simps possible_bit_word) (simp_all)
  have b: "bit (routed v tm p) n \<longleftrightarrow> n < 8 \<and> bit v n \<or> tm \<noteq> 0 \<and> n = 15 \<or> p \<noteq> 0 \<and> n = 13" for n
    using bit_imp_le_length [of v n] by (auto simp: routed_def bit_or_iff bit_ucast_iff m)
  show "routed v tm p AND IOAPIC_MASK = 0" by (rule bit_word_eqI) (auto simp: bit_and_iff b m)
  show "(routed v tm p OR IOAPIC_MASK) AND NOT IOAPIC_MASK = routed v tm p"
    by (rule bit_word_eqI) (auto simp: bit_simps b m)
  have "bit ((routed v tm p OR IOAPIC_MASK) AND IOAPIC_MASK) 16" by (simp add: bit_simps m)
  then show "(routed v tm p OR IOAPIC_MASK) AND IOAPIC_MASK \<noteq> 0" by auto
  show "ucast (routed v tm p AND 0xFF) = v"
    by (rule bit_word_eqI) (auto simp: and_masks bit_ucast_iff bit_take_bit_iff b)
qed

lemma set_irq_stored:
  assumes "ioapic_initialized s \<noteq> 0" "ioapic_find_controller_for_gsi gsi s = Some (i, pin)" "unat pin < 24"
    "b = ic_base_address (ioapics s ! i)"
    and e_def: "e = \<lparr>re_low = routed vector trigger polarity, re_high = push_bit 24 (ucast dest)\<rparr>"
  shows "\<exists>tr. ioapic_set_irq_gsi gsi vector dest trigger polarity s = Some (stored i pin e tr s) \<and>
    regs_after b r0 tr = (regs_after b r0 (trace s))
      (low_reg pin := routed vector trigger polarity, high_reg pin := push_bit 24 (ucast dest))"
proof -
  let ?w = "ioapic_write_redirection_entry b pin e s"
  have "ioapic_set_irq_gsi gsi vector dest trigger polarity s = keep_entry i pin e ?w"
    using assms(1,2) by (simp add: ioapic_set_irq_gsi_def assms(4) [symmetric] Let_def e_def routed_def IOAPIC_DELIVERY_FIXED_def
        IOAPIC_DEST_PHYSICAL_def IOAPIC_TRIGGER_EDGE_def IOAPIC_INTPOL_HIGH_def or.assoc)
  also have "\<dots> = Some (stored i pin e (trace ?w) s)" by (rule keep_stored [OF assms(3) write_entry_regs(2)])
  finally show ?thesis by (auto simp: write_entry_regs e_def)
qed

text \<open>C31: Routing a line that the lookup of the controller finds, at a pin below 24, writes exactly the two words of its entry, and masking and
  unmasking it toggle just the mask bit. The masked state is reported as it is, and the vector and the destination are the
  ones that were set.\<close>

theorem ioapic_gsi_roundtrip:
  assumes "ioapic_initialized s \<noteq> 0" "ioapic_find_controller_for_gsi gsi s = Some (i, pin)" "unat pin < 24"
    "i < length (ioapics s)" "length (redirection_table (ioapics s ! i)) = 24" "b = ic_base_address (ioapics s ! i)"
    "is_ioapic D b r0"
  shows "\<exists>t u w. ioapic_set_irq_gsi gsi vector dest trigger polarity s = Some t \<and> ioapic_mask_irq_gsi D gsi t = Some u \<and>
    ioapic_unmask_irq_gsi D gsi u = Some w \<and>
    regs_after b r0 (trace t) = (regs_after b r0 (trace s))
      (low_reg pin := routed vector trigger polarity, high_reg pin := push_bit 24 (ucast dest)) \<and>
    regs_after b r0 (trace u) = (regs_after b r0 (trace t))(low_reg pin := routed vector trigger polarity OR IOAPIC_MASK) \<and>
    regs_after b r0 (trace w) = regs_after b r0 (trace t) \<and>
    map (\<lambda>s. fst (ioapic_is_irq_masked D gsi s)) [t, u, w] = [0, 1, 0] \<and>
    ioapic_get_vector gsi w = Some vector \<and> ioapic_get_destination gsi w = Some dest"
proof -
  let ?r = "routed vector trigger polarity" and ?h = "push_bit 24 (ucast dest) :: u32"
  let ?e = "\<lparr>re_low = ?r, re_high = ?h\<rparr>"
  obtain tr0 where tr0: "ioapic_set_irq_gsi gsi vector dest trigger polarity s = Some (stored i pin ?e tr0 s)"
    "regs_after b r0 tr0 = (regs_after b r0 (trace s))(low_reg pin := ?r, high_reg pin := ?h)"
    using set_irq_stored [OF assms(1-3,6) refl] by blast
  define t where "t = stored i pin ?e tr0 s"
  have t: "ioapic_set_irq_gsi gsi vector dest trigger polarity s = Some t" by (simp add: tr0(1) t_def)
  have rt: "regs_after b r0 (trace t) = (regs_after b r0 (trace s))(low_reg pin := ?r, high_reg pin := ?h)"
    by (simp add: t_def stored_frame tr0(2))
  have ft: "ioapic_initialized t \<noteq> 0" "ioapic_find_controller_for_gsi gsi t = Some (i, pin)" "b = ic_base_address (ioapics t ! i)"
    "i < length (ioapics t)"
    using assms(1,2,4,6) by (simp_all add: t_def stored_frame find_stored)
  note fs = stored_frame find_stored
  obtain tr where tr: "ioapic_mask_irq_gsi D gsi t = Some (stored i pin \<lparr>re_low = ?r OR IOAPIC_MASK, re_high = ?h\<rparr> tr t)"
    "regs_after b r0 tr = (regs_after b r0 (trace t))(low_reg pin := ?r OR IOAPIC_MASK)"
    using change_entry_stored [OF ft(1,2) assms(3,7) ft(3)] low_not_high [of pin] by (auto simp: ioapic_mask_irq_gsi_def rt)
  define u where "u = stored i pin \<lparr>re_low = ?r OR IOAPIC_MASK, re_high = ?h\<rparr> tr t"
  have fu: "ioapic_initialized u \<noteq> 0" "ioapic_find_controller_for_gsi gsi u = Some (i, pin)" "b = ic_base_address (ioapics u ! i)"
    "i < length (ioapics u)" "trace u = tr" using ft by (simp_all add: u_def fs)
  obtain tr' where tr': "ioapic_unmask_irq_gsi D gsi u = Some (stored i pin ?e tr' u)"
    "regs_after b r0 tr' = (regs_after b r0 (trace u))(low_reg pin := ?r)"
    using change_entry_stored [OF fu(1,2) assms(3,7) fu(3), where f = "\<lambda>low. low AND NOT IOAPIC_MASK"] low_not_high [of pin]
    by (auto simp: ioapic_unmask_irq_gsi_def rt tr(2) fu(5) routed_bits)
  define w where "w = stored i pin ?e tr' u"
  have fw: "ioapic_initialized w \<noteq> 0" "ioapic_find_controller_for_gsi gsi w = Some (i, pin)" "b = ic_base_address (ioapics w ! i)"
    "trace w = tr'" using fu by (simp_all add: w_def fs)
  have rw: "regs_after b r0 tr' = regs_after b r0 (trace t)"
    using low_not_high [of pin] by (simp add: tr'(2) fu(5) tr(2) rt fun_eq_iff)
  have "redirection_table (ioapics w ! i) ! unat pin = ?e"
    using assms(3-5) fu(4) ft(4) by (simp add: w_def fs) (simp add: u_def fs t_def)
  moreover have "ucast (drop_bit 24 ?h AND 0xFF) = dest"
    by (rule bit_word_eqI) (auto simp: and_masks bit_ucast_iff bit_take_bit_iff bit_drop_bit_eq bit_push_bit_iff)
  ultimately have "ioapic_get_vector gsi w = Some vector" "ioapic_get_destination gsi w = Some dest"
    using fw(1,2) assms(3) by (simp_all add: ioapic_get_vector_def ioapic_get_destination_def copied_entry_def routed_bits)
  moreover have "map (\<lambda>s. fst (ioapic_is_irq_masked D gsi s)) [t, u, w] = [0, 1, 0]"
    using is_masked_regs [OF ft(1,2) assms(7) ft(3)] is_masked_regs [OF fu(1,2) assms(7) fu(3)]
      is_masked_regs [OF fw(1,2) assms(7) fw(3)] low_not_high [of pin]
    by (simp add: fu(5) fw(4) rw tr(2) rt routed_bits c_bool_def) (simp add: IOAPIC_MASK_def)
  ultimately show ?thesis using t tr(1) tr'(1) rt tr(2) rw fu(5) fw(4) by (simp add: u_def [symmetric] w_def [symmetric])
qed

text \<open>Two controllers; the interrupt 26 is line 2 of the second.\<close>

definition ioapics0 :: ioapics where
  "ioapics0 = \<lparr>trace = [], acpi_mem = (\<lambda>_. 0), acpi_rsdp = 0, acpi_rsdt = 0, acpi_fadt = 0, acpi_madt = 0,
     local_apic_base = 0, acpi_cpu_count = 0, num_ioapics = 2,
     ioapics = map (\<lambda>(b, g). \<lparr>ic_base_address = b, ic_id = 0, ic_version = 0x11, max_redirection_entries = 24, ic_enabled = 1,
       gsi_base = g, redirection_table = replicate 24 \<lparr>re_low = 0x10000, re_high = 0\<rparr>\<rparr>) [(0xFEC00000, 0), (0xFEC01000, 24)],
     ioapic_initialized = 1\<rparr>"

lemma ioapic_gsi_roundtrip_witness:
  "\<exists>t u. ioapic_set_irq_gsi 26 0x50 3 1 1 ioapics0 = Some t \<and>
     ioapic_mask_irq_gsi (ioapic_device 0xFEC01000 (\<lambda>_. 0)) 26 t = Some u \<and>
     regs_after 0xFEC01000 (\<lambda>_. 0) (trace u) 0x14 = 0x1A050"
proof -
  let ?D = "ioapic_device 0xFEC01000 (\<lambda>_. 0)"
  have a: "ioapic_initialized ioapics0 \<noteq> 0" "ioapic_find_controller_for_gsi 26 ioapics0 = Some (1, 2)" "unat (2 :: u8) < 24"
    "1 < length (ioapics ioapics0)" "length (redirection_table (ioapics ioapics0 ! 1)) = 24"
    "0xFEC01000 = ic_base_address (ioapics ioapics0 ! 1)" by code_simp+
  have d: "is_ioapic ?D 0xFEC01000 (\<lambda>_. 0)" by (simp add: is_ioapic_def)
  have r: "low_reg 2 = 0x14" "routed 0x50 1 1 OR IOAPIC_MASK = 0x1A050" by code_simp+
  from ioapic_gsi_roundtrip [OF a d, where vector = "0x50" and dest = 3 and trigger = 1 and polarity = 1] r show ?thesis by auto
qed

end
