(* ===== verification/Msi_Routing.thy ===== *)
theory Msi_Routing
  imports Pci
begin

text \<open>
  \<open>src/drivers/interrupt_routing.c\<close>: routing of interrupts through the standard I/O APIC and through the message-signalled
  interrupts of PCI functions, with counters. It uses the configuration accesses of \<open>pci.c\<close>; \<open>timer_get_ticks\<close>, which no
  file defines, is the argument \<open>now\<close>. A walk over a list of capabilities that does not end, and a line beyond the 24
  entries kept, undefined in C, have no result: \<open>None\<close>. A pointer into the tables is the entry itself.
\<close>

definition IR_REGSEL :: u32 where "IR_REGSEL = 0x00"
definition IR_REGWIN :: u32 where "IR_REGWIN = 0x10"
definition IR_ID :: u8 where "IR_ID = 0x00"
definition IR_VER :: u8 where "IR_VER = 0x01"
definition IR_REDTBL_BASE :: u8 where "IR_REDTBL_BASE = 0x10"
definition MSI_CAP_ID :: u32 where "MSI_CAP_ID = 0x05"
definition MSIX_CAP_ID :: u32 where "MSIX_CAP_ID = 0x11"
definition MSI_CTRL_ENABLE :: u32 where "MSI_CTRL_ENABLE = push_bit 0 1"
definition DELIVERY_MODE_FIXED :: u8 where "DELIVERY_MODE_FIXED = 0x0"

record msi_entry =
  msi_address :: u64
  msi_data :: u32
  msi_vector :: u8
  msi_delivery_mode :: u8
  msi_destination :: u8
  msi_enabled :: u8

record msix_entry =
  msix_address :: u64
  msix_data :: u32
  msix_vector_control :: u32
  msix_masked :: u8

record ir_entry =
  ie_vector :: u32
  ie_delivery_mode :: u8
  ie_dest_mode :: u8
  ie_polarity :: u8
  ie_trigger_mode :: u8
  ie_mask :: u8
  ie_destination :: u8

record ir_ioapic =
  ir_base_address :: u32
  ir_id :: u8
  ir_version :: u8
  ir_max_entries :: u8
  ir_entries :: "ir_entry list"        \<comment> \<open>24\<close>
  ir_interrupt_count :: "u32 list"     \<comment> \<open>24\<close>

record irouting = machine +
  interrupt_routing_supported :: u8
  ioapic_supported :: u8
  msi_supported :: u8
  msix_supported :: u8
  ir_num_ioapics :: u8
  ir_ioapics :: "ir_ioapic list"       \<comment> \<open>8\<close>
  msi_entries :: "msi_entry list"      \<comment> \<open>256\<close>
  msix_entries :: "msix_entry list"    \<comment> \<open>2048\<close>
  num_msi_entries :: u32
  num_msix_entries :: u32
  total_interrupts_routed :: u32
  msi_interrupts :: u32
  msix_interrupts :: u32
  ioapic_interrupts :: u32
  last_interrupt_time :: u64

section \<open>Detection\<close>

definition ir_read_reg :: "device \<Rightarrow> u32 \<Rightarrow> u8 \<Rightarrow> 'a machine_scheme \<Rightarrow> u32 \<times> 'a machine_scheme" where
  "ir_read_reg D base reg s = read32 D (base + 4 * IR_REGWIN) (write32 (base + 4 * IR_REGSEL) (ucast reg) s)"

definition ir_write_reg :: "u32 \<Rightarrow> u8 \<Rightarrow> u32 \<Rightarrow> 'a machine_scheme \<Rightarrow> 'a machine_scheme" where
  "ir_write_reg base reg v s = write32 (base + 4 * IR_REGWIN) v (write32 (base + 4 * IR_REGSEL) (ucast reg) s)"

definition upd_ir :: "nat \<Rightarrow> (ir_ioapic \<Rightarrow> ir_ioapic) \<Rightarrow> 'a irouting_scheme \<Rightarrow> 'a irouting_scheme" where
  "upd_ir i f s = s\<lparr>ir_ioapics := (ir_ioapics s)[i := f (ir_ioapics s ! i)]\<rparr>"

definition decode_entry :: "u32 \<Rightarrow> u32 \<Rightarrow> ir_entry" where
  "decode_entry low high = \<lparr>ie_vector = low AND 0xFF, ie_delivery_mode = ucast (drop_bit 8 low AND 0x7),
     ie_dest_mode = ucast (drop_bit 11 low AND 0x1), ie_polarity = ucast (drop_bit 13 low AND 0x1),
     ie_trigger_mode = ucast (drop_bit 15 low AND 0x1), ie_mask = ucast (drop_bit 16 low AND 0x1),
     ie_destination = ucast (drop_bit 24 high AND 0xFF)\<rparr>"

definition ir_load_entry :: "device \<Rightarrow> u32 \<Rightarrow> nat \<Rightarrow> 'a irouting_scheme \<Rightarrow> 'a irouting_scheme" where
  "ir_load_entry D base i s =
     (let (low, s) = ir_read_reg D base (IR_REDTBL_BASE + of_nat i * 2) s;
          (high, s) = ir_read_reg D base (IR_REDTBL_BASE + of_nat i * 2 + 1) s
      in upd_ir 0 (\<lambda>c. c\<lparr>ir_entries := (ir_entries c)[i := decode_entry low high],
           ir_interrupt_count := (ir_interrupt_count c)[i := 0]\<rparr>) s)"

definition interrupt_routing_detect_ioapic :: "device \<Rightarrow> 'a irouting_scheme \<Rightarrow> 'a irouting_scheme" where
  "interrupt_routing_detect_ioapic D s =
     (let base = 0xFEC00000;
          (id_reg, s) = ir_read_reg D base IR_ID s
      in if id_reg \<noteq> 0xFFFFFFFF then
           (let s = s\<lparr>ioapic_supported := 1, ir_num_ioapics := 1\<rparr>;
                s = upd_ir 0 (\<lambda>c. c\<lparr>ir_base_address := base, ir_id := ucast (drop_bit 24 id_reg AND 0xF)\<rparr>) s;
                (ver_reg, s) = ir_read_reg D base IR_VER s;
                s = upd_ir 0 (\<lambda>c. c\<lparr>ir_version := ucast (ver_reg AND 0xFF),
                    ir_max_entries := ucast ((drop_bit 16 ver_reg AND 0xFF) + 1)\<rparr>) s
            in fold (ir_load_entry D base) [0..<min (unat (ir_max_entries (ir_ioapics s ! 0))) 24] s)
         else s)"

partial_function (option) detect_caps :: "device \<Rightarrow> u8 \<Rightarrow> u8 \<Rightarrow> u8 \<Rightarrow> u32 \<Rightarrow> 'a irouting_scheme \<Rightarrow> 'a irouting_scheme option" where
  "detect_caps D bus dev func cap_ptr s =
     (if cap_ptr \<noteq> 0 then
        (let (cap_header, s) = pci_config_read D bus dev func (ucast cap_ptr) s;
             cap_id = cap_header AND 0xFF
         in if cap_id = MSI_CAP_ID then Some (s\<lparr>msi_supported := 1\<rparr>)
            else if cap_id = MSIX_CAP_ID then Some (s\<lparr>msix_supported := 1\<rparr>)
            else detect_caps D bus dev func (drop_bit 8 cap_header AND 0xFF) s)
      else Some s)"

definition detect_function :: "device \<Rightarrow> u8 \<Rightarrow> u8 \<Rightarrow> u8 \<Rightarrow> 'a irouting_scheme \<Rightarrow> 'a irouting_scheme option" where
  "detect_function D bus dev func s =
     (let (vendor_device, s) = pci_config_read D bus dev func 0 s
      in if vendor_device = 0xFFFFFFFF then Some s
         else (let (v, s) = pci_config_read D bus dev func 0x34 s in detect_caps D bus dev func (v AND 0xFF) s))"

text \<open>Eight buses of 32 devices of 8 functions.\<close>

definition ir_functions :: "(u8 \<times> u8 \<times> u8) list" where
  "ir_functions = [(of_nat b, of_nat d, of_nat f). b \<leftarrow> [0..<8], d \<leftarrow> [0..<32], f \<leftarrow> [0..<8]]"

fun detect_functions :: "device \<Rightarrow> (u8 \<times> u8 \<times> u8) list \<Rightarrow> 'a irouting_scheme \<Rightarrow> 'a irouting_scheme option" where
  "detect_functions D [] s = Some s"
| "detect_functions D ((bus, dev, func) # fs) s = do { s \<leftarrow> detect_function D bus dev func s; detect_functions D fs s }"

definition interrupt_routing_detect_msi :: "device \<Rightarrow> 'a irouting_scheme \<Rightarrow> 'a irouting_scheme option" where
  "interrupt_routing_detect_msi D s = detect_functions D ir_functions s"

definition empty_entry :: ir_entry where
  "empty_entry = \<lparr>ie_vector = 0, ie_delivery_mode = 0, ie_dest_mode = 0, ie_polarity = 0, ie_trigger_mode = 0, ie_mask = 1,
     ie_destination = 0\<rparr>"

definition empty_msi :: msi_entry where
  "empty_msi = \<lparr>msi_address = 0, msi_data = 0, msi_vector = 0, msi_delivery_mode = 0, msi_destination = 0, msi_enabled = 0\<rparr>"

definition empty_msix :: msix_entry where
  "empty_msix = \<lparr>msix_address = 0, msix_data = 0, msix_vector_control = 0, msix_masked = 1\<rparr>"

definition empty_ioapic :: ir_ioapic where
  "empty_ioapic = \<lparr>ir_base_address = 0, ir_id = 0, ir_version = 0, ir_max_entries = 0,
     ir_entries = replicate 24 empty_entry, ir_interrupt_count = replicate 24 0\<rparr>"

definition interrupt_routing_init :: "device \<Rightarrow> 'a irouting_scheme \<Rightarrow> 'a irouting_scheme option" where
  "interrupt_routing_init D s = do {
     let s = s\<lparr>interrupt_routing_supported := 0, ioapic_supported := 0, msi_supported := 0, msix_supported := 0,
       ir_num_ioapics := 0, num_msi_entries := 0, num_msix_entries := 0, total_interrupts_routed := 0, msi_interrupts := 0,
       msix_interrupts := 0, ioapic_interrupts := 0, last_interrupt_time := 0,
       ir_ioapics := replicate 8 empty_ioapic, msi_entries := replicate 256 empty_msi, msix_entries := replicate 2048 empty_msix\<rparr>;
     let s = interrupt_routing_detect_ioapic D s;
     s \<leftarrow> interrupt_routing_detect_msi D s;
     Some (if ioapic_supported s \<noteq> 0 \<or> msi_supported s \<noteq> 0 \<or> msix_supported s \<noteq> 0
       then s\<lparr>interrupt_routing_supported := 1\<rparr> else s) }"

section \<open>The I/O APIC\<close>

definition interrupt_routing_setup_ioapic_entry ::
  "u8 \<Rightarrow> u8 \<Rightarrow> u8 \<Rightarrow> u8 \<Rightarrow> u8 \<Rightarrow> u8 \<Rightarrow> u8 \<Rightarrow> u8 \<Rightarrow> 'a irouting_scheme \<Rightarrow> (u8 \<times> 'a irouting_scheme) option" where
  "interrupt_routing_setup_ioapic_entry i pin vector delivery_mode dest_mode polarity trigger_mode destination s =
     (if i \<ge> ir_num_ioapics s then Some (0, s)
      else if pin \<ge> ir_max_entries (ir_ioapics s ! unat i) then Some (0, s)
      else
        (let low = ucast vector OR push_bit 8 (ucast delivery_mode) OR push_bit 11 (ucast dest_mode) OR
               push_bit 13 (ucast polarity) OR push_bit 15 (ucast trigger_mode);
             high = push_bit 24 (ucast destination);
             base = ir_base_address (ir_ioapics s ! unat i);
             s = ir_write_reg base (IR_REDTBL_BASE + pin * 2) low s;
             s = ir_write_reg base (IR_REDTBL_BASE + pin * 2 + 1) high s
         in if unat pin \<ge> 24 then None
            else
              (let e = \<lparr>ie_vector = ucast vector, ie_delivery_mode = delivery_mode, ie_dest_mode = dest_mode, ie_polarity = polarity,
                     ie_trigger_mode = trigger_mode, ie_mask = 0, ie_destination = destination\<rparr>;
                   s = upd_ir (unat i) (ir_entries_update (\<lambda>es. es[unat pin := e])) s
               in Some (1, s\<lparr>total_interrupts_routed := total_interrupts_routed s + 1\<rparr>))))"

text \<open>Masking and unmasking differ in the bit operation and the mask kept.\<close>

definition mask_entry :: "(u32 \<Rightarrow> u32) \<Rightarrow> u8 \<Rightarrow> device \<Rightarrow> u8 \<Rightarrow> u8 \<Rightarrow> 'a irouting_scheme \<Rightarrow> (u8 \<times> 'a irouting_scheme) option" where
  "mask_entry f v D i pin s =
     (if i \<ge> ir_num_ioapics s then Some (0, s)
      else if pin \<ge> ir_max_entries (ir_ioapics s ! unat i) then Some (0, s)
      else
        (let base = ir_base_address (ir_ioapics s ! unat i);
             (low, s) = ir_read_reg D base (IR_REDTBL_BASE + pin * 2) s;
             s = ir_write_reg base (IR_REDTBL_BASE + pin * 2) (f low) s
         in if unat pin \<ge> 24 then None
            else Some (1, upd_ir (unat i) (ir_entries_update (\<lambda>es. es[unat pin := (es ! unat pin)\<lparr>ie_mask := v\<rparr>])) s)))"

definition interrupt_routing_mask_ioapic_entry :: "device \<Rightarrow> u8 \<Rightarrow> u8 \<Rightarrow> 'a irouting_scheme \<Rightarrow> (u8 \<times> 'a irouting_scheme) option" where
  "interrupt_routing_mask_ioapic_entry D i pin s = mask_entry (\<lambda>low. low OR push_bit 16 1) 1 D i pin s"

definition interrupt_routing_unmask_ioapic_entry :: "device \<Rightarrow> u8 \<Rightarrow> u8 \<Rightarrow> 'a irouting_scheme \<Rightarrow> (u8 \<times> 'a irouting_scheme) option" where
  "interrupt_routing_unmask_ioapic_entry D i pin s = mask_entry (\<lambda>low. low AND NOT (push_bit 16 1)) 0 D i pin s"

section \<open>Message-signalled interrupts\<close>

text \<open>The walk to the capability; 0 if the function has none.\<close>

partial_function (option) find_msi_cap ::
  "device \<Rightarrow> u8 \<Rightarrow> u8 \<Rightarrow> u8 \<Rightarrow> u32 \<Rightarrow> 'a irouting_scheme \<Rightarrow> (u32 \<times> 'a irouting_scheme) option" where
  "find_msi_cap D bus dev func cap_ptr s =
     (if cap_ptr \<noteq> 0 then
        (let (cap_header, s) = pci_config_read D bus dev func (ucast cap_ptr) s
         in if cap_header AND 0xFF = MSI_CAP_ID then Some (cap_ptr, s)
            else find_msi_cap D bus dev func (drop_bit 8 cap_header AND 0xFF) s)
      else Some (0, s))"

text \<open>The address is an unsigned 32-bit value before it becomes an \<open>u64\<close>.\<close>

definition message_address :: "u8 \<Rightarrow> u64" where
  "message_address destination = ucast (0xFEE00000 OR push_bit 12 (ucast destination) :: u32)"

definition interrupt_routing_setup_msi ::
  "device \<Rightarrow> u8 \<Rightarrow> u8 \<Rightarrow> u8 \<Rightarrow> u8 \<Rightarrow> u8 \<Rightarrow> 'a irouting_scheme \<Rightarrow> (u8 \<times> 'a irouting_scheme) option" where
  "interrupt_routing_setup_msi D bus dev func vector destination s =
     (if msi_supported s = 0 then Some (0, s)
      else if num_msi_entries s \<ge> 256 then Some (0, s)
      else do {
        let (v, s) = pci_config_read D bus dev func 0x34 s;
        (cap_ptr, s) \<leftarrow> find_msi_cap D bus dev func (v AND 0xFF) s;
        if cap_ptr = 0 then Some (0, s) else do {
          let address = message_address destination;
          let dat = ucast vector OR push_bit 8 (ucast DELIVERY_MODE_FIXED);
          let s = pci_config_write bus dev func (ucast (cap_ptr + 4)) (ucast address) s;
          let s = pci_config_write bus dev func (ucast (cap_ptr + 8)) dat s;
          let (control, s) = pci_config_read D bus dev func (ucast (cap_ptr + 2)) s;
          let s = pci_config_write bus dev func (ucast (cap_ptr + 2)) (control OR MSI_CTRL_ENABLE) s;
          let entry = \<lparr>msi_address = address, msi_data = dat, msi_vector = vector, msi_delivery_mode = DELIVERY_MODE_FIXED,
            msi_destination = destination, msi_enabled = 1\<rparr>;
          let s = s\<lparr>msi_entries := (msi_entries s)[unat (num_msi_entries s) := entry]\<rparr>;
          let s = s\<lparr>num_msi_entries := num_msi_entries s + 1\<rparr>;
          Some (1, s\<lparr>total_interrupts_routed := total_interrupts_routed s + 1\<rparr>) } })"

section \<open>Counting\<close>

text \<open>The first unmasked entry with the vector, in scanning order.\<close>

definition ir_pins :: "'a irouting_scheme \<Rightarrow> (nat \<times> nat) list" where
  "ir_pins s = [(i, j). i \<leftarrow> [0..<unat (ir_num_ioapics s)], j \<leftarrow> [0..<min (unat (ir_max_entries (ir_ioapics s ! i))) 24]]"

definition interrupt_routing_handle_interrupt :: "u64 \<Rightarrow> u8 \<Rightarrow> 'a irouting_scheme \<Rightarrow> 'a irouting_scheme" where
  "interrupt_routing_handle_interrupt now vector s =
     (let s = s\<lparr>last_interrupt_time := now\<rparr>
      in case find (\<lambda>(i, j). let e = ir_entries (ir_ioapics s ! i) ! j in ie_vector e = ucast vector \<and> ie_mask e = 0) (ir_pins s) of
           Some (i, j) \<Rightarrow>
             (let s = upd_ir i (ir_interrupt_count_update (\<lambda>c. c[j := c ! j + 1])) s
              in s\<lparr>ioapic_interrupts := ioapic_interrupts s + 1\<rparr>)
         | None \<Rightarrow>
             if \<exists>i \<in> set [0..<unat (num_msi_entries s)]. msi_vector (msi_entries s ! i) = vector \<and> msi_enabled (msi_entries s ! i) \<noteq> 0
             then s\<lparr>msi_interrupts := msi_interrupts s + 1\<rparr>
             else if \<exists>i \<in> set [0..<unat (num_msix_entries s)].
               msix_data (msix_entries s ! i) AND 0xFF = ucast vector \<and> msix_masked (msix_entries s ! i) = 0
             then s\<lparr>msix_interrupts := msix_interrupts s + 1\<rparr>
             else s)"

definition interrupt_routing_is_supported :: "'a irouting_scheme \<Rightarrow> u8" where
  "interrupt_routing_is_supported s = interrupt_routing_supported s"
definition interrupt_routing_is_ioapic_supported :: "'a irouting_scheme \<Rightarrow> u8" where
  "interrupt_routing_is_ioapic_supported s = ioapic_supported s"
definition interrupt_routing_is_msi_supported :: "'a irouting_scheme \<Rightarrow> u8" where
  "interrupt_routing_is_msi_supported s = msi_supported s"
definition interrupt_routing_is_msix_supported :: "'a irouting_scheme \<Rightarrow> u8" where
  "interrupt_routing_is_msix_supported s = msix_supported s"
definition interrupt_routing_get_num_ioapics :: "'a irouting_scheme \<Rightarrow> u8" where
  "interrupt_routing_get_num_ioapics s = ir_num_ioapics s"
definition interrupt_routing_get_ioapic_info :: "u8 \<Rightarrow> 'a irouting_scheme \<Rightarrow> ir_ioapic option" where
  "interrupt_routing_get_ioapic_info i s = (if i \<ge> ir_num_ioapics s then None else Some (ir_ioapics s ! unat i))"
definition interrupt_routing_get_total_interrupts_routed :: "'a irouting_scheme \<Rightarrow> u32" where
  "interrupt_routing_get_total_interrupts_routed s = total_interrupts_routed s"
definition interrupt_routing_get_msi_interrupts :: "'a irouting_scheme \<Rightarrow> u32" where
  "interrupt_routing_get_msi_interrupts s = msi_interrupts s"
definition interrupt_routing_get_msix_interrupts :: "'a irouting_scheme \<Rightarrow> u32" where
  "interrupt_routing_get_msix_interrupts s = msix_interrupts s"
definition interrupt_routing_get_ioapic_interrupts :: "'a irouting_scheme \<Rightarrow> u32" where
  "interrupt_routing_get_ioapic_interrupts s = ioapic_interrupts s"
definition interrupt_routing_get_last_interrupt_time :: "'a irouting_scheme \<Rightarrow> u64" where
  "interrupt_routing_get_last_interrupt_time s = last_interrupt_time s"
definition interrupt_routing_get_num_msi_entries :: "'a irouting_scheme \<Rightarrow> u32" where
  "interrupt_routing_get_num_msi_entries s = num_msi_entries s"
definition interrupt_routing_get_num_msix_entries :: "'a irouting_scheme \<Rightarrow> u32" where
  "interrupt_routing_get_num_msix_entries s = num_msix_entries s"
definition interrupt_routing_get_msi_entry :: "u32 \<Rightarrow> 'a irouting_scheme \<Rightarrow> msi_entry option" where
  "interrupt_routing_get_msi_entry i s = (if i \<ge> num_msi_entries s then None else Some (msi_entries s ! unat i))"
definition interrupt_routing_get_msix_entry :: "u32 \<Rightarrow> 'a irouting_scheme \<Rightarrow> msix_entry option" where
  "interrupt_routing_get_msix_entry i s = (if i \<ge> num_msix_entries s then None else Some (msix_entries s ! unat i))"

definition interrupt_routing_clear_statistics :: "'a irouting_scheme \<Rightarrow> 'a irouting_scheme" where
  "interrupt_routing_clear_statistics s =
     (let s = s\<lparr>total_interrupts_routed := 0, msi_interrupts := 0, msix_interrupts := 0, ioapic_interrupts := 0\<rparr>
      in fold (\<lambda>i. upd_ir i (ir_interrupt_count_update (\<lambda>c. fold (\<lambda>j c. c[j := 0]) [0..<24] c))) [0..<unat (ir_num_ioapics s)] s)"

definition interrupt_routing_get_delivery_mode_name :: "u8 \<Rightarrow> string" where
  "interrupt_routing_get_delivery_mode_name m =
     (if m = 0x0 then ''Fixed'' else if m = 0x1 then ''Lowest Priority'' else if m = 0x2 then ''SMI''
      else if m = 0x4 then ''NMI'' else if m = 0x5 then ''INIT'' else if m = 0x7 then ''ExtINT'' else ''Unknown'')"

section \<open>Enabling a message\<close>

lemma config_write_only: "pci_config_write b d f off v s = s\<lparr>trace := trace s @
    [Wr (Port32 PCI_CONFIG_ADDR) (ucast (pci_address b d f off)), Wr (Port32 PCI_CONFIG_DATA) (ucast v)]\<rparr>"
  by (simp add: pci_config_write_def bus)

lemma config_read_only: "\<exists>v. pci_config_read D b d f off s = (drop_bit (unat (off AND 3) * 8) v, s\<lparr>trace := trace s @
    [Wr (Port32 PCI_CONFIG_ADDR) (ucast (pci_address b d f off)), Rd (Port32 PCI_CONFIG_DATA) (ucast v)]\<rparr>)"
  by (rule exI [of _ "ucast (D (trace s @ [Wr (Port32 PCI_CONFIG_ADDR) (ucast (pci_address b d f off))]) (Port32 PCI_CONFIG_DATA))"])
    (simp add: pci_config_read_def bus)

lemma find_msi_cap_only:
  assumes "find_msi_cap D b d f cap s = Some (r, t)"
  shows "\<exists>tr. t = s\<lparr>trace := tr\<rparr>"
proof -
  have "only_trace s (snd (r, t))"
  proof (rule find_msi_cap.raw_induct [where P = "\<lambda>D b d f cap s y. only_trace s (snd y)", OF _ assms])
    fix g D b d f cap s y
    assume IH: "\<And>D b d f cap s y. g D b d f cap s = Some y \<Longrightarrow> only_trace s (snd y)"
      and eq: "(if cap \<noteq> 0 then (let (cap_header, s) = pci_config_read D b d f (ucast cap) s
           in if cap_header AND 0xFF = MSI_CAP_ID then Some (cap, s) else g D b d f (drop_bit 8 cap_header AND 0xFF) s)
         else Some (0, s)) = Some y"
    obtain v tr where v: "pci_config_read D b d f (ucast cap) s = (v, s\<lparr>trace := tr\<rparr>)" using config_read_only by blast
    consider "cap = 0" | "cap \<noteq> 0" "v AND 0xFF = MSI_CAP_ID" | "cap \<noteq> 0" "v AND 0xFF \<noteq> MSI_CAP_ID" by blast
    then show "only_trace s (snd y)"
    proof cases
      case 3
      then have "g D b d f (drop_bit 8 v AND 0xFF) (s\<lparr>trace := tr\<rparr>) = Some y" using eq by (simp add: v)
      from IH [OF this] show ?thesis using only_trace_upd only_trace_trans by blast
    qed (use eq v in auto)
  qed
  then show ?thesis by (simp add: only_trace_def)
qed

lemma aligned_plus_2:
  fixes cap :: u32
  assumes "cap AND 3 = 0"
  shows "ucast (cap + 2) AND 3 = (2 :: u8)" "ucast (cap + 2) AND 0xFC = (ucast cap AND 0xFC :: u8)"
proof -
  have b: "\<not> bit cap 0" "\<not> bit cap 1"
  proof -
    have "bit (cap AND 3) 0 = bit cap 0" "bit (cap AND 3) 1 = bit cap 1"
      by (simp_all add: bit_and_iff)
    then show "\<not> bit cap 0" "\<not> bit cap 1" by (simp_all add: assms)
  qed
  have two: "bit (2 :: u32) n \<longleftrightarrow> n = 1" "bit (2 :: u8) n \<longleftrightarrow> n = 1" for n
    using bit_exp_iff [of 1 n, where ?'a = u32] bit_exp_iff [of 1 n, where ?'a = u8] by auto
  have "cap AND 2 = 0"
    by (rule bit_word_eqI) (simp only: bit_and_iff two, insert b, auto)
  then have or2: "cap + 2 = cap OR 2" by (rule disjunctive_add_eq_or)
  have three: "bit (3 :: u8) n \<longleftrightarrow> n < 2" for n
    using bit_mask_iff [of 2 n, where ?'a = u8] by (auto simp: mask_eq_exp_minus_1)
  have fc: "bit (0xFC :: u8) n \<longleftrightarrow> 2 \<le> n \<and> n < 8" for n
  proof -
    have "(0xFC :: u8) = NOT 3" by simp
    then show ?thesis by (simp only: bit_not_iff three) auto
  qed
  show "ucast (cap + 2) AND 3 = (2 :: u8)" "ucast (cap + 2) AND 0xFC = (ucast cap AND 0xFC :: u8)"
    unfolding or2
    by (rule bit_word_eqI, simp only: bit_and_iff bit_or_iff bit_unsigned_iff two three fc, insert b, auto simp: less_2_cases_iff)+
qed

text \<open>For a function with an aligned capability \<open>interrupt_routing_setup_msi\<close> reports success and records the
  interrupt as enabled. But its last write leaves the interrupt disabled: it goes to the first word of the capability, whose
  upper half is the message control register, and carries that register's old contents, with bit 0 set, in the lower half
  and zeros in the upper.\<close>

lemma msi_setup_disables:
  assumes "msi_supported s \<noteq> 0" "num_msi_entries s < 256" "length (msi_entries s) = 256"
    "pci_config_read D b d f 0x34 s = (p, s1)" "find_msi_cap D b d f (p AND 0xFF) s1 = Some (cap, s2)" "cap \<noteq> 0" "cap AND 3 = 0"
  shows "\<exists>t tr v. interrupt_routing_setup_msi D b d f vector dest s = Some (1, t) \<and>
    num_msi_entries t = num_msi_entries s + 1 \<and> msi_enabled (msi_entries t ! unat (num_msi_entries s)) = 1 \<and>
    (let a = ucast (pci_address b d f (ucast cap)) in trace t = tr @
      [Wr (Port32 PCI_CONFIG_ADDR) a, Rd (Port32 PCI_CONFIG_DATA) (ucast v), Wr (Port32 PCI_CONFIG_ADDR) a,
       Wr (Port32 PCI_CONFIG_DATA) (ucast (drop_bit 16 v OR 1))]) \<and> (drop_bit 16 v OR 1) AND 0xFFFF0000 = (0 :: u32)"
proof -
  obtain tr1 where s1: "s1 = s\<lparr>trace := tr1\<rparr>" using config_read_only [of D b d f "0x34" s] assms(4) by auto
  obtain tr2 where "s2 = s1\<lparr>trace := tr2\<rparr>" using find_msi_cap_only [OF assms(5)] by blast
  then have s2: "s2 = s\<lparr>trace := tr2\<rparr>" by (simp add: s1)
  note al = aligned_plus_2 [OF assms(7)]
  have a: "pci_address b d f (ucast (cap + 2)) = pci_address b d f (ucast cap)" by (simp add: pci_address_def al)
  let ?w = "pci_config_write b d f (ucast (cap + 8)) (ucast vector OR push_bit 8 (ucast DELIVERY_MODE_FIXED))
    (pci_config_write b d f (ucast (cap + 4)) (ucast (message_address dest)) s2)"
  obtain v where v: "pci_config_read D b d f (ucast (cap + 2)) ?w = (drop_bit 16 v, ?w\<lparr>trace := trace ?w @
      [Wr (Port32 PCI_CONFIG_ADDR) (ucast (pci_address b d f (ucast cap))), Rd (Port32 PCI_CONFIG_DATA) (ucast v)]\<rparr>)"
    using config_read_only [of D b d f "ucast (cap + 2)" ?w] by (auto simp: al a)
  define t0 where "t0 = pci_config_write b d f (ucast (cap + 2)) (drop_bit 16 v OR MSI_CTRL_ENABLE)
    (?w\<lparr>trace := trace ?w @ [Wr (Port32 PCI_CONFIG_ADDR) (ucast (pci_address b d f (ucast cap))), Rd (Port32 PCI_CONFIG_DATA) (ucast v)]\<rparr>)"
  have t0: "\<exists>tr. t0 = s\<lparr>trace := tr @ [Wr (Port32 PCI_CONFIG_ADDR) (ucast (pci_address b d f (ucast cap))),
      Rd (Port32 PCI_CONFIG_DATA) (ucast v), Wr (Port32 PCI_CONFIG_ADDR) (ucast (pci_address b d f (ucast cap))),
      Wr (Port32 PCI_CONFIG_DATA) (ucast (drop_bit 16 v OR 1))]\<rparr>"
    by (rule exI [of _ "trace ?w"]) (simp add: t0_def config_write_only s2 a MSI_CTRL_ENABLE_def)
  have "\<exists>t. interrupt_routing_setup_msi D b d f vector dest s = Some (1, t) \<and> trace t = trace t0 \<and>
      num_msi_entries t = num_msi_entries s + 1 \<and> msi_enabled (msi_entries t ! unat (num_msi_entries s)) = 1"
    using assms(1-3) t0
    by (auto simp: interrupt_routing_setup_msi_def assms(4-6) v t0_def [symmetric] Let_def not_le word_less_nat_alt)
  moreover have "(drop_bit 16 v OR 1) AND 0xFFFF0000 = (0 :: u32)"
  proof -
    have "(drop_bit 16 v OR 1) AND NOT (mask 16) = (0 :: u32)"
      by (rule bit_word_eqI) (auto simp: bit_simps bit_1_iff dest: bit_imp_le_length)
    moreover have "(NOT (mask 16) :: u32) = 0xFFFF0000" by (simp add: mask_eq_exp_minus_1)
    ultimately show ?thesis by simp
  qed
  ultimately show ?thesis using t0 by (auto simp: Let_def)
qed

text \<open>A function whose only capability is at \<open>0x50\<close>, with the message control register \<open>0x80\<close>.\<close>

definition msi_bus :: device where
  "msi_bus t p = (if last t = Wr (Port32 PCI_CONFIG_ADDR) (ucast (pci_address 0 3 0 0x34)) then 0x50 else 0x00800005)"

definition irouting0 :: irouting where
  "irouting0 = \<lparr>trace = [], interrupt_routing_supported = 1, ioapic_supported = 0, msi_supported = 1, msix_supported = 0,
     ir_num_ioapics = 0, ir_ioapics = [], msi_entries = replicate 256 empty_msi, msix_entries = [], num_msi_entries = 0,
     num_msix_entries = 0, total_interrupts_routed = 0, msi_interrupts = 0, msix_interrupts = 0, ioapic_interrupts = 0,
     last_interrupt_time = 0\<rparr>"

end
