(* ===== verification/Aes_Ni.thy ===== *)
theory Aes_Ni
  imports Blood_Prelude
begin

text \<open>
  The AES part of \<open>src/drivers/hwcrypto.c\<close>: the three assembly routines that expand a key, encrypt and decrypt a block. A
  vector register is the list of its 16 bytes, lowest first. The AES instructions do what the processor manual says they
  do, in terms of the transformations of FIPS 197; what is modelled of the driver is the sequence in which it uses them.
\<close>

type_synonym xmm = "u8 list"

section \<open>The instructions\<close>

definition sbox :: "u8 list" where
  "sbox =
    [0x63, 0x7c, 0x77, 0x7b, 0xf2, 0x6b, 0x6f, 0xc5, 0x30, 1, 0x67, 0x2b, 0xfe, 0xd7, 0xab, 0x76,
     0xca, 0x82, 0xc9, 0x7d, 0xfa, 0x59, 0x47, 0xf0, 0xad, 0xd4, 0xa2, 0xaf, 0x9c, 0xa4, 0x72, 0xc0,
     0xb7, 0xfd, 0x93, 0x26, 0x36, 0x3f, 0xf7, 0xcc, 0x34, 0xa5, 0xe5, 0xf1, 0x71, 0xd8, 0x31, 0x15,
     4, 0xc7, 0x23, 0xc3, 0x18, 0x96, 5, 0x9a, 7, 0x12, 0x80, 0xe2, 0xeb, 0x27, 0xb2, 0x75,
     9, 0x83, 0x2c, 0x1a, 0x1b, 0x6e, 0x5a, 0xa0, 0x52, 0x3b, 0xd6, 0xb3, 0x29, 0xe3, 0x2f, 0x84,
     0x53, 0xd1, 0, 0xed, 0x20, 0xfc, 0xb1, 0x5b, 0x6a, 0xcb, 0xbe, 0x39, 0x4a, 0x4c, 0x58, 0xcf,
     0xd0, 0xef, 0xaa, 0xfb, 0x43, 0x4d, 0x33, 0x85, 0x45, 0xf9, 2, 0x7f, 0x50, 0x3c, 0x9f, 0xa8,
     0x51, 0xa3, 0x40, 0x8f, 0x92, 0x9d, 0x38, 0xf5, 0xbc, 0xb6, 0xda, 0x21, 0x10, 0xff, 0xf3, 0xd2,
     0xcd, 0x0c, 0x13, 0xec, 0x5f, 0x97, 0x44, 0x17, 0xc4, 0xa7, 0x7e, 0x3d, 0x64, 0x5d, 0x19, 0x73,
     0x60, 0x81, 0x4f, 0xdc, 0x22, 0x2a, 0x90, 0x88, 0x46, 0xee, 0xb8, 0x14, 0xde, 0x5e, 0x0b, 0xdb,
     0xe0, 0x32, 0x3a, 0x0a, 0x49, 6, 0x24, 0x5c, 0xc2, 0xd3, 0xac, 0x62, 0x91, 0x95, 0xe4, 0x79,
     0xe7, 0xc8, 0x37, 0x6d, 0x8d, 0xd5, 0x4e, 0xa9, 0x6c, 0x56, 0xf4, 0xea, 0x65, 0x7a, 0xae, 8,
     0xba, 0x78, 0x25, 0x2e, 0x1c, 0xa6, 0xb4, 0xc6, 0xe8, 0xdd, 0x74, 0x1f, 0x4b, 0xbd, 0x8b, 0x8a,
     0x70, 0x3e, 0xb5, 0x66, 0x48, 3, 0xf6, 0x0e, 0x61, 0x35, 0x57, 0xb9, 0x86, 0xc1, 0x1d, 0x9e,
     0xe1, 0xf8, 0x98, 0x11, 0x69, 0xd9, 0x8e, 0x94, 0x9b, 0x1e, 0x87, 0xe9, 0xce, 0x55, 0x28, 0xdf,
     0x8c, 0xa1, 0x89, 0x0d, 0xbf, 0xe6, 0x42, 0x68, 0x41, 0x99, 0x2d, 0x0f, 0xb0, 0x54, 0xbb, 0x16]"

definition inv_sbox :: "u8 list" where
  "inv_sbox =
    [0x52, 9, 0x6a, 0xd5, 0x30, 0x36, 0xa5, 0x38, 0xbf, 0x40, 0xa3, 0x9e, 0x81, 0xf3, 0xd7, 0xfb,
     0x7c, 0xe3, 0x39, 0x82, 0x9b, 0x2f, 0xff, 0x87, 0x34, 0x8e, 0x43, 0x44, 0xc4, 0xde, 0xe9, 0xcb,
     0x54, 0x7b, 0x94, 0x32, 0xa6, 0xc2, 0x23, 0x3d, 0xee, 0x4c, 0x95, 0x0b, 0x42, 0xfa, 0xc3, 0x4e,
     8, 0x2e, 0xa1, 0x66, 0x28, 0xd9, 0x24, 0xb2, 0x76, 0x5b, 0xa2, 0x49, 0x6d, 0x8b, 0xd1, 0x25,
     0x72, 0xf8, 0xf6, 0x64, 0x86, 0x68, 0x98, 0x16, 0xd4, 0xa4, 0x5c, 0xcc, 0x5d, 0x65, 0xb6, 0x92,
     0x6c, 0x70, 0x48, 0x50, 0xfd, 0xed, 0xb9, 0xda, 0x5e, 0x15, 0x46, 0x57, 0xa7, 0x8d, 0x9d, 0x84,
     0x90, 0xd8, 0xab, 0, 0x8c, 0xbc, 0xd3, 0x0a, 0xf7, 0xe4, 0x58, 5, 0xb8, 0xb3, 0x45, 6,
     0xd0, 0x2c, 0x1e, 0x8f, 0xca, 0x3f, 0x0f, 2, 0xc1, 0xaf, 0xbd, 3, 1, 0x13, 0x8a, 0x6b,
     0x3a, 0x91, 0x11, 0x41, 0x4f, 0x67, 0xdc, 0xea, 0x97, 0xf2, 0xcf, 0xce, 0xf0, 0xb4, 0xe6, 0x73,
     0x96, 0xac, 0x74, 0x22, 0xe7, 0xad, 0x35, 0x85, 0xe2, 0xf9, 0x37, 0xe8, 0x1c, 0x75, 0xdf, 0x6e,
     0x47, 0xf1, 0x1a, 0x71, 0x1d, 0x29, 0xc5, 0x89, 0x6f, 0xb7, 0x62, 0x0e, 0xaa, 0x18, 0xbe, 0x1b,
     0xfc, 0x56, 0x3e, 0x4b, 0xc6, 0xd2, 0x79, 0x20, 0x9a, 0xdb, 0xc0, 0xfe, 0x78, 0xcd, 0x5a, 0xf4,
     0x1f, 0xdd, 0xa8, 0x33, 0x88, 7, 0xc7, 0x31, 0xb1, 0x12, 0x10, 0x59, 0x27, 0x80, 0xec, 0x5f,
     0x60, 0x51, 0x7f, 0xa9, 0x19, 0xb5, 0x4a, 0x0d, 0x2d, 0xe5, 0x7a, 0x9f, 0x93, 0xc9, 0x9c, 0xef,
     0xa0, 0xe0, 0x3b, 0x4d, 0xae, 0x2a, 0xf5, 0xb0, 0xc8, 0xeb, 0xbb, 0x3c, 0x83, 0x53, 0x99, 0x61,
     0x17, 0x2b, 4, 0x7e, 0xba, 0x77, 0xd6, 0x26, 0xe1, 0x69, 0x14, 0x63, 0x55, 0x21, 0x0c, 0x7d]"

definition pxor :: "u8 list \<Rightarrow> u8 list \<Rightarrow> u8 list" where
  "pxor = map2 (XOR)"

definition sub_bytes :: "u8 list \<Rightarrow> u8 list" where
  "sub_bytes = map (\<lambda>b. sbox ! unat b)"

definition inv_sub_bytes :: "u8 list \<Rightarrow> u8 list" where
  "inv_sub_bytes = map (\<lambda>b. inv_sbox ! unat b)"

text \<open>Byte \<open>4 * c + r\<close> is row \<open>r\<close> of column \<open>c\<close>; row \<open>r\<close> is rotated by \<open>r\<close> columns.\<close>

definition shift_rows :: "xmm \<Rightarrow> xmm" where
  "shift_rows x = map (\<lambda>i. x ! ((i + 4 * (i mod 4)) mod 16)) [0..<16]"

definition inv_shift_rows :: "xmm \<Rightarrow> xmm" where
  "inv_shift_rows x = map (\<lambda>i. x ! ((i + 12 * (i mod 4)) mod 16)) [0..<16]"

text \<open>Multiplication by 2 in the field with \<open>2^8\<close> elements.\<close>

definition xtime :: "u8 \<Rightarrow> u8" where
  "xtime b = push_bit 1 b XOR (if bit b 7 then 0x1B else 0)"

definition mix_column :: "u8 \<Rightarrow> u8 \<Rightarrow> u8 \<Rightarrow> u8 \<Rightarrow> u8 list" where
  "mix_column a b c d =
    (let f = (\<lambda>a b c d. xtime a XOR (xtime b XOR b) XOR c XOR d)
     in [f a b c d, f b c d a, f c d a b, f d a b c])"

definition inv_mix_column :: "u8 \<Rightarrow> u8 \<Rightarrow> u8 \<Rightarrow> u8 \<Rightarrow> u8 list" where
  "inv_mix_column a b c d =
    (let x2 = xtime; x4 = xtime \<circ> xtime; x8 = xtime \<circ> xtime \<circ> xtime;
         f = (\<lambda>a b c d. (x8 a XOR x4 a XOR x2 a) XOR (x8 b XOR x2 b XOR b) XOR (x8 c XOR x4 c XOR c) XOR (x8 d XOR d))
     in [f a b c d, f b c d a, f c d a b, f d a b c])"

definition columns :: "(u8 \<Rightarrow> u8 \<Rightarrow> u8 \<Rightarrow> u8 \<Rightarrow> u8 list) \<Rightarrow> xmm \<Rightarrow> xmm" where
  "columns f x = concat (map (\<lambda>c. f (x ! (4 * c)) (x ! (4 * c + 1)) (x ! (4 * c + 2)) (x ! (4 * c + 3))) [0..<4])"

definition mix_columns :: "xmm \<Rightarrow> xmm" where "mix_columns = columns mix_column"
definition inv_mix_columns :: "xmm \<Rightarrow> xmm" where "inv_mix_columns = columns inv_mix_column"

definition aesenc :: "xmm \<Rightarrow> xmm \<Rightarrow> xmm" where "aesenc k x = pxor (mix_columns (sub_bytes (shift_rows x))) k"
definition aesenclast :: "xmm \<Rightarrow> xmm \<Rightarrow> xmm" where "aesenclast k x = pxor (sub_bytes (shift_rows x)) k"
definition aesdec :: "xmm \<Rightarrow> xmm \<Rightarrow> xmm" where "aesdec k x = pxor (inv_mix_columns (inv_sub_bytes (inv_shift_rows x))) k"
definition aesdeclast :: "xmm \<Rightarrow> xmm \<Rightarrow> xmm" where "aesdeclast k x = pxor (inv_sub_bytes (inv_shift_rows x)) k"
definition aesimc :: "xmm \<Rightarrow> xmm" where "aesimc = inv_mix_columns"

definition dword :: "nat \<Rightarrow> xmm \<Rightarrow> u8 list" where
  "dword i x = take 4 (drop (4 * i) x)"

definition aeskeygenassist :: "u8 \<Rightarrow> xmm \<Rightarrow> xmm" where
  "aeskeygenassist imm x =
    (let w1 = sub_bytes (dword 1 x); w3 = sub_bytes (dword 3 x); r = [imm, 0, 0, 0]
     in w1 @ pxor (rotate1 w1) r @ w3 @ pxor (rotate1 w3) r)"

definition pshufd_ff :: "xmm \<Rightarrow> xmm" where "pshufd_ff x = concat (replicate 4 (dword 3 x))"
definition pslldq_4 :: "xmm \<Rightarrow> xmm" where "pslldq_4 x = replicate 4 0 @ take 12 x"

definition movups :: "u8 list \<Rightarrow> nat \<Rightarrow> xmm" where
  "movups m offset = take 16 (drop offset m)"

definition movups_store :: "nat \<Rightarrow> xmm \<Rightarrow> u8 list \<Rightarrow> u8 list" where
  "movups_store offset x m = take offset m @ x @ drop (offset + 16) m"

section \<open>The routines of the driver\<close>

text \<open>The array \<open>expanded_key\<close> is the list of its 240 bytes; only the assembly looks at it.\<close>

definition aes_key_expand_128_assist :: "xmm \<Rightarrow> xmm \<Rightarrow> xmm" where
  "aes_key_expand_128_assist xmm1 xmm2 =
    (let xmm2 = pshufd_ff xmm2; xmm3 = xmm1;
         xmm3 = pslldq_4 xmm3; xmm1 = pxor xmm1 xmm3;
         xmm3 = pslldq_4 xmm3; xmm1 = pxor xmm1 xmm3;
         xmm3 = pslldq_4 xmm3; xmm1 = pxor xmm1 xmm3
     in pxor xmm1 xmm2)"

definition expand_steps :: "(u8 \<times> nat) list" where
  "expand_steps = [(0x1, 16), (0x2, 32), (0x4, 48), (0x8, 64), (0x10, 80), (0x20, 96), (0x40, 112), (0x80, 128),
     (0x1B, 144), (0x36, 160)]"

definition expand_step :: "u8 \<times> nat \<Rightarrow> xmm \<times> u8 list \<Rightarrow> xmm \<times> u8 list" where
  "expand_step = (\<lambda>(imm, offset) (xmm1, expanded).
     let xmm2 = aeskeygenassist imm xmm1; xmm1 = aes_key_expand_128_assist xmm1 xmm2
     in (xmm1, movups_store offset xmm1 expanded))"

definition aes_key_expand_128 :: "u8 list \<Rightarrow> u8 list \<Rightarrow> u8 list" where
  "aes_key_expand_128 key expanded =
    (let xmm1 = movups key 0 in snd (fold expand_step expand_steps (xmm1, movups_store 0 xmm1 expanded)))"

definition encrypt_block :: "u8 list \<Rightarrow> u8 list \<Rightarrow> xmm" where
  "encrypt_block expanded input =
    (let xmm0 = pxor (movups input 0) (movups expanded 0);
         xmm0 = fold (\<lambda>offset. aesenc (movups expanded offset)) [16, 32, 48, 64, 80, 96, 112, 128, 144] xmm0
     in aesenclast (movups expanded 160) xmm0)"

definition decrypt_block :: "u8 list \<Rightarrow> u8 list \<Rightarrow> xmm" where
  "decrypt_block expanded input =
    (let xmm0 = pxor (movups input 0) (movups expanded 160);
         xmm0 = fold (\<lambda>offset. aesdec (aesimc (movups expanded offset))) [144, 128, 112, 96, 80, 64, 48, 32, 16] xmm0
     in aesdeclast (movups expanded 0) xmm0)"

section \<open>The transformations are inverses\<close>

lemma length_pxor [simp]: "length (pxor x y) = min (length x) (length y)"
  by (simp add: pxor_def)

lemma length_columns: "(\<And>a b c d. length (f a b c d) = 4) \<Longrightarrow> length (columns f x) = 16"
  by (simp add: columns_def length_concat comp_def sum_list_triv)

lemma length_transformations [simp]:
  "length (sub_bytes x) = length x" "length (inv_sub_bytes x) = length x"
  "length (shift_rows x) = 16" "length (inv_shift_rows x) = 16"
  "length (mix_columns x) = 16" "length (inv_mix_columns x) = 16"
  by (simp_all add: sub_bytes_def inv_sub_bytes_def shift_rows_def inv_shift_rows_def mix_columns_def inv_mix_columns_def
      length_columns mix_column_def inv_mix_column_def Let_def)

lemma xor_twice [simp]: "a XOR (a XOR b) = b" for a b :: "'a::len word"
  by (simp flip: xor.assoc)

lemma xor_twice_right [simp]: "(a XOR b) XOR b = a" for a b :: "'a::len word"
  by (simp add: xor.assoc)

lemma pxor_pxor: "length x = length y \<Longrightarrow> pxor (pxor x y) y = x"
  by (simp add: pxor_def list_eq_iff_nth_eq)

lemma sbox_tables:
  "list_all (\<lambda>n. inv_sbox ! unat (sbox ! n) = of_nat n) [0..<256]"
  by code_simp

lemma inv_sbox_sbox: "inv_sbox ! unat (sbox ! unat b) = b"
proof -
  have "unat b < 256" using unsigned_less [of b, where ?'a = nat] by simp
  then have "inv_sbox ! unat (sbox ! unat b) = of_nat (unat b)"
    using sbox_tables by (simp add: list_all_iff)
  then show ?thesis by simp
qed

lemma inv_sub_bytes_sub_bytes: "inv_sub_bytes (sub_bytes x) = x"
  by (simp add: inv_sub_bytes_def sub_bytes_def inv_sbox_sbox map_idI)

lemma upto_16: "[0..<16] = [0, 1, 2, 3, 4, 5, 6, 7, 8, 9, 10, 11, 12, 13, 14, 15]" by code_simp
lemma upto_4: "[0..<4] = [0, 1, 2, 3]" by code_simp

lemma sixteen:
  assumes "length x = 16"
  obtains a0 a1 a2 a3 a4 a5 a6 a7 a8 a9 a10 a11 a12 a13 a14 a15
    where "x = [a0, a1, a2, a3, a4, a5, a6, a7, a8, a9, a10, a11, a12, a13, a14, a15]"
proof -
  have "x = map ((!) x) [0..<16]" using assms by (simp add: map_nth flip: assms)
  then show ?thesis using that by (simp only: upto_16 list.map)
qed

lemma inv_shift_rows_shift_rows: "length x = 16 \<Longrightarrow> inv_shift_rows (shift_rows x) = x"
  by (erule sixteen) (simp add: shift_rows_def inv_shift_rows_def upto_16)

lemma inv_shift_sub: "length x = 16 \<Longrightarrow> inv_sub_bytes (inv_shift_rows (sub_bytes (shift_rows x))) = x"
proof -
  assume x: "length x = 16"
  have "inv_shift_rows (sub_bytes y) = sub_bytes (inv_shift_rows y)" if "length y = 16" for y
    using that by (simp add: inv_shift_rows_def sub_bytes_def)
  then show ?thesis using x by (simp add: inv_shift_rows_shift_rows inv_sub_bytes_sub_bytes)
qed

lemma xtime_xor: "xtime (a XOR b) = xtime a XOR xtime b"
  by (simp add: xtime_def push_bit_xor bit_xor_iff xor.assoc xor.commute xor.left_commute)

lemma inv_mix_mix_column:
  assumes "mix_column a b c d = [p, q, r, s]"
  shows "inv_mix_column p q r s = [a, b, c, d]"
  using assms by (auto simp: mix_column_def inv_mix_column_def xtime_xor xor.assoc xor.commute xor.left_commute Let_def)

lemma inv_mix_mix_columns: "length x = 16 \<Longrightarrow> inv_mix_columns (mix_columns x) = x"
  by (erule sixteen)
    (simp add: mix_columns_def inv_mix_columns_def columns_def upto_4 mix_column_def inv_mix_column_def xtime_xor
      xor.assoc xor.commute xor.left_commute Let_def)

lemma inv_mix_xor: "length x = 16 \<Longrightarrow> length y = 16 \<Longrightarrow>
    inv_mix_columns (pxor x y) = pxor (inv_mix_columns x) (inv_mix_columns y)"
  by (erule sixteen, erule sixteen)
    (simp add: pxor_def inv_mix_columns_def columns_def upto_4 inv_mix_column_def xtime_xor
      xor.assoc xor.commute xor.left_commute Let_def)

section \<open>Decryption undoes encryption\<close>

lemma aesdec_step:
  assumes "length x = 16" "length k = 16"
  shows "aesdec (aesimc k) (sub_bytes (shift_rows (aesenc k x))) = sub_bytes (shift_rows x)"
  using assms by (simp add: aesdec_def aesenc_def aesimc_def inv_shift_sub inv_mix_xor inv_mix_mix_columns pxor_pxor)

lemma aesdec_rounds:
  assumes "length x = 16" "\<forall>k \<in> set ks. length k = 16"
  shows "fold (\<lambda>k. aesdec (aesimc k)) (rev ks) (sub_bytes (shift_rows (fold aesenc ks x))) = sub_bytes (shift_rows x)"
  using assms
proof (induction ks arbitrary: x)
  case (Cons k ks)
  then have "length (aesenc k x) = 16" by (simp add: aesenc_def)
  with Cons show ?case by (simp add: aesdec_step)
qed simp

lemma decrypt_encrypt_block:
  assumes "length input = 16" "176 \<le> length expanded"
  shows "decrypt_block expanded (encrypt_block expanded input) = input"
proof -
  let ?offs = "[16, 32, 48, 64, 80, 96, 112, 128, 144] :: nat list"
  let ?ks = "map (movups expanded) ?offs"
  let ?x = "pxor (movups input 0) (movups expanded 0)"
  let ?y = "sub_bytes (shift_rows (fold aesenc ?ks ?x))"
  have k: "length (movups expanded i) = 16" if "i \<le> 160" for i
    using that assms(2) by (simp add: movups_def)
  have x: "length ?x = 16" using k [of 0] assms(1) by (simp add: movups_def)
  have "encrypt_block expanded input = pxor ?y (movups expanded 160)"
    by (simp add: encrypt_block_def aesenclast_def)
  moreover have "movups (pxor ?y (movups expanded 160)) 0 = pxor ?y (movups expanded 160)"
    using k [of 160] by (simp add: movups_def)
  ultimately have "decrypt_block expanded (encrypt_block expanded input) =
      aesdeclast (movups expanded 0) (fold (\<lambda>k. aesdec (aesimc k)) (rev ?ks) ?y)"
    using k [of 160] by (simp add: decrypt_block_def pxor_pxor)
  also have "\<dots> = aesdeclast (movups expanded 0) (sub_bytes (shift_rows ?x))"
    using k by (subst aesdec_rounds [OF x]) auto
  also have "\<dots> = input" using x k [of 0] assms(1) by (simp add: aesdeclast_def inv_shift_sub pxor_pxor movups_def)
  finally show ?thesis .
qed

section \<open>The key schedule\<close>

text \<open>FIPS 197 defines the words of the schedule one by one.\<close>

fun schedule_word :: "u8 list \<Rightarrow> nat \<Rightarrow> u8 list" where
  "schedule_word key i =
    (if i < 4 then dword i key
     else
       (let t = schedule_word key (i - 1);
            t = (if i mod 4 = 0 then pxor (sub_bytes (rotate1 t)) [(xtime ^^ (i div 4 - 1)) 1, 0, 0, 0] else t)
        in pxor (schedule_word key (i - 4)) t))"

declare schedule_word.simps [simp del]

lemma schedule_word_low: "i < 4 \<Longrightarrow> schedule_word key i = dword i key"
  by (subst schedule_word.simps) simp

lemma schedule_word_high: "4 \<le> i \<Longrightarrow> i mod 4 \<noteq> 0 \<Longrightarrow>
    schedule_word key i = pxor (schedule_word key (i - 4)) (schedule_word key (i - 1))"
  by (subst schedule_word.simps) simp

lemma schedule_word_round: "schedule_word key (4 * Suc n) =
    pxor (schedule_word key (4 * n)) (pxor (sub_bytes (rotate1 (schedule_word key (4 * n + 3)))) [(xtime ^^ n) 1, 0, 0, 0])"
proof -
  have "\<not> 4 * Suc n < 4" "4 * Suc n mod 4 = 0" "4 * Suc n div 4 - 1 = n" "4 * Suc n - 4 = 4 * n" "4 * Suc n - 1 = 4 * n + 3"
    by simp_all
  then show ?thesis by (subst schedule_word.simps) (simp only: Let_def if_False if_True simp_thms)
qed

lemma length_schedule_word: "length key = 16 \<Longrightarrow> length (schedule_word key i) = 4"
proof (induction i rule: less_induct)
  case (less i)
  then show ?case
    by (cases "i < 4") (auto simp: schedule_word_low dword_def schedule_word.simps [of key i] Let_def)
qed

definition round_key :: "u8 list \<Rightarrow> nat \<Rightarrow> xmm" where
  "round_key key n = concat (map (\<lambda>j. schedule_word key (4 * n + j)) [0..<4])"

lemma length_round_key: "length key = 16 \<Longrightarrow> length (round_key key n) = 16"
  by (simp add: round_key_def upto_4 length_schedule_word)

lemma four:
  assumes "length w = 4"
  obtains a b c d where "w = [a, b, c, d]"
proof -
  have "w = map ((!) w) [0..<4]" using assms by (simp add: map_nth flip: assms)
  then show ?thesis using that by (simp only: upto_4 list.map)
qed

lemma replicate_4: "replicate 4 x = [x, x, x, x]"
  by (simp add: numeral_eq_Suc)

lemma assist_words:
  assumes "length w0 = 4" "length w1 = 4" "length w2 = 4" "length w3 = 4"
    "t = pxor (sub_bytes (rotate1 w3)) [imm, 0, 0, 0]"
  shows "aes_key_expand_128_assist (w0 @ w1 @ w2 @ w3) (aeskeygenassist imm (w0 @ w1 @ w2 @ w3)) =
    (let v0 = pxor w0 t; v1 = pxor w1 v0; v2 = pxor w2 v1; v3 = pxor w3 v2 in v0 @ v1 @ v2 @ v3)"
  unfolding assms(5) using assms(1-4)
  by (elim four) (simp add: aes_key_expand_128_assist_def aeskeygenassist_def pshufd_ff_def pslldq_4_def dword_def
      pxor_def sub_bytes_def replicate_4 xor.assoc xor.commute xor.left_commute Let_def)

lemma round_key_Suc:
  assumes "length key = 16"
  shows "round_key key (Suc n) =
    aes_key_expand_128_assist (round_key key n) (aeskeygenassist ((xtime ^^ n) 1) (round_key key n))"
proof -
  let ?w = "schedule_word key"
  have "?w (4 * Suc n + j) = pxor (?w (4 * n + j)) (?w (4 * Suc n + (j - 1)))" if "j \<in> {1, 2, 3}" for j
  proof -
    have "(4 * Suc n + j) mod 4 = j" using that by auto
    then show ?thesis using that schedule_word_high [of "4 * Suc n + j" key] by auto
  qed
  from this [of 1] this [of 2] this [of 3] schedule_word_round [of key n] show ?thesis
    by (simp add: round_key_def upto_4 assist_words [OF length_schedule_word length_schedule_word length_schedule_word
        length_schedule_word refl] assms Let_def)
qed

lemma expand_steps_nth: "k < 10 \<Longrightarrow> expand_steps ! k = ((xtime ^^ k) 1, 16 * Suc k)"
proof -
  have "list_all (\<lambda>k. expand_steps ! k = ((xtime ^^ k) 1, 16 * Suc k)) [0..<10]" by code_simp
  then show "k < 10 \<Longrightarrow> expand_steps ! k = ((xtime ^^ k) 1, 16 * Suc k)" by (simp add: list_all_iff)
qed

definition round_keys :: "u8 list \<Rightarrow> nat \<Rightarrow> u8 list" where
  "round_keys key n = concat (map (round_key key) [0..<n])"

lemma round_keys_Suc: "round_keys key (Suc n) = round_keys key n @ round_key key n"
  by (simp add: round_keys_def)

lemma length_round_keys: "length key = 16 \<Longrightarrow> length (round_keys key n) = 16 * n"
  by (induction n) (simp_all add: round_keys_Suc length_round_key round_keys_def)

lemma expand_prefix:
  assumes "length key = 16" "176 \<le> length e"
  shows "k \<le> 10 \<Longrightarrow> fold expand_step (take k expand_steps) (round_key key 0, round_keys key 1 @ drop 16 e) =
    (round_key key k, round_keys key (Suc k) @ drop (16 * Suc k) e)"
proof (induction k)
  case (Suc k)
  have "take (Suc k) expand_steps = take k expand_steps @ [expand_steps ! k]"
    using Suc.prems by (intro take_Suc_conv_app_nth) (simp add: expand_steps_def)
  then show ?case
    using Suc assms(2) by (simp add: expand_steps_nth expand_step_def round_key_Suc [OF assms(1), symmetric] movups_store_def
        length_round_keys [OF assms(1)] round_keys_Suc [of key "Suc k"] Let_def add.commute)
qed simp

lemma aes_key_expand_128_schedule:
  assumes "length key = 16" "176 \<le> length e"
  shows "aes_key_expand_128 key e = concat (map (schedule_word key) [0..<44]) @ drop 176 e"
proof -
  have k: "round_key key 0 = key"
    using assms(1) by (simp add: round_key_def upto_4 schedule_word_low dword_def) (erule sixteen, simp)
  have "aes_key_expand_128 key e = snd (fold expand_step (take 10 expand_steps) (round_key key 0, round_keys key 1 @ drop 16 e))"
    using assms k by (simp add: aes_key_expand_128_def movups_def movups_store_def round_keys_def)
      (simp add: expand_steps_def)
  also have "\<dots> = round_keys key 11 @ drop 176 e" using expand_prefix [OF assms, of 10] by simp
  also have "round_keys key n = concat (map (schedule_word key) [0..<4 * n])" for n
  proof (induction n)
    case (Suc n)
    have "[0..<4 * Suc n] = [0..<4 * n] @ [4 * n, 4 * n + 1, 4 * n + 2, 4 * n + 3]"
    proof -
      have "[4 * n..<4 * n + 4] = [4 * n, 4 * n + 1, 4 * n + 2, 4 * n + 3]" by (simp add: upt_conv_Cons)
      then show ?thesis using upt_add_eq_append [of 0 "4 * n" 4] by (simp add: add.commute)
    qed
    with Suc show ?case by (simp add: round_keys_Suc round_key_def upto_4)
  qed (simp add: round_keys_def)
  finally show ?thesis by simp
qed

end
