(* ===== verification/Hwcrypto.thy ===== *)
theory Hwcrypto
  imports Aes_Ni
begin

text \<open>
  \<open>src/drivers/hwcrypto.c\<close>: what the processor can do, AES blocks, the random number instructions, the carry-less product and
  SHA-256 with its buffering. Contexts and buffers are values that go in and come out; a null pointer is \<open>None\<close>, and a
  call that would leave a buffer has no result. A context on the stack, which the C code does not initialise, is an
  argument. The function that processes a block of a hash is an argument of the buffering, so that the buffering can be
  stated for any of them; the code's one is \<open>sha256_process_block_shani\<close>.
\<close>

definition CPUID_ECX_AESNI :: u32 where "CPUID_ECX_AESNI = push_bit 25 1"
definition CPUID_ECX_RDRAND :: u32 where "CPUID_ECX_RDRAND = push_bit 30 1"
definition CPUID_EBX_SHA :: u32 where "CPUID_EBX_SHA = push_bit 29 1"
definition CPUID_ECX_PCLMULQDQ :: u32 where "CPUID_ECX_PCLMULQDQ = push_bit 1 1"
definition CPUID_EBX_RDSEED :: u32 where "CPUID_EBX_RDSEED = push_bit 18 1"
definition CPUID_ECX_GFNI :: u32 where "CPUID_ECX_GFNI = push_bit 8 1"
definition CPUID_ECX_VAES :: u32 where "CPUID_ECX_VAES = push_bit 9 1"
definition CPUID_ECX_VPCLMULQDQ :: u32 where "CPUID_ECX_VPCLMULQDQ = push_bit 10 1"

definition HWCRYPTO_CAP_AESNI :: u32 where "HWCRYPTO_CAP_AESNI = 1"
definition HWCRYPTO_CAP_SHANI :: u32 where "HWCRYPTO_CAP_SHANI = 2"
definition HWCRYPTO_CAP_PCLMULQDQ :: u32 where "HWCRYPTO_CAP_PCLMULQDQ = 4"
definition HWCRYPTO_CAP_RDRAND :: u32 where "HWCRYPTO_CAP_RDRAND = 8"
definition HWCRYPTO_CAP_RDSEED :: u32 where "HWCRYPTO_CAP_RDSEED = 16"
definition HWCRYPTO_CAP_GFNI :: u32 where "HWCRYPTO_CAP_GFNI = 32"
definition HWCRYPTO_CAP_VAES :: u32 where "HWCRYPTO_CAP_VAES = 64"
definition HWCRYPTO_CAP_VPCLMULQDQ :: u32 where "HWCRYPTO_CAP_VPCLMULQDQ = 128"

definition AES_KEY_128 :: u32 where "AES_KEY_128 = 128"
definition AES_KEY_192 :: u32 where "AES_KEY_192 = 192"
definition AES_KEY_256 :: u32 where "AES_KEY_256 = 256"

definition sha256_k :: "u32 list" where
  "sha256_k =
    [0x428a2f98, 0x71374491, 0xb5c0fbcf, 0xe9b5dba5, 0x3956c25b, 0x59f111f1, 0x923f82a4, 0xab1c5ed5,
     0xd807aa98, 0x12835b01, 0x243185be, 0x550c7dc3, 0x72be5d74, 0x80deb1fe, 0x9bdc06a7, 0xc19bf174,
     0xe49b69c1, 0xefbe4786, 0x0fc19dc6, 0x240ca1cc, 0x2de92c6f, 0x4a7484aa, 0x5cb0a9dc, 0x76f988da,
     0x983e5152, 0xa831c66d, 0xb00327c8, 0xbf597fc7, 0xc6e00bf3, 0xd5a79147, 0x06ca6351, 0x14292967,
     0x27b70a85, 0x2e1b2138, 0x4d2c6dfc, 0x53380d13, 0x650a7354, 0x766a0abb, 0x81c2c92e, 0x92722c85,
     0xa2bfe8a1, 0xa81a664b, 0xc24b8b70, 0xc76c51a3, 0xd192e819, 0xd6990624, 0xf40e3585, 0x106aa070,
     0x19a4c116, 0x1e376c08, 0x2748774c, 0x34b0bcb5, 0x391c0cb3, 0x4ed8aa4a, 0x5b9cca4f, 0x682e6ff3,
     0x748f82ee, 0x78a5636f, 0x84c87814, 0x8cc70208, 0x90befffa, 0xa4506ceb, 0xbef9a3f7, 0xc67178f2]"

record hwcrypto = machine +
  hc_capabilities :: u32
  aes_ops_count :: u32
  sha_ops_count :: u32
  rng_requests :: u32
  rng_failures :: u32
  total_bytes_encrypted :: u64
  total_bytes_hashed :: u64
  avg_encrypt_cycles :: u32
  avg_hash_cycles :: u32
  hwcrypto_caps :: u32

record aes_ctx =
  aes_key :: "u8 list"
  aes_key_len :: u32
  aes_rounds :: u8
  expanded_key :: "u8 list"

record sha256_ctx =
  sha_h :: "u32 list"
  sha_buffer :: "u8 list"
  sha_buffer_len :: u32
  sha_total_len :: u64

section \<open>Capabilities\<close>

definition hwcrypto_clear_stats :: "'a hwcrypto_scheme \<Rightarrow> 'a hwcrypto_scheme" where
  "hwcrypto_clear_stats s =
     s\<lparr>hc_capabilities := 0, aes_ops_count := 0, sha_ops_count := 0, rng_requests := 0, rng_failures := 0,
       total_bytes_encrypted := 0, total_bytes_hashed := 0, avg_encrypt_cycles := 0, avg_hash_cycles := 0\<rparr>"

definition cap_if :: "u32 \<Rightarrow> u32 \<Rightarrow> u32 \<Rightarrow> 'a hwcrypto_scheme \<Rightarrow> 'a hwcrypto_scheme" where
  "cap_if reg flag cap s = (if reg AND flag \<noteq> 0 then s\<lparr>hwcrypto_caps := hwcrypto_caps s OR cap\<rparr> else s)"

definition hwcrypto_init :: "device \<Rightarrow> 'a hwcrypto_scheme \<Rightarrow> 'a hwcrypto_scheme" where
  "hwcrypto_init D s =
     (let s = hwcrypto_clear_stats s;
          ((eax, ebx, ecx, edx), s) = cpuid_sub D 1 0 s;
          s = cap_if ecx CPUID_ECX_AESNI HWCRYPTO_CAP_AESNI s;
          s = cap_if ecx CPUID_ECX_RDRAND HWCRYPTO_CAP_RDRAND s;
          s = cap_if ecx CPUID_ECX_PCLMULQDQ HWCRYPTO_CAP_PCLMULQDQ s;
          ((eax, ebx, ecx, edx), s) = cpuid_sub D 7 0 s;
          s = cap_if ebx CPUID_EBX_SHA HWCRYPTO_CAP_SHANI s;
          s = cap_if ebx CPUID_EBX_RDSEED HWCRYPTO_CAP_RDSEED s;
          s = cap_if ecx CPUID_ECX_GFNI HWCRYPTO_CAP_GFNI s;
          s = cap_if ecx CPUID_ECX_VAES HWCRYPTO_CAP_VAES s
      in cap_if ecx CPUID_ECX_VPCLMULQDQ HWCRYPTO_CAP_VPCLMULQDQ s)"

definition hwcrypto_is_supported :: "'a hwcrypto_scheme \<Rightarrow> u8" where
  "hwcrypto_is_supported s = c_bool (hwcrypto_caps s \<noteq> 0)"

definition hwcrypto_has_aesni :: "'a hwcrypto_scheme \<Rightarrow> u8" where
  "hwcrypto_has_aesni s = c_bool (hwcrypto_caps s AND HWCRYPTO_CAP_AESNI \<noteq> 0)"

definition hwcrypto_has_shani :: "'a hwcrypto_scheme \<Rightarrow> u8" where
  "hwcrypto_has_shani s = c_bool (hwcrypto_caps s AND HWCRYPTO_CAP_SHANI \<noteq> 0)"

definition hwcrypto_has_pclmulqdq :: "'a hwcrypto_scheme \<Rightarrow> u8" where
  "hwcrypto_has_pclmulqdq s = c_bool (hwcrypto_caps s AND HWCRYPTO_CAP_PCLMULQDQ \<noteq> 0)"

definition hwcrypto_has_rdrand :: "'a hwcrypto_scheme \<Rightarrow> u8" where
  "hwcrypto_has_rdrand s = c_bool (hwcrypto_caps s AND HWCRYPTO_CAP_RDRAND \<noteq> 0)"

definition hwcrypto_has_rdseed :: "'a hwcrypto_scheme \<Rightarrow> u8" where
  "hwcrypto_has_rdseed s = c_bool (hwcrypto_caps s AND HWCRYPTO_CAP_RDSEED \<noteq> 0)"

definition hwcrypto_get_capabilities :: "'a hwcrypto_scheme \<Rightarrow> u32" where
  "hwcrypto_get_capabilities s = hwcrypto_caps s"

section \<open>AES\<close>

definition hwcrypto_aes_init :: "aes_ctx \<Rightarrow> u8 list \<Rightarrow> u32 \<Rightarrow> 'a hwcrypto_scheme \<Rightarrow> (u8 \<times> aes_ctx) option" where
  "hwcrypto_aes_init ctx key key_len s =
     (if hwcrypto_has_aesni s = 0 then Some (0, ctx)
      else if length key < min 32 (unat (key_len div 8)) then None
      else
        (let ctx = ctx\<lparr>aes_key_len := key_len,
               aes_key := map (\<lambda>i. if of_nat i < key_len div 8 then key ! i else 0) [0..<32]\<rparr>
         in if key_len = AES_KEY_128 then
              Some (1, ctx\<lparr>aes_rounds := 10, expanded_key := aes_key_expand_128 key (expanded_key ctx)\<rparr>)
            else if key_len = AES_KEY_192 then Some (0, ctx\<lparr>aes_rounds := 12\<rparr>)
            else if key_len = AES_KEY_256 then Some (0, ctx\<lparr>aes_rounds := 14\<rparr>)
            else Some (0, ctx)))"

definition average_cycles :: "u32 \<Rightarrow> u64 \<Rightarrow> u32" where
  "average_cycles avg cycles = (avg + ucast cycles) div 2"

definition hwcrypto_aes_encrypt_block ::
  "device \<Rightarrow> aes_ctx \<Rightarrow> u8 list \<Rightarrow> u8 list \<Rightarrow> 'a hwcrypto_scheme \<Rightarrow> (u8 \<times> u8 list \<times> 'a hwcrypto_scheme) option" where
  "hwcrypto_aes_encrypt_block D ctx input output s =
     (if hwcrypto_has_aesni s = 0 then Some (0, output, s)
      else if length input < 16 \<or> length output < 16 then None
      else
        (let (start_cycles, s) = rd D Tsc s;
             output = movups_store 0 (encrypt_block (expanded_key ctx) input) output;
             (now, s) = rd D Tsc s
         in Some (1, output, s\<lparr>aes_ops_count := aes_ops_count s + 1,
              total_bytes_encrypted := total_bytes_encrypted s + 16,
              avg_encrypt_cycles := average_cycles (avg_encrypt_cycles s) (now - start_cycles)\<rparr>)))"

definition hwcrypto_aes_decrypt_block ::
  "device \<Rightarrow> aes_ctx \<Rightarrow> u8 list \<Rightarrow> u8 list \<Rightarrow> 'a hwcrypto_scheme \<Rightarrow> (u8 \<times> u8 list \<times> 'a hwcrypto_scheme) option" where
  "hwcrypto_aes_decrypt_block D ctx input output s =
     (if hwcrypto_has_aesni s = 0 then Some (0, output, s)
      else if length input < 16 \<or> length output < 16 then None
      else
        (let (start_cycles, s) = rd D Tsc s;
             output = movups_store 0 (decrypt_block (expanded_key ctx) input) output;
             (now, s) = rd D Tsc s
         in Some (1, output, s\<lparr>aes_ops_count := aes_ops_count s + 1,
              avg_encrypt_cycles := average_cycles (avg_encrypt_cycles s) (now - start_cycles)\<rparr>)))"

section \<open>Random numbers and the carry-less product\<close>

text \<open>\<open>rdrand\<close> and \<open>rdseed\<close> have two results, the number and the carry flag.\<close>

fun rng_try :: "device \<Rightarrow> string \<Rightarrow> nat \<Rightarrow> 'a hwcrypto_scheme \<Rightarrow> u32 option \<times> 'a hwcrypto_scheme" where
  "rng_try D name 0 s = (None, s)"
| "rng_try D name (Suc n) s =
     (let (value, s) = rd D (Isa name [] 0) s; (success, s) = rd D (Isa name [] 1) s
      in if (success :: u8) \<noteq> 0 then (Some value, s) else rng_try D name n s)"

definition rng_result :: "u32 option \<times> 'a hwcrypto_scheme \<Rightarrow> u32 \<times> 'a hwcrypto_scheme" where
  "rng_result = (\<lambda>(r, s). case r of
     Some value \<Rightarrow> (value, s\<lparr>rng_requests := rng_requests s + 1\<rparr>)
   | None \<Rightarrow> (0, s\<lparr>rng_failures := rng_failures s + 1\<rparr>))"

definition hwcrypto_rdrand32 :: "device \<Rightarrow> 'a hwcrypto_scheme \<Rightarrow> u32 \<times> 'a hwcrypto_scheme" where
  "hwcrypto_rdrand32 D s =
     rng_result (if hwcrypto_has_rdrand s = 0 then (None, s) else rng_try D ''rdrand'' 10 s)"

definition hwcrypto_rdseed32 :: "device \<Rightarrow> 'a hwcrypto_scheme \<Rightarrow> u32 \<times> 'a hwcrypto_scheme" where
  "hwcrypto_rdseed32 D s =
     rng_result (if hwcrypto_has_rdseed s = 0 then (None, s) else rng_try D ''rdseed'' 10 s)"

text \<open>The order of the two calls in the expressions is left open by C; here the left one comes first.\<close>

definition hwcrypto_rdrand64 :: "device \<Rightarrow> 'a hwcrypto_scheme \<Rightarrow> u64 \<times> 'a hwcrypto_scheme" where
  "hwcrypto_rdrand64 D s =
     (let (h, s) = hwcrypto_rdrand32 D s; (l, s) = hwcrypto_rdrand32 D s in (push_bit 32 (ucast h) OR ucast l, s))"

definition hwcrypto_rdseed64 :: "device \<Rightarrow> 'a hwcrypto_scheme \<Rightarrow> u64 \<times> 'a hwcrypto_scheme" where
  "hwcrypto_rdseed64 D s =
     (let (h, s) = hwcrypto_rdseed32 D s; (l, s) = hwcrypto_rdseed32 D s in (push_bit 32 (ucast h) OR ucast l, s))"

definition random_word :: "device \<Rightarrow> 'a hwcrypto_scheme \<Rightarrow> u32 \<times> 'a hwcrypto_scheme" where
  "random_word D s = (if hwcrypto_has_rdseed s \<noteq> 0 then hwcrypto_rdseed32 D s else hwcrypto_rdrand32 D s)"

definition put_random :: "nat \<Rightarrow> nat \<Rightarrow> u32 \<Rightarrow> u8 list \<Rightarrow> u8 list" where
  "put_random n offset v b = fold (\<lambda>i b. b[offset + i := ucast (drop_bit (8 * i) v)]) [0..<n] b"

fun fill_words :: "device \<Rightarrow> nat list \<Rightarrow> u8 list \<Rightarrow> 'a hwcrypto_scheme \<Rightarrow> bool \<times> u8 list \<times> 'a hwcrypto_scheme" where
  "fill_words D [] b s = (True, b, s)"
| "fill_words D (i # is') b s =
     (let (rand, s) = random_word D s
      in if rand = 0 \<and> rng_requests s < rng_failures s then (False, b, s)
         else fill_words D is' (put_random 4 (4 * i) rand b) s)"

definition hwcrypto_get_random_bytes ::
  "device \<Rightarrow> u8 list option \<Rightarrow> u32 \<Rightarrow> 'a hwcrypto_scheme \<Rightarrow> (u8 \<times> u8 list option \<times> 'a hwcrypto_scheme) option" where
  "hwcrypto_get_random_bytes D buffer len s =
     (if buffer = None \<or> len = 0 then Some (0, buffer, s)
      else if length (the buffer) < unat len then None
      else
        (let words = unat (len div 4);
             (ok, b, s) = fill_words D [0..<words] (the buffer) s
         in if \<not> ok then Some (0, Some b, s)
            else
              (let remaining = unat (len mod 4)
               in if remaining > 0 then
                    (let (rand, s) = random_word D s in Some (1, Some (put_random remaining (words * 4) rand b), s))
                  else Some (1, Some b, s))))"

text \<open>\<open>pclmulqdq\<close>: the product of polynomials over the field of two elements.\<close>

definition clmul :: "u64 \<Rightarrow> u64 \<Rightarrow> 128 word" where
  "clmul a b = fold (\<lambda>i r. if bit b i then r XOR push_bit i (ucast a) else r) [0..<64] 0"

definition hwcrypto_pclmul :: "u64 \<Rightarrow> u64 \<Rightarrow> u64 \<times> u64 \<Rightarrow> 'a hwcrypto_scheme \<Rightarrow> u8 \<times> u64 \<times> u64" where
  "hwcrypto_pclmul a b result s =
     (if hwcrypto_has_pclmulqdq s = 0 then (0, result)
      else (1, ucast (drop_bit 64 (clmul a b)), ucast (clmul a b)))"

section \<open>SHA-256\<close>

definition sha256_iv :: "u32 list" where
  "sha256_iv = [0x6a09e667, 0xbb67ae85, 0x3c6ef372, 0xa54ff53a, 0x510e527f, 0x9b05688c, 0x1f83d9ab, 0x5be0cd19]"

definition hwcrypto_sha256_init :: "sha256_ctx option \<Rightarrow> u8 \<times> sha256_ctx option" where
  "hwcrypto_sha256_init ctx = (case ctx of
     None \<Rightarrow> (0, None)
   | Some c \<Rightarrow> (1, Some (c\<lparr>sha_h := sha256_iv, sha_buffer_len := 0, sha_total_len := 0\<rparr>)))"

text \<open>Vector registers of four 32-bit words, lowest first.\<close>

definition load_dwords :: "nat \<Rightarrow> u8 list \<Rightarrow> u32 list" where
  "load_dwords offset b =
     map (\<lambda>i. let w = (\<lambda>j. ucast (b ! (offset + 4 * i + j)) :: u32)
               in w 0 OR push_bit 8 (w 1) OR push_bit 16 (w 2) OR push_bit 24 (w 3)) [0..<4]"

definition pshufd :: "u8 \<Rightarrow> u32 list \<Rightarrow> u32 list" where
  "pshufd imm x = map (\<lambda>i. x ! unat (take_bit 2 (drop_bit (2 * i) imm))) [0..<4]"

definition paddd :: "u32 list \<Rightarrow> u32 list \<Rightarrow> u32 list" where
  "paddd = map2 (+)"

definition sha_ch :: "u32 \<Rightarrow> u32 \<Rightarrow> u32 \<Rightarrow> u32" where "sha_ch x y z = (x AND y) XOR (NOT x AND z)"
definition sha_maj :: "u32 \<Rightarrow> u32 \<Rightarrow> u32 \<Rightarrow> u32" where "sha_maj x y z = (x AND y) XOR (x AND z) XOR (y AND z)"
definition sha_sum0 :: "u32 \<Rightarrow> u32" where "sha_sum0 x = word_rotr 2 x XOR word_rotr 13 x XOR word_rotr 22 x"
definition sha_sum1 :: "u32 \<Rightarrow> u32" where "sha_sum1 x = word_rotr 6 x XOR word_rotr 11 x XOR word_rotr 25 x"

fun sha_round :: "u32 \<Rightarrow> u32 list \<Rightarrow> u32 list" where
  "sha_round wk [a, b, c, d, e, f, g, h] =
     (let t = sha_ch e f g + sha_sum1 e + wk + h
      in [t + sha_maj a b c + sha_sum0 a, a, b, c, t + d, e, f, g])"
| "sha_round wk x = x"

text \<open>Two rounds: the words \<open>a\<close>, \<open>b\<close>, \<open>e\<close>, \<open>f\<close> of the state are in the source, \<open>c\<close>, \<open>d\<close>, \<open>g\<close>, \<open>h\<close> in the destination, and
  the message with its constants in the lower half of \<open>xmm0\<close>, an implicit operand.\<close>

definition sha256rnds2 :: "u32 list \<Rightarrow> u32 list \<Rightarrow> u32 list \<Rightarrow> u32 list" where
  "sha256rnds2 xmm0 src dst =
     (let x = sha_round (xmm0 ! 1) (sha_round (xmm0 ! 0)
                [src ! 3, src ! 2, dst ! 3, dst ! 2, src ! 1, src ! 0, dst ! 1, dst ! 0])
      in [x ! 5, x ! 4, x ! 1, x ! 0])"

definition shani_block :: "u32 list \<Rightarrow> u8 list \<Rightarrow> u32 list" where
  "shani_block h block =
     (let xmm0 = take 4 h; xmm1 = take 4 (drop 4 h);
          xmm4 = xmm0; xmm5 = xmm1;
          xmm2 = load_dwords 0 block; xmm3 = load_dwords 16 block;
          xmm2 = pshufd 0x1B xmm2; xmm3 = pshufd 0x1B xmm3;
          xmm2 = paddd xmm2 (take 4 sha256_k);
          xmm0 = sha256rnds2 xmm0 xmm1 xmm0;
          xmm2 = pshufd 0x0E xmm2;
          xmm1 = sha256rnds2 xmm0 xmm0 xmm1;
          xmm0 = paddd xmm0 xmm4; xmm1 = paddd xmm1 xmm5
      in xmm0 @ xmm1)"

definition sha256_process_block_shani :: "bool \<Rightarrow> u32 list \<Rightarrow> u8 list \<Rightarrow> u32 list" where
  "sha256_process_block_shani has_shani h block = (if \<not> has_shani then h else shani_block h block)"

text \<open>The loop of \<open>hwcrypto_sha256_update\<close> over the bytes that are left; \<open>False\<close> is the early return for want of
  instructions. A buffer length above 64 would be an access outside the buffer.\<close>

definition sha_take :: "nat \<Rightarrow> u8 list \<Rightarrow> sha256_ctx \<Rightarrow> sha256_ctx" where
  "sha_take n data c =
     c\<lparr>sha_buffer := fold (\<lambda>i b. b[unat (sha_buffer_len c) + i := data ! i]) [0..<n] (sha_buffer c),
       sha_buffer_len := sha_buffer_len c + of_nat n, sha_total_len := sha_total_len c + of_nat n\<rparr>"

function sha_feed ::
  "(u32 list \<Rightarrow> u8 list \<Rightarrow> u32 list) \<Rightarrow> bool \<Rightarrow> u8 list \<Rightarrow> sha256_ctx \<Rightarrow> (bool \<times> sha256_ctx) option" where
  "sha_feed blk has_shani data c =
     (if data = [] then Some (True, c)
      else if 64 < unat (sha_buffer_len c) then None
      else
        (let n = min (length data) (64 - unat (sha_buffer_len c)); c = sha_take n data c; data = drop n data
         in if sha_buffer_len c = 64 then
              (if has_shani then
                 sha_feed blk has_shani data (c\<lparr>sha_h := blk (sha_h c) (sha_buffer c), sha_buffer_len := 0\<rparr>)
               else Some (False, c))
            else sha_feed blk has_shani data c))"
  by auto
termination
proof (relation "measure (\<lambda>(blk, q, data, c). 2 * length data + (if sha_buffer_len c = 64 then 1 else 0))", goal_cases)
  case 1
  then show ?case by simp
next
  case (2 blk q data c)
  then show ?case by (cases "sha_buffer_len c = 64") (auto simp: sha_take_def Let_def word_unat_eq_iff min_def)
next
  case (3 blk q data c)
  then show ?case by (cases "sha_buffer_len c = 64") (auto simp: sha_take_def Let_def word_unat_eq_iff min_def)
qed

declare sha_feed.simps [simp del]

definition hwcrypto_sha256_update ::
  "(u32 list \<Rightarrow> u8 list \<Rightarrow> u32 list) \<Rightarrow> device \<Rightarrow> sha256_ctx option \<Rightarrow> u8 list option \<Rightarrow> u32 \<Rightarrow> 'a hwcrypto_scheme \<Rightarrow>
   (u8 \<times> sha256_ctx option \<times> 'a hwcrypto_scheme) option" where
  "hwcrypto_sha256_update blk D ctx data len s =
     (case (ctx, data) of
        (Some c, Some d) \<Rightarrow>
          if length d < unat len then None
          else
            (let (start_cycles, s) = rd D Tsc s
             in do {
                  (ok, c) \<leftarrow> sha_feed blk (hwcrypto_has_shani s \<noteq> 0) (take (unat len) d) c;
                  if \<not> ok then Some (0, Some c, s)
                  else
                    (let (now, s) = rd D Tsc s
                     in Some (1, Some c, s\<lparr>sha_ops_count := sha_ops_count s + 1,
                          avg_hash_cycles := average_cycles (avg_hash_cycles s) (now - start_cycles)\<rparr>)) })
      | _ \<Rightarrow> Some (0, ctx, s))"

definition zero_fill :: "nat \<Rightarrow> sha256_ctx \<Rightarrow> sha256_ctx" where
  "zero_fill n c =
     c\<lparr>sha_buffer := fold (\<lambda>i b. b[i := 0]) [unat (sha_buffer_len c)..<n] (sha_buffer c),
       sha_buffer_len := of_nat (max n (unat (sha_buffer_len c)))\<rparr>"

definition put_length :: "sha256_ctx \<Rightarrow> sha256_ctx" where
  "put_length c =
     (let bit_len = sha_total_len c * 8
      in c\<lparr>sha_buffer := fold (\<lambda>i b. b[56 + i := ucast (drop_bit ((7 - i) * 8) bit_len)]) [0..<8] (sha_buffer c)\<rparr>)"

definition digest :: "u32 list \<Rightarrow> u8 list" where
  "digest h = concat (map (\<lambda>x. [ucast (drop_bit 24 x), ucast (drop_bit 16 x), ucast (drop_bit 8 x), ucast x]) h)"

definition hwcrypto_sha256_final ::
  "(u32 list \<Rightarrow> u8 list \<Rightarrow> u32 list) \<Rightarrow> sha256_ctx option \<Rightarrow> u8 list option \<Rightarrow> 'a hwcrypto_scheme \<Rightarrow>
   (u8 \<times> sha256_ctx option \<times> u8 list option \<times> 'a hwcrypto_scheme) option" where
  "hwcrypto_sha256_final blk ctx hash s =
     (case (ctx, hash) of
        (Some c, Some out) \<Rightarrow>
          if 64 \<le> unat (sha_buffer_len c) then None
          else
            (let c = c\<lparr>sha_buffer := (sha_buffer c)[unat (sha_buffer_len c) := 0x80], sha_buffer_len := sha_buffer_len c + 1\<rparr>;
                 has_shani = (hwcrypto_has_shani s \<noteq> 0);
                 full = (56 < sha_buffer_len c);
                 c = (if full then zero_fill 64 c else c)
             in if full \<and> \<not> has_shani then Some (0, Some c, hash, s)
                else
                  (let c = (if full then c\<lparr>sha_h := blk (sha_h c) (sha_buffer c), sha_buffer_len := 0\<rparr> else c);
                       c = put_length (zero_fill 56 c)
                   in if \<not> has_shani then Some (0, Some c, hash, s)
                      else if length out < 32 then None
                      else
                        (let c = c\<lparr>sha_h := blk (sha_h c) (sha_buffer c)\<rparr>
                         in Some (1, Some c, Some (digest (take 8 (sha_h c)) @ drop 32 out),
                              s\<lparr>total_bytes_hashed := total_bytes_hashed s + sha_total_len c\<rparr>))))
      | _ \<Rightarrow> Some (0, ctx, hash, s))"

definition hwcrypto_sha256_oneshot ::
  "(u32 list \<Rightarrow> u8 list \<Rightarrow> u32 list) \<Rightarrow> device \<Rightarrow> sha256_ctx \<Rightarrow> u8 list option \<Rightarrow> u32 \<Rightarrow> u8 list option \<Rightarrow> 'a hwcrypto_scheme \<Rightarrow>
   (u8 \<times> u8 list option \<times> 'a hwcrypto_scheme) option" where
  "hwcrypto_sha256_oneshot blk D ctx data len hash s =
     (let (_, ctx) = hwcrypto_sha256_init (Some ctx)
      in do {
           (ok, ctx, s) \<leftarrow> hwcrypto_sha256_update blk D ctx data len s;
           if ok = 0 then Some (0, hash, s)
           else do {
             (ok, ctx, hash, s) \<leftarrow> hwcrypto_sha256_final blk ctx hash s;
             Some (if ok = 0 then 0 else 1, hash, s) } })"

section \<open>Measurements and the self test\<close>

definition the_block :: "'a hwcrypto_scheme \<Rightarrow> u32 list \<Rightarrow> u8 list \<Rightarrow> u32 list" where
  "the_block s = sha256_process_block_shani (hwcrypto_has_shani s \<noteq> 0)"

fun repeated :: "nat \<Rightarrow> ('s \<Rightarrow> 's option) \<Rightarrow> 's \<Rightarrow> 's option" where
  "repeated 0 f s = Some s"
| "repeated (Suc n) f s = do { s \<leftarrow> f s; repeated n f s }"

definition hwcrypto_get_stats :: "'a hwcrypto_scheme \<Rightarrow> u32 list \<times> u64 list" where
  "hwcrypto_get_stats s =
     ([hc_capabilities s, aes_ops_count s, sha_ops_count s, rng_requests s, rng_failures s, avg_encrypt_cycles s, avg_hash_cycles s],
      [total_bytes_encrypted s, total_bytes_hashed s])"

definition test_key :: "u8 list" where
  "test_key = [0x2b, 0x7e, 0x15, 0x16, 0x28, 0xae, 0xd2, 0xa6, 0xab, 0xf7, 0x15, 0x88, 0x09, 0xcf, 0x4f, 0x3c]"

definition test_plaintext :: "u8 list" where
  "test_plaintext = [0x32, 0x43, 0xf6, 0xa8, 0x88, 0x5a, 0x30, 0x8d, 0x31, 0x31, 0x98, 0xa2, 0xe0, 0x37, 0x07, 0x34]"

text \<open>\<open>ctx\<close>, \<open>ciphertext\<close> and \<open>hash\<close> are what happens to be on the stack; without iterations the code divides by zero.\<close>

definition hwcrypto_benchmark_aes ::
  "device \<Rightarrow> u32 \<Rightarrow> aes_ctx \<Rightarrow> u8 list \<Rightarrow> 'a hwcrypto_scheme \<Rightarrow> (u32 \<times> 'a hwcrypto_scheme) option" where
  "hwcrypto_benchmark_aes D iterations ctx ciphertext s =
     (if hwcrypto_has_aesni s = 0 then Some (0, s)
      else do {
        (ok, ctx) \<leftarrow> hwcrypto_aes_init ctx test_key AES_KEY_128 s;
        if ok = 0 then Some (0, s)
        else
          (let (start_cycles, s) = rd D Tsc s
           in do {
                (_, s) \<leftarrow> repeated (unat iterations)
                  (\<lambda>(out, s). do { (_, out, s) \<leftarrow> hwcrypto_aes_encrypt_block D ctx test_plaintext out s; Some (out, s) })
                  (ciphertext, s);
                (let (end_cycles, s) = rd D Tsc s
                 in if iterations = 0 then None
                    else Some (ucast ((end_cycles - start_cycles :: u64) div ucast iterations), s)) }) })"

definition test_data :: "u8 list" where
  "test_data = cstr ''The quick brown fox jumps over the lazy dog. Test message.'' @ replicate 6 0"

definition hwcrypto_benchmark_sha256 ::
  "device \<Rightarrow> u32 \<Rightarrow> sha256_ctx \<Rightarrow> u8 list \<Rightarrow> 'a hwcrypto_scheme \<Rightarrow> (u32 \<times> 'a hwcrypto_scheme) option" where
  "hwcrypto_benchmark_sha256 D iterations ctx hash s =
     (if hwcrypto_has_shani s = 0 then Some (0, s)
      else
        (let (start_cycles, s) = rd D Tsc s
         in do {
              (_, s) \<leftarrow> repeated (unat iterations)
                (\<lambda>(hash, s). do {
                   (_, hash, s) \<leftarrow> hwcrypto_sha256_oneshot (the_block s) D ctx (Some test_data) 58 hash s; Some (hash, s) })
                (Some hash, s);
              (let (end_cycles, s) = rd D Tsc s
               in if iterations = 0 then None
                  else Some (ucast ((end_cycles - start_cycles :: u64) div ucast iterations), s)) }))"

definition hwcrypto_get_capability_name :: "u32 \<Rightarrow> string" where
  "hwcrypto_get_capability_name cap_bit =
     (if cap_bit = 0 then ''AES-NI'' else if cap_bit = 1 then ''SHA-NI'' else if cap_bit = 2 then ''PCLMULQDQ''
      else if cap_bit = 3 then ''RDRAND'' else if cap_bit = 4 then ''RDSEED'' else if cap_bit = 5 then ''GFNI''
      else if cap_bit = 6 then ''VAES'' else if cap_bit = 7 then ''VPCLMULQDQ'' else ''Unknown'')"

text \<open>The loop of \<open>hwcrypto_print_capabilities\<close> has an empty body.\<close>

definition hwcrypto_print_capabilities :: "'a hwcrypto_scheme \<Rightarrow> 'a hwcrypto_scheme" where
  "hwcrypto_print_capabilities s = s"

definition aes_expected :: "u8 list" where
  "aes_expected = [0x39, 0x25, 0x84, 0x1d, 0x02, 0xdc, 0x09, 0xfb, 0xdc, 0x11, 0x85, 0x97, 0x19, 0x6a, 0x0b, 0x32]"

definition sha_expected :: "u8 list" where
  "sha_expected =
     [0xba, 0x78, 0x16, 0xbf, 0x8f, 0x01, 0xcf, 0xea, 0x41, 0x41, 0x40, 0xde, 0x5d, 0xae, 0x22, 0x23,
      0xb0, 0x03, 0x61, 0xa3, 0x96, 0x17, 0x7a, 0x9c, 0xb4, 0x10, 0xff, 0x61, 0xf2, 0x00, 0x15, 0xad]"

definition self_test_aes ::
  "device \<Rightarrow> aes_ctx \<Rightarrow> u8 list \<Rightarrow> 'a hwcrypto_scheme \<Rightarrow> (bool \<times> 'a hwcrypto_scheme) option" where
  "self_test_aes D ctx ciphertext s =
     (if hwcrypto_has_aesni s = 0 then Some (True, s)
      else do {
        (ok1, ctx) \<leftarrow> hwcrypto_aes_init ctx test_key AES_KEY_128 s;
        (ok2, out, s) \<leftarrow> hwcrypto_aes_encrypt_block D ctx test_plaintext ciphertext s;
        Some (ok1 \<noteq> 0 \<and> ok2 \<noteq> 0 \<and> take 16 out = aes_expected, s) })"

definition self_test_sha ::
  "device \<Rightarrow> sha256_ctx \<Rightarrow> u8 list \<Rightarrow> 'a hwcrypto_scheme \<Rightarrow> (bool \<times> 'a hwcrypto_scheme) option" where
  "self_test_sha D ctx hash s =
     (if hwcrypto_has_shani s = 0 then Some (True, s)
      else do {
        (ok, hash, s) \<leftarrow> hwcrypto_sha256_oneshot (the_block s) D ctx (Some (cstr ''abc'' @ [0])) 3 (Some hash) s;
        Some (ok \<noteq> 0 \<and> take 32 (the hash) = sha_expected, s) })"

definition self_test_rng :: "device \<Rightarrow> 'a hwcrypto_scheme \<Rightarrow> bool \<times> 'a hwcrypto_scheme" where
  "self_test_rng D s =
     (if hwcrypto_has_rdrand s = 0 then (True, s)
      else (let (rand1, s) = hwcrypto_rdrand32 D s; (rand2, s) = hwcrypto_rdrand32 D s
            in (\<not> (rand1 = 0 \<and> rand2 = 0) \<and> rand1 \<noteq> rand2, s)))"

definition hwcrypto_self_test ::
  "device \<Rightarrow> aes_ctx \<Rightarrow> u8 list \<Rightarrow> sha256_ctx \<Rightarrow> u8 list \<Rightarrow> 'a hwcrypto_scheme \<Rightarrow> (u8 \<times> 'a hwcrypto_scheme) option" where
  "hwcrypto_self_test D actx ciphertext sctx hash s = do {
     (aes, s) \<leftarrow> self_test_aes D actx ciphertext s;
     (sha, s) \<leftarrow> self_test_sha D sctx hash s;
     (let (rng, s) = self_test_rng D s in Some (c_bool (aes \<and> sha \<and> rng), s)) }"

section \<open>AES blocks\<close>

definition aes0 :: aes_ctx where
  "aes0 = \<lparr>aes_key = replicate 32 0, aes_key_len = 0, aes_rounds = 0, expanded_key = replicate 240 0\<rparr>"

definition hwcrypto0 :: hwcrypto where
  "hwcrypto0 = \<lparr>trace = [], hc_capabilities = 0, aes_ops_count = 0, sha_ops_count = 0, rng_requests = 0, rng_failures = 0,
     total_bytes_encrypted = 0, total_bytes_hashed = 0, avg_encrypt_cycles = 0, avg_hash_cycles = 0, hwcrypto_caps = 3\<rparr>"

lemma has_upd [simp]:
  "hwcrypto_has_aesni (s\<lparr>trace := tr\<rparr>) = hwcrypto_has_aesni s" "hwcrypto_has_shani (s\<lparr>trace := tr\<rparr>) = hwcrypto_has_shani s"
  "hwcrypto_has_rdrand (s\<lparr>trace := tr\<rparr>) = hwcrypto_has_rdrand s" "hwcrypto_has_rdseed (s\<lparr>trace := tr\<rparr>) = hwcrypto_has_rdseed s"
  by (simp_all add: hwcrypto_has_aesni_def hwcrypto_has_shani_def hwcrypto_has_rdrand_def hwcrypto_has_rdseed_def)

lemma shani_block_ignores: "shani_block h b = shani_block h b'"
  by (simp add: shani_block_def)

lemma sha_abc_differs:
  "digest (shani_block sha256_iv (replicate 64 0)) \<noteq> sha_expected"
  by code_simp

section \<open>The buffering of a hash\<close>

text \<open>The full blocks of a message, and what is left.\<close>

fun chunks :: "u8 list \<Rightarrow> u8 list list" where
  "chunks m = (if length m < 64 then [] else take 64 m # chunks (drop 64 m))"

fun remainder :: "u8 list \<Rightarrow> u8 list" where
  "remainder m = (if length m < 64 then m else remainder (drop 64 m))"

declare chunks.simps [simp del] remainder.simps [simp del]

lemma chunks_short [simp]: "length m < 64 \<Longrightarrow> chunks m = []" "length m < 64 \<Longrightarrow> remainder m = m"
  by (subst chunks.simps, simp) (subst remainder.simps, simp)

lemma chunks_one: "length m = 64 \<Longrightarrow> chunks (m @ x) = m # chunks x" "length m = 64 \<Longrightarrow> remainder (m @ x) = remainder x"
  by (subst chunks.simps, simp) (subst remainder.simps, simp)

lemma chunks_append: "chunks (m @ x) = chunks m @ chunks (remainder m @ x) \<and> remainder (m @ x) = remainder (remainder m @ x)"
proof (induction m rule: chunks.induct)
  case (1 m)
  show ?case
  proof (cases "length m < 64")
    case False
    then have m: "length (take 64 m) = 64" by simp
    have "chunks (m @ x) = take 64 m # chunks (drop 64 m @ x)" "remainder (m @ x) = remainder (drop 64 m @ x)"
      using chunks_one [OF m, of "drop 64 m @ x"] by (simp_all only: append_assoc [symmetric] append_take_drop_id)
    moreover have "chunks m = take 64 m # chunks (drop 64 m)" "remainder m = remainder (drop 64 m)"
      using False by (simp_all add: chunks.simps [of m] remainder.simps [of m])
    ultimately show ?thesis using 1 False by simp
  qed simp
qed

lemma length_remainder: "length (remainder m) = length m mod 64"
proof (induction m rule: remainder.induct)
  case (1 m)
  then show ?case
    by (cases "length m < 64") (simp_all add: remainder.simps [of m] le_mod_geq)
qed

lemma unat_u32: "n < 2 ^ 32 \<Longrightarrow> unat (of_nat n :: u32) = n"
  by (simp add: unsigned_of_nat take_bit_nat_eq_self)

lemma fold_write:
  "k + n \<le> length b \<Longrightarrow> fold (\<lambda>i b. b[k + i := f i]) [0..<n] b = take k b @ map f [0..<n] @ drop (k + n) b"
proof (induction n)
  case (Suc n)
  then have "drop (k + n) b = b ! (k + n) # drop (Suc (k + n)) b" by (simp add: Cons_nth_drop_Suc)
  then show ?case using Suc by (simp add: list_update_append)
qed simp

lemma fold_zero:
  "k \<le> n \<Longrightarrow> n \<le> length b \<Longrightarrow> fold (\<lambda>i b. b[i := 0]) [k..<n] b = take k b @ replicate (n - k) 0 @ drop n b"
  for b :: "u8 list"
proof -
  assume "k \<le> n" "n \<le> length b"
  moreover have "[k..<n] = map (\<lambda>i. k + i) [0..<n - k]"
    using \<open>k \<le> n\<close> by (intro nth_equalityI) simp_all
  ultimately show ?thesis
    using fold_write [of k "n - k" b "\<lambda>_. 0"] by (simp add: fold_map comp_def map_replicate_const)
qed

text \<open>What a context holds after the bytes \<open>m\<close>.\<close>

definition absorb :: "(u32 list \<Rightarrow> u8 list \<Rightarrow> u32 list) \<Rightarrow> u8 list \<Rightarrow> u32 list \<Rightarrow> u32 list" where
  "absorb blk m h = fold (\<lambda>b h. blk h b) (chunks m) h"

definition sha_holds :: "(u32 list \<Rightarrow> u8 list \<Rightarrow> u32 list) \<Rightarrow> u8 list \<Rightarrow> sha256_ctx \<Rightarrow> bool" where
  "sha_holds blk m c \<longleftrightarrow> length (sha_buffer c) = 64 \<and> sha_h c = absorb blk m sha256_iv \<and>
     unat (sha_buffer_len c) = length (remainder m) \<and> take (length (remainder m)) (sha_buffer c) = remainder m \<and>
     sha_total_len c = of_nat (length m)"

lemma sha_holds_init: "length (sha_buffer c) = 64 \<Longrightarrow>
    sha_holds blk [] (c\<lparr>sha_h := sha256_iv, sha_buffer_len := 0, sha_total_len := 0\<rparr>)"
  by (simp add: sha_holds_def absorb_def)

lemma sha_take_holds:
  assumes "sha_holds blk m c" "n = min (length data) (64 - unat (sha_buffer_len c))" "data \<noteq> []"
  shows "0 < n" "sha_buffer_len (sha_take n data c) = of_nat (length (remainder m) + n)"
    "take (length (remainder m) + n) (sha_buffer (sha_take n data c)) = remainder m @ take n data"
    "length (sha_buffer (sha_take n data c)) = 64" "length (remainder m) + n \<le> 64"
    "sha_h (sha_take n data c) = sha_h c" "sha_total_len (sha_take n data c) = of_nat (length m + n)"
proof -
  let ?r = "length (remainder m)"
  have r: "?r < 64" by (simp add: length_remainder)
  have c: "unat (sha_buffer_len c) = ?r" "length (sha_buffer c) = 64" "take ?r (sha_buffer c) = remainder m"
    "sha_total_len c = of_nat (length m)"
    using assms(1) by (simp_all add: sha_holds_def)
  then have l: "sha_buffer_len c = of_nat ?r" using r by (simp add: word_unat_eq_iff unat_u32)
  show n: "0 < n" "?r + n \<le> 64" using assms(2,3) r c(1) by auto
  have "map ((!) data) [0..<n] = take n data" using assms(2) by (simp add: map_nth list_eq_iff_nth_eq)
  then have "sha_buffer (sha_take n data c) = remainder m @ take n data @ drop (?r + n) (sha_buffer c)"
    using fold_write [of ?r n "sha_buffer c" "(!) data"] n(2) c by (simp add: sha_take_def)
  then show "take (?r + n) (sha_buffer (sha_take n data c)) = remainder m @ take n data"
    "length (sha_buffer (sha_take n data c)) = 64" using assms(2) n(2) c(2) by simp_all
  show "sha_buffer_len (sha_take n data c) = of_nat (?r + n)" "sha_h (sha_take n data c) = sha_h c"
    "sha_total_len (sha_take n data c) = of_nat (length m + n)"
    using c(4) by (simp_all add: sha_take_def l)
qed

lemma sha_feed_holds:
  "sha_holds blk m c \<Longrightarrow> \<exists>c'. sha_feed blk True data c = Some (True, c') \<and> sha_holds blk (m @ data) c'"
proof (induction "length data" arbitrary: m c data rule: less_induct)
  case less
  show ?case
  proof (cases "data = []")
    case True
    with less.prems show ?thesis by (simp add: sha_feed.simps)
  next
    case False
    define n where "n = min (length data) (64 - unat (sha_buffer_len c))"
    note t = sha_take_holds [OF less.prems n_def False]
    let ?r = "length (remainder m)" and ?c = "sha_take n data c" and ?x = "remainder m @ take n data"
    have x: "length ?x = ?r + n" using n_def by simp
    have parts: "absorb blk (m @ take n data) h = absorb blk ?x (absorb blk m h)" "remainder (m @ take n data) = remainder ?x" for h
      using chunks_append [of m "take n data"] by (simp_all add: absorb_def)
    have len: "length (m @ take n data) = length m + n" "\<not> 64 < unat (sha_buffer_len c)"
      using n_def less.prems t(5) by (simp_all add: sha_holds_def)
    have shorter: "length (drop n data) < length data" using t(1) False by (cases data) auto
    have u: "unat (sha_buffer_len ?c) = ?r + n" using t(5) unat_u32 [of "?r + n"] by (simp only: t(2)) simp
    then have full: "sha_buffer_len ?c = 64 \<longleftrightarrow> ?r + n = 64" by (simp add: word_unat_eq_iff)
    define c' where "c' = (if ?r + n = 64 then ?c\<lparr>sha_h := blk (sha_h ?c) (sha_buffer ?c), sha_buffer_len := 0\<rparr> else ?c)"
    have step: "sha_feed blk True data c = sha_feed blk True (drop n data) c'"
      using False len(2) full by (subst sha_feed.simps) (simp add: n_def [symmetric] c'_def Let_def)
    have "sha_holds blk (m @ take n data) c'"
    proof (cases "?r + n = 64")
      case True
      then have "chunks ?x = [?x]" "remainder ?x = []" using chunks_one [of ?x "[]"] x by simp_all
      then show ?thesis using True t x parts len less.prems by (simp add: sha_holds_def c'_def absorb_def)
    next
      case False
      then have "length ?x < 64" using t(5) x by simp
      then show ?thesis using False t(1,3-7) u x parts len less.prems by (simp add: sha_holds_def c'_def absorb_def)
    qed
    from less.hyps [OF shorter this] show ?thesis by (simp add: step)
  qed
qed

text \<open>The message with its padding and its length in bits, as the standard has it.\<close>

definition length_bytes :: "nat \<Rightarrow> u8 list" where
  "length_bytes n = map (\<lambda>i. ucast (drop_bit ((7 - i) * 8) (of_nat n * 8 :: u64))) [0..<8]"

definition padded :: "u8 list \<Rightarrow> u8 list" where
  "padded m = m @ 0x80 # replicate ((119 - length m mod 64) mod 64) 0 @ length_bytes (length m)"

lemma length_length_bytes [simp]: "length (length_bytes n) = 8"
  by (simp add: length_bytes_def)

lemma absorb_padded:
  "absorb blk (padded m) h =
    (if length (remainder m) \<le> 55
     then blk (absorb blk m h) (remainder m @ 0x80 # replicate (55 - length (remainder m)) 0 @ length_bytes (length m))
     else blk (blk (absorb blk m h) (remainder m @ 0x80 # replicate (63 - length (remainder m)) 0))
       (replicate 56 0 @ length_bytes (length m)))"
proof -
  let ?r = "remainder m" and ?z = "(119 - length m mod 64) mod 64"
  have r: "length m mod 64 = length ?r" "length ?r < 64" by (simp_all add: length_remainder)
  have "chunks (padded m) = chunks m @ chunks (?r @ 0x80 # replicate ?z 0 @ length_bytes (length m))"
    unfolding padded_def by (rule chunks_append [THEN conjunct1])
  moreover have "chunks (?r @ 0x80 # replicate ?z 0 @ length_bytes (length m)) =
    (if length ?r \<le> 55 then [?r @ 0x80 # replicate (55 - length ?r) 0 @ length_bytes (length m)]
     else [?r @ 0x80 # replicate (63 - length ?r) 0, replicate 56 0 @ length_bytes (length m)])"
  proof (cases "length ?r \<le> 55")
    case True
    then have "?z = 55 - length ?r" using r by (simp add: mod_if)
    then show ?thesis
      using True chunks_one [of "?r @ 0x80 # replicate (55 - length ?r) 0 @ length_bytes (length m)" "[]"] by simp
  next
    case False
    then have "?z = (63 - length ?r) + 56" using r by simp
    then have "?r @ 0x80 # replicate ?z 0 @ length_bytes (length m) =
        (?r @ 0x80 # replicate (63 - length ?r) 0) @ (replicate 56 0 @ length_bytes (length m)) @ []"
      by (simp only: replicate_add) simp
    then show ?thesis
      using False r(2) chunks_one [of "?r @ 0x80 # replicate (63 - length ?r) 0"] chunks_one [of "replicate 56 0 @ length_bytes (length m)" "[]"]
      by simp
  qed
  ultimately show ?thesis by (simp add: absorb_def)
qed

lemma length_absorb:
  assumes "\<And>h b. length h = 8 \<Longrightarrow> length (blk h b) = 8" "length h = 8"
  shows "length (absorb blk m h) = 8"
proof -
  have "length h = 8 \<Longrightarrow> length (fold (\<lambda>b h. blk h b) bs h) = 8" for bs h
    by (induction bs arbitrary: h) (simp_all add: assms(1))
  then show ?thesis using assms(2) by (simp add: absorb_def)
qed

lemma sha_final_digest:
  assumes c: "sha_holds blk m c" and s: "hwcrypto_has_shani s \<noteq> 0" and out: "length out = 32"
    and blk: "\<And>h b. length h = 8 \<Longrightarrow> length (blk h b) = 8"
  shows "\<exists>c'. hwcrypto_sha256_final blk (Some c) (Some out) s =
    Some (1, Some c', Some (digest (absorb blk (padded m) sha256_iv)),
      s\<lparr>total_bytes_hashed := total_bytes_hashed s + of_nat (length m)\<rparr>)"
proof -
  let ?r = "remainder m" and ?n = "unat (sha_buffer_len c)"
  define b where "b = sha_buffer c"
  have "length (absorb blk (padded m) sha256_iv) = 8" by (rule length_absorb [OF blk]) (simp_all add: sha256_iv_def)
  then have dig: "take 8 (absorb blk (padded m) sha256_iv) = absorb blk (padded m) sha256_iv" by simp
  have n: "?n = length ?r" "length ?r < 64" "length b = 64" "take (length ?r) b = ?r" "sha_h c = absorb blk m sha256_iv"
    "sha_total_len c = of_nat (length m)"
    using c by (simp_all add: sha_holds_def length_remainder b_def)
  have len: "sha_buffer_len c = of_nat (length ?r)" using n(1,2) by (simp add: word_unat_eq_iff unat_u32)
  have n1: "unat (sha_buffer_len c + 1) = length ?r + 1" using n(2) unat_u32 [of "length ?r + 1"] by (simp add: len add.commute)
  then have full: "56 < sha_buffer_len c + 1 \<longleftrightarrow> 55 < length ?r" by (simp add: word_less_nat_alt)
  have b1: "take (length ?r + 1) (b[length ?r := 0x80]) = ?r @ [0x80]"
    using n(2-4) by (simp add: take_update_swap list_update_append take_Suc_conv_app_nth)
  have lb: "fold (\<lambda>i b. b[56 + i := ucast (drop_bit ((7 - i) * 8) (of_nat (length m) * 8 :: u64))]) [0..<8] x =
      take 56 x @ length_bytes (length m)" if "length x = 64" for x
    using fold_write [of 56 8 x] that by (simp add: length_bytes_def)
  show ?thesis
  proof (cases "55 < length ?r")
    case True
    have z: "fold (\<lambda>i b. b[i := 0]) [length ?r + 1..<64] (b[length ?r := 0x80]) = ?r @ 0x80 # replicate (63 - length ?r) 0"
      using fold_zero [of "length ?r + 1" 64 "b[length ?r := 0x80]"] n(2,3) b1 by simp
    have "fold (\<lambda>i b. b[i := 0]) [0..<56] (?r @ 0x80 # replicate (63 - length ?r) 0) =
        replicate 56 0 @ drop 56 (?r @ 0x80 # replicate (63 - length ?r) 0)"
      using fold_zero [of 0 56 "?r @ 0x80 # replicate (63 - length ?r) 0"] n(2) by simp
    then show ?thesis
      using True s out n dig n1 full z lb [of "replicate 56 0 @ drop 56 (?r @ 0x80 # replicate (63 - length ?r) 0)"]
      by (simp add: hwcrypto_sha256_final_def zero_fill_def put_length_def absorb_padded b_def [symmetric] Let_def)
  next
    case False
    have z: "fold (\<lambda>i b. b[i := 0]) [length ?r + 1..<56] (b[length ?r := 0x80]) =
        ?r @ 0x80 # replicate (55 - length ?r) 0 @ drop 56 (b[length ?r := 0x80])"
      using fold_zero [of "length ?r + 1" 56 "b[length ?r := 0x80]"] n(2,3) b1 False by simp
    moreover have "take (56 - length ?r) ((0x80 :: u8) # replicate (55 - length ?r) 0 @ x) = 0x80 # replicate (55 - length ?r) 0" for x
      using False by (simp add: take_Cons')
    ultimately show ?thesis
      using False s out n dig n1 full lb [of "?r @ 0x80 # replicate (55 - length ?r) 0 @ drop 56 (b[length ?r := 0x80])"]
      by (simp add: hwcrypto_sha256_final_def zero_fill_def put_length_def absorb_padded b_def [symmetric] Let_def)
  qed
qed

text \<open>A message that comes in pieces.\<close>

fun sha_updates ::
  "(u32 list \<Rightarrow> u8 list \<Rightarrow> u32 list) \<Rightarrow> device \<Rightarrow> sha256_ctx option \<Rightarrow> u8 list list \<Rightarrow> 'a hwcrypto_scheme \<Rightarrow>
   (sha256_ctx option \<times> 'a hwcrypto_scheme) option" where
  "sha_updates blk D ctx [] s = Some (ctx, s)"
| "sha_updates blk D ctx (p # ps) s = do {
     (_, ctx, s) \<leftarrow> hwcrypto_sha256_update blk D ctx (Some p) (of_nat (length p)) s;
     sha_updates blk D ctx ps s }"

lemma has_stats [simp]:
  "hwcrypto_has_shani (s\<lparr>sha_ops_count := n\<rparr>) = hwcrypto_has_shani s"
  "hwcrypto_has_shani (s\<lparr>avg_hash_cycles := a\<rparr>) = hwcrypto_has_shani s"
  by (simp_all add: hwcrypto_has_shani_def)

lemma sha_update_holds:
  assumes "sha_holds blk m c" "hwcrypto_has_shani s \<noteq> 0" "length p < 2 ^ 32"
  shows "\<exists>c' t. hwcrypto_sha256_update blk D (Some c) (Some p) (of_nat (length p)) s = Some (1, Some c', t) \<and>
    sha_holds blk (m @ p) c' \<and> hwcrypto_has_shani t \<noteq> 0"
proof -
  obtain c' where "sha_feed blk True p c = Some (True, c')" "sha_holds blk (m @ p) c'"
    using sha_feed_holds [OF assms(1)] by blast
  then show ?thesis using assms(2,3) by (simp add: hwcrypto_sha256_update_def bus unat_u32)
qed

lemma sha_updates_holds:
  assumes "sha_holds blk m c" "hwcrypto_has_shani s \<noteq> 0" "\<forall>p \<in> set ps. length p < 2 ^ 32"
  shows "\<exists>c' t. sha_updates blk D (Some c) ps s = Some (Some c', t) \<and> sha_holds blk (m @ concat ps) c' \<and> hwcrypto_has_shani t \<noteq> 0"
  using assms
proof (induction ps arbitrary: m c s)
  case (Cons p ps)
  then obtain c' t where "hwcrypto_sha256_update blk D (Some c) (Some p) (of_nat (length p)) s = Some (1, Some c', t)"
    "sha_holds blk (m @ p) c'" "hwcrypto_has_shani t \<noteq> 0"
    using sha_update_holds [of blk m c s p D] by auto
  with Cons show ?case by fastforce
qed auto

text \<open>C33: The buffering of the hash is that of the standard, whatever function processes the blocks: a message fed in
  pieces of any lengths, empty ones included, gives the digest of the fold of that function over the blocks of the padded
  message, and so the same digest as in one piece.\<close>

theorem hwcrypto_sha256_streams:
  assumes "hwcrypto_has_shani s \<noteq> 0" "\<forall>p \<in> set ps. length p < 2 ^ 32" "length (sha_buffer c) = 64" "length out = 32"
    "\<And>h b. length h = 8 \<Longrightarrow> length (blk h b) = 8"
  shows "\<exists>c1 t c2 u. sha_updates blk D (snd (hwcrypto_sha256_init (Some c))) ps s = Some (c1, t) \<and>
    hwcrypto_sha256_final blk c1 (Some out) t =
      Some (1, c2, Some (digest (fold (\<lambda>b h. blk h b) (chunks (padded (concat ps))) sha256_iv)), u)"
proof -
  obtain c1 t where t: "sha_updates blk D (snd (hwcrypto_sha256_init (Some c))) ps s = Some (Some c1, t)"
    "sha_holds blk (concat ps) c1" "hwcrypto_has_shani t \<noteq> 0"
    using sha_updates_holds [OF sha_holds_init [OF assms(3), of blk] assms(1,2), of D] by (auto simp: hwcrypto_sha256_init_def)
  from sha_final_digest [OF t(2,3) assms(4,5)] t(1) show ?thesis by (auto simp: absorb_def)
qed

definition sha0 :: sha256_ctx where
  "sha0 = \<lparr>sha_h = replicate 8 0, sha_buffer = replicate 64 0, sha_buffer_len = 0, sha_total_len = 0\<rparr>"

lemma length_sha256rnds2: "length (shani_block h b) = 8" if "length h = 8"
  using that by (simp add: shani_block_def sha256rnds2_def paddd_def Let_def)

lemma hwcrypto_sha256_streams_witness:
  "\<exists>c1 t c2 u. sha_updates (\<lambda>h b. map (\<lambda>i. h ! i + ucast (b ! i)) [0..<8]) (\<lambda>_ _. 0) (snd (hwcrypto_sha256_init (Some sha0)))
      [replicate 100 1, [], [2, 3]] hwcrypto0 = Some (c1, t) \<and>
    hwcrypto_sha256_final (\<lambda>h b. map (\<lambda>i. h ! i + ucast (b ! i)) [0..<8]) c1 (Some (replicate 32 0)) t =
      Some (1, c2, Some (digest (fold (\<lambda>b h. map (\<lambda>i. h ! i + ucast (b ! i)) [0..<8])
        (chunks (padded (replicate 100 1 @ [2, 3]))) sha256_iv)), u)"
proof -
  have "hwcrypto_has_shani hwcrypto0 \<noteq> 0"
    by (simp add: hwcrypto_has_shani_def hwcrypto0_def HWCRYPTO_CAP_SHANI_def c_bool_def)
  from hwcrypto_sha256_streams [OF this, where ps = "[replicate 100 1, [], [2, 3]]" and c = sha0 and out = "replicate 32 0"
      and blk = "\<lambda>h b. map (\<lambda>i. h ! i + ucast (b ! i)) [0..<8]" and D = "\<lambda>_ _. 0"]
  show ?thesis by (simp add: sha0_def)
qed

section \<open>The hash does not depend on the message\<close>

lemma length_chunks: "length (chunks m) = length m div 64"
proof (induction m rule: chunks.induct)
  case (1 m)
  then show ?case by (cases "length m < 64") (simp_all add: chunks.simps [of m] le_div_geq)
qed

lemma length_padded: "length (chunks (padded m)) = (length m + 8) div 64 + 1"
proof -
  define q r where "q = length m div 64" and "r = length m mod 64"
  have m: "length m = 64 * q + r" "r < 64" by (simp_all add: q_def r_def)
  then have "length (padded m) = 64 * q + (r + 9 + (119 - r) mod 64)" by (simp add: padded_def mod_simps)
  moreover have "(r + 9 + (119 - r) mod 64) div 64 = (r + 8) div 64 + 1 \<and> (r + 9 + (119 - r) mod 64) mod 64 = 0"
  proof (cases "r \<le> 55")
    case True
    then have "(119 - r) mod 64 = 55 - r" by (simp add: mod_if)
    then show ?thesis using True by simp
  next
    case False
    then have "(119 - r) mod 64 = 119 - r" "(r + 8) div 64 = 1" using m(2) by auto
    then show ?thesis using m(2) by simp
  qed
  ultimately show ?thesis using m(1) by (simp add: length_chunks)
qed

lemma fold_shani: "fold (\<lambda>b h. shani_block h b) bs h = ((\<lambda>h. shani_block h []) ^^ length bs) h"
proof (induction bs arbitrary: h)
  case (Cons b bs)
  then show ?case using shani_block_ignores [of h b "[]"] funpow_swap1 [of "\<lambda>h. shani_block h []" "length bs" h] by simp
qed simp

lemma sha_oneshot:
  assumes "hwcrypto_has_shani s \<noteq> 0" "length m < 2 ^ 32" "length (sha_buffer c) = 64" "length out = 32"
  shows "\<exists>t. hwcrypto_sha256_oneshot (the_block s) D c (Some m) (of_nat (length m)) (Some out) s =
    Some (1, Some (digest (((\<lambda>h. shani_block h []) ^^ ((length m + 8) div 64 + 1)) sha256_iv)), t)"
proof -
  have blk: "the_block s = shani_block" using assms(1) by (simp add: the_block_def sha256_process_block_shani_def fun_eq_iff)
  obtain c1 t where t: "hwcrypto_sha256_update shani_block D (snd (hwcrypto_sha256_init (Some c))) (Some m) (of_nat (length m)) s =
      Some (1, Some c1, t)" "sha_holds shani_block m c1" "hwcrypto_has_shani t \<noteq> 0"
    using sha_update_holds [OF sha_holds_init [OF assms(3), of shani_block] assms(1,2), of D] by (auto simp: hwcrypto_sha256_init_def)
  from sha_final_digest [OF t(2,3) assms(4) length_sha256rnds2] t(1) blk show ?thesis
    by (auto simp: hwcrypto_sha256_oneshot_def hwcrypto_sha256_init_def absorb_def fold_shani length_padded)
qed

text \<open>C34: With the block function of the code the message never enters the hash: any two messages that need the same
  number of blocks have the same digest. (The assembly computes \<open>xmm2\<close> from the message, but the round instruction takes
  its input from \<open>xmm0\<close>, which holds the state.)\<close>

theorem hwcrypto_sha256_ignores_message:
  assumes "hwcrypto_has_shani s \<noteq> 0" "length m < 2 ^ 32" "length m' < 2 ^ 32" "length (sha_buffer c) = 64" "length out = 32"
    "(length m + 8) div 64 = (length m' + 8) div 64"
  shows "\<exists>d t t'. hwcrypto_sha256_oneshot (the_block s) D c (Some m) (of_nat (length m)) (Some out) s = Some (1, d, t) \<and>
    hwcrypto_sha256_oneshot (the_block s) D c (Some m') (of_nat (length m')) (Some out) s = Some (1, d, t')"
  using sha_oneshot [OF assms(1,2,4,5), of D] sha_oneshot [OF assms(1,3,4,5), of D] assms(6) by auto

lemma hwcrypto_sha256_ignores_message_witness:
  "\<exists>d t t'. hwcrypto_sha256_oneshot (the_block hwcrypto0) (\<lambda>_ _. 0) sha0 (Some (cstr ''abc'')) 3 (Some (replicate 32 0)) hwcrypto0 = Some (1, d, t) \<and>
    hwcrypto_sha256_oneshot (the_block hwcrypto0) (\<lambda>_ _. 0) sha0 (Some (cstr ''attack'')) 6 (Some (replicate 32 0)) hwcrypto0 = Some (1, d, t')"
proof -
  have "hwcrypto_has_shani hwcrypto0 \<noteq> 0"
    by (simp add: hwcrypto_has_shani_def hwcrypto0_def HWCRYPTO_CAP_SHANI_def c_bool_def)
  from hwcrypto_sha256_ignores_message [OF this, where m = "cstr ''abc''" and m' = "cstr ''attack''" and c = sha0 and out = "replicate 32 0"
      and D = "\<lambda>_ _. 0"] show ?thesis by (simp add: sha0_def cstr_def)
qed

text \<open>So the self test fails on every processor that has the instructions.\<close>

lemma self_test_sha_fails:
  assumes "hwcrypto_has_shani s \<noteq> 0" "length (sha_buffer c) = 64" "length out = 32"
  shows "\<exists>t. self_test_sha D c out s = Some (False, t)"
proof -
  let ?m = "cstr ''abc'' @ [0]"
  have "hwcrypto_sha256_update blk D x (Some ?m) 3 s = hwcrypto_sha256_update blk D x (Some (cstr ''abc'')) 3 s" for blk x
    by (simp add: hwcrypto_sha256_update_def cstr_def split: option.splits)
  then have "hwcrypto_sha256_oneshot (the_block s) D c (Some ?m) 3 (Some out) s =
      hwcrypto_sha256_oneshot (the_block s) D c (Some (cstr ''abc'')) 3 (Some out) s"
    by (simp add: hwcrypto_sha256_oneshot_def)
  moreover obtain t where "hwcrypto_sha256_oneshot (the_block s) D c (Some (cstr ''abc'')) 3 (Some out) s =
      Some (1, Some (digest (shani_block sha256_iv [])), t)"
    using sha_oneshot [OF assms(1) _ assms(2,3), of "cstr ''abc''" D] by (auto simp: cstr_def)
  moreover have "take 32 (digest (shani_block sha256_iv [])) \<noteq> sha_expected"
  proof
    assume "take 32 (digest (shani_block sha256_iv [])) = sha_expected"
    moreover have "length (digest (shani_block sha256_iv [])) = 32" by (simp add: digest_def length_concat comp_def sum_list_triv length_sha256rnds2 sha256_iv_def)
    ultimately show False using sha_abc_differs shani_block_ignores by (metis order_refl take_all)
  qed
  ultimately show ?thesis using assms(1) by (simp add: self_test_sha_def)
qed

text \<open>C32: AES on this driver is AES: \<open>hwcrypto_aes_init\<close> fills the expanded key with the key schedule of FIPS 197, and
  \<open>hwcrypto_aes_decrypt_block\<close> gives back every block \<open>hwcrypto_aes_encrypt_block\<close> has encrypted.\<close>

theorem hwcrypto_aes_roundtrip:
  assumes "hwcrypto_has_aesni s \<noteq> 0" "length key = 16" "length (expanded_key c) = 240" "length block = 16" "length out = 16"
  shows "\<exists>c' e t u. hwcrypto_aes_init c key AES_KEY_128 s = Some (1, c') \<and>
    take 176 (expanded_key c') = concat (map (schedule_word key) [0..<44]) \<and>
    hwcrypto_aes_encrypt_block D c' block out s = Some (1, e, t) \<and> length e = 16 \<and>
    hwcrypto_aes_decrypt_block D c' e out t = Some (1, block, u)"
proof -
  let ?k = "aes_key_expand_128 key (expanded_key c)" and ?w = "concat (map (schedule_word key) [0..<44])"
  have k: "?k = ?w @ drop 176 (expanded_key c)" by (rule aes_key_expand_128_schedule) (simp_all add: assms)
  have "length ?w = 176" by (simp add: length_concat comp_def length_schedule_word [OF assms(2)] sum_list_triv)
  then have l: "take 176 ?k = ?w" "176 \<le> length ?k" using k by simp_all
  have e: "length (encrypt_block ?k block) = 16" "length (decrypt_block ?k x) = 16" for x
    using l(2) by (simp_all add: encrypt_block_def decrypt_block_def aesenclast_def aesdeclast_def movups_def)
  have store: "movups_store 0 x out = x" if "length x = 16" for x using assms(5) by (simp add: movups_store_def)
  have aes: "hwcrypto_has_aesni (s\<lparr>aes_ops_count := a, total_bytes_encrypted := b, avg_encrypt_cycles := d, trace := tr\<rparr>) \<noteq> 0" for a b d tr
    using assms(1) by (simp add: hwcrypto_has_aesni_def)
  show ?thesis using assms l e store decrypt_encrypt_block [OF assms(4) l(2)] aes
    by (simp add: hwcrypto_aes_init_def AES_KEY_128_def hwcrypto_aes_encrypt_block_def hwcrypto_aes_decrypt_block_def bus
        hwcrypto_has_aesni_def)
qed

lemma hwcrypto_aes_roundtrip_witness:
  "\<exists>c' e t u. hwcrypto_aes_init aes0 test_key AES_KEY_128 hwcrypto0 = Some (1, c') \<and>
    hwcrypto_aes_encrypt_block (\<lambda>_ _. 0) c' test_plaintext (replicate 16 0) hwcrypto0 = Some (1, e, t) \<and>
    hwcrypto_aes_decrypt_block (\<lambda>_ _. 0) c' e (replicate 16 0) t = Some (1, test_plaintext, u)"
proof -
  have "hwcrypto_has_aesni hwcrypto0 \<noteq> 0"
    by (simp add: hwcrypto_has_aesni_def hwcrypto0_def HWCRYPTO_CAP_AESNI_def c_bool_def)
  from hwcrypto_aes_roundtrip [OF this, where key = test_key and c = aes0 and block = test_plaintext and out = "replicate 16 0" and D = "\<lambda>_ _. 0"]
  show ?thesis by (auto simp: test_key_def test_plaintext_def aes0_def)
qed

end
