(* ===== verification/Numa.thy ===== *)
theory Numa
  imports Topology Paging
begin

text \<open>
  \<open>src/drivers/numa.c\<close>: memory nodes, their distances, and the choice of a node for an allocation. The nodes come from
  \<open>Topology\<close>, the distances from a table of the firmware, the pages from \<open>Paging\<close>, whose state is a part of this one.
  The arrays have 64 nodes; an index beyond them, undefined in C, has no result.
\<close>

definition NUMA_LOCAL_DISTANCE :: u8 where "NUMA_LOCAL_DISTANCE = 10"
definition NUMA_REMOTE_DISTANCE :: u8 where "NUMA_REMOTE_DISTANCE = 20"
definition NUMA_UNREACHABLE :: u8 where "NUMA_UNREACHABLE = 255"
definition NUMA_POLICY_DEFAULT :: u32 where "NUMA_POLICY_DEFAULT = 0"
definition NUMA_POLICY_BIND :: u32 where "NUMA_POLICY_BIND = 1"
definition NUMA_POLICY_INTERLEAVE :: u32 where "NUMA_POLICY_INTERLEAVE = 2"
definition NUMA_POLICY_PREFERRED :: u32 where "NUMA_POLICY_PREFERRED = 3"

record numa_memory_range =
  mr_base_address :: u64
  mr_size :: u64
  mr_node_id :: u8
  mr_enabled :: u8
  hot_pluggable :: u8
  non_volatile :: u8

record numa_node_info =
  nn_node_id :: u8
  processor_count :: u32
  processor_list :: "u32 list"       \<comment> \<open>64\<close>
  nn_total_memory :: u64
  free_memory :: u64
  memory_range_count :: u32
  memory_ranges :: "numa_memory_range list"   \<comment> \<open>16\<close>

record numa = topology +
  numa_paging :: paging
  numa_enabled :: u8
  num_nodes :: u8
  current_node :: u8
  nodes :: "numa_node_info list"     \<comment> \<open>64\<close>
  distance_matrix :: "u8 list list"  \<comment> \<open>64 rows of 64\<close>
  allocation_policy :: u32
  interleave_mask :: u8
  next_node :: u8                    \<comment> \<open>the static variable of \<open>numa_alloc_interleaved\<close>\<close>

definition node :: "u8 \<Rightarrow> 'a numa_scheme \<Rightarrow> numa_node_info" where
  "node i s = nodes s ! unat i"

definition upd_node :: "u8 \<Rightarrow> (numa_node_info \<Rightarrow> numa_node_info) \<Rightarrow> 'a numa_scheme \<Rightarrow> 'a numa_scheme" where
  "upd_node i f s = s\<lparr>nodes := (nodes s)[unat i := f (nodes s ! unat i)]\<rparr>"

definition distance :: "u8 \<Rightarrow> u8 \<Rightarrow> 'a numa_scheme \<Rightarrow> u8" where
  "distance i j s = distance_matrix s ! unat i ! unat j"

definition set_distance :: "u8 \<Rightarrow> u8 \<Rightarrow> u8 \<Rightarrow> 'a numa_scheme \<Rightarrow> 'a numa_scheme" where
  "set_distance i j v s =
     s\<lparr>distance_matrix := (distance_matrix s)[unat i := (distance_matrix s ! unat i)[unat j := v]]\<rparr>"

text \<open>\<open>for (u8 i = 0; i < n; i++)\<close>\<close>

definition below :: "u8 \<Rightarrow> u8 list" where
  "below n = map of_nat [0..<unat n]"

section \<open>Detection\<close>

definition numa_parse_slit_table :: "'a numa_scheme \<Rightarrow> 'a numa_scheme" where
  "numa_parse_slit_table s =
     (let slit = acpi_find_table ''SLIT'' s
      in if slit = 0 then
           fold (\<lambda>i. fold (\<lambda>j. set_distance i j (if i = j then NUMA_LOCAL_DISTANCE else NUMA_REMOTE_DISTANCE)) (below (num_nodes s)))
             (below (num_nodes s)) s
         else
           (let m = acpi_mem s; num_localities = load64 m (slit + 36); distances = slit + 44;
                ns = filter (\<lambda>i. ucast i < num_localities) (below (num_nodes s))
            in fold (\<lambda>i. fold (\<lambda>j. set_distance i j (m (distances + ucast (ucast i * num_localities + ucast j)))) ns) ns s))"

text \<open>The base address is declared to be a pointer, so its upper half is lost.\<close>

definition detect_range :: "u8 \<Rightarrow> 'a numa_scheme \<Rightarrow> 'a numa_scheme" where
  "detect_range n s =
     (let base = ucast (ucast (topology_get_numa_memory_base n s) :: u32);
          sz = topology_get_numa_memory_size n s
      in if sz > 0 then
           upd_node n (\<lambda>x. x\<lparr>memory_ranges := (memory_ranges x)[0 := \<lparr>mr_base_address = base, mr_size = sz, mr_node_id = n,
                 mr_enabled = topology_is_numa_node_enabled n s, hot_pluggable = 0, non_volatile = 0\<rparr>],
             memory_range_count := 1, nn_total_memory := sz, free_memory := sz\<rparr>) s
         else s)"

definition numa_detect_memory_ranges :: "'a numa_scheme \<Rightarrow> 'a numa_scheme" where
  "numa_detect_memory_ranges s = fold detect_range (below (num_nodes s)) s"

definition numa_detect_processor_affinity :: "'a numa_scheme \<Rightarrow> 'a numa_scheme" where
  "numa_detect_processor_affinity s =
     (let c = topology_get_current_numa_node s
      in if c < num_nodes s \<and> processor_count (node c s) < 64 then
           upd_node c (\<lambda>x. x\<lparr>processor_list := (processor_list x)[unat (processor_count x) := topology_get_current_x2apic_id s],
             processor_count := processor_count x + 1\<rparr>) s
         else s)"

definition numa_init :: "'a numa_scheme \<Rightarrow> 'a numa_scheme" where
  "numa_init s =
     (let s = s\<lparr>numa_enabled := 0, num_nodes := 1, current_node := 0, allocation_policy := NUMA_POLICY_DEFAULT, interleave_mask := 1\<rparr>
      in if topology_is_numa_supported s = 0 then
           set_distance 0 0 NUMA_LOCAL_DISTANCE
             (upd_node 0 (\<lambda>x. x\<lparr>nn_node_id := 0, processor_count := 0, nn_total_memory := 0x100000000, free_memory := 0x100000000,
                memory_range_count := 0\<rparr>) s)
         else
           (let s = s\<lparr>numa_enabled := 1, num_nodes := topology_get_num_numa_nodes s\<rparr>;
                s = fold (\<lambda>i. upd_node i (\<lambda>x. x\<lparr>nn_node_id := i, processor_count := 0, nn_total_memory := 0, free_memory := 0,
                      memory_range_count := 0\<rparr>)) (below (num_nodes s)) s
            in numa_detect_processor_affinity (numa_detect_memory_ranges (numa_parse_slit_table s))))"

definition numa_is_enabled :: "'a numa_scheme \<Rightarrow> u8" where "numa_is_enabled s = numa_enabled s"
definition numa_get_num_nodes :: "'a numa_scheme \<Rightarrow> u8" where "numa_get_num_nodes s = num_nodes s"
definition numa_get_current_node :: "'a numa_scheme \<Rightarrow> u8" where "numa_get_current_node s = current_node s"

definition numa_get_distance :: "u8 \<Rightarrow> u8 \<Rightarrow> 'a numa_scheme \<Rightarrow> u8" where
  "numa_get_distance from_node to_node s =
     (if from_node \<ge> num_nodes s \<or> to_node \<ge> num_nodes s then NUMA_UNREACHABLE else distance from_node to_node s)"

definition numa_get_node_memory_size :: "u8 \<Rightarrow> 'a numa_scheme \<Rightarrow> u64" where
  "numa_get_node_memory_size i s = (if i \<ge> num_nodes s then 0 else nn_total_memory (node i s))"
definition numa_get_node_free_memory :: "u8 \<Rightarrow> 'a numa_scheme \<Rightarrow> u64" where
  "numa_get_node_free_memory i s = (if i \<ge> num_nodes s then 0 else free_memory (node i s))"
definition numa_get_node_processor_count :: "u8 \<Rightarrow> 'a numa_scheme \<Rightarrow> u32" where
  "numa_get_node_processor_count i s = (if i \<ge> num_nodes s then 0 else processor_count (node i s))"

definition numa_find_closest_node :: "u8 \<Rightarrow> 'a numa_scheme \<Rightarrow> u8" where
  "numa_find_closest_node from_node s =
     (if from_node \<ge> num_nodes s then 0
      else fst (fold (\<lambda>i (closest_node, min_distance).
             if i \<noteq> from_node \<and> distance from_node i s < min_distance \<and> free_memory (node i s) > 0
             then (i, distance from_node i s) else (closest_node, min_distance))
           (below (num_nodes s)) (from_node, NUMA_UNREACHABLE)))"

definition numa_find_node_with_most_memory :: "'a numa_scheme \<Rightarrow> u8" where
  "numa_find_node_with_most_memory s =
     fst (fold (\<lambda>i (best_node, max_memory).
            if free_memory (node i s) > max_memory then (i, free_memory (node i s)) else (best_node, max_memory))
          (below (num_nodes s)) (0, 0))"

definition numa_set_allocation_policy :: "u32 \<Rightarrow> 'a numa_scheme \<Rightarrow> 'a numa_scheme" where
  "numa_set_allocation_policy policy s = s\<lparr>allocation_policy := policy\<rparr>"
definition numa_get_allocation_policy :: "'a numa_scheme \<Rightarrow> u32" where
  "numa_get_allocation_policy s = allocation_policy s"
definition numa_set_interleave_mask :: "u8 \<Rightarrow> 'a numa_scheme \<Rightarrow> 'a numa_scheme" where
  "numa_set_interleave_mask m s = s\<lparr>interleave_mask := m\<rparr>"
definition numa_get_interleave_mask :: "'a numa_scheme \<Rightarrow> u8" where
  "numa_get_interleave_mask s = interleave_mask s"
definition numa_set_current_node :: "u8 \<Rightarrow> 'a numa_scheme \<Rightarrow> 'a numa_scheme" where
  "numa_set_current_node i s = (if i < num_nodes s then s\<lparr>current_node := i\<rparr> else s)"

section \<open>Allocation\<close>

definition with_paging :: "(paging \<Rightarrow> 'r \<times> paging) \<Rightarrow> 'a numa_scheme \<Rightarrow> 'r \<times> 'a numa_scheme" where
  "with_paging f s =
     (let (r, c) = f ((numa_paging s)\<lparr>trace := trace s\<rparr>) in (r, s\<lparr>numa_paging := c, trace := trace c\<rparr>))"

definition page_count :: "u32 \<Rightarrow> u32" where
  "page_count sz = (sz + 4095) div 4096"

definition numa_alloc_on_node :: "u32 \<Rightarrow> u8 \<Rightarrow> 'a numa_scheme \<Rightarrow> u32 \<times> 'a numa_scheme" where
  "numa_alloc_on_node sz i s =
     (if i \<ge> num_nodes s then (0, s)
      else if free_memory (node i s) < ucast sz then (0, s)
      else
        (let pages = page_count sz; (ptr, s) = with_paging (paging_alloc_pages pages) s
         in if ptr \<noteq> 0 then (ptr, upd_node i (\<lambda>x. x\<lparr>free_memory := free_memory x - ucast (pages * 4096)\<rparr>) s) else (ptr, s)))"

text \<open>The pairs of a distance and a node in the order the two loops visit them; the first allocation that succeeds counts.\<close>

fun first_alloc :: "u32 \<Rightarrow> u8 list \<Rightarrow> 'a numa_scheme \<Rightarrow> u32 \<times> 'a numa_scheme" where
  "first_alloc sz [] s = (0, s)"
| "first_alloc sz (i # is') s =
     (let (ptr, s) = numa_alloc_on_node sz i s in if ptr \<noteq> 0 then (ptr, s) else first_alloc sz is' s)"

definition nodes_by_distance :: "u8 \<Rightarrow> 'a numa_scheme \<Rightarrow> u8 list" where
  "nodes_by_distance p s =
     concat (map (\<lambda>d. filter (\<lambda>i. distance p i s = d) (below (num_nodes s)))
       (map of_nat [unat (NUMA_LOCAL_DISTANCE + 1)..<unat NUMA_UNREACHABLE]))"

definition numa_alloc_preferred :: "u32 \<Rightarrow> u8 \<Rightarrow> 'a numa_scheme \<Rightarrow> (u32 \<times> 'a numa_scheme) option" where
  "numa_alloc_preferred sz preferred_node s =
     (let (ptr, s) = numa_alloc_on_node sz preferred_node s
      in if ptr \<noteq> 0 then Some (ptr, s)
         else if 64 \<le> unat preferred_node then None
         else Some (first_alloc sz (nodes_by_distance preferred_node s) s))"

text \<open>Shifting by 32 or more is undefined; the mask has 8 bits.\<close>

fun interleave_loop :: "u32 \<Rightarrow> u8 list \<Rightarrow> 'a numa_scheme \<Rightarrow> (u32 \<times> 'a numa_scheme) option" where
  "interleave_loop sz [] s = Some (0, s)"
| "interleave_loop sz (i # is') s =
     (if 32 \<le> unat i then None
      else if \<not> bit (interleave_mask s) (unat i) then interleave_loop sz is' s
      else
        (let (ptr, s) = numa_alloc_on_node sz i s
         in if ptr \<noteq> 0 then Some (ptr, s\<lparr>next_node := of_nat ((unat i + 1) mod unat (num_nodes s))\<rparr>)
            else interleave_loop sz is' s))"

definition numa_alloc_interleaved :: "u32 \<Rightarrow> 'a numa_scheme \<Rightarrow> (u32 \<times> 'a numa_scheme) option" where
  "numa_alloc_interleaved sz s =
     interleave_loop sz (map (\<lambda>i. of_nat ((unat (next_node s) + unat i) mod unat (num_nodes s))) (below (num_nodes s))) s"

definition numa_alloc :: "u32 \<Rightarrow> 'a numa_scheme \<Rightarrow> (u32 \<times> 'a numa_scheme) option" where
  "numa_alloc sz s =
     (if allocation_policy s = NUMA_POLICY_BIND then Some (numa_alloc_on_node sz (current_node s) s)
      else if allocation_policy s = NUMA_POLICY_INTERLEAVE then numa_alloc_interleaved sz s
      else numa_alloc_preferred sz (current_node s) s)"

definition numa_free :: "u32 \<Rightarrow> u32 \<Rightarrow> 'a numa_scheme \<Rightarrow> 'a numa_scheme" where
  "numa_free ptr sz s =
     (if ptr = 0 then s
      else
        (let pages = page_count sz; (_, s) = with_paging (\<lambda>c. ((), paging_free_pages ptr pages c)) s
         in fold (\<lambda>i. upd_node i (\<lambda>x. x\<lparr>free_memory := free_memory x + ucast (pages * 4096)\<rparr>)) (below (num_nodes s)) s))"

definition in_mem_range :: "u64 \<Rightarrow> numa_memory_range \<Rightarrow> bool" where
  "in_mem_range a r \<longleftrightarrow> a \<ge> mr_base_address r \<and> a < mr_base_address r + mr_size r"

definition numa_get_page_node :: "u32 \<Rightarrow> 'a numa_scheme \<Rightarrow> u8" where
  "numa_get_page_node page_addr s =
     (case find (\<lambda>n. list_ex (in_mem_range (ucast page_addr))
          (map ((!) (memory_ranges (node n s))) [0..<unat (memory_range_count (node n s))])) (below (num_nodes s)) of
        Some n \<Rightarrow> n
      | None \<Rightarrow> 0)"

text \<open>Apart from a check without consequence the body of \<open>numa_migrate_pages\<close> is a comment.\<close>

definition numa_migrate_pages :: "u32 \<Rightarrow> u32 \<Rightarrow> u8 \<Rightarrow> 'a numa_scheme \<Rightarrow> 'a numa_scheme" where
  "numa_migrate_pages start_addr count target_node s = s"

section \<open>The choice of a node\<close>

lemma below_less: "i \<in> set (below n) \<longleftrightarrow> i < n"
proof
  assume "i < n"
  then have "i = of_nat (unat i)" "unat i \<in> {0..<unat n}" by (simp_all add: word_less_nat_alt)
  then show "i \<in> set (below n)" unfolding below_def set_map set_upt by blast
next
  assume "i \<in> set (below n)"
  then obtain k where "i = of_nat k" "k < unat n" by (auto simp: below_def)
  then show "i < n" by (simp add: word_less_nat_alt unsigned_of_nat take_bit_nat_less_eq_self le_less_trans [OF take_bit_nat_less_eq_self])
qed

lemma sorted_below: "sorted_wrt (<) (below n)"
proof -
  have "(of_nat i :: u8) < of_nat j" if "i < j" "j < unat n" for i j
  proof -
    have "j < 256" using that unsigned_less [of n, where ?'a = nat] by simp
    then show ?thesis using that by (simp add: word_less_nat_alt unsigned_of_nat take_bit_nat_eq_self)
  qed
  then show ?thesis by (simp add: below_def sorted_wrt_iff_nth_less)
qed

text \<open>C35: \<open>numa_find_closest_node\<close> returns the nearest of the other nodes that have free memory and are not unreachable,
  the one with the smallest number if several are as near; without such a node it returns the node it was given.\<close>

theorem numa_finds_closest:
  assumes "n < num_nodes s" "C = {i. i < num_nodes s \<and> i \<noteq> n \<and> free_memory (node i s) > 0 \<and> distance n i s < NUMA_UNREACHABLE}"
    "r = numa_find_closest_node n s"
  shows "(C = {} \<longrightarrow> r = n) \<and>
    (C \<noteq> {} \<longrightarrow> r \<in> C \<and> (\<forall>i \<in> C. distance n r s \<le> distance n i s \<and> (distance n i s = distance n r s \<longrightarrow> r \<le> i)))"
proof -
  let ?ok = "\<lambda>i. i \<noteq> n \<and> free_memory (node i s) > 0"
  have eq: "i \<noteq> n \<and> distance n i s < d \<and> free_memory (node i s) > 0 \<longleftrightarrow> ?ok i \<and> distance n i s < d" for i d by auto
  obtain c d where f: "fold (\<lambda>i (c, d). if ?ok i \<and> distance n i s < d then (i, distance n i s) else (c, d))
      (below (num_nodes s)) (n, NUMA_UNREACHABLE) = (c, d)" by fastforce
  moreover have "\<not> num_nodes s \<le> n" using assms(1) by (simp add: not_le)
  ultimately have "r = c" using assms(3) by (simp add: numa_find_closest_node_def eq)
  moreover have mem: "i \<in> C \<longleftrightarrow> i \<in> set (below (num_nodes s)) \<and> ?ok i \<and> distance n i s < NUMA_UNREACHABLE" for i
    by (auto simp: assms(2) below_less)
  ultimately show ?thesis
    using fold_min [OF sorted_below f] by (metis all_not_in_conv leD)
qed

definition range0 :: numa_memory_range where
  "range0 = \<lparr>mr_base_address = 0, mr_size = 0, mr_node_id = 0, mr_enabled = 0, hot_pluggable = 0, non_volatile = 0\<rparr>"

definition node0 :: "u8 \<Rightarrow> u64 \<Rightarrow> numa_node_info" where
  "node0 i free = \<lparr>nn_node_id = i, processor_count = 0, processor_list = replicate 64 0, nn_total_memory = 0x10000, free_memory = free,
     memory_range_count = 0, memory_ranges = replicate 16 range0\<rparr>"

text \<open>Three nodes, of which the last has 100 bytes free.\<close>

definition numa0 :: numa where
  "numa0 = \<lparr>trace = [], acpi_mem = (\<lambda>_. 0), acpi_rsdp = 0, acpi_rsdt = 0, acpi_fadt = 0, acpi_madt = 0, local_apic_base = 0,
     acpi_cpu_count = 0, topology_supported = 1, extended_topology_supported = 0, numa_supported = 1, num_packages = 1, num_dies = 1,
     num_cores_per_package = 1, num_threads_per_core = 1, num_logical_processors = 1, num_numa_nodes = 3, levels = [], cpus = [],
     numa_nodes = [], current_cpu_id = 0, numa_paging = paging0, numa_enabled = 1, num_nodes = 3, current_node = 0,
     nodes = [node0 0 0x10000, node0 1 0x8000, node0 2 100], distance_matrix = [[10, 30, 20], [30, 10, 20], [20, 20, 10]],
     allocation_policy = 0, interleave_mask = 7, next_node = 0\<rparr>"

lemma numa_finds_closest_witness:
  "numa_find_closest_node 0 numa0 = 2"
proof -
  let ?C = "{i. i < num_nodes numa0 \<and> i \<noteq> 0 \<and> free_memory (node i numa0) > 0 \<and> distance 0 i numa0 < NUMA_UNREACHABLE}"
  have "(0 :: u8) < num_nodes numa0" by (simp add: numa0_def)
  note t = numa_finds_closest [OF this refl refl]
  have two: "2 \<in> ?C" by (simp add: numa0_def node_def node0_def distance_def NUMA_UNREACHABLE_def)
  then have r: "numa_find_closest_node 0 numa0 \<in> ?C" "distance 0 (numa_find_closest_node 0 numa0) numa0 \<le> distance 0 2 numa0"
    using t by blast+
  have "i = 1 \<or> i = 2" if "i \<in> ?C" for i :: u8
  proof -
    have "unat i < 3" "unat i \<noteq> 0" using that by (simp_all add: numa0_def word_less_nat_alt unat_eq_0)
    then have "unat i = 1 \<or> unat i = 2" by linarith
    then show ?thesis by (auto simp: word_unat_eq_iff)
  qed
  moreover have "distance 0 1 numa0 = 30" "distance 0 2 numa0 = 20" by (simp_all add: numa0_def distance_def)
  ultimately show ?thesis using r(1) r(2) by fastforce
qed

section \<open>Accounting\<close>

lemma with_paging_numa:
  "nodes (snd (with_paging f s)) = nodes s" "num_nodes (snd (with_paging f s)) = num_nodes s"
  by (simp_all add: with_paging_def split_beta)

lemma upd_node_fields [simp]:
  "num_nodes (upd_node i f s) = num_nodes s" "length (nodes (upd_node i f s)) = length (nodes s)"
  by (simp_all add: upd_node_def)

lemma node_upd: "unat i < length (nodes s) \<Longrightarrow> node j (upd_node i f s) = (if i = j then f (node j s) else node j s)"
  by (auto simp: node_def upd_node_def nth_list_update unsigned_word_eqI)

lemma distinct_below: "distinct (below n)"
  using sorted_below strict_sorted_iff by blast

lemma fold_upd_node:
  assumes "distinct is'" "\<forall>i \<in> set is'. unat i < length (nodes s)"
  shows "node j (fold (\<lambda>i. upd_node i f) is' s) = (if j \<in> set is' then f (node j s) else node j s)"
  using assms
proof (induction is' arbitrary: s)
  case (Cons i is')
  then show ?case by (auto simp: node_upd)
qed simp

text \<open>An allocation that succeeds on a node takes its whole pages from the count of the node, also when the node had only
  the bytes asked for: then the count wraps and the node has more free memory than ever. Freeing gives the pages back to
  every node, not only to the one they came from.\<close>

lemma numa_free_credits_all:
  assumes "numa_alloc_on_node sz i s = (ptr, t)" "ptr \<noteq> 0" "unat (num_nodes s) \<le> length (nodes s)"
    "bytes = ucast (page_count sz * 4096)"
  shows "free_memory (node i t) = free_memory (node i s) - bytes \<and>
    (free_memory (node i s) < bytes \<longrightarrow> free_memory (node i s) < free_memory (node i t)) \<and>
    (\<forall>j < num_nodes s. free_memory (node j (numa_free ptr sz t)) = free_memory (node j s) + (if j = i then 0 else bytes))"
proof -
  let ?w = "with_paging (paging_alloc_pages (page_count sz)) s"
  have i: "i < num_nodes s" and t: "t = upd_node i (\<lambda>x. x\<lparr>free_memory := free_memory x - bytes\<rparr>) (snd ?w)" "ptr = fst ?w"
    using assms(1,2,4) by (auto simp: numa_alloc_on_node_def Let_def split_beta split: if_splits)
  have w: "nodes (snd ?w) = nodes s" "num_nodes t = num_nodes s" "length (nodes t) = length (nodes s)"
    by (simp_all add: t(1) with_paging_numa)
  have il: "unat i < length (nodes (snd ?w))" using i assms(3) w(1) by (simp add: word_less_nat_alt)
  have n: "node j t = (if i = j then (node j s)\<lparr>free_memory := free_memory (node j s) - bytes\<rparr> else node j s)" for j
    unfolding t(1) node_upd [OF il] by (simp add: node_def w(1))
  let ?u = "snd (with_paging (\<lambda>c. ((), paging_free_pages ptr (page_count sz) c)) t)"
  have u: "nodes ?u = nodes t" "num_nodes ?u = num_nodes t" by (simp_all add: with_paging_numa)
  have nu: "node j ?u = node j t" for j by (simp add: node_def u(1))
  have free: "numa_free ptr sz t = fold (\<lambda>i. upd_node i (\<lambda>x. x\<lparr>free_memory := free_memory x + bytes\<rparr>)) (below (num_nodes s)) ?u"
    using assms(2) w(2) u(2) by (simp add: numa_free_def assms(4) Let_def split_beta)
  have "\<forall>i \<in> set (below (num_nodes s)). unat i < length (nodes ?u)"
    using assms(3) u(1) w(3) by (auto simp: below_less word_less_nat_alt)
  note f = fold_upd_node [OF distinct_below this]
  have "free_memory (node j (numa_free ptr sz t)) = free_memory (node j s) + (if j = i then 0 else bytes)" if "j < num_nodes s" for j
    unfolding free using that by (simp add: f below_less nu n)
  moreover have "free_memory (node i s) < free_memory (node i s) - bytes" if "free_memory (node i s) < bytes"
    using that unsigned_less [of bytes, where ?'a = nat] by (simp add: word_less_nat_alt unat_sub_if')
  ultimately show ?thesis using n [of i] by auto
qed

lemma paging_alloc_first:
  "range_free 0xD0000000 count s \<Longrightarrow> paging_alloc_pages count s = map_pages 0xD0000000 0 (unat count) s"
proof -
  assume r: "range_free 0xD0000000 count s"
  have "[0..<0x10000] = 0 # [Suc 0..<0x10000]" by (rule upt_conv_Cons) simp
  then have "find (\<lambda>i. range_free (0xD0000000 + of_nat i * PAGE_SIZE) count s) [0..<0x10000] = Some 0"
    using r by (simp only: find.simps) simp
  then show ?thesis unfolding paging_alloc_pages_def by (simp only: option.case) simp
qed

end
