(* ===== verification/X2apic.thy ===== *)
theory X2apic
  imports Msr_Regs
begin

text \<open>
  \<open>src/drivers/x2apic.c\<close>: the local interrupt controller in its x2APIC mode, where every register is a model-specific
  register. The fields of \<open>x2apic_info_t\<close> carry the prefix \<open>x2_\<close>.
\<close>

definition MSR_X2APIC_APICID :: "'a::len word" where "MSR_X2APIC_APICID = 0x802"
definition MSR_X2APIC_VERSION :: "'a::len word" where "MSR_X2APIC_VERSION = 0x803"
definition MSR_X2APIC_EOI :: "'a::len word" where "MSR_X2APIC_EOI = 0x80B"
definition MSR_X2APIC_SIVR :: "'a::len word" where "MSR_X2APIC_SIVR = 0x80F"
definition MSR_X2APIC_ESR :: "'a::len word" where "MSR_X2APIC_ESR = 0x828"
definition MSR_X2APIC_LVT_CMCI :: "'a::len word" where "MSR_X2APIC_LVT_CMCI = 0x82F"
definition MSR_X2APIC_ICR :: "'a::len word" where "MSR_X2APIC_ICR = 0x830"
definition MSR_X2APIC_LVT_TIMER :: "'a::len word" where "MSR_X2APIC_LVT_TIMER = 0x832"
definition MSR_X2APIC_LVT_THERMAL :: "'a::len word" where "MSR_X2APIC_LVT_THERMAL = 0x833"
definition MSR_X2APIC_LVT_PMI :: "'a::len word" where "MSR_X2APIC_LVT_PMI = 0x834"
definition MSR_X2APIC_LVT_LINT0 :: "'a::len word" where "MSR_X2APIC_LVT_LINT0 = 0x835"
definition MSR_X2APIC_LVT_LINT1 :: "'a::len word" where "MSR_X2APIC_LVT_LINT1 = 0x836"
definition MSR_X2APIC_LVT_ERROR :: "'a::len word" where "MSR_X2APIC_LVT_ERROR = 0x837"
definition MSR_X2APIC_INIT_COUNT :: "'a::len word" where "MSR_X2APIC_INIT_COUNT = 0x838"
definition MSR_X2APIC_CUR_COUNT :: "'a::len word" where "MSR_X2APIC_CUR_COUNT = 0x839"
definition MSR_X2APIC_DIV_CONF :: "'a::len word" where "MSR_X2APIC_DIV_CONF = 0x83E"
definition MSR_X2APIC_SELF_IPI :: "'a::len word" where "MSR_X2APIC_SELF_IPI = 0x83F"
definition MSR_APIC_BASE_x2 :: "'a::len word" where "MSR_APIC_BASE_x2 = 0x1B"
definition APIC_BASE_X2APIC :: "'a::len word" where "APIC_BASE_X2APIC = 0x400"
definition APIC_BASE_GLOBAL_ENABLE :: "'a::len word" where "APIC_BASE_GLOBAL_ENABLE = 0x800"
definition SIVR_APIC_ENABLE :: "'a::len word" where "SIVR_APIC_ENABLE = 0x100"
definition LVT_MASKED :: "'a::len word" where "LVT_MASKED = 0x10000"
definition LVT_TRIGGER_LEVEL :: "'a::len word" where "LVT_TRIGGER_LEVEL = 0x8000"
definition LVT_PIN_POLARITY :: "'a::len word" where "LVT_PIN_POLARITY = 0x2000"
definition ICR_DEST_MODE_PHYSICAL :: "'a::len word" where "ICR_DEST_MODE_PHYSICAL = 0x000"
definition ICR_DEST_ALL_EXCLUDING :: "'a::len word" where "ICR_DEST_ALL_EXCLUDING = 0xC0000"

record x2apic = msr +
  x2_x2apic_supported :: u8
  x2_x2apic_enabled :: u8
  x2_apic_id :: u32
  x2_version :: u32
  x2_max_lvt_entries :: u32
  x2_eoi_broadcast_suppression :: u8
  x2_timer_frequency :: u32
  x2_timer_running :: u8

definition x2apic_check_support :: "device \<Rightarrow> 'a x2apic_scheme \<Rightarrow> u8 \<times> 'a x2apic_scheme" where
  "x2apic_check_support D s =
     (let ((eax, ebx, ecx, edx), s) = cpuid D 1 s
      in (c_bool (ecx AND push_bit 21 1 \<noteq> 0), s))"

definition x2apic_enable :: "device \<Rightarrow> 'a x2apic_scheme \<Rightarrow> 'a x2apic_scheme" where
  "x2apic_enable D s =
     (let (apic_base, s) = msr_read D MSR_APIC_BASE_x2 s;
          apic_base = apic_base OR (APIC_BASE_X2APIC OR APIC_BASE_GLOBAL_ENABLE);
          s = msr_write MSR_APIC_BASE_x2 apic_base s
      in s\<lparr>x2_x2apic_enabled := 1\<rparr>)"

definition x2apic_read_info :: "device \<Rightarrow> 'a x2apic_scheme \<Rightarrow> 'a x2apic_scheme" where
  "x2apic_read_info D s =
     (let (v, s) = msr_read D MSR_X2APIC_APICID s;
          s = s\<lparr>x2_apic_id := ucast v\<rparr>;
          (v2, s) = msr_read D MSR_X2APIC_VERSION s;
          version = (ucast v2 :: u32)
      in s\<lparr>x2_version := version AND 0xFF, x2_max_lvt_entries := (drop_bit 16 version AND 0xFF) + 1,
           x2_eoi_broadcast_suppression := c_bool (version AND push_bit 24 1 \<noteq> 0)\<rparr>)"

definition x2apic_init :: "device \<Rightarrow> 'a x2apic_scheme \<Rightarrow> 'a x2apic_scheme" where
  "x2apic_init D s =
     (if msr_is_supported s = 0 then s
      else (let (v, s) = x2apic_check_support D s;
                s = s\<lparr>x2_x2apic_supported := v\<rparr>
            in (if x2_x2apic_supported s = 0 then s
                else (let s = x2apic_enable D s;
                          s = x2apic_read_info D s;
                          s = msr_write MSR_X2APIC_SIVR (0xFF OR SIVR_APIC_ENABLE) s;
                          s = msr_write MSR_X2APIC_LVT_TIMER LVT_MASKED s;
                          s = msr_write MSR_X2APIC_LVT_THERMAL LVT_MASKED s;
                          s = msr_write MSR_X2APIC_LVT_PMI LVT_MASKED s;
                          s = msr_write MSR_X2APIC_LVT_LINT0 LVT_MASKED s;
                          s = msr_write MSR_X2APIC_LVT_LINT1 LVT_MASKED s;
                          s = msr_write MSR_X2APIC_LVT_ERROR LVT_MASKED s;
                          s = (if x2_max_lvt_entries s > 6 then msr_write MSR_X2APIC_LVT_CMCI LVT_MASKED s else s);
                          s = msr_write MSR_X2APIC_ESR 0 s;
                          s = msr_write MSR_X2APIC_ESR 0 s
                      in s\<lparr>x2_timer_frequency := 0, x2_timer_running := 0\<rparr>))))"

definition x2apic_is_supported :: "'a x2apic_scheme \<Rightarrow> u8" where
  "x2apic_is_supported s = x2_x2apic_supported s"

definition x2apic_is_enabled :: "'a x2apic_scheme \<Rightarrow> u8" where
  "x2apic_is_enabled s = x2_x2apic_enabled s"

definition x2apic_get_id :: "'a x2apic_scheme \<Rightarrow> u32" where
  "x2apic_get_id s =
     (if x2_x2apic_enabled s = 0 then 0
      else x2_apic_id s)"

definition x2apic_get_version :: "'a x2apic_scheme \<Rightarrow> u32" where
  "x2apic_get_version s = x2_version s"

definition x2apic_get_max_lvt_entries :: "'a x2apic_scheme \<Rightarrow> u32" where
  "x2apic_get_max_lvt_entries s = x2_max_lvt_entries s"

definition x2apic_send_eoi :: "'a x2apic_scheme \<Rightarrow> 'a x2apic_scheme" where
  "x2apic_send_eoi s =
     (if x2_x2apic_enabled s = 0 then s
      else msr_write MSR_X2APIC_EOI 0 s)"

definition x2apic_send_ipi :: "u32 \<Rightarrow> u32 \<Rightarrow> u32 \<Rightarrow> 'a x2apic_scheme \<Rightarrow> 'a x2apic_scheme" where
  "x2apic_send_ipi dest_apic_id vector delivery_mode s =
     (if x2_x2apic_enabled s = 0 then s
      else (let icr = (ucast (vector OR delivery_mode OR ICR_DEST_MODE_PHYSICAL)) :: u64;
                icr = icr OR push_bit 32 (ucast dest_apic_id)
            in msr_write MSR_X2APIC_ICR icr s))"

definition x2apic_send_ipi_all_excluding_self :: "u32 \<Rightarrow> u32 \<Rightarrow> 'a x2apic_scheme \<Rightarrow> 'a x2apic_scheme" where
  "x2apic_send_ipi_all_excluding_self vector delivery_mode s =
     (if x2_x2apic_enabled s = 0 then s
      else (let icr = (ucast (vector OR delivery_mode OR ICR_DEST_ALL_EXCLUDING)) :: u64
            in msr_write MSR_X2APIC_ICR icr s))"

definition x2apic_send_ipi_self :: "u32 \<Rightarrow> 'a x2apic_scheme \<Rightarrow> 'a x2apic_scheme" where
  "x2apic_send_ipi_self vector s =
     (if x2_x2apic_enabled s = 0 then s
      else msr_write MSR_X2APIC_SELF_IPI (ucast vector) s)"

definition x2apic_setup_timer :: "u32 \<Rightarrow> u32 \<Rightarrow> u8 \<Rightarrow> 'a x2apic_scheme \<Rightarrow> 'a x2apic_scheme" where
  "x2apic_setup_timer vector initial_count periodic s =
     (if x2_x2apic_enabled s = 0 then s
      else (let s = msr_write MSR_X2APIC_LVT_TIMER LVT_MASKED s;
                s = msr_write MSR_X2APIC_DIV_CONF 0x0B s;
                s = msr_write MSR_X2APIC_INIT_COUNT (ucast initial_count) s;
                lvt_timer = vector;
                lvt_timer = (if periodic \<noteq> 0 then lvt_timer OR 0x20000 else lvt_timer);
                s = msr_write MSR_X2APIC_LVT_TIMER (ucast lvt_timer) s
            in s\<lparr>x2_timer_running := 1\<rparr>))"

definition x2apic_stop_timer :: "'a x2apic_scheme \<Rightarrow> 'a x2apic_scheme" where
  "x2apic_stop_timer s =
     (if x2_x2apic_enabled s = 0 then s
      else (let s = msr_write MSR_X2APIC_LVT_TIMER LVT_MASKED s;
                s = msr_write MSR_X2APIC_INIT_COUNT 0 s
            in s\<lparr>x2_timer_running := 0\<rparr>))"

definition x2apic_get_timer_count :: "device \<Rightarrow> 'a x2apic_scheme \<Rightarrow> u32 \<times> 'a x2apic_scheme" where
  "x2apic_get_timer_count D s =
     (if x2_x2apic_enabled s = 0 then (0, s)
      else (let (v, s) = msr_read D MSR_X2APIC_CUR_COUNT s
            in (ucast v, s)))"

definition x2apic_calibrate_timer :: "arch \<Rightarrow> device \<Rightarrow> (nat \<Rightarrow> nat) \<Rightarrow> 'a x2apic_scheme \<Rightarrow> 'a x2apic_scheme option" where
  "x2apic_calibrate_timer a D irqs s =
     (if x2_x2apic_enabled s = 0 then Some s
      else do {
        let s = msr_write MSR_X2APIC_LVT_TIMER LVT_MASKED s;
        let s = msr_write MSR_X2APIC_DIV_CONF 0x0B s;
        let s = msr_write MSR_X2APIC_INIT_COUNT 0xFFFFFFFF s;
        s \<leftarrow> timer_delay a irqs 10 s;
        let (v, s) = msr_read D MSR_X2APIC_CUR_COUNT s;
        let current_count = (ucast v :: u32);
        let ticks_per_10ms = 0xFFFFFFFF - current_count;
        let s = s\<lparr>x2_timer_frequency := ticks_per_10ms * 100\<rparr>;
        Some (msr_write MSR_X2APIC_INIT_COUNT 0 s) })"

definition x2apic_get_timer_frequency :: "'a x2apic_scheme \<Rightarrow> u32" where
  "x2apic_get_timer_frequency s = x2_timer_frequency s"

definition x2apic_setup_lint :: "u8 \<Rightarrow> u32 \<Rightarrow> u32 \<Rightarrow> u8 \<Rightarrow> u8 \<Rightarrow> 'a x2apic_scheme \<Rightarrow> 'a x2apic_scheme" where
  "x2apic_setup_lint lint_num vector delivery_mode trigger_mode polarity s =
     (if x2_x2apic_enabled s = 0 \<or> lint_num > 1 then s
      else (let lvt = vector OR delivery_mode;
                lvt = (if trigger_mode \<noteq> 0 then lvt OR LVT_TRIGGER_LEVEL else lvt);
                lvt = (if polarity \<noteq> 0 then lvt OR LVT_PIN_POLARITY else lvt);
                msr_addr = (if lint_num = 0 then MSR_X2APIC_LVT_LINT0 else MSR_X2APIC_LVT_LINT1)
            in msr_write msr_addr (ucast lvt) s))"

definition x2apic_mask_lint :: "device \<Rightarrow> u8 \<Rightarrow> 'a x2apic_scheme \<Rightarrow> 'a x2apic_scheme" where
  "x2apic_mask_lint D lint_num s =
     (if x2_x2apic_enabled s = 0 \<or> lint_num > 1 then s
      else (let msr_addr = (if lint_num = 0 then MSR_X2APIC_LVT_LINT0 else MSR_X2APIC_LVT_LINT1);
                (v, s) = msr_read D msr_addr s;
                lvt = (ucast v :: u32);
                lvt = lvt OR LVT_MASKED
            in msr_write msr_addr (ucast lvt) s))"

definition x2apic_unmask_lint :: "device \<Rightarrow> u8 \<Rightarrow> 'a x2apic_scheme \<Rightarrow> 'a x2apic_scheme" where
  "x2apic_unmask_lint D lint_num s =
     (if x2_x2apic_enabled s = 0 \<or> lint_num > 1 then s
      else (let msr_addr = (if lint_num = 0 then MSR_X2APIC_LVT_LINT0 else MSR_X2APIC_LVT_LINT1);
                (v, s) = msr_read D msr_addr s;
                lvt = (ucast v :: u32);
                lvt = lvt AND NOT LVT_MASKED
            in msr_write msr_addr (ucast lvt) s))"

definition x2apic_get_error_status :: "device \<Rightarrow> 'a x2apic_scheme \<Rightarrow> u32 \<times> 'a x2apic_scheme" where
  "x2apic_get_error_status D s =
     (if x2_x2apic_enabled s = 0 then (0, s)
      else (let (v, s) = msr_read D MSR_X2APIC_ESR s
            in (ucast v, s)))"

definition x2apic_clear_error_status :: "'a x2apic_scheme \<Rightarrow> 'a x2apic_scheme" where
  "x2apic_clear_error_status s =
     (if x2_x2apic_enabled s = 0 then s
      else (let s = msr_write MSR_X2APIC_ESR 0 s
            in msr_write MSR_X2APIC_ESR 0 s))"

definition x2apic_is_timer_running :: "'a x2apic_scheme \<Rightarrow> u8" where
  "x2apic_is_timer_running s = x2_timer_running s"

definition x2apic_supports_eoi_broadcast_suppression :: "'a x2apic_scheme \<Rightarrow> u8" where
  "x2apic_supports_eoi_broadcast_suppression s = x2_eoi_broadcast_suppression s"

section \<open>The registers the driver leaves behind\<close>

lemmas x2apic_regs = MSR_APIC_BASE_x2_def MSR_X2APIC_APICID_def MSR_X2APIC_VERSION_def MSR_X2APIC_SIVR_def MSR_X2APIC_LVT_TIMER_def
  MSR_X2APIC_LVT_THERMAL_def MSR_X2APIC_LVT_PMI_def MSR_X2APIC_LVT_LINT0_def MSR_X2APIC_LVT_LINT1_def MSR_X2APIC_LVT_ERROR_def
  MSR_X2APIC_LVT_CMCI_def MSR_X2APIC_ESR_def MSR_X2APIC_ICR_def MSR_X2APIC_INIT_COUNT_def MSR_X2APIC_DIV_CONF_def
  MSR_X2APIC_CUR_COUNT_def MSR_X2APIC_EOI_def MSR_X2APIC_SELF_IPI_def

lemma x2apic_supported_upd [simp]:
  "msr_supported (x2apic_enable D s) = msr_supported s" "msr_supported (x2apic_read_info D s) = msr_supported s"
  "msr_supported (snd (x2apic_check_support D s)) = msr_supported s"
  by (simp_all add: x2apic_enable_def x2apic_read_info_def x2apic_check_support_def cpuid_def msr_read_def msr_write_def bus)

text \<open>Initialisation on a processor that has the mode ends with these writes: every local interrupt is masked.\<close>

lemma x2apic_init_masks:
  assumes "msr_supported s \<noteq> 0" and "fst (x2apic_check_support D s) \<noteq> 0"
  shows "\<exists>t cmci. trace (x2apic_init D s) = t @ Wr (Msr MSR_X2APIC_SIVR) 0x1FF #
    map (\<lambda>r. Wr (Msr r) 0x10000) ([MSR_X2APIC_LVT_TIMER, MSR_X2APIC_LVT_THERMAL, MSR_X2APIC_LVT_PMI, MSR_X2APIC_LVT_LINT0,
      MSR_X2APIC_LVT_LINT1, MSR_X2APIC_LVT_ERROR] @ cmci) @ [Wr (Msr MSR_X2APIC_ESR) 0, Wr (Msr MSR_X2APIC_ESR) 0] \<and>
    set cmci \<subseteq> {MSR_X2APIC_LVT_CMCI}"
proof -
  define u where "u = x2apic_read_info D (x2apic_enable D ((snd (x2apic_check_support D s))
    \<lparr>x2_x2apic_supported := fst (x2apic_check_support D s)\<rparr>))"
  have u: "msr_supported u \<noteq> 0" using assms by (simp add: u_def)
  define cmci where "cmci = (if x2_max_lvt_entries u > 6 then [MSR_X2APIC_LVT_CMCI] else ([] :: u32 list))"
  have "trace (x2apic_init D s) = trace u @ Wr (Msr MSR_X2APIC_SIVR) 0x1FF #
    map (\<lambda>r. Wr (Msr r) 0x10000) ([MSR_X2APIC_LVT_TIMER, MSR_X2APIC_LVT_THERMAL, MSR_X2APIC_LVT_PMI, MSR_X2APIC_LVT_LINT0,
      MSR_X2APIC_LVT_LINT1, MSR_X2APIC_LVT_ERROR] @ cmci) @ [Wr (Msr MSR_X2APIC_ESR) 0, Wr (Msr MSR_X2APIC_ESR) 0]"
    using assms u by (simp add: x2apic_init_def msr_is_supported_def u_def [symmetric] cmci_def case_prod_beta msr_on
        LVT_MASKED_def SIVR_APIC_ENABLE_def Let_def)
  moreover have "set cmci \<subseteq> {MSR_X2APIC_LVT_CMCI}" by (auto simp add: cmci_def split: if_splits)
  ultimately show ?thesis by (intro exI [of _ "trace u"] exI [of _ cmci]) simp
qed

text \<open>An interprocessor interrupt goes to the processor asked for, with its vector and mode.\<close>

lemma x2apic_send_ipi_fields:
  assumes "msr_supported s \<noteq> 0" "x2_x2apic_enabled s \<noteq> 0"
  shows "\<exists>icr. x2apic_send_ipi dest vector mode s = s\<lparr>trace := trace s @ [Wr (Msr MSR_X2APIC_ICR) icr]\<rparr> \<and>
    ucast (drop_bit 32 icr) = dest \<and> ucast icr = vector OR mode"
proof -
  let ?icr = "ucast (vector OR mode OR ICR_DEST_MODE_PHYSICAL) OR push_bit 32 (ucast dest) :: u64"
  have "ucast (drop_bit 32 ?icr) = dest" "ucast ?icr = vector OR mode"
    by (rule bit_word_eqI; auto simp: bit_simps ICR_DEST_MODE_PHYSICAL_def dest: bit_imp_le_length)+
  with assms show ?thesis
    by (intro exI [of _ ?icr]) (simp add: x2apic_send_ipi_def msr_write_def bus)
qed

text \<open>Masking a pin and unmasking it again restores a register that held a clear mask bit.\<close>

lemma x2apic_mask_unmask:
  assumes "msr_supported s \<noteq> 0" "x2_x2apic_enabled s \<noteq> 0" "lint \<le> 1"
    and "\<forall>t. D t (Msr r) = last_write i t (Msr r)" and "r = (if lint = 0 then MSR_X2APIC_LVT_LINT0 else MSR_X2APIC_LVT_LINT1)"
    and "last_write i (trace s) (Msr r) AND 0xFFFFFFFF00010000 = 0"
  shows "last_write i (trace (x2apic_unmask_lint D lint (x2apic_mask_lint D lint s))) (Msr r) = last_write i (trace s) (Msr r)"
proof -
  let ?v = "last_write i (trace s) (Msr r)"
  have h: "(0xFFFFFFFF00010000 :: u64) = push_bit 32 (mask 32) OR push_bit 16 1"
    by (simp add: mask_eq_exp_minus_1 push_bit_eq_mult)
  have m: "\<not> bit ?v 16" "\<And>k. bit ?v k \<Longrightarrow> k < 32"
  proof -
    have z: "\<not> bit (?v AND 0xFFFFFFFF00010000) k" for k using assms(6) by simp
    show "\<not> bit ?v 16" using z [of 16] by (simp add: h bit_simps)
    show "k < 32" if "bit ?v k" for k
      using z [of k] that bit_imp_le_length [OF that] by (auto simp: h bit_simps)
  qed
  have M: "(LVT_MASKED :: 'w::len word) = push_bit 16 1" by (simp add: LVT_MASKED_def push_bit_eq_mult)
  have "(ucast ((ucast (ucast (ucast ?v OR LVT_MASKED :: u32) :: u64) :: u32) AND NOT LVT_MASKED) :: u64) = ?v"
    using m by (intro bit_word_eqI) (auto simp add: M bit_simps simp del: push_bit_of_1)
  moreover have "(1 < lint) = False" using assms(3) by auto
  ultimately show ?thesis using assms
    by (simp add: x2apic_mask_lint_def x2apic_unmask_lint_def msr_read_def msr_write_def bus)
qed

text \<open>Before it is enabled the driver touches no register.\<close>

lemma x2apic_disabled:
  assumes "x2_x2apic_enabled s = 0"
  shows "x2apic_send_eoi s = s" "x2apic_send_ipi d v m s = s" "x2apic_send_ipi_all_excluding_self v m s = s"
    "x2apic_send_ipi_self v s = s" "x2apic_setup_timer v c p s = s" "x2apic_stop_timer s = s" "x2apic_get_timer_count D s = (0, s)"
    "x2apic_setup_lint n v m t p s = s" "x2apic_mask_lint D n s = s" "x2apic_unmask_lint D n s = s"
    "x2apic_get_error_status D s = (0, s)" "x2apic_clear_error_status s = s"
  using assms by (simp_all add: x2apic_send_eoi_def x2apic_send_ipi_def x2apic_send_ipi_all_excluding_self_def
      x2apic_send_ipi_self_def x2apic_setup_timer_def x2apic_stop_timer_def x2apic_get_timer_count_def x2apic_setup_lint_def
      x2apic_mask_lint_def x2apic_unmask_lint_def x2apic_get_error_status_def x2apic_clear_error_status_def)

end
