(* ===== verification/Thermal.thy ===== *)
theory Thermal
  imports Msr_Regs Acpi
begin

text \<open>
  \<open>src/drivers/thermal.c\<close>: the digital temperature sensor. The fields of \<open>thermal_info_t\<close> carry the prefix \<open>th_\<close>.
  The file defines \<open>thermal_get_tjmax\<close> twice; the first, which reads the register and is the one \<open>thermal_init\<close> calls,
  is named \<open>thermal_read_tjmax\<close> here. A critical temperature powers the machine off through the ACPI driver, whose state is
  the part \<open>th_acpi\<close>; if that succeeds the handler does not return, which is \<open>Inl\<close>.
\<close>

definition MSR_THERM_INTERRUPT :: "'a::len word" where "MSR_THERM_INTERRUPT = 0x19B"
definition MSR_THERM_STATUS :: "'a::len word" where "MSR_THERM_STATUS = 0x19C"
definition MSR_TEMPERATURE_TARGET :: "'a::len word" where "MSR_TEMPERATURE_TARGET = 0x1A2"
definition MSR_PACKAGE_THERM_STATUS :: "'a::len word" where "MSR_PACKAGE_THERM_STATUS = 0x1B1"
definition THERM_STATUS_THERMAL_TRIP :: "'a::len word" where "THERM_STATUS_THERMAL_TRIP = 0x01"
definition THERM_STATUS_THERMAL_TRIP_LOG :: "'a::len word" where "THERM_STATUS_THERMAL_TRIP_LOG = 0x02"
definition THERM_STATUS_PROCHOT :: "'a::len word" where "THERM_STATUS_PROCHOT = 0x04"
definition THERM_STATUS_PROCHOT_LOG :: "'a::len word" where "THERM_STATUS_PROCHOT_LOG = 0x08"
definition THERM_STATUS_CRIT_TEMP :: "'a::len word" where "THERM_STATUS_CRIT_TEMP = 0x10"
definition THERM_STATUS_CRIT_TEMP_LOG :: "'a::len word" where "THERM_STATUS_CRIT_TEMP_LOG = 0x20"
definition THERM_STATUS_TEMP1_LOG :: "'a::len word" where "THERM_STATUS_TEMP1_LOG = 0x80"
definition THERM_STATUS_TEMP2_LOG :: "'a::len word" where "THERM_STATUS_TEMP2_LOG = 0x200"
definition THERM_STATUS_POWER_LIMIT_LOG :: "'a::len word" where "THERM_STATUS_POWER_LIMIT_LOG = 0x800"
definition THERM_STATUS_READING_VALID :: "'a::len word" where "THERM_STATUS_READING_VALID = 0x80000000"
definition THERM_INT_HIGH_TEMP_ENABLE :: "'a::len word" where "THERM_INT_HIGH_TEMP_ENABLE = 0x01"
definition THERM_INT_CRIT_TEMP_ENABLE :: "'a::len word" where "THERM_INT_CRIT_TEMP_ENABLE = 0x10"
definition THERM_INT_TEMP1_ENABLE :: "'a::len word" where "THERM_INT_TEMP1_ENABLE = 0x100"
definition THERM_INT_TEMP2_ENABLE :: "'a::len word" where "THERM_INT_TEMP2_ENABLE = 0x200"

record thermal = msr +
  th_supported :: u8
  th_digital_readout :: u8
  th_package_thermal :: u8
  th_interrupt_enabled :: u8
  th_tjmax :: u32
  th_temp_threshold1 :: u32
  th_temp_threshold2 :: u32
  th_last_temperature :: u32
  th_max_temperature :: u32
  th_thermal_events :: u32
  th_acpi :: acpi    \<comment> \<open>the variables of \<open>acpi.c\<close>\<close>

definition thermal_check_support :: "device \<Rightarrow> 'a thermal_scheme \<Rightarrow> u8 \<times> 'a thermal_scheme" where
  "thermal_check_support D s =
     (if msr_is_supported s = 0 then (0, s)
      else (let ((eax, ebx, ecx, edx), s) = cpuid D 1 s
            in (c_bool (edx AND push_bit 22 1 \<noteq> 0), s)))"

definition thermal_check_digital_readout :: "device \<Rightarrow> 'a thermal_scheme \<Rightarrow> u8 \<times> 'a thermal_scheme" where
  "thermal_check_digital_readout D s =
     (let ((eax, ebx, ecx, edx), s) = cpuid D 6 s
      in (c_bool (eax AND push_bit 0 1 \<noteq> 0), s))"

definition thermal_read_tjmax :: "device \<Rightarrow> 'a thermal_scheme \<Rightarrow> u32 \<times> 'a thermal_scheme" where
  "thermal_read_tjmax D s =
     (if msr_is_supported s = 0 then (100, s)
      else (let (temp_target, s) = msr_read D MSR_TEMPERATURE_TARGET s;
                tjmax = (ucast (drop_bit 16 temp_target AND 0xFF) :: u32)
            in (if tjmax = 0 then
                   (let ((eax, ebx, ecx, edx), s) = cpuid D 1 s;
                        model = drop_bit 4 eax AND 0xF;
                        family = drop_bit 8 eax AND 0xF;
                        tjmax = (if family = 6 then (if model = 0x1A \<or> model = 0x1E \<or> model = 0x1F \<or>
                                                     model = 0x25 \<or> model = 0x2C \<or> model = 0x2F then (100 :: u32)
                                                     else if model = 0x2A \<or> model = 0x2D \<or> model = 0x3A \<or>
                                                       model = 0x3E then (105 :: u32)
                                                     else (100 :: u32))
                                 else (100 :: u32))
                    in (tjmax, s))
                else (tjmax, s))))"

definition thermal_init :: "device \<Rightarrow> 'a thermal_scheme \<Rightarrow> 'a thermal_scheme" where
  "thermal_init D s =
     (let (v, s) = thermal_check_support D s;
          s = s\<lparr>th_supported := v\<rparr>
      in (if th_supported s = 0 then s
          else (let (v2, s) = thermal_check_digital_readout D s;
                    s = s\<lparr>th_digital_readout := v2\<rparr>;
                    (v3, s) = thermal_read_tjmax D s;
                    s = s\<lparr>th_tjmax := v3\<rparr>;
                    s = s\<lparr>th_temp_threshold1 := th_tjmax s - 10, th_temp_threshold2 := th_tjmax s - 20,
                          th_last_temperature := 0, th_max_temperature := 0, th_thermal_events := 0\<rparr>;
                    (pkg_status, s) = msr_read D MSR_PACKAGE_THERM_STATUS s;
                    s = s\<lparr>th_package_thermal := c_bool (pkg_status \<noteq> 0)\<rparr>
                in (if th_digital_readout s \<noteq> 0 then
                       (let therm_int = ((THERM_INT_HIGH_TEMP_ENABLE OR THERM_INT_CRIT_TEMP_ENABLE) :: u64);
                            s = msr_write MSR_THERM_INTERRUPT therm_int s
                        in s\<lparr>th_interrupt_enabled := 1\<rparr>)
                    else s))))"

definition thermal_get_temperature :: "device \<Rightarrow> 'a thermal_scheme \<Rightarrow> u32 \<times> 'a thermal_scheme" where
  "thermal_get_temperature D s =
     (if th_supported s = 0 \<or> th_digital_readout s = 0 then (0, s)
      else (let (therm_status, s) = msr_read D MSR_THERM_STATUS s
            in (if therm_status AND THERM_STATUS_READING_VALID = 0 then (th_last_temperature s, s)
                else (let digital_readout = (ucast (drop_bit 16 therm_status AND 0x7F) :: u32);
                          temperature = th_tjmax s - digital_readout;
                          s = s\<lparr>th_last_temperature := temperature\<rparr>;
                          s = (if temperature > th_max_temperature s then s\<lparr>th_max_temperature := temperature\<rparr>
                               else s)
                      in (temperature, s)))))"

definition thermal_get_package_temperature :: "device \<Rightarrow> 'a thermal_scheme \<Rightarrow> u32 \<times> 'a thermal_scheme" where
  "thermal_get_package_temperature D s =
     (if th_supported s = 0 \<or> th_package_thermal s = 0 then (0, s)
      else (let (pkg_status, s) = msr_read D MSR_PACKAGE_THERM_STATUS s
            in (if pkg_status AND THERM_STATUS_READING_VALID = 0 then (0, s)
                else (let digital_readout = (ucast (drop_bit 16 pkg_status AND 0x7F) :: u32)
                      in (th_tjmax s - digital_readout, s)))))"

definition thermal_is_supported :: "'a thermal_scheme \<Rightarrow> u8" where
  "thermal_is_supported s = th_supported s"

definition thermal_has_digital_sensor :: "'a thermal_scheme \<Rightarrow> u8" where
  "thermal_has_digital_sensor s = th_digital_readout s"

definition thermal_get_tjmax :: "'a thermal_scheme \<Rightarrow> u32" where
  "thermal_get_tjmax s = th_tjmax s"

definition thermal_get_max_temperature :: "'a thermal_scheme \<Rightarrow> u32" where
  "thermal_get_max_temperature s = th_max_temperature s"

definition thermal_is_throttling :: "device \<Rightarrow> 'a thermal_scheme \<Rightarrow> u8 \<times> 'a thermal_scheme" where
  "thermal_is_throttling D s =
     (if th_supported s = 0 then (0, s)
      else (let (therm_status, s) = msr_read D MSR_THERM_STATUS s
            in (c_bool (therm_status AND THERM_STATUS_PROCHOT \<noteq> 0), s)))"

definition thermal_is_critical :: "device \<Rightarrow> 'a thermal_scheme \<Rightarrow> u8 \<times> 'a thermal_scheme" where
  "thermal_is_critical D s =
     (if th_supported s = 0 then (0, s)
      else (let (therm_status, s) = msr_read D MSR_THERM_STATUS s
            in (c_bool (therm_status AND THERM_STATUS_CRIT_TEMP \<noteq> 0), s)))"

definition thermal_set_threshold :: "device \<Rightarrow> u8 \<Rightarrow> u32 \<Rightarrow> 'a thermal_scheme \<Rightarrow> 'a thermal_scheme" where
  "thermal_set_threshold D threshold_num temperature s =
     (if th_supported s = 0 \<or> th_digital_readout s = 0 then s
      else (let temperature = (if temperature > th_tjmax s then th_tjmax s else temperature);
                digital_value = th_tjmax s - temperature;
                (therm_int, s) = msr_read D MSR_THERM_INTERRUPT s;
                (therm_int, s) = (if threshold_num = 1 then
                                     (let therm_int = (therm_int AND NOT (push_bit 8 0x7F)) OR
                                      ucast (push_bit 8 (digital_value AND 0x7F));
                                          therm_int = therm_int OR THERM_INT_TEMP1_ENABLE;
                                          s = s\<lparr>th_temp_threshold1 := temperature\<rparr>
                                      in (therm_int, s))
                                  else if threshold_num = 2 then
                                     (let therm_int = (therm_int AND NOT (push_bit 16 0x7F)) OR
                                      ucast (push_bit 16 (digital_value AND 0x7F));
                                          therm_int = therm_int OR THERM_INT_TEMP2_ENABLE;
                                          s = s\<lparr>th_temp_threshold2 := temperature\<rparr>
                                      in (therm_int, s))
                                  else (therm_int, s))
            in msr_write MSR_THERM_INTERRUPT therm_int s))"

definition thermal_get_threshold :: "u8 \<Rightarrow> 'a thermal_scheme \<Rightarrow> u32" where
  "thermal_get_threshold threshold_num s =
     (if threshold_num = 1 then th_temp_threshold1 s
      else if threshold_num = 2 then th_temp_threshold2 s
      else 0)"

definition thermal_clear_log_bits :: "device \<Rightarrow> 'a thermal_scheme \<Rightarrow> 'a thermal_scheme" where
  "thermal_clear_log_bits D s =
     (if th_supported s = 0 then s
      else (let (therm_status, s) = msr_read D MSR_THERM_STATUS s;
                therm_status = therm_status OR (THERM_STATUS_THERMAL_TRIP_LOG OR THERM_STATUS_PROCHOT_LOG OR
                                                THERM_STATUS_CRIT_TEMP_LOG OR THERM_STATUS_TEMP1_LOG OR
                                                  THERM_STATUS_TEMP2_LOG OR THERM_STATUS_POWER_LIMIT_LOG);
                s = msr_write MSR_THERM_STATUS therm_status s
            in (if th_package_thermal s \<noteq> 0 then
                   (let (pkg_status, s) = msr_read D MSR_PACKAGE_THERM_STATUS s;
                        pkg_status = pkg_status OR (THERM_STATUS_THERMAL_TRIP_LOG OR THERM_STATUS_PROCHOT_LOG OR
                                                    THERM_STATUS_CRIT_TEMP_LOG OR THERM_STATUS_TEMP1_LOG OR
                                                      THERM_STATUS_TEMP2_LOG OR THERM_STATUS_POWER_LIMIT_LOG)
                    in msr_write MSR_PACKAGE_THERM_STATUS pkg_status s)
                else s)))"

definition thermal_power_off :: "device \<Rightarrow> 'a thermal_scheme \<Rightarrow> 'a thermal_scheme + 'a thermal_scheme" where
  "thermal_power_off D s =
     (let put = \<lambda>c. s\<lparr>trace := trace c, th_acpi := c\<rparr>
      in map_sum put put (acpi_power_off D ((th_acpi s)\<lparr>trace := trace s\<rparr>)))"

definition thermal_irq_handler :: "device \<Rightarrow> 'a thermal_scheme \<Rightarrow> 'a thermal_scheme + 'a thermal_scheme" where
  "thermal_irq_handler D s =
     (if th_supported s = 0 then Inr s
      else (let s = s\<lparr>th_thermal_events := th_thermal_events s + 1\<rparr>;
                (therm_status, s) = msr_read D MSR_THERM_STATUS s
            in (case if therm_status AND THERM_STATUS_CRIT_TEMP \<noteq> 0 then thermal_power_off D s else Inr s of
                  Inl s \<Rightarrow> Inl s
                | Inr s \<Rightarrow> Inr (thermal_clear_log_bits D s))))"

definition thermal_get_event_count :: "'a thermal_scheme \<Rightarrow> u32" where
  "thermal_get_event_count s = th_thermal_events s"

definition thermal_enable_monitoring :: "device \<Rightarrow> u8 \<Rightarrow> 'a thermal_scheme \<Rightarrow> 'a thermal_scheme" where
  "thermal_enable_monitoring D enable s =
     (if th_supported s = 0 \<or> th_digital_readout s = 0 then s
      else (let (therm_int, s) = msr_read D MSR_THERM_INTERRUPT s;
                therm_int = (if enable \<noteq> 0 then therm_int OR (THERM_INT_HIGH_TEMP_ENABLE OR THERM_INT_CRIT_TEMP_ENABLE)
                             else therm_int AND NOT (THERM_INT_HIGH_TEMP_ENABLE OR THERM_INT_CRIT_TEMP_ENABLE));
                s = msr_write MSR_THERM_INTERRUPT therm_int s
            in s\<lparr>th_interrupt_enabled := enable\<rparr>))"

definition thermal_is_monitoring_enabled :: "'a thermal_scheme \<Rightarrow> u8" where
  "thermal_is_monitoring_enabled s = th_interrupt_enabled s"

section \<open>What the driver guarantees and what it does not\<close>

text \<open>The highest temperature is at least the one just measured, and never falls.\<close>

lemma thermal_max_temperature:
  assumes "thermal_get_temperature D s = (t, s')" "th_supported s \<noteq> 0" "th_digital_readout s \<noteq> 0"
    and "th_last_temperature s \<le> th_max_temperature s"
  shows "t \<le> th_max_temperature s'" "th_max_temperature s \<le> th_max_temperature s'" "t = th_last_temperature s'"
  using assms by (auto simp: thermal_get_temperature_def msr_read_def bus not_less split: if_splits)

text \<open>
  The enable bits the driver sets, 8 and 9, are not those of the register but lie in the field of the first threshold:
  that threshold is always programmed as an odd number of degrees below the limit, and setting the second changes the first.
\<close>

definition threshold_field :: "nat \<Rightarrow> u64 \<Rightarrow> u64" where
  "threshold_field n v = drop_bit (if n = 1 then 8 else 16) v AND 0x7F"

lemma thermal_set_threshold_write:
  fixes D :: device and temperature :: u32
  assumes "msr_supported s \<noteq> 0" "th_supported s \<noteq> 0" "th_digital_readout s \<noteq> 0" "n = 1 \<or> n = 2"
  defines "old \<equiv> D (trace s) (Msr MSR_THERM_INTERRUPT)"
    and "digital \<equiv> (th_tjmax s - min temperature (th_tjmax s)) AND 0x7F"
  shows "\<exists>v. trace (thermal_set_threshold D n temperature s) =
      trace s @ [Rd (Msr MSR_THERM_INTERRUPT) old, Wr (Msr MSR_THERM_INTERRUPT) v] \<and>
    v = (if n = 1 then (old AND NOT (push_bit 8 0x7F)) OR push_bit 8 (ucast digital) OR push_bit 8 1
      else (old AND NOT (push_bit 16 0x7F)) OR push_bit 16 (ucast digital) OR push_bit 9 1)"
proof -
  have u: "ucast (push_bit k (d AND 0x7F)) = push_bit k (ucast (d AND 0x7F) :: u64)" if "k = 8 \<or> k = 16" for d :: u32 and k
  proof (rule bit_word_eqI)
    have m: "(0x7F :: u32) = mask 7" by (simp add: mask_eq_exp_minus_1)
    show "bit (ucast (push_bit k (d AND 0x7F)) :: u64) i = bit (push_bit k (ucast (d AND 0x7F) :: u64)) i" if "i < LENGTH(64)" for i
      using that \<open>k = 8 \<or> k = 16\<close> by (auto simp: m bit_simps)
  qed
  have t: "(if th_tjmax s < temperature then th_tjmax s else temperature) = min temperature (th_tjmax s)"
    by (auto simp: min_def)
  have e: "(THERM_INT_TEMP1_ENABLE :: u64) = push_bit 8 1" "(THERM_INT_TEMP2_ENABLE :: u64) = push_bit 9 1"
    by (simp_all add: THERM_INT_TEMP1_ENABLE_def THERM_INT_TEMP2_ENABLE_def push_bit_eq_mult)
  show ?thesis
    using assms(1-4) u [of 8, simplified] u [of 16, simplified]
    by (auto simp add: thermal_set_threshold_def msr_on Let_def t e old_def digital_def or.assoc)
qed

lemma thermal_fields_mask:
  "threshold_field 1 ((old AND NOT (push_bit 8 0x7F)) OR push_bit 8 (d AND 0x7F) OR push_bit 8 1) = (d AND 0x7F) OR 1"
  "threshold_field 2 ((old AND NOT (push_bit 16 0x7F)) OR push_bit 16 (d AND 0x7F) OR push_bit 9 1) = d AND 0x7F"
  "threshold_field 1 ((old AND NOT (push_bit 16 0x7F)) OR push_bit 16 (d AND 0x7F) OR push_bit 9 1) = threshold_field 1 old OR 2"
proof -
  have m: "(0x7F :: u64) = mask 7" "(2 :: u64) = push_bit 1 1" by (simp_all add: mask_eq_exp_minus_1 push_bit_eq_mult)
  show "threshold_field 1 ((old AND NOT (push_bit 8 0x7F)) OR push_bit 8 (d AND 0x7F) OR push_bit 8 1) = (d AND 0x7F) OR 1"
    unfolding threshold_field_def m by (rule bit_word_eqI) (simp add: bit_simps, linarith)
  show "threshold_field 2 ((old AND NOT (push_bit 16 0x7F)) OR push_bit 16 (d AND 0x7F) OR push_bit 9 1) = d AND 0x7F"
    unfolding threshold_field_def m by (rule bit_word_eqI) (auto simp add: bit_simps)
  show "threshold_field 1 ((old AND NOT (push_bit 16 0x7F)) OR push_bit 16 (d AND 0x7F) OR push_bit 9 1) = threshold_field 1 old OR 2"
    unfolding threshold_field_def m by (rule bit_word_eqI) (auto simp add: bit_simps)
qed

lemma thermal_threshold_fields:
  assumes "d \<le> 0x7F"
  shows "threshold_field 1 ((old AND NOT (push_bit 8 0x7F)) OR push_bit 8 d OR push_bit 8 1) = d OR 1"
    and "threshold_field 2 ((old AND NOT (push_bit 16 0x7F)) OR push_bit 16 d OR push_bit 9 1) = d"
    and "threshold_field 1 ((old AND NOT (push_bit 16 0x7F)) OR push_bit 16 d OR push_bit 9 1) = threshold_field 1 old OR 2"
proof -
  have "\<not> bit d k" if "7 \<le> k" for k
  proof -
    have "unat d < 2 ^ 7" using assms by (simp add: word_le_nat_alt)
    also have "(2 :: nat) ^ 7 \<le> 2 ^ k" using that by (rule power_increasing) simp
    finally have "unat (drop_bit k d) = 0" by (simp only: unat_drop_bit_eq) (simp add: drop_bit_eq_div)
    then have "\<not> bit (drop_bit k d) 0" by (simp add: unat_eq_0)
    then show ?thesis by (simp add: bit_simps)
  qed
  then have "d AND mask 7 = d" by (intro bit_word_eqI) (simp add: bit_simps, metis not_le)
  then have d: "d AND 0x7F = d" by (simp add: mask_eq_exp_minus_1)
  show "threshold_field 1 ((old AND NOT (push_bit 8 0x7F)) OR push_bit 8 d OR push_bit 8 1) = d OR 1"
    "threshold_field 2 ((old AND NOT (push_bit 16 0x7F)) OR push_bit 16 d OR push_bit 9 1) = d"
    "threshold_field 1 ((old AND NOT (push_bit 16 0x7F)) OR push_bit 16 d OR push_bit 9 1) = threshold_field 1 old OR 2"
    using thermal_fields_mask [of old d] unfolding d .
qed

text \<open>The family-and-model test compares four bits with numbers that need more, so every model falls back to 100 degrees.\<close>

lemma thermal_tjmax_fallback:
  assumes "msr_supported s \<noteq> 0" "drop_bit 16 (D (trace s) (Msr MSR_TEMPERATURE_TARGET)) AND 0xFF = 0"
  shows "fst (thermal_read_tjmax D s) = 100"
proof -
  have n: "x AND 0xF \<noteq> 0x2A \<and> x AND 0xF \<noteq> 0x2D \<and> x AND 0xF \<noteq> 0x3A \<and> x AND 0xF \<noteq> 0x3E" for x :: u32
  proof -
    have "x AND 0xF \<le> 0xF" by (rule word_and_le1)
    then show ?thesis by auto
  qed
  show ?thesis using assms n by (simp add: thermal_read_tjmax_def msr_is_supported_def msr_read_on cpuid_def bus)
qed

end
