(* ===== verification/Timing_Sync.thy ===== *)
theory Timing_Sync
  imports Msr_Regs
begin

text \<open>
  \<open>src/drivers/timing_sync.c\<close>: time stamp counter, high precision timer and a barrier for several processors. The fields
  of \<open>timing_sync_info_t\<close> carry the prefix \<open>ts_\<close>, those of its parts the name of the part. The loop that counts to
  a million between two readings of the counter leaves no trace.
\<close>

definition MSR_TSC_DEADLINE :: "'a::len word" where "MSR_TSC_DEADLINE = 0x6E0"
definition HPET_GENERAL_CAPS :: "'a::len word" where "HPET_GENERAL_CAPS = 0x00"
definition HPET_GENERAL_CONFIG_ts :: "'a::len word" where "HPET_GENERAL_CONFIG_ts = 0x10"
definition HPET_MAIN_COUNTER_ts :: "'a::len word" where "HPET_MAIN_COUNTER_ts = 0xF0"
definition HPET_TIMER0_CONFIG_ts :: "'a::len word" where "HPET_TIMER0_CONFIG_ts = 0x100"
definition HPET_TIMER0_COMPARATOR :: "'a::len word" where "HPET_TIMER0_COMPARATOR = 0x108"
definition HPET_CFG_ENABLE_ts :: "'a::len word" where "HPET_CFG_ENABLE_ts = push_bit 0 1"
definition HPET_TIMER_INT_ENABLE :: "'a::len word" where "HPET_TIMER_INT_ENABLE = push_bit 2 1"
definition HPET_TIMER_TYPE_PERIODIC :: "'a::len word" where "HPET_TIMER_TYPE_PERIODIC = push_bit 3 1"
definition HPET_TIMER_VAL_SET :: "'a::len word" where "HPET_TIMER_VAL_SET = push_bit 6 1"

record barrier =
  barrier_count :: u32
  barrier_sense :: u32
  barrier_total_cpus :: u32

record tsc_info =
  tsc_frequency :: u64
  tsc_period_fs :: u64
  tsc_invariant :: u8
  tsc_reliable :: u8
  tsc_last_value :: u64
  tsc_drift_correction :: u64

record hpet_info =
  hpet_base_address :: u64
  hpet_frequency :: u64
  hpet_period_fs :: u64
  hpet_num_timers :: u8
  hpet_counter_size :: u8
  hpet_legacy_replacement :: u8
  hpet_main_counter :: u64
  hpet_timer_interrupts :: "u32 list"    \<comment> \<open>8\<close>

record timing_sync = msr +
  ts_timing_sync_supported :: u8
  ts_tsc_supported :: u8
  ts_tsc_deadline_supported :: u8
  ts_hpet_supported :: u8
  ts_rdtscp_supported :: u8
  ts_tsc :: tsc_info
  ts_hpet :: hpet_info
  ts_sync_barrier :: barrier
  ts_sync_operations :: u32
  ts_timing_measurements :: u32
  ts_last_sync_time :: u64
  ts_max_sync_latency :: u64
  ts_min_sync_latency :: u64
  ts_cpu_id :: u32

text \<open>\<open>aux\<close> says whether the caller passes a place for the processor number; the number is then the second result.\<close>

definition timing_sync_rdtscp :: "device \<Rightarrow> bool \<Rightarrow> 'a timing_sync_scheme \<Rightarrow> (u64 \<times> u32 option) \<times> 'a timing_sync_scheme" where
  "timing_sync_rdtscp D aux s =
     (let (low :: u32, s) = rd D (Isa ''rdtscp'' [] 0) s;
          (high :: u32, s) = rd D (Isa ''rdtscp'' [] 1) s;
          (cpu_id :: u32, s) = rd D (Isa ''rdtscp'' [] 2) s
      in ((push_bit 32 (ucast high) OR ucast low, if aux then Some cpu_id else None), s))"

definition timing_sync_detect_tsc :: "device \<Rightarrow> 'a timing_sync_scheme \<Rightarrow> 'a timing_sync_scheme" where
  "timing_sync_detect_tsc D s =
     (let ((eax, ebx, ecx, edx), s) = cpuid D 1 s;
          s = s\<lparr>ts_tsc_supported := c_bool (edx AND push_bit 4 1 \<noteq> 0)\<rparr>;
          ((eax, ebx, ecx, edx), s) = cpuid D 0x80000007 s;
          s = s\<lparr>ts_tsc := (ts_tsc s)\<lparr>tsc_invariant := c_bool (edx AND push_bit 8 1 \<noteq> 0)\<rparr>\<rparr>;
          ((eax, ebx, ecx, edx), s) = cpuid D 1 s;
          s = s\<lparr>ts_tsc_deadline_supported := c_bool (ecx AND push_bit 24 1 \<noteq> 0)\<rparr>;
          ((eax, ebx, ecx, edx), s) = cpuid D 0x80000001 s;
          s = s\<lparr>ts_rdtscp_supported := c_bool (edx AND push_bit 27 1 \<noteq> 0)\<rparr>
      in (if ts_tsc_supported s \<noteq> 0 then
             (let (start_tsc, s) = rd D Tsc s;
                  (end_tsc, s) = rd D Tsc s
              in s\<lparr>ts_tsc := (ts_tsc s)\<lparr>tsc_frequency := (end_tsc - start_tsc) * 1000,
                                               tsc_reliable := tsc_invariant (ts_tsc s)\<rparr>\<rparr>)
          else s))"

definition timing_sync_detect_hpet :: "device \<Rightarrow> 'a timing_sync_scheme \<Rightarrow> 'a timing_sync_scheme" where
  "timing_sync_detect_hpet D s =
     (let s = s\<lparr>ts_hpet := (ts_hpet s)\<lparr>hpet_base_address := 0xFED00000\<rparr>\<rparr>;
          hpet_base = ucast (hpet_base_address (ts_hpet s));
          (caps, s) = read64_halves D hpet_base s
      in (if caps \<noteq> 0xFFFFFFFFFFFFFFFF then
             (let s = s\<lparr>ts_hpet_supported := 1\<rparr>;
                  s = s\<lparr>ts_hpet := (ts_hpet s)\<lparr>hpet_period_fs := drop_bit 32 caps,
                                                      hpet_num_timers := ucast ((drop_bit 8 caps AND 0x1F) + 1),
                                                      hpet_counter_size := (if caps AND push_bit 13 1 \<noteq> 0
                                                                            then 64 else 32)\<rparr>\<rparr>
              in (if hpet_period_fs (ts_hpet s) > 0
                  then s\<lparr>ts_hpet := (ts_hpet s)\<lparr>hpet_frequency := 1000000000000000 div (hpet_period_fs (ts_hpet s))\<rparr>\<rparr>
                  else s))
          else s))"

definition timing_sync_init :: "device \<Rightarrow> 'a timing_sync_scheme \<Rightarrow> 'a timing_sync_scheme" where
  "timing_sync_init D s =
     (let s = s\<lparr>ts_timing_sync_supported := 0, ts_tsc_supported := 0, ts_tsc_deadline_supported := 0,
                ts_hpet_supported := 0, ts_rdtscp_supported := 0, ts_sync_operations := 0, ts_timing_measurements := 0,
                ts_last_sync_time := 0, ts_max_sync_latency := 0, ts_min_sync_latency := 0xFFFFFFFFFFFFFFFF,
                ts_cpu_id := 0\<rparr>;
          s = s\<lparr>ts_tsc := (ts_tsc s)\<lparr>tsc_frequency := 0, tsc_period_fs := 0, tsc_invariant := 0,
                                            tsc_reliable := 0, tsc_last_value := 0, tsc_drift_correction := 0\<rparr>\<rparr>;
          s = s\<lparr>ts_hpet := (ts_hpet s)\<lparr>hpet_base_address := 0, hpet_frequency := 0, hpet_period_fs := 0,
                                              hpet_num_timers := 0, hpet_counter_size := 0, hpet_legacy_replacement := 0,
                                              hpet_main_counter := 0\<rparr>\<rparr>;
          s = fold (\<lambda>i s. s\<lparr>ts_hpet := (ts_hpet s)\<lparr>hpet_timer_interrupts := (hpet_timer_interrupts (ts_hpet s))[i := 0]\<rparr>\<rparr>)
            [0..<8] s;
          s = s\<lparr>ts_sync_barrier := (ts_sync_barrier s)\<lparr>barrier_count := 0, barrier_sense := 0,
                                                            barrier_total_cpus := 1\<rparr>\<rparr>;
          s = timing_sync_detect_tsc D s;
          s = timing_sync_detect_hpet D s
      in (if ts_tsc_supported s \<noteq> 0 \<or> ts_hpet_supported s \<noteq> 0
          then s\<lparr>ts_timing_sync_supported := 1\<rparr>
          else s))"

definition timing_sync_is_supported :: "'a timing_sync_scheme \<Rightarrow> u8" where
  "timing_sync_is_supported s = ts_timing_sync_supported s"

definition timing_sync_is_tsc_supported :: "'a timing_sync_scheme \<Rightarrow> u8" where
  "timing_sync_is_tsc_supported s = ts_tsc_supported s"

definition timing_sync_is_hpet_supported :: "'a timing_sync_scheme \<Rightarrow> u8" where
  "timing_sync_is_hpet_supported s = ts_hpet_supported s"

definition timing_sync_is_tsc_invariant :: "'a timing_sync_scheme \<Rightarrow> u8" where
  "timing_sync_is_tsc_invariant s = tsc_invariant (ts_tsc s)"

definition timing_sync_is_rdtscp_supported :: "'a timing_sync_scheme \<Rightarrow> u8" where
  "timing_sync_is_rdtscp_supported s = ts_rdtscp_supported s"

definition timing_sync_get_tsc :: "device \<Rightarrow> 'a timing_sync_scheme \<Rightarrow> u64 \<times> 'a timing_sync_scheme" where
  "timing_sync_get_tsc D s =
     (if ts_tsc_supported s = 0 then (0, s)
      else (let (tsc, s) = rd D Tsc s;
                s = s\<lparr>ts_tsc := (ts_tsc s)\<lparr>tsc_last_value := tsc\<rparr>\<rparr>
            in (tsc, s)))"

definition timing_sync_get_tsc_with_cpu_id ::
  "device \<Rightarrow> bool \<Rightarrow> 'a timing_sync_scheme \<Rightarrow> (u64 \<times> u32 option) \<times> 'a timing_sync_scheme" where
  "timing_sync_get_tsc_with_cpu_id D cpu_id s =
     (if ts_rdtscp_supported s = 0 then
        (let (tsc, s) = timing_sync_get_tsc D s in ((tsc, if cpu_id then Some (ts_cpu_id s) else None), s))
      else
        (let ((tsc, aux), s) = timing_sync_rdtscp D cpu_id s
         in ((tsc, aux), s\<lparr>ts_tsc := (ts_tsc s)\<lparr>tsc_last_value := tsc\<rparr>\<rparr>)))"

definition timing_sync_get_tsc_frequency :: "'a timing_sync_scheme \<Rightarrow> u64" where
  "timing_sync_get_tsc_frequency s = tsc_frequency (ts_tsc s)"

definition timing_sync_set_tsc_deadline :: "u64 \<Rightarrow> 'a timing_sync_scheme \<Rightarrow> 'a timing_sync_scheme" where
  "timing_sync_set_tsc_deadline deadline s =
     (if ts_tsc_deadline_supported s = 0 \<or> msr_is_supported s = 0 then s
      else msr_write MSR_TSC_DEADLINE deadline s)"

definition timing_sync_get_hpet_counter :: "device \<Rightarrow> 'a timing_sync_scheme \<Rightarrow> u64 \<times> 'a timing_sync_scheme" where
  "timing_sync_get_hpet_counter D s =
     (if ts_hpet_supported s = 0 then (0, s)
      else (let hpet_base = ucast (hpet_base_address (ts_hpet s));
                (counter, s) = read64_halves D (hpet_base + 0xF0) s;
                s = s\<lparr>ts_hpet := (ts_hpet s)\<lparr>hpet_main_counter := counter\<rparr>\<rparr>
            in (counter, s)))"

definition timing_sync_get_hpet_frequency :: "'a timing_sync_scheme \<Rightarrow> u64" where
  "timing_sync_get_hpet_frequency s = hpet_frequency (ts_hpet s)"

definition timing_sync_enable_hpet :: "device \<Rightarrow> 'a timing_sync_scheme \<Rightarrow> 'a timing_sync_scheme" where
  "timing_sync_enable_hpet D s =
     (if ts_hpet_supported s = 0 then s
      else (let hpet_base = ucast (hpet_base_address (ts_hpet s));
                (config, s) = read64_halves D (hpet_base + 16) s;
                config = config OR HPET_CFG_ENABLE_ts
            in write64_halves (hpet_base + 16) config s))"

definition timing_sync_disable_hpet :: "device \<Rightarrow> 'a timing_sync_scheme \<Rightarrow> 'a timing_sync_scheme" where
  "timing_sync_disable_hpet D s =
     (if ts_hpet_supported s = 0 then s
      else (let hpet_base = ucast (hpet_base_address (ts_hpet s));
                (config, s) = read64_halves D (hpet_base + 16) s;
                config = config AND NOT HPET_CFG_ENABLE_ts
            in write64_halves (hpet_base + 16) config s))"

definition timing_sync_setup_hpet_timer :: "device \<Rightarrow> u8 \<Rightarrow> u64 \<Rightarrow> u8 \<Rightarrow> u8 \<Rightarrow> 'a timing_sync_scheme \<Rightarrow> 'a timing_sync_scheme" where
  "timing_sync_setup_hpet_timer D timer_id period periodic interrupt_vector s =
     (if ts_hpet_supported s = 0 \<or> timer_id \<ge> hpet_num_timers (ts_hpet s) then s
      else (let hpet_base = ucast (hpet_base_address (ts_hpet s));
                timer_config_offset = HPET_TIMER0_CONFIG_ts + (ucast timer_id * 0x20);
                timer_comp_offset = HPET_TIMER0_COMPARATOR + (ucast timer_id * 0x20);
                (config, s) = read64_halves D (hpet_base + 8 * (drop_bit 3 timer_config_offset)) s;
                config = config AND NOT 0xFF;
                config = config OR ucast interrupt_vector;
                config = (if periodic \<noteq> 0 then config OR (HPET_TIMER_TYPE_PERIODIC OR HPET_TIMER_VAL_SET)
                          else config AND NOT HPET_TIMER_TYPE_PERIODIC);
                config = config OR HPET_TIMER_INT_ENABLE;
                s = write64_halves (hpet_base + 8 * (drop_bit 3 timer_config_offset)) config s;
                (v2, s) = timing_sync_get_hpet_counter D s;
                s = write64_halves (hpet_base + 8 * (drop_bit 3 timer_comp_offset)) (v2 + period) s
            in (if periodic \<noteq> 0 then write64_halves (hpet_base + 8 * (drop_bit 3 timer_comp_offset)) period s
                else s)))"

definition timing_sync_barrier_init :: "u32 \<Rightarrow> 'a timing_sync_scheme \<Rightarrow> 'a timing_sync_scheme" where
  "timing_sync_barrier_init num_cpus s =
     s\<lparr>ts_sync_barrier := (ts_sync_barrier s)\<lparr>barrier_count := 0, barrier_sense := 0, barrier_total_cpus := num_cpus\<rparr>\<rparr>"

text \<open>
  The accesses of a processor to the barrier, one at a time; the argument of a position is \<open>local_sense\<close>. The increment
  is locked, the test is a second access.
\<close>

datatype barrier_pc = Enter | Incr u32 | Test u32 | Reset u32 | Flip u32 | Wait u32 | Leave

fun barrier_cpu :: "barrier_pc \<Rightarrow> barrier \<Rightarrow> barrier_pc \<times> barrier" where
  "barrier_cpu Enter b = (Incr (barrier_sense b), b)"
| "barrier_cpu (Incr ls) b = (Test ls, b\<lparr>barrier_count := barrier_count b + 1\<rparr>)"
| "barrier_cpu (Test ls) b = (if barrier_count b = barrier_total_cpus b then Reset ls else Wait ls, b)"
| "barrier_cpu (Reset ls) b = (Flip ls, b\<lparr>barrier_count := 0\<rparr>)"
| "barrier_cpu (Flip ls) b = (Leave, b\<lparr>barrier_sense := c_bool (ls = 0)\<rparr>)"
| "barrier_cpu (Wait ls) b = (if barrier_sense b = ls then Wait ls else Leave, b)"
| "barrier_cpu Leave b = (Leave, b)"

text \<open>One processor's call; \<open>env k\<close> is what the others do to the barrier before its \<open>k\<close>-th access.\<close>

partial_function (option) barrier_run :: "(nat \<Rightarrow> barrier \<Rightarrow> barrier) \<Rightarrow> nat \<Rightarrow> barrier_pc \<Rightarrow> barrier \<Rightarrow> barrier option" where
  "barrier_run env k pc b =
     (if pc = Leave then Some b else case barrier_cpu pc (env k b) of (pc', b') \<Rightarrow> barrier_run env (Suc k) pc' b')"

definition timing_sync_barrier_wait ::
  "device \<Rightarrow> (nat \<Rightarrow> barrier \<Rightarrow> barrier) \<Rightarrow> 'a timing_sync_scheme \<Rightarrow> 'a timing_sync_scheme option" where
  "timing_sync_barrier_wait D env s = do {
     let (start_time, s) = timing_sync_get_tsc D s;
     b \<leftarrow> barrier_run env 0 Enter (ts_sync_barrier s);
     let s = s\<lparr>ts_sync_barrier := b\<rparr>;
     let (end_time, s) = timing_sync_get_tsc D s;
     let latency = end_time - start_time;
     let s = s\<lparr>ts_sync_operations := ts_sync_operations s + 1, ts_last_sync_time := end_time\<rparr>;
     let s = (if latency > ts_max_sync_latency s then s\<lparr>ts_max_sync_latency := latency\<rparr> else s);
     Some (if latency < ts_min_sync_latency s then s\<lparr>ts_min_sync_latency := latency\<rparr> else s) }"

definition timing_sync_measure_latency ::
  "device \<Rightarrow> ('a timing_sync_scheme \<Rightarrow> 'a timing_sync_scheme option) \<Rightarrow> 'a timing_sync_scheme \<Rightarrow>
   (u64 \<times> 'a timing_sync_scheme) option" where
  "timing_sync_measure_latency D f s =
     (if ts_tsc_supported s = 0 then Some (0, s)
      else do {
        let (start, s) = timing_sync_get_tsc D s;
        s \<leftarrow> f s;
        let (stop, s) = timing_sync_get_tsc D s;
        Some (stop - start, s\<lparr>ts_timing_measurements := ts_timing_measurements s + 1\<rparr>) })"

definition timing_sync_cycles_to_ns :: "u64 \<Rightarrow> 'a timing_sync_scheme \<Rightarrow> u64" where
  "timing_sync_cycles_to_ns cycles s =
     (if tsc_frequency (ts_tsc s) = 0 then 0
      else (cycles * 1000000000) div (tsc_frequency (ts_tsc s)))"

definition timing_sync_ns_to_cycles :: "u64 \<Rightarrow> 'a timing_sync_scheme \<Rightarrow> u64" where
  "timing_sync_ns_to_cycles nanoseconds s =
     (if tsc_frequency (ts_tsc s) = 0 then 0
      else (nanoseconds * (tsc_frequency (ts_tsc s))) div 1000000000)"

partial_function (option) calibration_wait :: "device \<Rightarrow> u64 \<Rightarrow> 'a timing_sync_scheme \<Rightarrow> 'a timing_sync_scheme option" where
  "calibration_wait D target s =
     (case timing_sync_get_hpet_counter D s of (c, s') \<Rightarrow> if c < target then calibration_wait D target s' else Some s')"

text \<open>A division by zero is undefined.\<close>

definition timing_sync_calibrate_tsc :: "device \<Rightarrow> 'a timing_sync_scheme \<Rightarrow> 'a timing_sync_scheme option" where
  "timing_sync_calibrate_tsc D s =
     (if ts_tsc_supported s = 0 \<or> ts_hpet_supported s = 0 then Some s
      else do {
        let (hpet_start, s) = timing_sync_get_hpet_counter D s;
        let (tsc_start, s) = timing_sync_get_tsc D s;
        s \<leftarrow> calibration_wait D (hpet_start + hpet_frequency (ts_hpet s)) s;
        let (hpet_end, s) = timing_sync_get_hpet_counter D s;
        let (tsc_end, s) = timing_sync_get_tsc D s;
        let hpet_elapsed = hpet_end - hpet_start;
        let tsc_elapsed = tsc_end - tsc_start;
        if hpet_elapsed = 0 then None
        else Some (s\<lparr>ts_tsc := (ts_tsc s)\<lparr>tsc_frequency := (tsc_elapsed * hpet_frequency (ts_hpet s)) div hpet_elapsed,
          tsc_reliable := 1\<rparr>\<rparr>) })"

definition timing_sync_get_sync_operations :: "'a timing_sync_scheme \<Rightarrow> u32" where
  "timing_sync_get_sync_operations s = ts_sync_operations s"

definition timing_sync_get_timing_measurements :: "'a timing_sync_scheme \<Rightarrow> u32" where
  "timing_sync_get_timing_measurements s = ts_timing_measurements s"

definition timing_sync_get_last_sync_time :: "'a timing_sync_scheme \<Rightarrow> u64" where
  "timing_sync_get_last_sync_time s = ts_last_sync_time s"

definition timing_sync_get_max_sync_latency :: "'a timing_sync_scheme \<Rightarrow> u64" where
  "timing_sync_get_max_sync_latency s = ts_max_sync_latency s"

definition timing_sync_get_min_sync_latency :: "'a timing_sync_scheme \<Rightarrow> u64" where
  "timing_sync_get_min_sync_latency s = ts_min_sync_latency s"

definition timing_sync_get_hpet_num_timers :: "'a timing_sync_scheme \<Rightarrow> u8" where
  "timing_sync_get_hpet_num_timers s = hpet_num_timers (ts_hpet s)"

definition timing_sync_get_hpet_counter_size :: "'a timing_sync_scheme \<Rightarrow> u8" where
  "timing_sync_get_hpet_counter_size s = hpet_counter_size (ts_hpet s)"

definition timing_sync_clear_statistics :: "'a timing_sync_scheme \<Rightarrow> 'a timing_sync_scheme" where
  "timing_sync_clear_statistics s =
     (let s = s\<lparr>ts_sync_operations := 0, ts_timing_measurements := 0, ts_max_sync_latency := 0,
                ts_min_sync_latency := 0xFFFFFFFFFFFFFFFF\<rparr>
      in fold (\<lambda>i s. s\<lparr>ts_hpet := (ts_hpet s)\<lparr>hpet_timer_interrupts := (hpet_timer_interrupts (ts_hpet s))[i := 0]\<rparr>\<rparr>)
            [0..<8] s)"

section \<open>The barrier\<close>

text \<open>The processors of a system: their positions and the shared barrier. \<open>Run i\<close> is one access of processor \<open>i\<close>,
  \<open>Again i\<close> its next call.\<close>

datatype barrier_event = Run nat | Again nat

fun barrier_step :: "barrier_event \<Rightarrow> (nat \<Rightarrow> barrier_pc) \<times> barrier \<Rightarrow> (nat \<Rightarrow> barrier_pc) \<times> barrier" where
  "barrier_step (Run i) (pc, b) = (case barrier_cpu (pc i) b of (p, b') \<Rightarrow> (pc(i := p), b'))"
| "barrier_step (Again i) (pc, b) = (if pc i = Leave then (pc(i := Enter), b) else (pc, b))"

definition barrier_start :: "u32 \<Rightarrow> (nat \<Rightarrow> barrier_pc) \<times> barrier" where
  "barrier_start n = (\<lambda>_. Enter, \<lparr>barrier_count = 0, barrier_sense = 0, barrier_total_cpus = n\<rparr>)"

fun arrived :: "barrier_pc \<Rightarrow> bool" where
  "arrived Enter = False" | "arrived (Incr _) = False" | "arrived _ = True"

fun sense_of :: "barrier_pc \<Rightarrow> u32" where
  "sense_of (Incr l) = l" | "sense_of (Test l) = l" | "sense_of (Reset l) = l" | "sense_of (Flip l) = l"
| "sense_of (Wait l) = l" | "sense_of _ = 0"

fun past_test :: "barrier_pc \<Rightarrow> bool" where
  "past_test (Reset _) = True" | "past_test (Flip _) = True" | "past_test Leave = True" | "past_test _ = False"

text \<open>
  The first round of \<open>n\<close> processors: either nobody has found the count complete, and it is the number of arrivals, or
  everybody has arrived.
\<close>

definition first_round :: "u32 \<Rightarrow> (nat \<Rightarrow> barrier_pc) \<times> barrier \<Rightarrow> bool" where
  "first_round n x = (case x of (pc, b) \<Rightarrow>
     barrier_total_cpus b = n \<and> (\<forall>i<unat n. sense_of (pc i) = 0) \<and>
     ((\<forall>i<unat n. \<not> past_test (pc i)) \<and> barrier_sense b = 0 \<and>
        unat (barrier_count b) = card {i. i < unat n \<and> arrived (pc i)} \<or>
      (\<forall>i<unat n. arrived (pc i))))"

lemma arrived_upd:
  fixes n :: nat
  assumes "i < n"
  shows "card {j. j < n \<and> arrived ((pc(i := p)) j)} =
    (if arrived p then Suc (card {j. j < n \<and> j \<noteq> i \<and> arrived (pc j)}) else card {j. j < n \<and> j \<noteq> i \<and> arrived (pc j)})"
proof -
  have "{j. j < n \<and> arrived ((pc(i := p)) j)} = {j. j < n \<and> j \<noteq> i \<and> arrived (pc j)} \<union> (if arrived p then {i} else {})"
    using assms by auto
  moreover have "finite {j. j < n \<and> j \<noteq> i \<and> arrived (pc j)}" by (rule finite_subset [of _ "{..<n}"]) auto
  ultimately show ?thesis by simp
qed

lemma first_round_all:
  assumes "\<forall>j<n. arrived (pc j)" "\<forall>j<n. sense_of (pc j) = 0" "i < n"
  shows "arrived (fst (barrier_cpu (pc i) b))" "sense_of (fst (barrier_cpu (pc i) b)) = 0"
    "barrier_total_cpus (snd (barrier_cpu (pc i) b)) = barrier_total_cpus b"
  using assms(1,2) [rule_format, OF assms(3)] by (cases "pc i"; simp)+

lemma first_round_count:
  assumes "\<not> past_test p" "sense_of p = 0" "barrier_sense b = 0"
  shows "barrier_cpu p b = (p', b') \<Longrightarrow> sense_of p' = 0 \<and> barrier_total_cpus b' = barrier_total_cpus b \<and>
    (past_test p' \<longrightarrow> arrived p \<and> barrier_count b = barrier_total_cpus b) \<and>
    (\<not> past_test p' \<longrightarrow> barrier_sense b' = 0 \<and>
       barrier_count b' = barrier_count b + (if arrived p' \<and> \<not> arrived p then 1 else 0) \<and> (arrived p \<longrightarrow> arrived p'))"
  using assms by (cases p) (auto split: if_splits)

lemma first_round_step:
  assumes "first_round n x" "i < unat n"
  shows "first_round n (barrier_step (Run i) x)"
proof -
  obtain pc b where x: "x = (pc, b)" by fastforce
  obtain p' b' where c: "barrier_cpu (pc i) b = (p', b')" by fastforce
  let ?S = "{j. j < unat n \<and> arrived (pc j)}"
  have n: "barrier_total_cpus b = n" "\<forall>j<unat n. sense_of (pc j) = 0" using assms(1) by (simp_all add: x first_round_def)
  show ?thesis
  proof (cases "\<forall>j<unat n. arrived (pc j)")
    case True
    with first_round_all [OF True n(2) assms(2), of b] n show ?thesis
      by (simp add: x c first_round_def)
  next
    case False
    with assms(1) have A: "\<forall>j<unat n. \<not> past_test (pc j)" "barrier_sense b = 0" "unat (barrier_count b) = card ?S"
      by (auto simp: x first_round_def)
    have "?S \<subset> {..<unat n}" using False by auto
    then have less: "card ?S < unat n" by (metis card_lessThan finite_lessThan psubset_card_mono)
    have N: "unat n < 2 ^ 32" using unsigned_less [of n, where ?'a = nat] by simp
    from A n assms(2) have f: "\<not> past_test (pc i)" "sense_of (pc i) = 0" by simp_all
    note k = first_round_count [OF f A(2) c]
    have "\<not> past_test p'" using k A(3) less n(1) by auto
    with k have k': "barrier_sense b' = 0" "barrier_count b' = barrier_count b + (if arrived p' \<and> \<not> arrived (pc i) then 1 else 0)"
      "arrived (pc i) \<longrightarrow> arrived p'" "sense_of p' = 0" "barrier_total_cpus b' = n" using n by simp_all
    have "card {j. j < unat n \<and> arrived ((pc(i := p')) j)} = card ?S + (if arrived p' \<and> \<not> arrived (pc i) then 1 else 0)"
      using arrived_upd [OF assms(2), of pc p'] arrived_upd [OF assms(2), of pc "pc i"] k'(3) by (auto split: if_splits)
    moreover have "unat (barrier_count b') = card ?S + (if arrived p' \<and> \<not> arrived (pc i) then 1 else 0)"
      using k'(2) A(3) less N by (simp add: unat_word_ariths)
    ultimately show ?thesis
      using A k' n \<open>\<not> past_test p'\<close> by (simp add: x c first_round_def)
  qed
qed

lemma first_round_runs:
  assumes "set is \<subseteq> {..<unat n}"
  shows "first_round n (fold (\<lambda>i. barrier_step (Run i)) is (barrier_start n))"
  using assms
proof (induction "is" rule: rev_induct)
  case Nil
  then show ?case by (simp add: first_round_def barrier_start_def)
next
  case (snoc i js)
  then show ?case by (simp add: first_round_step)
qed

text \<open>C36: In the first round of \<open>n\<close> processors no call of \<open>timing_sync_barrier_wait\<close> returns before every processor has
  counted itself, however their accesses interleave.\<close>

theorem barrier_first_round_safe:
  assumes "set is \<subseteq> {..<unat n}" "fold (\<lambda>i. barrier_step (Run i)) is (barrier_start n) = (pc, b)"
    and "i < unat n" "pc i = Leave" "j < unat n"
  shows "arrived (pc j)"
  using first_round_runs [OF assms(1)] assms(2-) by (auto simp: first_round_def)

lemma barrier_first_round_safe_witness:
  "arrived (fst (fold (\<lambda>i. barrier_step (Run i)) [0, 0, 0, 1, 1, 1, 1, 1, 0] (barrier_start 2)) 0) \<and>
   fst (fold (\<lambda>i. barrier_step (Run i)) [0, 0, 0, 1, 1, 1, 1, 1, 0] (barrier_start 2)) 1 = Leave"
proof -
  obtain pc b where r: "fold (\<lambda>i. barrier_step (Run i)) [0, 0, 0, 1, 1, 1, 1, 1, 0] (barrier_start 2) = (pc, b)" by fastforce
  then have l: "pc 1 = Leave" by (auto simp: barrier_start_def)
  have "arrived (pc 0)" by (rule barrier_first_round_safe [OF _ r _ l]) simp_all
  with l show ?thesis by (simp only: r fst_conv simp_thms)
qed

text \<open>C37: The test of the count is not part of the locked increment, so two processors can both find it complete. The later
  one then clears the arrival of the earlier one in the second round, and both wait for a change that never comes.
\<close>

theorem barrier_second_round_deadlocks:
  "\<exists>es pc b. fold barrier_step es (barrier_start 2) = (pc, b) \<and> (\<forall>i<2. \<exists>l. pc i = Wait l) \<and>
     count_list es (Again 0) = 1 \<and> count_list es (Again 1) = 1 \<and>
     (\<forall>es'. set es' \<subseteq> {Run 0, Run 1, Again 0, Again 1} \<longrightarrow> fold barrier_step es' (pc, b) = (pc, b))"
proof -
  let ?es = "[Run 0, Run 0, Run 1, Run 1, Run 0, Run 1, Run 0, Run 0, Again 0, Run 0, Run 0, Run 0, Run 1, Run 1, Again 1,
    Run 1, Run 1, Run 1]"
  let ?x = "((\<lambda>_. Enter)(0 := Wait 1, 1 := Wait 1), \<lparr>barrier_count = 1, barrier_sense = 1, barrier_total_cpus = 2\<rparr>)"
  have r: "fold barrier_step ?es (barrier_start 2) = ?x" by (simp add: barrier_start_def fun_upd_twist c_bool_def)
  have "fold barrier_step es' ?x = ?x" if "set es' \<subseteq> {Run 0, Run 1, Again 0, Again 1}" for es'
    using that by (induction es') (auto simp: fun_upd_twist)
  moreover have "count_list ?es (Again 0) = 1" "count_list ?es (Again 1) = 1" by simp_all
  moreover have "\<exists>l. fst ?x i = Wait l" if "i < 2" for i :: nat using that by (auto simp: less_Suc_eq numeral_2_eq_2)
  ultimately show ?thesis using r
    by (intro exI [of _ ?es] exI [of _ "fst ?x"] exI [of _ "snd ?x"]) simp
qed

lemma barrier_second_round_deadlocks_witness:
  "\<exists>es pc b. fold barrier_step es (barrier_start 2) = (pc, b) \<and> (\<exists>l. pc 0 = Wait l) \<and>
     fold barrier_step [Run 0, Run 1] (pc, b) = (pc, b)"
proof -
  obtain es pc b where "fold barrier_step es (barrier_start 2) = (pc, b)" "\<forall>i<2. \<exists>l. pc i = Wait l"
    "\<forall>es'. set es' \<subseteq> {Run 0, Run 1, Again 0, Again 1} \<longrightarrow> fold barrier_step es' (pc, b) = (pc, b)"
    using barrier_second_round_deadlocks by blast
  moreover have "set [Run 0, Run 1] \<subseteq> {Run 0, Run 1, Again 0, Again 1}" by simp
  ultimately show ?thesis by (metis zero_less_numeral)
qed

text \<open>A processor alone passes its barrier and toggles the sense.\<close>

lemma barrier_alone:
  assumes "barrier_total_cpus b = 1" "barrier_count b = 0"
  shows "barrier_run (\<lambda>_. id) 0 Enter b = Some (b\<lparr>barrier_sense := c_bool (barrier_sense b = 0)\<rparr>)"
  using assms by (simp add: barrier_run.simps)

section \<open>Calibration\<close>

lemma calibration_wait_SomeD:
  fixes s :: "'a timing_sync_scheme"
  assumes "calibration_wait D target s = Some t" "ts_hpet_supported s \<noteq> 0"
  shows "\<exists>u :: 'a timing_sync_scheme. hpet_base_address (ts_hpet u) = hpet_base_address (ts_hpet s) \<and> ts_hpet_supported u \<noteq> 0 \<and>
    target \<le> fst (timing_sync_get_hpet_counter D u)"
proof -
  let ?P = "\<lambda>(D :: device) (target :: u64) (s :: 'a timing_sync_scheme). ts_hpet_supported s \<noteq> 0 \<longrightarrow> (\<exists>u :: 'a timing_sync_scheme. hpet_base_address (ts_hpet u) = hpet_base_address (ts_hpet s) \<and>
    ts_hpet_supported u \<noteq> 0 \<and> target \<le> fst (timing_sync_get_hpet_counter D u))"
  have "?P D target s"
  proof (rule calibration_wait.raw_induct [where P = "\<lambda>D target s t. ?P D target s", OF _ assms(1)])
    fix f :: "device \<Rightarrow> u64 \<Rightarrow> 'a timing_sync_scheme \<Rightarrow> 'a timing_sync_scheme option" and D target s t
    assume IH: "\<And>D target s t. f D target s = Some t \<Longrightarrow> ?P D target s"
      and eq: "(case timing_sync_get_hpet_counter D s of (c, s') \<Rightarrow> if c < target then f D target s' else Some s') = Some t"
    show "?P D target s"
    proof
      assume h: "ts_hpet_supported s \<noteq> 0"
      obtain c s' where g: "timing_sync_get_hpet_counter D s = (c, s')" by fastforce
      with h have c: "ts_hpet_supported s' \<noteq> 0" "hpet_base_address (ts_hpet s') = hpet_base_address (ts_hpet s)"
        by (auto simp: timing_sync_get_hpet_counter_def bus)
      show "\<exists>u :: 'a timing_sync_scheme. hpet_base_address (ts_hpet u) = hpet_base_address (ts_hpet s) \<and> ts_hpet_supported u \<noteq> 0 \<and>
          target \<le> fst (timing_sync_get_hpet_counter D u)"
      proof (cases "c < target")
        case True
        then show ?thesis using eq IH [of D target s' t] c by (simp add: g)
      next
        case False
        then show ?thesis using h by (intro exI [of _ s]) (simp add: g not_less)
      qed
    qed
  qed
  with assms(2) show ?thesis by blast
qed

text \<open>With a counter of 32 bits, whose upper half reads 0, the calibration never ends when the target second lies beyond
  its range.\<close>

lemma timing_sync_calibrate_stuck:
  fixes s :: "'a timing_sync_scheme"
  defines "a \<equiv> ucast (hpet_base_address (ts_hpet s)) + 0xF0"
  assumes "ts_tsc_supported s \<noteq> 0" "ts_hpet_supported s \<noteq> 0"
    and "\<forall>tr. D tr (Mem32 (a + 4)) = 0"
    and "2 ^ 32 \<le> take_bit 32 (D (trace s) (Mem32 a)) + hpet_frequency (ts_hpet s)"
  shows "timing_sync_calibrate_tsc D s = None"
proof -
  have low: "ucast (ucast x :: u32) = take_bit 32 (x :: u64)" for x by (rule bit_word_eqI) (auto simp: bit_simps)
  have val: "fst (timing_sync_get_hpet_counter D u) = take_bit 32 (D (trace u) (Mem32 a))"
    if "hpet_base_address (ts_hpet u) = hpet_base_address (ts_hpet s)" "ts_hpet_supported u \<noteq> 0" for u :: "'a timing_sync_scheme"
    using that assms(4) unfolding a_def by (simp add: timing_sync_get_hpet_counter_def bus low)
  obtain c s1 where g: "timing_sync_get_hpet_counter D s = (c, s1)" by fastforce
  obtain t s2 where h: "timing_sync_get_tsc D s1 = (t, s2)" by fastforce
  have c: "c = take_bit 32 (D (trace s) (Mem32 a))" using val [of s] g assms(3) by simp
  have f: "ts_hpet_supported s2 \<noteq> 0" "hpet_base_address (ts_hpet s2) = hpet_base_address (ts_hpet s)"
    "hpet_frequency (ts_hpet s2) = hpet_frequency (ts_hpet s)"
    using g h assms(2,3) by (auto simp: timing_sync_get_hpet_counter_def timing_sync_get_tsc_def bus)
  have "calibration_wait D (c + hpet_frequency (ts_hpet s2)) s2 = None"
  proof (rule ccontr)
    assume "calibration_wait D (c + hpet_frequency (ts_hpet s2)) s2 \<noteq> None"
    then obtain v where "calibration_wait D (c + hpet_frequency (ts_hpet s2)) s2 = Some v" by blast
    from calibration_wait_SomeD [OF this f(1)] obtain u :: "'a timing_sync_scheme" where
      u: "hpet_base_address (ts_hpet u) = hpet_base_address (ts_hpet s)" "ts_hpet_supported u \<noteq> 0"
        "c + hpet_frequency (ts_hpet s2) \<le> fst (timing_sync_get_hpet_counter D u)" unfolding f(2) by blast
    have "2 ^ 32 \<le> take_bit 32 (D (trace u) (Mem32 a))" using u assms(5) unfolding val [OF u(1,2)] c f(3) by (rule_tac order_trans)
    moreover have "take_bit 32 (D (trace u) (Mem32 a)) < 2 ^ 32"
      using take_bit_nat_less_exp [of 32 "unat (D (trace u) (Mem32 a))"] by (simp add: word_less_nat_alt unsigned_take_bit_eq)
    ultimately show False by simp
  qed
  with assms(2,3) show ?thesis unfolding timing_sync_calibrate_tsc_def by (simp add: g h del: calibration_wait.simps)
qed

end
