(* ===== verification/History_Ring.thy ===== *)
theory History_Ring
  imports Blood_Prelude
begin

text \<open>
  Several drivers keep the last events of a kind in an array and an index that wraps: an event is written at the index,
  which then steps to the next place, as long as the driver is switched on. This is the contract, and what it promises of
  the array after any number of events.
\<close>

fun recorded :: "('x \<Rightarrow> 's \<Rightarrow> 's) \<Rightarrow> ('x \<Rightarrow> 's \<Rightarrow> 'e) \<Rightarrow> 'x list \<Rightarrow> 's \<Rightarrow> 'e list" where
  "recorded step entry [] s = []"
| "recorded step entry (x # xs) s = entry x s # recorded step entry xs (step x s)"

text \<open>A component of the state that no iteration of a loop changes.\<close>

lemma fold_keeps: "(\<And>x s. g (f x s) = g s) \<Longrightarrow> g (fold f xs s) = g s"
  by (induction xs arbitrary: s) auto

lemma length_recorded [simp]: "length (recorded step entry xs s) = length xs"
  by (induction xs arbitrary: s) auto

lemma recorded_snoc: "recorded step entry (xs @ [x]) s = recorded step entry xs s @ [entry x (fold step xs s)]"
  by (induction xs arbitrary: s) auto

definition ring_ok :: "nat \<Rightarrow> ('s \<Rightarrow> 'e list) \<Rightarrow> ('s \<Rightarrow> u32) \<Rightarrow> 's \<Rightarrow> bool" where
  "ring_ok N entries index s \<longleftrightarrow> unat (index s) < N \<and> length (entries s) = N"

locale history =
  fixes N :: nat
    and live :: "'s \<Rightarrow> bool"
    and entries :: "'s \<Rightarrow> 'e list"
    and index :: "'s \<Rightarrow> u32"
    and step :: "'x \<Rightarrow> 's \<Rightarrow> 's"
    and entry :: "'x \<Rightarrow> 's \<Rightarrow> 'e"
  assumes places: "0 < N" "N < 2 ^ 32"
    and step_live: "live s \<Longrightarrow> live (step x s)"
    and step_entries: "live s \<Longrightarrow> ring_ok N entries index s \<Longrightarrow> entries (step x s) = (entries s)[unat (index s) := entry x s]"
    and step_index: "live s \<Longrightarrow> ring_ok N entries index s \<Longrightarrow> index (step x s) = (index s + 1) mod of_nat N"
begin

lemma index_next:
  assumes "live s" "ring_ok N entries index s"
  shows "unat (index (step x s)) = (unat (index s) + 1) mod N"
proof -
  have "unat (index s) < N" using assms(2) by (simp add: ring_ok_def)
  then have "unat (index s + 1) = unat (index s) + 1" using places by (simp add: unat_word_ariths)
  then show ?thesis using places step_index [OF assms, of x] by (simp add: unat_mod unat_of_nat)
qed

lemma step_ok: "live s \<Longrightarrow> ring_ok N entries index s \<Longrightarrow> ring_ok N entries index (step x s)"
  using index_next [of s x] step_entries [of s x] places by (simp add: ring_ok_def)

lemma steps_ok: "live s \<Longrightarrow> ring_ok N entries index s \<Longrightarrow> ring_ok N entries index (fold step xs s)"
  by (induction xs arbitrary: s) (simp_all add: step_ok step_live)

lemma steps_live: "live s \<Longrightarrow> live (fold step xs s)"
  by (induction xs arbitrary: s) (simp_all add: step_live)

text \<open>Of the last \<open>N\<close> events the \<open>k\<close>-th from the end stands \<open>k + 1\<close> places before the index.\<close>

lemma recent:
  assumes "live s" "ring_ok N entries index s" "k < N" "k < length xs"
  shows "entries (fold step xs s) ! ((unat (index (fold step xs s)) + N - 1 - k) mod N) =
    recorded step entry xs s ! (length xs - 1 - k)"
  using assms(3,4)
proof (induction xs arbitrary: k rule: rev_induct)
  case Nil
  then show ?case by simp
next
  case (snoc x xs)
  let ?t = "fold step xs s"
  have l: "live ?t" by (rule steps_live [OF assms(1)])
  have t: "ring_ok N entries index ?t" by (rule steps_ok [OF assms(1,2)])
  then have i: "unat (index ?t) < N" "length (entries ?t) = N" by (simp_all add: ring_ok_def)
  have n: "unat (index (step x ?t)) = (unat (index ?t) + 1) mod N" by (rule index_next [OF l t])
  show ?case
  proof (cases k)
    case 0
    have "((unat (index ?t) + 1) mod N + N - 1) mod N = unat (index ?t)" using i places
      by (cases "unat (index ?t) + 1 = N") (simp_all add: mod_if)
    with 0 i t l show ?thesis by (simp add: n step_entries recorded_snoc nth_append)
  next
    case (Suc j)
    have e: "((unat (index ?t) + 1) mod N + N - 1 - k) mod N = (unat (index ?t) + N - 1 - j) mod N"
      using i snoc.prems Suc by (cases "unat (index ?t) + 1 = N") (auto simp: mod_if)
    have "(unat (index ?t) + N - 1 - j) mod N \<noteq> unat (index ?t)"
      using i snoc.prems Suc by (auto simp: mod_if)
    moreover have "(unat (index ?t) + N - 1 - j) mod N < N" using places by simp
    moreover have "entries ?t ! ((unat (index ?t) + N - 1 - j) mod N) = recorded step entry xs s ! (length xs - 1 - j)"
      using snoc.IH [of j] snoc.prems Suc by simp
    moreover have "length xs - Suc j < length xs" using snoc.prems Suc by simp
    ultimately show ?thesis using snoc.prems Suc e i t l
      by (simp add: n step_entries recorded_snoc nth_append)
  qed
qed

end

end
