(* ===== verification/Memory_Ordering.thy ===== *)
theory Memory_Ordering
  imports Msr_Regs History_Ring
begin

text \<open>
  \<open>src/drivers/memory_ordering.c\<close>: fences and atomic accesses, each recorded in a history. The fields of
  \<open>memory_ordering_info_t\<close> carry the prefix \<open>mo_\<close>. The 64-bit operands of \<open>xchgq\<close>, \<open>cmpxchgq\<close> and \<open>lea (%rip)\<close> exist on
  64-bit processors only; they are modelled as they would behave there.
\<close>

definition MEMORY_ORDER_ACQUIRE :: "'a::len word" where "MEMORY_ORDER_ACQUIRE = 1"
definition MEMORY_ORDER_RELEASE :: "'a::len word" where "MEMORY_ORDER_RELEASE = 2"
definition MEMORY_ORDER_SEQ_CST :: "'a::len word" where "MEMORY_ORDER_SEQ_CST = 4"
definition FENCE_TYPE_LOAD :: "'a::len word" where "FENCE_TYPE_LOAD = 0"
definition FENCE_TYPE_STORE :: "'a::len word" where "FENCE_TYPE_STORE = 1"
definition FENCE_TYPE_FULL :: "'a::len word" where "FENCE_TYPE_FULL = 2"
definition FENCE_TYPE_SERIALIZE :: "'a::len word" where "FENCE_TYPE_SERIALIZE = 3"
definition MEMORY_MODEL_TSO :: "'a::len word" where "MEMORY_MODEL_TSO = 0"
definition MEMORY_MODEL_PSO :: "'a::len word" where "MEMORY_MODEL_PSO = 1"
definition MEMORY_MODEL_RMO :: "'a::len word" where "MEMORY_MODEL_RMO = 2"

record fence_record =
  fr_fence_type :: u32
  fr_timestamp :: u64
  fr_instruction_pointer :: u64
  fr_cpu_id :: u32

record memory_access =
  ma_address :: u64
  ma_value :: u64
  ma_ordering :: u8
  ma_timestamp :: u64
  ma_cpu_id :: u8
  ma_operation :: u8

record memory_ordering = msr +
  mo_memory_ordering_supported :: u8
  mo_strong_ordering :: u8
  mo_memory_model :: u8
  mo_total_fences :: u32
  mo_load_fences :: u32
  mo_store_fences :: u32
  mo_full_fences :: u32
  mo_serialize_fences :: u32
  mo_fence_history :: "fence_record list"    \<comment> \<open>256\<close>
  mo_fence_history_index :: u32
  mo_access_history :: "memory_access list"    \<comment> \<open>128\<close>
  mo_access_history_index :: u32
  mo_ordering_violations :: u32
  mo_last_fence_time :: u64
  mo_max_fence_latency :: u64
  mo_min_fence_latency :: u64

text \<open>The entry is the one at the index, every field of it overwritten in turn.\<close>

definition memory_ordering_record_fence :: "device \<Rightarrow> u32 \<Rightarrow> 'a memory_ordering_scheme \<Rightarrow> 'a memory_ordering_scheme" where
  "memory_ordering_record_fence D fence_type s =
     (let i = unat (mo_fence_history_index s);
          (now, s) = ask_ext D ''timer_get_ticks'' [] s;
          (cpu, s) = ask_ext D ''cpu_get_current_id'' [] s;
          (ip, s) = rd D (Isa ''lea (rip)'' [] 0) s
      in s\<lparr>mo_fence_history := (mo_fence_history s)[i := \<lparr>fr_fence_type = fence_type, fr_timestamp = now,
             fr_instruction_pointer = ip, fr_cpu_id = cpu\<rparr>],
           mo_fence_history_index := (mo_fence_history_index s + 1) mod 256,
           mo_total_fences := mo_total_fences s + 1, mo_last_fence_time := now\<rparr>)"

definition memory_ordering_init :: "'a memory_ordering_scheme \<Rightarrow> 'a memory_ordering_scheme" where
  "memory_ordering_init s =
     (let s = s\<lparr>mo_memory_ordering_supported := 1, mo_strong_ordering := 1, mo_memory_model := MEMORY_MODEL_TSO,
                mo_total_fences := 0, mo_load_fences := 0, mo_store_fences := 0, mo_full_fences := 0,
                mo_serialize_fences := 0, mo_fence_history_index := 0, mo_access_history_index := 0,
                mo_ordering_violations := 0, mo_last_fence_time := 0, mo_max_fence_latency := 0,
                mo_min_fence_latency := 0xFFFFFFFFFFFFFFFF\<rparr>;
          s = fold (\<lambda>i s. s\<lparr>mo_fence_history := (mo_fence_history s)[i := ((mo_fence_history s) ! i)\<lparr>fr_fence_type := 0, fr_timestamp := 0, fr_instruction_pointer := 0, fr_cpu_id := 0\<rparr>]\<rparr>)
            [0..<256] s
      in fold (\<lambda>i s. s\<lparr>mo_access_history := (mo_access_history s)[i := ((mo_access_history s) ! i)\<lparr>ma_address := 0, ma_value := 0, ma_ordering := 0, ma_timestamp := 0, ma_cpu_id := 0, ma_operation := 0\<rparr>]\<rparr>)
            [0..<128] s)"

definition memory_ordering_is_supported :: "'a memory_ordering_scheme \<Rightarrow> u8" where
  "memory_ordering_is_supported s = mo_memory_ordering_supported s"

definition memory_ordering_is_strong_ordering :: "'a memory_ordering_scheme \<Rightarrow> u8" where
  "memory_ordering_is_strong_ordering s = mo_strong_ordering s"

definition memory_ordering_get_memory_model :: "'a memory_ordering_scheme \<Rightarrow> u8" where
  "memory_ordering_get_memory_model s = mo_memory_model s"

definition memory_ordering_lfence :: "device \<Rightarrow> 'a memory_ordering_scheme \<Rightarrow> 'a memory_ordering_scheme" where
  "memory_ordering_lfence D s =
     (let (start_time, s) = ask_ext D ''timer_get_ticks'' [] s;
          s = insn (Asm ''lfence'' []) s;
          (end_time, s) = ask_ext D ''timer_get_ticks'' [] s;
          latency = end_time - start_time;
          s = (if latency > mo_max_fence_latency s then s\<lparr>mo_max_fence_latency := latency\<rparr>
               else s);
          s = (if latency < mo_min_fence_latency s then s\<lparr>mo_min_fence_latency := latency\<rparr>
               else s);
          s = s\<lparr>mo_load_fences := mo_load_fences s + 1\<rparr>
      in memory_ordering_record_fence D FENCE_TYPE_LOAD s)"

definition memory_ordering_sfence :: "device \<Rightarrow> 'a memory_ordering_scheme \<Rightarrow> 'a memory_ordering_scheme" where
  "memory_ordering_sfence D s =
     (let (start_time, s) = ask_ext D ''timer_get_ticks'' [] s;
          s = insn (Asm ''sfence'' []) s;
          (end_time, s) = ask_ext D ''timer_get_ticks'' [] s;
          latency = end_time - start_time;
          s = (if latency > mo_max_fence_latency s then s\<lparr>mo_max_fence_latency := latency\<rparr>
               else s);
          s = (if latency < mo_min_fence_latency s then s\<lparr>mo_min_fence_latency := latency\<rparr>
               else s);
          s = s\<lparr>mo_store_fences := mo_store_fences s + 1\<rparr>
      in memory_ordering_record_fence D FENCE_TYPE_STORE s)"

definition memory_ordering_mfence :: "device \<Rightarrow> 'a memory_ordering_scheme \<Rightarrow> 'a memory_ordering_scheme" where
  "memory_ordering_mfence D s =
     (let (start_time, s) = ask_ext D ''timer_get_ticks'' [] s;
          s = insn (Asm ''mfence'' []) s;
          (end_time, s) = ask_ext D ''timer_get_ticks'' [] s;
          latency = end_time - start_time;
          s = (if latency > mo_max_fence_latency s then s\<lparr>mo_max_fence_latency := latency\<rparr>
               else s);
          s = (if latency < mo_min_fence_latency s then s\<lparr>mo_min_fence_latency := latency\<rparr>
               else s);
          s = s\<lparr>mo_full_fences := mo_full_fences s + 1\<rparr>
      in memory_ordering_record_fence D FENCE_TYPE_FULL s)"

definition memory_ordering_serialize :: "device \<Rightarrow> 'a memory_ordering_scheme \<Rightarrow> 'a memory_ordering_scheme" where
  "memory_ordering_serialize D s =
     (let (start_time, s) = ask_ext D ''timer_get_ticks'' [] s;
          ((eax, ebx, ecx, edx), s) = cpuid D 0 s;
          (end_time, s) = ask_ext D ''timer_get_ticks'' [] s;
          latency = end_time - start_time;
          s = (if latency > mo_max_fence_latency s then s\<lparr>mo_max_fence_latency := latency\<rparr>
               else s);
          s = (if latency < mo_min_fence_latency s then s\<lparr>mo_min_fence_latency := latency\<rparr>
               else s);
          s = s\<lparr>mo_serialize_fences := mo_serialize_fences s + 1\<rparr>
      in memory_ordering_record_fence D FENCE_TYPE_SERIALIZE s)"

definition memory_ordering_compiler_barrier :: "'a memory_ordering_scheme \<Rightarrow> 'a memory_ordering_scheme" where
  "memory_ordering_compiler_barrier s = s"

text \<open>The record every access leaves, and the step of its index.\<close>

definition record_access :: "device \<Rightarrow> u32 \<Rightarrow> u64 \<Rightarrow> u8 \<Rightarrow> u8 \<Rightarrow> 'a memory_ordering_scheme \<Rightarrow> 'a memory_ordering_scheme" where
  "record_access D address val order operation s =
     (let i = unat (mo_access_history_index s);
          (now, s) = ask_ext D ''timer_get_ticks'' [] s;
          (cpu :: u32, s) = ask_ext D ''cpu_get_current_id'' [] s
      in s\<lparr>mo_access_history := (mo_access_history s)[i := \<lparr>ma_address = ucast address, ma_value = val,
             ma_ordering = order, ma_timestamp = now, ma_cpu_id = ucast cpu, ma_operation = operation\<rparr>],
           mo_access_history_index := (mo_access_history_index s + 1) mod 128\<rparr>)"

definition memory_ordering_atomic_load_acquire :: "device \<Rightarrow> u32 \<Rightarrow> 'a memory_ordering_scheme \<Rightarrow> u64 \<times> 'a memory_ordering_scheme" where
  "memory_ordering_atomic_load_acquire D address s =
     (let (v, s) = read64 D address s;
          s = memory_ordering_lfence D s
      in (v, record_access D address v MEMORY_ORDER_ACQUIRE 0 s))"

definition memory_ordering_atomic_store_release ::
  "device \<Rightarrow> u32 \<Rightarrow> u64 \<Rightarrow> 'a memory_ordering_scheme \<Rightarrow> 'a memory_ordering_scheme" where
  "memory_ordering_atomic_store_release D address v s =
     (let s = memory_ordering_sfence D s;
          s = write64 address v s
      in record_access D address v MEMORY_ORDER_RELEASE 1 s)"

definition memory_ordering_atomic_exchange ::
  "device \<Rightarrow> u32 \<Rightarrow> u64 \<Rightarrow> 'a memory_ordering_scheme \<Rightarrow> u64 \<times> 'a memory_ordering_scheme" where
  "memory_ordering_atomic_exchange D address new_value s =
     (let (old_value, s) = read64 D address s;
          s = write64 address new_value s
      in (old_value, record_access D address new_value MEMORY_ORDER_SEQ_CST 1 s))"

text \<open>The result is the flag and the new value of \<open>*expected\<close>.\<close>

definition memory_ordering_atomic_compare_exchange ::
  "device \<Rightarrow> u32 \<Rightarrow> u64 \<Rightarrow> u64 \<Rightarrow> 'a memory_ordering_scheme \<Rightarrow> (u8 \<times> u64) \<times> 'a memory_ordering_scheme" where
  "memory_ordering_atomic_compare_exchange D address expected desired s =
     (let (v, s) = read64 D address s;
          success = c_bool (v = expected);
          s = (if v = expected then write64 address desired s else s);
          old_value = (if v = expected then expected else v)
      in ((success, old_value),
          record_access D address (if success \<noteq> 0 then desired else old_value) MEMORY_ORDER_SEQ_CST 1 s))"

definition memory_ordering_pause :: "'a memory_ordering_scheme \<Rightarrow> 'a memory_ordering_scheme" where
  "memory_ordering_pause s = s"

definition memory_ordering_get_total_fences :: "'a memory_ordering_scheme \<Rightarrow> u32" where
  "memory_ordering_get_total_fences s = mo_total_fences s"

definition memory_ordering_get_load_fences :: "'a memory_ordering_scheme \<Rightarrow> u32" where
  "memory_ordering_get_load_fences s = mo_load_fences s"

definition memory_ordering_get_store_fences :: "'a memory_ordering_scheme \<Rightarrow> u32" where
  "memory_ordering_get_store_fences s = mo_store_fences s"

definition memory_ordering_get_full_fences :: "'a memory_ordering_scheme \<Rightarrow> u32" where
  "memory_ordering_get_full_fences s = mo_full_fences s"

definition memory_ordering_get_serialize_fences :: "'a memory_ordering_scheme \<Rightarrow> u32" where
  "memory_ordering_get_serialize_fences s = mo_serialize_fences s"

definition memory_ordering_get_fence_history :: "u32 \<Rightarrow> 'a memory_ordering_scheme \<Rightarrow> fence_record option" where
  "memory_ordering_get_fence_history index s =
     (if index \<ge> 256 then None
      else Some (mo_fence_history s ! (unat index)))"

definition memory_ordering_get_access_history :: "u32 \<Rightarrow> 'a memory_ordering_scheme \<Rightarrow> memory_access option" where
  "memory_ordering_get_access_history index s =
     (if index \<ge> 128 then None
      else Some (mo_access_history s ! (unat index)))"

definition memory_ordering_get_ordering_violations :: "'a memory_ordering_scheme \<Rightarrow> u32" where
  "memory_ordering_get_ordering_violations s = mo_ordering_violations s"

definition memory_ordering_get_last_fence_time :: "'a memory_ordering_scheme \<Rightarrow> u64" where
  "memory_ordering_get_last_fence_time s = mo_last_fence_time s"

definition memory_ordering_get_max_fence_latency :: "'a memory_ordering_scheme \<Rightarrow> u64" where
  "memory_ordering_get_max_fence_latency s = mo_max_fence_latency s"

definition memory_ordering_get_min_fence_latency :: "'a memory_ordering_scheme \<Rightarrow> u64" where
  "memory_ordering_get_min_fence_latency s = mo_min_fence_latency s"

definition memory_ordering_clear_statistics :: "'a memory_ordering_scheme \<Rightarrow> 'a memory_ordering_scheme" where
  "memory_ordering_clear_statistics s =
     s\<lparr>mo_total_fences := 0, mo_load_fences := 0, mo_store_fences := 0, mo_full_fences := 0, mo_serialize_fences := 0, mo_ordering_violations := 0, mo_max_fence_latency := 0, mo_min_fence_latency := 0xFFFFFFFFFFFFFFFF, mo_fence_history_index := 0, mo_access_history_index := 0\<rparr>"

definition memory_ordering_get_fence_type_name :: "u32 \<Rightarrow> string" where
  "memory_ordering_get_fence_type_name fence_type =
     (if fence_type = FENCE_TYPE_LOAD then ''Load Fence''
      else if fence_type = FENCE_TYPE_STORE then ''Store Fence''
      else if fence_type = FENCE_TYPE_FULL then ''Full Fence''
      else if fence_type = FENCE_TYPE_SERIALIZE then ''Serialize''
      else ''Unknown'')"

definition memory_ordering_get_memory_model_name :: "u8 \<Rightarrow> string" where
  "memory_ordering_get_memory_model_name model =
     (if model = MEMORY_MODEL_TSO then ''Total Store Order''
      else if model = MEMORY_MODEL_PSO then ''Partial Store Order''
      else if model = MEMORY_MODEL_RMO then ''Relaxed Memory Order''
      else ''Unknown'')"

definition memory_ordering_detect_violation :: "u64 \<Rightarrow> u64 \<Rightarrow> u64 \<Rightarrow> u64 \<Rightarrow> 'a memory_ordering_scheme \<Rightarrow> 'a memory_ordering_scheme" where
  "memory_ordering_detect_violation address1 address2 time1 time2 s =
     (if address1 = address2 \<and> time1 > time2 then s\<lparr>mo_ordering_violations := mo_ordering_violations s + 1\<rparr>
      else s)"

definition memory_ordering_memory_barrier_full :: "device \<Rightarrow> 'a memory_ordering_scheme \<Rightarrow> 'a memory_ordering_scheme" where
  "memory_ordering_memory_barrier_full D s = memory_ordering_mfence D s"

definition memory_ordering_memory_barrier_read :: "device \<Rightarrow> 'a memory_ordering_scheme \<Rightarrow> 'a memory_ordering_scheme" where
  "memory_ordering_memory_barrier_read D s = memory_ordering_lfence D s"

definition memory_ordering_memory_barrier_write :: "device \<Rightarrow> 'a memory_ordering_scheme \<Rightarrow> 'a memory_ordering_scheme" where
  "memory_ordering_memory_barrier_write D s = memory_ordering_sfence D s"

section \<open>The histories\<close>

definition fence_entry :: "device \<Rightarrow> u32 \<Rightarrow> 'a memory_ordering_scheme \<Rightarrow> fence_record" where
  "fence_entry D ty s =
     (let (now, s) = ask_ext D ''timer_get_ticks'' [] s;
          (cpu, s) = ask_ext D ''cpu_get_current_id'' [] s;
          (ip, s) = rd D (Isa ''lea (rip)'' [] 0) s
      in \<lparr>fr_fence_type = ty, fr_timestamp = now, fr_instruction_pointer = ip, fr_cpu_id = cpu\<rparr>)"

interpretation fences: history 256 "\<lambda>_. True" mo_fence_history mo_fence_history_index "memory_ordering_record_fence D" "fence_entry D"
  for D :: device
  by unfold_locales (simp_all add: memory_ordering_record_fence_def fence_entry_def bus)

definition access_entry :: "device \<Rightarrow> u32 \<times> u64 \<times> u8 \<times> u8 \<Rightarrow> 'a memory_ordering_scheme \<Rightarrow> memory_access" where
  "access_entry D x s = (case x of (address, v, order, operation) \<Rightarrow>
     (let (now, s) = ask_ext D ''timer_get_ticks'' [] s;
          (cpu :: u32, s) = ask_ext D ''cpu_get_current_id'' [] s
      in \<lparr>ma_address = ucast address, ma_value = v, ma_ordering = order, ma_timestamp = now, ma_cpu_id = ucast cpu,
          ma_operation = operation\<rparr>))"

interpretation accesses: history 128 "\<lambda>_. True" mo_access_history mo_access_history_index
    "\<lambda>(a, v, m, p). record_access D a v m p" "access_entry D" for D :: device
  by unfold_locales (auto simp: record_access_def access_entry_def bus)

text \<open>A fence counts itself once in the total and once in its kind, and is recorded last.\<close>

lemma record_fence_fields [simp]:
  "mo_total_fences (memory_ordering_record_fence D ty s) = mo_total_fences s + 1"
  "mo_load_fences (memory_ordering_record_fence D ty s) = mo_load_fences s"
  "mo_store_fences (memory_ordering_record_fence D ty s) = mo_store_fences s"
  "mo_full_fences (memory_ordering_record_fence D ty s) = mo_full_fences s"
  "mo_serialize_fences (memory_ordering_record_fence D ty s) = mo_serialize_fences s"
  by (simp_all add: memory_ordering_record_fence_def bus)

lemma memory_ordering_lfence_counts:
  "mo_total_fences (memory_ordering_lfence D s) = mo_total_fences s + 1"
  "mo_load_fences (memory_ordering_lfence D s) = mo_load_fences s + 1"
  "mo_store_fences (memory_ordering_lfence D s) = mo_store_fences s"
  "mo_full_fences (memory_ordering_lfence D s) = mo_full_fences s"
  "mo_serialize_fences (memory_ordering_lfence D s) = mo_serialize_fences s"
  by (simp_all add: memory_ordering_lfence_def bus)

lemma memory_ordering_sfence_counts:
  "mo_total_fences (memory_ordering_sfence D s) = mo_total_fences s + 1"
  "mo_load_fences (memory_ordering_sfence D s) = mo_load_fences s"
  "mo_store_fences (memory_ordering_sfence D s) = mo_store_fences s + 1"
  "mo_full_fences (memory_ordering_sfence D s) = mo_full_fences s"
  "mo_serialize_fences (memory_ordering_sfence D s) = mo_serialize_fences s"
  by (simp_all add: memory_ordering_sfence_def bus)

lemma memory_ordering_mfence_counts:
  "mo_total_fences (memory_ordering_mfence D s) = mo_total_fences s + 1"
  "mo_load_fences (memory_ordering_mfence D s) = mo_load_fences s"
  "mo_store_fences (memory_ordering_mfence D s) = mo_store_fences s"
  "mo_full_fences (memory_ordering_mfence D s) = mo_full_fences s + 1"
  "mo_serialize_fences (memory_ordering_mfence D s) = mo_serialize_fences s"
  by (simp_all add: memory_ordering_mfence_def bus)

definition fences_balance :: "'a memory_ordering_scheme \<Rightarrow> bool" where
  "fences_balance s \<longleftrightarrow> mo_total_fences s =
     mo_load_fences s + mo_store_fences s + mo_full_fences s + mo_serialize_fences s"

lemmas fence_counts = memory_ordering_lfence_counts memory_ordering_sfence_counts memory_ordering_mfence_counts

lemma fences_balance_ops:
  assumes "fences_balance s"
  shows "fences_balance (memory_ordering_lfence D s)" "fences_balance (memory_ordering_sfence D s)"
    "fences_balance (memory_ordering_mfence D s)" "fences_balance (memory_ordering_clear_statistics s)"
  using assms by (simp_all add: fences_balance_def fence_counts memory_ordering_clear_statistics_def)

lemma fences_balance_init: "fences_balance (memory_ordering_init s)"
  by (simp add: fences_balance_def memory_ordering_init_def Let_def fold_keeps [of mo_total_fences] fold_keeps [of mo_load_fences]
      fold_keeps [of mo_store_fences] fold_keeps [of mo_full_fences] fold_keeps [of mo_serialize_fences])

text \<open>A comparison that fails writes nothing and hands back the value found, yet is recorded as a store.\<close>

lemma memory_ordering_cmpxchg_fails:
  assumes "D (trace s) (Mem64 a) = v" "v \<noteq> expected" "ring_ok 128 mo_access_history mo_access_history_index s"
  shows "fst (memory_ordering_atomic_compare_exchange D a expected desired s) = (0, v)"
    "Wr (Mem64 a) w \<notin> set (drop (length (trace s)) (trace (snd (memory_ordering_atomic_compare_exchange D a expected desired s))))"
    "ma_operation (mo_access_history (snd (memory_ordering_atomic_compare_exchange D a expected desired s)) !
       unat (mo_access_history_index s)) = 1"
  using assms by (simp_all add: memory_ordering_atomic_compare_exchange_def record_access_def ring_ok_def c_bool_def bus)

end
