(* ===== verification/Power_Unit.thy ===== *)
theory Power_Unit
  imports Msr_Regs
begin

text \<open>
  \<open>src/drivers/power.c\<close>: performance and idle states. The fields of \<open>power_info_t\<close> carry the prefix \<open>pw_\<close>, those
  of the table entries \<open>p_\<close> and \<open>c_\<close>.
\<close>

definition MSR_PERF_STATUS :: "'a::len word" where "MSR_PERF_STATUS = 0x198"
definition MSR_PERF_CTL :: "'a::len word" where "MSR_PERF_CTL = 0x199"
definition MSR_CLOCK_MODULATION :: "'a::len word" where "MSR_CLOCK_MODULATION = 0x19A"
definition MSR_MISC_ENABLE :: "'a::len word" where "MSR_MISC_ENABLE = 0x1A0"
definition MSR_ENERGY_PERF_BIAS :: "'a::len word" where "MSR_ENERGY_PERF_BIAS = 0x1B0"
definition MSR_PKG_ENERGY_STATUS :: "'a::len word" where "MSR_PKG_ENERGY_STATUS = 0x611"
definition MSR_DRAM_ENERGY_STATUS :: "'a::len word" where "MSR_DRAM_ENERGY_STATUS = 0x619"
definition CLOCK_MOD_ENABLE :: "'a::len word" where "CLOCK_MOD_ENABLE = 0x10"
definition CLOCK_MOD_DUTY_MASK :: "'a::len word" where "CLOCK_MOD_DUTY_MASK = 0x0E"
definition EPB_BALANCED :: "'a::len word" where "EPB_BALANCED = 0x06"

record pstate =
  p_frequency :: u16
  p_voltage :: u16
  p_power :: u16
  p_valid :: u8

record cstate =
  c_type :: u8
  c_latency :: u8
  c_power :: u16
  c_address :: u32

record power = msr +
  pw_pstate_supported :: u8
  pw_cstate_supported :: u8
  pw_eist_supported :: u8
  pw_turbo_supported :: u8
  pw_clock_modulation_supported :: u8
  pw_energy_perf_bias_supported :: u8
  pw_current_pstate :: u8
  pw_max_pstate :: u8
  pw_min_pstate :: u8
  pw_turbo_pstate :: u8
  pw_pstates :: "pstate list"    \<comment> \<open>16\<close>
  pw_cstates :: "cstate list"    \<comment> \<open>8\<close>
  pw_num_pstates :: u8
  pw_num_cstates :: u8
  pw_energy_unit :: u32
  pw_power_unit :: u32
  pw_time_unit :: u32

definition power_check_eist_support :: "device \<Rightarrow> 'a power_scheme \<Rightarrow> u8 \<times> 'a power_scheme" where
  "power_check_eist_support D s =
     (let ((eax, ebx, ecx, edx), s) = cpuid D 1 s
      in (c_bool (ecx AND push_bit 7 1 \<noteq> 0), s))"

definition power_check_turbo_support :: "device \<Rightarrow> 'a power_scheme \<Rightarrow> u8 \<times> 'a power_scheme" where
  "power_check_turbo_support D s =
     (let ((eax, ebx, ecx, edx), s) = cpuid D 6 s
      in (c_bool (eax AND push_bit 1 1 \<noteq> 0), s))"

definition power_check_clock_modulation :: "device \<Rightarrow> 'a power_scheme \<Rightarrow> u8 \<times> 'a power_scheme" where
  "power_check_clock_modulation D s =
     (let ((eax, ebx, ecx, edx), s) = cpuid D 1 s
      in (c_bool (edx AND push_bit 22 1 \<noteq> 0), s))"

definition power_check_energy_perf_bias :: "device \<Rightarrow> 'a power_scheme \<Rightarrow> u8 \<times> 'a power_scheme" where
  "power_check_energy_perf_bias D s =
     (let ((eax, ebx, ecx, edx), s) = cpuid D 6 s
      in (c_bool (ecx AND push_bit 3 1 \<noteq> 0), s))"

definition power_detect_pstates :: "device \<Rightarrow> 'a power_scheme \<Rightarrow> 'a power_scheme" where
  "power_detect_pstates D s =
     (if pw_eist_supported s = 0 then s
      else (let (perf_status, s) = msr_read D MSR_PERF_STATUS s;
                s = s\<lparr>pw_current_pstate := ucast (drop_bit 8 perf_status AND 0xFF)\<rparr>;
                (platform_info, s) = msr_read D 0xCE s;
                s = (if platform_info \<noteq> 0 then
                        (let s = s\<lparr>pw_max_pstate := ucast (drop_bit 8 platform_info AND 0xFF),
                                   pw_min_pstate := ucast (drop_bit 40 platform_info AND 0xFF)\<rparr>
                         in (if pw_turbo_supported s \<noteq> 0 then s\<lparr>pw_turbo_pstate := pw_max_pstate s + 1\<rparr>
                             else s))
                     else s\<lparr>pw_max_pstate := 16, pw_min_pstate := 6\<rparr>);
                s = s\<lparr>pw_num_pstates := 0\<rparr>
            in fold (\<lambda>i s. (let s = s\<lparr>pw_pstates := (pw_pstates s)[unat (pw_num_pstates s) := ((pw_pstates s) ! (unat (pw_num_pstates s)))\<lparr>p_frequency := of_nat i * 100, p_voltage := 1000 + (of_nat i * 50), p_power := of_nat i * 5, p_valid := 1\<rparr>]\<rparr>
                                    in s\<lparr>pw_num_pstates := pw_num_pstates s + 1\<rparr>))
                  [unat (pw_min_pstate s)..<min (Suc (unat (pw_max_pstate s))) 16] s))"

definition power_detect_cstates :: "device \<Rightarrow> 'a power_scheme \<Rightarrow> 'a power_scheme" where
  "power_detect_cstates D s =
     (let s = s\<lparr>pw_num_cstates := 0\<rparr>;
          s = s\<lparr>pw_cstates := (pw_cstates s)[0 := ((pw_cstates s) ! 0)\<lparr>c_type := 0, c_latency := 0,
                                                            c_power := 100, c_address := 0\<rparr>]\<rparr>;
          s = s\<lparr>pw_num_cstates := pw_num_cstates s + 1\<rparr>;
          s = s\<lparr>pw_cstates := (pw_cstates s)[1 := ((pw_cstates s) ! 1)\<lparr>c_type := 1, c_latency := 1,
                                                            c_power := 50, c_address := 0\<rparr>]\<rparr>;
          s = s\<lparr>pw_num_cstates := pw_num_cstates s + 1\<rparr>;
          ((eax, ebx, ecx, edx), s) = cpuid D 5 s;
          s = (if eax \<ge> 0x20 then
                  (let s = s\<lparr>pw_cstates := (pw_cstates s)[2 := ((pw_cstates s) ! 2)\<lparr>c_type := 2,
                                                            c_latency := 10, c_power := 25, c_address := 0x20\<rparr>]\<rparr>
                   in s\<lparr>pw_num_cstates := pw_num_cstates s + 1\<rparr>)
               else s);
          s = (if eax \<ge> 0x30 then
                  (let s = s\<lparr>pw_cstates := (pw_cstates s)[3 := ((pw_cstates s) ! 3)\<lparr>c_type := 3,
                                                            c_latency := 50, c_power := 10, c_address := 0x30\<rparr>]\<rparr>
                   in s\<lparr>pw_num_cstates := pw_num_cstates s + 1\<rparr>)
               else s)
      in s\<lparr>pw_cstate_supported := c_bool (pw_num_cstates s > 1)\<rparr>)"

definition power_init_energy_units :: "device \<Rightarrow> 'a power_scheme \<Rightarrow> 'a power_scheme" where
  "power_init_energy_units D s =
     (let (power_unit, s) = msr_read D 0x606 s
      in s\<lparr>pw_power_unit := push_bit (unat (drop_bit 0 power_unit AND 0xF)) (1 :: u32),
           pw_energy_unit := push_bit (unat (drop_bit 8 power_unit AND 0x1F)) (1 :: u32),
           pw_time_unit := push_bit (unat (drop_bit 16 power_unit AND 0xF)) (1 :: u32)\<rparr>)"

definition power_init :: "device \<Rightarrow> 'a power_scheme \<Rightarrow> 'a power_scheme" where
  "power_init D s =
     (if msr_is_supported s = 0 then s
      else (let (v, s) = power_check_eist_support D s;
                s = s\<lparr>pw_eist_supported := v\<rparr>;
                (v2, s) = power_check_turbo_support D s;
                s = s\<lparr>pw_turbo_supported := v2\<rparr>;
                (v3, s) = power_check_clock_modulation D s;
                s = s\<lparr>pw_clock_modulation_supported := v3\<rparr>;
                (v4, s) = power_check_energy_perf_bias D s;
                s = s\<lparr>pw_energy_perf_bias_supported := v4\<rparr>;
                s = power_detect_pstates D s;
                s = power_detect_cstates D s;
                s = power_init_energy_units D s;
                s = s\<lparr>pw_pstate_supported := c_bool (pw_eist_supported s \<noteq> 0 \<and> pw_num_pstates s > 1)\<rparr>
            in (if pw_energy_perf_bias_supported s \<noteq> 0 then msr_write MSR_ENERGY_PERF_BIAS EPB_BALANCED s
                else s)))"

definition power_set_pstate :: "device \<Rightarrow> u8 \<Rightarrow> 'a power_scheme \<Rightarrow> u8 \<times> 'a power_scheme" where
  "power_set_pstate D pstate s =
     (if pw_pstate_supported s = 0 then (0, s)
      else if pstate < pw_min_pstate s \<or> pstate > pw_max_pstate s then (0, s)
      else (let (perf_ctl, s) = msr_read D MSR_PERF_CTL s;
                perf_ctl = (perf_ctl AND NOT 0xFF00) OR push_bit 8 (ucast pstate);
                s = msr_write MSR_PERF_CTL perf_ctl s;
                s = s\<lparr>pw_current_pstate := pstate\<rparr>
            in (1, s)))"

definition power_get_pstate :: "device \<Rightarrow> 'a power_scheme \<Rightarrow> u8 \<times> 'a power_scheme" where
  "power_get_pstate D s =
     (if pw_pstate_supported s = 0 then (0, s)
      else (let (perf_status, s) = msr_read D MSR_PERF_STATUS s
            in (ucast (drop_bit 8 perf_status AND 0xFF), s)))"

definition power_set_frequency :: "device \<Rightarrow> u16 \<Rightarrow> 'a power_scheme \<Rightarrow> 'a power_scheme" where
  "power_set_frequency D frequency_mhz s =
     (if pw_pstate_supported s = 0 then s
      else (let target_pstate = (ucast (ucast frequency_mhz div 100 :: u32) :: u8);
                target_pstate = (if target_pstate < pw_min_pstate s then pw_min_pstate s
                                 else if target_pstate > pw_max_pstate s then pw_max_pstate s else target_pstate);
                (v, s) = power_set_pstate D target_pstate s
            in s))"

definition power_get_frequency :: "device \<Rightarrow> 'a power_scheme \<Rightarrow> u16 \<times> 'a power_scheme" where
  "power_get_frequency D s =
     (if pw_pstate_supported s = 0 then (0, s)
      else (let (current_pstate, s) = power_get_pstate D s
            in (ucast current_pstate * 100, s)))"

definition power_enable_turbo :: "device \<Rightarrow> u8 \<Rightarrow> 'a power_scheme \<Rightarrow> 'a power_scheme" where
  "power_enable_turbo D enable s =
     (if pw_turbo_supported s = 0 then s
      else (let (misc_enable, s) = msr_read D MSR_MISC_ENABLE s;
                misc_enable = (if enable \<noteq> 0 then misc_enable AND NOT (push_bit 38 1) else misc_enable OR push_bit 38 1)
            in msr_write MSR_MISC_ENABLE misc_enable s))"

definition power_is_turbo_enabled :: "device \<Rightarrow> 'a power_scheme \<Rightarrow> u8 \<times> 'a power_scheme" where
  "power_is_turbo_enabled D s =
     (if pw_turbo_supported s = 0 then (0, s)
      else (let (misc_enable, s) = msr_read D MSR_MISC_ENABLE s
            in (c_bool (misc_enable AND push_bit 38 1 = 0), s)))"

definition power_set_clock_modulation :: "device \<Rightarrow> u8 \<Rightarrow> 'a power_scheme \<Rightarrow> 'a power_scheme" where
  "power_set_clock_modulation D duty_cycle s =
     (if pw_clock_modulation_supported s = 0 then s
      else (let duty_cycle = (if duty_cycle > 14 then (14 :: u8) else duty_cycle);
                (clock_mod, s) = msr_read D MSR_CLOCK_MODULATION s;
                clock_mod = (if duty_cycle = 0 then clock_mod AND NOT CLOCK_MOD_ENABLE
                             else (clock_mod AND NOT CLOCK_MOD_DUTY_MASK) OR ucast ((ucast duty_cycle AND 0x0E) OR
                                                                                    CLOCK_MOD_ENABLE :: u32))
            in msr_write MSR_CLOCK_MODULATION clock_mod s))"

definition power_get_clock_modulation :: "device \<Rightarrow> 'a power_scheme \<Rightarrow> u8 \<times> 'a power_scheme" where
  "power_get_clock_modulation D s =
     (if pw_clock_modulation_supported s = 0 then (0, s)
      else (let (clock_mod, s) = msr_read D MSR_CLOCK_MODULATION s
            in (if clock_mod AND CLOCK_MOD_ENABLE = 0 then (0, s)
                else (ucast (clock_mod AND CLOCK_MOD_DUTY_MASK), s))))"

definition power_set_energy_perf_bias :: "u8 \<Rightarrow> 'a power_scheme \<Rightarrow> 'a power_scheme" where
  "power_set_energy_perf_bias bias s =
     (if pw_energy_perf_bias_supported s = 0 then s
      else (let bias = (if bias > 15 then (15 :: u8) else bias)
            in msr_write MSR_ENERGY_PERF_BIAS (ucast bias) s))"

definition power_get_energy_perf_bias :: "device \<Rightarrow> 'a power_scheme \<Rightarrow> u8 \<times> 'a power_scheme" where
  "power_get_energy_perf_bias D s =
     (if pw_energy_perf_bias_supported s = 0 then (0, s)
      else (let (v, s) = msr_read D MSR_ENERGY_PERF_BIAS s
            in (ucast (v AND 0x0F), s)))"

definition power_enter_cstate :: "u8 \<Rightarrow> 'a power_scheme \<Rightarrow> 'a power_scheme" where
  "power_enter_cstate cstate s =
     (if pw_cstate_supported s = 0 \<or> cstate \<ge> pw_num_cstates s then s
      else if cstate = 0 then s
      else if cstate = 1 then insn Hlt s
      else if cstate = 2 \<or> cstate = 3 then (if c_address (pw_cstates s ! (unat cstate)) \<noteq> 0
                                                then insn (Asm ''inb %0,
                                                           al'' [ucast (c_address (pw_cstates s ! (unat cstate)))]) s
                                                else insn Hlt s)
      else insn Hlt s)"

definition power_get_package_energy :: "device \<Rightarrow> 'a power_scheme \<Rightarrow> u32 \<times> 'a power_scheme" where
  "power_get_package_energy D s =
     (let (energy, s) = msr_read D MSR_PKG_ENERGY_STATUS s
      in (ucast (energy AND 0xFFFFFFFF), s))"

definition power_get_dram_energy :: "device \<Rightarrow> 'a power_scheme \<Rightarrow> u32 \<times> 'a power_scheme" where
  "power_get_dram_energy D s =
     (let (energy, s) = msr_read D MSR_DRAM_ENERGY_STATUS s
      in (ucast (energy AND 0xFFFFFFFF), s))"

definition power_is_pstate_supported :: "'a power_scheme \<Rightarrow> u8" where
  "power_is_pstate_supported s = pw_pstate_supported s"

definition power_is_cstate_supported :: "'a power_scheme \<Rightarrow> u8" where
  "power_is_cstate_supported s = pw_cstate_supported s"

definition power_get_num_pstates :: "'a power_scheme \<Rightarrow> u8" where
  "power_get_num_pstates s = pw_num_pstates s"

definition power_get_num_cstates :: "'a power_scheme \<Rightarrow> u8" where
  "power_get_num_cstates s = pw_num_cstates s"

definition power_get_max_pstate :: "'a power_scheme \<Rightarrow> u8" where
  "power_get_max_pstate s = pw_max_pstate s"

definition power_get_min_pstate :: "'a power_scheme \<Rightarrow> u8" where
  "power_get_min_pstate s = pw_min_pstate s"

section \<open>Performance states\<close>

lemma without_pw_pstate_supported:
  assumes "pw_pstate_supported s = 0"
  shows "power_set_pstate D pstate s = (0, s)" "power_get_pstate D s = (0, s)" "power_set_frequency D frequency_mhz s = s"
    "power_get_frequency D s = (0, s)"
  using assms by (simp_all add: power_set_pstate_def power_get_pstate_def power_set_frequency_def power_get_frequency_def)

lemma without_pw_turbo_supported:
  assumes "pw_turbo_supported s = 0"
  shows "power_enable_turbo D enable s = s" "power_is_turbo_enabled D s = (0, s)"
  using assms by (simp_all add: power_enable_turbo_def power_is_turbo_enabled_def)

lemma without_pw_clock_modulation_supported:
  assumes "pw_clock_modulation_supported s = 0"
  shows "power_set_clock_modulation D duty_cycle s = s" "power_get_clock_modulation D s = (0, s)"
  using assms by (simp_all add: power_set_clock_modulation_def power_get_clock_modulation_def)

lemma without_pw_energy_perf_bias_supported:
  assumes "pw_energy_perf_bias_supported s = 0"
  shows "power_set_energy_perf_bias bias s = s" "power_get_energy_perf_bias D s = (0, s)"
  using assms by (simp_all add: power_set_energy_perf_bias_def power_get_energy_perf_bias_def)

text \<open>
  A frequency is turned into a multiplier of eight bits, so that from 25600 MHz on it wraps; whatever is asked for, the
  multiplier written lies between the smallest and the largest.
\<close>

lemma power_set_frequency_clamps:
  fixes f :: u16 and D :: device
  assumes "msr_supported s \<noteq> 0" "pw_pstate_supported s \<noteq> 0" "pw_min_pstate s \<le> pw_max_pstate s"
  defines "p \<equiv> max (pw_min_pstate s) (min (pw_max_pstate s) (ucast (f div 100)))"
  shows "power_set_frequency D f s = s\<lparr>pw_current_pstate := p, trace := trace s @ [Rd (Msr MSR_PERF_CTL) (D (trace s) (Msr MSR_PERF_CTL)),
    Wr (Msr MSR_PERF_CTL) ((D (trace s) (Msr MSR_PERF_CTL) AND NOT 0xFF00) OR push_bit 8 (ucast p))]\<rparr>"
proof -
  have u: "(ucast ((ucast f :: u32) div 100) :: u8) = ucast (f div 100)"
  proof -
    have "(ucast f :: u32) div 100 = ucast (f div 100)"
      by (rule word_unat_eq_iff [THEN iffD2]) (simp add: unat_div unat_ucast_up)
    moreover have "ucast (ucast g :: u32) = (ucast g :: u8)" for g :: u16
      by (rule bit_word_eqI) (auto simp: bit_simps)
    ultimately show ?thesis by simp
  qed
  have "power_set_frequency D f s = snd (power_set_pstate D p s)"
    using assms(2,3) by (auto simp: power_set_frequency_def u p_def Let_def case_prod_beta max_def min_def)
  moreover have "pw_min_pstate s \<le> p" "p \<le> pw_max_pstate s" using assms(3) by (simp_all add: p_def)
  ultimately show ?thesis using assms(1,2) by (simp add: power_set_pstate_def not_less msr_on)
qed

text \<open>The table of states has one entry for every multiplier up to fifteen.\<close>

lemma power_table_size:
  "unat (pw_num_pstates (fold (\<lambda>i s. s\<lparr>pw_pstates := f i s, pw_num_pstates := pw_num_pstates s + 1\<rparr>) [a..<min b 16] s)) =
     (unat (pw_num_pstates s) + (min b 16 - a)) mod 256"
proof -
  have "pw_num_pstates (fold (\<lambda>i s. s\<lparr>pw_pstates := f i s, pw_num_pstates := pw_num_pstates s + 1\<rparr>) xs s) =
      pw_num_pstates s + of_nat (length xs)" for xs
    by (induction xs arbitrary: s) simp_all
  then show ?thesis by (simp add: unat_word_ariths unat_of_nat mod_simps)
qed

text \<open>Turning turbo on and off is seen by the test, on a register that keeps its contents.\<close>

lemma power_turbo_roundtrip:
  assumes "msr_supported s \<noteq> 0" "pw_turbo_supported s \<noteq> 0" "is_reg D (Msr MSR_MISC_ENABLE)"
  shows "fst (power_is_turbo_enabled D (power_enable_turbo D e s)) = c_bool (e \<noteq> 0)"
proof -
  define m :: u64 where "m = push_bit 38 1"
  have "m \<noteq> 0" by (simp add: m_def)
  then show ?thesis
    using assms unfolding power_enable_turbo_def power_is_turbo_enabled_def m_def [symmetric]
    by (simp add: msr_on is_reg_append Let_def)
qed

end
