(* ===== verification/Cache.thy ===== *)
theory Cache
  imports Msr_Regs
begin

text \<open>
  \<open>src/drivers/cache.c\<close>: caches, memory type ranges and the attribute table. The fields of \<open>cache_info_t\<close> carry the
  prefix \<open>ca_\<close>. The number of ranges is the processor's, the table of the driver has sixteen places: an access beyond it
  is undefined, which is \<open>None\<close>.
\<close>

definition MSR_MTRRCAP :: "'a::len word" where "MSR_MTRRCAP = 0xFE"
definition MSR_MTRRDEFTYPE_ca :: "'a::len word" where "MSR_MTRRDEFTYPE_ca = 0x2FF"
definition MSR_MTRRPHYSBASE0_ca :: "'a::len word" where "MSR_MTRRPHYSBASE0_ca = 0x200"
definition MSR_MTRRPHYSMASK0_ca :: "'a::len word" where "MSR_MTRRPHYSMASK0_ca = 0x201"
definition MSR_PAT_ca :: "'a::len word" where "MSR_PAT_ca = 0x277"
definition MTRR_TYPE_WB :: "'a::len word" where "MTRR_TYPE_WB = 0x06"
definition PAT_UC :: "'a::len word" where "PAT_UC = 0x00"
definition PAT_WC :: "'a::len word" where "PAT_WC = 0x01"
definition PAT_WT :: "'a::len word" where "PAT_WT = 0x04"
definition PAT_WB :: "'a::len word" where "PAT_WB = 0x06"
definition PAT_UCMINUS :: "'a::len word" where "PAT_UCMINUS = 0x07"
definition CR0_CD :: "'a::len word" where "CR0_CD = 0x40000000"
definition CR0_NW :: "'a::len word" where "CR0_NW = 0x20000000"

record mtrr_entry =
  me_base :: u64
  me_mask :: u64
  me_type :: u8
  me_valid :: u8

record cache = msr +
  ca_mtrr_supported :: u8
  ca_pat_supported :: u8
  ca_wbinvd_supported :: u8
  ca_clflush_supported :: u8
  ca_num_variable_mtrrs :: u8
  ca_num_fixed_mtrrs :: u8
  ca_variable_mtrrs :: "mtrr_entry list"    \<comment> \<open>16\<close>
  ca_pat_value :: u64
  ca_cache_line_size :: u32
  ca_l1_cache_size :: u32
  ca_l2_cache_size :: u32
  ca_l3_cache_size :: u32

definition cache_check_mtrr_support :: "device \<Rightarrow> 'a cache_scheme \<Rightarrow> u8 \<times> 'a cache_scheme" where
  "cache_check_mtrr_support D s =
     (let ((eax, ebx, ecx, edx), s) = cpuid D 1 s
      in (c_bool (edx AND push_bit 12 1 \<noteq> 0), s))"

definition cache_check_pat_support :: "device \<Rightarrow> 'a cache_scheme \<Rightarrow> u8 \<times> 'a cache_scheme" where
  "cache_check_pat_support D s =
     (let ((eax, ebx, ecx, edx), s) = cpuid D 1 s
      in (c_bool (edx AND push_bit 16 1 \<noteq> 0), s))"

definition cache_check_clflush_support :: "device \<Rightarrow> 'a cache_scheme \<Rightarrow> u8 \<times> 'a cache_scheme" where
  "cache_check_clflush_support D s =
     (let ((eax, ebx, ecx, edx), s) = cpuid D 1 s
      in (c_bool (edx AND push_bit 19 1 \<noteq> 0), s))"

definition cache_detect_sizes :: "device \<Rightarrow> 'a cache_scheme \<Rightarrow> 'a cache_scheme" where
  "cache_detect_sizes D s =
     (let ((eax, ebx, ecx, edx), s) = cpuid D 0x80000005 s;
          s = (if eax \<ge> 0x80000005 then s\<lparr>ca_l1_cache_size := drop_bit 24 ecx AND 0xFF,
                                              ca_cache_line_size := ecx AND 0xFF\<rparr>
               else s);
          ((eax, ebx, ecx, edx), s) = cpuid D 0x80000006 s;
          s = (if eax \<ge> 0x80000006 then s\<lparr>ca_l2_cache_size := drop_bit 16 ecx AND 0xFFFF,
                                              ca_l3_cache_size := (drop_bit 18 edx AND 0x3FFF) * 512\<rparr>
               else s);
          (eax, ebx, ecx, edx, s) = (if ca_cache_line_size s = 0 then
                                        (let ((eax, ebx, ecx, edx), s) = cpuid_sub D 4 0 s;
                                             s = (if eax AND 0x1F \<noteq> 0 then
                                                     (let s = s\<lparr>ca_cache_line_size := (ebx AND 0xFFF) + 1\<rparr>;
                                                          ways = (drop_bit 22 ebx AND 0x3FF) + 1;
                                                          partitions = (drop_bit 12 ebx AND 0x3FF) + 1;
                                                          sets = ecx + 1
                                                      in s\<lparr>ca_l1_cache_size := (((ways * partitions) * ca_cache_line_size s) * sets) div 1024\<rparr>)
                                                  else s)
                                         in (eax, ebx, ecx, edx, s))
                                     else (eax, ebx, ecx, edx, s))
      in s)"

definition cache_init_mtrrs :: "device \<Rightarrow> 'a cache_scheme \<Rightarrow> 'a cache_scheme" where
  "cache_init_mtrrs D s =
     (if ca_mtrr_supported s = 0 then s
      else (let (mtrrcap, s) = msr_read D MSR_MTRRCAP s;
                s = s\<lparr>ca_num_variable_mtrrs := ucast (mtrrcap AND 0xFF),
                      ca_num_fixed_mtrrs := (if mtrrcap AND push_bit 8 1 \<noteq> 0 then 11 else 0)\<rparr>
            in fold (\<lambda>i s. (let (base, s) = msr_read D (MSR_MTRRPHYSBASE0_ca + (of_nat i * 2)) s;
                                        (mask', s) = msr_read D (MSR_MTRRPHYSMASK0_ca + (of_nat i * 2)) s
                                    in s\<lparr>ca_variable_mtrrs := (ca_variable_mtrrs s)[i := ((ca_variable_mtrrs s) ! i)\<lparr>me_base := base AND 0xFFFFF000, me_mask := mask' AND 0xFFFFF000, me_type := ucast (base AND 0xFF), me_valid := c_bool (mask' AND push_bit 11 1 \<noteq> 0)\<rparr>]\<rparr>))
                  [0..<min (unat (ca_num_variable_mtrrs s)) 16] s))"

definition cache_init_pat :: "'a cache_scheme \<Rightarrow> 'a cache_scheme" where
  "cache_init_pat s =
     (if ca_pat_supported s = 0 then s
      else (let s = s\<lparr>ca_pat_value := push_bit 0 PAT_WB OR push_bit 8 PAT_WT OR push_bit 16 PAT_UCMINUS OR
            push_bit 24 PAT_UC OR push_bit 32 PAT_WB OR push_bit 40 PAT_WT OR push_bit 48 PAT_UCMINUS OR
              push_bit 56 PAT_WC\<rparr>
            in msr_write MSR_PAT_ca (ca_pat_value s) s))"

definition cache_init :: "device \<Rightarrow> 'a cache_scheme \<Rightarrow> 'a cache_scheme" where
  "cache_init D s =
     (if msr_is_supported s = 0 then s
      else (let (v, s) = cache_check_mtrr_support D s;
                s = s\<lparr>ca_mtrr_supported := v\<rparr>;
                (v2, s) = cache_check_pat_support D s;
                s = s\<lparr>ca_pat_supported := v2\<rparr>;
                (v3, s) = cache_check_clflush_support D s;
                s = s\<lparr>ca_clflush_supported := v3, ca_wbinvd_supported := 1\<rparr>;
                s = cache_detect_sizes D s;
                s = cache_init_mtrrs D s
            in cache_init_pat s))"

definition cache_flush_all :: "'a cache_scheme \<Rightarrow> 'a cache_scheme" where
  "cache_flush_all s = (if ca_wbinvd_supported s \<noteq> 0 then insn (Asm ''wbinvd'' []) s else s)"

definition cache_invalidate_all :: "'a cache_scheme \<Rightarrow> 'a cache_scheme" where
  "cache_invalidate_all s = insn (Asm ''invd'' []) s"

definition cache_flush_line :: "u32 \<Rightarrow> 'a cache_scheme \<Rightarrow> 'a cache_scheme" where
  "cache_flush_line address s =
     (if ca_clflush_supported s \<noteq> 0 then insn (Asm ''clflush (%0)'' [ucast address]) s else s)"

definition cache_enable :: "device \<Rightarrow> 'a cache_scheme \<Rightarrow> 'a cache_scheme" where
  "cache_enable D s =
     (let (cr0 :: u32, s) = rd D (Creg 0) s;
          cr0 = cr0 AND NOT (CR0_CD OR CR0_NW)
      in wr (Creg 0) cr0 s)"

definition cache_disable :: "device \<Rightarrow> 'a cache_scheme \<Rightarrow> 'a cache_scheme" where
  "cache_disable D s =
     (let (cr0 :: u32, s) = rd D (Creg 0) s;
          cr0 = cr0 OR (CR0_CD OR CR0_NW);
          s = wr (Creg 0) cr0 s
      in cache_flush_all s)"

definition cache_setup_mtrr :: "device \<Rightarrow> u8 \<Rightarrow> u64 \<Rightarrow> u64 \<Rightarrow> u8 \<Rightarrow> 'a cache_scheme \<Rightarrow> (u8 \<times> 'a cache_scheme) option" where
  "cache_setup_mtrr D reg base size' type' s =
     (if ca_mtrr_supported s = 0 \<or> reg \<ge> ca_num_variable_mtrrs s then Some (0, s)
      else if reg \<ge> 16 then None
      else (let mask' = NOT (size' - 1) AND 0xFFFFF000;
                mask' = mask' OR push_bit 11 1;
                (deftype, s) = msr_read D MSR_MTRRDEFTYPE_ca s;
                s = msr_write MSR_MTRRDEFTYPE_ca (deftype AND NOT (push_bit 11 1)) s;
                s = msr_write (MSR_MTRRPHYSBASE0_ca + (ucast reg * 2)) ((base AND 0xFFFFF000) OR ucast type') s;
                s = msr_write (MSR_MTRRPHYSMASK0_ca + (ucast reg * 2)) mask' s;
                s = msr_write MSR_MTRRDEFTYPE_ca deftype s;
                s = s\<lparr>ca_variable_mtrrs := (ca_variable_mtrrs s)[unat reg := ((ca_variable_mtrrs s) ! (unat reg))\<lparr>me_base := base AND 0xFFFFF000, me_mask := mask' AND 0xFFFFF000, me_type := type', me_valid := 1\<rparr>]\<rparr>;
                s = cache_flush_all s
            in Some (1, s)))"

definition cache_clear_mtrr :: "device \<Rightarrow> u8 \<Rightarrow> 'a cache_scheme \<Rightarrow> 'a cache_scheme option" where
  "cache_clear_mtrr D reg s =
     (if ca_mtrr_supported s = 0 \<or> reg \<ge> ca_num_variable_mtrrs s then Some s
      else if reg \<ge> 16 then None
      else (let (deftype, s) = msr_read D MSR_MTRRDEFTYPE_ca s;
                s = msr_write MSR_MTRRDEFTYPE_ca (deftype AND NOT (push_bit 11 1)) s;
                s = msr_write (MSR_MTRRPHYSBASE0_ca + (ucast reg * 2)) 0 s;
                s = msr_write (MSR_MTRRPHYSMASK0_ca + (ucast reg * 2)) 0 s;
                s = msr_write MSR_MTRRDEFTYPE_ca deftype s;
                s = s\<lparr>ca_variable_mtrrs := (ca_variable_mtrrs s)[unat reg := ((ca_variable_mtrrs s) ! (unat reg))\<lparr>me_valid := 0\<rparr>]\<rparr>
            in Some (cache_flush_all s)))"

definition cache_enable_mtrrs :: "device \<Rightarrow> 'a cache_scheme \<Rightarrow> 'a cache_scheme" where
  "cache_enable_mtrrs D s =
     (if ca_mtrr_supported s = 0 then s
      else (let (deftype, s) = msr_read D MSR_MTRRDEFTYPE_ca s;
                deftype = deftype OR push_bit 11 1;
                deftype = deftype OR MTRR_TYPE_WB;
                s = msr_write MSR_MTRRDEFTYPE_ca deftype s
            in cache_flush_all s))"

definition cache_disable_mtrrs :: "device \<Rightarrow> 'a cache_scheme \<Rightarrow> 'a cache_scheme" where
  "cache_disable_mtrrs D s =
     (if ca_mtrr_supported s = 0 then s
      else (let (deftype, s) = msr_read D MSR_MTRRDEFTYPE_ca s;
                deftype = deftype AND NOT (push_bit 11 1);
                s = msr_write MSR_MTRRDEFTYPE_ca deftype s
            in cache_flush_all s))"

definition cache_is_mtrr_supported :: "'a cache_scheme \<Rightarrow> u8" where
  "cache_is_mtrr_supported s = ca_mtrr_supported s"

definition cache_is_pat_supported :: "'a cache_scheme \<Rightarrow> u8" where
  "cache_is_pat_supported s = ca_pat_supported s"

definition cache_get_num_variable_mtrrs :: "'a cache_scheme \<Rightarrow> u8" where
  "cache_get_num_variable_mtrrs s = ca_num_variable_mtrrs s"

definition cache_get_line_size :: "'a cache_scheme \<Rightarrow> u32" where
  "cache_get_line_size s = ca_cache_line_size s"

definition cache_get_l1_size :: "'a cache_scheme \<Rightarrow> u32" where
  "cache_get_l1_size s = ca_l1_cache_size s"

definition cache_get_l2_size :: "'a cache_scheme \<Rightarrow> u32" where
  "cache_get_l2_size s = ca_l2_cache_size s"

definition cache_get_l3_size :: "'a cache_scheme \<Rightarrow> u32" where
  "cache_get_l3_size s = ca_l3_cache_size s"

definition cache_prefetch :: "u32 \<Rightarrow> 'a cache_scheme \<Rightarrow> 'a cache_scheme" where
  "cache_prefetch address s = insn (Asm ''prefetcht0 (%0)'' [ucast address]) s"

definition cache_prefetch_nta :: "u32 \<Rightarrow> 'a cache_scheme \<Rightarrow> 'a cache_scheme" where
  "cache_prefetch_nta address s = insn (Asm ''prefetchnta (%0)'' [ucast address]) s"

definition cache_get_mtrr_type :: "u8 \<Rightarrow> 'a cache_scheme \<Rightarrow> u8 option" where
  "cache_get_mtrr_type reg s =
     (if reg \<ge> ca_num_variable_mtrrs s then Some 0
      else if reg \<ge> 16 then None
      else Some (me_type (ca_variable_mtrrs s ! (unat reg))))"

definition cache_get_mtrr_base :: "u8 \<Rightarrow> 'a cache_scheme \<Rightarrow> u64 option" where
  "cache_get_mtrr_base reg s =
     (if reg \<ge> ca_num_variable_mtrrs s then Some 0
      else if reg \<ge> 16 then None
      else Some (me_base (ca_variable_mtrrs s ! (unat reg))))"

definition cache_get_mtrr_mask :: "u8 \<Rightarrow> 'a cache_scheme \<Rightarrow> u64 option" where
  "cache_get_mtrr_mask reg s =
     (if reg \<ge> ca_num_variable_mtrrs s then Some 0
      else if reg \<ge> 16 then None
      else Some (me_mask (ca_variable_mtrrs s ! (unat reg))))"

definition cache_is_mtrr_valid :: "u8 \<Rightarrow> 'a cache_scheme \<Rightarrow> u8 option" where
  "cache_is_mtrr_valid reg s =
     (if reg \<ge> ca_num_variable_mtrrs s then Some 0
      else if reg \<ge> 16 then None
      else Some (me_valid (ca_variable_mtrrs s ! (unat reg))))"

section \<open>Memory type ranges\<close>

lemma without_ca_mtrr_supported:
  assumes "ca_mtrr_supported s = 0"
  shows "cache_init_mtrrs D s = s" "cache_enable_mtrrs D s = s" "cache_disable_mtrrs D s = s"
  using assms by (simp_all add: cache_init_mtrrs_def cache_enable_mtrrs_def cache_disable_mtrrs_def)

text \<open>
  Setting a range disables the ranges, writes its two registers and puts the default type back as it was; the copy in the
  driver is what the registers hold, the mask without its valid bit.
\<close>

lemma cache_setup_mtrr_writes:
  assumes "msr_supported s \<noteq> 0" "ca_mtrr_supported s \<noteq> 0" "reg < ca_num_variable_mtrrs s" "reg < 16"
    and "length (ca_variable_mtrrs s) = 16" "cache_setup_mtrr D reg b z ty s = Some (r, t)"
  shows "r = 1 \<and> (\<exists>m deftype. writes (Msr MSR_MTRRDEFTYPE_ca) (drop (length (trace s)) (trace t)) = [deftype AND NOT (push_bit 11 1), deftype] \<and>
    deftype = D (trace s) (Msr MSR_MTRRDEFTYPE_ca) \<and> m = NOT (z - 1) AND 0xFFFFF000 \<and>
    ca_variable_mtrrs t ! unat reg = \<lparr>me_base = b AND 0xFFFFF000, me_mask = (m OR push_bit 11 1) AND 0xFFFFF000,
      me_type = ty, me_valid = 1\<rparr>)"
proof -
  have "unat reg < 16" using assms(4) by (simp add: word_less_nat_alt)
  moreover have n: "MSR_MTRRPHYSBASE0_ca + ucast reg * 2 \<noteq> (MSR_MTRRDEFTYPE_ca :: u32)" "MSR_MTRRPHYSMASK0_ca + ucast reg * 2 \<noteq> (MSR_MTRRDEFTYPE_ca :: u32)"
    using \<open>unat reg < 16\<close> by (auto simp: MSR_MTRRPHYSBASE0_ca_def MSR_MTRRPHYSMASK0_ca_def MSR_MTRRDEFTYPE_ca_def word_unat_eq_iff unat_word_ariths unat_ucast_up)
  moreover have h: "(16 \<le> reg) = False" "(ca_num_variable_mtrrs s \<le> reg) = False" using assms(3,4) by auto
  ultimately show ?thesis
    using assms by (auto simp: cache_setup_mtrr_def cache_flush_all_def msr_on Let_def h insn_def)
qed

text \<open>
  The mask has no bit above the lowest 32, so that a range below 4 GB also covers its images in every higher 4 GB.
\<close>

lemma cache_mask_aliases:
  fixes a z :: u64
  shows "(a + 0x100000000) AND (NOT (z - 1) AND 0xFFFFF000) = a AND (NOT (z - 1) AND 0xFFFFF000)"
proof -
  have m: "(0xFFFFF000 :: u64) = push_bit 12 (mask 20)" by (simp add: mask_eq_exp_minus_1 push_bit_eq_mult)
  have x: "x AND (k AND 0xFFFFF000) = take_bit 32 x AND (k AND 0xFFFFF000)" for x k :: u64
    unfolding m by (rule bit_word_eqI) (auto simp: bit_simps)
  have "(unat a + 4294967296) mod 18446744073709551616 mod 4294967296 = unat a mod 4294967296"
    by (subst mod_mod_cancel) simp_all
  then have "take_bit 32 (a + 0x100000000) = take_bit 32 a"
    by (simp add: word_unat_eq_iff unsigned_take_bit_eq unat_word_ariths take_bit_eq_mod)
  with x show ?thesis by metis
qed

text \<open>Enabling the ranges combines the old default type with write-back: from write-combining it makes the reserved type 7.\<close>

lemma cache_enable_mtrrs_type:
  assumes "msr_supported s \<noteq> 0" "ca_mtrr_supported s \<noteq> 0"
  shows "writes (Msr MSR_MTRRDEFTYPE_ca) (drop (length (trace s)) (trace (cache_enable_mtrrs D s))) =
    [D (trace s) (Msr MSR_MTRRDEFTYPE_ca) OR push_bit 11 1 OR 6]"
  using assms by (auto simp: cache_enable_mtrrs_def cache_flush_all_def msr_on Let_def insn_def MTRR_TYPE_WB_def or.assoc)

end
