(* ===== verification/Cpufreq.thy ===== *)
theory Cpufreq
  imports Msr_Regs
begin

text \<open>
  \<open>src/drivers/cpufreq.c\<close>: the processor's frequency. The fields of \<open>cpufreq_info_t\<close> carry the prefix \<open>cf_\<close>, those
  of a state \<open>pi_\<close>. \<open>cpufreq_init\<close> uses two functions before they are declared.
\<close>

definition MSR_IA32_PERF_STATUS :: "'a::len word" where "MSR_IA32_PERF_STATUS = 0x198"
definition MSR_IA32_PERF_CTL :: "'a::len word" where "MSR_IA32_PERF_CTL = 0x199"
definition MSR_IA32_MISC_ENABLE :: "'a::len word" where "MSR_IA32_MISC_ENABLE = 0x1A0"
definition MSR_IA32_PLATFORM_INFO :: "'a::len word" where "MSR_IA32_PLATFORM_INFO = 0xCE"
definition MSR_TURBO_RATIO_LIMIT :: "'a::len word" where "MSR_TURBO_RATIO_LIMIT = 0x1AD"
definition MSR_PSTATE_CURRENT_LIMIT :: "'a::len word" where "MSR_PSTATE_CURRENT_LIMIT = 0xC0010061"
definition MSR_PSTATE_CONTROL :: "'a::len word" where "MSR_PSTATE_CONTROL = 0xC0010062"
definition MSR_PSTATE_STATUS :: "'a::len word" where "MSR_PSTATE_STATUS = 0xC0010063"
definition MSR_PSTATE_0 :: "'a::len word" where "MSR_PSTATE_0 = 0xC0010064"
definition MISC_ENABLE_ENHANCED_SPEEDSTEP :: "'a::len word" where "MISC_ENABLE_ENHANCED_SPEEDSTEP = 0x10000"
definition MISC_ENABLE_TURBO_DISABLE :: "'a::len word" where "MISC_ENABLE_TURBO_DISABLE = 0x4000000000"
definition PERF_CTL_TURBO_DISABLE :: "'a::len word" where "PERF_CTL_TURBO_DISABLE = 0x100000000"
definition CPUFREQ_POLICY_ONDEMAND :: "'a::len word" where "CPUFREQ_POLICY_ONDEMAND = 2"

record pstate_info =
  pi_frequency :: u16
  pi_voltage :: u8
  pi_power :: u8
  pi_latency :: u8

record cpufreq = msr +
  cf_cpufreq_supported :: u8
  cf_intel_speedstep :: u8
  cf_amd_coolnquiet :: u8
  cf_turbo_supported :: u8
  cf_turbo_enabled :: u8
  cf_num_pstates :: u8
  cf_current_pstate :: u8
  cf_min_pstate :: u8
  cf_max_pstate :: u8
  cf_base_frequency :: u16
  cf_max_turbo_frequency :: u16
  cf_current_frequency :: u16
  cf_pstates :: "pstate_info list"    \<comment> \<open>16\<close>
  cf_transition_latency :: u32
  cf_governor_policy :: u8

definition cpufreq_check_intel_speedstep :: "device \<Rightarrow> 'a cpufreq_scheme \<Rightarrow> u8 \<times> 'a cpufreq_scheme" where
  "cpufreq_check_intel_speedstep D s =
     (let ((eax, ebx, ecx, edx), s) = cpuid D 1 s
      in (if ecx AND push_bit 7 1 = 0 then (0, s)
          else (let (misc_enable, s) = msr_read D MSR_IA32_MISC_ENABLE s;
                    (misc_enable, s) = (if misc_enable AND MISC_ENABLE_ENHANCED_SPEEDSTEP = 0 then
                                           (let misc_enable = misc_enable OR MISC_ENABLE_ENHANCED_SPEEDSTEP;
                                                s = msr_write MSR_IA32_MISC_ENABLE misc_enable s
                                            in (misc_enable, s))
                                        else (misc_enable, s))
                in (1, s))))"

definition cpufreq_check_amd_coolnquiet :: "device \<Rightarrow> 'a cpufreq_scheme \<Rightarrow> u8 \<times> 'a cpufreq_scheme" where
  "cpufreq_check_amd_coolnquiet D s =
     (let ((eax, ebx, ecx, edx), s) = cpuid D 0 s
      in (if \<not> (ebx = 0x68747541 \<and> edx = 0x69746E65 \<and> ecx = 0x444D4163) then (0, s)
          else (let ((eax, ebx, ecx, edx), s) = cpuid D 0x80000007 s
                in (c_bool (edx AND push_bit 1 1 \<noteq> 0), s))))"

text \<open>The loop over the ratios ends after the last ratio or with the sixteenth entry, so 16 rounds are enough.\<close>

fun intel_pstates :: "nat \<Rightarrow> u8 \<Rightarrow> 'a cpufreq_scheme \<Rightarrow> 'a cpufreq_scheme" where
  "intel_pstates 0 ratio s = s"
| "intel_pstates (Suc n) ratio s =
     (if ratio \<le> cf_max_pstate s \<and> cf_num_pstates s < 16 then
        intel_pstates n (ratio + 1)
          (s\<lparr>cf_pstates := (cf_pstates s)[unat (cf_num_pstates s) := \<lparr>pi_frequency = ucast ratio * 100,
               pi_voltage = 100 - (ratio - cf_min_pstate s) * 2, pi_power = 15 + (ratio - cf_min_pstate s) * 5, pi_latency = 10\<rparr>],
             cf_num_pstates := cf_num_pstates s + 1\<rparr>)
      else s)"

definition cpufreq_detect_intel_pstates :: "device \<Rightarrow> 'a cpufreq_scheme \<Rightarrow> 'a cpufreq_scheme" where
  "cpufreq_detect_intel_pstates D s =
     (let (platform_info, s) = msr_read D MSR_IA32_PLATFORM_INFO s;
          s = s\<lparr>cf_min_pstate := ucast (drop_bit 40 platform_info AND 0xFF),
                cf_max_pstate := ucast (drop_bit 8 platform_info AND 0xFF),
                cf_base_frequency := ucast ((drop_bit 8 platform_info AND 0xFF) * 100)\<rparr>;
          (misc_enable, s) = msr_read D MSR_IA32_MISC_ENABLE s;
          s = s\<lparr>cf_turbo_supported := c_bool (misc_enable AND MISC_ENABLE_TURBO_DISABLE = 0)\<rparr>;
          s = (if cf_turbo_supported s \<noteq> 0 then
                 (let (turbo_limit, s) = msr_read D MSR_TURBO_RATIO_LIMIT s
                  in s\<lparr>cf_max_turbo_frequency := ucast ((turbo_limit AND 0xFF) * 100)\<rparr>)
               else s\<lparr>cf_max_turbo_frequency := cf_base_frequency s\<rparr>);
          s = intel_pstates 16 (cf_min_pstate s) (s\<lparr>cf_num_pstates := 0\<rparr>)
      in s\<lparr>cf_transition_latency := 10\<rparr>)"

definition amd_pstate :: "device \<Rightarrow> u8 \<Rightarrow> 'a cpufreq_scheme \<Rightarrow> 'a cpufreq_scheme" where
  "amd_pstate D i s =
     (let (pstate_msr, s) = msr_read D (MSR_PSTATE_0 + ucast i) s
      in if pstate_msr AND push_bit 63 1 = 0 then s
         else (let fid = ucast (pstate_msr AND 0x3F) :: u16;
                   did = ucast (drop_bit 6 pstate_msr AND 0x7) :: u16;
                   vid = ucast (drop_bit 9 pstate_msr AND 0x7F) :: u16;
                   freq = (ucast fid + 16) * 100 div push_bit (unat did) 1 :: u32;
                   s = s\<lparr>cf_pstates := (cf_pstates s)[unat (cf_num_pstates s) := \<lparr>pi_frequency = ucast freq,
                        pi_voltage = 155 - ucast vid, pi_power = 15 + i * 10, pi_latency = 100\<rparr>]\<rparr>;
                   s = (if i < cf_min_pstate s then s\<lparr>cf_min_pstate := i\<rparr> else s);
                   s = (if i > cf_max_pstate s then s\<lparr>cf_max_pstate := i\<rparr> else s)
               in s\<lparr>cf_num_pstates := cf_num_pstates s + 1\<rparr>))"

definition cpufreq_detect_amd_pstates :: "device \<Rightarrow> 'a cpufreq_scheme \<Rightarrow> 'a cpufreq_scheme" where
  "cpufreq_detect_amd_pstates D s =
     (let (pstate_limit, s) = msr_read D MSR_PSTATE_CURRENT_LIMIT s;
          max_pstate = ucast (pstate_limit AND 0x7) :: u8;
          s = s\<lparr>cf_num_pstates := 0, cf_min_pstate := 7, cf_max_pstate := 0\<rparr>;
          s = fold (\<lambda>i. amd_pstate D (of_nat i)) [0..<min (Suc (unat max_pstate)) 8] s;
          s = (if cf_num_pstates s > 0 then
                 s\<lparr>cf_base_frequency := pi_frequency (cf_pstates s ! 0),
                   cf_max_turbo_frequency := pi_frequency (cf_pstates s ! (unat (cf_num_pstates s) - 1))\<rparr>
               else s)
      in s\<lparr>cf_transition_latency := 100\<rparr>)"

definition cpufreq_get_current_pstate :: "device \<Rightarrow> 'a cpufreq_scheme \<Rightarrow> u8 \<times> 'a cpufreq_scheme" where
  "cpufreq_get_current_pstate D s =
     (if cf_cpufreq_supported s = 0 then (0, s)
      else if cf_intel_speedstep s \<noteq> 0 then
         (let (perf_status, s) = msr_read D MSR_IA32_PERF_STATUS s;
              ratio = (ucast (drop_bit 8 perf_status AND 0xFF) :: u8)
          in (ratio - cf_min_pstate s, s))
      else if cf_amd_coolnquiet s \<noteq> 0 then
         (let (pstate_status, s) = msr_read D MSR_PSTATE_STATUS s
          in (ucast (pstate_status AND 0x7), s))
      else (0, s))"

definition cpufreq_get_current_frequency :: "device \<Rightarrow> 'a cpufreq_scheme \<Rightarrow> u16 \<times> 'a cpufreq_scheme" where
  "cpufreq_get_current_frequency D s =
     (if cf_cpufreq_supported s = 0 then (0, s)
      else (let (pstate, s) = cpufreq_get_current_pstate D s
            in (if pstate < cf_num_pstates s then (pi_frequency (cf_pstates s ! (unat pstate)), s)
                else (0, s))))"

definition cpufreq_is_turbo_enabled :: "device \<Rightarrow> 'a cpufreq_scheme \<Rightarrow> u8 \<times> 'a cpufreq_scheme" where
  "cpufreq_is_turbo_enabled D s =
     (if cf_cpufreq_supported s = 0 then (0, s)
      else if cf_intel_speedstep s \<noteq> 0 then
         (let (perf_ctl, s) = msr_read D MSR_IA32_PERF_CTL s
          in (c_bool (perf_ctl AND PERF_CTL_TURBO_DISABLE = 0), s))
      else if cf_amd_coolnquiet s \<noteq> 0 then (cf_turbo_supported s, s)
      else (0, s))"

definition cpufreq_init :: "device \<Rightarrow> 'a cpufreq_scheme \<Rightarrow> 'a cpufreq_scheme" where
  "cpufreq_init D s =
     (let s = s\<lparr>cf_cpufreq_supported := 0, cf_intel_speedstep := 0, cf_amd_coolnquiet := 0, cf_turbo_supported := 0,
                cf_turbo_enabled := 0, cf_num_pstates := 0, cf_current_pstate := 0,
                cf_governor_policy := CPUFREQ_POLICY_ONDEMAND\<rparr>
      in (if msr_is_supported s = 0 then s
          else (let (v, s) = cpufreq_check_intel_speedstep D s;
                    s = (if v \<noteq> 0 then
                            (let s = s\<lparr>cf_intel_speedstep := 1, cf_cpufreq_supported := 1\<rparr>
                             in cpufreq_detect_intel_pstates D s)
                         else (let (v2, s) = cpufreq_check_amd_coolnquiet D s
                               in (if v2 \<noteq> 0 then
                                      (let s = s\<lparr>cf_amd_coolnquiet := 1, cf_cpufreq_supported := 1\<rparr>
                                       in cpufreq_detect_amd_pstates D s)
                                   else s)))
                in (if cf_cpufreq_supported s \<noteq> 0 then
                       (let (v3, s) = cpufreq_get_current_frequency D s;
                            s = s\<lparr>cf_current_frequency := v3\<rparr>;
                            (v4, s) = cpufreq_is_turbo_enabled D s
                        in s\<lparr>cf_turbo_enabled := v4\<rparr>)
                    else s))))"

definition cpufreq_is_supported :: "'a cpufreq_scheme \<Rightarrow> u8" where
  "cpufreq_is_supported s = cf_cpufreq_supported s"

definition cpufreq_is_intel_speedstep :: "'a cpufreq_scheme \<Rightarrow> u8" where
  "cpufreq_is_intel_speedstep s = cf_intel_speedstep s"

definition cpufreq_is_amd_coolnquiet :: "'a cpufreq_scheme \<Rightarrow> u8" where
  "cpufreq_is_amd_coolnquiet s = cf_amd_coolnquiet s"

definition cpufreq_is_turbo_supported :: "'a cpufreq_scheme \<Rightarrow> u8" where
  "cpufreq_is_turbo_supported s = cf_turbo_supported s"

definition cpufreq_enable_turbo :: "device \<Rightarrow> 'a cpufreq_scheme \<Rightarrow> 'a cpufreq_scheme" where
  "cpufreq_enable_turbo D s =
     (if cf_turbo_supported s = 0 then s
      else if cf_intel_speedstep s \<noteq> 0 then
         (let (perf_ctl, s) = msr_read D MSR_IA32_PERF_CTL s;
              perf_ctl = perf_ctl AND NOT PERF_CTL_TURBO_DISABLE;
              s = msr_write MSR_IA32_PERF_CTL perf_ctl s
          in s\<lparr>cf_turbo_enabled := 1\<rparr>)
      else s)"

definition cpufreq_disable_turbo :: "device \<Rightarrow> 'a cpufreq_scheme \<Rightarrow> 'a cpufreq_scheme" where
  "cpufreq_disable_turbo D s =
     (if cf_turbo_supported s = 0 then s
      else if cf_intel_speedstep s \<noteq> 0 then
         (let (perf_ctl, s) = msr_read D MSR_IA32_PERF_CTL s;
              perf_ctl = perf_ctl OR PERF_CTL_TURBO_DISABLE;
              s = msr_write MSR_IA32_PERF_CTL perf_ctl s
          in s\<lparr>cf_turbo_enabled := 0\<rparr>)
      else s)"

definition cpufreq_set_pstate :: "device \<Rightarrow> u8 \<Rightarrow> 'a cpufreq_scheme \<Rightarrow> u8 \<times> 'a cpufreq_scheme" where
  "cpufreq_set_pstate D pstate s =
     (if cf_cpufreq_supported s = 0 \<or> pstate \<ge> cf_num_pstates s then (0, s)
      else (let s = (if cf_intel_speedstep s \<noteq> 0 then
                        (let ratio = (cf_min_pstate s + pstate :: u8);
                             (perf_ctl, s) = msr_read D MSR_IA32_PERF_CTL s;
                             perf_ctl = (perf_ctl AND NOT 0xFFFF) OR ucast ratio
                         in msr_write MSR_IA32_PERF_CTL perf_ctl s)
                     else if cf_amd_coolnquiet s \<noteq> 0 then msr_write MSR_PSTATE_CONTROL (ucast pstate) s else s);
                s = s\<lparr>cf_current_pstate := pstate\<rparr>
            in (1, s)))"

definition cpufreq_get_num_pstates :: "'a cpufreq_scheme \<Rightarrow> u8" where
  "cpufreq_get_num_pstates s = cf_num_pstates s"

definition cpufreq_get_pstate_frequency :: "u8 \<Rightarrow> 'a cpufreq_scheme \<Rightarrow> u16" where
  "cpufreq_get_pstate_frequency pstate s =
     (if pstate \<ge> cf_num_pstates s then 0
      else pi_frequency (cf_pstates s ! (unat pstate)))"

definition cpufreq_get_pstate_voltage :: "u8 \<Rightarrow> 'a cpufreq_scheme \<Rightarrow> u8" where
  "cpufreq_get_pstate_voltage pstate s =
     (if pstate \<ge> cf_num_pstates s then 0
      else pi_voltage (cf_pstates s ! (unat pstate)))"

definition cpufreq_get_pstate_power :: "u8 \<Rightarrow> 'a cpufreq_scheme \<Rightarrow> u8" where
  "cpufreq_get_pstate_power pstate s =
     (if pstate \<ge> cf_num_pstates s then 0
      else pi_power (cf_pstates s ! (unat pstate)))"

definition cpufreq_get_base_frequency :: "'a cpufreq_scheme \<Rightarrow> u16" where
  "cpufreq_get_base_frequency s = cf_base_frequency s"

definition cpufreq_get_max_turbo_frequency :: "'a cpufreq_scheme \<Rightarrow> u16" where
  "cpufreq_get_max_turbo_frequency s = cf_max_turbo_frequency s"

definition cpufreq_get_transition_latency :: "'a cpufreq_scheme \<Rightarrow> u32" where
  "cpufreq_get_transition_latency s = cf_transition_latency s"

definition cpufreq_set_governor_policy :: "u8 \<Rightarrow> 'a cpufreq_scheme \<Rightarrow> 'a cpufreq_scheme" where
  "cpufreq_set_governor_policy policy s = s\<lparr>cf_governor_policy := policy\<rparr>"

definition cpufreq_get_governor_policy :: "'a cpufreq_scheme \<Rightarrow> u8" where
  "cpufreq_get_governor_policy s = cf_governor_policy s"

definition cpufreq_set_frequency :: "device \<Rightarrow> u16 \<Rightarrow> 'a cpufreq_scheme \<Rightarrow> 'a cpufreq_scheme" where
  "cpufreq_set_frequency D target_freq s =
     (if cf_cpufreq_supported s = 0 then s
      else (let best_pstate = (0 :: u8);
                best_diff = (0xFFFF :: u16);
                (best_diff, best_pstate) = fold (\<lambda>i (best_diff,
                                                             best_pstate). (let freq = pi_frequency (cf_pstates s ! i);
                                                                                           diff = ((if freq > target_freq then freq - target_freq else target_freq - freq) :: u16)
                                                                                       in (if diff < best_diff then
                                                                                              (let best_diff = diff;
                                                                                                   best_pstate = (of_nat i :: u8)
                                                                                               in (best_diff, best_pstate))
                                                                                           else (best_diff, best_pstate))))
                  [0..<unat (cf_num_pstates s)] (best_diff, best_pstate);
                (v, s) = cpufreq_set_pstate D best_pstate s
            in s))"

section \<open>Choosing a state\<close>

lemma without_cf_cpufreq_supported:
  assumes "cf_cpufreq_supported s = 0"
  shows "cpufreq_is_turbo_enabled D s = (0, s)" "cpufreq_set_pstate D pstate s = (0, s)"
    "cpufreq_get_current_pstate D s = (0, s)" "cpufreq_get_current_frequency D s = (0, s)"
    "cpufreq_set_frequency D target_freq s = s"
  using assms by (simp_all add: cpufreq_is_turbo_enabled_def cpufreq_set_pstate_def cpufreq_get_current_pstate_def
      cpufreq_get_current_frequency_def cpufreq_set_frequency_def)

lemma without_cf_turbo_supported:
  assumes "cf_turbo_supported s = 0"
  shows "cpufreq_enable_turbo D s = s" "cpufreq_disable_turbo D s = s"
  using assms by (simp_all add: cpufreq_enable_turbo_def cpufreq_disable_turbo_def)

text \<open>The Intel table has one entry for every ratio, at most sixteen.\<close>

lemma intel_pstates_keeps:
  "cf_max_pstate (intel_pstates n r s) = cf_max_pstate s" "cf_min_pstate (intel_pstates n r s) = cf_min_pstate s"
  "length (cf_pstates (intel_pstates n r s)) = length (cf_pstates s)"
  by (induction n r s rule: intel_pstates.induct) auto

lemma intel_pstates_count: "cf_num_pstates s \<le> 16 \<Longrightarrow> cf_num_pstates (intel_pstates n r s) \<le> 16"
proof (induction n r s rule: intel_pstates.induct)
  case (2 n r s)
  have "cf_num_pstates s + 1 \<le> 16" if "cf_num_pstates s < 16" using that by (rule inc_le)
  with 2 show ?case by simp
qed simp

definition freq_gap :: "u16 \<Rightarrow> 'a cpufreq_scheme \<Rightarrow> nat \<Rightarrow> u16" where
  "freq_gap f s i = (let g = pi_frequency (cf_pstates s ! i) in if g > f then g - f else f - g)"

lemma closest_fold:
  "fold (\<lambda>i (d, b). if freq_gap f s i < d then (freq_gap f s i, of_nat i) else (d, b)) xs (d0, of_nat b0) =
   (case fold (\<lambda>i (b, d). if True \<and> freq_gap f s i < d then (i, freq_gap f s i) else (b, d)) xs (b0, d0) of
      (b, d) \<Rightarrow> (d, of_nat b :: u8))"
  by (induction xs arbitrary: d0 b0) (auto split: prod.splits)

lemma cpufreq_set_frequency_eq:
  "cpufreq_set_frequency D f s = (if cf_cpufreq_supported s = 0 then s else
     snd (cpufreq_set_pstate D (snd (fold (\<lambda>i (d, b). if freq_gap f s i < d then (freq_gap f s i, of_nat i) else (d, b))
       [0..<unat (cf_num_pstates s)] (0xFFFF, 0))) s))"
  unfolding cpufreq_set_frequency_def Let_def freq_gap_def by (simp add: case_prod_beta)

text \<open>C38: \<open>cpufreq_set_frequency\<close> selects the state whose frequency is nearest to the one asked for, the first of them
  when several are, and leaves it to \<open>cpufreq_set_pstate\<close>.\<close>

theorem cpufreq_sets_closest:
  assumes "cf_cpufreq_supported s \<noteq> 0" "0 < cf_num_pstates s"
  shows "\<exists>p < unat (cf_num_pstates s). cpufreq_set_frequency D f s = snd (cpufreq_set_pstate D (of_nat p) s) \<and>
    (\<forall>i < unat (cf_num_pstates s). freq_gap f s p \<le> freq_gap f s i \<and> (freq_gap f s i = freq_gap f s p \<longrightarrow> p \<le> i))"
proof -
  let ?xs = "[0..<unat (cf_num_pstates s)]"
  obtain p d where f: "fold (\<lambda>i (b, d). if True \<and> freq_gap f s i < d then (i, freq_gap f s i) else (b, d)) ?xs (0, 0xFFFF) = (p, d)"
    by fastforce
  have n: "0 < unat (cf_num_pstates s)" using assms(2) by (simp add: word_less_nat_alt)
  have top: "g \<le> 0xFFFF" for g :: u16
    using unsigned_less [of g, where ?'a = nat] by (simp add: word_le_nat_alt)
  have "cpufreq_set_frequency D f s = snd (cpufreq_set_pstate D (of_nat p) s)"
    using assms(1) closest_fold [of f s ?xs "0xFFFF" 0] f
    by (simp add: cpufreq_set_frequency_eq)
  moreover have "p < unat (cf_num_pstates s) \<and>
    (\<forall>i < unat (cf_num_pstates s). freq_gap f s p \<le> freq_gap f s i \<and> (freq_gap f s i = freq_gap f s p \<longrightarrow> p \<le> i))"
    using fold_min [OF sorted_wrt_upt f] n by (auto intro: order_trans [OF top])
  ultimately show ?thesis by blast
qed

definition cpufreq0 :: cpufreq where
  "cpufreq0 = \<lparr>trace = [], pit_ticks = 0, pit_frequency = 0, pit_loops_per_10ms = 0, system_ticks = 0, msr_supported = 1,
     cf_cpufreq_supported = 1, cf_intel_speedstep = 0, cf_amd_coolnquiet = 1, cf_turbo_supported = 0, cf_turbo_enabled = 0,
     cf_num_pstates = 3, cf_current_pstate = 0, cf_min_pstate = 0, cf_max_pstate = 2, cf_base_frequency = 2000,
     cf_max_turbo_frequency = 1000, cf_current_frequency = 0,
     cf_pstates = map (\<lambda>f. \<lparr>pi_frequency = f, pi_voltage = 0, pi_power = 0, pi_latency = 100\<rparr>) [2000, 1500, 1000],
     cf_transition_latency = 100, cf_governor_policy = 2\<rparr>"

lemma cpufreq_sets_closest_witness:
  "\<exists>p < 3. cpufreq_set_frequency (\<lambda>_ _. 0) 1600 cpufreq0 = snd (cpufreq_set_pstate (\<lambda>_ _. 0) (of_nat p) cpufreq0) \<and>
    (\<forall>i < 3. freq_gap 1600 cpufreq0 p \<le> freq_gap 1600 cpufreq0 i)"
proof -
  have n: "unat (cf_num_pstates cpufreq0) = 3" by (simp add: cpufreq0_def)
  have "cf_cpufreq_supported cpufreq0 \<noteq> 0" "0 < cf_num_pstates cpufreq0" by (simp_all add: cpufreq0_def)
  from cpufreq_sets_closest [OF this, of "\<lambda>_ _. 0" 1600] show ?thesis unfolding n by blast
qed

text \<open>
  On Intel processors the ratio belongs into the second byte of the control register. The driver writes it into the first and
  clears the second, so the ratio it requests is 0 whatever the state.
\<close>

lemma cpufreq_intel_request:
  assumes "msr_supported s \<noteq> 0" "cf_cpufreq_supported s \<noteq> 0" "cf_intel_speedstep s \<noteq> 0" "p < cf_num_pstates s"
  shows "\<exists>v. writes (Msr MSR_IA32_PERF_CTL) (drop (length (trace s)) (trace (snd (cpufreq_set_pstate D p s)))) = [v] \<and>
    drop_bit 8 v AND 0xFF = 0"
proof -
  have h: "(cf_num_pstates s \<le> p) = False" using assms(4) by auto
  have m: "(0xFF :: u64) = mask 8" "(0xFFFF :: u64) = mask 16" by (simp_all add: mask_eq_exp_minus_1)
  have "drop_bit 8 ((x AND NOT 0xFFFF) OR ucast r) AND 0xFF = 0" for x :: u64 and r :: u8
    unfolding m by (rule bit_word_eqI) (auto simp: bit_simps dest: bit_imp_le_length)
  with assms show ?thesis by (auto simp: cpufreq_set_pstate_def msr_on Let_def h)
qed

end
