(* ===== verification/Xsave.thy ===== *)
theory Xsave
  imports Msr_Regs Paging
begin

text \<open>
  \<open>src/drivers/xsave.c\<close>: saving and restoring the extended processor state. The fields of \<open>xsave_info_t\<close> carry the
  prefix \<open>xs_\<close>; \<open>xs_paging\<close> is the state of the page allocator.
\<close>

definition XFEATURE_FP :: "'a::len word" where "XFEATURE_FP = 0x01"
definition XFEATURE_SSE :: "'a::len word" where "XFEATURE_SSE = 0x02"
definition XFEATURE_YMM :: "'a::len word" where "XFEATURE_YMM = 0x04"
definition XFEATURE_BNDREGS :: "'a::len word" where "XFEATURE_BNDREGS = 0x08"
definition XFEATURE_BNDCSR :: "'a::len word" where "XFEATURE_BNDCSR = 0x10"
definition XFEATURE_OPMASK :: "'a::len word" where "XFEATURE_OPMASK = 0x20"
definition XFEATURE_ZMM_Hi256 :: "'a::len word" where "XFEATURE_ZMM_Hi256 = 0x40"
definition XFEATURE_Hi16_ZMM :: "'a::len word" where "XFEATURE_Hi16_ZMM = 0x80"
definition XFEATURE_PKRU :: "'a::len word" where "XFEATURE_PKRU = 0x200"
definition CR4_OSXSAVE :: "'a::len word" where "CR4_OSXSAVE = 0x40000"
definition XCR_XFEATURE_ENABLED_MASK :: "'a::len word" where "XCR_XFEATURE_ENABLED_MASK = 0"

record xsave = msr +
  xs_xsave_supported :: u8
  xs_xsaveopt_supported :: u8
  xs_xsavec_supported :: u8
  xs_xsaves_supported :: u8
  xs_xfd_supported :: u8
  xs_max_xsave_size :: u32
  xs_max_xsave_size_enabled :: u32
  xs_supported_features :: u64
  xs_enabled_features :: u64
  xs_feature_offsets :: "u32 list"    \<comment> \<open>32\<close>
  xs_feature_sizes :: "u32 list"    \<comment> \<open>32\<close>
  xs_supervisor_features :: u8
  xs_paging :: paging    \<comment> \<open>the variables of \<open>paging.c\<close>\<close>

definition xsave_check_support :: "device \<Rightarrow> 'a xsave_scheme \<Rightarrow> u8 \<times> 'a xsave_scheme" where
  "xsave_check_support D s =
     (let ((eax, ebx, ecx, edx), s) = cpuid D 1 s
      in (if ecx AND push_bit 26 1 = 0 then (0, s)
          else (let s = s\<lparr>xs_xsave_supported := 1\<rparr>;
                    ((eax, ebx, ecx, edx), s) = cpuid_sub D 0xD 1 s;
                    s = s\<lparr>xs_xsaveopt_supported := c_bool (eax AND push_bit 0 1 \<noteq> 0),
                          xs_xsavec_supported := c_bool (eax AND push_bit 1 1 \<noteq> 0),
                          xs_xsaves_supported := c_bool (eax AND push_bit 3 1 \<noteq> 0),
                          xs_xfd_supported := c_bool (eax AND push_bit 4 1 \<noteq> 0)\<rparr>
                in (1, s))))"

definition xsave_feature :: "device \<Rightarrow> nat \<Rightarrow> 'a xsave_scheme \<Rightarrow> 'a xsave_scheme" where
  "xsave_feature D i s =
     (if xs_supported_features s AND push_bit i 1 = 0 then s
      else (let ((eax, ebx, ecx, edx), s) = cpuid_sub D 0xD (of_nat i) s;
                s = s\<lparr>xs_feature_sizes := (xs_feature_sizes s)[i := eax], xs_feature_offsets := (xs_feature_offsets s)[i := ebx]\<rparr>
            in (if ecx AND 1 \<noteq> 0
                then s\<lparr>xs_supervisor_features := xs_supervisor_features s OR ucast (push_bit i (1 :: u32))\<rparr> else s)))"

definition xsave_enumerate_features :: "device \<Rightarrow> 'a xsave_scheme \<Rightarrow> 'a xsave_scheme" where
  "xsave_enumerate_features D s =
     (let ((eax, ebx, ecx, edx), s) = cpuid_sub D 0xD 0 s;
          s = s\<lparr>xs_supported_features := push_bit 32 (ucast edx) OR ucast eax, xs_max_xsave_size := ecx,
                xs_max_xsave_size_enabled := ebx\<rparr>;
          s = fold (xsave_feature D) [2..<32] s
      in s\<lparr>xs_feature_sizes := (xs_feature_sizes s)[0 := 160, 1 := 256],
           xs_feature_offsets := (xs_feature_offsets s)[0 := 0, 1 := 160]\<rparr>)"

definition xsave_enable_osxsave :: "device \<Rightarrow> 'a xsave_scheme \<Rightarrow> 'a xsave_scheme" where
  "xsave_enable_osxsave D s =
     (let (cr4 :: u32, s) = rd D (Creg 4) s;
          cr4 = cr4 OR CR4_OSXSAVE
      in wr (Creg 4) cr4 s)"

definition xsave_set_xcr0 :: "u64 \<Rightarrow> 'a xsave_scheme \<Rightarrow> 'a xsave_scheme" where
  "xsave_set_xcr0 features s =
     (let eax = (ucast (features AND 0xFFFFFFFF) :: u32);
          edx = (ucast (drop_bit 32 features) :: u32);
          s = insn (Asm ''xsetbv'' [ucast eax, ucast edx, XCR_XFEATURE_ENABLED_MASK]) s
      in s\<lparr>xs_enabled_features := features\<rparr>)"

definition xsave_init :: "device \<Rightarrow> 'a xsave_scheme \<Rightarrow> 'a xsave_scheme" where
  "xsave_init D s =
     (let s = s\<lparr>xs_xsave_supported := 0, xs_xsaveopt_supported := 0, xs_xsavec_supported := 0,
                xs_xsaves_supported := 0, xs_xfd_supported := 0, xs_supported_features := 0, xs_enabled_features := 0,
                xs_supervisor_features := 0\<rparr>;
          (v, s) = xsave_check_support D s
      in (if v = 0 then s
          else (let s = xsave_enumerate_features D s;
                    s = xsave_enable_osxsave D s;
                    basic_features = (XFEATURE_FP OR XFEATURE_SSE :: u64);
                    basic_features = (if xs_supported_features s AND XFEATURE_YMM \<noteq> 0 then basic_features OR XFEATURE_YMM
                                      else basic_features);
                    basic_features = (if xs_supported_features s AND XFEATURE_OPMASK \<noteq> 0
                                      then basic_features OR (XFEATURE_OPMASK OR XFEATURE_ZMM_Hi256 OR XFEATURE_Hi16_ZMM)
                                      else basic_features);
                    basic_features = (if xs_supported_features s AND XFEATURE_BNDREGS \<noteq> 0
                                      then basic_features OR (XFEATURE_BNDREGS OR XFEATURE_BNDCSR)
                                      else basic_features);
                    basic_features = (if xs_supported_features s AND XFEATURE_PKRU \<noteq> 0 then basic_features OR
                                      XFEATURE_PKRU
                                      else basic_features);
                    basic_features = basic_features AND xs_supported_features s
                in xsave_set_xcr0 basic_features s)))"

definition xsave_is_supported :: "'a xsave_scheme \<Rightarrow> u8" where
  "xsave_is_supported s = xs_xsave_supported s"

definition xsave_is_xsaveopt_supported :: "'a xsave_scheme \<Rightarrow> u8" where
  "xsave_is_xsaveopt_supported s = xs_xsaveopt_supported s"

definition xsave_is_xsavec_supported :: "'a xsave_scheme \<Rightarrow> u8" where
  "xsave_is_xsavec_supported s = xs_xsavec_supported s"

definition xsave_is_xsaves_supported :: "'a xsave_scheme \<Rightarrow> u8" where
  "xsave_is_xsaves_supported s = xs_xsaves_supported s"

definition xsave_get_supported_features :: "'a xsave_scheme \<Rightarrow> u64" where
  "xsave_get_supported_features s = xs_supported_features s"

definition xsave_get_enabled_features :: "'a xsave_scheme \<Rightarrow> u64" where
  "xsave_get_enabled_features s = xs_enabled_features s"

definition xsave_get_area_size :: "'a xsave_scheme \<Rightarrow> u32" where
  "xsave_get_area_size s = xs_max_xsave_size_enabled s"

definition xsave_get_feature_offset :: "u32 \<Rightarrow> 'a xsave_scheme \<Rightarrow> u32" where
  "xsave_get_feature_offset feature_bit s =
     (if feature_bit \<ge> 32 then 0
      else xs_feature_offsets s ! (unat feature_bit))"

definition xsave_get_feature_size :: "u32 \<Rightarrow> 'a xsave_scheme \<Rightarrow> u32" where
  "xsave_get_feature_size feature_bit s =
     (if feature_bit \<ge> 32 then 0
      else xs_feature_sizes s ! (unat feature_bit))"

definition xsave_save_state :: "u32 \<Rightarrow> u64 \<Rightarrow> 'a xsave_scheme \<Rightarrow> 'a xsave_scheme" where
  "xsave_save_state xsave_area feature_mask s =
     (if xs_xsave_supported s = 0 \<or> xsave_area = 0 then s
      else (let eax = (ucast (feature_mask AND 0xFFFFFFFF) :: u32);
                edx = (ucast (drop_bit 32 feature_mask) :: u32)
            in (if xs_xsaveopt_supported s \<noteq> 0 then insn (Asm ''xsaveopt (%0)'' [ucast xsave_area, ucast eax,
                                                                 ucast edx]) s
                else insn (Asm ''xsave (%0)'' [ucast xsave_area, ucast eax, ucast edx]) s)))"

definition xsave_restore_state :: "u32 \<Rightarrow> u64 \<Rightarrow> 'a xsave_scheme \<Rightarrow> 'a xsave_scheme" where
  "xsave_restore_state xsave_area feature_mask s =
     (if xs_xsave_supported s = 0 \<or> xsave_area = 0 then s
      else (let eax = (ucast (feature_mask AND 0xFFFFFFFF) :: u32);
                edx = (ucast (drop_bit 32 feature_mask) :: u32)
            in insn (Asm ''xrstor (%0)'' [ucast xsave_area, ucast eax, ucast edx]) s))"

definition xsave_save_state_compact :: "u32 \<Rightarrow> u64 \<Rightarrow> 'a xsave_scheme \<Rightarrow> 'a xsave_scheme" where
  "xsave_save_state_compact xsave_area feature_mask s =
     (if xs_xsavec_supported s = 0 \<or> xsave_area = 0 then s
      else (let eax = (ucast (feature_mask AND 0xFFFFFFFF) :: u32);
                edx = (ucast (drop_bit 32 feature_mask) :: u32)
            in insn (Asm ''xsavec (%0)'' [ucast xsave_area, ucast eax, ucast edx]) s))"

definition xsave_save_state_supervisor :: "u32 \<Rightarrow> u64 \<Rightarrow> 'a xsave_scheme \<Rightarrow> 'a xsave_scheme" where
  "xsave_save_state_supervisor xsave_area feature_mask s =
     (if xs_xsaves_supported s = 0 \<or> xsave_area = 0 then s
      else (let eax = (ucast (feature_mask AND 0xFFFFFFFF) :: u32);
                edx = (ucast (drop_bit 32 feature_mask) :: u32)
            in insn (Asm ''xsaves (%0)'' [ucast xsave_area, ucast eax, ucast edx]) s))"

definition xsave_restore_state_supervisor :: "u32 \<Rightarrow> u64 \<Rightarrow> 'a xsave_scheme \<Rightarrow> 'a xsave_scheme" where
  "xsave_restore_state_supervisor xsave_area feature_mask s =
     (if xs_xsaves_supported s = 0 \<or> xsave_area = 0 then s
      else (let eax = (ucast (feature_mask AND 0xFFFFFFFF) :: u32);
                edx = (ucast (drop_bit 32 feature_mask) :: u32)
            in insn (Asm ''xrstors (%0)'' [ucast xsave_area, ucast eax, ucast edx]) s))"

definition xsave_is_feature_enabled :: "u32 \<Rightarrow> 'a xsave_scheme \<Rightarrow> u8" where
  "xsave_is_feature_enabled feature_bit s =
     (if feature_bit \<ge> 64 then 0
      else c_bool (xs_enabled_features s AND push_bit (unat feature_bit) (1 :: u64) \<noteq> 0))"

definition xsave_enable_feature :: "u32 \<Rightarrow> 'a xsave_scheme \<Rightarrow> u8 \<times> 'a xsave_scheme" where
  "xsave_enable_feature feature_bit s =
     (if feature_bit \<ge> 64 then (0, s)
      else if xs_supported_features s AND push_bit (unat feature_bit) (1 :: u64) = 0 then (0, s)
      else (let new_features = xs_enabled_features s OR push_bit (unat feature_bit) (1 :: u64);
                s = xsave_set_xcr0 new_features s
            in (1, s)))"

definition xsave_disable_feature :: "u32 \<Rightarrow> 'a xsave_scheme \<Rightarrow> u8 \<times> 'a xsave_scheme" where
  "xsave_disable_feature feature_bit s =
     (if feature_bit \<ge> 64 then (0, s)
      else if feature_bit \<le> 1 then (0, s)
      else (let new_features = xs_enabled_features s AND NOT (push_bit (unat feature_bit) (1 :: u64));
                s = xsave_set_xcr0 new_features s
            in (1, s)))"

definition xsave_alloc :: "u32 \<Rightarrow> 'a xsave_scheme \<Rightarrow> (u32 \<times> 'a xsave_scheme) option" where
  "xsave_alloc n = embed xs_paging (\<lambda>c. xs_paging_update (\<lambda>_. c)) (\<lambda>c. Some (paging_alloc_pages n c))"

definition clear_area :: "u32 \<Rightarrow> 'a xsave_scheme \<Rightarrow> 'a xsave_scheme" where
  "clear_area a s = fold (\<lambda>i s. wr (Mem8 (a + of_nat i)) (0 :: u8) s) [0..<unat (xs_max_xsave_size_enabled s)] s"

definition xsave_alloc_area :: "'a xsave_scheme \<Rightarrow> (u32 \<times> 'a xsave_scheme) option" where
  "xsave_alloc_area s =
     (if xs_xsave_supported s = 0 then Some (0, s)
      else do {
        let pages_needed = (xs_max_xsave_size_enabled s + 4095) div 4096;
        (area, s) \<leftarrow> xsave_alloc pages_needed s;
        Some (area, if area \<noteq> 0 then clear_area area s else s) })"

definition xsave_init_area :: "u32 \<Rightarrow> 'a xsave_scheme \<Rightarrow> 'a xsave_scheme" where
  "xsave_init_area xsave_area s =
     (if xs_xsave_supported s = 0 \<or> xsave_area = 0 then s
      else (let s = clear_area xsave_area s;
                s = wr (Mem8 xsave_area) (0x7F :: u8) s;
                s = wr (Mem8 (xsave_area + 1)) (0x03 :: u8) s;
                s = write32 (xsave_area + 24) 0x1F80 s
            in write64 (xsave_area + 512) 0 s))"

definition xsave_is_supervisor_feature :: "u32 \<Rightarrow> 'a xsave_scheme \<Rightarrow> u8" where
  "xsave_is_supervisor_feature feature_bit s =
     (if feature_bit \<ge> 32 then 0
      else c_bool (ucast (xs_supervisor_features s) AND push_bit (unat feature_bit) (1 :: u32) \<noteq> 0))"

section \<open>The enabled features\<close>

definition features_ok :: "'a xsave_scheme \<Rightarrow> bool" where
  "features_ok s \<longleftrightarrow> xs_enabled_features s AND NOT (xs_supported_features s) = 0"

lemma xsave_set_xcr0_fields [simp]:
  "xs_enabled_features (xsave_set_xcr0 v s) = v" "xs_supported_features (xsave_set_xcr0 v s) = xs_supported_features s"
  "xs_max_xsave_size_enabled (xsave_set_xcr0 v s) = xs_max_xsave_size_enabled s"
  by (simp_all add: xsave_set_xcr0_def bus)

lemma features_okI:
  assumes "\<And>n. bit (xs_enabled_features s) n \<Longrightarrow> bit (xs_supported_features s) n"
  shows "features_ok s"
  unfolding features_ok_def by (rule bit_word_eqI) (auto simp: bit_simps dest: assms)

lemma features_okD: "features_ok s \<Longrightarrow> bit (xs_enabled_features s) n \<Longrightarrow> bit (xs_supported_features s) n"
proof -
  assume h: "features_ok s" "bit (xs_enabled_features s) n"
  have "\<not> bit (xs_enabled_features s AND NOT (xs_supported_features s)) n" using h(1) by (simp add: features_ok_def)
  with h(2) show ?thesis by (auto simp: bit_simps dest: bit_imp_le_length)
qed

text \<open>Only features the processor has are ever enabled.\<close>

lemma xsave_enable_ok:
  assumes "features_ok s"
  shows "features_ok (snd (xsave_enable_feature k s))"
proof (cases "k < 64 \<and> bit (xs_supported_features s) (unat k)")
  case True
  then have "unat k < 64" by (simp add: word_less_nat_alt)
  with True have "xs_supported_features s AND push_bit (unat k) 1 \<noteq> 0" by (simp add: and_exp_0 not_le)
  moreover have h: "(64 \<le> k) = False" using True by auto
  ultimately have "xsave_enable_feature k s = (1, xsave_set_xcr0 (xs_enabled_features s OR push_bit (unat k) 1) s)"
    by (simp add: xsave_enable_feature_def h)
  moreover have "features_ok (xsave_set_xcr0 (xs_enabled_features s OR push_bit (unat k) 1) s)"
    using True features_okD [OF assms] by (intro features_okI) (auto simp: bit_simps)
  ultimately show ?thesis by simp
next
  case False
  then have "snd (xsave_enable_feature k s) = s"
    by (auto simp: xsave_enable_feature_def and_exp_0 not_less not_le word_le_nat_alt)
  with assms show ?thesis by simp
qed

lemma xsave_disable_ok:
  assumes "features_ok s"
  shows "features_ok (snd (xsave_disable_feature k s))"
  using features_okD [OF assms] assms
  by (auto simp: xsave_disable_feature_def Let_def bit_simps intro!: features_okI)

text \<open>The x87 and SSE states cannot be disabled.\<close>

lemma xsave_disable_keeps_basic:
  "xs_enabled_features (snd (xsave_disable_feature k s)) AND 3 = xs_enabled_features s AND 3"
proof -
  have m: "(3 :: u64) = mask 2" by (simp add: mask_eq_exp_minus_1)
  have "2 \<le> unat k" if "\<not> k \<le> 1" using that by (simp add: word_le_nat_alt)
  then show ?thesis
    unfolding m by (auto simp: xsave_disable_feature_def Let_def bit_simps intro!: bit_word_eqI)
qed

text \<open>
  The supervisor features are collected in eight bits, so none from 8 on is ever recognised, although all the architecture
  defines are among these.
\<close>

lemma xsave_no_supervisor_feature:
  assumes "8 \<le> k"
  shows "xsave_is_supervisor_feature k s = 0"
proof -
  have "8 \<le> unat k" using assms by (simp add: word_le_nat_alt)
  then have "ucast (xs_supervisor_features s) AND push_bit (unat k) (1 :: u32) = 0"
    by (auto simp: and_exp_0 bit_simps dest: bit_imp_le_length)
  then show ?thesis by (simp add: xsave_is_supervisor_feature_def c_bool_def)
qed

text \<open>
  The size of an area is the one for the features enabled when the driver started; enabling more leaves it as it is.
\<close>

lemma xsave_area_size_fixed:
  "xsave_get_area_size (snd (xsave_enable_feature k s)) = xsave_get_area_size s"
  by (simp add: xsave_enable_feature_def xsave_get_area_size_def Let_def)

end
