(* ===== verification/Security.thy ===== *)
theory Security
  imports Xsave
begin

text \<open>
  \<open>src/drivers/security.c\<close>: supervisor-mode protection, control-flow enforcement, bounds and protection keys. The fields
  of \<open>security_info_t\<close> carry the prefix \<open>se_\<close>; \<open>se_xsave\<close> holds the variables of \<open>xsave.c\<close>.
\<close>

definition MSR_U_CET :: "'a::len word" where "MSR_U_CET = 0x6A0"
definition MSR_S_CET :: "'a::len word" where "MSR_S_CET = 0x6A2"
definition MSR_PL0_SSP :: "'a::len word" where "MSR_PL0_SSP = 0x6A4"
definition CET_SH_STK_EN :: "'a::len word" where "CET_SH_STK_EN = 0x01"
definition CET_ENDBR_EN :: "'a::len word" where "CET_ENDBR_EN = 0x04"
definition CR4_SMEP :: "'a::len word" where "CR4_SMEP = 0x100000"
definition CR4_SMAP :: "'a::len word" where "CR4_SMAP = 0x200000"
definition CR4_PKE :: "'a::len word" where "CR4_PKE = 0x400000"
definition CR4_CET :: "'a::len word" where "CR4_CET = 0x800000"
definition MSR_BNDCFGS :: "'a::len word" where "MSR_BNDCFGS = 0xD90"
definition BNDCFGS_EN :: "'a::len word" where "BNDCFGS_EN = 0x01"

record security = msr +
  se_smep_supported :: u8
  se_smap_supported :: u8
  se_cet_supported :: u8
  se_cet_ss_supported :: u8
  se_cet_ibt_supported :: u8
  se_mpx_supported :: u8
  se_pku_supported :: u8
  se_smep_enabled :: u8
  se_smap_enabled :: u8
  se_cet_enabled :: u8
  se_mpx_enabled :: u8
  se_pku_enabled :: u8
  se_user_cet_config :: u64
  se_supervisor_cet_config :: u64
  se_mpx_config :: u64
  se_pkru_value :: u32
  se_xsave :: xsave    \<comment> \<open>the variables of \<open>xsave.c\<close>\<close>

definition security_check_smep_smap :: "device \<Rightarrow> 'a security_scheme \<Rightarrow> u8 \<times> 'a security_scheme" where
  "security_check_smep_smap D s =
     (let ((eax, ebx, ecx, edx), s) = cpuid_sub D 7 0 s;
          s = s\<lparr>se_smep_supported := c_bool (ebx AND push_bit 7 1 \<noteq> 0),
                se_smap_supported := c_bool (ebx AND push_bit 20 1 \<noteq> 0)\<rparr>
      in (c_bool (se_smep_supported s \<noteq> 0 \<or> se_smap_supported s \<noteq> 0), s))"

definition security_check_cet :: "device \<Rightarrow> 'a security_scheme \<Rightarrow> u8 \<times> 'a security_scheme" where
  "security_check_cet D s =
     (let ((eax, ebx, ecx, edx), s) = cpuid_sub D 7 0 s;
          s = s\<lparr>se_cet_supported := c_bool (ecx AND push_bit 7 1 \<noteq> 0),
                se_cet_ss_supported := c_bool (edx AND push_bit 18 1 \<noteq> 0),
                se_cet_ibt_supported := c_bool (edx AND push_bit 20 1 \<noteq> 0)\<rparr>
      in (se_cet_supported s, s))"

definition security_check_mpx :: "device \<Rightarrow> 'a security_scheme \<Rightarrow> u8 \<times> 'a security_scheme" where
  "security_check_mpx D s =
     (let ((eax, ebx, ecx, edx), s) = cpuid_sub D 7 0 s;
          s = s\<lparr>se_mpx_supported := c_bool (ebx AND push_bit 14 1 \<noteq> 0)\<rparr>
      in (se_mpx_supported s, s))"

definition security_check_pku :: "device \<Rightarrow> 'a security_scheme \<Rightarrow> u8 \<times> 'a security_scheme" where
  "security_check_pku D s =
     (let ((eax, ebx, ecx, edx), s) = cpuid_sub D 7 0 s;
          s = s\<lparr>se_pku_supported := c_bool (ecx AND push_bit 3 1 \<noteq> 0)\<rparr>
      in (se_pku_supported s, s))"

definition security_init :: "device \<Rightarrow> 'a security_scheme \<Rightarrow> 'a security_scheme" where
  "security_init D s =
     (let s = s\<lparr>se_smep_supported := 0, se_smap_supported := 0, se_cet_supported := 0, se_cet_ss_supported := 0,
                se_cet_ibt_supported := 0, se_mpx_supported := 0, se_pku_supported := 0, se_smep_enabled := 0,
                se_smap_enabled := 0, se_cet_enabled := 0, se_mpx_enabled := 0, se_pku_enabled := 0\<rparr>;
          (v, s) = security_check_smep_smap D s;
          (v2, s) = security_check_cet D s;
          (v3, s) = security_check_mpx D s;
          (v4, s) = security_check_pku D s;
          s = (if se_smep_supported s \<noteq> 0 then
                  (let (cr4 :: u32, s) = rd D (Creg 4) s;
                       cr4 = cr4 OR CR4_SMEP;
                       s = wr (Creg 4) cr4 s
                   in s\<lparr>se_smep_enabled := 1\<rparr>)
               else s);
          s = (if se_smap_supported s \<noteq> 0 then
                  (let (cr4 :: u32, s) = rd D (Creg 4) s;
                       cr4 = cr4 OR CR4_SMAP;
                       s = wr (Creg 4) cr4 s
                   in s\<lparr>se_smap_enabled := 1\<rparr>)
               else s)
      in (if se_pku_supported s \<noteq> 0 then
             (let (cr4 :: u32, s) = rd D (Creg 4) s;
                  cr4 = cr4 OR CR4_PKE;
                  s = wr (Creg 4) cr4 s;
                  s = s\<lparr>se_pkru_value := 0\<rparr>;
                  s = insn (Asm ''xor ecx, ecx; xor edx, edx; wrpkru'' [ucast (se_pkru_value s)]) s
              in s\<lparr>se_pku_enabled := 1\<rparr>)
          else s))"

definition security_is_smep_supported :: "'a security_scheme \<Rightarrow> u8" where
  "security_is_smep_supported s = se_smep_supported s"

definition security_is_smap_supported :: "'a security_scheme \<Rightarrow> u8" where
  "security_is_smap_supported s = se_smap_supported s"

definition security_is_cet_supported :: "'a security_scheme \<Rightarrow> u8" where
  "security_is_cet_supported s = se_cet_supported s"

definition security_is_mpx_supported :: "'a security_scheme \<Rightarrow> u8" where
  "security_is_mpx_supported s = se_mpx_supported s"

definition security_is_pku_supported :: "'a security_scheme \<Rightarrow> u8" where
  "security_is_pku_supported s = se_pku_supported s"

definition security_is_smep_enabled :: "'a security_scheme \<Rightarrow> u8" where
  "security_is_smep_enabled s = se_smep_enabled s"

definition security_is_smap_enabled :: "'a security_scheme \<Rightarrow> u8" where
  "security_is_smap_enabled s = se_smap_enabled s"

definition security_is_cet_enabled :: "'a security_scheme \<Rightarrow> u8" where
  "security_is_cet_enabled s = se_cet_enabled s"

definition security_is_mpx_enabled :: "'a security_scheme \<Rightarrow> u8" where
  "security_is_mpx_enabled s = se_mpx_enabled s"

definition security_is_pku_enabled :: "'a security_scheme \<Rightarrow> u8" where
  "security_is_pku_enabled s = se_pku_enabled s"

definition security_enable_cet :: "device \<Rightarrow> u8 \<Rightarrow> u8 \<Rightarrow> 'a security_scheme \<Rightarrow> 'a security_scheme" where
  "security_enable_cet D enable_shadow_stack enable_ibt s =
     (if se_cet_supported s = 0 \<or> msr_is_supported s = 0 then s
      else (let (cr4 :: u32, s) = rd D (Creg 4) s;
                cr4 = cr4 OR CR4_CET;
                s = wr (Creg 4) cr4 s;
                s_cet = (0 :: u64);
                s_cet = (if enable_shadow_stack \<noteq> 0 \<and> se_cet_ss_supported s \<noteq> 0 then s_cet OR CET_SH_STK_EN
                         else s_cet);
                s_cet = (if enable_ibt \<noteq> 0 \<and> se_cet_ibt_supported s \<noteq> 0 then s_cet OR CET_ENDBR_EN
                         else s_cet);
                s = (if s_cet \<noteq> 0 then
                        (let s = msr_write MSR_S_CET s_cet s
                         in s\<lparr>se_supervisor_cet_config := s_cet, se_cet_enabled := 1\<rparr>)
                     else s);
                u_cet = s_cet;
                s = msr_write MSR_U_CET u_cet s
            in s\<lparr>se_user_cet_config := u_cet\<rparr>))"

definition security_disable_cet :: "'a security_scheme \<Rightarrow> 'a security_scheme" where
  "security_disable_cet s =
     (if se_cet_enabled s = 0 \<or> msr_is_supported s = 0 then s
      else (let s = msr_write MSR_S_CET 0 s;
                s = msr_write MSR_U_CET 0 s
            in s\<lparr>se_cet_enabled := 0, se_supervisor_cet_config := 0, se_user_cet_config := 0\<rparr>))"

definition on_xsave :: "(xsave \<Rightarrow> 'r \<times> xsave) \<Rightarrow> 'a security_scheme \<Rightarrow> 'r \<times> 'a security_scheme" where
  "on_xsave f s = (let (r, c) = f ((se_xsave s)\<lparr>trace := trace s\<rparr>) in (r, s\<lparr>trace := trace c, se_xsave := c\<rparr>))"

definition security_enable_mpx :: "'a security_scheme \<Rightarrow> 'a security_scheme" where
  "security_enable_mpx s =
     (if se_mpx_supported s = 0 \<or> msr_is_supported s = 0 then s
      else (let (v, s) = on_xsave (xsave_enable_feature 3) s
            in (if v = 0 then s
                else (let (v2, s) = on_xsave (xsave_enable_feature 4) s
                      in (if v2 = 0 then s
                          else (let bndcfgs = (BNDCFGS_EN :: u64);
                                    s = msr_write MSR_BNDCFGS bndcfgs s
                                in s\<lparr>se_mpx_config := bndcfgs, se_mpx_enabled := 1\<rparr>))))))"

definition security_disable_mpx :: "'a security_scheme \<Rightarrow> 'a security_scheme" where
  "security_disable_mpx s =
     (if se_mpx_enabled s = 0 \<or> msr_is_supported s = 0 then s
      else (let s = msr_write MSR_BNDCFGS 0 s;
                (v, s) = on_xsave (xsave_disable_feature 3) s;
                (v2, s) = on_xsave (xsave_disable_feature 4) s
            in s\<lparr>se_mpx_enabled := 0, se_mpx_config := 0\<rparr>))"

definition security_set_protection_key :: "u8 \<Rightarrow> u8 \<Rightarrow> u8 \<Rightarrow> 'a security_scheme \<Rightarrow> 'a security_scheme" where
  "security_set_protection_key key access_disable write_disable s =
     (if se_pku_enabled s = 0 \<or> key \<ge> 16 then s
      else (let pkru = se_pkru_value s;
                pkru = pkru AND NOT (push_bit (unat (ucast key * 2 :: u32)) (3 :: u32));
                pkru = (if access_disable \<noteq> 0 then pkru OR push_bit (unat (ucast key * 2 :: u32)) (1 :: u32)
                        else pkru);
                pkru = (if write_disable \<noteq> 0 then pkru OR push_bit (unat (ucast key * 2 :: u32)) (2 :: u32)
                        else pkru);
                s = insn (Asm ''xor ecx, ecx; xor edx, edx; wrpkru'' [ucast pkru]) s
            in s\<lparr>se_pkru_value := pkru\<rparr>))"

definition security_get_pkru :: "device \<Rightarrow> 'a security_scheme \<Rightarrow> u32 \<times> 'a security_scheme" where
  "security_get_pkru D s =
     (if se_pku_enabled s = 0 then (0, s)
      else (let (pkru :: u32, s) = rd D (Isa ''xor ecx, ecx; rdpkru'' [] 0) s;
                s = s\<lparr>se_pkru_value := pkru\<rparr>
            in (pkru, s)))"

definition security_stac :: "'a security_scheme \<Rightarrow> 'a security_scheme" where
  "security_stac s =
     (if se_smap_enabled s = 0 then s
      else insn (Asm ''stac'' []) s)"

definition security_clac :: "'a security_scheme \<Rightarrow> 'a security_scheme" where
  "security_clac s =
     (if se_smap_enabled s = 0 then s
      else insn (Asm ''clac'' []) s)"

definition security_get_supervisor_cet_config :: "'a security_scheme \<Rightarrow> u64" where
  "security_get_supervisor_cet_config s = se_supervisor_cet_config s"

definition security_get_user_cet_config :: "'a security_scheme \<Rightarrow> u64" where
  "security_get_user_cet_config s = se_user_cet_config s"

definition security_get_mpx_config :: "'a security_scheme \<Rightarrow> u64" where
  "security_get_mpx_config s = se_mpx_config s"

definition security_setup_shadow_stack :: "u64 \<Rightarrow> u32 \<Rightarrow> 'a security_scheme \<Rightarrow> 'a security_scheme" where
  "security_setup_shadow_stack ssp_base size' s =
     (if se_cet_enabled s = 0 \<or> se_cet_ss_supported s = 0 then s
      else if msr_is_supported s = 0 then s
      else msr_write MSR_PL0_SSP ((ssp_base + ucast size') - 8) s)"

definition security_is_shadow_stack_supported :: "'a security_scheme \<Rightarrow> u8" where
  "security_is_shadow_stack_supported s = se_cet_ss_supported s"

definition security_is_ibt_supported :: "'a security_scheme \<Rightarrow> u8" where
  "security_is_ibt_supported s = se_cet_ibt_supported s"

definition security_handle_cet_violation :: "u32 \<Rightarrow> 'a security_scheme \<Rightarrow> 'a security_scheme" where
  "security_handle_cet_violation error_code s = s"

definition security_handle_mpx_violation :: "'a security_scheme \<Rightarrow> 'a security_scheme" where
  "security_handle_mpx_violation s = s"

text \<open>The second comparison reads the memory again.\<close>

definition security_validate_indirect_branch :: "device \<Rightarrow> u64 \<Rightarrow> 'a security_scheme \<Rightarrow> u8 \<times> 'a security_scheme" where
  "security_validate_indirect_branch D target_address s =
     (if se_cet_enabled s = 0 \<or> se_cet_ibt_supported s = 0 then (1, s)
      else (let (v, s) = read32 D (ucast target_address) s
            in if v = 0xFA1E0FF3 then (1, s)
               else (let (w, s) = read32 D (ucast target_address) s in (c_bool (w = 0xFB1E0FF3), s))))"

section \<open>Protection keys\<close>

text \<open>The two bits of a key in the rights register.\<close>

definition key_rights :: "nat \<Rightarrow> u32 \<Rightarrow> bool \<times> bool" where
  "key_rights k v = (bit v (2 * k), bit v (2 * k + 1))"

text \<open>Setting the rights of a key gives that key the rights asked for and leaves every other key as it was.\<close>

lemma security_set_protection_key_rights:
  assumes "se_pku_enabled s \<noteq> 0" "key < 16" "j < 16"
  shows "key_rights j (se_pkru_value (security_set_protection_key key a w s)) =
    (if j = unat key then (a \<noteq> 0, w \<noteq> 0) else key_rights j (se_pkru_value s))"
proof -
  have k: "unat key < 16" using assms(2) by (simp add: word_less_nat_alt)
  then have u: "unat (ucast key * 2 :: u32) = 2 * unat key" by (simp add: unat_word_ariths unat_ucast_up)
  have m: "(3 :: u32) = mask 2" "(2 :: u32) = push_bit 1 1" by (simp_all add: mask_eq_exp_minus_1 push_bit_eq_mult)
  have h: "(16 \<le> key) = False" using assms(2) by auto
  have e: "se_pkru_value (security_set_protection_key key a w s) =
      (se_pkru_value s AND NOT (push_bit (2 * unat key) 3) OR (if a \<noteq> 0 then push_bit (2 * unat key) 1 else 0))
        OR (if w \<noteq> 0 then push_bit (2 * unat key) 2 else 0)"
    using assms(1) unfolding security_set_protection_key_def u by (simp add: h insn_def Let_def)
  show ?thesis
    using k assms(3) unfolding key_rights_def e m by (auto simp: bit_simps)
qed

text \<open>
  Bounds registers: the two features must be enabled and disabled together, but they are disabled one after the other; the
  first of the two instructions loads a value that the processor refuses.
\<close>

lemma security_disable_mpx_illegal:
  assumes "msr_supported s \<noteq> 0" "se_mpx_enabled s \<noteq> 0" "xs_enabled_features (se_xsave s) = 0x1F"
  shows "\<exists>t. trace (security_disable_mpx s) = trace s @ Wr (Msr MSR_BNDCFGS) 0 # Ins (Asm ''xsetbv'' [0x17, 0, 0]) # t"
proof -
  have le: "((3 :: u32) \<le> 1) = False" "((4 :: u32) \<le> 1) = False" by (simp_all add: word_le_nat_alt)
  have x: "xsave_disable_feature k c = (1, xsave_set_xcr0 (xs_enabled_features c AND NOT (push_bit (unat k) 1)) c)"
    if "k \<in> {3, 4}" for k and c :: xsave
    using that le by (auto simp: xsave_disable_feature_def)
  have o: "trace (snd (on_xsave f u)) = trace (snd (f ((se_xsave u)\<lparr>trace := trace u\<rparr>)))" for f u
    by (cases u) (simp add: on_xsave_def case_prod_beta Let_def)
  have t: "\<exists>t. trace (snd (on_xsave (xsave_disable_feature 4) u)) = trace u @ t" for u
    by (simp add: o x xsave_set_xcr0_def insn_def Let_def)
  have k: "se_xsave (s\<lparr>trace := tr\<rparr>) = se_xsave s" for tr by (cases s) simp
  let ?s = "s\<lparr>trace := trace s @ [Wr (Msr MSR_BNDCFGS) 0]\<rparr>"
  let ?u = "snd (on_xsave (xsave_disable_feature 3) ?s)"
  have "trace ?u = trace s @ [Wr (Msr MSR_BNDCFGS) 0, Ins (Asm ''xsetbv'' [0x17, 0, 0])]"
    using assms(3) by (simp add: o x k xsave_set_xcr0_def insn_def Let_def XCR_XFEATURE_ENABLED_MASK_def)
  moreover obtain t where "trace (snd (on_xsave (xsave_disable_feature 4) ?u)) = trace ?u @ t" using t by blast
  moreover have "trace (security_disable_mpx s) = trace (snd (on_xsave (xsave_disable_feature 4) ?u))"
    using assms by (simp add: security_disable_mpx_def msr_is_supported_def msr_on case_prod_beta Let_def)
  ultimately show ?thesis by simp
qed

lemma without_se_cet_enabled:
  assumes "se_cet_enabled s = 0"
  shows "security_disable_cet s = s" "security_setup_shadow_stack ssp_base size' s = s"
  using assms by (simp_all add: security_disable_cet_def security_setup_shadow_stack_def)

lemma without_se_pku_enabled:
  assumes "se_pku_enabled s = 0"
  shows "security_set_protection_key key access_disable write_disable s = s" "security_get_pkru D s = (0, s)"
  using assms by (simp_all add: security_set_protection_key_def security_get_pkru_def)

lemma without_se_smap_enabled:
  assumes "se_smap_enabled s = 0"
  shows "security_stac s = s" "security_clac s = s"
  using assms by (simp_all add: security_stac_def security_clac_def)

end
