(* ===== verification/Perfmon.thy ===== *)
theory Perfmon
  imports Msr_Regs
begin

text \<open>
  \<open>src/drivers/perfmon.c\<close>: performance counters. The fields of \<open>perfmon_info_t\<close> carry the prefix \<open>pm_\<close>, those of a
  counter \<open>pc_\<close>. \<open>perfmon_init\<close> uses \<open>perfmon_disable_all\<close> before it is declared.
\<close>

definition MSR_PERF_GLOBAL_CTRL_pm :: "'a::len word" where "MSR_PERF_GLOBAL_CTRL_pm = 0x38F"
definition MSR_PERF_CAPABILITIES :: "'a::len word" where "MSR_PERF_CAPABILITIES = 0x345"
definition MSR_FIXED_CTR_CTRL :: "'a::len word" where "MSR_FIXED_CTR_CTRL = 0x38D"
definition MSR_FIXED_CTR0 :: "'a::len word" where "MSR_FIXED_CTR0 = 0x309"
definition MSR_PERFEVTSEL0_pm :: "'a::len word" where "MSR_PERFEVTSEL0_pm = 0x186"
definition MSR_PMC0_pm :: "'a::len word" where "MSR_PMC0_pm = 0xC1"
definition PERFEVTSEL_USR_pm :: "'a::len word" where "PERFEVTSEL_USR_pm = 0x00010000"
definition PERFEVTSEL_OS_pm :: "'a::len word" where "PERFEVTSEL_OS_pm = 0x00020000"
definition PERFEVTSEL_EN_pm :: "'a::len word" where "PERFEVTSEL_EN_pm = 0x00400000"

record perf_counter =
  pc_event :: u32
  pc_umask :: u32
  pc_user_mode :: u8
  pc_kernel_mode :: u8
  pc_enabled :: u8
  pc_count :: u64
  pc_name :: string

record perfmon = msr +
  pm_supported :: u8
  pm_version :: u8
  pm_num_counters :: u8
  pm_counter_width :: u8
  pm_num_fixed_counters :: u8
  pm_fixed_counter_width :: u8
  pm_global_ctrl_supported :: u8
  pm_counters :: "perf_counter list"    \<comment> \<open>8\<close>
  pm_fixed_counters :: "perf_counter list"    \<comment> \<open>3\<close>
  pm_global_ctrl :: u64
  pm_global_status :: u64
  pm_capabilities :: u32

definition perfmon_check_support :: "device \<Rightarrow> 'a perfmon_scheme \<Rightarrow> u8 \<times> 'a perfmon_scheme" where
  "perfmon_check_support D s =
     (let ((eax, ebx, ecx, edx), s) = cpuid D 0xA s
      in (if eax AND 0xFF < 1 then (0, s)
          else (let s = s\<lparr>pm_version := ucast (eax AND 0xFF), pm_num_counters := ucast (drop_bit 8 eax AND 0xFF),
                          pm_counter_width := ucast (drop_bit 16 eax AND 0xFF),
                          pm_num_fixed_counters := ucast (edx AND 0x1F),
                          pm_fixed_counter_width := ucast (drop_bit 5 edx AND 0xFF)\<rparr>
                in (1, s))))"

definition perfmon_init_counters :: "'a perfmon_scheme \<Rightarrow> 'a perfmon_scheme" where
  "perfmon_init_counters s =
     (let s = fold (\<lambda>i s. s\<lparr>pm_counters := (pm_counters s)[i := ((pm_counters s) ! i)\<lparr>pc_event := 0,
                                                            pc_umask := 0, pc_user_mode := 1, pc_kernel_mode := 1,
                                                            pc_enabled := 0, pc_count := 0,
                                                            pc_name := ''Unused''\<rparr>]\<rparr>)
            [0..<min (unat (pm_num_counters s)) 8] s;
          s = (if pm_num_fixed_counters s \<ge> 1
               then s\<lparr>pm_fixed_counters := (pm_fixed_counters s)[0 := ((pm_fixed_counters s) ! 0)\<lparr>pc_name := ''Instructions Retired'', pc_enabled := 0\<rparr>]\<rparr>
               else s);
          s = (if pm_num_fixed_counters s \<ge> 2
               then s\<lparr>pm_fixed_counters := (pm_fixed_counters s)[1 := ((pm_fixed_counters s) ! 1)\<lparr>pc_name := ''CPU Cycles'', pc_enabled := 0\<rparr>]\<rparr>
               else s)
      in (if pm_num_fixed_counters s \<ge> 3
          then s\<lparr>pm_fixed_counters := (pm_fixed_counters s)[2 := ((pm_fixed_counters s) ! 2)\<lparr>pc_name := ''Reference Cycles'', pc_enabled := 0\<rparr>]\<rparr>
          else s))"

definition perfmon_disable_all :: "'a perfmon_scheme \<Rightarrow> 'a perfmon_scheme" where
  "perfmon_disable_all s =
     (if pm_supported s = 0 then s
      else (let s = (if pm_global_ctrl_supported s \<noteq> 0 then
                        (let s = msr_write MSR_PERF_GLOBAL_CTRL_pm 0 s
                         in s\<lparr>pm_global_ctrl := 0\<rparr>)
                     else s);
                s = fold (\<lambda>i s.
                            (let s = msr_write (MSR_PERFEVTSEL0_pm + of_nat i) 0 s
                             in s\<lparr>pm_counters := (pm_counters s)[i := ((pm_counters s) ! i)\<lparr>pc_enabled := 0\<rparr>]\<rparr>))
                  [0..<min (unat (pm_num_counters s)) 8] s;
                s = msr_write MSR_FIXED_CTR_CTRL 0 s
            in fold (\<lambda>i s. s\<lparr>pm_fixed_counters := (pm_fixed_counters s)[i := ((pm_fixed_counters s) ! i)\<lparr>pc_enabled := 0\<rparr>]\<rparr>)
                  [0..<min (unat (pm_num_fixed_counters s)) 3] s))"

definition perfmon_init :: "device \<Rightarrow> 'a perfmon_scheme \<Rightarrow> 'a perfmon_scheme" where
  "perfmon_init D s =
     (if msr_is_supported s = 0 then s
      else (let (v, s) = perfmon_check_support D s;
                s = s\<lparr>pm_supported := v\<rparr>
            in (if pm_supported s = 0 then s
                else (let s = s\<lparr>pm_global_ctrl_supported := c_bool (pm_version s \<ge> 2)\<rparr>;
                          s = (if pm_version s \<ge> 2 then
                                  (let (v2, s) = msr_read D MSR_PERF_CAPABILITIES s
                                   in s\<lparr>pm_capabilities := ucast v2\<rparr>)
                               else s);
                          s = perfmon_init_counters s
                      in perfmon_disable_all s))))"

definition perfmon_setup_counter :: "u8 \<Rightarrow> u32 \<Rightarrow> u32 \<Rightarrow> u8 \<Rightarrow> u8 \<Rightarrow> string \<Rightarrow> 'a perfmon_scheme \<Rightarrow> 'a perfmon_scheme" where
  "perfmon_setup_counter counter event umask user_mode kernel_mode name s =
     (if pm_supported s = 0 \<or> counter \<ge> pm_num_counters s \<or> counter \<ge> 8 then s
      else (let s = s\<lparr>pm_counters := (pm_counters s)[unat counter := ((pm_counters s) ! (unat counter))\<lparr>pc_event := event, pc_umask := umask, pc_user_mode := user_mode, pc_kernel_mode := kernel_mode, pc_name := name, pc_enabled := 0, pc_count := 0\<rparr>]\<rparr>;
                evtsel = (ucast (event OR push_bit 8 umask) :: u64);
                evtsel = (if user_mode \<noteq> 0 then evtsel OR PERFEVTSEL_USR_pm else evtsel);
                evtsel = (if kernel_mode \<noteq> 0 then evtsel OR PERFEVTSEL_OS_pm else evtsel);
                s = msr_write (MSR_PERFEVTSEL0_pm + ucast counter) evtsel s
            in msr_write (MSR_PMC0_pm + ucast counter) 0 s))"

definition perfmon_enable_counter :: "device \<Rightarrow> u8 \<Rightarrow> 'a perfmon_scheme \<Rightarrow> 'a perfmon_scheme" where
  "perfmon_enable_counter D counter s =
     (if pm_supported s = 0 \<or> counter \<ge> pm_num_counters s \<or> counter \<ge> 8 then s
      else (let s = s\<lparr>pm_counters := (pm_counters s)[unat counter := ((pm_counters s) ! (unat counter))\<lparr>pc_enabled := 1\<rparr>]\<rparr>;
                (evtsel, s) = msr_read D (MSR_PERFEVTSEL0_pm + ucast counter) s;
                evtsel = evtsel OR PERFEVTSEL_EN_pm;
                s = msr_write (MSR_PERFEVTSEL0_pm + ucast counter) evtsel s
            in (if pm_global_ctrl_supported s \<noteq> 0 then
                   (let s = s\<lparr>pm_global_ctrl := pm_global_ctrl s OR push_bit (unat counter) (1 :: u64)\<rparr>
                    in msr_write MSR_PERF_GLOBAL_CTRL_pm (pm_global_ctrl s) s)
                else s)))"

definition perfmon_disable_counter :: "device \<Rightarrow> u8 \<Rightarrow> 'a perfmon_scheme \<Rightarrow> 'a perfmon_scheme" where
  "perfmon_disable_counter D counter s =
     (if pm_supported s = 0 \<or> counter \<ge> pm_num_counters s \<or> counter \<ge> 8 then s
      else (let s = s\<lparr>pm_counters := (pm_counters s)[unat counter := ((pm_counters s) ! (unat counter))\<lparr>pc_enabled := 0\<rparr>]\<rparr>;
                (evtsel, s) = msr_read D (MSR_PERFEVTSEL0_pm + ucast counter) s;
                evtsel = evtsel AND NOT PERFEVTSEL_EN_pm;
                s = msr_write (MSR_PERFEVTSEL0_pm + ucast counter) evtsel s
            in (if pm_global_ctrl_supported s \<noteq> 0 then
                   (let s = s\<lparr>pm_global_ctrl := pm_global_ctrl s AND NOT (push_bit (unat counter) (1 :: u64))\<rparr>
                    in msr_write MSR_PERF_GLOBAL_CTRL_pm (pm_global_ctrl s) s)
                else s)))"

definition perfmon_read_counter :: "device \<Rightarrow> u8 \<Rightarrow> 'a perfmon_scheme \<Rightarrow> u64 \<times> 'a perfmon_scheme" where
  "perfmon_read_counter D counter s =
     (if pm_supported s = 0 \<or> counter \<ge> pm_num_counters s \<or> counter \<ge> 8 then (0, s)
      else (let (count, s) = msr_read D (MSR_PMC0_pm + ucast counter) s;
                s = s\<lparr>pm_counters := (pm_counters s)[unat counter := ((pm_counters s) ! (unat counter))\<lparr>pc_count := count\<rparr>]\<rparr>
            in (count, s)))"

definition perfmon_reset_counter :: "u8 \<Rightarrow> 'a perfmon_scheme \<Rightarrow> 'a perfmon_scheme" where
  "perfmon_reset_counter counter s =
     (if pm_supported s = 0 \<or> counter \<ge> pm_num_counters s \<or> counter \<ge> 8 then s
      else (let s = msr_write (MSR_PMC0_pm + ucast counter) 0 s
            in s\<lparr>pm_counters := (pm_counters s)[unat counter := ((pm_counters s) ! (unat counter))\<lparr>pc_count := 0\<rparr>]\<rparr>))"

definition perfmon_enable_fixed_counter :: "device \<Rightarrow> u8 \<Rightarrow> 'a perfmon_scheme \<Rightarrow> 'a perfmon_scheme" where
  "perfmon_enable_fixed_counter D counter s =
     (if pm_supported s = 0 \<or> counter \<ge> pm_num_fixed_counters s \<or> counter \<ge> 3 then s
      else (let s = s\<lparr>pm_fixed_counters := (pm_fixed_counters s)[unat counter := ((pm_fixed_counters s) ! (unat counter))\<lparr>pc_enabled := 1\<rparr>]\<rparr>;
                (fixed_ctrl, s) = msr_read D MSR_FIXED_CTR_CTRL s;
                enable_bits = (0x3 :: u64);
                fixed_ctrl = fixed_ctrl OR push_bit (unat (ucast counter * 4 :: u32)) enable_bits;
                s = msr_write MSR_FIXED_CTR_CTRL fixed_ctrl s
            in (if pm_global_ctrl_supported s \<noteq> 0 then
                   (let s = s\<lparr>pm_global_ctrl := pm_global_ctrl s OR
                    push_bit (unat (32 + ucast counter :: u32)) (1 :: u64)\<rparr>
                    in msr_write MSR_PERF_GLOBAL_CTRL_pm (pm_global_ctrl s) s)
                else s)))"

definition perfmon_disable_fixed_counter :: "device \<Rightarrow> u8 \<Rightarrow> 'a perfmon_scheme \<Rightarrow> 'a perfmon_scheme" where
  "perfmon_disable_fixed_counter D counter s =
     (if pm_supported s = 0 \<or> counter \<ge> pm_num_fixed_counters s \<or> counter \<ge> 3 then s
      else (let s = s\<lparr>pm_fixed_counters := (pm_fixed_counters s)[unat counter := ((pm_fixed_counters s) ! (unat counter))\<lparr>pc_enabled := 0\<rparr>]\<rparr>;
                (fixed_ctrl, s) = msr_read D MSR_FIXED_CTR_CTRL s;
                disable_mask = NOT (push_bit (unat (ucast counter * 4 :: u32)) (0xF :: u64));
                fixed_ctrl = fixed_ctrl AND disable_mask;
                s = msr_write MSR_FIXED_CTR_CTRL fixed_ctrl s
            in (if pm_global_ctrl_supported s \<noteq> 0 then
                   (let s = s\<lparr>pm_global_ctrl := pm_global_ctrl s AND
                    NOT (push_bit (unat (32 + ucast counter :: u32)) (1 :: u64))\<rparr>
                    in msr_write MSR_PERF_GLOBAL_CTRL_pm (pm_global_ctrl s) s)
                else s)))"

definition perfmon_read_fixed_counter :: "device \<Rightarrow> u8 \<Rightarrow> 'a perfmon_scheme \<Rightarrow> u64 \<times> 'a perfmon_scheme" where
  "perfmon_read_fixed_counter D counter s =
     (if pm_supported s = 0 \<or> counter \<ge> pm_num_fixed_counters s \<or> counter \<ge> 3 then (0, s)
      else (let (count, s) = msr_read D (MSR_FIXED_CTR0 + ucast counter) s;
                s = s\<lparr>pm_fixed_counters := (pm_fixed_counters s)[unat counter := ((pm_fixed_counters s) ! (unat counter))\<lparr>pc_count := count\<rparr>]\<rparr>
            in (count, s)))"

definition perfmon_reset_fixed_counter :: "u8 \<Rightarrow> 'a perfmon_scheme \<Rightarrow> 'a perfmon_scheme" where
  "perfmon_reset_fixed_counter counter s =
     (if pm_supported s = 0 \<or> counter \<ge> pm_num_fixed_counters s \<or> counter \<ge> 3 then s
      else (let s = msr_write (MSR_FIXED_CTR0 + ucast counter) 0 s
            in s\<lparr>pm_fixed_counters := (pm_fixed_counters s)[unat counter := ((pm_fixed_counters s) ! (unat counter))\<lparr>pc_count := 0\<rparr>]\<rparr>))"

definition perfmon_enable_all :: "'a perfmon_scheme \<Rightarrow> 'a perfmon_scheme" where
  "perfmon_enable_all s =
     (if pm_supported s = 0 then s
      else if pm_global_ctrl_supported s \<noteq> 0 then
         (let enable_mask = (0 :: u64);
              enable_mask = fold (\<lambda>i enable_mask.
                                    (if pc_enabled (pm_counters s ! i) \<noteq> 0 then enable_mask OR push_bit i (1 :: u64)
                                     else enable_mask))
                [0..<min (unat (pm_num_counters s)) 8] enable_mask;
              enable_mask = fold (\<lambda>i enable_mask.
                                    (if pc_enabled (pm_fixed_counters s ! i) \<noteq> 0 then enable_mask OR
                                     push_bit (32 + i) (1 :: u64)
                                     else enable_mask))
                [0..<min (unat (pm_num_fixed_counters s)) 3] enable_mask;
              s = s\<lparr>pm_global_ctrl := enable_mask\<rparr>
          in msr_write MSR_PERF_GLOBAL_CTRL_pm enable_mask s)
      else s)"

definition perfmon_is_supported :: "'a perfmon_scheme \<Rightarrow> u8" where
  "perfmon_is_supported s = pm_supported s"

definition perfmon_get_version :: "'a perfmon_scheme \<Rightarrow> u8" where
  "perfmon_get_version s = pm_version s"

definition perfmon_get_num_counters :: "'a perfmon_scheme \<Rightarrow> u8" where
  "perfmon_get_num_counters s = pm_num_counters s"

definition perfmon_get_counter_width :: "'a perfmon_scheme \<Rightarrow> u8" where
  "perfmon_get_counter_width s = pm_counter_width s"

definition perfmon_get_num_fixed_counters :: "'a perfmon_scheme \<Rightarrow> u8" where
  "perfmon_get_num_fixed_counters s = pm_num_fixed_counters s"

definition perfmon_get_counter_name :: "u8 \<Rightarrow> 'a perfmon_scheme \<Rightarrow> string" where
  "perfmon_get_counter_name counter s =
     (if counter \<ge> pm_num_counters s \<or> counter \<ge> 8 then ''Invalid''
      else pc_name (pm_counters s ! (unat counter)))"

definition perfmon_get_fixed_counter_name :: "u8 \<Rightarrow> 'a perfmon_scheme \<Rightarrow> string" where
  "perfmon_get_fixed_counter_name counter s =
     (if counter \<ge> pm_num_fixed_counters s \<or> counter \<ge> 3 then ''Invalid''
      else pc_name (pm_fixed_counters s ! (unat counter)))"

definition perfmon_is_counter_enabled :: "u8 \<Rightarrow> 'a perfmon_scheme \<Rightarrow> u8" where
  "perfmon_is_counter_enabled counter s =
     (if counter \<ge> pm_num_counters s \<or> counter \<ge> 8 then 0
      else pc_enabled (pm_counters s ! (unat counter)))"

definition perfmon_is_fixed_counter_enabled :: "u8 \<Rightarrow> 'a perfmon_scheme \<Rightarrow> u8" where
  "perfmon_is_fixed_counter_enabled counter s =
     (if counter \<ge> pm_num_fixed_counters s \<or> counter \<ge> 3 then 0
      else pc_enabled (pm_fixed_counters s ! (unat counter)))"

section \<open>Enabling\<close>

lemma bit_fold_or:
  fixes m :: "'w::len word"
  shows "bit (fold (\<lambda>i m. if P i then m OR push_bit (f i) 1 else m) xs m) n \<longleftrightarrow>
    bit m n \<or> (n < LENGTH('w) \<and> (\<exists>i \<in> set xs. P i \<and> f i = n))"
  by (induction xs arbitrary: m) (auto simp: bit_simps dest: bit_imp_le_length)

text \<open>\<open>perfmon_enable_all\<close> turns on exactly the counters marked as enabled: bit \<open>i\<close> of the global control register for
  a programmable counter, bit \<open>32 + i\<close> for a fixed one.\<close>

lemma perfmon_enable_all_exact:
  assumes "pm_supported s \<noteq> 0" "pm_global_ctrl_supported s \<noteq> 0" "msr_supported s \<noteq> 0"
  shows "\<exists>v. perfmon_enable_all s = s\<lparr>pm_global_ctrl := v, trace := trace s @ [Wr (Msr MSR_PERF_GLOBAL_CTRL_pm) v]\<rparr> \<and>
    (\<forall>n. bit v n \<longleftrightarrow> (\<exists>i < min (unat (pm_num_counters s)) 8. pc_enabled (pm_counters s ! i) \<noteq> 0 \<and> n = i) \<or>
      (\<exists>i < min (unat (pm_num_fixed_counters s)) 3. pc_enabled (pm_fixed_counters s ! i) \<noteq> 0 \<and> n = 32 + i))"
proof -
  let ?a = "fold (\<lambda>i m. if pc_enabled (pm_counters s ! i) \<noteq> 0 then m OR push_bit i 1 else m)
    [0..<min (unat (pm_num_counters s)) 8] (0 :: u64)"
  let ?v = "fold (\<lambda>i m. if pc_enabled (pm_fixed_counters s ! i) \<noteq> 0 then m OR push_bit (32 + i) 1 else m)
    [0..<min (unat (pm_num_fixed_counters s)) 3] ?a"
  have "perfmon_enable_all s = s\<lparr>pm_global_ctrl := ?v, trace := trace s @ [Wr (Msr MSR_PERF_GLOBAL_CTRL_pm) ?v]\<rparr>"
    using assms unfolding perfmon_enable_all_def Let_def by (simp add: msr_on del: push_bit_of_1)
  moreover have "bit ?v n \<longleftrightarrow> (\<exists>i < min (unat (pm_num_counters s)) 8. pc_enabled (pm_counters s ! i) \<noteq> 0 \<and> n = i) \<or>
      (\<exists>i < min (unat (pm_num_fixed_counters s)) 3. pc_enabled (pm_fixed_counters s ! i) \<noteq> 0 \<and> n = 32 + i)" for n
    unfolding bit_fold_or by auto
  ultimately show ?thesis by blast
qed

definition perfmon0 :: perfmon where
  "perfmon0 = \<lparr>trace = [], pit_ticks = 0, pit_frequency = 0, pit_loops_per_10ms = 0, system_ticks = 0, msr_supported = 1,
     pm_supported = 1, pm_version = 2, pm_num_counters = 2, pm_counter_width = 48, pm_num_fixed_counters = 1,
     pm_fixed_counter_width = 48, pm_global_ctrl_supported = 1,
     pm_counters = replicate 8 \<lparr>pc_event = 0, pc_umask = 0, pc_user_mode = 1, pc_kernel_mode = 1, pc_enabled = 1, pc_count = 0,
       pc_name = []\<rparr>,
     pm_fixed_counters = replicate 3 \<lparr>pc_event = 0, pc_umask = 0, pc_user_mode = 1, pc_kernel_mode = 1, pc_enabled = 1,
       pc_count = 0, pc_name = []\<rparr>,
     pm_global_ctrl = 0, pm_global_status = 0, pm_capabilities = 0\<rparr>"

lemma without_pm_supported:
  assumes "pm_supported s = 0"
  shows "perfmon_setup_counter counter event umask user_mode kernel_mode name s = s"
    "perfmon_enable_counter D counter s = s" "perfmon_disable_counter D counter s = s"
    "perfmon_read_counter D counter s = (0, s)" "perfmon_reset_counter counter s = s"
    "perfmon_enable_fixed_counter D counter s = s" "perfmon_disable_fixed_counter D counter s = s"
    "perfmon_read_fixed_counter D counter s = (0, s)" "perfmon_reset_fixed_counter counter s = s"
    "perfmon_enable_all s = s" "perfmon_disable_all s = s"
  using assms by (simp_all add: perfmon_setup_counter_def perfmon_enable_counter_def perfmon_disable_counter_def
      perfmon_read_counter_def perfmon_reset_counter_def perfmon_enable_fixed_counter_def
      perfmon_disable_fixed_counter_def perfmon_read_fixed_counter_def perfmon_reset_fixed_counter_def
      perfmon_enable_all_def perfmon_disable_all_def)

end
