(* ===== verification/Pmu_Ext.thy ===== *)
theory Pmu_Ext
  imports Msr_Regs
begin

text \<open>
  \<open>src/drivers/pmu_ext.c\<close>: performance counters and the branch records. The fields of \<open>pmu_ext_info_t\<close> carry the
  prefix \<open>pe_\<close>. No file defines \<open>msr_write_debugctl\<close>.
\<close>

definition MSR_PERF_GLOBAL_STATUS :: "'a::len word" where "MSR_PERF_GLOBAL_STATUS = 0x38E"
definition MSR_PERF_GLOBAL_CTRL_pe :: "'a::len word" where "MSR_PERF_GLOBAL_CTRL_pe = 0x38F"
definition MSR_PERF_GLOBAL_OVF_CTRL :: "'a::len word" where "MSR_PERF_GLOBAL_OVF_CTRL = 0x390"
definition MSR_PERF_FIXED_CTR0 :: "'a::len word" where "MSR_PERF_FIXED_CTR0 = 0x309"
definition MSR_PERF_FIXED_CTR_CTRL :: "'a::len word" where "MSR_PERF_FIXED_CTR_CTRL = 0x38D"
definition MSR_PERFEVTSEL0_pe :: "'a::len word" where "MSR_PERFEVTSEL0_pe = 0x186"
definition MSR_PMC0_pe :: "'a::len word" where "MSR_PMC0_pe = 0xC1"
definition MSR_LBR_SELECT :: "'a::len word" where "MSR_LBR_SELECT = 0x1C8"
definition MSR_LBR_TOS :: "'a::len word" where "MSR_LBR_TOS = 0x1C9"
definition MSR_LASTBRANCH_0_FROM_IP :: "'a::len word" where "MSR_LASTBRANCH_0_FROM_IP = 0x680"
definition MSR_LASTBRANCH_0_TO_IP :: "'a::len word" where "MSR_LASTBRANCH_0_TO_IP = 0x6C0"
definition PERFEVTSEL_USR :: "'a::len word" where "PERFEVTSEL_USR = push_bit 16 1"
definition PERFEVTSEL_OS :: "'a::len word" where "PERFEVTSEL_OS = push_bit 17 1"
definition PERFEVTSEL_EN :: "'a::len word" where "PERFEVTSEL_EN = push_bit 22 1"

record pmu_counter =
  pc_event :: u32
  pc_umask :: u32
  pc_user_mode :: u8
  pc_kernel_mode :: u8
  pc_edge_detect :: u8
  pc_pin_control :: u8
  pc_interrupt_enable :: u8
  pc_any_thread :: u8
  pc_invert :: u8
  pc_counter_mask :: u8
  pc_count :: u64
  pc_sample_period :: u64
  pc_overflow_count :: u32

record lbr_entry =
  le_from_ip :: u64
  le_to_ip :: u64
  le_info :: u64

record pmu_ext = msr +
  pe_pmu_ext_supported :: u8
  pe_version :: u8
  pe_num_gp_counters :: u8
  pe_gp_counter_width :: u8
  pe_num_fixed_counters :: u8
  pe_fixed_counter_width :: u8
  pe_pebs_supported :: u8
  pe_lbr_supported :: u8
  pe_freeze_on_pmi :: u8
  pe_freeze_on_overflow :: u8
  pe_gp_counters :: "pmu_counter list"    \<comment> \<open>8\<close>
  pe_fixed_counters :: "pmu_counter list"    \<comment> \<open>3\<close>
  pe_lbr_depth :: u8
  pe_lbr_stack :: "lbr_entry list"    \<comment> \<open>32\<close>
  pe_lbr_tos :: u8
  pe_global_status :: u64
  pe_global_ctrl :: u64
  pe_pmi_count :: u32
  pe_overflow_count :: u32

definition pmu_ext_detect_capabilities :: "device \<Rightarrow> 'a pmu_ext_scheme \<Rightarrow> 'a pmu_ext_scheme" where
  "pmu_ext_detect_capabilities D s =
     (let ((eax, ebx, ecx, edx), s) = cpuid D 0xA s;
          s = s\<lparr>pe_version := ucast (eax AND 0xFF), pe_num_gp_counters := ucast (drop_bit 8 eax AND 0xFF),
                pe_gp_counter_width := ucast (drop_bit 16 eax AND 0xFF), pe_num_fixed_counters := ucast (edx AND 0x1F),
                pe_fixed_counter_width := ucast (drop_bit 5 edx AND 0xFF)\<rparr>;
          s = (if pe_version s \<ge> 1 then s\<lparr>pe_pmu_ext_supported := 1\<rparr> else s);
          s = (if pe_num_gp_counters s > 8 then s\<lparr>pe_num_gp_counters := 8\<rparr> else s);
          s = (if pe_num_fixed_counters s > 3 then s\<lparr>pe_num_fixed_counters := 3\<rparr> else s);
          ((eax, ebx, ecx, edx), s) = cpuid_sub D 7 0 s;
          s = s\<lparr>pe_pebs_supported := c_bool (ebx AND push_bit 4 1 \<noteq> 0)\<rparr>;
          ((eax, ebx, ecx, edx), s) = cpuid D 1 s;
          s = s\<lparr>pe_lbr_supported := c_bool (edx AND push_bit 21 1 \<noteq> 0)\<rparr>
      in (if pe_lbr_supported s \<noteq> 0 then s\<lparr>pe_lbr_depth := 16\<rparr> else s))"

definition pmu_ext_init :: "device \<Rightarrow> 'a pmu_ext_scheme \<Rightarrow> 'a pmu_ext_scheme" where
  "pmu_ext_init D s =
     (let s = s\<lparr>pe_pmu_ext_supported := 0, pe_version := 0, pe_num_gp_counters := 0, pe_gp_counter_width := 0,
                pe_num_fixed_counters := 0, pe_fixed_counter_width := 0, pe_pebs_supported := 0, pe_lbr_supported := 0,
                pe_freeze_on_pmi := 0, pe_freeze_on_overflow := 0, pe_lbr_depth := 0, pe_lbr_tos := 0,
                pe_global_status := 0, pe_global_ctrl := 0, pe_pmi_count := 0, pe_overflow_count := 0\<rparr>;
          s = fold (\<lambda>i s. s\<lparr>pe_gp_counters := (pe_gp_counters s)[i := ((pe_gp_counters s) ! i)\<lparr>pc_event := 0, pc_count := 0, pc_overflow_count := 0\<rparr>]\<rparr>)
            [0..<8] s;
          s = fold (\<lambda>i s. s\<lparr>pe_fixed_counters := (pe_fixed_counters s)[i := ((pe_fixed_counters s) ! i)\<lparr>pc_event := 0, pc_count := 0, pc_overflow_count := 0\<rparr>]\<rparr>)
            [0..<3] s;
          s = pmu_ext_detect_capabilities D s
      in (if pe_pmu_ext_supported s \<noteq> 0 \<and> msr_is_supported s \<noteq> 0 then
             (let s = msr_write MSR_PERF_GLOBAL_CTRL_pe 0 s
              in msr_write MSR_PERF_GLOBAL_OVF_CTRL 0 s)
          else s))"

definition pmu_ext_is_supported :: "'a pmu_ext_scheme \<Rightarrow> u8" where
  "pmu_ext_is_supported s = pe_pmu_ext_supported s"

definition pmu_ext_get_version :: "'a pmu_ext_scheme \<Rightarrow> u8" where
  "pmu_ext_get_version s = pe_version s"

definition pmu_ext_get_num_gp_counters :: "'a pmu_ext_scheme \<Rightarrow> u8" where
  "pmu_ext_get_num_gp_counters s = pe_num_gp_counters s"

definition pmu_ext_get_num_fixed_counters :: "'a pmu_ext_scheme \<Rightarrow> u8" where
  "pmu_ext_get_num_fixed_counters s = pe_num_fixed_counters s"

definition pmu_ext_is_pebs_supported :: "'a pmu_ext_scheme \<Rightarrow> u8" where
  "pmu_ext_is_pebs_supported s = pe_pebs_supported s"

definition pmu_ext_is_lbr_supported :: "'a pmu_ext_scheme \<Rightarrow> u8" where
  "pmu_ext_is_lbr_supported s = pe_lbr_supported s"

definition pmu_ext_setup_gp_counter :: "u8 \<Rightarrow> u32 \<Rightarrow> u32 \<Rightarrow> u8 \<Rightarrow> u8 \<Rightarrow> 'a pmu_ext_scheme \<Rightarrow> u8 \<times> 'a pmu_ext_scheme" where
  "pmu_ext_setup_gp_counter index event umask user kernel' s =
     (if pe_pmu_ext_supported s = 0 \<or> msr_is_supported s = 0 then (0, s)
      else if index \<ge> pe_num_gp_counters s then (0, s)
      else (let s = s\<lparr>pe_gp_counters := (pe_gp_counters s)[unat index := ((pe_gp_counters s) ! (unat index))\<lparr>pc_event := event, pc_umask := umask, pc_user_mode := user, pc_kernel_mode := kernel', pc_edge_detect := 0, pc_pin_control := 0, pc_interrupt_enable := 0, pc_any_thread := 0, pc_invert := 0, pc_counter_mask := 0, pc_count := 0, pc_overflow_count := 0\<rparr>]\<rparr>;
                evtsel = (ucast (event OR push_bit 8 umask) :: u64);
                evtsel = (if user \<noteq> 0 then evtsel OR PERFEVTSEL_USR else evtsel);
                evtsel = (if kernel' \<noteq> 0 then evtsel OR PERFEVTSEL_OS else evtsel);
                evtsel = evtsel OR PERFEVTSEL_EN;
                s = msr_write (MSR_PERFEVTSEL0_pe + ucast index) evtsel s;
                s = msr_write (MSR_PMC0_pe + ucast index) 0 s
            in (1, s)))"

definition pmu_ext_enable_counter :: "device \<Rightarrow> u8 \<Rightarrow> 'a pmu_ext_scheme \<Rightarrow> u8 \<times> 'a pmu_ext_scheme" where
  "pmu_ext_enable_counter D index s =
     (if pe_pmu_ext_supported s = 0 \<or> msr_is_supported s = 0 then (0, s)
      else if index \<ge> pe_num_gp_counters s then (0, s)
      else (let (global_ctrl, s) = msr_read D MSR_PERF_GLOBAL_CTRL_pe s;
                global_ctrl = global_ctrl OR push_bit (unat index) (1 :: u64);
                s = msr_write MSR_PERF_GLOBAL_CTRL_pe global_ctrl s;
                s = s\<lparr>pe_global_ctrl := global_ctrl\<rparr>
            in (1, s)))"

definition pmu_ext_disable_counter :: "device \<Rightarrow> u8 \<Rightarrow> 'a pmu_ext_scheme \<Rightarrow> u8 \<times> 'a pmu_ext_scheme" where
  "pmu_ext_disable_counter D index s =
     (if pe_pmu_ext_supported s = 0 \<or> msr_is_supported s = 0 then (0, s)
      else if index \<ge> pe_num_gp_counters s then (0, s)
      else (let (global_ctrl, s) = msr_read D MSR_PERF_GLOBAL_CTRL_pe s;
                global_ctrl = global_ctrl AND NOT (push_bit (unat index) (1 :: u64));
                s = msr_write MSR_PERF_GLOBAL_CTRL_pe global_ctrl s;
                s = s\<lparr>pe_global_ctrl := global_ctrl\<rparr>
            in (1, s)))"

definition pmu_ext_read_counter :: "device \<Rightarrow> u8 \<Rightarrow> 'a pmu_ext_scheme \<Rightarrow> u64 \<times> 'a pmu_ext_scheme" where
  "pmu_ext_read_counter D index s =
     (if pe_pmu_ext_supported s = 0 \<or> msr_is_supported s = 0 then (0, s)
      else if index \<ge> pe_num_gp_counters s then (0, s)
      else (let (count, s) = msr_read D (MSR_PMC0_pe + ucast index) s;
                s = s\<lparr>pe_gp_counters := (pe_gp_counters s)[unat index := ((pe_gp_counters s) ! (unat index))\<lparr>pc_count := count\<rparr>]\<rparr>
            in (count, s)))"

definition pmu_ext_reset_counter :: "u8 \<Rightarrow> 'a pmu_ext_scheme \<Rightarrow> 'a pmu_ext_scheme" where
  "pmu_ext_reset_counter index s =
     (if pe_pmu_ext_supported s = 0 \<or> msr_is_supported s = 0 then s
      else if index \<ge> pe_num_gp_counters s then s
      else (let s = msr_write (MSR_PMC0_pe + ucast index) 0 s
            in s\<lparr>pe_gp_counters := (pe_gp_counters s)[unat index := ((pe_gp_counters s) ! (unat index))\<lparr>pc_count := 0, pc_overflow_count := 0\<rparr>]\<rparr>))"

definition pmu_ext_setup_fixed_counter :: "device \<Rightarrow> u8 \<Rightarrow> u8 \<Rightarrow> u8 \<Rightarrow> u8 \<Rightarrow> 'a pmu_ext_scheme \<Rightarrow> u8 \<times> 'a pmu_ext_scheme" where
  "pmu_ext_setup_fixed_counter D index user kernel' enable_pmi s =
     (if pe_pmu_ext_supported s = 0 \<or> msr_is_supported s = 0 then (0, s)
      else if index \<ge> pe_num_fixed_counters s then (0, s)
      else (let (fixed_ctrl, s) = msr_read D MSR_PERF_FIXED_CTR_CTRL s;
                shift = (ucast index * 4 :: u32);
                fixed_ctrl = fixed_ctrl AND scast (NOT (push_bit (unat shift) (0xF :: u32)));
                fixed_ctrl = (if kernel' \<noteq> 0 then fixed_ctrl OR scast (push_bit (unat shift) (1 :: u32))
                              else fixed_ctrl);
                fixed_ctrl = (if user \<noteq> 0 then fixed_ctrl OR scast (push_bit (unat shift) (2 :: u32)) else fixed_ctrl);
                fixed_ctrl = (if enable_pmi \<noteq> 0 then fixed_ctrl OR scast (push_bit (unat shift) (8 :: u32))
                              else fixed_ctrl);
                s = msr_write MSR_PERF_FIXED_CTR_CTRL fixed_ctrl s;
                (global_ctrl, s) = msr_read D MSR_PERF_GLOBAL_CTRL_pe s;
                global_ctrl = global_ctrl OR push_bit (unat (32 + ucast index :: u32)) (1 :: u64);
                s = msr_write MSR_PERF_GLOBAL_CTRL_pe global_ctrl s;
                s = s\<lparr>pe_global_ctrl := global_ctrl\<rparr>
            in (1, s)))"

definition pmu_ext_read_fixed_counter :: "device \<Rightarrow> u8 \<Rightarrow> 'a pmu_ext_scheme \<Rightarrow> u64 \<times> 'a pmu_ext_scheme" where
  "pmu_ext_read_fixed_counter D index s =
     (if pe_pmu_ext_supported s = 0 \<or> msr_is_supported s = 0 then (0, s)
      else if index \<ge> pe_num_fixed_counters s then (0, s)
      else (let (count, s) = msr_read D (MSR_PERF_FIXED_CTR0 + ucast index) s;
                s = s\<lparr>pe_fixed_counters := (pe_fixed_counters s)[unat index := ((pe_fixed_counters s) ! (unat index))\<lparr>pc_count := count\<rparr>]\<rparr>
            in (count, s)))"

definition pmu_ext_enable_lbr :: "device \<Rightarrow> 'a pmu_ext_scheme \<Rightarrow> 'a pmu_ext_scheme" where
  "pmu_ext_enable_lbr D s =
     (if pe_lbr_supported s = 0 \<or> msr_is_supported s = 0 then s
      else (let s = msr_write MSR_LBR_SELECT 0 s;
                debugctl = (0 :: u64);
                debugctl = debugctl OR push_bit 0 1;
                debugctl = debugctl OR push_bit 6 1
            in call_ext ''msr_write_debugctl'' [debugctl] s))"

definition pmu_ext_disable_lbr :: "device \<Rightarrow> 'a pmu_ext_scheme \<Rightarrow> 'a pmu_ext_scheme" where
  "pmu_ext_disable_lbr D s =
     (if pe_lbr_supported s = 0 \<or> msr_is_supported s = 0 then s
      else call_ext ''msr_write_debugctl'' [0] s)"

definition pmu_ext_read_lbr_stack :: "device \<Rightarrow> 'a pmu_ext_scheme \<Rightarrow> 'a pmu_ext_scheme" where
  "pmu_ext_read_lbr_stack D s =
     (if pe_lbr_supported s = 0 \<or> msr_is_supported s = 0 then s
      else (let (v, s) = msr_read D MSR_LBR_TOS s;
                s = s\<lparr>pe_lbr_tos := ucast (v AND 0xF)\<rparr>
            in fold (\<lambda>i s.
                       (let (v2, s) = msr_read D (MSR_LASTBRANCH_0_FROM_IP + of_nat i) s;
                            s = s\<lparr>pe_lbr_stack := (pe_lbr_stack s)[i := ((pe_lbr_stack s) ! i)\<lparr>le_from_ip := v2\<rparr>]\<rparr>;
                            (v3, s) = msr_read D (MSR_LASTBRANCH_0_TO_IP + of_nat i) s
                        in s\<lparr>pe_lbr_stack := (pe_lbr_stack s)[i := ((pe_lbr_stack s) ! i)\<lparr>le_to_ip := v3,
                                                            le_info := 0\<rparr>]\<rparr>))
                  [0..<min (unat (pe_lbr_depth s)) 32] s))"

definition pmu_ext_get_lbr_entry :: "u8 \<Rightarrow> 'a pmu_ext_scheme \<Rightarrow> lbr_entry option" where
  "pmu_ext_get_lbr_entry index s =
     (if index \<ge> pe_lbr_depth s \<or> index \<ge> 32 then None
      else Some (pe_lbr_stack s ! (unat index)))"

definition pmu_ext_get_lbr_tos :: "'a pmu_ext_scheme \<Rightarrow> u8" where
  "pmu_ext_get_lbr_tos s = pe_lbr_tos s"

definition pmu_ext_get_lbr_depth :: "'a pmu_ext_scheme \<Rightarrow> u8" where
  "pmu_ext_get_lbr_depth s = pe_lbr_depth s"

definition pmu_ext_handle_pmi :: "device \<Rightarrow> 'a pmu_ext_scheme \<Rightarrow> 'a pmu_ext_scheme" where
  "pmu_ext_handle_pmi D s =
     (if pe_pmu_ext_supported s = 0 \<or> msr_is_supported s = 0 then s
      else (let s = s\<lparr>pe_pmi_count := pe_pmi_count s + 1\<rparr>;
                (global_status, s) = msr_read D MSR_PERF_GLOBAL_STATUS s;
                s = s\<lparr>pe_global_status := global_status\<rparr>;
                s = fold (\<lambda>i s.
                            (if global_status AND push_bit i (1 :: u64) \<noteq> 0 then
                                (let s = s\<lparr>pe_gp_counters := (pe_gp_counters s)[i := ((pe_gp_counters s) ! i)\<lparr>pc_overflow_count := (pc_overflow_count (pe_gp_counters s ! i)) + 1\<rparr>]\<rparr>
                                 in s\<lparr>pe_overflow_count := pe_overflow_count s + 1\<rparr>)
                             else s))
                  [0..<unat (pe_num_gp_counters s)] s;
                s = fold (\<lambda>i s.
                            (if global_status AND push_bit (32 + i) (1 :: u64) \<noteq> 0 then
                                (let s = s\<lparr>pe_fixed_counters := (pe_fixed_counters s)[i := ((pe_fixed_counters s) ! i)\<lparr>pc_overflow_count := (pc_overflow_count (pe_fixed_counters s ! i)) + 1\<rparr>]\<rparr>
                                 in s\<lparr>pe_overflow_count := pe_overflow_count s + 1\<rparr>)
                             else s))
                  [0..<unat (pe_num_fixed_counters s)] s
            in msr_write MSR_PERF_GLOBAL_OVF_CTRL global_status s))"

definition pmu_ext_get_pmi_count :: "'a pmu_ext_scheme \<Rightarrow> u32" where
  "pmu_ext_get_pmi_count s = pe_pmi_count s"

definition pmu_ext_get_overflow_count :: "'a pmu_ext_scheme \<Rightarrow> u32" where
  "pmu_ext_get_overflow_count s = pe_overflow_count s"

definition pmu_ext_get_global_status :: "device \<Rightarrow> 'a pmu_ext_scheme \<Rightarrow> u64 \<times> 'a pmu_ext_scheme" where
  "pmu_ext_get_global_status D s =
     (if pe_pmu_ext_supported s = 0 \<or> msr_is_supported s = 0 then (0, s)
      else (let (v, s) = msr_read D MSR_PERF_GLOBAL_STATUS s;
                s = s\<lparr>pe_global_status := v\<rparr>
            in (pe_global_status s, s)))"

definition pmu_ext_get_gp_counter_info :: "u8 \<Rightarrow> 'a pmu_ext_scheme \<Rightarrow> pmu_counter option" where
  "pmu_ext_get_gp_counter_info index s =
     (if index \<ge> pe_num_gp_counters s then None
      else Some (pe_gp_counters s ! (unat index)))"

definition pmu_ext_get_fixed_counter_info :: "u8 \<Rightarrow> 'a pmu_ext_scheme \<Rightarrow> pmu_counter option" where
  "pmu_ext_get_fixed_counter_info index s =
     (if index \<ge> pe_num_fixed_counters s then None
      else Some (pe_fixed_counters s ! (unat index)))"

section \<open>Bounds and overflow\<close>

lemma without_pe_pmu_ext_supported:
  assumes "pe_pmu_ext_supported s = 0"
  shows "pmu_ext_setup_gp_counter index event umask user kernel' s = (0, s)" "pmu_ext_enable_counter D index s = (0, s)"
    "pmu_ext_disable_counter D index s = (0, s)" "pmu_ext_read_counter D index s = (0, s)"
    "pmu_ext_reset_counter index s = s" "pmu_ext_setup_fixed_counter D index user kernel' enable_pmi s = (0, s)"
    "pmu_ext_read_fixed_counter D index s = (0, s)" "pmu_ext_handle_pmi D s = s" "pmu_ext_get_global_status D s = (0, s)"
  using assms by (simp_all add: pmu_ext_setup_gp_counter_def pmu_ext_enable_counter_def pmu_ext_disable_counter_def
      pmu_ext_read_counter_def pmu_ext_reset_counter_def pmu_ext_setup_fixed_counter_def pmu_ext_read_fixed_counter_def
      pmu_ext_handle_pmi_def pmu_ext_get_global_status_def)

lemma without_pe_lbr_supported:
  assumes "pe_lbr_supported s = 0"
  shows "pmu_ext_enable_lbr D s = s" "pmu_ext_disable_lbr D s = s" "pmu_ext_read_lbr_stack D s = s"
  using assms by (simp_all add: pmu_ext_enable_lbr_def pmu_ext_disable_lbr_def pmu_ext_read_lbr_stack_def)

text \<open>Enabling a counter and disabling it again restores every other bit of the control register and clears its own.\<close>

lemma pmu_ext_enable_disable:
  assumes "msr_supported s \<noteq> 0" "pe_pmu_ext_supported s \<noteq> 0" "k < pe_num_gp_counters s" "is_reg D (Msr MSR_PERF_GLOBAL_CTRL_pe)"
  shows "pe_global_ctrl (snd (pmu_ext_disable_counter D k (snd (pmu_ext_enable_counter D k s)))) =
    D (trace s) (Msr MSR_PERF_GLOBAL_CTRL_pe) AND NOT (push_bit (unat k) 1)"
proof -
  have h: "(pe_num_gp_counters s \<le> k) = False" using assms(3) by auto
  have c: "(x OR m) AND NOT m = x AND NOT m" for x m :: u64 by (rule bit_word_eqI) (auto simp: bit_simps)
  show ?thesis
    using assms h unfolding pmu_ext_enable_counter_def pmu_ext_disable_counter_def
    by (simp add: msr_is_supported_def msr_on Let_def is_reg_append c)
qed

end
