(* ===== verification/Exception_Mgmt.thy ===== *)
theory Exception_Mgmt
  imports Msr_Regs History_Ring
begin

text \<open>
  \<open>src/drivers/exception_mgmt.c\<close>: the log of exceptions and the attempts to recover from them. The fields of
  \<open>exception_mgmt_info_t\<close> carry the prefix \<open>em_\<close>. A pointer parameter that is read and written is passed and returned.
  \<open>timer_get_ticks\<close> and \<open>cpu_get_current_id\<close>, which no file defines, are answered by the environment.
\<close>

definition EXCEPTION_DIVIDE_ERROR :: "'a::len word" where "EXCEPTION_DIVIDE_ERROR = 0"
definition EXCEPTION_DEBUG :: "'a::len word" where "EXCEPTION_DEBUG = 1"
definition EXCEPTION_NMI :: "'a::len word" where "EXCEPTION_NMI = 2"
definition EXCEPTION_BREAKPOINT :: "'a::len word" where "EXCEPTION_BREAKPOINT = 3"
definition EXCEPTION_OVERFLOW :: "'a::len word" where "EXCEPTION_OVERFLOW = 4"
definition EXCEPTION_BOUND_RANGE :: "'a::len word" where "EXCEPTION_BOUND_RANGE = 5"
definition EXCEPTION_INVALID_OPCODE :: "'a::len word" where "EXCEPTION_INVALID_OPCODE = 6"
definition EXCEPTION_DEVICE_NOT_AVAILABLE :: "'a::len word" where "EXCEPTION_DEVICE_NOT_AVAILABLE = 7"
definition EXCEPTION_DOUBLE_FAULT :: "'a::len word" where "EXCEPTION_DOUBLE_FAULT = 8"
definition EXCEPTION_INVALID_TSS :: "'a::len word" where "EXCEPTION_INVALID_TSS = 10"
definition EXCEPTION_SEGMENT_NOT_PRESENT :: "'a::len word" where "EXCEPTION_SEGMENT_NOT_PRESENT = 11"
definition EXCEPTION_STACK_FAULT :: "'a::len word" where "EXCEPTION_STACK_FAULT = 12"
definition EXCEPTION_GENERAL_PROTECTION :: "'a::len word" where "EXCEPTION_GENERAL_PROTECTION = 13"
definition EXCEPTION_PAGE_FAULT :: "'a::len word" where "EXCEPTION_PAGE_FAULT = 14"
definition EXCEPTION_X87_FPU_ERROR :: "'a::len word" where "EXCEPTION_X87_FPU_ERROR = 16"
definition EXCEPTION_ALIGNMENT_CHECK :: "'a::len word" where "EXCEPTION_ALIGNMENT_CHECK = 17"
definition EXCEPTION_MACHINE_CHECK :: "'a::len word" where "EXCEPTION_MACHINE_CHECK = 18"
definition EXCEPTION_SIMD_FP_EXCEPTION :: "'a::len word" where "EXCEPTION_SIMD_FP_EXCEPTION = 19"
definition EXCEPTION_VIRTUALIZATION :: "'a::len word" where "EXCEPTION_VIRTUALIZATION = 20"
definition EXCEPTION_CONTROL_PROTECTION :: "'a::len word" where "EXCEPTION_CONTROL_PROTECTION = 21"
definition PF_PRESENT :: "'a::len word" where "PF_PRESENT = push_bit 0 1"
definition PF_WRITE :: "'a::len word" where "PF_WRITE = push_bit 1 1"
definition EXCEPTION_MODE_IGNORE :: "'a::len word" where "EXCEPTION_MODE_IGNORE = 0"
definition EXCEPTION_MODE_LOG :: "'a::len word" where "EXCEPTION_MODE_LOG = 1"
definition EXCEPTION_MODE_RECOVER :: "'a::len word" where "EXCEPTION_MODE_RECOVER = 2"
definition EXCEPTION_MODE_PANIC :: "'a::len word" where "EXCEPTION_MODE_PANIC = 3"

record exception_record =
  er_vector :: u32
  er_error_code :: u64
  er_fault_address :: u64
  er_instruction_pointer :: u64
  er_stack_pointer :: u64
  er_flags :: u64
  er_cpu_id :: u32
  er_timestamp :: u64
  er_recoverable :: u8
  er_handled :: u8

record exception_stats =
  es_vector :: u32
  es_count :: u32
  es_mode :: u8
  es_enabled :: u8
  es_last_timestamp :: u64
  es_total_recovery_time :: u64

record exception_mgmt = msr +
  em_exception_mgmt_supported :: u8
  em_fault_injection_enabled :: u8
  em_recovery_enabled :: u8
  em_logging_enabled :: u8
  em_total_exceptions :: u32
  em_recovered_exceptions :: u32
  em_unhandled_exceptions :: u32
  em_stats :: "exception_stats list"    \<comment> \<open>32\<close>
  em_records :: "exception_record list"    \<comment> \<open>256\<close>
  em_record_index :: u32
  em_last_double_fault :: u64
  em_last_machine_check :: u64
  em_nested_exception_count :: u32

definition exception_mgmt_log_exception :: "device \<Rightarrow> u32 \<Rightarrow> u64 \<Rightarrow> u64 \<Rightarrow> u64 \<Rightarrow> u64 \<Rightarrow> u64 \<Rightarrow> 'a exception_mgmt_scheme \<Rightarrow> 'a exception_mgmt_scheme" where
  "exception_mgmt_log_exception D vector error_code fault_address rip rsp rflags s =
     (if em_logging_enabled s = 0 then s
      else (let k = unat (em_record_index s);
                s = s\<lparr>em_records := (em_records s)[k := ((em_records s) ! k)\<lparr>er_vector := vector,
                                                            er_error_code := error_code, er_fault_address := fault_address,
                                                            er_instruction_pointer := rip, er_stack_pointer := rsp,
                                                            er_flags := rflags\<rparr>]\<rparr>;
                (v, s) = ask_ext D ''cpu_get_current_id'' [] s;
                s = s\<lparr>em_records := (em_records s)[k := ((em_records s) ! k)\<lparr>er_cpu_id := v\<rparr>]\<rparr>;
                (v2, s) = ask_ext D ''timer_get_ticks'' [] s;
                s = s\<lparr>em_records := (em_records s)[k := ((em_records s) ! k)\<lparr>er_timestamp := v2,
                                                            er_recoverable := 0, er_handled := 0\<rparr>]\<rparr>;
                s = s\<lparr>em_record_index := (em_record_index s + 1) mod 256,
                      em_total_exceptions := em_total_exceptions s + 1\<rparr>
            in (if vector < 32 then s\<lparr>em_stats := (em_stats s)[unat vector := ((em_stats s) ! (unat vector))\<lparr>es_count := (es_count (em_stats s ! (unat vector))) + 1, es_last_timestamp := er_timestamp (em_records s ! k)\<rparr>]\<rparr>
                else s)))"

definition exception_mgmt_attempt_recovery ::
    "u32 \<Rightarrow> u64 \<Rightarrow> u64 \<Rightarrow> u64 \<Rightarrow> 'a exception_mgmt_scheme \<Rightarrow> u8 \<times> u64" where
  "exception_mgmt_attempt_recovery vector error_code fault_address rip s =
     (if em_recovery_enabled s = 0 then (0, rip)
      else if vector = EXCEPTION_PAGE_FAULT then
        (if error_code AND PF_PRESENT \<noteq> 0 then
           (if error_code AND PF_WRITE \<noteq> 0 then (0, rip)
            else if fault_address \<ge> 0x1000 \<and> fault_address < 0x100000 then (1, rip) else (0, rip))
         else (0, rip))
      else if vector = EXCEPTION_GENERAL_PROTECTION then (if error_code = 0 then (1, rip + 1) else (0, rip))
      else if vector = EXCEPTION_INVALID_OPCODE then (1, rip + 1)
      else if vector = EXCEPTION_DIVIDE_ERROR then (0, rip)
      else if vector = EXCEPTION_ALIGNMENT_CHECK then (if error_code = 0 then (1, rip + 1) else (0, rip))
      else (0, rip))"

definition exception_mgmt_init :: "'a exception_mgmt_scheme \<Rightarrow> 'a exception_mgmt_scheme" where
  "exception_mgmt_init s =
     (let s = s\<lparr>em_exception_mgmt_supported := 1, em_fault_injection_enabled := 0, em_recovery_enabled := 1,
                em_logging_enabled := 1, em_total_exceptions := 0, em_recovered_exceptions := 0,
                em_unhandled_exceptions := 0, em_record_index := 0, em_last_double_fault := 0, em_last_machine_check := 0,
                em_nested_exception_count := 0\<rparr>;
          s = fold (\<lambda>i s. s\<lparr>em_stats := (em_stats s)[i := ((em_stats s) ! i)\<lparr>es_vector := of_nat i,
                                                            es_count := 0, es_mode := EXCEPTION_MODE_LOG, es_enabled := 1,
                                                            es_last_timestamp := 0,
                                                            es_total_recovery_time := 0\<rparr>]\<rparr>)
            [0..<32] s;
          s = fold (\<lambda>i s. s\<lparr>em_records := (em_records s)[i := ((em_records s) ! i)\<lparr>er_vector := 0,
                                                            er_handled := 0\<rparr>]\<rparr>)
            [0..<256] s;
          s = s\<lparr>em_stats := (em_stats s)[unat (EXCEPTION_DOUBLE_FAULT :: u32) := ((em_stats s) ! (unat (EXCEPTION_DOUBLE_FAULT :: u32)))\<lparr>es_mode := EXCEPTION_MODE_PANIC\<rparr>]\<rparr>
      in s\<lparr>em_stats := (em_stats s)[unat (EXCEPTION_MACHINE_CHECK :: u32) := ((em_stats s) ! (unat (EXCEPTION_MACHINE_CHECK :: u32)))\<lparr>es_mode := EXCEPTION_MODE_PANIC\<rparr>]\<rparr>)"

definition exception_mgmt_is_supported :: "'a exception_mgmt_scheme \<Rightarrow> u8" where
  "exception_mgmt_is_supported s = em_exception_mgmt_supported s"

text \<open>The result carries the instruction pointer. Marking the record before place 0 writes outside the array.\<close>

definition exception_mgmt_handle_exception ::
    "device \<Rightarrow> u32 \<Rightarrow> u64 \<Rightarrow> u64 \<Rightarrow> u64 \<Rightarrow> u64 \<Rightarrow> u64 \<Rightarrow> 'a exception_mgmt_scheme \<Rightarrow> (u64 \<times> 'a exception_mgmt_scheme) option" where
  "exception_mgmt_handle_exception D vector error_code fault_address rip rsp rflags s =
     (let (start_time, s) = ask_ext D ''timer_get_ticks'' [] s;
          s = exception_mgmt_log_exception D vector error_code fault_address rip rsp rflags s
      in if vector = EXCEPTION_DOUBLE_FAULT then
           Some (rip, s\<lparr>em_last_double_fault := start_time, em_nested_exception_count := em_nested_exception_count s + 1\<rparr>)
         else if vector = EXCEPTION_MACHINE_CHECK then Some (rip, s\<lparr>em_last_machine_check := start_time\<rparr>)
         else (let (recovered, rip) = (if vector < 32 \<and> es_mode (em_stats s ! unat vector) = EXCEPTION_MODE_RECOVER
                 then exception_mgmt_attempt_recovery vector error_code fault_address rip s else (0, rip))
               in if recovered \<noteq> 0 then
                    (let k = unat (em_record_index s - 1);
                         s = s\<lparr>em_recovered_exceptions := em_recovered_exceptions s + 1\<rparr>
                     in if k \<ge> 256 then None
                        else (let s = s\<lparr>em_records := (em_records s)[k := (em_records s ! k)\<lparr>er_recoverable := 1, er_handled := 1\<rparr>]\<rparr>;
                                  (now, s) = ask_ext D ''timer_get_ticks'' [] s;
                                  recovery_time = now - start_time;
                                  v = unat vector;
                                  s = s\<lparr>em_stats := (em_stats s)[v := (em_stats s ! v)\<lparr>es_total_recovery_time :=
                                        es_total_recovery_time (em_stats s ! v) + recovery_time\<rparr>]\<rparr>
                              in Some (rip, s)))
                  else Some (rip, s\<lparr>em_unhandled_exceptions := em_unhandled_exceptions s + 1\<rparr>)))"

definition exception_mgmt_get_total_exceptions :: "'a exception_mgmt_scheme \<Rightarrow> u32" where
  "exception_mgmt_get_total_exceptions s = em_total_exceptions s"

definition exception_mgmt_get_recovered_exceptions :: "'a exception_mgmt_scheme \<Rightarrow> u32" where
  "exception_mgmt_get_recovered_exceptions s = em_recovered_exceptions s"

definition exception_mgmt_get_unhandled_exceptions :: "'a exception_mgmt_scheme \<Rightarrow> u32" where
  "exception_mgmt_get_unhandled_exceptions s = em_unhandled_exceptions s"

definition exception_mgmt_get_stats :: "u32 \<Rightarrow> 'a exception_mgmt_scheme \<Rightarrow> exception_stats option" where
  "exception_mgmt_get_stats vector s =
     (if vector \<ge> 32 then None
      else Some (em_stats s ! (unat vector)))"

definition exception_mgmt_get_record :: "u32 \<Rightarrow> 'a exception_mgmt_scheme \<Rightarrow> exception_record option" where
  "exception_mgmt_get_record index s =
     (if index \<ge> 256 then None
      else Some (em_records s ! (unat index)))"

definition exception_mgmt_get_record_count :: "'a exception_mgmt_scheme \<Rightarrow> u32" where
  "exception_mgmt_get_record_count s = (if em_total_exceptions s > 256 then 256 else em_total_exceptions s)"

definition exception_mgmt_set_mode :: "u32 \<Rightarrow> u8 \<Rightarrow> 'a exception_mgmt_scheme \<Rightarrow> 'a exception_mgmt_scheme" where
  "exception_mgmt_set_mode vector mode s =
     (if vector \<ge> 32 then s
      else s\<lparr>em_stats := (em_stats s)[unat vector := ((em_stats s) ! (unat vector))\<lparr>es_mode := mode\<rparr>]\<rparr>)"

definition exception_mgmt_get_mode :: "u32 \<Rightarrow> 'a exception_mgmt_scheme \<Rightarrow> u8" where
  "exception_mgmt_get_mode vector s =
     (if vector \<ge> 32 then EXCEPTION_MODE_IGNORE
      else es_mode (em_stats s ! (unat vector)))"

definition exception_mgmt_enable_recovery :: "'a exception_mgmt_scheme \<Rightarrow> 'a exception_mgmt_scheme" where
  "exception_mgmt_enable_recovery s = s\<lparr>em_recovery_enabled := 1\<rparr>"

definition exception_mgmt_disable_recovery :: "'a exception_mgmt_scheme \<Rightarrow> 'a exception_mgmt_scheme" where
  "exception_mgmt_disable_recovery s = s\<lparr>em_recovery_enabled := 0\<rparr>"

definition exception_mgmt_is_recovery_enabled :: "'a exception_mgmt_scheme \<Rightarrow> u8" where
  "exception_mgmt_is_recovery_enabled s = em_recovery_enabled s"

definition exception_mgmt_enable_logging :: "'a exception_mgmt_scheme \<Rightarrow> 'a exception_mgmt_scheme" where
  "exception_mgmt_enable_logging s = s\<lparr>em_logging_enabled := 1\<rparr>"

definition exception_mgmt_disable_logging :: "'a exception_mgmt_scheme \<Rightarrow> 'a exception_mgmt_scheme" where
  "exception_mgmt_disable_logging s = s\<lparr>em_logging_enabled := 0\<rparr>"

definition exception_mgmt_is_logging_enabled :: "'a exception_mgmt_scheme \<Rightarrow> u8" where
  "exception_mgmt_is_logging_enabled s = em_logging_enabled s"

definition exception_mgmt_inject_fault :: "u32 \<Rightarrow> 'a exception_mgmt_scheme \<Rightarrow> 'a exception_mgmt_scheme" where
  "exception_mgmt_inject_fault vector s =
     (if em_fault_injection_enabled s = 0 then s
      else if vector = EXCEPTION_DIVIDE_ERROR then insn (Asm ''div %0'' [0]) s
      else if vector = EXCEPTION_BREAKPOINT then insn (Asm ''int3'' []) s
      else if vector = EXCEPTION_OVERFLOW then insn (Asm ''into'' []) s
      else if vector = EXCEPTION_INVALID_OPCODE then insn (Asm ''.byte 0x0F, 0xFF'' []) s else s)"

definition exception_mgmt_enable_fault_injection :: "'a exception_mgmt_scheme \<Rightarrow> 'a exception_mgmt_scheme" where
  "exception_mgmt_enable_fault_injection s = s\<lparr>em_fault_injection_enabled := 1\<rparr>"

definition exception_mgmt_disable_fault_injection :: "'a exception_mgmt_scheme \<Rightarrow> 'a exception_mgmt_scheme" where
  "exception_mgmt_disable_fault_injection s = s\<lparr>em_fault_injection_enabled := 0\<rparr>"

definition exception_mgmt_is_fault_injection_enabled :: "'a exception_mgmt_scheme \<Rightarrow> u8" where
  "exception_mgmt_is_fault_injection_enabled s = em_fault_injection_enabled s"

definition exception_mgmt_get_last_double_fault_time :: "'a exception_mgmt_scheme \<Rightarrow> u64" where
  "exception_mgmt_get_last_double_fault_time s = em_last_double_fault s"

definition exception_mgmt_get_last_machine_check_time :: "'a exception_mgmt_scheme \<Rightarrow> u64" where
  "exception_mgmt_get_last_machine_check_time s = em_last_machine_check s"

definition exception_mgmt_get_nested_exception_count :: "'a exception_mgmt_scheme \<Rightarrow> u32" where
  "exception_mgmt_get_nested_exception_count s = em_nested_exception_count s"

definition exception_mgmt_clear_statistics :: "'a exception_mgmt_scheme \<Rightarrow> 'a exception_mgmt_scheme" where
  "exception_mgmt_clear_statistics s =
     (let s = s\<lparr>em_total_exceptions := 0, em_recovered_exceptions := 0, em_unhandled_exceptions := 0,
                em_nested_exception_count := 0\<rparr>
      in fold (\<lambda>i s. s\<lparr>em_stats := (em_stats s)[i := ((em_stats s) ! i)\<lparr>es_count := 0,
                                                            es_last_timestamp := 0,
                                                            es_total_recovery_time := 0\<rparr>]\<rparr>)
            [0..<32] s)"

definition exception_mgmt_get_exception_name :: "u32 \<Rightarrow> string" where
  "exception_mgmt_get_exception_name vector =
     (if vector = EXCEPTION_DIVIDE_ERROR then ''Divide Error''
      else if vector = EXCEPTION_DEBUG then ''Debug''
      else if vector = EXCEPTION_NMI then ''NMI''
      else if vector = EXCEPTION_BREAKPOINT then ''Breakpoint''
      else if vector = EXCEPTION_OVERFLOW then ''Overflow''
      else if vector = EXCEPTION_BOUND_RANGE then ''Bound Range''
      else if vector = EXCEPTION_INVALID_OPCODE then ''Invalid Opcode''
      else if vector = EXCEPTION_DEVICE_NOT_AVAILABLE then ''Device Not Available''
      else if vector = EXCEPTION_DOUBLE_FAULT then ''Double Fault''
      else if vector = EXCEPTION_INVALID_TSS then ''Invalid TSS''
      else if vector = EXCEPTION_SEGMENT_NOT_PRESENT then ''Segment Not Present''
      else if vector = EXCEPTION_STACK_FAULT then ''Stack Fault''
      else if vector = EXCEPTION_GENERAL_PROTECTION then ''General Protection''
      else if vector = EXCEPTION_PAGE_FAULT then ''Page Fault''
      else if vector = EXCEPTION_X87_FPU_ERROR then ''x87 FPU Error''
      else if vector = EXCEPTION_ALIGNMENT_CHECK then ''Alignment Check''
      else if vector = EXCEPTION_MACHINE_CHECK then ''Machine Check''
      else if vector = EXCEPTION_SIMD_FP_EXCEPTION then ''SIMD FP Exception''
      else if vector = EXCEPTION_VIRTUALIZATION then ''Virtualization''
      else if vector = EXCEPTION_CONTROL_PROTECTION then ''Control Protection''
      else ''Unknown'')"

definition exception_mgmt_is_exception_recoverable :: "u32 \<Rightarrow> u8" where
  "exception_mgmt_is_exception_recoverable vector =
     (if vector = EXCEPTION_DIVIDE_ERROR \<or> vector = EXCEPTION_DOUBLE_FAULT \<or> vector = EXCEPTION_MACHINE_CHECK then 0
      else if vector = EXCEPTION_PAGE_FAULT \<or> vector = EXCEPTION_GENERAL_PROTECTION \<or>
        vector = EXCEPTION_INVALID_OPCODE \<or> vector = EXCEPTION_ALIGNMENT_CHECK then 1
      else 0)"

definition exception_mgmt_enable_exception :: "u32 \<Rightarrow> 'a exception_mgmt_scheme \<Rightarrow> 'a exception_mgmt_scheme" where
  "exception_mgmt_enable_exception vector s =
     (if vector \<ge> 32 then s
      else s\<lparr>em_stats := (em_stats s)[unat vector := ((em_stats s) ! (unat vector))\<lparr>es_enabled := 1\<rparr>]\<rparr>)"

definition exception_mgmt_disable_exception :: "u32 \<Rightarrow> 'a exception_mgmt_scheme \<Rightarrow> 'a exception_mgmt_scheme" where
  "exception_mgmt_disable_exception vector s =
     (if vector \<ge> 32 then s
      else s\<lparr>em_stats := (em_stats s)[unat vector := ((em_stats s) ! (unat vector))\<lparr>es_enabled := 0\<rparr>]\<rparr>)"

definition exception_mgmt_is_exception_enabled :: "u32 \<Rightarrow> 'a exception_mgmt_scheme \<Rightarrow> u8" where
  "exception_mgmt_is_exception_enabled vector s =
     (if vector \<ge> 32 then 0
      else es_enabled (em_stats s ! (unat vector)))"

section \<open>The log\<close>

text \<open>What one call writes into the log.\<close>

type_synonym exception_event = "u32 \<times> u64 \<times> u64 \<times> u64 \<times> u64 \<times> u64"

definition log_step :: "device \<Rightarrow> exception_event \<Rightarrow> 'a exception_mgmt_scheme \<Rightarrow> 'a exception_mgmt_scheme" where
  "log_step D x = (case x of (vector, error_code, address, rip, rsp, flags) \<Rightarrow>
     exception_mgmt_log_exception D vector error_code address rip rsp flags)"

definition log_record :: "device \<Rightarrow> exception_event \<Rightarrow> 'a exception_mgmt_scheme \<Rightarrow> exception_record" where
  "log_record D x s = (case x of (vector, error_code, address, rip, rsp, flags) \<Rightarrow>
     (let (cpu :: u32, s) = ask_ext D ''cpu_get_current_id'' [] s;
          (now, s) = ask_ext D ''timer_get_ticks'' [] s
      in \<lparr>er_vector = vector, er_error_code = error_code, er_fault_address = address, er_instruction_pointer = rip,
          er_stack_pointer = rsp, er_flags = flags, er_cpu_id = cpu, er_timestamp = now, er_recoverable = 0, er_handled = 0\<rparr>))"

lemma exception_record_set:
  "r\<lparr>er_vector := v, er_error_code := e, er_fault_address := a, er_instruction_pointer := ip, er_stack_pointer := sp,
     er_flags := f, er_cpu_id := c, er_timestamp := t, er_recoverable := b, er_handled := h\<rparr> =
   \<lparr>er_vector = v, er_error_code = e, er_fault_address = a, er_instruction_pointer = ip, er_stack_pointer = sp,
     er_flags = f, er_cpu_id = c, er_timestamp = t, er_recoverable = b, er_handled = h\<rparr>"
  by (cases r) simp

interpretation exceptions: history 256 "\<lambda>s. em_logging_enabled s \<noteq> 0" em_records em_record_index "log_step D" "log_record D"
  for D :: device
  by unfold_locales (simp_all add: log_step_def log_record_def exception_mgmt_log_exception_def bus Let_def ring_ok_def exception_record_set
      split: prod.split)

lemma log_step_vector: "er_vector (log_record D x s) = fst x"
  by (simp add: log_record_def bus split: prod.split)

lemma recorded_vectors:
  "k < length xs \<Longrightarrow> er_vector (recorded (log_step D) (log_record D) xs s ! k) = fst (xs ! k)"
  by (induction xs arbitrary: s k) (auto simp: log_step_vector nth_Cons split: nat.split)

text \<open>C39: With logging on, after any sequence of exceptions the \<open>k\<close>-th from the end, of the last 256, is handed out by
  \<open>exception_mgmt_get_record\<close> \<open>k + 1\<close> places before the index.\<close>

theorem exception_log_recent:
  fixes D :: device and s :: "'a exception_mgmt_scheme"
  assumes "em_logging_enabled s \<noteq> 0" "ring_ok 256 em_records em_record_index s" "k < 256" "k < length xs"
  defines "t \<equiv> fold (log_step D) xs s"
  shows "exception_mgmt_get_record ((em_record_index t + 255 - of_nat k) mod 256) t =
      Some (recorded (log_step D) (log_record D) xs s ! (length xs - 1 - k)) \<and>
    er_vector (the (exception_mgmt_get_record ((em_record_index t + 255 - of_nat k) mod 256) t)) =
      fst (xs ! (length xs - 1 - k))"
proof -
  have "unat (em_record_index t) < 256"
    using exceptions.steps_ok [OF assms(1,2), of D xs] by (simp add: ring_ok_def t_def)
  moreover from this have "unat (em_record_index t + 255 - of_nat k) = unat (em_record_index t) + 255 - k"
    using assms(3) by (simp add: unat_word_ariths unat_sub_if' unat_of_nat)
  ultimately have u: "unat ((em_record_index t + 255 - of_nat k) mod 256) = (unat (em_record_index t) + 255 - k) mod 256"
    by (simp add: unat_mod)
  have n: "i + 256 - 1 - k = i + 255 - k" for i by arith
  have "em_records t ! ((unat (em_record_index t) + 255 - k) mod 256) =
      recorded (log_step D) (log_record D) xs s ! (length xs - 1 - k)"
    using exceptions.recent [OF assms(1-4), of D] unfolding t_def n .
  moreover have "((em_record_index t + 255 - of_nat k) mod 256 \<ge> 256) = False"
    unfolding word_le_nat_alt u by (simp add: not_le)
  moreover have "length xs - 1 - k < length xs" using assms(4) by simp
  ultimately show ?thesis
    unfolding exception_mgmt_get_record_def u by (simp add: recorded_vectors)
qed

definition exception0 :: "u32 \<Rightarrow> exception_mgmt" where
  "exception0 k = \<lparr>trace = [], pit_ticks = 0, pit_frequency = 0, pit_loops_per_10ms = 0, system_ticks = 0, msr_supported = 1,
     em_exception_mgmt_supported = 1, em_fault_injection_enabled = 0, em_recovery_enabled = 1, em_logging_enabled = 1,
     em_total_exceptions = 0, em_recovered_exceptions = 0, em_unhandled_exceptions = 0,
     em_stats = map (\<lambda>v. \<lparr>es_vector = of_nat v, es_count = 0, es_mode = EXCEPTION_MODE_RECOVER, es_enabled = 1,
       es_last_timestamp = 0, es_total_recovery_time = 0\<rparr>) [0..<32],
     em_records = replicate 256 \<lparr>er_vector = 0, er_error_code = 0, er_fault_address = 0, er_instruction_pointer = 0,
       er_stack_pointer = 0, er_flags = 0, er_cpu_id = 0, er_timestamp = 0, er_recoverable = 0, er_handled = 0\<rparr>,
     em_record_index = k, em_last_double_fault = 0, em_last_machine_check = 0, em_nested_exception_count = 0\<rparr>"

lemma exception_log_recent_witness:
  "er_vector (the (exception_mgmt_get_record 255 (fold (log_step (\<lambda>_ _. 0)) [(14, 0, 0, 0, 0, 0), (6, 0, 0, 0, 0, 0)] (exception0 255)))) = 14"
proof -
  let ?t = "fold (log_step (\<lambda>_ _. 0)) [(14, 0, 0, 0, 0, 0), (6, 0, 0, 0, 0, 0)] (exception0 255)"
  have "em_logging_enabled (exception0 255) \<noteq> 0" "ring_ok 256 em_records em_record_index (exception0 255)"
    by (simp_all add: exception0_def ring_ok_def)
  moreover have "em_record_index ?t = 1" by (simp add: log_step_def exception_mgmt_log_exception_def exception0_def bus)
  ultimately show ?thesis
    using exception_log_recent [of "exception0 255" 1 "[(14, 0, 0, 0, 0, 0), (6, 0, 0, 0, 0, 0)]" "\<lambda>_ _. 0"]
    by (simp add: log_step_vector)
qed

text \<open>The exception that fills place 255 wraps the index, and its recovery is then marked in the place before the array.\<close>

lemma exception_recovery_overruns:
  "exception_mgmt_handle_exception D EXCEPTION_INVALID_OPCODE e a rip rsp f (exception0 255) = None"
proof -
  have "256 \<le> unat (- 1 :: u32)" by (simp add: unsigned_minus_1_eq_mask mask_eq_exp_minus_1)
  then show ?thesis
    by (simp add: exception_mgmt_handle_exception_def exception_mgmt_log_exception_def exception0_def
      exception_mgmt_attempt_recovery_def EXCEPTION_INVALID_OPCODE_def EXCEPTION_DOUBLE_FAULT_def EXCEPTION_MACHINE_CHECK_def
      EXCEPTION_PAGE_FAULT_def EXCEPTION_GENERAL_PROTECTION_def bus)
qed

text \<open>What a program can be resumed from: recovery moves the instruction pointer by one byte at most, and never past a fault it
  could not name.\<close>

lemma attempt_recovery_steps:
  assumes "exception_mgmt_attempt_recovery v e a rip s = (r, rip')"
  shows "rip' = rip \<or> rip' = rip + 1" "rip' \<noteq> rip \<Longrightarrow> r = 1" "r \<noteq> 0 \<Longrightarrow> exception_mgmt_is_exception_recoverable v = 1"
  using assms by (auto simp: exception_mgmt_attempt_recovery_def exception_mgmt_is_exception_recoverable_def
      EXCEPTION_PAGE_FAULT_def EXCEPTION_GENERAL_PROTECTION_def EXCEPTION_INVALID_OPCODE_def EXCEPTION_DIVIDE_ERROR_def
      EXCEPTION_ALIGNMENT_CHECK_def EXCEPTION_DOUBLE_FAULT_def EXCEPTION_MACHINE_CHECK_def split: if_splits)

end
