(* ===== verification/Apic_Ext.thy ===== *)
theory Apic_Ext
  imports Msr_Regs History_Ring
begin

text \<open>
  \<open>src/drivers/apic_ext.c\<close>: the local interrupt controller in both of its modes, with a history of the interrupts sent.
  The fields of \<open>apic_ext_info_t\<close> carry the prefix \<open>ae_\<close>. \<open>timer_get_ticks\<close>, which no file defines, is
  answered by the environment.
\<close>

definition MSR_APIC_BASE_ae :: "'a::len word" where "MSR_APIC_BASE_ae = 0x1B"
definition APIC_BASE_ENABLE :: "'a::len word" where "APIC_BASE_ENABLE = push_bit 11 1"
definition APIC_BASE_X2APIC_ae :: "'a::len word" where "APIC_BASE_X2APIC_ae = push_bit 10 1"
definition APIC_ID :: "'a::len word" where "APIC_ID = 0x20"
definition APIC_VERSION :: "'a::len word" where "APIC_VERSION = 0x30"
definition APIC_TPR :: "'a::len word" where "APIC_TPR = 0x80"
definition APIC_EOI :: "'a::len word" where "APIC_EOI = 0xB0"
definition APIC_SPURIOUS :: "'a::len word" where "APIC_SPURIOUS = 0xF0"
definition APIC_ISR :: "'a::len word" where "APIC_ISR = 0x100"
definition APIC_TMR :: "'a::len word" where "APIC_TMR = 0x180"
definition APIC_IRR :: "'a::len word" where "APIC_IRR = 0x200"
definition APIC_ESR :: "'a::len word" where "APIC_ESR = 0x280"
definition APIC_ICR_LOW :: "'a::len word" where "APIC_ICR_LOW = 0x300"
definition APIC_ICR_HIGH :: "'a::len word" where "APIC_ICR_HIGH = 0x310"
definition APIC_LVT_TIMER :: "'a::len word" where "APIC_LVT_TIMER = 0x320"
definition APIC_TIMER_ICR :: "'a::len word" where "APIC_TIMER_ICR = 0x380"
definition APIC_TIMER_CCR :: "'a::len word" where "APIC_TIMER_CCR = 0x390"
definition APIC_TIMER_DCR :: "'a::len word" where "APIC_TIMER_DCR = 0x3E0"
definition ICR_DELIVERY_NMI :: "'a::len word" where "ICR_DELIVERY_NMI = 0x4"
definition ICR_DELIVERY_INIT :: "'a::len word" where "ICR_DELIVERY_INIT = 0x5"
definition ICR_DELIVERY_STARTUP :: "'a::len word" where "ICR_DELIVERY_STARTUP = 0x6"
definition ICR_DEST_PHYSICAL :: "'a::len word" where "ICR_DEST_PHYSICAL = 0x0"
definition ICR_DEST_NO_SHORTHAND :: "'a::len word" where "ICR_DEST_NO_SHORTHAND = 0x0"
definition ICR_DEST_ALL_INCLUDING_SELF :: "'a::len word" where "ICR_DEST_ALL_INCLUDING_SELF = 0x2"
definition ICR_DEST_ALL_EXCLUDING_SELF :: "'a::len word" where "ICR_DEST_ALL_EXCLUDING_SELF = 0x3"
definition APIC_TIMER_ONESHOT :: "'a::len word" where "APIC_TIMER_ONESHOT = 0x0"

record ipi_record =
  ir_vector :: u32
  ir_delivery_mode :: u32
  ir_dest_mode :: u32
  ir_dest_shorthand :: u32
  ir_destination :: u32
  ir_timestamp :: u64
  ir_delivered :: u8

record apic_ext = msr +
  ae_apic_ext_supported :: u8
  ae_x2apic_supported :: u8
  ae_x2apic_enabled :: u8
  ae_apic_enabled :: u8
  ae_apic_base_addr :: u32
  ae_apic_id :: u32
  ae_apic_version :: u32
  ae_max_lvt_entries :: u8
  ae_spurious_vector :: u32
  ae_timer_frequency :: u32
  ae_timer_mode :: u8
  ae_timer_initial_count :: u32
  ae_ipi_count :: u32
  ae_broadcast_count :: u32
  ae_nmi_count :: u32
  ae_smi_count :: u32
  ae_init_count :: u32
  ae_startup_count :: u32
  ae_ipi_history :: "ipi_record list"    \<comment> \<open>64\<close>
  ae_ipi_history_index :: u32
  ae_error_count :: u32
  ae_last_error :: u32
  ae_last_ipi_time :: u64

definition apic_ext_read_reg :: "device \<Rightarrow> u32 \<Rightarrow> 'a apic_ext_scheme \<Rightarrow> u32 \<times> 'a apic_ext_scheme" where
  "apic_ext_read_reg D reg s =
     (if ae_x2apic_enabled s \<noteq> 0 then
         (let (v, s) = msr_read D (0x800 + drop_bit 4 reg) s
          in (ucast v, s))
      else (let apic_base = ae_apic_base_addr s
            in read32 D (apic_base + 4 * (drop_bit 2 reg)) s))"

definition apic_ext_write_reg :: "device \<Rightarrow> u32 \<Rightarrow> u32 \<Rightarrow> 'a apic_ext_scheme \<Rightarrow> 'a apic_ext_scheme" where
  "apic_ext_write_reg D reg value' s =
     (if ae_x2apic_enabled s \<noteq> 0 then msr_write (0x800 + drop_bit 4 reg) (ucast value') s
      else (let apic_base = ae_apic_base_addr s
            in write32 (apic_base + 4 * (drop_bit 2 reg)) value' s))"

definition apic_ext_detect_capabilities :: "device \<Rightarrow> 'a apic_ext_scheme \<Rightarrow> 'a apic_ext_scheme" where
  "apic_ext_detect_capabilities D s =
     (let ((eax, ebx, ecx, edx), s) = cpuid D 1 s;
          s = s\<lparr>ae_apic_ext_supported := c_bool (edx AND push_bit 9 1 \<noteq> 0),
                ae_x2apic_supported := c_bool (ecx AND push_bit 21 1 \<noteq> 0)\<rparr>
      in (if ae_apic_ext_supported s \<noteq> 0 \<and> msr_is_supported s \<noteq> 0 then
             (let (apic_base_msr, s) = msr_read D MSR_APIC_BASE_ae s
              in s\<lparr>ae_apic_base_addr := ucast (apic_base_msr AND 0xFFFFF000),
                   ae_apic_enabled := c_bool (apic_base_msr AND APIC_BASE_ENABLE \<noteq> 0),
                   ae_x2apic_enabled := c_bool (apic_base_msr AND APIC_BASE_X2APIC_ae \<noteq> 0)\<rparr>)
          else s))"

definition apic_ext_init :: "device \<Rightarrow> 'a apic_ext_scheme \<Rightarrow> 'a apic_ext_scheme" where
  "apic_ext_init D s =
     (let s = s\<lparr>ae_apic_ext_supported := 0, ae_x2apic_supported := 0, ae_x2apic_enabled := 0, ae_apic_enabled := 0,
                ae_apic_base_addr := 0xFEE00000, ae_apic_id := 0, ae_apic_version := 0, ae_max_lvt_entries := 0,
                ae_spurious_vector := 0xFF, ae_timer_frequency := 0, ae_timer_mode := APIC_TIMER_ONESHOT,
                ae_timer_initial_count := 0, ae_ipi_count := 0, ae_broadcast_count := 0, ae_nmi_count := 0,
                ae_smi_count := 0, ae_init_count := 0, ae_startup_count := 0, ae_ipi_history_index := 0,
                ae_error_count := 0, ae_last_error := 0, ae_last_ipi_time := 0\<rparr>;
          s = fold (\<lambda>i s. s\<lparr>ae_ipi_history := (ae_ipi_history s)[i := ((ae_ipi_history s) ! i)\<lparr>ir_vector := 0, ir_delivery_mode := 0, ir_dest_mode := 0, ir_dest_shorthand := 0, ir_destination := 0, ir_timestamp := 0, ir_delivered := 0\<rparr>]\<rparr>)
            [0..<64] s;
          s = apic_ext_detect_capabilities D s
      in (if ae_apic_ext_supported s \<noteq> 0 then
             (let (v, s) = apic_ext_read_reg D APIC_ID s;
                  s = s\<lparr>ae_apic_id := v\<rparr>;
                  s = (if ae_x2apic_enabled s = 0 then s\<lparr>ae_apic_id := drop_bit 24 (ae_apic_id s)\<rparr>
                       else s);
                  (version, s) = apic_ext_read_reg D APIC_VERSION s;
                  s = s\<lparr>ae_apic_version := version AND 0xFF,
                        ae_max_lvt_entries := ucast ((drop_bit 16 version AND 0xFF) + 1)\<rparr>;
                  s = (if ae_apic_enabled s = 0 then
                          (let (apic_base_msr, s) = msr_read D MSR_APIC_BASE_ae s;
                               apic_base_msr = apic_base_msr OR APIC_BASE_ENABLE;
                               s = msr_write MSR_APIC_BASE_ae apic_base_msr s
                           in s\<lparr>ae_apic_enabled := 1\<rparr>)
                       else s);
                  (spurious, s) = apic_ext_read_reg D APIC_SPURIOUS s;
                  spurious = spurious OR push_bit 8 1;
                  spurious = spurious OR ae_spurious_vector s
              in apic_ext_write_reg D APIC_SPURIOUS spurious s)
          else s))"

definition apic_ext_is_supported :: "'a apic_ext_scheme \<Rightarrow> u8" where
  "apic_ext_is_supported s = ae_apic_ext_supported s"

definition apic_ext_is_x2apic_supported :: "'a apic_ext_scheme \<Rightarrow> u8" where
  "apic_ext_is_x2apic_supported s = ae_x2apic_supported s"

definition apic_ext_is_x2apic_enabled :: "'a apic_ext_scheme \<Rightarrow> u8" where
  "apic_ext_is_x2apic_enabled s = ae_x2apic_enabled s"

definition apic_ext_enable_x2apic :: "device \<Rightarrow> 'a apic_ext_scheme \<Rightarrow> u8 \<times> 'a apic_ext_scheme" where
  "apic_ext_enable_x2apic D s =
     (if ae_x2apic_supported s = 0 \<or> msr_is_supported s = 0 then (0, s)
      else (let (apic_base_msr, s) = msr_read D MSR_APIC_BASE_ae s;
                apic_base_msr = apic_base_msr OR (APIC_BASE_X2APIC_ae OR APIC_BASE_ENABLE);
                s = msr_write MSR_APIC_BASE_ae apic_base_msr s;
                s = s\<lparr>ae_x2apic_enabled := 1, ae_apic_enabled := 1\<rparr>;
                (v2, s) = apic_ext_read_reg D APIC_ID s;
                s = s\<lparr>ae_apic_id := v2\<rparr>
            in (1, s)))"

definition apic_ext_get_id :: "'a apic_ext_scheme \<Rightarrow> u32" where
  "apic_ext_get_id s = ae_apic_id s"

definition apic_ext_get_version :: "'a apic_ext_scheme \<Rightarrow> u32" where
  "apic_ext_get_version s = ae_apic_version s"

definition apic_ext_get_max_lvt_entries :: "'a apic_ext_scheme \<Rightarrow> u8" where
  "apic_ext_get_max_lvt_entries s = ae_max_lvt_entries s"

definition apic_ext_send_ipi :: "device \<Rightarrow> u32 \<Rightarrow> u32 \<Rightarrow> u32 \<Rightarrow> 'a apic_ext_scheme \<Rightarrow> 'a apic_ext_scheme" where
  "apic_ext_send_ipi D dest_apic_id vector delivery_mode s =
     (if ae_apic_enabled s = 0 then s
      else (let k = unat (ae_ipi_history_index s);
                s = s\<lparr>ae_ipi_history := (ae_ipi_history s)[k := ((ae_ipi_history s) ! k)\<lparr>ir_vector := vector,
                                                            ir_delivery_mode := delivery_mode,
                                                            ir_dest_mode := ICR_DEST_PHYSICAL,
                                                            ir_dest_shorthand := ICR_DEST_NO_SHORTHAND,
                                                            ir_destination := dest_apic_id\<rparr>]\<rparr>;
                (v, s) = ask_ext D ''timer_get_ticks'' [] s;
                s = s\<lparr>ae_ipi_history := (ae_ipi_history s)[k := ((ae_ipi_history s) ! k)\<lparr>ir_timestamp := v,
                                                            ir_delivered := 0\<rparr>]\<rparr>;
                s = s\<lparr>ae_ipi_history_index := (ae_ipi_history_index s + 1) mod 64,
                      ae_ipi_count := ae_ipi_count s + 1, ae_last_ipi_time := ir_timestamp (ae_ipi_history s ! k)\<rparr>;
                s = (if ae_x2apic_enabled s \<noteq> 0 then
                        (let icr = (push_bit 32 (ucast dest_apic_id) OR ucast (push_bit 8 delivery_mode) OR ucast vector :: u64)
                         in msr_write 0x830 icr s)
                     else (let s = apic_ext_write_reg D APIC_ICR_HIGH (push_bit 24 dest_apic_id) s
                           in apic_ext_write_reg D APIC_ICR_LOW (push_bit 8 delivery_mode OR vector) s))
            in s\<lparr>ae_ipi_history := (ae_ipi_history s)[k := ((ae_ipi_history s) ! k)\<lparr>ir_delivered := 1\<rparr>]\<rparr>))"

definition apic_ext_send_ipi_broadcast :: "device \<Rightarrow> u32 \<Rightarrow> u32 \<Rightarrow> u8 \<Rightarrow> 'a apic_ext_scheme \<Rightarrow> 'a apic_ext_scheme" where
  "apic_ext_send_ipi_broadcast D vector delivery_mode include_self s =
     (if ae_apic_enabled s = 0 then s
      else (let dest_shorthand = ((if include_self \<noteq> 0 then ICR_DEST_ALL_INCLUDING_SELF
                                   else ICR_DEST_ALL_EXCLUDING_SELF) :: u32);
                k = unat (ae_ipi_history_index s);
                s = s\<lparr>ae_ipi_history := (ae_ipi_history s)[k := ((ae_ipi_history s) ! k)\<lparr>ir_vector := vector,
                                                            ir_delivery_mode := delivery_mode,
                                                            ir_dest_mode := ICR_DEST_PHYSICAL,
                                                            ir_dest_shorthand := dest_shorthand,
                                                            ir_destination := 0xFFFFFFFF\<rparr>]\<rparr>;
                (v, s) = ask_ext D ''timer_get_ticks'' [] s;
                s = s\<lparr>ae_ipi_history := (ae_ipi_history s)[k := ((ae_ipi_history s) ! k)\<lparr>ir_timestamp := v,
                                                            ir_delivered := 0\<rparr>]\<rparr>;
                s = s\<lparr>ae_ipi_history_index := (ae_ipi_history_index s + 1) mod 64,
                      ae_broadcast_count := ae_broadcast_count s + 1,
                      ae_last_ipi_time := ir_timestamp (ae_ipi_history s ! k)\<rparr>;
                s = (if ae_x2apic_enabled s \<noteq> 0 then
                        (let icr = (push_bit 18 (ucast dest_shorthand) OR ucast (push_bit 8 delivery_mode) OR
                                    ucast vector :: u64)
                         in msr_write 0x830 icr s)
                     else (let s = apic_ext_write_reg D APIC_ICR_HIGH 0 s
                           in apic_ext_write_reg D APIC_ICR_LOW (push_bit 18 dest_shorthand OR
                                                                 push_bit 8 delivery_mode OR vector) s))
            in s\<lparr>ae_ipi_history := (ae_ipi_history s)[k := ((ae_ipi_history s) ! k)\<lparr>ir_delivered := 1\<rparr>]\<rparr>))"

definition apic_ext_send_nmi :: "device \<Rightarrow> u32 \<Rightarrow> 'a apic_ext_scheme \<Rightarrow> 'a apic_ext_scheme" where
  "apic_ext_send_nmi D dest_apic_id s =
     (let s = apic_ext_send_ipi D dest_apic_id 0 ICR_DELIVERY_NMI s
      in s\<lparr>ae_nmi_count := ae_nmi_count s + 1\<rparr>)"

definition apic_ext_send_init :: "device \<Rightarrow> u32 \<Rightarrow> 'a apic_ext_scheme \<Rightarrow> 'a apic_ext_scheme" where
  "apic_ext_send_init D dest_apic_id s =
     (let s = apic_ext_send_ipi D dest_apic_id 0 ICR_DELIVERY_INIT s
      in s\<lparr>ae_init_count := ae_init_count s + 1\<rparr>)"

definition apic_ext_send_startup :: "device \<Rightarrow> u32 \<Rightarrow> u32 \<Rightarrow> 'a apic_ext_scheme \<Rightarrow> 'a apic_ext_scheme" where
  "apic_ext_send_startup D dest_apic_id start_page s =
     (let s = apic_ext_send_ipi D dest_apic_id start_page ICR_DELIVERY_STARTUP s
      in s\<lparr>ae_startup_count := ae_startup_count s + 1\<rparr>)"

definition apic_ext_eoi :: "device \<Rightarrow> 'a apic_ext_scheme \<Rightarrow> 'a apic_ext_scheme" where
  "apic_ext_eoi D s =
     (if ae_apic_enabled s = 0 then s
      else apic_ext_write_reg D APIC_EOI 0 s)"

definition apic_ext_get_isr :: "device \<Rightarrow> u8 \<Rightarrow> 'a apic_ext_scheme \<Rightarrow> u32 \<times> 'a apic_ext_scheme" where
  "apic_ext_get_isr D reg s =
     (if ae_apic_enabled s = 0 \<or> reg \<ge> 8 then (0, s)
      else apic_ext_read_reg D (APIC_ISR + (ucast reg * 0x10)) s)"

definition apic_ext_get_irr :: "device \<Rightarrow> u8 \<Rightarrow> 'a apic_ext_scheme \<Rightarrow> u32 \<times> 'a apic_ext_scheme" where
  "apic_ext_get_irr D reg s =
     (if ae_apic_enabled s = 0 \<or> reg \<ge> 8 then (0, s)
      else apic_ext_read_reg D (APIC_IRR + (ucast reg * 0x10)) s)"

definition apic_ext_get_tmr :: "device \<Rightarrow> u8 \<Rightarrow> 'a apic_ext_scheme \<Rightarrow> u32 \<times> 'a apic_ext_scheme" where
  "apic_ext_get_tmr D reg s =
     (if ae_apic_enabled s = 0 \<or> reg \<ge> 8 then (0, s)
      else apic_ext_read_reg D (APIC_TMR + (ucast reg * 0x10)) s)"

definition apic_ext_setup_timer :: "device \<Rightarrow> u32 \<Rightarrow> u8 \<Rightarrow> u8 \<Rightarrow> 'a apic_ext_scheme \<Rightarrow> 'a apic_ext_scheme" where
  "apic_ext_setup_timer D initial_count mode vector s =
     (if ae_apic_enabled s = 0 then s
      else (let s = s\<lparr>ae_timer_initial_count := initial_count, ae_timer_mode := mode\<rparr>;
                s = apic_ext_write_reg D APIC_TIMER_DCR 0x3 s;
                lvt_timer = (ucast vector OR push_bit 17 (ucast mode) :: u32);
                s = apic_ext_write_reg D APIC_LVT_TIMER lvt_timer s
            in apic_ext_write_reg D APIC_TIMER_ICR initial_count s))"

definition apic_ext_get_timer_current_count :: "device \<Rightarrow> 'a apic_ext_scheme \<Rightarrow> u32 \<times> 'a apic_ext_scheme" where
  "apic_ext_get_timer_current_count D s =
     (if ae_apic_enabled s = 0 then (0, s)
      else apic_ext_read_reg D APIC_TIMER_CCR s)"

definition apic_ext_set_task_priority :: "device \<Rightarrow> u8 \<Rightarrow> 'a apic_ext_scheme \<Rightarrow> 'a apic_ext_scheme" where
  "apic_ext_set_task_priority D priority s =
     (if ae_apic_enabled s = 0 then s
      else apic_ext_write_reg D APIC_TPR (push_bit 4 (ucast priority)) s)"

definition apic_ext_get_task_priority :: "device \<Rightarrow> 'a apic_ext_scheme \<Rightarrow> u8 \<times> 'a apic_ext_scheme" where
  "apic_ext_get_task_priority D s =
     (if ae_apic_enabled s = 0 then (0, s)
      else (let (v, s) = apic_ext_read_reg D APIC_TPR s
            in (ucast (drop_bit 4 v), s)))"

definition apic_ext_get_error_status :: "device \<Rightarrow> 'a apic_ext_scheme \<Rightarrow> u32 \<times> 'a apic_ext_scheme" where
  "apic_ext_get_error_status D s =
     (if ae_apic_enabled s = 0 then (0, s)
      else (let s = apic_ext_write_reg D APIC_ESR 0 s;
                (error, s) = apic_ext_read_reg D APIC_ESR s;
                s = (if error \<noteq> 0 then s\<lparr>ae_error_count := ae_error_count s + 1, ae_last_error := error\<rparr>
                     else s)
            in (error, s)))"

definition apic_ext_get_ipi_count :: "'a apic_ext_scheme \<Rightarrow> u32" where
  "apic_ext_get_ipi_count s = ae_ipi_count s"

definition apic_ext_get_broadcast_count :: "'a apic_ext_scheme \<Rightarrow> u32" where
  "apic_ext_get_broadcast_count s = ae_broadcast_count s"

definition apic_ext_get_nmi_count :: "'a apic_ext_scheme \<Rightarrow> u32" where
  "apic_ext_get_nmi_count s = ae_nmi_count s"

definition apic_ext_get_init_count :: "'a apic_ext_scheme \<Rightarrow> u32" where
  "apic_ext_get_init_count s = ae_init_count s"

definition apic_ext_get_startup_count :: "'a apic_ext_scheme \<Rightarrow> u32" where
  "apic_ext_get_startup_count s = ae_startup_count s"

definition apic_ext_get_ipi_history :: "u32 \<Rightarrow> 'a apic_ext_scheme \<Rightarrow> ipi_record option" where
  "apic_ext_get_ipi_history index s =
     (if index \<ge> 64 then None
      else Some (ae_ipi_history s ! (unat index)))"

definition apic_ext_get_error_count :: "'a apic_ext_scheme \<Rightarrow> u32" where
  "apic_ext_get_error_count s = ae_error_count s"

definition apic_ext_get_last_error :: "'a apic_ext_scheme \<Rightarrow> u32" where
  "apic_ext_get_last_error s = ae_last_error s"

definition apic_ext_get_last_ipi_time :: "'a apic_ext_scheme \<Rightarrow> u64" where
  "apic_ext_get_last_ipi_time s = ae_last_ipi_time s"

definition apic_ext_clear_statistics :: "'a apic_ext_scheme \<Rightarrow> 'a apic_ext_scheme" where
  "apic_ext_clear_statistics s =
     (let s = s\<lparr>ae_ipi_count := 0, ae_broadcast_count := 0, ae_nmi_count := 0, ae_init_count := 0,
                ae_startup_count := 0, ae_error_count := 0, ae_last_error := 0, ae_ipi_history_index := 0\<rparr>
      in fold (\<lambda>i s. s\<lparr>ae_ipi_history := (ae_ipi_history s)[i := ((ae_ipi_history s) ! i)\<lparr>ir_vector := 0, ir_delivered := 0\<rparr>]\<rparr>)
            [0..<64] s)"

section \<open>The history of interrupts sent\<close>

datatype ipi = To u32 u32 u32 | All u32 u32 u8

fun ipi_step :: "device \<Rightarrow> ipi \<Rightarrow> 'a apic_ext_scheme \<Rightarrow> 'a apic_ext_scheme" where
  "ipi_step D (To dest vector mode) s = apic_ext_send_ipi D dest vector mode s"
| "ipi_step D (All vector mode self) s = apic_ext_send_ipi_broadcast D vector mode self s"

fun ipi_entry :: "device \<Rightarrow> ipi \<Rightarrow> 'a apic_ext_scheme \<Rightarrow> ipi_record" where
  "ipi_entry D (To dest vector mode) s =
     \<lparr>ir_vector = vector, ir_delivery_mode = mode, ir_dest_mode = ICR_DEST_PHYSICAL,
      ir_dest_shorthand = ICR_DEST_NO_SHORTHAND, ir_destination = dest,
      ir_timestamp = D (trace s) (Call ''timer_get_ticks'' []), ir_delivered = 1\<rparr>"
| "ipi_entry D (All vector mode self) s =
     \<lparr>ir_vector = vector, ir_delivery_mode = mode, ir_dest_mode = ICR_DEST_PHYSICAL,
      ir_dest_shorthand = (if self \<noteq> 0 then ICR_DEST_ALL_INCLUDING_SELF else ICR_DEST_ALL_EXCLUDING_SELF),
      ir_destination = 0xFFFFFFFF, ir_timestamp = D (trace s) (Call ''timer_get_ticks'' []), ir_delivered = 1\<rparr>"

lemma ipi_record_set:
  "r\<lparr>ir_vector := v, ir_delivery_mode := m, ir_dest_mode := d, ir_dest_shorthand := sh, ir_destination := a,
     ir_timestamp := t, ir_delivered := b\<rparr> =
   \<lparr>ir_vector = v, ir_delivery_mode = m, ir_dest_mode = d, ir_dest_shorthand = sh, ir_destination = a,
     ir_timestamp = t, ir_delivered = b\<rparr>"
  by (cases r) simp

lemma write_reg_fields [simp]:
  "ae_ipi_history (apic_ext_write_reg D r v s) = ae_ipi_history s"
  "ae_ipi_history_index (apic_ext_write_reg D r v s) = ae_ipi_history_index s"
  "ae_apic_enabled (apic_ext_write_reg D r v s) = ae_apic_enabled s"
  "ae_ipi_history (msr_write r' w s) = ae_ipi_history s"
  "ae_ipi_history_index (msr_write r' w s) = ae_ipi_history_index s"
  "ae_apic_enabled (msr_write r' w s) = ae_apic_enabled s"
  by (simp_all add: apic_ext_write_reg_def msr_write_def wr_def write32_def)

interpretation ipis: history 64 "\<lambda>s. ae_apic_enabled s \<noteq> 0" ae_ipi_history ae_ipi_history_index "ipi_step D" "ipi_entry D"
  for D :: device
proof unfold_locales
  fix s :: "'a apic_ext_scheme" and x
  assume "ae_apic_enabled s \<noteq> 0"
  then show "ae_apic_enabled (ipi_step D x s) \<noteq> 0"
    by (cases x) (simp_all add: apic_ext_send_ipi_def apic_ext_send_ipi_broadcast_def bus Let_def)
next
  fix s :: "'a apic_ext_scheme" and x
  assume "ae_apic_enabled s \<noteq> 0" "ring_ok 64 ae_ipi_history ae_ipi_history_index s"
  then show "ae_ipi_history (ipi_step D x s) = (ae_ipi_history s)[unat (ae_ipi_history_index s) := ipi_entry D x s]"
    by (cases x) (simp_all add: apic_ext_send_ipi_def apic_ext_send_ipi_broadcast_def bus Let_def ring_ok_def ipi_record_set)
next
  fix s :: "'a apic_ext_scheme" and x
  assume "ae_apic_enabled s \<noteq> 0" "ring_ok 64 ae_ipi_history ae_ipi_history_index s"
  then show "ae_ipi_history_index (ipi_step D x s) = (ae_ipi_history_index s + 1) mod of_nat 64"
    by (cases x) (simp_all add: apic_ext_send_ipi_def apic_ext_send_ipi_broadcast_def bus Let_def)
qed simp_all

text \<open>The interrupt sent last stands before the index, marked as delivered although nobody looked.\<close>

lemma ipi_last:
  fixes D :: device and s :: "'a apic_ext_scheme"
  assumes "ae_apic_enabled s \<noteq> 0" "ring_ok 64 ae_ipi_history ae_ipi_history_index s" "xs \<noteq> []"
  defines "t \<equiv> fold (ipi_step D) xs s"
  shows "ae_ipi_history t ! ((63 + unat (ae_ipi_history_index t)) mod 64) = last (recorded (ipi_step D) (ipi_entry D) xs s)"
proof -
  have "0 < length xs" using assms(3) by simp
  from ipis.recent [OF assms(1,2) _ this, of D]
  have "ae_ipi_history t ! ((63 + unat (ae_ipi_history_index t)) mod 64) =
    recorded (ipi_step D) (ipi_entry D) xs s ! (length xs - 1)" by (simp add: t_def)
  moreover have "recorded (ipi_step D) (ipi_entry D) xs s \<noteq> []" using assms(3) by (cases xs) simp_all
  ultimately show ?thesis by (simp add: last_conv_nth)
qed

text \<open>A command is one write of the 64-bit register in one mode, and two writes, destination first, in the other.\<close>

lemma send_ipi_writes:
  assumes "ae_apic_enabled s \<noteq> 0" "ae_x2apic_enabled s = 0"
  shows "trace (apic_ext_send_ipi D dest vector mode s) = trace s @
    [Rd (Call ''timer_get_ticks'' []) (D (trace s) (Call ''timer_get_ticks'' [])),
     Wr (Mem32 (ae_apic_base_addr s + 0x310)) (ucast (push_bit 24 dest)),
     Wr (Mem32 (ae_apic_base_addr s + 0x300)) (ucast (push_bit 8 mode OR vector))]"
  using assms by (simp add: apic_ext_send_ipi_def apic_ext_write_reg_def bus Let_def APIC_ICR_HIGH_def APIC_ICR_LOW_def)

text \<open>An interrupt that is not sent, because the controller is off, is counted all the same.\<close>

lemma send_nmi_counts_off:
  "ae_apic_enabled s = 0 \<Longrightarrow> apic_ext_send_nmi D dest s = s\<lparr>ae_nmi_count := ae_nmi_count s + 1\<rparr>"
  by (simp add: apic_ext_send_nmi_def apic_ext_send_ipi_def)

lemma without_ae_apic_enabled:
  assumes "ae_apic_enabled s = 0"
  shows "apic_ext_send_ipi D dest_apic_id vector delivery_mode s = s"
    "apic_ext_send_ipi_broadcast D vector delivery_mode include_self s = s" "apic_ext_eoi D s = s"
    "apic_ext_get_isr D reg s = (0, s)" "apic_ext_get_irr D reg s = (0, s)" "apic_ext_get_tmr D reg s = (0, s)"
    "apic_ext_setup_timer D initial_count mode vector' s = s" "apic_ext_get_timer_current_count D s = (0, s)"
    "apic_ext_set_task_priority D priority s = s" "apic_ext_get_task_priority D s = (0, s)"
    "apic_ext_get_error_status D s = (0, s)"
  using assms by (simp_all add: apic_ext_send_ipi_def apic_ext_send_ipi_broadcast_def apic_ext_eoi_def
      apic_ext_get_isr_def apic_ext_get_irr_def apic_ext_get_tmr_def apic_ext_setup_timer_def
      apic_ext_get_timer_current_count_def apic_ext_set_task_priority_def apic_ext_get_task_priority_def
      apic_ext_get_error_status_def)

end
