(* ===== verification/Interrupt_Mgmt.thy ===== *)
theory Interrupt_Mgmt
  imports Msr_Regs
begin

text \<open>
  \<open>src/drivers/interrupt_mgmt.c\<close>: non-maskable interrupts and machine checks. The fields of \<open>interrupt_mgmt_info_t\<close>
  carry the prefix \<open>im_\<close>, those of a record \<open>mr_\<close>. The other functions it calls, \<open>apic_send_nmi\<close> and two
  of \<open>thermal\<close>, are defined in no file and are events of the trace.
\<close>

definition NMI_ENABLE_PORT :: "'a::len word" where "NMI_ENABLE_PORT = 0x70"
definition NMI_DISABLE_BIT :: "'a::len word" where "NMI_DISABLE_BIT = 0x80"
definition MSR_SMI_COUNT :: "'a::len word" where "MSR_SMI_COUNT = 0x34"
definition MSR_MCG_CAP :: "'a::len word" where "MSR_MCG_CAP = 0x179"
definition MSR_MCG_STATUS :: "'a::len word" where "MSR_MCG_STATUS = 0x17A"
definition MSR_MCG_CTL :: "'a::len word" where "MSR_MCG_CTL = 0x17B"
definition MSR_MC0_CTL :: "'a::len word" where "MSR_MC0_CTL = 0x400"
definition MSR_MC0_STATUS :: "'a::len word" where "MSR_MC0_STATUS = 0x401"
definition MSR_MC0_ADDR :: "'a::len word" where "MSR_MC0_ADDR = 0x402"
definition MSR_MC0_MISC :: "'a::len word" where "MSR_MC0_MISC = 0x403"
definition MCE_STATUS_VAL :: "'a::len word" where "MCE_STATUS_VAL = 0x8000000000000000"
definition MCE_STATUS_UC :: "'a::len word" where "MCE_STATUS_UC = 0x2000000000000000"
definition MCE_STATUS_MISCV :: "'a::len word" where "MCE_STATUS_MISCV = 0x0800000000000000"
definition MCE_STATUS_ADDRV :: "'a::len word" where "MCE_STATUS_ADDRV = 0x0400000000000000"

record mce_record =
  mr_status :: u64
  mr_addr :: u64
  mr_misc :: u64
  mr_bank :: u32
  mr_valid :: u8

record interrupt_mgmt = msr +
  im_nmi_supported :: u8
  im_smi_supported :: u8
  im_mce_supported :: u8
  im_thermal_interrupt_supported :: u8
  im_nmi_enabled :: u8
  im_smi_enabled :: u8
  im_mce_enabled :: u8
  im_mce_bank_count :: u32
  im_nmi_count :: u32
  im_smi_count :: u32
  im_mce_count :: u32
  im_mce_records :: "mce_record list"    \<comment> \<open>32\<close>
  im_interrupt_nesting_level :: u8
  im_last_interrupt_vector :: u32

definition interrupt_mgmt_detect_capabilities :: "device \<Rightarrow> 'a interrupt_mgmt_scheme \<Rightarrow> 'a interrupt_mgmt_scheme" where
  "interrupt_mgmt_detect_capabilities D s =
     (let ((eax, ebx, ecx, edx), s) = cpuid D 1 s;
          s = s\<lparr>im_mce_supported := c_bool (edx AND push_bit 14 1 \<noteq> 0),
                im_thermal_interrupt_supported := c_bool (edx AND push_bit 22 1 \<noteq> 0), im_nmi_supported := 1,
                im_smi_supported := 1\<rparr>
      in (if im_mce_supported s \<noteq> 0 \<and> msr_is_supported s \<noteq> 0 then
             (let (mcg_cap, s) = msr_read D MSR_MCG_CAP s;
                  s = s\<lparr>im_mce_bank_count := ucast (mcg_cap AND 0xFF)\<rparr>
              in (if im_mce_bank_count s > 32 then s\<lparr>im_mce_bank_count := 32\<rparr> else s))
          else s))"

definition interrupt_mgmt_setup_mce :: "device \<Rightarrow> 'a interrupt_mgmt_scheme \<Rightarrow> 'a interrupt_mgmt_scheme" where
  "interrupt_mgmt_setup_mce D s =
     (if im_mce_supported s = 0 \<or> msr_is_supported s = 0 then s
      else (let (cr4 :: u32, s) = rd D (Creg 4) s;
                cr4 = cr4 OR push_bit 6 1;
                s = wr (Creg 4) cr4 s;
                s = fold (\<lambda>i s.
                            (let s = msr_write (MSR_MC0_CTL + (of_nat i * 4)) 0xFFFFFFFFFFFFFFFF s
                             in msr_write (MSR_MC0_STATUS + (of_nat i * 4)) 0 s))
                  [0..<unat (im_mce_bank_count s)] s;
                s = msr_write MSR_MCG_CTL 0xFFFFFFFFFFFFFFFF s
            in s\<lparr>im_mce_enabled := 1\<rparr>))"

definition interrupt_mgmt_setup_nmi :: "device \<Rightarrow> 'a interrupt_mgmt_scheme \<Rightarrow> 'a interrupt_mgmt_scheme" where
  "interrupt_mgmt_setup_nmi D s =
     (let (value', s) = inb D NMI_ENABLE_PORT s;
          value' = (value' AND NOT NMI_DISABLE_BIT :: u8);
          s = outb NMI_ENABLE_PORT value' s
      in s\<lparr>im_nmi_enabled := 1\<rparr>)"

definition interrupt_mgmt_init :: "device \<Rightarrow> 'a interrupt_mgmt_scheme \<Rightarrow> 'a interrupt_mgmt_scheme" where
  "interrupt_mgmt_init D s =
     (let s = s\<lparr>im_nmi_supported := 0, im_smi_supported := 0, im_mce_supported := 0,
                im_thermal_interrupt_supported := 0, im_nmi_enabled := 0, im_smi_enabled := 0, im_mce_enabled := 0,
                im_mce_bank_count := 0, im_nmi_count := 0, im_smi_count := 0, im_mce_count := 0,
                im_interrupt_nesting_level := 0, im_last_interrupt_vector := 0\<rparr>;
          s = interrupt_mgmt_detect_capabilities D s;
          s = interrupt_mgmt_setup_mce D s
      in interrupt_mgmt_setup_nmi D s)"

definition interrupt_mgmt_is_nmi_supported :: "'a interrupt_mgmt_scheme \<Rightarrow> u8" where
  "interrupt_mgmt_is_nmi_supported s = im_nmi_supported s"

definition interrupt_mgmt_is_smi_supported :: "'a interrupt_mgmt_scheme \<Rightarrow> u8" where
  "interrupt_mgmt_is_smi_supported s = im_smi_supported s"

definition interrupt_mgmt_is_mce_supported :: "'a interrupt_mgmt_scheme \<Rightarrow> u8" where
  "interrupt_mgmt_is_mce_supported s = im_mce_supported s"

definition interrupt_mgmt_is_thermal_interrupt_supported :: "'a interrupt_mgmt_scheme \<Rightarrow> u8" where
  "interrupt_mgmt_is_thermal_interrupt_supported s = im_thermal_interrupt_supported s"

definition interrupt_mgmt_enable_nmi :: "device \<Rightarrow> 'a interrupt_mgmt_scheme \<Rightarrow> 'a interrupt_mgmt_scheme" where
  "interrupt_mgmt_enable_nmi D s =
     (if im_nmi_supported s = 0 then s
      else (let (value', s) = inb D NMI_ENABLE_PORT s;
                value' = (value' AND NOT NMI_DISABLE_BIT :: u8);
                s = outb NMI_ENABLE_PORT value' s
            in s\<lparr>im_nmi_enabled := 1\<rparr>))"

definition interrupt_mgmt_disable_nmi :: "device \<Rightarrow> 'a interrupt_mgmt_scheme \<Rightarrow> 'a interrupt_mgmt_scheme" where
  "interrupt_mgmt_disable_nmi D s =
     (if im_nmi_supported s = 0 then s
      else (let (value', s) = inb D NMI_ENABLE_PORT s;
                value' = (value' OR NMI_DISABLE_BIT :: u8);
                s = outb NMI_ENABLE_PORT value' s
            in s\<lparr>im_nmi_enabled := 0\<rparr>))"

definition interrupt_mgmt_is_nmi_enabled :: "'a interrupt_mgmt_scheme \<Rightarrow> u8" where
  "interrupt_mgmt_is_nmi_enabled s = im_nmi_enabled s"

definition interrupt_mgmt_trigger_nmi :: "device \<Rightarrow> 'a interrupt_mgmt_scheme \<Rightarrow> 'a interrupt_mgmt_scheme" where
  "interrupt_mgmt_trigger_nmi D s =
     (if im_nmi_supported s = 0 then s
      else call_ext ''apic_send_nmi'' [0xFF] s)"

definition interrupt_mgmt_get_nmi_count :: "'a interrupt_mgmt_scheme \<Rightarrow> u32" where
  "interrupt_mgmt_get_nmi_count s = im_nmi_count s"

definition interrupt_mgmt_get_smi_count :: "device \<Rightarrow> 'a interrupt_mgmt_scheme \<Rightarrow> u32 \<times> 'a interrupt_mgmt_scheme" where
  "interrupt_mgmt_get_smi_count D s =
     (if im_smi_supported s = 0 \<or> msr_is_supported s = 0 then (0, s)
      else (let (v, s) = msr_read D MSR_SMI_COUNT s
            in (ucast v, s)))"

definition interrupt_mgmt_get_mce_count :: "'a interrupt_mgmt_scheme \<Rightarrow> u32" where
  "interrupt_mgmt_get_mce_count s = im_mce_count s"

definition interrupt_mgmt_get_mce_bank_count :: "'a interrupt_mgmt_scheme \<Rightarrow> u32" where
  "interrupt_mgmt_get_mce_bank_count s = im_mce_bank_count s"

text \<open>The banks are scanned up to the first uncorrectable error. The count wraps, and a record before the first one is outside
  the array.\<close>

definition mce_record_bank :: "device \<Rightarrow> nat \<Rightarrow> u64 \<Rightarrow> 'a interrupt_mgmt_scheme \<Rightarrow> 'a interrupt_mgmt_scheme option" where
  "mce_record_bank D i status s =
     (if im_mce_count s \<le> 32 then
        (let k = unat (im_mce_count s - 1) in
         if k \<ge> 32 then None
         else (let s = s\<lparr>im_mce_records := (im_mce_records s)[k := (im_mce_records s ! k)\<lparr>mr_bank := of_nat i,
                     mr_status := status, mr_valid := 1\<rparr>]\<rparr>;
                   s = (if status AND MCE_STATUS_ADDRV \<noteq> 0 then
                          (let (v, s) = msr_read D (MSR_MC0_ADDR + of_nat i * 4) s
                           in s\<lparr>im_mce_records := (im_mce_records s)[k := (im_mce_records s ! k)\<lparr>mr_addr := v\<rparr>]\<rparr>)
                        else s)
               in Some (if status AND MCE_STATUS_MISCV \<noteq> 0 then
                          (let (v, s) = msr_read D (MSR_MC0_MISC + of_nat i * 4) s
                           in s\<lparr>im_mce_records := (im_mce_records s)[k := (im_mce_records s ! k)\<lparr>mr_misc := v\<rparr>]\<rparr>)
                        else s)))
      else Some s)"

fun mce_scan :: "device \<Rightarrow> nat list \<Rightarrow> 'a interrupt_mgmt_scheme \<Rightarrow> 'a interrupt_mgmt_scheme option" where
  "mce_scan D [] s = Some s"
| "mce_scan D (i # is) s =
     (let (status, s) = msr_read D (MSR_MC0_STATUS + of_nat i * 4) s in
      if status AND MCE_STATUS_VAL \<noteq> 0 then do {
        s \<leftarrow> mce_record_bank D i status s;
        let s = msr_write (MSR_MC0_STATUS + of_nat i * 4) 0 s;
        if status AND MCE_STATUS_UC \<noteq> 0 then Some s else mce_scan D is s }
      else mce_scan D is s)"

definition interrupt_mgmt_handle_mce :: "device \<Rightarrow> 'a interrupt_mgmt_scheme \<Rightarrow> 'a interrupt_mgmt_scheme option" where
  "interrupt_mgmt_handle_mce D s =
     (if im_mce_enabled s = 0 \<or> msr_is_supported s = 0 then Some s
      else do {
        let s = s\<lparr>im_mce_count := im_mce_count s + 1\<rparr>;
        let (mcg_status, s) = msr_read D MSR_MCG_STATUS s;
        s \<leftarrow> mce_scan D [0..<unat (im_mce_bank_count s)] s;
        Some (msr_write MSR_MCG_STATUS 0 s) })"

definition interrupt_mgmt_handle_nmi :: "device \<Rightarrow> 'a interrupt_mgmt_scheme \<Rightarrow> 'a interrupt_mgmt_scheme option" where
  "interrupt_mgmt_handle_nmi D s =
     (let s = s\<lparr>im_nmi_count := im_nmi_count s + 1, im_last_interrupt_vector := 2\<rparr>
      in (if im_mce_supported s \<noteq> 0 \<and> msr_is_supported s \<noteq> 0 then
             (let (mcg_status, s) = msr_read D MSR_MCG_STATUS s
              in (if mcg_status AND push_bit 2 1 \<noteq> 0 then interrupt_mgmt_handle_mce D s
                  else Some s))
          else Some s))"

definition interrupt_mgmt_get_mce_record :: "u32 \<Rightarrow> 'a interrupt_mgmt_scheme \<Rightarrow> mce_record option" where
  "interrupt_mgmt_get_mce_record index s =
     (if index \<ge> im_mce_count s \<or> index \<ge> 32 then None
      else Some (im_mce_records s ! (unat index)))"

definition interrupt_mgmt_clear_mce_records :: "'a interrupt_mgmt_scheme \<Rightarrow> 'a interrupt_mgmt_scheme" where
  "interrupt_mgmt_clear_mce_records s =
     (let s = s\<lparr>im_mce_count := 0\<rparr>
      in fold (\<lambda>i s. s\<lparr>im_mce_records := (im_mce_records s)[i := ((im_mce_records s) ! i)\<lparr>mr_valid := 0\<rparr>]\<rparr>)
            [0..<32] s)"

definition interrupt_mgmt_enter_interrupt :: "u32 \<Rightarrow> 'a interrupt_mgmt_scheme \<Rightarrow> 'a interrupt_mgmt_scheme" where
  "interrupt_mgmt_enter_interrupt vector s =
     s\<lparr>im_interrupt_nesting_level := im_interrupt_nesting_level s + 1, im_last_interrupt_vector := vector\<rparr>"

definition interrupt_mgmt_exit_interrupt :: "'a interrupt_mgmt_scheme \<Rightarrow> 'a interrupt_mgmt_scheme" where
  "interrupt_mgmt_exit_interrupt s =
     (if im_interrupt_nesting_level s > 0 then s\<lparr>im_interrupt_nesting_level := im_interrupt_nesting_level s - 1\<rparr>
      else s)"

definition interrupt_mgmt_get_nesting_level :: "'a interrupt_mgmt_scheme \<Rightarrow> u8" where
  "interrupt_mgmt_get_nesting_level s = im_interrupt_nesting_level s"

definition interrupt_mgmt_get_last_vector :: "'a interrupt_mgmt_scheme \<Rightarrow> u32" where
  "interrupt_mgmt_get_last_vector s = im_last_interrupt_vector s"

definition interrupt_mgmt_in_interrupt :: "'a interrupt_mgmt_scheme \<Rightarrow> u8" where
  "interrupt_mgmt_in_interrupt s = c_bool (im_interrupt_nesting_level s > 0)"

definition interrupt_mgmt_mask_all_interrupts :: "'a interrupt_mgmt_scheme \<Rightarrow> 'a interrupt_mgmt_scheme" where
  "interrupt_mgmt_mask_all_interrupts s = insn Cli s"

definition interrupt_mgmt_unmask_all_interrupts :: "'a interrupt_mgmt_scheme \<Rightarrow> 'a interrupt_mgmt_scheme" where
  "interrupt_mgmt_unmask_all_interrupts s = insn Sti s"

definition interrupt_mgmt_are_interrupts_enabled :: "device \<Rightarrow> 'a interrupt_mgmt_scheme \<Rightarrow> u8 \<times> 'a interrupt_mgmt_scheme" where
  "interrupt_mgmt_are_interrupts_enabled D s =
     (let (flags :: u32, s) = rd D (Isa ''pushf; pop %0'' [] 0) s
      in (c_bool (flags AND push_bit 9 1 \<noteq> 0), s))"

definition interrupt_mgmt_save_and_disable_interrupts :: "device \<Rightarrow> 'a interrupt_mgmt_scheme \<Rightarrow> u32 \<times> 'a interrupt_mgmt_scheme" where
  "interrupt_mgmt_save_and_disable_interrupts D s = rd D (Isa ''pushf; pop %0; cli'' [] 0) s"

definition interrupt_mgmt_restore_interrupts :: "u32 \<Rightarrow> 'a interrupt_mgmt_scheme \<Rightarrow> 'a interrupt_mgmt_scheme" where
  "interrupt_mgmt_restore_interrupts flags s = insn (Asm ''push %0; popf'' [ucast flags]) s"

definition interrupt_mgmt_setup_thermal_interrupt :: "device \<Rightarrow> 'a interrupt_mgmt_scheme \<Rightarrow> 'a interrupt_mgmt_scheme" where
  "interrupt_mgmt_setup_thermal_interrupt D s =
     (if im_thermal_interrupt_supported s = 0 then s
      else call_ext ''thermal_setup_interrupt'' [] s)"

definition interrupt_mgmt_handle_thermal_interrupt :: "device \<Rightarrow> 'a interrupt_mgmt_scheme \<Rightarrow> 'a interrupt_mgmt_scheme" where
  "interrupt_mgmt_handle_thermal_interrupt D s =
     (if im_thermal_interrupt_supported s = 0 then s
      else call_ext ''thermal_handle_interrupt'' [] s)"

definition interrupt_mgmt_is_mce_bank_valid :: "u32 \<Rightarrow> 'a interrupt_mgmt_scheme \<Rightarrow> u8" where
  "interrupt_mgmt_is_mce_bank_valid bank s = c_bool (bank < im_mce_bank_count s)"

definition interrupt_mgmt_read_mce_bank_status :: "device \<Rightarrow> u32 \<Rightarrow> 'a interrupt_mgmt_scheme \<Rightarrow> u64 \<times> 'a interrupt_mgmt_scheme" where
  "interrupt_mgmt_read_mce_bank_status D bank s =
     (if interrupt_mgmt_is_mce_bank_valid bank s = 0 \<or> msr_is_supported s = 0 then (0, s)
      else msr_read D (MSR_MC0_STATUS + (bank * 4)) s)"

definition interrupt_mgmt_clear_mce_bank_status :: "u32 \<Rightarrow> 'a interrupt_mgmt_scheme \<Rightarrow> 'a interrupt_mgmt_scheme" where
  "interrupt_mgmt_clear_mce_bank_status bank s =
     (if interrupt_mgmt_is_mce_bank_valid bank s = 0 \<or> msr_is_supported s = 0 then s
      else msr_write (MSR_MC0_STATUS + (bank * 4)) 0 s)"

definition interrupt_mgmt_enable_mce_bank :: "u32 \<Rightarrow> 'a interrupt_mgmt_scheme \<Rightarrow> 'a interrupt_mgmt_scheme" where
  "interrupt_mgmt_enable_mce_bank bank s =
     (if interrupt_mgmt_is_mce_bank_valid bank s = 0 \<or> msr_is_supported s = 0 then s
      else msr_write (MSR_MC0_CTL + (bank * 4)) 0xFFFFFFFFFFFFFFFF s)"

definition interrupt_mgmt_disable_mce_bank :: "u32 \<Rightarrow> 'a interrupt_mgmt_scheme \<Rightarrow> 'a interrupt_mgmt_scheme" where
  "interrupt_mgmt_disable_mce_bank bank s =
     (if interrupt_mgmt_is_mce_bank_valid bank s = 0 \<or> msr_is_supported s = 0 then s
      else msr_write (MSR_MC0_CTL + (bank * 4)) 0 s)"

section \<open>Machine checks\<close>

text \<open>Scanning keeps everything but the trace and the records.\<close>

lemma mce_record_bank_total:
  assumes "im_mce_count s \<noteq> 0"
  shows "\<exists>t. mce_record_bank D i v s = Some t \<and> im_mce_count t = im_mce_count s \<and> im_mce_bank_count t = im_mce_bank_count s \<and>
    msr_supported t = msr_supported s \<and> length (im_mce_records t) = length (im_mce_records s)"
proof (cases "im_mce_count s \<le> 32")
  case True
  then have "unat (im_mce_count s - 1) < 32"
    using assms by (simp add: unat_minus_one word_le_nat_alt unat_gt_0)
  with True show ?thesis by (simp add: mce_record_bank_def msr_read_def bus case_prod_beta Let_def)
qed (simp add: mce_record_bank_def)

lemma mce_scan_total:
  assumes "im_mce_count s \<noteq> 0"
  shows "\<exists>t. mce_scan D is s = Some t \<and> im_mce_count t = im_mce_count s \<and> length (im_mce_records t) = length (im_mce_records s)"
  using assms
proof (induction "is" arbitrary: s)
  case (Cons i "is")
  let ?r = "msr_read D (MSR_MC0_STATUS + of_nat i * 4) s"
  have r: "im_mce_count (snd ?r) = im_mce_count s" "im_mce_records (snd ?r) = im_mce_records s"
    by (simp_all add: msr_read_def bus)
  have w: "im_mce_count (msr_write p v u) = im_mce_count u" "im_mce_records (msr_write p v u) = im_mce_records u"
    for p v and u :: "'a interrupt_mgmt_scheme" by (simp_all add: msr_write_def bus)
  obtain u where "mce_record_bank D i (fst ?r) (snd ?r) = Some u" "im_mce_count u = im_mce_count s"
    "length (im_mce_records u) = length (im_mce_records s)"
    using mce_record_bank_total [of "snd ?r" D i "fst ?r"] r Cons.prems by auto
  with Cons.prems Cons.IH [of "snd ?r"] Cons.IH [of "msr_write (MSR_MC0_STATUS + of_nat i * 4) 0 u"] r w
  show ?case by (auto simp: case_prod_beta Let_def)
qed simp

text \<open>The handler returns, counting one event, unless the count wraps.\<close>

lemma handle_mce_returns:
  assumes "im_mce_enabled s \<noteq> 0" "msr_supported s \<noteq> 0" "im_mce_count s \<noteq> - 1"
  shows "\<exists>t. interrupt_mgmt_handle_mce D s = Some t \<and> im_mce_count t = im_mce_count s + 1"
proof -
  define u where "u = snd (msr_read D MSR_MCG_STATUS (s\<lparr>im_mce_count := im_mce_count s + 1\<rparr>))"
  have "im_mce_count u = im_mce_count s + 1" by (simp add: u_def msr_read_def bus)
  moreover from this have "im_mce_count u \<noteq> 0" using assms(3) by (simp add: eq_neg_iff_add_eq_0)
  ultimately obtain t where "mce_scan D [0..<unat (im_mce_bank_count u)] u = Some t" "im_mce_count t = im_mce_count s + 1"
    using mce_scan_total [of u D] by metis
  moreover have "interrupt_mgmt_handle_mce D s =
      Option.bind (mce_scan D [0..<unat (im_mce_bank_count u)] u) (\<lambda>s. Some (msr_write MSR_MCG_STATUS 0 s))"
    using assms(1,2) by (simp add: interrupt_mgmt_handle_mce_def msr_is_supported_def u_def case_prod_beta Let_def)
  ultimately show ?thesis by (simp add: msr_write_def bus)
qed

text \<open>
  One event has one record: when two banks report in the same event, the second report replaces the bank and status of the
  first, and keeps its address.
\<close>

lemma mce_second_bank_replaces:
  assumes "im_mce_count s = 1" "im_mce_records s = r # rs" "v AND MCE_STATUS_ADDRV = 0" "v AND MCE_STATUS_MISCV = 0"
  shows "mce_record_bank D i v s = Some (s\<lparr>im_mce_records := r\<lparr>mr_bank := of_nat i, mr_status := v, mr_valid := 1\<rparr> # rs\<rparr>)"
  using assms by (simp add: mce_record_bank_def Let_def)

text \<open>Entering and leaving balance up to 255 levels; one more and the level is 0, so the interrupt is no longer seen.\<close>

lemma interrupt_nesting:
  "im_interrupt_nesting_level s \<noteq> 255 \<Longrightarrow>
     im_interrupt_nesting_level (interrupt_mgmt_exit_interrupt (interrupt_mgmt_enter_interrupt v s)) = im_interrupt_nesting_level s"
  "im_interrupt_nesting_level s = 255 \<Longrightarrow> interrupt_mgmt_in_interrupt (interrupt_mgmt_enter_interrupt v s) = 0"
proof -
  assume h: "im_interrupt_nesting_level s \<noteq> 255"
  have "unat (im_interrupt_nesting_level s + 1) = unat (im_interrupt_nesting_level s) + 1"
    using h unsigned_less [of "im_interrupt_nesting_level s", where ?'a = nat] by (simp add: unat_word_ariths word_unat_eq_iff)
  then have "im_interrupt_nesting_level s + 1 \<noteq> 0" by (metis Suc_eq_plus1 nat.distinct(1) unat_0)
  then show "im_interrupt_nesting_level (interrupt_mgmt_exit_interrupt (interrupt_mgmt_enter_interrupt v s)) =
      im_interrupt_nesting_level s"
    by (simp add: interrupt_mgmt_exit_interrupt_def interrupt_mgmt_enter_interrupt_def word_neq_0_conv)
qed (simp add: interrupt_mgmt_in_interrupt_def interrupt_mgmt_enter_interrupt_def c_bool_def)

lemma without_im_nmi_supported:
  assumes "im_nmi_supported s = 0"
  shows "interrupt_mgmt_enable_nmi D s = s" "interrupt_mgmt_disable_nmi D s = s" "interrupt_mgmt_trigger_nmi D s = s"
  using assms by (simp_all add: interrupt_mgmt_enable_nmi_def interrupt_mgmt_disable_nmi_def
      interrupt_mgmt_trigger_nmi_def)

lemma without_im_thermal_interrupt_supported:
  assumes "im_thermal_interrupt_supported s = 0"
  shows "interrupt_mgmt_setup_thermal_interrupt D s = s" "interrupt_mgmt_handle_thermal_interrupt D s = s"
  using assms by (simp_all add: interrupt_mgmt_setup_thermal_interrupt_def interrupt_mgmt_handle_thermal_interrupt_def)

end
