(* ===== verification/Performance_Monitoring.thy ===== *)
theory Performance_Monitoring
  imports Msr_Regs
begin

text \<open>
  \<open>src/drivers/performance_monitoring.c\<close>: the performance counters of the processor. The fields of
  \<open>performance_monitoring_info_t\<close> carry the prefix \<open>pf_\<close>, those of a counter \<open>pc_\<close>. The numbers of counters are
  taken from the processor and not cut to the tables of eight and three places, so an access beyond a table has no result.
  \<open>timer_get_ticks\<close>, which no file defines, is answered by the environment.
\<close>

definition MSR_PERF_GLOBAL_CTRL_pf :: "'a::len word" where "MSR_PERF_GLOBAL_CTRL_pf = 0x38F"
definition MSR_PERF_GLOBAL_STATUS_pf :: "'a::len word" where "MSR_PERF_GLOBAL_STATUS_pf = 0x38E"
definition MSR_PERF_GLOBAL_OVF_CTRL_pf :: "'a::len word" where "MSR_PERF_GLOBAL_OVF_CTRL_pf = 0x390"
definition MSR_PERF_FIXED_CTR_CTRL_pf :: "'a::len word" where "MSR_PERF_FIXED_CTR_CTRL_pf = 0x38D"
definition MSR_PERFEVTSEL0_pf :: "'a::len word" where "MSR_PERFEVTSEL0_pf = 0x186"
definition MSR_PMC0_pf :: "'a::len word" where "MSR_PMC0_pf = 0xC1"
definition MSR_FIXED_CTR0_pf :: "'a::len word" where "MSR_FIXED_CTR0_pf = 0x309"
definition PERFEVTSEL_UMASK_SHIFT :: "'a::len word" where "PERFEVTSEL_UMASK_SHIFT = 8"
definition PERFEVTSEL_USR_pf :: "'a::len word" where "PERFEVTSEL_USR_pf = push_bit 16 1"
definition PERFEVTSEL_OS_pf :: "'a::len word" where "PERFEVTSEL_OS_pf = push_bit 17 1"
definition PERFEVTSEL_EN_pf :: "'a::len word" where "PERFEVTSEL_EN_pf = push_bit 22 1"

record perf_event_config =
  pec_event_select :: u32
  pec_umask :: u32
  pec_user_mode :: u8
  pec_kernel_mode :: u8
  pec_edge_detect :: u8
  pec_pin_control :: u8
  pec_interrupt_enable :: u8
  pec_any_thread :: u8
  pec_enable :: u8
  pec_invert :: u8
  pec_counter_mask :: u32

record perf_counter_pf =
  pc_value :: u64
  pc_last_value :: u64
  pc_overflow_count :: u64
  pc_enabled :: u8
  pc_config :: perf_event_config

record performance_monitoring = msr +
  pf_performance_monitoring_supported :: u8
  pf_architectural_perfmon_supported :: u8
  pf_version :: u8
  pf_num_gp_counters :: u8
  pf_gp_counter_width :: u8
  pf_num_fixed_counters :: u8
  pf_fixed_counter_width :: u8
  pf_anythread_deprecated :: u8
  pf_gp_counters :: "perf_counter_pf list"    \<comment> \<open>8\<close>
  pf_fixed_counters :: "perf_counter_pf list"    \<comment> \<open>3\<close>
  pf_global_ctrl :: u64
  pf_global_status :: u64
  pf_global_ovf_ctrl :: u64
  pf_fixed_ctrl :: u64
  pf_total_samples :: u32
  pf_overflow_interrupts :: u32
  pf_last_sample_time :: u64
  pf_monitoring_start_time :: u64
  pf_total_monitoring_time :: u64

definition performance_monitoring_detect_capabilities :: "device \<Rightarrow> 'a performance_monitoring_scheme \<Rightarrow> 'a performance_monitoring_scheme" where
  "performance_monitoring_detect_capabilities D s =
     (let ((eax, ebx, ecx, edx), s) = cpuid D 0xA s
      in (if eax AND 0xFF > 0 then s\<lparr>pf_architectural_perfmon_supported := 1, pf_version := ucast (eax AND 0xFF),
                                     pf_num_gp_counters := ucast (drop_bit 8 eax AND 0xFF),
                                     pf_gp_counter_width := ucast (drop_bit 16 eax AND 0xFF),
                                     pf_num_fixed_counters := ucast (edx AND 0x1F),
                                     pf_fixed_counter_width := ucast (drop_bit 5 edx AND 0xFF),
                                     pf_anythread_deprecated := ucast (drop_bit 15 edx AND 0x1),
                                     pf_performance_monitoring_supported := 1\<rparr>
          else s))"

definition performance_monitoring_init :: "device \<Rightarrow> 'a performance_monitoring_scheme \<Rightarrow> 'a performance_monitoring_scheme" where
  "performance_monitoring_init D s =
     (let s = s\<lparr>pf_performance_monitoring_supported := 0, pf_architectural_perfmon_supported := 0, pf_version := 0,
                pf_num_gp_counters := 0, pf_gp_counter_width := 0, pf_num_fixed_counters := 0, pf_fixed_counter_width := 0,
                pf_anythread_deprecated := 0, pf_global_ctrl := 0, pf_global_status := 0, pf_global_ovf_ctrl := 0,
                pf_fixed_ctrl := 0, pf_total_samples := 0, pf_overflow_interrupts := 0, pf_last_sample_time := 0,
                pf_monitoring_start_time := 0, pf_total_monitoring_time := 0\<rparr>;
          s = fold (\<lambda>i s.
                      (let s = s\<lparr>pf_gp_counters := (pf_gp_counters s)[i := ((pf_gp_counters s) ! i)\<lparr>pc_value := 0, pc_last_value := 0, pc_overflow_count := 0, pc_enabled := 0\<rparr>]\<rparr>
                       in s\<lparr>pf_gp_counters := (pf_gp_counters s)[i := ((pf_gp_counters s) ! i)\<lparr>pc_config := (pc_config ((pf_gp_counters s) ! i))\<lparr>pec_event_select := 0, pec_umask := 0, pec_user_mode := 0, pec_kernel_mode := 0, pec_edge_detect := 0, pec_pin_control := 0, pec_interrupt_enable := 0, pec_any_thread := 0, pec_enable := 0, pec_invert := 0, pec_counter_mask := 0\<rparr>\<rparr>]\<rparr>))
            [0..<8] s;
          s = fold (\<lambda>i s. s\<lparr>pf_fixed_counters := (pf_fixed_counters s)[i := ((pf_fixed_counters s) ! i)\<lparr>pc_value := 0, pc_last_value := 0, pc_overflow_count := 0, pc_enabled := 0\<rparr>]\<rparr>)
            [0..<3] s;
          s = performance_monitoring_detect_capabilities D s
      in (if pf_performance_monitoring_supported s \<noteq> 0 then
             (let (v, s) = ask_ext D ''timer_get_ticks'' [] s
              in s\<lparr>pf_monitoring_start_time := v\<rparr>)
          else s))"

definition performance_monitoring_is_supported :: "'a performance_monitoring_scheme \<Rightarrow> u8" where
  "performance_monitoring_is_supported s = pf_performance_monitoring_supported s"

definition performance_monitoring_get_version :: "'a performance_monitoring_scheme \<Rightarrow> u8" where
  "performance_monitoring_get_version s = pf_version s"

definition performance_monitoring_get_num_gp_counters :: "'a performance_monitoring_scheme \<Rightarrow> u8" where
  "performance_monitoring_get_num_gp_counters s = pf_num_gp_counters s"

definition performance_monitoring_get_gp_counter_width :: "'a performance_monitoring_scheme \<Rightarrow> u8" where
  "performance_monitoring_get_gp_counter_width s = pf_gp_counter_width s"

definition performance_monitoring_get_num_fixed_counters :: "'a performance_monitoring_scheme \<Rightarrow> u8" where
  "performance_monitoring_get_num_fixed_counters s = pf_num_fixed_counters s"

definition performance_monitoring_get_fixed_counter_width :: "'a performance_monitoring_scheme \<Rightarrow> u8" where
  "performance_monitoring_get_fixed_counter_width s = pf_fixed_counter_width s"

definition performance_monitoring_setup_gp_counter :: "u8 \<Rightarrow> u32 \<Rightarrow> u32 \<Rightarrow> u8 \<Rightarrow> u8 \<Rightarrow> 'a performance_monitoring_scheme \<Rightarrow> (u8 \<times> 'a performance_monitoring_scheme) option" where
  "performance_monitoring_setup_gp_counter counter event umask user kernel' s =
     (if counter \<ge> pf_num_gp_counters s \<or> msr_is_supported s = 0 then Some (0, s)
      else if unat counter \<ge> 8 then None
      else Some (let s = s\<lparr>pf_gp_counters := (pf_gp_counters s)[unat counter := ((pf_gp_counters s) ! (unat counter))\<lparr>pc_config := (pc_config ((pf_gp_counters s) ! (unat counter)))\<lparr>pec_event_select := event, pec_umask := umask, pec_user_mode := user, pec_kernel_mode := kernel', pec_enable := 1\<rparr>\<rparr>]\<rparr>;
                evtsel = (ucast (event OR push_bit 8 umask) :: u64);
                evtsel = (if user \<noteq> 0 then evtsel OR PERFEVTSEL_USR_pf else evtsel);
                evtsel = (if kernel' \<noteq> 0 then evtsel OR PERFEVTSEL_OS_pf else evtsel);
                evtsel = evtsel OR PERFEVTSEL_EN_pf;
                s = msr_write (MSR_PERFEVTSEL0_pf + ucast counter) evtsel s;
                s = msr_write (MSR_PMC0_pf + ucast counter) 0 s;
                s = s\<lparr>pf_gp_counters := (pf_gp_counters s)[unat counter := ((pf_gp_counters s) ! (unat counter))\<lparr>pc_enabled := 1, pc_value := 0, pc_last_value := 0\<rparr>]\<rparr>
            in (1, s)))"

definition performance_monitoring_enable_fixed_counter :: "device \<Rightarrow> u8 \<Rightarrow> u8 \<Rightarrow> u8 \<Rightarrow> 'a performance_monitoring_scheme \<Rightarrow> (u8 \<times> 'a performance_monitoring_scheme) option" where
  "performance_monitoring_enable_fixed_counter D counter user kernel' s =
     (if counter \<ge> pf_num_fixed_counters s \<or> msr_is_supported s = 0 then Some (0, s)
      else if unat counter \<ge> 3 then None
      else Some (let (fixed_ctrl, s) = msr_read D MSR_PERF_FIXED_CTR_CTRL_pf s;
                ctrl_bits = (0 :: u64);
                ctrl_bits = (if kernel' \<noteq> 0 then ctrl_bits OR 0x1 else ctrl_bits);
                ctrl_bits = (if user \<noteq> 0 then ctrl_bits OR 0x2 else ctrl_bits);
                fixed_ctrl = fixed_ctrl AND scast (NOT (push_bit (unat (ucast counter * 4 :: u32)) (0xF :: u32)));
                fixed_ctrl = fixed_ctrl OR push_bit (unat (ucast counter * 4 :: u32)) ctrl_bits;
                s = msr_write MSR_PERF_FIXED_CTR_CTRL_pf fixed_ctrl s;
                (global_ctrl, s) = msr_read D MSR_PERF_GLOBAL_CTRL_pf s;
                global_ctrl = global_ctrl OR push_bit (unat (32 + ucast counter :: u32)) (1 :: u64);
                s = msr_write MSR_PERF_GLOBAL_CTRL_pf global_ctrl s;
                s = s\<lparr>pf_fixed_counters := (pf_fixed_counters s)[unat counter := ((pf_fixed_counters s) ! (unat counter))\<lparr>pc_enabled := 1\<rparr>]\<rparr>;
                s = s\<lparr>pf_fixed_ctrl := fixed_ctrl, pf_global_ctrl := global_ctrl\<rparr>
            in (1, s)))"

definition performance_monitoring_read_gp_counter :: "device \<Rightarrow> u8 \<Rightarrow> 'a performance_monitoring_scheme \<Rightarrow> (u64 \<times> 'a performance_monitoring_scheme) option" where
  "performance_monitoring_read_gp_counter D counter s =
     (if counter \<ge> pf_num_gp_counters s \<or> msr_is_supported s = 0 then Some (0, s)
      else if unat counter \<ge> 8 then None
      else Some (let (value', s) = msr_read D (MSR_PMC0_pf + ucast counter) s;
                s = s\<lparr>pf_gp_counters := (pf_gp_counters s)[unat counter := ((pf_gp_counters s) ! (unat counter))\<lparr>pc_last_value := pc_value (pf_gp_counters s ! (unat counter)), pc_value := value'\<rparr>]\<rparr>
            in (value', s)))"

definition performance_monitoring_read_fixed_counter :: "device \<Rightarrow> u8 \<Rightarrow> 'a performance_monitoring_scheme \<Rightarrow> (u64 \<times> 'a performance_monitoring_scheme) option" where
  "performance_monitoring_read_fixed_counter D counter s =
     (if counter \<ge> pf_num_fixed_counters s \<or> msr_is_supported s = 0 then Some (0, s)
      else if unat counter \<ge> 3 then None
      else Some (let (value', s) = msr_read D (MSR_FIXED_CTR0_pf + ucast counter) s;
                s = s\<lparr>pf_fixed_counters := (pf_fixed_counters s)[unat counter := ((pf_fixed_counters s) ! (unat counter))\<lparr>pc_last_value := pc_value (pf_fixed_counters s ! (unat counter)), pc_value := value'\<rparr>]\<rparr>
            in (value', s)))"

definition performance_monitoring_start_global :: "'a performance_monitoring_scheme \<Rightarrow> ('a performance_monitoring_scheme) option" where
  "performance_monitoring_start_global s =
     (if pf_performance_monitoring_supported s = 0 \<or> msr_is_supported s = 0 then Some s
      else if unat (pf_num_gp_counters s) > 8 \<or> unat (pf_num_fixed_counters s) > 3 then None
      else Some (let global_ctrl = (0 :: u64);
                global_ctrl = fold (\<lambda>i global_ctrl.
                                      (if pc_enabled (pf_gp_counters s ! i) \<noteq> 0 then global_ctrl OR push_bit i (1 :: u64)
                                       else global_ctrl))
                  [0..<unat (pf_num_gp_counters s)] global_ctrl;
                global_ctrl = fold (\<lambda>i global_ctrl.
                                      (if pc_enabled (pf_fixed_counters s ! i) \<noteq> 0 then global_ctrl OR
                                       push_bit (32 + i) (1 :: u64)
                                       else global_ctrl))
                  [0..<unat (pf_num_fixed_counters s)] global_ctrl;
                s = msr_write MSR_PERF_GLOBAL_CTRL_pf global_ctrl s
            in s\<lparr>pf_global_ctrl := global_ctrl\<rparr>))"

definition performance_monitoring_stop_global :: "'a performance_monitoring_scheme \<Rightarrow> 'a performance_monitoring_scheme" where
  "performance_monitoring_stop_global s =
     (if pf_performance_monitoring_supported s = 0 \<or> msr_is_supported s = 0 then s
      else (let s = msr_write MSR_PERF_GLOBAL_CTRL_pf 0 s
            in s\<lparr>pf_global_ctrl := 0\<rparr>))"

definition performance_monitoring_get_instructions_retired :: "device \<Rightarrow> 'a performance_monitoring_scheme \<Rightarrow> (u64 \<times> 'a performance_monitoring_scheme) option" where
  "performance_monitoring_get_instructions_retired D s = performance_monitoring_read_fixed_counter D 0 s"

definition performance_monitoring_get_cpu_cycles :: "device \<Rightarrow> 'a performance_monitoring_scheme \<Rightarrow> (u64 \<times> 'a performance_monitoring_scheme) option" where
  "performance_monitoring_get_cpu_cycles D s = performance_monitoring_read_fixed_counter D 1 s"

definition performance_monitoring_get_reference_cycles :: "device \<Rightarrow> 'a performance_monitoring_scheme \<Rightarrow> (u64 \<times> 'a performance_monitoring_scheme) option" where
  "performance_monitoring_get_reference_cycles D s = performance_monitoring_read_fixed_counter D 2 s"

definition performance_monitoring_calculate_ipc :: "device \<Rightarrow> 'a performance_monitoring_scheme \<Rightarrow> (u32 \<times> 'a performance_monitoring_scheme) option" where
  "performance_monitoring_calculate_ipc D s = do {
     (instructions, s) \<leftarrow> performance_monitoring_get_instructions_retired D s;
     (cycles, s) \<leftarrow> performance_monitoring_get_cpu_cycles D s;
     Some (if cycles = 0 then (0, s) else (ucast ((instructions * 1000) div cycles), s)) }"

fun sample_gp :: "device \<Rightarrow> nat list \<Rightarrow> 'a performance_monitoring_scheme \<Rightarrow> 'a performance_monitoring_scheme option" where
  "sample_gp D [] s = Some s"
| "sample_gp D (i # is) s =
     (if i \<ge> 8 then None
      else if pc_enabled (pf_gp_counters s ! i) \<noteq> 0 then do {
        (v, s) \<leftarrow> performance_monitoring_read_gp_counter D (of_nat i) s;
        sample_gp D is s }
      else sample_gp D is s)"

fun sample_fixed :: "device \<Rightarrow> nat list \<Rightarrow> 'a performance_monitoring_scheme \<Rightarrow> 'a performance_monitoring_scheme option" where
  "sample_fixed D [] s = Some s"
| "sample_fixed D (i # is) s =
     (if i \<ge> 3 then None
      else if pc_enabled (pf_fixed_counters s ! i) \<noteq> 0 then do {
        (v, s) \<leftarrow> performance_monitoring_read_fixed_counter D (of_nat i) s;
        sample_fixed D is s }
      else sample_fixed D is s)"

definition performance_monitoring_sample_all_counters :: "device \<Rightarrow> 'a performance_monitoring_scheme \<Rightarrow> 'a performance_monitoring_scheme option" where
  "performance_monitoring_sample_all_counters D s =
     (if pf_performance_monitoring_supported s = 0 then Some s
      else do {
        s \<leftarrow> sample_gp D [0..<unat (pf_num_gp_counters s)] s;
        s \<leftarrow> sample_fixed D [0..<unat (pf_num_fixed_counters s)] s;
        let s = s\<lparr>pf_total_samples := pf_total_samples s + 1\<rparr>;
        let (v, s) = ask_ext D ''timer_get_ticks'' [] s;
        let s = s\<lparr>pf_last_sample_time := v\<rparr>;
        Some (if pf_monitoring_start_time s > 0
              then s\<lparr>pf_total_monitoring_time := pf_last_sample_time s - pf_monitoring_start_time s\<rparr>
              else s) })"

definition performance_monitoring_handle_overflow :: "u8 \<Rightarrow> 'a performance_monitoring_scheme \<Rightarrow> 'a performance_monitoring_scheme option" where
  "performance_monitoring_handle_overflow counter s =
     (if counter < pf_num_gp_counters s then
        (if unat counter \<ge> 8 then None
         else Some (s\<lparr>pf_gp_counters := (pf_gp_counters s)[unat counter := (pf_gp_counters s ! unat counter)\<lparr>pc_overflow_count :=
                pc_overflow_count (pf_gp_counters s ! unat counter) + 1\<rparr>],
              pf_overflow_interrupts := pf_overflow_interrupts s + 1\<rparr>))
      else if counter \<ge> 32 \<and> counter - 32 < pf_num_fixed_counters s then
        (let k = unat (counter - 32)
         in if k \<ge> 3 then None
            else Some (s\<lparr>pf_fixed_counters := (pf_fixed_counters s)[k := (pf_fixed_counters s ! k)\<lparr>pc_overflow_count :=
                   pc_overflow_count (pf_fixed_counters s ! k) + 1\<rparr>],
                 pf_overflow_interrupts := pf_overflow_interrupts s + 1\<rparr>))
      else Some (s\<lparr>pf_overflow_interrupts := pf_overflow_interrupts s + 1\<rparr>))"

definition performance_monitoring_get_global_status :: "device \<Rightarrow> 'a performance_monitoring_scheme \<Rightarrow> u64 \<times> 'a performance_monitoring_scheme" where
  "performance_monitoring_get_global_status D s =
     (if msr_is_supported s = 0 then (0, s)
      else (let (status, s) = msr_read D MSR_PERF_GLOBAL_STATUS_pf s;
                s = s\<lparr>pf_global_status := status\<rparr>
            in (status, s)))"

definition performance_monitoring_clear_global_status :: "device \<Rightarrow> 'a performance_monitoring_scheme \<Rightarrow> 'a performance_monitoring_scheme" where
  "performance_monitoring_clear_global_status D s =
     (if msr_is_supported s = 0 then s
      else (let (status, s) = performance_monitoring_get_global_status D s;
                s = msr_write MSR_PERF_GLOBAL_OVF_CTRL_pf status s
            in s\<lparr>pf_global_ovf_ctrl := status\<rparr>))"

definition performance_monitoring_get_gp_counter_info :: "u8 \<Rightarrow> 'a performance_monitoring_scheme \<Rightarrow> perf_counter_pf option option" where
  "performance_monitoring_get_gp_counter_info counter s =
     (if counter \<ge> pf_num_gp_counters s then Some None
      else if unat counter \<ge> 8 then None
      else Some (Some (pf_gp_counters s ! unat counter)))"

definition performance_monitoring_get_fixed_counter_info :: "u8 \<Rightarrow> 'a performance_monitoring_scheme \<Rightarrow> perf_counter_pf option option" where
  "performance_monitoring_get_fixed_counter_info counter s =
     (if counter \<ge> pf_num_fixed_counters s then Some None
      else if unat counter \<ge> 3 then None
      else Some (Some (pf_fixed_counters s ! unat counter)))"

definition performance_monitoring_get_total_samples :: "'a performance_monitoring_scheme \<Rightarrow> u32" where
  "performance_monitoring_get_total_samples s = pf_total_samples s"

definition performance_monitoring_get_overflow_interrupts :: "'a performance_monitoring_scheme \<Rightarrow> u32" where
  "performance_monitoring_get_overflow_interrupts s = pf_overflow_interrupts s"

definition performance_monitoring_get_last_sample_time :: "'a performance_monitoring_scheme \<Rightarrow> u64" where
  "performance_monitoring_get_last_sample_time s = pf_last_sample_time s"

definition performance_monitoring_get_total_monitoring_time :: "'a performance_monitoring_scheme \<Rightarrow> u64" where
  "performance_monitoring_get_total_monitoring_time s = pf_total_monitoring_time s"

definition performance_monitoring_clear_statistics :: "'a performance_monitoring_scheme \<Rightarrow> 'a performance_monitoring_scheme option" where
  "performance_monitoring_clear_statistics s =
     (if unat (pf_num_gp_counters s) > 8 \<or> unat (pf_num_fixed_counters s) > 3 then None else Some (let s = s\<lparr>pf_total_samples := 0, pf_overflow_interrupts := 0\<rparr>;
          s = fold (\<lambda>i s. s\<lparr>pf_gp_counters := (pf_gp_counters s)[i := ((pf_gp_counters s) ! i)\<lparr>pc_overflow_count := 0\<rparr>]\<rparr>)
            [0..<unat (pf_num_gp_counters s)] s
      in fold (\<lambda>i s. s\<lparr>pf_fixed_counters := (pf_fixed_counters s)[i := ((pf_fixed_counters s) ! i)\<lparr>pc_overflow_count := 0\<rparr>]\<rparr>)
            [0..<unat (pf_num_fixed_counters s)] s))"

section \<open>The tables\<close>

text \<open>
  A processor with four fixed counters is accepted by the detection, and the first sample of them leaves the table.
\<close>

lemma performance_monitoring_four_fixed:
  assumes "pf_performance_monitoring_supported s \<noteq> 0" "pf_num_gp_counters s = 0" "pf_num_fixed_counters s = 4"
    and "\<forall>i<3. pc_enabled (pf_fixed_counters s ! i) = 0"
  shows "performance_monitoring_sample_all_counters D s = None"
proof -
  have "[0..<4] = [0, 1, 2, 3 :: nat]" by (simp add: upt_rec)
  with assms show ?thesis by (simp add: performance_monitoring_sample_all_counters_def)
qed

text \<open>Within the tables a sample returns, and reads nothing of a counter that is not enabled.\<close>

lemma sample_gp_idle:
  assumes "\<forall>i\<in>set is. i < 8 \<and> pc_enabled (pf_gp_counters s ! i) = 0"
  shows "sample_gp D is s = Some s"
  using assms by (induction "is") auto

lemma sample_fixed_idle:
  assumes "\<forall>i\<in>set is. i < 3 \<and> pc_enabled (pf_fixed_counters s ! i) = 0"
  shows "sample_fixed D is s = Some s"
  using assms by (induction "is") auto

text \<open>A fixed counter takes four bits of the control register; the others are left alone.\<close>

lemma performance_monitoring_fixed_bits:
  assumes "msr_supported s \<noteq> 0" "counter < pf_num_fixed_counters s" "unat counter < 3" "n < 64"
    and "performance_monitoring_enable_fixed_counter D counter user kern s = Some (r, t)"
  shows "r = 1" "bit (pf_fixed_ctrl t) n =
    (if n = 4 * unat counter then kern \<noteq> 0 else if n = 4 * unat counter + 1 then user \<noteq> 0
     else if n \<in> {4 * unat counter + 2, 4 * unat counter + 3} then False
     else bit (D (trace s) (Msr MSR_PERF_FIXED_CTR_CTRL_pf)) n)"
proof -
  have h: "(pf_num_fixed_counters s \<le> counter) = False" "(3 \<le> unat counter) = False" using assms(2,3) by auto
  have u: "unat (ucast counter * 4 :: u32) = 4 * unat counter"
    using assms(3) by (simp add: unat_word_ariths unat_ucast_up)
  have m: "(0xF :: u32) = mask 4" by (simp add: mask_eq_exp_minus_1)
  let ?b = "if kern \<noteq> 0 then (if user \<noteq> 0 then 3 else 1) else if user \<noteq> 0 then 2 else 0 :: u64"
  have t: "r = 1" "pf_fixed_ctrl t = (D (trace s) (Msr MSR_PERF_FIXED_CTR_CTRL_pf) AND
      scast (NOT (push_bit (4 * unat counter) (mask 4 :: u32)))) OR push_bit (4 * unat counter) ?b"
    using assms(1,5) unfolding performance_monitoring_enable_fixed_counter_def m u
    by (auto simp: h msr_is_supported_def msr_on Let_def)
  have two: "(2 :: u64) = push_bit 1 1" "(3 :: u64) = mask 2" by (simp_all add: push_bit_eq_mult mask_eq_exp_minus_1)
  show "r = 1" by (rule t(1))
  show "bit (pf_fixed_ctrl t) n =
    (if n = 4 * unat counter then kern \<noteq> 0 else if n = 4 * unat counter + 1 then user \<noteq> 0
     else if n \<in> {4 * unat counter + 2, 4 * unat counter + 3} then False
     else bit (D (trace s) (Msr MSR_PERF_FIXED_CTR_CTRL_pf)) n)"
    using assms(3,4) unfolding t(2) two by (auto simp: bit_simps min_def not_le)
qed

lemma without_pf_performance_monitoring_supported:
  assumes "pf_performance_monitoring_supported s = 0"
  shows "performance_monitoring_start_global s = Some s" "performance_monitoring_stop_global s = s"
    "performance_monitoring_sample_all_counters D s = Some s"
  using assms by (simp_all add: performance_monitoring_start_global_def performance_monitoring_stop_global_def
      performance_monitoring_sample_all_counters_def)

end
