(* ===== verification/Power_States.thy ===== *)
theory Power_States
  imports Msr_Regs
begin

text \<open>
  \<open>src/drivers/power_states.c\<close>: idle states and performance states. The fields of \<open>power_states_info_t\<close> carry the
  prefix \<open>ps_\<close>, those of its tables \<open>ci_\<close> and \<open>pi_\<close>. The address handed to \<open>monitor\<close> is a parameter.
  \<open>timer_get_ticks\<close>, which no file defines, is answered by the environment.
\<close>

definition MSR_CORE_C3_RESIDENCY :: "'a::len word" where "MSR_CORE_C3_RESIDENCY = 0x3FC"
definition MSR_CORE_C6_RESIDENCY :: "'a::len word" where "MSR_CORE_C6_RESIDENCY = 0x3FD"
definition MSR_CORE_C7_RESIDENCY :: "'a::len word" where "MSR_CORE_C7_RESIDENCY = 0x3FE"
definition MSR_PERF_CTL_ps :: "'a::len word" where "MSR_PERF_CTL_ps = 0x199"
definition MSR_THERM_STATUS_ps :: "'a::len word" where "MSR_THERM_STATUS_ps = 0x19C"
definition CSTATE_C0 :: "'a::len word" where "CSTATE_C0 = 0"
definition CSTATE_C1 :: "'a::len word" where "CSTATE_C1 = 1"
definition CSTATE_C1E :: "'a::len word" where "CSTATE_C1E = 2"
definition CSTATE_C3 :: "'a::len word" where "CSTATE_C3 = 3"
definition CSTATE_C6 :: "'a::len word" where "CSTATE_C6 = 6"
definition CSTATE_C7 :: "'a::len word" where "CSTATE_C7 = 7"
definition CSTATE_C8 :: "'a::len word" where "CSTATE_C8 = 8"
definition CSTATE_C9 :: "'a::len word" where "CSTATE_C9 = 9"
definition CSTATE_C10 :: "'a::len word" where "CSTATE_C10 = 10"
definition PSTATE_P0 :: "'a::len word" where "PSTATE_P0 = 0"
definition PSTATE_P1 :: "'a::len word" where "PSTATE_P1 = 1"
definition PSTATE_P2 :: "'a::len word" where "PSTATE_P2 = 2"
definition PSTATE_P3 :: "'a::len word" where "PSTATE_P3 = 3"
definition PSTATE_P4 :: "'a::len word" where "PSTATE_P4 = 4"
definition PSTATE_P5 :: "'a::len word" where "PSTATE_P5 = 5"
definition PSTATE_P6 :: "'a::len word" where "PSTATE_P6 = 6"
definition PSTATE_P7 :: "'a::len word" where "PSTATE_P7 = 7"

record cstate_info =
  ci_state :: u8
  ci_entry_time :: u64
  ci_exit_time :: u64
  ci_residency_time :: u64
  ci_entry_count :: u32
  ci_exit_latency_us :: u32
  ci_available :: u8

record pstate_info_ps =
  pi_state :: u8
  pi_frequency_mhz :: u16
  pi_voltage_mv :: u16
  pi_power_mw :: u32
  pi_transition_time :: u64
  pi_transition_count :: u32
  pi_transition_latency_us :: u32
  pi_available :: u8

record power_states = msr +
  ps_power_states_supported :: u8
  ps_cstates_supported :: u8
  ps_pstates_supported :: u8
  ps_current_cstate :: u8
  ps_current_pstate :: u8
  ps_max_cstate :: u8
  ps_max_pstate :: u8
  ps_num_cstates :: u8
  ps_num_pstates :: u8
  ps_cstates :: "cstate_info list"    \<comment> \<open>16\<close>
  ps_pstates :: "pstate_info_ps list"    \<comment> \<open>16\<close>
  ps_total_power_transitions :: u64
  ps_total_cstate_residency :: u64
  ps_total_pstate_time :: u64
  ps_thermal_throttle_count :: u32
  ps_power_limit_throttle_count :: u32
  ps_last_transition_time :: u64
  ps_current_temperature :: u16
  ps_max_temperature :: u16
  ps_power_management_enabled :: u8

definition power_states_detect_cstates :: "device \<Rightarrow> 'a power_states_scheme \<Rightarrow> 'a power_states_scheme" where
  "power_states_detect_cstates D s =
     (let ((eax, ebx, ecx, edx), s) = cpuid D 1 s;
          s = s\<lparr>ps_cstates_supported := c_bool (ecx AND push_bit 3 1 \<noteq> 0)\<rparr>
      in (if ps_cstates_supported s = 0 then s
          else (let ((eax, ebx, ecx, edx), s) = cpuid D 5 s;
                    cstate_count = (0 :: u8);
                    s = s\<lparr>ps_cstates := (ps_cstates s)[unat cstate_count := ((ps_cstates s) ! (unat cstate_count))\<lparr>ci_state := CSTATE_C0, ci_available := 1, ci_exit_latency_us := 0\<rparr>]\<rparr>;
                    cstate_count = (cstate_count + 1 :: u8);
                    s = s\<lparr>ps_cstates := (ps_cstates s)[unat cstate_count := ((ps_cstates s) ! (unat cstate_count))\<lparr>ci_state := CSTATE_C1, ci_available := 1, ci_exit_latency_us := 1\<rparr>]\<rparr>;
                    cstate_count = (cstate_count + 1 :: u8);
                    (cstate_count, s) = (if ecx AND 0xF0 \<noteq> 0 then
                                            (let s = s\<lparr>ps_cstates := (ps_cstates s)[unat cstate_count := ((ps_cstates s) ! (unat cstate_count))\<lparr>ci_state := CSTATE_C3, ci_available := 1, ci_exit_latency_us := 50\<rparr>]\<rparr>;
                                                 cstate_count = (cstate_count + 1 :: u8)
                                             in (cstate_count, s))
                                         else (cstate_count, s));
                    (cstate_count, s) = (if ecx AND 0xF00 \<noteq> 0 then
                                            (let s = s\<lparr>ps_cstates := (ps_cstates s)[unat cstate_count := ((ps_cstates s) ! (unat cstate_count))\<lparr>ci_state := CSTATE_C6, ci_available := 1, ci_exit_latency_us := 100\<rparr>]\<rparr>;
                                                 cstate_count = (cstate_count + 1 :: u8)
                                             in (cstate_count, s))
                                         else (cstate_count, s));
                    (cstate_count, s) = (if ecx AND 0xF000 \<noteq> 0 then
                                            (let s = s\<lparr>ps_cstates := (ps_cstates s)[unat cstate_count := ((ps_cstates s) ! (unat cstate_count))\<lparr>ci_state := CSTATE_C7, ci_available := 1, ci_exit_latency_us := 200\<rparr>]\<rparr>;
                                                 cstate_count = (cstate_count + 1 :: u8)
                                             in (cstate_count, s))
                                         else (cstate_count, s))
                in s\<lparr>ps_num_cstates := cstate_count,
                  ps_max_cstate := ci_state (ps_cstates s ! (unat (ucast cstate_count - 1 :: u32)))\<rparr>)))"

definition power_states_detect_pstates :: "device \<Rightarrow> 'a power_states_scheme \<Rightarrow> 'a power_states_scheme" where
  "power_states_detect_pstates D s =
     (let ((eax, ebx, ecx, edx), s) = cpuid D 1 s;
          s = s\<lparr>ps_pstates_supported := c_bool (ecx AND push_bit 7 1 \<noteq> 0)\<rparr>
      in (if ps_pstates_supported s = 0 then s
          else (let pstate_count = (0 :: u8);
                    (pstate_count, s) = fold (\<lambda>i (pstate_count, s).
                                                (let s = s\<lparr>ps_pstates := (ps_pstates s)[unat pstate_count := ((ps_pstates s) ! (unat pstate_count))\<lparr>pi_state := of_nat i, pi_frequency_mhz := 3000 - (of_nat i * 300), pi_voltage_mv := 1200 - (of_nat i * 100), pi_power_mw := 65000 - (of_nat i * 8000), pi_transition_latency_us := 10, pi_available := 1\<rparr>]\<rparr>;
                                                     pstate_count = (pstate_count + 1 :: u8)
                                                 in (pstate_count, s)))
                      [0..<8] (pstate_count, s)
                in s\<lparr>ps_num_pstates := pstate_count, ps_max_pstate := pstate_count - 1\<rparr>)))"

definition power_states_init :: "device \<Rightarrow> 'a power_states_scheme \<Rightarrow> 'a power_states_scheme" where
  "power_states_init D s =
     (let s = s\<lparr>ps_power_states_supported := 0, ps_cstates_supported := 0, ps_pstates_supported := 0,
                ps_current_cstate := CSTATE_C0, ps_current_pstate := PSTATE_P0, ps_max_cstate := CSTATE_C0,
                ps_max_pstate := PSTATE_P0, ps_num_cstates := 0, ps_num_pstates := 0, ps_total_power_transitions := 0,
                ps_total_cstate_residency := 0, ps_total_pstate_time := 0, ps_thermal_throttle_count := 0,
                ps_power_limit_throttle_count := 0, ps_last_transition_time := 0, ps_current_temperature := 0,
                ps_max_temperature := 0, ps_power_management_enabled := 1\<rparr>;
          s = fold (\<lambda>i s.
                      (let s = s\<lparr>ps_cstates := (ps_cstates s)[i := ((ps_cstates s) ! i)\<lparr>ci_state := 0,
                                                            ci_entry_time := 0, ci_exit_time := 0, ci_residency_time := 0,
                                                            ci_entry_count := 0, ci_exit_latency_us := 0,
                                                            ci_available := 0\<rparr>]\<rparr>
                       in s\<lparr>ps_pstates := (ps_pstates s)[i := ((ps_pstates s) ! i)\<lparr>pi_state := 0,
                                                            pi_frequency_mhz := 0, pi_voltage_mv := 0, pi_power_mw := 0,
                                                            pi_transition_time := 0, pi_transition_count := 0,
                                                            pi_transition_latency_us := 0, pi_available := 0\<rparr>]\<rparr>))
            [0..<16] s;
          s = power_states_detect_cstates D s;
          s = power_states_detect_pstates D s
      in (if ps_cstates_supported s \<noteq> 0 \<or> ps_pstates_supported s \<noteq> 0
          then s\<lparr>ps_power_states_supported := 1\<rparr>
          else s))"

definition power_states_is_supported :: "'a power_states_scheme \<Rightarrow> u8" where
  "power_states_is_supported s = ps_power_states_supported s"

definition power_states_is_cstates_supported :: "'a power_states_scheme \<Rightarrow> u8" where
  "power_states_is_cstates_supported s = ps_cstates_supported s"

definition power_states_is_pstates_supported :: "'a power_states_scheme \<Rightarrow> u8" where
  "power_states_is_pstates_supported s = ps_pstates_supported s"

definition power_states_enter_cstate :: "device \<Rightarrow> u32 \<Rightarrow> u8 \<Rightarrow> 'a power_states_scheme \<Rightarrow> u8 \<times> 'a power_states_scheme" where
  "power_states_enter_cstate D address cstate s =
     (if ps_cstates_supported s = 0 \<or> cstate \<ge> ps_num_cstates s then (0, s)
      else if ci_available (ps_cstates s ! unat cstate) = 0 then (0, s)
      else (let (entry_time, s) = ask_ext D ''timer_get_ticks'' [] s
            in if cstate \<notin> {CSTATE_C1, CSTATE_C3, CSTATE_C6, CSTATE_C7} then (0, s)
               else (let s = (if cstate = CSTATE_C1 then insn (Asm ''hlt'' []) s
                              else insn (Asm ''mwait'' [push_bit 4 (ucast cstate), 0]) (insn (Asm ''monitor'' [ucast address, 0, 0]) s));
                         (exit_time, s) = ask_ext D ''timer_get_ticks'' [] s;
                         i = unat cstate;
                         s = s\<lparr>ps_cstates := (ps_cstates s)[i := (ps_cstates s ! i)\<lparr>ci_entry_time := entry_time,
                               ci_exit_time := exit_time,
                               ci_residency_time := ci_residency_time (ps_cstates s ! i) + (exit_time - entry_time),
                               ci_entry_count := ci_entry_count (ps_cstates s ! i) + 1\<rparr>],
                             ps_total_cstate_residency := ps_total_cstate_residency s + (exit_time - entry_time),
                             ps_total_power_transitions := ps_total_power_transitions s + 1,
                             ps_last_transition_time := exit_time\<rparr>
                     in (1, s))))"

definition power_states_set_pstate :: "device \<Rightarrow> u8 \<Rightarrow> 'a power_states_scheme \<Rightarrow> u8 \<times> 'a power_states_scheme" where
  "power_states_set_pstate D pstate s =
     (if ps_pstates_supported s = 0 \<or> pstate \<ge> ps_num_pstates s then (0, s)
      else if pi_available (ps_pstates s ! (unat pstate)) = 0 \<or> msr_is_supported s = 0 then (0, s)
      else (let (transition_start, s) = ask_ext D ''timer_get_ticks'' [] s;
                perf_ctl = (push_bit 8 (ucast pstate) :: u64);
                s = msr_write MSR_PERF_CTL_ps perf_ctl s;
                (transition_end, s) = ask_ext D ''timer_get_ticks'' [] s;
                s = s\<lparr>ps_current_pstate := pstate\<rparr>;
                s = s\<lparr>ps_pstates := (ps_pstates s)[unat pstate := ((ps_pstates s) ! (unat pstate))\<lparr>pi_transition_time := transition_end, pi_transition_count := (pi_transition_count (ps_pstates s ! (unat pstate))) + 1\<rparr>]\<rparr>;
                s = s\<lparr>ps_total_power_transitions := ps_total_power_transitions s + 1,
                      ps_last_transition_time := transition_end\<rparr>
            in (1, s)))"

definition power_states_get_current_cstate :: "'a power_states_scheme \<Rightarrow> u8" where
  "power_states_get_current_cstate s = ps_current_cstate s"

definition power_states_get_current_pstate :: "'a power_states_scheme \<Rightarrow> u8" where
  "power_states_get_current_pstate s = ps_current_pstate s"

definition power_states_get_max_cstate :: "'a power_states_scheme \<Rightarrow> u8" where
  "power_states_get_max_cstate s = ps_max_cstate s"

definition power_states_get_max_pstate :: "'a power_states_scheme \<Rightarrow> u8" where
  "power_states_get_max_pstate s = ps_max_pstate s"

definition power_states_get_num_cstates :: "'a power_states_scheme \<Rightarrow> u8" where
  "power_states_get_num_cstates s = ps_num_cstates s"

definition power_states_get_num_pstates :: "'a power_states_scheme \<Rightarrow> u8" where
  "power_states_get_num_pstates s = ps_num_pstates s"

definition power_states_get_cstate_info :: "u8 \<Rightarrow> 'a power_states_scheme \<Rightarrow> cstate_info option" where
  "power_states_get_cstate_info cstate s =
     (if cstate \<ge> ps_num_cstates s then None
      else Some (ps_cstates s ! (unat cstate)))"

definition power_states_get_pstate_info :: "u8 \<Rightarrow> 'a power_states_scheme \<Rightarrow> pstate_info_ps option" where
  "power_states_get_pstate_info pstate s =
     (if pstate \<ge> ps_num_pstates s then None
      else Some (ps_pstates s ! (unat pstate)))"

definition power_states_get_cstate_residency :: "device \<Rightarrow> u8 \<Rightarrow> 'a power_states_scheme \<Rightarrow> u64 \<times> 'a power_states_scheme" where
  "power_states_get_cstate_residency D cstate s =
     (if ps_cstates_supported s = 0 \<or> msr_is_supported s = 0 then (0, s)
      else if cstate = CSTATE_C3 then msr_read D MSR_CORE_C3_RESIDENCY s
      else if cstate = CSTATE_C6 then msr_read D MSR_CORE_C6_RESIDENCY s
      else if cstate = CSTATE_C7 then msr_read D MSR_CORE_C7_RESIDENCY s
      else (0, s))"

definition power_states_get_current_temperature :: "device \<Rightarrow> 'a power_states_scheme \<Rightarrow> u16 \<times> 'a power_states_scheme" where
  "power_states_get_current_temperature D s =
     (if msr_is_supported s = 0 then (0, s)
      else (let (therm_status, s) = msr_read D MSR_THERM_STATUS_ps s;
                temperature = (ucast (drop_bit 16 therm_status AND 0x7F) :: u16);
                s = s\<lparr>ps_current_temperature := temperature\<rparr>;
                s = (if temperature > ps_max_temperature s then s\<lparr>ps_max_temperature := temperature\<rparr>
                     else s)
            in (temperature, s)))"

definition power_states_is_thermal_throttling :: "device \<Rightarrow> 'a power_states_scheme \<Rightarrow> u8 \<times> 'a power_states_scheme" where
  "power_states_is_thermal_throttling D s =
     (if msr_is_supported s = 0 then (0, s)
      else (let (therm_status, s) = msr_read D MSR_THERM_STATUS_ps s
            in (if therm_status AND push_bit 0 1 \<noteq> 0 then
                   (let s = s\<lparr>ps_thermal_throttle_count := ps_thermal_throttle_count s + 1\<rparr>
                    in (1, s))
                else (0, s))))"

definition power_states_get_total_transitions :: "'a power_states_scheme \<Rightarrow> u64" where
  "power_states_get_total_transitions s = ps_total_power_transitions s"

definition power_states_get_total_cstate_residency :: "'a power_states_scheme \<Rightarrow> u64" where
  "power_states_get_total_cstate_residency s = ps_total_cstate_residency s"

definition power_states_get_thermal_throttle_count :: "'a power_states_scheme \<Rightarrow> u32" where
  "power_states_get_thermal_throttle_count s = ps_thermal_throttle_count s"

definition power_states_get_power_limit_throttle_count :: "'a power_states_scheme \<Rightarrow> u32" where
  "power_states_get_power_limit_throttle_count s = ps_power_limit_throttle_count s"

definition power_states_get_last_transition_time :: "'a power_states_scheme \<Rightarrow> u64" where
  "power_states_get_last_transition_time s = ps_last_transition_time s"

definition power_states_get_max_temperature :: "'a power_states_scheme \<Rightarrow> u16" where
  "power_states_get_max_temperature s = ps_max_temperature s"

definition power_states_enable_power_management :: "'a power_states_scheme \<Rightarrow> 'a power_states_scheme" where
  "power_states_enable_power_management s = s\<lparr>ps_power_management_enabled := 1\<rparr>"

definition power_states_disable_power_management :: "'a power_states_scheme \<Rightarrow> 'a power_states_scheme" where
  "power_states_disable_power_management s = s\<lparr>ps_power_management_enabled := 0\<rparr>"

definition power_states_is_power_management_enabled :: "'a power_states_scheme \<Rightarrow> u8" where
  "power_states_is_power_management_enabled s = ps_power_management_enabled s"

definition power_states_clear_statistics :: "'a power_states_scheme \<Rightarrow> 'a power_states_scheme" where
  "power_states_clear_statistics s =
     (let s = s\<lparr>ps_total_power_transitions := 0, ps_total_cstate_residency := 0, ps_total_pstate_time := 0,
                ps_thermal_throttle_count := 0, ps_power_limit_throttle_count := 0, ps_max_temperature := 0\<rparr>;
          s = fold (\<lambda>i s. s\<lparr>ps_cstates := (ps_cstates s)[i := ((ps_cstates s) ! i)\<lparr>ci_residency_time := 0, ci_entry_count := 0\<rparr>]\<rparr>)
            [0..<unat (ps_num_cstates s)] s
      in fold (\<lambda>i s. s\<lparr>ps_pstates := (ps_pstates s)[i := ((ps_pstates s) ! i)\<lparr>pi_transition_count := 0\<rparr>]\<rparr>)
            [0..<unat (ps_num_pstates s)] s)"

definition power_states_get_cstate_name :: "u8 \<Rightarrow> string" where
  "power_states_get_cstate_name cstate =
     (if cstate = CSTATE_C0 then ''C0 (Active)''
      else if cstate = CSTATE_C1 then ''C1 (Halt)''
      else if cstate = CSTATE_C1E then ''C1E (Enhanced Halt)''
      else if cstate = CSTATE_C3 then ''C3 (Sleep)''
      else if cstate = CSTATE_C6 then ''C6 (Deep Sleep)''
      else if cstate = CSTATE_C7 then ''C7 (Deeper Sleep)''
      else if cstate = CSTATE_C8 then ''C8 (Deepest Sleep)''
      else if cstate = CSTATE_C9 then ''C9 (Ultra Deep Sleep)''
      else if cstate = CSTATE_C10 then ''C10 (Maximum Power Saving)''
      else ''Unknown'')"

definition power_states_get_pstate_name :: "u8 \<Rightarrow> string" where
  "power_states_get_pstate_name pstate =
     (if pstate = PSTATE_P0 then ''P0 (Maximum Performance)''
      else if pstate = PSTATE_P1 then ''P1 (High Performance)''
      else if pstate = PSTATE_P2 then ''P2 (Medium Performance)''
      else if pstate = PSTATE_P3 then ''P3 (Low Performance)''
      else if pstate = PSTATE_P4 then ''P4 (Lower Performance)''
      else if pstate = PSTATE_P5 then ''P5 (Lowest Performance)''
      else if pstate = PSTATE_P6 then ''P6 (Power Saving)''
      else if pstate = PSTATE_P7 then ''P7 (Maximum Power Saving)''
      else ''Unknown'')"

section \<open>Which states are entered, and how time is accounted\<close>

text \<open>The table is dense and has at most five places.\<close>

lemma power_states_num_cstates:
  assumes "ps_num_cstates s \<le> 5"
  shows "ps_num_cstates (power_states_detect_cstates D s) \<le> 5"
proof -
  have "ps_num_cstates (snd (cpuid D l s)) = ps_num_cstates s" for l by (simp add: cpuid_def cpuid_sub_def rd_def Let_def)
  with assms show ?thesis by (simp add: power_states_detect_cstates_def Let_def case_prod_beta)
qed

text \<open>
  The state asked for is compared with the number of places and used as a place, although the table is dense: with at most
  five places C6 and C7 are always refused, and entering C3 is charged to the state in place 3, which is C6 when C3 is there.
\<close>

lemma power_states_deep_refused:
  assumes "ps_num_cstates s \<le> 5"
  shows "power_states_enter_cstate D a CSTATE_C6 s = (0, s)" "power_states_enter_cstate D a CSTATE_C7 s = (0, s)"
proof -
  have "ps_num_cstates s \<le> 6" "ps_num_cstates s \<le> 7" using assms order_trans [of _ "5 :: u8"] by auto
  then show "power_states_enter_cstate D a CSTATE_C6 s = (0, s)" "power_states_enter_cstate D a CSTATE_C7 s = (0, s)"
    by (simp_all add: power_states_enter_cstate_def CSTATE_C6_def CSTATE_C7_def)
qed

text \<open>The total residency stays the sum of the residencies of the states.\<close>

definition residency_sum :: "'a power_states_scheme \<Rightarrow> u64" where
  "residency_sum s = sum_list (map ci_residency_time (ps_cstates s))"

lemma sum_list_map_update:
  fixes f :: "'e \<Rightarrow> 'w::len word"
  assumes "i < length xs"
  shows "sum_list (map f (xs[i := x])) = sum_list (map f xs) + (f x - f (xs ! i))"
  using assms by (induction xs arbitrary: i) (auto split: nat.split)

lemma power_states_residency:
  assumes "unat (ps_num_cstates s) \<le> length (ps_cstates s)" "ps_total_cstate_residency s = residency_sum s"
    and "power_states_enter_cstate D a c s = (r, t)"
  shows "ps_total_cstate_residency t = residency_sum t"
proof (cases "r = 0")
  case True
  with assms show ?thesis
    by (auto simp: power_states_enter_cstate_def residency_sum_def bus Let_def split: if_splits)
next
  case False
  with assms(3) have "\<not> ps_num_cstates s \<le> c"
    by (auto simp: power_states_enter_cstate_def split: if_splits)
  then have c: "unat c < length (ps_cstates s)" using assms(1) by (simp add: word_le_nat_alt)
  show ?thesis
    using assms(2,3) False sum_list_map_update [OF c, of ci_residency_time]
    by (auto simp: power_states_enter_cstate_def residency_sum_def bus Let_def split: if_splits)
qed

end
