(* ===== verification/Debug_Hw.thy ===== *)
theory Debug_Hw
  imports Msr_Regs
begin

text \<open>
  \<open>src/drivers/debug_hw.c\<close>: the debug registers. The fields of \<open>debug_hw_info_t\<close> carry the prefix \<open>dh_\<close>, those of a
  breakpoint \<open>hb_\<close>. The shifts of the code are on 32-bit signed values, which are then extended to 64 bits.
\<close>

definition DR0_REG :: "'a::len word" where "DR0_REG = 0"
definition DR1_REG :: "'a::len word" where "DR1_REG = 1"
definition DR2_REG :: "'a::len word" where "DR2_REG = 2"
definition DR3_REG :: "'a::len word" where "DR3_REG = 3"
definition DR6_REG :: "'a::len word" where "DR6_REG = 6"
definition DR7_REG :: "'a::len word" where "DR7_REG = 7"
definition DR7_GD :: "'a::len word" where "DR7_GD = push_bit 13 1"
definition DR6_BS :: "'a::len word" where "DR6_BS = push_bit 14 1"
definition DR6_BT :: "'a::len word" where "DR6_BT = push_bit 15 1"
definition BP_TYPE_EXECUTION :: "'a::len word" where "BP_TYPE_EXECUTION = 0"
definition BP_TYPE_WRITE :: "'a::len word" where "BP_TYPE_WRITE = 1"
definition BP_TYPE_IO :: "'a::len word" where "BP_TYPE_IO = 2"
definition BP_TYPE_ACCESS :: "'a::len word" where "BP_TYPE_ACCESS = 3"
definition BP_LEN_1_BYTE :: "'a::len word" where "BP_LEN_1_BYTE = 0"
definition BP_LEN_2_BYTE :: "'a::len word" where "BP_LEN_2_BYTE = 1"
definition BP_LEN_8_BYTE :: "'a::len word" where "BP_LEN_8_BYTE = 2"
definition BP_LEN_4_BYTE :: "'a::len word" where "BP_LEN_4_BYTE = 3"

record hardware_breakpoint =
  hb_address :: u64
  hb_type :: u8
  hb_length :: u8
  hb_enabled :: u8
  hb_global :: u8
  hb_hit_count :: u32

record debug_hw = msr +
  dh_debug_hw_supported :: u8
  dh_num_breakpoints :: u8
  dh_single_step_enabled :: u8
  dh_branch_trace_enabled :: u8
  dh_breakpoints :: "hardware_breakpoint list"    \<comment> \<open>4\<close>
  dh_dr6_status :: u64
  dh_dr7_control :: u64
  dh_debug_exception_count :: u32
  dh_single_step_count :: u32
  dh_branch_trace_count :: u32

definition debug_hw_read_dr :: "device \<Rightarrow> u8 \<Rightarrow> 'a debug_hw_scheme \<Rightarrow> u64 \<times> 'a debug_hw_scheme" where
  "debug_hw_read_dr D reg s =
     (let value' = (0 :: u64)
      in (if reg = DR0_REG then
             (let (value' :: u64, s) = rd D (Isa ''mov dr0'' [] 0) s
              in (value', s))
          else if reg = DR1_REG then
             (let (value' :: u64, s) = rd D (Isa ''mov dr1'' [] 0) s
              in (value', s))
          else if reg = DR2_REG then
             (let (value' :: u64, s) = rd D (Isa ''mov dr2'' [] 0) s
              in (value', s))
          else if reg = DR3_REG then
             (let (value' :: u64, s) = rd D (Isa ''mov dr3'' [] 0) s
              in (value', s))
          else if reg = DR6_REG then
             (let (value' :: u64, s) = rd D (Isa ''mov dr6'' [] 0) s
              in (value', s))
          else if reg = DR7_REG then
             (let (value' :: u64, s) = rd D (Isa ''mov dr7'' [] 0) s
              in (value', s))
          else (value', s)))"

definition debug_hw_write_dr :: "u8 \<Rightarrow> u64 \<Rightarrow> 'a debug_hw_scheme \<Rightarrow> 'a debug_hw_scheme" where
  "debug_hw_write_dr reg value' s =
     (if reg = DR0_REG then insn (Asm ''mov dr0'' [value']) s
      else if reg = DR1_REG then insn (Asm ''mov dr1'' [value']) s
      else if reg = DR2_REG then insn (Asm ''mov dr2'' [value']) s
      else if reg = DR3_REG then insn (Asm ''mov dr3'' [value']) s
      else if reg = DR6_REG then insn (Asm ''mov dr6'' [value']) s
      else if reg = DR7_REG then insn (Asm ''mov dr7'' [value']) s else s)"

definition debug_hw_init :: "'a debug_hw_scheme \<Rightarrow> 'a debug_hw_scheme" where
  "debug_hw_init s =
     (let s = s\<lparr>dh_debug_hw_supported := 1, dh_num_breakpoints := 4, dh_single_step_enabled := 0,
                dh_branch_trace_enabled := 0, dh_debug_exception_count := 0, dh_single_step_count := 0,
                dh_branch_trace_count := 0\<rparr>;
          s = fold (\<lambda>i s. s\<lparr>dh_breakpoints := (dh_breakpoints s)[i := ((dh_breakpoints s) ! i)\<lparr>hb_address := 0, hb_type := BP_TYPE_EXECUTION, hb_length := BP_LEN_1_BYTE, hb_enabled := 0, hb_global := 0, hb_hit_count := 0\<rparr>]\<rparr>)
            [0..<4] s;
          s = debug_hw_write_dr DR6_REG 0 s;
          s = debug_hw_write_dr DR7_REG 0x400 s
      in s\<lparr>dh_dr6_status := 0, dh_dr7_control := 0x400\<rparr>)"

definition debug_hw_is_supported :: "'a debug_hw_scheme \<Rightarrow> u8" where
  "debug_hw_is_supported s = dh_debug_hw_supported s"

definition debug_hw_get_num_breakpoints :: "'a debug_hw_scheme \<Rightarrow> u8" where
  "debug_hw_get_num_breakpoints s = dh_num_breakpoints s"

definition debug_hw_set_breakpoint :: "device \<Rightarrow> u8 \<Rightarrow> u64 \<Rightarrow> u8 \<Rightarrow> u8 \<Rightarrow> 'a debug_hw_scheme \<Rightarrow> u8 \<times> 'a debug_hw_scheme" where
  "debug_hw_set_breakpoint D index address type' length' s =
     (if index \<ge> 4 then (0, s)
      else (let s = s\<lparr>dh_breakpoints := (dh_breakpoints s)[unat index := ((dh_breakpoints s) ! (unat index))\<lparr>hb_address := address, hb_type := type', hb_length := length', hb_enabled := 1, hb_global := 1, hb_hit_count := 0\<rparr>]\<rparr>;
                s = debug_hw_write_dr index address s;
                (dr7, s) = debug_hw_read_dr D DR7_REG s;
                dr7 = dr7 OR scast (push_bit (unat ((ucast index * 2) + 1 :: u32)) (1 :: u32));
                rw_shift = (16 + (ucast index * 4) :: u32);
                len_shift = (18 + (ucast index * 4) :: u32);
                dr7 = dr7 AND scast (NOT (push_bit (unat rw_shift) (3 :: u32)));
                dr7 = dr7 AND scast (NOT (push_bit (unat len_shift) (3 :: u32)));
                dr7 = dr7 OR scast (push_bit (unat rw_shift) (ucast type') :: u32);
                dr7 = dr7 OR scast (push_bit (unat len_shift) (ucast length') :: u32);
                s = debug_hw_write_dr DR7_REG dr7 s;
                s = s\<lparr>dh_dr7_control := dr7\<rparr>
            in (1, s)))"

definition debug_hw_clear_breakpoint :: "device \<Rightarrow> u8 \<Rightarrow> 'a debug_hw_scheme \<Rightarrow> u8 \<times> 'a debug_hw_scheme" where
  "debug_hw_clear_breakpoint D index s =
     (if index \<ge> 4 then (0, s)
      else (let s = s\<lparr>dh_breakpoints := (dh_breakpoints s)[unat index := ((dh_breakpoints s) ! (unat index))\<lparr>hb_enabled := 0, hb_address := 0\<rparr>]\<rparr>;
                s = debug_hw_write_dr index 0 s;
                (dr7, s) = debug_hw_read_dr D DR7_REG s;
                dr7 = dr7 AND scast (NOT (push_bit (unat (ucast index * 2 :: u32)) (3 :: u32)));
                s = debug_hw_write_dr DR7_REG dr7 s;
                s = s\<lparr>dh_dr7_control := dr7\<rparr>
            in (1, s)))"

definition debug_hw_get_breakpoint :: "u8 \<Rightarrow> 'a debug_hw_scheme \<Rightarrow> hardware_breakpoint option" where
  "debug_hw_get_breakpoint index s =
     (if index \<ge> 4 then None
      else Some (dh_breakpoints s ! (unat index)))"

definition debug_hw_enable_single_step :: "device \<Rightarrow> 'a debug_hw_scheme \<Rightarrow> 'a debug_hw_scheme" where
  "debug_hw_enable_single_step D s =
     (let (eflags :: u32, s) = rd D (Isa ''pushf; pop %0'' [] 0) s;
          eflags = eflags OR push_bit 8 1;
          s = insn (Asm ''push %0; popf'' [ucast eflags]) s
      in s\<lparr>dh_single_step_enabled := 1\<rparr>)"

definition debug_hw_disable_single_step :: "device \<Rightarrow> 'a debug_hw_scheme \<Rightarrow> 'a debug_hw_scheme" where
  "debug_hw_disable_single_step D s =
     (let (eflags :: u32, s) = rd D (Isa ''pushf; pop %0'' [] 0) s;
          eflags = eflags AND NOT (push_bit 8 1);
          s = insn (Asm ''push %0; popf'' [ucast eflags]) s
      in s\<lparr>dh_single_step_enabled := 0\<rparr>)"

definition debug_hw_is_single_step_enabled :: "'a debug_hw_scheme \<Rightarrow> u8" where
  "debug_hw_is_single_step_enabled s = dh_single_step_enabled s"

definition debug_hw_enable_branch_trace :: "device \<Rightarrow> 'a debug_hw_scheme \<Rightarrow> 'a debug_hw_scheme" where
  "debug_hw_enable_branch_trace D s =
     (let (dr7, s) = debug_hw_read_dr D DR7_REG s;
          dr7 = dr7 OR push_bit 15 1;
          s = debug_hw_write_dr DR7_REG dr7 s
      in s\<lparr>dh_branch_trace_enabled := 1, dh_dr7_control := dr7\<rparr>)"

definition debug_hw_disable_branch_trace :: "device \<Rightarrow> 'a debug_hw_scheme \<Rightarrow> 'a debug_hw_scheme" where
  "debug_hw_disable_branch_trace D s =
     (let (dr7, s) = debug_hw_read_dr D DR7_REG s;
          dr7 = dr7 AND NOT (push_bit 15 1);
          s = debug_hw_write_dr DR7_REG dr7 s
      in s\<lparr>dh_branch_trace_enabled := 0, dh_dr7_control := dr7\<rparr>)"

definition debug_hw_is_branch_trace_enabled :: "'a debug_hw_scheme \<Rightarrow> u8" where
  "debug_hw_is_branch_trace_enabled s = dh_branch_trace_enabled s"

definition debug_hw_handle_exception :: "device \<Rightarrow> u64 \<Rightarrow> u64 \<Rightarrow> 'a debug_hw_scheme \<Rightarrow> 'a debug_hw_scheme" where
  "debug_hw_handle_exception D error_code rip s =
     (let s = s\<lparr>dh_debug_exception_count := dh_debug_exception_count s + 1\<rparr>;
          (dr6, s) = debug_hw_read_dr D DR6_REG s;
          s = s\<lparr>dh_dr6_status := dr6\<rparr>;
          s = (if dr6 AND DR6_BS \<noteq> 0 then s\<lparr>dh_single_step_count := dh_single_step_count s + 1\<rparr>
               else s);
          s = (if dr6 AND DR6_BT \<noteq> 0 then s\<lparr>dh_branch_trace_count := dh_branch_trace_count s + 1\<rparr>
               else s);
          s = fold (\<lambda>i s.
                      (if dr6 AND scast (push_bit i (1 :: u32)) \<noteq> 0
                       then s\<lparr>dh_breakpoints := (dh_breakpoints s)[i := ((dh_breakpoints s) ! i)\<lparr>hb_hit_count := (hb_hit_count (dh_breakpoints s ! i)) + 1\<rparr>]\<rparr>
                       else s))
            [0..<4] s
      in debug_hw_write_dr DR6_REG 0 s)"

definition debug_hw_get_debug_exception_count :: "'a debug_hw_scheme \<Rightarrow> u32" where
  "debug_hw_get_debug_exception_count s = dh_debug_exception_count s"

definition debug_hw_get_single_step_count :: "'a debug_hw_scheme \<Rightarrow> u32" where
  "debug_hw_get_single_step_count s = dh_single_step_count s"

definition debug_hw_get_branch_trace_count :: "'a debug_hw_scheme \<Rightarrow> u32" where
  "debug_hw_get_branch_trace_count s = dh_branch_trace_count s"

definition debug_hw_get_dr6_status :: "'a debug_hw_scheme \<Rightarrow> u64" where
  "debug_hw_get_dr6_status s = dh_dr6_status s"

definition debug_hw_get_dr7_control :: "'a debug_hw_scheme \<Rightarrow> u64" where
  "debug_hw_get_dr7_control s = dh_dr7_control s"

definition debug_hw_set_execution_breakpoint :: "device \<Rightarrow> u8 \<Rightarrow> u64 \<Rightarrow> 'a debug_hw_scheme \<Rightarrow> u8 \<times> 'a debug_hw_scheme" where
  "debug_hw_set_execution_breakpoint D index address s =
     debug_hw_set_breakpoint D index address BP_TYPE_EXECUTION BP_LEN_1_BYTE s"

definition debug_hw_set_write_watchpoint :: "device \<Rightarrow> u8 \<Rightarrow> u64 \<Rightarrow> u8 \<Rightarrow> 'a debug_hw_scheme \<Rightarrow> u8 \<times> 'a debug_hw_scheme" where
  "debug_hw_set_write_watchpoint D index address size' s =
     (if size' = 1 then
         (let length' = (BP_LEN_1_BYTE :: u8)
          in debug_hw_set_breakpoint D index address BP_TYPE_WRITE length' s)
      else if size' = 2 then
         (let length' = (BP_LEN_2_BYTE :: u8)
          in debug_hw_set_breakpoint D index address BP_TYPE_WRITE length' s)
      else if size' = 4 then
         (let length' = (BP_LEN_4_BYTE :: u8)
          in debug_hw_set_breakpoint D index address BP_TYPE_WRITE length' s)
      else if size' = 8 then
         (let length' = (BP_LEN_8_BYTE :: u8)
          in debug_hw_set_breakpoint D index address BP_TYPE_WRITE length' s)
      else (0, s))"

definition debug_hw_set_access_watchpoint :: "device \<Rightarrow> u8 \<Rightarrow> u64 \<Rightarrow> u8 \<Rightarrow> 'a debug_hw_scheme \<Rightarrow> u8 \<times> 'a debug_hw_scheme" where
  "debug_hw_set_access_watchpoint D index address size' s =
     (if size' = 1 then
         (let length' = (BP_LEN_1_BYTE :: u8)
          in debug_hw_set_breakpoint D index address BP_TYPE_ACCESS length' s)
      else if size' = 2 then
         (let length' = (BP_LEN_2_BYTE :: u8)
          in debug_hw_set_breakpoint D index address BP_TYPE_ACCESS length' s)
      else if size' = 4 then
         (let length' = (BP_LEN_4_BYTE :: u8)
          in debug_hw_set_breakpoint D index address BP_TYPE_ACCESS length' s)
      else if size' = 8 then
         (let length' = (BP_LEN_8_BYTE :: u8)
          in debug_hw_set_breakpoint D index address BP_TYPE_ACCESS length' s)
      else (0, s))"

definition debug_hw_set_io_breakpoint :: "device \<Rightarrow> u8 \<Rightarrow> u16 \<Rightarrow> 'a debug_hw_scheme \<Rightarrow> u8 \<times> 'a debug_hw_scheme" where
  "debug_hw_set_io_breakpoint D index port s = debug_hw_set_breakpoint D index (ucast port) BP_TYPE_IO BP_LEN_1_BYTE s"

definition debug_hw_clear_all_breakpoints :: "device \<Rightarrow> 'a debug_hw_scheme \<Rightarrow> 'a debug_hw_scheme" where
  "debug_hw_clear_all_breakpoints D s =
     fold (\<lambda>i s. 
             (let (v, s) = debug_hw_clear_breakpoint D (of_nat i) s
              in s))
  [0..<4] s"

definition debug_hw_find_free_breakpoint :: "'a debug_hw_scheme \<Rightarrow> u8" where
  "debug_hw_find_free_breakpoint s =
     (case find (\<lambda>i. hb_enabled (dh_breakpoints s ! i) = 0) [0..<4] of Some i \<Rightarrow> of_nat i | None \<Rightarrow> 0xFF)"

definition debug_hw_get_breakpoint_hit_count :: "u8 \<Rightarrow> 'a debug_hw_scheme \<Rightarrow> u32" where
  "debug_hw_get_breakpoint_hit_count index s =
     (if index \<ge> 4 then 0
      else hb_hit_count (dh_breakpoints s ! (unat index)))"

definition debug_hw_reset_statistics :: "'a debug_hw_scheme \<Rightarrow> 'a debug_hw_scheme" where
  "debug_hw_reset_statistics s =
     (let s = s\<lparr>dh_debug_exception_count := 0, dh_single_step_count := 0, dh_branch_trace_count := 0\<rparr>
      in fold (\<lambda>i s. s\<lparr>dh_breakpoints := (dh_breakpoints s)[i := ((dh_breakpoints s) ! i)\<lparr>hb_hit_count := 0\<rparr>]\<rparr>)
            [0..<4] s)"

definition debug_hw_is_breakpoint_hit :: "u8 \<Rightarrow> 'a debug_hw_scheme \<Rightarrow> u8" where
  "debug_hw_is_breakpoint_hit index s =
     (if index \<ge> 4 then 0
      else c_bool (dh_dr6_status s AND scast (push_bit (unat index) (1 :: u32)) \<noteq> 0))"

definition debug_hw_enable_general_detect :: "device \<Rightarrow> 'a debug_hw_scheme \<Rightarrow> 'a debug_hw_scheme" where
  "debug_hw_enable_general_detect D s =
     (let (dr7, s) = debug_hw_read_dr D DR7_REG s;
          dr7 = dr7 OR DR7_GD;
          s = debug_hw_write_dr DR7_REG dr7 s
      in s\<lparr>dh_dr7_control := dr7\<rparr>)"

definition debug_hw_disable_general_detect :: "device \<Rightarrow> 'a debug_hw_scheme \<Rightarrow> 'a debug_hw_scheme" where
  "debug_hw_disable_general_detect D s =
     (let (dr7, s) = debug_hw_read_dr D DR7_REG s;
          dr7 = dr7 AND NOT DR7_GD;
          s = debug_hw_write_dr DR7_REG dr7 s
      in s\<lparr>dh_dr7_control := dr7\<rparr>)"

section \<open>The control register\<close>

text \<open>The value written for a breakpoint, as the code computes it.\<close>

definition dr7_with :: "nat \<Rightarrow> u8 \<Rightarrow> u8 \<Rightarrow> u64 \<Rightarrow> u64" where
  "dr7_with i ty len v =
     ((v OR scast (push_bit (i * 2 + 1) (1 :: u32))) AND scast (NOT (push_bit (16 + i * 4) (3 :: u32)))
        AND scast (NOT (push_bit (18 + i * 4) (3 :: u32))))
       OR scast (push_bit (16 + i * 4) (ucast ty :: u32)) OR scast (push_bit (18 + i * 4) (ucast len :: u32))"

lemma set_breakpoint_writes:
  assumes "index < 4"
  shows "dh_dr7_control (snd (debug_hw_set_breakpoint D index a ty len s)) =
    dr7_with (unat index) ty len (D (trace s @ [Ins (Asm (''mov dr'' @ [''0123'' ! unat index]) [a])]) (Isa ''mov dr7'' [] 0))"
proof -
  have "index \<in> {0, 1, 2, 3}" using assms by (simp add: word_unat_eq_iff word_less_nat_alt) arith
  moreover have "((4 :: u8) \<le> index) = False" using assms by auto
  ultimately show ?thesis
    by (elim insertE) (simp_all add: debug_hw_set_breakpoint_def debug_hw_write_dr_def debug_hw_read_dr_def dr7_with_def bus
      DR0_REG_def DR1_REG_def DR2_REG_def DR3_REG_def DR6_REG_def DR7_REG_def or.assoc and.assoc)
qed

text \<open>In the first three places the bits of the breakpoint are set as asked for, and every other bit is left alone.\<close>

lemma dr7_with_bits:
  assumes "i < 3" "ty < 4" "len < 4" "n < 64"
  shows "bit (dr7_with i ty len v) n =
    (if n = 2 * i + 1 then True
     else if n \<in> {16 + 4 * i, 17 + 4 * i} then bit ty (n - (16 + 4 * i))
     else if n \<in> {18 + 4 * i, 19 + 4 * i} then bit len (n - (18 + 4 * i))
     else bit v n)"
proof -
  have m: "(3 :: u32) = mask 2" by (simp add: mask_eq_exp_minus_1)
  have small: "\<not> bit x k" if "x < 4" "2 \<le> k" for x :: u8 and k
  proof -
    have "x AND mask 2 = x" using less_mask_eq [of x 2] that(1) by simp
    moreover have "\<not> bit (x AND mask 2) k" using that(2) by (simp add: bit_simps)
    ultimately show ?thesis by simp
  qed
  show ?thesis
    using assms(1,4) small [OF assms(2)] small [OF assms(3)] unfolding dr7_with_def m
    by (auto simp: bit_simps min_def not_le)
qed

text \<open>
  In the last place a watched length of four or eight bytes shifts a one into the sign bit of a 32-bit value, so the upper half
  of the register becomes all ones, which the processor refuses.
\<close>

lemma dr7_with_overflows:
  assumes "len = BP_LEN_4_BYTE \<or> len = BP_LEN_8_BYTE" "32 \<le> n" "n < 64"
  shows "bit (dr7_with 3 ty len v) n"
proof -
  have m: "(3 :: u32) = mask 2" by (simp add: mask_eq_exp_minus_1)
  have "bit (ucast len :: u32) 1"
    using assms(1) by (auto simp: BP_LEN_4_BYTE_def BP_LEN_8_BYTE_def bit_simps)
  then show ?thesis using assms(2,3) unfolding dr7_with_def m by (auto simp: bit_simps min_def)
qed

text \<open>After all breakpoints have been cleared the first place is free again.\<close>

lemma debug_hw_find_free:
  "debug_hw_find_free_breakpoint s = 0xFF \<longleftrightarrow> (\<forall>i<4. hb_enabled (dh_breakpoints s ! i) \<noteq> 0)"
proof (cases "find (\<lambda>i. hb_enabled (dh_breakpoints s ! i) = 0) [0..<4]")
  case None
  then have "\<forall>i<4. hb_enabled (dh_breakpoints s ! i) \<noteq> 0" by (auto simp: find_None_iff)
  with None show ?thesis by (simp add: debug_hw_find_free_breakpoint_def)
next
  case (Some i)
  then have i: "i < 4" "hb_enabled (dh_breakpoints s ! i) = 0" by (auto simp: find_Some_iff)
  then have "unat (of_nat i :: u8) < 4" by (simp add: unat_of_nat)
  then have "(of_nat i :: u8) \<noteq> 0xFF" by auto
  with Some i show ?thesis by (auto simp: debug_hw_find_free_breakpoint_def)
qed

end
