(* ===== verification/Trace_Hw.thy ===== *)
theory Trace_Hw
  imports Msr_Regs
begin

text \<open>
  \<open>src/drivers/trace_hw.c\<close>: processor trace and branch trace. The fields of \<open>trace_hw_info_t\<close> carry the prefix
  \<open>tr_\<close>, those of its buffers \<open>tb_\<close>. A pointer to a record is its address. No file defines \<open>msr_write_debugctl\<close>.
\<close>

definition MSR_IA32_RTIT_CTL :: "'a::len word" where "MSR_IA32_RTIT_CTL = 0x570"
definition MSR_IA32_RTIT_STATUS :: "'a::len word" where "MSR_IA32_RTIT_STATUS = 0x571"
definition MSR_IA32_RTIT_ADDR0_A :: "'a::len word" where "MSR_IA32_RTIT_ADDR0_A = 0x580"
definition MSR_IA32_RTIT_ADDR0_B :: "'a::len word" where "MSR_IA32_RTIT_ADDR0_B = 0x581"
definition MSR_IA32_RTIT_OUTPUT_BASE :: "'a::len word" where "MSR_IA32_RTIT_OUTPUT_BASE = 0x560"
definition MSR_IA32_RTIT_OUTPUT_MASK_PTRS :: "'a::len word" where "MSR_IA32_RTIT_OUTPUT_MASK_PTRS = 0x561"
definition RTIT_CTL_TRACEEN :: "'a::len word" where "RTIT_CTL_TRACEEN = push_bit 0 1"
definition RTIT_CTL_CYCEN :: "'a::len word" where "RTIT_CTL_CYCEN = push_bit 1 1"
definition RTIT_CTL_OS :: "'a::len word" where "RTIT_CTL_OS = push_bit 2 1"
definition RTIT_CTL_USER :: "'a::len word" where "RTIT_CTL_USER = push_bit 3 1"
definition RTIT_CTL_TOPA :: "'a::len word" where "RTIT_CTL_TOPA = push_bit 8 1"
definition RTIT_CTL_MTCEN :: "'a::len word" where "RTIT_CTL_MTCEN = push_bit 9 1"
definition RTIT_CTL_TSCEN :: "'a::len word" where "RTIT_CTL_TSCEN = push_bit 10 1"
definition RTIT_CTL_BRANCHEN :: "'a::len word" where "RTIT_CTL_BRANCHEN = push_bit 13 1"
definition RTIT_STATUS_ERROR :: "'a::len word" where "RTIT_STATUS_ERROR = push_bit 4 1"
definition RTIT_STATUS_STOPPED :: "'a::len word" where "RTIT_STATUS_STOPPED = push_bit 5 1"
definition MSR_BTS_BUFFER_BASE :: "'a::len word" where "MSR_BTS_BUFFER_BASE = 0x2A0"
definition MSR_BTS_INDEX :: "'a::len word" where "MSR_BTS_INDEX = 0x2A1"
definition MSR_BTS_ABSOLUTE_MAXIMUM :: "'a::len word" where "MSR_BTS_ABSOLUTE_MAXIMUM = 0x2A2"
definition MSR_BTS_INTERRUPT_THRESHOLD :: "'a::len word" where "MSR_BTS_INTERRUPT_THRESHOLD = 0x2A3"

record bts_record =
  br_from_ip :: u64
  br_to_ip :: u64
  br_flags :: u64

record trace_buffer =
  tb_base :: u64
  tb_size :: u64
  tb_head :: u64
  tb_tail :: u64
  tb_wrapped :: u8

record trace_hw = msr +
  tr_trace_hw_supported :: u8
  tr_intel_pt_supported :: u8
  tr_bts_supported :: u8
  tr_lbr_extended_supported :: u8
  tr_intel_pt_enabled :: u8
  tr_bts_enabled :: u8
  tr_trace_user_mode :: u8
  tr_trace_kernel_mode :: u8
  tr_cycle_accurate :: u8
  tr_timing_packets :: u8
  tr_mtc_packets :: u8
  tr_branch_packets :: u8
  tr_power_event_trace :: u8
  tr_psb_frequency :: u8
  tr_num_address_ranges :: u32
  tr_address_ranges :: "u64 list"    \<comment> \<open>8\<close>
  tr_pt_buffer :: trace_buffer
  tr_bts_buffer :: trace_buffer
  tr_rtit_ctl :: u64
  tr_rtit_status :: u64
  tr_trace_packets_generated :: u32
  tr_buffer_overflows :: u32
  tr_trace_errors :: u32

definition trace_hw_detect_capabilities :: "device \<Rightarrow> 'a trace_hw_scheme \<Rightarrow> 'a trace_hw_scheme" where
  "trace_hw_detect_capabilities D s =
     (let ((eax, ebx, ecx, edx), s) = cpuid_sub D 7 0 s;
          s = s\<lparr>tr_intel_pt_supported := c_bool (ebx AND push_bit 25 1 \<noteq> 0)\<rparr>;
          (eax, ebx, ecx, edx, s) = (if tr_intel_pt_supported s \<noteq> 0 then
                                        (let ((eax, ebx, ecx, edx), s) = cpuid_sub D 0x14 0 s;
                                             s = s\<lparr>tr_cycle_accurate := c_bool (ebx AND push_bit 1 1 \<noteq> 0),
                                                   tr_timing_packets := c_bool (ebx AND push_bit 3 1 \<noteq> 0),
                                                   tr_mtc_packets := c_bool (ebx AND push_bit 4 1 \<noteq> 0),
                                                   tr_branch_packets := c_bool (ebx AND push_bit 5 1 \<noteq> 0),
                                                   tr_power_event_trace := c_bool (ebx AND push_bit 6 1 \<noteq> 0),
                                                   tr_psb_frequency := c_bool (ebx AND push_bit 7 1 \<noteq> 0)\<rparr>
                                         in (if eax \<ge> 1 then
                                                (let ((eax, ebx, ecx, edx), s) = cpuid_sub D 0x14 1 s;
                                                     s = s\<lparr>tr_num_address_ranges := eax AND 0x7\<rparr>;
                                                     s = (if tr_num_address_ranges s > 4
                                                          then s\<lparr>tr_num_address_ranges := 4\<rparr> else s)
                                                 in (eax, ebx, ecx, edx, s))
                                             else (eax, ebx, ecx, edx, s)))
                                     else (eax, ebx, ecx, edx, s));
          ((eax, ebx, ecx, edx), s) = cpuid D 1 s;
          s = s\<lparr>tr_bts_supported := c_bool (edx AND push_bit 21 1 \<noteq> 0)\<rparr>;
          ((eax, ebx, ecx, edx), s) = cpuid_sub D 7 0 s;
          s = s\<lparr>tr_lbr_extended_supported := c_bool (ebx AND push_bit 6 1 \<noteq> 0)\<rparr>
      in (if tr_intel_pt_supported s \<noteq> 0 \<or> tr_bts_supported s \<noteq> 0
          then s\<lparr>tr_trace_hw_supported := 1\<rparr>
          else s))"

definition trace_hw_init :: "device \<Rightarrow> 'a trace_hw_scheme \<Rightarrow> 'a trace_hw_scheme" where
  "trace_hw_init D s =
     (let s = s\<lparr>tr_trace_hw_supported := 0, tr_intel_pt_supported := 0, tr_bts_supported := 0,
                tr_lbr_extended_supported := 0, tr_intel_pt_enabled := 0, tr_bts_enabled := 0, tr_trace_user_mode := 0,
                tr_trace_kernel_mode := 0, tr_cycle_accurate := 0, tr_timing_packets := 0, tr_mtc_packets := 0,
                tr_branch_packets := 0, tr_power_event_trace := 0, tr_psb_frequency := 0, tr_num_address_ranges := 0,
                tr_rtit_ctl := 0, tr_rtit_status := 0, tr_trace_packets_generated := 0, tr_buffer_overflows := 0,
                tr_trace_errors := 0\<rparr>;
          s = fold (\<lambda>i s. s\<lparr>tr_address_ranges := (tr_address_ranges s)[i := 0]\<rparr>)
            [0..<8] s;
          s = s\<lparr>tr_pt_buffer := (tr_pt_buffer s)\<lparr>tb_base := 0, tb_size := 0, tb_head := 0, tb_tail := 0,
                                                        tb_wrapped := 0\<rparr>\<rparr>;
          s = s\<lparr>tr_bts_buffer := (tr_bts_buffer s)\<lparr>tb_base := 0, tb_size := 0, tb_head := 0, tb_tail := 0,
                                                          tb_wrapped := 0\<rparr>\<rparr>
      in trace_hw_detect_capabilities D s)"

definition trace_hw_is_supported :: "'a trace_hw_scheme \<Rightarrow> u8" where
  "trace_hw_is_supported s = tr_trace_hw_supported s"

definition trace_hw_is_intel_pt_supported :: "'a trace_hw_scheme \<Rightarrow> u8" where
  "trace_hw_is_intel_pt_supported s = tr_intel_pt_supported s"

definition trace_hw_is_bts_supported :: "'a trace_hw_scheme \<Rightarrow> u8" where
  "trace_hw_is_bts_supported s = tr_bts_supported s"

definition trace_hw_setup_pt_buffer :: "u64 \<Rightarrow> u32 \<Rightarrow> 'a trace_hw_scheme \<Rightarrow> u8 \<times> 'a trace_hw_scheme" where
  "trace_hw_setup_pt_buffer buffer_base buffer_size s =
     (if tr_intel_pt_supported s = 0 \<or> msr_is_supported s = 0 then (0, s)
      else (let s = s\<lparr>tr_pt_buffer := (tr_pt_buffer s)\<lparr>tb_base := buffer_base, tb_size := ucast buffer_size,
                                                            tb_head := 0, tb_tail := 0, tb_wrapped := 0\<rparr>\<rparr>;
                s = msr_write MSR_IA32_RTIT_OUTPUT_BASE buffer_base s;
                s = msr_write MSR_IA32_RTIT_OUTPUT_MASK_PTRS (ucast (buffer_size - 1)) s
            in (1, s)))"

definition trace_hw_enable_intel_pt :: "u8 \<Rightarrow> u8 \<Rightarrow> 'a trace_hw_scheme \<Rightarrow> u8 \<times> 'a trace_hw_scheme" where
  "trace_hw_enable_intel_pt user_mode kernel_mode s =
     (if tr_intel_pt_supported s = 0 \<or> msr_is_supported s = 0 then (0, s)
      else (let rtit_ctl = (0 :: u64);
                rtit_ctl = rtit_ctl OR RTIT_CTL_TRACEEN;
                rtit_ctl = rtit_ctl OR RTIT_CTL_TOPA;
                rtit_ctl = rtit_ctl OR RTIT_CTL_TSCEN;
                rtit_ctl = rtit_ctl OR RTIT_CTL_BRANCHEN;
                (rtit_ctl, s) = (if user_mode \<noteq> 0 then
                                    (let rtit_ctl = rtit_ctl OR RTIT_CTL_USER;
                                         s = s\<lparr>tr_trace_user_mode := 1\<rparr>
                                     in (rtit_ctl, s))
                                 else (rtit_ctl, s));
                (rtit_ctl, s) = (if kernel_mode \<noteq> 0 then
                                    (let rtit_ctl = rtit_ctl OR RTIT_CTL_OS;
                                         s = s\<lparr>tr_trace_kernel_mode := 1\<rparr>
                                     in (rtit_ctl, s))
                                 else (rtit_ctl, s));
                rtit_ctl = (if tr_cycle_accurate s \<noteq> 0 then rtit_ctl OR RTIT_CTL_CYCEN else rtit_ctl);
                rtit_ctl = (if tr_mtc_packets s \<noteq> 0 then rtit_ctl OR RTIT_CTL_MTCEN else rtit_ctl);
                s = msr_write MSR_IA32_RTIT_CTL rtit_ctl s;
                s = s\<lparr>tr_rtit_ctl := rtit_ctl, tr_intel_pt_enabled := 1\<rparr>
            in (1, s)))"

definition trace_hw_disable_intel_pt :: "'a trace_hw_scheme \<Rightarrow> 'a trace_hw_scheme" where
  "trace_hw_disable_intel_pt s =
     (if tr_intel_pt_supported s = 0 \<or> msr_is_supported s = 0 then s
      else (let s = msr_write MSR_IA32_RTIT_CTL 0 s
            in s\<lparr>tr_rtit_ctl := 0, tr_intel_pt_enabled := 0\<rparr>))"

definition trace_hw_is_intel_pt_enabled :: "'a trace_hw_scheme \<Rightarrow> u8" where
  "trace_hw_is_intel_pt_enabled s = tr_intel_pt_enabled s"

definition trace_hw_set_address_filter :: "device \<Rightarrow> u8 \<Rightarrow> u64 \<Rightarrow> u64 \<Rightarrow> 'a trace_hw_scheme \<Rightarrow> u8 \<times> 'a trace_hw_scheme" where
  "trace_hw_set_address_filter D range_index start_addr end_addr s =
     (if tr_intel_pt_supported s = 0 \<or> msr_is_supported s = 0 then (0, s)
      else if ucast range_index \<ge> tr_num_address_ranges s then (0, s)
      else (let addr_a_msr = (MSR_IA32_RTIT_ADDR0_A + (ucast range_index * 2) :: u32);
                addr_b_msr = (MSR_IA32_RTIT_ADDR0_B + (ucast range_index * 2) :: u32);
                s = msr_write addr_a_msr start_addr s;
                s = msr_write addr_b_msr end_addr s;
                s = s\<lparr>tr_address_ranges := (tr_address_ranges s)[unat (ucast range_index * 2 :: u32) := start_addr]\<rparr>;
                s = s\<lparr>tr_address_ranges := (tr_address_ranges s)[unat ((ucast range_index * 2) + 1 :: u32) := end_addr]\<rparr>;
                (rtit_ctl, s) = msr_read D MSR_IA32_RTIT_CTL s;
                rtit_ctl = rtit_ctl OR push_bit (unat (32 + ucast range_index :: u32)) (1 :: u64);
                s = msr_write MSR_IA32_RTIT_CTL rtit_ctl s;
                s = s\<lparr>tr_rtit_ctl := rtit_ctl\<rparr>
            in (1, s)))"

definition trace_hw_clear_address_filter :: "device \<Rightarrow> u8 \<Rightarrow> 'a trace_hw_scheme \<Rightarrow> 'a trace_hw_scheme" where
  "trace_hw_clear_address_filter D range_index s =
     (if tr_intel_pt_supported s = 0 \<or> msr_is_supported s = 0 then s
      else if ucast range_index \<ge> tr_num_address_ranges s then s
      else (let (rtit_ctl, s) = msr_read D MSR_IA32_RTIT_CTL s;
                rtit_ctl = rtit_ctl AND NOT (push_bit (unat (32 + ucast range_index :: u32)) (1 :: u64));
                s = msr_write MSR_IA32_RTIT_CTL rtit_ctl s
            in s\<lparr>tr_rtit_ctl := rtit_ctl\<rparr>))"

definition trace_hw_setup_bts_buffer :: "u64 \<Rightarrow> u32 \<Rightarrow> 'a trace_hw_scheme \<Rightarrow> u8 \<times> 'a trace_hw_scheme" where
  "trace_hw_setup_bts_buffer buffer_base buffer_size s =
     (if tr_bts_supported s = 0 \<or> msr_is_supported s = 0 then (0, s)
      else (let s = s\<lparr>tr_bts_buffer := (tr_bts_buffer s)\<lparr>tb_base := buffer_base,
                                                            tb_size := ucast buffer_size, tb_head := 0, tb_tail := 0,
                                                            tb_wrapped := 0\<rparr>\<rparr>;
                s = msr_write MSR_BTS_BUFFER_BASE buffer_base s;
                s = msr_write MSR_BTS_ABSOLUTE_MAXIMUM (buffer_base + ucast buffer_size) s;
                s = msr_write MSR_BTS_INDEX buffer_base s;
                s = msr_write MSR_BTS_INTERRUPT_THRESHOLD ((buffer_base + ucast buffer_size) - 64) s
            in (1, s)))"

definition trace_hw_enable_bts :: "device \<Rightarrow> 'a trace_hw_scheme \<Rightarrow> u8 \<times> 'a trace_hw_scheme" where
  "trace_hw_enable_bts D s =
     (if tr_bts_supported s = 0 \<or> msr_is_supported s = 0 then (0, s)
      else (let debugctl = (0 :: u64);
                debugctl = debugctl OR push_bit 1 1;
                debugctl = debugctl OR push_bit 2 1;
                s = call_ext ''msr_write_debugctl'' [debugctl] s;
                s = s\<lparr>tr_bts_enabled := 1\<rparr>
            in (1, s)))"

definition trace_hw_disable_bts :: "device \<Rightarrow> 'a trace_hw_scheme \<Rightarrow> 'a trace_hw_scheme" where
  "trace_hw_disable_bts D s =
     (if tr_bts_supported s = 0 \<or> msr_is_supported s = 0 then s
      else (let s = call_ext ''msr_write_debugctl'' [0] s
            in s\<lparr>tr_bts_enabled := 0\<rparr>))"

definition trace_hw_is_bts_enabled :: "'a trace_hw_scheme \<Rightarrow> u8" where
  "trace_hw_is_bts_enabled s = tr_bts_enabled s"

definition trace_hw_get_pt_status :: "device \<Rightarrow> 'a trace_hw_scheme \<Rightarrow> u64 \<times> 'a trace_hw_scheme" where
  "trace_hw_get_pt_status D s =
     (if tr_intel_pt_supported s = 0 \<or> msr_is_supported s = 0 then (0, s)
      else (let (v, s) = msr_read D MSR_IA32_RTIT_STATUS s;
                s = s\<lparr>tr_rtit_status := v\<rparr>
            in (tr_rtit_status s, s)))"

definition trace_hw_get_pt_buffer_head :: "device \<Rightarrow> 'a trace_hw_scheme \<Rightarrow> u64 \<times> 'a trace_hw_scheme" where
  "trace_hw_get_pt_buffer_head D s =
     (if tr_intel_pt_supported s = 0 \<or> msr_is_supported s = 0 then (0, s)
      else (let (mask_ptrs, s) = msr_read D MSR_IA32_RTIT_OUTPUT_MASK_PTRS s;
                s = s\<lparr>tr_pt_buffer := (tr_pt_buffer s)\<lparr>tb_head := drop_bit 32 mask_ptrs AND
                  0xFFFFFFFF\<rparr>\<rparr>
            in (tb_head (tr_pt_buffer s), s)))"

definition trace_hw_get_bts_index :: "device \<Rightarrow> 'a trace_hw_scheme \<Rightarrow> u32 \<times> 'a trace_hw_scheme" where
  "trace_hw_get_bts_index D s =
     (if tr_bts_supported s = 0 \<or> msr_is_supported s = 0 then (0, s)
      else (let (index, s) = msr_read D MSR_BTS_INDEX s;
                s = s\<lparr>tr_bts_buffer := (tr_bts_buffer s)\<lparr>tb_head := index\<rparr>\<rparr>
            in (ucast index, s)))"

text \<open>The product of index and record size has 32 bits.\<close>

definition trace_hw_read_bts_record :: "u32 \<Rightarrow> 'a trace_hw_scheme \<Rightarrow> u32" where
  "trace_hw_read_bts_record index s =
     (if tr_bts_enabled s = 0 then 0
      else (let record_addr = tb_base (tr_bts_buffer s) + ucast (index * 24)
            in if record_addr \<ge> tb_base (tr_bts_buffer s) + tb_size (tr_bts_buffer s) then 0 else ucast record_addr))"

definition trace_hw_get_num_bts_records :: "device \<Rightarrow> 'a trace_hw_scheme \<Rightarrow> u32 \<times> 'a trace_hw_scheme" where
  "trace_hw_get_num_bts_records D s =
     (if tr_bts_enabled s = 0 then (0, s)
      else (let (current_index, s) = msr_read D MSR_BTS_INDEX s;
                records = (current_index - tb_base (tr_bts_buffer s)) div 24
            in (ucast records, s)))"

definition trace_hw_handle_overflow :: "device \<Rightarrow> 'a trace_hw_scheme \<Rightarrow> 'a trace_hw_scheme" where
  "trace_hw_handle_overflow D s =
     (let s = s\<lparr>tr_buffer_overflows := tr_buffer_overflows s + 1\<rparr>
      in (if tr_intel_pt_enabled s \<noteq> 0 then
             (let (status, s) = msr_read D MSR_IA32_RTIT_STATUS s;
                  s = (if status AND RTIT_STATUS_ERROR \<noteq> 0 then s\<lparr>tr_trace_errors := tr_trace_errors s + 1\<rparr>
                       else s)
              in (if status AND RTIT_STATUS_STOPPED \<noteq> 0 then s\<lparr>tr_intel_pt_enabled := 0\<rparr>
                  else s))
          else s))"

definition trace_hw_get_packets_generated :: "'a trace_hw_scheme \<Rightarrow> u32" where
  "trace_hw_get_packets_generated s = tr_trace_packets_generated s"

definition trace_hw_get_buffer_overflows :: "'a trace_hw_scheme \<Rightarrow> u32" where
  "trace_hw_get_buffer_overflows s = tr_buffer_overflows s"

definition trace_hw_get_trace_errors :: "'a trace_hw_scheme \<Rightarrow> u32" where
  "trace_hw_get_trace_errors s = tr_trace_errors s"

definition trace_hw_get_num_address_ranges :: "'a trace_hw_scheme \<Rightarrow> u8" where
  "trace_hw_get_num_address_ranges s = ucast (tr_num_address_ranges s)"

definition trace_hw_is_cycle_accurate_supported :: "'a trace_hw_scheme \<Rightarrow> u8" where
  "trace_hw_is_cycle_accurate_supported s = tr_cycle_accurate s"

definition trace_hw_is_timing_packets_supported :: "'a trace_hw_scheme \<Rightarrow> u8" where
  "trace_hw_is_timing_packets_supported s = tr_timing_packets s"

definition trace_hw_is_power_event_trace_supported :: "'a trace_hw_scheme \<Rightarrow> u8" where
  "trace_hw_is_power_event_trace_supported s = tr_power_event_trace s"

definition trace_hw_get_pt_buffer_info :: "'a trace_hw_scheme \<Rightarrow> trace_buffer option" where
  "trace_hw_get_pt_buffer_info s = Some (tr_pt_buffer s)"

definition trace_hw_get_bts_buffer_info :: "'a trace_hw_scheme \<Rightarrow> trace_buffer option" where
  "trace_hw_get_bts_buffer_info s = Some (tr_bts_buffer s)"

section \<open>Buffers and filters\<close>

text \<open>A record handed out lies in the buffer.\<close>

lemma trace_hw_read_bts_record_in:
  assumes "trace_hw_read_bts_record index s \<noteq> 0"
    and "unat (tb_base (tr_bts_buffer s)) + unat (tb_size (tr_bts_buffer s)) < 2 ^ 32"
  shows "unat (tb_base (tr_bts_buffer s)) \<le> unat (trace_hw_read_bts_record index s)"
    "unat (trace_hw_read_bts_record index s) < unat (tb_base (tr_bts_buffer s)) + unat (tb_size (tr_bts_buffer s))"
proof -
  let ?b = "tb_base (tr_bts_buffer s)" and ?n = "tb_size (tr_bts_buffer s)"
  define off where "off = (ucast (index * 24) :: u64)"
  have r: "trace_hw_read_bts_record index s = ucast (?b + off)" "?b + off < ?b + ?n"
    using assms(1) by (auto simp: trace_hw_read_bts_record_def Let_def off_def not_le split: if_splits)
  have o: "unat off < 2 ^ 32"
    using unsigned_less [of "index * 24", where ?'a = nat] by (simp add: off_def unat_ucast_up)
  then have "unat (?b + off) = unat ?b + unat off" using assms(2) by (simp add: unat_word_ariths)
  moreover have "unat (?b + ?n) = unat ?b + unat ?n" using assms(2) by (simp add: unat_word_ariths)
  ultimately have "unat ?b + unat off < unat ?b + unat ?n" using r(2) by (simp add: word_less_nat_alt)
  moreover from this have "unat (ucast (?b + off) :: u32) = unat ?b + unat off"
    using \<open>unat (?b + off) = unat ?b + unat off\<close> assms(2) by (simp add: unsigned_ucast_eq take_bit_eq_mod)
  ultimately show "unat ?b \<le> unat (trace_hw_read_bts_record index s)"
    "unat (trace_hw_read_bts_record index s) < unat ?b + unat ?n" using r(1) by simp_all
qed

text \<open>But an index far beyond the buffer wraps and is answered with a record at its start.\<close>

lemma trace_hw_read_bts_record_wraps:
  assumes "tr_bts_enabled s \<noteq> 0" "tr_bts_buffer s = \<lparr>tb_base = 0x100000, tb_size = 0x1000, tb_head = 0, tb_tail = 0, tb_wrapped = 0\<rparr>"
  shows "trace_hw_read_bts_record 0x0AAAAAAB s = 0x100008"
  using assms by (simp add: trace_hw_read_bts_record_def Let_def)

text \<open>
  Setting a filter and clearing it again restores every other bit of the control register. The processor has four bits for each
  range; the code uses one, so the second range sets the upper half of the field of the first.
\<close>

lemma trace_hw_filter_set_clear:
  assumes "msr_supported s \<noteq> 0" "tr_intel_pt_supported s \<noteq> 0" "ucast k < tr_num_address_ranges s"
    and "is_reg D (Msr MSR_IA32_RTIT_CTL)" "m = push_bit (unat (32 + ucast k :: u32)) 1"
  shows "tr_rtit_ctl (snd (trace_hw_set_address_filter D k a b s)) = D (trace s) (Msr MSR_IA32_RTIT_CTL) OR m"
    "tr_rtit_ctl (trace_hw_clear_address_filter D k (snd (trace_hw_set_address_filter D k a b s))) =
      D (trace s) (Msr MSR_IA32_RTIT_CTL) AND NOT m"
proof -
  have h: "(tr_num_address_ranges s \<le> ucast k) = False" using assms(3) by auto
  have c: "(x OR m) AND NOT m = x AND NOT m" for x m :: u64 by (rule bit_word_eqI) (auto simp: bit_simps)
  have d: "MSR_IA32_RTIT_ADDR0_A + ucast k * 2 \<noteq> (MSR_IA32_RTIT_CTL :: u32)"
    "MSR_IA32_RTIT_ADDR0_B + ucast k * 2 \<noteq> (MSR_IA32_RTIT_CTL :: u32)"
  proof -
    have "unat k < 256" using unsigned_less [of k, where ?'a = nat] by simp
    then have "unat (x + ucast k * 2 :: u32) = unat x + 2 * unat k" if "unat x < 0x1000" for x :: u32
      using that by (simp add: unat_word_ariths unat_ucast_up)
    then show "MSR_IA32_RTIT_ADDR0_A + ucast k * 2 \<noteq> (MSR_IA32_RTIT_CTL :: u32)"
      "MSR_IA32_RTIT_ADDR0_B + ucast k * 2 \<noteq> (MSR_IA32_RTIT_CTL :: u32)"
      by (simp_all add: word_unat_eq_iff MSR_IA32_RTIT_ADDR0_A_def MSR_IA32_RTIT_ADDR0_B_def MSR_IA32_RTIT_CTL_def)
  qed
  show "tr_rtit_ctl (snd (trace_hw_set_address_filter D k a b s)) = D (trace s) (Msr MSR_IA32_RTIT_CTL) OR m"
    using assms h d unfolding trace_hw_set_address_filter_def by (simp add: msr_is_supported_def msr_on Let_def is_reg_append)
  show "tr_rtit_ctl (trace_hw_clear_address_filter D k (snd (trace_hw_set_address_filter D k a b s))) =
      D (trace s) (Msr MSR_IA32_RTIT_CTL) AND NOT m"
    using assms h d unfolding trace_hw_set_address_filter_def trace_hw_clear_address_filter_def
    by (simp add: msr_is_supported_def msr_on Let_def is_reg_append c)
qed

lemma without_tr_intel_pt_supported:
  assumes "tr_intel_pt_supported s = 0"
  shows "trace_hw_setup_pt_buffer buffer_base buffer_size s = (0, s)"
    "trace_hw_enable_intel_pt user_mode kernel_mode s = (0, s)" "trace_hw_disable_intel_pt s = s"
    "trace_hw_set_address_filter D range_index start_addr end_addr s = (0, s)"
    "trace_hw_clear_address_filter D range_index s = s" "trace_hw_get_pt_status D s = (0, s)"
    "trace_hw_get_pt_buffer_head D s = (0, s)"
  using assms by (simp_all add: trace_hw_setup_pt_buffer_def trace_hw_enable_intel_pt_def trace_hw_disable_intel_pt_def
      trace_hw_set_address_filter_def trace_hw_clear_address_filter_def trace_hw_get_pt_status_def
      trace_hw_get_pt_buffer_head_def)

lemma without_tr_bts_supported:
  assumes "tr_bts_supported s = 0"
  shows "trace_hw_setup_bts_buffer buffer_base buffer_size s = (0, s)" "trace_hw_enable_bts D s = (0, s)"
    "trace_hw_disable_bts D s = s" "trace_hw_get_bts_index D s = (0, s)"
  using assms by (simp_all add: trace_hw_setup_bts_buffer_def trace_hw_enable_bts_def trace_hw_disable_bts_def
      trace_hw_get_bts_index_def)

end
