(* ===== verification/Cpu_Debug_Ext.thy ===== *)
theory Cpu_Debug_Ext
  imports Msr_Regs
begin

text \<open>
  \<open>src/drivers/cpu_debug_ext.c\<close>: processor trace, branch records and branch trace. The fields of
  \<open>cpu_debug_ext_info_t\<close> carry the prefix \<open>ce_\<close>, those of its parts \<open>ipi_\<close>, \<open>li_\<close> and \<open>bi_\<close>.
  \<open>kmalloc\<close>, \<open>virt_to_phys\<close> and \<open>timer_get_ticks\<close>, which no file defines, are answered by the environment.
\<close>

definition MSR_IA32_RTIT_CTL_ce :: "'a::len word" where "MSR_IA32_RTIT_CTL_ce = 0x570"
definition MSR_IA32_RTIT_STATUS_ce :: "'a::len word" where "MSR_IA32_RTIT_STATUS_ce = 0x571"
definition MSR_IA32_RTIT_OUTPUT_BASE_ce :: "'a::len word" where "MSR_IA32_RTIT_OUTPUT_BASE_ce = 0x560"
definition MSR_IA32_RTIT_OUTPUT_MASK_PTRS_ce :: "'a::len word" where "MSR_IA32_RTIT_OUTPUT_MASK_PTRS_ce = 0x561"
definition MSR_LBR_SELECT_ce :: "'a::len word" where "MSR_LBR_SELECT_ce = 0x1C8"
definition MSR_LBR_TOS_ce :: "'a::len word" where "MSR_LBR_TOS_ce = 0x1C9"
definition MSR_LBR_FROM_0 :: "'a::len word" where "MSR_LBR_FROM_0 = 0x680"
definition MSR_LBR_TO_0 :: "'a::len word" where "MSR_LBR_TO_0 = 0x6C0"
definition MSR_LBR_INFO_0 :: "'a::len word" where "MSR_LBR_INFO_0 = 0xDC0"
definition MSR_BTS_BUFFER_BASE_ce :: "'a::len word" where "MSR_BTS_BUFFER_BASE_ce = 0x2A0"
definition MSR_BTS_INDEX_ce :: "'a::len word" where "MSR_BTS_INDEX_ce = 0x2A1"
definition MSR_BTS_ABSOLUTE_MAXIMUM_ce :: "'a::len word" where "MSR_BTS_ABSOLUTE_MAXIMUM_ce = 0x2A2"
definition MSR_BTS_INTERRUPT_THRESHOLD_ce :: "'a::len word" where "MSR_BTS_INTERRUPT_THRESHOLD_ce = 0x2A3"
definition RTIT_CTL_TRACEEN_ce :: "'a::len word" where "RTIT_CTL_TRACEEN_ce = push_bit 0 1"
definition RTIT_CTL_OS_ce :: "'a::len word" where "RTIT_CTL_OS_ce = push_bit 2 1"
definition RTIT_CTL_USER_ce :: "'a::len word" where "RTIT_CTL_USER_ce = push_bit 3 1"
definition RTIT_CTL_TSCEN_ce :: "'a::len word" where "RTIT_CTL_TSCEN_ce = push_bit 10 1"
definition RTIT_CTL_BRANCHEN_ce :: "'a::len word" where "RTIT_CTL_BRANCHEN_ce = push_bit 13 1"

record lbr_entry_ce =
  le_from_ip :: u64
  le_to_ip :: u64
  le_info :: u64
  le_timestamp :: u64

record bts_entry =
  be_from_ip :: u64
  be_to_ip :: u64
  be_flags :: u64

record intel_pt_info =
  ipi_intel_pt_supported :: u8
  ipi_intel_pt_enabled :: u8
  ipi_pt_control :: u64
  ipi_pt_status :: u64
  ipi_pt_output_base :: u64
  ipi_pt_output_mask :: u64
  ipi_pt_packets_generated :: u32
  ipi_pt_trace_size :: u64

record lbr_info =
  li_lbr_supported :: u8
  li_lbr_enabled :: u8
  li_lbr_depth :: u8
  li_lbr_select :: u64
  li_lbr_tos :: u32
  li_lbr_stack :: "lbr_entry_ce list"    \<comment> \<open>32\<close>
  li_lbr_records_captured :: u32

record bts_info =
  bi_bts_supported :: u8
  bi_bts_enabled :: u8
  bi_bts_buffer_base :: u64
  bi_bts_index :: u64
  bi_bts_absolute_max :: u64
  bi_bts_threshold :: u64
  bi_bts_records_captured :: u32
  bi_bts_buffer_overflows :: u32

record cpu_debug_ext = msr +
  ce_cpu_debug_ext_supported :: u8
  ce_intel_pt :: intel_pt_info
  ce_lbr :: lbr_info
  ce_bts :: bts_info
  ce_total_trace_sessions :: u32
  ce_total_trace_time :: u64
  ce_last_trace_start :: u64
  ce_last_trace_end :: u64
  ce_debug_interrupts :: u32

definition cpu_debug_ext_detect_intel_pt :: "device \<Rightarrow> 'a cpu_debug_ext_scheme \<Rightarrow> 'a cpu_debug_ext_scheme" where
  "cpu_debug_ext_detect_intel_pt D s =
     (let ((eax, ebx, ecx, edx), s) = cpuid_sub D 7 0 s;
          s = s\<lparr>ce_intel_pt := (ce_intel_pt s)\<lparr>ipi_intel_pt_supported := c_bool (ebx AND
                                                                                          push_bit 25 1 \<noteq> 0)\<rparr>\<rparr>;
          (eax, ebx, ecx, edx, s) = (if ipi_intel_pt_supported (ce_intel_pt s) \<noteq> 0 then
                                        (let ((eax, ebx, ecx, edx), s) = cpuid_sub D 0x14 0 s
                                         in (eax, ebx, ecx, edx, s))
                                     else (eax, ebx, ecx, edx, s))
      in s)"

definition cpu_debug_ext_detect_lbr :: "device \<Rightarrow> 'a cpu_debug_ext_scheme \<Rightarrow> 'a cpu_debug_ext_scheme" where
  "cpu_debug_ext_detect_lbr D s =
     (let ((eax, ebx, ecx, edx), s) = cpuid D 1 s;
          s = s\<lparr>ce_lbr := (ce_lbr s)\<lparr>li_lbr_supported := c_bool (edx AND
                                                                               push_bit 21 1 \<noteq> 0)\<rparr>\<rparr>;
          (eax, ebx, ecx, edx, s) = (if li_lbr_supported (ce_lbr s) \<noteq> 0 then
                                        (let ((eax, ebx, ecx, edx), s) = cpuid D 0xA s;
                                             s = s\<lparr>ce_lbr := (ce_lbr s)\<lparr>li_lbr_depth := ucast (drop_bit 16 eax AND 0xFF)\<rparr>\<rparr>;
                                             s = (if li_lbr_depth (ce_lbr s) = 0
                                                  then s\<lparr>ce_lbr := (ce_lbr s)\<lparr>li_lbr_depth := 16\<rparr>\<rparr>
                                                  else s);
                                             s = (if li_lbr_depth (ce_lbr s) > 32
                                                  then s\<lparr>ce_lbr := (ce_lbr s)\<lparr>li_lbr_depth := 32\<rparr>\<rparr>
                                                  else s)
                                         in (eax, ebx, ecx, edx, s))
                                     else (eax, ebx, ecx, edx, s))
      in s)"

definition cpu_debug_ext_detect_bts :: "device \<Rightarrow> 'a cpu_debug_ext_scheme \<Rightarrow> 'a cpu_debug_ext_scheme" where
  "cpu_debug_ext_detect_bts D s =
     (let ((eax, ebx, ecx, edx), s) = cpuid D 1 s
      in s\<lparr>ce_bts := (ce_bts s)\<lparr>bi_bts_supported := c_bool (edx AND push_bit 21 1 \<noteq> 0)\<rparr>\<rparr>)"

definition cpu_debug_ext_init :: "device \<Rightarrow> 'a cpu_debug_ext_scheme \<Rightarrow> 'a cpu_debug_ext_scheme" where
  "cpu_debug_ext_init D s =
     (let s = s\<lparr>ce_cpu_debug_ext_supported := 0, ce_total_trace_sessions := 0, ce_total_trace_time := 0,
                ce_last_trace_start := 0, ce_last_trace_end := 0, ce_debug_interrupts := 0\<rparr>;
          s = s\<lparr>ce_intel_pt := (ce_intel_pt s)\<lparr>ipi_intel_pt_supported := 0, ipi_intel_pt_enabled := 0,
                                                      ipi_pt_control := 0, ipi_pt_status := 0, ipi_pt_output_base := 0,
                                                      ipi_pt_output_mask := 0, ipi_pt_packets_generated := 0,
                                                      ipi_pt_trace_size := 0\<rparr>\<rparr>;
          s = s\<lparr>ce_lbr := (ce_lbr s)\<lparr>li_lbr_supported := 0, li_lbr_enabled := 0, li_lbr_depth := 0,
                                            li_lbr_select := 0, li_lbr_tos := 0, li_lbr_records_captured := 0\<rparr>\<rparr>;
          s = fold (\<lambda>i s. s\<lparr>ce_lbr := (ce_lbr s)\<lparr>li_lbr_stack := (li_lbr_stack (ce_lbr s))[i := ((li_lbr_stack (ce_lbr s)) ! i)\<lparr>le_from_ip := 0, le_to_ip := 0, le_info := 0, le_timestamp := 0\<rparr>]\<rparr>\<rparr>)
            [0..<32] s;
          s = s\<lparr>ce_bts := (ce_bts s)\<lparr>bi_bts_supported := 0, bi_bts_enabled := 0, bi_bts_buffer_base := 0,
                                            bi_bts_index := 0, bi_bts_absolute_max := 0, bi_bts_threshold := 0,
                                            bi_bts_records_captured := 0, bi_bts_buffer_overflows := 0\<rparr>\<rparr>;
          s = cpu_debug_ext_detect_intel_pt D s;
          s = cpu_debug_ext_detect_lbr D s;
          s = cpu_debug_ext_detect_bts D s
      in (if ipi_intel_pt_supported (ce_intel_pt s) \<noteq> 0 \<or> li_lbr_supported (ce_lbr s) \<noteq> 0 \<or>
          bi_bts_supported (ce_bts s) \<noteq> 0 then s\<lparr>ce_cpu_debug_ext_supported := 1\<rparr>
          else s))"

definition cpu_debug_ext_is_supported :: "'a cpu_debug_ext_scheme \<Rightarrow> u8" where
  "cpu_debug_ext_is_supported s = ce_cpu_debug_ext_supported s"

definition cpu_debug_ext_enable_intel_pt :: "device \<Rightarrow> u8 \<Rightarrow> u8 \<Rightarrow> 'a cpu_debug_ext_scheme \<Rightarrow> u8 \<times> 'a cpu_debug_ext_scheme" where
  "cpu_debug_ext_enable_intel_pt D user_mode kernel_mode s =
     (if ipi_intel_pt_supported (ce_intel_pt s) = 0 \<or> msr_is_supported s = 0 then (0, s)
      else (let (v, s) = ask_ext D ''kmalloc'' [(1024 * 1024)] s;
                trace_buffer = v
            in (if trace_buffer = 0 then (0, s)
                else (let (v2, s) = ask_ext D ''virt_to_phys'' [(ucast trace_buffer)] s;
                          s = s\<lparr>ce_intel_pt := (ce_intel_pt s)\<lparr>ipi_pt_output_base := v2,
                                                            ipi_pt_output_mask := (1024 * 1024) - 1\<rparr>\<rparr>;
                          s = msr_write MSR_IA32_RTIT_OUTPUT_BASE_ce (ipi_pt_output_base (ce_intel_pt s)) s;
                          s = msr_write MSR_IA32_RTIT_OUTPUT_MASK_PTRS_ce (ipi_pt_output_mask (ce_intel_pt s)) s;
                          pt_ctl = (RTIT_CTL_TRACEEN_ce OR RTIT_CTL_TSCEN_ce OR RTIT_CTL_BRANCHEN_ce :: u64);
                          pt_ctl = (if user_mode \<noteq> 0 then pt_ctl OR RTIT_CTL_USER_ce else pt_ctl);
                          pt_ctl = (if kernel_mode \<noteq> 0 then pt_ctl OR RTIT_CTL_OS_ce else pt_ctl);
                          s = msr_write MSR_IA32_RTIT_CTL_ce pt_ctl s;
                          s = s\<lparr>ce_intel_pt := (ce_intel_pt s)\<lparr>ipi_intel_pt_enabled := 1,
                                                            ipi_pt_control := pt_ctl\<rparr>\<rparr>;
                          (v3, s) = ask_ext D ''timer_get_ticks'' [] s;
                          s = s\<lparr>ce_last_trace_start := v3,
                                ce_total_trace_sessions := ce_total_trace_sessions s + 1\<rparr>
                      in (1, s)))))"

definition cpu_debug_ext_disable_intel_pt :: "device \<Rightarrow> 'a cpu_debug_ext_scheme \<Rightarrow> u8 \<times> 'a cpu_debug_ext_scheme" where
  "cpu_debug_ext_disable_intel_pt D s =
     (if ipi_intel_pt_enabled (ce_intel_pt s) = 0 \<or> msr_is_supported s = 0 then (0, s)
      else (let s = msr_write MSR_IA32_RTIT_CTL_ce 0 s;
                (v, s) = msr_read D MSR_IA32_RTIT_STATUS_ce s;
                s = s\<lparr>ce_intel_pt := (ce_intel_pt s)\<lparr>ipi_pt_status := v,
                                                            ipi_intel_pt_enabled := 0\<rparr>\<rparr>;
                (v2, s) = ask_ext D ''timer_get_ticks'' [] s;
                s = s\<lparr>ce_last_trace_end := v2\<rparr>;
                s = (if ce_last_trace_start s > 0
                     then s\<lparr>ce_total_trace_time := ce_total_trace_time s + (ce_last_trace_end s - ce_last_trace_start s)\<rparr>
                     else s)
            in (1, s)))"

definition cpu_debug_ext_enable_lbr :: "device \<Rightarrow> u64 \<Rightarrow> 'a cpu_debug_ext_scheme \<Rightarrow> u8 \<times> 'a cpu_debug_ext_scheme" where
  "cpu_debug_ext_enable_lbr D select_mask s =
     (if li_lbr_supported (ce_lbr s) = 0 \<or> msr_is_supported s = 0 then (0, s)
      else (let s = msr_write MSR_LBR_SELECT_ce select_mask s;
                s = s\<lparr>ce_lbr := (ce_lbr s)\<lparr>li_lbr_select := select_mask\<rparr>\<rparr>;
                (debugctl, s) = msr_read D 0x1D9 s;
                debugctl = debugctl OR push_bit 0 1;
                s = msr_write 0x1D9 debugctl s;
                s = s\<lparr>ce_lbr := (ce_lbr s)\<lparr>li_lbr_enabled := 1\<rparr>\<rparr>;
                (v2, s) = ask_ext D ''timer_get_ticks'' [] s;
                s = s\<lparr>ce_last_trace_start := v2, ce_total_trace_sessions := ce_total_trace_sessions s + 1\<rparr>
            in (1, s)))"

definition cpu_debug_ext_disable_lbr :: "device \<Rightarrow> 'a cpu_debug_ext_scheme \<Rightarrow> u8 \<times> 'a cpu_debug_ext_scheme" where
  "cpu_debug_ext_disable_lbr D s =
     (if li_lbr_enabled (ce_lbr s) = 0 \<or> msr_is_supported s = 0 then (0, s)
      else (let (debugctl, s) = msr_read D 0x1D9 s;
                debugctl = debugctl AND NOT (push_bit 0 1);
                s = msr_write 0x1D9 debugctl s;
                s = s\<lparr>ce_lbr := (ce_lbr s)\<lparr>li_lbr_enabled := 0\<rparr>\<rparr>;
                (v2, s) = ask_ext D ''timer_get_ticks'' [] s;
                s = s\<lparr>ce_last_trace_end := v2\<rparr>;
                s = (if ce_last_trace_start s > 0
                     then s\<lparr>ce_total_trace_time := ce_total_trace_time s + (ce_last_trace_end s - ce_last_trace_start s)\<rparr>
                     else s)
            in (1, s)))"

definition cpu_debug_ext_read_lbr_stack :: "device \<Rightarrow> 'a cpu_debug_ext_scheme \<Rightarrow> 'a cpu_debug_ext_scheme" where
  "cpu_debug_ext_read_lbr_stack D s =
     (if li_lbr_enabled (ce_lbr s) = 0 \<or> msr_is_supported s = 0 then s
      else (let (v, s) = msr_read D MSR_LBR_TOS_ce s;
                s = s\<lparr>ce_lbr := (ce_lbr s)\<lparr>li_lbr_tos := ucast (v AND 0x1F)\<rparr>\<rparr>;
                s = fold (\<lambda>i s.
                            (let (v2, s) = msr_read D (MSR_LBR_FROM_0 + of_nat i) s;
                                 s = s\<lparr>ce_lbr := (ce_lbr s)\<lparr>li_lbr_stack := (li_lbr_stack (ce_lbr s))[i := ((li_lbr_stack (ce_lbr s)) ! i)\<lparr>le_from_ip := v2\<rparr>]\<rparr>\<rparr>;
                                 (v3, s) = msr_read D (MSR_LBR_TO_0 + of_nat i) s;
                                 s = s\<lparr>ce_lbr := (ce_lbr s)\<lparr>li_lbr_stack := (li_lbr_stack (ce_lbr s))[i := ((li_lbr_stack (ce_lbr s)) ! i)\<lparr>le_to_ip := v3\<rparr>]\<rparr>\<rparr>;
                                 (v4, s) = msr_read D (MSR_LBR_INFO_0 + of_nat i) s;
                                 s = s\<lparr>ce_lbr := (ce_lbr s)\<lparr>li_lbr_stack := (li_lbr_stack (ce_lbr s))[i := ((li_lbr_stack (ce_lbr s)) ! i)\<lparr>le_info := v4\<rparr>]\<rparr>\<rparr>;
                                 (v5, s) = ask_ext D ''timer_get_ticks'' [] s
                             in s\<lparr>ce_lbr := (ce_lbr s)\<lparr>li_lbr_stack := (li_lbr_stack (ce_lbr s))[i := ((li_lbr_stack (ce_lbr s)) ! i)\<lparr>le_timestamp := v5\<rparr>]\<rparr>\<rparr>))
                  [0..<unat (li_lbr_depth (ce_lbr s))] s
            in s\<lparr>ce_lbr := (ce_lbr s)\<lparr>li_lbr_records_captured := (li_lbr_records_captured (ce_lbr s)) + 1\<rparr>\<rparr>))"

definition cpu_debug_ext_enable_bts :: "device \<Rightarrow> u32 \<Rightarrow> u32 \<Rightarrow> 'a cpu_debug_ext_scheme \<Rightarrow> u8 \<times> 'a cpu_debug_ext_scheme" where
  "cpu_debug_ext_enable_bts D buffer buffer_size s =
     (if bi_bts_supported (ce_bts s) = 0 \<or> msr_is_supported s = 0 then (0, s)
      else (let (buffer_phys, s) = ask_ext D ''virt_to_phys'' [(ucast buffer)] s;
                s = msr_write MSR_BTS_BUFFER_BASE_ce buffer_phys s;
                s = msr_write MSR_BTS_ABSOLUTE_MAXIMUM_ce (buffer_phys + ucast buffer_size) s;
                s = msr_write MSR_BTS_INTERRUPT_THRESHOLD_ce (buffer_phys + ucast ((buffer_size * 3) div 4)) s;
                s = msr_write MSR_BTS_INDEX_ce buffer_phys s;
                (debugctl, s) = msr_read D 0x1D9 s;
                debugctl = debugctl OR (push_bit 1 1 OR push_bit 2 1);
                s = msr_write 0x1D9 debugctl s;
                s = s\<lparr>ce_bts := (ce_bts s)\<lparr>bi_bts_enabled := 1, bi_bts_buffer_base := buffer_phys,
                                                  bi_bts_absolute_max := buffer_phys + ucast buffer_size,
                                                  bi_bts_threshold := buffer_phys + ucast ((buffer_size * 3) div 4)\<rparr>\<rparr>;
                (v3, s) = ask_ext D ''timer_get_ticks'' [] s;
                s = s\<lparr>ce_last_trace_start := v3, ce_total_trace_sessions := ce_total_trace_sessions s + 1\<rparr>
            in (1, s)))"

definition cpu_debug_ext_disable_bts :: "device \<Rightarrow> 'a cpu_debug_ext_scheme \<Rightarrow> u8 \<times> 'a cpu_debug_ext_scheme" where
  "cpu_debug_ext_disable_bts D s =
     (if bi_bts_enabled (ce_bts s) = 0 \<or> msr_is_supported s = 0 then (0, s)
      else (let (debugctl, s) = msr_read D 0x1D9 s;
                debugctl = debugctl AND NOT (push_bit 1 1 OR push_bit 2 1);
                s = msr_write 0x1D9 debugctl s;
                (v2, s) = msr_read D MSR_BTS_INDEX_ce s;
                s = s\<lparr>ce_bts := (ce_bts s)\<lparr>bi_bts_index := v2, bi_bts_enabled := 0\<rparr>\<rparr>;
                (v3, s) = ask_ext D ''timer_get_ticks'' [] s;
                s = s\<lparr>ce_last_trace_end := v3\<rparr>;
                s = (if ce_last_trace_start s > 0
                     then s\<lparr>ce_total_trace_time := ce_total_trace_time s + (ce_last_trace_end s - ce_last_trace_start s)\<rparr>
                     else s)
            in (1, s)))"

definition cpu_debug_ext_handle_debug_interrupt :: "'a cpu_debug_ext_scheme \<Rightarrow> 'a cpu_debug_ext_scheme" where
  "cpu_debug_ext_handle_debug_interrupt s =
     (let s = s\<lparr>ce_debug_interrupts := ce_debug_interrupts s + 1\<rparr>
      in (if bi_bts_enabled (ce_bts s) \<noteq> 0
          then s\<lparr>ce_bts := (ce_bts s)\<lparr>bi_bts_buffer_overflows := (bi_bts_buffer_overflows (ce_bts s)) + 1\<rparr>\<rparr>
          else s))"

definition cpu_debug_ext_is_intel_pt_supported :: "'a cpu_debug_ext_scheme \<Rightarrow> u8" where
  "cpu_debug_ext_is_intel_pt_supported s = ipi_intel_pt_supported (ce_intel_pt s)"

definition cpu_debug_ext_is_intel_pt_enabled :: "'a cpu_debug_ext_scheme \<Rightarrow> u8" where
  "cpu_debug_ext_is_intel_pt_enabled s = ipi_intel_pt_enabled (ce_intel_pt s)"

definition cpu_debug_ext_is_lbr_supported :: "'a cpu_debug_ext_scheme \<Rightarrow> u8" where
  "cpu_debug_ext_is_lbr_supported s = li_lbr_supported (ce_lbr s)"

definition cpu_debug_ext_is_lbr_enabled :: "'a cpu_debug_ext_scheme \<Rightarrow> u8" where
  "cpu_debug_ext_is_lbr_enabled s = li_lbr_enabled (ce_lbr s)"

definition cpu_debug_ext_is_bts_supported :: "'a cpu_debug_ext_scheme \<Rightarrow> u8" where
  "cpu_debug_ext_is_bts_supported s = bi_bts_supported (ce_bts s)"

definition cpu_debug_ext_is_bts_enabled :: "'a cpu_debug_ext_scheme \<Rightarrow> u8" where
  "cpu_debug_ext_is_bts_enabled s = bi_bts_enabled (ce_bts s)"

definition cpu_debug_ext_get_lbr_depth :: "'a cpu_debug_ext_scheme \<Rightarrow> u8" where
  "cpu_debug_ext_get_lbr_depth s = li_lbr_depth (ce_lbr s)"

definition cpu_debug_ext_get_lbr_entry :: "u8 \<Rightarrow> 'a cpu_debug_ext_scheme \<Rightarrow> lbr_entry_ce option" where
  "cpu_debug_ext_get_lbr_entry index s =
     (if index \<ge> li_lbr_depth (ce_lbr s) then None
      else Some ((li_lbr_stack (ce_lbr s)) ! (unat index)))"

definition cpu_debug_ext_get_lbr_tos :: "'a cpu_debug_ext_scheme \<Rightarrow> u32" where
  "cpu_debug_ext_get_lbr_tos s = li_lbr_tos (ce_lbr s)"

definition cpu_debug_ext_get_pt_output_base :: "'a cpu_debug_ext_scheme \<Rightarrow> u64" where
  "cpu_debug_ext_get_pt_output_base s = ipi_pt_output_base (ce_intel_pt s)"

definition cpu_debug_ext_get_pt_status :: "'a cpu_debug_ext_scheme \<Rightarrow> u64" where
  "cpu_debug_ext_get_pt_status s = ipi_pt_status (ce_intel_pt s)"

definition cpu_debug_ext_get_total_trace_sessions :: "'a cpu_debug_ext_scheme \<Rightarrow> u32" where
  "cpu_debug_ext_get_total_trace_sessions s = ce_total_trace_sessions s"

definition cpu_debug_ext_get_total_trace_time :: "'a cpu_debug_ext_scheme \<Rightarrow> u64" where
  "cpu_debug_ext_get_total_trace_time s = ce_total_trace_time s"

definition cpu_debug_ext_get_debug_interrupts :: "'a cpu_debug_ext_scheme \<Rightarrow> u32" where
  "cpu_debug_ext_get_debug_interrupts s = ce_debug_interrupts s"

definition cpu_debug_ext_get_lbr_records_captured :: "'a cpu_debug_ext_scheme \<Rightarrow> u32" where
  "cpu_debug_ext_get_lbr_records_captured s = li_lbr_records_captured (ce_lbr s)"

definition cpu_debug_ext_get_bts_records_captured :: "'a cpu_debug_ext_scheme \<Rightarrow> u32" where
  "cpu_debug_ext_get_bts_records_captured s = bi_bts_records_captured (ce_bts s)"

definition cpu_debug_ext_get_bts_buffer_overflows :: "'a cpu_debug_ext_scheme \<Rightarrow> u32" where
  "cpu_debug_ext_get_bts_buffer_overflows s = bi_bts_buffer_overflows (ce_bts s)"

definition cpu_debug_ext_clear_statistics :: "'a cpu_debug_ext_scheme \<Rightarrow> 'a cpu_debug_ext_scheme" where
  "cpu_debug_ext_clear_statistics s =
     (let s = s\<lparr>ce_total_trace_sessions := 0, ce_total_trace_time := 0, ce_debug_interrupts := 0\<rparr>;
          s = s\<lparr>ce_lbr := (ce_lbr s)\<lparr>li_lbr_records_captured := 0\<rparr>\<rparr>;
          s = s\<lparr>ce_bts := (ce_bts s)\<lparr>bi_bts_records_captured := 0, bi_bts_buffer_overflows := 0\<rparr>\<rparr>
      in s\<lparr>ce_intel_pt := (ce_intel_pt s)\<lparr>ipi_pt_packets_generated := 0\<rparr>\<rparr>)"

section \<open>Branch records\<close>

text \<open>The depth found never exceeds the 32 places of the table, so no access leaves it.\<close>

lemma cpu_debug_ext_depth:
  assumes "li_lbr_depth (ce_lbr s) \<le> 32"
  shows "li_lbr_depth (ce_lbr (cpu_debug_ext_detect_lbr D s)) \<le> 32"
proof -
  have "ce_lbr (snd (cpuid D l u)) = ce_lbr u" for l and u :: "'a cpu_debug_ext_scheme"
    by (simp add: cpuid_def cpuid_sub_def rd_def Let_def)
  with assms show ?thesis by (simp add: cpu_debug_ext_detect_lbr_def Let_def case_prod_beta not_less)
qed

text \<open>Switching the branch records on and off leaves every other bit of the debug control register as it was.\<close>

lemma cpu_debug_ext_lbr_on_off:
  assumes "msr_supported s \<noteq> 0" "li_lbr_supported (ce_lbr s) \<noteq> 0" "is_reg D (Msr 0x1D9)"
  shows "last_write i (trace (snd (cpu_debug_ext_disable_lbr D (snd (cpu_debug_ext_enable_lbr D m s))))) (Msr 0x1D9) =
    D (trace s) (Msr 0x1D9) AND NOT 1"
proof -
  have "(x OR 1) AND NOT 1 = x AND NOT 1" for x :: u64 by (rule bit_word_eqI) (auto simp: bit_simps)
  with assms show ?thesis
    unfolding cpu_debug_ext_enable_lbr_def cpu_debug_ext_disable_lbr_def
    by (simp add: msr_is_supported_def msr_on Let_def is_reg_append ask_ext_def rd_def MSR_LBR_SELECT_ce_def)
qed

text \<open>All traces share one start time: when a second one starts, the time of the first up to then is lost.\<close>

lemma cpu_debug_ext_start_overwritten:
  assumes "msr_supported s \<noteq> 0" "li_lbr_supported (ce_lbr s) \<noteq> 0" "cpu_debug_ext_enable_lbr D m s = (r, t)"
  shows "r = 1" "ce_last_trace_start t = last (map (\<lambda>e. case e of Rd _ v \<Rightarrow> v | _ \<Rightarrow> 0) (trace t))"
    "ce_total_trace_time t = ce_total_trace_time s"
  using assms unfolding cpu_debug_ext_enable_lbr_def
  by (auto simp: msr_is_supported_def msr_on Let_def ask_ext_def rd_def)

end
