(* ===== verification/System_Mgmt_Mode.thy ===== *)
theory System_Mgmt_Mode
  imports Msr_Regs
begin

text \<open>
  \<open>src/drivers/system_mgmt_mode.c\<close>: system management interrupts. The fields of \<open>system_mgmt_mode_info_t\<close> carry the
  prefix \<open>sm_\<close>, those of an event \<open>se_\<close> and of the saved state \<open>sss_\<close>. A pointer to a state that is filled is
  passed and returned. A source beyond the table of sixteen has no result. \<open>timer_get_ticks\<close> and
  \<open>cpu_get_current_id\<close>, which no file defines, are answered by the environment.
\<close>

definition MSR_SMM_BASE :: "'a::len word" where "MSR_SMM_BASE = 0x9E"
definition SMRAM_STATE_EAX :: "'a::len word" where "SMRAM_STATE_EAX = 0xFFF8"
definition SMRAM_STATE_ECX :: "'a::len word" where "SMRAM_STATE_ECX = 0xFFF4"
definition SMRAM_STATE_EDX :: "'a::len word" where "SMRAM_STATE_EDX = 0xFFF0"
definition SMRAM_STATE_EBX :: "'a::len word" where "SMRAM_STATE_EBX = 0xFFEC"
definition SMRAM_STATE_ESP :: "'a::len word" where "SMRAM_STATE_ESP = 0xFFE8"
definition SMRAM_STATE_EBP :: "'a::len word" where "SMRAM_STATE_EBP = 0xFFE4"
definition SMRAM_STATE_ESI :: "'a::len word" where "SMRAM_STATE_ESI = 0xFFE0"
definition SMRAM_STATE_EDI :: "'a::len word" where "SMRAM_STATE_EDI = 0xFFDC"
definition SMRAM_STATE_EIP :: "'a::len word" where "SMRAM_STATE_EIP = 0xFFD8"
definition SMRAM_STATE_EFLAGS :: "'a::len word" where "SMRAM_STATE_EFLAGS = 0xFFD4"
definition SMRAM_STATE_CR0 :: "'a::len word" where "SMRAM_STATE_CR0 = 0xFFD0"
definition SMRAM_STATE_CR3 :: "'a::len word" where "SMRAM_STATE_CR3 = 0xFFCC"
definition SMRAM_STATE_CR4 :: "'a::len word" where "SMRAM_STATE_CR4 = 0xFFC8"
definition SMI_SOURCE_TIMER :: "'a::len word" where "SMI_SOURCE_TIMER = 0"
definition SMI_SOURCE_GPIO :: "'a::len word" where "SMI_SOURCE_GPIO = 1"
definition SMI_SOURCE_LEGACY_USB :: "'a::len word" where "SMI_SOURCE_LEGACY_USB = 2"
definition SMI_SOURCE_PERIODIC :: "'a::len word" where "SMI_SOURCE_PERIODIC = 3"
definition SMI_SOURCE_TCO :: "'a::len word" where "SMI_SOURCE_TCO = 4"
definition SMI_SOURCE_MCSMI :: "'a::len word" where "SMI_SOURCE_MCSMI = 5"
definition SMI_SOURCE_BIOS_RLS :: "'a::len word" where "SMI_SOURCE_BIOS_RLS = 6"
definition SMI_SOURCE_BIOS_EN :: "'a::len word" where "SMI_SOURCE_BIOS_EN = 7"
definition SMI_SOURCE_EOS :: "'a::len word" where "SMI_SOURCE_EOS = 8"
definition SMI_SOURCE_GBL_SMI_EN :: "'a::len word" where "SMI_SOURCE_GBL_SMI_EN = 9"
definition SMI_SOURCE_LEGACY_USB2 :: "'a::len word" where "SMI_SOURCE_LEGACY_USB2 = 10"
definition SMI_SOURCE_INTEL_USB2 :: "'a::len word" where "SMI_SOURCE_INTEL_USB2 = 11"
definition SMI_SOURCE_SWSMI_TMR :: "'a::len word" where "SMI_SOURCE_SWSMI_TMR = 12"
definition SMI_SOURCE_APMC :: "'a::len word" where "SMI_SOURCE_APMC = 13"
definition SMI_SOURCE_SLP_SMI :: "'a::len word" where "SMI_SOURCE_SLP_SMI = 14"
definition SMI_SOURCE_PM1_STS :: "'a::len word" where "SMI_SOURCE_PM1_STS = 15"
definition SMM_REV_P6 :: "'a::len word" where "SMM_REV_P6 = 0x00020000"

record smm_state_save =
  sss_eax :: u32
  sss_ecx :: u32
  sss_edx :: u32
  sss_ebx :: u32
  sss_esp :: u32
  sss_ebp :: u32
  sss_esi :: u32
  sss_edi :: u32
  sss_eip :: u32
  sss_eflags :: u32
  sss_cr0 :: u32
  sss_cr3 :: u32
  sss_cr4 :: u32
  sss_es :: u32
  sss_cs :: u32
  sss_ss :: u32
  sss_ds :: u32
  sss_fs :: u32
  sss_gs :: u32
  sss_ldtr :: u32
  sss_tr :: u32
  sss_dr6 :: u32
  sss_dr7 :: u32
  sss_smbase :: u64
  sss_smm_revision :: u32
  sss_auto_halt_restart :: u32
  sss_io_restart_rip :: u64
  sss_io_restart_rcx :: u64
  sss_io_restart_rsi :: u64
  sss_io_restart_rdi :: u64

record smi_event =
  se_smi_source :: u8
  se_timestamp :: u64
  se_duration_cycles :: u32
  se_cpu_id :: u32
  se_instruction_pointer :: u64

record system_mgmt_mode = msr +
  sm_smm_supported :: u8
  sm_smm_enabled :: u8
  sm_smm_locked :: u8
  sm_smram_base :: u64
  sm_smram_size :: u32
  sm_smm_revision :: u32
  sm_total_smi_count :: u32
  sm_smi_sources_enabled :: u32
  sm_smi_events :: "smi_event list"    \<comment> \<open>64\<close>
  sm_smi_event_index :: u32
  sm_num_smi_events :: u32
  sm_total_smm_time :: u64
  sm_last_smi_time :: u64
  sm_smm_entries :: u32
  sm_smm_exits :: u32
  sm_smi_source_counts :: "u32 list"    \<comment> \<open>16\<close>
  sm_smm_handler_installed :: u8
  sm_smm_handler_address :: u64

definition system_mgmt_mode_detect_smm :: "device \<Rightarrow> 'a system_mgmt_mode_scheme \<Rightarrow> 'a system_mgmt_mode_scheme" where
  "system_mgmt_mode_detect_smm D s =
     (let ((eax, ebx, ecx, edx), s) = cpuid D 1 s;
          s = s\<lparr>sm_smm_supported := 1\<rparr>;
          s = (if msr_is_supported s \<noteq> 0 then
                  (let (smm_base, s) = msr_read D MSR_SMM_BASE s
                   in (if smm_base \<noteq> 0xFFFFFFFFFFFFFFFF then s\<lparr>sm_smram_base := smm_base AND 0xFFFFF000,
                                                            sm_smram_size := 0x10000\<rparr>
                       else s\<lparr>sm_smram_base := 0x30000, sm_smram_size := 0x10000\<rparr>))
               else s\<lparr>sm_smram_base := 0x30000, sm_smram_size := 0x10000\<rparr>)
      in s\<lparr>sm_smm_revision := SMM_REV_P6\<rparr>)"

definition system_mgmt_mode_init :: "device \<Rightarrow> 'a system_mgmt_mode_scheme \<Rightarrow> 'a system_mgmt_mode_scheme" where
  "system_mgmt_mode_init D s =
     (let s = s\<lparr>sm_smm_supported := 0, sm_smm_enabled := 0, sm_smm_locked := 0, sm_smram_base := 0,
                sm_smram_size := 0, sm_smm_revision := 0, sm_total_smi_count := 0, sm_smi_sources_enabled := 0,
                sm_smi_event_index := 0, sm_num_smi_events := 0, sm_total_smm_time := 0, sm_last_smi_time := 0,
                sm_smm_entries := 0, sm_smm_exits := 0, sm_smm_handler_installed := 0, sm_smm_handler_address := 0\<rparr>;
          s = fold (\<lambda>i s. s\<lparr>sm_smi_events := (sm_smi_events s)[i := ((sm_smi_events s) ! i)\<lparr>se_smi_source := 0, se_timestamp := 0, se_duration_cycles := 0, se_cpu_id := 0, se_instruction_pointer := 0\<rparr>]\<rparr>)
            [0..<64] s;
          s = fold (\<lambda>i s. s\<lparr>sm_smi_source_counts := (sm_smi_source_counts s)[i := 0]\<rparr>)
            [0..<16] s
      in system_mgmt_mode_detect_smm D s)"

definition system_mgmt_mode_is_supported :: "'a system_mgmt_mode_scheme \<Rightarrow> u8" where
  "system_mgmt_mode_is_supported s = sm_smm_supported s"

definition system_mgmt_mode_enable_smi_source :: "u8 \<Rightarrow> 'a system_mgmt_mode_scheme \<Rightarrow> u8 \<times> 'a system_mgmt_mode_scheme" where
  "system_mgmt_mode_enable_smi_source smi_source s =
     (if sm_smm_supported s = 0 \<or> smi_source \<ge> 16 then (0, s)
      else (let s = s\<lparr>sm_smi_sources_enabled := sm_smi_sources_enabled s OR push_bit (unat smi_source) (1 :: u32)\<rparr>
            in (1, s)))"

definition system_mgmt_mode_disable_smi_source :: "u8 \<Rightarrow> 'a system_mgmt_mode_scheme \<Rightarrow> u8 \<times> 'a system_mgmt_mode_scheme" where
  "system_mgmt_mode_disable_smi_source smi_source s =
     (if sm_smm_supported s = 0 \<or> smi_source \<ge> 16 then (0, s)
      else (let s = s\<lparr>sm_smi_sources_enabled := sm_smi_sources_enabled s AND
            NOT (push_bit (unat smi_source) (1 :: u32))\<rparr>
            in (1, s)))"

definition system_mgmt_mode_trigger_smi :: "u8 \<Rightarrow> 'a system_mgmt_mode_scheme \<Rightarrow> ('a system_mgmt_mode_scheme) option" where
  "system_mgmt_mode_trigger_smi smi_source s =
     (if sm_smm_supported s = 0 then Some s
      else if unat smi_source \<ge> 16 then None
      else Some (let s = (if smi_source = SMI_SOURCE_APMC then outl 0xB2 0x00 s else s)
            in s\<lparr>sm_smi_source_counts := (sm_smi_source_counts s)[unat smi_source := (sm_smi_source_counts s ! (unat smi_source)) + 1]\<rparr>))"

definition system_mgmt_mode_handle_smi_entry :: "device \<Rightarrow> u8 \<Rightarrow> u64 \<Rightarrow> 'a system_mgmt_mode_scheme \<Rightarrow> ('a system_mgmt_mode_scheme) option" where
  "system_mgmt_mode_handle_smi_entry D smi_source instruction_pointer s =
     (if unat smi_source \<ge> 16 then None else Some (let (entry_time, s) = ask_ext D ''timer_get_ticks'' [] s;
          k = unat (sm_smi_event_index s);
          s = s\<lparr>sm_smi_events := (sm_smi_events s)[k := ((sm_smi_events s) ! k)\<lparr>se_smi_source := smi_source,
                                                            se_timestamp := entry_time\<rparr>]\<rparr>;
          (v2, s) = ask_ext D ''cpu_get_current_id'' [] s;
          s = s\<lparr>sm_smi_events := (sm_smi_events s)[k := ((sm_smi_events s) ! k)\<lparr>se_cpu_id := v2,
                                                            se_instruction_pointer := instruction_pointer\<rparr>]\<rparr>;
          s = s\<lparr>sm_smm_entries := sm_smm_entries s + 1, sm_total_smi_count := sm_total_smi_count s + 1,
                sm_last_smi_time := entry_time\<rparr>;
          s = s\<lparr>sm_smi_source_counts := (sm_smi_source_counts s)[unat smi_source := (sm_smi_source_counts s ! (unat smi_source)) + 1]\<rparr>;
          s = s\<lparr>sm_smi_event_index := (sm_smi_event_index s + 1) mod 64\<rparr>
      in (if sm_num_smi_events s < 64 then s\<lparr>sm_num_smi_events := sm_num_smi_events s + 1\<rparr>
          else s)))"

definition system_mgmt_mode_handle_smi_exit :: "u32 \<Rightarrow> 'a system_mgmt_mode_scheme \<Rightarrow> 'a system_mgmt_mode_scheme" where
  "system_mgmt_mode_handle_smi_exit duration_cycles s =
     (let s = (if sm_num_smi_events s > 0 then
                  (let last_index = (sm_smi_event_index s + 63) mod 64;
                       s = s\<lparr>sm_smi_events := (sm_smi_events s)[unat last_index := ((sm_smi_events s) ! (unat last_index))\<lparr>se_duration_cycles := duration_cycles\<rparr>]\<rparr>
                   in s\<lparr>sm_total_smm_time := sm_total_smm_time s + ucast duration_cycles\<rparr>)
               else s)
      in s\<lparr>sm_smm_exits := sm_smm_exits s + 1\<rparr>)"

definition system_mgmt_mode_install_handler :: "device \<Rightarrow> u32 \<Rightarrow> u32 \<Rightarrow> 'a system_mgmt_mode_scheme \<Rightarrow> u8 \<times> 'a system_mgmt_mode_scheme" where
  "system_mgmt_mode_install_handler D handler_code handler_size s =
     (if sm_smm_supported s = 0 \<or> handler_size > sm_smram_size s then (0, s)
      else (let smram = ucast (sm_smram_base s);
                code = handler_code;
                s = fold (\<lambda>i s.
                            (let (v, s) = rd D (Mem8 (code + (of_nat i))) s
                             in wr (Mem8 (smram + (of_nat i))) (v :: u8) s))
                  [0..<unat handler_size] s;
                s = s\<lparr>sm_smm_handler_installed := 1, sm_smm_handler_address := sm_smram_base s\<rparr>
            in (1, s)))"

definition system_mgmt_mode_save_state :: "smm_state_save \<Rightarrow> 'a system_mgmt_mode_scheme \<Rightarrow> 'a system_mgmt_mode_scheme" where
  "system_mgmt_mode_save_state state s =
     (if sm_smm_supported s = 0 then s
      else (let smram = ucast (sm_smram_base s) :: u32;
                s = write32 (smram + SMRAM_STATE_EAX) (sss_eax state) s;
                s = write32 (smram + SMRAM_STATE_ECX) (sss_ecx state) s;
                s = write32 (smram + SMRAM_STATE_EDX) (sss_edx state) s;
                s = write32 (smram + SMRAM_STATE_EBX) (sss_ebx state) s;
                s = write32 (smram + SMRAM_STATE_ESP) (sss_esp state) s;
                s = write32 (smram + SMRAM_STATE_EBP) (sss_ebp state) s;
                s = write32 (smram + SMRAM_STATE_ESI) (sss_esi state) s;
                s = write32 (smram + SMRAM_STATE_EDI) (sss_edi state) s;
                s = write32 (smram + SMRAM_STATE_EIP) (sss_eip state) s;
                s = write32 (smram + SMRAM_STATE_EFLAGS) (sss_eflags state) s;
                s = write32 (smram + SMRAM_STATE_CR0) (sss_cr0 state) s;
                s = write32 (smram + SMRAM_STATE_CR3) (sss_cr3 state) s;
                s = write32 (smram + SMRAM_STATE_CR4) (sss_cr4 state) s
            in s))"

definition system_mgmt_mode_restore_state ::
    "device \<Rightarrow> smm_state_save \<Rightarrow> 'a system_mgmt_mode_scheme \<Rightarrow> smm_state_save \<times> 'a system_mgmt_mode_scheme" where
  "system_mgmt_mode_restore_state D state s =
     (if sm_smm_supported s = 0 then (state, s)
      else (let smram = ucast (sm_smram_base s) :: u32;
                (eax, s) = read32 D (smram + SMRAM_STATE_EAX) s;
                (ecx, s) = read32 D (smram + SMRAM_STATE_ECX) s;
                (edx, s) = read32 D (smram + SMRAM_STATE_EDX) s;
                (ebx, s) = read32 D (smram + SMRAM_STATE_EBX) s;
                (esp, s) = read32 D (smram + SMRAM_STATE_ESP) s;
                (ebp, s) = read32 D (smram + SMRAM_STATE_EBP) s;
                (esi, s) = read32 D (smram + SMRAM_STATE_ESI) s;
                (edi, s) = read32 D (smram + SMRAM_STATE_EDI) s;
                (eip, s) = read32 D (smram + SMRAM_STATE_EIP) s;
                (eflags, s) = read32 D (smram + SMRAM_STATE_EFLAGS) s;
                (cr0, s) = read32 D (smram + SMRAM_STATE_CR0) s;
                (cr3, s) = read32 D (smram + SMRAM_STATE_CR3) s;
                (cr4, s) = read32 D (smram + SMRAM_STATE_CR4) s
            in (state\<lparr>sss_eax := eax, sss_ecx := ecx, sss_edx := edx, sss_ebx := ebx, sss_esp := esp,
                sss_ebp := ebp, sss_esi := esi, sss_edi := edi, sss_eip := eip, sss_eflags := eflags,
                sss_cr0 := cr0, sss_cr3 := cr3, sss_cr4 := cr4\<rparr>, s)))"

definition system_mgmt_mode_is_enabled :: "'a system_mgmt_mode_scheme \<Rightarrow> u8" where
  "system_mgmt_mode_is_enabled s = sm_smm_enabled s"

definition system_mgmt_mode_is_locked :: "'a system_mgmt_mode_scheme \<Rightarrow> u8" where
  "system_mgmt_mode_is_locked s = sm_smm_locked s"

definition system_mgmt_mode_get_smram_base :: "'a system_mgmt_mode_scheme \<Rightarrow> u64" where
  "system_mgmt_mode_get_smram_base s = sm_smram_base s"

definition system_mgmt_mode_get_smram_size :: "'a system_mgmt_mode_scheme \<Rightarrow> u32" where
  "system_mgmt_mode_get_smram_size s = sm_smram_size s"

definition system_mgmt_mode_get_smm_revision :: "'a system_mgmt_mode_scheme \<Rightarrow> u32" where
  "system_mgmt_mode_get_smm_revision s = sm_smm_revision s"

definition system_mgmt_mode_get_total_smi_count :: "'a system_mgmt_mode_scheme \<Rightarrow> u32" where
  "system_mgmt_mode_get_total_smi_count s = sm_total_smi_count s"

definition system_mgmt_mode_get_smi_sources_enabled :: "'a system_mgmt_mode_scheme \<Rightarrow> u32" where
  "system_mgmt_mode_get_smi_sources_enabled s = sm_smi_sources_enabled s"

definition system_mgmt_mode_get_num_smi_events :: "'a system_mgmt_mode_scheme \<Rightarrow> u32" where
  "system_mgmt_mode_get_num_smi_events s = sm_num_smi_events s"

definition system_mgmt_mode_get_smi_event :: "u32 \<Rightarrow> 'a system_mgmt_mode_scheme \<Rightarrow> smi_event option" where
  "system_mgmt_mode_get_smi_event index s =
     (if index \<ge> sm_num_smi_events s then None
      else Some (sm_smi_events s ! (unat index)))"

definition system_mgmt_mode_get_total_smm_time :: "'a system_mgmt_mode_scheme \<Rightarrow> u64" where
  "system_mgmt_mode_get_total_smm_time s = sm_total_smm_time s"

definition system_mgmt_mode_get_last_smi_time :: "'a system_mgmt_mode_scheme \<Rightarrow> u64" where
  "system_mgmt_mode_get_last_smi_time s = sm_last_smi_time s"

definition system_mgmt_mode_get_smm_entries :: "'a system_mgmt_mode_scheme \<Rightarrow> u32" where
  "system_mgmt_mode_get_smm_entries s = sm_smm_entries s"

definition system_mgmt_mode_get_smm_exits :: "'a system_mgmt_mode_scheme \<Rightarrow> u32" where
  "system_mgmt_mode_get_smm_exits s = sm_smm_exits s"

definition system_mgmt_mode_get_smi_source_count :: "u8 \<Rightarrow> 'a system_mgmt_mode_scheme \<Rightarrow> u32" where
  "system_mgmt_mode_get_smi_source_count smi_source s =
     (if smi_source \<ge> 16 then 0
      else sm_smi_source_counts s ! (unat smi_source))"

definition system_mgmt_mode_is_handler_installed :: "'a system_mgmt_mode_scheme \<Rightarrow> u8" where
  "system_mgmt_mode_is_handler_installed s = sm_smm_handler_installed s"

definition system_mgmt_mode_get_handler_address :: "'a system_mgmt_mode_scheme \<Rightarrow> u64" where
  "system_mgmt_mode_get_handler_address s = sm_smm_handler_address s"

definition system_mgmt_mode_get_smi_source_name :: "u8 \<Rightarrow> string" where
  "system_mgmt_mode_get_smi_source_name smi_source =
     (if smi_source = SMI_SOURCE_TIMER then ''Timer''
      else if smi_source = SMI_SOURCE_GPIO then ''GPIO''
      else if smi_source = SMI_SOURCE_LEGACY_USB then ''Legacy USB''
      else if smi_source = SMI_SOURCE_PERIODIC then ''Periodic''
      else if smi_source = SMI_SOURCE_TCO then ''TCO''
      else if smi_source = SMI_SOURCE_MCSMI then ''MCSMI''
      else if smi_source = SMI_SOURCE_BIOS_RLS then ''BIOS RLS''
      else if smi_source = SMI_SOURCE_BIOS_EN then ''BIOS EN''
      else if smi_source = SMI_SOURCE_EOS then ''EOS''
      else if smi_source = SMI_SOURCE_GBL_SMI_EN then ''Global SMI EN''
      else if smi_source = SMI_SOURCE_LEGACY_USB2 then ''Legacy USB2''
      else if smi_source = SMI_SOURCE_INTEL_USB2 then ''Intel USB2''
      else if smi_source = SMI_SOURCE_SWSMI_TMR then ''SW SMI Timer''
      else if smi_source = SMI_SOURCE_APMC then ''APMC''
      else if smi_source = SMI_SOURCE_SLP_SMI then ''Sleep SMI''
      else if smi_source = SMI_SOURCE_PM1_STS then ''PM1 Status''
      else ''Unknown'')"

definition system_mgmt_mode_clear_statistics :: "'a system_mgmt_mode_scheme \<Rightarrow> 'a system_mgmt_mode_scheme" where
  "system_mgmt_mode_clear_statistics s =
     (let s = s\<lparr>sm_total_smi_count := 0, sm_num_smi_events := 0, sm_smi_event_index := 0, sm_total_smm_time := 0,
                sm_smm_entries := 0, sm_smm_exits := 0\<rparr>
      in fold (\<lambda>i s. s\<lparr>sm_smi_source_counts := (sm_smi_source_counts s)[i := 0]\<rparr>)
            [0..<16] s)"

section \<open>The state save area\<close>

lemmas smram_offsets = SMRAM_STATE_EAX_def SMRAM_STATE_ECX_def SMRAM_STATE_EDX_def SMRAM_STATE_EBX_def SMRAM_STATE_ESP_def
  SMRAM_STATE_EBP_def SMRAM_STATE_ESI_def SMRAM_STATE_EDI_def SMRAM_STATE_EIP_def SMRAM_STATE_EFLAGS_def
  SMRAM_STATE_CR0_def SMRAM_STATE_CR3_def SMRAM_STATE_CR4_def

text \<open>What \<open>system_mgmt_mode_save_state\<close> stores in the save area \<open>system_mgmt_mode_restore_state\<close> reads back, whatever
  the state it is read into held before.\<close>

lemma smm_save_restore:
  assumes "sm_smm_supported s \<noteq> 0" "\<forall>a. is_reg D (Mem32 a)"
    and "system_mgmt_mode_restore_state D old (system_mgmt_mode_save_state state s) = (st, t)"
  shows "sss_eax st = sss_eax state \<and> sss_ecx st = sss_ecx state \<and> sss_edx st = sss_edx state \<and>
    sss_ebx st = sss_ebx state \<and> sss_esp st = sss_esp state \<and> sss_ebp st = sss_ebp state \<and>
    sss_esi st = sss_esi state \<and> sss_edi st = sss_edi state \<and> sss_eip st = sss_eip state \<and>
    sss_eflags st = sss_eflags state \<and> sss_cr0 st = sss_cr0 state \<and> sss_cr3 st = sss_cr3 state \<and>
    sss_cr4 st = sss_cr4 state"
proof -
  have "D (t @ u) (Mem32 a) = last_write (D t (Mem32 a)) u (Mem32 a)" for t u a
    using assms(2) by (simp add: is_reg_append)
  then have rr: "fst (read32 D a (snd (read32 D b u))) = fst (read32 D a u)"
    and rw: "fst (read32 D a (write32 b v u)) = (if a = b then v else fst (read32 D a u))"
    for a b v and u :: "'a system_mgmt_mode_scheme" by (simp_all add: bus)
  have w: "sm_smm_supported (write32 b v u) = sm_smm_supported u" "sm_smram_base (write32 b v u) = sm_smram_base u"
    for b v and u :: "'a system_mgmt_mode_scheme" by (simp_all add: bus)
  have "st = fst (system_mgmt_mode_restore_state D old (system_mgmt_mode_save_state state s))" using assms(3) by simp
  then show ?thesis using assms(1)
    by (simp add: system_mgmt_mode_save_state_def system_mgmt_mode_restore_state_def Let_def case_prod_beta rr rw w smram_offsets)
qed

section \<open>Events\<close>

text \<open>Enabling a source and disabling it again leaves the other sources as they were.\<close>

lemma smi_source_enable_disable:
  assumes "sm_smm_supported s \<noteq> 0" "src < 16"
  shows "sm_smi_sources_enabled (snd (system_mgmt_mode_disable_smi_source src (snd (system_mgmt_mode_enable_smi_source src s)))) =
    sm_smi_sources_enabled s AND NOT (push_bit (unat src) 1)"
proof -
  have "(x OR m) AND NOT m = x AND NOT m" for x m :: u32 by (rule bit_word_eqI) (auto simp: bit_simps)
  moreover have "(16 \<le> src) = False" using assms(2) by auto
  ultimately show ?thesis using assms(1)
    by (simp add: system_mgmt_mode_disable_smi_source_def system_mgmt_mode_enable_smi_source_def)
qed

text \<open>A source beyond the table is refused when it is enabled, but not when it is triggered.\<close>

lemma smi_trigger_beyond:
  assumes "sm_smm_supported s \<noteq> 0" "16 \<le> unat src"
  shows "system_mgmt_mode_enable_smi_source src s = (0, s)" "system_mgmt_mode_trigger_smi src s = None"
  using assms by (simp_all add: system_mgmt_mode_enable_smi_source_def system_mgmt_mode_trigger_smi_def word_le_nat_alt)

lemma without_sm_smm_supported:
  assumes "sm_smm_supported s = 0"
  shows "system_mgmt_mode_enable_smi_source smi_source s = (0, s)"
    "system_mgmt_mode_disable_smi_source smi_source s = (0, s)" "system_mgmt_mode_trigger_smi smi_source s = Some s"
    "system_mgmt_mode_install_handler D handler_code handler_size s = (0, s)" "system_mgmt_mode_save_state state s = s"
  using assms by (simp_all add: system_mgmt_mode_enable_smi_source_def system_mgmt_mode_disable_smi_source_def
      system_mgmt_mode_trigger_smi_def system_mgmt_mode_install_handler_def system_mgmt_mode_save_state_def)

end
