(* ===== verification/Memory_Protection_Adv.thy ===== *)
theory Memory_Protection_Adv
  imports Msr_Regs History_Ring
begin

text \<open>
  \<open>src/drivers/memory_protection_adv.c\<close>: protected regions, domains and the record of violations. The fields of
  \<open>memory_protection_info_t\<close> carry the prefix \<open>ma_\<close>, those of a region \<open>pr_\<close> and of a violation \<open>pv_\<close>.
  A pointer to a region is its index; an index outside the tables and a shift by the width of the type have no result.
  \<open>timer_get_ticks\<close> and \<open>cpu_get_current_id\<close>, which no file defines, are answered by the environment.
\<close>

definition PTE_NX :: "'a::len word" where "PTE_NX = push_bit 63 1"
definition PTE_PKEY_MASK :: "'a::len word" where "PTE_PKEY_MASK = push_bit 59 0xF"
definition PTE_PKEY_SHIFT :: "'a::len word" where "PTE_PKEY_SHIFT = 59"
definition PROTECTION_DOMAIN_KERNEL :: "'a::len word" where "PROTECTION_DOMAIN_KERNEL = 0"
definition PROTECTION_DOMAIN_USER :: "'a::len word" where "PROTECTION_DOMAIN_USER = 1"
definition PROTECTION_DOMAIN_DRIVER :: "'a::len word" where "PROTECTION_DOMAIN_DRIVER = 2"
definition PROTECTION_DOMAIN_SECURE :: "'a::len word" where "PROTECTION_DOMAIN_SECURE = 3"
definition ACCESS_TYPE_READ :: "'a::len word" where "ACCESS_TYPE_READ = 0"
definition ACCESS_TYPE_WRITE :: "'a::len word" where "ACCESS_TYPE_WRITE = 1"
definition ACCESS_TYPE_EXECUTE :: "'a::len word" where "ACCESS_TYPE_EXECUTE = 2"
definition VIOLATION_TYPE_SMEP :: "'a::len word" where "VIOLATION_TYPE_SMEP = 0"
definition VIOLATION_TYPE_SMAP :: "'a::len word" where "VIOLATION_TYPE_SMAP = 1"
definition VIOLATION_TYPE_PKEY :: "'a::len word" where "VIOLATION_TYPE_PKEY = 2"
definition VIOLATION_TYPE_NX :: "'a::len word" where "VIOLATION_TYPE_NX = 3"
definition VIOLATION_TYPE_CET :: "'a::len word" where "VIOLATION_TYPE_CET = 4"

record protected_region =
  pr_virtual_address :: u64
  pr_physical_address :: u64
  pr_size :: u64
  pr_protection_key :: u8
  pr_access_permissions :: u8
  pr_domain :: u8
  pr_access_count :: u32
  pr_last_access_time :: u64

record protection_violation =
  pv_fault_address :: u64
  pv_violation_type :: u8
  pv_access_type :: u8
  pv_protection_key :: u8
  pv_timestamp :: u64
  pv_cpu_id :: u32
  pv_instruction_pointer :: u64

record memory_protection_adv = msr +
  ma_memory_protection_supported :: u8
  ma_nx_supported :: u8
  ma_smep_active :: u8
  ma_smap_active :: u8
  ma_pku_active :: u8
  ma_cet_active :: u8
  ma_num_protected_regions :: u32
  ma_protected_regions :: "protected_region list"    \<comment> \<open>256\<close>
  ma_num_violations :: u32
  ma_violations :: "protection_violation list"    \<comment> \<open>128\<close>
  ma_violation_index :: u32
  ma_total_access_checks :: u32
  ma_access_denied_count :: u32
  ma_last_violation_time :: u64
  ma_protection_keys_used :: u32
  ma_domain_permissions :: "u8 list list"    \<comment> \<open>4 x 4\<close>

definition memory_protection_detect_features :: "device \<Rightarrow> 'a memory_protection_adv_scheme \<Rightarrow> 'a memory_protection_adv_scheme" where
  "memory_protection_detect_features D s =
     (let ((eax, ebx, ecx, edx), s) = cpuid D 0x80000001 s;
          s = s\<lparr>ma_nx_supported := c_bool (edx AND push_bit 20 1 \<noteq> 0)\<rparr>;
          ((eax, ebx, ecx, edx), s) = cpuid_sub D 7 0 s;
          (cr4 :: u64, s) = rd D (Creg 4) s;
          s = s\<lparr>ma_smep_active := c_bool (cr4 AND push_bit 20 1 \<noteq> 0),
                ma_smap_active := c_bool (cr4 AND push_bit 21 1 \<noteq> 0),
                ma_pku_active := c_bool (cr4 AND push_bit 22 1 \<noteq> 0),
                ma_cet_active := c_bool (cr4 AND push_bit 23 1 \<noteq> 0)\<rparr>
      in (if ma_nx_supported s \<noteq> 0 \<or> ma_smep_active s \<noteq> 0 \<or> ma_smap_active s \<noteq> 0 \<or>
          ma_pku_active s \<noteq> 0 then s\<lparr>ma_memory_protection_supported := 1\<rparr>
          else s))"

definition memory_protection_adv_init :: "device \<Rightarrow> 'a memory_protection_adv_scheme \<Rightarrow> 'a memory_protection_adv_scheme" where
  "memory_protection_adv_init D s =
     (let s = s\<lparr>ma_memory_protection_supported := 0, ma_nx_supported := 0, ma_smep_active := 0, ma_smap_active := 0,
                ma_pku_active := 0, ma_cet_active := 0, ma_num_protected_regions := 0, ma_num_violations := 0,
                ma_violation_index := 0, ma_total_access_checks := 0, ma_access_denied_count := 0,
                ma_last_violation_time := 0, ma_protection_keys_used := 0\<rparr>;
          s = fold (\<lambda>i s. s\<lparr>ma_protected_regions := (ma_protected_regions s)[i := ((ma_protected_regions s) ! i)\<lparr>pr_virtual_address := 0, pr_physical_address := 0, pr_size := 0, pr_protection_key := 0, pr_access_permissions := 0, pr_domain := 0, pr_access_count := 0, pr_last_access_time := 0\<rparr>]\<rparr>)
            [0..<256] s;
          s = fold (\<lambda>i s. s\<lparr>ma_violations := (ma_violations s)[i := ((ma_violations s) ! i)\<lparr>pv_fault_address := 0, pv_violation_type := 0, pv_access_type := 0, pv_protection_key := 0, pv_timestamp := 0, pv_cpu_id := 0, pv_instruction_pointer := 0\<rparr>]\<rparr>)
            [0..<128] s;
          s = fold (\<lambda>domain s. fold (\<lambda>access s. s\<lparr>ma_domain_permissions := (ma_domain_permissions s)[domain := ((ma_domain_permissions s) ! domain)[access := 1]]\<rparr>)
                    [0..<4] s)
            [0..<4] s;
          s = s\<lparr>ma_domain_permissions := (ma_domain_permissions s)[unat (PROTECTION_DOMAIN_USER :: u32) := ((ma_domain_permissions s) ! (unat (PROTECTION_DOMAIN_USER :: u32)))[unat (ACCESS_TYPE_EXECUTE :: u32) := 0]]\<rparr>;
          s = s\<lparr>ma_domain_permissions := (ma_domain_permissions s)[unat (PROTECTION_DOMAIN_SECURE :: u32) := ((ma_domain_permissions s) ! (unat (PROTECTION_DOMAIN_SECURE :: u32)))[unat (ACCESS_TYPE_WRITE :: u32) := 0]]\<rparr>
      in memory_protection_detect_features D s)"

definition memory_protection_adv_is_supported :: "'a memory_protection_adv_scheme \<Rightarrow> u8" where
  "memory_protection_adv_is_supported s = ma_memory_protection_supported s"

definition memory_protection_adv_register_region :: "u64 \<Rightarrow> u64 \<Rightarrow> u64 \<Rightarrow> u8 \<Rightarrow> u8 \<Rightarrow> u8 \<Rightarrow> 'a memory_protection_adv_scheme \<Rightarrow> (u8 \<times> 'a memory_protection_adv_scheme) option" where
  "memory_protection_adv_register_region virtual_addr physical_addr size' protection_key permissions domain s =
     (if ma_num_protected_regions s \<ge> 256 then Some (0, s)
      else if protection_key \<ge> 32 then None
      else Some (let k = unat (ma_num_protected_regions s);
                s = s\<lparr>ma_protected_regions := (ma_protected_regions s)[k := ((ma_protected_regions s) ! k)\<lparr>pr_virtual_address := virtual_addr, pr_physical_address := physical_addr, pr_size := size', pr_protection_key := protection_key, pr_access_permissions := permissions, pr_domain := domain, pr_access_count := 0, pr_last_access_time := 0\<rparr>]\<rparr>;
                s = s\<lparr>ma_num_protected_regions := ma_num_protected_regions s + 1\<rparr>;
                s = (if protection_key > 0 then s\<lparr>ma_protection_keys_used := ma_protection_keys_used s OR
                     push_bit (unat protection_key) (1 :: u32)\<rparr>
                     else s)
            in (1, s)))"

definition in_region :: "u64 \<Rightarrow> protected_region \<Rightarrow> bool" where
  "in_region a r \<longleftrightarrow> a \<ge> pr_virtual_address r \<and> a < pr_virtual_address r + pr_size r"

definition find_region :: "u64 \<Rightarrow> 'a memory_protection_adv_scheme \<Rightarrow> nat option" where
  "find_region a s = find (\<lambda>i. in_region a (ma_protected_regions s ! i)) [0..<unat (ma_num_protected_regions s)]"

definition memory_protection_adv_check_access ::
    "device \<Rightarrow> u64 \<Rightarrow> u8 \<Rightarrow> u8 \<Rightarrow> 'a memory_protection_adv_scheme \<Rightarrow> (u8 \<times> 'a memory_protection_adv_scheme) option" where
  "memory_protection_adv_check_access D virtual_addr access_type current_domain s =
     (let s = s\<lparr>ma_total_access_checks := ma_total_access_checks s + 1\<rparr>
      in case find_region virtual_addr s of
           None \<Rightarrow> Some (1, s)
         | Some i \<Rightarrow>
             if current_domain \<ge> 4 \<or> access_type \<ge> 4 then None
             else if ma_domain_permissions s ! unat current_domain ! unat access_type = 0
             then Some (0, s\<lparr>ma_access_denied_count := ma_access_denied_count s + 1\<rparr>)
             else (let required_perm = push_bit (unat access_type) 1
                   in if pr_access_permissions (ma_protected_regions s ! i) AND required_perm = 0
                      then Some (0, s\<lparr>ma_access_denied_count := ma_access_denied_count s + 1\<rparr>)
                      else (let s = s\<lparr>ma_protected_regions := (ma_protected_regions s)[i := (ma_protected_regions s ! i)
                                    \<lparr>pr_access_count := pr_access_count (ma_protected_regions s ! i) + 1\<rparr>]\<rparr>;
                                (now, s) = ask_ext D ''timer_get_ticks'' [] s
                            in Some (1, s\<lparr>ma_protected_regions := (ma_protected_regions s)[i := (ma_protected_regions s ! i)
                                    \<lparr>pr_last_access_time := now\<rparr>]\<rparr>))))"

definition memory_protection_adv_handle_violation ::
    "device \<Rightarrow> u64 \<Rightarrow> u8 \<Rightarrow> u8 \<Rightarrow> u64 \<Rightarrow> 'a memory_protection_adv_scheme \<Rightarrow> 'a memory_protection_adv_scheme" where
  "memory_protection_adv_handle_violation D fault_addr violation_type access_type instruction_ptr s =
     (let k = unat (ma_violation_index s);
          (now, s) = ask_ext D ''timer_get_ticks'' [] s;
          (cpu, s) = ask_ext D ''cpu_get_current_id'' [] s;
          key = (case find_region fault_addr s of Some i \<Rightarrow> pr_protection_key (ma_protected_regions s ! i) | None \<Rightarrow> 0);
          s = s\<lparr>ma_violations := (ma_violations s)[k := \<lparr>pv_fault_address = fault_addr, pv_violation_type = violation_type,
                pv_access_type = access_type, pv_protection_key = key, pv_timestamp = now, pv_cpu_id = cpu,
                pv_instruction_pointer = instruction_ptr\<rparr>],
              ma_violation_index := (ma_violation_index s + 1) mod 128\<rparr>;
          s = (if ma_num_violations s < 128 then s\<lparr>ma_num_violations := ma_num_violations s + 1\<rparr> else s)
      in s\<lparr>ma_last_violation_time := now\<rparr>)"

definition memory_protection_adv_set_page_protection_key :: "device \<Rightarrow> u64 \<Rightarrow> u8 \<Rightarrow> 'a memory_protection_adv_scheme \<Rightarrow> u64 \<times> 'a memory_protection_adv_scheme" where
  "memory_protection_adv_set_page_protection_key D page_addr protection_key s =
     (if ma_pku_active s = 0 \<or> protection_key \<ge> 16 then (0, s)
      else (let pte = ucast (0xFFFF800000000000 + (drop_bit 12 page_addr * 8));
                (v, s) = read64 D pte s;
                s = write64 pte (v AND NOT PTE_PKEY_MASK) s;
                (v2, s) = read64 D pte s;
                s = write64 pte (v2 OR push_bit 59 (ucast protection_key)) s;
                s = insn (Asm ''invlpg (%0)'' [page_addr]) s
            in read64 D pte s))"

definition memory_protection_adv_set_nx_bit :: "device \<Rightarrow> u64 \<Rightarrow> u8 \<Rightarrow> 'a memory_protection_adv_scheme \<Rightarrow> u8 \<times> 'a memory_protection_adv_scheme" where
  "memory_protection_adv_set_nx_bit D page_addr enable s =
     (if ma_nx_supported s = 0 then (0, s)
      else (let pte = ucast (0xFFFF800000000000 + (drop_bit 12 page_addr * 8));
                s = (if enable \<noteq> 0 then
                        (let (v, s) = read64 D pte s
                         in write64 pte (v OR PTE_NX) s)
                     else (let (v2, s) = read64 D pte s
                           in write64 pte (v2 AND NOT PTE_NX) s));
                s = insn (Asm ''invlpg (%0)'' [page_addr]) s
            in (1, s)))"

definition memory_protection_adv_set_domain_permission :: "u8 \<Rightarrow> u8 \<Rightarrow> u8 \<Rightarrow> 'a memory_protection_adv_scheme \<Rightarrow> 'a memory_protection_adv_scheme" where
  "memory_protection_adv_set_domain_permission domain access_type allowed s =
     (if domain \<ge> 4 \<or> access_type \<ge> 4 then s
      else s\<lparr>ma_domain_permissions := (ma_domain_permissions s)[unat domain := ((ma_domain_permissions s) ! (unat domain))[unat access_type := allowed]]\<rparr>)"

definition memory_protection_adv_get_domain_permission :: "u8 \<Rightarrow> u8 \<Rightarrow> 'a memory_protection_adv_scheme \<Rightarrow> u8" where
  "memory_protection_adv_get_domain_permission domain access_type s =
     (if domain \<ge> 4 \<or> access_type \<ge> 4 then 0
      else (ma_domain_permissions s ! (unat domain)) ! (unat access_type))"

definition memory_protection_adv_is_nx_supported :: "'a memory_protection_adv_scheme \<Rightarrow> u8" where
  "memory_protection_adv_is_nx_supported s = ma_nx_supported s"

definition memory_protection_adv_is_smep_active :: "'a memory_protection_adv_scheme \<Rightarrow> u8" where
  "memory_protection_adv_is_smep_active s = ma_smep_active s"

definition memory_protection_adv_is_smap_active :: "'a memory_protection_adv_scheme \<Rightarrow> u8" where
  "memory_protection_adv_is_smap_active s = ma_smap_active s"

definition memory_protection_adv_is_pku_active :: "'a memory_protection_adv_scheme \<Rightarrow> u8" where
  "memory_protection_adv_is_pku_active s = ma_pku_active s"

definition memory_protection_adv_is_cet_active :: "'a memory_protection_adv_scheme \<Rightarrow> u8" where
  "memory_protection_adv_is_cet_active s = ma_cet_active s"

definition memory_protection_adv_get_num_protected_regions :: "'a memory_protection_adv_scheme \<Rightarrow> u32" where
  "memory_protection_adv_get_num_protected_regions s = ma_num_protected_regions s"

definition memory_protection_adv_get_region_info :: "u32 \<Rightarrow> 'a memory_protection_adv_scheme \<Rightarrow> protected_region option" where
  "memory_protection_adv_get_region_info index s =
     (if index \<ge> ma_num_protected_regions s then None
      else Some (ma_protected_regions s ! (unat index)))"

definition memory_protection_adv_get_num_violations :: "'a memory_protection_adv_scheme \<Rightarrow> u32" where
  "memory_protection_adv_get_num_violations s = ma_num_violations s"

definition memory_protection_adv_get_violation_info :: "u32 \<Rightarrow> 'a memory_protection_adv_scheme \<Rightarrow> protection_violation option" where
  "memory_protection_adv_get_violation_info index s =
     (if index \<ge> ma_num_violations s then None
      else Some (ma_violations s ! (unat index)))"

definition memory_protection_adv_get_total_access_checks :: "'a memory_protection_adv_scheme \<Rightarrow> u32" where
  "memory_protection_adv_get_total_access_checks s = ma_total_access_checks s"

definition memory_protection_adv_get_access_denied_count :: "'a memory_protection_adv_scheme \<Rightarrow> u32" where
  "memory_protection_adv_get_access_denied_count s = ma_access_denied_count s"

definition memory_protection_adv_get_last_violation_time :: "'a memory_protection_adv_scheme \<Rightarrow> u64" where
  "memory_protection_adv_get_last_violation_time s = ma_last_violation_time s"

definition memory_protection_adv_get_protection_keys_used :: "'a memory_protection_adv_scheme \<Rightarrow> u32" where
  "memory_protection_adv_get_protection_keys_used s = ma_protection_keys_used s"

definition memory_protection_adv_get_violation_type_name :: "u8 \<Rightarrow> string" where
  "memory_protection_adv_get_violation_type_name violation_type =
     (if violation_type = VIOLATION_TYPE_SMEP then ''SMEP''
      else if violation_type = VIOLATION_TYPE_SMAP then ''SMAP''
      else if violation_type = VIOLATION_TYPE_PKEY then ''Protection Key''
      else if violation_type = VIOLATION_TYPE_NX then ''NX Bit''
      else if violation_type = VIOLATION_TYPE_CET then ''CET''
      else ''Unknown'')"

definition memory_protection_adv_get_access_type_name :: "u8 \<Rightarrow> string" where
  "memory_protection_adv_get_access_type_name access_type =
     (if access_type = ACCESS_TYPE_READ then ''Read''
      else if access_type = ACCESS_TYPE_WRITE then ''Write''
      else if access_type = ACCESS_TYPE_EXECUTE then ''Execute''
      else ''Unknown'')"

definition memory_protection_adv_get_domain_name :: "u8 \<Rightarrow> string" where
  "memory_protection_adv_get_domain_name domain =
     (if domain = PROTECTION_DOMAIN_KERNEL then ''Kernel''
      else if domain = PROTECTION_DOMAIN_USER then ''User''
      else if domain = PROTECTION_DOMAIN_DRIVER then ''Driver''
      else if domain = PROTECTION_DOMAIN_SECURE then ''Secure''
      else ''Unknown'')"

definition memory_protection_adv_clear_statistics :: "'a memory_protection_adv_scheme \<Rightarrow> 'a memory_protection_adv_scheme" where
  "memory_protection_adv_clear_statistics s =
     (let s = s\<lparr>ma_total_access_checks := 0, ma_access_denied_count := 0, ma_num_violations := 0,
                ma_violation_index := 0\<rparr>
      in fold (\<lambda>i s. s\<lparr>ma_protected_regions := (ma_protected_regions s)[i := ((ma_protected_regions s) ! i)\<lparr>pr_access_count := 0\<rparr>]\<rparr>)
            [0..<unat (ma_num_protected_regions s)] s)"

section \<open>Who may access what\<close>

text \<open>What is promised: a list of regions, as a first address, a number of bytes and permissions, and a policy for
  domains and kinds of access, all as natural numbers. A region whose end lies outside the address space holds nothing.
  The first region that holds the address decides, together with the policy; where no region holds it, all is allowed.\<close>

type_synonym guarded = "nat \<times> nat \<times> u8"

definition holds :: "nat \<Rightarrow> guarded \<Rightarrow> bool" where
  "holds a g = (case g of (first, bytes, perms) \<Rightarrow> first \<le> a \<and> a < first + bytes \<and> first + bytes < 2 ^ 64)"

record acl =
  acl_regions :: "guarded list"
  acl_policy :: "nat \<Rightarrow> nat \<Rightarrow> bool"
  acl_checks :: nat
  acl_refused :: nat

datatype guard_op =
    Register u64 u64 u64 u8 u8 u8
  | Permit u8 u8 u8
  | Check u64 u8 u8

definition acl_allows :: "nat \<Rightarrow> nat \<Rightarrow> nat \<Rightarrow> acl \<Rightarrow> bool" where
  "acl_allows a access domain l = (case find (holds a) (acl_regions l) of
     None \<Rightarrow> True
   | Some (first, bytes, perms) \<Rightarrow> acl_policy l domain access \<and> bit perms access)"

fun acl_step :: "guard_op \<Rightarrow> acl \<Rightarrow> bool list \<times> acl" where
  "acl_step (Register va pa n key perms domain) l =
     (if length (acl_regions l) < 256 then ([True], l\<lparr>acl_regions := acl_regions l @ [(unat va, unat n, perms)]\<rparr>)
      else ([False], l))"
| "acl_step (Permit domain access allowed) l =
     ([], if domain < 4 \<and> access < 4
          then l\<lparr>acl_policy := \<lambda>d x. if d = unat domain \<and> x = unat access then allowed \<noteq> 0 else acl_policy l d x\<rparr> else l)"
| "acl_step (Check a access domain) l =
     (let ok = acl_allows (unat a) (unat access) (unat domain) l
      in ([ok], l\<lparr>acl_checks := acl_checks l + 1, acl_refused := acl_refused l + (if ok then 0 else 1)\<rparr>))"

fun acl_run :: "guard_op list \<Rightarrow> acl \<Rightarrow> bool list \<times> acl" where
  "acl_run [] l = ([], l)"
| "acl_run (p # ps) l = (let (bs, l) = acl_step p l; (cs, l) = acl_run ps l in (bs @ cs, l))"

text \<open>At the start there is no region; user code may not execute, and the secure domain may not write.\<close>

definition acl0 :: acl where
  "acl0 = \<lparr>acl_regions = [], acl_policy = \<lambda>d x. (d, x) \<noteq> (1, 2) \<and> (d, x) \<noteq> (3, 1), acl_checks = 0, acl_refused = 0\<rparr>"

text \<open>The operations of the driver, with the results of those that have one.\<close>

fun guard_step :: "device \<Rightarrow> guard_op \<Rightarrow> 'a memory_protection_adv_scheme \<Rightarrow> (bool list \<times> 'a memory_protection_adv_scheme) option" where
  "guard_step D (Register va pa n key perms domain) s =
     map_option (map_prod (\<lambda>r. [r \<noteq> 0]) id) (memory_protection_adv_register_region va pa n key perms domain s)"
| "guard_step D (Permit domain access allowed) s = Some ([], memory_protection_adv_set_domain_permission domain access allowed s)"
| "guard_step D (Check a access domain) s =
     map_option (map_prod (\<lambda>r. [r \<noteq> 0]) id) (memory_protection_adv_check_access D a access domain s)"

fun guard_run :: "device \<Rightarrow> guard_op list \<Rightarrow> 'a memory_protection_adv_scheme \<Rightarrow> (bool list \<times> 'a memory_protection_adv_scheme) option" where
  "guard_run D [] s = Some ([], s)"
| "guard_run D (p # ps) s = do {
     (bs, s) \<leftarrow> guard_step D p s;
     (cs, s) \<leftarrow> guard_run D ps s;
     Some (bs @ cs, s)
   }"

text \<open>Protection keys below 32, and the four domains and kinds of access.\<close>

fun legal_op :: "guard_op \<Rightarrow> bool" where
  "legal_op (Register va pa n key perms domain) = (key < 32)"
| "legal_op (Permit domain access allowed) = True"
| "legal_op (Check a access domain) = (access < 4 \<and> domain < 4)"

text \<open>The abstraction.\<close>

definition guarded_of :: "protected_region \<Rightarrow> guarded" where
  "guarded_of r = (unat (pr_virtual_address r), unat (pr_size r), pr_access_permissions r)"

definition guards :: "acl \<Rightarrow> 'a memory_protection_adv_scheme \<Rightarrow> bool" where
  "guards l s \<longleftrightarrow> length (ma_protected_regions s) = 256 \<and> unat (ma_num_protected_regions s) \<le> 256 \<and>
     acl_regions l = map guarded_of (take (unat (ma_num_protected_regions s)) (ma_protected_regions s)) \<and>
     length (ma_domain_permissions s) = 4 \<and> (\<forall>v \<in> set (ma_domain_permissions s). length v = 4) \<and>
     (\<forall>d < 4. \<forall>x < 4. acl_policy l d x \<longleftrightarrow> ma_domain_permissions s ! d ! x \<noteq> 0) \<and>
     ma_total_access_checks s = of_nat (acl_checks l) \<and> ma_access_denied_count s = of_nat (acl_refused l)"

lemma in_region_holds: "in_region a r \<longleftrightarrow> holds (unat a) (guarded_of r)"
proof -
  have lt: "unat (pr_virtual_address r) < 2 ^ 64" "unat (pr_size r) < 2 ^ 64" "unat a < 2 ^ 64"
    using unsigned_less [where ?'a = nat and w = "pr_virtual_address r"] unsigned_less [where ?'a = nat and w = "pr_size r"]
      unsigned_less [where ?'a = nat and w = a] by simp_all
  have "unat (pr_virtual_address r + pr_size r) = (if unat (pr_virtual_address r) + unat (pr_size r) < 2 ^ 64
      then unat (pr_virtual_address r) + unat (pr_size r) else unat (pr_virtual_address r) + unat (pr_size r) - 2 ^ 64)"
    using lt by (auto simp: unat_word_ariths mod_if)
  then show ?thesis using lt by (auto simp: in_region_def holds_def guarded_of_def word_le_nat_alt word_less_nat_alt)
qed

text \<open>A region whose end reaches the end of the address space wraps, and protects nothing.\<close>

lemma region_wraps:
  assumes "2 ^ 64 \<le> unat (pr_virtual_address r) + unat (pr_size r)"
  shows "\<not> in_region a r"
  using assms by (simp add: in_region_holds holds_def guarded_of_def)

lemma find_map: "find P (map f xs) = map_option f (find (P \<circ> f) xs)"
  by (induction xs) simp_all

lemma find_region_guards:
  assumes "guards l s"
  shows "find (holds (unat a)) (acl_regions l) = map_option (\<lambda>i. guarded_of (ma_protected_regions s ! i)) (find_region a s)"
proof -
  have "take n xs = map ((!) xs) [0..<n]" if "n \<le> length xs" for n and xs :: "protected_region list"
    using that by (simp add: list_eq_iff_nth_eq)
  then have "acl_regions l = map (\<lambda>i. guarded_of (ma_protected_regions s ! i)) [0..<unat (ma_num_protected_regions s)]"
    using assms by (simp add: guards_def)
  then show ?thesis by (simp add: find_region_def find_map in_region_holds o_def)
qed

lemma check_access_result:
  assumes "domain < 4" "access < 4" "memory_protection_adv_check_access D a access domain s = Some (r, t)"
  shows "(r \<noteq> 0 \<longleftrightarrow> (case find_region a s of None \<Rightarrow> True
      | Some i \<Rightarrow> ma_domain_permissions s ! unat domain ! unat access \<noteq> 0 \<and>
          bit (pr_access_permissions (ma_protected_regions s ! i)) (unat access))) \<and>
    ma_total_access_checks t = ma_total_access_checks s + 1 \<and>
    ma_access_denied_count t = ma_access_denied_count s + (if r = 0 then 1 else 0) \<and>
    ma_domain_permissions t = ma_domain_permissions s \<and> ma_num_protected_regions t = ma_num_protected_regions s \<and>
    map guarded_of (ma_protected_regions t) = map guarded_of (ma_protected_regions s)"
proof -
  have h: "(4 \<le> domain) = False" "(4 \<le> access) = False" using assms(1,2) by auto
  have b: "x AND 2 ^ n = 0 \<longleftrightarrow> \<not> bit x n" for x :: u8 and n by (simp add: and_exp_eq_0_iff_not_bit)
  have f: "find_region a (s\<lparr>ma_total_access_checks := n\<rparr>) = find_region a s" for n by (simp add: find_region_def)
  have u: "(map guarded_of xs)[i := guarded_of (xs ! i)] = map guarded_of xs" for xs i
    by (metis list_update_id map_update)
  have g: "guarded_of (r\<lparr>pr_access_count := c, pr_last_access_time := w\<rparr>) = guarded_of r"
    "guarded_of (r\<lparr>pr_access_count := c\<rparr>) = guarded_of r" for r c w by (simp_all add: guarded_of_def)
  have v: "(map guarded_of xs)[i := guarded_of (((xs[i := y]) ! i)\<lparr>pr_last_access_time := w\<rparr>)] = map guarded_of xs"
    if "guarded_of y = guarded_of (xs ! i)" for xs i y w
    using that u [of xs i] by (cases "i < length xs") (auto simp: guarded_of_def list_update_beyond)
  show ?thesis
    using assms(3) unfolding memory_protection_adv_check_access_def Let_def f h
    by (auto simp: b g u v ask_ext_def rd_def Let_def map_update split: option.splits if_splits)
qed

lemma check_access_returns:
  assumes "domain < 4" "access < 4"
  shows "\<exists>r t. memory_protection_adv_check_access D a access domain s = Some (r, t)"
proof -
  have h: "(4 \<le> domain) = False" "(4 \<le> access) = False" using assms by auto
  show ?thesis unfolding memory_protection_adv_check_access_def Let_def h
    by (simp split: option.split prod.split)
qed

lemma check_guards:
  assumes "guards l s" "legal_op (Check a access domain)"
  shows "\<exists>t. guard_step D (Check a access domain) s = Some (fst (acl_step (Check a access domain) l), t) \<and>
    guards (snd (acl_step (Check a access domain) l)) t"
proof -
  have legal: "domain < 4" "access < 4" using assms(2) by simp_all
  then have less: "unat domain < 4" "unat access < 4" by (simp_all add: word_less_nat_alt)
  obtain r t where t: "memory_protection_adv_check_access D a access domain s = Some (r, t)"
    using check_access_returns [OF legal] by blast
  note res = check_access_result [OF legal t]
  have "(r \<noteq> 0) = acl_allows (unat a) (unat access) (unat domain) l"
    using res less assms(1) unfolding acl_allows_def find_region_guards [OF assms(1)]
    by (auto simp: guards_def guarded_of_def split: option.splits)
  moreover have "length (ma_protected_regions t) = length (ma_protected_regions s)" using res by (metis length_map)
  moreover have "map guarded_of (take k (ma_protected_regions t)) = map guarded_of (take k (ma_protected_regions s))" for k
    using res by (simp flip: take_map)
  ultimately show ?thesis using res t assms(1) by (auto simp: guards_def Let_def)
qed

lemma register_guards:
  assumes "guards l s" "legal_op (Register va pa n key perms domain)"
  shows "\<exists>t. guard_step D (Register va pa n key perms domain) s = Some (fst (acl_step (Register va pa n key perms domain) l), t) \<and>
    guards (snd (acl_step (Register va pa n key perms domain) l)) t"
proof -
  let ?k = "unat (ma_num_protected_regions s)"
  have len: "length (acl_regions l) = ?k" using assms(1) by (simp add: guards_def)
  have key: "(32 \<le> key) = False" using assms(2) by auto
  have full: "256 \<le> ma_num_protected_regions s \<longleftrightarrow> \<not> ?k < 256" by (auto simp: word_le_nat_alt)
  show ?thesis
  proof (cases "?k < 256")
    case True
    then have "unat (ma_num_protected_regions s + 1) = Suc ?k" by (simp add: unat_word_ariths)
    then show ?thesis using True assms(1)
      by (auto simp: memory_protection_adv_register_region_def guards_def len key full Let_def take_Suc_conv_app_nth guarded_of_def)
  next
    case False
    then show ?thesis using assms(1) len by (simp add: memory_protection_adv_register_region_def full)
  qed
qed

lemma permit_guards:
  assumes "guards l s"
  shows "guards (snd (acl_step (Permit domain access allowed) l)) (memory_protection_adv_set_domain_permission domain access allowed s)"
proof (cases "domain < 4 \<and> access < 4")
  case True
  then have less: "unat domain < 4" "unat access < 4" by (simp_all add: word_less_nat_alt)
  have ge: "(4 \<le> domain) = False" "(4 \<le> access) = False" using True by auto
  have rows: "length (ma_domain_permissions s) = 4" "\<forall>v \<in> set (ma_domain_permissions s). length v = 4"
    using assms by (simp_all add: guards_def)
  let ?row = "(ma_domain_permissions s ! unat domain)[unat access := allowed]"
  have row: "length (ma_domain_permissions s ! d) = 4" if "d < 4" for d using rows that by simp
  then have "\<forall>v \<in> set ((ma_domain_permissions s)[unat domain := ?row]). length v = 4"
    using rows less set_update_subset_insert [of "ma_domain_permissions s" "unat domain" ?row] by auto
  then show ?thesis using assms True less row
    by (auto simp: memory_protection_adv_set_domain_permission_def guards_def ge nth_list_update)
next
  case False
  then show ?thesis using assms by (auto simp: memory_protection_adv_set_domain_permission_def)
qed

lemma guard_step_refines:
  assumes "guards l s" "legal_op p"
  shows "\<exists>t. guard_step D p s = Some (fst (acl_step p l), t) \<and> guards (snd (acl_step p l)) t"
proof (cases p)
  case (Permit domain access allowed)
  show ?thesis using permit_guards [OF assms(1)] unfolding Permit by simp
qed (use assms register_guards check_guards in blast)+

lemma guard_run_refines:
  assumes "guards l s" "list_all legal_op ps"
  shows "\<exists>t. guard_run D ps s = Some (fst (acl_run ps l), t) \<and> guards (snd (acl_run ps l)) t"
  using assms
proof (induction ps arbitrary: l s)
  case (Cons p ps)
  obtain u where u: "guard_step D p s = Some (fst (acl_step p l), u)" "guards (snd (acl_step p l)) u"
    using guard_step_refines [of l s p D] Cons.prems by auto
  then obtain t where "guard_run D ps u = Some (fst (acl_run ps (snd (acl_step p l))), t)" "guards (snd (acl_run ps (snd (acl_step p l)))) t"
    using Cons.IH [OF u(2)] Cons.prems by auto
  with u show ?case by (auto simp: split_beta Let_def)
qed simp

lemma fold_same: "(\<And>i u. g (f i u) = g u) \<Longrightarrow> g (fold f xs u) = g u"
  by (induction xs arbitrary: u) simp_all

lemma detect_features_keeps:
  "ma_domain_permissions (memory_protection_detect_features D s) = ma_domain_permissions s"
  "ma_protected_regions (memory_protection_detect_features D s) = ma_protected_regions s"
  "ma_num_protected_regions (memory_protection_detect_features D s) = ma_num_protected_regions s"
  "ma_total_access_checks (memory_protection_detect_features D s) = ma_total_access_checks s"
  "ma_access_denied_count (memory_protection_detect_features D s) = ma_access_denied_count s"
  by (simp_all add: memory_protection_detect_features_def cpuid_def cpuid_sub_def bus split_beta Let_def)

lemma fold_allow:
  fixes s :: "'a memory_protection_adv_scheme" and xs :: "nat list"
  defines "row d v \<equiv> v[d := fold (\<lambda>a v. v[a := 1]) xs (v ! d)]"
  shows "ma_domain_permissions (fold (\<lambda>d s. fold (\<lambda>a s. s\<lparr>ma_domain_permissions := (ma_domain_permissions s)[d := (ma_domain_permissions s ! d)[a := 1]]\<rparr>) xs s) ds s) =
    fold row ds (ma_domain_permissions s)"
proof -
  have "ma_domain_permissions (fold (\<lambda>a s. s\<lparr>ma_domain_permissions := (ma_domain_permissions s)[d := (ma_domain_permissions s ! d)[a := 1]]\<rparr>) xs s) =
      row d (ma_domain_permissions s)" for d and s :: "'a memory_protection_adv_scheme"
    unfolding row_def
    by (cases "d < length (ma_domain_permissions s)"; induction xs arbitrary: s; simp add: list_update_beyond)
  then show ?thesis by (induction ds arbitrary: s) simp_all
qed

lemma init_guards:
  assumes "length (ma_protected_regions s) = 256" "length (ma_domain_permissions s) = 4"
    "\<forall>v \<in> set (ma_domain_permissions s). length v = 4"
  shows "guards acl0 (memory_protection_adv_init D s)"
proof -
  have four: "\<exists>a b c d. v = [a, b, c, d]" if "length v = 4" for v :: "'b list"
    using that by (simp add: length_Suc_conv eval_nat_numeral) blast
  obtain w x y z where rows: "ma_domain_permissions s = [w, x, y, z]" using four [OF assms(2)] by blast
  have "length w = 4" "length x = 4" "length y = 4" "length z = 4" using assms(3) by (simp_all add: rows)
  then have w: "\<exists>a b c d. w = [a, b, c, d]" "\<exists>a b c d. x = [a, b, c, d]"
    "\<exists>a b c d. y = [a, b, c, d]" "\<exists>a b c d. z = [a, b, c, d]" by (simp_all only: four)
  obtain xs ys where upt: "[0..<256] = xs" "[0..<128] = ys" by blast
  obtain zs where zs: "[0..<4] = zs" by blast
  then have zs': "zs = [0, 1, 2, 3 :: nat]" by (auto simp: upt_rec)
  note init = memory_protection_adv_init_def [unfolded upt zs] Let_def detect_features_keeps
  have d: "ma_domain_permissions (memory_protection_adv_init D s) = [[1, 1, 1, 1], [1, 1, 0, 1], [1, 1, 1, 1], [1, 0, 1, 1]]"
    using rows w by (elim exE) (simp add: init fold_allow fold_same [where g = ma_domain_permissions],
        simp add: zs' PROTECTION_DOMAIN_USER_def
        PROTECTION_DOMAIN_SECURE_def ACCESS_TYPE_EXECUTE_def ACCESS_TYPE_WRITE_def)
  have "length (ma_protected_regions (memory_protection_adv_init D s)) = 256"
    using assms(1) by (simp add: init fold_same [where g = "\<lambda>s. length (ma_protected_regions s)"] fold_same [where g = ma_protected_regions])
  moreover have "ma_num_protected_regions (memory_protection_adv_init D s) = 0"
    by (simp add: init fold_same [where g = ma_num_protected_regions])
  moreover have "ma_total_access_checks (memory_protection_adv_init D s) = 0"
    by (simp add: init fold_same [where g = ma_total_access_checks])
  moreover have "ma_access_denied_count (memory_protection_adv_init D s) = 0"
    by (simp add: init fold_same [where g = ma_access_denied_count])
  moreover have "acl_policy acl0 d x \<longleftrightarrow> [[1, 1, 1, 1], [1, 1, 0, 1], [1, 1, 1, 1], [1, 0, 1, 1 :: u8]] ! d ! x \<noteq> 0"
    if "d < 4" "x < 4" for d x
  proof -
    have "d = 0 \<or> d = 1 \<or> d = 2 \<or> d = 3" "x = 0 \<or> x = 1 \<or> x = 2 \<or> x = 3" using that by linarith+
    then show ?thesis by (elim disjE) (simp_all add: acl0_def)
  qed
  ultimately show ?thesis using d by (simp add: guards_def acl0_def)
qed

text \<open>C40: Access control refines a list of regions and a policy. From \<open>memory_protection_adv_init\<close>, which leaves no region
  and the documented policy (everything but execution in user code and writes in the secure domain), any sequence of
  registrations with keys below 32, changes of the policy and checks of the four domains and kinds of access returns; every
  registration succeeds until there are 256; every check is allowed exactly when no registered region holds the address,
  or the policy and the permissions of the first region that does allow it; and the counters of regions, of checks and of
  refusals, modulo \<open>2\<^sup>3\<^sup>2\<close>, are right. A region holds the addresses from its first to its last byte, except that one whose
  end reaches the end of the address space holds none: the sum of the code wraps.\<close>

theorem guard_refines_acl:
  fixes s :: "'a memory_protection_adv_scheme"
  assumes "length (ma_protected_regions s) = 256" "length (ma_domain_permissions s) = 4"
    "\<forall>v \<in> set (ma_domain_permissions s). length v = 4" "list_all legal_op ps"
  shows "\<exists>t. guard_run D ps (memory_protection_adv_init D s) = Some (fst (acl_run ps acl0), t) \<and>
    memory_protection_adv_get_num_protected_regions t = of_nat (length (acl_regions (snd (acl_run ps acl0)))) \<and>
    memory_protection_adv_get_total_access_checks t = of_nat (acl_checks (snd (acl_run ps acl0))) \<and>
    memory_protection_adv_get_access_denied_count t = of_nat (acl_refused (snd (acl_run ps acl0)))"
proof -
  obtain t where t: "guard_run D ps (memory_protection_adv_init D s) = Some (fst (acl_run ps acl0), t)"
      "guards (snd (acl_run ps acl0)) t"
    using guard_run_refines [OF init_guards [OF assms(1-3)] assms(4)] by blast
  then have "length (acl_regions (snd (acl_run ps acl0))) = unat (ma_num_protected_regions t)" by (simp add: guards_def)
  with t show ?thesis
    by (simp add: guards_def memory_protection_adv_get_num_protected_regions_def
        memory_protection_adv_get_total_access_checks_def memory_protection_adv_get_access_denied_count_def)
qed

definition region0 :: protected_region where
  "region0 = \<lparr>pr_virtual_address = 0x1000, pr_physical_address = 0, pr_size = 0x100, pr_protection_key = 0,
     pr_access_permissions = 1, pr_domain = 0, pr_access_count = 0, pr_last_access_time = 0\<rparr>"

definition map0 :: memory_protection_adv where
  "map0 = \<lparr>trace = [], pit_ticks = 0, pit_frequency = 0, pit_loops_per_10ms = 0, system_ticks = 0, msr_supported = 1,
     ma_memory_protection_supported = 1, ma_nx_supported = 1, ma_smep_active = 0, ma_smap_active = 0, ma_pku_active = 0,
     ma_cet_active = 0, ma_num_protected_regions = 1, ma_protected_regions = replicate 256 region0, ma_num_violations = 0,
     ma_violations = [], ma_violation_index = 0, ma_total_access_checks = 0, ma_access_denied_count = 0,
     ma_last_violation_time = 0, ma_protection_keys_used = 0, ma_domain_permissions = replicate 4 [0, 0, 0, 0]\<rparr>"

text \<open>A read-only region of 256 bytes: a kernel read of the last byte and a kernel write of the byte after it are allowed, a
  kernel write of the last byte is refused. The last page of the address space cannot be protected.\<close>

lemma guard_refines_acl_witness:
  "\<exists>t. guard_run (\<lambda>_ _. 0) [Register 0x1000 0 0x100 0 1 0, Check 0x10FF 0 0, Check 0x10FF 1 0, Check 0x1100 1 0,
       Register 0xFFFFFFFFFFFFF000 0 0x1000 0 0 0, Check 0xFFFFFFFFFFFFF800 1 0] (memory_protection_adv_init (\<lambda>_ _. 0) map0) =
     Some ([True, True, False, True, True, True], t) \<and> memory_protection_adv_get_access_denied_count t = 1"
proof -
  let ?ps = "[Register 0x1000 0 0x100 0 1 0, Check 0x10FF 0 0, Check 0x10FF 1 0, Check 0x1100 1 0,
       Register 0xFFFFFFFFFFFFF000 0 0x1000 0 0 0, Check 0xFFFFFFFFFFFFF800 1 0]"
  have "list_all legal_op ?ps" by simp
  moreover have "fst (acl_run ?ps acl0) = [True, True, False, True, True, True]" "acl_refused (snd (acl_run ?ps acl0)) = 1"
    by (simp_all add: acl0_def acl_allows_def holds_def Let_def bit_1_iff)
  ultimately show ?thesis
    using guard_refines_acl [where s = map0 and ps = ?ps and D = "\<lambda>_ _. 0"] by (auto simp: map0_def)
qed

section \<open>The record of violations\<close>

definition violation_step :: "device \<Rightarrow> u64 \<times> u8 \<times> u8 \<times> u64 \<Rightarrow> 'a memory_protection_adv_scheme \<Rightarrow> 'a memory_protection_adv_scheme" where
  "violation_step D x = (case x of (a, ty, access, ip) \<Rightarrow> memory_protection_adv_handle_violation D a ty access ip)"

definition violation_entry :: "device \<Rightarrow> u64 \<times> u8 \<times> u8 \<times> u64 \<Rightarrow> 'a memory_protection_adv_scheme \<Rightarrow> protection_violation" where
  "violation_entry D x s = (case x of (a, ty, access, ip) \<Rightarrow>
     (let (now, s) = ask_ext D ''timer_get_ticks'' [] s;
          (cpu, s) = ask_ext D ''cpu_get_current_id'' [] s
      in \<lparr>pv_fault_address = a, pv_violation_type = ty, pv_access_type = access,
          pv_protection_key = (case find_region a s of Some i \<Rightarrow> pr_protection_key (ma_protected_regions s ! i) | None \<Rightarrow> 0),
          pv_timestamp = now, pv_cpu_id = cpu, pv_instruction_pointer = ip\<rparr>))"

interpretation violations: history 128 "\<lambda>_. True" ma_violations ma_violation_index "violation_step D" "violation_entry D"
  for D :: device
  by unfold_locales
    (simp_all add: violation_step_def violation_entry_def memory_protection_adv_handle_violation_def bus split: prod.split)

lemma violation_count:
  "ma_num_violations s \<le> 128 \<Longrightarrow> ma_num_violations (violation_step D x s) \<le> 128"
  by (cases x) (auto simp: violation_step_def memory_protection_adv_handle_violation_def bus word_le_nat_alt word_less_nat_alt
      unat_word_ariths)

text \<open>Setting and clearing the no-execute bit of a page restores the rest of its entry.\<close>

lemma nx_set_clear:
  fixes D :: device and page :: u64
  assumes "ma_nx_supported s \<noteq> 0" "\<forall>p. is_reg D (Mem64 p)"
  defines "p \<equiv> Mem64 (ucast (0xFFFF800000000000 + (drop_bit 12 page * 8) :: u64))"
  shows "last_write i (trace (snd (memory_protection_adv_set_nx_bit D page 0
      (snd (memory_protection_adv_set_nx_bit D page 1 s))))) p = D (trace s) p AND NOT PTE_NX"
proof -
  have "(x OR PTE_NX) AND NOT PTE_NX = x AND NOT PTE_NX" for x :: u64 by (rule bit_word_eqI) (auto simp: bit_simps)
  moreover have "D (t @ u) (Mem64 q) = last_write (D t (Mem64 q)) u (Mem64 q)" for t u q
    using assms(2) by (simp add: is_reg_append)
  ultimately show ?thesis using assms(1) by (simp add: memory_protection_adv_set_nx_bit_def bus p_def)
qed

end
