(* ===== verification/Thermal_Mgmt.thy ===== *)
theory Thermal_Mgmt
  imports Msr_Regs History_Ring
begin

text \<open>
  \<open>src/drivers/thermal_mgmt.c\<close>: temperature, power limits and the record of thermal events. The fields of
  \<open>thermal_mgmt_info_t\<close> carry the prefix \<open>tm_\<close>, those of an event \<open>te_\<close> and of the power registers \<open>ri_\<close>.
  \<open>timer_get_ticks\<close> and \<open>cpu_get_current_id\<close>, which no file defines, are answered by the environment.
\<close>

definition MSR_IA32_THERM_STATUS :: "'a::len word" where "MSR_IA32_THERM_STATUS = 0x19C"
definition MSR_IA32_THERM_INTERRUPT :: "'a::len word" where "MSR_IA32_THERM_INTERRUPT = 0x19B"
definition MSR_IA32_TEMPERATURE_TARGET :: "'a::len word" where "MSR_IA32_TEMPERATURE_TARGET = 0x1A2"
definition MSR_RAPL_POWER_UNIT :: "'a::len word" where "MSR_RAPL_POWER_UNIT = 0x606"
definition MSR_PKG_POWER_LIMIT :: "'a::len word" where "MSR_PKG_POWER_LIMIT = 0x610"
definition MSR_PKG_ENERGY_STATUS_tm :: "'a::len word" where "MSR_PKG_ENERGY_STATUS_tm = 0x611"
definition MSR_DRAM_ENERGY_STATUS_tm :: "'a::len word" where "MSR_DRAM_ENERGY_STATUS_tm = 0x619"
definition MSR_PP0_ENERGY_STATUS :: "'a::len word" where "MSR_PP0_ENERGY_STATUS = 0x639"
definition MSR_PP1_ENERGY_STATUS :: "'a::len word" where "MSR_PP1_ENERGY_STATUS = 0x641"
definition THERM_STATUS_THERMAL_STATUS :: "'a::len word" where "THERM_STATUS_THERMAL_STATUS = push_bit 0 1"
definition THERM_STATUS_PROCHOT_tm :: "'a::len word" where "THERM_STATUS_PROCHOT_tm = push_bit 2 1"
definition THERM_STATUS_CRIT_TEMP_tm :: "'a::len word" where "THERM_STATUS_CRIT_TEMP_tm = push_bit 4 1"
definition THERM_STATUS_READING_VALID_tm :: "'a::len word" where "THERM_STATUS_READING_VALID_tm = push_bit 31 1"
definition POWER_LIMIT_ENABLE :: "'a::len word" where "POWER_LIMIT_ENABLE = push_bit 15 1"
definition POWER_LIMIT_TIME_WINDOW_MASK :: "'a::len word" where "POWER_LIMIT_TIME_WINDOW_MASK = 0x7F"
definition POWER_LIMIT_TIME_WINDOW_SHIFT :: "'a::len word" where "POWER_LIMIT_TIME_WINDOW_SHIFT = 17"
definition THERMAL_EVENT_THRESHOLD :: "'a::len word" where "THERMAL_EVENT_THRESHOLD = 0"
definition THERMAL_EVENT_PROCHOT :: "'a::len word" where "THERMAL_EVENT_PROCHOT = 1"
definition THERMAL_EVENT_CRITICAL :: "'a::len word" where "THERMAL_EVENT_CRITICAL = 2"
definition THERMAL_EVENT_POWER_LIMIT :: "'a::len word" where "THERMAL_EVENT_POWER_LIMIT = 3"

record thermal_event =
  te_event_type :: u8
  te_timestamp :: u64
  te_temperature :: u32
  te_cpu_id :: u32
  te_duration_ms :: u32

record rapl_info =
  ri_power_units :: u32
  ri_energy_units :: u32
  ri_time_units :: u32
  ri_pkg_power_limit :: u64
  ri_pkg_energy_consumed :: u64
  ri_dram_energy_consumed :: u64
  ri_pp0_energy_consumed :: u64
  ri_pp1_energy_consumed :: u64
  ri_pkg_power_limit_1 :: u32
  ri_pkg_power_limit_2 :: u32
  ri_pkg_time_window_1 :: u32
  ri_pkg_time_window_2 :: u32
  ri_pkg_power_limit_enabled :: u8
  ri_dram_power_limit_enabled :: u8

record thermal_mgmt = msr +
  tm_thermal_mgmt_supported :: u8
  tm_thermal_monitoring_supported :: u8
  tm_rapl_supported :: u8
  tm_current_temperature :: u32
  tm_max_temperature :: u32
  tm_critical_temperature :: u32
  tm_thermal_target :: u32
  tm_thermal_throttling_active :: u8
  tm_prochot_active :: u8
  tm_critical_temp_reached :: u8
  tm_thermal_events_count :: u32
  tm_thermal_events :: "thermal_event list"    \<comment> \<open>32\<close>
  tm_thermal_event_index :: u32
  tm_rapl :: rapl_info
  tm_throttle_count :: u32
  tm_total_throttle_time :: u64
  tm_last_thermal_event :: u64
  tm_thermal_interrupts :: u32
  tm_power_limit_violations :: u32

definition thermal_mgmt_detect_thermal_monitoring :: "device \<Rightarrow> 'a thermal_mgmt_scheme \<Rightarrow> 'a thermal_mgmt_scheme" where
  "thermal_mgmt_detect_thermal_monitoring D s =
     (let ((eax, ebx, ecx, edx), s) = cpuid D 1 s;
          s = s\<lparr>tm_thermal_monitoring_supported := c_bool (edx AND push_bit 22 1 \<noteq> 0)\<rparr>
      in (if tm_thermal_monitoring_supported s \<noteq> 0 \<and> msr_is_supported s \<noteq> 0 then
             (let (temp_target, s) = msr_read D MSR_IA32_TEMPERATURE_TARGET s;
                  s = s\<lparr>tm_thermal_target := ucast (drop_bit 16 temp_target AND 0xFF)\<rparr>
              in s\<lparr>tm_critical_temperature := tm_thermal_target s + 20,
                   tm_max_temperature := tm_thermal_target s + 10\<rparr>)
          else s))"

definition thermal_mgmt_detect_rapl :: "device \<Rightarrow> 'a thermal_mgmt_scheme \<Rightarrow> 'a thermal_mgmt_scheme" where
  "thermal_mgmt_detect_rapl D s =
     (let ((eax, ebx, ecx, edx), s) = cpuid D 6 s;
          s = s\<lparr>tm_rapl_supported := c_bool (eax AND push_bit 14 1 \<noteq> 0)\<rparr>
      in (if tm_rapl_supported s \<noteq> 0 \<and> msr_is_supported s \<noteq> 0 then
             (let (power_unit, s) = msr_read D MSR_RAPL_POWER_UNIT s;
                  s = s\<lparr>tm_rapl := (tm_rapl s)\<lparr>ri_power_units := push_bit (unat (power_unit AND
                                                                                          0xF)) (1 :: u32), ri_energy_units := push_bit (unat (drop_bit 8 power_unit AND 0x1F)) (1 :: u32), ri_time_units := push_bit (unat (drop_bit 16 power_unit AND 0xF)) (1 :: u32)\<rparr>\<rparr>;
                  (v2, s) = msr_read D MSR_PKG_POWER_LIMIT s;
                  s = s\<lparr>tm_rapl := (tm_rapl s)\<lparr>ri_pkg_power_limit := v2\<rparr>\<rparr>;
                  s = s\<lparr>tm_rapl := (tm_rapl s)\<lparr>ri_pkg_power_limit_1 := ucast ((ri_pkg_power_limit (tm_rapl s)) AND 0x7FFF), ri_pkg_power_limit_2 := ucast (drop_bit 32 (ri_pkg_power_limit (tm_rapl s)) AND 0x7FFF), ri_pkg_power_limit_enabled := c_bool ((ri_pkg_power_limit (tm_rapl s)) AND POWER_LIMIT_ENABLE \<noteq> 0)\<rparr>\<rparr>;
                  (v3, s) = msr_read D MSR_PKG_ENERGY_STATUS_tm s;
                  s = s\<lparr>tm_rapl := (tm_rapl s)\<lparr>ri_pkg_energy_consumed := v3\<rparr>\<rparr>;
                  (v4, s) = msr_read D MSR_DRAM_ENERGY_STATUS_tm s;
                  s = s\<lparr>tm_rapl := (tm_rapl s)\<lparr>ri_dram_energy_consumed := v4\<rparr>\<rparr>;
                  (v5, s) = msr_read D MSR_PP0_ENERGY_STATUS s;
                  s = s\<lparr>tm_rapl := (tm_rapl s)\<lparr>ri_pp0_energy_consumed := v5\<rparr>\<rparr>;
                  (v6, s) = msr_read D MSR_PP1_ENERGY_STATUS s
              in s\<lparr>tm_rapl := (tm_rapl s)\<lparr>ri_pp1_energy_consumed := v6\<rparr>\<rparr>)
          else s))"

definition thermal_mgmt_init :: "device \<Rightarrow> 'a thermal_mgmt_scheme \<Rightarrow> 'a thermal_mgmt_scheme" where
  "thermal_mgmt_init D s =
     (let s = s\<lparr>tm_thermal_mgmt_supported := 0, tm_thermal_monitoring_supported := 0, tm_rapl_supported := 0,
                tm_current_temperature := 0, tm_max_temperature := 0, tm_critical_temperature := 0, tm_thermal_target := 0,
                tm_thermal_throttling_active := 0, tm_prochot_active := 0, tm_critical_temp_reached := 0,
                tm_thermal_events_count := 0, tm_thermal_event_index := 0, tm_throttle_count := 0,
                tm_total_throttle_time := 0, tm_last_thermal_event := 0, tm_thermal_interrupts := 0,
                tm_power_limit_violations := 0\<rparr>;
          s = fold (\<lambda>i s. s\<lparr>tm_thermal_events := (tm_thermal_events s)[i := ((tm_thermal_events s) ! i)\<lparr>te_event_type := 0, te_timestamp := 0, te_temperature := 0, te_cpu_id := 0, te_duration_ms := 0\<rparr>]\<rparr>)
            [0..<32] s;
          s = s\<lparr>tm_rapl := (tm_rapl s)\<lparr>ri_power_units := 0, ri_energy_units := 0, ri_time_units := 0,
                                              ri_pkg_power_limit := 0, ri_pkg_energy_consumed := 0,
                                              ri_dram_energy_consumed := 0, ri_pp0_energy_consumed := 0,
                                              ri_pp1_energy_consumed := 0, ri_pkg_power_limit_1 := 0,
                                              ri_pkg_power_limit_2 := 0, ri_pkg_time_window_1 := 0,
                                              ri_pkg_time_window_2 := 0, ri_pkg_power_limit_enabled := 0,
                                              ri_dram_power_limit_enabled := 0\<rparr>\<rparr>;
          s = thermal_mgmt_detect_thermal_monitoring D s;
          s = thermal_mgmt_detect_rapl D s
      in (if tm_thermal_monitoring_supported s \<noteq> 0 \<or> tm_rapl_supported s \<noteq> 0
          then s\<lparr>tm_thermal_mgmt_supported := 1\<rparr>
          else s))"

definition thermal_mgmt_is_supported :: "'a thermal_mgmt_scheme \<Rightarrow> u8" where
  "thermal_mgmt_is_supported s = tm_thermal_mgmt_supported s"

definition thermal_mgmt_read_temperature :: "device \<Rightarrow> 'a thermal_mgmt_scheme \<Rightarrow> u32 \<times> 'a thermal_mgmt_scheme" where
  "thermal_mgmt_read_temperature D s =
     (if tm_thermal_monitoring_supported s = 0 \<or> msr_is_supported s = 0 then (0, s)
      else (let (therm_status, s) = msr_read D MSR_IA32_THERM_STATUS s
            in (if therm_status AND scast (THERM_STATUS_READING_VALID_tm :: u32) \<noteq> 0 then
                   (let digital_readout = (ucast (drop_bit 16 therm_status AND 0x7F) :: u32);
                        s = s\<lparr>tm_current_temperature := tm_thermal_target s - digital_readout,
                              tm_thermal_throttling_active := c_bool (therm_status AND
                                                                      THERM_STATUS_THERMAL_STATUS \<noteq> 0),
                                                                        tm_prochot_active := c_bool (therm_status AND
                                                                                          THERM_STATUS_PROCHOT_tm \<noteq> 0), tm_critical_temp_reached := c_bool (therm_status AND THERM_STATUS_CRIT_TEMP_tm \<noteq> 0)\<rparr>
                    in (tm_current_temperature s, s))
                else (0, s))))"

definition thermal_mgmt_enable_thermal_interrupt :: "device \<Rightarrow> u32 \<Rightarrow> 'a thermal_mgmt_scheme \<Rightarrow> u8 \<times> 'a thermal_mgmt_scheme" where
  "thermal_mgmt_enable_thermal_interrupt D threshold_temperature s =
     (if tm_thermal_monitoring_supported s = 0 \<or> msr_is_supported s = 0 then (0, s)
      else (let (therm_interrupt, s) = msr_read D MSR_IA32_THERM_INTERRUPT s;
                therm_interrupt = therm_interrupt OR push_bit 0 1;
                therm_interrupt = therm_interrupt OR push_bit 1 1;
                therm_interrupt = therm_interrupt OR push_bit 2 1;
                therm_interrupt = therm_interrupt OR push_bit 4 1;
                threshold_offset = tm_thermal_target s - threshold_temperature;
                therm_interrupt = therm_interrupt AND NOT (push_bit 8 0x7F);
                therm_interrupt = therm_interrupt OR ucast (push_bit 8 (threshold_offset AND 0x7F));
                s = msr_write MSR_IA32_THERM_INTERRUPT therm_interrupt s
            in (1, s)))"

definition thermal_mgmt_set_power_limit :: "u32 \<Rightarrow> u32 \<Rightarrow> 'a thermal_mgmt_scheme \<Rightarrow> (u8 \<times> 'a thermal_mgmt_scheme) option" where
  "thermal_mgmt_set_power_limit power_limit_watts time_window_seconds s =
     (if tm_rapl_supported s = 0 \<or> msr_is_supported s = 0 then Some (0, s)
      else if ri_time_units (tm_rapl s) = 0 then None
      else Some (let power_limit_units = power_limit_watts * (ri_power_units (tm_rapl s));
                time_window_units = time_window_seconds div (ri_time_units (tm_rapl s));
                power_limit_reg = (ucast (power_limit_units AND 0x7FFF) :: u64);
                power_limit_reg = power_limit_reg OR POWER_LIMIT_ENABLE;
                power_limit_reg = power_limit_reg OR push_bit 17 (ucast time_window_units AND POWER_LIMIT_TIME_WINDOW_MASK);
                s = msr_write MSR_PKG_POWER_LIMIT power_limit_reg s;
                s = s\<lparr>tm_rapl := (tm_rapl s)\<lparr>ri_pkg_power_limit := power_limit_reg,
                                                    ri_pkg_power_limit_1 := power_limit_units,
                                                    ri_pkg_time_window_1 := time_window_seconds,
                                                    ri_pkg_power_limit_enabled := 1\<rparr>\<rparr>
            in (1, s)))"

definition thermal_mgmt_read_energy_consumption :: "device \<Rightarrow> u8 \<Rightarrow> 'a thermal_mgmt_scheme \<Rightarrow> u64 \<times> 'a thermal_mgmt_scheme" where
  "thermal_mgmt_read_energy_consumption D domain s =
     (if tm_rapl_supported s = 0 \<or> msr_is_supported s = 0 then (0, s)
      else (let energy_raw = (0 :: u64)
            in (if domain = 0 then
                   (let (energy_raw, s) = msr_read D MSR_PKG_ENERGY_STATUS_tm s;
                        s = s\<lparr>tm_rapl := (tm_rapl s)\<lparr>ri_pkg_energy_consumed := energy_raw\<rparr>\<rparr>
                    in (energy_raw * ucast (ri_energy_units (tm_rapl s)), s))
                else if domain = 1 then
                   (let (energy_raw, s) = msr_read D MSR_DRAM_ENERGY_STATUS_tm s;
                        s = s\<lparr>tm_rapl := (tm_rapl s)\<lparr>ri_dram_energy_consumed := energy_raw\<rparr>\<rparr>
                    in (energy_raw * ucast (ri_energy_units (tm_rapl s)), s))
                else if domain = 2 then
                   (let (energy_raw, s) = msr_read D MSR_PP0_ENERGY_STATUS s;
                        s = s\<lparr>tm_rapl := (tm_rapl s)\<lparr>ri_pp0_energy_consumed := energy_raw\<rparr>\<rparr>
                    in (energy_raw * ucast (ri_energy_units (tm_rapl s)), s))
                else if domain = 3 then
                   (let (energy_raw, s) = msr_read D MSR_PP1_ENERGY_STATUS s;
                        s = s\<lparr>tm_rapl := (tm_rapl s)\<lparr>ri_pp1_energy_consumed := energy_raw\<rparr>\<rparr>
                    in (energy_raw * ucast (ri_energy_units (tm_rapl s)), s))
                else (0, s))))"

definition thermal_mgmt_handle_thermal_event :: "device \<Rightarrow> u8 \<Rightarrow> u32 \<Rightarrow> 'a thermal_mgmt_scheme \<Rightarrow> 'a thermal_mgmt_scheme" where
  "thermal_mgmt_handle_thermal_event D event_type temperature s =
     (let k = unat (tm_thermal_event_index s);
          s = s\<lparr>tm_thermal_events := (tm_thermal_events s)[k := ((tm_thermal_events s) ! k)\<lparr>te_event_type := event_type\<rparr>]\<rparr>;
          (v, s) = ask_ext D ''timer_get_ticks'' [] s;
          s = s\<lparr>tm_thermal_events := (tm_thermal_events s)[k := ((tm_thermal_events s) ! k)\<lparr>te_timestamp := v, te_temperature := temperature\<rparr>]\<rparr>;
          (v2, s) = ask_ext D ''cpu_get_current_id'' [] s;
          s = s\<lparr>tm_thermal_events := (tm_thermal_events s)[k := ((tm_thermal_events s) ! k)\<lparr>te_cpu_id := v2,
                                                            te_duration_ms := 0\<rparr>]\<rparr>;
          s = s\<lparr>tm_thermal_event_index := (tm_thermal_event_index s + 1) mod 32,
                tm_thermal_events_count := tm_thermal_events_count s + 1,
                tm_last_thermal_event := te_timestamp (tm_thermal_events s ! k)\<rparr>
      in (if event_type = THERMAL_EVENT_THRESHOLD then s\<lparr>tm_thermal_interrupts := tm_thermal_interrupts s + 1\<rparr>
          else if event_type = THERMAL_EVENT_PROCHOT then s\<lparr>tm_throttle_count := tm_throttle_count s + 1\<rparr>
          else if event_type = THERMAL_EVENT_CRITICAL then s\<lparr>tm_critical_temp_reached := 1\<rparr>
          else if event_type = THERMAL_EVENT_POWER_LIMIT
            then s\<lparr>tm_power_limit_violations := tm_power_limit_violations s + 1\<rparr>
          else s))"

definition thermal_mgmt_is_thermal_monitoring_supported :: "'a thermal_mgmt_scheme \<Rightarrow> u8" where
  "thermal_mgmt_is_thermal_monitoring_supported s = tm_thermal_monitoring_supported s"

definition thermal_mgmt_is_rapl_supported :: "'a thermal_mgmt_scheme \<Rightarrow> u8" where
  "thermal_mgmt_is_rapl_supported s = tm_rapl_supported s"

definition thermal_mgmt_get_current_temperature :: "'a thermal_mgmt_scheme \<Rightarrow> u32" where
  "thermal_mgmt_get_current_temperature s = tm_current_temperature s"

definition thermal_mgmt_get_max_temperature :: "'a thermal_mgmt_scheme \<Rightarrow> u32" where
  "thermal_mgmt_get_max_temperature s = tm_max_temperature s"

definition thermal_mgmt_get_critical_temperature :: "'a thermal_mgmt_scheme \<Rightarrow> u32" where
  "thermal_mgmt_get_critical_temperature s = tm_critical_temperature s"

definition thermal_mgmt_get_thermal_target :: "'a thermal_mgmt_scheme \<Rightarrow> u32" where
  "thermal_mgmt_get_thermal_target s = tm_thermal_target s"

definition thermal_mgmt_is_thermal_throttling_active :: "'a thermal_mgmt_scheme \<Rightarrow> u8" where
  "thermal_mgmt_is_thermal_throttling_active s = tm_thermal_throttling_active s"

definition thermal_mgmt_is_prochot_active :: "'a thermal_mgmt_scheme \<Rightarrow> u8" where
  "thermal_mgmt_is_prochot_active s = tm_prochot_active s"

definition thermal_mgmt_is_critical_temp_reached :: "'a thermal_mgmt_scheme \<Rightarrow> u8" where
  "thermal_mgmt_is_critical_temp_reached s = tm_critical_temp_reached s"

definition thermal_mgmt_get_thermal_events_count :: "'a thermal_mgmt_scheme \<Rightarrow> u32" where
  "thermal_mgmt_get_thermal_events_count s = tm_thermal_events_count s"

definition thermal_mgmt_get_thermal_event :: "u32 \<Rightarrow> 'a thermal_mgmt_scheme \<Rightarrow> thermal_event option" where
  "thermal_mgmt_get_thermal_event index s =
     (if index \<ge> 32 then None
      else Some (tm_thermal_events s ! (unat index)))"

definition thermal_mgmt_get_rapl_info :: "'a thermal_mgmt_scheme \<Rightarrow> rapl_info option" where
  "thermal_mgmt_get_rapl_info s = Some (tm_rapl s)"

definition thermal_mgmt_get_throttle_count :: "'a thermal_mgmt_scheme \<Rightarrow> u32" where
  "thermal_mgmt_get_throttle_count s = tm_throttle_count s"

definition thermal_mgmt_get_total_throttle_time :: "'a thermal_mgmt_scheme \<Rightarrow> u64" where
  "thermal_mgmt_get_total_throttle_time s = tm_total_throttle_time s"

definition thermal_mgmt_get_last_thermal_event :: "'a thermal_mgmt_scheme \<Rightarrow> u64" where
  "thermal_mgmt_get_last_thermal_event s = tm_last_thermal_event s"

definition thermal_mgmt_get_thermal_interrupts :: "'a thermal_mgmt_scheme \<Rightarrow> u32" where
  "thermal_mgmt_get_thermal_interrupts s = tm_thermal_interrupts s"

definition thermal_mgmt_get_power_limit_violations :: "'a thermal_mgmt_scheme \<Rightarrow> u32" where
  "thermal_mgmt_get_power_limit_violations s = tm_power_limit_violations s"

definition thermal_mgmt_get_thermal_event_name :: "u8 \<Rightarrow> string" where
  "thermal_mgmt_get_thermal_event_name event_type =
     (if event_type = THERMAL_EVENT_THRESHOLD then ''Threshold''
      else if event_type = THERMAL_EVENT_PROCHOT then ''PROCHOT''
      else if event_type = THERMAL_EVENT_CRITICAL then ''Critical''
      else if event_type = THERMAL_EVENT_POWER_LIMIT then ''Power Limit''
      else ''Unknown'')"

definition thermal_mgmt_clear_statistics :: "'a thermal_mgmt_scheme \<Rightarrow> 'a thermal_mgmt_scheme" where
  "thermal_mgmt_clear_statistics s =
     s\<lparr>tm_thermal_events_count := 0, tm_thermal_event_index := 0, tm_throttle_count := 0, tm_total_throttle_time := 0, tm_thermal_interrupts := 0, tm_power_limit_violations := 0, tm_critical_temp_reached := 0\<rparr>"

section \<open>Events\<close>

definition thermal_step :: "device \<Rightarrow> u8 \<times> u32 \<Rightarrow> 'a thermal_mgmt_scheme \<Rightarrow> 'a thermal_mgmt_scheme" where
  "thermal_step D x = (case x of (ty, temperature) \<Rightarrow> thermal_mgmt_handle_thermal_event D ty temperature)"

definition thermal_entry :: "device \<Rightarrow> u8 \<times> u32 \<Rightarrow> 'a thermal_mgmt_scheme \<Rightarrow> thermal_event" where
  "thermal_entry D x s = (case x of (ty, temperature) \<Rightarrow>
     (let (now, s) = ask_ext D ''timer_get_ticks'' [] s;
          (cpu, s) = ask_ext D ''cpu_get_current_id'' [] s
      in \<lparr>te_event_type = ty, te_timestamp = now, te_temperature = temperature, te_cpu_id = cpu, te_duration_ms = 0\<rparr>))"

lemma thermal_event_set:
  "r\<lparr>te_event_type := a, te_timestamp := b, te_temperature := c, te_cpu_id := d, te_duration_ms := e\<rparr> =
   \<lparr>te_event_type = a, te_timestamp = b, te_temperature = c, te_cpu_id = d, te_duration_ms = e\<rparr>"
  by (cases r) simp

interpretation events: history 32 "\<lambda>_. True" tm_thermal_events tm_thermal_event_index "thermal_step D" "thermal_entry D"
  for D :: device
  by unfold_locales (simp_all add: thermal_step_def thermal_entry_def thermal_mgmt_handle_thermal_event_def ask_ext_def rd_def
      Let_def ring_ok_def thermal_event_set split: prod.split)

section \<open>Power limits\<close>

text \<open>
  The time window is divided by the units of a second where the register wants it multiplied, so every window shorter than
  the number of units is written as 0.
\<close>

lemma thermal_mgmt_window_lost:
  assumes "tm_rapl_supported s \<noteq> 0" "msr_supported s \<noteq> 0" "seconds < ri_time_units (tm_rapl s)"
  shows "\<exists>t. thermal_mgmt_set_power_limit watts seconds s = Some (1, t) \<and>
    ri_pkg_power_limit (tm_rapl t) = ucast (watts * ri_power_units (tm_rapl s) AND 0x7FFF) OR POWER_LIMIT_ENABLE"
proof -
  have "ri_time_units (tm_rapl s) \<noteq> 0" using assms(3) by auto
  moreover have "seconds div ri_time_units (tm_rapl s) = 0" using assms(3) by (simp add: word_less_nat_alt word_arith_nat_div)
  ultimately show ?thesis using assms(1,2) by (simp add: thermal_mgmt_set_power_limit_def msr_is_supported_def msr_on Let_def)
qed

text \<open>A limit too large for its 15 bits wraps.\<close>

lemma thermal_mgmt_limit_wraps:
  assumes "ri_power_units (tm_rapl s) = 8"
  shows "ucast (4096 * ri_power_units (tm_rapl s) AND 0x7FFF) = (0 :: u64)"
  using assms by simp

lemma without_tm_thermal_monitoring_supported:
  assumes "tm_thermal_monitoring_supported s = 0"
  shows "thermal_mgmt_read_temperature D s = (0, s)"
    "thermal_mgmt_enable_thermal_interrupt D threshold_temperature s = (0, s)"
  using assms by (simp_all add: thermal_mgmt_read_temperature_def thermal_mgmt_enable_thermal_interrupt_def)

lemma without_tm_rapl_supported:
  assumes "tm_rapl_supported s = 0"
  shows "thermal_mgmt_set_power_limit power_limit_watts time_window_seconds s = Some (0, s)"
    "thermal_mgmt_read_energy_consumption D domain s = (0, s)"
  using assms by (simp_all add: thermal_mgmt_set_power_limit_def thermal_mgmt_read_energy_consumption_def)

end
