(* ===== verification/Security_Ext.thy ===== *)
theory Security_Ext
  imports Msr_Regs
begin

text \<open>
  \<open>src/drivers/security_ext.c\<close>: bounds, shadow stacks, branch tracking and the table of violations. The fields of
  \<open>security_ext_info_t\<close> carry the prefix \<open>sx_\<close>, those of a bound \<open>mb_\<close> and of a violation \<open>sv_\<close>; constants that
  another driver has under the same name end in \<open>_sx\<close>. \<open>timer_get_ticks\<close>, which no file defines, is answered
  by the environment.
\<close>

definition MSR_BNDCFGS_sx :: "'a::len word" where "MSR_BNDCFGS_sx = 0xD90"
definition BNDCFGS_EN_sx :: "'a::len word" where "BNDCFGS_EN_sx = push_bit 0 1"
definition BNDCFGS_BNDPRESERVE :: "'a::len word" where "BNDCFGS_BNDPRESERVE = push_bit 1 1"
definition MSR_U_CET_sx :: "'a::len word" where "MSR_U_CET_sx = 0x6A0"
definition MSR_S_CET_sx :: "'a::len word" where "MSR_S_CET_sx = 0x6A2"
definition MSR_PL0_SSP_sx :: "'a::len word" where "MSR_PL0_SSP_sx = 0x6A4"
definition MSR_INTERRUPT_SSP_TABLE_ADDR :: "'a::len word" where "MSR_INTERRUPT_SSP_TABLE_ADDR = 0x6A8"
definition CET_SH_STK_EN_sx :: "'a::len word" where "CET_SH_STK_EN_sx = push_bit 0 1"
definition CET_WR_SHSTK_EN :: "'a::len word" where "CET_WR_SHSTK_EN = push_bit 1 1"
definition CET_ENDBR_EN_sx :: "'a::len word" where "CET_ENDBR_EN_sx = push_bit 2 1"
definition CR4_CET_sx :: "'a::len word" where "CR4_CET_sx = push_bit 23 1"
definition EFER_NXE :: "'a::len word" where "EFER_NXE = push_bit 11 1"
definition SECURITY_VIOLATION_MPX :: "'a::len word" where "SECURITY_VIOLATION_MPX = 1"
definition SECURITY_VIOLATION_CET_SS :: "'a::len word" where "SECURITY_VIOLATION_CET_SS = 2"
definition SECURITY_VIOLATION_CET_IBT :: "'a::len word" where "SECURITY_VIOLATION_CET_IBT = 3"
definition SECURITY_VIOLATION_SMEP :: "'a::len word" where "SECURITY_VIOLATION_SMEP = 4"
definition SECURITY_VIOLATION_SMAP :: "'a::len word" where "SECURITY_VIOLATION_SMAP = 5"

record mpx_bound =
  mb_lower_bound :: u64
  mb_upper_bound :: u64
  mb_enabled :: u8
  mb_preserve :: u8

record security_violation =
  sv_violation_type :: u32
  sv_fault_address :: u64
  sv_instruction_pointer :: u64
  sv_error_code :: u32
  sv_timestamp :: u64

record security_ext = msr +
  sx_security_ext_supported :: u8
  sx_mpx_supported :: u8
  sx_cet_supported :: u8
  sx_cet_ss_supported :: u8
  sx_cet_ibt_supported :: u8
  sx_mpx_enabled :: u8
  sx_cet_enabled :: u8
  sx_shadow_stack_enabled :: u8
  sx_indirect_branch_tracking_enabled :: u8
  sx_nx_enabled :: u8
  sx_bounds :: "mpx_bound list"    \<comment> \<open>4\<close>
  sx_shadow_stack_base :: u64
  sx_shadow_stack_size :: u64
  sx_shadow_stack_pointer :: u64
  sx_interrupt_ssp_table :: u64
  sx_violation_count :: u32
  sx_violations :: "security_violation list"    \<comment> \<open>64\<close>
  sx_mpx_violations :: u32
  sx_cet_violations :: u32
  sx_smep_violations :: u32
  sx_smap_violations :: u32

definition security_ext_detect_capabilities :: "device \<Rightarrow> 'a security_ext_scheme \<Rightarrow> 'a security_ext_scheme" where
  "security_ext_detect_capabilities D s =
     (let ((eax, ebx, ecx, edx), s) = cpuid_sub D 7 0 s;
          s = s\<lparr>sx_mpx_supported := c_bool (ebx AND push_bit 14 1 \<noteq> 0),
                sx_cet_supported := c_bool (ecx AND push_bit 7 1 \<noteq> 0),
                sx_cet_ss_supported := c_bool (ecx AND push_bit 7 1 \<noteq> 0),
                sx_cet_ibt_supported := c_bool (edx AND push_bit 20 1 \<noteq> 0)\<rparr>
      in (if sx_mpx_supported s \<noteq> 0 \<or> sx_cet_supported s \<noteq> 0
          then s\<lparr>sx_security_ext_supported := 1\<rparr>
          else s))"

definition security_ext_enable_nx :: "device \<Rightarrow> 'a security_ext_scheme \<Rightarrow> 'a security_ext_scheme" where
  "security_ext_enable_nx D s =
     (if msr_is_supported s = 0 then s
      else (let (efer, s) = msr_read D 0xC0000080 s;
                efer = efer OR EFER_NXE;
                s = msr_write 0xC0000080 efer s
            in s\<lparr>sx_nx_enabled := 1\<rparr>))"

definition security_ext_enable_mpx :: "'a security_ext_scheme \<Rightarrow> 'a security_ext_scheme" where
  "security_ext_enable_mpx s =
     (if sx_mpx_supported s = 0 \<or> msr_is_supported s = 0 then s
      else (let bndcfgs = (BNDCFGS_EN_sx :: u64);
                s = msr_write MSR_BNDCFGS_sx bndcfgs s;
                s = insn (Asm ''bndmk (%0), bnd0'' [0x1000]) s;
                s = insn (Asm ''bndmk (%0), bnd1'' [0x2000]) s;
                s = insn (Asm ''bndmk (%0), bnd2'' [0x3000]) s;
                s = insn (Asm ''bndmk (%0), bnd3'' [0x4000]) s
            in s\<lparr>sx_mpx_enabled := 1\<rparr>))"

definition security_ext_enable_cet :: "device \<Rightarrow> 'a security_ext_scheme \<Rightarrow> 'a security_ext_scheme" where
  "security_ext_enable_cet D s =
     (if sx_cet_supported s = 0 \<or> msr_is_supported s = 0 then s
      else (let (cr4 :: u32, s) = rd D (Creg 4) s;
                cr4 = cr4 OR CR4_CET_sx;
                s = wr (Creg 4) cr4 s;
                s_cet = (0 :: u64);
                (s_cet, s) = (if sx_cet_ss_supported s \<noteq> 0 then
                                 (let s_cet = s_cet OR (CET_SH_STK_EN_sx OR CET_WR_SHSTK_EN);
                                      s = s\<lparr>sx_shadow_stack_enabled := 1\<rparr>
                                  in (s_cet, s))
                              else (s_cet, s));
                (s_cet, s) = (if sx_cet_ibt_supported s \<noteq> 0 then
                                 (let s_cet = s_cet OR CET_ENDBR_EN_sx;
                                      s = s\<lparr>sx_indirect_branch_tracking_enabled := 1\<rparr>
                                  in (s_cet, s))
                              else (s_cet, s));
                s = msr_write MSR_S_CET_sx s_cet s
            in s\<lparr>sx_cet_enabled := 1\<rparr>))"

definition security_ext_init :: "device \<Rightarrow> 'a security_ext_scheme \<Rightarrow> 'a security_ext_scheme" where
  "security_ext_init D s =
     (let s = s\<lparr>sx_security_ext_supported := 0, sx_mpx_supported := 0, sx_cet_supported := 0,
                sx_cet_ss_supported := 0, sx_cet_ibt_supported := 0, sx_mpx_enabled := 0, sx_cet_enabled := 0,
                sx_shadow_stack_enabled := 0, sx_indirect_branch_tracking_enabled := 0, sx_nx_enabled := 0,
                sx_shadow_stack_base := 0, sx_shadow_stack_size := 0, sx_shadow_stack_pointer := 0,
                sx_interrupt_ssp_table := 0, sx_violation_count := 0, sx_mpx_violations := 0, sx_cet_violations := 0,
                sx_smep_violations := 0, sx_smap_violations := 0\<rparr>;
          s = fold (\<lambda>i s. s\<lparr>sx_bounds := (sx_bounds s)[i := ((sx_bounds s) ! i)\<lparr>mb_lower_bound := 0,
                                                            mb_upper_bound := 0, mb_enabled := 0,
                                                            mb_preserve := 0\<rparr>]\<rparr>)
            [0..<4] s;
          s = fold (\<lambda>i s. s\<lparr>sx_violations := (sx_violations s)[i := ((sx_violations s) ! i)\<lparr>sv_violation_type := 0, sv_fault_address := 0, sv_instruction_pointer := 0, sv_error_code := 0, sv_timestamp := 0\<rparr>]\<rparr>)
            [0..<64] s;
          s = security_ext_detect_capabilities D s
      in (if sx_security_ext_supported s \<noteq> 0 then
             (let s = security_ext_enable_nx D s;
                  s = security_ext_enable_mpx s
              in security_ext_enable_cet D s)
          else s))"

definition security_ext_is_supported :: "'a security_ext_scheme \<Rightarrow> u8" where
  "security_ext_is_supported s = sx_security_ext_supported s"

definition security_ext_is_mpx_supported :: "'a security_ext_scheme \<Rightarrow> u8" where
  "security_ext_is_mpx_supported s = sx_mpx_supported s"

definition security_ext_is_cet_supported :: "'a security_ext_scheme \<Rightarrow> u8" where
  "security_ext_is_cet_supported s = sx_cet_supported s"

definition security_ext_is_mpx_enabled :: "'a security_ext_scheme \<Rightarrow> u8" where
  "security_ext_is_mpx_enabled s = sx_mpx_enabled s"

definition security_ext_is_cet_enabled :: "'a security_ext_scheme \<Rightarrow> u8" where
  "security_ext_is_cet_enabled s = sx_cet_enabled s"

definition security_ext_is_shadow_stack_enabled :: "'a security_ext_scheme \<Rightarrow> u8" where
  "security_ext_is_shadow_stack_enabled s = sx_shadow_stack_enabled s"

definition security_ext_is_ibt_enabled :: "'a security_ext_scheme \<Rightarrow> u8" where
  "security_ext_is_ibt_enabled s = sx_indirect_branch_tracking_enabled s"

definition security_ext_is_nx_enabled :: "'a security_ext_scheme \<Rightarrow> u8" where
  "security_ext_is_nx_enabled s = sx_nx_enabled s"

definition security_ext_setup_shadow_stack :: "u64 \<Rightarrow> u64 \<Rightarrow> 'a security_ext_scheme \<Rightarrow> 'a security_ext_scheme" where
  "security_ext_setup_shadow_stack base size' s =
     (if sx_shadow_stack_enabled s = 0 \<or> msr_is_supported s = 0 then s
      else (let s = s\<lparr>sx_shadow_stack_base := base, sx_shadow_stack_size := size',
                      sx_shadow_stack_pointer := base + size'\<rparr>
            in msr_write MSR_PL0_SSP_sx (sx_shadow_stack_pointer s) s))"

definition security_ext_get_shadow_stack_pointer :: "device \<Rightarrow> 'a security_ext_scheme \<Rightarrow> u64 \<times> 'a security_ext_scheme" where
  "security_ext_get_shadow_stack_pointer D s =
     (if sx_shadow_stack_enabled s = 0 \<or> msr_is_supported s = 0 then (0, s)
      else msr_read D MSR_PL0_SSP_sx s)"

definition security_ext_setup_interrupt_ssp_table :: "u64 \<Rightarrow> 'a security_ext_scheme \<Rightarrow> 'a security_ext_scheme" where
  "security_ext_setup_interrupt_ssp_table table_address s =
     (if sx_shadow_stack_enabled s = 0 \<or> msr_is_supported s = 0 then s
      else (let s = s\<lparr>sx_interrupt_ssp_table := table_address\<rparr>
            in msr_write MSR_INTERRUPT_SSP_TABLE_ADDR table_address s))"

definition security_ext_set_mpx_bound :: "u8 \<Rightarrow> u64 \<Rightarrow> u64 \<Rightarrow> 'a security_ext_scheme \<Rightarrow> 'a security_ext_scheme" where
  "security_ext_set_mpx_bound index lower upper s =
     (if sx_mpx_enabled s = 0 \<or> index \<ge> 4 then s
      else (let s = s\<lparr>sx_bounds := (sx_bounds s)[unat index := ((sx_bounds s) ! (unat index))\<lparr>mb_lower_bound := lower, mb_upper_bound := upper, mb_enabled := 1\<rparr>]\<rparr>
            in (if index = 0 then insn (Asm ''bndmk (%0), bnd0'' [lower]) s
                else if index = 1 then insn (Asm ''bndmk (%0), bnd1'' [lower]) s
                else if index = 2 then insn (Asm ''bndmk (%0), bnd2'' [lower]) s
                else if index = 3 then insn (Asm ''bndmk (%0), bnd3'' [lower]) s else s)))"

definition security_ext_get_mpx_bound :: "u8 \<Rightarrow> 'a security_ext_scheme \<Rightarrow> mpx_bound option" where
  "security_ext_get_mpx_bound index s =
     (if index \<ge> 4 then None
      else Some (sx_bounds s ! (unat index)))"

definition security_ext_clear_mpx_bound :: "u8 \<Rightarrow> 'a security_ext_scheme \<Rightarrow> 'a security_ext_scheme" where
  "security_ext_clear_mpx_bound index s =
     (if sx_mpx_enabled s = 0 \<or> index \<ge> 4 then s
      else (let s = s\<lparr>sx_bounds := (sx_bounds s)[unat index := ((sx_bounds s) ! (unat index))\<lparr>mb_enabled := 0, mb_lower_bound := 0, mb_upper_bound := 0\<rparr>]\<rparr>
            in (if index = 0 then insn (Asm ''bndcl %0, bnd0'' [0]) s
                else if index = 1 then insn (Asm ''bndcl %0, bnd1'' [0]) s
                else if index = 2 then insn (Asm ''bndcl %0, bnd2'' [0]) s
                else if index = 3 then insn (Asm ''bndcl %0, bnd3'' [0]) s else s)))"

definition security_ext_endbr64 :: "'a security_ext_scheme \<Rightarrow> 'a security_ext_scheme" where
  "security_ext_endbr64 s =
     (if sx_indirect_branch_tracking_enabled s = 0 then s
      else insn (Asm ''endbr64'' []) s)"

definition security_ext_endbr32 :: "'a security_ext_scheme \<Rightarrow> 'a security_ext_scheme" where
  "security_ext_endbr32 s =
     (if sx_indirect_branch_tracking_enabled s = 0 then s
      else insn (Asm ''endbr32'' []) s)"

definition security_ext_handle_violation :: "device \<Rightarrow> u32 \<Rightarrow> u64 \<Rightarrow> u64 \<Rightarrow> u32 \<Rightarrow> 'a security_ext_scheme \<Rightarrow> 'a security_ext_scheme" where
  "security_ext_handle_violation D violation_type fault_address rip error_code s =
     (if sx_violation_count s \<ge> 64 then s
      else (let k = unat (sx_violation_count s);
                s = s\<lparr>sx_violations := (sx_violations s)[k := ((sx_violations s) ! k)\<lparr>sv_violation_type := violation_type, sv_fault_address := fault_address, sv_instruction_pointer := rip, sv_error_code := error_code\<rparr>]\<rparr>;
                (v, s) = ask_ext D ''timer_get_ticks'' [] s;
                s = s\<lparr>sx_violations := (sx_violations s)[k := ((sx_violations s) ! k)\<lparr>sv_timestamp := v\<rparr>]\<rparr>;
                s = s\<lparr>sx_violation_count := sx_violation_count s + 1\<rparr>
            in (if violation_type = SECURITY_VIOLATION_MPX then s\<lparr>sx_mpx_violations := sx_mpx_violations s + 1\<rparr>
                else if violation_type = SECURITY_VIOLATION_CET_SS \<or>
                  violation_type = SECURITY_VIOLATION_CET_IBT then s\<lparr>sx_cet_violations := sx_cet_violations s + 1\<rparr>
                else if violation_type = SECURITY_VIOLATION_SMEP
                  then s\<lparr>sx_smep_violations := sx_smep_violations s + 1\<rparr>
                else if violation_type = SECURITY_VIOLATION_SMAP
                  then s\<lparr>sx_smap_violations := sx_smap_violations s + 1\<rparr>
                else s)))"

definition security_ext_get_violation_count :: "'a security_ext_scheme \<Rightarrow> u32" where
  "security_ext_get_violation_count s = sx_violation_count s"

definition security_ext_get_violation :: "u32 \<Rightarrow> 'a security_ext_scheme \<Rightarrow> security_violation option" where
  "security_ext_get_violation index s =
     (if index \<ge> sx_violation_count s \<or> index \<ge> 64 then None
      else Some (sx_violations s ! (unat index)))"

definition security_ext_get_mpx_violations :: "'a security_ext_scheme \<Rightarrow> u32" where
  "security_ext_get_mpx_violations s = sx_mpx_violations s"

definition security_ext_get_cet_violations :: "'a security_ext_scheme \<Rightarrow> u32" where
  "security_ext_get_cet_violations s = sx_cet_violations s"

definition security_ext_get_smep_violations :: "'a security_ext_scheme \<Rightarrow> u32" where
  "security_ext_get_smep_violations s = sx_smep_violations s"

definition security_ext_get_smap_violations :: "'a security_ext_scheme \<Rightarrow> u32" where
  "security_ext_get_smap_violations s = sx_smap_violations s"

definition security_ext_clear_violations :: "'a security_ext_scheme \<Rightarrow> 'a security_ext_scheme" where
  "security_ext_clear_violations s =
     s\<lparr>sx_violation_count := 0, sx_mpx_violations := 0, sx_cet_violations := 0, sx_smep_violations := 0, sx_smap_violations := 0\<rparr>"

definition security_ext_disable_mpx :: "'a security_ext_scheme \<Rightarrow> 'a security_ext_scheme" where
  "security_ext_disable_mpx s =
     (if sx_mpx_enabled s = 0 \<or> msr_is_supported s = 0 then s
      else (let s = msr_write MSR_BNDCFGS_sx 0 s;
                s = s\<lparr>sx_mpx_enabled := 0\<rparr>
            in fold (\<lambda>i s. s\<lparr>sx_bounds := (sx_bounds s)[i := ((sx_bounds s) ! i)\<lparr>mb_enabled := 0\<rparr>]\<rparr>)
                  [0..<4] s))"

definition security_ext_disable_cet :: "'a security_ext_scheme \<Rightarrow> 'a security_ext_scheme" where
  "security_ext_disable_cet s =
     (if sx_cet_enabled s = 0 \<or> msr_is_supported s = 0 then s
      else (let s = msr_write MSR_S_CET_sx 0 s;
                s = msr_write MSR_U_CET_sx 0 s
            in s\<lparr>sx_cet_enabled := 0, sx_shadow_stack_enabled := 0, sx_indirect_branch_tracking_enabled := 0\<rparr>))"

definition security_ext_check_mpx_bounds :: "u64 \<Rightarrow> u8 \<Rightarrow> 'a security_ext_scheme \<Rightarrow> u8" where
  "security_ext_check_mpx_bounds address bound_index s =
     (if sx_mpx_enabled s = 0 \<or> bound_index \<ge> 4 then 0
      else if mb_enabled (sx_bounds s ! (unat bound_index)) = 0 then 1
      else c_bool (address \<ge> mb_lower_bound (sx_bounds s ! (unat bound_index)) \<and>
                   address \<le> mb_upper_bound (sx_bounds s ! (unat bound_index))))"

definition security_ext_set_mpx_preserve :: "device \<Rightarrow> u8 \<Rightarrow> 'a security_ext_scheme \<Rightarrow> 'a security_ext_scheme" where
  "security_ext_set_mpx_preserve D preserve s =
     (if sx_mpx_enabled s = 0 \<or> msr_is_supported s = 0 then s
      else (let (bndcfgs, s) = msr_read D MSR_BNDCFGS_sx s;
                bndcfgs = (if preserve \<noteq> 0 then bndcfgs OR BNDCFGS_BNDPRESERVE
                           else bndcfgs AND NOT BNDCFGS_BNDPRESERVE);
                s = msr_write MSR_BNDCFGS_sx bndcfgs s
            in fold (\<lambda>i s. s\<lparr>sx_bounds := (sx_bounds s)[i := ((sx_bounds s) ! i)\<lparr>mb_preserve := preserve\<rparr>]\<rparr>)
                  [0..<4] s))"

definition security_ext_is_mpx_preserve_enabled :: "device \<Rightarrow> 'a security_ext_scheme \<Rightarrow> u8 \<times> 'a security_ext_scheme" where
  "security_ext_is_mpx_preserve_enabled D s =
     (if sx_mpx_enabled s = 0 \<or> msr_is_supported s = 0 then (0, s)
      else (let (bndcfgs, s) = msr_read D MSR_BNDCFGS_sx s
            in (c_bool (bndcfgs AND BNDCFGS_BNDPRESERVE \<noteq> 0), s)))"

definition security_ext_get_shadow_stack_base :: "'a security_ext_scheme \<Rightarrow> u64" where
  "security_ext_get_shadow_stack_base s = sx_shadow_stack_base s"

definition security_ext_get_shadow_stack_size :: "'a security_ext_scheme \<Rightarrow> u64" where
  "security_ext_get_shadow_stack_size s = sx_shadow_stack_size s"

definition security_ext_get_interrupt_ssp_table :: "'a security_ext_scheme \<Rightarrow> u64" where
  "security_ext_get_interrupt_ssp_table s = sx_interrupt_ssp_table s"


section \<open>Shadow stacks and bounds\<close>

text \<open>The stack pointer that was set up is the one that is read back, and it is the end of the stack.\<close>

lemma shadow_stack_pointer_set:
  assumes "sx_shadow_stack_enabled s \<noteq> 0" "msr_supported s \<noteq> 0" "is_reg D (Msr MSR_PL0_SSP_sx)"
  shows "fst (security_ext_get_shadow_stack_pointer D (security_ext_setup_shadow_stack base n s)) = base + n"
  using assms by (simp add: security_ext_get_shadow_stack_pointer_def security_ext_setup_shadow_stack_def
      msr_is_supported_def msr_on Let_def is_reg_append)

text \<open>A bound that is set holds exactly the addresses between its ends; one that is cleared refuses none.\<close>

lemma set_bound_checks:
  assumes "sx_mpx_enabled s \<noteq> 0" "k < 4" "length (sx_bounds s) = 4"
  shows "security_ext_check_mpx_bounds a k (security_ext_set_mpx_bound k lower upper s) = c_bool (lower \<le> a \<and> a \<le> upper)"
    and "security_ext_check_mpx_bounds a k (security_ext_clear_mpx_bound k s) = 1"
proof -
  have h: "(4 \<le> k) = False" "unat k < 4" using assms(2) by (simp_all add: word_less_nat_alt not_le)
  show "security_ext_check_mpx_bounds a k (security_ext_set_mpx_bound k lower upper s) = c_bool (lower \<le> a \<and> a \<le> upper)"
    using assms(1,3) h by (simp add: security_ext_check_mpx_bounds_def security_ext_set_mpx_bound_def Let_def insn_def)
  show "security_ext_check_mpx_bounds a k (security_ext_clear_mpx_bound k s) = 1"
    using assms(1,3) h by (simp add: security_ext_check_mpx_bounds_def security_ext_clear_mpx_bound_def Let_def insn_def)
qed

section \<open>Violations\<close>

definition violations_ok :: "'a security_ext_scheme \<Rightarrow> bool" where
  "violations_ok s \<longleftrightarrow> sx_violation_count s \<le> 64 \<and> length (sx_violations s) = 64 \<and>
     unat (sx_mpx_violations s) + unat (sx_cet_violations s) + unat (sx_smep_violations s) + unat (sx_smap_violations s)
       \<le> unat (sx_violation_count s)"

text \<open>The counts of the kinds never exceed the number of recorded violations, which never exceeds the table; what is
  reported is read back, and once the table is full nothing more is counted.\<close>

lemma handle_violation_ok:
  assumes "violations_ok s"
  shows "violations_ok (security_ext_handle_violation D ty a ip code s)"
proof (cases "64 \<le> sx_violation_count s")
  case True
  then show ?thesis using assms by (simp add: security_ext_handle_violation_def)
next
  case False
  have up: "unat (x + 1) = unat x + 1" if "unat x < 65" for x :: u32 using that by (simp add: unat_word_ariths)
  have c: "unat (sx_violation_count s) < 64" using False by (simp add: word_le_nat_alt)
  then have k: "unat (sx_mpx_violations s) < 65" "unat (sx_cet_violations s) < 65" "unat (sx_smep_violations s) < 65"
    "unat (sx_smap_violations s) < 65" using assms by (simp_all add: violations_ok_def)
  show ?thesis
    using assms c False
    by (simp add: security_ext_handle_violation_def violations_ok_def ask_ext_def rd_def Let_def up k word_le_nat_alt)
qed

lemma handle_violation_recorded:
  fixes s :: "'a security_ext_scheme" and D :: device and a ip :: u64 and ty code :: u32
  assumes "violations_ok s" "sx_violation_count s < 64"
  defines "t \<equiv> security_ext_handle_violation D ty a ip code s"
  shows "\<exists>now. security_ext_get_violation (sx_violation_count s) t =
    Some \<lparr>sv_violation_type = ty, sv_fault_address = a, sv_instruction_pointer = ip, sv_error_code = code, sv_timestamp = now\<rparr>"
proof -
  have h: "(64 \<le> sx_violation_count s) = False" "unat (sx_violation_count s) < length (sx_violations s)"
    using assms(1,2) by (simp_all add: violations_ok_def word_less_nat_alt not_le)
  have "sx_violation_count s < sx_violation_count s + 1"
    using assms(2) by (simp add: word_less_nat_alt unat_word_ariths)
  then have n: "(sx_violation_count s + 1 \<le> sx_violation_count s) = False" by auto
  have full: "r\<lparr>sv_violation_type := ty', sv_fault_address := a', sv_instruction_pointer := ip', sv_error_code := code',
      sv_timestamp := now\<rparr> = \<lparr>sv_violation_type = ty', sv_fault_address = a', sv_instruction_pointer = ip',
      sv_error_code = code', sv_timestamp = now\<rparr>" for r ty' a' ip' code' now by (cases r) simp
  show ?thesis unfolding t_def
    using h n by (simp add: security_ext_handle_violation_def security_ext_get_violation_def ask_ext_def rd_def Let_def full)
qed

lemma handle_violation_full:
  assumes "sx_violation_count s \<ge> 64"
  shows "security_ext_handle_violation D ty a ip code s = s"
  using assms by (simp add: security_ext_handle_violation_def)

end
