(* ===== verification/Microarch.thy ===== *)
theory Microarch
  imports Msr_Regs
begin

text \<open>
  \<open>src/drivers/microarch.c\<close>: speculation control, branch statistics and the stack of last branches. The fields of
  \<open>microarch_info_t\<close> carry the prefix \<open>mi_\<close>, those of the branch statistics \<open>bs_\<close>. The waiting loop of
  \<open>microarch_update_branch_stats\<close> has no effect but time and is left out. \<open>timer_get_ticks\<close>, which no file defines, is
  answered by the environment.
\<close>

definition MSR_SPEC_CTRL :: "'a::len word" where "MSR_SPEC_CTRL = 0x48"
definition MSR_PRED_CMD :: "'a::len word" where "MSR_PRED_CMD = 0x49"
definition MSR_ARCH_CAPABILITIES :: "'a::len word" where "MSR_ARCH_CAPABILITIES = 0x10A"
definition SPEC_CTRL_IBRS :: "'a::len word" where "SPEC_CTRL_IBRS = push_bit 0 1"
definition SPEC_CTRL_STIBP :: "'a::len word" where "SPEC_CTRL_STIBP = push_bit 1 1"
definition SPEC_CTRL_SSBD :: "'a::len word" where "SPEC_CTRL_SSBD = push_bit 2 1"
definition PRED_CMD_IBPB :: "'a::len word" where "PRED_CMD_IBPB = push_bit 0 1"
definition ARCH_CAP_RDCL_NO :: "'a::len word" where "ARCH_CAP_RDCL_NO = push_bit 0 1"
definition ARCH_CAP_IBRS_ALL :: "'a::len word" where "ARCH_CAP_IBRS_ALL = push_bit 1 1"
definition ARCH_CAP_SSB_NO :: "'a::len word" where "ARCH_CAP_SSB_NO = push_bit 4 1"
definition ARCH_CAP_MDS_NO :: "'a::len word" where "ARCH_CAP_MDS_NO = push_bit 5 1"
definition ARCH_CAP_TAA_NO :: "'a::len word" where "ARCH_CAP_TAA_NO = push_bit 8 1"
definition MSR_LBR_TOS_mi :: "'a::len word" where "MSR_LBR_TOS_mi = 0x1C9"
definition MSR_LASTBRANCH_0_FROM_IP_mi :: "'a::len word" where "MSR_LASTBRANCH_0_FROM_IP_mi = 0x680"
definition MSR_PERF_GLOBAL_CTRL_mi :: "'a::len word" where "MSR_PERF_GLOBAL_CTRL_mi = 0x38F"
definition MSR_PERFEVTSEL0_mi :: "'a::len word" where "MSR_PERFEVTSEL0_mi = 0x186"
definition MSR_PMC0_mi :: "'a::len word" where "MSR_PMC0_mi = 0xC1"
definition EVENT_BRANCH_INSTRUCTIONS :: "'a::len word" where "EVENT_BRANCH_INSTRUCTIONS = 0xC4"
definition EVENT_BRANCH_MISSES :: "'a::len word" where "EVENT_BRANCH_MISSES = 0xC5"

record branch_stats =
  bs_total_branches :: u64
  bs_branch_misses :: u64
  bs_indirect_branches :: u64
  bs_indirect_misses :: u64
  bs_misprediction_rate :: u32
  bs_last_measurement :: u64

record microarch = msr +
  mi_microarch_supported :: u8
  mi_spec_ctrl_supported :: u8
  mi_ibrs_supported :: u8
  mi_stibp_supported :: u8
  mi_ssbd_supported :: u8
  mi_ibpb_supported :: u8
  mi_lbr_supported :: u8
  mi_ibrs_enabled :: u8
  mi_stibp_enabled :: u8
  mi_ssbd_enabled :: u8
  mi_branch_prediction_enabled :: u8
  mi_arch_capabilities :: u64
  mi_spec_ctrl_value :: u64
  mi_branch_stats :: branch_stats
  mi_speculation_mitigations :: u32
  mi_branch_flushes :: u32
  mi_last_ibpb_time :: u64
  mi_lbr_depth :: u8
  mi_lbr_entries :: "u64 list"    \<comment> \<open>32\<close>

definition microarch_detect_capabilities :: "device \<Rightarrow> 'a microarch_scheme \<Rightarrow> 'a microarch_scheme" where
  "microarch_detect_capabilities D s =
     (let ((eax, ebx, ecx, edx), s) = cpuid_sub D 7 0 s;
          s = s\<lparr>mi_spec_ctrl_supported := c_bool (edx AND push_bit 26 1 \<noteq> 0),
                mi_ibrs_supported := c_bool (edx AND push_bit 26 1 \<noteq> 0),
                mi_stibp_supported := c_bool (edx AND push_bit 27 1 \<noteq> 0),
                mi_ssbd_supported := c_bool (edx AND push_bit 31 1 \<noteq> 0),
                mi_ibpb_supported := c_bool (edx AND push_bit 26 1 \<noteq> 0)\<rparr>;
          ((eax, ebx, ecx, edx), s) = cpuid D 1 s;
          s = s\<lparr>mi_lbr_supported := c_bool (edx AND push_bit 21 1 \<noteq> 0)\<rparr>;
          s = (if mi_spec_ctrl_supported s \<noteq> 0 \<or> mi_lbr_supported s \<noteq> 0
               then s\<lparr>mi_microarch_supported := 1\<rparr>
               else s)
      in (if mi_spec_ctrl_supported s \<noteq> 0 \<and> msr_is_supported s \<noteq> 0 then
             (let (v, s) = msr_read D MSR_ARCH_CAPABILITIES s
              in s\<lparr>mi_arch_capabilities := v\<rparr>)
          else s))"

definition microarch_setup_branch_monitoring :: "device \<Rightarrow> 'a microarch_scheme \<Rightarrow> 'a microarch_scheme" where
  "microarch_setup_branch_monitoring D s =
     (if mi_lbr_supported s = 0 \<or> msr_is_supported s = 0 then s
      else (let debugctl = (0 :: u64);
                debugctl = debugctl OR push_bit 0 1;
                debugctl = debugctl OR push_bit 6 1;
                s = msr_write 0x1D9 debugctl s;
                evtsel = (EVENT_BRANCH_INSTRUCTIONS OR push_bit 16 1 OR push_bit 17 1 OR push_bit 22 1 :: u64);
                s = msr_write MSR_PERFEVTSEL0_mi evtsel s;
                (global_ctrl, s) = msr_read D MSR_PERF_GLOBAL_CTRL_mi s;
                global_ctrl = global_ctrl OR push_bit 0 1;
                s = msr_write MSR_PERF_GLOBAL_CTRL_mi global_ctrl s
            in s\<lparr>mi_branch_prediction_enabled := 1, mi_lbr_depth := 16\<rparr>))"

definition microarch_init :: "device \<Rightarrow> 'a microarch_scheme \<Rightarrow> 'a microarch_scheme" where
  "microarch_init D s =
     (let s = s\<lparr>mi_microarch_supported := 0, mi_spec_ctrl_supported := 0, mi_ibrs_supported := 0,
                mi_stibp_supported := 0, mi_ssbd_supported := 0, mi_ibpb_supported := 0, mi_lbr_supported := 0,
                mi_ibrs_enabled := 0, mi_stibp_enabled := 0, mi_ssbd_enabled := 0, mi_branch_prediction_enabled := 0,
                mi_arch_capabilities := 0, mi_spec_ctrl_value := 0, mi_speculation_mitigations := 0,
                mi_branch_flushes := 0, mi_last_ibpb_time := 0, mi_lbr_depth := 0\<rparr>;
          s = s\<lparr>mi_branch_stats := (mi_branch_stats s)\<lparr>bs_total_branches := 0, bs_branch_misses := 0,
                                                            bs_indirect_branches := 0, bs_indirect_misses := 0,
                                                            bs_misprediction_rate := 0,
                                                            bs_last_measurement := 0\<rparr>\<rparr>;
          s = fold (\<lambda>i s. s\<lparr>mi_lbr_entries := (mi_lbr_entries s)[i := 0]\<rparr>)
            [0..<32] s;
          s = microarch_detect_capabilities D s
      in (if mi_microarch_supported s \<noteq> 0 then microarch_setup_branch_monitoring D s else s))"

definition microarch_is_supported :: "'a microarch_scheme \<Rightarrow> u8" where
  "microarch_is_supported s = mi_microarch_supported s"

definition microarch_is_spec_ctrl_supported :: "'a microarch_scheme \<Rightarrow> u8" where
  "microarch_is_spec_ctrl_supported s = mi_spec_ctrl_supported s"

definition microarch_is_ibrs_supported :: "'a microarch_scheme \<Rightarrow> u8" where
  "microarch_is_ibrs_supported s = mi_ibrs_supported s"

definition microarch_is_stibp_supported :: "'a microarch_scheme \<Rightarrow> u8" where
  "microarch_is_stibp_supported s = mi_stibp_supported s"

definition microarch_is_ssbd_supported :: "'a microarch_scheme \<Rightarrow> u8" where
  "microarch_is_ssbd_supported s = mi_ssbd_supported s"

definition microarch_enable_ibrs :: "device \<Rightarrow> 'a microarch_scheme \<Rightarrow> 'a microarch_scheme" where
  "microarch_enable_ibrs D s =
     (if mi_ibrs_supported s = 0 \<or> msr_is_supported s = 0 then s
      else (let (spec_ctrl, s) = msr_read D MSR_SPEC_CTRL s;
                spec_ctrl = spec_ctrl OR SPEC_CTRL_IBRS;
                s = msr_write MSR_SPEC_CTRL spec_ctrl s
            in s\<lparr>mi_spec_ctrl_value := spec_ctrl, mi_ibrs_enabled := 1,
                 mi_speculation_mitigations := mi_speculation_mitigations s + 1\<rparr>))"

definition microarch_disable_ibrs :: "device \<Rightarrow> 'a microarch_scheme \<Rightarrow> 'a microarch_scheme" where
  "microarch_disable_ibrs D s =
     (if mi_ibrs_supported s = 0 \<or> msr_is_supported s = 0 then s
      else (let (spec_ctrl, s) = msr_read D MSR_SPEC_CTRL s;
                spec_ctrl = spec_ctrl AND NOT SPEC_CTRL_IBRS;
                s = msr_write MSR_SPEC_CTRL spec_ctrl s
            in s\<lparr>mi_spec_ctrl_value := spec_ctrl, mi_ibrs_enabled := 0\<rparr>))"

definition microarch_enable_stibp :: "device \<Rightarrow> 'a microarch_scheme \<Rightarrow> 'a microarch_scheme" where
  "microarch_enable_stibp D s =
     (if mi_stibp_supported s = 0 \<or> msr_is_supported s = 0 then s
      else (let (spec_ctrl, s) = msr_read D MSR_SPEC_CTRL s;
                spec_ctrl = spec_ctrl OR SPEC_CTRL_STIBP;
                s = msr_write MSR_SPEC_CTRL spec_ctrl s
            in s\<lparr>mi_spec_ctrl_value := spec_ctrl, mi_stibp_enabled := 1,
                 mi_speculation_mitigations := mi_speculation_mitigations s + 1\<rparr>))"

definition microarch_disable_stibp :: "device \<Rightarrow> 'a microarch_scheme \<Rightarrow> 'a microarch_scheme" where
  "microarch_disable_stibp D s =
     (if mi_stibp_supported s = 0 \<or> msr_is_supported s = 0 then s
      else (let (spec_ctrl, s) = msr_read D MSR_SPEC_CTRL s;
                spec_ctrl = spec_ctrl AND NOT SPEC_CTRL_STIBP;
                s = msr_write MSR_SPEC_CTRL spec_ctrl s
            in s\<lparr>mi_spec_ctrl_value := spec_ctrl, mi_stibp_enabled := 0\<rparr>))"

definition microarch_enable_ssbd :: "device \<Rightarrow> 'a microarch_scheme \<Rightarrow> 'a microarch_scheme" where
  "microarch_enable_ssbd D s =
     (if mi_ssbd_supported s = 0 \<or> msr_is_supported s = 0 then s
      else (let (spec_ctrl, s) = msr_read D MSR_SPEC_CTRL s;
                spec_ctrl = spec_ctrl OR SPEC_CTRL_SSBD;
                s = msr_write MSR_SPEC_CTRL spec_ctrl s
            in s\<lparr>mi_spec_ctrl_value := spec_ctrl, mi_ssbd_enabled := 1,
                 mi_speculation_mitigations := mi_speculation_mitigations s + 1\<rparr>))"

definition microarch_disable_ssbd :: "device \<Rightarrow> 'a microarch_scheme \<Rightarrow> 'a microarch_scheme" where
  "microarch_disable_ssbd D s =
     (if mi_ssbd_supported s = 0 \<or> msr_is_supported s = 0 then s
      else (let (spec_ctrl, s) = msr_read D MSR_SPEC_CTRL s;
                spec_ctrl = spec_ctrl AND NOT SPEC_CTRL_SSBD;
                s = msr_write MSR_SPEC_CTRL spec_ctrl s
            in s\<lparr>mi_spec_ctrl_value := spec_ctrl, mi_ssbd_enabled := 0\<rparr>))"

definition microarch_flush_indirect_branches :: "device \<Rightarrow> 'a microarch_scheme \<Rightarrow> 'a microarch_scheme" where
  "microarch_flush_indirect_branches D s =
     (if mi_ibpb_supported s = 0 \<or> msr_is_supported s = 0 then s
      else (let s = msr_write MSR_PRED_CMD PRED_CMD_IBPB s;
                s = s\<lparr>mi_branch_flushes := mi_branch_flushes s + 1\<rparr>;
                (v, s) = ask_ext D ''timer_get_ticks'' [] s
            in s\<lparr>mi_last_ibpb_time := v\<rparr>))"

definition microarch_is_ibrs_enabled :: "'a microarch_scheme \<Rightarrow> u8" where
  "microarch_is_ibrs_enabled s = mi_ibrs_enabled s"

definition microarch_is_stibp_enabled :: "'a microarch_scheme \<Rightarrow> u8" where
  "microarch_is_stibp_enabled s = mi_stibp_enabled s"

definition microarch_is_ssbd_enabled :: "'a microarch_scheme \<Rightarrow> u8" where
  "microarch_is_ssbd_enabled s = mi_ssbd_enabled s"

definition microarch_get_arch_capabilities :: "'a microarch_scheme \<Rightarrow> u64" where
  "microarch_get_arch_capabilities s = mi_arch_capabilities s"

definition microarch_get_spec_ctrl_value :: "'a microarch_scheme \<Rightarrow> u64" where
  "microarch_get_spec_ctrl_value s = mi_spec_ctrl_value s"

definition microarch_update_branch_stats :: "device \<Rightarrow> 'a microarch_scheme \<Rightarrow> 'a microarch_scheme" where
  "microarch_update_branch_stats D s =
     (if mi_branch_prediction_enabled s = 0 \<or> msr_is_supported s = 0 then s
      else (let (current_time, s) = ask_ext D ''timer_get_ticks'' [] s;
                (branches, s) = msr_read D MSR_PMC0_mi s;
                evtsel = (EVENT_BRANCH_MISSES OR push_bit 16 1 OR push_bit 17 1 OR push_bit 22 1 :: u64);
                s = msr_write MSR_PERFEVTSEL0_mi evtsel s;
                (misses, s) = msr_read D MSR_PMC0_mi s;
                s = s\<lparr>mi_branch_stats := (mi_branch_stats s)\<lparr>bs_total_branches := branches,
                                                            bs_branch_misses := misses\<rparr>\<rparr>;
                s = (if branches > 0 then s\<lparr>mi_branch_stats := (mi_branch_stats s)\<lparr>bs_misprediction_rate := ucast ((misses * 100) div branches)\<rparr>\<rparr>
                     else s);
                s = s\<lparr>mi_branch_stats := (mi_branch_stats s)\<lparr>bs_last_measurement := current_time\<rparr>\<rparr>
            in msr_write MSR_PMC0_mi 0 s))"

definition microarch_get_branch_stats :: "'a microarch_scheme \<Rightarrow> branch_stats option" where
  "microarch_get_branch_stats s = Some (mi_branch_stats s)"

definition microarch_get_speculation_mitigations :: "'a microarch_scheme \<Rightarrow> u32" where
  "microarch_get_speculation_mitigations s = mi_speculation_mitigations s"

definition microarch_get_branch_flushes :: "'a microarch_scheme \<Rightarrow> u32" where
  "microarch_get_branch_flushes s = mi_branch_flushes s"

definition microarch_get_last_ibpb_time :: "'a microarch_scheme \<Rightarrow> u64" where
  "microarch_get_last_ibpb_time s = mi_last_ibpb_time s"

definition microarch_read_lbr_stack :: "device \<Rightarrow> 'a microarch_scheme \<Rightarrow> 'a microarch_scheme" where
  "microarch_read_lbr_stack D s =
     (if mi_lbr_supported s = 0 \<or> msr_is_supported s = 0 then s
      else (let (v, s) = msr_read D MSR_LBR_TOS_mi s;
                tos = (ucast (v AND 0xF) :: u8)
            in fold (\<lambda>i s.
                       (let index = ((tos - of_nat i) AND 0xF :: u8);
                            (v2, s) = msr_read D (MSR_LASTBRANCH_0_FROM_IP_mi + ucast index) s
                        in s\<lparr>mi_lbr_entries := (mi_lbr_entries s)[i := v2]\<rparr>))
                  [0..<min (unat (mi_lbr_depth s)) 32] s))"

definition microarch_get_lbr_entries :: "'a microarch_scheme \<Rightarrow> u64 list" where
  "microarch_get_lbr_entries s = mi_lbr_entries s"

definition microarch_get_lbr_depth :: "'a microarch_scheme \<Rightarrow> u8" where
  "microarch_get_lbr_depth s = mi_lbr_depth s"

definition microarch_check_vulnerability :: "u32 \<Rightarrow> 'a microarch_scheme \<Rightarrow> u8" where
  "microarch_check_vulnerability vulnerability s =
     (let caps = mi_arch_capabilities s
      in (if vulnerability = 0 then c_bool (caps AND ARCH_CAP_RDCL_NO = 0)
          else if vulnerability = 1 then c_bool (caps AND ARCH_CAP_IBRS_ALL = 0)
          else if vulnerability = 2 then c_bool (caps AND ARCH_CAP_SSB_NO = 0)
          else if vulnerability = 3 then c_bool (caps AND ARCH_CAP_MDS_NO = 0)
          else if vulnerability = 4 then c_bool (caps AND ARCH_CAP_TAA_NO = 0)
          else 0))"

definition microarch_enable_all_mitigations :: "device \<Rightarrow> 'a microarch_scheme \<Rightarrow> 'a microarch_scheme" where
  "microarch_enable_all_mitigations D s =
     (let s = (if mi_ibrs_supported s \<noteq> 0 then microarch_enable_ibrs D s else s);
          s = (if mi_stibp_supported s \<noteq> 0 then microarch_enable_stibp D s else s)
      in (if mi_ssbd_supported s \<noteq> 0 then microarch_enable_ssbd D s else s))"

definition microarch_disable_all_mitigations :: "device \<Rightarrow> 'a microarch_scheme \<Rightarrow> 'a microarch_scheme" where
  "microarch_disable_all_mitigations D s =
     (let s = (if mi_ibrs_supported s \<noteq> 0 then microarch_disable_ibrs D s else s);
          s = (if mi_stibp_supported s \<noteq> 0 then microarch_disable_stibp D s else s)
      in (if mi_ssbd_supported s \<noteq> 0 then microarch_disable_ssbd D s else s))"

definition microarch_is_branch_prediction_enabled :: "'a microarch_scheme \<Rightarrow> u8" where
  "microarch_is_branch_prediction_enabled s = mi_branch_prediction_enabled s"

definition microarch_clear_statistics :: "'a microarch_scheme \<Rightarrow> 'a microarch_scheme" where
  "microarch_clear_statistics s =
     (let s = s\<lparr>mi_branch_stats := (mi_branch_stats s)\<lparr>bs_total_branches := 0, bs_branch_misses := 0,
                                                            bs_indirect_branches := 0, bs_indirect_misses := 0,
                                                            bs_misprediction_rate := 0\<rparr>\<rparr>
      in s\<lparr>mi_speculation_mitigations := 0, mi_branch_flushes := 0\<rparr>)"


section \<open>Speculation control\<close>

definition with_mitigations :: "'a microarch_scheme \<Rightarrow> u64" where
  "with_mitigations s = (if mi_ibrs_supported s \<noteq> 0 then SPEC_CTRL_IBRS else 0) OR
     (if mi_stibp_supported s \<noteq> 0 then SPEC_CTRL_STIBP else 0) OR (if mi_ssbd_supported s \<noteq> 0 then SPEC_CTRL_SSBD else 0)"

lemma with_mitigations_supported:
  assumes "mi_ibrs_supported t = mi_ibrs_supported s" "mi_stibp_supported t = mi_stibp_supported s"
    "mi_ssbd_supported t = mi_ssbd_supported s"
  shows "with_mitigations t = with_mitigations s"
  using assms by (simp add: with_mitigations_def)

text \<open>Together the three functions set the bits of the mitigations the processor has, and no other bit; a second run of all
  of them clears the same bits.\<close>

lemma enable_all_sets:
  assumes "msr_supported s \<noteq> 0" "is_reg D (Msr MSR_SPEC_CTRL)"
  defines "t \<equiv> microarch_enable_all_mitigations D s"
  shows "D (trace t) (Msr MSR_SPEC_CTRL) = D (trace s) (Msr MSR_SPEC_CTRL) OR with_mitigations s \<and>
    msr_supported t = msr_supported s \<and> with_mitigations t = with_mitigations s"
  using assms(1,2) unfolding t_def microarch_enable_all_mitigations_def
  by (simp add: microarch_enable_ibrs_def microarch_enable_stibp_def microarch_enable_ssbd_def with_mitigations_def
      msr_is_supported_def msr_on Let_def is_reg_append or.assoc)

lemma disable_all_clears:
  assumes "msr_supported s \<noteq> 0" "is_reg D (Msr MSR_SPEC_CTRL)"
  defines "t \<equiv> microarch_disable_all_mitigations D s"
  shows "D (trace t) (Msr MSR_SPEC_CTRL) = D (trace s) (Msr MSR_SPEC_CTRL) AND NOT (with_mitigations s)"
  using assms(1,2) unfolding t_def microarch_disable_all_mitigations_def
  by (simp add: microarch_disable_ibrs_def microarch_disable_stibp_def microarch_disable_ssbd_def with_mitigations_def
      msr_is_supported_def msr_on Let_def is_reg_append and.assoc)

lemma enable_disable_all:
  assumes "msr_supported s \<noteq> 0" "is_reg D (Msr MSR_SPEC_CTRL)"
  shows "D (trace (microarch_disable_all_mitigations D (microarch_enable_all_mitigations D s))) (Msr MSR_SPEC_CTRL) =
    D (trace s) (Msr MSR_SPEC_CTRL) AND NOT (with_mitigations s)"
proof -
  have "(x OR m) AND NOT m = x AND NOT m" for x m :: u64 by (rule bit_word_eqI) (auto simp: bit_simps)
  then show ?thesis
    using enable_all_sets [OF assms] disable_all_clears [OF _ assms(2), of "microarch_enable_all_mitigations D s"] assms(1)
    by simp
qed

section \<open>Branch statistics\<close>

text \<open>The counter of branches goes on while the event is changed to mispredictions, so what is read as mispredictions
  includes all branches so far: the rate the code reports is never below 100.\<close>

lemma rate_of_counts:
  fixes b m :: u64
  assumes "0 < b" "b \<le> m" "m < 2 ^ 25"
  shows "(100 :: u32) \<le> ucast (m * 100 div b)"
proof -
  have n: "unat m < 2 ^ 25" "unat b \<le> unat m" "0 < unat b" using assms by (simp_all add: word_less_nat_alt word_le_nat_alt)
  then have d: "unat (m * 100 div b) = unat m * 100 div unat b" by (simp add: unat_div unat_word_ariths)
  have "100 * unat b \<le> unat m * 100" using n by simp
  then have l: "100 \<le> unat m * 100 div unat b" using n by (simp add: less_eq_div_iff_mult_less_eq)
  have "unat m * 100 div unat b \<le> unat m * 100" by simp
  also have "\<dots> < 2 ^ 32" using n(1) by simp
  finally have "unat m * 100 div unat b < 2 ^ 32" .
  then have "unat (ucast (m * 100 div b) :: u32) = unat m * 100 div unat b" using d by (simp add: unsigned_ucast_eq take_bit_nat_eq_self)
  then show ?thesis using l by (simp add: word_le_nat_alt)
qed

lemma update_branch_rate:
  fixes s :: "'a microarch_scheme" and D :: device
  assumes "msr_supported s \<noteq> 0" "mi_branch_prediction_enabled s \<noteq> 0"
  defines "b \<equiv> mi_branch_stats (microarch_update_branch_stats D s)"
  assumes "0 < bs_total_branches b" "bs_total_branches b \<le> bs_branch_misses b" "bs_branch_misses b < 2 ^ 25"
  shows "100 \<le> bs_misprediction_rate b"
proof -
  have k: "mi_branch_stats (msr_write r v u) = mi_branch_stats u" for r and v :: u64 and u :: "'a microarch_scheme"
    by (simp add: msr_write_def bus)
  have "bs_misprediction_rate b = ucast (bs_branch_misses b * 100 div bs_total_branches b)"
    using assms(1,2,4) unfolding b_def microarch_update_branch_stats_def
    by (simp add: msr_is_supported_def Let_def case_prod_beta k split: if_splits)
  then show ?thesis using rate_of_counts [OF assms(4-6)] by simp
qed

end
