(* ===== verification/Cpu_Features.thy ===== *)
theory Cpu_Features
  imports Msr_Regs
begin

text \<open>
  \<open>src/drivers/cpu_features.c\<close>: the features the processor lets software switch, as far as they are bits of
  \<open>IA32_FEATURE_CONTROL\<close> and \<open>IA32_MISC_ENABLE\<close>. The fields of \<open>cpu_features_info_t\<close> carry the prefix \<open>cf_\<close>; constants
  another driver has under the same name end in \<open>_cf\<close>.
\<close>

definition MSR_IA32_FEATURE_CONTROL :: "'a::len word" where "MSR_IA32_FEATURE_CONTROL = 0x3A"
definition MSR_IA32_MISC_ENABLE_cf :: "'a::len word" where "MSR_IA32_MISC_ENABLE_cf = 0x1A0"
definition MSR_IA32_ARCH_CAPABILITIES :: "'a::len word" where "MSR_IA32_ARCH_CAPABILITIES = 0x10A"
definition MSR_IA32_CORE_CAPABILITIES :: "'a::len word" where "MSR_IA32_CORE_CAPABILITIES = 0xCF"
definition MSR_INTEL_PLATFORM_INFO :: "'a::len word" where "MSR_INTEL_PLATFORM_INFO = 0xCE"
definition MSR_INTEL_TURBO_RATIO_LIMIT :: "'a::len word" where "MSR_INTEL_TURBO_RATIO_LIMIT = 0x1AD"
definition MSR_INTEL_ENERGY_PERF_BIAS :: "'a::len word" where "MSR_INTEL_ENERGY_PERF_BIAS = 0x1B0"
definition FEATURE_CONTROL_LOCKED :: "'a::len word" where "FEATURE_CONTROL_LOCKED = 0x01"
definition FEATURE_CONTROL_VMX_IN_SMX :: "'a::len word" where "FEATURE_CONTROL_VMX_IN_SMX = 0x02"
definition FEATURE_CONTROL_VMX_OUT_SMX :: "'a::len word" where "FEATURE_CONTROL_VMX_OUT_SMX = 0x04"
definition MISC_ENABLE_FAST_STRING :: "'a::len word" where "MISC_ENABLE_FAST_STRING = 0x01"
definition MISC_ENABLE_TCC :: "'a::len word" where "MISC_ENABLE_TCC = 0x08"
definition MISC_ENABLE_ENHANCED_SPEEDSTEP_cf :: "'a::len word" where "MISC_ENABLE_ENHANCED_SPEEDSTEP_cf = 0x10000"
definition MISC_ENABLE_LIMIT_CPUID :: "'a::len word" where "MISC_ENABLE_LIMIT_CPUID = 0x400000"
definition MISC_ENABLE_XD_DISABLE :: "'a::len word" where "MISC_ENABLE_XD_DISABLE = 0x4000000000"

record cpu_features = msr +
  cf_feature_control_supported :: u8
  cf_misc_enable_supported :: u8
  cf_arch_capabilities_supported :: u8
  cf_core_capabilities_supported :: u8
  cf_intel_features :: u8
  cf_amd_features :: u8
  cf_feature_control_value :: u64
  cf_misc_enable_value :: u64
  cf_arch_capabilities_value :: u64
  cf_core_capabilities_value :: u64
  cf_vmx_locked :: u8
  cf_smx_supported :: u8
  cf_speedstep_enabled :: u8
  cf_turbo_enabled :: u8
  cf_xd_enabled :: u8
  cf_fast_strings_enabled :: u8
  cf_thermal_control_enabled :: u8
  cf_energy_perf_bias_supported :: u8
  cf_max_non_turbo_ratio :: u32
  cf_max_turbo_ratio :: u32

definition cpu_features_detect_vendor :: "device \<Rightarrow> 'a cpu_features_scheme \<Rightarrow> u8 \<times> 'a cpu_features_scheme" where
  "cpu_features_detect_vendor D s =
     (let ((eax, ebx, ecx, edx), s) = cpuid D 0 s
      in (if ebx = 0x756E6547 \<and> edx = 0x49656E69 \<and> ecx = 0x6C65746E then
             (let s = s\<lparr>cf_intel_features := 1\<rparr>
              in (1, s))
          else if ebx = 0x68747541 \<and> edx = 0x69746E65 \<and> ecx = 0x444D4163 then
             (let s = s\<lparr>cf_amd_features := 1\<rparr>
              in (1, s))
          else (0, s)))"

definition cpu_features_detect_capabilities :: "device \<Rightarrow> 'a cpu_features_scheme \<Rightarrow> 'a cpu_features_scheme" where
  "cpu_features_detect_capabilities D s =
     (if msr_is_supported s = 0 then s
      else (let ((eax, ebx, ecx, edx), s) = cpuid D 1 s;
                s = (if ecx AND push_bit 5 1 \<noteq> 0 then s\<lparr>cf_feature_control_supported := 1\<rparr>
                     else s);
                s = (if ecx AND push_bit 6 1 \<noteq> 0 then s\<lparr>cf_smx_supported := 1\<rparr> else s);
                ((eax, ebx, ecx, edx), s) = cpuid_sub D 7 0 s;
                s = s\<lparr>cf_arch_capabilities_supported := c_bool (edx AND push_bit 29 1 \<noteq> 0),
                      cf_core_capabilities_supported := c_bool (edx AND push_bit 30 1 \<noteq> 0)\<rparr>;
                ((eax, ebx, ecx, edx), s) = cpuid D 6 s
            in s\<lparr>cf_energy_perf_bias_supported := c_bool (ecx AND push_bit 3 1 \<noteq> 0)\<rparr>))"

definition cpu_features_read_msr_values :: "device \<Rightarrow> 'a cpu_features_scheme \<Rightarrow> 'a cpu_features_scheme" where
  "cpu_features_read_msr_values D s =
     (if msr_is_supported s = 0 then s
      else (let s = (if cf_feature_control_supported s \<noteq> 0 then
                        (let (v, s) = msr_read D MSR_IA32_FEATURE_CONTROL s;
                             s = s\<lparr>cf_feature_control_value := v\<rparr>
                         in s\<lparr>cf_vmx_locked := c_bool (cf_feature_control_value s AND
                                                              FEATURE_CONTROL_LOCKED \<noteq> 0)\<rparr>)
                     else s);
                s = s\<lparr>cf_misc_enable_supported := 1\<rparr>;
                (v2, s) = msr_read D MSR_IA32_MISC_ENABLE_cf s;
                s = s\<lparr>cf_misc_enable_value := v2\<rparr>;
                s = s\<lparr>cf_fast_strings_enabled := c_bool (cf_misc_enable_value s AND
                                                                MISC_ENABLE_FAST_STRING \<noteq> 0),
                                                                  cf_thermal_control_enabled := c_bool (cf_misc_enable_value s AND MISC_ENABLE_TCC \<noteq> 0), cf_speedstep_enabled := c_bool (cf_misc_enable_value s AND MISC_ENABLE_ENHANCED_SPEEDSTEP_cf \<noteq> 0), cf_xd_enabled := c_bool (cf_misc_enable_value s AND MISC_ENABLE_XD_DISABLE = 0)\<rparr>;
                s = (if cf_arch_capabilities_supported s \<noteq> 0 then
                        (let (v3, s) = msr_read D MSR_IA32_ARCH_CAPABILITIES s
                         in s\<lparr>cf_arch_capabilities_value := v3\<rparr>)
                     else s);
                s = (if cf_core_capabilities_supported s \<noteq> 0 then
                        (let (v4, s) = msr_read D MSR_IA32_CORE_CAPABILITIES s
                         in s\<lparr>cf_core_capabilities_value := v4\<rparr>)
                     else s)
            in (if cf_intel_features s \<noteq> 0 then
                   (let (platform_info, s) = msr_read D MSR_INTEL_PLATFORM_INFO s;
                        s = s\<lparr>cf_max_non_turbo_ratio := ucast (drop_bit 8 platform_info AND 0xFF)\<rparr>;
                        (turbo_limit, s) = msr_read D MSR_INTEL_TURBO_RATIO_LIMIT s
                    in s\<lparr>cf_max_turbo_ratio := ucast (turbo_limit AND 0xFF),
                         cf_turbo_enabled := c_bool (cf_misc_enable_value s AND push_bit 38 1 = 0)\<rparr>)
                else s)))"

definition cpu_features_init :: "device \<Rightarrow> 'a cpu_features_scheme \<Rightarrow> 'a cpu_features_scheme" where
  "cpu_features_init D s =
     (let s = s\<lparr>cf_feature_control_supported := 0, cf_misc_enable_supported := 0,
                cf_arch_capabilities_supported := 0, cf_core_capabilities_supported := 0, cf_intel_features := 0,
                cf_amd_features := 0, cf_vmx_locked := 0, cf_smx_supported := 0, cf_energy_perf_bias_supported := 0\<rparr>;
          (v, s) = cpu_features_detect_vendor D s
      in (if v = 0 then s
          else (let s = cpu_features_detect_capabilities D s
                in cpu_features_read_msr_values D s)))"

definition cpu_features_is_intel :: "'a cpu_features_scheme \<Rightarrow> u8" where
  "cpu_features_is_intel s = cf_intel_features s"

definition cpu_features_is_amd :: "'a cpu_features_scheme \<Rightarrow> u8" where
  "cpu_features_is_amd s = cf_amd_features s"

definition cpu_features_is_vmx_supported :: "'a cpu_features_scheme \<Rightarrow> u8" where
  "cpu_features_is_vmx_supported s = cf_feature_control_supported s"

definition cpu_features_is_vmx_locked :: "'a cpu_features_scheme \<Rightarrow> u8" where
  "cpu_features_is_vmx_locked s = cf_vmx_locked s"

definition cpu_features_is_smx_supported :: "'a cpu_features_scheme \<Rightarrow> u8" where
  "cpu_features_is_smx_supported s = cf_smx_supported s"

definition cpu_features_enable_vmx :: "'a cpu_features_scheme \<Rightarrow> u8 \<times> 'a cpu_features_scheme" where
  "cpu_features_enable_vmx s =
     (if cf_feature_control_supported s = 0 \<or> msr_is_supported s = 0 then (0, s)
      else if cf_vmx_locked s \<noteq> 0 then (0, s)
      else (let feature_control = cf_feature_control_value s;
                feature_control = feature_control OR FEATURE_CONTROL_VMX_OUT_SMX;
                feature_control = (if cf_smx_supported s \<noteq> 0 then feature_control OR FEATURE_CONTROL_VMX_IN_SMX
                                   else feature_control);
                feature_control = feature_control OR FEATURE_CONTROL_LOCKED;
                s = msr_write MSR_IA32_FEATURE_CONTROL feature_control s;
                s = s\<lparr>cf_feature_control_value := feature_control, cf_vmx_locked := 1\<rparr>
            in (1, s)))"

definition cpu_features_is_speedstep_enabled :: "'a cpu_features_scheme \<Rightarrow> u8" where
  "cpu_features_is_speedstep_enabled s = cf_speedstep_enabled s"

definition cpu_features_enable_speedstep :: "'a cpu_features_scheme \<Rightarrow> u8 \<times> 'a cpu_features_scheme" where
  "cpu_features_enable_speedstep s =
     (if cf_misc_enable_supported s = 0 \<or> msr_is_supported s = 0 then (0, s)
      else (let misc_enable = cf_misc_enable_value s;
                misc_enable = misc_enable OR MISC_ENABLE_ENHANCED_SPEEDSTEP_cf;
                s = msr_write MSR_IA32_MISC_ENABLE_cf misc_enable s;
                s = s\<lparr>cf_misc_enable_value := misc_enable, cf_speedstep_enabled := 1\<rparr>
            in (1, s)))"

definition cpu_features_disable_speedstep :: "'a cpu_features_scheme \<Rightarrow> u8 \<times> 'a cpu_features_scheme" where
  "cpu_features_disable_speedstep s =
     (if cf_misc_enable_supported s = 0 \<or> msr_is_supported s = 0 then (0, s)
      else (let misc_enable = cf_misc_enable_value s;
                misc_enable = misc_enable AND NOT MISC_ENABLE_ENHANCED_SPEEDSTEP_cf;
                s = msr_write MSR_IA32_MISC_ENABLE_cf misc_enable s;
                s = s\<lparr>cf_misc_enable_value := misc_enable, cf_speedstep_enabled := 0\<rparr>
            in (1, s)))"

definition cpu_features_is_turbo_enabled :: "'a cpu_features_scheme \<Rightarrow> u8" where
  "cpu_features_is_turbo_enabled s = cf_turbo_enabled s"

definition cpu_features_enable_turbo :: "'a cpu_features_scheme \<Rightarrow> u8 \<times> 'a cpu_features_scheme" where
  "cpu_features_enable_turbo s =
     (if cf_intel_features s = 0 \<or> msr_is_supported s = 0 then (0, s)
      else (let misc_enable = cf_misc_enable_value s;
                misc_enable = misc_enable AND NOT (push_bit 38 1);
                s = msr_write MSR_IA32_MISC_ENABLE_cf misc_enable s;
                s = s\<lparr>cf_misc_enable_value := misc_enable, cf_turbo_enabled := 1\<rparr>
            in (1, s)))"

definition cpu_features_disable_turbo :: "'a cpu_features_scheme \<Rightarrow> u8 \<times> 'a cpu_features_scheme" where
  "cpu_features_disable_turbo s =
     (if cf_intel_features s = 0 \<or> msr_is_supported s = 0 then (0, s)
      else (let misc_enable = cf_misc_enable_value s;
                misc_enable = misc_enable OR push_bit 38 1;
                s = msr_write MSR_IA32_MISC_ENABLE_cf misc_enable s;
                s = s\<lparr>cf_misc_enable_value := misc_enable, cf_turbo_enabled := 0\<rparr>
            in (1, s)))"

definition cpu_features_is_xd_enabled :: "'a cpu_features_scheme \<Rightarrow> u8" where
  "cpu_features_is_xd_enabled s = cf_xd_enabled s"

definition cpu_features_enable_xd :: "'a cpu_features_scheme \<Rightarrow> u8 \<times> 'a cpu_features_scheme" where
  "cpu_features_enable_xd s =
     (if cf_misc_enable_supported s = 0 \<or> msr_is_supported s = 0 then (0, s)
      else (let misc_enable = cf_misc_enable_value s;
                misc_enable = misc_enable AND NOT MISC_ENABLE_XD_DISABLE;
                s = msr_write MSR_IA32_MISC_ENABLE_cf misc_enable s;
                s = s\<lparr>cf_misc_enable_value := misc_enable, cf_xd_enabled := 1\<rparr>
            in (1, s)))"

definition cpu_features_disable_xd :: "'a cpu_features_scheme \<Rightarrow> u8 \<times> 'a cpu_features_scheme" where
  "cpu_features_disable_xd s =
     (if cf_misc_enable_supported s = 0 \<or> msr_is_supported s = 0 then (0, s)
      else (let misc_enable = cf_misc_enable_value s;
                misc_enable = misc_enable OR MISC_ENABLE_XD_DISABLE;
                s = msr_write MSR_IA32_MISC_ENABLE_cf misc_enable s;
                s = s\<lparr>cf_misc_enable_value := misc_enable, cf_xd_enabled := 0\<rparr>
            in (1, s)))"

definition cpu_features_is_fast_strings_enabled :: "'a cpu_features_scheme \<Rightarrow> u8" where
  "cpu_features_is_fast_strings_enabled s = cf_fast_strings_enabled s"

definition cpu_features_is_thermal_control_enabled :: "'a cpu_features_scheme \<Rightarrow> u8" where
  "cpu_features_is_thermal_control_enabled s = cf_thermal_control_enabled s"

definition cpu_features_get_max_non_turbo_ratio :: "'a cpu_features_scheme \<Rightarrow> u32" where
  "cpu_features_get_max_non_turbo_ratio s = cf_max_non_turbo_ratio s"

definition cpu_features_get_max_turbo_ratio :: "'a cpu_features_scheme \<Rightarrow> u32" where
  "cpu_features_get_max_turbo_ratio s = cf_max_turbo_ratio s"

definition cpu_features_get_arch_capabilities :: "'a cpu_features_scheme \<Rightarrow> u64" where
  "cpu_features_get_arch_capabilities s = cf_arch_capabilities_value s"

definition cpu_features_get_core_capabilities :: "'a cpu_features_scheme \<Rightarrow> u64" where
  "cpu_features_get_core_capabilities s = cf_core_capabilities_value s"

definition cpu_features_is_energy_perf_bias_supported :: "'a cpu_features_scheme \<Rightarrow> u8" where
  "cpu_features_is_energy_perf_bias_supported s = cf_energy_perf_bias_supported s"

definition cpu_features_set_energy_perf_bias :: "u8 \<Rightarrow> 'a cpu_features_scheme \<Rightarrow> u8 \<times> 'a cpu_features_scheme" where
  "cpu_features_set_energy_perf_bias bias s =
     (if cf_energy_perf_bias_supported s = 0 \<or> msr_is_supported s = 0 then (0, s)
      else if bias > 15 then (0, s)
      else (let s = msr_write MSR_INTEL_ENERGY_PERF_BIAS (ucast bias) s
            in (1, s)))"

definition cpu_features_get_energy_perf_bias :: "device \<Rightarrow> 'a cpu_features_scheme \<Rightarrow> u8 \<times> 'a cpu_features_scheme" where
  "cpu_features_get_energy_perf_bias D s =
     (if cf_energy_perf_bias_supported s = 0 \<or> msr_is_supported s = 0 then (0, s)
      else (let (v, s) = msr_read D MSR_INTEL_ENERGY_PERF_BIAS s
            in (ucast (v AND 0xF), s)))"

definition cpu_features_get_misc_enable :: "'a cpu_features_scheme \<Rightarrow> u64" where
  "cpu_features_get_misc_enable s = cf_misc_enable_value s"

definition cpu_features_get_feature_control :: "'a cpu_features_scheme \<Rightarrow> u64" where
  "cpu_features_get_feature_control s = cf_feature_control_value s"

definition cpu_features_limit_cpuid_maxval :: "u8 \<Rightarrow> 'a cpu_features_scheme \<Rightarrow> u8 \<times> 'a cpu_features_scheme" where
  "cpu_features_limit_cpuid_maxval enable s =
     (if cf_misc_enable_supported s = 0 \<or> msr_is_supported s = 0 then (0, s)
      else (let misc_enable = cf_misc_enable_value s;
                misc_enable = (if enable \<noteq> 0 then misc_enable OR MISC_ENABLE_LIMIT_CPUID
                               else misc_enable AND NOT MISC_ENABLE_LIMIT_CPUID);
                s = msr_write MSR_IA32_MISC_ENABLE_cf misc_enable s;
                s = s\<lparr>cf_misc_enable_value := misc_enable\<rparr>
            in (1, s)))"

section \<open>The copy of the register\<close>

definition speedstep_bit :: "u64 \<Rightarrow> u8" where
  "speedstep_bit v = c_bool (bit v 16)"

lemma misc_bits:
  "(MISC_ENABLE_ENHANCED_SPEEDSTEP_cf :: u64) = push_bit 16 1" "(MISC_ENABLE_LIMIT_CPUID :: u64) = push_bit 22 1"
  "(MISC_ENABLE_XD_DISABLE :: u64) = push_bit 38 1"
  by (simp_all add: MISC_ENABLE_ENHANCED_SPEEDSTEP_cf_def MISC_ENABLE_LIMIT_CPUID_def MISC_ENABLE_XD_DISABLE_def)

lemma and_speedstep: "(v AND MISC_ENABLE_ENHANCED_SPEEDSTEP_cf \<noteq> 0) = bit (v :: u64) 16"
  unfolding misc_bits push_bit_of_1 and_exp_eq_0_iff_not_bit by simp

lemma speedstep_bits:
  "speedstep_bit (v OR MISC_ENABLE_ENHANCED_SPEEDSTEP_cf) = 1"
  "speedstep_bit (v AND NOT MISC_ENABLE_ENHANCED_SPEEDSTEP_cf) = 0"
  "speedstep_bit (v OR MISC_ENABLE_LIMIT_CPUID) = speedstep_bit v"
  "speedstep_bit (v AND NOT MISC_ENABLE_LIMIT_CPUID) = speedstep_bit v"
  "speedstep_bit (v OR MISC_ENABLE_XD_DISABLE) = speedstep_bit v"
  "speedstep_bit (v AND NOT MISC_ENABLE_XD_DISABLE) = speedstep_bit v"
  unfolding misc_bits speedstep_bit_def by (simp_all add: bit_simps del: push_bit_numeral push_bit_of_1)

text \<open>The driver never reads \<open>IA32_MISC_ENABLE\<close> again after it was initialised: it changes its copy and writes that.\<close>

definition misc_synced :: "device \<Rightarrow> 'a cpu_features_scheme \<Rightarrow> bool" where
  "misc_synced D s \<longleftrightarrow> msr_supported s \<noteq> 0 \<and> cf_misc_enable_supported s \<noteq> 0 \<and>
     D (trace s) (Msr MSR_IA32_MISC_ENABLE_cf) = cf_misc_enable_value s \<and>
     cf_speedstep_enabled s = speedstep_bit (cf_misc_enable_value s)"

inductive features_step :: "device \<Rightarrow> 'a cpu_features_scheme \<Rightarrow> 'a cpu_features_scheme \<Rightarrow> bool" for D :: device where
  speedstep_on: "features_step D s (snd (cpu_features_enable_speedstep s))"
| speedstep_off: "features_step D s (snd (cpu_features_disable_speedstep s))"
| turbo_on: "features_step D s (snd (cpu_features_enable_turbo s))"
| turbo_off: "features_step D s (snd (cpu_features_disable_turbo s))"
| xd_on: "features_step D s (snd (cpu_features_enable_xd s))"
| xd_off: "features_step D s (snd (cpu_features_disable_xd s))"
| limit: "features_step D s (snd (cpu_features_limit_cpuid_maxval b s))"
| vmx_on: "features_step D s (snd (cpu_features_enable_vmx s))"
| bias_set: "features_step D s (snd (cpu_features_set_energy_perf_bias b s))"
| bias_get: "features_step D s (snd (cpu_features_get_energy_perf_bias D s))"

lemma misc_step_synced:
  assumes "is_reg D (Msr MSR_IA32_MISC_ENABLE_cf)" "misc_synced D s" "features_step D s t"
  shows "misc_synced D t"
proof -
  have ports: "Msr MSR_IA32_FEATURE_CONTROL \<noteq> Msr MSR_IA32_MISC_ENABLE_cf" "Msr MSR_INTEL_ENERGY_PERF_BIAS \<noteq> Msr MSR_IA32_MISC_ENABLE_cf"
    by (simp_all add: MSR_IA32_FEATURE_CONTROL_def MSR_IA32_MISC_ENABLE_cf_def MSR_INTEL_ENERGY_PERF_BIAS_def)
  note d = cpu_features_enable_speedstep_def cpu_features_disable_speedstep_def cpu_features_enable_turbo_def
    cpu_features_disable_turbo_def cpu_features_enable_xd_def cpu_features_disable_xd_def
    cpu_features_limit_cpuid_maxval_def cpu_features_enable_vmx_def cpu_features_set_energy_perf_bias_def
    cpu_features_get_energy_perf_bias_def
  have x: "push_bit 38 1 = (MISC_ENABLE_XD_DISABLE :: u64)" by (simp add: misc_bits)
  show ?thesis
    using assms(3,1,2) ports
    by induction (simp_all add: d misc_synced_def msr_is_supported_def msr_on Let_def is_reg_append speedstep_bits x
        del: push_bit_numeral push_bit_of_1)
qed

lemma read_values_synced:
  assumes "is_reg D (Msr MSR_IA32_MISC_ENABLE_cf)" "msr_supported s \<noteq> 0"
  shows "misc_synced D (cpu_features_read_msr_values D s)"
  using assms unfolding cpu_features_read_msr_values_def
  by (cases "cf_feature_control_supported s = 0"; cases "cf_arch_capabilities_supported s = 0";
      cases "cf_core_capabilities_supported s = 0"; cases "cf_intel_features s = 0")
    (simp_all add: Let_def misc_synced_def msr_is_supported_def and_speedstep speedstep_bit_def msr_on is_reg_append)

definition features_start :: "device \<Rightarrow> 'a cpu_features_scheme \<Rightarrow> bool" where
  "features_start D t \<longleftrightarrow> is_reg D (Msr MSR_IA32_MISC_ENABLE_cf) \<and> (\<exists>s. msr_supported s \<noteq> 0 \<and> t = cpu_features_init D s \<and> cf_misc_enable_supported t \<noteq> 0)"

lemma init_synced:
  assumes "features_start D t"
  shows "misc_synced D t"
proof -
  have r: "is_reg D (Msr MSR_IA32_MISC_ENABLE_cf)" using assms by (simp add: features_start_def)
  have k: "msr_supported (cpu_features_detect_capabilities D u) = msr_supported u"
    "msr_supported (snd (cpu_features_detect_vendor D u)) = msr_supported u"
    "cf_misc_enable_supported (snd (cpu_features_detect_vendor D u)) = cf_misc_enable_supported u" for u :: "'a cpu_features_scheme"
    by (simp_all add: cpu_features_detect_capabilities_def cpu_features_detect_vendor_def cpuid_def cpuid_sub_def bus case_prod_beta)
  obtain s where s: "msr_supported s \<noteq> 0" "t = cpu_features_init D s" "cf_misc_enable_supported t \<noteq> 0"
    using assms by (auto simp: features_start_def)
  show ?thesis
    using s by (simp add: cpu_features_init_def Let_def case_prod_beta k read_values_synced [OF r] split: if_splits)
qed

interpretation features: invariant_system "features_start D" "features_step D"
    "\<lambda>s. is_reg D (Msr MSR_IA32_MISC_ENABLE_cf) \<and> misc_synced D s" for D :: device
  proof unfold_locales
  show "is_reg D (Msr MSR_IA32_MISC_ENABLE_cf) \<and> misc_synced D s" if "features_start D s" for s :: "'a cpu_features_scheme"
    using that init_synced [OF that] by (simp add: features_start_def)
  show "is_reg D (Msr MSR_IA32_MISC_ENABLE_cf) \<and> misc_synced D t"
    if "is_reg D (Msr MSR_IA32_MISC_ENABLE_cf) \<and> misc_synced D s" "features_step D s t" for s t :: "'a cpu_features_scheme"
    using that misc_step_synced by blast
qed

text \<open>So after any sequence of calls the copy is what the register holds, and the note on SpeedStep is its bit 16.\<close>

lemma features_synced:
  assumes "features_start D s" "(features_step D)\<^sup>*\<^sup>* s t"
  shows "D (trace t) (Msr MSR_IA32_MISC_ENABLE_cf) = cf_misc_enable_value t \<and>
    cf_speedstep_enabled t = c_bool (bit (cf_misc_enable_value t) 16)"
  using features.reachable_inv [OF assms] by (simp add: misc_synced_def speedstep_bit_def)

text \<open>The bit \<open>MISC_ENABLE_XD_DISABLE\<close> is that of the turbo mode: disabling execute-disable writes what disabling turbo
  writes, and only the notes of the driver differ.\<close>

lemma xd_is_turbo:
  assumes "cf_misc_enable_supported s \<noteq> 0" "cf_intel_features s \<noteq> 0"
  shows "trace (snd (cpu_features_disable_xd s)) = trace (snd (cpu_features_disable_turbo s))"
    and "cf_turbo_enabled (snd (cpu_features_disable_xd s)) = cf_turbo_enabled s"
    and "cf_xd_enabled (snd (cpu_features_disable_turbo s)) = cf_xd_enabled s"
  using assms by (simp_all add: cpu_features_disable_xd_def cpu_features_disable_turbo_def misc_bits msr_write_def bus)

text \<open>Once the feature control is locked no later call writes it.\<close>

lemma vmx_locks:
  assumes "cpu_features_enable_vmx s = (1, t)"
  shows "cpu_features_enable_vmx t = (0, t)"
  using assms by (auto simp: cpu_features_enable_vmx_def msr_is_supported_def msr_on Let_def split: if_splits)

end
