(* ===== verification/Memory_Protection.thy ===== *)
theory Memory_Protection
  imports Msr_Regs
begin

text \<open>
  \<open>src/drivers/memory_protection.c\<close>: supervisor-mode protection, protection keys, shadow stacks and the table of
  violations. The fields of \<open>memory_protection_info_t\<close> carry the prefix \<open>mp_\<close>, those of a violation \<open>pv_\<close>; constants
  another driver has under the same name end in \<open>_mp\<close>. A pointer is a word of 32 bits, extended with its
  sign where it is converted to 64. \<open>timer_get_ticks\<close>, which no file defines, is answered by the environment.
\<close>

definition CR4_SMEP_mp :: "'a::len word" where "CR4_SMEP_mp = push_bit 20 1"
definition CR4_SMAP_mp :: "'a::len word" where "CR4_SMAP_mp = push_bit 21 1"
definition CR4_PKE_mp :: "'a::len word" where "CR4_PKE_mp = push_bit 22 1"
definition CR4_CET_mp :: "'a::len word" where "CR4_CET_mp = push_bit 23 1"
definition EFLAGS_AC :: "'a::len word" where "EFLAGS_AC = push_bit 18 1"
definition PKEY_DISABLE_ACCESS :: "'a::len word" where "PKEY_DISABLE_ACCESS = 0x1"
definition PKEY_DISABLE_WRITE :: "'a::len word" where "PKEY_DISABLE_WRITE = 0x2"
definition MSR_S_CET_mp :: "'a::len word" where "MSR_S_CET_mp = 0x6A2"
definition MSR_PL0_SSP_mp :: "'a::len word" where "MSR_PL0_SSP_mp = 0x6A4"
definition CET_SH_STK_EN_mp :: "'a::len word" where "CET_SH_STK_EN_mp = push_bit 0 1"
definition CET_WR_SHSTK_EN_mp :: "'a::len word" where "CET_WR_SHSTK_EN_mp = push_bit 1 1"
definition CET_ENDBR_EN_mp :: "'a::len word" where "CET_ENDBR_EN_mp = push_bit 2 1"
definition VIOLATION_PKU :: "'a::len word" where "VIOLATION_PKU = 3"

record protection_violation_mp =
  pv_violation_type :: u32
  pv_fault_address :: u64
  pv_error_code :: u32
  pv_instruction_pointer :: u64
  pv_protection_key :: u32
  pv_timestamp :: u64

record memory_protection = msr +
  mp_memory_protection_supported :: u8
  mp_smep_supported :: u8
  mp_smap_supported :: u8
  mp_pku_supported :: u8
  mp_cet_supported :: u8
  mp_smep_enabled :: u8
  mp_smap_enabled :: u8
  mp_pku_enabled :: u8
  mp_cet_enabled :: u8
  mp_shadow_stack_enabled :: u8
  mp_indirect_branch_tracking_enabled :: u8
  mp_pkru_value :: u32
  mp_shadow_stack_pointer :: u64
  mp_violation_count :: u32
  mp_violations :: "protection_violation_mp list"    \<comment> \<open>32\<close>
  mp_protection_keys_allocated :: "u8 list"    \<comment> \<open>16\<close>

definition memory_protection_detect_capabilities :: "device \<Rightarrow> 'a memory_protection_scheme \<Rightarrow> 'a memory_protection_scheme" where
  "memory_protection_detect_capabilities D s =
     (let ((eax, ebx, ecx, edx), s) = cpuid_sub D 7 0 s;
          s = s\<lparr>mp_smep_supported := c_bool (ebx AND push_bit 7 1 \<noteq> 0),
                mp_smap_supported := c_bool (ebx AND push_bit 20 1 \<noteq> 0),
                mp_pku_supported := c_bool (ecx AND push_bit 3 1 \<noteq> 0),
                mp_cet_supported := c_bool (ecx AND push_bit 7 1 \<noteq> 0)\<rparr>
      in (if mp_smep_supported s \<noteq> 0 \<or> mp_smap_supported s \<noteq> 0 \<or>
          mp_pku_supported s \<noteq> 0 \<or> mp_cet_supported s \<noteq> 0
            then s\<lparr>mp_memory_protection_supported := 1\<rparr>
          else s))"

definition memory_protection_enable_smep :: "device \<Rightarrow> 'a memory_protection_scheme \<Rightarrow> 'a memory_protection_scheme" where
  "memory_protection_enable_smep D s =
     (if mp_smep_supported s = 0 then s
      else (let (cr4 :: u32, s) = rd D (Creg 4) s;
                cr4 = cr4 OR CR4_SMEP_mp;
                s = wr (Creg 4) cr4 s
            in s\<lparr>mp_smep_enabled := 1\<rparr>))"

definition memory_protection_enable_smap :: "device \<Rightarrow> 'a memory_protection_scheme \<Rightarrow> 'a memory_protection_scheme" where
  "memory_protection_enable_smap D s =
     (if mp_smap_supported s = 0 then s
      else (let (cr4 :: u32, s) = rd D (Creg 4) s;
                cr4 = cr4 OR CR4_SMAP_mp;
                s = wr (Creg 4) cr4 s
            in s\<lparr>mp_smap_enabled := 1\<rparr>))"

definition memory_protection_enable_pku :: "device \<Rightarrow> 'a memory_protection_scheme \<Rightarrow> 'a memory_protection_scheme" where
  "memory_protection_enable_pku D s =
     (if mp_pku_supported s = 0 then s
      else (let (cr4 :: u32, s) = rd D (Creg 4) s;
                cr4 = cr4 OR CR4_PKE_mp;
                s = wr (Creg 4) cr4 s;
                s = insn (Asm ''xor eax, eax; xor ecx, ecx; xor edx, edx; wrpkru'' []) s
            in s\<lparr>mp_pkru_value := 0, mp_pku_enabled := 1\<rparr>))"

definition memory_protection_enable_cet :: "device \<Rightarrow> 'a memory_protection_scheme \<Rightarrow> 'a memory_protection_scheme" where
  "memory_protection_enable_cet D s =
     (if mp_cet_supported s = 0 \<or> msr_is_supported s = 0 then s
      else (let (cr4 :: u32, s) = rd D (Creg 4) s;
                cr4 = cr4 OR CR4_CET_mp;
                s = wr (Creg 4) cr4 s;
                s_cet = (CET_SH_STK_EN_mp OR CET_WR_SHSTK_EN_mp :: u64);
                s = msr_write MSR_S_CET_mp s_cet s;
                s_cet = s_cet OR CET_ENDBR_EN_mp;
                s = msr_write MSR_S_CET_mp s_cet s
            in s\<lparr>mp_cet_enabled := 1, mp_shadow_stack_enabled := 1, mp_indirect_branch_tracking_enabled := 1\<rparr>))"

definition memory_protection_init :: "device \<Rightarrow> 'a memory_protection_scheme \<Rightarrow> 'a memory_protection_scheme" where
  "memory_protection_init D s =
     (let s = s\<lparr>mp_memory_protection_supported := 0, mp_smep_supported := 0, mp_smap_supported := 0,
                mp_pku_supported := 0, mp_cet_supported := 0, mp_smep_enabled := 0, mp_smap_enabled := 0,
                mp_pku_enabled := 0, mp_cet_enabled := 0, mp_shadow_stack_enabled := 0,
                mp_indirect_branch_tracking_enabled := 0, mp_pkru_value := 0, mp_shadow_stack_pointer := 0,
                mp_violation_count := 0\<rparr>;
          s = fold (\<lambda>i s. s\<lparr>mp_protection_keys_allocated := (mp_protection_keys_allocated s)[i := 0]\<rparr>)
            [0..<16] s;
          s = memory_protection_detect_capabilities D s
      in (if mp_memory_protection_supported s \<noteq> 0 then
             (let s = memory_protection_enable_smep D s;
                  s = memory_protection_enable_smap D s;
                  s = memory_protection_enable_pku D s
              in memory_protection_enable_cet D s)
          else s))"

definition memory_protection_is_supported :: "'a memory_protection_scheme \<Rightarrow> u8" where
  "memory_protection_is_supported s = mp_memory_protection_supported s"

definition memory_protection_is_smep_supported :: "'a memory_protection_scheme \<Rightarrow> u8" where
  "memory_protection_is_smep_supported s = mp_smep_supported s"

definition memory_protection_is_smap_supported :: "'a memory_protection_scheme \<Rightarrow> u8" where
  "memory_protection_is_smap_supported s = mp_smap_supported s"

definition memory_protection_is_pku_supported :: "'a memory_protection_scheme \<Rightarrow> u8" where
  "memory_protection_is_pku_supported s = mp_pku_supported s"

definition memory_protection_is_cet_supported :: "'a memory_protection_scheme \<Rightarrow> u8" where
  "memory_protection_is_cet_supported s = mp_cet_supported s"

definition memory_protection_is_smep_enabled :: "'a memory_protection_scheme \<Rightarrow> u8" where
  "memory_protection_is_smep_enabled s = mp_smep_enabled s"

definition memory_protection_is_smap_enabled :: "'a memory_protection_scheme \<Rightarrow> u8" where
  "memory_protection_is_smap_enabled s = mp_smap_enabled s"

definition memory_protection_is_pku_enabled :: "'a memory_protection_scheme \<Rightarrow> u8" where
  "memory_protection_is_pku_enabled s = mp_pku_enabled s"

definition memory_protection_is_cet_enabled :: "'a memory_protection_scheme \<Rightarrow> u8" where
  "memory_protection_is_cet_enabled s = mp_cet_enabled s"

definition memory_protection_stac :: "'a memory_protection_scheme \<Rightarrow> 'a memory_protection_scheme" where
  "memory_protection_stac s =
     (if mp_smap_enabled s = 0 then s
      else insn (Asm ''stac'' []) s)"

definition memory_protection_clac :: "'a memory_protection_scheme \<Rightarrow> 'a memory_protection_scheme" where
  "memory_protection_clac s =
     (if mp_smap_enabled s = 0 then s
      else insn (Asm ''clac'' []) s)"

definition memory_protection_allocate_protection_key :: "'a memory_protection_scheme \<Rightarrow> u8 \<times> 'a memory_protection_scheme" where
  "memory_protection_allocate_protection_key s =
     (if mp_pku_enabled s = 0 then (0xFF, s)
      else (case find (\<lambda>i. mp_protection_keys_allocated s ! i = 0) [1..<16] of
              Some i \<Rightarrow> (of_nat i, s\<lparr>mp_protection_keys_allocated := (mp_protection_keys_allocated s)[i := 1]\<rparr>)
            | None \<Rightarrow> (0xFF, s)))"

definition memory_protection_set_pkru :: "u32 \<Rightarrow> 'a memory_protection_scheme \<Rightarrow> 'a memory_protection_scheme" where
  "memory_protection_set_pkru pkru s =
     (if mp_pku_enabled s = 0 then s
      else (let s = insn (Asm ''wrpkru'' [ucast pkru, 0, 0]) s
            in s\<lparr>mp_pkru_value := pkru\<rparr>))"

definition memory_protection_free_protection_key :: "u8 \<Rightarrow> 'a memory_protection_scheme \<Rightarrow> 'a memory_protection_scheme" where
  "memory_protection_free_protection_key key s =
     (if mp_pku_enabled s = 0 \<or> key = 0 \<or> key \<ge> 16 then s
      else (let s = s\<lparr>mp_protection_keys_allocated := (mp_protection_keys_allocated s)[unat key := 0]\<rparr>;
                pkru = mp_pkru_value s;
                pkru = pkru AND NOT (push_bit (unat (ucast key * 2 :: u32)) (3 :: u32))
            in memory_protection_set_pkru pkru s))"

definition memory_protection_set_protection_key_rights :: "u8 \<Rightarrow> u8 \<Rightarrow> u8 \<Rightarrow> 'a memory_protection_scheme \<Rightarrow> 'a memory_protection_scheme" where
  "memory_protection_set_protection_key_rights key access_disable write_disable s =
     (if mp_pku_enabled s = 0 \<or> key \<ge> 16 then s
      else (let pkru = mp_pkru_value s;
                key_bits = (ucast key * 2 :: u32);
                pkru = pkru AND NOT (push_bit (unat key_bits) (3 :: u32));
                pkru = (if access_disable \<noteq> 0 then pkru OR push_bit (unat key_bits) (PKEY_DISABLE_ACCESS :: u32)
                        else pkru);
                pkru = (if write_disable \<noteq> 0 then pkru OR push_bit (unat key_bits) (PKEY_DISABLE_WRITE :: u32)
                        else pkru)
            in memory_protection_set_pkru pkru s))"

definition memory_protection_get_pkru :: "device \<Rightarrow> 'a memory_protection_scheme \<Rightarrow> u32 \<times> 'a memory_protection_scheme" where
  "memory_protection_get_pkru D s =
     (if mp_pku_enabled s = 0 then (0, s)
      else (let (pkru :: u32, s) = rd D (Isa ''rdpkru'' [0] 0) s
            in (pkru, s)))"

definition memory_protection_setup_shadow_stack :: "u64 \<Rightarrow> u32 \<Rightarrow> 'a memory_protection_scheme \<Rightarrow> 'a memory_protection_scheme" where
  "memory_protection_setup_shadow_stack stack_base stack_size s =
     (if mp_cet_enabled s = 0 \<or> msr_is_supported s = 0 then s
      else (let s = msr_write MSR_PL0_SSP_mp (stack_base + ucast stack_size) s
            in s\<lparr>mp_shadow_stack_pointer := stack_base + ucast stack_size\<rparr>))"

definition memory_protection_get_shadow_stack_pointer :: "device \<Rightarrow> 'a memory_protection_scheme \<Rightarrow> u64 \<times> 'a memory_protection_scheme" where
  "memory_protection_get_shadow_stack_pointer D s =
     (if mp_cet_enabled s = 0 \<or> msr_is_supported s = 0 then (0, s)
      else msr_read D MSR_PL0_SSP_mp s)"

definition memory_protection_handle_violation :: "device \<Rightarrow> u32 \<Rightarrow> u64 \<Rightarrow> u32 \<Rightarrow> u64 \<Rightarrow> 'a memory_protection_scheme \<Rightarrow> 'a memory_protection_scheme" where
  "memory_protection_handle_violation D violation_type fault_address error_code instruction_pointer s =
     (if mp_violation_count s \<ge> 32 then s
      else (let k = unat (mp_violation_count s);
                s = s\<lparr>mp_violations := (mp_violations s)[k := ((mp_violations s) ! k)\<lparr>pv_violation_type := violation_type, pv_fault_address := fault_address, pv_error_code := error_code, pv_instruction_pointer := instruction_pointer, pv_protection_key := 0\<rparr>]\<rparr>;
                s = (if violation_type = VIOLATION_PKU then
                        (let (v, s) = memory_protection_get_pkru D s
                         in s\<lparr>mp_violations := (mp_violations s)[k := ((mp_violations s) ! k)\<lparr>pv_protection_key := v\<rparr>]\<rparr>)
                     else s);
                (v2, s) = ask_ext D ''timer_get_ticks'' [] s;
                s = s\<lparr>mp_violations := (mp_violations s)[k := ((mp_violations s) ! k)\<lparr>pv_timestamp := v2\<rparr>]\<rparr>
            in s\<lparr>mp_violation_count := mp_violation_count s + 1\<rparr>))"

definition memory_protection_get_violation_count :: "'a memory_protection_scheme \<Rightarrow> u32" where
  "memory_protection_get_violation_count s = mp_violation_count s"

definition memory_protection_get_violation :: "u32 \<Rightarrow> 'a memory_protection_scheme \<Rightarrow> protection_violation_mp option" where
  "memory_protection_get_violation index s =
     (if index \<ge> mp_violation_count s then None
      else Some (mp_violations s ! (unat index)))"

definition memory_protection_clear_violations :: "'a memory_protection_scheme \<Rightarrow> 'a memory_protection_scheme" where
  "memory_protection_clear_violations s = s\<lparr>mp_violation_count := 0\<rparr>"

definition memory_protection_validate_user_pointer :: "u32 \<Rightarrow> u32 \<Rightarrow> 'a memory_protection_scheme \<Rightarrow> u8" where
  "memory_protection_validate_user_pointer ptr size' s =
     (if mp_smep_enabled s = 0 \<and> mp_smap_enabled s = 0 then 1
      else (let addr = (scast ptr :: u64)
            in (if addr \<ge> 0x80000000 then 0
                else 1)))"

definition memory_protection_enable_supervisor_access :: "'a memory_protection_scheme \<Rightarrow> 'a memory_protection_scheme" where
  "memory_protection_enable_supervisor_access s =
     (if mp_smap_enabled s = 0 then s
      else memory_protection_stac s)"

definition memory_protection_disable_supervisor_access :: "'a memory_protection_scheme \<Rightarrow> 'a memory_protection_scheme" where
  "memory_protection_disable_supervisor_access s =
     (if mp_smap_enabled s = 0 then s
      else memory_protection_clac s)"

definition memory_protection_is_supervisor_access_enabled :: "device \<Rightarrow> 'a memory_protection_scheme \<Rightarrow> u8 \<times> 'a memory_protection_scheme" where
  "memory_protection_is_supervisor_access_enabled D s =
     (if mp_smap_enabled s = 0 then (1, s)
      else (let (eflags :: u32, s) = rd D (Isa ''pushf; pop %0'' [] 0) s
            in (c_bool (eflags AND EFLAGS_AC \<noteq> 0), s)))"

definition memory_protection_disable_smep :: "device \<Rightarrow> 'a memory_protection_scheme \<Rightarrow> 'a memory_protection_scheme" where
  "memory_protection_disable_smep D s =
     (if mp_smep_enabled s = 0 then s
      else (let (cr4 :: u32, s) = rd D (Creg 4) s;
                cr4 = cr4 AND NOT CR4_SMEP_mp;
                s = wr (Creg 4) cr4 s
            in s\<lparr>mp_smep_enabled := 0\<rparr>))"

definition memory_protection_disable_smap :: "device \<Rightarrow> 'a memory_protection_scheme \<Rightarrow> 'a memory_protection_scheme" where
  "memory_protection_disable_smap D s =
     (if mp_smap_enabled s = 0 then s
      else (let (cr4 :: u32, s) = rd D (Creg 4) s;
                cr4 = cr4 AND NOT CR4_SMAP_mp;
                s = wr (Creg 4) cr4 s
            in s\<lparr>mp_smap_enabled := 0\<rparr>))"

definition memory_protection_is_shadow_stack_enabled :: "'a memory_protection_scheme \<Rightarrow> u8" where
  "memory_protection_is_shadow_stack_enabled s = mp_shadow_stack_enabled s"

definition memory_protection_is_indirect_branch_tracking_enabled :: "'a memory_protection_scheme \<Rightarrow> u8" where
  "memory_protection_is_indirect_branch_tracking_enabled s = mp_indirect_branch_tracking_enabled s"

definition memory_protection_endbr64 :: "'a memory_protection_scheme \<Rightarrow> 'a memory_protection_scheme" where
  "memory_protection_endbr64 s =
     (if mp_indirect_branch_tracking_enabled s = 0 then s
      else insn (Asm ''endbr64'' []) s)"

definition memory_protection_endbr32 :: "'a memory_protection_scheme \<Rightarrow> 'a memory_protection_scheme" where
  "memory_protection_endbr32 s =
     (if mp_indirect_branch_tracking_enabled s = 0 then s
      else insn (Asm ''endbr32'' []) s)"

section \<open>Protection keys\<close>

definition key_allocated :: "u8 \<Rightarrow> 'a memory_protection_scheme \<Rightarrow> bool" where
  "key_allocated k s \<longleftrightarrow> mp_protection_keys_allocated s ! unat k \<noteq> 0"

text \<open>A key that is allocated was free, is neither 0 nor beyond the table, and is the smallest such; no other key
  changes. With none left the answer is \<open>0xFF\<close>.\<close>

lemma allocate_key:
  assumes "mp_pku_enabled s \<noteq> 0" "length (mp_protection_keys_allocated s) = 16"
    "memory_protection_allocate_protection_key s = (k, t)"
  shows "(if \<exists>j\<in>{1..<16}. mp_protection_keys_allocated s ! j = 0
     then 0 < k \<and> k < 16 \<and> \<not> key_allocated k s \<and> key_allocated k t \<and> (\<forall>j\<in>{1..<unat k}. mp_protection_keys_allocated s ! j \<noteq> 0) \<and>
       (\<forall>j. j \<noteq> unat k \<longrightarrow> mp_protection_keys_allocated t ! j = mp_protection_keys_allocated s ! j)
     else k = 0xFF \<and> t = s)"
proof (cases "find (\<lambda>i. mp_protection_keys_allocated s ! i = 0) [1..<16]")
  case None
  then have "\<not> (\<exists>j\<in>{1..<16}. mp_protection_keys_allocated s ! j = 0)" by (auto simp: find_None_iff)
  moreover have "k = 0xFF" "t = s"
    using None assms(1,3) by (simp_all add: memory_protection_allocate_protection_key_def del: One_nat_def)
  ultimately show ?thesis by simp
next
  case (Some i)
  then obtain n where n: "n < 15" "i = 1 + n" "mp_protection_keys_allocated s ! i = 0"
      "\<forall>j<n. mp_protection_keys_allocated s ! (1 + j) \<noteq> 0"
    by (auto simp: find_Some_iff)
  have e: "k = of_nat i" "t = s\<lparr>mp_protection_keys_allocated := (mp_protection_keys_allocated s)[i := 1]\<rparr>"
    using Some assms(1,3) by (simp_all add: memory_protection_allocate_protection_key_def del: One_nat_def)
  have "i < 16" using n(1,2) by simp
  then have u: "unat k = i" using e(1) by (simp add: unat_of_nat)
  then have k: "0 < k" "k < 16" using n(1,2) by (simp_all add: word_less_nat_alt)
  have l: "mp_protection_keys_allocated s ! j \<noteq> 0" if "j \<in> {1..<i}" for j
  proof -
    have "j - 1 < n" "1 + (j - 1) = j" using that n(2) by auto
    then show ?thesis using n(4) by metis
  qed
  have "\<exists>j\<in>{1..<16}. mp_protection_keys_allocated s ! j = 0" using n by (intro bexI [of _ i]) auto
  then show ?thesis using k u l n assms(2) by (simp add: e(2) key_allocated_def)
qed

text \<open>The rights of a key are two bits of \<open>PKRU\<close>; setting them changes no other key, and freeing the key gives all
  rights back.\<close>

lemma key_masks:
  "(3 :: u32) = mask 2" "(PKEY_DISABLE_ACCESS :: u32) = 1" "(PKEY_DISABLE_WRITE :: u32) = push_bit 1 1"
  by (simp_all add: PKEY_DISABLE_ACCESS_def PKEY_DISABLE_WRITE_def mask_eq_exp_minus_1)

lemma key_shift:
  assumes "key < (16 :: u8)"
  shows "unat (ucast key * 2 :: u32) = 2 * unat key" "unat key < 16"
  using assms by (simp_all add: unat_word_ariths unat_ucast_up word_less_nat_alt)

lemma set_key_rights:
  fixes s :: "'a memory_protection_scheme" and a w :: u8
  assumes "mp_pku_enabled s \<noteq> 0" "key < 16" "n < 32"
  shows "bit (mp_pkru_value (memory_protection_set_protection_key_rights key a w s)) n =
    (if n = 2 * unat key then a \<noteq> 0 else if n = 2 * unat key + 1 then w \<noteq> 0 else bit (mp_pkru_value s) n)"
proof -
  have h: "(16 \<le> key) = False" using assms(2) by auto
  show ?thesis
    using assms(1,3) key_shift [OF assms(2)]
    unfolding memory_protection_set_protection_key_rights_def memory_protection_set_pkru_def key_masks
    by (auto simp: h Let_def insn_def bit_simps simp del: push_bit_numeral mask_numeral push_bit_of_1)
qed

lemma free_key_rights:
  fixes s :: "'a memory_protection_scheme"
  assumes "mp_pku_enabled s \<noteq> 0" "key < 16" "key \<noteq> 0" "n < 32"
  shows "bit (mp_pkru_value (memory_protection_free_protection_key key s)) n =
    (n \<noteq> 2 * unat key \<and> n \<noteq> 2 * unat key + 1 \<and> bit (mp_pkru_value s) n)"
proof -
  have h: "(16 \<le> key) = False" using assms(2) by auto
  show ?thesis
    using assms(1,3,4) key_shift [OF assms(2)]
    unfolding memory_protection_free_protection_key_def memory_protection_set_pkru_def key_masks
    by (auto simp: h Let_def insn_def bit_simps simp del: push_bit_numeral mask_numeral push_bit_of_1)
qed

section \<open>Pointers\<close>

text \<open>The check of a user pointer looks at the first byte only: a range that reaches into the upper half passes.\<close>

lemma validate_ignores_size:
  "memory_protection_validate_user_pointer p n s = memory_protection_validate_user_pointer p m s"
  "memory_protection_validate_user_pointer 0x7FFFFFFF 0x1000 s = 1"
  by (simp_all add: memory_protection_validate_user_pointer_def Let_def)

end
